(* ===== verification/Prelude.thy ===== *)
theory Prelude
  imports Complex_Main "HOL-Library.AList" "HOL-Library.List_Lexorder" "HOL-Library.Char_ord"
    "HOL-Library.Product_Lexorder" "HOL-Library.Multiset"
begin

text \<open>
  Shared vocabulary of the development: Python's exceptions as values, its
  insertion-ordered dictionaries as association lists, the string operations the engine
  uses to build identifiers and reason codes, and the generic lemmas on lists the component
  theories share.

  Strings are \<open>char list\<close>s; they are compared code point by code point, as Python does
  (\<open>List_Lexorder\<close> with \<open>Char_ord\<close>). Tuples used as sort keys are compared
  lexicographically (\<open>Product_Lexorder\<close>).
\<close>

named_theorems dict_simps \<open>rewriting lookups in Python dictionaries\<close>
named_theorems dec_intros \<open>sign and bound rules of the decimal arithmetic\<close>
named_theorems model_frame \<open>fields an operation leaves unchanged\<close>


section \<open>Exceptions as values\<close>

text \<open>The exceptions the modelled code can raise; \<open>Inl\<close> is a raised exception.\<close>

datatype py_error =
    DivisionByZero
  | InvalidOperation
  | IndexError
  | KeyError
  | ValueError string
  | ValidationError string

type_synonym 'a result = "py_error + 'a"

definition bind_result :: "'a result \<Rightarrow> ('a \<Rightarrow> 'b result) \<Rightarrow> 'b result" where
  "bind_result m f = (case m of Inl e \<Rightarrow> Inl e | Inr x \<Rightarrow> f x)"

lemma bind_result_simps [simp]:
  "bind_result (Inl e) f = Inl e"
  "bind_result (Inr x) f = f x"
  by (simp_all add: bind_result_def)

lemma bind_result_eq_Inr:
  "bind_result m f = Inr y \<longleftrightarrow> (\<exists>x. m = Inr x \<and> f x = Inr y)"
  by (cases m) auto

lemma bind_result_eq_Inl:
  "bind_result m f = Inl e \<longleftrightarrow> m = Inl e \<or> (\<exists>x. m = Inr x \<and> f x = Inl e)"
  by (cases m) auto

text \<open>A \<open>for\<close> loop whose body can raise: the first exception ends it.\<close>

fun fold_result :: "('a \<Rightarrow> 's \<Rightarrow> 's result) \<Rightarrow> 'a list \<Rightarrow> 's \<Rightarrow> 's result" where
  "fold_result f [] s = Inr s"
| "fold_result f (x # xs) s = bind_result (f x s) (fold_result f xs)"

lemma fold_result_invariant:
  assumes "fold_result f xs s = Inr s'" and "P s"
    and "\<And>x s s'. x \<in> set xs \<Longrightarrow> P s \<Longrightarrow> f x s = Inr s' \<Longrightarrow> P s'"
  shows "P s'"
  using assms
proof (induction xs arbitrary: s)
  case Nil
  then show ?case by simp
next
  case (Cons x xs)
  then obtain t where "f x s = Inr t" and "fold_result f xs t = Inr s'"
    by (auto simp: bind_result_eq_Inr)
  with Cons show ?case by (metis list.set_intros)
qed

lemma fold_result_total:
  assumes "P s" and "\<And>x s. x \<in> set xs \<Longrightarrow> P s \<Longrightarrow> \<exists>s'. f x s = Inr s' \<and> P s'"
  shows "\<exists>s'. fold_result f xs s = Inr s' \<and> P s'"
  using assms
proof (induction xs arbitrary: s)
  case Nil
  then show ?case by simp
next
  case (Cons x xs)
  then obtain t where "f x s = Inr t" and "P t" by (metis list.set_intros(1))
  with Cons show ?case by (metis bind_result_simps(2) fold_result.simps(2) list.set_intros(2))
qed

text \<open>The same with the processed prefix as a parameter of the invariant.\<close>

lemma fold_result_prefix:
  assumes "fold_result f xs s = Inr s'" and "P [] s"
    and "\<And>ys x zs s s'. xs = ys @ x # zs \<Longrightarrow> P ys s \<Longrightarrow> f x s = Inr s' \<Longrightarrow> P (ys @ [x]) s'"
  shows "P xs s'"
proof -
  have "P (ps @ ys) s'" if "xs = ps @ ys" "P ps t" "fold_result f ys t = Inr s'" for ps ys t
    using that
  proof (induction ys arbitrary: ps t)
    case (Cons y ys)
    then obtain u where u: "f y t = Inr u" "fold_result f ys u = Inr s'"
      by (auto simp: bind_result_eq_Inr)
    with Cons.prems have "P (ps @ [y]) u" using assms(3) by blast
    with Cons.IH [of "ps @ [y]" u] Cons.prems(1) u(2) show ?case by simp
  qed simp
  from this [of "[]" xs s] assms(1,2) show ?thesis by simp
qed


section \<open>Insertion-ordered dictionaries\<close>

text \<open>
  A Python \<open>dict\<close> is an association list with distinct keys in insertion order:
  \<open>map_of\<close> is \<open>d.get(k)\<close> and \<open>AList.update\<close> is \<open>d[k] = v\<close>, which overwrites in
  place or appends. The interface below is what the engine relies on; the laws are
  discharged for association lists by the interpretation \<open>dict\<close>.
\<close>

type_synonym ('k, 'v) dict = "('k \<times> 'v) list"

abbreviation dict_get :: "('k, 'v) dict \<Rightarrow> 'k \<Rightarrow> 'v option" where
  "dict_get d k \<equiv> map_of d k"

abbreviation dict_set :: "'k \<Rightarrow> 'v \<Rightarrow> ('k, 'v) dict \<Rightarrow> ('k, 'v) dict" where
  "dict_set k v d \<equiv> AList.update k v d"

abbreviation dict_keys :: "('k, 'v) dict \<Rightarrow> 'k list" where
  "dict_keys d \<equiv> map fst d"

abbreviation dict_values :: "('k, 'v) dict \<Rightarrow> 'v list" where
  "dict_values d \<equiv> map snd d"

abbreviation dict_ok :: "('k, 'v) dict \<Rightarrow> bool" where
  "dict_ok d \<equiv> distinct (map fst d)"

definition dict_get_or :: "('k, 'v) dict \<Rightarrow> 'k \<Rightarrow> 'v \<Rightarrow> 'v" where
  "dict_get_or d k v = (case dict_get d k of None \<Rightarrow> v | Some w \<Rightarrow> w)"

text \<open>A dict comprehension \<open>{k: v for ...}\<close>: later entries overwrite earlier ones.\<close>

definition dict_of :: "('k \<times> 'v) list \<Rightarrow> ('k, 'v) dict" where
  "dict_of kvs = fold (\<lambda>(k, v) d. dict_set k v d) kvs []"

locale ordered_dict =
  fixes empty :: 'd
    and get :: "'d \<Rightarrow> 'k \<Rightarrow> 'v option"
    and put :: "'k \<Rightarrow> 'v \<Rightarrow> 'd \<Rightarrow> 'd"
    and keys :: "'d \<Rightarrow> 'k list"
  assumes get_empty: "get empty k = None"
    and get_put: "get (put k v d) k' = (if k' = k then Some v else get d k')"
    and keys_empty: "keys empty = []"
    and keys_put: "keys (put k v d) = (if k \<in> set (keys d) then keys d else keys d @ [k])"
    and get_None_iff: "get d k = None \<longleftrightarrow> k \<notin> set (keys d)"
begin

lemma distinct_keys_put: "distinct (keys d) \<Longrightarrow> distinct (keys (put k v d))"
  by (simp add: keys_put)

lemma get_fold_put:
  "get (fold (\<lambda>(k, v) d. put k v d) kvs d) k =
     (case map_of (rev kvs) k of None \<Rightarrow> get d k | Some v \<Rightarrow> Some v)"
  by (induction kvs arbitrary: d) (auto simp: get_put map_add_def split: option.splits)

lemma set_keys_fold_put:
  "set (keys (fold (\<lambda>(k, v) d. put k v d) kvs d)) = set (keys d) \<union> fst ` set kvs"
  by (induction kvs arbitrary: d) (auto simp: keys_put split: if_splits)

lemma distinct_keys_fold_put:
  "distinct (keys d) \<Longrightarrow> distinct (keys (fold (\<lambda>(k, v) d. put k v d) kvs d))"
  by (induction kvs arbitrary: d) (auto simp: distinct_keys_put)

text \<open>A fold of writes returns a value some write stored, or the old one.\<close>

lemma get_fold_put_mem:
  "get (fold (\<lambda>(k, v) d. put k v d) kvs empty) k = Some v \<Longrightarrow> (k, v) \<in> set kvs"
  using map_of_SomeD [of "rev kvs" k v]
  by (simp add: get_fold_put get_empty split: option.splits)

end

interpretation dict: ordered_dict "[]" map_of AList.update "map fst"
proof unfold_locales
  fix d :: "('k, 'v) dict" and k k' :: 'k and v :: 'v
  show "map_of (AList.update k v d) k' = (if k' = k then Some v else map_of d k')"
    by (simp add: update_conv')
  show "map fst (AList.update k v d)
      = (if k \<in> set (map fst d) then map fst d else map fst d @ [k])"
    by (rule update_keys)
  show "map_of d k = None \<longleftrightarrow> k \<notin> set (map fst d)"
    by (simp add: map_of_eq_None_iff)
qed simp_all

lemmas dict_get_set [dict_simps] = dict.get_put
lemmas dict_keys_set [dict_simps] = dict.keys_put

lemma dict_get_of [dict_simps]: "dict_get (dict_of kvs) k = map_of (rev kvs) k"
  by (simp add: dict_of_def dict.get_fold_put split: option.splits)

lemma dict_keys_of: "set (dict_keys (dict_of kvs)) = fst ` set kvs"
  using dict.set_keys_fold_put [of kvs "[]"] by (simp add: dict_of_def)

lemma dict_ok_of [simp]: "dict_ok (dict_of kvs)"
  by (simp add: dict_of_def dict.distinct_keys_fold_put)

lemma dict_ok_set [simp]: "dict_ok d \<Longrightarrow> dict_ok (dict_set k v d)"
  by (rule distinct_update)

lemma dict_of_mem: "dict_get (dict_of kvs) k = Some v \<Longrightarrow> (k, v) \<in> set kvs"
  by (simp add: dict_of_def dict.get_fold_put_mem)

text \<open>An update of a value that every entry satisfies keeps that property of the values.\<close>

lemma dict_set_mem: "kv \<in> set (dict_set k v d) \<Longrightarrow> kv = (k, v) \<or> kv \<in> set d"
  by (induction d) (auto split: if_splits)

text \<open>
  A loop that reassigns some of the keys of the dictionary it ranges over is a map: the
  entries keep their order, and no other entry changes.
\<close>

lemma dict_set_middle: "k \<notin> fst ` set xs \<Longrightarrow> dict_set k w (xs @ (k, v) # ys) = xs @ (k, w) # ys"
  by (induction xs) auto

lemma dict_rewrite_filter_aux:
  assumes "distinct (map fst xs @ map fst ys)"
  shows "fold (\<lambda>(k, v) e. dict_set k (f k v) e) (filter P ys) (xs @ ys)
      = xs @ map (\<lambda>(k, v). (k, if P (k, v) then f k v else v)) ys"
  using assms
proof (induction ys arbitrary: xs)
  case (Cons kv ys)
  obtain k v where kv: "kv = (k, v)" by fastforce
  have IH: "fold (\<lambda>(k, v) e. dict_set k (f k v) e) (filter P ys) ((xs @ [(k, u)]) @ ys)
      = (xs @ [(k, u)]) @ map (\<lambda>(k, v). (k, if P (k, v) then f k v else v)) ys" for u
    using Cons.prems kv by (intro Cons.IH) auto
  have "k \<notin> fst ` set xs" using Cons.prems kv by auto
  with IH [of v] IH [of "f k v"] show ?case by (simp add: kv dict_set_middle)
qed simp

lemma dict_rewrite_filter:
  assumes "dict_ok d"
  shows "fold (\<lambda>(k, v) e. dict_set k (f k v) e) (filter P d) d
      = map (\<lambda>(k, v). (k, if P (k, v) then f k v else v)) d"
  using dict_rewrite_filter_aux [of "[]" d f P] assms by simp

lemma map_of_map_snd: "map_of (map (\<lambda>(k, v). (k, f k v)) d) k = map_option (f k) (map_of d k)"
  by (induction d) auto

lemma dict_set_values:
  "(\<And>kv. kv \<in> set d \<Longrightarrow> P (snd kv)) \<Longrightarrow> P v \<Longrightarrow> kv \<in> set (dict_set k v d) \<Longrightarrow> P (snd kv)"
  using dict_set_mem by fastforce


section \<open>Strings\<close>

text \<open>\<open>str(n)\<close> of a non-negative integer.\<close>

definition digit_char :: "nat \<Rightarrow> char" where
  "digit_char n = char_of (48 + n)"

fun nat_str :: "nat \<Rightarrow> string" where
  "nat_str n = (if n < 10 then [digit_char n] else nat_str (n div 10) @ [digit_char (n mod 10)])"

declare nat_str.simps [simp del]

lemma digit_char_inj: "m < 10 \<Longrightarrow> n < 10 \<Longrightarrow> digit_char m = digit_char n \<longleftrightarrow> m = n"
  by (auto simp: digit_char_def char_of_eq_iff of_char_of take_bit_eq_mod
      dest!: arg_cong [where f = "of_char :: char \<Rightarrow> nat"])

lemma nat_str_nonempty [simp]: "nat_str n \<noteq> []"
  by (subst nat_str.simps) simp

lemma nat_str_length_small: "length (nat_str n) = 1 \<longleftrightarrow> n < 10"
  by (subst nat_str.simps) (simp add: Suc_lessI)

lemma nat_str_inj: "nat_str m = nat_str n \<longleftrightarrow> m = n"
proof (induction m arbitrary: n rule: nat_str.induct)
  case (1 m)
  show ?case
  proof (cases "m < 10 \<or> n < 10")
    case True
    then show ?thesis
      using nat_str_length_small [of m] nat_str_length_small [of n]
      by (auto simp: nat_str.simps [of m] nat_str.simps [of n] digit_char_inj
          dest!: arg_cong [where f = length] split: if_splits)
  next
    case False
    then have "nat_str m = nat_str n
        \<longleftrightarrow> nat_str (m div 10) = nat_str (n div 10) \<and> m mod 10 = n mod 10"
      by (simp add: nat_str.simps [of m] nat_str.simps [of n] digit_char_inj)
    also have "\<dots> \<longleftrightarrow> m div 10 = n div 10 \<and> m mod 10 = n mod 10"
      using False "1.IH" by simp
    also have "\<dots> \<longleftrightarrow> m = n" by (metis div_mult_mod_eq)
    finally show ?thesis .
  qed
qed

text \<open>\<open>s.split(c, 1)\<close> unpacked into two parts; \<open>None\<close> when \<open>c\<close> does not occur.\<close>

fun split_once :: "char \<Rightarrow> string \<Rightarrow> (string \<times> string) option" where
  "split_once c [] = None"
| "split_once c (x # xs) =
     (if x = c then Some ([], xs)
      else map_option (\<lambda>(a, b). (x # a, b)) (split_once c xs))"

lemma split_once_Some: "split_once c s = Some (a, b) \<longleftrightarrow> s = a @ c # b \<and> c \<notin> set a"
proof (induction s arbitrary: a)
  case (Cons x s)
  then show ?case by (cases a) auto
qed simp

lemma split_once_None: "split_once c s = None \<longleftrightarrow> c \<notin> set s"
  by (induction s) auto

text \<open>\<open>s.strip()\<close>, with the white space among the first 256 code points.\<close>

definition is_space :: "char \<Rightarrow> bool" where
  "is_space c \<longleftrightarrow> of_char c \<in> set [9, 10, 11, 12, 13, 28, 29, 30, 31, 32, 133, 160 :: nat]"

definition strip :: "string \<Rightarrow> string" where
  "strip s = rev (dropWhile is_space (rev (dropWhile is_space s)))"

lemma dropWhile_rev_dropWhile:
  "dropWhile P (rev (dropWhile P (rev (dropWhile P s)))) = rev (dropWhile P (rev (dropWhile P s)))"
proof -
  let ?t = "dropWhile P s"
  obtain u where u: "rev ?t = u @ dropWhile P (rev ?t)" and all: "\<forall>x \<in> set u. P x"
    by (metis set_takeWhileD takeWhile_dropWhile_id)
  then have t: "?t = rev (dropWhile P (rev ?t)) @ rev u"
    by (metis rev_append rev_rev_ident)
  show ?thesis
  proof (cases "rev (dropWhile P (rev ?t))")
    case (Cons y ys)
    then have "hd ?t = y" and "?t \<noteq> []" using t by auto
    then have "\<not> P y" by (metis hd_dropWhile)
    with Cons show ?thesis by simp
  next
    case Nil
    then show ?thesis by (simp only: Nil dropWhile.simps)
  qed
qed

lemma strip_idem [simp]: "strip (strip s) = strip s"
  by (simp add: strip_def dropWhile_rev_dropWhile)


section \<open>JSON values\<close>

text \<open>The values of an untyped \<open>dict[str, object]\<close>.\<close>

datatype json =
    JNull | JBool bool | JInt int | JStr string | JList "json list" | JObj "(string \<times> json) list"


section \<open>Lists\<close>

text \<open>\<open>next((x for x in xs if P(x)), None)\<close> is \<open>List.find P xs\<close>.\<close>

lemma find_SomeD: "List.find P xs = Some x \<Longrightarrow> x \<in> set xs \<and> P x"
  by (induction xs) (auto split: if_splits)

lemma find_None_iff_ball: "List.find P xs = None \<longleftrightarrow> (\<forall>x \<in> set xs. \<not> P x)"
  by (induction xs) auto

lemma sort_key_permutes: "mset (sort_key f xs) = mset xs"
  by simp

lemma sorted_sort_key_map: "sorted (map f (sort_key f xs))"
  by (rule sorted_sort_key)

end
