(* ===== verification/Decimal.thy ===== *)
theory Decimal
  imports Prelude
begin

text \<open>
  Python's \<open>decimal.Decimal\<close> under the default context, the number type of the whole
  engine: 28 significant digits, rounding half to even. A decimal is its numerical value
  (the exponent, which only matters for printing, is not kept); the exponent range of the
  context (\<open>Emin\<close>, \<open>Emax\<close>) is not modelled and NaN and the infinities do not occur,
  because the request models refuse them. Every arithmetic operation, unary minus and
  \<open>abs\<close> included, rounds its exact result once.

  The interface the engine's proofs use is the locale \<open>decimal_context\<close>: a rounding
  function that is monotone, odd, idempotent and close to its argument. The interpretation
  \<open>ctx28\<close> discharges it for the 28-digit rounding.
\<close>


section \<open>Rounding to 28 significant digits\<close>

definition round_half_even :: "rat \<Rightarrow> int" where
  "round_half_even r =
     (let f = \<lfloor>r\<rfloor>; t = r - of_int f
      in if t < 1 / 2 then f else if 1 / 2 < t then f + 1 else if even f then f else f + 1)"

text \<open>Number of decimal digits of a positive integer.\<close>

fun num_digits :: "nat \<Rightarrow> nat" where
  "num_digits n = (if n < 10 then 1 else Suc (num_digits (n div 10)))"

declare num_digits.simps [simp del]

text \<open>The exponent \<open>e\<close> of the leading digit: \<open>10 powi e \<le> \<bar>x\<bar> < 10 powi (e + 1)\<close>.\<close>

definition adjusted :: "rat \<Rightarrow> int" where
  "adjusted x =
     (let (n, d) = quotient_of \<bar>x\<bar>; k = int (num_digits (nat n)) - int (num_digits (nat d))
      in if 10 powi k \<le> \<bar>x\<bar> then k else k - 1)"

definition round28 :: "rat \<Rightarrow> rat" where
  "round28 x =
     (if x = 0 then 0
      else let u = 10 powi (adjusted x - 27) in of_int (round_half_even (x / u)) * u)"

lemma num_digits_bounds: "0 < n \<Longrightarrow> 10 ^ (num_digits n - 1) \<le> n \<and> n < 10 ^ num_digits n"
proof (induction n rule: num_digits.induct)
  case (1 n)
  show ?case
  proof (cases "n < 10")
    case True
    with 1 show ?thesis by (subst (1 2) num_digits.simps) simp
  next
    case False
    then have IH: "10 ^ (num_digits (n div 10) - 1) \<le> n div 10" "n div 10 < 10 ^ num_digits (n div 10)"
      using "1.IH" by auto
    have pos: "0 < num_digits (n div 10)" by (subst num_digits.simps) simp
    have "(10::nat) ^ num_digits (n div 10) = 10 * 10 ^ (num_digits (n div 10) - 1)"
      using pos by (cases "num_digits (n div 10)") auto
    with IH have "10 ^ num_digits (n div 10) \<le> n" and "n < 10 * 10 ^ num_digits (n div 10)"
      by (simp_all add: div_less_iff_less_mult mult.commute less_eq_div_iff_mult_less_eq)
    with False show ?thesis by (subst (1 2) num_digits.simps) simp
  qed
qed

lemma num_digits_pos [simp]: "0 < num_digits n"
  by (subst num_digits.simps) simp

lemma powi_le_iff [simp]: "(10::rat) powi a \<le> 10 powi b \<longleftrightarrow> a \<le> b"
  by (meson power_int_increasing power_int_strict_increasing less_imp_le linorder_not_le
      one_less_numeral_iff order_less_imp_le semiring_norm(76))

lemma powi_less_iff [simp]: "(10::rat) powi a < 10 powi b \<longleftrightarrow> a < b"
  by (simp flip: not_le)

text \<open>The decimal digits of a positive integer, over the rationals.\<close>

lemma int_digits_bounds:
  assumes "0 < n"
  shows "(10::rat) powi (int (num_digits (nat n)) - 1) \<le> of_int n"
    and "of_int n < (10::rat) powi int (num_digits (nat n))"
proof -
  let ?p = "num_digits (nat n)"
  have nat_b: "10 ^ (?p - 1) \<le> nat n" "nat n < 10 ^ ?p"
    using num_digits_bounds [of "nat n"] assms by auto
  have n: "(of_int n :: rat) = of_nat (nat n)" using assms by simp
  have "int (?p - 1) = int ?p - 1" using num_digits_pos [of "nat n"] by linarith
  then have "(10::rat) powi (int ?p - 1) = of_nat (10 ^ (?p - 1))"
    by (metis of_nat_numeral of_nat_power power_int_of_nat)
  with nat_b(1) show "(10::rat) powi (int ?p - 1) \<le> of_int n"
    unfolding n by (simp only: of_nat_le_iff)
  have "(10::rat) powi int ?p = of_nat (10 ^ ?p)" by simp
  with nat_b(2) show "of_int n < (10::rat) powi int ?p"
    unfolding n by (simp only: of_nat_less_iff)
qed

lemma adjusted_bounds:
  assumes "x \<noteq> 0"
  shows "10 powi adjusted x \<le> \<bar>x\<bar>" and "\<bar>x\<bar> < 10 powi (adjusted x + 1)"
proof -
  obtain n d where q: "quotient_of \<bar>x\<bar> = (n, d)" by fastforce
  then have d: "0 < d" and x: "\<bar>x\<bar> = of_int n / of_int d"
    by (auto simp: quotient_of_denom_pos quotient_of_div)
  have "0 < \<bar>x\<bar>" using assms by simp
  with d have n: "0 < n" unfolding x by (simp add: zero_less_divide_iff)
  let ?p = "num_digits (nat n)" and ?q = "num_digits (nat d)"
  let ?k = "int ?p - int ?q"
  note nb = int_digits_bounds [OF n] and db = int_digits_bounds [OF d]
  have up: "\<bar>x\<bar> < 10 powi (?k + 1)"
  proof -
    have "of_int n / of_int d < 10 powi int ?p / (10::rat) powi (int ?q - 1)"
      using nb db d n by (intro frac_less) auto
    also have "\<dots> = 10 powi (?k + 1)"
      using power_int_diff [of "10::rat" "int ?p" "int ?q - 1"] by (simp add: algebra_simps)
    finally show ?thesis by (simp add: x)
  qed
  have lo: "10 powi (?k - 1) \<le> \<bar>x\<bar>"
  proof -
    have "(10::rat) powi (?k - 1) = 10 powi (int ?p - 1) / 10 powi int ?q"
      using power_int_diff [of "10::rat" "int ?p - 1" "int ?q"] by (simp add: algebra_simps)
    also have "\<dots> \<le> of_int n / of_int d"
      using nb db d n by (intro frac_le) auto
    finally show ?thesis by (simp add: x)
  qed
  have adj: "adjusted x = (if 10 powi ?k \<le> \<bar>x\<bar> then ?k else ?k - 1)"
    by (simp add: adjusted_def q)
  show "10 powi adjusted x \<le> \<bar>x\<bar>" using lo by (simp add: adj)
  show "\<bar>x\<bar> < 10 powi (adjusted x + 1)" using up by (auto simp: adj not_le)
qed

lemma adjusted_le:
  assumes "x \<noteq> 0" and "\<bar>x\<bar> < 10 powi (e + 1)"
  shows "adjusted x \<le> e"
proof -
  have "(10::rat) powi adjusted x < 10 powi (e + 1)"
    using adjusted_bounds(1) [OF assms(1)] assms(2) by (rule le_less_trans)
  then show ?thesis by (simp only: powi_less_iff)
qed

lemma adjusted_mono:
  assumes "x \<noteq> 0" and "y \<noteq> 0" and "\<bar>x\<bar> \<le> \<bar>y\<bar>"
  shows "adjusted x \<le> adjusted y"
  using adjusted_bounds(2) [OF assms(2)] assms by (intro adjusted_le) auto

lemma adjusted_minus [simp]: "adjusted (- x) = adjusted x"
  by (simp add: adjusted_def)


subsection \<open>Rounding half to even\<close>

lemma round_half_even_of_int [simp]: "round_half_even (of_int k) = k"
  by (simp add: round_half_even_def)

lemma round_half_even_error: "\<bar>of_int (round_half_even r) - r\<bar> \<le> 1 / 2"
  unfolding round_half_even_def Let_def
  using floor_correct [of r] by (simp only: split: if_split) (simp add: abs_if, linarith?)+

lemma round_half_even_unique:
  assumes "\<bar>of_int k - r\<bar> < 1 / 2"
  shows "round_half_even r = k"
proof -
  have "\<bar>of_int (round_half_even r) - of_int k\<bar> < (1::rat)"
    using assms round_half_even_error [of r] by linarith
  then show ?thesis by linarith
qed

lemma round_half_even_mono:
  assumes "r \<le> s"
  shows "round_half_even r \<le> round_half_even s"
proof (cases "\<lfloor>r\<rfloor> = \<lfloor>s\<rfloor>")
  case True
  with assms show ?thesis by (auto simp: round_half_even_def Let_def)
next
  case False
  have "\<lfloor>r\<rfloor> \<le> \<lfloor>s\<rfloor>" using assms by (rule floor_mono)
  with False have "\<lfloor>r\<rfloor> + 1 \<le> \<lfloor>s\<rfloor>" by linarith
  moreover have "round_half_even r \<le> \<lfloor>r\<rfloor> + 1" by (simp add: round_half_even_def Let_def)
  moreover have "\<lfloor>s\<rfloor> \<le> round_half_even s" by (simp add: round_half_even_def Let_def)
  ultimately show ?thesis by linarith
qed

lemma round_half_even_minus: "round_half_even (- r) = - round_half_even r"
proof (cases "r = of_int \<lfloor>r\<rfloor>")
  case True
  then show ?thesis by (metis of_int_minus round_half_even_of_int)
next
  case False
  then have f: "\<lfloor>- r\<rfloor> = - \<lfloor>r\<rfloor> - 1"
    by (metis add.commute ceiling_altdef ceiling_def minus_diff_eq diff_minus_eq_add
        minus_add_distrib uminus_add_conv_diff of_int_eq_iff minus_minus)
  show ?thesis unfolding round_half_even_def Let_def f by (auto simp: field_simps)
qed


subsection \<open>The laws of the 28-digit rounding\<close>

lemma round28_zero [simp]: "round28 0 = 0"
  by (simp add: round28_def)

lemma round28_minus: "round28 (- x) = - round28 x"
  by (simp add: round28_def Let_def round_half_even_minus)

text \<open>A positive number rounds to a value of its own decade, the next power of ten included.\<close>

lemma round28_decade:
  assumes "0 < x"
  shows "10 powi adjusted x \<le> round28 x" and "round28 x \<le> 10 powi (adjusted x + 1)"
proof -
  let ?e = "adjusted x" and ?u = "(10::rat) powi (adjusted x - 27)"
  have u: "0 < ?u" by simp
  have lo: "of_int (10 ^ 27) \<le> x / ?u" and hi: "x / ?u \<le> of_int (10 ^ 28)"
  proof -
    have "of_int (10 ^ 27) * ?u = 10 powi ?e"
      using power_int_add [of "10::rat" 27 "?e - 27"] by simp
    with adjusted_bounds(1) [of x] assms show "of_int (10 ^ 27) \<le> x / ?u"
      by (simp add: le_divide_eq)
    have "of_int (10 ^ 28) * ?u = 10 powi (?e + 1)"
      using power_int_add [of "10::rat" 28 "?e - 27"] by (simp add: algebra_simps)
    with adjusted_bounds(2) [of x] assms show "x / ?u \<le> of_int (10 ^ 28)"
      by (simp add: divide_le_eq)
  qed
  have "10 ^ 27 \<le> round_half_even (x / ?u)"
    using round_half_even_mono [OF lo] by (simp only: round_half_even_of_int)
  then have "of_int (10 ^ 27) * ?u \<le> round28 x"
    using assms u by (simp add: round28_def Let_def del: of_int_power)
  then show "10 powi ?e \<le> round28 x"
    using power_int_add [of "10::rat" 27 "?e - 27"] by simp
  have "round_half_even (x / ?u) \<le> 10 ^ 28"
    using round_half_even_mono [OF hi] by (simp only: round_half_even_of_int)
  then have "round28 x \<le> of_int (10 ^ 28) * ?u"
    using assms u by (simp add: round28_def Let_def del: of_int_power)
  then show "round28 x \<le> 10 powi (?e + 1)"
    using power_int_add [of "10::rat" 28 "?e - 27"] by (simp add: algebra_simps)
qed

lemma round28_mono_pos:
  assumes "0 < x" and "x \<le> y"
  shows "round28 x \<le> round28 y"
proof (cases "adjusted x = adjusted y")
  case True
  let ?u = "(10::rat) powi (adjusted x - 27)"
  have "x / ?u \<le> y / ?u" using assms by (simp add: divide_right_mono)
  then have "round_half_even (x / ?u) \<le> round_half_even (y / ?u)" by (rule round_half_even_mono)
  with assms True show ?thesis by (simp add: round28_def Let_def)
next
  case False
  have "adjusted x \<le> adjusted y" using assms by (intro adjusted_mono) auto
  with False have "(10::rat) powi (adjusted x + 1) \<le> 10 powi adjusted y" by simp
  with round28_decade [of x] round28_decade [of y] assms show ?thesis by linarith
qed

lemma round28_pos: "0 < x \<Longrightarrow> 0 < round28 x"
  using round28_decade(1) [of x] zero_less_power_int [of "10::rat" "adjusted x"] by linarith

lemma round28_mono:
  assumes "x \<le> y"
  shows "round28 x \<le> round28 y"
proof -
  consider "0 < x" | "x \<le> 0" "0 \<le> y" | "y < 0" using assms by linarith
  then show ?thesis
  proof cases
    case 1
    with assms show ?thesis by (intro round28_mono_pos)
  next
    case 2
    have "round28 x \<le> 0"
      using 2 round28_pos [of "- x"] by (cases "x = 0") (auto simp: round28_minus)
    moreover have "0 \<le> round28 y" using 2 round28_pos [of y] by (cases "y = 0") auto
    ultimately show ?thesis by simp
  next
    case 3
    then have "round28 (- y) \<le> round28 (- x)" using assms by (intro round28_mono_pos) auto
    then show ?thesis by (simp add: round28_minus)
  qed
qed

text \<open>A number with at most 28 digits is not changed.\<close>

definition fits28 :: "rat \<Rightarrow> bool" where
  "fits28 x \<longleftrightarrow> (\<exists>n k. x = of_int n * 10 powi k \<and> \<bar>n\<bar> \<le> 10 ^ 28)"

lemma fits28_strict:
  assumes "fits28 x"
  obtains n k where "x = of_int n * 10 powi k" and "\<bar>n\<bar> < 10 ^ 28"
proof -
  from assms obtain n k where x: "x = of_int n * 10 powi k" and n: "\<bar>n\<bar> \<le> 10 ^ 28"
    by (auto simp: fits28_def)
  show thesis
  proof (cases "\<bar>n\<bar> < 10 ^ 28")
    case False
    with n have "n = 10 ^ 28 \<or> n = - (10 ^ 28)" by linarith
    then obtain m where m: "n = m * 10" and "\<bar>m\<bar> < 10 ^ 28"
      by (auto intro: that [of "10 ^ 27"] that [of "- (10 ^ 27)"])
    moreover from m have "x = of_int m * 10 powi (k + 1)"
      by (simp add: x power_int_add_1)
    ultimately show thesis by (intro that)
  qed (rule that [OF x])
qed

lemma round28_exact:
  assumes "fits28 x"
  shows "round28 x = x"
proof (cases "x = 0")
  case False
  let ?e = "adjusted x"
  from assms obtain n k where x: "x = of_int n * 10 powi k" and n: "\<bar>n\<bar> < 10 ^ 28"
    by (rule fits28_strict)
  then have "\<bar>of_int n\<bar> < (10::rat) ^ 28"
    by (metis of_int_abs of_int_less_iff of_int_numeral of_int_power)
  then have "\<bar>x\<bar> < 10 powi (k + 28)"
    using power_int_add [of "10::rat" k 28] by (simp add: x abs_mult mult.commute)
  then have "?e \<le> k + 27" using False by (intro adjusted_le) (simp_all add: add.commute)
  then have "10 powi k = (10::rat) ^ nat (k - (?e - 27)) * 10 powi (?e - 27)"
    using power_int_add [of "10::rat" "k - (?e - 27)" "?e - 27"] by (simp add: power_int_def)
  then have "x = of_int (n * 10 ^ nat (k - (?e - 27))) * 10 powi (?e - 27)"
    by (simp add: x mult.assoc)
  then have "x / 10 powi (?e - 27) = of_int (n * 10 ^ nat (k - (?e - 27)))"
    by (metis nonzero_mult_div_cancel_right power_int_eq_0_iff zero_neq_numeral)
  with False x show ?thesis
    by (metis (no_types, lifting) nonzero_eq_divide_eq power_int_eq_0_iff round28_def
        round_half_even_of_int zero_neq_numeral)
qed simp

lemma fits28_round28: "fits28 (round28 x)"
proof (cases "x = 0")
  case True
  then show ?thesis by (auto simp: fits28_def intro!: exI [of _ 0])
next
  case False
  let ?u = "(10::rat) powi (adjusted x - 27)"
  have pow: "of_int (10 ^ 28) * ?u = 10 powi (adjusted x + 1)"
    using power_int_add [of "10::rat" 28 "adjusted x - 27"] by (simp add: algebra_simps)
  have "\<bar>x\<bar> / ?u \<le> of_int (10 ^ 28)"
    using adjusted_bounds(2) [OF False] pow by (simp add: divide_le_eq)
  then have "x / ?u \<le> of_int (10 ^ 28)" and "of_int (- (10 ^ 28)) \<le> x / ?u"
    by (auto simp: abs_le_iff minus_le_iff field_simps)
  then have "round_half_even (x / ?u) \<le> 10 ^ 28" and "- (10 ^ 28) \<le> round_half_even (x / ?u)"
    using round_half_even_mono round_half_even_of_int by metis+
  then have "\<bar>round_half_even (x / ?u)\<bar> \<le> 10 ^ 28" by linarith
  with False show ?thesis by (auto simp: fits28_def round28_def Let_def)
qed

lemma round28_idem: "round28 (round28 x) = round28 x"
  by (rule round28_exact) (rule fits28_round28)

lemma round28_error: "\<bar>round28 x - x\<bar> \<le> \<bar>x\<bar> / (2 * 10 ^ 27)"
proof (cases "x = 0")
  case False
  let ?u = "(10::rat) powi (adjusted x - 27)"
  have u: "0 < ?u" by simp
  have "10 ^ 27 * ?u = 10 powi adjusted x"
    using power_int_add [of "10::rat" 27 "adjusted x - 27"] by simp
  then have small: "10 ^ 27 * ?u \<le> \<bar>x\<bar>" using adjusted_bounds(1) [OF False] by simp
  have "round28 x - x = (of_int (round_half_even (x / ?u)) - x / ?u) * ?u"
    using False u by (simp add: round28_def Let_def left_diff_distrib)
  then have "\<bar>round28 x - x\<bar> = \<bar>of_int (round_half_even (x / ?u)) - x / ?u\<bar> * ?u"
    using u by (simp add: abs_mult)
  also have "\<dots> \<le> 1 / 2 * ?u"
    using u round_half_even_error [of "x / ?u"] by (intro mult_right_mono) auto
  also have "\<dots> \<le> \<bar>x\<bar> / (2 * 10 ^ 27)" using small by (simp add: field_simps)
  finally show ?thesis .
qed simp


text \<open>
  Evaluation: a value with at most 12 decimal places and at most 28 digits is returned as
  it is, without looking for its leading digit.
\<close>

lemma round28_code [code]:
  "round28 x =
     (let (n, d) = quotient_of x
      in if 10 ^ 12 mod d = 0 \<and> \<bar>n * (10 ^ 12 div d)\<bar> \<le> 10 ^ 28 then x
         else let u = 10 powi (adjusted x - 27) in of_int (round_half_even (x / u)) * u)"
proof -
  obtain n d where q: "quotient_of x = (n, d)" by fastforce
  then have x: "x = of_int n / of_int d" and d: "0 < d"
    by (auto simp: quotient_of_div quotient_of_denom_pos)
  have "round28 x = x" if "10 ^ 12 mod d = 0" "\<bar>n * (10 ^ 12 div d)\<bar> \<le> 10 ^ 28"
  proof (rule round28_exact)
    from that(1) obtain c where c: "10 ^ 12 = d * c" by (metis mod_0_imp_dvd dvdE)
    then have "(10::rat) ^ 12 = of_int d * of_int c"
      by (metis of_int_mult of_int_numeral of_int_power)
    then have "x = of_int (n * c) * 10 powi (- 12)"
      using d by (simp add: x power_int_minus field_simps)
    moreover have "10 ^ 12 div d = c" unfolding c using d by simp
    ultimately show "fits28 x" using that(2) unfolding fits28_def by blast
  qed
  moreover have "\<not> (10 ^ 12 mod d = 0 \<and> \<bar>n * (10 ^ 12 div d)\<bar> \<le> 10 ^ 28)" if "x = 0 \<and> d \<noteq> 1"
    using that q by simp
  ultimately show ?thesis using q by (auto simp: round28_def Let_def)
qed


section \<open>The interface of a decimal context\<close>

locale decimal_context =
  fixes rnd :: "rat \<Rightarrow> rat" and eps :: rat
  assumes rnd_zero: "rnd 0 = 0"
    and rnd_minus: "rnd (- x) = - rnd x"
    and rnd_mono: "x \<le> y \<Longrightarrow> rnd x \<le> rnd y"
    and rnd_idem: "rnd (rnd x) = rnd x"
    and rnd_error: "\<bar>rnd x - x\<bar> \<le> eps * \<bar>x\<bar>"
    and eps_small: "0 \<le> eps" "eps < 1"
begin

lemma rnd_nonneg: "0 \<le> x \<Longrightarrow> 0 \<le> rnd x"
  using rnd_mono [of 0 x] by (simp add: rnd_zero)

lemma rnd_nonpos: "x \<le> 0 \<Longrightarrow> rnd x \<le> 0"
  using rnd_mono [of x 0] by (simp add: rnd_zero)

lemma rnd_eq_0_iff: "rnd x = 0 \<longleftrightarrow> x = 0"
proof
  assume "rnd x = 0"
  then have "\<bar>x\<bar> \<le> eps * \<bar>x\<bar>" using rnd_error [of x] by simp
  then have "(1 - eps) * \<bar>x\<bar> \<le> 0" by (simp add: algebra_simps)
  with eps_small show "x = 0" by (simp add: mult_le_0_iff)
qed (simp add: rnd_zero)

lemma rnd_pos: "0 < x \<Longrightarrow> 0 < rnd x"
  using rnd_nonneg [of x] rnd_eq_0_iff [of x] by simp

lemma rnd_neg: "x < 0 \<Longrightarrow> rnd x < 0"
  using rnd_pos [of "- x"] by (simp add: rnd_minus)

lemma rnd_pos_iff: "0 < rnd x \<longleftrightarrow> 0 < x"
  using rnd_pos [of x] rnd_nonpos [of x] by linarith

lemma rnd_nonneg_iff: "0 \<le> rnd x \<longleftrightarrow> 0 \<le> x"
  using rnd_neg [of x] rnd_nonneg [of x] by linarith

text \<open>Representable numbers are barriers that rounding does not cross.\<close>

lemma rnd_le_canon: "x \<le> y \<Longrightarrow> rnd y = y \<Longrightarrow> rnd x \<le> y"
  using rnd_mono [of x y] by simp

lemma rnd_ge_canon: "y \<le> x \<Longrightarrow> rnd y = y \<Longrightarrow> y \<le> rnd x"
  using rnd_mono [of y x] by simp

lemma rnd_upper: "0 \<le> x \<Longrightarrow> rnd x \<le> (1 + eps) * x"
  using rnd_error [of x] by (simp add: algebra_simps abs_le_iff)

lemma rnd_lower: "0 \<le> x \<Longrightarrow> (1 - eps) * x \<le> rnd x"
  using rnd_error [of x] by (simp add: algebra_simps abs_le_iff)

end

interpretation ctx28: decimal_context round28 "1 / (2 * 10 ^ 27)"
proof unfold_locales
  fix x y :: rat
  show "round28 (- x) = - round28 x" by (rule round28_minus)
  show "round28 (round28 x) = round28 x" by (rule round28_idem)
  show "\<bar>round28 x - x\<bar> \<le> 1 / (2 * 10 ^ 27) * \<bar>x\<bar>" using round28_error [of x] by simp
  show "x \<le> y \<Longrightarrow> round28 x \<le> round28 y" by (rule round28_mono)
qed simp_all


section \<open>Decimals\<close>

datatype dec = Dec (dval: rat)

instantiation dec :: "{zero, one, plus, minus, uminus, times, inverse, abs, linorder}"
begin

definition zero_dec_def: "0 = Dec 0"
definition one_dec_def: "1 = Dec 1"
definition plus_dec_def: "a + b = Dec (round28 (dval a + dval b))"
definition minus_dec_def: "a - b = Dec (round28 (dval a - dval b))"
definition uminus_dec_def: "- a = Dec (round28 (- dval a))"
definition times_dec_def: "a * b = Dec (round28 (dval a * dval b))"
definition divide_dec_def: "a div b = Dec (round28 (dval a / dval b))"
definition inverse_dec_def: "inverse a = Dec (round28 (inverse (dval a)))"
definition abs_dec_def: "\<bar>a\<bar> = Dec (round28 \<bar>dval a\<bar>)"
definition less_eq_dec_def: "a \<le> b \<longleftrightarrow> dval a \<le> dval b"
definition less_dec_def: "a < b \<longleftrightarrow> dval a < dval b"

instance
  by standard (auto simp: less_eq_dec_def less_dec_def intro: dec.expand)

end

lemmas dec_order_defs = less_eq_dec_def less_dec_def

lemma dval_simps [simp]:
  "dval 0 = 0" "dval 1 = 1"
  "dval (a + b) = round28 (dval a + dval b)"
  "dval (a - b) = round28 (dval a - dval b)"
  "dval (- a) = round28 (- dval a)"
  "dval (a * b) = round28 (dval a * dval b)"
  "dval (a / b) = round28 (dval a / dval b)"
  "dval \<bar>a\<bar> = round28 \<bar>dval a\<bar>"
  by (simp_all add: zero_dec_def one_dec_def plus_dec_def minus_dec_def uminus_dec_def
      times_dec_def divide_dec_def abs_dec_def)

lemma dec_eq_iff: "a = b \<longleftrightarrow> dval a = dval b"
  by (metis dec.expand)

lemma dval_min [simp]: "dval (min a b) = min (dval a) (dval b)"
  by (simp add: min_def less_eq_dec_def)

lemma dval_max [simp]: "dval (max a b) = max (dval a) (dval b)"
  by (simp add: max_def less_eq_dec_def)

text \<open>\<open>canon a\<close>: the value has at most 28 digits, so rounding does not change it.\<close>

definition canon :: "dec \<Rightarrow> bool" where
  "canon a \<longleftrightarrow> round28 (dval a) = dval a"

lemma canon_ops [simp]:
  "canon 0" "canon (a + b)" "canon (a - b)" "canon (- a)" "canon (a * b)" "canon (a / b)" "canon \<bar>a\<bar>"
  by (simp_all add: canon_def ctx28.rnd_idem ctx28.rnd_zero)

lemma canon_min_max: "canon a \<Longrightarrow> canon b \<Longrightarrow> canon (min a b) \<and> canon (max a b)"
  by (simp add: canon_def min_def max_def)

lemma canonI: "dval a = of_int n * 10 powi k \<Longrightarrow> \<bar>n\<bar> \<le> 10 ^ 28 \<Longrightarrow> canon a"
  unfolding canon_def by (rule round28_exact) (auto simp: fits28_def)

lemma canon_one [simp]: "canon 1"
  by (rule canonI [of _ 1 0]) simp_all

text \<open>\<open>sum(xs, Decimal("0"))\<close>: rounded after every addition.\<close>

definition dsum :: "dec list \<Rightarrow> dec" where
  "dsum xs = foldl (+) 0 xs"

text \<open>
  \<open>a // b\<close> truncates towards zero. Division by zero raises, and so does an integer quotient
  of more than 28 digits.
\<close>

definition dec_floordiv :: "dec \<Rightarrow> dec \<Rightarrow> int result" where
  "dec_floordiv a b =
     (if dval b = 0 then Inl (if dval a = 0 then InvalidOperation else DivisionByZero)
      else let r = dval a / dval b; q = (if 0 \<le> r then \<lfloor>r\<rfloor> else \<lceil>r\<rceil>)
           in if \<bar>q\<bar> < 10 ^ 28 then Inr q else Inl InvalidOperation)"

text \<open>\<open>x.quantize(10 ** -k)\<close>, rounding half to even; raises when the result needs more than 28 digits.\<close>

definition dec_quantize :: "nat \<Rightarrow> dec \<Rightarrow> dec result" where
  "dec_quantize k a =
     (let n = round_half_even (dval a * 10 ^ k)
      in if \<bar>n\<bar> < 10 ^ 28 then Inr (Dec (of_int n / 10 ^ k)) else Inl InvalidOperation)"


subsection \<open>Signs and bounds\<close>

lemma dec_nonneg [dec_intros]:
  "0 \<le> a \<Longrightarrow> 0 \<le> b \<Longrightarrow> 0 \<le> a + b"
  "0 \<le> a \<Longrightarrow> 0 \<le> b \<Longrightarrow> 0 \<le> a * b"
  "0 \<le> a \<Longrightarrow> 0 \<le> b \<Longrightarrow> 0 \<le> a / b"
  "b \<le> a \<Longrightarrow> 0 \<le> a - b"
  "0 \<le> \<bar>a\<bar>"
  for a b :: dec
  by (simp_all add: less_eq_dec_def ctx28.rnd_nonneg)

lemma dec_pos [dec_intros]:
  "0 < a \<Longrightarrow> 0 < b \<Longrightarrow> 0 < a * b"
  "0 < a \<Longrightarrow> 0 < b \<Longrightarrow> 0 < a / b"
  "b < a \<Longrightarrow> 0 < a - b"
  "0 < a \<Longrightarrow> 0 \<le> b \<Longrightarrow> 0 < a + b"
  "0 \<le> a \<Longrightarrow> 0 < b \<Longrightarrow> 0 < a + b"
  for a b :: dec
  by (simp_all add: dec_order_defs ctx28.rnd_pos)

lemma dec_add_mono: "a \<le> b \<Longrightarrow> c \<le> d \<Longrightarrow> a + c \<le> b + d"
  for a b c d :: dec
  by (simp add: less_eq_dec_def round28_mono)

lemma dec_diff_mono: "a \<le> b \<Longrightarrow> d \<le> c \<Longrightarrow> a - c \<le> b - d"
  for a b c d :: dec
  by (simp add: less_eq_dec_def round28_mono)

lemma dec_mult_mono: "a \<le> b \<Longrightarrow> 0 \<le> c \<Longrightarrow> a * c \<le> b * c"
  for a b c :: dec
  by (simp add: less_eq_dec_def round28_mono mult_right_mono)

lemma dec_le_add: "canon a \<Longrightarrow> 0 \<le> b \<Longrightarrow> a \<le> a + b"
  by (simp add: less_eq_dec_def canon_def ctx28.rnd_ge_canon)

lemma dec_diff_le: "canon a \<Longrightarrow> 0 \<le> b \<Longrightarrow> a - b \<le> a"
  by (simp add: less_eq_dec_def canon_def ctx28.rnd_le_canon)

lemma dec_mult_le: "canon a \<Longrightarrow> 0 \<le> a \<Longrightarrow> s \<le> 1 \<Longrightarrow> a * s \<le> a"
  by (simp add: less_eq_dec_def canon_def ctx28.rnd_le_canon mult_left_le)

lemma dec_le_mult: "canon a \<Longrightarrow> 0 \<le> a \<Longrightarrow> 1 \<le> s \<Longrightarrow> a \<le> a * s"
  by (simp add: less_eq_dec_def canon_def ctx28.rnd_ge_canon mult_le_cancel_left1)

lemma dec_div_le_one: "0 < b \<Longrightarrow> a \<le> b \<Longrightarrow> a / b \<le> 1"
  for a b :: dec
  using ctx28.rnd_le_canon [of "dval a / dval b" 1] canon_one
  by (simp add: dec_order_defs canon_def)

lemma dec_add_zero [simp]: "canon a \<Longrightarrow> 0 + a = a" "canon a \<Longrightarrow> a + 0 = a"
  by (simp_all add: dec_eq_iff canon_def)

lemma dec_diff_self [simp]: "a - a = (0 :: dec)"
  by (simp add: dec_eq_iff ctx28.rnd_zero)

lemma dec_minus_canon: "canon a \<Longrightarrow> dval (- a) = - dval a"
  by (simp add: canon_def round28_minus)

lemma dec_abs_canon: "canon a \<Longrightarrow> dval \<bar>a\<bar> = \<bar>dval a\<bar>"
  by (simp add: canon_def abs_if round28_minus)

lemma dsum_Nil [simp]: "dsum [] = 0"
  by (simp add: dsum_def)

lemma dsum_snoc [simp]: "dsum (xs @ [x]) = dsum xs + x"
  by (simp add: dsum_def)

lemma canon_dsum [simp]: "canon (dsum xs)"
  by (induction xs rule: rev_induct) simp_all

lemma dsum_nonneg [dec_intros]: "(\<And>x. x \<in> set xs \<Longrightarrow> 0 \<le> x) \<Longrightarrow> 0 \<le> dsum xs"
  by (induction xs rule: rev_induct) (auto intro: dec_intros)

lemma dsum_ge_member: "(\<And>x. x \<in> set xs \<Longrightarrow> 0 \<le> x) \<Longrightarrow> x \<in> set xs \<Longrightarrow> canon x \<Longrightarrow> x \<le> dsum xs"
proof (induction xs rule: rev_induct)
  case (snoc y xs)
  show ?case
  proof (cases "x = y")
    case True
    with snoc.prems have "0 + x \<le> dsum xs + y"
      by (intro dec_add_mono dsum_nonneg) auto
    with snoc.prems(3) show ?thesis by simp
  next
    case False
    with snoc have "x + 0 \<le> dsum xs + y" by (intro dec_add_mono) auto
    with snoc.prems(3) show ?thesis by simp
  qed
qed simp

lemma dec_floordiv_pos:
  assumes "0 \<le> a" and "0 < b" and "dec_floordiv a b = Inr q"
  shows "0 \<le> q" and "of_int q * dval b \<le> dval a" and "\<bar>q\<bar> < 10 ^ 28"
  using assms
  by (auto simp: dec_floordiv_def Let_def dec_order_defs pos_le_divide_eq [symmetric]
      split: if_splits)

lemma dec_quantize_nonneg: "dec_quantize k a = Inr w \<Longrightarrow> 0 \<le> a \<Longrightarrow> 0 \<le> w"
  using round_half_even_mono [of 0 "dval a * 10 ^ k"] round_half_even_of_int [of 0]
  by (auto simp: dec_quantize_def Let_def less_eq_dec_def split: if_splits)

lemma dec_quantize_error:
  assumes "dec_quantize k a = Inr w"
  shows "\<bar>dval w - dval a\<bar> \<le> 1 / (2 * 10 ^ k)"
proof -
  let ?n = "round_half_even (dval a * 10 ^ k)"
  have w: "dval w = of_int ?n / 10 ^ k"
    using assms by (auto simp: dec_quantize_def Let_def split: if_splits)
  have "dval w - dval a = (of_int ?n - dval a * 10 ^ k) / 10 ^ k"
    unfolding w by (simp add: diff_divide_distrib)
  then have "\<bar>dval w - dval a\<bar> = \<bar>of_int ?n - dval a * 10 ^ k\<bar> / 10 ^ k"
    by (simp only: abs_divide) simp
  also have "\<dots> \<le> (1 / 2) / 10 ^ k"
    by (rule divide_right_mono [OF round_half_even_error]) simp
  finally show ?thesis by simp
qed

lemma dec_quantize_canon: "dec_quantize k a = Inr w \<Longrightarrow> canon w"
  by (auto simp: dec_quantize_def Let_def power_int_minus field_simps split: if_splits
      intro!: canonI [of _ "round_half_even (dval a * 10 ^ k)" "- int k"])


subsection \<open>Accumulated rounding error\<close>

text \<open>The relative error of one rounded operation, and how it accumulates in a sum.\<close>

definition ulp :: rat where
  "ulp = 1 / (2 * 10 ^ 27)"

lemma ulp_bounds: "0 < ulp" "ulp < 1"
  by (simp_all add: ulp_def)

lemma round28_upper: "0 \<le> x \<Longrightarrow> round28 x \<le> x * (1 + ulp)"
  using ctx28.rnd_upper [of x] by (simp add: ulp_def mult.commute)

lemma round28_lower: "0 \<le> x \<Longrightarrow> x * (1 - ulp) \<le> round28 x"
  using ctx28.rnd_lower [of x] by (simp add: ulp_def mult.commute)

lemma dsum_upper:
  "(\<And>x. x \<in> set xs \<Longrightarrow> 0 \<le> x) \<Longrightarrow>
     dval (dsum xs) \<le> sum_list (map dval xs) * (1 + ulp) ^ length xs"
proof (induction xs rule: rev_induct)
  case (snoc y xs)
  let ?s = "sum_list (map dval xs)" and ?p = "(1 + ulp) ^ length xs"
  have IH: "dval (dsum xs) \<le> ?s * ?p" using snoc by simp
  have y: "0 \<le> dval y" and s: "0 \<le> dval (dsum xs)"
    using snoc.prems dsum_nonneg [of xs] by (auto simp: less_eq_dec_def)
  have p1: "1 \<le> ?p" using ulp_bounds by simp
  have "dval y \<le> dval y * ?p" using mult_left_mono [OF p1 y] by simp
  with IH have "dval (dsum xs) + dval y \<le> (?s + dval y) * ?p" by (simp add: distrib_right)
  then have "(dval (dsum xs) + dval y) * (1 + ulp) \<le> (?s + dval y) * ?p * (1 + ulp)"
    by (rule mult_right_mono) (use ulp_bounds in simp)
  with round28_upper [of "dval (dsum xs) + dval y"] y s show ?case
    by (simp add: mult.assoc mult.commute [of "1 + ulp"])
qed simp

lemma dsum_lower:
  "(\<And>x. x \<in> set xs \<Longrightarrow> 0 \<le> x) \<Longrightarrow>
     sum_list (map dval xs) * (1 - ulp) ^ length xs \<le> dval (dsum xs)"
proof (induction xs rule: rev_induct)
  case (snoc y xs)
  let ?s = "sum_list (map dval xs)" and ?p = "(1 - ulp) ^ length xs"
  have IH: "?s * ?p \<le> dval (dsum xs)" using snoc by simp
  have y: "0 \<le> dval y" and s: "0 \<le> dval (dsum xs)"
    using snoc.prems dsum_nonneg [of xs] by (auto simp: less_eq_dec_def)
  have p1: "?p \<le> 1" using ulp_bounds by (intro power_le_one) auto
  have "dval y * ?p \<le> dval y" using mult_left_mono [OF p1 y] by simp
  with IH have "(?s + dval y) * ?p \<le> dval (dsum xs) + dval y" by (simp add: distrib_right)
  then have "(?s + dval y) * ?p * (1 - ulp) \<le> (dval (dsum xs) + dval y) * (1 - ulp)"
    by (rule mult_right_mono) (use ulp_bounds in simp)
  with round28_lower [of "dval (dsum xs) + dval y"] y s show ?case
    by (simp add: mult.assoc mult.commute [of "1 - ulp"])
qed simp

lemma power_one_minus_ulp: "1 - of_nat n * ulp \<le> (1 - ulp) ^ n"
proof (induction n)
  case (Suc n)
  have "1 - of_nat (Suc n) * ulp \<le> (1 - of_nat n * ulp) * (1 - ulp)"
    using ulp_bounds by (simp add: algebra_simps)
  also have "\<dots> \<le> (1 - ulp) ^ n * (1 - ulp)"
    using Suc ulp_bounds by (intro mult_right_mono) auto
  finally show ?case by (simp add: mult.commute)
qed simp

lemma power_ulp_ratio: "(1 + ulp) ^ n * (1 - ulp) ^ n \<le> 1"
proof -
  have "(1 + ulp) * (1 - ulp) \<le> 1" using ulp_bounds by (simp add: algebra_simps)
  then have "((1 + ulp) * (1 - ulp)) ^ n \<le> 1"
    using ulp_bounds by (intro power_le_one) auto
  then show ?thesis by (simp add: power_mult_distrib)
qed

end
