(* ===== verification/Models.thy ===== *)
theory Models
  imports Decimal
begin

text \<open>
  The data model of the rebalance engine (\<open>src/src/core/models.py\<close>): every pydantic class
  the engine reads or writes is a record with the class's fields, every \<open>Literal\<close> and
  \<open>Enum\<close> a datatype, and every validator a function that returns the value or the
  validation error. Field names carry a prefix that names their class, because HOL record
  selectors share one name space.

  Left out: \<open>Position._core_source_identity_namespace\<close>, a private attribute of the
  sourcing layer; the fields of \<open>LineageData\<close> that only the API layer fills in; the batch
  request and response envelopes; the serializers that shorten weights when a result is
  printed.
\<close>


section \<open>Enumerations\<close>

datatype ValuationMode = CALCULATED | TRUST_SNAPSHOT

datatype TargetMethod = HEURISTIC | SOLVER

datatype ShelfStatus = APPROVED | RESTRICTED | BANNED | SUSPENDED | SELL_ONLY

datatype Side = BUY | SELL

datatype RunStatus = READY | BLOCKED | PENDING_REVIEW

datatype RuleSeverity = HARD | SOFT | INFO

datatype RuleStatus = PASS | FAIL

datatype ReviewSeverity = LOW | MEDIUM | HIGH

datatype StatusChange = NEW | RESOLVED | PERSISTENT

datatype ReasonSource = RULE_ENGINE | SUITABILITY | DATA_QUALITY | CLIENT_POLICY

datatype ThresholdOutcome = KEPT | SUPPRESSED | THRESHOLD_BLOCKED

datatype FxDirection = IDENTITY | DIRECT | INVERSE

datatype GroupEventStatus = CAPPED | GROUP_BLOCKED

datatype ReconStatus = RECON_OK | MISMATCH

datatype GateName =
    GATE_BLOCKED
  | RISK_REVIEW_REQUIRED
  | COMPLIANCE_REVIEW_REQUIRED
  | MANDATE_APPROVAL_REQUIRED
  | EXECUTION_READY
  | GATE_NONE

datatype NextStep =
    FIX_INPUT
  | RISK_REVIEW
  | COMPLIANCE_REVIEW
  | REQUEST_MANDATE_APPROVAL
  | EXECUTE
  | STEP_NONE

text \<open>The literal text of a shelf status, as the f-strings print it.\<close>

fun shelf_status_str :: "ShelfStatus \<Rightarrow> string" where
  "shelf_status_str APPROVED = ''APPROVED''"
| "shelf_status_str RESTRICTED = ''RESTRICTED''"
| "shelf_status_str BANNED = ''BANNED''"
| "shelf_status_str SUSPENDED = ''SUSPENDED''"
| "shelf_status_str SELL_ONLY = ''SELL_ONLY''"

fun target_method_str :: "TargetMethod \<Rightarrow> string" where
  "target_method_str HEURISTIC = ''HEURISTIC''"
| "target_method_str SOLVER = ''SOLVER''"

fun run_status_str :: "RunStatus \<Rightarrow> string" where
  "run_status_str READY = ''READY''"
| "run_status_str BLOCKED = ''BLOCKED''"
| "run_status_str PENDING_REVIEW = ''PENDING_REVIEW''"


section \<open>Inputs\<close>

record Money =
  amount :: dec
  currency :: string

record FxRate =
  fxr_pair :: string
  fxr_rate :: dec

record TaxLot =
  lot_id :: string
  lot_quantity :: dec
  lot_unit_cost :: Money
  lot_purchase_date :: string

record Position =
  pos_instrument_id :: string
  pos_quantity :: dec
  pos_market_value :: "Money option"
  pos_lots :: "TaxLot list"

record CashBalance =
  cash_currency :: string
  cash_amount :: dec
  cash_settled :: "dec option"
  cash_pending :: "dec option"

record PortfolioSnapshot =
  pf_snapshot_id :: "string option"
  pf_portfolio_id :: string
  pf_base_currency :: string
  pf_positions :: "Position list"
  pf_cash_balances :: "CashBalance list"

record Price =
  price_instrument_id :: string
  price_price :: dec
  price_currency :: string

record MarketDataSnapshot =
  md_snapshot_id :: "string option"
  md_prices :: "Price list"
  md_fx_rates :: "FxRate list"

record ModelTarget =
  mt_instrument_id :: string
  mt_weight :: dec

record ModelPortfolio =
  mp_targets :: "ModelTarget list"

record ShelfEntry =
  shelf_instrument_id :: string
  shelf_status :: ShelfStatus
  shelf_asset_class :: string
  shelf_issuer_id :: "string option"
  shelf_liquidity_tier :: "string option"
  shelf_settlement_days :: nat
  shelf_min_notional :: "Money option"
  shelf_attributes :: "(string, string) dict"

record GroupConstraint =
  gc_max_weight :: dec

record EngineOptions =
  valuation_mode :: ValuationMode
  target_method :: TargetMethod
  compare_target_methods :: bool
  compare_target_methods_tolerance :: dec
  cash_band_min_weight :: dec
  cash_band_max_weight :: dec
  single_position_max_weight :: "dec option"
  min_trade_notional :: "Money option"
  allow_restricted :: bool
  suppress_dust_trades :: bool
  dust_trade_threshold :: "Money option"
  fx_buffer_pct :: dec
  block_on_missing_prices :: bool
  block_on_missing_fx :: bool
  min_cash_buffer_pct :: dec
  cash_reserve_target_weight :: "dec option"
  cash_reserve_target_tolerance :: dec
  max_turnover_pct :: "dec option"
  enable_tax_awareness :: bool
  max_realized_capital_gains :: "dec option"
  enable_settlement_awareness :: bool
  enable_workflow_gates :: bool
  workflow_requires_mandate_approval :: bool
  mandate_approval_already_obtained :: bool
  link_buy_to_same_currency_sell_dependency :: "bool option"
  settlement_horizon_days :: nat
  fx_settlement_days :: nat
  max_overdraft_by_ccy :: "(string, dec) dict"
  group_constraints :: "(string, GroupConstraint) dict"

text \<open>\<open>EngineOptions()\<close>: the declared defaults.\<close>

definition EngineOptions_default :: EngineOptions where
  "EngineOptions_default =
     \<lparr> valuation_mode = CALCULATED, target_method = HEURISTIC, compare_target_methods = False,
       compare_target_methods_tolerance = Dec (1 / 10000),
       cash_band_min_weight = 0, cash_band_max_weight = 1,
       single_position_max_weight = None, min_trade_notional = None,
       allow_restricted = False, suppress_dust_trades = True, dust_trade_threshold = None,
       fx_buffer_pct = Dec (1 / 100), block_on_missing_prices = True, block_on_missing_fx = True,
       min_cash_buffer_pct = 0, cash_reserve_target_weight = None,
       cash_reserve_target_tolerance = Dec (1 / 10000), max_turnover_pct = None,
       enable_tax_awareness = False, max_realized_capital_gains = None,
       enable_settlement_awareness = False, enable_workflow_gates = True,
       workflow_requires_mandate_approval = False, mandate_approval_already_obtained = False,
       link_buy_to_same_currency_sell_dependency = None,
       settlement_horizon_days = 5, fx_settlement_days = 2,
       max_overdraft_by_ccy = [], group_constraints = [] \<rparr>"


section \<open>Validators\<close>

definition validate_group_constraint_keys ::
  "(string, GroupConstraint) dict \<Rightarrow> (string, GroupConstraint) dict result" where
  "validate_group_constraint_keys gcs =
     fold_result
       (\<lambda>key acc.
          if length (filter (\<lambda>c. c = CHR '':'') key) \<noteq> 1 then Inl (ValueError ''group_constraints'')
          else case split_once (CHR '':'') key of
                 None \<Rightarrow> Inl (ValueError ''group_constraints'')
               | Some (attribute_key, attribute_value) \<Rightarrow>
                   if attribute_key = [] \<or> attribute_value = []
                   then Inl (ValueError ''group_constraints'') else Inr acc)
       (dict_keys gcs) gcs"

definition validate_optional_ratio_between_zero_and_one ::
  "dec option \<Rightarrow> string \<Rightarrow> dec option result" where
  "validate_optional_ratio_between_zero_and_one v field_name =
     (case v of
        None \<Rightarrow> Inr v
      | Some x \<Rightarrow> if x < 0 \<or> 1 < x then Inl (ValueError field_name) else Inr v)"

definition validate_non_negative_amounts_by_currency ::
  "(string, dec) dict \<Rightarrow> string \<Rightarrow> (string, dec) dict result" where
  "validate_non_negative_amounts_by_currency amounts field_name =
     fold_result
       (\<lambda>(ccy, amt) acc.
          if ccy = [] then Inl (ValueError field_name)
          else if amt < 0 then Inl (ValueError field_name) else Inr acc)
       amounts amounts"

definition validate_max_weight :: "dec \<Rightarrow> dec result" where
  "validate_max_weight v = (if v < 0 \<or> 1 < v then Inl (ValueError ''max_weight'') else Inr v)"

definition validate_lot_quantity_total :: "Position \<Rightarrow> Position result" where
  "validate_lot_quantity_total p =
     (if pos_lots p = [] then Inr p
      else let total = dsum (map lot_quantity (pos_lots p))
           in if Dec (1 / 10000) < \<bar>total - pos_quantity p\<bar>
              then Inl (ValueError ''sum(lot.quantity)'') else Inr p)"

text \<open>What the validators and the field bounds of \<open>EngineOptions\<close> guarantee together.\<close>

definition ratio_ok :: "dec \<Rightarrow> bool" where
  "ratio_ok x \<longleftrightarrow> 0 \<le> x \<and> x \<le> 1"

definition engine_options_valid :: "EngineOptions \<Rightarrow> bool" where
  "engine_options_valid o1 \<longleftrightarrow>
     ratio_ok (min_cash_buffer_pct o1)
     \<and> pred_option ratio_ok (cash_reserve_target_weight o1)
     \<and> ratio_ok (cash_reserve_target_tolerance o1)
     \<and> pred_option ratio_ok (max_turnover_pct o1)
     \<and> pred_option (\<lambda>x. 0 \<le> x) (max_realized_capital_gains o1)
     \<and> settlement_horizon_days o1 \<le> 10 \<and> fx_settlement_days o1 \<le> 10
     \<and> (\<forall>kv \<in> set (max_overdraft_by_ccy o1). fst kv \<noteq> [] \<and> 0 \<le> snd kv)
     \<and> (\<forall>kv \<in> set (group_constraints o1). ratio_ok (gc_max_weight (snd kv)))
     \<and> validate_group_constraint_keys (group_constraints o1) = Inr (group_constraints o1)"

lemma EngineOptions_default_valid: "engine_options_valid EngineOptions_default"
  by (simp add: engine_options_valid_def EngineOptions_default_def ratio_ok_def dec_order_defs
      validate_group_constraint_keys_def)


section \<open>Valuation output\<close>

record AllocationMetric =
  am_key :: string
  am_weight :: dec
  am_value :: Money

record PositionSummary =
  ps_instrument_id :: string
  ps_quantity :: dec
  ps_instrument_currency :: string
  ps_asset_class :: string
  ps_price :: "Money option"
  ps_value_in_instrument_ccy :: Money
  ps_value_in_base_ccy :: Money
  ps_weight :: dec

record SimulatedState =
  ss_total_value :: Money
  ss_cash_balances :: "CashBalance list"
  ss_positions :: "PositionSummary list"
  ss_allocation_by_asset_class :: "AllocationMetric list"
  ss_allocation_by_instrument :: "AllocationMetric list"
  ss_allocation :: "AllocationMetric list"
  ss_allocation_by_attribute :: "(string, AllocationMetric list) dict"

record ExcludedInstrument =
  ei_instrument_id :: string
  ei_reason_code :: string
  ei_details :: "string option"

record UniverseCoverage =
  price_coverage_pct :: dec
  fx_coverage_pct :: dec

record UniverseData =
  universe_id :: string
  eligible_for_buy :: "string list"
  eligible_for_sell :: "string list"
  excluded_instruments :: "ExcludedInstrument list"
  universe_coverage :: UniverseCoverage

record TargetInstrument =
  ti_instrument_id :: string
  ti_model_weight :: dec
  ti_final_weight :: dec
  ti_final_value :: Money
  ti_tags :: "string list"

record TargetData =
  target_id :: string
  target_rows :: "TargetInstrument list"


section \<open>Intents and rules\<close>

record IntentRationale =
  rationale_code :: string
  rationale_message :: string

record SecurityTradeIntent =
  sti_intent_id :: string
  sti_instrument_id :: string
  sti_side :: Side
  sti_quantity :: "dec option"
  sti_notional :: "Money option"
  sti_notional_base :: "Money option"
  sti_dependencies :: "string list"
  sti_rationale :: "IntentRationale option"
  sti_constraints_applied :: "string list"

record FxSpotIntent =
  fsi_intent_id :: string
  fsi_pair :: string
  fsi_buy_currency :: string
  fsi_buy_amount :: dec
  fsi_sell_currency :: string
  fsi_sell_amount_estimated :: dec
  fsi_dependencies :: "string list"
  fsi_rationale :: "IntentRationale option"

datatype OrderIntent = SecurityTrade SecurityTradeIntent | FxSpot FxSpotIntent

fun intent_id :: "OrderIntent \<Rightarrow> string" where
  "intent_id (SecurityTrade i) = sti_intent_id i"
| "intent_id (FxSpot i) = fsi_intent_id i"

record RuleResult =
  rule_id :: string
  rule_severity :: RuleSeverity
  rule_status :: RuleStatus
  rule_measured :: dec
  rule_threshold :: "(string, dec) dict"
  rule_reason_code :: string
  rule_remediation_hint :: "string option"


section \<open>Diagnostics\<close>

record SuppressedIntent =
  si_instrument_id :: string
  si_reason :: string
  si_intended_notional :: Money
  si_threshold :: Money

record MinimumTradeThresholdEvaluation =
  mte_instrument_id :: string
  mte_side :: Side
  mte_comparison_outcome :: ThresholdOutcome
  mte_intended_notional :: Money
  mte_configured_threshold :: Money
  mte_comparison_threshold :: "Money option"
  mte_fx_quote_pair :: "string option"
  mte_fx_quote_rate :: "dec option"
  mte_conversion_rate :: "dec option"
  mte_conversion_direction :: "FxDirection option"
  mte_reason_code :: string

record DroppedIntent =
  di_instrument_id :: string
  di_reason :: string
  di_potential_notional :: Money
  di_score :: dec

record GroupConstraintEvent =
  gce_constraint_key :: string
  gce_group_weight_before :: dec
  gce_max_weight :: dec
  gce_released_weight :: dec
  gce_recipients :: "(string, dec) dict"
  gce_status :: GroupEventStatus

record TaxBudgetConstraintEvent =
  tbe_instrument_id :: string
  tbe_requested_quantity :: dec
  tbe_allowed_quantity :: dec
  tbe_reason_code :: string

record CashLadderPoint =
  clp_date_offset :: nat
  clp_currency :: string
  clp_projected_balance :: dec

record CashLadderBreach =
  clb_date_offset :: nat
  clb_currency :: string
  clb_projected_balance :: dec
  clb_allowed_floor :: dec
  clb_reason_code :: string

record FundingPlanEntry =
  fpe_target_currency :: string
  fpe_required :: dec
  fpe_available_before_fx :: dec
  fpe_fx_needed :: dec
  fpe_fx_pair :: "string option"
  fpe_funding_currency :: "string option"

record InsufficientCashEntry =
  ice_currency :: string
  ice_deficit :: dec

text \<open>The data-quality log: buckets of affected keys.\<close>

type_synonym dq_log = "(string, string list) dict"

record DiagnosticsData =
  warnings :: "string list"
  suppressed_intents :: "SuppressedIntent list"
  minimum_trade_threshold_evaluations :: "MinimumTradeThresholdEvaluation list"
  dropped_intents :: "DroppedIntent list"
  group_constraint_events :: "GroupConstraintEvent list"
  tax_budget_constraint_events :: "TaxBudgetConstraintEvent list"
  cash_ladder :: "CashLadderPoint list"
  cash_ladder_breaches :: "CashLadderBreach list"
  missing_fx_pairs :: "string list"
  funding_plan :: "FundingPlanEntry list"
  insufficient_cash :: "InsufficientCashEntry list"
  data_quality :: dq_log

definition make_empty_data_quality_log :: dq_log where
  "make_empty_data_quality_log = [(''price_missing'', []), (''fx_missing'', []), (''shelf_missing'', [])]"

definition make_diagnostics_data :: DiagnosticsData where
  "make_diagnostics_data =
     \<lparr> warnings = [], suppressed_intents = [], minimum_trade_threshold_evaluations = [],
       dropped_intents = [], group_constraint_events = [], tax_budget_constraint_events = [],
       cash_ladder = [], cash_ladder_breaches = [], missing_fx_pairs = [], funding_plan = [],
       insufficient_cash = [], data_quality = make_empty_data_quality_log \<rparr>"

text \<open>\<open>dq_log.setdefault(bucket, []).append(key)\<close> and \<open>dq_log.get(bucket, [])\<close>.\<close>

definition dq_append :: "string \<Rightarrow> string \<Rightarrow> dq_log \<Rightarrow> dq_log" where
  "dq_append bucket key dq = dict_set bucket (dict_get_or dq bucket [] @ [key]) dq"

definition dq_bucket :: "dq_log \<Rightarrow> string \<Rightarrow> string list" where
  "dq_bucket dq bucket = dict_get_or dq bucket []"

lemma dq_bucket_append [simp]:
  "dq_bucket (dq_append b k dq) b' = (if b' = b then dq_bucket dq b @ [k] else dq_bucket dq b')"
  by (simp add: dq_bucket_def dq_append_def dict_get_or_def dict_simps)

definition add_warning :: "string \<Rightarrow> DiagnosticsData \<Rightarrow> DiagnosticsData" where
  "add_warning w d = d\<lparr>warnings := warnings d @ [w]\<rparr>"

definition add_warning_once :: "string \<Rightarrow> DiagnosticsData \<Rightarrow> DiagnosticsData" where
  "add_warning_once w d = (if w \<in> set (warnings d) then d else add_warning w d)"

definition log_dq :: "string \<Rightarrow> string \<Rightarrow> DiagnosticsData \<Rightarrow> DiagnosticsData" where
  "log_dq bucket key d = d\<lparr>data_quality := dq_append bucket key (data_quality d)\<rparr>"


section \<open>Results\<close>

record Reconciliation =
  before_total_value :: Money
  after_total_value :: Money
  recon_delta :: Money
  recon_tolerance :: Money
  recon_status :: ReconStatus

record TaxImpact =
  total_realized_gain :: Money
  total_realized_loss :: Money
  budget_limit :: "Money option"
  budget_used :: "Money option"

record SuitabilityIssue =
  issue_id :: string
  issue_key :: string
  issue_severity :: ReviewSeverity
  issue_status_change :: StatusChange

record SuitabilityResult =
  suitability_issues :: "SuitabilityIssue list"

record GateReason =
  gr_reason_code :: string
  gr_severity :: ReviewSeverity
  gr_source :: ReasonSource
  gr_details :: "(string, string) dict"

record GateDecisionSummary =
  hard_fail_count :: nat
  soft_fail_count :: nat
  new_high_suitability_count :: nat
  new_medium_suitability_count :: nat

record GateDecision =
  gate :: GateName
  recommended_next_step :: NextStep
  gate_reasons :: "GateReason list"
  gate_summary :: GateDecisionSummary

record LineageData =
  portfolio_snapshot_id :: string
  market_data_snapshot_id :: string
  request_hash :: string

text \<open>\<open>compare_target_generation_methods\<close> returns a dictionary with these keys.\<close>

record TargetMethodComparison =
  primary_method :: TargetMethod
  primary_status :: RunStatus
  alternate_method :: TargetMethod
  alternate_status :: RunStatus
  comparison_tolerance :: dec
  differing_instruments :: "string list"
  alternate_warnings :: "string list"

text \<open>
  The \<open>explanation\<close> dictionary of a result: a summary and, on a run that was not blocked
  early, the key \<open>target_method_comparison\<close> (whose value may be null).
\<close>

record Explanation =
  expl_summary :: string
  expl_target_method_comparison :: "TargetMethodComparison option option"

record RebalanceResult =
  rebalance_run_id :: string
  correlation_id :: string
  run_status :: RunStatus
  result_before :: SimulatedState
  result_universe :: UniverseData
  result_target :: TargetData
  result_intents :: "OrderIntent list"
  after_simulated :: SimulatedState
  reconciliation :: "Reconciliation option"
  tax_impact :: "TaxImpact option"
  rule_results :: "RuleResult list"
  explanation :: Explanation
  diagnostics :: DiagnosticsData
  gate_decision :: "GateDecision option"
  lineage :: LineageData


section \<open>Facts about the validators and the diagnostics\<close>

lemma validate_optional_ratio_Inr:
  "validate_optional_ratio_between_zero_and_one v f = Inr w \<longleftrightarrow> w = v \<and> pred_option ratio_ok v"
  by (cases v)
    (auto simp: validate_optional_ratio_between_zero_and_one_def ratio_ok_def not_less)

lemma warnings_add_warning [simp]:
  "warnings (add_warning w d) = warnings d @ [w]"
  "data_quality (add_warning w d) = data_quality d"
  "data_quality (add_warning_once w d) = data_quality d"
  "warnings (log_dq b k d) = warnings d"
  "data_quality (log_dq b k d) = dq_append b k (data_quality d)"
  by (simp_all add: add_warning_def add_warning_once_def log_dq_def)

lemma set_warnings_once: "set (warnings (add_warning_once w d)) = insert w (set (warnings d))"
  by (auto simp: add_warning_once_def)

lemma make_diagnostics_simps [simp]:
  "warnings make_diagnostics_data = []"
  "suppressed_intents make_diagnostics_data = []"
  "dropped_intents make_diagnostics_data = []"
  "cash_ladder_breaches make_diagnostics_data = []"
  "dq_bucket (data_quality make_diagnostics_data) b = []"
  by (auto simp: make_diagnostics_data_def make_empty_data_quality_log_def dq_bucket_def
      dict_get_or_def)

end
