(* ===== verification/Samples.thy ===== *)
theory Samples
  imports Models
begin

text \<open>
  A small portfolio on which the examples evaluate the engine: one holding, one cash account,
  two listed instruments.
\<close>

definition usd :: "dec \<Rightarrow> Money" where
  "usd a = \<lparr> amount = a, currency = ''USD'' \<rparr>"

definition listed :: "string \<Rightarrow> ShelfStatus \<Rightarrow> (string, string) dict \<Rightarrow> ShelfEntry" where
  "listed i st attrs =
     \<lparr> shelf_instrument_id = i, shelf_status = st, shelf_asset_class = ''EQUITY'', shelf_issuer_id = None,
       shelf_liquidity_tier = None, shelf_settlement_days = 2, shelf_min_notional = None,
       shelf_attributes = attrs \<rparr>"

definition holding :: "string \<Rightarrow> dec \<Rightarrow> Position" where
  "holding i q = \<lparr> pos_instrument_id = i, pos_quantity = q, pos_market_value = None, pos_lots = [] \<rparr>"

definition account :: "string \<Rightarrow> dec \<Rightarrow> CashBalance" where
  "account c a = \<lparr> cash_currency = c, cash_amount = a, cash_settled = None, cash_pending = None \<rparr>"

definition quote :: "string \<Rightarrow> dec \<Rightarrow> string \<Rightarrow> Price" where
  "quote i p c = \<lparr> price_instrument_id = i, price_price = p, price_currency = c \<rparr>"

definition sample_portfolio :: PortfolioSnapshot where
  "sample_portfolio =
     \<lparr> pf_snapshot_id = None, pf_portfolio_id = ''pf'', pf_base_currency = ''USD'',
       pf_positions = [holding ''A'' (Dec 100)], pf_cash_balances = [account ''USD'' (Dec 1000)] \<rparr>"

definition sample_market :: MarketDataSnapshot where
  "sample_market =
     \<lparr> md_snapshot_id = None, md_prices = [quote ''A'' (Dec 10) ''USD'', quote ''B'' (Dec 20) ''USD''],
       md_fx_rates = [] \<rparr>"

definition sample_model :: ModelPortfolio where
  "sample_model =
     \<lparr> mp_targets = [\<lparr> mt_instrument_id = ''A'', mt_weight = Dec (1 / 4) \<rparr>,
                     \<lparr> mt_instrument_id = ''B'', mt_weight = Dec (1 / 2) \<rparr>] \<rparr>"

definition sample_shelf :: "ShelfEntry list" where
  "sample_shelf = [listed ''A'' APPROVED [], listed ''B'' APPROVED []]"

definition sample_tax_position :: Position where
  "sample_tax_position =
     (holding ''A'' (Dec 100))\<lparr> pos_lots :=
        [\<lparr> lot_id = ''L1'', lot_quantity = Dec 40, lot_unit_cost = usd (Dec 6), lot_purchase_date = ''2024-01-02'' \<rparr>,
         \<lparr> lot_id = ''L2'', lot_quantity = Dec 60, lot_unit_cost = usd (Dec 8), lot_purchase_date = ''2024-03-04'' \<rparr>] \<rparr>"

definition sample_trade :: "string \<Rightarrow> string \<Rightarrow> Side \<Rightarrow> dec \<Rightarrow> dec \<Rightarrow> SecurityTradeIntent" where
  "sample_trade iid i side q n =
     \<lparr> sti_intent_id = iid, sti_instrument_id = i, sti_side = side, sti_quantity = Some q,
       sti_notional = Some (usd n), sti_notional_base = Some (usd n), sti_dependencies = [],
       sti_rationale = None, sti_constraints_applied = [] \<rparr>"

definition sample_fx :: FxSpotIntent where
  "sample_fx =
     \<lparr> fsi_intent_id = ''oi_fx_1'', fsi_pair = ''EUR/USD'', fsi_buy_currency = ''EUR'', fsi_buy_amount = Dec 100,
       fsi_sell_currency = ''USD'', fsi_sell_amount_estimated = Dec 125, fsi_dependencies = [],
       fsi_rationale = None \<rparr>"

end
