(* ===== verification/Valuation.thy ===== *)
theory Valuation
  imports Samples
begin

text \<open>
  The valuation service (\<open>src/src/core/valuation.py\<close>): FX lookup, position and cash
  valuation in the base currency, the allocation tables and \<open>build_simulated_state\<close>. The
  data-quality log the Python code mutates is passed in and returned. The lemmas give the
  exact entries a valuation adds to the log and the shape of the state it returns.
\<close>


section \<open>FX lookup\<close>

definition first_rate :: "MarketDataSnapshot \<Rightarrow> string \<Rightarrow> dec option" where
  "first_rate md pair = map_option fxr_rate (List.find (\<lambda>r. fxr_pair r = pair) (md_fx_rates md))"

definition fx_pair_key :: "string \<Rightarrow> string \<Rightarrow> string" where
  "fx_pair_key from_ccy to_ccy = from_ccy @ ''/'' @ to_ccy"

text \<open>Python's truth value of an optional decimal: present and not zero.\<close>

definition truthy :: "dec option \<Rightarrow> bool" where
  "truthy v \<longleftrightarrow> (case v of None \<Rightarrow> False | Some x \<Rightarrow> x \<noteq> 0)"

definition get_fx_rate :: "MarketDataSnapshot \<Rightarrow> string \<Rightarrow> string \<Rightarrow> dec option" where
  "get_fx_rate md from_ccy to_ccy =
     (if from_ccy = to_ccy then Some 1
      else let direct = first_rate md (fx_pair_key from_ccy to_ccy)
           in if truthy direct then direct
              else let inverse_rate = first_rate md (fx_pair_key to_ccy from_ccy)
                   in if truthy inverse_rate then Some (1 / the inverse_rate) else None)"


section \<open>Valuing a position\<close>

definition position_price :: "Position \<Rightarrow> MarketDataSnapshot \<Rightarrow> Price option" where
  "position_price position md =
     List.find (\<lambda>p. price_instrument_id p = pos_instrument_id position) (md_prices md)"

definition position_price_value :: "Price option \<Rightarrow> dec" where
  "position_price_value price = (case price of None \<Rightarrow> 0 | Some p \<Rightarrow> price_price p)"

definition uses_trusted_market_value :: "Position \<Rightarrow> EngineOptions \<Rightarrow> bool" where
  "uses_trusted_market_value position options \<longleftrightarrow>
     valuation_mode options = TRUST_SNAPSHOT \<and> pos_market_value position \<noteq> None"

definition position_valuation_currency ::
  "Position \<Rightarrow> Price option \<Rightarrow> string \<Rightarrow> EngineOptions \<Rightarrow> string" where
  "position_valuation_currency position price base_ccy options =
     (if uses_trusted_market_value position options
      then currency (the (pos_market_value position))
      else case price of Some p \<Rightarrow> price_currency p | None \<Rightarrow> base_ccy)"

definition position_value_in_instrument_ccy :: "Position \<Rightarrow> dec \<Rightarrow> EngineOptions \<Rightarrow> dec" where
  "position_value_in_instrument_ccy position price_value options =
     (if uses_trusted_market_value position options
      then amount (the (pos_market_value position))
      else pos_quantity position * price_value)"

definition position_value_in_base_ccy ::
  "MarketDataSnapshot \<Rightarrow> dec \<Rightarrow> string \<Rightarrow> string \<Rightarrow> dec" where
  "position_value_in_base_ccy md instrument_value instrument_currency base_ccy =
     (case get_fx_rate md instrument_currency base_ccy of
        None \<Rightarrow> 0
      | Some rate \<Rightarrow> instrument_value * rate)"

definition position_price_money :: "Price option \<Rightarrow> string \<Rightarrow> Money option" where
  "position_price_money price ccy =
     map_option (\<lambda>p. \<lparr>amount = price_price p, currency = ccy\<rparr>) price"

definition value_position ::
  "Position \<Rightarrow> MarketDataSnapshot \<Rightarrow> string \<Rightarrow> EngineOptions \<Rightarrow> PositionSummary" where
  "value_position position md base_ccy options =
     (let price = position_price position md;
          ccy = position_valuation_currency position price base_ccy options;
          price_value = position_price_value price;
          value_instr = position_value_in_instrument_ccy position price_value options;
          value_base = position_value_in_base_ccy md value_instr ccy base_ccy
      in \<lparr> ps_instrument_id = pos_instrument_id position,
           ps_quantity = pos_quantity position,
           ps_instrument_currency = ccy,
           ps_asset_class = ''UNKNOWN'',
           ps_price = position_price_money price ccy,
           ps_value_in_instrument_ccy = \<lparr>amount = value_instr, currency = ccy\<rparr>,
           ps_value_in_base_ccy = \<lparr>amount = value_base, currency = base_ccy\<rparr>,
           ps_weight = 0 \<rparr>)"


section \<open>Cash and position totals\<close>

definition cash_value_in_base ::
  "CashBalance \<Rightarrow> MarketDataSnapshot \<Rightarrow> string \<Rightarrow> dq_log option \<Rightarrow> dec \<times> dq_log option" where
  "cash_value_in_base cash md base_ccy dq =
     (if cash_currency cash = base_ccy then (cash_amount cash, dq)
      else let rate = get_fx_rate md (cash_currency cash) base_ccy
           in if truthy rate then (cash_amount cash * the rate, dq)
              else (0, map_option (dq_append ''fx_missing'' (fx_pair_key (cash_currency cash) base_ccy)) dq))"

definition total_cash_value ::
  "CashBalance list \<Rightarrow> MarketDataSnapshot \<Rightarrow> string \<Rightarrow> dq_log option \<Rightarrow> dec \<times> dq_log option" where
  "total_cash_value cash_balances md base_ccy dq =
     fold (\<lambda>cash (total, dq).
             let (v, dq') = cash_value_in_base cash md base_ccy dq in (total + v, dq'))
       cash_balances (0, dq)"

definition record_position_fx_gap ::
  "PositionSummary \<Rightarrow> string \<Rightarrow> MarketDataSnapshot \<Rightarrow> dq_log \<Rightarrow> dq_log" where
  "record_position_fx_gap summary base_ccy md dq =
     (if ps_instrument_currency summary = base_ccy then dq
      else if get_fx_rate md (ps_instrument_currency summary) base_ccy = None
           then dq_append ''fx_missing'' (fx_pair_key (ps_instrument_currency summary) base_ccy) dq
           else dq)"

definition valued_position_summaries ::
  "PortfolioSnapshot \<Rightarrow> MarketDataSnapshot \<Rightarrow> EngineOptions \<Rightarrow> dq_log
     \<Rightarrow> PositionSummary list \<times> dec \<times> dq_log" where
  "valued_position_summaries portfolio md options dq =
     (let price_instruments = map price_instrument_id (md_prices md)
      in fold (\<lambda>position (summaries, total_value, dq).
           let dq1 = (if pos_instrument_id position \<notin> set price_instruments
                      then dq_append ''price_missing'' (pos_instrument_id position) dq else dq);
               summary = value_position position md (pf_base_currency portfolio) options;
               dq2 = record_position_fx_gap summary (pf_base_currency portfolio) md dq1
           in (summaries @ [summary], total_value + amount (ps_value_in_base_ccy summary), dq2))
         (pf_positions portfolio) ([], 0, dq))"

definition safe_total_value :: "dec \<Rightarrow> dec" where
  "safe_total_value total_value = (if total_value = 0 then 1 else total_value)"

definition valuation_options :: "EngineOptions option \<Rightarrow> EngineOptions" where
  "valuation_options options = (case options of None \<Rightarrow> EngineOptions_default | Some x \<Rightarrow> x)"


section \<open>Allocation tables\<close>

definition allocation_metric :: "string \<Rightarrow> dec \<Rightarrow> dec \<Rightarrow> string \<Rightarrow> AllocationMetric" where
  "allocation_metric key v total_value base_ccy =
     \<lparr> am_key = key, am_weight = v / total_value, am_value = \<lparr>amount = v, currency = base_ccy\<rparr> \<rparr>"

definition allocation_metrics ::
  "(string, dec) dict \<Rightarrow> dec \<Rightarrow> string \<Rightarrow> AllocationMetric list" where
  "allocation_metrics values_by_key total_value base_ccy =
     map (\<lambda>(key, v). allocation_metric key v total_value base_ccy) values_by_key"

definition allocation_by_attribute_metrics ::
  "(string, (string, dec) dict) dict \<Rightarrow> dec \<Rightarrow> string \<Rightarrow> (string, AllocationMetric list) dict" where
  "allocation_by_attribute_metrics by_attribute total_value base_ccy =
     map (\<lambda>(attr_key, value_map). (attr_key, allocation_metrics value_map total_value base_ccy))
       by_attribute"

definition add_attribute_allocations ::
  "ShelfEntry \<Rightarrow> dec \<Rightarrow> (string, (string, dec) dict) dict \<Rightarrow> (string, (string, dec) dict) dict" where
  "add_attribute_allocations entry v by_attribute =
     fold (\<lambda>(attr_key, attr_val) acc.
             let value_map = dict_get_or acc attr_key []
             in dict_set attr_key (dict_set attr_val (dict_get_or value_map attr_val 0 + v) value_map) acc)
       (shelf_attributes entry) by_attribute"

definition shelf_by_instrument :: "ShelfEntry list \<Rightarrow> (string, ShelfEntry) dict" where
  "shelf_by_instrument shelf = dict_of (map (\<lambda>e. (shelf_instrument_id e, e)) shelf)"

text \<open>
  The loop also writes each summary's asset class, so the model returns the summaries with
  the two tables.
\<close>

definition position_allocation_maps ::
  "PositionSummary list \<Rightarrow> ShelfEntry list
     \<Rightarrow> PositionSummary list \<times> (string, dec) dict \<times> (string, (string, dec) dict) dict" where
  "position_allocation_maps summaries shelf =
     (let by_id = shelf_by_instrument shelf
      in fold (\<lambda>position (out, by_class, by_attr).
           let v = amount (ps_value_in_base_ccy position);
               entry = dict_get by_id (ps_instrument_id position);
               position' = (case entry of
                              Some e \<Rightarrow> position\<lparr>ps_asset_class := shelf_asset_class e\<rparr>
                            | None \<Rightarrow> position);
               by_attr' = (case entry of
                             Some e \<Rightarrow> add_attribute_allocations e v by_attr
                           | None \<Rightarrow> by_attr);
               cls = ps_asset_class position'
           in (out @ [position'], dict_set cls (dict_get_or by_class cls 0 + v) by_class, by_attr'))
         summaries ([], [], []))"

definition build_simulated_state ::
  "PortfolioSnapshot \<Rightarrow> MarketDataSnapshot \<Rightarrow> ShelfEntry list \<Rightarrow> dq_log
     \<Rightarrow> EngineOptions option \<Rightarrow> SimulatedState \<times> dq_log" where
  "build_simulated_state portfolio md shelf dq options0 =
     (let options = valuation_options options0;
          base_ccy = pf_base_currency portfolio;
          (summaries0, position_value, dq1) = valued_position_summaries portfolio md options dq;
          (cash_value, dq2) = total_cash_value (pf_cash_balances portfolio) md base_ccy (Some dq1);
          total_val = position_value + cash_value;
          total_safe = safe_total_value total_val;
          summaries1 = map (\<lambda>p. p\<lparr>ps_weight := amount (ps_value_in_base_ccy p) / total_safe\<rparr>) summaries0;
          (summaries2, class_map, attr_map) = position_allocation_maps summaries1 shelf;
          alloc_instr = map (\<lambda>p. \<lparr> am_key = ps_instrument_id p, am_weight = ps_weight p,
                                   am_value = ps_value_in_base_ccy p \<rparr>) summaries2;
          class_map' = dict_set ''CASH''
            (dict_get_or class_map ''CASH'' 0
               + fst (total_cash_value (pf_cash_balances portfolio) md base_ccy None)) class_map
      in (\<lparr> ss_total_value = \<lparr>amount = total_val, currency = base_ccy\<rparr>,
            ss_cash_balances = pf_cash_balances portfolio,
            ss_positions = summaries2,
            ss_allocation_by_asset_class = allocation_metrics class_map' total_safe base_ccy,
            ss_allocation_by_instrument = alloc_instr,
            ss_allocation = alloc_instr,
            ss_allocation_by_attribute = allocation_by_attribute_metrics attr_map total_safe base_ccy \<rparr>,
          the dq2))"


section \<open>Lemmas\<close>

subsection \<open>FX lookup\<close>

lemma truthy_simps [simp]: "truthy None = False" "truthy (Some x) \<longleftrightarrow> x \<noteq> 0"
  by (simp_all add: truthy_def)

lemma dec_inverse_nonzero: "x \<noteq> 0 \<Longrightarrow> 1 / x \<noteq> (0 :: dec)"
  by (simp add: dec_eq_iff ctx28.rnd_eq_0_iff)

lemma get_fx_rate_nonzero: "get_fx_rate md a b = Some r \<Longrightarrow> r \<noteq> 0"
  by (auto simp: get_fx_rate_def Let_def truthy_def dec_eq_iff ctx28.rnd_eq_0_iff
      split: if_splits option.splits)

lemma truthy_get_fx_rate [simp]: "truthy (get_fx_rate md a b) \<longleftrightarrow> get_fx_rate md a b \<noteq> None"
  by (auto simp: truthy_def get_fx_rate_nonzero split: option.splits)

lemma get_fx_rate_same [simp]: "get_fx_rate md c c = Some 1"
  by (simp add: get_fx_rate_def)

lemma get_fx_rate_None_sym: "get_fx_rate md a b = None \<longleftrightarrow> get_fx_rate md b a = None"
  by (auto simp: get_fx_rate_def Let_def truthy_def split: option.splits)

lemma get_fx_rate_nonneg:
  assumes "\<And>r. r \<in> set (md_fx_rates md) \<Longrightarrow> 0 \<le> fxr_rate r" and "get_fx_rate md a b = Some x"
  shows "0 < x"
proof -
  have "0 \<le> y" if "first_rate md p = Some y" for p y
    using that assms(1) by (auto simp: first_rate_def dest!: find_SomeD)
  then have "0 \<le> x"
    using assms(2) by (auto simp: get_fx_rate_def Let_def truthy_def less_eq_dec_def
        intro!: ctx28.rnd_nonneg split: if_splits option.splits)
  with get_fx_rate_nonzero [OF assms(2)] show ?thesis by simp
qed


subsection \<open>Data-quality entries of a valuation\<close>

text \<open>The pairs a portfolio needs and the market data does not have, in evaluation order.\<close>

definition fx_gap :: "MarketDataSnapshot \<Rightarrow> string \<Rightarrow> string \<Rightarrow> string list" where
  "fx_gap md base_ccy ccy =
     (if get_fx_rate md ccy base_ccy = None then [fx_pair_key ccy base_ccy] else [])"

definition position_currency ::
  "MarketDataSnapshot \<Rightarrow> string \<Rightarrow> EngineOptions \<Rightarrow> Position \<Rightarrow> string" where
  "position_currency md base_ccy options position =
     position_valuation_currency position (position_price position md) base_ccy options"

definition unpriced :: "MarketDataSnapshot \<Rightarrow> Position list \<Rightarrow> string list" where
  "unpriced md positions =
     filter (\<lambda>i. i \<notin> set (map price_instrument_id (md_prices md))) (map pos_instrument_id positions)"

lemma ps_currency_value_position [simp]:
  "ps_instrument_currency (value_position p md base options) = position_currency md base options p"
  "ps_instrument_id (value_position p md base options) = pos_instrument_id p"
  "ps_quantity (value_position p md base options) = pos_quantity p"
  by (simp_all add: value_position_def position_currency_def Let_def)

lemma record_position_fx_gap_bucket:
  "dq_bucket (record_position_fx_gap s base md dq) b =
     dq_bucket dq b @ (if b = ''fx_missing'' then fx_gap md base (ps_instrument_currency s) else [])"
  by (simp add: record_position_fx_gap_def fx_gap_def)

lemma valued_position_summaries_spec:
  fixes portfolio md options
  defines "base \<equiv> pf_base_currency portfolio"
  shows "valued_position_summaries portfolio md options dq = (ss, tv, dq') \<Longrightarrow>
    ss = map (\<lambda>p. value_position p md base options) (pf_positions portfolio)
    \<and> tv = dsum (map (amount \<circ> ps_value_in_base_ccy) ss)
    \<and> dq_bucket dq' b = dq_bucket dq b
        @ (if b = ''price_missing'' then unpriced md (pf_positions portfolio) else [])
        @ (if b = ''fx_missing''
           then concat (map (fx_gap md base \<circ> position_currency md base options) (pf_positions portfolio))
           else [])"
  unfolding valued_position_summaries_def Let_def unpriced_def base_def [symmetric]
proof (induction "pf_positions portfolio" arbitrary: ss tv dq' portfolio rule: rev_induct)
  case Nil
  then show ?case by simp
next
  case (snoc p ps)
  define pf where "pf = portfolio\<lparr>pf_positions := ps\<rparr>"
  have pf: "ps = pf_positions pf" by (simp add: pf_def)
  show ?case
    using snoc.prems snoc.hyps(1) [OF pf] snoc.hyps(2) [symmetric]
    by (auto simp: pf [symmetric] record_position_fx_gap_bucket split: prod.splits if_splits)
qed

text \<open>The base-currency value of one cash balance; a missing rate values it at zero.\<close>

definition cash_base_value :: "MarketDataSnapshot \<Rightarrow> string \<Rightarrow> CashBalance \<Rightarrow> dec" where
  "cash_base_value md base_ccy cash = fst (cash_value_in_base cash md base_ccy None)"

lemma cash_value_in_base_eq:
  "cash_value_in_base c md base dq =
     (cash_base_value md base c,
      map_option (fold (dq_append ''fx_missing'') (fx_gap md base (cash_currency c))) dq)"
  by (cases dq) (simp_all add: cash_base_value_def cash_value_in_base_def fx_gap_def Let_def)

lemma total_cash_value_eq:
  "total_cash_value cs md base dq =
     (dsum (map (cash_base_value md base) cs),
      map_option (fold (dq_append ''fx_missing'') (concat (map (fx_gap md base \<circ> cash_currency) cs))) dq)"
proof (induction cs rule: rev_induct)
  case Nil
  then show ?case by (cases dq) (simp_all add: total_cash_value_def)
next
  case (snoc c cs)
  then show ?case
    by (cases dq) (simp_all add: total_cash_value_def cash_value_in_base_eq)
qed

lemma dq_bucket_fold_append:
  "dq_bucket (fold (dq_append b) ks dq) b' = dq_bucket dq b' @ (if b' = b then ks else [])"
  by (induction ks arbitrary: dq) auto

lemma position_allocation_maps_positions:
  "position_allocation_maps ss shelf = (out, bc, ba) \<Longrightarrow>
    map ps_instrument_id out = map ps_instrument_id ss \<and> map ps_quantity out = map ps_quantity ss
    \<and> map ps_weight out = map ps_weight ss
    \<and> map ps_value_in_base_ccy out = map ps_value_in_base_ccy ss"
  unfolding position_allocation_maps_def Let_def
  by (induction ss arbitrary: out bc ba rule: rev_induct)
    (force split: prod.splits option.splits)+

text \<open>The complete effect of a valuation on its summaries and on the data-quality log.\<close>

lemma build_simulated_state_spec:
  fixes portfolio md options dq shelf b
  assumes "build_simulated_state portfolio md shelf dq (Some options) = (state, dq')"
  defines "base \<equiv> pf_base_currency portfolio" and "ps \<equiv> pf_positions portfolio"
    and "cs \<equiv> pf_cash_balances portfolio"
  shows "map ps_instrument_id (ss_positions state) = map pos_instrument_id ps"
    and "map ps_quantity (ss_positions state) = map pos_quantity ps"
    and "ss_cash_balances state = cs"
    and "amount (ss_total_value state)
         = dsum (map (\<lambda>p. amount (ps_value_in_base_ccy (value_position p md base options))) ps)
           + dsum (map (cash_base_value md base) cs)"
    and "dq_bucket dq' b = dq_bucket dq b
        @ (if b = ''price_missing'' then unpriced md ps else [])
        @ (if b = ''fx_missing''
           then concat (map (fx_gap md base \<circ> position_currency md base options) ps)
                @ concat (map (fx_gap md base \<circ> cash_currency) cs)
           else [])"
    and "map am_key (ss_allocation_by_instrument state) = map pos_instrument_id ps"
    and "map am_weight (ss_allocation_by_instrument state) = map ps_weight (ss_positions state)"
proof -
  obtain ss tv dq1 where v: "valued_position_summaries portfolio md options dq = (ss, tv, dq1)"
    by (metis prod_cases3)
  note vs = valued_position_summaries_spec [OF v, folded base_def ps_def]
  define ts where "ts = safe_total_value (tv + dsum (map (cash_base_value md base) cs))"
  define ss1 where "ss1 = map (\<lambda>p. p\<lparr>ps_weight := amount (ps_value_in_base_ccy p) / ts\<rparr>) ss"
  obtain out bc ba where al: "position_allocation_maps ss1 shelf = (out, bc, ba)"
    by (metis prod_cases3)
  note outs = position_allocation_maps_positions [OF al]
  have ids: "map ps_instrument_id ss1 = map pos_instrument_id ps"
    and qs: "map ps_quantity ss1 = map pos_quantity ps"
    using vs by (simp_all add: ss1_def comp_def)
  note eqs = assms(1) [unfolded build_simulated_state_def valuation_options_def Let_def
      option.case v total_cash_value_eq base_def [symmetric] cs_def [symmetric] prod.case
      ts_def [symmetric] ss1_def [symmetric] al option.map option.sel fst_conv]
  from eqs outs ids show "map ps_instrument_id (ss_positions state) = map pos_instrument_id ps"
    by (auto simp: v al ts_def [symmetric] ss1_def [symmetric])
  from eqs outs qs show "map ps_quantity (ss_positions state) = map pos_quantity ps" by auto
  from eqs show "ss_cash_balances state = cs" by auto
  from eqs vs show "amount (ss_total_value state)
         = dsum (map (\<lambda>p. amount (ps_value_in_base_ccy (value_position p md base options))) ps)
           + dsum (map (cash_base_value md base) cs)" by (auto simp: comp_def)
  from eqs vs [of b] show "dq_bucket dq' b = dq_bucket dq b
        @ (if b = ''price_missing'' then unpriced md ps else [])
        @ (if b = ''fx_missing''
           then concat (map (fx_gap md base \<circ> position_currency md base options) ps)
                @ concat (map (fx_gap md base \<circ> cash_currency) cs)
           else [])" by (auto simp: dq_bucket_fold_append)
  from eqs outs ids show "map am_key (ss_allocation_by_instrument state) = map pos_instrument_id ps"
    by (auto simp: comp_def)
  from eqs show "map am_weight (ss_allocation_by_instrument state) = map ps_weight (ss_positions state)"
    by (auto simp: comp_def)
qed


section \<open>Properties\<close>

text \<open>
  The rate of a currency pair: one for the same currency; otherwise the first quote of the
  direct pair if it is not zero, else the reciprocal of the first quote of the inverse pair, else
  none. A rate exists in one direction exactly when it exists in the other, is never zero, and is
  positive when the quotes are not negative.
\<close>

theorem fx_rate_lookup:
  assumes "\<forall>r \<in> set (md_fx_rates md). 0 \<le> fxr_rate r"
  shows "get_fx_rate md a a = Some 1
    \<and> (get_fx_rate md a b = None \<longleftrightarrow> get_fx_rate md b a = None)
    \<and> (a \<noteq> b \<longrightarrow> (get_fx_rate md a b = None \<longleftrightarrow>
          \<not> truthy (first_rate md (fx_pair_key a b)) \<and> \<not> truthy (first_rate md (fx_pair_key b a))))
    \<and> (\<forall>x. get_fx_rate md a b = Some x \<longrightarrow> 0 < x)"
  using get_fx_rate_None_sym [of md a b] get_fx_rate_nonneg [of md a b] assms
  by (auto simp: get_fx_rate_def [of md a b] Let_def truthy_def split: option.splits)

theorem fx_rate_lookup_witness:
  "\<exists>x. get_fx_rate (sample_market\<lparr>md_fx_rates := [\<lparr> fxr_pair = ''EUR/USD'', fxr_rate = Dec (5 / 4) \<rparr>]\<rparr>)
         ''USD'' ''EUR'' = Some x \<and> 0 < x"
proof -
  let ?md = "sample_market\<lparr>md_fx_rates := [\<lparr> fxr_pair = ''EUR/USD'', fxr_rate = Dec (5 / 4) \<rparr>]\<rparr>"
  have "get_fx_rate ?md ''USD'' ''EUR'' = Some (Dec (4 / 5))" by code_simp
  with fx_rate_lookup [of ?md "''USD''" "''EUR''"] show ?thesis by (simp add: dec_order_defs)
qed

text \<open>
  Valuation. The summaries follow the positions one to one and keep the quantities, the total
  is the sum of the base values of positions and cash, and every gap is recorded: each held
  instrument without a price and each position or cash currency without a rate appears in the
  data-quality log, in order, after what was there.
\<close>

theorem valuation_complete:
  assumes "build_simulated_state portfolio md shelf dq (Some options) = (state, dq')"
  shows "map ps_instrument_id (ss_positions state) = map pos_instrument_id (pf_positions portfolio)
    \<and> map ps_quantity (ss_positions state) = map pos_quantity (pf_positions portfolio)
    \<and> ss_cash_balances state = pf_cash_balances portfolio
    \<and> amount (ss_total_value state)
        = dsum (map (\<lambda>p. amount (ps_value_in_base_ccy (value_position p md (pf_base_currency portfolio) options)))
                 (pf_positions portfolio))
          + dsum (map (cash_base_value md (pf_base_currency portfolio)) (pf_cash_balances portfolio))
    \<and> dq_bucket dq' ''price_missing'' = dq_bucket dq ''price_missing'' @ unpriced md (pf_positions portfolio)
    \<and> dq_bucket dq' ''fx_missing'' = dq_bucket dq ''fx_missing''
        @ concat (map (fx_gap md (pf_base_currency portfolio)
                       \<circ> position_currency md (pf_base_currency portfolio) options) (pf_positions portfolio))
        @ concat (map (fx_gap md (pf_base_currency portfolio) \<circ> cash_currency) (pf_cash_balances portfolio))"
  using build_simulated_state_spec(1-4) [OF assms] build_simulated_state_spec(5) [OF assms, of "''price_missing''"]
    build_simulated_state_spec(5) [OF assms, of "''fx_missing''"]
  by (simp del: map_map)

theorem valuation_complete_witness:
  "amount (ss_total_value (fst (build_simulated_state sample_portfolio sample_market sample_shelf []
     (Some EngineOptions_default)))) = Dec 2000"
proof -
  obtain st dq where b: "build_simulated_state sample_portfolio sample_market sample_shelf []
     (Some EngineOptions_default) = (st, dq)" by fastforce
  have "dsum (map (\<lambda>p. amount (ps_value_in_base_ccy
          (value_position p sample_market (pf_base_currency sample_portfolio) EngineOptions_default)))
          (pf_positions sample_portfolio))
      + dsum (map (cash_base_value sample_market (pf_base_currency sample_portfolio))
          (pf_cash_balances sample_portfolio)) = Dec 2000" by code_simp
  with valuation_complete [OF b] b show ?thesis by simp
qed

end
