(* ===== verification/Universe.thy ===== *)
theory Universe
  imports Valuation
begin

text \<open>
  Stage 2 of the engine (\<open>src/src/core/rebalance/universe.py\<close>): filtering the model
  targets by shelf status, and locking or selling down the holdings the model does not
  mention. The mutable locals of the Python functions are the fields of \<open>UniverseAcc\<close>. The
  log is created by \<open>make_diagnostics_data\<close>, so its \<open>shelf_missing\<close> bucket always exists.
\<close>


section \<open>Definitions\<close>

record UniverseAcc =
  ua_eligible :: "(string, dec) dict"
  ua_excluded :: "ExcludedInstrument list"
  ua_buy :: "string list"
  ua_sell :: "string list"
  ua_excess :: dec
  ua_dq :: dq_log

definition exclude :: "string \<Rightarrow> string \<Rightarrow> ExcludedInstrument" where
  "exclude instrument reason =
     \<lparr> ei_instrument_id = instrument, ei_reason_code = reason, ei_details = None \<rparr>"

definition model_target_exclusion_reason :: "ShelfEntry \<Rightarrow> EngineOptions \<Rightarrow> string option" where
  "model_target_exclusion_reason entry options =
     (if shelf_status entry = BANNED \<or> shelf_status entry = SUSPENDED
      then Some (''SHELF_STATUS_'' @ shelf_status_str (shelf_status entry))
      else if shelf_status entry = RESTRICTED \<and> \<not> allow_restricted options
      then Some ''SHELF_STATUS_RESTRICTED''
      else None)"

definition add_model_target_to_universe ::
  "(string, ShelfEntry) dict \<Rightarrow> EngineOptions \<Rightarrow> ModelTarget \<Rightarrow> UniverseAcc \<Rightarrow> UniverseAcc \<times> dec" where
  "add_model_target_to_universe shelf_by_id options target acc =
     (let i = mt_instrument_id target
      in case dict_get shelf_by_id i of
           None \<Rightarrow> (acc\<lparr>ua_dq := dq_append ''shelf_missing'' i (ua_dq acc)\<rparr>, 0)
         | Some entry \<Rightarrow>
             (case model_target_exclusion_reason entry options of
                Some reason \<Rightarrow> (acc\<lparr>ua_excluded := ua_excluded acc @ [exclude i reason]\<rparr>, 0)
              | None \<Rightarrow>
                  if shelf_status entry = SELL_ONLY
                  then (acc\<lparr> ua_eligible := dict_set i 0 (ua_eligible acc),
                             ua_sell := ua_sell acc @ [i],
                             ua_excluded := ua_excluded acc @ [exclude i ''SHELF_STATUS_SELL_ONLY''] \<rparr>,
                        mt_weight target)
                  else (acc\<lparr> ua_eligible := dict_set i (mt_weight target) (ua_eligible acc),
                             ua_buy := ua_buy acc @ [i],
                             ua_sell := ua_sell acc @ [i] \<rparr>, 0)))"

definition current_position_weight :: "SimulatedState \<Rightarrow> string \<Rightarrow> dec option" where
  "current_position_weight current_val instrument =
     map_option ps_weight (List.find (\<lambda>p. ps_instrument_id p = instrument) (ss_positions current_val))"

definition locked_position_reason :: "ShelfEntry option \<Rightarrow> string option" where
  "locked_position_reason entry =
     (case entry of
        None \<Rightarrow> Some ''LOCKED_DUE_TO_MISSING_SHELF''
      | Some e \<Rightarrow>
          if shelf_status e \<in> {SUSPENDED, BANNED, RESTRICTED}
          then Some (''LOCKED_DUE_TO_'' @ shelf_status_str (shelf_status e)) else None)"

definition add_portfolio_position_to_universe ::
  "(string, ShelfEntry) dict \<Rightarrow> SimulatedState \<Rightarrow> Position \<Rightarrow> UniverseAcc \<Rightarrow> UniverseAcc" where
  "add_portfolio_position_to_universe shelf_by_id current_val position acc =
     (let i = pos_instrument_id position
      in if pos_quantity position = 0 \<or> i \<in> set (dict_keys (ua_eligible acc)) then acc
         else case locked_position_reason (dict_get shelf_by_id i) of
           Some locked_reason \<Rightarrow>
             (case current_position_weight current_val i of
                None \<Rightarrow> acc
              | Some current_weight \<Rightarrow>
                  acc\<lparr> ua_eligible := dict_set i current_weight (ua_eligible acc),
                       ua_excluded := ua_excluded acc @ [exclude i locked_reason] \<rparr>)
         | None \<Rightarrow>
             acc\<lparr> ua_eligible := dict_set i 0 (ua_eligible acc), ua_sell := ua_sell acc @ [i] \<rparr>)"

definition build_universe ::
  "ModelPortfolio \<Rightarrow> PortfolioSnapshot \<Rightarrow> ShelfEntry list \<Rightarrow> EngineOptions \<Rightarrow> dq_log
     \<Rightarrow> SimulatedState \<Rightarrow> UniverseAcc" where
  "build_universe model portfolio shelf options dq current_val =
     (let shelf_by_id = shelf_by_instrument shelf;
          acc0 = \<lparr> ua_eligible = [], ua_excluded = [], ua_buy = [], ua_sell = [], ua_excess = 0,
                   ua_dq = dq \<rparr>;
          acc1 = fold (\<lambda>target acc.
                         let (acc', w) = add_model_target_to_universe shelf_by_id options target acc
                         in acc'\<lparr>ua_excess := ua_excess acc' + w\<rparr>)
                   (mp_targets model) acc0
      in fold (add_portfolio_position_to_universe shelf_by_id current_val)
           (pf_positions portfolio) acc1)"


section \<open>Lemmas\<close>

text \<open>An instrument the shelf lets the engine buy.\<close>

definition buyable :: "ShelfEntry list \<Rightarrow> EngineOptions \<Rightarrow> string \<Rightarrow> bool" where
  "buyable shelf options i \<longleftrightarrow>
     (\<exists>e. dict_get (shelf_by_instrument shelf) i = Some e
        \<and> (shelf_status e = APPROVED \<or> shelf_status e = RESTRICTED \<and> allow_restricted options))"

text \<open>A holding of which the engine may not trade: no shelf entry, or a blocked status.\<close>

definition locked :: "ShelfEntry list \<Rightarrow> string \<Rightarrow> bool" where
  "locked shelf i \<longleftrightarrow>
     (case dict_get (shelf_by_instrument shelf) i of
        None \<Rightarrow> True
      | Some e \<Rightarrow> shelf_status e \<in> {SUSPENDED, BANNED, RESTRICTED})"

lemma locked_reason_iff:
  "locked_position_reason (dict_get (shelf_by_instrument shelf) i) = None \<longleftrightarrow> \<not> locked shelf i"
  by (auto simp: locked_position_reason_def locked_def split: option.splits)

text \<open>
  The invariant of both loops. A sellable instrument is buyable, sell-only or an approved
  holding; every eligible instrument is buyable, sellable or a locked holding at its current
  weight.
\<close>

definition universe_inv ::
  "ShelfEntry list \<Rightarrow> EngineOptions \<Rightarrow> SimulatedState \<Rightarrow> UniverseAcc \<Rightarrow> bool" where
  "universe_inv shelf options current acc \<longleftrightarrow>
     dict_ok (ua_eligible acc)
     \<and> (\<forall>i \<in> set (ua_buy acc). buyable shelf options i)
     \<and> (\<forall>i \<in> set (ua_sell acc). buyable shelf options i \<or> \<not> locked shelf i)
     \<and> set (ua_buy acc) \<union> set (ua_sell acc) \<subseteq> set (dict_keys (ua_eligible acc))
     \<and> (\<forall>i w. dict_get (ua_eligible acc) i = Some w \<longrightarrow> i \<notin> set (ua_sell acc) \<longrightarrow>
          locked shelf i \<and> current_position_weight current i = Some w)"

lemma exclusion_None_iff:
  "model_target_exclusion_reason e options = None \<longleftrightarrow>
     shelf_status e = APPROVED \<or> shelf_status e = SELL_ONLY
     \<or> shelf_status e = RESTRICTED \<and> allow_restricted options"
  by (cases "shelf_status e") (auto simp: model_target_exclusion_reason_def)

text \<open>Writing a sellable instrument, or a locked holding at its current weight, keeps it.\<close>

lemma universe_inv_sellable:
  assumes "universe_inv shelf options current acc"
    and "buyable shelf options i \<or> \<not> locked shelf i"
    and "set b \<subseteq> {i} \<and> (b \<noteq> [] \<longrightarrow> buyable shelf options i)"
  shows "universe_inv shelf options current
     (acc\<lparr> ua_eligible := dict_set i w (ua_eligible acc), ua_buy := ua_buy acc @ b,
           ua_sell := ua_sell acc @ [i], ua_excluded := ex, ua_excess := x \<rparr>)"
  using assms unfolding universe_inv_def
  by (auto simp: dict_get_set dict_ok_set dict_keys_set simp del: map_of_eq_Some_iff Some_eq_map_of_iff
      split: if_splits)

lemma universe_inv_locked:
  assumes "universe_inv shelf options current acc"
    and "locked shelf i" "current_position_weight current i = Some w"
  shows "universe_inv shelf options current
     (acc\<lparr> ua_eligible := dict_set i w (ua_eligible acc), ua_excluded := ex \<rparr>)"
  using assms unfolding universe_inv_def
  by (auto simp: dict_get_set dict_ok_set dict_keys_set simp del: map_of_eq_Some_iff Some_eq_map_of_iff
      split: if_splits)

lemma universe_inv_model_target:
  assumes "universe_inv shelf options current acc"
    and "add_model_target_to_universe (shelf_by_instrument shelf) options t acc = (acc', w)"
  shows "universe_inv shelf options current (acc'\<lparr>ua_excess := x\<rparr>)"
proof -
  let ?i = "mt_instrument_id t"
  show ?thesis
  proof (cases "dict_get (shelf_by_instrument shelf) ?i")
    case None
    with assms show ?thesis
      by (auto simp: add_model_target_to_universe_def universe_inv_def Let_def)
  next
    case (Some e)
    show ?thesis
    proof (cases "model_target_exclusion_reason e options")
      case (Some r)
      with \<open>dict_get _ _ = Some e\<close> assms show ?thesis
        by (auto simp: add_model_target_to_universe_def universe_inv_def Let_def)
    next
      case None
      have b: "shelf_status e \<noteq> SELL_ONLY \<Longrightarrow> buyable shelf options ?i"
        and s: "buyable shelf options ?i \<or> \<not> locked shelf ?i"
        using None Some by (auto simp: exclusion_None_iff buyable_def locked_def)
      note sellable = universe_inv_sellable [OF assms(1) s]
      from None Some assms(2) show ?thesis
        using sellable [of "[]" x _ 0] sellable [of "[?i]" x "ua_excluded acc" "mt_weight t"] b
        by (auto simp: add_model_target_to_universe_def Let_def split: if_splits)
    qed
  qed
qed

lemma universe_inv_position:
  assumes "universe_inv shelf options current acc"
  shows "universe_inv shelf options current
           (add_portfolio_position_to_universe (shelf_by_instrument shelf) current p acc)"
proof -
  let ?i = "pos_instrument_id p"
  note set_unlocked = universe_inv_sellable [OF assms, of ?i "[]" "ua_excess acc" "ua_excluded acc" 0]
  note set_locked = universe_inv_locked [OF assms, of ?i]
  show ?thesis
    using assms set_unlocked set_locked locked_reason_iff [of shelf ?i]
    by (auto simp: add_portfolio_position_to_universe_def Let_def split: option.splits)
qed

lemma build_universe_inv:
  "universe_inv shelf options current (build_universe model portfolio shelf options dq current)"
proof -
  let ?f = "\<lambda>target acc. case add_model_target_to_universe (shelf_by_instrument shelf) options target acc of
                    (acc', w) \<Rightarrow> acc'\<lparr>ua_excess := ua_excess acc' + w\<rparr>"
  have "universe_inv shelf options current (fold ?f ts acc)"
    if "universe_inv shelf options current acc" for ts acc
    using that
  proof (induction ts arbitrary: acc)
    case (Cons t ts)
    obtain acc' w where "add_model_target_to_universe (shelf_by_instrument shelf) options t acc = (acc', w)"
      by fastforce
    with Cons.IH [OF universe_inv_model_target [OF Cons.prems this]] show ?case by simp
  qed simp
  moreover have "universe_inv shelf options current
      (fold (add_portfolio_position_to_universe (shelf_by_instrument shelf) current) ps acc)"
    if "universe_inv shelf options current acc" for ps acc
    using that by (induction ps arbitrary: acc) (auto intro: universe_inv_position)
  moreover have "universe_inv shelf options current
      \<lparr> ua_eligible = [], ua_excluded = [], ua_buy = [], ua_sell = [], ua_excess = 0, ua_dq = dq \<rparr>"
    by (simp add: universe_inv_def)
  ultimately show ?thesis unfolding build_universe_def Let_def by blast
qed

text \<open>Stage 2 writes no bucket of the data-quality log but \<open>shelf_missing\<close>.\<close>

lemma add_model_target_dq:
  "add_model_target_to_universe by_id options t acc = (acc', w) \<Longrightarrow>
     dq_bucket (ua_dq acc') b = dq_bucket (ua_dq acc) b
       @ (if b = ''shelf_missing'' \<and> dict_get by_id (mt_instrument_id t) = None
          then [mt_instrument_id t] else [])"
  by (auto simp: add_model_target_to_universe_def Let_def split: option.splits if_splits)

lemma add_position_dq [simp]:
  "ua_dq (add_portfolio_position_to_universe by_id current p acc) = ua_dq acc"
  by (simp add: add_portfolio_position_to_universe_def Let_def split: option.splits)

lemma build_universe_dq:
  "dq_bucket (ua_dq (build_universe model portfolio shelf options dq current)) b = dq_bucket dq b
     @ (if b = ''shelf_missing''
        then filter (\<lambda>i. dict_get (shelf_by_instrument shelf) i = None)
               (map mt_instrument_id (mp_targets model)) else [])"
proof -
  let ?f = "\<lambda>target acc. case add_model_target_to_universe (shelf_by_instrument shelf) options target acc of
                    (acc', w) \<Rightarrow> acc'\<lparr>ua_excess := ua_excess acc' + w\<rparr>"
  have 1: "dq_bucket (ua_dq (fold ?f ts acc)) b = dq_bucket (ua_dq acc) b
     @ (if b = ''shelf_missing''
        then filter (\<lambda>i. dict_get (shelf_by_instrument shelf) i = None) (map mt_instrument_id ts)
        else [])" for ts acc
  proof (induction ts arbitrary: acc)
    case (Cons t ts)
    obtain acc' w where "add_model_target_to_universe (shelf_by_instrument shelf) options t acc = (acc', w)"
      by fastforce
    with add_model_target_dq [OF this, of b] Cons show ?case by simp
  qed simp
  have 2: "ua_dq (fold (add_portfolio_position_to_universe (shelf_by_instrument shelf) current) ps acc)
      = ua_dq acc" for ps acc
    by (induction ps arbitrary: acc) simp_all
  show ?thesis unfolding build_universe_def Let_def 2 1 by simp
qed


section \<open>Properties\<close>

text \<open>
  The investable universe. Everything on the buy list is approved, or restricted with the
  option that allows it; everything on the sell list is buyable or not locked; a target that is
  on no sell list is a locked holding that keeps exactly its current weight; every model target
  without a shelf entry is logged.
\<close>

theorem universe_respects_shelf:
  fixes model portfolio shelf options dq current
  defines "u \<equiv> build_universe model portfolio shelf options dq current"
  shows "(\<forall>i \<in> set (ua_buy u). buyable shelf options i)
    \<and> (\<forall>i \<in> set (ua_sell u). buyable shelf options i \<or> \<not> locked shelf i)
    \<and> set (ua_buy u) \<union> set (ua_sell u) \<subseteq> set (dict_keys (ua_eligible u))
    \<and> (\<forall>i w. dict_get (ua_eligible u) i = Some w \<longrightarrow> i \<notin> set (ua_sell u) \<longrightarrow>
          locked shelf i \<and> current_position_weight current i = Some w)
    \<and> dq_bucket (ua_dq u) ''shelf_missing'' = dq_bucket dq ''shelf_missing''
        @ filter (\<lambda>i. dict_get (shelf_by_instrument shelf) i = None) (map mt_instrument_id (mp_targets model))"
  using build_universe_inv [of shelf options current model portfolio dq]
    build_universe_dq [of model portfolio shelf options dq current "''shelf_missing''"]
  unfolding universe_inv_def u_def by simp

theorem universe_respects_shelf_witness:
  "let u = build_universe sample_model sample_portfolio [listed ''A'' SUSPENDED [], listed ''B'' APPROVED []]
             EngineOptions_default []
             (fst (build_simulated_state sample_portfolio sample_market sample_shelf [] (Some EngineOptions_default)))
   in dict_get (ua_eligible u) ''A'' = Some (Dec (1 / 2)) \<and> ''A'' \<notin> set (ua_sell u)
      \<and> locked [listed ''A'' SUSPENDED [], listed ''B'' APPROVED []] ''A''"
proof -
  let ?s = "[listed ''A'' SUSPENDED [], listed ''B'' APPROVED []]"
  let ?c = "fst (build_simulated_state sample_portfolio sample_market sample_shelf [] (Some EngineOptions_default))"
  let ?u = "build_universe sample_model sample_portfolio ?s EngineOptions_default [] ?c"
  have "dict_get (ua_eligible ?u) ''A'' = Some (Dec (1 / 2))" and "''A'' \<notin> set (ua_sell ?u)" by code_simp+
  with universe_respects_shelf [where model = sample_model and portfolio = sample_portfolio and shelf = ?s
      and options = EngineOptions_default and dq = "[]" and current = ?c]
  show ?thesis unfolding Let_def by blast
qed

end
