(* ===== verification/Target_Generation.thy ===== *)
theory Target_Generation
  imports Universe
begin

text \<open>
  Target generation by the convex solver (\<open>src/src/core/target_generation.py\<close>), the target
  trace both methods return, and the two helpers the methods share
  (\<open>common/target_redistribution.py\<close>, \<open>common/cash_reserve_policy.py\<close>).

  The optional packages \<open>cvxpy\<close> and \<open>numpy\<close> are not part of the repository: they are the
  parameter \<open>SolverModules\<close>, which says whether they can be found and imported, which solvers
  are installed and what one call of \<open>Problem.solve\<close> does. The problem handed to the solver is
  the record \<open>SolverProblem\<close>; its numbers are the decimals before \<open>float(...)\<close>.
  \<open>Variable.value\<close> is set by the latest call of \<open>solve\<close> that returned, so it travels with the
  latest status.
\<close>


section \<open>Shared helpers\<close>

definition redistribute_sell_only_excess ::
  "(string, dec) dict \<Rightarrow> string list \<Rightarrow> dec \<Rightarrow> (string, dec) dict \<times> RunStatus" where
  "redistribute_sell_only_excess eligible buys sell_only_excess =
     (if sell_only_excess \<le> 0 then (eligible, READY)
      else let recipients = filter (\<lambda>(k, v). k \<in> set buys) eligible;
               total = dsum (dict_values recipients)
           in if total \<le> 0 then (eligible, PENDING_REVIEW)
              else (fold (\<lambda>(i, w) d. dict_set i (w + sell_only_excess * (w / total)) d)
                      recipients eligible, READY))"

definition effective_cash_reserve_floor :: "EngineOptions \<Rightarrow> dec" where
  "effective_cash_reserve_floor options =
     max (min_cash_buffer_pct options)
       (case cash_reserve_target_weight options of None \<Rightarrow> 0 | Some t \<Rightarrow> t)"

definition shelf_attrs_by_id :: "ShelfEntry list \<Rightarrow> (string, (string, string) dict) dict" where
  "shelf_attrs_by_id shelf = dict_of (map (\<lambda>s. (shelf_instrument_id s, shelf_attributes s)) shelf)"

definition known_attr_keys :: "ShelfEntry list \<Rightarrow> string list" where
  "known_attr_keys shelf = concat (map dict_keys (dict_values (shelf_attrs_by_id shelf)))"


section \<open>Target trace\<close>

definition model_target_trace_row :: "ModelTarget \<Rightarrow> dec \<Rightarrow> dec \<Rightarrow> string \<Rightarrow> TargetInstrument" where
  "model_target_trace_row target final_weight total_val base_ccy =
     \<lparr> ti_instrument_id = mt_instrument_id target,
       ti_model_weight = mt_weight target,
       ti_final_weight = final_weight,
       ti_final_value = \<lparr>amount = total_val * final_weight, currency = base_ccy\<rparr>,
       ti_tags = (if final_weight < mt_weight target then [''CAPPED_BY_MAX_WEIGHT''] else [])
         @ (if mt_weight target < final_weight then [''REDISTRIBUTED_RECIPIENT''] else []) \<rparr>"

definition non_model_target_trace_tag :: "string \<Rightarrow> dec \<Rightarrow> string list \<Rightarrow> string" where
  "non_model_target_trace_tag i final_weight buys =
     (if i \<in> set buys \<or> final_weight = 0 then ''IMPLICIT_SELL_TO_ZERO'' else ''LOCKED_POSITION'')"

definition non_model_target_trace_row ::
  "string \<Rightarrow> dec \<Rightarrow> string list \<Rightarrow> dec \<Rightarrow> string \<Rightarrow> TargetInstrument" where
  "non_model_target_trace_row i final_weight buys total_val base_ccy =
     \<lparr> ti_instrument_id = i,
       ti_model_weight = 0,
       ti_final_weight = final_weight,
       ti_final_value = \<lparr>amount = total_val * final_weight, currency = base_ccy\<rparr>,
       ti_tags = [non_model_target_trace_tag i final_weight buys] \<rparr>"

definition build_target_trace ::
  "ModelPortfolio \<Rightarrow> (string, dec) dict \<Rightarrow> string list \<Rightarrow> dec \<Rightarrow> string \<Rightarrow> TargetInstrument list" where
  "build_target_trace model eligible buys total_val base_ccy =
     (let model_ids = map mt_instrument_id (mp_targets model)
      in map (\<lambda>t. model_target_trace_row t (dict_get_or eligible (mt_instrument_id t) 0) total_val base_ccy)
           (mp_targets model)
         @ map (\<lambda>(i, w). non_model_target_trace_row i w buys total_val base_ccy)
             (filter (\<lambda>(i, w). i \<notin> set model_ids) eligible))"


section \<open>Solver attempts\<close>

type_synonym solve_kwargs = "(string \<times> string) list"

text \<open>One call of \<open>Problem.solve\<close>: one of the handled exceptions, or a status and the value.\<close>

datatype SolveOutcome = SolveRaised | Solved string "dec list option"

record SolverProblem =
  qp_size :: nat
  qp_model_weights :: "dec list"
  qp_invested_min :: dec
  qp_invested_max :: dec
  qp_position_cap :: "dec option"
  qp_group_limits :: "(nat list \<times> dec \<times> dec) list"

record SolverModules =
  sm_dependencies :: bool
  sm_importable :: bool
  sm_installed :: "string list option"
  sm_solve :: "SolverProblem \<Rightarrow> string \<Rightarrow> solve_kwargs \<Rightarrow> SolveOutcome"

text \<open>\<open>str.lower\<close> and \<open>str.upper\<close> on ASCII text.\<close>

definition lower_char :: "char \<Rightarrow> char" where
  "lower_char c = (let n = of_char c :: nat in if 65 \<le> n \<and> n \<le> 90 then char_of (n + 32) else c)"

definition upper_char :: "char \<Rightarrow> char" where
  "upper_char c = (let n = of_char c :: nat in if 97 \<le> n \<and> n \<le> 122 then char_of (n - 32) else c)"

definition SOLVER_STATUS_OPTIMAL :: "string list" where
  "SOLVER_STATUS_OPTIMAL = [''optimal'', ''optimal_inaccurate'']"

definition SOLVER_STATUS_INFEASIBLE :: "string list" where
  "SOLVER_STATUS_INFEASIBLE = [''infeasible'', ''infeasible_inaccurate'']"

definition SOLVER_STATUS_UNBOUNDED :: "string list" where
  "SOLVER_STATUS_UNBOUNDED = [''unbounded'', ''unbounded_inaccurate'']"

definition build_solver_attempts :: "(string \<times> solve_kwargs list) list" where
  "build_solver_attempts =
     [(''OSQP'',
       [[(''max_iter'', ''2_000''), (''eps_abs'', ''1e-5''), (''eps_rel'', ''1e-5''), (''time_limit'', ''0.25'')],
        [(''max_iter'', ''2_000''), (''eps_abs'', ''1e-5''), (''eps_rel'', ''1e-5'')],
        [(''max_iter'', ''2_000'')],
        []]),
      (''SCS'',
       [[(''max_iters'', ''5_000''), (''eps'', ''1e-4''), (''time_limit_secs'', ''0.5'')],
        [(''max_iters'', ''5_000''), (''eps'', ''1e-4'')],
        [(''max_iters'', ''5_000'')],
        []])]"

definition installed_solver_names :: "SolverModules \<Rightarrow> string list" where
  "installed_solver_names cp = (case sm_installed cp of None \<Rightarrow> [] | Some names \<Rightarrow> names)"

definition solver_is_available :: "string \<Rightarrow> string list \<Rightarrow> bool" where
  "solver_is_available solver_name installed \<longleftrightarrow> installed = [] \<or> solver_name \<in> set installed"

definition available_solver_attempts :: "string list \<Rightarrow> (string \<times> solve_kwargs list) list" where
  "available_solver_attempts installed =
     filter (\<lambda>(solver_name, kwargs_attempts). solver_is_available solver_name installed)
       build_solver_attempts"

type_synonym solver_status = "(string \<times> dec list option) option"

definition solve_attempt_status ::
  "SolverModules \<Rightarrow> SolverProblem \<Rightarrow> string \<Rightarrow> solve_kwargs \<Rightarrow> solver_status" where
  "solve_attempt_status cp prob solver_name kwargs =
     (case sm_solve cp prob solver_name kwargs of
        SolveRaised \<Rightarrow> None
      | Solved status values \<Rightarrow> Some (map lower_char status, values))"

definition solver_status_is_optimal :: "string \<Rightarrow> bool" where
  "solver_status_is_optimal status \<longleftrightarrow> status \<in> set SOLVER_STATUS_OPTIMAL"

fun solve_solver_attempts ::
  "SolverModules \<Rightarrow> SolverProblem \<Rightarrow> string \<Rightarrow> solve_kwargs list \<Rightarrow> solver_status
     \<Rightarrow> bool \<times> solver_status" where
  "solve_solver_attempts cp prob solver_name [] latest = (False, latest)"
| "solve_solver_attempts cp prob solver_name (kwargs # attempts) latest =
     (case solve_attempt_status cp prob solver_name kwargs of
        None \<Rightarrow> solve_solver_attempts cp prob solver_name attempts latest
      | Some (status, values) \<Rightarrow>
          if solver_status_is_optimal status then (True, Some (status, values))
          else solve_solver_attempts cp prob solver_name attempts (Some (status, values)))"

fun solve_available ::
  "SolverModules \<Rightarrow> SolverProblem \<Rightarrow> (string \<times> solve_kwargs list) list \<Rightarrow> solver_status
     \<Rightarrow> bool \<times> solver_status" where
  "solve_available cp prob [] latest = (False, latest)"
| "solve_available cp prob ((solver_name, attempts) # rest) latest =
     (case solve_solver_attempts cp prob solver_name attempts latest of
        (True, latest') \<Rightarrow> (True, latest')
      | (False, latest') \<Rightarrow> solve_available cp prob rest latest')"

definition solve_with_fallbacks :: "SolverModules \<Rightarrow> SolverProblem \<Rightarrow> bool \<times> solver_status" where
  "solve_with_fallbacks cp prob =
     solve_available cp prob (available_solver_attempts (installed_solver_names cp)) None"

definition solver_failure_reason :: "string option \<Rightarrow> string" where
  "solver_failure_reason latest_status =
     (case latest_status of
        None \<Rightarrow> ''SOLVER_ERROR''
      | Some s \<Rightarrow>
          if s \<in> set SOLVER_STATUS_INFEASIBLE then ''INFEASIBLE_'' @ map upper_char s
          else if s \<in> set SOLVER_STATUS_UNBOUNDED then ''UNBOUNDED_'' @ map upper_char s
          else ''SOLVER_NON_OPTIMAL_'' @ map upper_char s)"


section \<open>The solver's problem\<close>

record SolverTargetUniverse =
  stu_tradeable_ids :: "string list"
  stu_locked_ids :: "string list"
  stu_locked_weight :: dec

definition solver_target_universe :: "(string, dec) dict \<Rightarrow> string list \<Rightarrow> SolverTargetUniverse" where
  "solver_target_universe eligible buy_list =
     (let locked_ids = filter (\<lambda>i. i \<notin> set buy_list) (dict_keys eligible)
      in \<lparr> stu_tradeable_ids = filter (\<lambda>i. i \<in> set buy_list) (dict_keys eligible),
           stu_locked_ids = locked_ids,
           stu_locked_weight = dsum (map (\<lambda>i. the (dict_get eligible i)) locked_ids) \<rparr>)"

record SolverInvestedBounds =
  sib_minimum :: dec
  sib_maximum :: dec

definition solver_invested_bounds :: "dec \<Rightarrow> EngineOptions \<Rightarrow> SolverInvestedBounds" where
  "solver_invested_bounds locked_weight options =
     (let minimum_cash = max (cash_band_min_weight options) (effective_cash_reserve_floor options)
      in \<lparr> sib_minimum = 1 - cash_band_max_weight options - locked_weight,
           sib_maximum = 1 - minimum_cash - locked_weight \<rparr>)"

record SolverGroupMembers =
  sgm_tradeable_ids :: "string list"
  sgm_locked_weight :: dec

definition solver_group_members ::
  "string \<Rightarrow> string \<Rightarrow> (string, dec) dict \<Rightarrow> (string, (string, string) dict) dict \<Rightarrow> string list
     \<Rightarrow> SolverGroupMembers" where
  "solver_group_members attr_key attr_val eligible attrs_by_id tradeable_ids =
     fold (\<lambda>i acc.
             case dict_get attrs_by_id i of
               None \<Rightarrow> acc
             | Some attrs \<Rightarrow>
                 if dict_get attrs attr_key \<noteq> Some attr_val then acc
                 else if i \<in> set tradeable_ids
                 then acc\<lparr>sgm_tradeable_ids := sgm_tradeable_ids acc @ [i]\<rparr>
                 else acc\<lparr>sgm_locked_weight := sgm_locked_weight acc + the (dict_get eligible i)\<rparr>)
       (dict_keys eligible) \<lparr> sgm_tradeable_ids = [], sgm_locked_weight = 0 \<rparr>"

definition infeasibility_capacity_hints :: "nat \<Rightarrow> dec \<Rightarrow> EngineOptions \<Rightarrow> string list" where
  "infeasibility_capacity_hints tradeable_count locked_weight options =
     (let invested_min = 1 - cash_band_max_weight options - locked_weight;
          invested_max = 1 - cash_band_min_weight options - locked_weight
      in (if invested_max < invested_min then [''INFEASIBILITY_HINT_CASH_BAND_CONTRADICTION''] else [])
         @ (case single_position_max_weight options of
              None \<Rightarrow> []
            | Some cap \<Rightarrow>
                if cap * Dec (of_nat tradeable_count) < invested_min
                then [''INFEASIBILITY_HINT_SINGLE_POSITION_CAPACITY''] else []))"

definition collect_infeasibility_hints ::
  "string list \<Rightarrow> dec \<Rightarrow> EngineOptions \<Rightarrow> (string, dec) dict \<Rightarrow> ShelfEntry list \<Rightarrow> string list result" where
  "collect_infeasibility_hints tradeable_ids locked_weight options eligible shelf =
     fold_result
       (\<lambda>key hints.
          case split_once (CHR '':'') key of
            None \<Rightarrow> Inl IndexError
          | Some (attr_key, attr_val) \<Rightarrow>
              let members = solver_group_members attr_key attr_val eligible (shelf_attrs_by_id shelf)
                              tradeable_ids;
                  limit = gc_max_weight (the (dict_get (group_constraints options) key))
              in Inr (if limit < sgm_locked_weight members
                      then hints @ [''INFEASIBILITY_HINT_LOCKED_GROUP_WEIGHT_'' @ key] else hints))
       (sort (dict_keys (group_constraints options)))
       (infeasibility_capacity_hints (length tradeable_ids) locked_weight options)"

definition solver_model_weight_array :: "ModelPortfolio \<Rightarrow> string list \<Rightarrow> dec list" where
  "solver_model_weight_array model tradeable_ids =
     (let model_weights = dict_of (map (\<lambda>t. (mt_instrument_id t, mt_weight t)) (mp_targets model))
      in map (\<lambda>i. dict_get_or model_weights i 0) tradeable_ids)"

text \<open>\<open>{instrument_id: idx for idx, instrument_id in enumerate(tradeable_ids)}\<close>.\<close>

definition indexed_tradeable :: "string list \<Rightarrow> (string, nat) dict" where
  "indexed_tradeable tradeable_ids = dict_of (zip tradeable_ids [0..<length tradeable_ids])"

definition append_solver_group_constraint ::
  "string \<Rightarrow> GroupConstraint \<Rightarrow> (string, dec) dict \<Rightarrow> ShelfEntry list \<Rightarrow> string list
     \<Rightarrow> (nat list \<times> dec \<times> dec) list \<times> DiagnosticsData
     \<Rightarrow> ((nat list \<times> dec \<times> dec) list \<times> DiagnosticsData) result" where
  "append_solver_group_constraint key constraint eligible shelf tradeable_ids st =
     (case split_once (CHR '':'') key of
        None \<Rightarrow> Inl (ValueError key)
      | Some (attr_key, attr_val) \<Rightarrow>
          if attr_key \<notin> set (known_attr_keys shelf)
          then Inr (fst st, add_warning (''UNKNOWN_CONSTRAINT_ATTRIBUTE_'' @ attr_key) (snd st))
          else let members = solver_group_members attr_key attr_val eligible (shelf_attrs_by_id shelf)
                               tradeable_ids
               in if sgm_tradeable_ids members = [] \<and> sgm_locked_weight members = 0 then Inr st
                  else Inr (fst st
                        @ [(map (\<lambda>i. the (dict_get (indexed_tradeable tradeable_ids) i))
                              (sgm_tradeable_ids members),
                            sgm_locked_weight members, gc_max_weight constraint)], snd st))"

definition append_solver_group_constraints ::
  "EngineOptions \<Rightarrow> (string, dec) dict \<Rightarrow> ShelfEntry list \<Rightarrow> string list \<Rightarrow> DiagnosticsData
     \<Rightarrow> ((nat list \<times> dec \<times> dec) list \<times> DiagnosticsData) result" where
  "append_solver_group_constraints options eligible shelf tradeable_ids diag =
     fold_result
       (\<lambda>key. append_solver_group_constraint key (the (dict_get (group_constraints options) key))
                eligible shelf tradeable_ids)
       (sort (dict_keys (group_constraints options))) ([], diag)"

definition build_solver_problem ::
  "ModelPortfolio \<Rightarrow> string list \<Rightarrow> dec \<Rightarrow> (string, dec) dict \<Rightarrow> ShelfEntry list \<Rightarrow> EngineOptions
     \<Rightarrow> DiagnosticsData \<Rightarrow> (SolverProblem \<times> DiagnosticsData) result" where
  "build_solver_problem model tradeable_ids locked_weight eligible shelf options diag =
     bind_result (append_solver_group_constraints options eligible shelf tradeable_ids diag)
       (\<lambda>(limits, diag').
          let bounds = solver_invested_bounds locked_weight options
          in Inr (\<lparr> qp_size = length tradeable_ids,
                    qp_model_weights = solver_model_weight_array model tradeable_ids,
                    qp_invested_min = sib_minimum bounds,
                    qp_invested_max = sib_maximum bounds,
                    qp_position_cap = single_position_max_weight options,
                    qp_group_limits = limits \<rparr>, diag'))"


section \<open>Generating targets\<close>

definition load_solver_modules :: "SolverModules \<Rightarrow> DiagnosticsData \<Rightarrow> bool \<times> DiagnosticsData" where
  "load_solver_modules cp diag =
     (if \<not> sm_dependencies cp then (False, add_warning ''SOLVER_ERROR'' diag)
      else if \<not> sm_importable cp then (False, add_warning ''SOLVER_ERROR'' diag)
      else (True, diag))"

definition apply_solver_values ::
  "dec list \<Rightarrow> string list \<Rightarrow> (string, dec) dict \<Rightarrow> (string, dec) dict result" where
  "apply_solver_values values tradeable_ids eligible =
     fold_result
       (\<lambda>(idx, i) d.
          if length values \<le> idx then Inl IndexError
          else bind_result (dec_quantize 4 (max (values ! idx) 0)) (\<lambda>w. Inr (dict_set i w d)))
       (enumerate 0 tradeable_ids) eligible"

definition record_solver_failure ::
  "string option \<Rightarrow> string list \<Rightarrow> dec \<Rightarrow> EngineOptions \<Rightarrow> (string, dec) dict \<Rightarrow> ShelfEntry list
     \<Rightarrow> DiagnosticsData \<Rightarrow> DiagnosticsData result" where
  "record_solver_failure latest_status tradeable_ids locked_weight options eligible shelf diag =
     (let reason = solver_failure_reason latest_status;
          diag' = add_warning reason diag
      in if take 11 reason = ''INFEASIBLE_''
         then bind_result
                (collect_infeasibility_hints tradeable_ids locked_weight options eligible shelf)
                (\<lambda>hints. Inr (diag'\<lparr>warnings := warnings diag' @ hints\<rparr>))
         else Inr diag')"

text \<open>The mutated \<open>eligible_targets\<close> and diagnostics are returned with the trace and the status.\<close>

record TargetOutcome =
  to_trace :: "TargetInstrument list"
  to_status :: RunStatus
  to_eligible :: "(string, dec) dict"
  to_diag :: DiagnosticsData

definition blocked_targets :: "(string, dec) dict \<Rightarrow> DiagnosticsData \<Rightarrow> TargetOutcome" where
  "blocked_targets eligible diag =
     \<lparr> to_trace = [], to_status = BLOCKED, to_eligible = eligible, to_diag = diag \<rparr>"

definition generate_targets_solver ::
  "SolverModules \<Rightarrow> ModelPortfolio \<Rightarrow> (string, dec) dict \<Rightarrow> string list \<Rightarrow> dec \<Rightarrow> ShelfEntry list
     \<Rightarrow> EngineOptions \<Rightarrow> dec \<Rightarrow> string \<Rightarrow> DiagnosticsData \<Rightarrow> TargetOutcome result" where
  "generate_targets_solver cp model eligible buy_list sell_only_excess shelf options total_val
       base_ccy diag =
     (let (loaded, diag1) = load_solver_modules cp diag
      in if \<not> loaded then Inr (blocked_targets eligible diag1)
         else
           let (elig1, status) = redistribute_sell_only_excess eligible buy_list sell_only_excess;
               u = solver_target_universe elig1 buy_list;
               tradeable_ids = stu_tradeable_ids u;
               locked_weight = stu_locked_weight u
           in if tradeable_ids = []
              then Inr \<lparr> to_trace = build_target_trace model elig1 buy_list total_val base_ccy,
                         to_status = status, to_eligible = elig1, to_diag = diag1 \<rparr>
              else bind_result
                (build_solver_problem model tradeable_ids locked_weight elig1 shelf options diag1)
                (\<lambda>(prob, diag2).
                   case solve_with_fallbacks cp prob of
                     (False, latest) \<Rightarrow>
                       bind_result
                         (record_solver_failure (map_option fst latest) tradeable_ids locked_weight
                            options elig1 shelf diag2)
                         (\<lambda>diag3. Inr (blocked_targets elig1 diag3))
                   | (True, latest) \<Rightarrow>
                       (case snd (the latest) of
                          None \<Rightarrow> Inr (blocked_targets elig1 (add_warning ''SOLVER_ERROR'' diag2))
                        | Some values \<Rightarrow>
                            bind_result (apply_solver_values values tradeable_ids elig1)
                              (\<lambda>elig2. Inr
                                 \<lparr> to_trace = build_target_trace model elig2 buy_list total_val base_ccy,
                                   to_status = status, to_eligible = elig2, to_diag = diag2 \<rparr>))))"


section \<open>Lemmas\<close>

subsection \<open>Redistribution of the sell-only weight\<close>

text \<open>Weights that are not negative and carry at most 28 digits.\<close>

definition weights_ok :: "(string, dec) dict \<Rightarrow> bool" where
  "weights_ok d \<longleftrightarrow> (\<forall>kv \<in> set d. 0 \<le> snd kv \<and> canon (snd kv))"

lemma weights_ok_map:
  assumes "weights_ok d"
    and "\<And>k w. (k, w) \<in> set d \<Longrightarrow> 0 \<le> w \<Longrightarrow> canon w \<Longrightarrow> 0 \<le> f k w \<and> canon (f k w)"
  shows "weights_ok (map (\<lambda>(k, w). (k, f k w)) d)"
  using assms by (fastforce simp: weights_ok_def)

lemma weights_ok_set: "weights_ok d \<Longrightarrow> 0 \<le> w \<Longrightarrow> canon w \<Longrightarrow> weights_ok (dict_set k w d)"
  unfolding weights_ok_def using dict_set_mem by fastforce

lemma weights_ok_get: "weights_ok d \<Longrightarrow> dict_get d k = Some w \<Longrightarrow> 0 \<le> w \<and> canon w"
  unfolding weights_ok_def using map_of_SomeD by fastforce

lemma weights_ok_sum: "weights_ok d \<Longrightarrow> 0 \<le> dsum (dict_values (filter P d))"
  by (auto simp: weights_ok_def intro!: dsum_nonneg)

text \<open>The loop over the recipients rewrites them in place and touches no other entry.\<close>

lemma redistribute_sell_only_excess_eq:
  fixes eligible buys
  assumes "dict_ok eligible"
  defines "tw \<equiv> dsum (dict_values (filter (\<lambda>(k, v). k \<in> set buys) eligible))"
  shows "redistribute_sell_only_excess eligible buys x =
     (if x \<le> 0 then (eligible, READY)
      else if tw \<le> 0 then (eligible, PENDING_REVIEW)
      else (map (\<lambda>(i, w). (i, if i \<in> set buys then w + x * (w / tw) else w)) eligible, READY))"
  unfolding redistribute_sell_only_excess_def Let_def tw_def
  using dict_rewrite_filter [OF assms(1), of "\<lambda>i w. w + x * (w / _)" "\<lambda>(k, v). k \<in> set buys"]
  by (simp add: case_prod_unfold)

lemma redistribute_keys:
  "dict_ok eligible \<Longrightarrow>
     dict_keys (fst (redistribute_sell_only_excess eligible buys x)) = dict_keys eligible"
  by (simp add: redistribute_sell_only_excess_eq case_prod_unfold)

lemma redistribute_nonneg:
  assumes "dict_ok eligible" and "weights_ok eligible"
  shows "weights_ok (fst (redistribute_sell_only_excess eligible buys x))"
  unfolding redistribute_sell_only_excess_eq [OF assms(1)]
  using assms(2) by (auto intro!: weights_ok_map dec_nonneg)

lemma redistribute_status: "snd (redistribute_sell_only_excess eligible buys x) \<noteq> BLOCKED"
  by (simp add: redistribute_sell_only_excess_def Let_def)


subsection \<open>The trace\<close>

lemma build_target_trace_ids:
  "set (map ti_instrument_id (build_target_trace model eligible buys tv base))
     = set (map mt_instrument_id (mp_targets model)) \<union> set (dict_keys eligible)"
  by (force simp: build_target_trace_def Let_def model_target_trace_row_def
      non_model_target_trace_row_def image_iff)

lemma build_target_trace_rows:
  assumes "dict_ok eligible" and "row \<in> set (build_target_trace model eligible buys tv base)"
  shows "ti_final_weight row = dict_get_or eligible (ti_instrument_id row) 0"
    and "ti_final_value row = \<lparr>amount = tv * ti_final_weight row, currency = base\<rparr>"
  using assms
  by (auto simp: build_target_trace_def Let_def model_target_trace_row_def
      non_model_target_trace_row_def dict_get_or_def)


subsection \<open>Solver attempts\<close>

text \<open>The calls of \<open>solve\<close> in order, and what they return when none is skipped.\<close>

definition solver_calls :: "(string \<times> solve_kwargs list) list \<Rightarrow> (string \<times> solve_kwargs) list" where
  "solver_calls attempts = concat (map (\<lambda>(solver_name, ks). map (Pair solver_name) ks) attempts)"

definition solver_outcomes ::
  "SolverModules \<Rightarrow> SolverProblem \<Rightarrow> (string \<times> solve_kwargs list) list
     \<Rightarrow> (string \<times> dec list option) list" where
  "solver_outcomes cp prob attempts =
     List.map_filter (\<lambda>(solver_name, k). solve_attempt_status cp prob solver_name k) (solver_calls attempts)"

text \<open>The first optimal outcome wins; without one the latest status is kept.\<close>

definition first_optimal :: "(string \<times> dec list option) list \<Rightarrow> solver_status \<Rightarrow> bool \<times> solver_status" where
  "first_optimal outcomes latest =
     (case List.find (solver_status_is_optimal \<circ> fst) outcomes of
        Some r \<Rightarrow> (True, Some r)
      | None \<Rightarrow> (False, if outcomes = [] then latest else Some (last outcomes)))"

lemma first_optimal_Cons:
  "first_optimal (r # rs) latest =
     (if solver_status_is_optimal (fst r) then (True, Some r) else first_optimal rs (Some r))"
  by (simp add: first_optimal_def split: option.splits)

lemma first_optimal_append:
  "first_optimal (rs @ rs') latest =
     (case first_optimal rs latest of
        (True, r) \<Rightarrow> (True, r) | (False, latest') \<Rightarrow> first_optimal rs' latest')"
proof (induction rs arbitrary: latest)
  case Nil
  then show ?case by (simp add: first_optimal_def)
next
  case (Cons r rs)
  then show ?case by (simp add: first_optimal_Cons)
qed

lemma solve_solver_attempts_eq:
  "solve_solver_attempts cp prob s ks latest =
     first_optimal (List.map_filter (solve_attempt_status cp prob s) ks) latest"
  by (induction cp prob s ks latest rule: solve_solver_attempts.induct)
    (auto simp: first_optimal_Cons map_filter_simps first_optimal_def [of "[]"] split: option.splits)

lemma solve_available_eq:
  "solve_available cp prob attempts latest = first_optimal (solver_outcomes cp prob attempts) latest"
proof (induction cp prob attempts latest rule: solve_available.induct)
  case (1 cp prob latest)
  then show ?case by (simp add: solver_outcomes_def solver_calls_def first_optimal_def map_filter_simps)
next
  case (2 cp prob s ks rest latest)
  have "solver_outcomes cp prob ((s, ks) # rest)
      = List.map_filter (solve_attempt_status cp prob s) ks @ solver_outcomes cp prob rest"
    by (simp add: solver_outcomes_def solver_calls_def map_filter_def comp_def filter_map)
  with 2 show ?case
    by (auto simp: solve_solver_attempts_eq first_optimal_append split: prod.splits bool.splits)
qed

lemma solve_with_fallbacks_eq:
  "solve_with_fallbacks cp prob = first_optimal
     (solver_outcomes cp prob (available_solver_attempts (installed_solver_names cp))) None"
  by (simp add: solve_with_fallbacks_def solve_available_eq)


subsection \<open>Solved weights\<close>

lemma solver_universe_ids:
  "dict_ok eligible \<Longrightarrow> distinct (stu_tradeable_ids (solver_target_universe eligible buys))"
  "set (stu_tradeable_ids (solver_target_universe eligible buys)) = set (dict_keys eligible) \<inter> set buys"
  by (auto simp: solver_target_universe_def Let_def)

text \<open>
  The loop of \<open>apply_solver_values\<close> from index \<open>n\<close> on: it writes the quantized, non-negative
  solver value of each tradeable instrument and nothing else.
\<close>

lemma apply_solver_loop:
  assumes "fold_result
       (\<lambda>(idx, i) d.
          if length values \<le> idx then Inl IndexError
          else bind_result (dec_quantize 4 (max (values ! idx) 0)) (\<lambda>w. Inr (dict_set i w d)))
       (enumerate n ids) d = Inr d'"
    and "distinct ids" and "set ids \<subseteq> set (dict_keys d)"
  shows "dict_keys d' = dict_keys d
     \<and> (\<forall>k. k \<notin> set ids \<longrightarrow> dict_get d' k = dict_get d k)
     \<and> (\<forall>j < length ids. \<exists>w. dec_quantize 4 (max (values ! (n + j)) 0) = Inr w
           \<and> dict_get d' (ids ! j) = Some w)"
  using assms
proof (induction ids arbitrary: n d)
  case (Cons i ids)
  then obtain w where w: "dec_quantize 4 (max (values ! n) 0) = Inr w"
    and rest: "fold_result
       (\<lambda>(idx, i) d.
          if length values \<le> idx then Inl IndexError
          else bind_result (dec_quantize 4 (max (values ! idx) 0)) (\<lambda>w. Inr (dict_set i w d)))
       (enumerate (Suc n) ids) (dict_set i w d) = Inr d'"
    by (auto simp: bind_result_eq_Inr split: if_splits)
  have keys: "dict_keys (dict_set i w d) = dict_keys d"
    using Cons.prems(3) by (simp add: dict_keys_set)
  note IH = Cons.IH [OF rest, unfolded keys]
  from IH Cons.prems(2,3) have "dict_get d' i = Some w" by (simp add: dict_get_set)
  with IH Cons.prems(2,3) w show ?case
    by (auto simp: dict_get_set nth_Cons split: nat.splits)
qed simp

lemma apply_solver_values_spec:
  assumes "apply_solver_values values ids d = Inr d'" and "distinct ids" and "set ids \<subseteq> set (dict_keys d)"
  shows "dict_keys d' = dict_keys d"
    and "k \<notin> set ids \<Longrightarrow> dict_get d' k = dict_get d k"
    and "j < length ids \<Longrightarrow> \<exists>w. dec_quantize 4 (max (values ! j) 0) = Inr w \<and> dict_get d' (ids ! j) = Some w"
  using apply_solver_loop [OF assms(1) [unfolded apply_solver_values_def] assms(2,3)] by auto

lemma quantize_max_nonneg: "dec_quantize k (max a 0) = Inr w \<Longrightarrow> 0 \<le> w \<and> canon w"
  by (auto intro: dec_quantize_canon elim!: dec_quantize_nonneg)

lemma apply_solver_values_nonneg:
  assumes "apply_solver_values values ids d = Inr d'" and "weights_ok d"
  shows "weights_ok d'"
  using assms(1) [unfolded apply_solver_values_def] assms(2)
  by (rule fold_result_invariant)
    (auto simp: bind_result_eq_Inr intro!: weights_ok_set dest: quantize_max_nonneg split: if_splits)

text \<open>Building the problem and recording a failure only append warnings.\<close>

lemma build_solver_problem_dq:
  assumes "build_solver_problem model ids lw e shelf options diag = Inr (prob, diag')"
  shows "data_quality diag' = data_quality diag"
proof -
  from assms obtain limits where "append_solver_group_constraints options e shelf ids diag = Inr (limits, diag')"
    by (auto simp: build_solver_problem_def bind_result_eq_Inr Let_def)
  then have "data_quality (snd (limits, diag')) = data_quality diag"
    unfolding append_solver_group_constraints_def
    by (rule fold_result_invariant)
      (auto simp: append_solver_group_constraint_def Let_def split: option.splits if_splits)
  then show ?thesis by simp
qed

lemma record_solver_failure_dq:
  "record_solver_failure st ids lw options e shelf diag = Inr diag' \<Longrightarrow>
     data_quality diag' = data_quality diag"
  by (auto simp: record_solver_failure_def Let_def bind_result_eq_Inr split: if_splits)

text \<open>
  What a target generation promises to the engine, whichever method produced it. The weights stay
  non-negative numbers of 28 digits provided \<open>P\<close>; everything else holds for any options.
\<close>

definition target_outcome_ok ::
  "bool \<Rightarrow> ModelPortfolio \<Rightarrow> (string, dec) dict \<Rightarrow> string list \<Rightarrow> dec \<Rightarrow> string \<Rightarrow> DiagnosticsData
     \<Rightarrow> TargetOutcome \<Rightarrow> bool" where
  "target_outcome_ok P model eligible buys tv base diag out \<longleftrightarrow>
     dict_keys (to_eligible out) = dict_keys eligible
     \<and> (P \<longrightarrow> weights_ok eligible \<longrightarrow> weights_ok (to_eligible out))
     \<and> data_quality (to_diag out) = data_quality diag
     \<and> to_trace out = (if to_status out = BLOCKED then []
                       else build_target_trace model (to_eligible out) buys tv base)"

lemma generate_targets_solver_ok:
  assumes "generate_targets_solver cp model eligible buys x shelf options tv base diag = Inr out"
    and ok: "dict_ok eligible"
  shows "target_outcome_ok P model eligible buys tv base diag out"
proof -
  obtain e1 st where r: "redistribute_sell_only_excess eligible buys x = (e1, st)" by fastforce
  obtain ld d1 where ld: "load_solver_modules cp diag = (ld, d1)" by fastforce
  have keys: "dict_keys e1 = dict_keys eligible" and st: "st \<noteq> BLOCKED"
    and nn: "weights_ok eligible \<Longrightarrow> weights_ok e1"
    using redistribute_keys [OF ok, of buys x] redistribute_status [of eligible buys x]
      redistribute_nonneg [OF ok, of buys x] r by simp_all
  have d1: "data_quality d1 = data_quality diag"
    using ld by (auto simp: load_solver_modules_def split: if_splits)
  let ?ids = "stu_tradeable_ids (solver_target_universe e1 buys)"
  have ids: "distinct ?ids" "set ?ids \<subseteq> set (dict_keys e1)"
    using solver_universe_ids [of e1 buys] ok keys by auto
  note solved = apply_solver_values_spec(1) [OF _ ids] apply_solver_values_nonneg
  show ?thesis
  proof (cases "ld \<and> ?ids \<noteq> []")
    case False
    then show ?thesis
      using assms(1) keys st nn d1
      by (auto simp: generate_targets_solver_def target_outcome_ok_def blocked_targets_def Let_def ld r
          split: if_splits)
  next
    case True
    then obtain prob d2 where
      p: "build_solver_problem model ?ids (stu_locked_weight (solver_target_universe e1 buys)) e1 shelf
            options d1 = Inr (prob, d2)"
      using assms(1) by (auto simp: generate_targets_solver_def Let_def ld r bind_result_eq_Inr)
    obtain ok latest where sv: "solve_with_fallbacks cp prob = (ok, latest)" by fastforce
    show ?thesis
      using assms(1) True keys st nn d1 build_solver_problem_dq [OF p]
      by (cases ok; cases "snd (the latest)")
        (auto simp: generate_targets_solver_def target_outcome_ok_def blocked_targets_def Let_def
          ld r p sv bind_result_eq_Inr dest: record_solver_failure_dq solved)
  qed
qed


section \<open>Properties\<close>

text \<open>
  Solver fallbacks. All attempts of all available solvers are tried in order until one is
  optimal: the run is optimal exactly when some attempt is, its values are those of the first
  optimal attempt, and otherwise the last reported status is kept. Attempts that raise are skipped.
\<close>

theorem solver_fallback_first_optimal:
  fixes cp prob
  defines "outcomes \<equiv> solver_outcomes cp prob (available_solver_attempts (installed_solver_names cp))"
  shows "(fst (solve_with_fallbacks cp prob) \<longleftrightarrow> (\<exists>r \<in> set outcomes. solver_status_is_optimal (fst r)))
    \<and> snd (solve_with_fallbacks cp prob) =
        (case List.find (solver_status_is_optimal \<circ> fst) outcomes of
           Some r \<Rightarrow> Some r
         | None \<Rightarrow> if outcomes = [] then None else Some (last outcomes))"
proof (cases "List.find (solver_status_is_optimal \<circ> fst) outcomes")
  case None
  then have "\<forall>r \<in> set outcomes. \<not> solver_status_is_optimal (fst r)" by (simp add: find_None_iff_ball)
  with None show ?thesis
    by (simp add: solve_with_fallbacks_eq first_optimal_def flip: outcomes_def)
next
  case (Some r)
  from find_SomeD [OF this] Some show ?thesis
    by (auto simp: solve_with_fallbacks_eq first_optimal_def simp flip: outcomes_def)
qed

text \<open>
  Solved weights. Writing back a solution keeps the instruments and the locked weights; each
  tradeable instrument gets its solver value, floored at zero and rounded to four decimals, so it is
  not negative and differs from the floored value by at most half of the last place.
\<close>

theorem solver_weights_quantized:
  assumes "apply_solver_values values ids d = Inr d'" and "distinct ids" and "set ids \<subseteq> set (dict_keys d)"
  shows "dict_keys d' = dict_keys d
    \<and> (\<forall>k. k \<notin> set ids \<longrightarrow> dict_get d' k = dict_get d k)
    \<and> (\<forall>j < length ids. \<exists>w. dict_get d' (ids ! j) = Some w \<and> 0 \<le> w
          \<and> \<bar>dval w - dval (max (values ! j) 0)\<bar> \<le> 1 / (2 * 10 ^ 4))"
proof (intro conjI allI impI)
  show "dict_keys d' = dict_keys d" by (rule apply_solver_values_spec(1) [OF assms])
  show "dict_get d' k = dict_get d k" if "k \<notin> set ids" for k
    by (rule apply_solver_values_spec(2) [OF assms that])
  fix j assume "j < length ids"
  from apply_solver_values_spec(3) [OF assms this] obtain w where
    w: "dec_quantize 4 (max (values ! j) 0) = Inr w" "dict_get d' (ids ! j) = Some w" by blast
  with quantize_max_nonneg [OF w(1)] dec_quantize_error [OF w(1)]
  show "\<exists>w. dict_get d' (ids ! j) = Some w \<and> 0 \<le> w \<and> \<bar>dval w - dval (max (values ! j) 0)\<bar> \<le> 1 / (2 * 10 ^ 4)"
    by auto
qed

theorem solver_weights_quantized_witness:
  "\<exists>d' w. apply_solver_values [Dec (25006 / 100000), Dec (- 1 / 1000)] [''A'', ''B'']
        [(''L'', Dec (1 / 2)), (''A'', 0), (''B'', 0)] = Inr d'
     \<and> dict_get d' ''L'' = Some (Dec (1 / 2)) \<and> dict_get d' ''B'' = Some w \<and> 0 \<le> w"
proof -
  let ?a = "apply_solver_values [Dec (25006 / 100000), Dec (- 1 / 1000)] [''A'', ''B'']
        [(''L'', Dec (1 / 2)), (''A'', 0), (''B'', 0)]"
  have "case ?a of Inr _ \<Rightarrow> True | Inl _ \<Rightarrow> False" by code_simp
  then obtain d' where d': "?a = Inr d'" by (cases ?a) auto
  note q = solver_weights_quantized [OF d']
  have "\<exists>w. dict_get d' ([''A'', ''B''] ! 1) = Some w \<and> 0 \<le> w" using q by force
  moreover have "dict_get d' ''L'' = dict_get [(''L'', Dec (1 / 2)), (''A'', 0), (''B'', 0)] ''L''"
    using q by force
  ultimately show ?thesis using d' by auto
qed

end
