(* ===== verification/Targets.thy ===== *)
theory Targets
  imports Target_Generation
begin

text \<open>
  Stage 3 of the engine (\<open>src/src/core/rebalance/targets.py\<close>): the heuristic target method
  (group limits, the cap on the tradeable weight, the single-position cap, the cash reserve),
  the dispatch between the two methods and their comparison. The dictionary the Python code
  updates in place is passed through and returned.

  The in-place loops \<open>for i in d: if ...: d[i] *= scale\<close> are maps over the entries. The
  division by \<open>current_weight\<close> in \<open>_cap_group_constraint_members\<close> is guarded by its caller:
  the weight exceeds the limit, which the options' validator keeps non-negative.
\<close>


section \<open>Group constraints\<close>

definition scale_weights :: "(string \<Rightarrow> bool) \<Rightarrow> dec \<Rightarrow> (string, dec) dict \<Rightarrow> (string, dec) dict" where
  "scale_weights P scale d = map (\<lambda>(i, w). (i, if P i then w * scale else w)) d"

definition constraint_key_parts ::
  "string \<Rightarrow> string list \<Rightarrow> DiagnosticsData \<Rightarrow> (string \<times> string) option \<times> DiagnosticsData" where
  "constraint_key_parts key known diag =
     (case split_once (CHR '':'') key of
        None \<Rightarrow> (None, add_warning (''INVALID_CONSTRAINT_KEY_'' @ key) diag)
      | Some (attr_key, attr_val) \<Rightarrow>
          if attr_key \<notin> set known
          then (None, add_warning (''UNKNOWN_CONSTRAINT_ATTRIBUTE_'' @ attr_key) diag)
          else (Some (attr_key, attr_val), diag))"

definition group_constraint_members ::
  "(string, dec) dict \<Rightarrow> (string, (string, string) dict) dict \<Rightarrow> string \<Rightarrow> string \<Rightarrow> string list" where
  "group_constraint_members eligible attrs_by_id attr_key attr_val =
     filter (\<lambda>i. dict_get (dict_get_or attrs_by_id i []) attr_key = Some attr_val) (dict_keys eligible)"

definition members_weight :: "(string, dec) dict \<Rightarrow> string list \<Rightarrow> dec" where
  "members_weight eligible members = dsum (map (\<lambda>i. the (dict_get eligible i)) members)"

definition cap_group_constraint_members ::
  "(string, dec) dict \<Rightarrow> string list \<Rightarrow> dec \<Rightarrow> (string, dec) dict \<times> dec \<times> dec" where
  "cap_group_constraint_members eligible members max_weight =
     (let current_weight = members_weight eligible members;
          scale = max_weight / current_weight;
          released_weight = current_weight - max_weight
      in (scale_weights (\<lambda>i. i \<in> set members) scale eligible, current_weight, released_weight))"

definition redistribute_group_constraint_excess ::
  "(string, dec) dict \<Rightarrow> string list \<Rightarrow> string list \<Rightarrow> dec
     \<Rightarrow> (string, dec) dict \<times> (string, dec) dict" where
  "redistribute_group_constraint_excess eligible buys members released_weight =
     (let candidates = filter (\<lambda>i. i \<in> set buys \<and> i \<notin> set members) (dict_keys eligible);
          total_candidate_weight = members_weight eligible candidates;
          share = (\<lambda>w. released_weight * (w / total_candidate_weight))
      in if total_candidate_weight \<le> 0 then (eligible, [])
         else (map (\<lambda>(i, w). (i, if i \<in> set candidates then w + share w else w)) eligible,
               map (\<lambda>i. (i, share (the (dict_get eligible i)))) candidates))"

definition record_group_constraint_event ::
  "string \<Rightarrow> dec \<Rightarrow> dec \<Rightarrow> dec \<Rightarrow> (string, dec) dict \<Rightarrow> DiagnosticsData \<Rightarrow> RunStatus \<times> DiagnosticsData" where
  "record_group_constraint_event key before max_weight released recipients diag =
     (let event = \<lparr> gce_constraint_key = key, gce_group_weight_before = before,
                    gce_max_weight = max_weight, gce_released_weight = released,
                    gce_recipients = recipients,
                    gce_status = (if recipients = [] then GROUP_BLOCKED else CAPPED) \<rparr>;
          diag1 = add_warning (''CAPPED_BY_GROUP_LIMIT_'' @ key) diag
      in if recipients \<noteq> []
         then (READY, diag1\<lparr>group_constraint_events := group_constraint_events diag1 @ [event]\<rparr>)
         else let diag2 = add_warning ''NO_ELIGIBLE_REDISTRIBUTION_DESTINATION'' diag1
              in (BLOCKED, diag2\<lparr>group_constraint_events := group_constraint_events diag2 @ [event]\<rparr>))"

definition apply_group_constraint ::
  "string \<Rightarrow> dec \<Rightarrow> string list \<Rightarrow> (string, (string, string) dict) dict \<Rightarrow> string list
     \<Rightarrow> (string, dec) dict \<Rightarrow> DiagnosticsData \<Rightarrow> RunStatus \<times> (string, dec) dict \<times> DiagnosticsData" where
  "apply_group_constraint key max_weight buys attrs_by_id known eligible diag =
     (case constraint_key_parts key known diag of
        (None, diag1) \<Rightarrow> (READY, eligible, diag1)
      | (Some (attr_key, attr_val), diag1) \<Rightarrow>
          let members = group_constraint_members eligible attrs_by_id attr_key attr_val
          in if members = [] then (READY, eligible, diag1)
             else if members_weight eligible members \<le> max_weight + Dec (1 / 10000)
             then (READY, eligible, diag1)
             else let (capped, current_w, excess) = cap_group_constraint_members eligible members max_weight;
                      (spread, recipients) = redistribute_group_constraint_excess capped buys members excess;
                      (status, diag2) = record_group_constraint_event key current_w max_weight excess
                                          recipients diag1
                  in (status, spread, diag2))"

fun apply_group_constraints_loop ::
  "(string \<times> dec) list \<Rightarrow> string list \<Rightarrow> (string, (string, string) dict) dict \<Rightarrow> string list
     \<Rightarrow> (string, dec) dict \<Rightarrow> DiagnosticsData \<Rightarrow> RunStatus \<times> (string, dec) dict \<times> DiagnosticsData" where
  "apply_group_constraints_loop [] buys attrs_by_id known eligible diag = (READY, eligible, diag)"
| "apply_group_constraints_loop ((key, max_weight) # rest) buys attrs_by_id known eligible diag =
     (case apply_group_constraint key max_weight buys attrs_by_id known eligible diag of
        (status, eligible', diag') \<Rightarrow>
          if status = BLOCKED then (BLOCKED, eligible', diag')
          else apply_group_constraints_loop rest buys attrs_by_id known eligible' diag')"

definition apply_group_constraints ::
  "(string, dec) dict \<Rightarrow> string list \<Rightarrow> ShelfEntry list \<Rightarrow> EngineOptions \<Rightarrow> DiagnosticsData
     \<Rightarrow> RunStatus \<times> (string, dec) dict \<times> DiagnosticsData" where
  "apply_group_constraints eligible buy_list shelf options diag =
     (if group_constraints options = [] then (READY, eligible, diag)
      else apply_group_constraints_loop
             (map (\<lambda>key. (key, gc_max_weight (the (dict_get (group_constraints options) key))))
                (sort (dict_keys (group_constraints options))))
             buy_list (shelf_attrs_by_id shelf) (known_attr_keys shelf) eligible diag)"


section \<open>Caps and the cash reserve\<close>

record TargetWeightPosture =
  twp_total_weight :: dec
  twp_locked_weight :: dec
  twp_tradeable_weight :: dec
  twp_available_tradeable_weight :: dec

definition target_weight_posture :: "(string, dec) dict \<Rightarrow> string list \<Rightarrow> TargetWeightPosture" where
  "target_weight_posture eligible buys =
     (let total_weight = dsum (dict_values eligible);
          locked_weight = dsum (dict_values (filter (\<lambda>(i, w). i \<notin> set buys) eligible))
      in \<lparr> twp_total_weight = total_weight,
           twp_locked_weight = locked_weight,
           twp_tradeable_weight = total_weight - locked_weight,
           twp_available_tradeable_weight = max 0 (1 - locked_weight) \<rparr>)"

definition scale_tradeable_targets ::
  "(string, dec) dict \<Rightarrow> string list \<Rightarrow> dec \<Rightarrow> dec \<Rightarrow> (string, dec) dict" where
  "scale_tradeable_targets eligible buys tradeable available =
     (if tradeable \<le> available \<or> tradeable \<le> 0 then eligible
      else scale_weights (\<lambda>i. i \<in> set buys) (available / tradeable) eligible)"

definition cap_tradeable_targets_to_available_weight ::
  "(string, dec) dict \<Rightarrow> string list \<Rightarrow> (string, dec) dict \<times> RunStatus" where
  "cap_tradeable_targets_to_available_weight eligible buys =
     (let posture = target_weight_posture eligible buys;
          tradeable = twp_tradeable_weight posture;
          available = twp_available_tradeable_weight posture
      in if twp_total_weight posture \<le> Dec (10001 / 10000) then (eligible, READY)
         else let status = (if 1 < twp_locked_weight posture then PENDING_REVIEW else READY)
              in (scale_tradeable_targets eligible buys tradeable available,
                  if available < tradeable then PENDING_REVIEW else status))"

definition cap_single_position_targets :: "(string, dec) dict \<Rightarrow> dec \<Rightarrow> (string, dec) dict \<times> dec" where
  "cap_single_position_targets eligible max_weight =
     (map (\<lambda>(i, w). (i, min w max_weight)) eligible,
      dsum (map (\<lambda>w. max 0 (w - max_weight)) (dict_values eligible)))"

definition redistribute_single_position_excess ::
  "(string, dec) dict \<Rightarrow> string list \<Rightarrow> dec \<Rightarrow> dec \<Rightarrow> (string, dec) dict \<times> dec" where
  "redistribute_single_position_excess eligible buys max_weight excess =
     (let candidates = filter (\<lambda>(i, w). i \<in> set buys \<and> w < max_weight) eligible;
          total_candidate_weight = dsum (dict_values candidates)
      in if total_candidate_weight \<le> 0 then (eligible, excess)
         else fold (\<lambda>(i, w) (d, remainder).
                      let share = min (remainder * (w / total_candidate_weight)) (max_weight - w)
                      in (dict_set i (the (dict_get d i) + share) d, remainder - share))
                candidates (eligible, excess))"

definition apply_single_position_max_weight ::
  "(string, dec) dict \<Rightarrow> string list \<Rightarrow> dec \<Rightarrow> (string, dec) dict \<times> RunStatus" where
  "apply_single_position_max_weight eligible buys max_weight =
     (let (capped, excess) = cap_single_position_targets eligible max_weight
      in if excess \<le> 0 then (capped, READY)
         else let (spread, remainder) =
                    redistribute_single_position_excess capped buys max_weight excess
              in (spread, if Dec (1 / 1000) < remainder then PENDING_REVIEW else READY))"

definition cash_buffer_tradeable_weight_limit :: "TargetWeightPosture \<Rightarrow> dec \<Rightarrow> dec" where
  "cash_buffer_tradeable_weight_limit posture buffer =
     max 0 (twp_available_tradeable_weight posture - buffer)"

definition scale_tradeable_targets_for_cash_buffer ::
  "(string, dec) dict \<Rightarrow> string list \<Rightarrow> dec \<Rightarrow> dec \<Rightarrow> (string, dec) dict \<times> bool" where
  "scale_tradeable_targets_for_cash_buffer eligible buys tradeable allowed =
     (if tradeable \<le> allowed \<or> tradeable \<le> 0 then (eligible, False)
      else (scale_weights (\<lambda>i. i \<in> set buys) (allowed / tradeable) eligible, True))"

definition apply_min_cash_buffer ::
  "(string, dec) dict \<Rightarrow> string list \<Rightarrow> dec \<Rightarrow> RunStatus \<Rightarrow> (string, dec) dict \<times> RunStatus" where
  "apply_min_cash_buffer eligible buys buffer status_when_scaled =
     (if buffer \<le> 0 then (eligible, READY)
      else let posture = target_weight_posture eligible buys;
               (eligible', scaled) = scale_tradeable_targets_for_cash_buffer eligible buys
                 (twp_tradeable_weight posture) (cash_buffer_tradeable_weight_limit posture buffer)
           in (eligible', if \<not> scaled then READY else status_when_scaled))"


section \<open>The heuristic method\<close>

definition target_generation_status :: "RunStatus \<Rightarrow> RunStatus \<Rightarrow> RunStatus" where
  "target_generation_status current candidate =
     (if candidate = BLOCKED \<or> current = BLOCKED then BLOCKED
      else if candidate = PENDING_REVIEW \<or> current = PENDING_REVIEW then PENDING_REVIEW
      else READY)"

definition heuristic_target_control_status ::
  "(string, dec) dict \<Rightarrow> string list \<Rightarrow> EngineOptions \<Rightarrow> (string, dec) dict \<times> RunStatus" where
  "heuristic_target_control_status eligible buys options =
     (let (e1, s1) = cap_tradeable_targets_to_available_weight eligible buys;
          (e2, s2) = (case single_position_max_weight options of
                        None \<Rightarrow> (e1, s1)
                      | Some cap \<Rightarrow>
                          let (e, s) = apply_single_position_max_weight e1 buys cap
                          in (e, target_generation_status s1 s));
          floor_weight = effective_cash_reserve_floor options;
          (e3, s3) = apply_min_cash_buffer e2 buys floor_weight
            (if cash_reserve_target_weight options = Some floor_weight then READY else PENDING_REVIEW)
      in (e3, target_generation_status s2 s3))"

definition generate_targets_heuristic ::
  "ModelPortfolio \<Rightarrow> (string, dec) dict \<Rightarrow> string list \<Rightarrow> dec \<Rightarrow> ShelfEntry list \<Rightarrow> EngineOptions
     \<Rightarrow> dec \<Rightarrow> string \<Rightarrow> DiagnosticsData \<Rightarrow> TargetOutcome" where
  "generate_targets_heuristic model eligible buy_list sell_only_excess shelf options total_val
       base_ccy diag =
     (let (e1, s1) = redistribute_sell_only_excess eligible buy_list sell_only_excess;
          (group_status, e2, diag') = apply_group_constraints e1 buy_list shelf options diag
      in if group_status = BLOCKED then blocked_targets e2 diag'
         else let (e3, s3) = heuristic_target_control_status e2 buy_list options
              in \<lparr> to_trace = build_target_trace model e3 buy_list total_val base_ccy,
                   to_status = target_generation_status s1 s3,
                   to_eligible = e3, to_diag = diag' \<rparr>)"


section \<open>Dispatch and comparison\<close>

definition generate_targets ::
  "SolverModules \<Rightarrow> ModelPortfolio \<Rightarrow> (string, dec) dict \<Rightarrow> string list \<Rightarrow> dec \<Rightarrow> ShelfEntry list
     \<Rightarrow> EngineOptions \<Rightarrow> dec \<Rightarrow> string \<Rightarrow> DiagnosticsData \<Rightarrow> TargetOutcome result" where
  "generate_targets cp model eligible buy_list sell_only_excess shelf options total_val base_ccy diag =
     (if target_method options = SOLVER
      then generate_targets_solver cp model eligible buy_list sell_only_excess shelf options total_val
             base_ccy diag
      else Inr (generate_targets_heuristic model eligible buy_list sell_only_excess shelf options
             total_val base_ccy diag))"

definition to_weight_map :: "TargetInstrument list \<Rightarrow> (string, dec) dict" where
  "to_weight_map trace = dict_of (map (\<lambda>t. (ti_instrument_id t, ti_final_weight t)) trace)"

definition compare_target_generation_methods ::
  "SolverModules \<Rightarrow> ModelPortfolio \<Rightarrow> (string, dec) dict \<Rightarrow> string list \<Rightarrow> dec \<Rightarrow> ShelfEntry list
     \<Rightarrow> EngineOptions \<Rightarrow> dec \<Rightarrow> string \<Rightarrow> TargetInstrument list \<Rightarrow> RunStatus
     \<Rightarrow> TargetMethodComparison result" where
  "compare_target_generation_methods cp model eligible buy_list sell_only_excess shelf options
       total_val base_ccy primary_trace primary_st =
     (let alternate = (if target_method options = HEURISTIC then SOLVER else HEURISTIC);
          alt_options = options\<lparr>target_method := alternate\<rparr>
      in bind_result
           (generate_targets cp model eligible buy_list sell_only_excess shelf alt_options total_val
              base_ccy make_diagnostics_data)
           (\<lambda>alt.
              let primary_weights = to_weight_map primary_trace;
                  alternate_weights = to_weight_map (to_trace alt);
                  tolerance = compare_target_methods_tolerance options
              in Inr \<lparr> primary_method = target_method options,
                       primary_status = primary_st,
                       alternate_method = alternate,
                       alternate_status = to_status alt,
                       comparison_tolerance = tolerance,
                       differing_instruments =
                         filter (\<lambda>i. tolerance < \<bar>dict_get_or primary_weights i 0
                                               - dict_get_or alternate_weights i 0\<bar>)
                           (sort (remdups (dict_keys primary_weights @ dict_keys alternate_weights))),
                       alternate_warnings = sort (remdups (warnings (to_diag alt))) \<rparr>))"


section \<open>Lemmas\<close>

subsection \<open>Every step keeps the instruments and the sign of the weights\<close>

text \<open>The instruments are kept always, the weights well formed provided \<open>P\<close>.\<close>

definition keeps :: "bool \<Rightarrow> (string, dec) dict \<Rightarrow> (string, dec) dict \<Rightarrow> bool" where
  "keeps P d d' \<longleftrightarrow> dict_keys d' = dict_keys d \<and> (P \<longrightarrow> weights_ok d \<longrightarrow> weights_ok d')"

lemma keeps_refl [simp, intro]: "keeps P d d"
  by (simp add: keeps_def)

lemma keeps_trans: "keeps P d d' \<Longrightarrow> keeps P d' d'' \<Longrightarrow> keeps P d d''"
  by (simp add: keeps_def)

lemma keeps_map:
  assumes "\<And>k w. P \<Longrightarrow> weights_ok d \<Longrightarrow> (k, w) \<in> set d \<Longrightarrow> 0 \<le> w \<Longrightarrow> canon w \<Longrightarrow> 0 \<le> f k w \<and> canon (f k w)"
  shows "keeps P d (map (\<lambda>(k, w). (k, f k w)) d)"
  using assms by (auto simp: keeps_def comp_def case_prod_unfold
      intro!: weights_ok_map [of d f, unfolded case_prod_unfold])

lemma keeps_scale: "(P \<Longrightarrow> weights_ok d \<Longrightarrow> 0 \<le> x) \<Longrightarrow> keeps P d (scale_weights Q x d)"
  unfolding scale_weights_def by (rule keeps_map) (auto intro: dec_intros)

lemma members_weight_nonneg:
  assumes "weights_ok d" and "set members \<subseteq> set (dict_keys d)"
  shows "0 \<le> members_weight d members"
  unfolding members_weight_def
proof (rule dsum_nonneg)
  fix w assume "w \<in> set (map (\<lambda>i. the (dict_get d i)) members)"
  then obtain i where "i \<in> set members" and w: "w = the (dict_get d i)" by auto
  with assms(2) have "dict_get d i \<noteq> None" by (auto simp: map_of_eq_None_iff)
  with weights_ok_get [OF assms(1)] w show "0 \<le> w" by auto
qed

lemma keeps_redistribute_group:
  assumes "P \<Longrightarrow> 0 \<le> released" and "redistribute_group_constraint_excess d buys members released = (d', r)"
  shows "keeps P d d'"
proof -
  let ?c = "filter (\<lambda>i. i \<in> set buys \<and> i \<notin> set members) (dict_keys d)"
  have "keeps P d (map (\<lambda>(i, w). (i, if i \<in> set ?c then w + released * (w / members_weight d ?c) else w)) d)"
    if "\<not> members_weight d ?c \<le> 0"
    using that assms(1) by (intro keeps_map) (auto intro!: dec_intros)
  with assms(2) show ?thesis
    by (auto simp: redistribute_group_constraint_excess_def Let_def split: if_splits)
qed

lemma le_add_ratio_slack:
  assumes "ratio_ok m"
  shows "m \<le> m + Dec (1 / 10000)"
proof -
  have m: "0 \<le> dval m" "dval m \<le> 1" using assms by (simp_all add: ratio_ok_def less_eq_dec_def)
  let ?x = "dval m + 1 / 10000"
  have "\<bar>?x\<bar> / (2 * 10 ^ 27) \<le> 2 / (2 * 10 ^ 27)"
    using m by (intro divide_right_mono) auto
  then have "\<bar>round28 ?x - ?x\<bar> \<le> 1 / 10000"
    using round28_error [of ?x] by (rule_tac order_trans) (auto elim: order_trans)
  then have "dval m \<le> round28 ?x" by linarith
  then show ?thesis by (simp add: less_eq_dec_def)
qed

lemma apply_group_constraint_keeps:
  assumes "apply_group_constraint key m buys attrs known d diag = (st, d', diag')" and "P \<Longrightarrow> ratio_ok m"
  shows "keeps P d d' \<and> data_quality diag' = data_quality diag"
proof -
  obtain parts diag1 where kp: "constraint_key_parts key known diag = (parts, diag1)" by fastforce
  have dq1: "data_quality diag1 = data_quality diag"
    using kp by (auto simp: constraint_key_parts_def split: option.splits if_splits)
  show ?thesis
  proof (cases parts)
    case None
    with assms kp dq1 show ?thesis by (simp add: apply_group_constraint_def)
  next
    case (Some ab)
    obtain a b where ab: "ab = (a, b)" by fastforce
    let ?m = "group_constraint_members d attrs a b"
    let ?cap = "scale_weights (\<lambda>i. i \<in> set ?m) (m / members_weight d ?m) d"
    obtain e r where red: "redistribute_group_constraint_excess ?cap buys ?m (members_weight d ?m - m) = (e, r)"
      by fastforce
    show ?thesis
    proof (cases "?m = [] \<or> members_weight d ?m \<le> m + Dec (1 / 10000)")
      case True
      with assms kp dq1 Some ab show ?thesis by (auto simp: apply_group_constraint_def Let_def split: if_splits)
    next
      case False
      have pos: "0 < members_weight d ?m" if P
        using False assms(2) [OF that] dec_pos(5) [of m "Dec (1 / 10000)"] by (auto simp: dec_order_defs ratio_ok_def)
      have "keeps P d ?cap" using pos assms(2) by (intro keeps_scale dec_intros) (auto simp: ratio_ok_def)
      moreover have "keeps P ?cap e"
        using False le_add_ratio_slack [OF assms(2)]
        by (intro keeps_redistribute_group [OF _ red] dec_intros) auto
      ultimately have "keeps P d e" by (rule keeps_trans)
      with assms kp dq1 Some ab False red show ?thesis
        by (auto simp: apply_group_constraint_def Let_def cap_group_constraint_members_def
            record_group_constraint_event_def split: if_splits)
    qed
  qed
qed

lemma apply_group_constraints_loop_keeps:
  "apply_group_constraints_loop ks buys attrs known d diag = (st, d', diag') \<Longrightarrow>
     (\<And>k m. P \<Longrightarrow> (k, m) \<in> set ks \<Longrightarrow> ratio_ok m) \<Longrightarrow>
     keeps P d d' \<and> data_quality diag' = data_quality diag"
proof (induction ks buys attrs known d diag rule: apply_group_constraints_loop.induct)
  case (2 key m rest buys attrs known d diag)
  obtain s1 d1 g1 where one: "apply_group_constraint key m buys attrs known d diag = (s1, d1, g1)"
    by (metis prod_cases3)
  have ok: "P \<Longrightarrow> ratio_ok m" "\<And>k m'. P \<Longrightarrow> (k, m') \<in> set rest \<Longrightarrow> ratio_ok m'" using "2.prems"(2) by auto
  note step = apply_group_constraint_keeps [OF one ok(1)]
  show ?case
  proof (cases "s1 = BLOCKED")
    case True
    with "2.prems"(1) one step show ?thesis by simp
  next
    case False
    with "2.prems"(1) one have "apply_group_constraints_loop rest buys attrs known d1 g1 = (st, d', diag')"
      by simp
    from "2.IH" [OF one [symmetric] refl False this ok(2)] step show ?thesis
      using keeps_trans [of P d d1 d'] by simp
  qed
qed simp

lemma apply_group_constraints_keeps:
  assumes "apply_group_constraints d buys shelf options diag = (st, d', diag')"
    and "P \<Longrightarrow> engine_options_valid options"
  shows "keeps P d d' \<and> data_quality diag' = data_quality diag"
proof -
  have "ratio_ok (gc_max_weight (the (dict_get (group_constraints options) k)))"
    if "P" "k \<in> set (dict_keys (group_constraints options))" for k
    using that assms(2) map_of_eq_None_iff [of "group_constraints options" k]
    by (force simp: engine_options_valid_def dest: map_of_SomeD)
  then have "\<And>k m. P \<Longrightarrow> (k, m) \<in> set (map (\<lambda>key. (key, gc_max_weight (the (dict_get (group_constraints options) key))))
                (sort (dict_keys (group_constraints options)))) \<Longrightarrow> ratio_ok m"
    by auto
  note loop = apply_group_constraints_loop_keeps [OF _ this]
  show ?thesis
  proof (cases "group_constraints options = []")
    case True
    with assms(1) show ?thesis by (simp add: apply_group_constraints_def)
  next
    case False
    with assms(1) show ?thesis by (intro loop) (simp add: apply_group_constraints_def)
  qed
qed


text \<open>The caps and the cash reserve.\<close>

lemma keeps_scale_tradeable:
  assumes "0 \<le> available"
  shows "keeps P d (scale_tradeable_targets d buys tradeable available)"
  using assms by (auto simp: scale_tradeable_targets_def not_le intro!: keeps_scale dec_intros)

lemma keeps_cap_tradeable: "keeps P d (fst (cap_tradeable_targets_to_available_weight d buys))"
  by (simp add: cap_tradeable_targets_to_available_weight_def Let_def target_weight_posture_def
      keeps_scale_tradeable)

lemma keeps_cap_single:
  "(P \<Longrightarrow> 0 \<le> m \<and> canon m) \<Longrightarrow> keeps P d (fst (cap_single_position_targets d m))"
  by (auto simp: cap_single_position_targets_def min_def intro: keeps_map)

lemma cap_single_excess: "0 \<le> snd (cap_single_position_targets d m)" "canon (snd (cap_single_position_targets d m))"
  by (auto simp: cap_single_position_targets_def intro!: dsum_nonneg)

text \<open>The redistribution loop: the remainder never becomes negative.\<close>

lemma redistribute_single_loop:
  fixes W :: dec
  assumes "\<forall>(k, w) \<in> set cs. 0 \<le> w \<and> w \<le> W \<and> w < m" and "0 < W"
    and "set (dict_keys cs) \<subseteq> set (dict_keys d)" and "weights_ok d" and "0 \<le> r" and "canon r"
    and "fold (\<lambda>(i, w) (d, remainder).
               let share = min (remainder * (w / W)) (m - w)
               in (dict_set i (the (dict_get d i) + share) d, remainder - share)) cs (d, r) = (d', r')"
  shows "dict_keys d' = dict_keys d \<and> weights_ok d' \<and> 0 \<le> r' \<and> r' \<le> r"
  using assms
proof (induction cs arbitrary: d r)
  case (Cons kw cs)
  obtain i w where kw: "kw = (i, w)" by fastforce
  let ?share = "min (r * (w / W)) (m - w)"
  have w: "0 \<le> w" "w \<le> W" "w < m" using Cons.prems(1) kw by auto
  have "w / W \<le> 1" using w Cons.prems(2) by (intro dec_div_le_one)
  then have share: "0 \<le> ?share" "?share \<le> r"
    using w Cons.prems(2,5,6) by (auto intro!: dec_intros simp: min_le_iff_disj dec_mult_le)
  have "dict_get d i \<noteq> None" using Cons.prems(3) kw by (auto simp: map_of_eq_None_iff)
  then have "0 \<le> the (dict_get d i)" using weights_ok_get [OF Cons.prems(4)] by auto
  then have ok: "weights_ok (dict_set i (the (dict_get d i) + ?share) d)"
    using share Cons.prems(4) by (intro weights_ok_set dec_intros) auto
  have keys: "dict_keys (dict_set i x d) = dict_keys d" for x
    using Cons.prems(3) kw by (simp add: dict_keys_set)
  have "dict_keys d' = dict_keys (dict_set i (the (dict_get d i) + ?share) d) \<and> weights_ok d' \<and> 0 \<le> r'
      \<and> r' \<le> r - ?share"
    using Cons.prems ok share kw by (intro Cons.IH) (auto simp: keys Let_def intro: dec_intros)
  with keys share Cons.prems(6) dec_diff_le [of r ?share] show ?case by (auto intro: order_trans)
qed simp

lemma redistribute_single_position_excess_keys:
  assumes "redistribute_single_position_excess d buys m x = (d', r')"
  shows "dict_keys d' = dict_keys d"
proof -
  have "dict_keys (fst (fold (\<lambda>(i, w) (d, remainder).
            let share = min (remainder * (w / W)) (m - w)
            in (dict_set i (the (dict_get d i) + share) d, remainder - share)) cs s)) = dict_keys (fst s)"
    if "set (dict_keys cs) \<subseteq> set (dict_keys (fst s))" for W cs s
    using that
  proof (induction cs arbitrary: s)
    case (Cons kw cs)
    obtain i w where kw: "kw = (i, w)" by fastforce
    obtain e r where s: "s = (e, r)" by fastforce
    have "dict_keys (dict_set i v e) = dict_keys e" for v
      using Cons.prems by (simp add: kw s dict_keys_set)
    then show ?case using Cons by (simp add: kw s Let_def flip: set_map)
  qed simp
  note loop = this
  let ?cs = "filter (\<lambda>(i, w). i \<in> set buys \<and> w < m) d"
  have "set (dict_keys ?cs) \<subseteq> set (dict_keys (fst (d, x)))" by auto
  from loop [OF this, of "dsum (dict_values ?cs)"] assms show ?thesis
    by (auto simp: redistribute_single_position_excess_def Let_def split: if_splits)
qed

lemma redistribute_single_spec:
  assumes "redistribute_single_position_excess d buys m x = (d', r')"
    and "weights_ok d" and "0 \<le> x" and "canon x"
  shows "dict_keys d' = dict_keys d \<and> weights_ok d' \<and> 0 \<le> r' \<and> r' \<le> x"
proof -
  let ?cs = "filter (\<lambda>(i, w). i \<in> set buys \<and> w < m) d"
  let ?W = "dsum (dict_values ?cs)"
  have cand: "\<forall>(k, w) \<in> set ?cs. 0 \<le> w \<and> w \<le> ?W \<and> w < m"
    using assms(2) by (auto simp: weights_ok_def intro!: dsum_ge_member rev_image_eqI)
  show ?thesis
  proof (cases "?W \<le> 0")
    case True
    with assms show ?thesis by (simp add: redistribute_single_position_excess_def)
  next
    case False
    then have W: "0 < ?W" by simp
    have keys: "set (dict_keys ?cs) \<subseteq> set (dict_keys d)" by auto
    show ?thesis
      by (rule redistribute_single_loop [OF cand W keys assms(2-4)])
        (use W assms(1) in \<open>auto simp: redistribute_single_position_excess_def Let_def split: if_splits\<close>)
  qed
qed

lemma keeps_single_position:
  assumes "P \<Longrightarrow> 0 \<le> m \<and> canon m"
  shows "keeps P d (fst (apply_single_position_max_weight d buys m))"
proof -
  obtain c x where c: "cap_single_position_targets d m = (c, x)" by fastforce
  obtain e r where r: "redistribute_single_position_excess c buys m x = (e, r)" by fastforce
  have "keeps P d c" using keeps_cap_single [OF assms] c by (metis fst_conv)
  moreover have "keeps P c e"
    using redistribute_single_spec [OF r] cap_single_excess [of d m] c
      redistribute_single_position_excess_keys [OF r] by (auto simp: keeps_def)
  ultimately show ?thesis
    by (auto simp: apply_single_position_max_weight_def c r intro: keeps_trans)
qed

lemma keeps_cash_buffer: "keeps P d (fst (apply_min_cash_buffer d buys b st))"
  by (auto simp: apply_min_cash_buffer_def Let_def target_weight_posture_def
      scale_tradeable_targets_for_cash_buffer_def cash_buffer_tradeable_weight_limit_def not_le
      intro!: keeps_scale dec_nonneg(3) split: prod.splits)

lemma keeps_heuristic_control:
  assumes "P \<Longrightarrow> pred_option (\<lambda>m. 0 \<le> m \<and> canon m) (single_position_max_weight options)"
  shows "keeps P d (fst (heuristic_target_control_status d buys options))"
proof -
  obtain e1 s1 where 1: "cap_tradeable_targets_to_available_weight d buys = (e1, s1)" by fastforce
  obtain e2 s2 where 2: "(case single_position_max_weight options of
       None \<Rightarrow> (e1, s1)
     | Some cap \<Rightarrow> let (e, s) = apply_single_position_max_weight e1 buys cap
                    in (e, target_generation_status s1 s)) = (e2, s2)" by fastforce
  have "keeps P d e1" using keeps_cap_tradeable [of P d buys] 1 by simp
  moreover have "keeps P e1 e2"
  proof (cases "single_position_max_weight options")
    case (Some m)
    with 2 assms keeps_single_position [of P m e1 buys] show ?thesis by (auto split: prod.splits)
  qed (use 2 in simp)
  ultimately have "keeps P d e2" by (rule keeps_trans)
  with keeps_trans [OF this keeps_cash_buffer] show ?thesis
    by (simp add: heuristic_target_control_status_def 1 2 Let_def split: prod.splits) (metis fst_conv)
qed

lemma target_generation_status_BLOCKED:
  "target_generation_status a b = BLOCKED \<longleftrightarrow> a = BLOCKED \<or> b = BLOCKED"
  by (auto simp: target_generation_status_def)

lemma heuristic_control_not_blocked: "snd (heuristic_target_control_status d buys options) \<noteq> BLOCKED"
  by (auto simp: heuristic_target_control_status_def cap_tradeable_targets_to_available_weight_def
      apply_single_position_max_weight_def apply_min_cash_buffer_def Let_def
      target_generation_status_BLOCKED split: prod.splits option.splits if_splits)

lemma generate_targets_heuristic_ok:
  assumes "dict_ok eligible" and "P \<Longrightarrow> engine_options_valid options"
    and "P \<Longrightarrow> pred_option (\<lambda>m. 0 \<le> m \<and> canon m) (single_position_max_weight options)"
  shows "target_outcome_ok P model eligible buys tv base diag
           (generate_targets_heuristic model eligible buys x shelf options tv base diag)"
proof -
  obtain e1 s1 where 1: "redistribute_sell_only_excess eligible buys x = (e1, s1)" by fastforce
  obtain gs e2 g where 2: "apply_group_constraints e1 buys shelf options diag = (gs, e2, g)"
    by (metis prod_cases3)
  obtain e3 s3 where 3: "heuristic_target_control_status e2 buys options = (e3, s3)" by fastforce
  have "keeps P eligible e1" and "s1 \<noteq> BLOCKED"
    using redistribute_keys [OF assms(1), of buys x] redistribute_nonneg [OF assms(1), of buys x]
      redistribute_status [of eligible buys x] 1 by (auto simp: keeps_def)
  moreover have "keeps P e1 e2" and "data_quality g = data_quality diag"
    using apply_group_constraints_keeps [OF 2 assms(2)] by auto
  moreover have "keeps P e2 e3" and "s3 \<noteq> BLOCKED"
    using keeps_heuristic_control [OF assms(3), of P e2 buys]
      heuristic_control_not_blocked [of e2 buys options] 3 by auto
  ultimately show ?thesis
    by (auto simp: generate_targets_heuristic_def target_outcome_ok_def blocked_targets_def keeps_def
        1 2 3 target_generation_status_BLOCKED)
qed

text \<open>
  The interface of the two methods and of their dispatch. The engine relies on nothing else of
  target generation.
\<close>

definition target_options_ok :: "EngineOptions \<Rightarrow> bool" where
  "target_options_ok options \<longleftrightarrow>
     engine_options_valid options
     \<and> pred_option (\<lambda>m. 0 \<le> m \<and> canon m) (single_position_max_weight options)"

locale target_generator =
  fixes gen :: "ModelPortfolio \<Rightarrow> (string, dec) dict \<Rightarrow> string list \<Rightarrow> dec \<Rightarrow> ShelfEntry list
      \<Rightarrow> EngineOptions \<Rightarrow> dec \<Rightarrow> string \<Rightarrow> DiagnosticsData \<Rightarrow> TargetOutcome result"
  assumes gen_ok: "gen model eligible buys x shelf options tv base diag = Inr out \<Longrightarrow> dict_ok eligible \<Longrightarrow>
      target_outcome_ok (target_options_ok options) model eligible buys tv base diag out"
begin

lemma outcome_dict_ok:
  assumes "gen model eligible buys x shelf options tv base diag = Inr out"
    and "dict_ok eligible"
  shows "dict_ok (to_eligible out)"
  using gen_ok [OF assms] assms(2) by (simp add: target_outcome_ok_def)

lemma trace_covers:
  assumes "gen model eligible buys x shelf options tv base diag = Inr out"
    and "dict_ok eligible" and "to_status out \<noteq> BLOCKED"
  shows "set (map ti_instrument_id (to_trace out))
           = set (map mt_instrument_id (mp_targets model)) \<union> set (dict_keys eligible)"
  using gen_ok [OF assms(1,2)] assms(3) by (simp add: target_outcome_ok_def build_target_trace_ids del: set_map)

lemma trace_row:
  assumes "gen model eligible buys x shelf options tv base diag = Inr out"
    and "dict_ok eligible" and "row \<in> set (to_trace out)"
  shows "ti_final_weight row = dict_get_or (to_eligible out) (ti_instrument_id row) 0"
    and "ti_final_value row = \<lparr>amount = tv * ti_final_weight row, currency = base\<rparr>"
    and "target_options_ok options \<Longrightarrow> weights_ok eligible \<Longrightarrow> 0 \<le> ti_final_weight row"
proof -
  note ok = gen_ok [OF assms(1,2)]
  have "row \<in> set (build_target_trace model (to_eligible out) buys tv base)"
    using ok assms(3) by (auto simp: target_outcome_ok_def split: if_splits)
  note rows = build_target_trace_rows [OF outcome_dict_ok [OF assms(1,2)] this]
  show "ti_final_weight row = dict_get_or (to_eligible out) (ti_instrument_id row) 0"
    and "ti_final_value row = \<lparr>amount = tv * ti_final_weight row, currency = base\<rparr>" by (fact rows)+
  show "0 \<le> ti_final_weight row" if "target_options_ok options" "weights_ok eligible"
    using that ok rows(1) weights_ok_get [of "to_eligible out"]
    by (auto simp: target_outcome_ok_def dict_get_or_def split: option.splits)
qed

end

interpretation solver_targets: target_generator "generate_targets_solver cp"
  by unfold_locales (rule generate_targets_solver_ok)

interpretation heuristic_targets: target_generator
  "\<lambda>model eligible buys x shelf options tv base diag.
     Inr (generate_targets_heuristic model eligible buys x shelf options tv base diag)"
  by unfold_locales (auto simp: target_options_ok_def intro: generate_targets_heuristic_ok)

interpretation tgt: target_generator "generate_targets cp"
proof unfold_locales
  fix model eligible buys x shelf options tv base diag out
  assume "generate_targets cp model eligible buys x shelf options tv base diag = Inr out"
    and "dict_ok eligible"
  then show "target_outcome_ok (target_options_ok options) model eligible buys tv base diag out"
    using solver_targets.gen_ok heuristic_targets.gen_ok
    by (auto simp: generate_targets_def split: if_splits)
qed


subsection \<open>The single-position cap\<close>

text \<open>At most the cap, up to rounding in the last of 28 digits.\<close>

definition within_cap :: "dec \<Rightarrow> dec \<Rightarrow> bool" where
  "within_cap m w \<longleftrightarrow> dval w \<le> dval m * (1 + 1 / 10 ^ 26)"

lemma within_cap_le: "0 \<le> m \<Longrightarrow> w \<le> m \<Longrightarrow> within_cap m w"
  by (simp add: within_cap_def dec_order_defs algebra_simps)

lemma within_cap_mono: "within_cap m w \<Longrightarrow> v \<le> w \<Longrightarrow> within_cap m v"
  by (simp add: within_cap_def dec_order_defs)

lemma within_cap_add_share:
  assumes "0 \<le> w" and "w < m" and "share \<le> m - w" and "0 \<le> share"
  shows "within_cap m (w + share)"
proof -
  define e where "e = (1 :: rat) / (2 * 10 ^ 27)"
  have e0: "0 \<le> e" by (simp add: e_def)
  have up: "round28 x \<le> x * (1 + e)" if "0 \<le> x" for x
    using ctx28.rnd_upper [OF that] by (simp add: e_def mult.commute)
  let ?m = "dval m" and ?w = "dval w" and ?s = "dval share"
  have wm: "0 \<le> ?w" "?w < ?m" "0 \<le> ?s" using assms by (simp_all add: dec_order_defs)
  have "?s \<le> round28 (?m - ?w)" using assms(3) by (simp add: dec_order_defs)
  also have "\<dots> \<le> (?m - ?w) * (1 + e)" using wm by (intro up) simp
  also have "\<dots> \<le> ?m - ?w + ?m * e"
    using mult_right_mono [of "?m - ?w" ?m e] wm e0 by (simp add: distrib_left)
  finally have "?w + ?s \<le> ?m * (1 + e)" by (simp add: algebra_simps)
  then have "(?w + ?s) * (1 + e) \<le> ?m * (1 + e) * (1 + e)"
    by (rule mult_right_mono) (simp add: e_def)
  with up [of "?w + ?s"] wm have "round28 (?w + ?s) \<le> ?m * ((1 + e) * (1 + e))"
    by (simp add: mult.assoc)
  also have "\<dots> \<le> ?m * (1 + 1 / 10 ^ 26)"
    using wm by (intro mult_left_mono) (simp_all add: e_def)
  finally show ?thesis by (simp add: within_cap_def)
qed


lemma redistribute_single_within:
  assumes "\<forall>(k, w) \<in> set cs. 0 \<le> w \<and> w \<le> W \<and> w < m \<and> dict_get d k = Some w"
    and "distinct (dict_keys cs)" and "0 < W" and "0 \<le> r" and "canon r"
    and "\<And>k w. dict_get d k = Some w \<Longrightarrow> within_cap m w"
    and "fold (\<lambda>(i, w) (d, remainder).
               let share = min (remainder * (w / W)) (m - w)
               in (dict_set i (the (dict_get d i) + share) d, remainder - share)) cs (d, r) = (d', r')"
    and "dict_get d' k = Some v"
  shows "within_cap m v"
  using assms
proof (induction cs arbitrary: d r)
  case (Cons kw cs)
  obtain i w where kw: "kw = (i, w)" by fastforce
  let ?share = "min (r * (w / W)) (m - w)"
  have w: "0 \<le> w" "w \<le> W" "w < m" "dict_get d i = Some w" using Cons.prems(1) kw by auto
  have "w / W \<le> 1" using w Cons.prems(3) by (intro dec_div_le_one)
  then have share: "0 \<le> ?share" "?share \<le> r"
    using w Cons.prems(3-5) by (auto intro!: dec_intros simp: min_le_iff_disj dec_mult_le)
  have cap: "within_cap m (w + ?share)" using w share by (intro within_cap_add_share) auto
  show ?case
  proof (rule Cons.IH)
    show "\<forall>(k, w') \<in> set cs. 0 \<le> w' \<and> w' \<le> W \<and> w' < m
        \<and> dict_get (dict_set i (w + ?share) d) k = Some w'"
      using Cons.prems(1,2) by (auto simp: kw dict_get_set rev_image_eqI)
    show "within_cap m u" if "dict_get (dict_set i (w + ?share) d) k = Some u" for k u
      using that cap Cons.prems(6) by (auto simp: dict_get_set split: if_splits)
    show "0 \<le> r - ?share" using share by (intro dec_intros)
    show "fold (\<lambda>(i, w) (d, remainder).
               let share = min (remainder * (w / W)) (m - w)
               in (dict_set i (the (dict_get d i) + share) d, remainder - share)) cs
               (dict_set i (w + ?share) d, r - ?share) = (d', r')"
      using Cons.prems(7) w(4) by (simp add: kw Let_def)
  qed (use Cons.prems in \<open>auto simp: kw\<close>)
qed simp

lemma single_position_within_cap:
  assumes "0 \<le> m" and "canon m" and "dict_ok d" and "weights_ok d"
    and "apply_single_position_max_weight d buys m = (d', st)" and "dict_get d' k = Some v"
  shows "within_cap m v"
proof -
  obtain c x where c: "cap_single_position_targets d m = (c, x)" by fastforce
  obtain e r where r: "redistribute_single_position_excess c buys m x = (e, r)" by fastforce
  have c_eq: "c = map (\<lambda>(i, w). (i, min w m)) d"
    using c by (simp add: cap_single_position_targets_def)
  have le: "within_cap m w" if "dict_get c i = Some w" for i w
    using that assms(1) by (auto simp: c_eq map_of_map_snd intro!: within_cap_le)
  have ck: "dict_ok c" "weights_ok c"
    using keeps_cap_single [of True m d] c assms(1-4) by (simp_all add: keeps_def)
  let ?cs = "filter (\<lambda>(i, w). i \<in> set buys \<and> w < m) c"
  let ?W = "dsum (dict_values ?cs)"
  have cand: "\<forall>(k, w) \<in> set ?cs. 0 \<le> w \<and> w \<le> ?W \<and> w < m \<and> dict_get c k = Some w"
    using ck by (auto simp: weights_ok_def intro!: dsum_ge_member rev_image_eqI)
  have dist: "distinct (dict_keys ?cs)" using ck(1) by (rule distinct_map_filter)
  have x: "0 \<le> x" "canon x" using cap_single_excess [of d m] c by simp_all
  have "within_cap m v'" if "dict_get e i = Some v'" for i v'
  proof (cases "?W \<le> 0")
    case True
    with r that le show ?thesis by (auto simp: redistribute_single_position_excess_def)
  next
    case False
    then have W: "0 < ?W" by simp
    show ?thesis
      by (rule redistribute_single_within [OF cand dist W x le _ that])
        (use r W in \<open>auto simp: redistribute_single_position_excess_def Let_def split: if_splits\<close>)
  qed
  with assms(5,6) le c r show ?thesis
    by (auto simp: apply_single_position_max_weight_def split: if_splits)
qed


lemma cash_buffer_only_lowers:
  assumes "weights_ok d" and "apply_min_cash_buffer d buys b st = (d', st')"
    and "dict_get d' k = Some v"
  shows "\<exists>w. dict_get d k = Some w \<and> v \<le> w"
proof -
  let ?t = "twp_tradeable_weight (target_weight_posture d buys)"
  let ?a = "cash_buffer_tradeable_weight_limit (target_weight_posture d buys) b"
  show ?thesis
  proof (cases "b \<le> 0 \<or> ?t \<le> ?a \<or> ?t \<le> 0")
    case True
    with assms(2,3) show ?thesis
      by (auto simp: apply_min_cash_buffer_def Let_def scale_tradeable_targets_for_cash_buffer_def
          split: if_splits)
  next
    case False
    then have d': "d' = scale_weights (\<lambda>i. i \<in> set buys) (?a / ?t) d" and "?a / ?t \<le> 1"
      using assms(2) by (auto simp: apply_min_cash_buffer_def Let_def not_le
          scale_tradeable_targets_for_cash_buffer_def intro: dec_div_le_one split: if_splits)
    with assms(3) weights_ok_get [OF assms(1)] show ?thesis
      by (auto simp: scale_weights_def map_of_map_snd intro!: dec_mult_le)
  qed
qed

lemma heuristic_control_within_cap:
  assumes "single_position_max_weight options = Some m" and "0 \<le> m" and "canon m"
    and "dict_ok d" and "weights_ok d"
    and "heuristic_target_control_status d buys options = (d', st)" and "dict_get d' k = Some v"
  shows "within_cap m v"
proof -
  obtain e1 s1 where 1: "cap_tradeable_targets_to_available_weight d buys = (e1, s1)" by fastforce
  obtain e2 s2 where 2: "apply_single_position_max_weight e1 buys m = (e2, s2)" by fastforce
  obtain e3 s3 where 3: "apply_min_cash_buffer e2 buys (effective_cash_reserve_floor options)
      (if cash_reserve_target_weight options = Some (effective_cash_reserve_floor options)
       then READY else PENDING_REVIEW) = (e3, s3)" by fastforce
  have e1: "dict_ok e1" "weights_ok e1"
    using keeps_cap_tradeable [of True d buys] 1 assms(4,5) by (simp_all add: keeps_def)
  have e2: "weights_ok e2"
    using keeps_single_position [of True m e1 buys] assms(2,3) 2 e1 by (simp add: keeps_def)
  have "d' = e3" using assms(1,6) 1 2 3 by (simp add: heuristic_target_control_status_def Let_def)
  then obtain w where "dict_get e2 k = Some w" "v \<le> w"
    using cash_buffer_only_lowers [OF e2 3] assms(7) by blast
  with single_position_within_cap [OF assms(2,3) e1 2] show ?thesis by (blast intro: within_cap_mono)
qed

lemma heuristic_within_cap:
  assumes "single_position_max_weight options = Some m" and "0 \<le> m" and "canon m"
    and "dict_ok eligible" and "weights_ok eligible" and "engine_options_valid options"
    and "to_status (generate_targets_heuristic model eligible buys x shelf options tv base diag) \<noteq> BLOCKED"
    and "dict_get (to_eligible (generate_targets_heuristic model eligible buys x shelf options tv base diag)) k
         = Some v"
  shows "within_cap m v"
proof -
  obtain e1 s1 where 1: "redistribute_sell_only_excess eligible buys x = (e1, s1)" by fastforce
  obtain gs e2 g where 2: "apply_group_constraints e1 buys shelf options diag = (gs, e2, g)"
    by (metis prod_cases3)
  obtain e3 s3 where 3: "heuristic_target_control_status e2 buys options = (e3, s3)" by fastforce
  have "dict_keys e1 = dict_keys eligible" "weights_ok e1"
    using redistribute_keys [OF assms(4), of buys x] redistribute_nonneg [OF assms(4,5), of buys x] 1
    by simp_all
  then have "dict_ok e2" "weights_ok e2"
    using apply_group_constraints_keeps [OF 2, of True, OF assms(6)] assms(4) by (simp_all add: keeps_def)
  from heuristic_control_within_cap [OF assms(1-3) this 3] assms(7,8) show ?thesis
    by (auto simp: generate_targets_heuristic_def blocked_targets_def 1 2 3 split: if_splits)
qed



subsection \<open>A group is within its limit once its constraint has been applied\<close>

lemma rescaled_sum_within:
  fixes ws :: "dec list" and m :: dec
  defines "cur \<equiv> dsum ws" and "n \<equiv> length ws"
  assumes ws: "\<And>w. w \<in> set ws \<Longrightarrow> 0 \<le> w" and m: "ratio_ok m" and cur: "0 < cur" and "n \<le> 10 ^ 20"
  shows "dsum (map (\<lambda>w. w * (m / cur)) ws) \<le> m + Dec (1 / 10000)"
proof -
  let ?S = "sum_list (map dval ws)" and ?s = "dval (m / cur)" and ?M = "dval m" and ?C = "dval cur"
  let ?as = "map (\<lambda>w. w * (m / cur)) ws"
  have pos: "0 < ?C" "0 \<le> ?M" "?M \<le> 1" "0 \<le> ?s"
    using m cur by (auto simp: ratio_ok_def dec_order_defs intro: ctx28.rnd_nonneg)
  have S0: "0 \<le> ?S" using ws by (intro sum_list_nonneg) (auto simp: less_eq_dec_def)
  have as: "0 \<le> a" if "a \<in> set ?as" for a
    using that ws pos(4) by (auto simp: less_eq_dec_def intro!: ctx28.rnd_nonneg)
  have s_le: "?s \<le> ?M / ?C * (1 + ulp)" using round28_upper [of "?M / ?C"] pos by simp
  have "sum_list (map dval ?as) \<le> sum_list (map (\<lambda>w. dval w * ?s * (1 + ulp)) ws)"
    unfolding map_map comp_def
    by (rule sum_list_mono) (use ws pos(4) round28_upper in \<open>auto simp: less_eq_dec_def\<close>)
  also have "\<dots> = ?S * ?s * (1 + ulp)" by (simp add: sum_list_mult_const)
  finally have "sum_list (map dval ?as) \<le> ?S * ?s * (1 + ulp)" .
  then have "sum_list (map dval ?as) * (1 + ulp) ^ n \<le> ?S * ?s * (1 + ulp) * (1 + ulp) ^ n"
    by (rule mult_right_mono) (use ulp_bounds in simp)
  moreover have "dval (dsum ?as) \<le> sum_list (map dval ?as) * (1 + ulp) ^ n"
    using dsum_upper [of ?as] as by (simp add: n_def)
  ultimately have "dval (dsum ?as) \<le> ?S * (1 + ulp) ^ Suc n * ?s" by (simp add: mult_ac)
  also have "\<dots> \<le> ?S * (1 + ulp) ^ Suc n * (?M / ?C * (1 + ulp))"
    using S0 s_le ulp_bounds by (intro mult_left_mono) auto
  also have "\<dots> = (?S / ?C) * ?M * (1 + ulp) ^ (n + 2)" by (simp add: mult_ac)
  finally have A: "dval (dsum ?as) \<le> (?S / ?C) * ?M * (1 + ulp) ^ (n + 2)" .
  let ?q = "(1 - ulp) ^ n" and ?r = "(1 - ulp) ^ (n + 2)"
  have q0: "0 < ?q" "0 < ?r" using ulp_bounds by simp_all
  have "?S * ?q \<le> ?C" using dsum_lower [of ws] ws by (simp add: n_def cur_def)
  then have SC: "?S / ?C * ?q \<le> 1" using pos(1) by (simp add: divide_simps)
  have "dval (dsum ?as) * (?q * ?r) \<le> (?S / ?C) * ?M * (1 + ulp) ^ (n + 2) * (?q * ?r)"
    using A q0 by (intro mult_right_mono) auto
  also have "\<dots> = (?S / ?C * ?q) * ?M * ((1 + ulp) ^ (n + 2) * ?r)" by (simp only: mult_ac)
  also have "\<dots> \<le> 1 * ?M * 1"
    using SC pos q0 power_ulp_ratio [of "n + 2"] S0 ulp_bounds
    by (intro mult_mono mult_nonneg_nonneg) auto
  finally have B: "dval (dsum ?as) * (1 - ulp) ^ (n + (n + 2)) \<le> ?M"
    by (simp only: power_add [of "1 - ulp" n "n + 2"] mult_1 mult_1_right)
  have "of_nat (n + (n + 2)) * ulp \<le> (1 :: rat) / 10 ^ 6"
  proof -
    have "of_nat n \<le> (10 ^ 20 :: rat)" using \<open>n \<le> 10 ^ 20\<close> by (metis of_nat_le_iff of_nat_numeral of_nat_power)
    then show ?thesis by (simp add: ulp_def)
  qed
  then have "1 - 1 / 10 ^ 6 \<le> (1 - ulp) ^ (n + (n + 2))"
    using power_one_minus_ulp [of "n + (n + 2)"] by linarith
  moreover have A0: "0 \<le> dval (dsum ?as)" using dsum_nonneg [of ?as] as by (simp add: less_eq_dec_def)
  ultimately have "dval (dsum ?as) * (1 - 1 / 10 ^ 6) \<le> ?M"
    using B mult_left_mono [of "1 - 1 / 10 ^ 6" "(1 - ulp) ^ (n + (n + 2))" "dval (dsum ?as)"] by linarith
  then have "dval (dsum ?as) \<le> ?M + 1 / 10000" using pos A0 by simp
  then have "round28 (dval (dsum ?as)) \<le> round28 (?M + 1 / 10000)" by (rule round28_mono)
  then show ?thesis using canon_dsum [of ?as] by (simp add: less_eq_dec_def canon_def)
qed

text \<open>Entries outside the candidates, the group's members among them, are not redistributed to.\<close>

lemma redistribute_group_members:
  "redistribute_group_constraint_excess d buys members x = (d', r) \<Longrightarrow> i \<in> set members \<Longrightarrow>
     dict_get d' i = dict_get d i"
  by (auto simp: redistribute_group_constraint_excess_def Let_def map_of_map_snd option.map_ident
      split: if_splits)

lemma group_constraint_members_keys:
  "set (group_constraint_members d attrs a b) \<subseteq> set (dict_keys d)"
  "dict_keys d' = dict_keys d \<Longrightarrow> group_constraint_members d' attrs a b = group_constraint_members d attrs a b"
  by (auto simp: group_constraint_members_def)

lemma capped_members_within:
  assumes "weights_ok d" and "ratio_ok m" and "set members \<subseteq> set (dict_keys d)"
    and "length members \<le> 10 ^ 20" and "0 < members_weight d members"
  shows "members_weight (scale_weights (\<lambda>i. i \<in> set members) (m / members_weight d members) d) members
           \<le> m + Dec (1 / 10000)"
proof -
  let ?ws = "map (\<lambda>i. the (dict_get d i)) members"
  have get: "dict_get d i \<noteq> None" if "i \<in> set members" for i
    using that assms(3) by (auto simp: map_of_eq_None_iff)
  have nn: "0 \<le> w" if "w \<in> set ?ws" for w
    using that get weights_ok_get [OF assms(1)] by fastforce
  have "map (\<lambda>i. the (dict_get (scale_weights (\<lambda>i. i \<in> set members) (m / members_weight d members) d) i)) members
      = map (\<lambda>w. w * (m / dsum ?ws)) ?ws"
    using get by (auto simp: scale_weights_def map_of_map_snd members_weight_def option.map_sel)
  moreover have "dsum (map (\<lambda>w. w * (m / dsum ?ws)) ?ws) \<le> m + Dec (1 / 10000)"
    using nn assms(2,4,5) by (intro rescaled_sum_within) (auto simp: members_weight_def)
  ultimately show ?thesis by (simp only: members_weight_def)
qed

lemma apply_group_constraint_within:
  assumes "apply_group_constraint (a @ CHR '':'' # b) m buys attrs known d diag = (st, d', diag')"
    and "CHR '':'' \<notin> set a" and "a \<in> set known" and "ratio_ok m" and "weights_ok d"
    and "length d \<le> 10 ^ 20"
  shows "members_weight d' (group_constraint_members d' attrs a b) \<le> m + Dec (1 / 10000)"
proof -
  let ?m = "group_constraint_members d attrs a b"
  let ?cap = "scale_weights (\<lambda>i. i \<in> set ?m) (m / members_weight d ?m) d"
  have kp: "constraint_key_parts (a @ CHR '':'' # b) known diag = (Some (a, b), diag)"
    using assms(2,3) split_once_Some [of "CHR '':''" "a @ CHR '':'' # b" a b]
    by (simp add: constraint_key_parts_def)
  have same: "group_constraint_members d' attrs a b = ?m"
    using apply_group_constraint_keeps [OF assms(1), of True, OF assms(4)]
    by (intro group_constraint_members_keys) (simp add: keeps_def)
  have slack: "0 < m + Dec (1 / 10000)"
    using assms(4) by (intro dec_pos) (auto simp: ratio_ok_def dec_order_defs)
  show ?thesis
  proof (cases "?m = [] \<or> members_weight d ?m \<le> m + Dec (1 / 10000)")
    case True
    with assms(1) kp slack same show ?thesis
      by (auto simp: apply_group_constraint_def Let_def members_weight_def split: if_splits)
  next
    case False
    obtain e r where red: "redistribute_group_constraint_excess ?cap buys ?m (members_weight d ?m - m) = (e, r)"
      by fastforce
    have "d' = e" using assms(1) kp red False
      by (auto simp: apply_group_constraint_def Let_def cap_group_constraint_members_def
          split: prod.splits if_splits)
    then have "members_weight d' ?m = members_weight ?cap ?m"
      using redistribute_group_members [OF red] by (simp add: members_weight_def cong: map_cong)
    moreover have "length ?m \<le> 10 ^ 20"
      using assms(6) by (auto simp: group_constraint_members_def intro: order_trans [OF length_filter_le])
    ultimately show ?thesis
      using capped_members_within [OF assms(5,4) group_constraint_members_keys(1)] False slack same
      by fastforce
  qed
qed


section \<open>Properties\<close>

text \<open>
  C13. The target trace, whichever method generated it. Unless the run is blocked, the trace has a
  row for exactly the model's and the eligible instruments; a row's weight is the final weight of
  its instrument, its value that share of the portfolio value; the instruments themselves and the
  data-quality log are left alone. If the options are valid, the position cap and the weights that
  come in are non-negative numbers of at most 28 digits, then so are the weights of the rows, and with
  them the values of a portfolio whose total is not negative. A negative cap, which the options do not
  exclude, makes weights negative.
\<close>

theorem target_trace_sound:
  assumes "generate_targets cp model eligible buys x shelf options tv base diag = Inr out"
    and "dict_ok eligible" and "to_status out \<noteq> BLOCKED"
  shows "set (map ti_instrument_id (to_trace out))
           = set (map mt_instrument_id (mp_targets model)) \<union> set (dict_keys eligible)
    \<and> dict_keys (to_eligible out) = dict_keys eligible
    \<and> data_quality (to_diag out) = data_quality diag
    \<and> (\<forall>row \<in> set (to_trace out).
          ti_final_weight row = dict_get_or (to_eligible out) (ti_instrument_id row) 0
          \<and> ti_final_value row = \<lparr>amount = tv * ti_final_weight row, currency = base\<rparr>
          \<and> (target_options_ok options \<longrightarrow> weights_ok eligible \<longrightarrow>
               0 \<le> ti_final_weight row \<and> (0 \<le> tv \<longrightarrow> 0 \<le> amount (ti_final_value row))))"
  using tgt.trace_covers [OF assms] tgt.trace_row [OF assms(1,2)] tgt.gen_ok [OF assms(1,2)]
  by (auto simp: target_outcome_ok_def intro!: dec_intros simp del: set_map)

definition no_solver :: SolverModules where
  "no_solver = \<lparr> sm_dependencies = False, sm_importable = False, sm_installed = None,
                 sm_solve = (\<lambda>_ _ _. SolveRaised) \<rparr>"

theorem target_trace_sound_witness:
  "\<exists>out. generate_targets no_solver sample_model [(''A'', Dec (1 / 4)), (''B'', Dec (1 / 2))] [''A'', ''B''] 0
           sample_shelf EngineOptions_default (Dec 2000) ''USD'' make_diagnostics_data = Inr out
     \<and> set (map ti_instrument_id (to_trace out)) = {''A'', ''B''}
     \<and> (\<forall>row \<in> set (to_trace out). 0 \<le> ti_final_weight row \<and> 0 \<le> amount (ti_final_value row))"
proof -
  let ?g = "generate_targets no_solver sample_model [(''A'', Dec (1 / 4)), (''B'', Dec (1 / 2))] [''A'', ''B''] 0
           sample_shelf EngineOptions_default (Dec 2000) ''USD'' make_diagnostics_data"
  obtain out where out: "?g = Inr out"
    by (auto simp: generate_targets_def EngineOptions_default_def)
  have "case ?g of Inr t \<Rightarrow> to_status t = READY | Inl _ \<Rightarrow> False" by code_simp
  with out have st: "to_status out \<noteq> BLOCKED" by simp
  have ok: "target_options_ok EngineOptions_default"
    using EngineOptions_default_valid by (simp add: target_options_ok_def EngineOptions_default_def)
  have w: "weights_ok [(''A'', Dec (1 / 4)), (''B'', Dec (1 / 2))]" by code_simp
  have tv: "0 \<le> Dec 2000" by code_simp
  have "dict_ok [(''A'', Dec (1 / 4)), (''B'', Dec (1 / 2))]" by simp
  note sound = target_trace_sound [OF out this st]
  then have "\<forall>row \<in> set (to_trace out). 0 \<le> ti_final_weight row \<and> 0 \<le> amount (ti_final_value row)"
    using ok w tv by blast
  moreover have "set (map ti_instrument_id (to_trace out)) = {''A'', ''B''}"
    using sound by (simp add: sample_model_def)
  ultimately show ?thesis using out by blast
qed

text \<open>
  C14. The position cap of the heuristic method: unless blocked, no final weight exceeds the cap by
  more than the rounding of the last of 28 digits, also after the excess has been redistributed. This
  is for valid options, a cap that is not negative and input weights that are not negative, all numbers
  of at most 28 digits; the code does not check the cap or the number of digits.
\<close>

theorem heuristic_respects_cap:
  assumes "single_position_max_weight options = Some m" and "0 \<le> m" and "canon m"
    and "dict_ok eligible" and "weights_ok eligible" and "engine_options_valid options"
    and "to_status (generate_targets_heuristic model eligible buys x shelf options tv base diag) \<noteq> BLOCKED"
    and "dict_get (to_eligible (generate_targets_heuristic model eligible buys x shelf options tv base diag)) k
         = Some v"
  shows "dval v \<le> dval m * (1 + 1 / 10 ^ 26)"
  using heuristic_within_cap [OF assms] by (simp add: within_cap_def)

theorem heuristic_respects_cap_witness:
  "let options = EngineOptions_default\<lparr>single_position_max_weight := Some (Dec (1 / 2))\<rparr>;
       out = generate_targets_heuristic sample_model [(''A'', Dec (1 / 4)), (''B'', Dec (3 / 4))] [''A'', ''B''] 0
               sample_shelf options (Dec 2000) ''USD'' make_diagnostics_data
   in to_status out = READY \<and> dval (the (dict_get (to_eligible out) ''B'')) \<le> (1 / 2) * (1 + 1 / 10 ^ 26)"
proof -
  let ?o = "EngineOptions_default\<lparr>single_position_max_weight := Some (Dec (1 / 2))\<rparr>"
  let ?t = "generate_targets_heuristic sample_model [(''A'', Dec (1 / 4)), (''B'', Dec (3 / 4))] [''A'', ''B''] 0
               sample_shelf ?o (Dec 2000) ''USD'' make_diagnostics_data"
  have st: "to_status ?t = READY" and b: "dict_get (to_eligible ?t) ''B'' = Some (Dec (1 / 2))" by code_simp+
  have valid: "engine_options_valid ?o"
    using EngineOptions_default_valid by (simp add: engine_options_valid_def)
  have w: "weights_ok [(''A'', Dec (1 / 4)), (''B'', Dec (3 / 4))]" and c: "canon (Dec (1 / 2))" by code_simp+
  from heuristic_respects_cap [OF _ _ c _ w valid _ b] st b show ?thesis by (simp add: dec_order_defs)
qed

text \<open>
  A group limit holds right after its own constraint has been applied: the members weigh at most
  the limit plus the tolerance of one basis point.
\<close>

theorem group_limit_after_constraint:
  assumes "apply_group_constraint (a @ CHR '':'' # b) m buys attrs known d diag = (st, d', diag')"
    and "CHR '':'' \<notin> set a" and "a \<in> set known" and "ratio_ok m" and "weights_ok d"
    and "length d \<le> 10 ^ 20"
  shows "members_weight d' (group_constraint_members d' attrs a b) \<le> m + Dec (1 / 10000)"
  by (rule apply_group_constraint_within [OF assms])

theorem group_limit_after_constraint_witness:
  "let attrs = [(''A'', [(''sector'', ''TECH'')]), (''B'', [(''sector'', ''BANK'')])];
       (st, d', diag') = apply_group_constraint ''sector:TECH'' (Dec (1 / 5)) [''A'', ''B''] attrs [''sector'']
                           [(''A'', Dec (1 / 2)), (''B'', Dec (1 / 2))] make_diagnostics_data
   in st = READY \<and> members_weight d' (group_constraint_members d' attrs ''sector'' ''TECH'')
        \<le> Dec (1 / 5) + Dec (1 / 10000)"
proof -
  let ?attrs = "[(''A'', [(''sector'', ''TECH'')]), (''B'', [(''sector'', ''BANK'')])]"
  let ?r = "apply_group_constraint (''sector'' @ CHR '':'' # ''TECH'') (Dec (1 / 5)) [''A'', ''B''] ?attrs [''sector'']
                           [(''A'', Dec (1 / 2)), (''B'', Dec (1 / 2))] make_diagnostics_data"
  obtain st d' diag' where r: "?r = (st, d', diag')" by (metis prod_cases3)
  have "fst ?r = READY" by code_simp
  with r have "st = READY" by simp
  moreover have w: "weights_ok [(''A'', Dec (1 / 2)), (''B'', Dec (1 / 2))]" by code_simp
  have "members_weight d' (group_constraint_members d' ?attrs ''sector'' ''TECH'') \<le> Dec (1 / 5) + Dec (1 / 10000)"
    by (rule group_limit_after_constraint [OF r _ _ _ w]) (simp_all add: ratio_ok_def dec_order_defs)
  ultimately show ?thesis using r by simp
qed

text \<open>
  Group limits applied one after another do not all hold at the end: the weight one group
  releases may go to a group capped before it. Two groups with a limit of one quarter; after both
  constraints the first one weighs three eighths, and the status is \<open>READY\<close>.
\<close>

theorem group_limits_interfere:
  "let shelf = [listed ''A'' APPROVED [(''sector'', ''BANK'')], listed ''B'' APPROVED [(''sector'', ''TECH'')],
                listed ''C'' APPROVED []];
       options = EngineOptions_default\<lparr>group_constraints :=
         [(''sector:BANK'', \<lparr>gc_max_weight = Dec (1 / 4)\<rparr>), (''sector:TECH'', \<lparr>gc_max_weight = Dec (1 / 4)\<rparr>)]\<rparr>;
       (st, d', diag') = apply_group_constraints [(''A'', Dec (1 / 4)), (''B'', Dec (1 / 2)), (''C'', Dec (1 / 4))]
                           [''A'', ''B'', ''C''] shelf options make_diagnostics_data
   in engine_options_valid options \<and> st = READY \<and> dict_get d' ''A'' = Some (Dec (3 / 8))"
proof -
  let ?o = "EngineOptions_default\<lparr>group_constraints :=
         [(''sector:BANK'', \<lparr>gc_max_weight = Dec (1 / 4)\<rparr>), (''sector:TECH'', \<lparr>gc_max_weight = Dec (1 / 4)\<rparr>)]\<rparr>"
  have "validate_group_constraint_keys
      [(''sector:BANK'', \<lparr>gc_max_weight = Dec (1 / 4)\<rparr>), (''sector:TECH'', \<lparr>gc_max_weight = Dec (1 / 4)\<rparr>)]
      = Inr [(''sector:BANK'', \<lparr>gc_max_weight = Dec (1 / 4)\<rparr>), (''sector:TECH'', \<lparr>gc_max_weight = Dec (1 / 4)\<rparr>)]"
    by code_simp
  then have valid: "engine_options_valid ?o"
    using EngineOptions_default_valid by (simp add: engine_options_valid_def ratio_ok_def dec_order_defs)
  have "let r = apply_group_constraints [(''A'', Dec (1 / 4)), (''B'', Dec (1 / 2)), (''C'', Dec (1 / 4))]
        [''A'', ''B'', ''C''] [listed ''A'' APPROVED [(''sector'', ''BANK'')], listed ''B'' APPROVED [(''sector'', ''TECH'')],
                listed ''C'' APPROVED []] ?o make_diagnostics_data
      in fst r = READY \<and> dict_get (fst (snd r)) ''A'' = Some (Dec (3 / 8))" by code_simp
  with valid show ?thesis by (simp add: Let_def case_prod_unfold)
qed

text \<open>
  The position cap also lowers holdings the engine may not trade: a suspended holding of 60
  percent comes out of the heuristic with the cap as its target weight.
\<close>

theorem cap_lowers_locked_holding:
  "let shelf = [listed ''A'' SUSPENDED [], listed ''B'' APPROVED []];
       options = EngineOptions_default\<lparr>single_position_max_weight := Some (Dec (1 / 2))\<rparr>;
       out = generate_targets_heuristic sample_model [(''B'', Dec (1 / 4)), (''A'', Dec (3 / 5))] [''B''] 0
               shelf options (Dec 2000) ''USD'' make_diagnostics_data
   in locked shelf ''A'' \<and> dict_get (to_eligible out) ''A'' = Some (Dec (1 / 2))"
  by code_simp

end
