(* ===== verification/Tax_Budget.thy ===== *)
theory Tax_Budget
  imports Valuation
begin

text \<open>
  Tax-aware sell limits (\<open>src/src/core/rebalance/tax_budget.py\<close>): highest-cost-first lot
  selection, the realized-gain budget and the clamping of a sell to the holding. The engine
  passes the data-quality log of the diagnostics object itself, so the log is the field
  \<open>data_quality\<close> of the diagnostics that are threaded through.

  The lemmas show that the budget is respected to the last digits, that gains and budget use
  agree, that the lots are consumed in highest-cost-first order and that the allowed quantity
  never exceeds the requested one.
\<close>


section \<open>Definitions\<close>

definition TAX_LOT_EVIDENCE_INCOMPLETE_BUCKET :: string where
  "TAX_LOT_EVIDENCE_INCOMPLETE_BUCKET = ''tax_lot_evidence_incomplete''"

record TaxBudgetAccumulator =
  total_realized_gain_base :: dec
  total_realized_loss_base :: dec
  tax_budget_used_base :: dec
  tax_budget_limit_base :: "dec option"

record TaxBudgetLotAllowance =
  tla_requested_quantity :: dec
  tla_allowed_quantity :: dec
  tla_realized_base :: dec

record SellQuantityDecision =
  sqd_quantity :: dec
  sqd_sell_quantity_before_tax :: "dec option"

definition lot_cost_in_instrument_ccy ::
  "Money \<Rightarrow> string \<Rightarrow> MarketDataSnapshot \<Rightarrow> DiagnosticsData \<Rightarrow> dec option \<times> DiagnosticsData" where
  "lot_cost_in_instrument_ccy unit_cost instrument_ccy md diag =
     (if currency unit_cost = instrument_ccy then (Some (amount unit_cost), diag)
      else case get_fx_rate md (currency unit_cost) instrument_ccy of
             None \<Rightarrow> (None, log_dq ''fx_missing'' (fx_pair_key (currency unit_cost) instrument_ccy) diag)
           | Some fx \<Rightarrow> (Some (amount unit_cost * fx), diag))"

text \<open>The loop over the lots; a missing rate ends it with no lots at all.\<close>

fun lots_with_cost ::
  "TaxLot list \<Rightarrow> string \<Rightarrow> MarketDataSnapshot \<Rightarrow> DiagnosticsData
     \<Rightarrow> (TaxLot \<times> dec) list option \<times> DiagnosticsData" where
  "lots_with_cost [] instrument_ccy md diag = (Some [], diag)"
| "lots_with_cost (lot # lots) instrument_ccy md diag =
     (case lot_cost_in_instrument_ccy (lot_unit_cost lot) instrument_ccy md diag of
        (None, diag') \<Rightarrow> (None, diag')
      | (Some cost, diag') \<Rightarrow>
          (case lots_with_cost lots instrument_ccy md diag' of
             (None, diag'') \<Rightarrow> (None, diag'')
           | (Some rest, diag'') \<Rightarrow> (Some ((lot, cost) # rest), diag'')))"

definition hifo_key :: "TaxLot \<times> dec \<Rightarrow> dec \<times> string \<times> string" where
  "hifo_key item = (snd item, lot_purchase_date (fst item), lot_id (fst item))"

text \<open>\<open>sorted(..., reverse=True)\<close> keeps the order of equal elements.\<close>

definition hifo_sorted_lots ::
  "Position option \<Rightarrow> string \<Rightarrow> MarketDataSnapshot \<Rightarrow> DiagnosticsData
     \<Rightarrow> (TaxLot \<times> dec) list \<times> DiagnosticsData" where
  "hifo_sorted_lots position instrument_ccy md diag =
     (case position of
        None \<Rightarrow> ([], diag)
      | Some p \<Rightarrow>
          if pos_lots p = [] then ([], diag)
          else case lots_with_cost (pos_lots p) instrument_ccy md diag of
                 (None, diag') \<Rightarrow> ([], diag')
               | (Some items, diag') \<Rightarrow> (rev (sort_key hifo_key (rev items)), diag'))"

definition clamped_sell_quantity ::
  "dec \<Rightarrow> Position option \<Rightarrow> DiagnosticsData \<Rightarrow> dec \<times> DiagnosticsData" where
  "clamped_sell_quantity requested_qty position diag =
     (let available_qty = (case position of Some p \<Rightarrow> pos_quantity p | None \<Rightarrow> 0)
      in if requested_qty \<le> available_qty then (requested_qty, diag)
         else (max available_qty 0,
               add_warning_once ''SELL_QUANTITY_CLAMPED_TO_AVAILABLE_HOLDING'' diag))"

definition record_tax_budget_limit_reached ::
  "string \<Rightarrow> dec \<Rightarrow> dec \<Rightarrow> DiagnosticsData \<Rightarrow> DiagnosticsData" where
  "record_tax_budget_limit_reached instrument requested allowed diag =
     (let diag' = add_warning_once ''TAX_BUDGET_LIMIT_REACHED'' diag
      in diag'\<lparr>tax_budget_constraint_events := tax_budget_constraint_events diag'
           @ [\<lparr> tbe_instrument_id = instrument, tbe_requested_quantity = requested,
                tbe_allowed_quantity = allowed, tbe_reason_code = ''TAX_BUDGET_LIMIT_REACHED'' \<rparr>]\<rparr>)"

definition record_tax_lot_evidence_incomplete ::
  "string \<Rightarrow> string \<Rightarrow> DiagnosticsData \<Rightarrow> DiagnosticsData" where
  "record_tax_lot_evidence_incomplete instrument reason diag =
     (let key = instrument @ '':'' @ reason;
          bucket = dq_bucket (data_quality diag) TAX_LOT_EVIDENCE_INCOMPLETE_BUCKET;
          diag' = (if key \<in> set bucket then diag
                   else log_dq TAX_LOT_EVIDENCE_INCOMPLETE_BUCKET key diag)
      in add_warning_once reason diag')"

definition tax_lot_quantity_covered :: "Position \<Rightarrow> dec \<Rightarrow> bool" where
  "tax_lot_quantity_covered position requested_qty \<longleftrightarrow>
     requested_qty \<le> dsum (map lot_quantity (filter (\<lambda>l. 0 < lot_quantity l) (pos_lots position)))"

definition tax_lot_evidence_incomplete_for :: "string \<Rightarrow> dq_log \<Rightarrow> bool" where
  "tax_lot_evidence_incomplete_for instrument dq \<longleftrightarrow>
     (\<exists>key \<in> set (dq_bucket dq TAX_LOT_EVIDENCE_INCOMPLETE_BUCKET).
        take (length instrument + 1) key = instrument @ '':'')"

definition tax_budget_constraint_applies :: "Side \<Rightarrow> dec \<Rightarrow> dec option \<Rightarrow> bool \<Rightarrow> bool" where
  "tax_budget_constraint_applies side quantity before_tax tax_aware \<longleftrightarrow>
     side = SELL \<and> tax_aware \<and> (case before_tax of None \<Rightarrow> False | Some q \<Rightarrow> quantity < q)"

definition tax_budget_allowed_lot_quantity :: "dec \<Rightarrow> dec \<Rightarrow> TaxBudgetAccumulator \<Rightarrow> dec" where
  "tax_budget_allowed_lot_quantity lot_sell_qty per_unit_gain tb =
     (case tax_budget_limit_base tb of
        None \<Rightarrow> lot_sell_qty
      | Some limit \<Rightarrow>
          if per_unit_gain \<le> 0 then lot_sell_qty
          else if limit \<le> tax_budget_used_base tb then 0
          else min lot_sell_qty ((limit - tax_budget_used_base tb) / per_unit_gain))"

definition tax_budget_lot_allowance ::
  "dec \<Rightarrow> dec \<Rightarrow> dec \<Rightarrow> dec \<Rightarrow> dec \<Rightarrow> TaxBudgetAccumulator \<Rightarrow> TaxBudgetLotAllowance" where
  "tax_budget_lot_allowance remaining lot_qty unit_cost sell_price base_rate tb =
     (let lot_sell_qty = min remaining lot_qty;
          per_unit_gain = (sell_price - unit_cost) * base_rate;
          allowed = tax_budget_allowed_lot_quantity lot_sell_qty per_unit_gain tb
      in \<lparr> tla_requested_quantity = lot_sell_qty, tla_allowed_quantity = allowed,
           tla_realized_base = per_unit_gain * allowed \<rparr>)"

definition apply_tax_budget_lot_allowance ::
  "TaxBudgetLotAllowance \<Rightarrow> TaxBudgetAccumulator \<Rightarrow> TaxBudgetAccumulator" where
  "apply_tax_budget_lot_allowance allowance tb =
     (let r = tla_realized_base allowance
      in if 0 \<le> r
         then tb\<lparr> total_realized_gain_base := total_realized_gain_base tb + r,
                  tax_budget_used_base := tax_budget_used_base tb + r \<rparr>
         else tb\<lparr> total_realized_loss_base := total_realized_loss_base tb + \<bar>r\<bar> \<rparr>)"

definition tax_budget_sale_allowance ::
  "dec \<Rightarrow> dec \<Rightarrow> dec \<Rightarrow> dec \<Rightarrow> dec \<Rightarrow> TaxBudgetAccumulator \<Rightarrow> TaxBudgetLotAllowance option" where
  "tax_budget_sale_allowance remaining lot_qty unit_cost sell_price base_rate tb =
     (if remaining \<le> 0 then None
      else if lot_qty \<le> 0 then None
      else Some (tax_budget_lot_allowance remaining lot_qty unit_cost sell_price base_rate tb))"

definition tax_budget_allowance_stops_lot_scan :: "TaxBudgetLotAllowance option \<Rightarrow> dec \<Rightarrow> bool" where
  "tax_budget_allowance_stops_lot_scan allowance remaining \<longleftrightarrow>
     (case allowance of
        None \<Rightarrow> remaining \<le> 0
      | Some a \<Rightarrow> tla_allowed_quantity a \<le> 0
                  \<or> tla_allowed_quantity a < tla_requested_quantity a)"

fun tax_budget_lot_scan ::
  "(TaxLot \<times> dec) list \<Rightarrow> dec \<Rightarrow> dec \<Rightarrow> dec \<Rightarrow> dec \<Rightarrow> TaxBudgetAccumulator
     \<Rightarrow> dec \<times> TaxBudgetAccumulator" where
  "tax_budget_lot_scan [] remaining allowed_qty sell_price base_rate tb = (allowed_qty, tb)"
| "tax_budget_lot_scan ((lot, unit_cost) # lots) remaining allowed_qty sell_price base_rate tb =
     (case tax_budget_sale_allowance remaining (lot_quantity lot) unit_cost sell_price base_rate tb of
        None \<Rightarrow>
          if tax_budget_allowance_stops_lot_scan None remaining then (allowed_qty, tb)
          else tax_budget_lot_scan lots remaining allowed_qty sell_price base_rate tb
      | Some a \<Rightarrow>
          let tb' = apply_tax_budget_lot_allowance a tb;
              allowed_qty' = allowed_qty + tla_allowed_quantity a;
              remaining' = remaining - tla_allowed_quantity a
          in if tax_budget_allowance_stops_lot_scan (Some a) remaining' then (allowed_qty', tb')
             else tax_budget_lot_scan lots remaining' allowed_qty' sell_price base_rate tb')"

definition tax_budget_limited_quantity_from_lots ::
  "(TaxLot \<times> dec) list \<Rightarrow> dec \<Rightarrow> dec \<Rightarrow> dec \<Rightarrow> TaxBudgetAccumulator \<Rightarrow> dec \<times> TaxBudgetAccumulator" where
  "tax_budget_limited_quantity_from_lots sorted_lots requested_qty sell_price base_rate tb =
     tax_budget_lot_scan sorted_lots requested_qty 0 sell_price base_rate tb"

definition tax_budget_limited_sell_quantity ::
  "string \<Rightarrow> EngineOptions \<Rightarrow> Position option \<Rightarrow> dec \<Rightarrow> dec \<Rightarrow> string \<Rightarrow> dec \<Rightarrow> MarketDataSnapshot
     \<Rightarrow> TaxBudgetAccumulator \<Rightarrow> DiagnosticsData \<Rightarrow> dec \<times> TaxBudgetAccumulator \<times> DiagnosticsData" where
  "tax_budget_limited_sell_quantity instrument options position requested_qty sell_price price_ccy
       base_rate md tb diag =
     (if \<not> enable_tax_awareness options then (requested_qty, tb, diag)
      else case position of
        None \<Rightarrow> (0, tb, record_tax_lot_evidence_incomplete instrument ''TAX_LOT_POSITION_MISSING'' diag)
      | Some p \<Rightarrow>
          if pos_lots p = []
          then (0, tb, record_tax_lot_evidence_incomplete instrument ''TAX_LOTS_MISSING'' diag)
          else if \<not> tax_lot_quantity_covered p requested_qty
          then (0, tb, record_tax_lot_evidence_incomplete instrument ''TAX_LOTS_INCOMPLETE'' diag)
          else let fx_missing_before = length (dq_bucket (data_quality diag) ''fx_missing'');
                   (sorted_lots, diag') = hifo_sorted_lots position price_ccy md diag
               in if sorted_lots = []
                  then (0, tb, record_tax_lot_evidence_incomplete instrument
                          (if fx_missing_before < length (dq_bucket (data_quality diag') ''fx_missing'')
                           then ''TAX_LOT_COST_FX_MISSING'' else ''TAX_LOTS_INCOMPLETE'') diag')
                  else let (q, tb') = tax_budget_limited_quantity_from_lots sorted_lots requested_qty
                                        sell_price base_rate tb
                       in (q, tb', diag'))"

definition sell_quantity_after_safety_limits ::
  "string \<Rightarrow> Side \<Rightarrow> dec \<Rightarrow> Position option \<Rightarrow> EngineOptions \<Rightarrow> dec \<Rightarrow> string \<Rightarrow> dec \<Rightarrow> MarketDataSnapshot
     \<Rightarrow> TaxBudgetAccumulator \<Rightarrow> DiagnosticsData
     \<Rightarrow> SellQuantityDecision \<times> TaxBudgetAccumulator \<times> DiagnosticsData" where
  "sell_quantity_after_safety_limits instrument side requested position options sell_price price_ccy
       base_rate md tb diag =
     (if side \<noteq> SELL \<or> requested \<le> 0
      then (\<lparr> sqd_quantity = requested, sqd_sell_quantity_before_tax = None \<rparr>, tb, diag)
      else let (before_tax, diag1) = clamped_sell_quantity requested position diag;
               (quantity, tb', diag2) = tax_budget_limited_sell_quantity instrument options position
                  before_tax sell_price price_ccy base_rate md tb diag1;
               diag3 = (if enable_tax_awareness options \<and> quantity < before_tax
                           \<and> \<not> tax_lot_evidence_incomplete_for instrument (data_quality diag2)
                        then record_tax_budget_limit_reached instrument before_tax quantity diag2
                        else diag2)
           in (\<lparr> sqd_quantity = quantity, sqd_sell_quantity_before_tax = Some before_tax \<rparr>, tb', diag3))"

definition tax_impact_from_budget :: "TaxBudgetAccumulator \<Rightarrow> string \<Rightarrow> TaxImpact" where
  "tax_impact_from_budget tb base_currency =
     (let money = (\<lambda>x. \<lparr>amount = x, currency = base_currency\<rparr>)
      in \<lparr> total_realized_gain = money (total_realized_gain_base tb),
           total_realized_loss = money (total_realized_loss_base tb),
           budget_limit = map_option money (tax_budget_limit_base tb),
           budget_used = map_option
             (\<lambda>limit.
                let used = tax_budget_used_base tb;
                    normalized = (if \<bar>limit - used\<bar> \<le> Dec (1 / 10000000000) then limit else used)
                in money (min normalized limit))
             (tax_budget_limit_base tb) \<rparr>)"


section \<open>Lemmas\<close>

subsection \<open>Highest cost first\<close>

lemma lots_with_cost_Some:
  "lots_with_cost lots ccy md diag = (Some items, diag') \<Longrightarrow> map fst items = lots"
  by (induction lots ccy md diag arbitrary: items diag' rule: lots_with_cost.induct)
    (auto split: option.splits prod.splits)

lemma hifo_sorted_lots_spec:
  assumes "hifo_sorted_lots position ccy md diag = (items, diag')"
  shows "sorted_wrt (\<lambda>a b. hifo_key b \<le> hifo_key a) items"
    and "items = [] \<or> (\<exists>p. position = Some p \<and> mset (map fst items) = mset (pos_lots p))"
proof -
  have desc: "sorted_wrt (\<lambda>a b. hifo_key b \<le> hifo_key a) (rev (sort_key hifo_key xs))" for xs
    using sorted_sort_key [of hifo_key xs] by (simp add: sorted_wrt_rev sorted_map)
  have perm: "mset (map fst (rev (sort_key hifo_key (rev xs)))) = mset (map fst xs)" for xs
    by (metis mset_map mset_rev mset_sort)
  show "sorted_wrt (\<lambda>a b. hifo_key b \<le> hifo_key a) items"
    using assms desc by (auto simp: hifo_sorted_lots_def split: option.splits if_splits prod.splits)
  show "items = [] \<or> (\<exists>p. position = Some p \<and> mset (map fst items) = mset (pos_lots p))"
    using assms perm lots_with_cost_Some
    by (auto simp: hifo_sorted_lots_def simp del: mset_map rev_map
        split: option.splits if_splits prod.splits)
qed


subsection \<open>The gains budget\<close>

definition tax_budget_ok :: "TaxBudgetAccumulator \<Rightarrow> bool" where
  "tax_budget_ok tb \<longleftrightarrow>
     total_realized_gain_base tb = tax_budget_used_base tb
     \<and> 0 \<le> tax_budget_used_base tb \<and> canon (tax_budget_used_base tb)
     \<and> 0 \<le> total_realized_loss_base tb
     \<and> (case tax_budget_limit_base tb of
          None \<Rightarrow> True
        | Some limit \<Rightarrow> 0 \<le> limit
            \<and> dval (tax_budget_used_base tb) \<le> dval limit * (1 + 1 / 10 ^ 26))"

text \<open>One lot: the headroom is used up to four rounded operations.\<close>

lemma budget_step:
  fixes used limit g q :: dec
  assumes "0 \<le> used" and "used < limit" and "0 < g" and "0 \<le> q" and "q \<le> (limit - used) / g"
  shows "dval (used + g * q) \<le> dval limit * (1 + 1 / 10 ^ 26)"
proof -
  let ?L = "dval limit" and ?U = "dval used" and ?g = "dval g" and ?q = "dval q" and ?c = "1 + ulp"
  have pos: "0 \<le> ?U" "?U < ?L" "0 < ?g" "0 \<le> ?q" using assms by (simp_all add: dec_order_defs)
  have c1: "1 \<le> ?c" using ulp_bounds by simp
  have h: "round28 (?L - ?U) \<le> (?L - ?U) * ?c" using pos by (intro round28_upper) simp
  have h0: "0 \<le> round28 (?L - ?U)" using pos by (intro ctx28.rnd_nonneg) simp
  have "?q \<le> round28 (round28 (?L - ?U) / ?g)" using assms(5) by (simp add: less_eq_dec_def)
  also have "\<dots> \<le> round28 (?L - ?U) / ?g * ?c" using pos h0 by (intro round28_upper) simp
  finally have "?g * ?q \<le> round28 (?L - ?U) * ?c"
    using pos(3) by (simp add: pos_le_divide_eq mult.commute)
  also have "\<dots> \<le> (?L - ?U) * ?c * ?c" using h c1 by (intro mult_right_mono) auto
  finally have gq: "?g * ?q * ?c \<le> (?L - ?U) * ?c * ?c * ?c" using c1 by (intro mult_right_mono) auto
  have "round28 (?g * ?q) \<le> ?g * ?q * ?c" using pos by (intro round28_upper) simp
  with gq have "?U + round28 (?g * ?q) \<le> ?U + (?L - ?U) * ?c ^ 3" by (simp add: power3_eq_cube mult.assoc)
  also have "\<dots> \<le> ?L * ?c ^ 3"
    using mult_left_mono [of 1 "?c ^ 3" ?U] pos c1 by (simp add: algebra_simps)
  finally have "(?U + round28 (?g * ?q)) * ?c \<le> ?L * ?c ^ 3 * ?c"
    using c1 by (intro mult_right_mono) auto
  moreover have "0 \<le> round28 (?g * ?q)" using pos by (intro ctx28.rnd_nonneg) simp
  then have "round28 (?U + round28 (?g * ?q)) \<le> (?U + round28 (?g * ?q)) * ?c"
    using pos by (intro round28_upper) simp
  ultimately have "round28 (?U + round28 (?g * ?q)) \<le> ?L * (?c ^ 3 * ?c)" by (simp add: mult.assoc)
  also have "\<dots> \<le> ?L * (1 + 1 / 10 ^ 26)"
    using pos by (intro mult_left_mono) (simp_all add: ulp_def power3_eq_cube)
  finally show ?thesis by simp
qed

lemma allowed_lot_quantity_bounds:
  assumes "0 < q"
  shows "0 \<le> tax_budget_allowed_lot_quantity q g tb \<and> tax_budget_allowed_lot_quantity q g tb \<le> q"
  using assms by (auto simp: tax_budget_allowed_lot_quantity_def not_le min_le_iff_disj
      intro!: dec_nonneg(3,4) split: option.splits)

lemma dec_mult_zero: "a * 0 = (0 :: dec)"
  by (simp add: dec_eq_iff ctx28.rnd_zero)

lemma realized_sign:
  fixes g q :: dec
  assumes "0 \<le> q" and "g \<le> 0" and "0 \<le> g * q"
  shows "g * q = 0"
proof -
  have "dval g * dval q \<le> 0" using assms by (simp add: dec_order_defs mult_nonpos_nonneg)
  then have "round28 (dval g * dval q) \<le> 0" by (rule ctx28.rnd_nonpos)
  with assms(3) show ?thesis by (simp add: dec_order_defs dec_eq_iff)
qed

lemma tax_budget_ok_step:
  assumes "tax_budget_ok tb" and "0 < remaining" and "0 < lot_qty"
  shows "tax_budget_ok (apply_tax_budget_lot_allowance
           (tax_budget_lot_allowance remaining lot_qty cost price rate tb) tb)"
proof -
  let ?q = "min remaining lot_qty" and ?g = "(price - cost) * rate"
  let ?a = "tax_budget_allowed_lot_quantity ?q ?g tb"
  have q: "0 < ?q" using assms by simp
  have a: "0 \<le> ?a" using allowed_lot_quantity_bounds [OF q] by simp
  note ok = assms(1) [unfolded tax_budget_ok_def]
  show ?thesis
  proof (cases "0 \<le> ?g * ?a")
    case False
    with ok show ?thesis
      by (auto simp: tax_budget_ok_def apply_tax_budget_lot_allowance_def tax_budget_lot_allowance_def
          Let_def intro!: dec_nonneg(1,5) split: option.splits)
  next
    case True
    let ?u = "tax_budget_used_base tb"
    have within: "dval (?u + ?g * ?a) \<le> dval limit * (1 + 1 / 10 ^ 26)"
      if limit: "tax_budget_limit_base tb = Some limit" for limit
    proof (cases "?g \<le> 0 \<or> limit \<le> ?u")
      case True
      have "?g * ?a = 0"
      proof (cases "?g \<le> 0")
        case True
        then show ?thesis using realized_sign [OF a True \<open>0 \<le> ?g * ?a\<close>] by simp
      next
        case False
        with \<open>?g \<le> 0 \<or> limit \<le> ?u\<close> limit have "?a = 0"
          by (simp add: tax_budget_allowed_lot_quantity_def)
        then show ?thesis by (simp only: dec_mult_zero)
      qed
      with ok limit show ?thesis by simp
    next
      case False
      then have "?a \<le> (limit - ?u) / ?g"
        using limit by (simp add: tax_budget_allowed_lot_quantity_def)
      with False a ok limit show ?thesis by (intro budget_step) auto
    qed
    with True ok show ?thesis
      by (auto simp: tax_budget_ok_def apply_tax_budget_lot_allowance_def tax_budget_lot_allowance_def
          Let_def intro!: dec_nonneg(1) split: option.splits)
  qed
qed

lemma tax_budget_scan_ok:
  "tax_budget_lot_scan lots remaining allowed price rate tb = (q, tb') \<Longrightarrow> tax_budget_ok tb \<Longrightarrow>
     tax_budget_ok tb' \<and> tax_budget_limit_base tb' = tax_budget_limit_base tb"
proof (induction lots remaining allowed price rate tb rule: tax_budget_lot_scan.induct)
  case (2 lot cost lots remaining allowed price rate tb)
  show ?case
  proof (cases "remaining \<le> 0 \<or> lot_quantity lot \<le> 0")
    case True
    with 2 show ?thesis by (auto simp: tax_budget_sale_allowance_def split: if_splits)
  next
    case False
    let ?a = "tax_budget_lot_allowance remaining (lot_quantity lot) cost price rate tb"
    have s: "tax_budget_sale_allowance remaining (lot_quantity lot) cost price rate tb = Some ?a"
      using False by (simp add: tax_budget_sale_allowance_def)
    have ok: "tax_budget_ok (apply_tax_budget_lot_allowance ?a tb)"
      using False "2.prems"(2) by (intro tax_budget_ok_step) auto
    have lim: "tax_budget_limit_base (apply_tax_budget_lot_allowance ?a tb) = tax_budget_limit_base tb"
      by (simp add: apply_tax_budget_lot_allowance_def Let_def)
    show ?thesis
      using "2.prems" ok lim s "2.IH"(2) [OF s refl refl refl] by (auto simp: Let_def split: if_splits)
  qed
qed simp

lemma sell_quantity_budget_ok:
  assumes "sell_quantity_after_safety_limits i side req pos options price ccy rate md tb diag = (d, tb', diag')"
    and "tax_budget_ok tb"
  shows "tax_budget_ok tb' \<and> tax_budget_limit_base tb' = tax_budget_limit_base tb"
  using assms tax_budget_scan_ok
  by (fastforce simp: sell_quantity_after_safety_limits_def tax_budget_limited_sell_quantity_def
      tax_budget_limited_quantity_from_lots_def Let_def split: if_splits prod.splits option.splits)

text \<open>The reported figures: the use never exceeds the limit and equals the gain up to \<open>10\<^sup>-\<^sup>1\<^sup>0\<close>.\<close>

lemma tax_impact_reported:
  assumes "tax_budget_ok tb" and "tax_budget_limit_base tb = Some limit"
  shows "\<exists>u. budget_used (tax_impact_from_budget tb base) = Some u \<and> amount u \<le> limit
           \<and> (amount u = amount (total_realized_gain (tax_impact_from_budget tb base))
              \<or> amount u = limit)"
  using assms
  by (auto simp: tax_impact_from_budget_def Let_def tax_budget_ok_def min_def)


subsection \<open>The allowed quantity\<close>

text \<open>Quantities with at most \<open>k\<close> decimals and 28 digits: sums of them that stay in range are exact.\<close>

definition on_grid :: "nat \<Rightarrow> dec \<Rightarrow> bool" where
  "on_grid k x \<longleftrightarrow> (\<exists>n::int. dval x = of_int n / 10 ^ k \<and> \<bar>n\<bar> \<le> 10 ^ 28)"

lemma on_grid_canon: "on_grid k x \<Longrightarrow> canon x"
  by (auto simp: on_grid_def power_int_minus field_simps intro!: canonI [of x _ "- int k"])

lemma on_grid_exact:
  assumes "on_grid k a" and "on_grid k b" and "\<bar>dval a + c * dval b\<bar> \<le> \<bar>dval r\<bar>" and "on_grid k r"
    and "c = 1 \<or> c = -1"
  shows "round28 (dval a + c * dval b) = dval a + c * dval b"
    and "\<exists>n::int. dval a + c * dval b = of_int n / 10 ^ k \<and> \<bar>n\<bar> \<le> 10 ^ 28"
proof -
  obtain m n l :: int where m: "dval a = of_int m / 10 ^ k" and n: "dval b = of_int n / 10 ^ k"
    and l: "dval r = of_int l / 10 ^ k" "\<bar>l\<bar> \<le> 10 ^ 28"
    using assms(1,2,4) by (auto simp: on_grid_def)
  define s where "s = (if c = 1 then m + n else m - n)"
  have s: "dval a + c * dval b = of_int s / 10 ^ k"
    using m n assms(5) by (auto simp: s_def add_divide_distrib diff_divide_distrib)
  have "\<bar>s\<bar> \<le> \<bar>l\<bar>"
    using assms(3) unfolding s l(1) by (simp add: abs_divide divide_le_cancel flip: of_int_abs)
  then have b: "\<bar>s\<bar> \<le> 10 ^ 28" using l(2) by linarith
  with s show ex: "\<exists>n::int. dval a + c * dval b = of_int n / 10 ^ k \<and> \<bar>n\<bar> \<le> 10 ^ 28" by blast
  have "on_grid k (Dec (dval a + c * dval b))" using ex by (simp add: on_grid_def)
  from on_grid_canon [OF this] show "round28 (dval a + c * dval b) = dval a + c * dval b"
    by (simp add: canon_def)
qed

lemma on_grid_min: "on_grid k a \<Longrightarrow> on_grid k b \<Longrightarrow> on_grid k (min a b)"
  by (simp add: min_def)

lemma on_grid_int_below:
  assumes "dval a = of_int n" and "on_grid k b" and "0 \<le> a" and "a \<le> b"
  shows "on_grid k a"
proof -
  obtain m :: int where m: "dval b = of_int m / 10 ^ k" "\<bar>m\<bar> \<le> 10 ^ 28"
    using assms(2) by (auto simp: on_grid_def)
  have "(of_int (n * 10 ^ k) :: rat) \<le> of_int m"
    using assms(1,4) m(1) by (simp add: dec_order_defs pos_le_divide_eq)
  then have "n * 10 ^ k \<le> m" by (simp only: of_int_le_iff)
  moreover have "0 \<le> n * 10 ^ k" using assms(1,3) by (simp add: dec_order_defs)
  ultimately have "\<bar>n * 10 ^ k\<bar> \<le> 10 ^ 28" using m(2) by linarith
  then show ?thesis using assms(1) by (auto simp: on_grid_def intro!: exI [of _ "n * 10 ^ k"])
qed

lemma lot_scan_quantity:
  "tax_budget_lot_scan lots remaining allowed price rate tb = (q, tb') \<Longrightarrow>
     (\<forall>(lot, cost) \<in> set lots. on_grid k (lot_quantity lot)) \<Longrightarrow>
     on_grid k r \<Longrightarrow> on_grid k remaining \<Longrightarrow> on_grid k allowed \<Longrightarrow> 0 \<le> remaining \<Longrightarrow> 0 \<le> allowed \<Longrightarrow>
     dval allowed + dval remaining = dval r \<Longrightarrow> 0 \<le> q \<and> q \<le> r"
proof (induction lots remaining allowed price rate tb rule: tax_budget_lot_scan.induct)
  case (1 remaining allowed price rate tb)
  then show ?case by (simp add: dec_order_defs)
next
  case (2 lot cost lots remaining allowed price rate tb)
  note prems = "2.prems"
  have r: "0 \<le> dval allowed" "0 \<le> dval remaining" "dval allowed \<le> dval r"
    using prems by (simp_all add: dec_order_defs)
  show ?case
  proof (cases "remaining \<le> 0 \<or> lot_quantity lot \<le> 0")
    case True
    show ?thesis
    proof (cases "remaining \<le> 0")
      case True
      with prems r show ?thesis by (simp add: tax_budget_sale_allowance_def
            tax_budget_allowance_stops_lot_scan_def dec_order_defs)
    next
      case False
      with True prems "2.IH"(1) show ?thesis
        by (simp add: tax_budget_sale_allowance_def tax_budget_allowance_stops_lot_scan_def)
    qed
  next
    case False
    let ?a = "tax_budget_lot_allowance remaining (lot_quantity lot) cost price rate tb"
    let ?q = "tla_allowed_quantity ?a" and ?m = "min remaining (lot_quantity lot)"
    have s: "tax_budget_sale_allowance remaining (lot_quantity lot) cost price rate tb = Some ?a"
      using False by (simp add: tax_budget_sale_allowance_def)
    have req: "tla_requested_quantity ?a = ?m" by (simp add: tax_budget_lot_allowance_def Let_def)
    have "0 < ?m" using False by (simp add: not_le)
    from allowed_lot_quantity_bounds [OF this] have q: "0 \<le> ?q" "?q \<le> ?m"
      by (simp_all add: tax_budget_lot_allowance_def Let_def)
    then have dq: "0 \<le> dval ?q" "dval ?q \<le> dval remaining" by (simp_all add: dec_order_defs)
    have le: "0 \<le> allowed + ?q \<and> allowed + ?q \<le> r"
    proof
      show "0 \<le> allowed + ?q" using prems q by (intro dec_nonneg)
      have "round28 (dval allowed + dval ?q) \<le> round28 (dval r)"
        using dq prems(8) by (intro round28_mono) simp
      with on_grid_canon [OF prems(3)] show "allowed + ?q \<le> r" by (simp add: less_eq_dec_def canon_def)
    qed
    show ?thesis
    proof (cases "tax_budget_allowance_stops_lot_scan (Some ?a) (remaining - ?q)")
      case True
      with prems(1) s le show ?thesis by (simp add: Let_def)
    next
      case False
      then have "\<not> ?q < ?m" using req by (simp add: tax_budget_allowance_stops_lot_scan_def)
      with q(2) have "?q = ?m" by (rule_tac antisym) auto
      with prems(2,4) have grid: "on_grid k ?q" by (auto intro: on_grid_min)
      have e1: "dval (allowed + ?q) = dval allowed + dval ?q" "on_grid k (allowed + ?q)"
        using on_grid_exact [OF prems(5) grid _ prems(3), of 1] dq r prems(8)
        by (auto simp: on_grid_def)
      have e2: "dval (remaining - ?q) = dval remaining - dval ?q" "on_grid k (remaining - ?q)"
        using on_grid_exact [OF prems(4) grid _ prems(3), of "-1"] dq r prems(8)
        by (auto simp: on_grid_def)
      show ?thesis
      proof (rule "2.IH"(2) [OF s refl refl refl False])
        show "tax_budget_lot_scan lots (remaining - ?q) (allowed + ?q) price rate
            (apply_tax_budget_lot_allowance ?a tb) = (q, tb')"
          using prems(1) s False by (simp add: Let_def)
        show "0 \<le> remaining - ?q" using q by (intro dec_nonneg) auto
        show "dval (allowed + ?q) + dval (remaining - ?q) = dval r" using e1 e2 prems(8) by linarith
      qed (use prems e1 e2 le in auto)
    qed
  qed
qed

text \<open>The lots of a position on the grid, as the safety limits see them.\<close>

lemma sell_quantity_bounds:
  assumes "sell_quantity_after_safety_limits i SELL req (Some p) options price ccy rate md tb diag = (d, tb', diag')"
    and "0 < req" and "dval req = of_int n" and "on_grid k (pos_quantity p)"
    and "\<forall>lot \<in> set (pos_lots p). on_grid k (lot_quantity lot)"
  shows "0 \<le> sqd_quantity d \<and> sqd_quantity d \<le> req \<and> sqd_quantity d \<le> max (pos_quantity p) 0"
proof -
  obtain b diag1 where c: "clamped_sell_quantity req (Some p) diag = (b, diag1)" by fastforce
  obtain q tb1 diag2 where t: "tax_budget_limited_sell_quantity i options (Some p) b price ccy rate md tb diag1
      = (q, tb1, diag2)" by (metis prod_cases3)
  have zero: "on_grid k 0" by (auto simp: on_grid_def intro: exI [of _ 0])
  have b: "0 \<le> b" "b \<le> req" "b \<le> max (pos_quantity p) 0"
    using c assms(2) by (auto simp: clamped_sell_quantity_def Let_def max_def split: if_splits)
  have "on_grid k b"
    using c zero assms(4) on_grid_int_below [OF assms(3), of k "pos_quantity p"] assms(2)
    by (auto simp: clamped_sell_quantity_def Let_def max_def split: if_splits)
  note b = b this
  have "0 \<le> q \<and> q \<le> b"
  proof (cases "enable_tax_awareness options \<and> pos_lots p \<noteq> [] \<and> tax_lot_quantity_covered p b")
    case False
    with t b show ?thesis by (auto simp: tax_budget_limited_sell_quantity_def split: if_splits)
  next
    case True
    obtain items diag3 where h: "hifo_sorted_lots (Some p) ccy md diag1 = (items, diag3)" by fastforce
    have "set (map fst items) \<subseteq> set (pos_lots p)"
      using hifo_sorted_lots_spec(2) [OF h] mset_eq_setD by (metis empty_subsetI list.set(1)
          list.simps(8) option.inject order_refl)
    with assms(5) have lots: "\<forall>(lot, cost) \<in> set items. on_grid k (lot_quantity lot)"
      by (auto simp: image_subset_iff)
    show ?thesis
    proof (cases "items = []")
      case True
      with \<open>enable_tax_awareness options \<and> _\<close> t h b show ?thesis
        by (auto simp: tax_budget_limited_sell_quantity_def Let_def)
    next
      case False
      with \<open>enable_tax_awareness options \<and> _\<close> t h
      have "tax_budget_lot_scan items b 0 price rate tb = (q, tb1)"
        by (auto simp: tax_budget_limited_sell_quantity_def tax_budget_limited_quantity_from_lots_def
            Let_def split: prod.splits)
      from lot_scan_quantity [OF this lots b(4) b(4) zero b(1)] show ?thesis by simp
    qed
  qed
  moreover have "sqd_quantity d = q"
    using assms(1,2) c t by (auto simp: sell_quantity_after_safety_limits_def Let_def split: if_splits)
  ultimately show ?thesis using b by auto
qed


section \<open>Properties\<close>

text \<open>
  Lots are sold in order of decreasing unit cost, then purchase date, then identifier, and the
  order is a rearrangement of the position's lots: none is lost or used twice. The only other
  outcome is the empty list.
\<close>

theorem hifo_order:
  assumes "hifo_sorted_lots position ccy md diag = (lots, diag')"
  shows "sorted_wrt (\<lambda>a b. hifo_key b \<le> hifo_key a) lots
    \<and> (lots = [] \<or> (\<exists>p. position = Some p \<and> mset (map fst lots) = mset (pos_lots p)))"
  using hifo_sorted_lots_spec [OF assms] by blast

theorem hifo_order_witness:
  "map (lot_id \<circ> fst) (fst (hifo_sorted_lots (Some sample_tax_position) ''USD'' sample_market make_diagnostics_data))
     = [''L2'', ''L1'']
   \<and> sorted_wrt (\<lambda>a b. hifo_key b \<le> hifo_key a)
       (fst (hifo_sorted_lots (Some sample_tax_position) ''USD'' sample_market make_diagnostics_data))"
proof -
  let ?h = "hifo_sorted_lots (Some sample_tax_position) ''USD'' sample_market make_diagnostics_data"
  have "map (lot_id \<circ> fst) (fst ?h) = [''L2'', ''L1'']" by code_simp
  moreover obtain lots diag' where h: "?h = (lots, diag')" by fastforce
  ultimately show ?thesis using hifo_order [OF h] by simp
qed

text \<open>
  C9. The capital-gains budget. Whatever lots are sold, in whatever order and at whatever rate, the
  gains realized so far equal the budget used, and the budget used stays within the limit up to the
  rounding of the last of 28 digits. The limit itself is never changed, and the reported use is
  never above it.
\<close>

theorem tax_budget_respected:
  assumes "tax_budget_lot_scan lots requested 0 price rate
      \<lparr> total_realized_gain_base = 0, total_realized_loss_base = 0, tax_budget_used_base = 0,
        tax_budget_limit_base = Some limit \<rparr> = (q, tb)"
    and "0 \<le> limit"
  shows "total_realized_gain_base tb = tax_budget_used_base tb \<and> tax_budget_limit_base tb = Some limit
    \<and> 0 \<le> tax_budget_used_base tb \<and> dval (tax_budget_used_base tb) \<le> dval limit * (1 + 1 / 10 ^ 26)
    \<and> (\<exists>u. budget_used (tax_impact_from_budget tb base) = Some u \<and> amount u \<le> limit)"
proof -
  have "tax_budget_ok \<lparr> total_realized_gain_base = 0, total_realized_loss_base = 0,
      tax_budget_used_base = 0, tax_budget_limit_base = Some limit \<rparr>"
    using assms(2) by (simp add: tax_budget_ok_def dec_order_defs)
  from tax_budget_scan_ok [OF assms(1) this] have ok: "tax_budget_ok tb"
    and limit: "tax_budget_limit_base tb = Some limit" by simp_all
  with tax_impact_reported [OF ok limit, of base] show ?thesis by (auto simp: tax_budget_ok_def)
qed

theorem tax_budget_respected_witness:
  "let (q, tb) = tax_budget_lot_scan
         (fst (hifo_sorted_lots (Some sample_tax_position) ''USD'' sample_market make_diagnostics_data))
         (Dec 100) 0 (Dec 10) 1
         \<lparr> total_realized_gain_base = 0, total_realized_loss_base = 0, tax_budget_used_base = 0,
           tax_budget_limit_base = Some (Dec 200) \<rparr>
   in q = Dec 80 \<and> tax_budget_used_base tb = Dec 200
      \<and> dval (tax_budget_used_base tb) \<le> 200 * (1 + 1 / 10 ^ 26)"
proof -
  let ?s = "tax_budget_lot_scan
         (fst (hifo_sorted_lots (Some sample_tax_position) ''USD'' sample_market make_diagnostics_data))
         (Dec 100) 0 (Dec 10) 1
         \<lparr> total_realized_gain_base = 0, total_realized_loss_base = 0, tax_budget_used_base = 0,
           tax_budget_limit_base = Some (Dec 200) \<rparr>"
  obtain q tb where s: "?s = (q, tb)" by fastforce
  have "fst ?s = Dec 80" and "tax_budget_used_base (snd ?s) = Dec 200" by code_simp+
  moreover have "(0 :: dec) \<le> Dec 200" by (simp add: dec_order_defs)
  note tax_budget_respected [OF s this]
  ultimately show ?thesis using s by simp
qed

text \<open>
  A sell is never larger than asked for, never larger than the holding and never negative, with
  the clamp to the holding and the tax budget applied one after the other; quantities are whole
  multiples of one decimal place of at most 28 digits.
\<close>

theorem sell_quantity_limited:
  assumes "sell_quantity_after_safety_limits i SELL req (Some p) options price ccy rate md tb diag = (d, tb', diag')"
    and "0 < req" and "dval req = of_int n" and "on_grid k (pos_quantity p)"
    and "\<forall>lot \<in> set (pos_lots p). on_grid k (lot_quantity lot)"
  shows "0 \<le> sqd_quantity d \<and> sqd_quantity d \<le> req \<and> sqd_quantity d \<le> max (pos_quantity p) 0"
  by (rule sell_quantity_bounds [OF assms])

theorem sell_quantity_limited_witness:
  "sqd_quantity (fst (sell_quantity_after_safety_limits ''A'' SELL (Dec 120) (Some sample_tax_position)
     (EngineOptions_default\<lparr>enable_tax_awareness := True, max_realized_capital_gains := Some (Dec 100)\<rparr>)
     (Dec 10) ''USD'' 1 sample_market
     \<lparr> total_realized_gain_base = 0, total_realized_loss_base = 0, tax_budget_used_base = 0,
       tax_budget_limit_base = Some (Dec 100) \<rparr> make_diagnostics_data)) \<le> max (Dec 100) 0"
proof -
  have p: "pos_quantity sample_tax_position = Dec 100"
    and lots: "\<forall>lot \<in> set (pos_lots sample_tax_position). lot_quantity lot = Dec 40 \<or> lot_quantity lot = Dec 60"
    by (simp_all add: sample_tax_position_def holding_def)
  have grid: "on_grid 0 (Dec 100)" "on_grid 0 (Dec 40)" "on_grid 0 (Dec 60)"
    by (auto simp: on_grid_def intro: exI [of _ 100] exI [of _ 40] exI [of _ 60])
  let ?o = "EngineOptions_default\<lparr>enable_tax_awareness := True, max_realized_capital_gains := Some (Dec 100)\<rparr>"
  obtain d tb' diag' where r: "sell_quantity_after_safety_limits ''A'' SELL (Dec 120) (Some sample_tax_position) ?o
     (Dec 10) ''USD'' 1 sample_market
     \<lparr> total_realized_gain_base = 0, total_realized_loss_base = 0, tax_budget_used_base = 0,
       tax_budget_limit_base = Some (Dec 100) \<rparr> make_diagnostics_data = (d, tb', diag')" by (metis prod_cases3)
  have "\<forall>lot \<in> set (pos_lots sample_tax_position). on_grid 0 (lot_quantity lot)" using lots grid by fastforce
  with sell_quantity_limited [OF r, of 120 0] p grid
  have "sqd_quantity d \<le> max (pos_quantity sample_tax_position) 0" by (simp add: dec_order_defs)
  with r p show ?thesis by simp
qed

end
