(* ===== verification/Intents.thy ===== *)
theory Intents
  imports Tax_Budget Target_Generation "HOL-Library.Sublist"
begin

text \<open>
  Stage 4 of the engine (\<open>src/src/core/rebalance/intents.py\<close>): from target weights to security
  trade intents, with the minimum-notional threshold, the sell limits of \<open>Tax_Budget\<close> and the
  intent identifiers. The engine passes \<open>diagnostics.data_quality\<close> and
  \<open>diagnostics.suppressed_intents\<close> as the log and the list of suppressed trades, so both are
  fields of the diagnostics that are threaded through. Sizing divides by the unit value and
  raises when it is zero.
\<close>


section \<open>Definitions\<close>

definition trade_notional_threshold :: "EngineOptions \<Rightarrow> ShelfEntry option \<Rightarrow> Money option" where
  "trade_notional_threshold options shelf_entry =
     (case min_trade_notional options of
        Some m \<Rightarrow> Some m
      | None \<Rightarrow> (case shelf_entry of None \<Rightarrow> None | Some e \<Rightarrow> shelf_min_notional e))"

record TradeThresholdComparison =
  ttc_comparison_threshold :: "Money option"
  ttc_fx_pair :: "string option"
  ttc_fx_quote_rate :: "dec option"
  ttc_conversion_rate :: "dec option"
  ttc_fx_direction :: "FxDirection option"
  ttc_reason_code :: string

record ThresholdFxQuote =
  tfq_pair :: string
  tfq_quote_rate :: "dec option"
  tfq_conversion_rate :: "dec option"
  tfq_direction :: "FxDirection option"

definition threshold_fx_quote :: "string \<Rightarrow> string \<Rightarrow> MarketDataSnapshot \<Rightarrow> ThresholdFxQuote" where
  "threshold_fx_quote threshold_currency notional_currency md =
     (let direct_pair = fx_pair_key threshold_currency notional_currency;
          inverse_pair = fx_pair_key notional_currency threshold_currency
      in case first_rate md direct_pair of
           Some r \<Rightarrow> \<lparr> tfq_pair = direct_pair, tfq_quote_rate = Some r, tfq_conversion_rate = Some r,
                       tfq_direction = Some DIRECT \<rparr>
         | None \<Rightarrow>
             (case first_rate md inverse_pair of
                Some r \<Rightarrow> \<lparr> tfq_pair = inverse_pair, tfq_quote_rate = Some r,
                            tfq_conversion_rate = (if 0 < r then Some (1 / r) else None),
                            tfq_direction = Some INVERSE \<rparr>
              | None \<Rightarrow> \<lparr> tfq_pair = direct_pair, tfq_quote_rate = None, tfq_conversion_rate = None,
                          tfq_direction = None \<rparr>))"

definition trade_threshold_comparison ::
  "Money \<Rightarrow> string \<Rightarrow> MarketDataSnapshot \<Rightarrow> TradeThresholdComparison" where
  "trade_threshold_comparison threshold notional_currency md =
     (if currency threshold = notional_currency
      then \<lparr> ttc_comparison_threshold = Some threshold,
             ttc_fx_pair = Some (fx_pair_key (currency threshold) notional_currency),
             ttc_fx_quote_rate = Some 1, ttc_conversion_rate = Some 1,
             ttc_fx_direction = Some IDENTITY, ttc_reason_code = ''MIN_TRADE_THRESHOLD_READY'' \<rparr>
      else let quote = threshold_fx_quote (currency threshold) notional_currency md
           in case tfq_quote_rate quote of
                None \<Rightarrow>
                  \<lparr> ttc_comparison_threshold = None, ttc_fx_pair = Some (tfq_pair quote),
                    ttc_fx_quote_rate = None, ttc_conversion_rate = None, ttc_fx_direction = None,
                    ttc_reason_code = ''MIN_TRADE_THRESHOLD_FX_MISSING'' \<rparr>
              | Some rate \<Rightarrow>
                  (case tfq_conversion_rate quote of
                     Some conv \<Rightarrow>
                       if rate \<le> 0
                       then \<lparr> ttc_comparison_threshold = None, ttc_fx_pair = Some (tfq_pair quote),
                              ttc_fx_quote_rate = Some rate, ttc_conversion_rate = None,
                              ttc_fx_direction = tfq_direction quote,
                              ttc_reason_code = ''MIN_TRADE_THRESHOLD_FX_INVALID'' \<rparr>
                       else \<lparr> ttc_comparison_threshold =
                                Some \<lparr>amount = amount threshold * conv, currency = notional_currency\<rparr>,
                              ttc_fx_pair = Some (tfq_pair quote), ttc_fx_quote_rate = Some rate,
                              ttc_conversion_rate = Some conv, ttc_fx_direction = tfq_direction quote,
                              ttc_reason_code = ''MIN_TRADE_THRESHOLD_READY'' \<rparr>
                   | None \<Rightarrow>
                       \<lparr> ttc_comparison_threshold = None, ttc_fx_pair = Some (tfq_pair quote),
                         ttc_fx_quote_rate = Some rate, ttc_conversion_rate = None,
                         ttc_fx_direction = tfq_direction quote,
                         ttc_reason_code = ''MIN_TRADE_THRESHOLD_FX_INVALID'' \<rparr>))"

definition available_holding_constraint_applies :: "Side \<Rightarrow> dec \<Rightarrow> dec \<Rightarrow> bool" where
  "available_holding_constraint_applies side quantity requested \<longleftrightarrow> side = SELL \<and> quantity < requested"

definition security_intent_constraints ::
  "Money option \<Rightarrow> Side \<Rightarrow> dec \<Rightarrow> dec \<Rightarrow> dec option \<Rightarrow> bool \<Rightarrow> string list" where
  "security_intent_constraints threshold side quantity requested before_tax tax_aware =
     (if threshold \<noteq> None then [''MIN_NOTIONAL''] else [])
     @ (if available_holding_constraint_applies side quantity requested
        then [''AVAILABLE_HOLDING''] else [])
     @ (if tax_budget_constraint_applies side quantity before_tax tax_aware
        then [''TAX_BUDGET''] else [])"

definition suppress_dust_trade ::
  "string \<Rightarrow> dec \<Rightarrow> string \<Rightarrow> Money option \<Rightarrow> EngineOptions \<Rightarrow> Money option \<Rightarrow> DiagnosticsData
     \<Rightarrow> bool \<times> DiagnosticsData" where
  "suppress_dust_trade instrument notional notional_currency threshold options comparison_threshold diag =
     (let effective = (case comparison_threshold of Some m \<Rightarrow> Some m | None \<Rightarrow> threshold)
      in if \<not> suppress_dust_trades options \<or> threshold = None \<or> effective = None
            \<or> amount (the effective) \<le> notional
         then (False, diag)
         else (True, diag\<lparr>suppressed_intents := suppressed_intents diag
                 @ [\<lparr> si_instrument_id = instrument, si_reason = ''BELOW_MIN_NOTIONAL'',
                      si_intended_notional = \<lparr>amount = notional, currency = notional_currency\<rparr>,
                      si_threshold = the threshold \<rparr>]\<rparr>))"

definition threshold_evaluation ::
  "string \<Rightarrow> Side \<Rightarrow> ThresholdOutcome \<Rightarrow> Money \<Rightarrow> Money \<Rightarrow> TradeThresholdComparison \<Rightarrow> string
     \<Rightarrow> MinimumTradeThresholdEvaluation" where
  "threshold_evaluation instrument side outcome notional threshold c reason =
     \<lparr> mte_instrument_id = instrument, mte_side = side, mte_comparison_outcome = outcome,
       mte_intended_notional = notional, mte_configured_threshold = threshold,
       mte_comparison_threshold = ttc_comparison_threshold c, mte_fx_quote_pair = ttc_fx_pair c,
       mte_fx_quote_rate = ttc_fx_quote_rate c, mte_conversion_rate = ttc_conversion_rate c,
       mte_conversion_direction = ttc_fx_direction c, mte_reason_code = reason \<rparr>"

definition minimum_trade_threshold_excludes_candidate ::
  "string \<Rightarrow> Side \<Rightarrow> Money \<Rightarrow> Money option \<Rightarrow> EngineOptions \<Rightarrow> MarketDataSnapshot \<Rightarrow> DiagnosticsData
     \<Rightarrow> bool \<times> DiagnosticsData" where
  "minimum_trade_threshold_excludes_candidate instrument side notional threshold options md diag =
     (case threshold of
        None \<Rightarrow> (False, diag)
      | Some t \<Rightarrow>
          if \<not> suppress_dust_trades options then (False, diag)
          else let c = trade_threshold_comparison t (currency notional) md
               in case ttc_comparison_threshold c of
                    None \<Rightarrow>
                      let pair = (case ttc_fx_pair c of
                                    Some p \<Rightarrow> if p = [] then fx_pair_key (currency t) (currency notional) else p
                                  | None \<Rightarrow> fx_pair_key (currency t) (currency notional));
                          diag1 = log_dq ''minimum_trade_threshold_fx_unavailable'' pair diag;
                          diag2 = add_warning (ttc_reason_code c) diag1
                      in (True, diag2\<lparr>minimum_trade_threshold_evaluations :=
                            minimum_trade_threshold_evaluations diag2
                            @ [threshold_evaluation instrument side THRESHOLD_BLOCKED notional t c
                                 (ttc_reason_code c)]\<rparr>)
                  | Some m \<Rightarrow>
                      let (dust, diag1) = suppress_dust_trade instrument (amount notional)
                            (currency notional) (Some t) options (Some m) diag
                      in (dust, diag1\<lparr>minimum_trade_threshold_evaluations :=
                            minimum_trade_threshold_evaluations diag1
                            @ [threshold_evaluation instrument side (if dust then SUPPRESSED else KEPT)
                                 notional t c
                                 (if dust then ''BELOW_MIN_NOTIONAL''
                                  else ''MIN_TRADE_THRESHOLD_SATISFIED'')]\<rparr>))"

record TargetTradeDelta =
  ttd_side :: Side
  ttd_raw_quantity :: dec

record TargetIntentContext =
  tic_instrument_id :: string
  tic_side :: Side
  tic_requested_quantity :: dec
  tic_quantity :: dec
  tic_unit_value :: dec
  tic_base_rate :: dec
  tic_price_currency :: string
  tic_threshold :: "Money option"
  tic_sell_quantity_before_tax :: "dec option"

definition target_trade_delta :: "dec \<Rightarrow> dec \<Rightarrow> dec \<Rightarrow> TargetTradeDelta result" where
  "target_trade_delta target_value current_value unit_value =
     (let delta = target_value - current_value
      in bind_result (dec_floordiv \<bar>delta\<bar> unit_value)
           (\<lambda>q. Inr \<lparr> ttd_side = (if 0 < delta then BUY else SELL), ttd_raw_quantity = Dec (of_int q) \<rparr>))"

definition intent_market_context ::
  "string \<Rightarrow> PortfolioSnapshot \<Rightarrow> MarketDataSnapshot \<Rightarrow> DiagnosticsData
     \<Rightarrow> (Price \<times> dec \<times> Position option) option \<times> DiagnosticsData" where
  "intent_market_context instrument portfolio md diag =
     (case List.find (\<lambda>p. price_instrument_id p = instrument) (md_prices md) of
        None \<Rightarrow> (None, log_dq ''price_missing'' instrument diag)
      | Some price \<Rightarrow>
          let rate = get_fx_rate md (price_currency price) (pf_base_currency portfolio)
          in if \<not> truthy rate
             then (None, log_dq ''fx_missing''
                          (fx_pair_key (price_currency price) (pf_base_currency portfolio)) diag)
             else (Some (price, the rate,
                         List.find (\<lambda>p. pos_instrument_id p = instrument) (pf_positions portfolio)), diag))"

definition current_instrument_value_and_unit_value :: "Position option \<Rightarrow> Price \<Rightarrow> dec \<times> dec" where
  "current_instrument_value_and_unit_value position price =
     (case position of
        None \<Rightarrow> (0, price_price price)
      | Some p \<Rightarrow>
          (case pos_market_value p of
             None \<Rightarrow> (pos_quantity p * price_price price, price_price price)
           | Some mv \<Rightarrow>
               if 0 < pos_quantity p then (amount mv, amount mv / pos_quantity p)
               else (amount mv, price_price price)))"

definition target_weight_by_instrument :: "TargetInstrument list \<Rightarrow> (string, dec) dict" where
  "target_weight_by_instrument targets = dict_of (map (\<lambda>t. (ti_instrument_id t, ti_final_weight t)) targets)"

definition security_trade_intent ::
  "string \<Rightarrow> TargetIntentContext \<Rightarrow> string \<Rightarrow> bool \<Rightarrow> SecurityTradeIntent" where
  "security_trade_intent iid c base_ccy tax_aware =
     (let notional = tic_quantity c * tic_unit_value c
      in \<lparr> sti_intent_id = iid, sti_instrument_id = tic_instrument_id c, sti_side = tic_side c,
           sti_quantity = Some (tic_quantity c),
           sti_notional = Some \<lparr>amount = notional, currency = tic_price_currency c\<rparr>,
           sti_notional_base = Some \<lparr>amount = notional * tic_base_rate c, currency = base_ccy\<rparr>,
           sti_dependencies = [],
           sti_rationale = Some \<lparr>rationale_code = ''DRIFT_REBALANCE'', rationale_message = ''Align''\<rparr>,
           sti_constraints_applied = security_intent_constraints (tic_threshold c) (tic_side c)
             (tic_quantity c) (tic_requested_quantity c) (tic_sell_quantity_before_tax c) tax_aware \<rparr>)"

definition target_intent_context ::
  "string \<Rightarrow> dec \<Rightarrow> PortfolioSnapshot \<Rightarrow> MarketDataSnapshot \<Rightarrow> ShelfEntry list \<Rightarrow> EngineOptions \<Rightarrow> dec
     \<Rightarrow> TaxBudgetAccumulator \<Rightarrow> DiagnosticsData
     \<Rightarrow> (TargetIntentContext option \<times> TaxBudgetAccumulator \<times> DiagnosticsData) result" where
  "target_intent_context instrument target_weight portfolio md shelf options total_val tb diag =
     (case intent_market_context instrument portfolio md diag of
        (None, diag1) \<Rightarrow> Inr (None, tb, diag1)
      | (Some (price, rate, position), diag1) \<Rightarrow>
          let (current_value, unit_value) = current_instrument_value_and_unit_value position price;
              target_value = (total_val * target_weight) / rate
          in bind_result (target_trade_delta target_value current_value unit_value)
               (\<lambda>delta.
                  let (sell, tb', diag2) = sell_quantity_after_safety_limits instrument
                        (ttd_side delta) (ttd_raw_quantity delta) position options unit_value
                        (price_currency price) rate md tb diag1;
                      entry = List.find (\<lambda>s. shelf_instrument_id s = instrument) shelf;
                      threshold = trade_notional_threshold options entry;
                      notional = sqd_quantity sell * unit_value;
                      (excluded, diag3) = minimum_trade_threshold_excludes_candidate instrument
                        (ttd_side delta) \<lparr>amount = notional, currency = price_currency price\<rparr>
                        threshold options md diag2
                  in Inr (if excluded then None
                          else Some \<lparr> tic_instrument_id = instrument, tic_side = ttd_side delta,
                                      tic_requested_quantity = ttd_raw_quantity delta,
                                      tic_quantity = sqd_quantity sell, tic_unit_value = unit_value,
                                      tic_base_rate = rate, tic_price_currency = price_currency price,
                                      tic_threshold = threshold,
                                      tic_sell_quantity_before_tax = sqd_sell_quantity_before_tax sell \<rparr>,
                          tb', diag3)))"

definition append_security_trade_intent ::
  "TargetIntentContext \<Rightarrow> string \<Rightarrow> bool \<Rightarrow> SecurityTradeIntent list \<Rightarrow> SecurityTradeIntent list" where
  "append_security_trade_intent c base_ccy tax_aware intents =
     (if tic_quantity c \<le> 0 then intents
      else intents @ [security_trade_intent (''oi_'' @ nat_str (length intents + 1)) c base_ccy tax_aware])"

definition generate_intents ::
  "PortfolioSnapshot \<Rightarrow> MarketDataSnapshot \<Rightarrow> TargetInstrument list \<Rightarrow> ShelfEntry list \<Rightarrow> EngineOptions
     \<Rightarrow> dec \<Rightarrow> DiagnosticsData
     \<Rightarrow> (SecurityTradeIntent list \<times> TaxImpact option \<times> DiagnosticsData) result" where
  "generate_intents portfolio md targets shelf options total_val diag =
     bind_result
       (fold_result
          (\<lambda>(i, w) (intents, tb, diag).
             bind_result
               (target_intent_context i w portfolio md shelf options total_val tb diag)
               (\<lambda>(context, tb', diag').
                  Inr (case context of
                         None \<Rightarrow> intents
                       | Some c \<Rightarrow> append_security_trade_intent c (pf_base_currency portfolio)
                                     (enable_tax_awareness options) intents,
                       tb', diag')))
          (target_weight_by_instrument targets)
          ([], \<lparr> total_realized_gain_base = 0, total_realized_loss_base = 0, tax_budget_used_base = 0,
                 tax_budget_limit_base = max_realized_capital_gains options \<rparr>, diag))
       (\<lambda>(intents, tb, diag').
          Inr (intents,
               if enable_tax_awareness options
               then Some (tax_impact_from_budget tb (pf_base_currency portfolio)) else None,
               diag'))"


section \<open>Lemmas\<close>

text \<open>What a context says about the market and the limits it was computed under.\<close>

definition context_ok ::
  "PortfolioSnapshot \<Rightarrow> MarketDataSnapshot \<Rightarrow> EngineOptions \<Rightarrow> TargetIntentContext \<Rightarrow> bool" where
  "context_ok portfolio md options c \<longleftrightarrow>
     (\<exists>price. List.find (\<lambda>p. price_instrument_id p = tic_instrument_id c) (md_prices md) = Some price
        \<and> tic_price_currency c = price_currency price
        \<and> get_fx_rate md (price_currency price) (pf_base_currency portfolio) = Some (tic_base_rate c)
        \<and> tic_unit_value c = snd (current_instrument_value_and_unit_value
              (List.find (\<lambda>p. pos_instrument_id p = tic_instrument_id c) (pf_positions portfolio)) price))
     \<and> (\<forall>t. suppress_dust_trades options \<longrightarrow> tic_threshold c = Some t \<longrightarrow>
          (\<exists>m. ttc_comparison_threshold (trade_threshold_comparison t (tic_price_currency c) md) = Some m
             \<and> amount m \<le> tic_quantity c * tic_unit_value c))"

lemma not_excluded_threshold:
  assumes "minimum_trade_threshold_excludes_candidate i side notional threshold options md diag = (False, diag')"
    and "suppress_dust_trades options" and "threshold = Some t"
  shows "\<exists>m. ttc_comparison_threshold (trade_threshold_comparison t (currency notional) md) = Some m
             \<and> amount m \<le> amount notional"
  using assms
  by (auto simp: minimum_trade_threshold_excludes_candidate_def suppress_dust_trade_def Let_def
      split: option.splits if_splits)

text \<open>The sizing step, opened up once: every later fact about a context comes from here.\<close>

lemma target_intent_context_SomeD:
  assumes "target_intent_context i w portfolio md shelf options tv tb diag = Inr (Some c, tb', diag')"
  obtains price rate position delta sell diag1 diag2 where
    "List.find (\<lambda>p. price_instrument_id p = i) (md_prices md) = Some price"
    "get_fx_rate md (price_currency price) (pf_base_currency portfolio) = Some rate"
    "position = List.find (\<lambda>p. pos_instrument_id p = i) (pf_positions portfolio)"
    "target_trade_delta ((tv * w) / rate)
       (fst (current_instrument_value_and_unit_value position price))
       (snd (current_instrument_value_and_unit_value position price)) = Inr delta"
    "sell_quantity_after_safety_limits i (ttd_side delta) (ttd_raw_quantity delta) position options
       (snd (current_instrument_value_and_unit_value position price)) (price_currency price) rate md tb diag1
       = (sell, tb', diag2)"
    "minimum_trade_threshold_excludes_candidate i (ttd_side delta)
       \<lparr>amount = sqd_quantity sell * snd (current_instrument_value_and_unit_value position price),
        currency = price_currency price\<rparr> (tic_threshold c) options md diag2 = (False, diag')"
    "tic_instrument_id c = i" "tic_side c = ttd_side delta" "tic_quantity c = sqd_quantity sell"
    "tic_unit_value c = snd (current_instrument_value_and_unit_value position price)"
    "tic_base_rate c = rate" "tic_price_currency c = price_currency price"
proof -
  let ?pos = "List.find (\<lambda>p. pos_instrument_id p = i) (pf_positions portfolio)"
  obtain mc diag1 where mc: "intent_market_context i portfolio md diag = (mc, diag1)" by fastforce
  with assms have "mc \<noteq> None" by (cases mc) (auto simp: target_intent_context_def)
  then obtain price rate where p: "mc = Some (price, rate, ?pos)"
    and facts: "List.find (\<lambda>p. price_instrument_id p = i) (md_prices md) = Some price"
      "get_fx_rate md (price_currency price) (pf_base_currency portfolio) = Some rate"
    using mc by (auto simp: intent_market_context_def Let_def split: option.splits if_splits)
  obtain cv uv where v: "current_instrument_value_and_unit_value ?pos price = (cv, uv)" by fastforce
  obtain delta where d: "target_trade_delta ((tv * w) / rate) cv uv = Inr delta"
    using assms mc p v by (auto simp: target_intent_context_def Let_def bind_result_eq_Inr)
  obtain sell tb1 diag2 where q: "sell_quantity_after_safety_limits i (ttd_side delta) (ttd_raw_quantity delta)
      ?pos options uv (price_currency price) rate md tb diag1 = (sell, tb1, diag2)" by (metis prod_cases3)
  let ?t = "trade_notional_threshold options (List.find (\<lambda>s. shelf_instrument_id s = i) shelf)"
  obtain ex diag3 where x: "minimum_trade_threshold_excludes_candidate i (ttd_side delta)
      \<lparr>amount = sqd_quantity sell * uv, currency = price_currency price\<rparr> ?t options md diag2 = (ex, diag3)"
    by fastforce
  show thesis
    by (rule that [OF facts refl, where delta = delta and sell = sell and ?diag1.0 = diag1 and ?diag2.0 = diag2])
      (use assms mc p v d q x in \<open>auto simp: target_intent_context_def Let_def split: if_splits\<close>)
qed

lemma target_intent_context_ok:
  assumes "target_intent_context i w portfolio md shelf options tv tb diag = Inr (Some c, tb', diag')"
  shows "context_ok portfolio md options c \<and> tic_instrument_id c = i"
proof (rule target_intent_context_SomeD [OF assms])
  fix price rate position delta sell diag1 diag2
  assume *: "List.find (\<lambda>p. price_instrument_id p = i) (md_prices md) = Some price"
    "get_fx_rate md (price_currency price) (pf_base_currency portfolio) = Some rate"
    "position = List.find (\<lambda>p. pos_instrument_id p = i) (pf_positions portfolio)"
    "tic_instrument_id c = i" "tic_quantity c = sqd_quantity sell"
    "tic_unit_value c = snd (current_instrument_value_and_unit_value position price)"
    "tic_base_rate c = rate" "tic_price_currency c = price_currency price"
  assume "minimum_trade_threshold_excludes_candidate i (ttd_side delta)
       \<lparr>amount = sqd_quantity sell * snd (current_instrument_value_and_unit_value position price),
        currency = price_currency price\<rparr> (tic_threshold c) options md diag2 = (False, diag')"
  from * not_excluded_threshold [OF this] show ?thesis by (auto simp: context_ok_def)
qed

text \<open>Quantities of a portfolio with at most \<open>k\<close> decimals; needed only when lots are scanned.\<close>

definition portfolio_on_grid :: "nat \<Rightarrow> PortfolioSnapshot \<Rightarrow> bool" where
  "portfolio_on_grid k portfolio \<longleftrightarrow>
     (\<forall>p \<in> set (pf_positions portfolio). on_grid k (pos_quantity p)
        \<and> (\<forall>lot \<in> set (pos_lots p). on_grid k (lot_quantity lot)))"

lemma sell_within_holding:
  assumes "sell_quantity_after_safety_limits i SELL (Dec (of_int n)) position options price ccy rate md tb diag
      = (sell, tb', diag')"
    and "0 < sqd_quantity sell"
    and "\<And>p. enable_tax_awareness options \<Longrightarrow> position = Some p \<Longrightarrow>
           on_grid k (pos_quantity p) \<and> (\<forall>lot \<in> set (pos_lots p). on_grid k (lot_quantity lot))"
  shows "\<exists>p. position = Some p \<and> sqd_quantity sell \<le> pos_quantity p"
proof (cases position)
  case None
  with assms(1,2) show ?thesis
    by (auto simp: sell_quantity_after_safety_limits_def clamped_sell_quantity_def
        tax_budget_limited_sell_quantity_def Let_def split: if_splits)
next
  case (Some p)
  have "sqd_quantity sell \<le> max (pos_quantity p) 0"
  proof (cases "enable_tax_awareness options")
    case True
    have "0 < Dec (of_int n)"
      using assms(1,2) by (auto simp: sell_quantity_after_safety_limits_def not_le split: if_splits)
    from sell_quantity_bounds [OF assms(1) [unfolded Some] this, of n k] assms(3) True Some
    show ?thesis by simp
  next
    case False
    with assms(1,2) Some show ?thesis
      by (auto simp: sell_quantity_after_safety_limits_def clamped_sell_quantity_def
          tax_budget_limited_sell_quantity_def Let_def max_def split: if_splits)
  qed
  with assms(2) Some show ?thesis by (auto simp: max_def split: if_splits)
qed

lemma target_trade_delta_Inr:
  "target_trade_delta a b u = Inr delta \<Longrightarrow> \<exists>n. ttd_raw_quantity delta = Dec (of_int n)"
  by (auto simp: target_trade_delta_def Let_def bind_result_eq_Inr)

lemma context_sell_bound:
  assumes "target_intent_context i w portfolio md shelf options tv tb diag = Inr (Some c, tb', diag')"
    and "tic_side c = SELL" and "0 < tic_quantity c"
    and "enable_tax_awareness options \<Longrightarrow> portfolio_on_grid k portfolio"
  shows "\<exists>p \<in> set (pf_positions portfolio). pos_instrument_id p = i \<and> tic_quantity c \<le> pos_quantity p"
proof (rule target_intent_context_SomeD [OF assms(1)])
  fix price rate position delta sell diag1 diag2
  assume delta: "target_trade_delta ((tv * w) / rate)
       (fst (current_instrument_value_and_unit_value position price))
       (snd (current_instrument_value_and_unit_value position price)) = Inr delta"
    and position: "position = List.find (\<lambda>p. pos_instrument_id p = i) (pf_positions portfolio)"
    and sell: "sell_quantity_after_safety_limits i (ttd_side delta) (ttd_raw_quantity delta) position options
       (snd (current_instrument_value_and_unit_value position price)) (price_currency price) rate md tb diag1
       = (sell, tb', diag2)"
    and eqs: "tic_side c = ttd_side delta" "tic_quantity c = sqd_quantity sell"
  obtain n where n: "ttd_raw_quantity delta = Dec (of_int n)"
    using target_trade_delta_Inr [OF delta] by blast
  have grid: "on_grid k (pos_quantity p) \<and> (\<forall>lot \<in> set (pos_lots p). on_grid k (lot_quantity lot))"
    if "enable_tax_awareness options" "position = Some p" for p
    using that assms(4) position find_SomeD [of _ "pf_positions portfolio" p]
    by (auto simp: portfolio_on_grid_def)
  have "0 < sqd_quantity sell" using assms(3) eqs(2) by simp
  note sell_within_holding [OF sell [unfolded n eqs(1) [symmetric] assms(2)] this grid]
  then show ?thesis using position eqs(2) find_SomeD [of _ "pf_positions portfolio"] by fastforce
qed


section \<open>The loop over the targets\<close>

text \<open>
  A well-formed trade: a positive quantity, valued at the unit value of the holding, or at the price
  where the holding has no market value, and converted at the quoted rate.
\<close>

definition trade_unit_value :: "Position option \<Rightarrow> Price \<Rightarrow> dec" where
  "trade_unit_value position price =
     (case Option.bind position pos_market_value of
        Some mv \<Rightarrow> if 0 < pos_quantity (the position) then amount mv / pos_quantity (the position) else price_price price
      | None \<Rightarrow> price_price price)"

lemma unit_value_eq: "snd (current_instrument_value_and_unit_value position price) = trade_unit_value position price"
  by (simp add: current_instrument_value_and_unit_value_def trade_unit_value_def split: option.split)

definition trade_priced ::
  "PortfolioSnapshot \<Rightarrow> MarketDataSnapshot \<Rightarrow> SecurityTradeIntent \<Rightarrow> bool" where
  "trade_priced portfolio md s \<longleftrightarrow>
     (\<exists>q u rate price.
        sti_quantity s = Some q \<and> 0 < q
        \<and> List.find (\<lambda>p. price_instrument_id p = sti_instrument_id s) (md_prices md) = Some price
        \<and> get_fx_rate md (price_currency price) (pf_base_currency portfolio) = Some rate
        \<and> u = trade_unit_value (List.find (\<lambda>p. pos_instrument_id p = sti_instrument_id s) (pf_positions portfolio)) price
        \<and> sti_notional s = Some \<lparr>amount = q * u, currency = price_currency price\<rparr>
        \<and> sti_notional_base s = Some \<lparr>amount = q * u * rate, currency = pf_base_currency portfolio\<rparr>)
     \<and> sti_dependencies s = []"

definition sell_covered :: "PortfolioSnapshot \<Rightarrow> SecurityTradeIntent \<Rightarrow> bool" where
  "sell_covered portfolio s \<longleftrightarrow>
     (sti_side s = SELL \<longrightarrow>
        (\<exists>p \<in> set (pf_positions portfolio). pos_instrument_id p = sti_instrument_id s
           \<and> (\<exists>q. sti_quantity s = Some q \<and> q \<le> pos_quantity p)))"

text \<open>
  Lots are added up in 28 digits. The sum is exact, and no sell exceeds its holding, when the quantities
  of the portfolio are multiples of one power of ten and have at most 28 digits at that scale. Without
  tax awareness no lot is read.
\<close>

definition lots_exact :: "EngineOptions \<Rightarrow> PortfolioSnapshot \<Rightarrow> bool" where
  "lots_exact options portfolio \<longleftrightarrow> (enable_tax_awareness options \<longrightarrow> (\<exists>k. portfolio_on_grid k portfolio))"

definition gains_limit_ok :: "EngineOptions \<Rightarrow> bool" where
  "gains_limit_ok options \<longleftrightarrow> pred_option (\<lambda>limit. 0 \<le> limit) (max_realized_capital_gains options)"

definition oi_id :: "nat \<Rightarrow> string" where
  "oi_id n = ''oi_'' @ nat_str (n + 1)"

definition intents_inv ::
  "PortfolioSnapshot \<Rightarrow> MarketDataSnapshot \<Rightarrow> EngineOptions \<Rightarrow> string list
     \<Rightarrow> SecurityTradeIntent list \<Rightarrow> TaxBudgetAccumulator \<Rightarrow> bool" where
  "intents_inv portfolio md options keys intents tb \<longleftrightarrow>
     map sti_intent_id intents = map oi_id [0..<length intents]
     \<and> subseq (map sti_instrument_id intents) keys
     \<and> (\<forall>s \<in> set intents. trade_priced portfolio md s \<and> (lots_exact options portfolio \<longrightarrow> sell_covered portfolio s))
     \<and> (gains_limit_ok options \<longrightarrow>
          tax_budget_ok tb \<and> tax_budget_limit_base tb = max_realized_capital_gains options)"

definition budget_kept :: "TaxBudgetAccumulator \<Rightarrow> TaxBudgetAccumulator \<Rightarrow> bool" where
  "budget_kept tb tb' \<longleftrightarrow>
     (tax_budget_ok tb \<longrightarrow> tax_budget_ok tb' \<and> tax_budget_limit_base tb' = tax_budget_limit_base tb)"

lemma intents_inv_skip:
  "intents_inv portfolio md options keys intents tb \<Longrightarrow> budget_kept tb tb' \<Longrightarrow>
     intents_inv portfolio md options (keys @ [i]) intents tb'"
  by (simp add: intents_inv_def budget_kept_def) (metis append_Nil2 list_emb_append_mono list_emb_Nil)

lemma intents_inv_append:
  assumes "intents_inv portfolio md options keys intents tb" and "budget_kept tb tb'"
    and "context_ok portfolio md options c" and "tic_instrument_id c = i"
    and "lots_exact options portfolio \<Longrightarrow> tic_side c = SELL \<Longrightarrow> 0 < tic_quantity c \<Longrightarrow>
      \<exists>p \<in> set (pf_positions portfolio). pos_instrument_id p = i \<and> tic_quantity c \<le> pos_quantity p"
  shows "intents_inv portfolio md options (keys @ [i])
           (append_security_trade_intent c (pf_base_currency portfolio) tax intents) tb'"
proof (cases "tic_quantity c \<le> 0")
  case True
  then show ?thesis using intents_inv_skip [OF assms(1,2)] by (simp add: append_security_trade_intent_def)
next
  case False
  let ?s = "security_trade_intent (''oi_'' @ nat_str (length intents + 1)) c (pf_base_currency portfolio) tax"
  have "trade_priced portfolio md ?s"
    using assms(3,4) False
    by (force simp: trade_priced_def context_ok_def security_trade_intent_def Let_def unit_value_eq)
  moreover have "sell_covered portfolio ?s" if "lots_exact options portfolio"
    using assms(4,5) that False by (force simp: sell_covered_def security_trade_intent_def Let_def)
  moreover have "sti_intent_id ?s = oi_id (length intents)" "sti_instrument_id ?s = i"
    using assms(4) by (simp_all add: security_trade_intent_def Let_def oi_id_def)
  ultimately show ?thesis
    using assms(1,2) False by (auto simp: intents_inv_def budget_kept_def append_security_trade_intent_def
        intro!: list_emb_append_mono)
qed

lemma target_intent_context_budget:
  assumes "target_intent_context i w portfolio md shelf options tv tb diag = Inr (c, tb', diag')"
  shows "budget_kept tb tb'"
proof -
  obtain mc diag1 where mc: "intent_market_context i portfolio md diag = (mc, diag1)" by fastforce
  show ?thesis
  proof (cases mc)
    case None
    with assms mc show ?thesis by (simp add: target_intent_context_def budget_kept_def)
  next
    case (Some m)
    then obtain price rate position where m: "mc = Some (price, rate, position)" by (metis prod_cases3)
    obtain cv uv where v: "current_instrument_value_and_unit_value position price = (cv, uv)" by fastforce
    obtain delta where d: "target_trade_delta ((tv * w) / rate) cv uv = Inr delta"
      using assms mc m v by (auto simp: target_intent_context_def Let_def bind_result_eq_Inr)
    obtain sell tb1 diag2 where q: "sell_quantity_after_safety_limits i (ttd_side delta)
        (ttd_raw_quantity delta) position options uv (price_currency price) rate md tb diag1
        = (sell, tb1, diag2)" by (metis prod_cases3)
    have "tb' = tb1"
      using assms mc m v d q by (auto simp: target_intent_context_def Let_def split: prod.splits)
    with sell_quantity_budget_ok [OF q] show ?thesis by (simp add: budget_kept_def)
  qed
qed

lemma generate_intents_inv:
  assumes "generate_intents portfolio md targets shelf options tv diag = Inr (intents, impact, diag')"
  shows "\<exists>tb. intents_inv portfolio md options (dict_keys (target_weight_by_instrument targets)) intents tb
           \<and> impact = (if enable_tax_awareness options
                       then Some (tax_impact_from_budget tb (pf_base_currency portfolio)) else None)"
proof -
  let ?body = "\<lambda>(i, w) (intents, tb, diag).
             bind_result
               (target_intent_context i w portfolio md shelf options tv tb diag)
               (\<lambda>(context, tb', diag').
                  Inr (case context of
                         None \<Rightarrow> intents
                       | Some c \<Rightarrow> append_security_trade_intent c (pf_base_currency portfolio)
                                     (enable_tax_awareness options) intents,
                       tb', diag'))"
  let ?tb0 = "\<lparr> total_realized_gain_base = 0, total_realized_loss_base = 0, tax_budget_used_base = 0,
                 tax_budget_limit_base = max_realized_capital_gains options \<rparr>"
  obtain tb where loop: "fold_result ?body (target_weight_by_instrument targets) ([], ?tb0, diag)
        = Inr (intents, tb, diag')"
    and impact: "impact = (if enable_tax_awareness options
                       then Some (tax_impact_from_budget tb (pf_base_currency portfolio)) else None)"
    using assms by (auto simp: generate_intents_def bind_result_eq_Inr)
  have "intents_inv portfolio md options (map fst (target_weight_by_instrument targets))
      (fst (intents, tb, diag')) (fst (snd (intents, tb, diag')))"
  proof (rule fold_result_prefix [OF loop, where P = "\<lambda>ys st. intents_inv portfolio md options (map fst ys)
      (fst st) (fst (snd st))"])
    show "intents_inv portfolio md options (map fst []) (fst ([], ?tb0, diag)) (fst (snd ([], ?tb0, diag)))"
      by (auto simp: intents_inv_def tax_budget_ok_def gains_limit_ok_def dec_order_defs split: option.splits)
  next
    fix ys :: "(string \<times> dec) list" and x zs s s'
    assume inv: "intents_inv portfolio md options (map fst ys) (fst s) (fst (snd s))"
      and step: "?body x s = Inr s'"
    obtain i w where x: "x = (i, w)" by fastforce
    obtain is1 tb1 d1 where s: "s = (is1, tb1, d1)" by (metis prod_cases3)
    from step obtain c tb2 d2
      where c: "target_intent_context i w portfolio md shelf options tv tb1 d1 = Inr (c, tb2, d2)"
        and s': "s' = (case c of None \<Rightarrow> is1
                 | Some c \<Rightarrow> append_security_trade_intent c (pf_base_currency portfolio)
                               (enable_tax_awareness options) is1, tb2, d2)"
      by (auto simp: x s bind_result_eq_Inr)
    note budget = target_intent_context_budget [OF c]
    show "intents_inv portfolio md options (map fst (ys @ [x])) (fst s') (fst (snd s'))"
    proof (cases c)
      case None
      with inv budget show ?thesis by (simp add: s s' x intents_inv_skip)
    next
      case (Some c1)
      note ok = target_intent_context_ok [OF c [unfolded Some]]
      have "\<exists>p \<in> set (pf_positions portfolio). pos_instrument_id p = i \<and> tic_quantity c1 \<le> pos_quantity p"
        if "lots_exact options portfolio" "tic_side c1 = SELL" "0 < tic_quantity c1"
        using that context_sell_bound [OF c [unfolded Some] that(2,3)] by (auto simp: lots_exact_def)
      with ok have "intents_inv portfolio md options (map fst ys @ [i])
           (append_security_trade_intent c1 (pf_base_currency portfolio) (enable_tax_awareness options) is1) tb2"
        using inv budget by (intro intents_inv_append [where tb = tb1]) (auto simp: s)
      then show ?thesis by (simp add: s s' x Some)
    qed
  qed
  with impact show ?thesis by auto
qed



section \<open>Zero unit values\<close>

lemma target_trade_delta_zero:
  "target_trade_delta t c 0 = Inl (if \<bar>t - c\<bar> = 0 then InvalidOperation else DivisionByZero)"
  by (simp add: target_trade_delta_def dec_floordiv_def dec_eq_iff Let_def)

lemma fold_result_raises:
  assumes "x \<in> set xs" and "\<And>s. \<exists>e. f x s = Inl e"
  shows "\<exists>e. fold_result f xs s = Inl e"
  using assms(1)
proof (induction xs arbitrary: s)
  case (Cons y ys)
  show ?case
  proof (cases "x = y")
    case True
    with assms(2) [of s] show ?thesis by auto
  next
    case False
    with Cons show ?thesis by (cases "f y s") auto
  qed
qed simp

lemma generate_intents_zero_unit_value:
  assumes "i \<in> set (map ti_instrument_id targets)"
    and "List.find (\<lambda>p. price_instrument_id p = i) (md_prices md) = Some price"
    and "get_fx_rate md (price_currency price) (pf_base_currency portfolio) \<noteq> None"
    and "snd (current_instrument_value_and_unit_value
           (List.find (\<lambda>p. pos_instrument_id p = i) (pf_positions portfolio)) price) = 0"
  shows "\<exists>e. generate_intents portfolio md targets shelf options tv diag = Inl e"
proof -
  have "set (dict_keys (target_weight_by_instrument targets)) = set (map ti_instrument_id targets)"
    unfolding target_weight_by_instrument_def dict_keys_of by (simp add: image_image)
  with assms(1) have "i \<in> fst ` set (target_weight_by_instrument targets)" by simp
  then obtain w where w: "(i, w) \<in> set (target_weight_by_instrument targets)" by fastforce
  have raise: "\<exists>e. target_intent_context i w portfolio md shelf options tv tb diag = Inl e" for tb diag
    using assms(2-4)
    by (auto simp: target_intent_context_def intent_market_context_def Let_def target_trade_delta_zero
        split: prod.splits)
  let ?body = "\<lambda>(i, w) (intents, tb, diag).
             bind_result
               (target_intent_context i w portfolio md shelf options tv tb diag)
               (\<lambda>(context, tb', diag').
                  Inr (case context of
                         None \<Rightarrow> intents
                       | Some c \<Rightarrow> append_security_trade_intent c (pf_base_currency portfolio)
                                     (enable_tax_awareness options) intents,
                       tb', diag'))"
  have "\<exists>e. ?body (i, w) s = Inl e" for s
    using raise [of "fst (snd s)" "snd (snd s)"] by (auto simp: case_prod_unfold)
  from fold_result_raises [OF w, of ?body, OF this] show ?thesis
    unfolding generate_intents_def bind_result_eq_Inl by blast
qed


section \<open>Properties\<close>

text \<open>
  C10. The intents of a run are well formed: numbered in order, at most one per instrument, with a
  positive quantity, a notional of quantity times the unit value of the holding (its price where it has
  no market value) in the instrument's price currency and its conversion at the quoted rate, and no
  dependency yet. No sell exceeds the holding; with tax awareness this is for portfolios whose
  quantities are added exactly in 28 digits. With a limit on gains that is not negative, the reported
  gains stay within the limit up to rounding.
\<close>

theorem intents_well_formed:
  assumes "generate_intents portfolio md targets shelf options tv diag = Inr (intents, impact, diag')"
  shows "map sti_intent_id intents = map oi_id [0..<length intents]
    \<and> distinct (map sti_instrument_id intents)
    \<and> (\<forall>s \<in> set intents. trade_priced portfolio md s)
    \<and> (lots_exact options portfolio \<longrightarrow> (\<forall>s \<in> set intents. sell_covered portfolio s))
    \<and> (\<forall>limit x. max_realized_capital_gains options = Some limit \<longrightarrow> 0 \<le> limit \<longrightarrow> impact = Some x \<longrightarrow>
          dval (amount (total_realized_gain x)) \<le> dval limit * (1 + 1 / 10 ^ 26))"
proof -
  from generate_intents_inv [OF assms] obtain tb where
    inv: "intents_inv portfolio md options (dict_keys (target_weight_by_instrument targets)) intents tb"
    and impact: "impact = (if enable_tax_awareness options
                       then Some (tax_impact_from_budget tb (pf_base_currency portfolio)) else None)" by blast
  have "distinct (dict_keys (target_weight_by_instrument targets))"
    by (simp add: target_weight_by_instrument_def dict_ok_of)
  then have "distinct (map sti_instrument_id intents)"
    using inv by (auto simp: intents_inv_def subseq_conv_nths intro: distinct_nthsI)
  with inv impact show ?thesis
    by (auto simp: intents_inv_def gains_limit_ok_def tax_budget_ok_def tax_impact_from_budget_def Let_def)
qed

definition sample_targets :: "TargetInstrument list" where
  "sample_targets =
     build_target_trace sample_model [(''A'', Dec (1 / 4)), (''B'', Dec (1 / 2))] [''A'', ''B''] (Dec 2000) ''USD''"

theorem intents_well_formed_witness:
  "\<exists>intents impact diag'. generate_intents sample_portfolio sample_market sample_targets sample_shelf
       EngineOptions_default (Dec 2000) make_diagnostics_data = Inr (intents, impact, diag')
     \<and> map sti_instrument_id intents = [''A'', ''B'']
     \<and> (\<forall>s \<in> set intents. trade_priced sample_portfolio sample_market s \<and> sell_covered sample_portfolio s)"
proof -
  let ?g = "generate_intents sample_portfolio sample_market sample_targets sample_shelf
       EngineOptions_default (Dec 2000) make_diagnostics_data"
  have g: "case ?g of Inr (intents, _) \<Rightarrow> map sti_instrument_id intents = [''A'', ''B''] | Inl _ \<Rightarrow> False"
    by code_simp
  then obtain intents impact diag' where r: "?g = Inr (intents, impact, diag')"
    by (cases ?g) auto
  have "lots_exact EngineOptions_default sample_portfolio" by (simp add: lots_exact_def EngineOptions_default_def)
  with intents_well_formed [OF r] r g show ?thesis by auto
qed

text \<open>
  Dust. With suppression on, a candidate trade passes its minimum-notional check only when the
  threshold can be converted to the trade's currency and the notional reaches it; a threshold that
  cannot be converted is logged as a blocking data-quality gap and the trade is dropped.
\<close>

theorem dust_check:
  assumes "suppress_dust_trades options"
    and "minimum_trade_threshold_excludes_candidate i side notional (Some t) options md diag = (excluded, diag')"
  shows "(case ttc_comparison_threshold (trade_threshold_comparison t (currency notional) md) of
            Some m \<Rightarrow> excluded = (amount notional < amount m) \<and> data_quality diag' = data_quality diag
          | None \<Rightarrow> excluded
              \<and> dq_bucket (data_quality diag') ''minimum_trade_threshold_fx_unavailable'' \<noteq> [])"
  using assms
  by (auto simp: minimum_trade_threshold_excludes_candidate_def suppress_dust_trade_def Let_def not_le
      log_dq_def add_warning_def dq_bucket_append split: option.splits if_splits)

theorem dust_check_witness:
  "fst (minimum_trade_threshold_excludes_candidate ''A'' BUY (usd (Dec 50)) (Some (usd (Dec 100)))
     EngineOptions_default sample_market make_diagnostics_data)"
proof -
  obtain e d where r: "minimum_trade_threshold_excludes_candidate ''A'' BUY (usd (Dec 50)) (Some (usd (Dec 100)))
     EngineOptions_default sample_market make_diagnostics_data = (e, d)" by fastforce
  have s: "suppress_dust_trades EngineOptions_default" by (simp add: EngineOptions_default_def)
  have "ttc_comparison_threshold (trade_threshold_comparison (usd (Dec 100)) ''USD'' sample_market)
      = Some (usd (Dec 100))" by code_simp
  with dust_check [OF s r] r show ?thesis by (simp add: usd_def dec_order_defs)
qed

text \<open>
  An instrument with a target row, a price and a rate but a unit value of zero makes intent
  generation raise: the quantity is computed by dividing by the unit value without a guard.
\<close>

theorem zero_unit_value_raises:
  assumes "i \<in> set (map ti_instrument_id targets)"
    and "List.find (\<lambda>p. price_instrument_id p = i) (md_prices md) = Some price"
    and "get_fx_rate md (price_currency price) (pf_base_currency portfolio) \<noteq> None"
    and "snd (current_instrument_value_and_unit_value
           (List.find (\<lambda>p. pos_instrument_id p = i) (pf_positions portfolio)) price) = 0"
  shows "\<exists>e. generate_intents portfolio md targets shelf options tv diag = Inl e"
  by (rule generate_intents_zero_unit_value [OF assms])

theorem zero_unit_value_raises_witness:
  "\<exists>e. generate_intents sample_portfolio (sample_market\<lparr>md_prices := [quote ''A'' (Dec 10) ''USD'', quote ''B'' 0 ''USD'']\<rparr>)
     sample_targets sample_shelf EngineOptions_default (Dec 2000) make_diagnostics_data = Inl e"
proof (rule zero_unit_value_raises [of "''B''" _ _ "quote ''B'' 0 ''USD''"])
  show "''B'' \<in> set (map ti_instrument_id sample_targets)" by code_simp
qed (simp_all add: quote_def sample_portfolio_def holding_def current_instrument_value_and_unit_value_def)

end
