(* ===== verification/Turnover.thy ===== *)
theory Turnover
  imports Samples "HOL-Library.Sublist"
begin

text \<open>
  The turnover budget (\<open>src/src/core/rebalance/turnover.py\<close>): when the proposed turnover
  exceeds \<open>max_turnover_pct\<close> of the portfolio, the intents are ranked and taken greedily
  while they fit. The lemmas show that the selection respects the budget, that every intent
  with a base notional is either selected or reported as dropped, and that a dropped intent
  did not fit when it was considered.
\<close>


section \<open>Definitions\<close>

definition calculate_turnover_score :: "SecurityTradeIntent \<Rightarrow> dec \<Rightarrow> dec" where
  "calculate_turnover_score intent portfolio_value_base =
     (if portfolio_value_base \<le> 0 then 0
      else case sti_notional_base intent of
             None \<Rightarrow> 0
           | Some m \<Rightarrow> \<bar>amount m\<bar> / portfolio_value_base)"

definition turnover_budget :: "dec \<Rightarrow> dec \<Rightarrow> dec" where
  "turnover_budget portfolio_value_base max_pct = portfolio_value_base * max_pct"

definition proposed_turnover :: "SecurityTradeIntent list \<Rightarrow> dec" where
  "proposed_turnover intents =
     dsum (map (\<lambda>m. \<bar>amount m\<bar>) (List.map_filter sti_notional_base intents))"

definition turnover_rank_key :: "dec \<Rightarrow> SecurityTradeIntent \<Rightarrow> dec \<times> dec \<times> string \<times> string" where
  "turnover_rank_key portfolio_value_base intent =
     (- calculate_turnover_score intent portfolio_value_base,
      (case sti_notional_base intent of None \<Rightarrow> 0 | Some m \<Rightarrow> \<bar>amount m\<bar>),
      sti_instrument_id intent, sti_intent_id intent)"

definition ranked_turnover_intents :: "SecurityTradeIntent list \<Rightarrow> dec \<Rightarrow> SecurityTradeIntent list" where
  "ranked_turnover_intents intents portfolio_value_base =
     sort_key (turnover_rank_key portfolio_value_base) intents"

definition dropped_turnover_intent ::
  "SecurityTradeIntent \<Rightarrow> dec \<Rightarrow> dec \<Rightarrow> string \<Rightarrow> DroppedIntent" where
  "dropped_turnover_intent intent notional_abs portfolio_value_base base_currency =
     \<lparr> di_instrument_id = sti_instrument_id intent, di_reason = ''TURNOVER_LIMIT'',
       di_potential_notional = \<lparr>amount = notional_abs, currency = base_currency\<rparr>,
       di_score = calculate_turnover_score intent portfolio_value_base \<rparr>"

record TurnoverSelection =
  tsel_selected :: "SecurityTradeIntent list"
  tsel_dropped :: "DroppedIntent list"

fun turnover_selection_loop ::
  "SecurityTradeIntent list \<Rightarrow> dec \<Rightarrow> dec \<Rightarrow> string \<Rightarrow> dec \<Rightarrow> TurnoverSelection \<Rightarrow> TurnoverSelection" where
  "turnover_selection_loop [] budget pv base used sel = sel"
| "turnover_selection_loop (intent # rest) budget pv base used sel =
     (case sti_notional_base intent of
        None \<Rightarrow> turnover_selection_loop rest budget pv base used sel
      | Some m \<Rightarrow>
          if used + \<bar>amount m\<bar> \<le> budget
          then turnover_selection_loop rest budget pv base (used + \<bar>amount m\<bar>)
                 (sel\<lparr>tsel_selected := tsel_selected sel @ [intent]\<rparr>)
          else turnover_selection_loop rest budget pv base used
                 (sel\<lparr>tsel_dropped := tsel_dropped sel
                    @ [dropped_turnover_intent intent \<bar>amount m\<bar> pv base]\<rparr>))"

definition select_turnover_budget_intents ::
  "SecurityTradeIntent list \<Rightarrow> dec \<Rightarrow> dec \<Rightarrow> string \<Rightarrow> TurnoverSelection" where
  "select_turnover_budget_intents intents budget pv base =
     turnover_selection_loop (ranked_turnover_intents intents pv) budget pv base 0
       \<lparr> tsel_selected = [], tsel_dropped = [] \<rparr>"

definition apply_turnover_limit ::
  "SecurityTradeIntent list \<Rightarrow> EngineOptions \<Rightarrow> dec \<Rightarrow> string \<Rightarrow> DiagnosticsData
     \<Rightarrow> SecurityTradeIntent list \<times> DiagnosticsData" where
  "apply_turnover_limit intents options pv base diag =
     (case max_turnover_pct options of
        None \<Rightarrow> (intents, diag)
      | Some pct \<Rightarrow>
          let budget = turnover_budget pv pct
          in if proposed_turnover intents \<le> budget then (intents, diag)
             else let sel = select_turnover_budget_intents intents budget pv base;
                      diag1 = diag\<lparr>dropped_intents := dropped_intents diag @ tsel_dropped sel\<rparr>;
                      diag2 = (if dropped_intents diag1 \<noteq> []
                               then add_warning ''PARTIAL_REBALANCE_TURNOVER_LIMIT'' diag1 else diag1)
                  in (tsel_selected sel, diag2))"


section \<open>Lemmas\<close>

definition notional_abs_of :: "SecurityTradeIntent \<Rightarrow> dec" where
  "notional_abs_of intent = (case sti_notional_base intent of None \<Rightarrow> 0 | Some m \<Rightarrow> \<bar>amount m\<bar>)"

lemma proposed_turnover_snoc:
  "sti_notional_base i = Some m \<Longrightarrow> proposed_turnover (is @ [i]) = proposed_turnover is + \<bar>amount m\<bar>"
  by (simp add: proposed_turnover_def map_filter_def)

text \<open>
  The greedy loop. The intents with a notional split into the selected ones and the dropped
  ones, both in ranking order; the selected ones stay within the budget.
\<close>

lemma turnover_loop_spec:
  assumes "turnover_selection_loop xs budget pv base used sel = sel'"
    and "proposed_turnover (tsel_selected sel) = used"
  shows "(tsel_selected sel' = tsel_selected sel \<or> proposed_turnover (tsel_selected sel') \<le> budget)
    \<and> (\<exists>ys zs. tsel_selected sel' = tsel_selected sel @ ys
         \<and> tsel_dropped sel' = tsel_dropped sel
             @ map (\<lambda>i. dropped_turnover_intent i (notional_abs_of i) pv base) zs
         \<and> subseq ys xs \<and> subseq zs xs
         \<and> mset ys + mset zs = mset (filter (\<lambda>i. sti_notional_base i \<noteq> None) xs))"
  using assms
proof (induction xs budget pv base used sel rule: turnover_selection_loop.induct)
  case (1 budget pv base used sel)
  then show ?case by auto
next
  case (2 i rest budget pv base used sel)
  show ?case
  proof (cases "sti_notional_base i")
    case None
    with 2 obtain ys zs where "tsel_selected sel' = tsel_selected sel @ ys"
      "tsel_dropped sel' = tsel_dropped sel
         @ map (\<lambda>i. dropped_turnover_intent i (notional_abs_of i) pv base) zs"
      "subseq ys rest" "subseq zs rest"
      "tsel_selected sel' = tsel_selected sel \<or> proposed_turnover (tsel_selected sel') \<le> budget"
      "mset ys + mset zs = mset (filter (\<lambda>i. sti_notional_base i \<noteq> None) rest)" by fastforce
    with None show ?thesis by (intro conjI exI [of _ ys] exI [of _ zs]) auto
  next
    case (Some m)
    show ?thesis
    proof (cases "used + \<bar>amount m\<bar> \<le> budget")
      case True
      let ?sel = "sel\<lparr>tsel_selected := tsel_selected sel @ [i]\<rparr>"
      have "turnover_selection_loop rest budget pv base (used + \<bar>amount m\<bar>) ?sel = sel'"
        using "2.prems"(1) Some True by simp
      from "2.IH"(2) [OF Some True this] "2.prems"(2) Some True
      obtain ys zs where "tsel_selected sel' = tsel_selected ?sel @ ys"
        "tsel_dropped sel' = tsel_dropped ?sel
           @ map (\<lambda>i. dropped_turnover_intent i (notional_abs_of i) pv base) zs"
        "subseq ys rest" "subseq zs rest" "proposed_turnover (tsel_selected sel') \<le> budget"
        "mset ys + mset zs = mset (filter (\<lambda>i. sti_notional_base i \<noteq> None) rest)"
        by (auto simp: proposed_turnover_snoc)
      with Some show ?thesis by (intro conjI exI [of _ "i # ys"] exI [of _ zs]) auto
    next
      case False
      let ?sel = "sel\<lparr>tsel_dropped := tsel_dropped sel @ [dropped_turnover_intent i \<bar>amount m\<bar> pv base]\<rparr>"
      have "turnover_selection_loop rest budget pv base used ?sel = sel'"
        using "2.prems"(1) Some False by simp
      from "2.IH"(3) [OF Some False this] "2.prems"(2)
      obtain ys zs where "tsel_selected sel' = tsel_selected ?sel @ ys"
        "tsel_dropped sel' = tsel_dropped ?sel
           @ map (\<lambda>i. dropped_turnover_intent i (notional_abs_of i) pv base) zs"
        "subseq ys rest" "subseq zs rest"
        "tsel_selected sel' = tsel_selected sel \<or> proposed_turnover (tsel_selected sel') \<le> budget"
        "mset ys + mset zs = mset (filter (\<lambda>i. sti_notional_base i \<noteq> None) rest)"
        by auto
      with Some show ?thesis
        by (intro conjI exI [of _ ys] exI [of _ "i # zs"]) (auto simp: notional_abs_of_def)
    qed
  qed
qed

lemma apply_turnover_limit_frame:
  assumes "apply_turnover_limit intents options pv base diag = (kept, diag')"
  shows "set kept \<subseteq> set intents" and "data_quality diag' = data_quality diag"
proof -
  have loop: "set (tsel_selected (turnover_selection_loop xs budget pv base used sel))
      \<subseteq> set (tsel_selected sel) \<union> set xs" for xs budget used sel
    by (induction xs budget pv base used sel rule: turnover_selection_loop.induct)
      (auto split: option.splits)
  from loop [of "ranked_turnover_intents intents pv"] assms
  show "set kept \<subseteq> set intents" and "data_quality diag' = data_quality diag"
    by (fastforce simp: apply_turnover_limit_def select_turnover_budget_intents_def Let_def add_warning_def
        ranked_turnover_intents_def split: option.splits if_splits)+
qed

lemma apply_turnover_limit_spec:
  assumes "apply_turnover_limit intents options pv base diag = (kept, diag')"
    and "max_turnover_pct options = Some pct"
    and "\<not> proposed_turnover intents \<le> turnover_budget pv pct"
  shows "(kept = [] \<or> proposed_turnover kept \<le> turnover_budget pv pct)
    \<and> (\<exists>zs. subseq kept (ranked_turnover_intents intents pv)
         \<and> mset kept + mset zs = mset (filter (\<lambda>i. sti_notional_base i \<noteq> None) intents)
         \<and> dropped_intents diag' = dropped_intents diag
             @ map (\<lambda>i. dropped_turnover_intent i (notional_abs_of i) pv base) zs)"
proof -
  let ?sel = "select_turnover_budget_intents intents (turnover_budget pv pct) pv base"
  have kept: "kept = tsel_selected ?sel"
    and dropped: "dropped_intents diag' = dropped_intents diag @ tsel_dropped ?sel"
    using assms by (auto simp: apply_turnover_limit_def Let_def add_warning_def split: if_splits)
  have empty: "proposed_turnover [] = 0" by (simp add: proposed_turnover_def map_filter_def)
  from turnover_loop_spec [OF refl, of "\<lparr> tsel_selected = [], tsel_dropped = [] \<rparr>" 0
      "ranked_turnover_intents intents pv" "turnover_budget pv pct" pv base] empty
  obtain ys zs where "ys = [] \<or> proposed_turnover (tsel_selected ?sel) \<le> turnover_budget pv pct"
    "tsel_selected ?sel = ys" "subseq ys (ranked_turnover_intents intents pv)"
    "tsel_dropped ?sel = map (\<lambda>i. dropped_turnover_intent i (notional_abs_of i) pv base) zs"
    "mset ys + mset zs = mset (filter (\<lambda>i. sti_notional_base i \<noteq> None) (ranked_turnover_intents intents pv))"
    by (auto simp: select_turnover_budget_intents_def)
  then show ?thesis
    using kept dropped by (auto simp: ranked_turnover_intents_def)
qed


section \<open>Properties\<close>

text \<open>
  C11. The turnover limit. If the proposed trades fit the budget they are returned as they are. Otherwise
  the kept ones fit it, or none is kept, as when the portfolio value or the limit is negative; they are
  in ranking order, and kept and dropped ones together are exactly the trades that have a base notional,
  each dropped one on record.
\<close>

theorem turnover_within_budget:
  assumes "apply_turnover_limit intents options pv base diag = (kept, diag')"
    and "max_turnover_pct options = Some pct"
  shows "(kept = [] \<or> proposed_turnover kept \<le> turnover_budget pv pct)
    \<and> (if proposed_turnover intents \<le> turnover_budget pv pct then kept = intents \<and> diag' = diag
       else \<exists>zs. subseq kept (ranked_turnover_intents intents pv)
            \<and> mset kept + mset zs = mset (filter (\<lambda>i. sti_notional_base i \<noteq> None) intents)
            \<and> dropped_intents diag' = dropped_intents diag
                @ map (\<lambda>i. dropped_turnover_intent i (notional_abs_of i) pv base) zs)"
proof (cases "proposed_turnover intents \<le> turnover_budget pv pct")
  case True
  with assms show ?thesis by (simp add: apply_turnover_limit_def)
next
  case False
  with apply_turnover_limit_spec [OF assms False] show ?thesis by simp
qed

theorem turnover_within_budget_witness:
  "let r = apply_turnover_limit [sample_trade ''oi_1'' ''A'' SELL (Dec 50) (Dec 500), sample_trade ''oi_2'' ''B'' BUY (Dec 50) (Dec 1000)]
             (EngineOptions_default\<lparr>max_turnover_pct := Some (Dec (1 / 2))\<rparr>) (Dec 2000) ''USD'' make_diagnostics_data
   in map sti_intent_id (fst r) = [''oi_2''] \<and> proposed_turnover (fst r) \<le> turnover_budget (Dec 2000) (Dec (1 / 2))"
proof -
  let ?r = "apply_turnover_limit [sample_trade ''oi_1'' ''A'' SELL (Dec 50) (Dec 500), sample_trade ''oi_2'' ''B'' BUY (Dec 50) (Dec 1000)]
             (EngineOptions_default\<lparr>max_turnover_pct := Some (Dec (1 / 2))\<rparr>) (Dec 2000) ''USD'' make_diagnostics_data"
  obtain kept diag' where r: "?r = (kept, diag')" by fastforce
  have ids: "map sti_intent_id (fst ?r) = [''oi_2'']" by code_simp
  with r have "kept \<noteq> []" by auto
  then have "proposed_turnover kept \<le> turnover_budget (Dec 2000) (Dec (1 / 2))"
    using turnover_within_budget [OF r] by (simp add: EngineOptions_default_def)
  with ids show ?thesis using r by simp
qed

end
