(* ===== verification/Compliance.thy ===== *)
theory Compliance
  imports Valuation
begin

text \<open>
  The post-trade rule engine (\<open>src/src/core/compliance.py\<close>) and the status a rule list leads
  to (\<open>derive_status_from_rules\<close> of \<open>common/simulation_shared.py\<close>). The lemmas show that
  every core rule emits a result, and characterise exactly the states that pass the hard
  rules.
\<close>


section \<open>Rules\<close>

definition cash_weight :: "SimulatedState \<Rightarrow> dec" where
  "cash_weight state =
     (case List.find (\<lambda>a. am_key a = ''CASH'') (ss_allocation_by_asset_class state) of
        None \<Rightarrow> 0
      | Some a \<Rightarrow> am_weight a)"

definition cash_band_rule_result :: "SimulatedState \<Rightarrow> EngineOptions \<Rightarrow> RuleResult" where
  "cash_band_rule_result state options =
     (let w = cash_weight state; min_w = cash_band_min_weight options; max_w = cash_band_max_weight options
      in if w < min_w \<or> max_w < w
         then \<lparr> rule_id = ''CASH_BAND'', rule_severity = SOFT, rule_status = FAIL, rule_measured = w,
                rule_threshold = [(''min'', min_w), (''max'', max_w)],
                rule_reason_code = ''THRESHOLD_BREACH'',
                rule_remediation_hint = Some ''Portfolio cash is outside policy bands.'' \<rparr>
         else \<lparr> rule_id = ''CASH_BAND'', rule_severity = SOFT, rule_status = PASS, rule_measured = w,
                rule_threshold = [(''min'', min_w), (''max'', max_w)],
                rule_reason_code = ''OK'', rule_remediation_hint = None \<rparr>)"

definition cash_reserve_target_rule_result ::
  "SimulatedState \<Rightarrow> EngineOptions \<Rightarrow> RuleResult option" where
  "cash_reserve_target_rule_result state options =
     (case cash_reserve_target_weight options of
        None \<Rightarrow> None
      | Some target \<Rightarrow>
          let w = cash_weight state; tolerance = cash_reserve_target_tolerance options;
              deviation = w - target
          in if \<bar>deviation\<bar> \<le> tolerance
             then Some \<lparr> rule_id = ''CASH_RESERVE_TARGET'', rule_severity = SOFT, rule_status = PASS,
                         rule_measured = w,
                         rule_threshold = [(''target'', target), (''tolerance'', tolerance)],
                         rule_reason_code = ''TARGET_MET_WITHIN_TOLERANCE'',
                         rule_remediation_hint = None \<rparr>
             else Some \<lparr> rule_id = ''CASH_RESERVE_TARGET'', rule_severity = SOFT, rule_status = FAIL,
                         rule_measured = w,
                         rule_threshold = [(''target'', target), (''tolerance'', tolerance)],
                         rule_reason_code = ''TARGET_DEVIATION'',
                         rule_remediation_hint =
                           Some ''Review lot, rounding, liquidity, and settlement constraints.'' \<rparr>)"

definition single_position_max_rule_results ::
  "SimulatedState \<Rightarrow> EngineOptions \<Rightarrow> RuleResult list" where
  "single_position_max_rule_results state options =
     (case single_position_max_weight options of
        None \<Rightarrow>
          [\<lparr> rule_id = ''SINGLE_POSITION_MAX'', rule_severity = HARD, rule_status = PASS,
             rule_measured = 0, rule_threshold = [(''max'', Dec (- 1))],
             rule_reason_code = ''NO_LIMIT_SET'', rule_remediation_hint = None \<rparr>]
      | Some limit_w \<Rightarrow>
          let (max_measured, breach_results) =
                fold (\<lambda>pos (m, breaches).
                        (max m (am_weight pos),
                         if limit_w + Dec (1 / 1000) < am_weight pos
                         then breaches @
                           [\<lparr> rule_id = ''SINGLE_POSITION_MAX'', rule_severity = HARD, rule_status = FAIL,
                              rule_measured = am_weight pos, rule_threshold = [(''max'', limit_w)],
                              rule_reason_code = ''LIMIT_BREACH'',
                              rule_remediation_hint =
                                Some (''Instrument '' @ am_key pos @ '' exceeds max weight.'') \<rparr>]
                         else breaches))
                  (ss_allocation_by_instrument state) (0, [])
          in if breach_results \<noteq> [] then breach_results
             else [\<lparr> rule_id = ''SINGLE_POSITION_MAX'', rule_severity = HARD, rule_status = PASS,
                     rule_measured = max_measured, rule_threshold = [(''max'', limit_w)],
                     rule_reason_code = ''OK'', rule_remediation_hint = None \<rparr>])"

definition data_quality_count :: "DiagnosticsData \<Rightarrow> EngineOptions \<Rightarrow> nat" where
  "data_quality_count diag options =
     (if block_on_missing_prices options then length (dq_bucket (data_quality diag) ''price_missing'') else 0)
     + (if block_on_missing_fx options then length (dq_bucket (data_quality diag) ''fx_missing'') else 0)
     + length (dq_bucket (data_quality diag) ''shelf_missing'')
     + length (dq_bucket (data_quality diag) ''minimum_trade_threshold_fx_unavailable'')"

definition data_quality_rule_result :: "DiagnosticsData \<Rightarrow> EngineOptions \<Rightarrow> RuleResult" where
  "data_quality_rule_result diag options =
     (let dq_count = data_quality_count diag options
      in if dq_count > 0
         then \<lparr> rule_id = ''DATA_QUALITY'', rule_severity = HARD, rule_status = FAIL,
                rule_measured = Dec (of_nat dq_count), rule_threshold = [(''max'', 0)],
                rule_reason_code = ''MISSING_DATA'',
                rule_remediation_hint =
                  Some ''Check diagnostics for missing prices, FX, or threshold conversion.'' \<rparr>
         else \<lparr> rule_id = ''DATA_QUALITY'', rule_severity = HARD, rule_status = PASS,
                rule_measured = Dec (of_nat dq_count), rule_threshold = [(''max'', 0)],
                rule_reason_code = ''OK'', rule_remediation_hint = None \<rparr>)"

definition min_trade_size_rule_result :: "DiagnosticsData \<Rightarrow> RuleResult" where
  "min_trade_size_rule_result diag =
     (let suppressed_count = length (suppressed_intents diag)
      in if suppressed_count > 0
         then \<lparr> rule_id = ''MIN_TRADE_SIZE'', rule_severity = SOFT, rule_status = PASS,
                rule_measured = Dec (of_nat suppressed_count), rule_threshold = [(''min'', 0)],
                rule_reason_code = ''INTENTS_SUPPRESSED'', rule_remediation_hint = None \<rparr>
         else \<lparr> rule_id = ''MIN_TRADE_SIZE'', rule_severity = SOFT, rule_status = PASS,
                rule_measured = 0, rule_threshold = [(''min'', 0)],
                rule_reason_code = ''OK'', rule_remediation_hint = None \<rparr>)"

definition lowest_below_zero :: "dec list \<Rightarrow> dec" where
  "lowest_below_zero xs = fold (\<lambda>x m. if x < 0 then min m x else m) xs 0"

definition no_shorting_rule_result :: "SimulatedState \<Rightarrow> RuleResult" where
  "no_shorting_rule_result state =
     (let min_qty = lowest_below_zero (map ps_quantity (ss_positions state))
      in if min_qty < 0
         then \<lparr> rule_id = ''NO_SHORTING'', rule_severity = HARD, rule_status = FAIL,
                rule_measured = min_qty, rule_threshold = [(''min'', 0)],
                rule_reason_code = ''SELL_EXCEEDS_HOLDINGS'',
                rule_remediation_hint = Some ''Reduce sell quantity.'' \<rparr>
         else \<lparr> rule_id = ''NO_SHORTING'', rule_severity = HARD, rule_status = PASS,
                rule_measured = 0, rule_threshold = [(''min'', 0)],
                rule_reason_code = ''OK'', rule_remediation_hint = None \<rparr>)"

definition insufficient_cash_rule_result :: "SimulatedState \<Rightarrow> RuleResult" where
  "insufficient_cash_rule_result state =
     (let min_cash = lowest_below_zero (map cash_amount (ss_cash_balances state))
      in if min_cash < 0
         then \<lparr> rule_id = ''INSUFFICIENT_CASH'', rule_severity = HARD, rule_status = FAIL,
                rule_measured = min_cash, rule_threshold = [(''min'', 0)],
                rule_reason_code = ''CASH_BALANCE_NEGATIVE'',
                rule_remediation_hint = Some ''Ensure sufficient funding.'' \<rparr>
         else \<lparr> rule_id = ''INSUFFICIENT_CASH'', rule_severity = HARD, rule_status = PASS,
                rule_measured = 0, rule_threshold = [(''min'', 0)],
                rule_reason_code = ''OK'', rule_remediation_hint = None \<rparr>)"

definition RuleEngine_evaluate ::
  "SimulatedState \<Rightarrow> EngineOptions \<Rightarrow> DiagnosticsData \<Rightarrow> RuleResult list" where
  "RuleEngine_evaluate state options diag =
     [cash_band_rule_result state options]
     @ (case cash_reserve_target_rule_result state options of None \<Rightarrow> [] | Some r \<Rightarrow> [r])
     @ single_position_max_rule_results state options
     @ [data_quality_rule_result diag options]
     @ [min_trade_size_rule_result diag]
     @ [no_shorting_rule_result state]
     @ [insufficient_cash_rule_result state]"

definition derive_status_from_rules :: "RuleResult list \<Rightarrow> RunStatus" where
  "derive_status_from_rules rules =
     (if \<exists>r \<in> set rules. rule_severity r = HARD \<and> rule_status r = FAIL then BLOCKED
      else if \<exists>r \<in> set rules. rule_severity r = SOFT \<and> rule_status r = FAIL then PENDING_REVIEW
      else READY)"


section \<open>Lemmas\<close>

definition hard_fail :: "RuleResult \<Rightarrow> bool" where
  "hard_fail r \<longleftrightarrow> rule_severity r = HARD \<and> rule_status r = FAIL"

definition soft_fail :: "RuleResult \<Rightarrow> bool" where
  "soft_fail r \<longleftrightarrow> rule_severity r = SOFT \<and> rule_status r = FAIL"

lemma lowest_below_zero_neg: "lowest_below_zero xs < 0 \<longleftrightarrow> (\<exists>x \<in> set xs. x < 0)"
proof -
  have "fold (\<lambda>x m. if x < 0 then min m x else m) xs m < 0 \<longleftrightarrow> m < 0 \<or> (\<exists>x \<in> set xs. x < 0)" for m
    by (induction xs arbitrary: m) (auto simp: min_less_iff_disj)
  then show ?thesis by (simp add: lowest_below_zero_def)
qed

text \<open>What the breach loop of the position limit collects.\<close>

lemma single_position_fold:
  "fold (\<lambda>pos (m, breaches). (max m (am_weight pos), if P pos then breaches @ [f pos] else breaches))
     xs (m, bs) = (fold (\<lambda>pos m. max m (am_weight pos)) xs m, bs @ map f (filter P xs))"
  by (induction xs arbitrary: m bs) auto

lemma single_position_hard_fail:
  "(\<exists>r \<in> set (single_position_max_rule_results state options). hard_fail r) \<longleftrightarrow>
     (\<exists>limit. single_position_max_weight options = Some limit
       \<and> (\<exists>a \<in> set (ss_allocation_by_instrument state). limit + Dec (1 / 1000) < am_weight a))"
  by (auto simp: single_position_max_rule_results_def single_position_fold hard_fail_def Let_def
      filter_empty_conv split: option.splits)

text \<open>The states the hard rules accept.\<close>

definition hard_rules_hold :: "SimulatedState \<Rightarrow> EngineOptions \<Rightarrow> DiagnosticsData \<Rightarrow> bool" where
  "hard_rules_hold state options diag \<longleftrightarrow>
     (\<forall>p \<in> set (ss_positions state). 0 \<le> ps_quantity p)
     \<and> (\<forall>c \<in> set (ss_cash_balances state). 0 \<le> cash_amount c)
     \<and> (\<forall>limit. single_position_max_weight options = Some limit \<longrightarrow>
          (\<forall>a \<in> set (ss_allocation_by_instrument state). am_weight a \<le> limit + Dec (1 / 1000)))
     \<and> data_quality_count diag options = 0"

lemma evaluate_hard_fail_iff:
  "(\<exists>r \<in> set (RuleEngine_evaluate state options diag). hard_fail r)
     \<longleftrightarrow> \<not> hard_rules_hold state options diag"
proof -
  have band: "\<not> hard_fail (cash_band_rule_result state options)"
    by (simp add: cash_band_rule_result_def hard_fail_def Let_def)
  have reserve: "\<not> hard_fail r" if "cash_reserve_target_rule_result state options = Some r" for r
    using that by (auto simp: cash_reserve_target_rule_result_def hard_fail_def Let_def
        split: option.splits if_splits)
  have size: "\<not> hard_fail (min_trade_size_rule_result diag)"
    by (simp add: min_trade_size_rule_result_def hard_fail_def Let_def)
  have dq: "hard_fail (data_quality_rule_result diag options) \<longleftrightarrow> data_quality_count diag options \<noteq> 0"
    by (simp add: data_quality_rule_result_def hard_fail_def Let_def)
  have short: "hard_fail (no_shorting_rule_result state) \<longleftrightarrow> (\<exists>p \<in> set (ss_positions state). ps_quantity p < 0)"
    by (simp add: no_shorting_rule_result_def hard_fail_def Let_def lowest_below_zero_neg)
  have cash: "hard_fail (insufficient_cash_rule_result state)
      \<longleftrightarrow> (\<exists>c \<in> set (ss_cash_balances state). cash_amount c < 0)"
    by (simp add: insufficient_cash_rule_result_def hard_fail_def Let_def lowest_below_zero_neg)
  show ?thesis
    unfolding RuleEngine_evaluate_def hard_rules_hold_def
    using band reserve size single_position_hard_fail [of state options]
    by (auto simp: dq short cash not_le not_less bex_Un split: option.splits)
qed

lemma derive_status_cases:
  "derive_status_from_rules rules = BLOCKED \<longleftrightarrow> (\<exists>r \<in> set rules. hard_fail r)"
  "derive_status_from_rules rules = READY
     \<longleftrightarrow> (\<forall>r \<in> set rules. \<not> hard_fail r) \<and> (\<forall>r \<in> set rules. \<not> soft_fail r)"
  by (auto simp: derive_status_from_rules_def hard_fail_def soft_fail_def)


section \<open>Properties\<close>

text \<open>
  C12. The rule engine blocks exactly the states that violate a hard rule: a negative quantity, a
  negative cash balance, an instrument above the position limit by more than a tenth of a
  percent, or a blocking data-quality entry. The derived status is \<open>READY\<close> exactly when neither
  a hard nor a soft rule fails.
\<close>

theorem rules_block_exactly:
  "(derive_status_from_rules (RuleEngine_evaluate state options diag) = BLOCKED
      \<longleftrightarrow> (\<exists>p \<in> set (ss_positions state). ps_quantity p < 0)
        \<or> (\<exists>c \<in> set (ss_cash_balances state). cash_amount c < 0)
        \<or> (\<exists>limit. single_position_max_weight options = Some limit
             \<and> (\<exists>a \<in> set (ss_allocation_by_instrument state). limit + Dec (1 / 1000) < am_weight a))
        \<or> 0 < data_quality_count diag options)
   \<and> (derive_status_from_rules (RuleEngine_evaluate state options diag) = READY
      \<longleftrightarrow> \<not> (\<exists>r \<in> set (RuleEngine_evaluate state options diag). hard_fail r \<or> soft_fail r))"
  unfolding derive_status_cases evaluate_hard_fail_iff
  by (auto simp: hard_rules_hold_def not_le not_less)

end
