(* ===== verification/Simulation_Shared.thy ===== *)
theory Simulation_Shared
  imports Compliance
begin

text \<open>
  Applying trades to a portfolio, ordering intents and reconciling totals
  (\<open>src/src/core/common/simulation_shared.py\<close>), and the dependency links between intents
  (\<open>src/src/core/common/intent_dependencies.py\<close>). \<open>ensure_position\<close> and
  \<open>ensure_cash_balance\<close> return a reference into the portfolio that the caller then mutates;
  here they make sure the entry exists and \<open>update_position\<close>, \<open>update_cash\<close> rewrite the first
  matching entry, the one the reference points to.
\<close>


section \<open>Applying intents\<close>

fun update_first :: "('a \<Rightarrow> bool) \<Rightarrow> ('a \<Rightarrow> 'a) \<Rightarrow> 'a list \<Rightarrow> 'a list" where
  "update_first P f [] = []"
| "update_first P f (x # xs) = (if P x then f x # xs else x # update_first P f xs)"

definition ensure_position :: "string \<Rightarrow> PortfolioSnapshot \<Rightarrow> PortfolioSnapshot" where
  "ensure_position i portfolio =
     (if List.find (\<lambda>p. pos_instrument_id p = i) (pf_positions portfolio) \<noteq> None then portfolio
      else portfolio\<lparr>pf_positions := pf_positions portfolio
             @ [\<lparr> pos_instrument_id = i, pos_quantity = 0, pos_market_value = None, pos_lots = [] \<rparr>]\<rparr>)"

definition ensure_cash_balance :: "string \<Rightarrow> PortfolioSnapshot \<Rightarrow> PortfolioSnapshot" where
  "ensure_cash_balance ccy portfolio =
     (if List.find (\<lambda>c. cash_currency c = ccy) (pf_cash_balances portfolio) \<noteq> None then portfolio
      else portfolio\<lparr>pf_cash_balances := pf_cash_balances portfolio
             @ [\<lparr> cash_currency = ccy, cash_amount = 0, cash_settled = None, cash_pending = None \<rparr>]\<rparr>)"

definition update_position :: "string \<Rightarrow> (Position \<Rightarrow> Position) \<Rightarrow> PortfolioSnapshot \<Rightarrow> PortfolioSnapshot" where
  "update_position i f portfolio =
     portfolio\<lparr>pf_positions := update_first (\<lambda>p. pos_instrument_id p = i) f (pf_positions portfolio)\<rparr>"

definition update_cash :: "string \<Rightarrow> (dec \<Rightarrow> dec) \<Rightarrow> PortfolioSnapshot \<Rightarrow> PortfolioSnapshot" where
  "update_cash ccy f portfolio =
     portfolio\<lparr>pf_cash_balances := update_first (\<lambda>c. cash_currency c = ccy)
       (\<lambda>c. c\<lparr>cash_amount := f (cash_amount c)\<rparr>) (pf_cash_balances portfolio)\<rparr>"

definition increase_matching_market_value :: "Money \<Rightarrow> Position \<Rightarrow> Position" where
  "increase_matching_market_value notional position =
     (case pos_market_value position of
        Some mv \<Rightarrow>
          if currency mv = currency notional
          then position\<lparr>pos_market_value := Some (mv\<lparr>amount := amount mv + amount notional\<rparr>)\<rparr>
          else position
      | None \<Rightarrow>
          position\<lparr>pos_market_value :=
            Some \<lparr>amount = amount notional, currency = currency notional\<rparr>\<rparr>)"

definition decrease_matching_market_value :: "Money \<Rightarrow> Position \<Rightarrow> Position" where
  "decrease_matching_market_value notional position =
     (case pos_market_value position of
        Some mv \<Rightarrow>
          if currency mv = currency notional
          then position\<lparr>pos_market_value := Some (mv\<lparr>amount := max 0 (amount mv - amount notional)\<rparr>)\<rparr>
          else position
      | None \<Rightarrow> position)"

definition apply_security_buy :: "SecurityTradeIntent \<Rightarrow> PortfolioSnapshot \<Rightarrow> PortfolioSnapshot" where
  "apply_security_buy intent portfolio =
     (case (sti_notional intent, sti_quantity intent) of
        (Some notional, Some q) \<Rightarrow>
          update_cash (currency notional) (\<lambda>a. a - amount notional)
            (update_position (sti_instrument_id intent)
               (\<lambda>p. increase_matching_market_value notional (p\<lparr>pos_quantity := pos_quantity p + q\<rparr>))
               portfolio)
      | _ \<Rightarrow> portfolio)"

definition apply_security_sell :: "SecurityTradeIntent \<Rightarrow> PortfolioSnapshot \<Rightarrow> PortfolioSnapshot" where
  "apply_security_sell intent portfolio =
     (case (sti_notional intent, sti_quantity intent) of
        (Some notional, Some q) \<Rightarrow>
          update_cash (currency notional) (\<lambda>a. a + amount notional)
            (update_position (sti_instrument_id intent)
               (\<lambda>p. decrease_matching_market_value notional (p\<lparr>pos_quantity := pos_quantity p - q\<rparr>))
               portfolio)
      | _ \<Rightarrow> portfolio)"

definition apply_security_trade_to_portfolio ::
  "SecurityTradeIntent \<Rightarrow> PortfolioSnapshot \<Rightarrow> PortfolioSnapshot" where
  "apply_security_trade_to_portfolio intent portfolio =
     (case (sti_notional intent, sti_quantity intent) of
        (Some notional, Some q) \<Rightarrow>
          let ensured = ensure_cash_balance (currency notional)
                          (ensure_position (sti_instrument_id intent) portfolio)
          in if sti_side intent = BUY then apply_security_buy intent ensured
             else apply_security_sell intent ensured
      | _ \<Rightarrow> portfolio)"

definition apply_fx_spot_to_portfolio :: "FxSpotIntent \<Rightarrow> PortfolioSnapshot \<Rightarrow> PortfolioSnapshot" where
  "apply_fx_spot_to_portfolio intent portfolio =
     (let p1 = update_cash (fsi_sell_currency intent) (\<lambda>a. a - fsi_sell_amount_estimated intent)
                 (ensure_cash_balance (fsi_sell_currency intent) portfolio)
      in update_cash (fsi_buy_currency intent) (\<lambda>a. a + fsi_buy_amount intent)
           (ensure_cash_balance (fsi_buy_currency intent) p1))"


section \<open>Ordering, rounding and reconciliation\<close>

definition currency_minor_units :: "(string, nat) dict" where
  "currency_minor_units =
     [(''BHD'', 3), (''JPY'', 0), (''KRW'', 0), (''KWD'', 3), (''OMR'', 3), (''VND'', 0)]"

definition quantize_amount_for_currency :: "dec \<Rightarrow> string \<Rightarrow> dec result" where
  "quantize_amount_for_currency amt ccy = dec_quantize (dict_get_or currency_minor_units ccy 2) amt"

definition execution_sort_key :: "OrderIntent \<Rightarrow> nat" where
  "execution_sort_key intent =
     (case intent of
        SecurityTrade s \<Rightarrow> if sti_side s = SELL then 0 else 2
      | FxSpot f \<Rightarrow> 1)"

definition sort_execution_intents :: "OrderIntent list \<Rightarrow> OrderIntent list" where
  "sort_execution_intents intents = sort_key execution_sort_key intents"

definition build_reconciliation :: "dec \<Rightarrow> dec \<Rightarrow> dec \<Rightarrow> string \<Rightarrow> bool \<Rightarrow> Reconciliation \<times> dec \<times> dec" where
  "build_reconciliation before_total after_total expected_after_total base use_absolute_scale =
     (let recon_diff = \<bar>after_total - expected_after_total\<bar>;
          scale_value = (if use_absolute_scale then \<bar>expected_after_total\<bar> else expected_after_total);
          tolerance = Dec (1 / 2) + scale_value * Dec (5 / 10000)
      in (\<lparr> before_total_value = \<lparr>amount = before_total, currency = base\<rparr>,
            after_total_value = \<lparr>amount = after_total, currency = base\<rparr>,
            recon_delta = \<lparr>amount = after_total - before_total, currency = base\<rparr>,
            recon_tolerance = \<lparr>amount = tolerance, currency = base\<rparr>,
            recon_status = (if recon_diff \<le> tolerance then RECON_OK else MISMATCH) \<rparr>,
          recon_diff, tolerance))"


section \<open>Dependencies\<close>

definition append_intent_dependency_once :: "string option \<Rightarrow> SecurityTradeIntent \<Rightarrow> SecurityTradeIntent" where
  "append_intent_dependency_once dependency intent =
     (case dependency of
        None \<Rightarrow> intent
      | Some d \<Rightarrow>
          if d \<in> set (sti_dependencies intent) then intent
          else intent\<lparr>sti_dependencies := sti_dependencies intent @ [d]\<rparr>)"

definition is_security_with_notional :: "Side \<Rightarrow> OrderIntent \<Rightarrow> bool" where
  "is_security_with_notional side intent \<longleftrightarrow>
     (case intent of SecurityTrade s \<Rightarrow> sti_side s = side \<and> sti_notional s \<noteq> None | FxSpot f \<Rightarrow> False)"

definition sell_security_intents_with_notional :: "OrderIntent list \<Rightarrow> SecurityTradeIntent list" where
  "sell_security_intents_with_notional intents =
     List.map_filter (\<lambda>i. case i of SecurityTrade s \<Rightarrow> Some s | FxSpot f \<Rightarrow> None)
       (filter (is_security_with_notional SELL) intents)"

definition sell_intent_id_by_currency :: "OrderIntent list \<Rightarrow> (string, string) dict" where
  "sell_intent_id_by_currency intents =
     dict_of (map (\<lambda>s. (currency (the (sti_notional s)), sti_intent_id s))
       (sell_security_intents_with_notional intents))"

definition buy_intent_dependency_ids ::
  "SecurityTradeIntent \<Rightarrow> (string, string) dict \<Rightarrow> (string, string) dict \<Rightarrow> bool \<Rightarrow> string option list" where
  "buy_intent_dependency_ids intent fx_dependencies sell_dependencies include_sells =
     (case sti_notional intent of
        None \<Rightarrow> []
      | Some notional \<Rightarrow>
          [dict_get fx_dependencies (currency notional)]
          @ (if include_sells then [dict_get sell_dependencies (currency notional)] else []))"

text \<open>The buy intents are updated in place, so the list is returned with them rewritten.\<close>

definition link_buy_intent_dependencies ::
  "OrderIntent list \<Rightarrow> (string, string) dict \<Rightarrow> bool \<Rightarrow> OrderIntent list" where
  "link_buy_intent_dependencies intents fx_dependencies include_sells =
     (let sell_dependencies = (if include_sells then sell_intent_id_by_currency intents else [])
      in map (\<lambda>i. case i of
                 FxSpot f \<Rightarrow> FxSpot f
               | SecurityTrade s \<Rightarrow>
                   if is_security_with_notional BUY i
                   then SecurityTrade (fold append_intent_dependency_once
                          (buy_intent_dependency_ids s fx_dependencies sell_dependencies include_sells) s)
                   else i) intents)"


section \<open>Lemmas\<close>

subsection \<open>Frames\<close>

text \<open>The quantity held and the cash held: the first entry, which is the one every update hits.\<close>

definition held_quantity :: "PortfolioSnapshot \<Rightarrow> string \<Rightarrow> dec" where
  "held_quantity portfolio i =
     (case List.find (\<lambda>p. pos_instrument_id p = i) (pf_positions portfolio) of
        None \<Rightarrow> 0 | Some p \<Rightarrow> pos_quantity p)"

definition held_cash :: "PortfolioSnapshot \<Rightarrow> string \<Rightarrow> dec" where
  "held_cash portfolio ccy =
     (case List.find (\<lambda>c. cash_currency c = ccy) (pf_cash_balances portfolio) of
        None \<Rightarrow> 0 | Some c \<Rightarrow> cash_amount c)"

lemma find_update_first:
  assumes "\<And>x. key (f x) = key x"
  shows "List.find (\<lambda>x. key x = j) (update_first (\<lambda>x. key x = k) f xs)
     = (if j = k then map_option f (List.find (\<lambda>x. key x = k) xs) else List.find (\<lambda>x. key x = j) xs)"
  by (induction xs) (auto simp: assms)

lemma find_snoc:
  "List.find P (xs @ [x]) = (case List.find P xs of None \<Rightarrow> (if P x then Some x else None) | Some y \<Rightarrow> Some y)"
  by (induction xs) auto

lemma market_value_ids [simp]:
  "pos_instrument_id (increase_matching_market_value n p) = pos_instrument_id p"
  "pos_instrument_id (decrease_matching_market_value n p) = pos_instrument_id p"
  "pos_quantity (increase_matching_market_value n p) = pos_quantity p"
  "pos_quantity (decrease_matching_market_value n p) = pos_quantity p"
  by (auto simp: increase_matching_market_value_def decrease_matching_market_value_def split: option.splits)

lemma held_ensure [simp]:
  "held_quantity (ensure_position i p) j = held_quantity p j"
  "held_cash (ensure_position i p) c = held_cash p c"
  "held_quantity (ensure_cash_balance c p) j = held_quantity p j"
  "held_cash (ensure_cash_balance c p) d = held_cash p d"
  by (auto simp: held_quantity_def held_cash_def ensure_position_def ensure_cash_balance_def find_snoc
      split: option.splits)

lemma held_update [simp]:
  "held_cash (update_position i f p) c = held_cash p c"
  "held_quantity (update_cash c g p) j = held_quantity p j"
  by (simp_all add: held_cash_def held_quantity_def update_position_def update_cash_def)

lemma held_update_cash:
  assumes "List.find (\<lambda>b. cash_currency b = c) (pf_cash_balances p) \<noteq> None"
  shows "held_cash (update_cash c g p) d = (if d = c then g (held_cash p c) else held_cash p d)"
  using assms by (auto simp: held_cash_def update_cash_def find_update_first split: option.splits)

lemma held_update_position:
  assumes "List.find (\<lambda>b. pos_instrument_id b = i) (pf_positions p) \<noteq> None"
    and "\<And>x. pos_instrument_id (f x) = pos_instrument_id x" and "\<And>x. pos_quantity (f x) = g (pos_quantity x)"
  shows "held_quantity (update_position i f p) j = (if j = i then g (held_quantity p i) else held_quantity p j)"
  using assms by (auto simp: held_quantity_def update_position_def find_update_first split: option.splits)

lemma find_ensured:
  "List.find (\<lambda>b. cash_currency b = c) (pf_cash_balances (ensure_cash_balance c p)) \<noteq> None"
  "List.find (\<lambda>b. pos_instrument_id b = i) (pf_positions (ensure_position i p)) \<noteq> None"
  "pf_positions (ensure_cash_balance c p) = pf_positions p"
  "pf_cash_balances (ensure_position i p) = pf_cash_balances p"
  "pf_cash_balances (update_position i f p) = pf_cash_balances p"
  by (auto simp: ensure_cash_balance_def ensure_position_def update_position_def find_snoc split: option.splits)

text \<open>A trade moves its quantity and its notional, and touches nothing else.\<close>

lemma apply_security_trade_held:
  assumes "sti_notional s = Some n" and "sti_quantity s = Some q"
  shows "held_quantity (apply_security_trade_to_portfolio s p) i =
           (if i = sti_instrument_id s
            then if sti_side s = BUY then held_quantity p i + q else held_quantity p i - q
            else held_quantity p i)"
    and "held_cash (apply_security_trade_to_portfolio s p) c =
           (if c = currency n
            then if sti_side s = BUY then held_cash p c - amount n else held_cash p c + amount n
            else held_cash p c)"
  using assms find_ensured
  by (auto simp: apply_security_trade_to_portfolio_def apply_security_buy_def apply_security_sell_def
      Let_def held_update_cash held_update_position [where g = "\<lambda>x. x + q"]
      held_update_position [where g = "\<lambda>x. x - q"])

lemma apply_fx_spot_held:
  assumes "fsi_sell_currency f \<noteq> fsi_buy_currency f"
  shows "held_quantity (apply_fx_spot_to_portfolio f p) i = held_quantity p i"
    and "held_cash (apply_fx_spot_to_portfolio f p) c =
           (if c = fsi_sell_currency f then held_cash p c - fsi_sell_amount_estimated f
            else if c = fsi_buy_currency f then held_cash p c + fsi_buy_amount f
            else held_cash p c)"
  using assms find_ensured(1)
  by (auto simp: apply_fx_spot_to_portfolio_def Let_def held_update_cash)


subsection \<open>Execution order and dependencies\<close>

fun intent_dependencies :: "OrderIntent \<Rightarrow> string list" where
  "intent_dependencies (SecurityTrade s) = sti_dependencies s"
| "intent_dependencies (FxSpot f) = fsi_dependencies f"

lemma fold_append_dependency:
  "set (sti_dependencies (fold append_intent_dependency_once ds s))
     = set (sti_dependencies s) \<union> {d. Some d \<in> set ds}"
  "sti_intent_id (fold append_intent_dependency_once ds s) = sti_intent_id s"
  "sti_side (fold append_intent_dependency_once ds s) = sti_side s"
  "sti_notional (fold append_intent_dependency_once ds s) = sti_notional s"
  "sti_quantity (fold append_intent_dependency_once ds s) = sti_quantity s"
  "sti_instrument_id (fold append_intent_dependency_once ds s) = sti_instrument_id s"
  "sti_notional_base (fold append_intent_dependency_once ds s) = sti_notional_base s"
  by (induction ds arbitrary: s) (auto simp: append_intent_dependency_once_def split: option.splits)

text \<open>Linking changes nothing but the dependency lists.\<close>

definition strip_dependencies :: "OrderIntent \<Rightarrow> OrderIntent" where
  "strip_dependencies i =
     (case i of SecurityTrade s \<Rightarrow> SecurityTrade (s\<lparr>sti_dependencies := []\<rparr>) | FxSpot f \<Rightarrow> FxSpot f)"

lemma fold_append_strip:
  "(fold append_intent_dependency_once ds s)\<lparr>sti_dependencies := []\<rparr> = s\<lparr>sti_dependencies := []\<rparr>"
  by (induction ds arbitrary: s) (auto simp: append_intent_dependency_once_def split: option.splits)

lemma link_strip:
  "map strip_dependencies (link_buy_intent_dependencies is fx inc) = map strip_dependencies is"
  by (auto simp: link_buy_intent_dependencies_def Let_def strip_dependencies_def fold_append_strip
      split: OrderIntent.splits)

lemma strip_facts:
  "strip_dependencies i = strip_dependencies j \<Longrightarrow>
     intent_id i = intent_id j \<and> execution_sort_key i = execution_sort_key j"
proof (cases i; cases j)
  fix s t
  assume eq: "strip_dependencies i = strip_dependencies j" "i = SecurityTrade s" "j = SecurityTrade t"
  then have "s\<lparr>sti_dependencies := []\<rparr> = t\<lparr>sti_dependencies := []\<rparr>"
    by (simp add: strip_dependencies_def)
  from arg_cong [OF this, of sti_intent_id] arg_cong [OF this, of sti_side] eq show ?thesis
    by (simp add: execution_sort_key_def)
qed (auto simp: strip_dependencies_def)

lemma sell_intent_id_by_currency_mem:
  assumes "dict_get (sell_intent_id_by_currency is) c = Some d"
  shows "\<exists>s. SecurityTrade s \<in> set is \<and> sti_side s = SELL \<and> sti_intent_id s = d"
  using dict_of_mem [OF assms [unfolded sell_intent_id_by_currency_def]]
  by (auto simp: sell_security_intents_with_notional_def is_security_with_notional_def map_filter_def
      split: OrderIntent.splits)

text \<open>A dependency points at a funding FX trade or at a sell, both of which execute earlier.\<close>

lemma linked_dependency:
  assumes "i \<in> set (link_buy_intent_dependencies is fx inc)" and "d \<in> set (intent_dependencies i)"
    and "\<forall>j \<in> set is. intent_dependencies j = []"
  shows "execution_sort_key i = 2
    \<and> ((\<exists>c. dict_get fx c = Some d)
       \<or> (\<exists>s. SecurityTrade s \<in> set is \<and> sti_side s = SELL \<and> sti_intent_id s = d))"
proof -
  from assms(1) obtain j where j: "j \<in> set is"
    and i: "i = (case j of
                 FxSpot f \<Rightarrow> FxSpot f
               | SecurityTrade s \<Rightarrow>
                   if is_security_with_notional BUY j
                   then SecurityTrade (fold append_intent_dependency_once
                          (buy_intent_dependency_ids s fx
                             (if inc then sell_intent_id_by_currency is else []) inc) s)
                   else j)"
    by (auto simp: link_buy_intent_dependencies_def Let_def)
  have none: "intent_dependencies j = []" using assms(3) j by blast
  then obtain s where s: "j = SecurityTrade s" and buy: "is_security_with_notional BUY j"
    using i assms(2) by (auto split: OrderIntent.splits if_splits)
  let ?ids = "buy_intent_dependency_ids s fx (if inc then sell_intent_id_by_currency is else []) inc"
  have i': "i = SecurityTrade (fold append_intent_dependency_once ?ids s)"
    unfolding i using s buy by simp
  have "d \<in> set (sti_dependencies (fold append_intent_dependency_once ?ids s))"
    using assms(2) unfolding i' by (simp only: intent_dependencies.simps)
  then have "Some d \<in> set ?ids" using none unfolding fold_append_dependency(1) s by simp
  moreover have "execution_sort_key i = 2"
    using buy unfolding i' by (simp add: execution_sort_key_def fold_append_dependency(3) s
        is_security_with_notional_def del: fold_simps)
  ultimately show ?thesis
    using sell_intent_id_by_currency_mem [of "is"]
    by (auto simp: buy_intent_dependency_ids_def split: option.splits if_splits)
qed

lemma sort_key_earlier:
  assumes "k < length (sort_key f xs)" and "x \<in> set xs" and "f x < f (sort_key f xs ! k)"
  shows "\<exists>j < k. sort_key f xs ! j = x"
proof -
  let ?L = "sort_key f xs"
  obtain j where j: "j < length ?L" "?L ! j = x" using assms(2) by (metis in_set_conv_nth set_sort)
  have "j < k"
  proof (rule ccontr)
    assume "\<not> j < k"
    then have "f (?L ! k) \<le> f (?L ! j)"
      using sorted_nth_mono [OF sorted_sort_key [of f xs], of k j] j(1) assms(1) by simp
    with assms(3) j(2) show False by simp
  qed
  with j show ?thesis by blast
qed

lemma dependencies_precede:
  assumes "\<forall>j \<in> set is. intent_dependencies j = []"
    and "\<forall>c d. dict_get fx c = Some d \<longrightarrow> (\<exists>f. FxSpot f \<in> set is \<and> fsi_intent_id f = d)"
    and "k < length (sort_execution_intents (link_buy_intent_dependencies is fx inc))"
    and "d \<in> set (intent_dependencies (sort_execution_intents (link_buy_intent_dependencies is fx inc) ! k))"
  shows "\<exists>j < k. intent_id (sort_execution_intents (link_buy_intent_dependencies is fx inc) ! j) = d"
proof -
  let ?L = "link_buy_intent_dependencies is fx inc"
  let ?S = "sort_execution_intents ?L"
  have "?S ! k \<in> set ?L" using nth_mem [OF assms(3)] by (simp add: sort_execution_intents_def)
  note dep = linked_dependency [OF this assms(4,1)]
  then obtain y where y: "y \<in> set is" "intent_id y = d" "execution_sort_key y < 2"
    using assms(2) by (force simp: execution_sort_key_def)
  have "strip_dependencies y \<in> set (map strip_dependencies is)" using y(1) by simp
  then obtain x where x: "x \<in> set ?L" "strip_dependencies x = strip_dependencies y"
    unfolding link_strip [of "is" fx inc, symmetric] by auto
  with strip_facts [OF x(2)] y dep have "intent_id x = d" "execution_sort_key x < execution_sort_key (?S ! k)"
    by simp_all
  with sort_key_earlier [of k execution_sort_key ?L x] assms(3) x(1) show ?thesis
    by (auto simp: sort_execution_intents_def)
qed

text \<open>Sells, then FX, then buys.\<close>

lemma sort_execution_spec:
  "mset (sort_execution_intents is) = mset is"
  "sorted (map execution_sort_key (sort_execution_intents is))"
  by (simp_all add: sort_execution_intents_def)


section \<open>Properties\<close>

text \<open>
  A trade moves exactly its quantity in its instrument and exactly its notional in its currency,
  in opposite directions, and no other holding and no other cash account changes; an FX trade
  between two currencies moves its two amounts and nothing else.
\<close>

theorem trades_move_only_their_amounts:
  assumes "sti_notional s = Some n" and "sti_quantity s = Some q"
    and "fsi_sell_currency f \<noteq> fsi_buy_currency f"
  shows "held_quantity (apply_security_trade_to_portfolio s p) i =
           (if i \<noteq> sti_instrument_id s then held_quantity p i
            else if sti_side s = BUY then held_quantity p i + q else held_quantity p i - q)
    \<and> held_cash (apply_security_trade_to_portfolio s p) c =
           (if c \<noteq> currency n then held_cash p c
            else if sti_side s = BUY then held_cash p c - amount n else held_cash p c + amount n)
    \<and> held_quantity (apply_fx_spot_to_portfolio f p) i = held_quantity p i
    \<and> held_cash (apply_fx_spot_to_portfolio f p) c =
           (if c = fsi_sell_currency f then held_cash p c - fsi_sell_amount_estimated f
            else if c = fsi_buy_currency f then held_cash p c + fsi_buy_amount f
            else held_cash p c)"
  using apply_security_trade_held [OF assms(1,2)] apply_fx_spot_held [OF assms(3)] by simp

theorem trades_move_only_their_amounts_witness:
  "held_quantity (apply_security_trade_to_portfolio (sample_trade ''oi_1'' ''A'' SELL (Dec 40) (Dec 400))
     sample_portfolio) ''A'' = Dec 100 - Dec 40"
proof -
  have "held_quantity sample_portfolio ''A'' = Dec 100" by code_simp
  with trades_move_only_their_amounts [where i = "''A''" and p = sample_portfolio and f = sample_fx
      and s = "sample_trade ''oi_1'' ''A'' SELL (Dec 40) (Dec 400)" and q = "Dec 40" and n = "usd (Dec 400)"]
  show ?thesis by (simp add: sample_trade_def sample_fx_def)
qed

text \<open>
  Buying into a holding that has no recorded market value stores the bought notional as the
  market value of the whole position: 100 units and 10 bought for 100 come out as 110 units worth 100.
\<close>

theorem buy_overwrites_market_value:
  "map (\<lambda>p. (pos_quantity p, pos_market_value p)) (pf_positions (apply_security_trade_to_portfolio
     (sample_trade ''oi_1'' ''A'' BUY (Dec 10) (Dec 100)) sample_portfolio))
     = [(Dec 110, Some (usd (Dec 100)))]"
  by code_simp

end
