(* ===== verification/Execution.thy ===== *)
theory Execution
  imports Simulation_Shared
begin

text \<open>
  Stage 5 of the engine (\<open>src/src/core/rebalance/execution.py\<close>): FX funding and sweeps for the
  projected cash, dependency links, the settlement cash ladder, the simulated after-state, the
  safety rules and the reconciliation, and the data-quality rules that block a run.

  List indexing is checked: a flow booked on a day outside the ladder is an \<open>IndexError\<close>. The
  second component of a simulation result is a simulated state, or the bare portfolio when FX
  is missing, as in the Python type alias \<open>_ExecutionSimulationResult\<close>.
\<close>


section \<open>Settlement ladder\<close>

record SettlementLadderProjection =
  slp_points :: "CashLadderPoint list"
  slp_breaches :: "CashLadderBreach list"
  slp_overdraft_utilized :: bool

type_synonym flows = "(string, dec list) dict"

definition settlement_days_by_instrument :: "ShelfEntry list \<Rightarrow> (string, nat) dict" where
  "settlement_days_by_instrument shelf =
     dict_of (map (\<lambda>e. (shelf_instrument_id e, shelf_settlement_days e)) shelf)"

definition security_trades :: "OrderIntent list \<Rightarrow> SecurityTradeIntent list" where
  "security_trades intents =
     List.map_filter (\<lambda>i. case i of SecurityTrade s \<Rightarrow> Some s | FxSpot f \<Rightarrow> None) intents"

definition settlement_horizon :: "(string, nat) dict \<Rightarrow> OrderIntent list \<Rightarrow> EngineOptions \<Rightarrow> nat" where
  "settlement_horizon days_by_instrument intents options =
     (let max_security_day = foldr max
            (map (\<lambda>s. dict_get_or days_by_instrument (sti_instrument_id s) 2) (security_trades intents)) 0
      in max (max (settlement_horizon_days options) (fx_settlement_days options))
           max_security_day)"

definition ensure_settlement_currency :: "string \<Rightarrow> nat \<Rightarrow> flows \<Rightarrow> flows" where
  "ensure_settlement_currency ccy horizon flows =
     (if ccy \<in> set (dict_keys flows) then flows
      else dict_set ccy (replicate (horizon + 1) 0) flows)"

text \<open>\<open>flows[ccy][day] += amount\<close> and \<open>-=\<close>: the update \<open>f\<close> of one ladder cell.\<close>

definition update_flow :: "string \<Rightarrow> nat \<Rightarrow> (dec \<Rightarrow> dec) \<Rightarrow> flows \<Rightarrow> flows result" where
  "update_flow ccy day f flows =
     (case dict_get flows ccy of
        None \<Rightarrow> Inl KeyError
      | Some xs \<Rightarrow>
          if day < length xs then Inr (dict_set ccy (xs[day := f (xs ! day)]) flows)
          else Inl IndexError)"

definition security_trade_settlement_amount :: "SecurityTradeIntent \<Rightarrow> dec" where
  "security_trade_settlement_amount intent =
     (case sti_notional intent of
        None \<Rightarrow> 0
      | Some n \<Rightarrow> if sti_side intent = SELL then amount n else - amount n)"

definition apply_security_trade_settlement_flow ::
  "SecurityTradeIntent \<Rightarrow> (string, nat) dict \<Rightarrow> nat \<Rightarrow> flows \<Rightarrow> flows result" where
  "apply_security_trade_settlement_flow intent days_by_instrument horizon flows =
     (case sti_notional intent of
        None \<Rightarrow> Inr flows
      | Some n \<Rightarrow>
          update_flow (currency n) (dict_get_or days_by_instrument (sti_instrument_id intent) 2)
            (\<lambda>x. x + security_trade_settlement_amount intent)
            (ensure_settlement_currency (currency n) horizon flows))"

definition apply_fx_spot_settlement_flow ::
  "FxSpotIntent \<Rightarrow> nat \<Rightarrow> nat \<Rightarrow> flows \<Rightarrow> flows result" where
  "apply_fx_spot_settlement_flow intent horizon fx_days flows =
     (let f1 = ensure_settlement_currency (fsi_buy_currency intent) horizon
                 (ensure_settlement_currency (fsi_sell_currency intent) horizon flows)
      in bind_result
           (update_flow (fsi_sell_currency intent) fx_days (\<lambda>x. x - fsi_sell_amount_estimated intent) f1)
           (update_flow (fsi_buy_currency intent) fx_days (\<lambda>x. x + fsi_buy_amount intent)))"

definition apply_intent_settlement_flows ::
  "OrderIntent list \<Rightarrow> (string, nat) dict \<Rightarrow> nat \<Rightarrow> EngineOptions \<Rightarrow> flows \<Rightarrow> flows result" where
  "apply_intent_settlement_flows intents days_by_instrument horizon options flows =
     fold_result
       (\<lambda>i. case i of
               SecurityTrade s \<Rightarrow> apply_security_trade_settlement_flow s days_by_instrument horizon
             | FxSpot f \<Rightarrow> apply_fx_spot_settlement_flow f horizon (fx_settlement_days options))
       (sort_key intent_id intents) flows"

definition settlement_cash_flows ::
  "PortfolioSnapshot \<Rightarrow> OrderIntent list \<Rightarrow> (string, nat) dict \<Rightarrow> nat \<Rightarrow> EngineOptions \<Rightarrow> flows result" where
  "settlement_cash_flows portfolio intents days_by_instrument horizon options =
     bind_result
       (fold_result
          (\<lambda>cash flows.
             update_flow (cash_currency cash) 0
               (\<lambda>x. x + (case cash_settled cash of Some s \<Rightarrow> s | None \<Rightarrow> cash_amount cash))
               (ensure_settlement_currency (cash_currency cash) horizon flows))
          (pf_cash_balances portfolio) [])
       (apply_intent_settlement_flows intents days_by_instrument horizon options)"

definition settlement_ladder_projection_for_currency ::
  "string \<Rightarrow> dec list \<Rightarrow> nat \<Rightarrow> dec \<Rightarrow> SettlementLadderProjection result" where
  "settlement_ladder_projection_for_currency ccy daily_flows horizon max_overdraft =
     (let allowed_floor = - max_overdraft
      in bind_result
           (fold_result
              (\<lambda>day (balance, proj).
                 if length daily_flows \<le> day then Inl IndexError
                 else let b = balance + daily_flows ! day;
                          point = \<lparr> clp_date_offset = day, clp_currency = ccy, clp_projected_balance = b \<rparr>;
                          breach = \<lparr> clb_date_offset = day, clb_currency = ccy, clb_projected_balance = b,
                                     clb_allowed_floor = allowed_floor,
                                     clb_reason_code = ''OVERDRAFT_ON_T_PLUS_'' @ nat_str day \<rparr>
                      in Inr (b,
                           \<lparr> slp_points = slp_points proj @ [point],
                             slp_breaches = (if b < allowed_floor then slp_breaches proj @ [breach]
                                             else slp_breaches proj),
                             slp_overdraft_utilized =
                               slp_overdraft_utilized proj \<or> (b < 0 \<and> 0 < max_overdraft) \<rparr>))
              [0..<horizon + 1]
              (0, \<lparr> slp_points = [], slp_breaches = [], slp_overdraft_utilized = False \<rparr>))
           (\<lambda>(b, proj). Inr proj))"

definition settlement_ladder_projection ::
  "flows \<Rightarrow> nat \<Rightarrow> EngineOptions \<Rightarrow> SettlementLadderProjection result" where
  "settlement_ladder_projection flows horizon options =
     fold_result
       (\<lambda>ccy acc.
          bind_result
            (settlement_ladder_projection_for_currency ccy (the (dict_get flows ccy)) horizon
               (dict_get_or (max_overdraft_by_ccy options) ccy 0))
            (\<lambda>p. Inr \<lparr> slp_points = slp_points acc @ slp_points p,
                       slp_breaches = slp_breaches acc @ slp_breaches p,
                       slp_overdraft_utilized = slp_overdraft_utilized acc \<or> slp_overdraft_utilized p \<rparr>))
       (sort (dict_keys flows))
       \<lparr> slp_points = [], slp_breaches = [], slp_overdraft_utilized = False \<rparr>"

definition append_settlement_ladder_points ::
  "flows \<Rightarrow> nat \<Rightarrow> EngineOptions \<Rightarrow> DiagnosticsData \<Rightarrow> DiagnosticsData result" where
  "append_settlement_ladder_points flows horizon options diag =
     bind_result (settlement_ladder_projection flows horizon options)
       (\<lambda>p. let diag1 = diag\<lparr> cash_ladder := cash_ladder diag @ slp_points p,
                               cash_ladder_breaches := cash_ladder_breaches diag @ slp_breaches p \<rparr>
            in Inr (if slp_overdraft_utilized p
                    then add_warning ''SETTLEMENT_OVERDRAFT_UTILIZED'' diag1 else diag1))"

definition build_settlement_ladder ::
  "PortfolioSnapshot \<Rightarrow> ShelfEntry list \<Rightarrow> OrderIntent list \<Rightarrow> EngineOptions \<Rightarrow> DiagnosticsData
     \<Rightarrow> DiagnosticsData result" where
  "build_settlement_ladder portfolio shelf intents options diag =
     (let days = settlement_days_by_instrument shelf;
          horizon = settlement_horizon days intents options
      in bind_result (settlement_cash_flows portfolio intents days horizon options)
           (\<lambda>flows. append_settlement_ladder_points flows horizon options diag))"


section \<open>FX intents\<close>

record ProjectedCashFxResolution =
  pcr_intent :: "FxSpotIntent option"
  pcr_funding_currency :: "string option"
  pcr_missing_fx_pair :: "string option"
  pcr_blocked :: bool

definition project_cash_after_security_trades ::
  "PortfolioSnapshot \<Rightarrow> OrderIntent list \<Rightarrow> (string, dec) dict" where
  "project_cash_after_security_trades portfolio intents =
     fold (\<lambda>i cash.
             case i of
               FxSpot f \<Rightarrow> cash
             | SecurityTrade s \<Rightarrow>
                 (case sti_notional s of
                    None \<Rightarrow> cash
                  | Some n \<Rightarrow>
                      dict_set (currency n)
                        (dict_get_or cash (currency n) 0
                           + (if sti_side s = SELL then amount n else - amount n)) cash))
       intents
       (dict_of (map (\<lambda>c. (cash_currency c, cash_amount c)) (pf_cash_balances portfolio)))"

definition fx_intent_for_projected_cash_balance ::
  "string \<Rightarrow> dec \<Rightarrow> string \<Rightarrow> dec \<Rightarrow> string \<Rightarrow> dec \<Rightarrow> FxSpotIntent option" where
  "fx_intent_for_projected_cash_balance ccy balance base_ccy rate iid buffer =
     (if balance < 0
      then let buy_amount = \<bar>balance\<bar> * (1 + buffer)
           in Some \<lparr> fsi_intent_id = iid, fsi_pair = fx_pair_key ccy base_ccy,
                     fsi_buy_currency = ccy, fsi_buy_amount = buy_amount,
                     fsi_sell_currency = base_ccy, fsi_sell_amount_estimated = buy_amount * rate,
                     fsi_dependencies = [],
                     fsi_rationale = Some \<lparr>rationale_code = ''FUNDING'', rationale_message = ''Fund''\<rparr> \<rparr>
      else if 0 < balance
      then Some \<lparr> fsi_intent_id = iid, fsi_pair = fx_pair_key ccy base_ccy,
                  fsi_buy_currency = base_ccy, fsi_buy_amount = balance * rate,
                  fsi_sell_currency = ccy, fsi_sell_amount_estimated = balance,
                  fsi_dependencies = [],
                  fsi_rationale = Some \<lparr>rationale_code = ''SWEEP'', rationale_message = ''Sweep''\<rparr> \<rparr>
      else None)"

definition projected_cash_fx_resolution ::
  "string \<Rightarrow> dec \<Rightarrow> string \<Rightarrow> MarketDataSnapshot \<Rightarrow> string \<Rightarrow> EngineOptions \<Rightarrow> ProjectedCashFxResolution" where
  "projected_cash_fx_resolution ccy balance base_ccy md iid options =
     (if ccy = base_ccy
      then \<lparr> pcr_intent = None, pcr_funding_currency = None, pcr_missing_fx_pair = None, pcr_blocked = False \<rparr>
      else case get_fx_rate md ccy base_ccy of
        None \<Rightarrow> \<lparr> pcr_intent = None, pcr_funding_currency = None,
                  pcr_missing_fx_pair = Some (fx_pair_key ccy base_ccy),
                  pcr_blocked = block_on_missing_fx options \<rparr>
      | Some rate \<Rightarrow>
          let intent = fx_intent_for_projected_cash_balance ccy balance base_ccy rate iid (fx_buffer_pct options)
          in \<lparr> pcr_intent = intent,
               pcr_funding_currency = (if balance < 0 \<and> intent \<noteq> None then Some ccy else None),
               pcr_missing_fx_pair = None, pcr_blocked = False \<rparr>)"

text \<open>The state of the loop: intents, the map from funded currency to FX intent, diagnostics.\<close>

definition apply_projected_cash_fx_resolution ::
  "string \<Rightarrow> dec \<Rightarrow> string \<Rightarrow> MarketDataSnapshot \<Rightarrow> string \<Rightarrow> EngineOptions
     \<Rightarrow> OrderIntent list \<times> (string, string) dict \<times> DiagnosticsData
     \<Rightarrow> bool \<times> OrderIntent list \<times> (string, string) dict \<times> DiagnosticsData" where
  "apply_projected_cash_fx_resolution ccy balance base_ccy md iid options st =
     (case st of (intents, fx_map, diag) \<Rightarrow>
        let r = projected_cash_fx_resolution ccy balance base_ccy md iid options;
            diag' = (case pcr_missing_fx_pair r of
                       None \<Rightarrow> diag | Some pair \<Rightarrow> log_dq ''fx_missing'' pair diag)
        in if pcr_blocked r then (True, intents, fx_map, diag')
           else case pcr_intent r of
                  None \<Rightarrow> (False, intents, fx_map, diag')
                | Some f \<Rightarrow>
                    (False, intents @ [FxSpot f],
                     (case pcr_funding_currency r of
                        None \<Rightarrow> fx_map | Some c \<Rightarrow> dict_set c (fsi_intent_id f) fx_map), diag'))"

fun append_projected_cash_fx_intents ::
  "(string \<times> dec) list \<Rightarrow> string \<Rightarrow> MarketDataSnapshot \<Rightarrow> EngineOptions
     \<Rightarrow> OrderIntent list \<times> (string, string) dict \<times> DiagnosticsData
     \<Rightarrow> bool \<times> OrderIntent list \<times> (string, string) dict \<times> DiagnosticsData" where
  "append_projected_cash_fx_intents [] base_ccy md options st = (False, st)"
| "append_projected_cash_fx_intents ((ccy, bal) # rest) base_ccy md options st =
     (case apply_projected_cash_fx_resolution ccy bal base_ccy md
             (''oi_fx_'' @ nat_str (length (fst st) + 1)) options st of
        (True, st') \<Rightarrow> (True, st')
      | (False, st') \<Rightarrow> append_projected_cash_fx_intents rest base_ccy md options st')"

definition link_execution_dependencies ::
  "OrderIntent list \<Rightarrow> (string, string) dict \<Rightarrow> bool option \<Rightarrow> OrderIntent list" where
  "link_execution_dependencies intents fx_map include_sells =
     link_buy_intent_dependencies intents fx_map
       (case include_sells of None \<Rightarrow> True | Some b \<Rightarrow> b)"


section \<open>Simulation\<close>

datatype AfterState = AfterSimulated SimulatedState | AfterPortfolio PortfolioSnapshot

record ExecutionResult =
  ex_intents :: "OrderIntent list"
  ex_state :: AfterState
  ex_rules :: "RuleResult list"
  ex_status :: RunStatus
  ex_recon :: "Reconciliation option"
  ex_diag :: DiagnosticsData

definition apply_intent :: "OrderIntent \<Rightarrow> PortfolioSnapshot \<Rightarrow> PortfolioSnapshot" where
  "apply_intent intent portfolio =
     (case intent of
        SecurityTrade s \<Rightarrow> apply_security_trade_to_portfolio s portfolio
      | FxSpot f \<Rightarrow> apply_fx_spot_to_portfolio f portfolio)"

definition apply_execution_intents :: "PortfolioSnapshot \<Rightarrow> OrderIntent list \<Rightarrow> PortfolioSnapshot" where
  "apply_execution_intents portfolio intents = fold apply_intent intents portfolio"

definition after_simulation_options :: "EngineOptions \<Rightarrow> EngineOptions" where
  "after_simulation_options options =
     options\<lparr>valuation_mode :=
       (if valuation_mode options = TRUST_SNAPSHOT then TRUST_SNAPSHOT else CALCULATED)\<rparr>"

definition hard_rule_blockers :: "RuleResult list \<Rightarrow> string list" where
  "hard_rule_blockers rules =
     map rule_id (filter (\<lambda>r. rule_severity r = HARD \<and> rule_status r = FAIL) rules)"

definition record_simulation_safety_warnings :: "string list \<Rightarrow> DiagnosticsData \<Rightarrow> DiagnosticsData" where
  "record_simulation_safety_warnings blockers diag =
     (if ''NO_SHORTING'' \<in> set blockers \<or> ''INSUFFICIENT_CASH'' \<in> set blockers
      then add_warning ''SIMULATION_SAFETY_CHECK_FAILED'' diag else diag)"

definition settlement_blocked_simulation_result ::
  "PortfolioSnapshot \<Rightarrow> MarketDataSnapshot \<Rightarrow> ShelfEntry list \<Rightarrow> OrderIntent list \<Rightarrow> EngineOptions
     \<Rightarrow> DiagnosticsData \<Rightarrow> ExecutionResult result" where
  "settlement_blocked_simulation_result portfolio md shelf intents options diag =
     (case cash_ladder_breaches diag of
        [] \<Rightarrow> Inl IndexError
      | first_breach # _ \<Rightarrow>
          let diag1 = add_warning (clb_reason_code first_breach) diag;
              (blocked_state, dq) = build_simulated_state portfolio md shelf (data_quality diag1) (Some options)
          in Inr \<lparr> ex_intents = intents, ex_state = AfterSimulated blocked_state,
                   ex_rules = [\<lparr> rule_id = ''SETTLEMENT_CASH_LADDER'', rule_severity = HARD,
                                 rule_status = FAIL,
                                 rule_measured = clb_allowed_floor first_breach
                                                 - clb_projected_balance first_breach,
                                 rule_threshold = [(''min'', clb_allowed_floor first_breach)],
                                 rule_reason_code = clb_reason_code first_breach,
                                 rule_remediation_hint =
                                   Some ''Adjust timing, funding, or overdraft settings.'' \<rparr>],
                   ex_status = BLOCKED, ex_recon = None, ex_diag = diag1\<lparr>data_quality := dq\<rparr> \<rparr>)"

definition blocked_simulation_result_from_rules ::
  "OrderIntent list \<Rightarrow> AfterState \<Rightarrow> RuleResult list \<Rightarrow> DiagnosticsData \<Rightarrow> ExecutionResult option" where
  "blocked_simulation_result_from_rules intents state rules diag =
     (let blockers = hard_rule_blockers rules
      in if blockers = [] then None
         else Some \<lparr> ex_intents = intents, ex_state = state, ex_rules = rules, ex_status = BLOCKED,
                     ex_recon = None, ex_diag = record_simulation_safety_warnings blockers diag \<rparr>)"

definition reconciliation_rule :: "dec \<Rightarrow> dec \<Rightarrow> RuleResult" where
  "reconciliation_rule recon_diff tolerance =
     \<lparr> rule_id = ''RECONCILIATION'', rule_severity = HARD, rule_status = FAIL,
       rule_measured = recon_diff, rule_threshold = [(''max'', tolerance)],
       rule_reason_code = ''VALUE_MISMATCH'',
       rule_remediation_hint = Some ''Check pricing/FX or engine logic.'' \<rparr>"

definition simulation_result_with_reconciliation ::
  "OrderIntent list \<Rightarrow> SimulatedState \<Rightarrow> RuleResult list \<Rightarrow> Reconciliation \<Rightarrow> dec \<Rightarrow> dec
     \<Rightarrow> DiagnosticsData \<Rightarrow> ExecutionResult" where
  "simulation_result_with_reconciliation intents state rules recon recon_diff tolerance diag =
     (if recon_status recon = MISMATCH
      then \<lparr> ex_intents = intents, ex_state = AfterSimulated state,
             ex_rules = rules @ [reconciliation_rule recon_diff tolerance],
             ex_status = BLOCKED, ex_recon = Some recon, ex_diag = diag \<rparr>
      else \<lparr> ex_intents = intents, ex_state = AfterSimulated state, ex_rules = rules,
             ex_status = derive_status_from_rules rules, ex_recon = Some recon, ex_diag = diag \<rparr>)"

text \<open>The part after the settlement check: apply, value, evaluate, reconcile.\<close>

definition simulate_intents ::
  "PortfolioSnapshot \<Rightarrow> MarketDataSnapshot \<Rightarrow> ShelfEntry list \<Rightarrow> OrderIntent list \<Rightarrow> EngineOptions
     \<Rightarrow> dec \<Rightarrow> DiagnosticsData \<Rightarrow> ExecutionResult" where
  "simulate_intents portfolio md shelf intents options total_val_before diag =
     (let after = apply_execution_intents portfolio intents;
          (state, dq) = build_simulated_state after md shelf (data_quality diag)
                          (Some (after_simulation_options options));
          diag1 = diag\<lparr>data_quality := dq\<rparr>;
          rules = RuleEngine_evaluate state options diag1
      in case blocked_simulation_result_from_rules intents (AfterSimulated state) rules diag1 of
           Some blocked \<Rightarrow> blocked
         | None \<Rightarrow>
             let (recon, recon_diff, tolerance) =
                   build_reconciliation total_val_before (amount (ss_total_value state)) total_val_before
                     (pf_base_currency portfolio) False
             in simulation_result_with_reconciliation intents state rules recon recon_diff tolerance diag1)"

definition generate_fx_and_simulate ::
  "PortfolioSnapshot \<Rightarrow> MarketDataSnapshot \<Rightarrow> ShelfEntry list \<Rightarrow> OrderIntent list \<Rightarrow> EngineOptions
     \<Rightarrow> dec \<Rightarrow> DiagnosticsData \<Rightarrow> ExecutionResult result" where
  "generate_fx_and_simulate portfolio md shelf intents0 options total_val_before diag0 =
     (let proj = project_cash_after_security_trades portfolio intents0;
          (blocked_on_missing_fx, intents1, fx_map, diag1) =
            append_projected_cash_fx_intents proj (pf_base_currency portfolio) md options
              (intents0, [], diag0)
      in if blocked_on_missing_fx
         then Inr \<lparr> ex_intents = intents1, ex_state = AfterPortfolio portfolio, ex_rules = [],
                    ex_status = BLOCKED, ex_recon = None, ex_diag = diag1 \<rparr>
         else
           let intents2 = link_execution_dependencies intents1 fx_map
                            (link_buy_to_same_currency_sell_dependency options);
               intents3 = sort_execution_intents intents2
           in if enable_settlement_awareness options
              then bind_result (build_settlement_ladder portfolio shelf intents3 options diag1)
                     (\<lambda>diag2.
                        if cash_ladder_breaches diag2 \<noteq> []
                        then settlement_blocked_simulation_result portfolio md shelf intents3 options diag2
                        else Inr (simulate_intents portfolio md shelf intents3 options total_val_before diag2))
              else Inr (simulate_intents portfolio md shelf intents3 options total_val_before diag1))"


section \<open>Blocking data quality\<close>

definition blocking_data_quality_rules :: "(string \<times> (EngineOptions \<Rightarrow> bool) option) list" where
  "blocking_data_quality_rules =
     [(''shelf_missing'', None),
      (''price_missing'', Some block_on_missing_prices),
      (''fx_missing'', Some block_on_missing_fx),
      (''minimum_trade_threshold_fx_unavailable'', None),
      (''tax_lot_evidence_incomplete'', Some enable_tax_awareness)]"

definition data_quality_rule_blocks ::
  "dq_log \<Rightarrow> EngineOptions \<Rightarrow> string \<times> (EngineOptions \<Rightarrow> bool) option \<Rightarrow> bool" where
  "data_quality_rule_blocks dq options rule =
     (if dq_bucket dq (fst rule) = [] then False
      else case snd rule of None \<Rightarrow> True | Some opt \<Rightarrow> opt options)"

definition check_blocking_dq :: "dq_log \<Rightarrow> EngineOptions \<Rightarrow> bool" where
  "check_blocking_dq dq options =
     (\<exists>rule \<in> set blocking_data_quality_rules. data_quality_rule_blocks dq options rule)"


section \<open>Lemmas\<close>

subsection \<open>The ladder is total\<close>

definition flows_ok :: "nat \<Rightarrow> flows \<Rightarrow> bool" where
  "flows_ok h flows \<longleftrightarrow> (\<forall>c xs. dict_get flows c = Some xs \<longrightarrow> length xs = h + 1)"

lemma flows_ok_ensure:
  "flows_ok h flows \<Longrightarrow> flows_ok h (ensure_settlement_currency c h flows)
     \<and> dict_get (ensure_settlement_currency c h flows) c \<noteq> None
     \<and> (dict_get flows d \<noteq> None \<longrightarrow> dict_get (ensure_settlement_currency c h flows) d \<noteq> None)"
  using map_of_eq_None_iff [of flows c]
  by (cases "dict_get flows c") (auto simp: flows_ok_def ensure_settlement_currency_def dict_get_set)

lemma update_flow_total:
  assumes "flows_ok h flows" and "dict_get flows c \<noteq> None" and "day \<le> h"
  shows "\<exists>flows'. update_flow c day f flows = Inr flows' \<and> flows_ok h flows'
           \<and> (\<forall>d. dict_get flows d \<noteq> None \<longrightarrow> dict_get flows' d \<noteq> None)"
proof -
  obtain xs where xs: "dict_get flows c = Some xs" using assms(2) by auto
  with assms(1) have "length xs = h + 1" by (simp add: flows_ok_def)
  with xs assms(1,3) show ?thesis
    by (auto simp: update_flow_def flows_ok_def dict_get_set)
qed

lemma ensure_update_total:
  assumes "flows_ok h flows" and "day \<le> h"
  shows "\<exists>flows'. update_flow c day f (ensure_settlement_currency c h flows) = Inr flows' \<and> flows_ok h flows'"
proof -
  from flows_ok_ensure [OF assms(1), of c] have "flows_ok h (ensure_settlement_currency c h flows)"
    and "dict_get (ensure_settlement_currency c h flows) c \<noteq> None" by blast+
  from update_flow_total [OF this assms(2)] show ?thesis by blast
qed

lemma foldr_max_ge: "x \<in> set xs \<Longrightarrow> x \<le> foldr max xs (a :: nat)"
  by (induction xs) auto

lemma horizon_bounds:
  "fx_settlement_days options \<le> settlement_horizon days is options"
  "SecurityTrade s \<in> set is \<Longrightarrow>
     dict_get_or days (sti_instrument_id s) 2 \<le> settlement_horizon days is options"
proof -
  show "fx_settlement_days options \<le> settlement_horizon days is options"
    by (simp add: settlement_horizon_def Let_def)
  assume "SecurityTrade s \<in> set is"
  then have "s \<in> set (security_trades is)"
    by (force simp: security_trades_def map_filter_def image_iff)
  then have "dict_get_or days (sti_instrument_id s) 2
      \<le> foldr max (map (\<lambda>s. dict_get_or days (sti_instrument_id s) 2) (security_trades is)) 0"
    by (intro foldr_max_ge) auto
  then show "dict_get_or days (sti_instrument_id s) 2 \<le> settlement_horizon days is options"
    by (simp add: settlement_horizon_def Let_def)
qed

lemma settlement_flow_total:
  assumes "flows_ok h flows" and "dict_get_or days (sti_instrument_id s) 2 \<le> h"
  shows "\<exists>flows'. apply_security_trade_settlement_flow s days h flows = Inr flows' \<and> flows_ok h flows'"
  using ensure_update_total [OF assms] assms(1)
  by (auto simp: apply_security_trade_settlement_flow_def split: option.splits)

lemma fx_flow_total:
  assumes "flows_ok h flows" and "fx_days \<le> h"
  shows "\<exists>flows'. apply_fx_spot_settlement_flow f h fx_days flows = Inr flows' \<and> flows_ok h flows'"
proof -
  let ?f1 = "ensure_settlement_currency (fsi_sell_currency f) h flows"
  let ?f2 = "ensure_settlement_currency (fsi_buy_currency f) h ?f1"
  note e1 = flows_ok_ensure [OF assms(1), of "fsi_sell_currency f"]
  note e2 = flows_ok_ensure [OF e1 [THEN conjunct1], of "fsi_buy_currency f"]
  have sell: "dict_get ?f2 (fsi_sell_currency f) \<noteq> None"
    using e1 e2 by blast
  have buy: "dict_get ?f2 (fsi_buy_currency f) \<noteq> None" using e2 by blast
  obtain f3 where f3: "update_flow (fsi_sell_currency f) fx_days
      (\<lambda>x. x - fsi_sell_amount_estimated f) ?f2 = Inr f3" "flows_ok h f3"
      "dict_get f3 (fsi_buy_currency f) \<noteq> None"
    using update_flow_total [OF e2 [THEN conjunct1] sell assms(2)] buy by blast
  from update_flow_total [OF f3(2,3) assms(2), of "\<lambda>x. x + fsi_buy_amount f"] f3(1) show ?thesis
    by (auto simp: apply_fx_spot_settlement_flow_def Let_def)
qed

lemma settlement_cash_flows_total:
  fixes days options "is"
  defines "h \<equiv> settlement_horizon days is options"
  shows "\<exists>flows. settlement_cash_flows portfolio is days h options = Inr flows \<and> flows_ok h flows"
proof -
  have "\<exists>f0. fold_result
          (\<lambda>cash flows.
             update_flow (cash_currency cash) 0
               (\<lambda>x. x + (case cash_settled cash of Some s \<Rightarrow> s | None \<Rightarrow> cash_amount cash))
               (ensure_settlement_currency (cash_currency cash) h flows))
          (pf_cash_balances portfolio) [] = Inr f0 \<and> flows_ok h f0"
    by (rule fold_result_total) (simp_all add: flows_ok_def [of _ "[]"] ensure_update_total)
  then obtain f0 where f0: "fold_result
          (\<lambda>cash flows.
             update_flow (cash_currency cash) 0
               (\<lambda>x. x + (case cash_settled cash of Some s \<Rightarrow> s | None \<Rightarrow> cash_amount cash))
               (ensure_settlement_currency (cash_currency cash) h flows))
          (pf_cash_balances portfolio) [] = Inr f0" "flows_ok h f0" by blast
  have "\<exists>f1. apply_intent_settlement_flows is days h options f0 = Inr f1 \<and> flows_ok h f1"
    unfolding apply_intent_settlement_flows_def
  proof (rule fold_result_total)
    show "flows_ok h f0" by (fact f0(2))
  next
    fix x s
    assume "x \<in> set (sort_key intent_id is)" and ok: "flows_ok h s"
    then have x: "x \<in> set is" by simp
    show "\<exists>s'. (case x of SecurityTrade s \<Rightarrow> apply_security_trade_settlement_flow s days h
             | FxSpot f \<Rightarrow> apply_fx_spot_settlement_flow f h (fx_settlement_days options)) s = Inr s'
             \<and> flows_ok h s'"
    proof (cases x)
      case (SecurityTrade t)
      with settlement_flow_total [OF ok horizon_bounds(2) [of t "is" days options, folded h_def]] x
      show ?thesis by simp
    next
      case (FxSpot f)
      with fx_flow_total [OF ok horizon_bounds(1) [of options days "is", folded h_def]] show ?thesis by simp
    qed
  qed
  with f0 show ?thesis by (auto simp: settlement_cash_flows_def)
qed

text \<open>The projected balance after a day is the running sum of the flows, and the breaches are the days below the floor.\<close>

definition ladder_balance :: "dec list \<Rightarrow> nat \<Rightarrow> dec" where
  "ladder_balance xs day = dsum (take (day + 1) xs)"

definition currency_projection :: "string \<Rightarrow> dec list \<Rightarrow> nat \<Rightarrow> dec \<Rightarrow> SettlementLadderProjection" where
  "currency_projection c xs n od =
     \<lparr> slp_points = map (\<lambda>d. \<lparr> clp_date_offset = d, clp_currency = c,
                              clp_projected_balance = ladder_balance xs d \<rparr>) [0..<n],
       slp_breaches = map (\<lambda>d. \<lparr> clb_date_offset = d, clb_currency = c,
                                clb_projected_balance = ladder_balance xs d, clb_allowed_floor = - od,
                                clb_reason_code = ''OVERDRAFT_ON_T_PLUS_'' @ nat_str d \<rparr>)
                      (filter (\<lambda>d. ladder_balance xs d < - od) [0..<n]),
       slp_overdraft_utilized = (\<exists>d < n. ladder_balance xs d < 0 \<and> 0 < od) \<rparr>"

lemma fold_result_append:
  "fold_result f (xs @ ys) s = bind_result (fold_result f xs s) (fold_result f ys)"
  by (induction xs arbitrary: s) (auto simp: bind_result_def split: sum.splits)

lemma projection_for_currency_eq:
  assumes "length xs = h + 1"
  shows "settlement_ladder_projection_for_currency c xs h od = Inr (currency_projection c xs (h + 1) od)"
proof -
  let ?f = "\<lambda>day (balance, proj).
       if length xs \<le> day then Inl IndexError
       else let b = balance + xs ! day;
                point = \<lparr> clp_date_offset = day, clp_currency = c, clp_projected_balance = b \<rparr>;
                breach = \<lparr> clb_date_offset = day, clb_currency = c, clb_projected_balance = b,
                           clb_allowed_floor = - od,
                           clb_reason_code = ''OVERDRAFT_ON_T_PLUS_'' @ nat_str day \<rparr>
            in Inr (b,
                 \<lparr> slp_points = slp_points proj @ [point],
                   slp_breaches = (if b < - od then slp_breaches proj @ [breach] else slp_breaches proj),
                   slp_overdraft_utilized = slp_overdraft_utilized proj \<or> (b < 0 \<and> 0 < od) \<rparr>)"
  have "fold_result ?f [0..<n] (0, \<lparr> slp_points = [], slp_breaches = [], slp_overdraft_utilized = False \<rparr>)
      = Inr (dsum (take n xs), currency_projection c xs n od)" if "n \<le> h + 1" for n
    using that
  proof (induction n)
    case 0
    then show ?case by (simp add: currency_projection_def)
  next
    case (Suc n)
    have bal: "dsum (take n xs) + xs ! n = ladder_balance xs n"
      using Suc.prems assms by (simp add: ladder_balance_def take_Suc_conv_app_nth)
    have od: "(\<exists>d < Suc n. P d) \<longleftrightarrow> (\<exists>d < n. P d) \<or> P n" for P :: "nat \<Rightarrow> bool"
      by (auto simp: less_Suc_eq)
    from Suc show ?case
      using assms by (simp add: fold_result_append bal currency_projection_def od Let_def)
        (simp add: ladder_balance_def)
  qed
  from this [of "h + 1"] show ?thesis
    by (simp add: settlement_ladder_projection_for_currency_def Let_def)
qed

lemma settlement_ladder_projection_eq:
  assumes "flows_ok h flows"
  shows "\<exists>p. settlement_ladder_projection flows h options = Inr p
    \<and> slp_breaches p = concat (map (\<lambda>c. slp_breaches (currency_projection c (the (dict_get flows c)) (h + 1)
          (dict_get_or (max_overdraft_by_ccy options) c 0))) (sort (dict_keys flows)))
    \<and> slp_points p = concat (map (\<lambda>c. slp_points (currency_projection c (the (dict_get flows c)) (h + 1)
          (dict_get_or (max_overdraft_by_ccy options) c 0))) (sort (dict_keys flows)))"
proof -
  let ?p = "\<lambda>c. currency_projection c (the (dict_get flows c)) (h + 1)
              (dict_get_or (max_overdraft_by_ccy options) c 0)"
  have one: "settlement_ladder_projection_for_currency c (the (dict_get flows c)) h
      (dict_get_or (max_overdraft_by_ccy options) c 0) = Inr (?p c)" if "c \<in> set (dict_keys flows)" for c
    using that assms map_of_eq_None_iff [of flows c]
    by (intro projection_for_currency_eq) (auto simp: flows_ok_def)
  have "\<exists>p. fold_result (\<lambda>ccy acc.
          bind_result
            (settlement_ladder_projection_for_currency ccy (the (dict_get flows ccy)) h
               (dict_get_or (max_overdraft_by_ccy options) ccy 0))
            (\<lambda>p. Inr \<lparr> slp_points = slp_points acc @ slp_points p,
                       slp_breaches = slp_breaches acc @ slp_breaches p,
                       slp_overdraft_utilized = slp_overdraft_utilized acc \<or> slp_overdraft_utilized p \<rparr>))
        cs acc = Inr p
      \<and> slp_breaches p = slp_breaches acc @ concat (map (slp_breaches \<circ> ?p) cs)
      \<and> slp_points p = slp_points acc @ concat (map (slp_points \<circ> ?p) cs)"
    if "set cs \<subseteq> set (dict_keys flows)" for cs acc
    using that
  proof (induction cs arbitrary: acc)
    case (Cons c cs)
    let ?acc = "\<lparr> slp_points = slp_points acc @ slp_points (?p c),
                  slp_breaches = slp_breaches acc @ slp_breaches (?p c),
                  slp_overdraft_utilized = slp_overdraft_utilized acc \<or> slp_overdraft_utilized (?p c) \<rparr>"
    from Cons.IH [of ?acc] Cons.prems one [of c] show ?case by simp
  qed simp
  from this [of "sort (dict_keys flows)" "\<lparr> slp_points = [], slp_breaches = [], slp_overdraft_utilized = False \<rparr>"]
  show ?thesis by (auto simp: settlement_ladder_projection_def comp_def)
qed

text \<open>Building the ladder never fails, and it reports a breach exactly for the balances below their floor.\<close>

lemma build_settlement_ladder_spec:
  fixes shelf "is" options
  defines "days \<equiv> settlement_days_by_instrument shelf"
  defines "h \<equiv> settlement_horizon days is options"
  shows "\<exists>flows diag'. settlement_cash_flows portfolio is days h options = Inr flows
    \<and> build_settlement_ladder portfolio shelf is options diag = Inr diag'
    \<and> data_quality diag' = data_quality diag
    \<and> cash_ladder_breaches diag' = cash_ladder_breaches diag
        @ concat (map (\<lambda>c. slp_breaches (currency_projection c (the (dict_get flows c)) (h + 1)
          (dict_get_or (max_overdraft_by_ccy options) c 0))) (sort (dict_keys flows)))
    \<and> cash_ladder diag' = cash_ladder diag
        @ concat (map (\<lambda>c. slp_points (currency_projection c (the (dict_get flows c)) (h + 1)
          (dict_get_or (max_overdraft_by_ccy options) c 0))) (sort (dict_keys flows)))"
proof -
  obtain flows where f: "settlement_cash_flows portfolio is days h options = Inr flows" "flows_ok h flows"
    using settlement_cash_flows_total [of portfolio "is" days options] by (auto simp: h_def)
  from settlement_ladder_projection_eq [OF f(2), of options] obtain p where
    p: "settlement_ladder_projection flows h options = Inr p" and
    pp: "slp_breaches p = concat (map (\<lambda>c. slp_breaches (currency_projection c (the (dict_get flows c)) (h + 1)
          (dict_get_or (max_overdraft_by_ccy options) c 0))) (sort (dict_keys flows)))"
     "slp_points p = concat (map (\<lambda>c. slp_points (currency_projection c (the (dict_get flows c)) (h + 1)
          (dict_get_or (max_overdraft_by_ccy options) c 0))) (sort (dict_keys flows)))" by blast
  have "\<exists>diag'. build_settlement_ladder portfolio shelf is options diag = Inr diag'
    \<and> data_quality diag' = data_quality diag
    \<and> cash_ladder_breaches diag' = cash_ladder_breaches diag @ slp_breaches p
    \<and> cash_ladder diag' = cash_ladder diag @ slp_points p"
    using f(1) p by (auto simp: build_settlement_ladder_def Let_def append_settlement_ladder_points_def
        add_warning_def simp flip: days_def h_def)
  with f(1) pp show ?thesis by auto
qed



subsection \<open>FX intents\<close>

text \<open>The FX intents one pass over the projected cash appends, and why.\<close>

definition fx_intent_for ::
  "MarketDataSnapshot \<Rightarrow> string \<Rightarrow> EngineOptions \<Rightarrow> string \<Rightarrow> dec \<Rightarrow> FxSpotIntent \<Rightarrow> bool" where
  "fx_intent_for md base options ccy bal f \<longleftrightarrow>
     ccy \<noteq> base \<and> (\<exists>rate. get_fx_rate md ccy base = Some rate
       \<and> fx_intent_for_projected_cash_balance ccy bal base rate (fsi_intent_id f) (fx_buffer_pct options)
         = Some f)"

lemma fx_resolution_cases:
  assumes "apply_projected_cash_fx_resolution c b base md iid options (is, m, d) = (bl, is', m', d')"
  shows "(bl \<longrightarrow> is' = is \<and> block_on_missing_fx options \<and> c \<noteq> base \<and> get_fx_rate md c base = None)
    \<and> (\<not> bl \<longrightarrow>
        (is' = is \<and> m' = m \<and> (c = base \<or> b = 0 \<or> get_fx_rate md c base = None))
        \<or> (\<exists>f. is' = is @ [FxSpot f] \<and> fx_intent_for md base options c b f
             \<and> m' = (if b < 0 then dict_set c (fsi_intent_id f) m else m)))
    \<and> data_quality d' = (if c \<noteq> base \<and> get_fx_rate md c base = None
                          then dq_append ''fx_missing'' (fx_pair_key c base) (data_quality d)
                          else data_quality d)"
proof (cases "c = base \<or> get_fx_rate md c base = None")
  case True
  with assms show ?thesis
    by (auto simp: apply_projected_cash_fx_resolution_def projected_cash_fx_resolution_def Let_def
        split: if_splits)
next
  case False
  then obtain r where r: "get_fx_rate md c base = Some r" by auto
  have "fsi_intent_id f = iid" if "fx_intent_for_projected_cash_balance c b base r iid x = Some f" for f x
    using that by (auto simp: fx_intent_for_projected_cash_balance_def Let_def split: if_splits)
  moreover have "fx_intent_for_projected_cash_balance c b base r iid x = None \<longleftrightarrow> b = 0" for x
    by (auto simp: fx_intent_for_projected_cash_balance_def Let_def)
  ultimately show ?thesis
    using assms False r
    by (cases "fx_intent_for_projected_cash_balance c b base r iid (fx_buffer_pct options)")
      (auto simp: apply_projected_cash_fx_resolution_def projected_cash_fx_resolution_def Let_def
        fx_intent_for_def split: if_splits)
qed

lemma fx_loop_spec:
  assumes "append_projected_cash_fx_intents ps base md options (is, m, d) = (bl, is', m', d')"
  shows "(\<exists>fs. is' = is @ map FxSpot fs
            \<and> (\<forall>f \<in> set fs. \<exists>(c, b) \<in> set ps. fx_intent_for md base options c b f))
    \<and> (\<forall>c i. dict_get m' c = Some i \<longrightarrow>
          dict_get m c = Some i \<or> (\<exists>f. FxSpot f \<in> set is' \<and> fsi_intent_id f = i))
    \<and> (bl \<longrightarrow> block_on_missing_fx options
          \<and> (\<exists>(c, b) \<in> set ps. c \<noteq> base \<and> get_fx_rate md c base = None))
    \<and> (\<not> bl \<longrightarrow> (\<forall>(c, b) \<in> set ps. c \<noteq> base \<longrightarrow> b \<noteq> 0 \<longrightarrow> get_fx_rate md c base \<noteq> None \<longrightarrow>
          (\<exists>f. FxSpot f \<in> set is' \<and> fx_intent_for md base options c b f)))"
  using assms
proof (induction ps base md options "(is, m, d)" arbitrary: "is" m d
    rule: append_projected_cash_fx_intents.induct)
  case (1 base md options)
  then show ?case by auto
next
  case (2 c b rest base md options)
  let ?iid = "''oi_fx_'' @ nat_str (length (fst (is, m, d)) + 1)"
  obtain b1 is1 m1 d1 where
    step: "apply_projected_cash_fx_resolution c b base md ?iid options (is, m, d) = (b1, is1, m1, d1)"
    by (metis prod_cases4)
  note cs = fx_resolution_cases [OF step]
  show ?case
  proof (cases b1)
    case True
    with "2.prems" step have "bl" "is' = is1" "m' = m1" by auto
    moreover from step True have "m1 = m"
      by (auto simp: apply_projected_cash_fx_resolution_def Let_def split: if_splits option.splits)
    ultimately show ?thesis using True cs by auto
  next
    case False
    have rest: "append_projected_cash_fx_intents rest base md options (is1, m1, d1) = (bl, is', m', d')"
      using "2.prems" step False by simp
    have "b1 = False" using False by simp
    note IH = "2.hyps" [OF step [symmetric] this rest]
    obtain fs where fs: "is' = is1 @ map FxSpot fs"
      "\<forall>f \<in> set fs. \<exists>(c, b) \<in> set rest. fx_intent_for md base options c b f" using IH by blast
    consider (none) "is1 = is" "m1 = m" "c = base \<or> b = 0 \<or> get_fx_rate md c base = None"
      | (fx) f where "is1 = is @ [FxSpot f]" "fx_intent_for md base options c b f"
          "m1 = (if b < 0 then dict_set c (fsi_intent_id f) m else m)"
      using cs [THEN conjunct2, THEN conjunct1, THEN mp, OF False] by (elim disjE conjE exE) blast+
    then show ?thesis
    proof cases
      case none
      with IH fs show ?thesis by auto
    next
      case fx
      have "is' = is @ map FxSpot (f # fs)" using fs(1) fx(1) by simp
      with IH fs fx show ?thesis
        by (intro conjI exI [of _ "f # fs"]) (auto simp: dict_get_set split: if_splits)
    qed
  qed
qed

text \<open>The bought amount covers the deficit, the sold amount is the whole surplus.\<close>

lemma fx_intent_amounts:
  assumes "fx_intent_for md base options c b f"
  shows "b < 0 \<Longrightarrow> fsi_buy_currency f = c \<and> fsi_sell_currency f = base
           \<and> fsi_buy_amount f = \<bar>b\<bar> * (1 + fx_buffer_pct options)"
    and "0 < b \<Longrightarrow> fsi_sell_currency f = c \<and> fsi_buy_currency f = base \<and> fsi_sell_amount_estimated f = b"
proof -
  have "(b < 0 \<longrightarrow> fsi_buy_currency f = c \<and> fsi_sell_currency f = base
             \<and> fsi_buy_amount f = \<bar>b\<bar> * (1 + fx_buffer_pct options))
      \<and> (0 < b \<longrightarrow> fsi_sell_currency f = c \<and> fsi_buy_currency f = base \<and> fsi_sell_amount_estimated f = b)"
    if "fx_intent_for_projected_cash_balance c b base r iid (fx_buffer_pct options) = Some f" for r iid
    using that by (auto simp: fx_intent_for_projected_cash_balance_def Let_def split: if_splits)
  with assms show "b < 0 \<Longrightarrow> fsi_buy_currency f = c \<and> fsi_sell_currency f = base
           \<and> fsi_buy_amount f = \<bar>b\<bar> * (1 + fx_buffer_pct options)"
    and "0 < b \<Longrightarrow> fsi_sell_currency f = c \<and> fsi_buy_currency f = base \<and> fsi_sell_amount_estimated f = b"
    unfolding fx_intent_for_def by blast+
qed

lemma buffered_amount:
  assumes "0 \<le> fx_buffer_pct options"
  shows "\<bar>b\<bar> \<le> \<bar>b\<bar> * (1 + fx_buffer_pct options)"
proof -
  have "1 \<le> 1 + fx_buffer_pct options" using assms by (intro dec_le_add) simp_all
  then show ?thesis by (intro dec_le_mult dec_nonneg) simp_all
qed

lemma fx_intent_plain:
  assumes "fx_intent_for md base options c b f"
  shows "fsi_dependencies f = [] \<and> fsi_sell_currency f \<noteq> fsi_buy_currency f"
proof -
  have "fsi_dependencies f = [] \<and> fsi_sell_currency f \<noteq> fsi_buy_currency f"
    if "fx_intent_for_projected_cash_balance c b base r iid x = Some f" and "c \<noteq> base" for r iid x
    using that by (auto simp: fx_intent_for_projected_cash_balance_def Let_def split: if_splits)
  with assms show ?thesis unfolding fx_intent_for_def by blast
qed



subsection \<open>Outcome of a simulation\<close>

lemma hard_rule_blockers_empty: "hard_rule_blockers rules = [] \<longleftrightarrow> (\<forall>r \<in> set rules. \<not> hard_fail r)"
  by (auto simp: hard_rule_blockers_def hard_fail_def filter_empty_conv)

lemma recon_status_OK:
  "recon_status (fst (build_reconciliation b a e base abs_scale)) \<noteq> MISMATCH \<longleftrightarrow>
     recon_status (fst (build_reconciliation b a e base abs_scale)) = RECON_OK"
  by (simp add: build_reconciliation_def Let_def)

lemma simulate_intents_spec:
  fixes tv :: dec
  assumes "build_simulated_state (apply_execution_intents portfolio is) md shelf (data_quality diag)
       (Some (after_simulation_options options)) = (state, dq)"
  defines "r \<equiv> simulate_intents portfolio md shelf is options tv diag"
  defines "rules \<equiv> RuleEngine_evaluate state options (diag\<lparr>data_quality := dq\<rparr>)"
  shows "ex_state r = AfterSimulated state" and "ex_intents r = is" and "data_quality (ex_diag r) = dq"
    and "ex_status r \<noteq> BLOCKED \<Longrightarrow>
           hard_rules_hold state options (diag\<lparr>data_quality := dq\<rparr>)
           \<and> ex_rules r = rules \<and> ex_status r = derive_status_from_rules rules
           \<and> ex_recon r = Some (fst (build_reconciliation tv (amount (ss_total_value state)) tv
                (pf_base_currency portfolio) False))
           \<and> recon_status (the (ex_recon r)) = RECON_OK \<and> ex_diag r = diag\<lparr>data_quality := dq\<rparr>"
    and "ex_status r = BLOCKED \<longleftrightarrow> (\<exists>rule \<in> set (ex_rules r). hard_fail rule)"
proof -
  let ?rec = "build_reconciliation tv (amount (ss_total_value state)) tv (pf_base_currency portfolio) False"
  obtain rec diff tol where rec: "?rec = (rec, diff, tol)" by (metis prod_cases3)
  have r: "r = (case blocked_simulation_result_from_rules is (AfterSimulated state) rules (diag\<lparr>data_quality := dq\<rparr>) of
           Some blocked \<Rightarrow> blocked
         | None \<Rightarrow> simulation_result_with_reconciliation is state rules rec diff tol (diag\<lparr>data_quality := dq\<rparr>))"
    using assms(1) rec by (simp add: r_def simulate_intents_def Let_def rules_def split: option.split)
  have hard: "(\<forall>x \<in> set rules. \<not> hard_fail x) \<longleftrightarrow> hard_rules_hold state options (diag\<lparr>data_quality := dq\<rparr>)"
    using evaluate_hard_fail_iff [of state options "diag\<lparr>data_quality := dq\<rparr>"] by (auto simp: rules_def)
  have ok: "recon_status rec \<noteq> MISMATCH \<Longrightarrow> recon_status rec = RECON_OK"
    using recon_status_OK [of tv _ tv "pf_base_currency portfolio" False] rec by (metis fst_conv)
  have fail: "hard_fail (reconciliation_rule a b)" for a b
    by (simp add: hard_fail_def reconciliation_rule_def)
  show "ex_state r = AfterSimulated state" and "ex_intents r = is" and "data_quality (ex_diag r) = dq"
    by (auto simp: r blocked_simulation_result_from_rules_def simulation_result_with_reconciliation_def
        record_simulation_safety_warnings_def Let_def)
  show "ex_status r \<noteq> BLOCKED \<Longrightarrow>
           hard_rules_hold state options (diag\<lparr>data_quality := dq\<rparr>)
           \<and> ex_rules r = rules \<and> ex_status r = derive_status_from_rules rules
           \<and> ex_recon r = Some (fst ?rec) \<and> recon_status (the (ex_recon r)) = RECON_OK
           \<and> ex_diag r = diag\<lparr>data_quality := dq\<rparr>"
    using hard ok rec
    by (auto simp: r blocked_simulation_result_from_rules_def simulation_result_with_reconciliation_def
        hard_rule_blockers_empty Let_def split: if_splits)
  show "ex_status r = BLOCKED \<longleftrightarrow> (\<exists>rule \<in> set (ex_rules r). hard_fail rule)"
    using fail derive_status_cases(1) [of rules]
    by (auto simp: r blocked_simulation_result_from_rules_def simulation_result_with_reconciliation_def
        hard_rule_blockers_empty Let_def split: if_splits)
qed

lemma check_blocking_dq_iff:
  "check_blocking_dq dq options \<longleftrightarrow>
     dq_bucket dq ''shelf_missing'' \<noteq> []
     \<or> (dq_bucket dq ''price_missing'' \<noteq> [] \<and> block_on_missing_prices options)
     \<or> (dq_bucket dq ''fx_missing'' \<noteq> [] \<and> block_on_missing_fx options)
     \<or> dq_bucket dq ''minimum_trade_threshold_fx_unavailable'' \<noteq> []
     \<or> (dq_bucket dq ''tax_lot_evidence_incomplete'' \<noteq> [] \<and> enable_tax_awareness options)"
  by (auto simp: check_blocking_dq_def blocking_data_quality_rules_def data_quality_rule_blocks_def)



subsection \<open>The three outcomes of the execution stage\<close>

text \<open>The intents a run executes: FX added, dependencies linked, sorted.\<close>

definition execution_plan ::
  "PortfolioSnapshot \<Rightarrow> MarketDataSnapshot \<Rightarrow> EngineOptions \<Rightarrow> OrderIntent list \<Rightarrow> DiagnosticsData
     \<Rightarrow> OrderIntent list" where
  "execution_plan portfolio md options intents diag =
     (case append_projected_cash_fx_intents (project_cash_after_security_trades portfolio intents)
             (pf_base_currency portfolio) md options (intents, [], diag) of
        (_, intents1, fx_map, _) \<Rightarrow>
          sort_execution_intents
            (link_execution_dependencies intents1 fx_map (link_buy_to_same_currency_sell_dependency options)))"

lemma execution_cases:
  assumes "generate_fx_and_simulate portfolio md shelf is options tv diag = Inr ex"
  obtains (missing_fx) c b where "ex_state ex = AfterPortfolio portfolio" "ex_status ex = BLOCKED"
      "block_on_missing_fx options"
      "(c, b) \<in> set (project_cash_after_security_trades portfolio is)"
      "c \<noteq> pf_base_currency portfolio" "get_fx_rate md c (pf_base_currency portfolio) = None"
  | (breach) state where "ex_intents ex = execution_plan portfolio md options is diag"
      "enable_settlement_awareness options"
      "ex_state ex = AfterSimulated state" "ex_status ex = BLOCKED" "\<exists>r \<in> set (ex_rules ex). hard_fail r"
  | (simulated) diag' where
      "ex = simulate_intents portfolio md shelf (execution_plan portfolio md options is diag) options tv diag'"
      "enable_settlement_awareness options \<longrightarrow> cash_ladder_breaches diag' = []
         \<and> (\<exists>d. build_settlement_ladder portfolio shelf (execution_plan portfolio md options is diag) options d
                 = Inr diag')"
proof -
  obtain bl is1 m d1 where loop: "append_projected_cash_fx_intents
      (project_cash_after_security_trades portfolio is) (pf_base_currency portfolio) md options (is, [], diag)
        = (bl, is1, m, d1)" by (metis prod_cases4)
  let ?S = "sort_execution_intents
            (link_execution_dependencies is1 m (link_buy_to_same_currency_sell_dependency options))"
  have plan: "execution_plan portfolio md options is diag = ?S" by (simp add: execution_plan_def loop)
  show thesis
  proof (cases bl)
    case True
    with fx_loop_spec [OF loop] obtain c b where "block_on_missing_fx options"
      "(c, b) \<in> set (project_cash_after_security_trades portfolio is)"
      "c \<noteq> pf_base_currency portfolio" "get_fx_rate md c (pf_base_currency portfolio) = None" by blast
    with assms loop True show thesis
      by (intro missing_fx [of c b]) (auto simp: generate_fx_and_simulate_def Let_def)
  next
    case False
    then have run: "generate_fx_and_simulate portfolio md shelf is options tv diag =
       (if enable_settlement_awareness options
              then bind_result (build_settlement_ladder portfolio shelf ?S options d1)
                     (\<lambda>diag2.
                        if cash_ladder_breaches diag2 \<noteq> []
                        then settlement_blocked_simulation_result portfolio md shelf ?S options diag2
                        else Inr (simulate_intents portfolio md shelf ?S options tv diag2))
              else Inr (simulate_intents portfolio md shelf ?S options tv d1))"
      by (simp add: generate_fx_and_simulate_def Let_def loop)
    show thesis
    proof (cases "enable_settlement_awareness options")
      case False
      with assms run plan show thesis by (intro simulated [of d1]) auto
    next
      case True
      obtain d2 where d2: "build_settlement_ladder portfolio shelf ?S options d1 = Inr d2"
        using build_settlement_ladder_spec by blast
      show thesis
      proof (cases "cash_ladder_breaches d2")
        case Nil
        with assms run plan True d2 show thesis by (intro simulated [of d2]) auto
      next
        case (Cons b bs)
        obtain st dq where st: "build_simulated_state portfolio md shelf
            (data_quality (add_warning (clb_reason_code b) d2)) (Some options) = (st, dq)" by fastforce
        show thesis
          by (rule breach [of st])
            (use assms run plan True d2 Cons st in
              \<open>auto simp: settlement_blocked_simulation_result_def Let_def hard_fail_def\<close>)
      qed
    qed
  qed
qed

lemma generate_fx_and_simulate_total:
  "\<exists>ex. generate_fx_and_simulate portfolio md shelf is options tv diag = Inr ex"
proof -
  have "\<exists>r. bind_result (build_settlement_ladder portfolio shelf js options d)
                     (\<lambda>diag2.
                        if cash_ladder_breaches diag2 \<noteq> []
                        then settlement_blocked_simulation_result portfolio md shelf js options diag2
                        else Inr (simulate_intents portfolio md shelf js options tv diag2)) = Inr r" for js d
    using build_settlement_ladder_spec [of portfolio js shelf options d]
    by (auto simp: settlement_blocked_simulation_result_def Let_def neq_Nil_conv split: prod.splits)
  then show ?thesis by (simp add: generate_fx_and_simulate_def Let_def split: prod.splits)
qed

text \<open>The cash projection covers the cash accounts and the currencies traded, nothing else.\<close>

lemma projected_currencies:
  "set (dict_keys (project_cash_after_security_trades portfolio is))
     = cash_currency ` set (pf_cash_balances portfolio)
       \<union> {currency n |s n. SecurityTrade s \<in> set is \<and> sti_notional s = Some n}"
proof -
  let ?f = "\<lambda>i cash. case i of
               FxSpot f \<Rightarrow> cash
             | SecurityTrade s \<Rightarrow>
                 (case sti_notional s of
                    None \<Rightarrow> cash
                  | Some n \<Rightarrow>
                      dict_set (currency n)
                        (dict_get_or cash (currency n) 0
                           + (if sti_side s = SELL then amount n else - amount n)) cash)"
  have "set (dict_keys (fold ?f is d)) = set (dict_keys d)
      \<union> {currency n |s n. SecurityTrade s \<in> set is \<and> sti_notional s = Some n}" for d
  proof (induction "is" arbitrary: d)
    case (Cons i "is")
    have step: "set (dict_keys (?f i d)) = set (dict_keys d)
        \<union> {currency n |s n. i = SecurityTrade s \<and> sti_notional s = Some n}"
      by (auto simp: dict_keys_set insert_absorb simp del: set_map split: OrderIntent.splits option.splits)
    have "set (dict_keys (fold ?f (i # is) d)) = set (dict_keys (fold ?f is (?f i d)))" by simp
    also have "\<dots> = set (dict_keys (?f i d))
        \<union> {currency n |s n. SecurityTrade s \<in> set is \<and> sti_notional s = Some n}" by (rule Cons.IH)
    finally show ?case unfolding step by (auto simp del: set_map)
  qed simp
  from this [of "dict_of (map (\<lambda>c. (cash_currency c, cash_amount c)) (pf_cash_balances portfolio))"]
  show ?thesis unfolding project_cash_after_security_trades_def dict_keys_of
    by (simp add: image_image)
qed

text \<open>A dependency of an executed intent is the identifier of an intent executed before it.\<close>

lemma execution_plan_dependencies:
  assumes "\<forall>j \<in> set is. intent_dependencies j = []"
    and "k < length (execution_plan portfolio md options is diag)"
    and "d \<in> set (intent_dependencies (execution_plan portfolio md options is diag ! k))"
  shows "\<exists>j < k. intent_id (execution_plan portfolio md options is diag ! j) = d"
proof -
  obtain bl is1 m d1 where loop: "append_projected_cash_fx_intents
      (project_cash_after_security_trades portfolio is) (pf_base_currency portfolio) md options (is, [], diag)
        = (bl, is1, m, d1)" by (metis prod_cases4)
  note spec = fx_loop_spec [OF loop]
  from spec obtain fs where fs: "is1 = is @ map FxSpot fs"
    "\<forall>f \<in> set fs. \<exists>(c, b) \<in> set (project_cash_after_security_trades portfolio is).
        fx_intent_for md (pf_base_currency portfolio) options c b f" by blast
  have none: "\<forall>j \<in> set is1. intent_dependencies j = []"
    using assms(1) fs fx_intent_plain by fastforce
  have "\<forall>c d. dict_get m c = Some d \<longrightarrow> (\<exists>f. FxSpot f \<in> set is1 \<and> fsi_intent_id f = d)"
    using spec by auto
  from dependencies_precede [OF none this] assms(2,3) show ?thesis
    by (simp add: execution_plan_def loop link_execution_dependencies_def)
qed

text \<open>Linking and sorting keep the security trades, up to their dependency lists.\<close>

lemma execution_plan_trades:
  assumes "SecurityTrade s \<in> set (execution_plan portfolio md options is diag)"
  obtains s0 where "SecurityTrade s0 \<in> set is" "s\<lparr>sti_dependencies := []\<rparr> = s0\<lparr>sti_dependencies := []\<rparr>"
proof -
  obtain bl is1 m d1 where loop: "append_projected_cash_fx_intents
      (project_cash_after_security_trades portfolio is) (pf_base_currency portfolio) md options (is, [], diag)
        = (bl, is1, m, d1)" by (metis prod_cases4)
  from assms have "strip_dependencies (SecurityTrade s) \<in> set (map strip_dependencies is1)"
    unfolding execution_plan_def loop link_execution_dependencies_def sort_execution_intents_def
    by (subst link_strip [symmetric]) auto
  moreover obtain fs where "is1 = is @ map FxSpot fs" using fx_loop_spec [OF loop] by blast
  ultimately show thesis
    using that by (auto simp: strip_dependencies_def split: OrderIntent.splits)
qed


subsection \<open>Executing a list of intents\<close>

text \<open>
  The interface of a ledger to the simulation: what an operation moves, and that it moves
  nothing else. The simulation folds operations over it.
\<close>

locale ledger =
  fixes exec :: "'i \<Rightarrow> 'p \<Rightarrow> 'p"
    and cash :: "'p \<Rightarrow> string \<Rightarrow> dec"
    and quantity :: "'p \<Rightarrow> string \<Rightarrow> dec"
    and moves_cash :: "'i \<Rightarrow> string \<Rightarrow> bool"
    and moves_quantity :: "'i \<Rightarrow> string \<Rightarrow> bool"
  assumes cash_frame: "\<not> moves_cash i c \<Longrightarrow> cash (exec i p) c = cash p c"
    and quantity_frame: "\<not> moves_quantity i k \<Longrightarrow> quantity (exec i p) k = quantity p k"
begin

lemma cash_fold: "\<forall>i \<in> set is. \<not> moves_cash i c \<Longrightarrow> cash (fold exec is p) c = cash p c"
  by (induction "is" arbitrary: p) (auto simp: cash_frame)

lemma quantity_fold: "\<forall>i \<in> set is. \<not> moves_quantity i k \<Longrightarrow> quantity (fold exec is p) k = quantity p k"
  by (induction "is" arbitrary: p) (auto simp: quantity_frame)

text \<open>Only the first operation on an entry sees the initial value of it.\<close>

lemma quantity_single:
  assumes "is = xs @ i # ys" and "\<forall>j \<in> set xs \<union> set ys. \<not> moves_quantity j k"
  shows "\<exists>q. quantity q k = quantity p k \<and> quantity (fold exec is p) k = quantity (exec i q) k"
  using assms quantity_fold [of xs k p] quantity_fold [of ys k "exec i (fold exec xs p)"]
  by (intro exI [of _ "fold exec xs p"]) auto

end

definition intent_moves_cash :: "OrderIntent \<Rightarrow> string \<Rightarrow> bool" where
  "intent_moves_cash i c \<longleftrightarrow>
     (case i of
        SecurityTrade s \<Rightarrow> (\<exists>n. sti_notional s = Some n \<and> currency n = c)
      | FxSpot f \<Rightarrow> fsi_sell_currency f = c \<or> fsi_buy_currency f = c)"

definition intent_moves_quantity :: "OrderIntent \<Rightarrow> string \<Rightarrow> bool" where
  "intent_moves_quantity i k \<longleftrightarrow>
     (case i of SecurityTrade s \<Rightarrow> sti_instrument_id s = k | FxSpot f \<Rightarrow> False)"

interpretation portfolio_ledger:
  ledger apply_intent held_cash held_quantity intent_moves_cash intent_moves_quantity
proof unfold_locales
  fix i c p
  assume "\<not> intent_moves_cash i c"
  then show "held_cash (apply_intent i p) c = held_cash p c"
    using apply_security_trade_held(2) find_ensured(1)
    by (cases i) (auto simp: apply_intent_def intent_moves_cash_def apply_fx_spot_to_portfolio_def Let_def
        apply_security_trade_to_portfolio_def held_update_cash split: option.splits)
next
  fix i k p
  assume "\<not> intent_moves_quantity i k"
  then show "held_quantity (apply_intent i p) k = held_quantity p k"
    using apply_security_trade_held(1)
    by (cases i) (auto simp: apply_intent_def intent_moves_quantity_def apply_fx_spot_to_portfolio_def Let_def
        apply_security_trade_to_portfolio_def split: option.splits)
qed


section \<open>Properties\<close>

text \<open>
  C7. The settlement ladder is total, and exact. Building it never raises: no currency is missing and
  no settlement day lies beyond the ladder. For each currency with a flow it has one point per day,
  the running sum of that currency's flows, and it reports a breach on exactly the days on which
  that sum is below the allowed overdraft.
\<close>

theorem settlement_ladder_exact:
  fixes shelf "is" options
  defines "days \<equiv> settlement_days_by_instrument shelf"
  defines "h \<equiv> settlement_horizon days is options"
  shows "\<exists>flows diag'. settlement_cash_flows portfolio is days h options = Inr flows
    \<and> build_settlement_ladder portfolio shelf is options diag = Inr diag'
    \<and> cash_ladder diag' = cash_ladder diag
        @ concat (map (\<lambda>c. map (\<lambda>d. \<lparr> clp_date_offset = d, clp_currency = c,
                                clp_projected_balance = ladder_balance (the (dict_get flows c)) d \<rparr>) [0..<h + 1])
            (sort (dict_keys flows)))
    \<and> cash_ladder_breaches diag' = cash_ladder_breaches diag
        @ concat (map (\<lambda>c. let od = dict_get_or (max_overdraft_by_ccy options) c 0 in
            map (\<lambda>d. \<lparr> clb_date_offset = d, clb_currency = c,
                        clb_projected_balance = ladder_balance (the (dict_get flows c)) d, clb_allowed_floor = - od,
                        clb_reason_code = ''OVERDRAFT_ON_T_PLUS_'' @ nat_str d \<rparr>)
              (filter (\<lambda>d. ladder_balance (the (dict_get flows c)) d < - od) [0..<h + 1]))
            (sort (dict_keys flows)))"
  using build_settlement_ladder_spec [of portfolio "is" shelf options diag]
  unfolding days_def h_def currency_projection_def Let_def by auto

text \<open>
  C8. Funding. When every currency has a rate, the FX stage adds a trade for each foreign currency
  whose projected balance is not zero, and only such trades: a deficit is covered by buying against the
  base currency, at least the missing amount when the buffer is not negative (the option has no lower
  bound), and a surplus is sold completely.
\<close>

theorem fx_covers_deficits:
  assumes "append_projected_cash_fx_intents ps base md options (is, [], d) = (False, is', m', d')"
    and "\<forall>(c, b) \<in> set ps. get_fx_rate md c base \<noteq> None"
  shows "(\<exists>fs. is' = is @ map FxSpot fs \<and> (\<forall>f \<in> set fs. \<exists>(c, b) \<in> set ps. c \<noteq> base \<and> b \<noteq> 0
            \<and> fx_intent_for md base options c b f))
    \<and> (\<forall>(c, b) \<in> set ps. c \<noteq> base \<longrightarrow> b < 0 \<longrightarrow>
          (\<exists>f. FxSpot f \<in> set is' \<and> fsi_buy_currency f = c \<and> fsi_sell_currency f = base
               \<and> fsi_buy_amount f = \<bar>b\<bar> * (1 + fx_buffer_pct options)
               \<and> (0 \<le> fx_buffer_pct options \<longrightarrow> \<bar>b\<bar> \<le> fsi_buy_amount f)))
    \<and> (\<forall>(c, b) \<in> set ps. c \<noteq> base \<longrightarrow> 0 < b \<longrightarrow>
          (\<exists>f. FxSpot f \<in> set is' \<and> fsi_sell_currency f = c \<and> fsi_buy_currency f = base
               \<and> fsi_sell_amount_estimated f = b))"
proof -
  note spec = fx_loop_spec [OF assms(1)]
  have some: "\<exists>f. FxSpot f \<in> set is' \<and> fx_intent_for md base options c b f"
    if "(c, b) \<in> set ps" "c \<noteq> base" "b \<noteq> 0" for c b
    using spec assms(2) that by blast
  have nonzero: "c \<noteq> base \<and> b \<noteq> 0" if "fx_intent_for md base options c b f" for c b f
    using that by (auto simp: fx_intent_for_def fx_intent_for_projected_cash_balance_def)
  have 1: "\<exists>fs. is' = is @ map FxSpot fs \<and> (\<forall>f \<in> set fs. \<exists>(c, b) \<in> set ps. c \<noteq> base \<and> b \<noteq> 0
            \<and> fx_intent_for md base options c b f)"
  proof -
    from spec obtain fs where fs: "is' = is @ map FxSpot fs"
      "\<forall>f \<in> set fs. \<exists>(c, b) \<in> set ps. fx_intent_for md base options c b f" by blast
    with nonzero show ?thesis by (intro exI [of _ fs]) fastforce
  qed
  have 2: "\<exists>f. FxSpot f \<in> set is' \<and> fsi_buy_currency f = c \<and> fsi_sell_currency f = base
         \<and> fsi_buy_amount f = \<bar>b\<bar> * (1 + fx_buffer_pct options)
         \<and> (0 \<le> fx_buffer_pct options \<longrightarrow> \<bar>b\<bar> \<le> fsi_buy_amount f)"
    if "(c, b) \<in> set ps" "c \<noteq> base" "b < 0" for c b
  proof -
    from some [OF that(1,2)] that(3) obtain f where "FxSpot f \<in> set is'" "fx_intent_for md base options c b f" by auto
    with fx_intent_amounts(1) [OF this(2) that(3)] buffered_amount [of options b] show ?thesis by auto
  qed
  have 3: "\<exists>f. FxSpot f \<in> set is' \<and> fsi_sell_currency f = c \<and> fsi_buy_currency f = base
               \<and> fsi_sell_amount_estimated f = b"
    if "(c, b) \<in> set ps" "c \<noteq> base" "0 < b" for c b
    using some [OF that(1,2)] fx_intent_amounts(2) [OF _ that(3)] that(3) by blast
  from 1 2 3 show ?thesis by auto
qed

definition euro_market :: MarketDataSnapshot where
  "euro_market = sample_market\<lparr>md_fx_rates := [\<lparr> fxr_pair = ''EUR/USD'', fxr_rate = Dec (5 / 4) \<rparr>]\<rparr>"

theorem fx_covers_deficits_witness:
  "let r = append_projected_cash_fx_intents [(''USD'', Dec 1000), (''EUR'', Dec (- 200))] ''USD'' euro_market
             EngineOptions_default ([], [], make_diagnostics_data)
   in \<exists>f. FxSpot f \<in> set (fst (snd r)) \<and> fsi_buy_currency f = ''EUR'' \<and> \<bar>Dec (- 200)\<bar> \<le> fsi_buy_amount f"
proof -
  let ?r = "append_projected_cash_fx_intents [(''USD'', Dec 1000), (''EUR'', Dec (- 200))] ''USD'' euro_market
             EngineOptions_default ([], [], make_diagnostics_data)"
  have "\<not> fst ?r" by code_simp
  then obtain is' m' d' where r: "?r = (False, is', m', d')" by (cases ?r) auto
  have rates: "\<forall>(c, b) \<in> set [(''USD'', Dec 1000), (''EUR'', Dec (- 200))]. get_fx_rate euro_market c ''USD'' \<noteq> None"
    by code_simp
  have "0 \<le> fx_buffer_pct EngineOptions_default" by code_simp
  with fx_covers_deficits [OF r rates] r show ?thesis by (auto simp: dec_order_defs)
qed

end
