(* ===== verification/Workflow_Gates.thy ===== *)
theory Workflow_Gates
  imports Compliance
begin

text \<open>
  The workflow gate policy (\<open>src/src/core/common/workflow_gates.py\<close>): the reasons collected
  from rules, suitability issues and data quality, the route chosen by a precedence table and
  the deterministic order of the reasons.
\<close>


section \<open>Reasons\<close>

definition dq_reason :: "string \<Rightarrow> string list \<Rightarrow> GateReason" where
  "dq_reason code entries =
     \<lparr> gr_reason_code = code, gr_severity = HIGH, gr_source = DATA_QUALITY,
       gr_details = [(''count'', nat_str (length entries))] \<rparr>"

definition dq_reasons :: "DiagnosticsData option \<Rightarrow> GateReason list" where
  "dq_reasons diag =
     (let dq = (case diag of Some d \<Rightarrow> data_quality d
                | None \<Rightarrow> [(''price_missing'', []), (''fx_missing'', [])])
      in (if dq_bucket dq ''price_missing'' \<noteq> []
          then [dq_reason ''DATA_QUALITY_MISSING_PRICE'' (dq_bucket dq ''price_missing'')] else [])
         @ (if dq_bucket dq ''fx_missing'' \<noteq> []
            then [dq_reason ''DATA_QUALITY_MISSING_FX'' (dq_bucket dq ''fx_missing'')] else [])
         @ (if dq_bucket dq ''minimum_trade_threshold_fx_unavailable'' \<noteq> []
            then [dq_reason ''DATA_QUALITY_MIN_TRADE_THRESHOLD_FX_UNAVAILABLE''
                    (dq_bucket dq ''minimum_trade_threshold_fx_unavailable'')] else []))"

definition rule_reason :: "string \<Rightarrow> ReviewSeverity \<Rightarrow> RuleResult \<Rightarrow> GateReason" where
  "rule_reason prefix severity rule =
     \<lparr> gr_reason_code = prefix @ rule_id rule, gr_severity = severity, gr_source = RULE_ENGINE,
       gr_details = [(''reason_code'', rule_reason_code rule)] \<rparr>"

definition rule_reasons :: "RuleResult list \<Rightarrow> GateReason list \<times> nat \<times> nat" where
  "rule_reasons rules =
     fold (\<lambda>rule (reasons, hard, soft).
             if rule_status rule \<noteq> FAIL then (reasons, hard, soft)
             else if rule_severity rule = HARD
                  then (reasons @ [rule_reason ''HARD_RULE_FAIL:'' HIGH rule], hard + 1, soft)
             else if rule_severity rule = SOFT
                  then (reasons @ [rule_reason ''SOFT_RULE_FAIL:'' MEDIUM rule], hard, soft + 1)
             else (reasons, hard, soft))
       rules ([], 0, 0)"

definition suitability_issue_reason :: "SuitabilityIssue \<Rightarrow> (GateReason \<times> nat \<times> nat) option" where
  "suitability_issue_reason issue =
     (if issue_status_change issue \<noteq> NEW then None
      else case issue_severity issue of
        HIGH \<Rightarrow> Some (\<lparr> gr_reason_code = ''NEW_HIGH_SUITABILITY_ISSUE'', gr_severity = HIGH,
                       gr_source = SUITABILITY,
                       gr_details = [(''issue_id'', issue_id issue), (''issue_key'', issue_key issue)] \<rparr>, 1, 0)
      | MEDIUM \<Rightarrow> Some (\<lparr> gr_reason_code = ''NEW_MEDIUM_SUITABILITY_ISSUE'', gr_severity = MEDIUM,
                       gr_source = SUITABILITY,
                       gr_details = [(''issue_id'', issue_id issue), (''issue_key'', issue_key issue)] \<rparr>, 0, 1)
      | LOW \<Rightarrow> None)"

definition suitability_reasons :: "SuitabilityResult option \<Rightarrow> GateReason list \<times> nat \<times> nat" where
  "suitability_reasons suitability =
     (case suitability of
        None \<Rightarrow> ([], 0, 0)
      | Some s \<Rightarrow>
          fold (\<lambda>issue (reasons, new_high, new_medium).
                  case suitability_issue_reason issue of
                    None \<Rightarrow> (reasons, new_high, new_medium)
                  | Some (reason, h, m) \<Rightarrow> (reasons @ [reason], new_high + h, new_medium + m))
            (suitability_issues s) ([], 0, 0))"


section \<open>The route table\<close>

record GateRouteContext =
  ctx_status :: RunStatus
  ctx_hard_fail_count :: nat
  ctx_soft_fail_count :: nat
  ctx_new_high :: nat
  ctx_new_medium :: nat
  ctx_options :: EngineOptions
  ctx_requires_mandate_approval :: bool

definition GATE_ROUTE_PRECEDENCE :: "(GateName \<times> NextStep \<times> (GateRouteContext \<Rightarrow> bool)) list" where
  "GATE_ROUTE_PRECEDENCE =
     [ (GATE_BLOCKED, FIX_INPUT, \<lambda>c. ctx_status c = BLOCKED \<or> ctx_hard_fail_count c > 0),
       (COMPLIANCE_REVIEW_REQUIRED, COMPLIANCE_REVIEW, \<lambda>c. ctx_new_high c > 0),
       (RISK_REVIEW_REQUIRED, RISK_REVIEW, \<lambda>c. ctx_soft_fail_count c > 0 \<or> ctx_new_medium c > 0),
       (EXECUTION_READY, EXECUTE, \<lambda>c. mandate_approval_already_obtained (ctx_options c)),
       (MANDATE_APPROVAL_REQUIRED, REQUEST_MANDATE_APPROVAL, \<lambda>c. ctx_requires_mandate_approval c),
       (EXECUTION_READY, EXECUTE, \<lambda>c. True) ]"

text \<open>The loop over the table; the assertion after it is the \<open>Inl\<close> of an empty search.\<close>

definition select_gate_route :: "GateRouteContext \<Rightarrow> (GateName \<times> NextStep) result" where
  "select_gate_route context =
     (case List.find (\<lambda>(_, _, applies). applies context) GATE_ROUTE_PRECEDENCE of
        Some (g, s, _) \<Rightarrow> Inr (g, s)
      | None \<Rightarrow> Inl (ValueError ''workflow gate route precedence did not define a default route''))"

fun severity_order :: "ReviewSeverity \<Rightarrow> nat" where
  "severity_order HIGH = 0"
| "severity_order MEDIUM = 1"
| "severity_order LOW = 2"

fun reason_source_str :: "ReasonSource \<Rightarrow> string" where
  "reason_source_str RULE_ENGINE = ''RULE_ENGINE''"
| "reason_source_str SUITABILITY = ''SUITABILITY''"
| "reason_source_str DATA_QUALITY = ''DATA_QUALITY''"
| "reason_source_str CLIENT_POLICY = ''CLIENT_POLICY''"

definition gate_reason_key :: "GateReason \<Rightarrow> nat \<times> string \<times> string \<times> string" where
  "gate_reason_key r =
     (severity_order (gr_severity r), reason_source_str (gr_source r), gr_reason_code r,
      dict_get_or (gr_details r) ''issue_key'' (dict_get_or (gr_details r) ''reason_code'' []))"

definition sorted_gate_reasons :: "GateReason list \<Rightarrow> GateReason list" where
  "sorted_gate_reasons reasons = sort_key gate_reason_key reasons"

definition evaluate_gate_decision ::
  "RunStatus \<Rightarrow> RuleResult list \<Rightarrow> SuitabilityResult option \<Rightarrow> DiagnosticsData option
     \<Rightarrow> EngineOptions \<Rightarrow> bool \<Rightarrow> GateDecision result" where
  "evaluate_gate_decision status rules suitability diag options default_requires_mandate_approval =
     (let (reasons, hard, soft) = rule_reasons rules;
          (suit, new_high, new_medium) = suitability_reasons suitability;
          all_reasons = reasons @ suit @ dq_reasons diag;
          requires = (workflow_requires_mandate_approval options \<or> default_requires_mandate_approval)
      in bind_result
           (select_gate_route
              \<lparr> ctx_status = status, ctx_hard_fail_count = hard, ctx_soft_fail_count = soft,
                ctx_new_high = new_high, ctx_new_medium = new_medium, ctx_options = options,
                ctx_requires_mandate_approval = requires \<rparr>)
           (\<lambda>(g, next_step).
              Inr \<lparr> gate = g, recommended_next_step = next_step,
                    gate_reasons = sorted_gate_reasons all_reasons,
                    gate_summary = \<lparr> hard_fail_count = hard, soft_fail_count = soft,
                                     new_high_suitability_count = new_high,
                                     new_medium_suitability_count = new_medium \<rparr> \<rparr>))"


section \<open>Lemmas\<close>

lemma rule_reasons_fold:
  "rule_reasons rules =
     (map (\<lambda>r. if hard_fail r then rule_reason ''HARD_RULE_FAIL:'' HIGH r
               else rule_reason ''SOFT_RULE_FAIL:'' MEDIUM r)
        (filter (\<lambda>r. hard_fail r \<or> soft_fail r) rules),
      length (filter hard_fail rules), length (filter soft_fail rules))"
  unfolding rule_reasons_def
  by (induction rules rule: rev_induct) (auto simp: hard_fail_def soft_fail_def)

text \<open>The route as one nested conditional, and that the assertion is unreachable.\<close>

lemma select_gate_route_eq:
  "select_gate_route c = Inr
     (if ctx_status c = BLOCKED \<or> ctx_hard_fail_count c > 0 then (GATE_BLOCKED, FIX_INPUT)
      else if ctx_new_high c > 0 then (COMPLIANCE_REVIEW_REQUIRED, COMPLIANCE_REVIEW)
      else if ctx_soft_fail_count c > 0 \<or> ctx_new_medium c > 0 then (RISK_REVIEW_REQUIRED, RISK_REVIEW)
      else if mandate_approval_already_obtained (ctx_options c) then (EXECUTION_READY, EXECUTE)
      else if ctx_requires_mandate_approval c then (MANDATE_APPROVAL_REQUIRED, REQUEST_MANDATE_APPROVAL)
      else (EXECUTION_READY, EXECUTE))"
  by (simp add: select_gate_route_def GATE_ROUTE_PRECEDENCE_def)

lemma filter_length_pos: "length (filter P xs) > 0 \<longleftrightarrow> (\<exists>x \<in> set xs. P x)"
  by (induction xs) auto

lemma evaluate_gate_decision_total:
  "\<exists>g. evaluate_gate_decision status rules suit diag options dflt = Inr g"
  by (simp add: evaluate_gate_decision_def Let_def select_gate_route_eq rule_reasons_fold
      split: prod.splits)

text \<open>The gate of a run without suitability input, as the engine calls it.\<close>

lemma evaluate_gate_decision_engine:
  assumes "evaluate_gate_decision status rules None diag options False = Inr g"
  shows "gate g = GATE_BLOCKED \<longleftrightarrow> status = BLOCKED \<or> (\<exists>r \<in> set rules. hard_fail r)"
    and "gate g = RISK_REVIEW_REQUIRED
         \<longleftrightarrow> status \<noteq> BLOCKED \<and> (\<forall>r \<in> set rules. \<not> hard_fail r) \<and> (\<exists>r \<in> set rules. soft_fail r)"
    and "gate g = EXECUTION_READY
         \<longleftrightarrow> status \<noteq> BLOCKED \<and> (\<forall>r \<in> set rules. \<not> hard_fail r \<and> \<not> soft_fail r)
             \<and> (workflow_requires_mandate_approval options \<longrightarrow> mandate_approval_already_obtained options)"
  using assms
  by (auto simp: evaluate_gate_decision_def Let_def select_gate_route_eq rule_reasons_fold
      suitability_reasons_def filter_empty_conv split: if_splits)

lemma evaluate_gate_reasons:
  assumes "evaluate_gate_decision status rules suit diag options dflt = Inr g"
  shows "sorted (map gate_reason_key (gate_reasons g))"
    and "mset (gate_reasons g)
         = mset (fst (rule_reasons rules) @ fst (suitability_reasons suit) @ dq_reasons diag)"
  using assms
  by (auto simp: evaluate_gate_decision_def Let_def bind_result_eq_Inr sorted_gate_reasons_def
      sorted_sort_key_map split: prod.splits)


section \<open>Properties\<close>

text \<open>
  The gate of a run. The precedence table always selects a route; a blocked status or a failed
  hard rule blocks; a new high suitability issue asks for compliance review, a failed soft rule or
  a new medium issue for risk review; only then can a mandate approval be asked for, and not when
  it was already obtained.
\<close>

theorem gate_routing:
  "\<exists>g. evaluate_gate_decision status rules suit diag options dflt = Inr g
     \<and> (let blocked = (status = BLOCKED \<or> (\<exists>r \<in> set rules. hard_fail r));
            high = fst (snd (suitability_reasons suit)) > 0;
            review = ((\<exists>r \<in> set rules. soft_fail r) \<or> snd (snd (suitability_reasons suit)) > 0);
            approval = ((workflow_requires_mandate_approval options \<or> dflt)
                        \<and> \<not> mandate_approval_already_obtained options)
        in gate g = (if blocked then GATE_BLOCKED
                     else if high then COMPLIANCE_REVIEW_REQUIRED
                     else if review then RISK_REVIEW_REQUIRED
                     else if approval then MANDATE_APPROVAL_REQUIRED
                     else EXECUTION_READY)
           \<and> (gate g = EXECUTION_READY \<longleftrightarrow> recommended_next_step g = EXECUTE))"
proof -
  obtain reasons h m where suit: "suitability_reasons suit = (reasons, h, m)" by (metis prod_cases3)
  have soft: "0 < length (filter soft_fail rules) \<longleftrightarrow> (\<exists>r \<in> set rules. soft_fail r)"
    and hard: "0 < length (filter hard_fail rules) \<longleftrightarrow> (\<exists>r \<in> set rules. hard_fail r)"
    by (simp_all only: filter_length_pos)
  show ?thesis
    by (simp only: evaluate_gate_decision_def Let_def select_gate_route_eq rule_reasons_fold suit prod.case
        bind_result_simps soft hard fst_conv snd_conv GateRouteContext.simps) auto
qed

text \<open>
  The reasons of a gate decision are complete and in a fixed order: every failed hard or soft
  rule, every new high or medium issue and every data-quality gap contributes exactly one reason,
  sorted by severity, source, code and key.
\<close>

theorem gate_reasons_complete:
  assumes "evaluate_gate_decision status rules suit diag options dflt = Inr g"
  shows "sorted (map gate_reason_key (gate_reasons g))
    \<and> mset (gate_reasons g)
        = mset (map (\<lambda>r. if hard_fail r then rule_reason ''HARD_RULE_FAIL:'' HIGH r
                         else rule_reason ''SOFT_RULE_FAIL:'' MEDIUM r)
                  (filter (\<lambda>r. hard_fail r \<or> soft_fail r) rules))
          + mset (fst (suitability_reasons suit)) + mset (dq_reasons diag)"
  using evaluate_gate_reasons [OF assms] by (simp add: rule_reasons_fold)

definition sample_breach :: RuleResult where
  "sample_breach =
     \<lparr> rule_id = ''CASH_BAND'', rule_severity = SOFT, rule_status = FAIL, rule_measured = 0,
       rule_threshold = [], rule_reason_code = ''THRESHOLD_BREACH'', rule_remediation_hint = None \<rparr>"

theorem gate_reasons_complete_witness:
  "\<exists>g. evaluate_gate_decision READY [sample_breach] None None EngineOptions_default False = Inr g
     \<and> gate_reasons g = [rule_reason ''SOFT_RULE_FAIL:'' MEDIUM sample_breach]"
proof -
  obtain g where g: "evaluate_gate_decision READY [sample_breach] None None EngineOptions_default False = Inr g"
    using evaluate_gate_decision_total by blast
  have "mset (gate_reasons g) = {# rule_reason ''SOFT_RULE_FAIL:'' MEDIUM sample_breach #}"
    using gate_reasons_complete [OF g]
    by (simp add: sample_breach_def hard_fail_def soft_fail_def suitability_reasons_def dq_reasons_def dq_bucket_def
        dict_get_or_def)
  with g show ?thesis by auto
qed

end
