(* ===== verification/Engine.thy ===== *)
theory Engine
  imports Targets Intents Turnover Execution Workflow_Gates
begin

text \<open>
  The orchestration of a run (\<open>src/src/core/rebalance/engine.py\<close>): valuation, universe,
  targets, intents, turnover, execution and gate, with the two early exits. One diagnostics
  object is threaded through all stages. The run identifier, random in the code, is an argument;
  the optional solver packages are the argument \<open>cp\<close>. Building the result object validates
  \<open>after_simulated\<close>, so a bare portfolio in its place is a validation error.
\<close>


section \<open>Definitions\<close>

definition engine_lineage :: "PortfolioSnapshot \<Rightarrow> string \<Rightarrow> LineageData" where
  "engine_lineage portfolio rhash =
     \<lparr> portfolio_snapshot_id = pf_portfolio_id portfolio, market_data_snapshot_id = ''md'',
       request_hash = rhash \<rparr>"

definition engine_universe :: "string \<Rightarrow> UniverseAcc \<Rightarrow> dec \<Rightarrow> UniverseData" where
  "engine_universe run_id u coverage =
     \<lparr> universe_id = ''u_'' @ run_id, eligible_for_buy = ua_buy u, eligible_for_sell = ua_sell u,
       excluded_instruments = ua_excluded u,
       universe_coverage = \<lparr> price_coverage_pct = coverage, fx_coverage_pct = coverage \<rparr> \<rparr>"

text \<open>The gate of a result: absent when workflow gates are switched off.\<close>

definition engine_gate ::
  "RunStatus \<Rightarrow> RuleResult list \<Rightarrow> DiagnosticsData \<Rightarrow> EngineOptions \<Rightarrow> GateDecision option result" where
  "engine_gate status rules diag options =
     (if enable_workflow_gates options
      then bind_result (evaluate_gate_decision status rules None (Some diag) options False)
             (\<lambda>g. Inr (Some g))
      else Inr None)"

definition make_blocked_result ::
  "string \<Rightarrow> PortfolioSnapshot \<Rightarrow> SimulatedState \<Rightarrow> UniverseAcc \<Rightarrow> TargetInstrument list \<Rightarrow> EngineOptions
     \<Rightarrow> DiagnosticsData \<Rightarrow> string \<Rightarrow> string \<Rightarrow> RebalanceResult result" where
  "make_blocked_result run_id portfolio before u trace options diag rhash corr =
     (let rules = RuleEngine_evaluate before options diag
      in bind_result (engine_gate BLOCKED rules diag options)
           (\<lambda>g. Inr \<lparr> rebalance_run_id = run_id, correlation_id = corr, run_status = BLOCKED,
                      result_before = before, result_universe = engine_universe run_id u 0,
                      result_target = \<lparr> target_id = ''t_'' @ run_id, target_rows = trace \<rparr>,
                      result_intents = [], after_simulated = before, reconciliation = None,
                      tax_impact = None, rule_results = rules,
                      explanation = \<lparr> expl_summary = ''Blocked'', expl_target_method_comparison = None \<rparr>,
                      diagnostics = diag, gate_decision = g, lineage = engine_lineage portfolio rhash \<rparr>))"

definition record_target_method_comparison_warnings ::
  "TargetMethodComparison \<Rightarrow> DiagnosticsData \<Rightarrow> DiagnosticsData" where
  "record_target_method_comparison_warnings comparison diag =
     (let diag1 = (if primary_status comparison \<noteq> alternate_status comparison
                   then add_warning ''TARGET_METHOD_STATUS_DIVERGENCE'' diag else diag)
      in if differing_instruments comparison \<noteq> []
         then add_warning ''TARGET_METHOD_WEIGHT_DIVERGENCE'' diag1 else diag1)"

definition compare_target_methods_if_requested ::
  "SolverModules \<Rightarrow> ModelPortfolio \<Rightarrow> UniverseAcc \<Rightarrow> ShelfEntry list \<Rightarrow> EngineOptions \<Rightarrow> dec \<Rightarrow> string
     \<Rightarrow> TargetInstrument list \<Rightarrow> RunStatus \<Rightarrow> DiagnosticsData
     \<Rightarrow> (TargetMethodComparison option \<times> DiagnosticsData) result" where
  "compare_target_methods_if_requested cp model u shelf options tv base trace status diag =
     (if \<not> compare_target_methods options then Inr (None, diag)
      else bind_result
             (compare_target_generation_methods cp model (ua_eligible u) (ua_buy u) (ua_excess u) shelf
                options tv base trace status)
             (\<lambda>c. Inr (Some c, record_target_method_comparison_warnings c diag)))"

definition resolve_final_gate_status :: "RunStatus \<Rightarrow> RunStatus \<Rightarrow> RunStatus" where
  "resolve_final_gate_status target_status execution_status =
     (if target_status = PENDING_REVIEW \<and> execution_status = READY then PENDING_REVIEW
      else execution_status)"

text \<open>The end of a run that was not blocked early.\<close>

definition finish_run ::
  "string \<Rightarrow> PortfolioSnapshot \<Rightarrow> SimulatedState \<Rightarrow> UniverseAcc \<Rightarrow> TargetInstrument list \<Rightarrow> RunStatus
     \<Rightarrow> TargetMethodComparison option \<Rightarrow> TaxImpact option \<Rightarrow> EngineOptions \<Rightarrow> ExecutionResult
     \<Rightarrow> string \<Rightarrow> string \<Rightarrow> RebalanceResult result" where
  "finish_run run_id portfolio before u trace target_status comparison tax options ex rhash corr =
     (let status = resolve_final_gate_status target_status (ex_status ex)
      in bind_result (engine_gate status (ex_rules ex) (ex_diag ex) options)
           (\<lambda>g. case ex_state ex of
                  AfterPortfolio _ \<Rightarrow> Inl (ValidationError ''after_simulated'')
                | AfterSimulated after \<Rightarrow>
                    Inr \<lparr> rebalance_run_id = run_id, correlation_id = corr, run_status = status,
                          result_before = before, result_universe = engine_universe run_id u 1,
                          result_target = \<lparr> target_id = ''t_'' @ run_id, target_rows = trace \<rparr>,
                          result_intents = ex_intents ex, after_simulated = after,
                          reconciliation = ex_recon ex, tax_impact = tax, rule_results = ex_rules ex,
                          explanation = \<lparr> expl_summary = run_status_str (ex_status ex),
                                          expl_target_method_comparison = Some comparison \<rparr>,
                          diagnostics = ex_diag ex, gate_decision = g,
                          lineage = engine_lineage portfolio rhash \<rparr>))"

definition run_simulation ::
  "SolverModules \<Rightarrow> string \<Rightarrow> PortfolioSnapshot \<Rightarrow> MarketDataSnapshot \<Rightarrow> ModelPortfolio
     \<Rightarrow> ShelfEntry list \<Rightarrow> EngineOptions \<Rightarrow> string \<Rightarrow> string \<Rightarrow> RebalanceResult result" where
  "run_simulation cp run_id portfolio md model shelf options rhash corr =
     (let diag0 = make_diagnostics_data;
          (before, dq1) = build_simulated_state portfolio md shelf (data_quality diag0) (Some options);
          tv = amount (ss_total_value before);
          base = pf_base_currency portfolio;
          u = build_universe model portfolio shelf options dq1 before;
          diag1 = diag0\<lparr>data_quality := ua_dq u\<rparr>
      in bind_result
           (generate_targets cp model (ua_eligible u) (ua_buy u) (ua_excess u) shelf options tv base diag1)
           (\<lambda>t. bind_result
              (compare_target_methods_if_requested cp model u shelf options tv base
                 (to_trace t) (to_status t) (to_diag t))
              (\<lambda>(comparison, diag2).
                 if check_blocking_dq (data_quality diag2) options \<or> to_status t = BLOCKED
                 then make_blocked_result run_id portfolio before u (to_trace t) options diag2 rhash corr
                 else bind_result
                   (generate_intents portfolio md (to_trace t) shelf options tv diag2)
                   (\<lambda>(security_intents, tax, diag3).
                      if check_blocking_dq (data_quality diag3) options
                      then make_blocked_result run_id portfolio before u (to_trace t) options diag3 rhash corr
                      else let (kept, diag4) = apply_turnover_limit security_intents options tv base diag3
                           in bind_result
                                (generate_fx_and_simulate portfolio md shelf (map SecurityTrade kept)
                                   options tv diag4)
                                (\<lambda>ex. finish_run run_id portfolio before u (to_trace t) (to_status t)
                                        comparison tax options ex rhash corr)))))"


section \<open>Lemmas\<close>

text \<open>The stages of a run that reached execution.\<close>

definition executed_run ::
  "SolverModules \<Rightarrow> PortfolioSnapshot \<Rightarrow> MarketDataSnapshot \<Rightarrow> ModelPortfolio \<Rightarrow> ShelfEntry list
     \<Rightarrow> EngineOptions \<Rightarrow> SimulatedState \<Rightarrow> UniverseAcc \<Rightarrow> TargetOutcome \<Rightarrow> SecurityTradeIntent list
     \<Rightarrow> TaxImpact option \<Rightarrow> SecurityTradeIntent list \<Rightarrow> DiagnosticsData \<Rightarrow> ExecutionResult \<Rightarrow> bool" where
  "executed_run cp portfolio md model shelf options before u t intents tax kept diag4 ex \<longleftrightarrow>
     (\<exists>dq1 comparison diag2 diag3.
        build_simulated_state portfolio md shelf (data_quality make_diagnostics_data) (Some options)
          = (before, dq1)
        \<and> u = build_universe model portfolio shelf options dq1 before
        \<and> generate_targets cp model (ua_eligible u) (ua_buy u) (ua_excess u) shelf options
            (amount (ss_total_value before)) (pf_base_currency portfolio)
            (make_diagnostics_data\<lparr>data_quality := ua_dq u\<rparr>) = Inr t
        \<and> compare_target_methods_if_requested cp model u shelf options (amount (ss_total_value before))
            (pf_base_currency portfolio) (to_trace t) (to_status t) (to_diag t) = Inr (comparison, diag2)
        \<and> \<not> check_blocking_dq (data_quality diag2) options \<and> to_status t \<noteq> BLOCKED
        \<and> generate_intents portfolio md (to_trace t) shelf options (amount (ss_total_value before)) diag2
            = Inr (intents, tax, diag3)
        \<and> \<not> check_blocking_dq (data_quality diag3) options
        \<and> apply_turnover_limit intents options (amount (ss_total_value before))
            (pf_base_currency portfolio) diag3 = (kept, diag4)
        \<and> generate_fx_and_simulate portfolio md shelf (map SecurityTrade kept) options
            (amount (ss_total_value before)) diag4 = Inr ex)"

lemma run_simulation_cases:
  assumes "run_simulation cp run_id portfolio md model shelf options rhash corr = Inr r"
  obtains (blocked) u trace diag where
      "make_blocked_result run_id portfolio
         (fst (build_simulated_state portfolio md shelf (data_quality make_diagnostics_data) (Some options)))
         u trace options diag rhash corr = Inr r"
  | (executed) before u t intents tax kept diag4 ex comparison where
      "executed_run cp portfolio md model shelf options before u t intents tax kept diag4 ex"
      "finish_run run_id portfolio before u (to_trace t) (to_status t) comparison tax options ex rhash corr
         = Inr r"
proof -
  obtain before dq1 where b: "build_simulated_state portfolio md shelf (data_quality make_diagnostics_data)
      (Some options) = (before, dq1)" by fastforce
  let ?u = "build_universe model portfolio shelf options dq1 before"
  from assms obtain t comparison diag2 where
    t: "generate_targets cp model (ua_eligible ?u) (ua_buy ?u) (ua_excess ?u) shelf options
            (amount (ss_total_value before)) (pf_base_currency portfolio)
            (make_diagnostics_data\<lparr>data_quality := ua_dq ?u\<rparr>) = Inr t"
    and c: "compare_target_methods_if_requested cp model ?u shelf options (amount (ss_total_value before))
            (pf_base_currency portfolio) (to_trace t) (to_status t) (to_diag t) = Inr (comparison, diag2)"
    by (auto simp: run_simulation_def Let_def b bind_result_eq_Inr)
  show thesis
  proof (cases "check_blocking_dq (data_quality diag2) options \<or> to_status t = BLOCKED")
    case True
    with assms t c show thesis
      by (intro blocked [of ?u "to_trace t" diag2]) (simp add: run_simulation_def Let_def b)
  next
    case False
    from assms t c False obtain intents tax diag3 where
      i: "generate_intents portfolio md (to_trace t) shelf options (amount (ss_total_value before)) diag2
            = Inr (intents, tax, diag3)"
      by (auto simp: run_simulation_def Let_def b bind_result_eq_Inr)
    show thesis
    proof (cases "check_blocking_dq (data_quality diag3) options")
      case True
      with assms t c False i show thesis
        by (intro blocked [of ?u "to_trace t" diag3]) (simp add: run_simulation_def Let_def b)
    next
      case nb: False
      obtain kept diag4 where k: "apply_turnover_limit intents options (amount (ss_total_value before))
            (pf_base_currency portfolio) diag3 = (kept, diag4)" by fastforce
      from assms t c False i nb k obtain ex where
        ex: "generate_fx_and_simulate portfolio md shelf (map SecurityTrade kept) options
            (amount (ss_total_value before)) diag4 = Inr ex"
        and fin: "finish_run run_id portfolio before ?u (to_trace t) (to_status t) comparison tax options ex
            rhash corr = Inr r"
        by (auto simp: run_simulation_def Let_def b bind_result_eq_Inr)
      show thesis
        by (rule executed [OF _ fin]) (use b t c False i nb k ex in \<open>unfold executed_run_def, blast\<close>)
    qed
  qed
qed

text \<open>Data quality only grows along the stages, so a passed check covers the earlier entries.\<close>

lemma executed_run_cash_rates:
  assumes "executed_run cp portfolio md model shelf options before u t intents tax kept diag4 ex"
    and "block_on_missing_fx options"
    and "c \<in> cash_currency ` set (pf_cash_balances portfolio)"
  shows "get_fx_rate md c (pf_base_currency portfolio) \<noteq> None"
proof -
  from assms(1) obtain dq1 comparison diag2 where
    b: "build_simulated_state portfolio md shelf (data_quality make_diagnostics_data) (Some options)
          = (before, dq1)"
    and u: "u = build_universe model portfolio shelf options dq1 before"
    and t: "generate_targets cp model (ua_eligible u) (ua_buy u) (ua_excess u) shelf options
            (amount (ss_total_value before)) (pf_base_currency portfolio)
            (make_diagnostics_data\<lparr>data_quality := ua_dq u\<rparr>) = Inr t"
    and c: "compare_target_methods_if_requested cp model u shelf options (amount (ss_total_value before))
            (pf_base_currency portfolio) (to_trace t) (to_status t) (to_diag t) = Inr (comparison, diag2)"
    and nb: "\<not> check_blocking_dq (data_quality diag2) options"
    unfolding executed_run_def by blast
  have "dict_ok (ua_eligible u)" using build_universe_inv u by (simp add: universe_inv_def)
  from tgt.gen_ok [OF t this] have "data_quality (to_diag t) = ua_dq u"
    by (simp add: target_outcome_ok_def)
  moreover from c have "data_quality diag2 = data_quality (to_diag t)"
    by (auto simp: compare_target_methods_if_requested_def bind_result_eq_Inr
        record_target_method_comparison_warnings_def add_warning_def Let_def split: if_splits)
  ultimately have "dq_bucket (ua_dq u) ''fx_missing'' = []"
    using nb assms(2) by (simp add: check_blocking_dq_iff)
  then have "dq_bucket dq1 ''fx_missing'' = []" unfolding u build_universe_dq by simp
  with build_simulated_state_spec(5) [OF b, of "''fx_missing''"]
  have "concat (map (fx_gap md (pf_base_currency portfolio) \<circ> cash_currency) (pf_cash_balances portfolio)) = []"
    by simp
  then have "fx_gap md (pf_base_currency portfolio) c = []" using assms(3) by auto
  then show ?thesis by (simp add: fx_gap_def split: if_splits)
qed

text \<open>What the intents of an executed run satisfy.\<close>

lemma executed_run_intents:
  assumes "executed_run cp portfolio md model shelf options before u t intents tax kept diag4 ex"
  shows "\<exists>tb. intents_inv portfolio md options (dict_keys (target_weight_by_instrument (to_trace t))) intents tb
           \<and> tax = (if enable_tax_awareness options
                    then Some (tax_impact_from_budget tb (pf_base_currency portfolio)) else None)"
    and "set kept \<subseteq> set intents"
  using assms generate_intents_inv apply_turnover_limit_frame(1)
  unfolding executed_run_def by blast+

text \<open>The branch that would put a bare portfolio into the result is never taken.\<close>

lemma executed_run_simulated:
  assumes "executed_run cp portfolio md model shelf options before u t intents tax kept diag4 ex"
  shows "\<exists>state. ex_state ex = AfterSimulated state"
proof -
  from assms have ex: "generate_fx_and_simulate portfolio md shelf (map SecurityTrade kept) options
            (amount (ss_total_value before)) diag4 = Inr ex" unfolding executed_run_def by blast
  note ints = executed_run_intents [OF assms]
  from ex show ?thesis
  proof (cases rule: execution_cases)
    case (missing_fx c b)
    then have "c \<in> set (dict_keys (project_cash_after_security_trades portfolio (map SecurityTrade kept)))"
      by force
    then consider "c \<in> cash_currency ` set (pf_cash_balances portfolio)"
      | s n where "s \<in> set kept" "sti_notional s = Some n" "currency n = c"
      unfolding projected_currencies by auto
    then show ?thesis
    proof cases
      case 1
      from executed_run_cash_rates [OF assms missing_fx(3) this] missing_fx(6) show ?thesis by blast
    next
      case 2
      then have "trade_priced portfolio md s" using ints by (auto simp: intents_inv_def)
      with 2 missing_fx(6) show ?thesis by (auto simp: trade_priced_def)
    qed
  next
    case (simulated diag')
    then show ?thesis using simulate_intents_spec(1) by (metis surj_pair)
  qed auto
qed

text \<open>
  A run raises only what target generation, the method comparison or intent generation
  raises.
\<close>

lemma finish_run_total:
  "ex_state ex = AfterSimulated state \<Longrightarrow>
     \<exists>r. finish_run run_id portfolio before u trace st comparison tax options ex rhash corr = Inr r"
  by (simp add: finish_run_def Let_def engine_gate_def evaluate_gate_decision_total bind_result_def
      split: sum.split)
     (metis evaluate_gate_decision_total sum.distinct(1))

lemma make_blocked_total:
  "\<exists>r. make_blocked_result run_id portfolio before u trace options diag rhash corr = Inr r"
  by (simp add: make_blocked_result_def Let_def engine_gate_def bind_result_def split: sum.split)
     (metis evaluate_gate_decision_total sum.distinct(1))

definition stages_raise ::
  "SolverModules \<Rightarrow> PortfolioSnapshot \<Rightarrow> MarketDataSnapshot \<Rightarrow> ModelPortfolio \<Rightarrow> ShelfEntry list
     \<Rightarrow> EngineOptions \<Rightarrow> py_error \<Rightarrow> bool" where
  "stages_raise cp portfolio md model shelf options e \<longleftrightarrow>
     (let (before, dq1) = build_simulated_state portfolio md shelf (data_quality make_diagnostics_data)
                            (Some options);
          tv = amount (ss_total_value before);
          u = build_universe model portfolio shelf options dq1 before;
          targets = generate_targets cp model (ua_eligible u) (ua_buy u) (ua_excess u) shelf options tv
                      (pf_base_currency portfolio) (make_diagnostics_data\<lparr>data_quality := ua_dq u\<rparr>)
      in targets = Inl e
         \<or> (\<exists>t. targets = Inr t
              \<and> (compare_target_methods_if_requested cp model u shelf options tv
                   (pf_base_currency portfolio) (to_trace t) (to_status t) (to_diag t) = Inl e
                 \<or> (\<exists>diag. generate_intents portfolio md (to_trace t) shelf options tv diag = Inl e))))"

lemma run_simulation_raises:
  assumes "run_simulation cp run_id portfolio md model shelf options rhash corr = Inl e"
  shows "stages_raise cp portfolio md model shelf options e"
proof (rule ccontr)
  assume no: "\<not> stages_raise cp portfolio md model shelf options e"
  obtain before dq1 where b: "build_simulated_state portfolio md shelf (data_quality make_diagnostics_data)
      (Some options) = (before, dq1)" by fastforce
  let ?u = "build_universe model portfolio shelf options dq1 before"
  note raise = no [unfolded stages_raise_def b Let_def prod.case]
  from assms raise obtain t comparison diag2 where
    t: "generate_targets cp model (ua_eligible ?u) (ua_buy ?u) (ua_excess ?u) shelf options
            (amount (ss_total_value before)) (pf_base_currency portfolio)
            (make_diagnostics_data\<lparr>data_quality := ua_dq ?u\<rparr>) = Inr t"
    and c: "compare_target_methods_if_requested cp model ?u shelf options (amount (ss_total_value before))
            (pf_base_currency portfolio) (to_trace t) (to_status t) (to_diag t) = Inr (comparison, diag2)"
    by (auto simp: run_simulation_def Let_def b bind_result_eq_Inl)
  have bl: "make_blocked_result run_id portfolio before ?u (to_trace t) options d rhash corr \<noteq> Inl e" for d
    using make_blocked_total [of run_id portfolio before ?u "to_trace t" options d rhash corr] by auto
  have f1: "\<not> (check_blocking_dq (data_quality diag2) options \<or> to_status t = BLOCKED)"
    using assms t c bl by (auto simp: run_simulation_def Let_def b)
  obtain intents tax diag3 where
    i: "generate_intents portfolio md (to_trace t) shelf options (amount (ss_total_value before)) diag2
          = Inr (intents, tax, diag3)"
    using assms raise t c f1 by (auto simp: run_simulation_def Let_def b bind_result_eq_Inl)
  have f2: "\<not> check_blocking_dq (data_quality diag3) options"
    using assms t c f1 i bl by (auto simp: run_simulation_def Let_def b)
  obtain kept diag4 where k: "apply_turnover_limit intents options (amount (ss_total_value before))
            (pf_base_currency portfolio) diag3 = (kept, diag4)" by fastforce
  obtain ex where ex: "generate_fx_and_simulate portfolio md shelf (map SecurityTrade kept) options
            (amount (ss_total_value before)) diag4 = Inr ex" using generate_fx_and_simulate_total by blast
  have "executed_run cp portfolio md model shelf options before ?u t intents tax kept diag4 ex"
    using b t c f1 i f2 k ex unfolding executed_run_def by blast
  from executed_run_simulated [OF this] obtain state where "ex_state ex = AfterSimulated state" by blast
  note finish_run_total [OF this, of run_id portfolio before ?u "to_trace t" "to_status t" comparison tax
      options rhash corr]
  with assms t c f1 i f2 k ex show False by (auto simp: run_simulation_def Let_def b)
qed

text \<open>The result of a run that is not blocked.\<close>

lemma engine_gate_SomeD:
  "engine_gate status rules diag options = Inr (Some g) \<Longrightarrow>
     enable_workflow_gates options \<and> evaluate_gate_decision status rules None (Some diag) options False = Inr g"
  by (auto simp: engine_gate_def bind_result_eq_Inr split: if_splits)

lemma finish_run_result:
  assumes "finish_run run_id portfolio before u trace st comparison tax options ex rhash corr = Inr r"
  shows "run_status r = resolve_final_gate_status st (ex_status ex)"
    and "result_intents r = ex_intents ex" and "rule_results r = ex_rules ex"
    and "ex_state ex = AfterSimulated (after_simulated r)" and "reconciliation r = ex_recon ex"
    and "diagnostics r = ex_diag ex" and "target_rows (result_target r) = trace" and "tax_impact r = tax"
    and "engine_gate (run_status r) (rule_results r) (diagnostics r) options = Inr (gate_decision r)"
    and "result_before r = before"
  using assms by (cases "ex_state ex"; auto simp: finish_run_def Let_def bind_result_eq_Inr)+

lemma make_blocked_result_result:
  assumes "make_blocked_result run_id portfolio before u trace options diag rhash corr = Inr r"
  shows "run_status r = BLOCKED" and "result_intents r = []" and "after_simulated r = before"
    and "result_before r = before" and "rule_results r = RuleEngine_evaluate before options (diagnostics r)"
    and "engine_gate (run_status r) (rule_results r) (diagnostics r) options = Inr (gate_decision r)"
    and "reconciliation r = None"
  using assms by (auto simp: make_blocked_result_def Let_def bind_result_eq_Inr)

lemma resolve_final_gate_status_iff:
  "resolve_final_gate_status st ex = BLOCKED \<longleftrightarrow> ex = BLOCKED"
  "resolve_final_gate_status st ex = READY \<longleftrightarrow> ex = READY \<and> st \<noteq> PENDING_REVIEW"
  by (auto simp: resolve_final_gate_status_def)

text \<open>
  The report of a run that was not blocked: executing the reported intents on the input
  portfolio and valuing the outcome gives the reported state, which passes the hard rules and
  reconciles with the value before.
\<close>

definition report_ok ::
  "PortfolioSnapshot \<Rightarrow> MarketDataSnapshot \<Rightarrow> ShelfEntry list \<Rightarrow> EngineOptions \<Rightarrow> RebalanceResult \<Rightarrow> bool" where
  "report_ok portfolio md shelf options r \<longleftrightarrow>
     (\<exists>dq dq'. build_simulated_state (apply_execution_intents portfolio (result_intents r)) md shelf dq
               (Some (after_simulation_options options)) = (after_simulated r, dq'))
     \<and> hard_rules_hold (after_simulated r) options (diagnostics r)
     \<and> rule_results r = RuleEngine_evaluate (after_simulated r) options (diagnostics r)
     \<and> reconciliation r = Some (fst (build_reconciliation (amount (ss_total_value (result_before r)))
           (amount (ss_total_value (after_simulated r))) (amount (ss_total_value (result_before r)))
           (pf_base_currency portfolio) False))
     \<and> recon_status (the (reconciliation r)) = RECON_OK"

lemma simulate_intents_report:
  assumes "ex = simulate_intents portfolio md shelf js options (amount (ss_total_value before)) diag"
    and "ex_status ex \<noteq> BLOCKED"
    and "result_intents r = ex_intents ex" and "ex_state ex = AfterSimulated (after_simulated r)"
    and "rule_results r = ex_rules ex" and "reconciliation r = ex_recon ex"
    and "diagnostics r = ex_diag ex" and "result_before r = before"
  shows "report_ok portfolio md shelf options r \<and> ex_status ex = derive_status_from_rules (rule_results r)"
proof -
  obtain state dq where b: "build_simulated_state (apply_execution_intents portfolio js) md shelf
      (data_quality diag) (Some (after_simulation_options options)) = (state, dq)" by fastforce
  note spec = simulate_intents_spec [OF b, of "amount (ss_total_value before)", folded assms(1)]
  from spec(4) [OF assms(2)] spec(1,2) assms(3-) b show ?thesis by (auto simp: report_ok_def)
qed

lemma not_blocked_report:
  assumes "run_simulation cp run_id portfolio md model shelf options rhash corr = Inr r"
    and "run_status r \<noteq> BLOCKED"
  shows "report_ok portfolio md shelf options r"
    and "run_status r = READY \<Longrightarrow> derive_status_from_rules (rule_results r) = READY"
proof -
  have "report_ok portfolio md shelf options r
      \<and> (run_status r = READY \<longrightarrow> derive_status_from_rules (rule_results r) = READY)"
    using assms(1)
  proof (cases rule: run_simulation_cases)
    case blocked
    from make_blocked_result_result(1) [OF this] assms(2) show ?thesis by simp
  next
    case (executed before u t intents tax kept diag4 ex comparison)
    note res = finish_run_result [OF executed(2)]
    have st: "ex_status ex \<noteq> BLOCKED" using assms(2) res(1) by (simp add: resolve_final_gate_status_iff)
    from executed(1) have "generate_fx_and_simulate portfolio md shelf (map SecurityTrade kept) options
            (amount (ss_total_value before)) diag4 = Inr ex" unfolding executed_run_def by blast
    then show ?thesis
    proof (cases rule: execution_cases)
      case (simulated diag')
      from simulate_intents_report [OF simulated(1) st res(2,4,3,5,6,10)] res(1) show ?thesis
        by (auto simp: resolve_final_gate_status_iff)
    qed (use st in simp_all)
  qed
  then show "report_ok portfolio md shelf options r"
    and "run_status r = READY \<Longrightarrow> derive_status_from_rules (rule_results r) = READY" by blast+
qed

text \<open>The gate of a result is the gate of its own status, rules and diagnostics.\<close>

lemma result_gate:
  assumes "run_simulation cp run_id portfolio md model shelf options rhash corr = Inr r"
  shows "engine_gate (run_status r) (rule_results r) (diagnostics r) options = Inr (gate_decision r)"
  using assms
  by (cases rule: run_simulation_cases) (auto dest: make_blocked_result_result(6) finish_run_result(9))

text \<open>The intents of a result are the execution plan of well-formed security trades.\<close>

lemma result_plan:
  assumes "run_simulation cp run_id portfolio md model shelf options rhash corr = Inr r"
    and "result_intents r \<noteq> []"
  obtains kept diag where "result_intents r = execution_plan portfolio md options (map SecurityTrade kept) diag"
    "\<forall>s \<in> set kept. trade_priced portfolio md s \<and> (lots_exact options portfolio \<longrightarrow> sell_covered portfolio s)"
  using assms(1)
proof (cases rule: run_simulation_cases)
  case blocked
  from make_blocked_result_result(2) [OF this] assms(2) show thesis by simp
next
  case (executed before u t intents tax kept diag4 ex comparison)
  note ints = executed_run_intents [OF executed(1)]
  from executed(1) have "generate_fx_and_simulate portfolio md shelf (map SecurityTrade kept) options
            (amount (ss_total_value before)) diag4 = Inr ex" unfolding executed_run_def by blast
  then have "ex_intents ex = execution_plan portfolio md options (map SecurityTrade kept) diag4"
  proof (cases rule: execution_cases)
    case missing_fx
    with executed_run_simulated [OF executed(1)] show ?thesis by auto
  next
    case (simulated diag')
    then show ?thesis using simulate_intents_spec(2) by (metis surj_pair)
  qed simp
  with finish_run_result(2) [OF executed(2)] ints show thesis
    by (intro that [of kept diag4]) (auto simp: intents_inv_def)
qed

lemma result_trades:
  assumes "run_simulation cp run_id portfolio md model shelf options rhash corr = Inr r"
    and "SecurityTrade s \<in> set (result_intents r)"
  shows "trade_priced portfolio md (s\<lparr>sti_dependencies := []\<rparr>)"
    and "lots_exact options portfolio \<Longrightarrow> sell_covered portfolio s"
proof -
  have "result_intents r \<noteq> []" using assms(2) by auto
  from result_plan [OF assms(1) this] obtain kept diag where
    plan: "result_intents r = execution_plan portfolio md options (map SecurityTrade kept) diag"
    and ok: "\<forall>s \<in> set kept. trade_priced portfolio md s
               \<and> (lots_exact options portfolio \<longrightarrow> sell_covered portfolio s)" by blast
  from assms(2) plan obtain s0 where "SecurityTrade s0 \<in> set (map SecurityTrade kept)"
    and eq: "s\<lparr>sti_dependencies := []\<rparr> = s0\<lparr>sti_dependencies := []\<rparr>"
    by (metis execution_plan_trades)
  with ok have s0: "trade_priced portfolio md s0" "lots_exact options portfolio \<Longrightarrow> sell_covered portfolio s0" by auto
  from s0(1) show "trade_priced portfolio md (s\<lparr>sti_dependencies := []\<rparr>)"
    unfolding eq by (simp add: trade_priced_def)
  have "sell_covered portfolio s = sell_covered portfolio (s\<lparr>sti_dependencies := []\<rparr>)"
    by (simp add: sell_covered_def)
  also have "\<dots> = sell_covered portfolio s0" unfolding eq by (simp add: sell_covered_def)
  finally show "lots_exact options portfolio \<Longrightarrow> sell_covered portfolio s" using s0(2) by simp
qed

lemma result_dependencies:
  assumes "run_simulation cp run_id portfolio md model shelf options rhash corr = Inr r"
    and "n < length (result_intents r)" and "d \<in> set (intent_dependencies (result_intents r ! n))"
  shows "\<exists>m < n. intent_id (result_intents r ! m) = d"
proof -
  have "result_intents r \<noteq> []" using assms(2) by auto
  from result_plan [OF assms(1) this] obtain kept diag where
    plan: "result_intents r = execution_plan portfolio md options (map SecurityTrade kept) diag"
    and ok: "\<forall>s \<in> set kept. trade_priced portfolio md s
               \<and> (lots_exact options portfolio \<longrightarrow> sell_covered portfolio s)" by blast
  have "\<forall>j \<in> set (map SecurityTrade kept). intent_dependencies j = []"
    using ok by (auto simp: trade_priced_def)
  from execution_plan_dependencies [OF this assms(2,3) [unfolded plan]] show ?thesis by (simp add: plan)
qed

end
