(* ===== verification/Policy_Packs.thy ===== *)
theory Policy_Packs
  imports Models
begin

text \<open>
  Policy packs (\<open>src/src/core/rebalance/policy_packs.py\<close>, \<open>tenant_policy_packs.py\<close>): which pack
  a request uses and which engine options it overrides. A pack is taken as parsed; decoding the
  catalog from JSON is not part of the model, the filtering of a decoded tenant map is.
\<close>


section \<open>Definitions\<close>

datatype DpmPolicyPackSource = DISABLED | REQUEST | TENANT_DEFAULT | GLOBAL_DEFAULT | NO_SOURCE

record DpmEffectivePolicyPackResolution =
  resolution_enabled :: bool
  selected_policy_pack_id :: "string option"
  resolution_source :: DpmPolicyPackSource

record DpmPolicyPackTurnoverPolicy =
  tp_max_turnover_pct :: "dec option"

record DpmPolicyPackTaxPolicy =
  xp_enable_tax_awareness :: "bool option"
  xp_max_realized_capital_gains :: "dec option"

record DpmPolicyPackSettlementPolicy =
  sp_enable_settlement_awareness :: "bool option"
  sp_settlement_horizon_days :: "nat option"

record DpmPolicyPackConstraintPolicy =
  cp_single_position_max_weight :: "dec option"
  cp_group_constraints :: "(string, GroupConstraint) dict"

record DpmPolicyPackWorkflowPolicy =
  wp_enable_workflow_gates :: "bool option"
  wp_workflow_requires_mandate_approval :: "bool option"
  wp_mandate_approval_already_obtained :: "bool option"

record DpmPolicyPackIdempotencyPolicy =
  ip_replay_enabled :: "bool option"

record DpmPolicyPackDefinition =
  policy_pack_id :: string
  policy_pack_version :: string
  turnover_policy :: DpmPolicyPackTurnoverPolicy
  tax_policy :: DpmPolicyPackTaxPolicy
  settlement_policy :: DpmPolicyPackSettlementPolicy
  constraint_policy :: DpmPolicyPackConstraintPolicy
  workflow_policy :: DpmPolicyPackWorkflowPolicy
  idempotency_policy :: DpmPolicyPackIdempotencyPolicy

definition normalize_policy_pack_id :: "string option \<Rightarrow> string option" where
  "normalize_policy_pack_id v =
     (case v of None \<Rightarrow> None | Some s \<Rightarrow> if strip s = [] then None else Some (strip s))"

definition resolve_effective_policy_pack ::
  "bool \<Rightarrow> string option \<Rightarrow> string option \<Rightarrow> string option \<Rightarrow> DpmEffectivePolicyPackResolution" where
  "resolve_effective_policy_pack enabled request tenant global =
     (if \<not> enabled
      then \<lparr> resolution_enabled = False, selected_policy_pack_id = None, resolution_source = DISABLED \<rparr>
      else case normalize_policy_pack_id request of
        Some i \<Rightarrow> \<lparr> resolution_enabled = True, selected_policy_pack_id = Some i, resolution_source = REQUEST \<rparr>
      | None \<Rightarrow>
          (case normalize_policy_pack_id tenant of
             Some i \<Rightarrow> \<lparr> resolution_enabled = True, selected_policy_pack_id = Some i,
                         resolution_source = TENANT_DEFAULT \<rparr>
           | None \<Rightarrow>
               (case normalize_policy_pack_id global of
                  Some i \<Rightarrow> \<lparr> resolution_enabled = True, selected_policy_pack_id = Some i,
                              resolution_source = GLOBAL_DEFAULT \<rparr>
                | None \<Rightarrow> \<lparr> resolution_enabled = True, selected_policy_pack_id = None,
                            resolution_source = NO_SOURCE \<rparr>)))"

definition resolve_policy_pack_definition ::
  "DpmEffectivePolicyPackResolution \<Rightarrow> (string, DpmPolicyPackDefinition) dict
     \<Rightarrow> DpmPolicyPackDefinition option" where
  "resolve_policy_pack_definition resolution catalog =
     (case selected_policy_pack_id resolution of
        None \<Rightarrow> None
      | Some i \<Rightarrow> dict_get catalog i)"

text \<open>An entry of the update dictionary handed to \<open>model_copy\<close>.\<close>

datatype EngineOptionUpdate =
    Update_max_turnover_pct dec
  | Update_enable_tax_awareness bool
  | Update_max_realized_capital_gains dec
  | Update_enable_settlement_awareness bool
  | Update_settlement_horizon_days nat
  | Update_single_position_max_weight dec
  | Update_group_constraints "(string, GroupConstraint) dict"
  | Update_enable_workflow_gates bool
  | Update_workflow_requires_mandate_approval bool
  | Update_mandate_approval_already_obtained bool

definition update_if :: "('a \<Rightarrow> EngineOptionUpdate) \<Rightarrow> 'a option \<Rightarrow> EngineOptionUpdate list" where
  "update_if u v = (case v of None \<Rightarrow> [] | Some x \<Rightarrow> [u x])"

definition turnover_engine_option_updates :: "DpmPolicyPackTurnoverPolicy \<Rightarrow> EngineOptionUpdate list" where
  "turnover_engine_option_updates p = update_if Update_max_turnover_pct (tp_max_turnover_pct p)"

definition tax_engine_option_updates :: "DpmPolicyPackTaxPolicy \<Rightarrow> EngineOptionUpdate list" where
  "tax_engine_option_updates p =
     update_if Update_enable_tax_awareness (xp_enable_tax_awareness p)
     @ update_if Update_max_realized_capital_gains (xp_max_realized_capital_gains p)"

definition settlement_engine_option_updates :: "DpmPolicyPackSettlementPolicy \<Rightarrow> EngineOptionUpdate list" where
  "settlement_engine_option_updates p =
     update_if Update_enable_settlement_awareness (sp_enable_settlement_awareness p)
     @ update_if Update_settlement_horizon_days (sp_settlement_horizon_days p)"

definition constraint_engine_option_updates :: "DpmPolicyPackConstraintPolicy \<Rightarrow> EngineOptionUpdate list" where
  "constraint_engine_option_updates p =
     update_if Update_single_position_max_weight (cp_single_position_max_weight p)
     @ (if cp_group_constraints p \<noteq> [] then [Update_group_constraints (cp_group_constraints p)] else [])"

definition workflow_engine_option_updates :: "DpmPolicyPackWorkflowPolicy \<Rightarrow> EngineOptionUpdate list" where
  "workflow_engine_option_updates p =
     update_if Update_enable_workflow_gates (wp_enable_workflow_gates p)
     @ update_if Update_workflow_requires_mandate_approval (wp_workflow_requires_mandate_approval p)
     @ update_if Update_mandate_approval_already_obtained (wp_mandate_approval_already_obtained p)"

definition policy_pack_engine_option_updates :: "DpmPolicyPackDefinition \<Rightarrow> EngineOptionUpdate list" where
  "policy_pack_engine_option_updates pack =
     turnover_engine_option_updates (turnover_policy pack)
     @ tax_engine_option_updates (tax_policy pack)
     @ settlement_engine_option_updates (settlement_policy pack)
     @ constraint_engine_option_updates (constraint_policy pack)
     @ workflow_engine_option_updates (workflow_policy pack)"

text \<open>\<open>model_copy(update=...)\<close> writes the fields without validating them.\<close>

fun write_option :: "EngineOptionUpdate \<Rightarrow> EngineOptions \<Rightarrow> EngineOptions" where
  "write_option (Update_max_turnover_pct x) o1 = o1\<lparr>max_turnover_pct := Some x\<rparr>"
| "write_option (Update_enable_tax_awareness b) o1 = o1\<lparr>enable_tax_awareness := b\<rparr>"
| "write_option (Update_max_realized_capital_gains x) o1 = o1\<lparr>max_realized_capital_gains := Some x\<rparr>"
| "write_option (Update_enable_settlement_awareness b) o1 = o1\<lparr>enable_settlement_awareness := b\<rparr>"
| "write_option (Update_settlement_horizon_days n) o1 = o1\<lparr>settlement_horizon_days := n\<rparr>"
| "write_option (Update_single_position_max_weight x) o1 = o1\<lparr>single_position_max_weight := Some x\<rparr>"
| "write_option (Update_group_constraints g) o1 = o1\<lparr>group_constraints := g\<rparr>"
| "write_option (Update_enable_workflow_gates b) o1 = o1\<lparr>enable_workflow_gates := b\<rparr>"
| "write_option (Update_workflow_requires_mandate_approval b) o1 = o1\<lparr>workflow_requires_mandate_approval := b\<rparr>"
| "write_option (Update_mandate_approval_already_obtained b) o1 = o1\<lparr>mandate_approval_already_obtained := b\<rparr>"

definition apply_policy_pack_to_engine_options ::
  "EngineOptions \<Rightarrow> DpmPolicyPackDefinition option \<Rightarrow> EngineOptions" where
  "apply_policy_pack_to_engine_options options pack =
     (case pack of
        None \<Rightarrow> options
      | Some p \<Rightarrow>
          let updates = policy_pack_engine_option_updates p
          in if updates = [] then options else fold write_option updates options)"

definition resolve_policy_pack_replay_enabled :: "bool \<Rightarrow> DpmPolicyPackDefinition option \<Rightarrow> bool" where
  "resolve_policy_pack_replay_enabled default_enabled pack =
     (case pack of
        None \<Rightarrow> default_enabled
      | Some p \<Rightarrow> (case ip_replay_enabled (idempotency_policy p) of None \<Rightarrow> default_enabled | Some b \<Rightarrow> b))"

text \<open>
  A decoded tenant map: \<open>None\<close> stands for a value that is not a string. A resolver is the static
  map, or nothing when it is disabled.
\<close>

definition tenant_policy_pack_mapping_row :: "string \<Rightarrow> string option \<Rightarrow> (string \<times> string) option" where
  "tenant_policy_pack_mapping_row tenant pack =
     (case pack of
        None \<Rightarrow> None
      | Some p \<Rightarrow>
          (case (normalize_policy_pack_id (Some tenant), normalize_policy_pack_id (Some p)) of
             (Some t, Some q) \<Rightarrow> Some (t, q)
           | _ \<Rightarrow> None))"

definition tenant_policy_pack_map :: "(string, string option) dict \<Rightarrow> (string, string) dict" where
  "tenant_policy_pack_map raw =
     fold (\<lambda>(tenant, pack) m.
             case tenant_policy_pack_mapping_row tenant pack of
               None \<Rightarrow> m
             | Some (t, p) \<Rightarrow> dict_set t p m)
       raw []"

datatype DpmTenantPolicyPackResolver =
    DisabledDpmTenantPolicyPackResolver
  | StaticMapDpmTenantPolicyPackResolver "(string, string) dict"

definition build_tenant_policy_pack_resolver ::
  "bool \<Rightarrow> (string, string option) dict \<Rightarrow> DpmTenantPolicyPackResolver" where
  "build_tenant_policy_pack_resolver enabled raw =
     (if \<not> enabled then DisabledDpmTenantPolicyPackResolver
      else StaticMapDpmTenantPolicyPackResolver (tenant_policy_pack_map raw))"

fun resolver_resolve :: "DpmTenantPolicyPackResolver \<Rightarrow> string option \<Rightarrow> string option" where
  "resolver_resolve DisabledDpmTenantPolicyPackResolver tenant = None"
| "resolver_resolve (StaticMapDpmTenantPolicyPackResolver m) tenant =
     (case normalize_policy_pack_id tenant of None \<Rightarrow> None | Some t \<Rightarrow> dict_get m t)"


section \<open>Lemmas\<close>

lemma fold_update_if:
  "fold write_option (update_if u v) o1 = (case v of None \<Rightarrow> o1 | Some x \<Rightarrow> write_option (u x) o1)"
  by (cases v) (simp_all add: update_if_def)

lemma apply_policy_pack_fold:
  "apply_policy_pack_to_engine_options options (Some p) = fold write_option (policy_pack_engine_option_updates p) options"
  by (auto simp: apply_policy_pack_to_engine_options_def Let_def)

lemmas pack_update_defs =
  policy_pack_engine_option_updates_def turnover_engine_option_updates_def tax_engine_option_updates_def
  settlement_engine_option_updates_def constraint_engine_option_updates_def workflow_engine_option_updates_def

text \<open>A present value of the pack, else the value of the request.\<close>

definition override :: "'a option \<Rightarrow> 'a \<Rightarrow> 'a" where
  "override v d = (case v of None \<Rightarrow> d | Some x \<Rightarrow> x)"

definition override_some :: "'a option \<Rightarrow> 'a option \<Rightarrow> 'a option" where
  "override_some v d = (case v of None \<Rightarrow> d | Some x \<Rightarrow> Some x)"

lemma write_options_simps:
  "(case v1 of None \<Rightarrow> o1 | Some x \<Rightarrow> write_option (Update_max_turnover_pct x) o1)
     = o1\<lparr>max_turnover_pct := override_some v1 (max_turnover_pct o1)\<rparr>"
  "(case v2 of None \<Rightarrow> o1 | Some x \<Rightarrow> write_option (Update_enable_tax_awareness x) o1)
     = o1\<lparr>enable_tax_awareness := override v2 (enable_tax_awareness o1)\<rparr>"
  "(case v3 of None \<Rightarrow> o1 | Some x \<Rightarrow> write_option (Update_max_realized_capital_gains x) o1)
     = o1\<lparr>max_realized_capital_gains := override_some v3 (max_realized_capital_gains o1)\<rparr>"
  "(case v4 of None \<Rightarrow> o1 | Some x \<Rightarrow> write_option (Update_enable_settlement_awareness x) o1)
     = o1\<lparr>enable_settlement_awareness := override v4 (enable_settlement_awareness o1)\<rparr>"
  "(case v5 of None \<Rightarrow> o1 | Some x \<Rightarrow> write_option (Update_settlement_horizon_days x) o1)
     = o1\<lparr>settlement_horizon_days := override v5 (settlement_horizon_days o1)\<rparr>"
  "(case v6 of None \<Rightarrow> o1 | Some x \<Rightarrow> write_option (Update_single_position_max_weight x) o1)
     = o1\<lparr>single_position_max_weight := override_some v6 (single_position_max_weight o1)\<rparr>"
  "(case v7 of None \<Rightarrow> o1 | Some x \<Rightarrow> write_option (Update_enable_workflow_gates x) o1)
     = o1\<lparr>enable_workflow_gates := override v7 (enable_workflow_gates o1)\<rparr>"
  "(case v8 of None \<Rightarrow> o1 | Some x \<Rightarrow> write_option (Update_workflow_requires_mandate_approval x) o1)
     = o1\<lparr>workflow_requires_mandate_approval := override v8 (workflow_requires_mandate_approval o1)\<rparr>"
  "(case v9 of None \<Rightarrow> o1 | Some x \<Rightarrow> write_option (Update_mandate_approval_already_obtained x) o1)
     = o1\<lparr>mandate_approval_already_obtained := override v9 (mandate_approval_already_obtained o1)\<rparr>"
  by (simp_all add: override_def override_some_def split: option.splits)

lemma apply_policy_pack_eq:
  "apply_policy_pack_to_engine_options options (Some p) = options
     \<lparr> max_turnover_pct :=
         override_some (tp_max_turnover_pct (turnover_policy p)) (max_turnover_pct options),
       enable_tax_awareness :=
         override (xp_enable_tax_awareness (tax_policy p)) (enable_tax_awareness options),
       max_realized_capital_gains :=
         override_some (xp_max_realized_capital_gains (tax_policy p)) (max_realized_capital_gains options),
       enable_settlement_awareness :=
         override (sp_enable_settlement_awareness (settlement_policy p)) (enable_settlement_awareness options),
       settlement_horizon_days :=
         override (sp_settlement_horizon_days (settlement_policy p)) (settlement_horizon_days options),
       single_position_max_weight :=
         override_some (cp_single_position_max_weight (constraint_policy p)) (single_position_max_weight options),
       group_constraints :=
         (if cp_group_constraints (constraint_policy p) = [] then group_constraints options
          else cp_group_constraints (constraint_policy p)),
       enable_workflow_gates :=
         override (wp_enable_workflow_gates (workflow_policy p)) (enable_workflow_gates options),
       workflow_requires_mandate_approval :=
         override (wp_workflow_requires_mandate_approval (workflow_policy p))
           (workflow_requires_mandate_approval options),
       mandate_approval_already_obtained :=
         override (wp_mandate_approval_already_obtained (workflow_policy p))
           (mandate_approval_already_obtained options) \<rparr>"
proof -
  have groups: "fold write_option (if g \<noteq> [] then [Update_group_constraints g] else []) o1
      = o1\<lparr>group_constraints := (if g = [] then group_constraints o1 else g)\<rparr>" for g o1
    by simp
  show ?thesis
    unfolding apply_policy_pack_fold pack_update_defs fold_append comp_apply fold_update_if
      write_options_simps groups by simp
qed

text \<open>What pydantic checks of a pack: the declared field bounds and nothing more.\<close>

definition pack_fields_valid :: "DpmPolicyPackDefinition \<Rightarrow> bool" where
  "pack_fields_valid p \<longleftrightarrow>
     pred_option (\<lambda>x. 0 \<le> x) (xp_max_realized_capital_gains (tax_policy p))
     \<and> pred_option (\<lambda>n. n \<le> 10) (sp_settlement_horizon_days (settlement_policy p))
     \<and> pred_option ratio_ok (cp_single_position_max_weight (constraint_policy p))
     \<and> (\<forall>kv \<in> set (cp_group_constraints (constraint_policy p)). ratio_ok (gc_max_weight (snd kv)))"

definition normal_id :: "string \<Rightarrow> bool" where
  "normal_id s \<longleftrightarrow> s \<noteq> [] \<and> strip s = s"

lemma normalize_normal: "normalize_policy_pack_id v = Some s \<Longrightarrow> normal_id s"
  by (auto simp: normalize_policy_pack_id_def normal_id_def split: option.splits if_splits)

lemma normal_normalize: "normal_id s \<Longrightarrow> normalize_policy_pack_id (Some s) = Some s"
  by (simp add: normalize_policy_pack_id_def normal_id_def)

definition normal_map :: "(string, string) dict \<Rightarrow> bool" where
  "normal_map m \<longleftrightarrow> (\<forall>t p. dict_get m t = Some p \<longrightarrow> normal_id t \<and> normal_id p)"

lemma normal_map_row:
  assumes "normal_map m"
  shows "normal_map (case tenant_policy_pack_mapping_row tenant pack of
           None \<Rightarrow> m | Some (t, p) \<Rightarrow> dict_set t p m)"
proof (cases "tenant_policy_pack_mapping_row tenant pack")
  case (Some tp)
  obtain t p where tp: "tp = (t, p)" by fastforce
  from Some [unfolded tp] have "normal_id t" and "normal_id p"
    by (auto simp: tenant_policy_pack_mapping_row_def normalize_normal split: option.splits)
  with assms show ?thesis by (simp add: Some tp normal_map_def dict_get_set)
qed (use assms in simp)

lemma tenant_map_normal: "normal_map (tenant_policy_pack_map raw)"
proof -
  have "normal_map (fold (\<lambda>(tenant, pack) m. case tenant_policy_pack_mapping_row tenant pack of
           None \<Rightarrow> m | Some (t, p) \<Rightarrow> dict_set t p m) raw m)" if "normal_map m" for m
    using that by (induction raw arbitrary: m) (auto simp: normal_map_row)
  from this [of "[]"] show ?thesis by (simp add: tenant_policy_pack_map_def normal_map_def)
qed


lemma override_idem [simp]:
  "override v (override v x) = override v x"
  "override_some u (override_some u y) = override_some u y"
  by (simp_all add: override_def override_some_def split: option.splits)

lemma apply_policy_pack_idem:
  "apply_policy_pack_to_engine_options (apply_policy_pack_to_engine_options options (Some p)) (Some p)
     = apply_policy_pack_to_engine_options options (Some p)"
  by (simp add: apply_policy_pack_eq)


section \<open>Properties\<close>

text \<open>
  Which pack a request uses. Nothing when packs are switched off; otherwise the first of the
  request's, the tenant's and the global identifier that is not blank, stripped, and looked up
  in the catalog.
\<close>

theorem policy_pack_precedence:
  "resolve_policy_pack_definition (resolve_effective_policy_pack enabled request tenant global) catalog =
     (if \<not> enabled then None
      else case List.find (\<lambda>v. normalize_policy_pack_id v \<noteq> None) [request, tenant, global] of
             None \<Rightarrow> None
           | Some v \<Rightarrow> dict_get catalog (strip (the v)))"
  by (auto simp: resolve_policy_pack_definition_def resolve_effective_policy_pack_def
      normalize_policy_pack_id_def split: option.splits)

text \<open>
  A tenant default that comes out of the tenant map is selected exactly as stored: the
  stored identifiers are stripped and not blank, so the second normalisation changes nothing.
\<close>

theorem tenant_default_stable:
  assumes "resolver_resolve (build_tenant_policy_pack_resolver enabled raw) tenant = Some p"
    and "normalize_policy_pack_id request = None"
  shows "resolve_effective_policy_pack True request (Some p) global =
     \<lparr> resolution_enabled = True, selected_policy_pack_id = Some p, resolution_source = TENANT_DEFAULT \<rparr>"
proof -
  from assms(1) have "enabled"
    and "\<exists>t. dict_get (tenant_policy_pack_map raw) t = Some p"
    by (auto simp: build_tenant_policy_pack_resolver_def split: if_splits option.splits)
  then have "normal_id p" using tenant_map_normal by (auto simp: normal_map_def)
  with assms(2) show ?thesis by (simp add: resolve_effective_policy_pack_def normal_normalize)
qed

theorem tenant_default_stable_witness:
  "resolve_effective_policy_pack True (Some '' '') (Some ''std'') None =
     \<lparr> resolution_enabled = True, selected_policy_pack_id = Some ''std'', resolution_source = TENANT_DEFAULT \<rparr>"
  by (rule tenant_default_stable [of True "[('' t1 '', Some '' std '')]" "Some ''t1''"]) code_simp+

text \<open>
  Applying a pack changes only the fields the pack sets; applying it twice is applying it
  once, and without a pack the options stay as they are.
\<close>

theorem policy_pack_apply:
  "apply_policy_pack_to_engine_options options None = options
   \<and> apply_policy_pack_to_engine_options (apply_policy_pack_to_engine_options options (Some p)) (Some p)
       = apply_policy_pack_to_engine_options options (Some p)
   \<and> apply_policy_pack_to_engine_options options (Some p) = options
     \<lparr> max_turnover_pct :=
         override_some (tp_max_turnover_pct (turnover_policy p)) (max_turnover_pct options),
       enable_tax_awareness :=
         override (xp_enable_tax_awareness (tax_policy p)) (enable_tax_awareness options),
       max_realized_capital_gains :=
         override_some (xp_max_realized_capital_gains (tax_policy p)) (max_realized_capital_gains options),
       enable_settlement_awareness :=
         override (sp_enable_settlement_awareness (settlement_policy p)) (enable_settlement_awareness options),
       settlement_horizon_days :=
         override (sp_settlement_horizon_days (settlement_policy p)) (settlement_horizon_days options),
       single_position_max_weight :=
         override_some (cp_single_position_max_weight (constraint_policy p)) (single_position_max_weight options),
       group_constraints :=
         (if cp_group_constraints (constraint_policy p) = [] then group_constraints options
          else cp_group_constraints (constraint_policy p)),
       enable_workflow_gates :=
         override (wp_enable_workflow_gates (workflow_policy p)) (enable_workflow_gates options),
       workflow_requires_mandate_approval :=
         override (wp_workflow_requires_mandate_approval (workflow_policy p))
           (workflow_requires_mandate_approval options),
       mandate_approval_already_obtained :=
         override (wp_mandate_approval_already_obtained (workflow_policy p))
           (mandate_approval_already_obtained options) \<rparr>"
  using apply_policy_pack_idem [of options p] unfolding apply_policy_pack_eq
  by (simp add: apply_policy_pack_to_engine_options_def)

text \<open>
  A pack keeps the options valid when its turnover cap is a ratio and its group keys are well
  formed. The declared bounds of a pack do not include these two conditions.
\<close>

theorem policy_pack_keeps_valid:
  assumes "engine_options_valid options" and "pack_fields_valid p"
    and "pred_option ratio_ok (tp_max_turnover_pct (turnover_policy p))"
    and "validate_group_constraint_keys (cp_group_constraints (constraint_policy p))
         = Inr (cp_group_constraints (constraint_policy p))"
  shows "engine_options_valid (apply_policy_pack_to_engine_options options (Some p))"
  using assms unfolding apply_policy_pack_eq
  by (auto simp: engine_options_valid_def pack_fields_valid_def override_def override_some_def
      split: option.splits)

definition empty_pack :: DpmPolicyPackDefinition where
  "empty_pack =
     \<lparr> policy_pack_id = ''p'', policy_pack_version = ''1'',
       turnover_policy = \<lparr> tp_max_turnover_pct = None \<rparr>,
       tax_policy = \<lparr> xp_enable_tax_awareness = None, xp_max_realized_capital_gains = None \<rparr>,
       settlement_policy = \<lparr> sp_enable_settlement_awareness = None, sp_settlement_horizon_days = None \<rparr>,
       constraint_policy = \<lparr> cp_single_position_max_weight = None, cp_group_constraints = [] \<rparr>,
       workflow_policy = \<lparr> wp_enable_workflow_gates = None, wp_workflow_requires_mandate_approval = None,
                           wp_mandate_approval_already_obtained = None \<rparr>,
       idempotency_policy = \<lparr> ip_replay_enabled = None \<rparr> \<rparr>"

theorem policy_pack_keeps_valid_witness:
  "engine_options_valid (apply_policy_pack_to_engine_options EngineOptions_default
     (Some (empty_pack\<lparr>turnover_policy := \<lparr> tp_max_turnover_pct = Some (Dec (15 / 100)) \<rparr>\<rparr>)))"
  by (rule policy_pack_keeps_valid [OF EngineOptions_default_valid])
    (simp_all add: pack_fields_valid_def empty_pack_def ratio_ok_def dec_order_defs
      validate_group_constraint_keys_def)

text \<open>
  A pack that passes its own validation can turn valid options into invalid ones: a turnover
  cap above one, or a group key without a colon.
\<close>

theorem policy_pack_breaks_validity:
  "engine_options_valid EngineOptions_default
   \<and> (let p = empty_pack\<lparr>turnover_policy := \<lparr> tp_max_turnover_pct = Some (Dec 2) \<rparr>\<rparr>
      in pack_fields_valid p \<and> \<not> engine_options_valid (apply_policy_pack_to_engine_options EngineOptions_default (Some p)))
   \<and> (let p = empty_pack\<lparr>constraint_policy := \<lparr> cp_single_position_max_weight = None,
                 cp_group_constraints = [(''sector'', \<lparr> gc_max_weight = Dec (1 / 5) \<rparr>)] \<rparr>\<rparr>
      in pack_fields_valid p \<and> \<not> engine_options_valid (apply_policy_pack_to_engine_options EngineOptions_default (Some p)))"
  by (simp add: EngineOptions_default_valid Let_def apply_policy_pack_eq)
    (simp add: engine_options_valid_def pack_fields_valid_def empty_pack_def ratio_ok_def dec_order_defs
      override_def override_some_def EngineOptions_default_def validate_group_constraint_keys_def)

end
