(* ===== verification/Wave_State_Machine.thy ===== *)
theory Wave_State_Machine
  imports Prelude
begin

text \<open>
  Rebalance waves (\<open>src/src/core/waves/models.py\<close>, \<open>state_machine.py\<close>): the aggregate, the
  allowed transitions and the one operation that performs them. Timestamps are integers,
  dictionaries of arbitrary values hold \<open>json\<close> values. Messages of exceptions are left out, their
  codes are kept. The summary of source analytics in the aggregate metrics is evidence that no operation
  reads again; it is not part of the record and is modelled on its own in \<open>Wave_Source_Analytics\<close>.
\<close>


section \<open>Definitions\<close>

datatype WaveState =
    DRAFT | PREVIEWED | CREATED | SOURCE_CHECKED | SIMULATING | SIMULATED | PARTIALLY_SIMULATED
  | SIMULATION_FAILED | REVIEW_REQUIRED | WAVE_APPROVED | APPROVED_WITH_EXCEPTIONS | STAGED | HANDOFF_READY
  | HANDOFF_BLOCKED | HANDOFF_ACKNOWLEDGED | WAVE_BLOCKED | REJECTED | CANCELLED | CLOSED

datatype WaveItemState =
    ITEM_CANDIDATE | ITEM_SOURCE_READY | ITEM_SOURCE_DEGRADED | ITEM_REVIEW_REQUIRED | ITEM_SOURCE_BLOCKED
  | ITEM_SIMULATED | ITEM_SIMULATION_BLOCKED | ITEM_SELECTED | ITEM_PROOF_PACK_READY | ITEM_APPROVED
  | ITEM_STAGED | ITEM_HANDOFF_READY | ITEM_EXCLUDED

record DpmWaveSourceRef =
  sr_source_system :: string
  sr_source_type :: string
  sr_source_id :: string
  sr_source_version :: "string option"
  sr_supportability_state :: "string option"
  sr_content_hash :: "string option"
  sr_source_batch_fingerprint :: "string option"
  sr_selection_basis :: "(string, json) dict option"

record DpmRebalanceWaveItem =
  wave_item_id :: string
  wi_portfolio_id :: string
  wi_mandate_id :: "string option"
  wi_model_portfolio_id :: "string option"
  wi_state :: WaveItemState
  wi_reason_codes :: "string list"
  wi_source_refs :: "DpmWaveSourceRef list"
  wi_alternative_set_id :: "string option"
  wi_selected_alternative_id :: "string option"
  wi_proof_pack_id :: "string option"
  wi_diagnostics :: "(string, json) dict"

record DpmWaveAggregateMetrics =
  item_count :: nat
  state_counts :: "(WaveItemState, nat) dict"
  ready_item_count :: nat
  blocked_item_count :: nat
  review_required_item_count :: nat
  source_degraded_item_count :: nat

record DpmRebalanceWaveEvent =
  ev_event_id :: string
  ev_wave_id :: string
  ev_from_state :: "WaveState option"
  ev_to_state :: WaveState
  ev_event_type :: string
  ev_actor_id :: string
  ev_reason_code :: string
  ev_correlation_id :: string
  ev_created_at :: int
  ev_metadata :: "(string, json) dict"

record DpmWaveHandoffRef =
  handoff_ref_id :: string
  hr_wave_id :: string
  hr_item_ids :: "string list"
  hr_actor_id :: string
  hr_reason_code :: string
  hr_correlation_id :: string
  external_execution_claimed :: bool
  hr_content_hash :: string
  hr_created_at :: int
  hr_metadata :: "(string, json) dict"

record DpmWaveTrigger =
  trigger_type :: string
  trigger_id :: string
  trigger_rationale :: string
  trigger_source_refs :: "DpmWaveSourceRef list"

record DpmRebalanceWave =
  wave_id :: string
  wave_version :: string
  wave_state :: WaveState
  wave_trigger :: DpmWaveTrigger
  wave_as_of_date :: string
  wave_created_at :: int
  wave_created_by :: string
  wave_correlation_id :: string
  wave_tenant_id :: "string option"
  version :: nat
  items :: "DpmRebalanceWaveItem list"
  aggregate_metrics :: DpmWaveAggregateMetrics
  events :: "DpmRebalanceWaveEvent list"
  handoff_refs :: "DpmWaveHandoffRef list"
  retention_policy :: string

text \<open>The exceptions of the wave services, with their codes.\<close>

datatype wave_error =
    DpmWaveInvalidTransitionError string
  | DpmWaveValidationError string
  | DpmWaveLookupError string
  | DpmWaveVersionConflictError
  | DpmWaveIdempotencyConflictError
  | DpmWaveCorrelationConflictError
  | DpmWaveAlreadyExistsError
  | DpmWaveSimulationOperationConflictError string
  | WaveKeyError
  | PydanticValidationError
  | WaveServiceException string

type_synonym 'a wave_result = "wave_error + 'a"

fun ALLOWED_WAVE_TRANSITIONS :: "WaveState \<Rightarrow> WaveState list" where
  "ALLOWED_WAVE_TRANSITIONS DRAFT = [PREVIEWED, CANCELLED]"
| "ALLOWED_WAVE_TRANSITIONS PREVIEWED = [CREATED, CANCELLED]"
| "ALLOWED_WAVE_TRANSITIONS CREATED = [SOURCE_CHECKED, CANCELLED]"
| "ALLOWED_WAVE_TRANSITIONS SOURCE_CHECKED = [SIMULATING, REVIEW_REQUIRED, WAVE_BLOCKED, CANCELLED]"
| "ALLOWED_WAVE_TRANSITIONS SIMULATING = [SIMULATED, PARTIALLY_SIMULATED, SIMULATION_FAILED]"
| "ALLOWED_WAVE_TRANSITIONS SIMULATED = [REVIEW_REQUIRED, WAVE_APPROVED, CANCELLED]"
| "ALLOWED_WAVE_TRANSITIONS PARTIALLY_SIMULATED = [REVIEW_REQUIRED, APPROVED_WITH_EXCEPTIONS, CANCELLED]"
| "ALLOWED_WAVE_TRANSITIONS REVIEW_REQUIRED = [WAVE_APPROVED, APPROVED_WITH_EXCEPTIONS, REJECTED, CANCELLED]"
| "ALLOWED_WAVE_TRANSITIONS WAVE_APPROVED = [STAGED, CANCELLED]"
| "ALLOWED_WAVE_TRANSITIONS APPROVED_WITH_EXCEPTIONS = [STAGED, CANCELLED]"
| "ALLOWED_WAVE_TRANSITIONS STAGED = [HANDOFF_READY, HANDOFF_BLOCKED, CANCELLED]"
| "ALLOWED_WAVE_TRANSITIONS HANDOFF_READY = [HANDOFF_ACKNOWLEDGED, CLOSED]"
| "ALLOWED_WAVE_TRANSITIONS HANDOFF_BLOCKED = [SOURCE_CHECKED, CANCELLED]"
| "ALLOWED_WAVE_TRANSITIONS SIMULATION_FAILED = [SOURCE_CHECKED, CANCELLED]"
| "ALLOWED_WAVE_TRANSITIONS WAVE_BLOCKED = [SOURCE_CHECKED, CANCELLED]"
| "ALLOWED_WAVE_TRANSITIONS REJECTED = [CLOSED]"
| "ALLOWED_WAVE_TRANSITIONS CANCELLED = [CLOSED]"
| "ALLOWED_WAVE_TRANSITIONS HANDOFF_ACKNOWLEDGED = [CLOSED]"
| "ALLOWED_WAVE_TRANSITIONS CLOSED = []"

definition validate_wave_transition :: "WaveState \<Rightarrow> WaveState \<Rightarrow> unit wave_result" where
  "validate_wave_transition from_state to_state =
     (if to_state \<notin> set (ALLOWED_WAVE_TRANSITIONS from_state)
      then Inl (DpmWaveInvalidTransitionError ''DPM_WAVE_INVALID_TRANSITION'') else Inr ())"

definition apply_wave_transition ::
  "DpmRebalanceWave \<Rightarrow> WaveState \<Rightarrow> DpmRebalanceWaveEvent \<Rightarrow> DpmRebalanceWave wave_result" where
  "apply_wave_transition wave to_state event =
     (case validate_wave_transition (wave_state wave) to_state of
        Inl e \<Rightarrow> Inl e
      | Inr _ \<Rightarrow>
          if ev_wave_id event \<noteq> wave_id wave
          then Inl (DpmWaveInvalidTransitionError ''DPM_WAVE_EVENT_WAVE_MISMATCH'')
          else if ev_from_state event \<noteq> Some (wave_state wave)
          then Inl (DpmWaveInvalidTransitionError ''DPM_WAVE_EVENT_FROM_STATE_MISMATCH'')
          else if ev_to_state event \<noteq> to_state
          then Inl (DpmWaveInvalidTransitionError ''DPM_WAVE_EVENT_TO_STATE_MISMATCH'')
          else Inr (wave\<lparr> wave_state := to_state, version := version wave + 1,
                          events := events wave @ [event] \<rparr>))"

text \<open>Work on one item is recorded without a change of state (\<open>wave_event_append.py\<close>).\<close>

definition append_same_state_event ::
  "DpmRebalanceWave \<Rightarrow> DpmRebalanceWaveEvent \<Rightarrow> DpmRebalanceWave wave_result" where
  "append_same_state_event wave event =
     (if ev_wave_id event \<noteq> wave_id wave
      then Inl (DpmWaveValidationError ''DPM_WAVE_EVENT_WAVE_MISMATCH'')
      else if ev_from_state event \<noteq> Some (wave_state wave) \<or> ev_to_state event \<noteq> wave_state wave
      then Inl (DpmWaveValidationError ''DPM_WAVE_EVENT_STATE_MISMATCH'')
      else Inr (wave\<lparr> version := version wave + 1, events := events wave @ [event] \<rparr>))"


section \<open>Lemmas\<close>

abbreviation wave_edge :: "WaveState \<Rightarrow> WaveState \<Rightarrow> bool" where
  "wave_edge s t \<equiv> t \<in> set (ALLOWED_WAVE_TRANSITIONS s)"

lemma apply_wave_transition_iff:
  "apply_wave_transition wave to_state event = Inr wave' \<longleftrightarrow>
     wave_edge (wave_state wave) to_state \<and> ev_wave_id event = wave_id wave
     \<and> ev_from_state event = Some (wave_state wave) \<and> ev_to_state event = to_state
     \<and> wave' = wave\<lparr> wave_state := to_state, version := version wave + 1, events := events wave @ [event] \<rparr>"
  by (auto simp: apply_wave_transition_def validate_wave_transition_def)

lemma apply_wave_transition_error:
  "apply_wave_transition wave to_state event = Inl e \<Longrightarrow> \<exists>code. e = DpmWaveInvalidTransitionError code"
  by (auto simp: apply_wave_transition_def validate_wave_transition_def split: if_splits)

text \<open>A chain of events from a state to a state along allowed transitions.\<close>

fun event_chain :: "WaveState \<Rightarrow> DpmRebalanceWaveEvent list \<Rightarrow> WaveState \<Rightarrow> bool" where
  "event_chain s [] t \<longleftrightarrow> s = t"
| "event_chain s (e # es) t \<longleftrightarrow>
     ev_from_state e = Some s \<and> wave_edge s (ev_to_state e) \<and> event_chain (ev_to_state e) es t"

lemma event_chain_append:
  "event_chain s (es @ [e]) t \<longleftrightarrow>
     (\<exists>m. event_chain s es m \<and> ev_from_state e = Some m \<and> wave_edge m (ev_to_state e) \<and> ev_to_state e = t)"
  by (induction es arbitrary: s) auto

text \<open>The same, with events that record work in a state.\<close>

fun event_trail :: "WaveState \<Rightarrow> DpmRebalanceWaveEvent list \<Rightarrow> WaveState \<Rightarrow> bool" where
  "event_trail s [] t \<longleftrightarrow> s = t"
| "event_trail s (e # es) t \<longleftrightarrow>
     ev_from_state e = Some s \<and> (wave_edge s (ev_to_state e) \<or> ev_to_state e = s) \<and> event_trail (ev_to_state e) es t"

lemma event_trail_append:
  "event_trail s (es @ [e]) t \<longleftrightarrow>
     (\<exists>m. event_trail s es m \<and> ev_from_state e = Some m \<and> (wave_edge m (ev_to_state e) \<or> ev_to_state e = m)
        \<and> ev_to_state e = t)"
  by (induction es arbitrary: s) auto

lemma event_trail_renamed: "event_trail s (map (\<lambda>e. e\<lparr> ev_wave_id := i \<rparr>) es) t \<longleftrightarrow> event_trail s es t"
  by (induction es arbitrary: s) auto

lemma append_same_state_event_iff:
  "append_same_state_event wave event = Inr wave' \<longleftrightarrow>
     ev_wave_id event = wave_id wave \<and> ev_from_state event = Some (wave_state wave) \<and> ev_to_state event = wave_state wave
     \<and> wave' = wave\<lparr> version := version wave + 1, events := events wave @ [event] \<rparr>"
  by (auto simp: append_same_state_event_def)

text \<open>
  The waves the services produce from a fresh draft. A transition and an event in the same state are
  recorded; the contents of a wave are edited before its new version is built; promotion gives the
  wave and its events their identifier; and the reconciliation of a running simulation stores new
  items under a new version without an event.
\<close>

definition edited_wave :: "DpmRebalanceWave \<Rightarrow> DpmRebalanceWave \<Rightarrow> bool" where
  "edited_wave w w' \<longleftrightarrow>
     (\<exists>its metrics refs tenant.
        w' = w\<lparr> items := its, aggregate_metrics := metrics, handoff_refs := refs, wave_tenant_id := tenant \<rparr>)"

inductive wave_reachable :: "DpmRebalanceWave \<Rightarrow> DpmRebalanceWave \<Rightarrow> bool" for w0 where
  start: "wave_state w0 = DRAFT \<Longrightarrow> version w0 = 1 \<Longrightarrow> events w0 = [] \<Longrightarrow> wave_reachable w0 w0"
| transition: "wave_reachable w0 w \<Longrightarrow> apply_wave_transition w to_state event = Inr w' \<Longrightarrow> wave_reachable w0 w'"
| same_state: "wave_reachable w0 w \<Longrightarrow> append_same_state_event w event = Inr w' \<Longrightarrow> wave_reachable w0 w'"
| edited: "wave_reachable w0 w \<Longrightarrow> edited_wave w w' \<Longrightarrow> wave_reachable w0 w'"
| promoted: "wave_reachable w0 w \<Longrightarrow>
    wave_reachable w0 (w\<lparr> wave_id := i, events := map (\<lambda>e. e\<lparr> ev_wave_id := i \<rparr>) (events w) \<rparr>)"
| reconciled: "wave_reachable w0 w \<Longrightarrow> wave_state w = SIMULATING \<Longrightarrow> wave_reachable w0 (w\<lparr> version := version w + 1 \<rparr>)"

text \<open>Which states a chain has gone through, and what of a wave never changes.\<close>

definition entered :: "DpmRebalanceWaveEvent list \<Rightarrow> WaveState set" where
  "entered es = ev_to_state ` set es"

definition wave_identity :: "DpmRebalanceWave \<Rightarrow> DpmWaveTrigger \<times> string \<times> int \<times> string \<times> string \<times> string" where
  "wave_identity w =
     (wave_trigger w, wave_as_of_date w, wave_created_at w, wave_created_by w, wave_correlation_id w, retention_policy w)"

definition audit_trail :: "DpmRebalanceWave \<Rightarrow> DpmRebalanceWave \<Rightarrow> bool" where
  "audit_trail w0 w \<longleftrightarrow>
     event_trail DRAFT (events w) (wave_state w) \<and> (\<forall>e \<in> set (events w). ev_wave_id e = wave_id w)
     \<and> 1 + length (events w) \<le> version w \<and> (version w = 1 + length (events w) \<or> SIMULATING \<in> entered (events w))
     \<and> wave_identity w = wave_identity w0"

lemma event_trail_enters: "event_trail s es t \<Longrightarrow> t = s \<or> t \<in> entered es"
  by (induction es arbitrary: s) (auto simp: entered_def)

lemma entered_simps [simp]:
  "entered (es @ [e]) = insert (ev_to_state e) (entered es)"
  "entered (map (\<lambda>e. e\<lparr> ev_wave_id := i \<rparr>) es) = entered es"
  by (auto simp: entered_def image_image)

lemma edited_wave_fields:
  assumes "edited_wave w w'"
  shows "events w' = events w" "wave_state w' = wave_state w" "wave_id w' = wave_id w" "version w' = version w"
    "wave_identity w' = wave_identity w"
  using assms by (auto simp: edited_wave_def wave_identity_def)

lemma wave_reachable_audit: "wave_reachable w0 w \<Longrightarrow> audit_trail w0 w"
proof (induction rule: wave_reachable.induct)
  case start
  then show ?case by (simp add: audit_trail_def)
next
  case (transition w to_state event w')
  then show ?case by (auto simp: audit_trail_def apply_wave_transition_iff event_trail_append wave_identity_def)
next
  case (same_state w event w')
  then show ?case by (auto simp: audit_trail_def append_same_state_event_iff event_trail_append wave_identity_def)
next
  case (edited w w')
  then show ?case by (simp add: audit_trail_def edited_wave_fields)
next
  case (promoted w i)
  then show ?case by (auto simp: audit_trail_def event_trail_renamed wave_identity_def)
next
  case (reconciled w)
  then show ?case using event_trail_enters [of DRAFT "events w" SIMULATING]
    by (auto simp: audit_trail_def wave_identity_def)
qed

definition approvals :: "WaveState set" where
  "approvals = {WAVE_APPROVED, APPROVED_WITH_EXCEPTIONS}"

text \<open>What the trail of a state must contain: every state is guarded by what its own predecessors require.\<close>

definition requires_source_check :: "WaveState \<Rightarrow> bool" where
  "requires_source_check s \<longleftrightarrow> s \<notin> set [DRAFT, PREVIEWED, CREATED, CANCELLED, CLOSED]"

definition requires_approval :: "WaveState \<Rightarrow> bool" where
  "requires_approval s \<longleftrightarrow>
     s \<in> set [WAVE_APPROVED, APPROVED_WITH_EXCEPTIONS, STAGED, HANDOFF_READY, HANDOFF_BLOCKED, HANDOFF_ACKNOWLEDGED]"

lemma edge_requires_all:
  "\<forall>t \<in> set (ALLOWED_WAVE_TRANSITIONS s).
     (requires_source_check t \<longrightarrow> t = SOURCE_CHECKED \<or> requires_source_check s)
     \<and> (requires_approval t \<longrightarrow> t = WAVE_APPROVED \<or> t = APPROVED_WITH_EXCEPTIONS \<or> requires_approval s)"
  by (cases s) (simp_all add: requires_source_check_def requires_approval_def)

lemma edge_requires:
  "wave_edge s t \<Longrightarrow> requires_source_check t \<Longrightarrow> t = SOURCE_CHECKED \<or> requires_source_check s"
  "wave_edge s t \<Longrightarrow> requires_approval t \<Longrightarrow> t \<in> approvals \<or> requires_approval s"
  using edge_requires_all [of s] by (auto simp: approvals_def)

lemma trail_requires:
  assumes "event_trail DRAFT es t"
  shows "requires_source_check t \<longrightarrow> SOURCE_CHECKED \<in> entered es"
    and "requires_approval t \<longrightarrow> entered es \<inter> approvals \<noteq> {}"
  using assms
proof (induction es arbitrary: t rule: rev_induct)
  case Nil
  { case 1 then show ?case by (auto simp: requires_source_check_def) }
  { case 2 then show ?case by (auto simp: requires_approval_def) }
next
  case (snoc e es)
  { case 1
    then obtain m where m: "event_trail DRAFT es m" "wave_edge m t \<or> t = m" "ev_to_state e = t"
      by (auto simp: event_trail_append)
    with snoc.IH(1) [OF m(1)] edge_requires(1) [where s = m and t = t] show ?case by (cases "t = m") auto }
  { case 2
    then obtain m where m: "event_trail DRAFT es m" "wave_edge m t \<or> t = m" "ev_to_state e = t"
      by (auto simp: event_trail_append)
    with snoc.IH(2) [OF m(1)] edge_requires(2) [where s = m and t = t] show ?case by (cases "t = m") auto }
qed

text \<open>Every state has a way to the end.\<close>

lemma wave_edge_closes: "wave_edge\<^sup>*\<^sup>* s CLOSED"
proof -
  have cancelled: "wave_edge\<^sup>*\<^sup>* CANCELLED CLOSED" by (rule r_into_rtranclp) simp
  have via: "wave_edge\<^sup>*\<^sup>* t CLOSED" if "CANCELLED \<in> set (ALLOWED_WAVE_TRANSITIONS t)" for t
    using converse_rtranclp_into_rtranclp [of wave_edge t CANCELLED CLOSED] that cancelled by simp
  have direct: "wave_edge\<^sup>*\<^sup>* t CLOSED" if "CLOSED \<in> set (ALLOWED_WAVE_TRANSITIONS t)" for t
    using that by (intro r_into_rtranclp) simp
  have "wave_edge\<^sup>*\<^sup>* SIMULATING CLOSED"
    using converse_rtranclp_into_rtranclp [of wave_edge SIMULATING SIMULATED CLOSED] via [of SIMULATED] by simp
  then show ?thesis by (cases s) (simp_all add: via direct)
qed


definition wave_step :: "DpmRebalanceWave \<Rightarrow> DpmRebalanceWave \<Rightarrow> bool" where
  "wave_step w w' \<longleftrightarrow> (\<exists>to_state event. apply_wave_transition w to_state event = Inr w')"

definition transition_event :: "DpmRebalanceWave \<Rightarrow> WaveState \<Rightarrow> DpmRebalanceWaveEvent" where
  "transition_event w t =
     \<lparr> ev_event_id = ''dwe_1'', ev_wave_id = wave_id w, ev_from_state = Some (wave_state w), ev_to_state = t,
       ev_event_type = ''STATE_TRANSITION'', ev_actor_id = ''pm_001'', ev_reason_code = ''R'',
       ev_correlation_id = ''c'', ev_created_at = 0, ev_metadata = [] \<rparr>"

lemma wave_edge_step:
  assumes "wave_edge (wave_state w) t"
  shows "\<exists>w'. wave_step w w' \<and> wave_state w' = t"
proof -
  have "apply_wave_transition w t (transition_event w t)
      = Inr (w\<lparr> wave_state := t, version := version w + 1, events := events w @ [transition_event w t] \<rparr>)"
    using assms by (simp add: apply_wave_transition_iff transition_event_def)
  then show ?thesis unfolding wave_step_def by (intro exI conjI) (assumption, simp)
qed

lemma wave_edges_steps:
  assumes "wave_edge\<^sup>*\<^sup>* s t" and "wave_state w = s"
  shows "\<exists>w'. wave_step\<^sup>*\<^sup>* w w' \<and> wave_state w' = t"
  using assms
proof (induction rule: rtranclp_induct)
  case (step y z)
  then obtain w1 where "wave_step\<^sup>*\<^sup>* w w1" "wave_state w1 = y" by blast
  with wave_edge_step [where w = w1 and t = z] step(2) show ?case by (meson rtranclp.rtrancl_into_rtrancl)
qed auto

definition sample_draft :: DpmRebalanceWave where
  "sample_draft =
     \<lparr> wave_id = ''dwv_1'', wave_version = ''1.0.0'', wave_state = DRAFT,
       wave_trigger = \<lparr> trigger_type = ''PM_BOOK_REVIEW'', trigger_id = ''r1'', trigger_rationale = ''review'',
         trigger_source_refs = [] \<rparr>,
       wave_as_of_date = ''2026-05-03'', wave_created_at = 0, wave_created_by = ''pm_001'', wave_correlation_id = ''c'',
       wave_tenant_id = Some ''t1'', version = 1, items = [],
       aggregate_metrics = \<lparr> item_count = 0, state_counts = [], ready_item_count = 0,
         blocked_item_count = 0, review_required_item_count = 0, source_degraded_item_count = 0 \<rparr>,
       events = [], handoff_refs = [], retention_policy = ''DPM_WAVE_STANDARD'' \<rparr>"

text \<open>A draft driven along a list of states, for the examples.\<close>

fun drive :: "DpmRebalanceWave \<Rightarrow> WaveState list \<Rightarrow> DpmRebalanceWave" where
  "drive w [] = w"
| "drive w (t # ts) =
     (case apply_wave_transition w t (transition_event w t) of Inl _ \<Rightarrow> w | Inr w' \<Rightarrow> drive w' ts)"

lemma drive_reachable: "wave_reachable w0 w \<Longrightarrow> wave_reachable w0 (drive w ts)"
  by (induction ts arbitrary: w) (auto split: sum.splits intro: wave_reachable.transition)

lemma sample_reachable: "wave_reachable sample_draft (drive sample_draft ts)"
  by (rule drive_reachable, rule wave_reachable.start) (simp_all add: sample_draft_def)


section \<open>Properties\<close>

text \<open>
  C39. The history of a wave. Whatever the services do to a wave that starts as a draft (transitions,
  recorded work in a state, edits of its items, metrics, handoff references and tenant, promotion
  under its identifier, the unrecorded versions of a running simulation), its events name this wave
  and lead from \<open>DRAFT\<close> to the current state by allowed transitions and events that keep the state.
  The version is at least one more than the number of events, and exactly that unless the wave has been
  \<open>SIMULATING\<close>; trigger, date, author, correlation and retention never change. A wave that is staged or
  handed off has been source checked and approved, with or without exceptions, and both are on record.
\<close>

theorem wave_history:
  assumes "wave_reachable w0 w"
  shows "event_trail DRAFT (events w) (wave_state w) \<and> (\<forall>e \<in> set (events w). ev_wave_id e = wave_id w)
    \<and> 1 + length (events w) \<le> version w \<and> (version w = 1 + length (events w) \<or> SIMULATING \<in> entered (events w))
    \<and> wave_identity w = wave_identity w0
    \<and> (wave_state w \<in> {STAGED, HANDOFF_READY, HANDOFF_BLOCKED, HANDOFF_ACKNOWLEDGED} \<longrightarrow>
         SOURCE_CHECKED \<in> entered (events w)
         \<and> (WAVE_APPROVED \<in> entered (events w) \<or> APPROVED_WITH_EXCEPTIONS \<in> entered (events w)))"
proof -
  have audit: "audit_trail w0 w" by (rule wave_reachable_audit [OF assms])
  then have trail: "event_trail DRAFT (events w) (wave_state w)" by (simp add: audit_trail_def)
  have "requires_source_check (wave_state w)" and "requires_approval (wave_state w)"
    if "wave_state w \<in> {STAGED, HANDOFF_READY, HANDOFF_BLOCKED, HANDOFF_ACKNOWLEDGED}"
    using that by (auto simp: requires_source_check_def requires_approval_def)
  with trail_requires [OF trail] audit show ?thesis unfolding audit_trail_def approvals_def by blast
qed

text \<open>A wave that was simulated, reconciled once without an event, selected, approved and staged.\<close>

definition sample_simulating :: DpmRebalanceWave where
  "sample_simulating =
     (let w = drive sample_draft [PREVIEWED, CREATED, SOURCE_CHECKED, SIMULATING]
      in w\<lparr> version := version w + 1 \<rparr>)"

definition record_work :: "DpmRebalanceWave \<Rightarrow> DpmRebalanceWave" where
  "record_work w = (case append_same_state_event w (transition_event w (wave_state w)) of Inl _ \<Rightarrow> w | Inr w' \<Rightarrow> w')"

definition sample_staged :: DpmRebalanceWave where
  "sample_staged = drive (record_work (drive sample_simulating [SIMULATED])) [WAVE_APPROVED, STAGED]"

lemma sample_simulating_state: "wave_state (drive sample_draft [PREVIEWED, CREATED, SOURCE_CHECKED, SIMULATING]) = SIMULATING"
  by code_simp

lemma record_work_reachable: "wave_reachable w0 w \<Longrightarrow> wave_reachable w0 (record_work w)"
  by (auto simp: record_work_def split: sum.splits intro: wave_reachable.same_state)

lemma sample_staged_reachable: "wave_reachable sample_draft sample_staged"
  unfolding sample_staged_def sample_simulating_def Let_def
  by (intro drive_reachable record_work_reachable wave_reachable.reconciled sample_reachable sample_simulating_state)

theorem wave_history_witness:
  "wave_state sample_staged = STAGED \<and> length (events sample_staged) = 8 \<and> version sample_staged = 10
    \<and> event_trail DRAFT (events sample_staged) STAGED \<and> SOURCE_CHECKED \<in> entered (events sample_staged)"
proof -
  have staged: "wave_state sample_staged = STAGED" by code_simp
  have counts: "length (events sample_staged) = 8" "version sample_staged = 10" by code_simp+
  from wave_history [OF sample_staged_reachable] staged counts show ?thesis by auto
qed

text \<open>
  Every wave can be brought to \<open>CLOSED\<close>, and a closed wave accepts no transition at all.
\<close>

theorem wave_closes:
  "(\<exists>w'. wave_step\<^sup>*\<^sup>* w w' \<and> wave_state w' = CLOSED) \<and> (wave_state w = CLOSED \<longrightarrow> \<not> wave_step w w1)"
  using wave_edges_steps [OF wave_edge_closes refl, of w]
  by (auto simp: wave_step_def apply_wave_transition_iff)

theorem wave_closes_witness: "\<not> wave_step (sample_draft\<lparr> wave_state := CLOSED \<rparr>) sample_draft"
  using wave_closes [of "sample_draft\<lparr> wave_state := CLOSED \<rparr>" sample_draft] by simp

end
