(* ===== verification/Wave_Simulation_Models.thy ===== *)
theory Wave_Simulation_Models
  imports Wave_State_Machine
begin

text \<open>
  Durable wave simulation, the records (\<open>src/src/core/waves/simulation_operations.py\<close>,
  \<open>src/src/core/risk_authority/context.py\<close>): an operation with its immutable admission, one work
  item per wave item with a fenced lease, and the status an operation derives from its items. The
  fingerprint of a risk context, a hash of its canonical JSON, is the argument \<open>fingerprint\<close>.
\<close>


section \<open>Definitions\<close>

datatype WaveSimulationOperationStatus =
    OP_PENDING | OP_RUNNING | OP_PARTIALLY_COMPLETED | OP_SUCCEEDED | OP_FAILED | OP_CANCEL_REQUESTED
  | OP_CANCELLED

datatype WaveSimulationItemStatus =
    SIM_PENDING | SIM_RUNNING | SIM_SUCCEEDED | SIM_FAILED | SIM_CANCELLED

record RiskAuthorityGrant =
  grant_operation :: string
  grant_capability :: string

record RiskAuthorityContext =
  rac_authority_basis :: string
  rac_actor_id :: string
  rac_tenant_id :: string
  rac_role :: string
  rac_correlation_id :: string
  rac_service_identity :: string
  rac_policy_fingerprint :: string
  rac_grants :: "RiskAuthorityGrant list"

record DpmWaveSimulationOperation =
  op_operation_id :: string
  op_tenant_id :: string
  op_wave_id :: string
  op_request_hash :: string
  op_idempotency_key_hash :: string
  op_correlation_id :: string
  op_actor_id :: string
  op_risk_authority_context :: "RiskAuthorityContext option"
  op_risk_authority_context_hash :: "string option"
  op_source_identity_hash :: string
  op_admitted_wave_version :: nat
  op_methods :: "string list"
  op_max_concurrency :: nat
  op_max_attempts :: nat
  op_status :: WaveSimulationOperationStatus
  op_cancel_reason_code :: "string option"
  op_created_at :: int
  op_updated_at :: int

definition validate_risk_authority_custody ::
  "(RiskAuthorityContext \<Rightarrow> string) \<Rightarrow> DpmWaveSimulationOperation \<Rightarrow> DpmWaveSimulationOperation result" where
  "validate_risk_authority_custody fingerprint operation =
     (case op_risk_authority_context operation of
        None \<Rightarrow>
          if op_risk_authority_context_hash operation \<noteq> None
          then Inl (ValidationError ''Missing retained Risk authority context'') else Inr operation
      | Some context \<Rightarrow>
          if Some (fingerprint context) \<noteq> op_risk_authority_context_hash operation
             \<or> rac_actor_id context \<noteq> op_actor_id operation
             \<or> rac_tenant_id context \<noteq> op_tenant_id operation
             \<or> rac_correlation_id context \<noteq> op_correlation_id operation
          then Inl (ValidationError ''Retained Risk authority context conflicts with operation custody'')
          else Inr operation)"

record DpmWaveSimulationItemRecord =
  si_operation_id :: string
  si_tenant_id :: string
  si_wave_id :: string
  si_wave_item_id :: string
  si_ordinal :: nat
  si_portfolio_id :: string
  si_input_payload :: "(string, json) dict"
  si_input_hash :: string
  si_source_identity_hash :: string
  si_status :: WaveSimulationItemStatus
  si_attempt_count :: nat
  si_claim_generation :: nat
  si_worker_id :: "string option"
  si_claim_token :: "string option"
  si_claimed_at :: "int option"
  si_lease_expires_at :: "int option"
  si_result_item :: "DpmRebalanceWaveItem option"
  si_error_code :: "string option"
  si_error_message :: "string option"
  si_retryable :: bool
  si_completed_at :: "int option"
  si_updated_at :: int

record DpmWaveSimulationItemClaim =
  cl_operation_id :: string
  cl_tenant_id :: string
  cl_wave_id :: string
  cl_wave_item_id :: string
  cl_portfolio_id :: string
  cl_input_payload :: "(string, json) dict"
  cl_input_hash :: string
  cl_source_identity_hash :: string
  cl_worker_id :: string
  cl_claim_token :: string
  cl_claim_generation :: nat
  cl_attempt_count :: nat
  cl_lease_expires_at :: int
  cl_recovery_exhausted :: bool

record DpmWaveSimulationItemPage =
  page_items :: "DpmWaveSimulationItemRecord list"
  page_total_count :: nat
  page_next_offset :: "nat option"

definition wave_simulation_item_is_retryable ::
  "DpmWaveSimulationOperation \<Rightarrow> DpmWaveSimulationItemRecord \<Rightarrow> bool" where
  "wave_simulation_item_is_retryable operation item \<longleftrightarrow>
     si_status item = SIM_FAILED \<and> si_retryable item \<and> si_attempt_count item < op_max_attempts operation"

definition derive_wave_simulation_operation_status_from_counts ::
  "DpmWaveSimulationOperation \<Rightarrow> nat \<Rightarrow> nat \<Rightarrow> nat \<Rightarrow> nat \<Rightarrow> nat \<Rightarrow> nat \<Rightarrow> nat
     \<Rightarrow> WaveSimulationOperationStatus" where
  "derive_wave_simulation_operation_status_from_counts operation total_count pending running succeeded failed
       cancelled retry_waiting =
     (if op_cancel_reason_code operation \<noteq> None
      then if running \<noteq> 0 then OP_CANCEL_REQUESTED else OP_CANCELLED
      else if running \<noteq> 0 then OP_RUNNING
      else if pending \<noteq> 0 \<or> retry_waiting \<noteq> 0
      then if succeeded \<noteq> 0 \<or> failed \<noteq> 0 then OP_PARTIALLY_COMPLETED else OP_PENDING
      else if succeeded = total_count then OP_SUCCEEDED
      else if failed = total_count then OP_FAILED
      else if succeeded \<noteq> 0 \<or> failed \<noteq> 0 then OP_PARTIALLY_COMPLETED
      else if cancelled = total_count then OP_CANCELLED else OP_PENDING)"

definition derive_wave_simulation_operation_status ::
  "DpmWaveSimulationOperation \<Rightarrow> DpmWaveSimulationItemRecord list \<Rightarrow> WaveSimulationOperationStatus" where
  "derive_wave_simulation_operation_status operation recs =
     (let statuses = map si_status recs
      in derive_wave_simulation_operation_status_from_counts operation (length statuses)
           (count_list statuses SIM_PENDING) (count_list statuses SIM_RUNNING)
           (count_list statuses SIM_SUCCEEDED) (count_list statuses SIM_FAILED)
           (count_list statuses SIM_CANCELLED)
           (length (filter (wave_simulation_item_is_retryable operation) recs)))"


section \<open>Lemmas\<close>

text \<open>What each derived status says about the items.\<close>

lemma count_list_map_pos:
  "count_list (map f xs) y \<noteq> 0 \<longleftrightarrow> (\<exists>x \<in> set xs. f x = y)"
  by (auto simp: count_list_0_iff)

lemma count_list_all: "count_list xs y = length xs \<longleftrightarrow> (\<forall>x \<in> set xs. x = y)"
proof (induction xs)
  case (Cons a xs)
  have "count_list xs y \<le> length xs" by (rule count_le_length)
  with Cons show ?case by auto
qed simp

definition item_outstanding :: "DpmWaveSimulationOperation \<Rightarrow> DpmWaveSimulationItemRecord \<Rightarrow> bool" where
  "item_outstanding operation item \<longleftrightarrow>
     si_status item \<in> {SIM_PENDING, SIM_RUNNING} \<or> wave_simulation_item_is_retryable operation item"

lemmas derive_status_defs =
  derive_wave_simulation_operation_status_def derive_wave_simulation_operation_status_from_counts_def

lemma derive_status_cancel:
  "op_cancel_reason_code operation \<noteq> None \<Longrightarrow>
     derive_wave_simulation_operation_status operation recs
       = (if \<exists>i \<in> set recs. si_status i = SIM_RUNNING then OP_CANCEL_REQUESTED else OP_CANCELLED)"
  unfolding derive_status_defs Let_def count_list_map_pos by simp

lemma filter_length_nonzero: "length (filter P xs) \<noteq> 0 \<longleftrightarrow> (\<exists>x \<in> set xs. P x)"
  by (induction xs) auto

lemma derive_status_eq:
  assumes "op_cancel_reason_code operation = None"
  shows "derive_wave_simulation_operation_status operation recs =
    (if \<exists>i \<in> set recs. si_status i = SIM_RUNNING then OP_RUNNING
     else if \<exists>i \<in> set recs. item_outstanding operation i
     then if \<exists>i \<in> set recs. si_status i \<in> {SIM_SUCCEEDED, SIM_FAILED} then OP_PARTIALLY_COMPLETED else OP_PENDING
     else if \<forall>i \<in> set recs. si_status i = SIM_SUCCEEDED then OP_SUCCEEDED
     else if \<forall>i \<in> set recs. si_status i = SIM_FAILED then OP_FAILED
     else if \<exists>i \<in> set recs. si_status i \<in> {SIM_SUCCEEDED, SIM_FAILED} then OP_PARTIALLY_COMPLETED
     else OP_CANCELLED)"
proof -
  let ?some = "\<lambda>s. \<exists>i \<in> set recs. si_status i = s" and ?all = "\<lambda>s. \<forall>i \<in> set recs. si_status i = s"
  let ?retry = "\<exists>i \<in> set recs. wave_simulation_item_is_retryable operation i"
  let ?out = "\<exists>i \<in> set recs. item_outstanding operation i"
  let ?settled = "\<exists>i \<in> set recs. si_status i \<in> {SIM_SUCCEEDED, SIM_FAILED}"
  have all: "count_list (map si_status recs) s = length (map si_status recs) \<longleftrightarrow> ?all s" for s
    unfolding count_list_all by simp
  have derived: "derive_wave_simulation_operation_status operation recs =
    (if ?some SIM_RUNNING then OP_RUNNING
     else if ?some SIM_PENDING \<or> ?retry
     then if ?some SIM_SUCCEEDED \<or> ?some SIM_FAILED then OP_PARTIALLY_COMPLETED else OP_PENDING
     else if ?all SIM_SUCCEEDED then OP_SUCCEEDED else if ?all SIM_FAILED then OP_FAILED
     else if ?some SIM_SUCCEEDED \<or> ?some SIM_FAILED then OP_PARTIALLY_COMPLETED
     else if ?all SIM_CANCELLED then OP_CANCELLED else OP_PENDING)"
    unfolding derive_status_defs Let_def count_list_map_pos filter_length_nonzero all using assms by simp
  have out: "\<not> ?some SIM_RUNNING \<Longrightarrow> (?some SIM_PENDING \<or> ?retry) = ?out"
    unfolding item_outstanding_def by blast
  have settled: "(?some SIM_SUCCEEDED \<or> ?some SIM_FAILED) = ?settled" by blast
  have rest: "?all SIM_CANCELLED" if "\<not> ?out" "\<not> ?settled"
  proof
    fix i assume "i \<in> set recs"
    with that show "si_status i = SIM_CANCELLED" by (cases "si_status i") (auto simp: item_outstanding_def)
  qed
  show ?thesis
  proof (cases "?some SIM_RUNNING")
    case False
    from derived [unfolded out [OF False] settled] False rest show ?thesis by presburger
  qed (simp add: derived)
qed

end
