(* ===== verification/Derived_Identity.thy ===== *)
theory Derived_Identity
  imports Prelude
begin

text \<open>
  Keys derived from several identifiers (\<open>src/src/core/common/derived_identity.py\<close>). The hash is
  the argument \<open>sha256\<close> (hexadecimal digest of the bytes fed to it); strings are taken as their
  encoded bytes. The length prefixes make the hashed text unambiguous.
\<close>


section \<open>Definitions\<close>

definition identity_preimage :: "string list \<Rightarrow> string" where
  "identity_preimage components = concat (map (\<lambda>c. nat_str (length c) @ '':'' @ c) components)"

definition derived_identity :: "(string \<Rightarrow> string) \<Rightarrow> string \<Rightarrow> string list \<Rightarrow> string" where
  "derived_identity sha256 prefix components =
     prefix @ ''_'' @ take 32 (sha256 (identity_preimage components))"


section \<open>Lemmas\<close>

lemma nat_str_no_colon: "CHR '':'' \<notin> set (nat_str n)"
proof (induction n rule: nat_str.induct)
  case (1 n)
  have digit: "CHR '':'' \<noteq> digit_char k" if "k < 10" for k
  proof -
    have "of_char (digit_char k) = (48 + k :: nat)"
      using that by (simp add: digit_char_def of_char_of take_bit_eq_mod)
    moreover have "of_char (CHR '':'') = (58 :: nat)" by simp
    ultimately have "of_char (CHR '':'') \<noteq> (of_char (digit_char k) :: nat)" using that by linarith
    then show ?thesis by metis
  qed
  show ?case using 1 digit [of n] digit [of "n mod 10"] by (subst nat_str.simps) simp
qed

lemma split_at_colon:
  assumes "nat_str m @ CHR '':'' # xs = nat_str n @ CHR '':'' # ys"
  shows "m = n" and "xs = ys"
proof -
  have "split_once (CHR '':'') (nat_str m @ CHR '':'' # xs) = Some (nat_str m, xs)"
    by (simp add: split_once_Some nat_str_no_colon)
  moreover have "split_once (CHR '':'') (nat_str n @ CHR '':'' # ys) = Some (nat_str n, ys)"
    by (simp add: split_once_Some nat_str_no_colon)
  ultimately have "Some (nat_str m, xs) = Some (nat_str n, ys)" using assms by metis
  then show "m = n" "xs = ys" by (simp_all add: nat_str_inj)
qed

text \<open>The encoding is injective whatever the identifiers contain.\<close>

lemma identity_preimage_inj: "identity_preimage xs = identity_preimage ys \<longleftrightarrow> xs = ys"
proof
  show "identity_preimage xs = identity_preimage ys \<Longrightarrow> xs = ys"
  proof (induction xs arbitrary: ys)
    case Nil
    then show ?case by (cases ys) (auto simp: identity_preimage_def)
  next
    case (Cons x xs)
    then obtain y zs where ys: "ys = y # zs" by (cases ys) (auto simp: identity_preimage_def)
    with Cons.prems have "nat_str (length x) @ CHR '':'' # (x @ identity_preimage xs)
        = nat_str (length y) @ CHR '':'' # (y @ identity_preimage zs)"
      by (simp add: identity_preimage_def)
    from split_at_colon [OF this] have "x = y" "identity_preimage xs = identity_preimage zs" by auto
    with Cons.IH ys show ?case by simp
  qed
qed simp

text \<open>Derived keys collide only where the truncated hash does.\<close>

lemma derived_identity_eq_iff:
  assumes "inj_on (\<lambda>s. take 32 (sha256 s)) S" and "identity_preimage xs \<in> S" and "identity_preimage ys \<in> S"
  shows "derived_identity sha256 prefix xs = derived_identity sha256 prefix ys \<longleftrightarrow> xs = ys"
  using inj_on_eq_iff [OF assms] by (simp add: derived_identity_def identity_preimage_inj)

end
