(* ===== verification/Wave_Repository.thy ===== *)
theory Wave_Repository
  imports Wave_Simulation_Models Derived_Identity
begin

text \<open>
  The wave store: the contract of \<open>src/src/core/waves/repository.py\<close> as a locale and the
  in-memory implementation of \<open>src/src/infrastructure/waves/in_memory.py\<close>, whose operations hold
  one lock and are therefore single steps. The operations on the
  simulation tables are in \<open>Wave_Simulation_Store\<close>. The locks that only order source resolution
  and projection are not part of the record.
\<close>


section \<open>Definitions\<close>

definition wave_idempotency_mapping_key :: "(string \<Rightarrow> string) \<Rightarrow> string \<Rightarrow> string \<Rightarrow> string" where
  "wave_idempotency_mapping_key sha256 tenant_id idempotency_key =
     derived_identity sha256 ''wik'' [tenant_id, idempotency_key]"

record InMemoryDpmWaveRepository =
  repo_waves :: "(string, DpmRebalanceWave) dict"
  idempotency_index :: "(string, string \<times> string option) dict"
  correlation_index :: "(string \<times> string, string) dict"
  simulation_operations :: "(string, DpmWaveSimulationOperation) dict"
  simulation_operation_idempotency :: "(string \<times> string, string) dict"
  simulation_operation_correlations :: "(string \<times> string, string) dict"
  simulation_items :: "(string \<times> string, DpmWaveSimulationItemRecord) dict"

definition empty_repository :: InMemoryDpmWaveRepository where
  "empty_repository =
     \<lparr> repo_waves = [], idempotency_index = [], correlation_index = [], simulation_operations = [],
       simulation_operation_idempotency = [], simulation_operation_correlations = [], simulation_items = [] \<rparr>"

definition idempotency_conflict ::
  "(string, string \<times> string option) dict \<Rightarrow> string option \<Rightarrow> string \<Rightarrow> string option \<Rightarrow> bool" where
  "idempotency_conflict index key wid rhash =
     (case key of
        None \<Rightarrow> False
      | Some k \<Rightarrow> (case dict_get index k of None \<Rightarrow> False | Some e \<Rightarrow> e \<noteq> (wid, rhash)))"

definition index_idempotency_key ::
  "string option \<Rightarrow> string \<Rightarrow> string option \<Rightarrow> (string, string \<times> string option) dict
     \<Rightarrow> (string, string \<times> string option) dict" where
  "index_idempotency_key key wid rhash index =
     (case key of None \<Rightarrow> index | Some k \<Rightarrow> dict_set k (wid, rhash) index)"

definition save_wave ::
  "(string \<Rightarrow> string) \<Rightarrow> DpmRebalanceWave \<Rightarrow> string option \<Rightarrow> string option \<Rightarrow> string
     \<Rightarrow> InMemoryDpmWaveRepository \<Rightarrow> InMemoryDpmWaveRepository wave_result" where
  "save_wave sha256 wave idempotency_key rhash tenant_id repo =
     (let mapping_key = map_option (wave_idempotency_mapping_key sha256 tenant_id) idempotency_key;
          correlation_key = (tenant_id, wave_correlation_id wave)
      in if idempotency_conflict (idempotency_index repo) mapping_key (wave_id wave) rhash
         then Inl DpmWaveIdempotencyConflictError
         else if wave_id wave \<in> set (dict_keys (repo_waves repo))
         then Inl DpmWaveAlreadyExistsError
         else if correlation_key \<in> set (dict_keys (correlation_index repo))
         then Inl DpmWaveCorrelationConflictError
         else Inr (repo\<lparr> idempotency_index :=
                           index_idempotency_key mapping_key (wave_id wave) rhash (idempotency_index repo),
                         repo_waves :=
                           dict_set (wave_id wave) (wave\<lparr>wave_tenant_id := Some tenant_id\<rparr>) (repo_waves repo),
                         correlation_index :=
                           dict_set correlation_key (wave_id wave) (correlation_index repo) \<rparr>))"

definition get_wave :: "InMemoryDpmWaveRepository \<Rightarrow> string \<Rightarrow> string \<Rightarrow> DpmRebalanceWave option" where
  "get_wave repo wid tenant_id =
     (case dict_get (repo_waves repo) wid of
        None \<Rightarrow> None
      | Some wave \<Rightarrow> if wave_tenant_id wave \<noteq> Some tenant_id then None else Some wave)"

definition get_wave_idempotency_record ::
  "(string \<Rightarrow> string) \<Rightarrow> InMemoryDpmWaveRepository \<Rightarrow> string \<Rightarrow> string
     \<Rightarrow> (DpmRebalanceWave \<times> string option) option" where
  "get_wave_idempotency_record sha256 repo idempotency_key tenant_id =
     (case dict_get (idempotency_index repo)
             (wave_idempotency_mapping_key sha256 tenant_id idempotency_key) of
        None \<Rightarrow> None
      | Some (wid, rhash) \<Rightarrow>
          (case dict_get (repo_waves repo) wid of
             None \<Rightarrow> None
           | Some wave \<Rightarrow>
               if wave_tenant_id wave \<noteq> Some tenant_id then None else Some (wave, rhash)))"

definition get_wave_by_idempotency ::
  "(string \<Rightarrow> string) \<Rightarrow> InMemoryDpmWaveRepository \<Rightarrow> string \<Rightarrow> string \<Rightarrow> DpmRebalanceWave option" where
  "get_wave_by_idempotency sha256 repo idempotency_key tenant_id =
     map_option fst (get_wave_idempotency_record sha256 repo idempotency_key tenant_id)"

definition wave_matches_filters ::
  "WaveState option \<Rightarrow> string option \<Rightarrow> string option \<Rightarrow> DpmRebalanceWave \<Rightarrow> bool" where
  "wave_matches_filters st tt as_of wave \<longleftrightarrow>
     (st = None \<or> st = Some (wave_state wave))
     \<and> (tt = None \<or> tt = Some (trigger_type (wave_trigger wave)))
     \<and> (as_of = None \<or> as_of = Some (wave_as_of_date wave))"

definition wave_sort_key :: "DpmRebalanceWave \<Rightarrow> int \<times> string" where
  "wave_sort_key wave = (wave_created_at wave, wave_id wave)"

text \<open>\<open>sorted(..., reverse=True)\<close> keeps the order of equal keys.\<close>

definition filtered_waves ::
  "DpmRebalanceWave list \<Rightarrow> WaveState option \<Rightarrow> string option \<Rightarrow> string option \<Rightarrow> DpmRebalanceWave list" where
  "filtered_waves waves st tt as_of =
     rev (sort_key wave_sort_key (rev (filter (wave_matches_filters st tt as_of) waves)))"

definition list_waves ::
  "InMemoryDpmWaveRepository \<Rightarrow> string \<Rightarrow> WaveState option \<Rightarrow> string option \<Rightarrow> string option \<Rightarrow> nat \<Rightarrow> nat
     \<Rightarrow> DpmRebalanceWave list" where
  "list_waves repo tenant_id st tt as_of limit offset =
     (let owned = filter (\<lambda>w. wave_tenant_id w = Some tenant_id) (map snd (repo_waves repo))
      in take limit (drop offset (filtered_waves owned st tt as_of)))"

definition update_wave ::
  "InMemoryDpmWaveRepository \<Rightarrow> DpmRebalanceWave \<Rightarrow> nat \<Rightarrow> string \<Rightarrow> InMemoryDpmWaveRepository wave_result" where
  "update_wave repo wave expected_version tenant_id =
     (case dict_get (repo_waves repo) (wave_id wave) of
        None \<Rightarrow> Inl DpmWaveVersionConflictError
      | Some current \<Rightarrow>
          if version current \<noteq> expected_version \<or> wave_tenant_id current \<noteq> Some tenant_id
          then Inl DpmWaveVersionConflictError
          else Inr (repo\<lparr> repo_waves :=
                 dict_set (wave_id wave) (wave\<lparr>wave_tenant_id := Some tenant_id\<rparr>) (repo_waves repo) \<rparr>))"


section \<open>The contract\<close>

text \<open>What the services rely on: tenant-fenced reads and a compare-and-set write.\<close>

locale wave_repository =
  fixes ok :: "'r \<Rightarrow> bool"
    and get :: "'r \<Rightarrow> string \<Rightarrow> string \<Rightarrow> DpmRebalanceWave option"
    and update :: "'r \<Rightarrow> DpmRebalanceWave \<Rightarrow> nat \<Rightarrow> string \<Rightarrow> 'r wave_result"
  assumes get_owned: "ok r \<Longrightarrow> get r i t = Some w \<Longrightarrow> wave_id w = i \<and> wave_tenant_id w = Some t"
    and update_ok: "ok r \<Longrightarrow> update r w v t = Inr r' \<Longrightarrow> ok r'"
    and update_get: "ok r \<Longrightarrow> update r w v t = Inr r' \<Longrightarrow>
      get r' i t' = (if i = wave_id w \<and> t' = t then Some (w\<lparr>wave_tenant_id := Some t\<rparr>) else get r i t')"
    and update_iff: "(\<exists>r'. update r w v t = Inr r') \<longleftrightarrow>
      (\<exists>current. get r (wave_id w) t = Some current \<and> version current = v)"
    and update_error: "update r w v t = Inl e \<Longrightarrow> e = DpmWaveVersionConflictError"
begin

text \<open>Of two writers that read the same version, the second one fails.\<close>

lemma second_writer_fails:
  assumes "ok r" and "update r w v t = Inr r'" and "v < version w" and "wave_id w' = wave_id w"
  shows "update r' w' v t = Inl DpmWaveVersionConflictError"
proof (cases "update r' w' v t")
  case (Inl e)
  then show ?thesis using update_error by simp
next
  case (Inr x)
  then have "\<exists>current. get r' (wave_id w') t = Some current \<and> version current = v" using update_iff by blast
  with update_get [OF assms(1,2), of "wave_id w'" t] assms(3,4) show ?thesis by simp
qed

end

definition repository_ok :: "InMemoryDpmWaveRepository \<Rightarrow> bool" where
  "repository_ok repo \<longleftrightarrow>
     (\<forall>k w. dict_get (repo_waves repo) k = Some w \<longrightarrow> wave_id w = k)
     \<and> (\<forall>t c wid. dict_get (correlation_index repo) (t, c) = Some wid \<longrightarrow>
          dict_get (repo_waves repo) wid \<noteq> None)"

interpretation memory: wave_repository repository_ok get_wave update_wave
proof unfold_locales
  fix r i t w
  assume "repository_ok r" and "get_wave r i t = Some w"
  then show "wave_id w = i \<and> wave_tenant_id w = Some t"
    by (auto simp: repository_ok_def get_wave_def split: option.splits if_splits)
next
  fix r w v t r'
  assume "repository_ok r" and "update_wave r w v t = Inr r'"
  then show "repository_ok r'"
    by (auto simp: repository_ok_def update_wave_def dict_get_set split: option.splits if_splits)
next
  fix r w v t r' i t'
  assume "repository_ok r" and "update_wave r w v t = Inr r'"
  then show "get_wave r' i t' =
      (if i = wave_id w \<and> t' = t then Some (w\<lparr>wave_tenant_id := Some t\<rparr>) else get_wave r i t')"
    by (auto simp: get_wave_def update_wave_def dict_get_set split: option.splits if_splits)
next
  fix r w v t
  show "(\<exists>r'. update_wave r w v t = Inr r') \<longleftrightarrow>
      (\<exists>current. get_wave r (wave_id w) t = Some current \<and> version current = v)"
    by (auto simp: get_wave_def update_wave_def split: option.splits if_splits)
next
  fix r w v t e
  assume "update_wave r w v t = Inl e"
  then show "e = DpmWaveVersionConflictError" by (auto simp: update_wave_def split: option.splits if_splits)
qed


section \<open>Lemmas\<close>

lemma save_wave_ok:
  assumes "save_wave sha256 wave key rhash t repo = Inr repo'" and "repository_ok repo"
  shows "repository_ok repo'"
  using assms by (auto simp: save_wave_def Let_def repository_ok_def dict_get_set split: if_splits)

end
