(* ===== verification/Wave_Simulation_Store.thy ===== *)
theory Wave_Simulation_Store
  imports Wave_Repository
begin

text \<open>
  The simulation tables of the in-memory wave repository
  (\<open>src/src/infrastructure/waves/in_memory.py\<close>, \<open>simulation_publication.py\<close>): admission of an
  operation, leased claims, fenced publication, retry and cancellation. Each operation holds the lock
  of the repository and is one step. The random claim tokens are the argument \<open>tokens\<close>, the clock is
  an argument. \<open>WaveKeyError\<close> is the exception of a subscript that finds no entry.
\<close>


section \<open>Definitions\<close>

definition simulation_items_for_operation ::
  "(string \<times> string, DpmWaveSimulationItemRecord) dict \<Rightarrow> string \<Rightarrow> string \<Rightarrow> DpmWaveSimulationItemRecord list" where
  "simulation_items_for_operation table oid tenant =
     map snd (filter (\<lambda>(k, item). fst k = oid \<and> si_tenant_id item = tenant) table)"

definition refresh_simulation_operation_status ::
  "string \<Rightarrow> int \<Rightarrow> InMemoryDpmWaveRepository \<Rightarrow> (DpmWaveSimulationOperation \<times> InMemoryDpmWaveRepository) wave_result" where
  "refresh_simulation_operation_status oid updated_at repo =
     (case dict_get (simulation_operations repo) oid of
        None \<Rightarrow> Inl WaveKeyError
      | Some operation \<Rightarrow>
          let recs = simulation_items_for_operation (simulation_items repo) oid (op_tenant_id operation);
              updated = operation\<lparr> op_status := derive_wave_simulation_operation_status operation recs,
                                   op_updated_at := updated_at \<rparr>
          in Inr (updated, repo\<lparr> simulation_operations := dict_set oid updated (simulation_operations repo) \<rparr>))"

definition validate_simulation_admission_items ::
  "DpmWaveSimulationOperation \<Rightarrow> DpmWaveSimulationItemRecord list \<Rightarrow> DpmRebalanceWave \<Rightarrow> unit wave_result" where
  "validate_simulation_admission_items operation recs wave =
     (let wave_items = dict_of (map (\<lambda>i. (wave_item_id i, i)) (items wave))
      in if \<not> distinct (map si_wave_item_id recs)
         then Inl (DpmWaveSimulationOperationConflictError ''DPM_WAVE_SIMULATION_DUPLICATE_ITEM'')
         else if sort (map si_ordinal recs) \<noteq> [0..<length recs]
         then Inl (DpmWaveSimulationOperationConflictError ''DPM_WAVE_SIMULATION_ITEM_ORDINAL_CONFLICT'')
         else if \<exists>item \<in> set recs.
                   si_operation_id item \<noteq> op_operation_id operation
                   \<or> si_tenant_id item \<noteq> op_tenant_id operation
                   \<or> si_wave_id item \<noteq> op_wave_id operation
                   \<or> (case dict_get wave_items (si_wave_item_id item) of
                        None \<Rightarrow> True
                      | Some wave_item \<Rightarrow> wi_portfolio_id wave_item \<noteq> si_portfolio_id item)
         then Inl (DpmWaveSimulationOperationConflictError ''DPM_WAVE_SIMULATION_ITEM_IDENTITY_CONFLICT'')
         else Inr ())"

definition store_admission ::
  "DpmWaveSimulationOperation \<Rightarrow> DpmWaveSimulationItemRecord list \<Rightarrow> DpmRebalanceWave \<Rightarrow> InMemoryDpmWaveRepository
     \<Rightarrow> InMemoryDpmWaveRepository" where
  "store_admission operation recs simulating_wave repo =
     repo\<lparr> simulation_operations :=
             dict_set (op_operation_id operation) operation (simulation_operations repo),
           simulation_operation_idempotency :=
             dict_set (op_tenant_id operation, op_idempotency_key_hash operation) (op_operation_id operation)
               (simulation_operation_idempotency repo),
           simulation_operation_correlations :=
             dict_set (op_tenant_id operation, op_correlation_id operation) (op_operation_id operation)
               (simulation_operation_correlations repo),
           simulation_items :=
             fold (\<lambda>(k, item) table. dict_set k item table)
               (map (\<lambda>item. ((op_operation_id operation, si_wave_item_id item), item)) recs)
               (simulation_items repo),
           repo_waves := dict_set (wave_id simulating_wave) simulating_wave (repo_waves repo) \<rparr>"

definition admit_simulation_operation ::
  "DpmWaveSimulationOperation \<Rightarrow> DpmWaveSimulationItemRecord list \<Rightarrow> DpmRebalanceWave \<Rightarrow> InMemoryDpmWaveRepository
     \<Rightarrow> ((DpmWaveSimulationOperation \<times> bool) \<times> InMemoryDpmWaveRepository) wave_result" where
  "admit_simulation_operation operation recs simulating_wave repo =
     (case dict_get (simulation_operation_idempotency repo)
             (op_tenant_id operation, op_idempotency_key_hash operation) of
        Some existing_id \<Rightarrow>
          (case dict_get (simulation_operations repo) existing_id of
             None \<Rightarrow> Inl WaveKeyError
           | Some existing \<Rightarrow>
               if op_request_hash existing \<noteq> op_request_hash operation
                  \<or> op_risk_authority_context_hash existing \<noteq> op_risk_authority_context_hash operation
               then Inl (DpmWaveSimulationOperationConflictError ''DPM_WAVE_SIMULATION_IDEMPOTENCY_CONFLICT'')
               else Inr ((existing, True), repo))
      | None \<Rightarrow>
          if (op_tenant_id operation, op_correlation_id operation)
               \<in> set (dict_keys (simulation_operation_correlations repo))
          then Inl (DpmWaveSimulationOperationConflictError ''DPM_WAVE_SIMULATION_CORRELATION_CONFLICT'')
          else
            (case dict_get (repo_waves repo) (op_wave_id operation) of
               None \<Rightarrow> Inl (DpmWaveSimulationOperationConflictError ''DPM_WAVE_SIMULATION_WAVE_NOT_FOUND'')
             | Some wave \<Rightarrow>
                 if wave_tenant_id wave \<noteq> Some (op_tenant_id operation)
                 then Inl (DpmWaveSimulationOperationConflictError ''DPM_WAVE_SIMULATION_WAVE_NOT_FOUND'')
                 else if version wave \<noteq> op_admitted_wave_version operation
                 then Inl (DpmWaveSimulationOperationConflictError ''DPM_WAVE_SIMULATION_WAVE_VERSION_CONFLICT'')
                 else
                   (case validate_simulation_admission_items operation recs wave of
                      Inl e \<Rightarrow> Inl e
                    | Inr _ \<Rightarrow>
                        if wave_id simulating_wave \<noteq> wave_id wave
                           \<or> wave_tenant_id simulating_wave \<noteq> Some (op_tenant_id operation)
                           \<or> wave_state simulating_wave \<noteq> SIMULATING
                           \<or> version simulating_wave \<noteq> version wave + 1
                        then Inl (DpmWaveSimulationOperationConflictError ''DPM_WAVE_SIMULATION_TRANSITION_CONFLICT'')
                        else Inr ((operation, False), store_admission operation recs simulating_wave repo))))"

definition get_simulation_operation ::
  "InMemoryDpmWaveRepository \<Rightarrow> string \<Rightarrow> string \<Rightarrow> DpmWaveSimulationOperation option" where
  "get_simulation_operation repo tenant oid =
     (case dict_get (simulation_operations repo) oid of
        None \<Rightarrow> None
      | Some operation \<Rightarrow> if op_tenant_id operation \<noteq> tenant then None else Some operation)"

definition get_simulation_operation_by_idempotency ::
  "InMemoryDpmWaveRepository \<Rightarrow> string \<Rightarrow> string \<Rightarrow> DpmWaveSimulationOperation option wave_result" where
  "get_simulation_operation_by_idempotency repo tenant key_hash =
     (case dict_get (simulation_operation_idempotency repo) (tenant, key_hash) of
        None \<Rightarrow> Inr None
      | Some oid \<Rightarrow>
          (case dict_get (simulation_operations repo) oid of
             None \<Rightarrow> Inl WaveKeyError
           | Some operation \<Rightarrow> Inr (Some operation)))"

definition simulation_item_order :: "DpmWaveSimulationItemRecord \<Rightarrow> nat \<times> string" where
  "simulation_item_order item = (si_ordinal item, si_wave_item_id item)"

definition list_simulation_items ::
  "InMemoryDpmWaveRepository \<Rightarrow> string \<Rightarrow> string \<Rightarrow> nat \<Rightarrow> nat \<Rightarrow> DpmWaveSimulationItemPage" where
  "list_simulation_items repo tenant oid limit offset =
     (case get_simulation_operation repo tenant oid of
        None \<Rightarrow> \<lparr> page_items = [], page_total_count = 0, page_next_offset = None \<rparr>
      | Some operation \<Rightarrow>
          let recs = sort_key simulation_item_order
                       (simulation_items_for_operation (simulation_items repo) oid tenant);
              page = take limit (drop offset recs)
          in \<lparr> page_items = page, page_total_count = length recs,
               page_next_offset =
                 (if offset + length page < length recs then Some (offset + length page) else None) \<rparr>)"

definition simulation_item_counts ::
  "InMemoryDpmWaveRepository \<Rightarrow> string \<Rightarrow> string \<Rightarrow> (WaveSimulationItemStatus, nat) dict" where
  "simulation_item_counts repo tenant oid =
     (case get_simulation_operation repo tenant oid of
        None \<Rightarrow> []
      | Some operation \<Rightarrow>
          let statuses = map si_status (simulation_items_for_operation (simulation_items repo) oid tenant)
          in map (\<lambda>s. (s, count_list statuses s))
               [SIM_PENDING, SIM_RUNNING, SIM_SUCCEEDED, SIM_FAILED, SIM_CANCELLED])"

definition holds_lease :: "int \<Rightarrow> DpmWaveSimulationItemRecord \<Rightarrow> bool" where
  "holds_lease now item \<longleftrightarrow>
     si_status item = SIM_RUNNING \<and> (case si_lease_expires_at item of None \<Rightarrow> False | Some l \<Rightarrow> now < l)"

definition claimable :: "int \<Rightarrow> DpmWaveSimulationItemRecord \<Rightarrow> bool" where
  "claimable now item \<longleftrightarrow>
     si_status item = SIM_PENDING
     \<or> si_status item = SIM_RUNNING \<and> (case si_lease_expires_at item of None \<Rightarrow> False | Some l \<Rightarrow> l \<le> now)"

definition claimed_item ::
  "nat \<Rightarrow> string \<Rightarrow> string \<Rightarrow> int \<Rightarrow> int \<Rightarrow> DpmWaveSimulationItemRecord \<Rightarrow> DpmWaveSimulationItemRecord" where
  "claimed_item max_attempts worker token claimed_at lease_expires_at item =
     item\<lparr> si_status := SIM_RUNNING,
           si_attempt_count :=
             si_attempt_count item + (if max_attempts \<le> si_attempt_count item then 0 else 1),
           si_claim_generation := si_claim_generation item + 1, si_worker_id := Some worker,
           si_claim_token := Some token, si_claimed_at := Some claimed_at,
           si_lease_expires_at := Some lease_expires_at, si_updated_at := claimed_at \<rparr>"

definition claim_of ::
  "nat \<Rightarrow> string \<Rightarrow> string \<Rightarrow> string \<Rightarrow> string \<Rightarrow> int \<Rightarrow> DpmWaveSimulationItemRecord \<Rightarrow> DpmWaveSimulationItemClaim" where
  "claim_of max_attempts oid tenant worker token lease_expires_at item =
     \<lparr> cl_operation_id = oid, cl_tenant_id = tenant, cl_wave_id = si_wave_id item,
       cl_wave_item_id = si_wave_item_id item, cl_portfolio_id = si_portfolio_id item,
       cl_input_payload = si_input_payload item, cl_input_hash = si_input_hash item,
       cl_source_identity_hash = si_source_identity_hash item, cl_worker_id = worker, cl_claim_token = token,
       cl_claim_generation = si_claim_generation item + 1,
       cl_attempt_count = si_attempt_count item + (if max_attempts \<le> si_attempt_count item then 0 else 1),
       cl_lease_expires_at = lease_expires_at, cl_recovery_exhausted = (max_attempts \<le> si_attempt_count item) \<rparr>"

fun claim_loop ::
  "nat \<Rightarrow> string \<Rightarrow> string \<Rightarrow> string \<Rightarrow> (nat \<Rightarrow> string) \<Rightarrow> int \<Rightarrow> int \<Rightarrow> nat \<Rightarrow> DpmWaveSimulationItemRecord list
     \<Rightarrow> (string \<times> string, DpmWaveSimulationItemRecord) dict
     \<Rightarrow> (string \<times> string, DpmWaveSimulationItemRecord) dict \<times> DpmWaveSimulationItemClaim list" where
  "claim_loop max_attempts oid tenant worker tokens claimed_at lease n [] table = (table, [])"
| "claim_loop max_attempts oid tenant worker tokens claimed_at lease n (item # rest) table =
     (let table' = dict_set (oid, si_wave_item_id item)
                     (claimed_item max_attempts worker (tokens n) claimed_at lease item) table;
          (table'', claims) = claim_loop max_attempts oid tenant worker tokens claimed_at lease (Suc n) rest table'
      in (table'', claim_of max_attempts oid tenant worker (tokens n) lease item # claims))"

definition claim_simulation_items ::
  "string \<Rightarrow> string \<Rightarrow> string \<Rightarrow> int \<Rightarrow> int \<Rightarrow> int \<Rightarrow> (nat \<Rightarrow> string) \<Rightarrow> InMemoryDpmWaveRepository
     \<Rightarrow> (DpmWaveSimulationItemClaim list \<times> InMemoryDpmWaveRepository) wave_result" where
  "claim_simulation_items tenant oid worker limit claimed_at lease_expires_at tokens repo =
     (case get_simulation_operation repo tenant oid of
        None \<Rightarrow> Inr ([], repo)
      | Some operation \<Rightarrow>
          if op_status operation \<in> {OP_CANCEL_REQUESTED, OP_CANCELLED, OP_SUCCEEDED, OP_FAILED}
          then Inr ([], repo)
          else
            let owned = simulation_items_for_operation (simulation_items repo) oid tenant;
                active_count = length (filter (holds_lease claimed_at) owned);
                capacity = max 0 (int (op_max_concurrency operation) - int active_count);
                claim_limit = min (max 0 limit) capacity;
                chosen = take (nat claim_limit)
                           (sort_key simulation_item_order (filter (claimable claimed_at) owned));
                (table, claims) = claim_loop (op_max_attempts operation) oid tenant worker tokens claimed_at
                                    lease_expires_at 0 chosen (simulation_items repo)
            in (case refresh_simulation_operation_status oid claimed_at (repo\<lparr>simulation_items := table\<rparr>) of
                  Inl e \<Rightarrow> Inl e
                | Inr (_, repo') \<Rightarrow> Inr (claims, repo')))"

definition retried_item :: "int \<Rightarrow> DpmWaveSimulationItemRecord \<Rightarrow> DpmWaveSimulationItemRecord" where
  "retried_item retried_at item =
     item\<lparr> si_status := SIM_PENDING, si_worker_id := None, si_claim_token := None, si_claimed_at := None,
           si_lease_expires_at := None, si_error_code := None, si_error_message := None,
           si_retryable := False, si_completed_at := None, si_updated_at := retried_at \<rparr>"

definition retry_selected ::
  "DpmWaveSimulationOperation \<Rightarrow> string list option \<Rightarrow> DpmWaveSimulationItemRecord \<Rightarrow> bool" where
  "retry_selected operation requested item \<longleftrightarrow>
     (case requested of None \<Rightarrow> True | Some ids \<Rightarrow> si_wave_item_id item \<in> set ids)
     \<and> si_retryable item \<and> si_status item = SIM_FAILED \<and> si_attempt_count item < op_max_attempts operation"

definition store_items ::
  "string \<Rightarrow> (DpmWaveSimulationItemRecord \<Rightarrow> DpmWaveSimulationItemRecord) \<Rightarrow> DpmWaveSimulationItemRecord list
     \<Rightarrow> (string \<times> string, DpmWaveSimulationItemRecord) dict \<Rightarrow> (string \<times> string, DpmWaveSimulationItemRecord) dict" where
  "store_items oid f recs table =
     fold (\<lambda>item table. dict_set (oid, si_wave_item_id item) (f item) table) recs table"

definition retry_simulation_items ::
  "string \<Rightarrow> string \<Rightarrow> string list option \<Rightarrow> int \<Rightarrow> InMemoryDpmWaveRepository
     \<Rightarrow> (nat \<times> InMemoryDpmWaveRepository) wave_result" where
  "retry_simulation_items tenant oid requested retried_at repo =
     (case get_simulation_operation repo tenant oid of
        None \<Rightarrow> Inr (0, repo)
      | Some operation \<Rightarrow>
          if op_cancel_reason_code operation \<notin> {None, Some ''''} then Inr (0, repo)
          else
            let chosen = filter (retry_selected operation requested)
                           (simulation_items_for_operation (simulation_items repo) oid tenant);
                table = store_items oid (retried_item retried_at) chosen (simulation_items repo)
            in (case refresh_simulation_operation_status oid retried_at (repo\<lparr>simulation_items := table\<rparr>) of
                  Inl e \<Rightarrow> Inl e
                | Inr (_, repo') \<Rightarrow> Inr (length chosen, repo')))"

definition cancelled_item :: "int \<Rightarrow> DpmWaveSimulationItemRecord \<Rightarrow> DpmWaveSimulationItemRecord" where
  "cancelled_item cancelled_at item =
     item\<lparr> si_status := SIM_CANCELLED, si_retryable := False, si_completed_at := Some cancelled_at,
           si_updated_at := cancelled_at \<rparr>"

definition cancel_selected :: "DpmWaveSimulationOperation \<Rightarrow> int \<Rightarrow> DpmWaveSimulationItemRecord \<Rightarrow> bool" where
  "cancel_selected operation cancelled_at item \<longleftrightarrow>
     si_status item = SIM_PENDING \<or> wave_simulation_item_is_retryable operation item
     \<or> si_status item = SIM_RUNNING
       \<and> (case si_lease_expires_at item of None \<Rightarrow> False | Some l \<Rightarrow> l < cancelled_at)"

definition cancel_simulation_operation ::
  "string \<Rightarrow> string \<Rightarrow> string \<Rightarrow> int \<Rightarrow> InMemoryDpmWaveRepository
     \<Rightarrow> (DpmWaveSimulationOperation option \<times> InMemoryDpmWaveRepository) wave_result" where
  "cancel_simulation_operation tenant oid reason_code cancelled_at repo =
     (case get_simulation_operation repo tenant oid of
        None \<Rightarrow> Inr (None, repo)
      | Some operation \<Rightarrow>
          if op_status operation \<in> {OP_SUCCEEDED, OP_FAILED, OP_CANCELLED} then Inr (Some operation, repo)
          else
            let recs = simulation_items_for_operation (simulation_items repo) oid tenant
            in if \<not> (\<exists>item \<in> set recs. item_outstanding operation item) then Inr (Some operation, repo)
               else
                 let operation' = operation\<lparr> op_cancel_reason_code :=
                         (if op_cancel_reason_code operation \<in> {None, Some ''''} then Some reason_code
                          else op_cancel_reason_code operation),
                       op_updated_at := cancelled_at \<rparr>;
                     table = store_items oid (cancelled_item cancelled_at)
                               (filter (cancel_selected operation' cancelled_at) recs) (simulation_items repo)
                 in (case refresh_simulation_operation_status oid cancelled_at
                            (repo\<lparr> simulation_operations := dict_set oid operation' (simulation_operations repo),
                                   simulation_items := table \<rparr>) of
                       Inl e \<Rightarrow> Inl e
                     | Inr (updated, repo') \<Rightarrow> Inr (Some updated, repo')))"

definition claim_current :: "DpmWaveSimulationItemClaim \<Rightarrow> int \<Rightarrow> DpmWaveSimulationItemRecord \<Rightarrow> bool" where
  "claim_current claim completed_at item \<longleftrightarrow>
     si_tenant_id item = cl_tenant_id claim \<and> si_status item = SIM_RUNNING
     \<and> si_claim_token item = Some (cl_claim_token claim) \<and> si_claim_generation item = cl_claim_generation claim
     \<and> (case si_lease_expires_at item of None \<Rightarrow> False | Some l \<Rightarrow> completed_at \<le> l)"

definition published_item ::
  "WaveSimulationItemStatus \<Rightarrow> DpmRebalanceWaveItem option \<Rightarrow> string option \<Rightarrow> string option \<Rightarrow> bool \<Rightarrow> int
     \<Rightarrow> DpmWaveSimulationItemRecord \<Rightarrow> DpmWaveSimulationItemRecord" where
  "published_item status result_item code message retryable completed_at item =
     item\<lparr> si_status := status, si_result_item := result_item, si_error_code := code,
           si_error_message := message, si_retryable := retryable, si_completed_at := Some completed_at,
           si_updated_at := completed_at \<rparr>"

definition publish_simulation_item_terminal ::
  "DpmWaveSimulationItemClaim \<Rightarrow> int \<Rightarrow> WaveSimulationItemStatus \<Rightarrow> DpmRebalanceWaveItem option \<Rightarrow> string option
     \<Rightarrow> string option \<Rightarrow> bool \<Rightarrow> InMemoryDpmWaveRepository \<Rightarrow> (bool \<times> InMemoryDpmWaveRepository) wave_result" where
  "publish_simulation_item_terminal claim completed_at status result_item code message retryable repo =
     (case dict_get (simulation_items repo) (cl_operation_id claim, cl_wave_item_id claim) of
        None \<Rightarrow> Inr (False, repo)
      | Some item \<Rightarrow>
          if \<not> claim_current claim completed_at item then Inr (False, repo)
          else
            (case dict_get (simulation_operations repo) (cl_operation_id claim) of
               None \<Rightarrow> Inl WaveKeyError
             | Some operation \<Rightarrow>
                 let item' = published_item status result_item code message
                               (retryable \<and> op_cancel_reason_code operation = None) completed_at item
                 in (case refresh_simulation_operation_status (cl_operation_id claim) completed_at
                            (repo\<lparr> simulation_items := dict_set (cl_operation_id claim, cl_wave_item_id claim) item'
                                     (simulation_items repo) \<rparr>) of
                       Inl e \<Rightarrow> Inl e
                     | Inr (_, repo') \<Rightarrow> Inr (True, repo'))))"

definition publish_simulation_item_result ::
  "DpmWaveSimulationItemClaim \<Rightarrow> DpmRebalanceWaveItem \<Rightarrow> int \<Rightarrow> InMemoryDpmWaveRepository
     \<Rightarrow> (bool \<times> InMemoryDpmWaveRepository) wave_result" where
  "publish_simulation_item_result claim result_item completed_at =
     publish_simulation_item_terminal claim completed_at SIM_SUCCEEDED (Some result_item) None None False"

definition publish_simulation_item_failure ::
  "DpmWaveSimulationItemClaim \<Rightarrow> string \<Rightarrow> string \<Rightarrow> bool \<Rightarrow> int \<Rightarrow> InMemoryDpmWaveRepository
     \<Rightarrow> (bool \<times> InMemoryDpmWaveRepository) wave_result" where
  "publish_simulation_item_failure claim code message retryable completed_at =
     publish_simulation_item_terminal claim completed_at SIM_FAILED None (Some code) (Some message) retryable"

end
