(* ===== verification/Wave_Simulation_Runs.thy ===== *)
theory Wave_Simulation_Runs
  imports Wave_Simulation_Store
begin

text \<open>
  Runs of the simulation tables: any sequence of admissions, claims, publications, retries,
  cancellations and wave writes, in any order, with a clock that does not go back. Each operation is
  shown to change one operation and items of it in one of the ways \<open>item_step\<close> lists; the invariant
  \<open>sim_ok\<close> and the properties of runs follow by rule induction.
\<close>


section \<open>Tables\<close>

text \<open>Every entry is stored under the identifiers of its item.\<close>

definition keyed :: "(string \<times> string, DpmWaveSimulationItemRecord) dict \<Rightarrow> bool" where
  "keyed table \<longleftrightarrow> dict_ok table \<and> (\<forall>k item. dict_get table k = Some item \<longrightarrow> si_wave_item_id item = snd k)"

lemma keyed_mem:
  assumes "keyed table"
  shows "(k, item) \<in> set table \<longleftrightarrow> dict_get table k = Some item"
  using assms by (simp add: keyed_def map_of_eq_Some_iff)

lemma find_by_id:
  assumes "distinct (map g xs)" and "x \<in> set xs"
  shows "List.find (\<lambda>y. g y = g x) xs = Some x"
  using assms by (induction xs) auto

lemma keyed_id: "keyed table \<Longrightarrow> dict_get table k = Some item \<Longrightarrow> si_wave_item_id item = snd k"
  unfolding keyed_def by blast

lemma items_for_operation_mem:
  assumes "keyed table"
  shows "item \<in> set (simulation_items_for_operation table oid tenant)
    \<longleftrightarrow> dict_get table (oid, si_wave_item_id item) = Some item \<and> si_tenant_id item = tenant"
proof -
  have "item \<in> set (simulation_items_for_operation table oid tenant)
      \<longleftrightarrow> (\<exists>i. ((oid, i), item) \<in> set table) \<and> si_tenant_id item = tenant"
    unfolding simulation_items_for_operation_def by force
  then show ?thesis using assms keyed_mem [OF assms] by (auto simp: keyed_def)
qed

lemma items_for_operation_distinct:
  assumes "keyed table"
  shows "distinct (map si_wave_item_id (simulation_items_for_operation table oid tenant))"
proof -
  let ?es = "filter (\<lambda>(k, item). fst k = oid \<and> si_tenant_id item = tenant) table"
  have "distinct (map fst ?es)" using assms by (simp add: keyed_def distinct_map_filter)
  moreover have "inj_on snd (set (map fst ?es))" by (auto simp: inj_on_def)
  ultimately have "distinct (map snd (map fst ?es))" by (simp only: distinct_map [of snd] simp_thms)
  moreover have "map snd (map fst ?es) = map si_wave_item_id (map snd ?es)"
    using assms keyed_mem [OF assms] by (auto simp: keyed_def)
  ultimately show ?thesis by (simp only: simulation_items_for_operation_def)
qed

text \<open>Writing changed items back under their own keys.\<close>

abbreviation put_all :: "('k \<times> 'v) list \<Rightarrow> ('k, 'v) dict \<Rightarrow> ('k, 'v) dict" where
  "put_all kvs table \<equiv> fold (\<lambda>(k, v) d. dict_set k v d) kvs table"

lemma get_put_all:
  "distinct (map fst kvs) \<Longrightarrow>
     dict_get (put_all kvs table) k = (case map_of kvs k of None \<Rightarrow> dict_get table k | Some v \<Rightarrow> Some v)"
  using map_of_inject_set [of "rev kvs" kvs] by (simp add: dict.get_fold_put rev_map [symmetric])

lemma keys_put_all:
  "set (map fst kvs) \<subseteq> set (dict_keys table) \<Longrightarrow> dict_keys (put_all kvs table) = dict_keys table"
proof (induction kvs arbitrary: table)
  case (Cons kv kvs)
  obtain k v where kv: "kv = (k, v)" by fastforce
  with Cons.prems have eq: "dict_keys (dict_set k v table) = dict_keys table" by (simp add: dict_keys_set)
  have "set (map fst kvs) \<subseteq> set (dict_keys (dict_set k v table))" unfolding eq using Cons.prems by auto
  from Cons.IH [OF this] eq kv show ?case by simp
qed simp

lemma dict_get_key: "dict_get d k = Some v \<Longrightarrow> k \<in> set (dict_keys d)"
  using map_of_SomeD [of d k v] by (force simp: image_iff)

definition entries :: "string \<Rightarrow> (DpmWaveSimulationItemRecord \<Rightarrow> DpmWaveSimulationItemRecord) \<Rightarrow> DpmWaveSimulationItemRecord list
    \<Rightarrow> ((string \<times> string) \<times> DpmWaveSimulationItemRecord) list" where
  "entries oid f recs = map (\<lambda>item. ((oid, si_wave_item_id item), f item)) recs"

lemma store_items_put_all: "store_items oid f recs table = put_all (entries oid f recs) table"
  unfolding store_items_def entries_def by (induction recs arbitrary: table) simp_all

lemma claim_loop_put_all:
  "claim_loop ma oid tenant worker tokens tm lease n chosen table =
     (put_all (map (\<lambda>(j, item). ((oid, si_wave_item_id item), claimed_item ma worker (tokens j) tm lease item))
                (enumerate n chosen)) table,
      map (\<lambda>(j, item). claim_of ma oid tenant worker (tokens j) lease item) (enumerate n chosen))"
  by (induction chosen arbitrary: n table) (simp_all add: Let_def case_prod_unfold)

text \<open>
  An operation on some items of one operation, as a change of the whole table: the keys stay, the
  chosen entries are replaced by what \<open>f\<close> makes of them, the others are kept.
\<close>

definition table_step ::
  "(string \<times> string, DpmWaveSimulationItemRecord) dict \<Rightarrow> (string \<times> string, DpmWaveSimulationItemRecord) dict
     \<Rightarrow> (string \<times> string \<Rightarrow> DpmWaveSimulationItemRecord \<Rightarrow> DpmWaveSimulationItemRecord \<Rightarrow> bool) \<Rightarrow> bool" where
  "table_step table table' R \<longleftrightarrow> dict_keys table' = dict_keys table
     \<and> (\<forall>k item. dict_get table k = Some item \<longrightarrow> (\<exists>item'. dict_get table' k = Some item' \<and> R k item item'))"

lemma put_all_table_step:
  assumes "keyed table"
    and kvs: "kvs = map (\<lambda>x. ((oid, si_wave_item_id (sel x)), g x)) xs"
    and sel: "distinct (map (si_wave_item_id \<circ> sel) xs)"
      "\<forall>x \<in> set xs. dict_get table (oid, si_wave_item_id (sel x)) = Some (sel x)"
  shows "table_step table (put_all kvs table)
    (\<lambda>k item item'. (\<exists>x \<in> set xs. k = (oid, si_wave_item_id item) \<and> item = sel x \<and> item' = g x)
       \<or> (k \<notin> set (map fst kvs) \<and> item' = item))"
proof -
  have dist: "distinct (map fst kvs)"
    using sel(1) unfolding kvs by (simp add: distinct_map inj_on_def comp_def)
  have sub: "set (map fst kvs) \<subseteq> set (dict_keys table)"
    using sel(2) dict_get_key [of table] unfolding kvs by fastforce
  have "\<exists>item'. dict_get (put_all kvs table) k = Some item'
      \<and> ((\<exists>x \<in> set xs. k = (oid, si_wave_item_id item) \<and> item = sel x \<and> item' = g x)
         \<or> (k \<notin> set (map fst kvs) \<and> item' = item))"
    if item: "dict_get table k = Some item" for k item
  proof (cases "map_of kvs k")
    case None
    then have "k \<notin> set (map fst kvs)" by (simp add: map_of_eq_None_iff)
    moreover have "dict_get (put_all kvs table) k = Some item" using None item get_put_all [OF dist, of table k] by simp
    ultimately show ?thesis by blast
  next
    case (Some v)
    then have "(k, v) \<in> set kvs" by (rule map_of_SomeD)
    then obtain x where x: "x \<in> set xs" "k = (oid, si_wave_item_id (sel x))" "v = g x" unfolding kvs by auto
    with sel(2) item have "item = sel x" by auto
    with x Some show ?thesis using get_put_all [OF dist, of table k] by auto
  qed
  with keys_put_all [OF sub] show ?thesis unfolding table_step_def by blast
qed


section \<open>One step of one item\<close>

definition item_step ::
  "DpmWaveSimulationOperation \<Rightarrow> DpmWaveSimulationItemRecord set \<Rightarrow> int \<Rightarrow> DpmWaveSimulationItemRecord \<Rightarrow> DpmWaveSimulationItemRecord \<Rightarrow> bool" where
  "item_step operation chosen now item item' \<longleftrightarrow>
     item' = item
     \<or> item \<in> chosen \<and> claimable now item
       \<and> (\<exists>worker token lease. item' = claimed_item (op_max_attempts operation) worker token now lease item)
     \<or> wave_simulation_item_is_retryable operation item \<and> item' = retried_item now item
     \<or> cancel_selected operation now item \<and> item' = cancelled_item now item
     \<or> si_status item = SIM_RUNNING
       \<and> (\<exists>status result_item code message retryable.
             item' = published_item status result_item code message retryable now item
             \<and> (status = SIM_SUCCEEDED \<and> result_item \<noteq> None \<and> \<not> retryable
                \<or> status = SIM_FAILED \<and> result_item = None))"

lemmas item_changes =
  claimed_item_def retried_item_def cancelled_item_def published_item_def

text \<open>What an item never loses: its identity, its claim generation, a final outcome.\<close>

lemma item_step_keeps:
  assumes "item_step operation chosen now item item'"
  shows "si_wave_item_id item' = si_wave_item_id item" and "si_tenant_id item' = si_tenant_id item"
    and "si_claim_generation item \<le> si_claim_generation item'"
    and "si_attempt_count item \<le> op_max_attempts operation \<Longrightarrow> si_attempt_count item' \<le> op_max_attempts operation"
    and "si_status item \<in> {SIM_SUCCEEDED, SIM_CANCELLED} \<Longrightarrow> item' = item"
  using assms
  by (auto simp: item_step_def item_changes claimable_def cancel_selected_def wave_simulation_item_is_retryable_def)

lemma item_step_lease:
  assumes "item_step operation chosen now item item'" and "holds_lease t item'"
  shows "holds_lease t item \<or> item \<in> chosen"
  using assms
  by (auto simp: item_step_def item_changes holds_lease_def)

lemma holds_lease_antimono: "holds_lease t item \<Longrightarrow> s \<le> t \<Longrightarrow> holds_lease s item"
  by (auto simp: holds_lease_def split: option.splits)

text \<open>An operation keeps what was admitted.\<close>

definition same_admission :: "DpmWaveSimulationOperation \<Rightarrow> DpmWaveSimulationOperation \<Rightarrow> bool" where
  "same_admission operation operation' \<longleftrightarrow>
     operation' = operation\<lparr> op_status := op_status operation', op_cancel_reason_code := op_cancel_reason_code operation',
                             op_updated_at := op_updated_at operation' \<rparr>"

lemma same_admission_fields:
  assumes "same_admission operation operation'"
  shows "op_operation_id operation' = op_operation_id operation" and "op_tenant_id operation' = op_tenant_id operation"
    and "op_max_attempts operation' = op_max_attempts operation"
    and "op_max_concurrency operation' = op_max_concurrency operation"
    and "op_request_hash operation' = op_request_hash operation"
    and "op_idempotency_key_hash operation' = op_idempotency_key_hash operation"
  by (subst assms [unfolded same_admission_def], simp)+

lemma same_admission_refl [simp]: "same_admission operation operation" by (simp add: same_admission_def)

lemma same_admission_update:
  "same_admission operation operation1 \<Longrightarrow> same_admission operation (operation1\<lparr> op_status := s, op_updated_at := tm \<rparr>)"
  by (cases operation; cases operation1) (simp add: same_admission_def)

section \<open>One step of the store\<close>

lemma refresh_iff:
  "refresh_simulation_operation_status oid tm repo = Inr (updated, repo') \<longleftrightarrow>
     (\<exists>operation. dict_get (simulation_operations repo) oid = Some operation
        \<and> updated = operation\<lparr> op_status := derive_wave_simulation_operation_status operation
              (simulation_items_for_operation (simulation_items repo) oid (op_tenant_id operation)),
            op_updated_at := tm \<rparr>
        \<and> repo' = repo\<lparr> simulation_operations := dict_set oid updated (simulation_operations repo) \<rparr>)"
  by (auto simp: refresh_simulation_operation_status_def Let_def split: option.splits)

text \<open>
  A step changes one operation and some of its items, and leaves the status of the operation derived
  from its items.
\<close>

definition op_step :: "DpmWaveSimulationItemRecord set \<Rightarrow> int \<Rightarrow> string \<Rightarrow> InMemoryDpmWaveRepository \<Rightarrow> InMemoryDpmWaveRepository \<Rightarrow> bool" where
  "op_step chosen now oid repo repo' \<longleftrightarrow>
     (\<exists>operation operation' table.
        dict_get (simulation_operations repo) oid = Some operation \<and> same_admission operation operation'
        \<and> op_status operation' = derive_wave_simulation_operation_status operation'
              (simulation_items_for_operation table oid (op_tenant_id operation'))
        \<and> table_step (simulation_items repo) table
              (\<lambda>k item item'. if fst k = oid then item_step operation chosen now item item' else item' = item)
        \<and> repo' = repo\<lparr> simulation_operations := dict_set oid operation' (simulation_operations repo),
                         simulation_items := table \<rparr>)"

lemma table_step_mono:
  "table_step table table' R \<Longrightarrow> (\<And>k item item'. dict_get table k = Some item \<Longrightarrow> R k item item' \<Longrightarrow> S k item item')
     \<Longrightarrow> table_step table table' S"
  unfolding table_step_def by blast

lemma op_step_refresh:
  assumes "refresh_simulation_operation_status oid now (repo\<lparr> simulation_operations := ops, simulation_items := table \<rparr>)
      = Inr (updated, repo')"
    and "dict_get (simulation_operations repo) oid = Some operation"
    and "dict_get ops oid = Some operation1" and "same_admission operation operation1"
    and "\<And>v. dict_set oid v ops = dict_set oid v (simulation_operations repo)"
    and "table_step (simulation_items repo) table
              (\<lambda>k item item'. if fst k = oid then item_step operation chosen now item item' else item' = item)"
  shows "op_step chosen now oid repo repo'"
proof -
  let ?u = "operation1\<lparr> op_status := derive_wave_simulation_operation_status operation1
              (simulation_items_for_operation table oid (op_tenant_id operation1)), op_updated_at := now \<rparr>"
  have r: "repo' = repo\<lparr> simulation_operations := dict_set oid ?u (simulation_operations repo), simulation_items := table \<rparr>"
    using assms(1,3,5) by (auto simp: refresh_iff)
  have "same_admission operation ?u" by (rule same_admission_update [OF assms(4)])
  moreover have "op_status ?u = derive_wave_simulation_operation_status ?u
      (simulation_items_for_operation table oid (op_tenant_id ?u))"
    by (simp add: derive_status_defs wave_simulation_item_is_retryable_def [abs_def])
  ultimately show ?thesis unfolding op_step_def using assms(2,6) r by blast
qed


lemma get_simulation_operation_iff:
  "get_simulation_operation repo tenant oid = Some operation \<longleftrightarrow>
     dict_get (simulation_operations repo) oid = Some operation \<and> op_tenant_id operation = tenant"
  by (auto simp: get_simulation_operation_def split: option.splits)

lemma store_items_table_step:
  assumes "keyed table" and "recs = filter P (simulation_items_for_operation table oid tenant)"
  shows "table_step table (store_items oid f recs table)
    (\<lambda>k item item'. if fst k = oid \<and> si_tenant_id item = tenant \<and> P item then item' = f item else item' = item)"
proof -
  have mem: "item \<in> set recs \<longleftrightarrow> dict_get table (oid, si_wave_item_id item) = Some item \<and> si_tenant_id item = tenant \<and> P item"
    for item using items_for_operation_mem [OF assms(1)] assms(2) by auto
  have dist: "distinct (map (si_wave_item_id \<circ> id) recs)"
    using items_for_operation_distinct [OF assms(1), of oid tenant] unfolding assms(2) by (simp add: distinct_map_filter)
  have "table_step table (store_items oid f recs table)
      (\<lambda>k item item'. (\<exists>x \<in> set recs. k = (oid, si_wave_item_id item) \<and> item = id x \<and> item' = f x)
         \<or> (k \<notin> set (map fst (entries oid f recs)) \<and> item' = item))"
    unfolding store_items_put_all by (rule put_all_table_step [OF assms(1) _ dist]) (simp_all add: entries_def mem)
  then show ?thesis
  proof (rule table_step_mono)
    fix k item item'
    assume get: "dict_get table k = Some item"
      and "(\<exists>x \<in> set recs. k = (oid, si_wave_item_id item) \<and> item = id x \<and> item' = f x)
         \<or> (k \<notin> set (map fst (entries oid f recs)) \<and> item' = item)"
    moreover have "k = (oid, si_wave_item_id item)" if "fst k = oid"
      using keyed_id [OF assms(1) get] that by (simp add: prod_eq_iff)
    ultimately show "if fst k = oid \<and> si_tenant_id item = tenant \<and> P item then item' = f item else item' = item"
      using mem by (auto simp: entries_def)
  qed
qed

lemma retry_step:
  assumes "retry_simulation_items tenant oid requested now repo = Inr (n, repo')" and "keyed (simulation_items repo)"
  shows "repo' = repo \<or> op_step {} now oid repo repo'"
proof (cases "get_simulation_operation repo tenant oid")
  case (Some operation)
  let ?recs = "filter (retry_selected operation requested)
      (simulation_items_for_operation (simulation_items repo) oid tenant)"
  from Some have op: "dict_get (simulation_operations repo) oid = Some operation"
    by (simp add: get_simulation_operation_iff)
  have "table_step (simulation_items repo) (store_items oid (retried_item now) ?recs (simulation_items repo))
      (\<lambda>k item item'. if fst k = oid then item_step operation {} now item item' else item' = item)"
    by (rule table_step_mono [OF store_items_table_step [OF assms(2) refl]])
      (auto simp: item_step_def retry_selected_def wave_simulation_item_is_retryable_def split: if_splits)
  from op_step_refresh [where ops = "simulation_operations repo", OF _ op op same_admission_refl refl this]
  show ?thesis using assms(1) Some
    by (auto simp: retry_simulation_items_def Let_def split: if_splits sum.splits)
qed (use assms(1) in \<open>simp add: retry_simulation_items_def\<close>)

lemma publish_step:
  assumes "publish_simulation_item_terminal claim now status result_item code message retryable repo = Inr (b, repo')"
    and "keyed (simulation_items repo)"
    and "status = SIM_SUCCEEDED \<and> result_item \<noteq> None \<and> \<not> retryable \<or> status = SIM_FAILED \<and> result_item = None"
  shows "repo' = repo \<and> \<not> b \<or> op_step {} now (cl_operation_id claim) repo repo'"
proof (cases "dict_get (simulation_items repo) (cl_operation_id claim, cl_wave_item_id claim)")
  case (Some item)
  let ?k = "(cl_operation_id claim, cl_wave_item_id claim)"
  show ?thesis
  proof (cases "claim_current claim now item")
    case current: True
    with Some assms(1) obtain operation where op: "dict_get (simulation_operations repo) (cl_operation_id claim) = Some operation"
      by (auto simp: publish_simulation_item_terminal_def split: option.splits)
    let ?item = "published_item status result_item code message (retryable \<and> op_cancel_reason_code operation = None) now item"
    have "table_step (simulation_items repo) (dict_set ?k ?item (simulation_items repo))
      (\<lambda>k item item'. if fst k = cl_operation_id claim then item_step operation {} now item item' else item' = item)"
      unfolding table_step_def
    proof (intro conjI allI impI)
      show "dict_keys (dict_set ?k ?item (simulation_items repo)) = dict_keys (simulation_items repo)"
        using dict_get_key [OF Some] by (simp add: dict_keys_set)
      fix k it assume "dict_get (simulation_items repo) k = Some it"
      then show "\<exists>item'. dict_get (dict_set ?k ?item (simulation_items repo)) k = Some item'
          \<and> (if fst k = cl_operation_id claim then item_step operation {} now it item' else item' = it)"
        using Some current assms(3) by (fastforce simp: dict_get_set item_step_def claim_current_def)
    qed
    from op_step_refresh [where ops = "simulation_operations repo", OF _ op op same_admission_refl refl this]
    show ?thesis using assms(1) Some current op
      by (auto simp: publish_simulation_item_terminal_def Let_def split: if_splits sum.splits)
  qed (use assms(1) Some in \<open>simp add: publish_simulation_item_terminal_def\<close>)
qed (use assms(1) in \<open>simp add: publish_simulation_item_terminal_def\<close>)

lemma cancel_step:
  assumes "cancel_simulation_operation tenant oid reason now repo = Inr (res, repo')" and "keyed (simulation_items repo)"
  shows "repo' = repo \<or> op_step {} now oid repo repo'"
proof (cases "get_simulation_operation repo tenant oid")
  case (Some operation)
  let ?op = "operation\<lparr> op_cancel_reason_code :=
               (if op_cancel_reason_code operation \<in> {None, Some ''''} then Some reason
                else op_cancel_reason_code operation), op_updated_at := now \<rparr>"
  let ?recs = "filter (cancel_selected ?op now) (simulation_items_for_operation (simulation_items repo) oid tenant)"
  from Some have op: "dict_get (simulation_operations repo) oid = Some operation"
    by (simp add: get_simulation_operation_iff)
  have sel: "cancel_selected ?op now = cancel_selected operation now"
    by (intro ext) (simp add: cancel_selected_def wave_simulation_item_is_retryable_def)
  have adm: "same_admission operation ?op" by (cases operation) (simp add: same_admission_def)
  have get: "dict_get (dict_set oid ?op (simulation_operations repo)) oid = Some ?op" by (simp add: dict_get_set)
  have "table_step (simulation_items repo) (store_items oid (cancelled_item now) ?recs (simulation_items repo))
      (\<lambda>k item item'. if fst k = oid then item_step operation {} now item item' else item' = item)"
    unfolding sel by (rule table_step_mono [OF store_items_table_step [OF assms(2) refl]])
      (auto simp: item_step_def split: if_splits)
  from op_step_refresh [OF _ op get adm _ this] show ?thesis using assms(1) Some
    by (auto simp: cancel_simulation_operation_def Let_def split: if_splits sum.splits)
qed (use assms(1) in \<open>simp add: cancel_simulation_operation_def\<close>)

text \<open>The items a worker is given, and the table after they have been marked.\<close>

lemma chosen_items:
  assumes "keyed table"
    and "chosen = take n (sort_key key (filter P (simulation_items_for_operation table oid tenant)))"
  shows "distinct (map si_wave_item_id chosen)"
    and "item \<in> set chosen \<Longrightarrow> dict_get table (oid, si_wave_item_id item) = Some item \<and> P item"
    and "length chosen \<le> n"
proof -
  let ?sorted = "sort_key key (filter P (simulation_items_for_operation table oid tenant))"
  have "distinct (map si_wave_item_id (filter P (simulation_items_for_operation table oid tenant)))"
    using items_for_operation_distinct [OF assms(1)] by (simp add: distinct_map_filter)
  then have "distinct (map si_wave_item_id ?sorted)" by (metis distinct_map distinct_sort set_sort)
  then show "distinct (map si_wave_item_id chosen)" unfolding assms(2) take_map [symmetric] by (rule distinct_take)
  have "set chosen \<subseteq> set ?sorted" unfolding assms(2) by (rule set_take_subset)
  then show "item \<in> set chosen \<Longrightarrow> dict_get table (oid, si_wave_item_id item) = Some item \<and> P item"
    using items_for_operation_mem [OF assms(1)] by auto
qed (simp add: assms(2))

lemma claim_table:
  fixes chosen ma worker tokens now lease
  assumes "keyed table" and dist: "distinct (map si_wave_item_id chosen)"
    and mem: "\<forall>item \<in> set chosen. dict_get table (oid, si_wave_item_id item) = Some item"
  defines "kvs \<equiv> map (\<lambda>(j, item). ((oid, si_wave_item_id item), claimed_item ma worker (tokens j) now lease item))
                   (enumerate 0 chosen)"
  shows "table_step table (put_all kvs table)
      (\<lambda>k item item'. fst k = oid \<and> item \<in> set chosen
         \<and> (\<exists>token. item' = claimed_item ma worker token now lease item) \<or> item' = item)"
    and "(j, item) \<in> set (enumerate 0 chosen) \<Longrightarrow>
      dict_get (put_all kvs table) (oid, si_wave_item_id item) = Some (claimed_item ma worker (tokens j) now lease item)"
proof -
  let ?g = "\<lambda>x. claimed_item ma worker (tokens (fst x)) now lease (snd x)"
  have kvs: "kvs = map (\<lambda>x. ((oid, si_wave_item_id (snd x)), ?g x)) (enumerate 0 chosen)"
    unfolding kvs_def by (simp add: case_prod_unfold)
  have in_chosen: "snd x \<in> set chosen" if "x \<in> set (enumerate 0 chosen)" for x
    using that by (metis image_eqI map_snd_enumerate set_map)
  have dist': "distinct (map (si_wave_item_id \<circ> snd) (enumerate 0 chosen))"
    using dist by (simp only: map_map [symmetric] map_snd_enumerate)
  have "\<forall>x \<in> set (enumerate 0 chosen). dict_get table (oid, si_wave_item_id (snd x)) = Some (snd x)"
    using in_chosen mem by blast
  from put_all_table_step [OF assms(1) kvs dist' this]
  show "table_step table (put_all kvs table)
      (\<lambda>k item item'. fst k = oid \<and> item \<in> set chosen
         \<and> (\<exists>token. item' = claimed_item ma worker token now lease item) \<or> item' = item)"
    by (rule table_step_mono) (use in_chosen in auto)
  assume "(j, item) \<in> set (enumerate 0 chosen)"
  then have "((oid, si_wave_item_id item), claimed_item ma worker (tokens j) now lease item) \<in> set kvs"
    unfolding kvs by force
  moreover have keys: "distinct (map fst kvs)" using dist' unfolding kvs by (simp add: distinct_map inj_on_def comp_def)
  ultimately show "dict_get (put_all kvs table) (oid, si_wave_item_id item)
      = Some (claimed_item ma worker (tokens j) now lease item)"
    by (simp add: get_put_all [OF keys] map_of_eq_Some_iff [OF keys])
qed

lemma claim_cases:
  assumes "claim_simulation_items tenant oid worker limit now lease tokens repo = Inr (claims, repo')"
    and keyed: "keyed (simulation_items repo)"
  obtains (none) "claims = []" "repo' = repo"
    | (claimed) operation chosen where
        "dict_get (simulation_operations repo) oid = Some operation" "op_tenant_id operation = tenant"
        "distinct (map si_wave_item_id chosen)"
        "length chosen \<le> op_max_concurrency operation
           - length (filter (holds_lease now) (simulation_items_for_operation (simulation_items repo) oid tenant))"
        "op_step (set chosen) now oid repo repo'"
        "\<And>c. c \<in> set claims \<Longrightarrow> \<exists>token item. claimable now item
             \<and> c = claim_of (op_max_attempts operation) oid tenant worker token lease item
             \<and> dict_get (simulation_items repo) (oid, si_wave_item_id item) = Some item
             \<and> dict_get (simulation_items repo') (oid, si_wave_item_id item)
                 = Some (claimed_item (op_max_attempts operation) worker token now lease item)"
proof (cases "case get_simulation_operation repo tenant oid of None \<Rightarrow> True
    | Some operation \<Rightarrow> op_status operation \<in> {OP_CANCEL_REQUESTED, OP_CANCELLED, OP_SUCCEEDED, OP_FAILED}")
  case True
  then show thesis using assms(1) none by (auto simp: claim_simulation_items_def split: option.splits)
next
  case open_op: False
  then obtain operation where Some: "get_simulation_operation repo tenant oid = Some operation"
    by (auto split: option.splits)
  let ?owned = "simulation_items_for_operation (simulation_items repo) oid tenant" and ?ma = "op_max_attempts operation"
  define n where "n = nat (min (max 0 limit)
    (max 0 (int (op_max_concurrency operation) - int (length (filter (holds_lease now) ?owned)))))"
  define chosen where "chosen = take n (sort_key simulation_item_order (filter (claimable now) ?owned))"
  define table where "table = put_all (map (\<lambda>(j, item). ((oid, si_wave_item_id item),
      claimed_item ?ma worker (tokens j) now lease item)) (enumerate 0 chosen)) (simulation_items repo)"
  note chosen = chosen_items [OF keyed chosen_def]
  have in_table: "\<forall>item \<in> set chosen. dict_get (simulation_items repo) (oid, si_wave_item_id item) = Some item"
    using chosen(2) by blast
  note marked = claim_table [OF keyed chosen(1) in_table, where ma = ?ma and worker = worker
      and tokens = tokens and now = now and lease = lease, folded table_def]
  from Some have op: "dict_get (simulation_operations repo) oid = Some operation" "op_tenant_id operation = tenant"
    by (simp_all add: get_simulation_operation_iff)
  from assms(1) Some open_op obtain updated where
    refresh: "refresh_simulation_operation_status oid now (repo\<lparr>simulation_items := table\<rparr>) = Inr (updated, repo')"
    and claims: "claims = map (\<lambda>(j, item). claim_of ?ma oid tenant worker (tokens j) lease item) (enumerate 0 chosen)"
    by (auto simp: claim_simulation_items_def Let_def claim_loop_put_all n_def chosen_def table_def
        split: if_splits sum.splits)
  have table: "simulation_items repo' = table" using refresh by (auto simp: refresh_iff)
  have "table_step (simulation_items repo) table
      (\<lambda>k item item'. if fst k = oid then item_step operation (set chosen) now item item' else item' = item)"
    by (rule table_step_mono [OF marked(1)]) (use chosen(2) in \<open>auto simp: item_step_def\<close>)
  from op_step_refresh [where ops = "simulation_operations repo", OF _ op(1) op(1) same_admission_refl refl this] refresh
  have step: "op_step (set chosen) now oid repo repo'" by simp
  have members: "\<exists>token item. claimable now item \<and> c = claim_of ?ma oid tenant worker token lease item
             \<and> dict_get (simulation_items repo) (oid, si_wave_item_id item) = Some item
             \<and> dict_get (simulation_items repo') (oid, si_wave_item_id item)
                 = Some (claimed_item ?ma worker token now lease item)" if "c \<in> set claims" for c
  proof -
    from that obtain j item where j: "(j, item) \<in> set (enumerate 0 chosen)"
      "c = claim_of ?ma oid tenant worker (tokens j) lease item" unfolding claims by auto
    then have "item \<in> set chosen" by (metis map_snd_enumerate image_eqI set_map snd_conv)
    with chosen(2) marked(2) [OF j(1)] j(2) table show ?thesis by blast
  qed
  have "length chosen \<le> op_max_concurrency operation - length (filter (holds_lease now) ?owned)"
    using chosen(3) unfolding n_def by linarith
  from claimed [OF op chosen(1) this step members] show thesis .
qed

section \<open>The invariant\<close>

definition leases :: "InMemoryDpmWaveRepository \<Rightarrow> string \<Rightarrow> int \<Rightarrow> string set" where
  "leases repo oid now = {i. \<exists>item. dict_get (simulation_items repo) (oid, i) = Some item \<and> holds_lease now item}"

definition operation_ok :: "int \<Rightarrow> InMemoryDpmWaveRepository \<Rightarrow> string \<Rightarrow> DpmWaveSimulationOperation \<Rightarrow> bool" where
  "operation_ok now repo oid operation \<longleftrightarrow>
     op_operation_id operation = oid
     \<and> op_status operation = derive_wave_simulation_operation_status operation
           (simulation_items_for_operation (simulation_items repo) oid (op_tenant_id operation))
     \<and> (\<forall>t \<ge> now. card (leases repo oid t) \<le> op_max_concurrency operation)"

definition sim_ok :: "int \<Rightarrow> InMemoryDpmWaveRepository \<Rightarrow> bool" where
  "sim_ok now repo \<longleftrightarrow>
     keyed (simulation_items repo)
     \<and> (\<forall>oid operation. dict_get (simulation_operations repo) oid = Some operation \<longrightarrow>
          operation_ok now repo oid operation)
     \<and> (\<forall>oid i item. dict_get (simulation_items repo) (oid, i) = Some item \<longrightarrow>
          (\<exists>operation. dict_get (simulation_operations repo) oid = Some operation
             \<and> si_tenant_id item = op_tenant_id operation \<and> si_attempt_count item \<le> op_max_attempts operation))
     \<and> (\<forall>k oid. dict_get (simulation_operation_idempotency repo) k = Some oid \<longrightarrow>
          (\<exists>operation. dict_get (simulation_operations repo) oid = Some operation
             \<and> k = (op_tenant_id operation, op_idempotency_key_hash operation)))"

lemma sim_okD:
  assumes "sim_ok now repo"
  shows "keyed (simulation_items repo)"
    and "dict_get (simulation_operations repo) oid = Some operation \<Longrightarrow> operation_ok now repo oid operation"
    and "dict_get (simulation_items repo) (oid, i) = Some item \<Longrightarrow>
      \<exists>operation. dict_get (simulation_operations repo) oid = Some operation
             \<and> si_tenant_id item = op_tenant_id operation \<and> si_attempt_count item \<le> op_max_attempts operation"
    and "dict_get (simulation_operation_idempotency repo) k = Some oid \<Longrightarrow>
      \<exists>operation. dict_get (simulation_operations repo) oid = Some operation
             \<and> k = (op_tenant_id operation, op_idempotency_key_hash operation)"
  using assms unfolding sim_ok_def by blast+

lemma derive_status_cong:
  assumes "set recs = set recs'"
  shows "derive_wave_simulation_operation_status operation recs = derive_wave_simulation_operation_status operation recs'"
proof (cases "op_cancel_reason_code operation = None")
  case True
  then show ?thesis by (simp only: derive_status_eq assms)
next
  case False
  then show ?thesis by (simp only: derive_status_cancel [OF False] assms)
qed

lemma finite_leases: "finite (leases repo oid now)"
proof (rule finite_subset)
  show "leases repo oid now \<subseteq> snd ` set (dict_keys (simulation_items repo))"
    using dict_get_key [of "simulation_items repo"] by (force simp: leases_def)
qed simp

lemma leases_count:
  assumes "sim_ok now repo" and "dict_get (simulation_operations repo) oid = Some operation"
  shows "length (filter (holds_lease t)
      (simulation_items_for_operation (simulation_items repo) oid (op_tenant_id operation))) = card (leases repo oid t)"
proof -
  let ?owned = "simulation_items_for_operation (simulation_items repo) oid (op_tenant_id operation)"
  have keyed: "keyed (simulation_items repo)" using assms(1) by (simp add: sim_ok_def)
  have "si_wave_item_id ` set (filter (holds_lease t) ?owned) = leases repo oid t"
  proof (intro equalityI subsetI)
    fix i assume "i \<in> leases repo oid t"
    then obtain item where item: "dict_get (simulation_items repo) (oid, i) = Some item" "holds_lease t item"
      by (auto simp: leases_def)
    moreover have "si_tenant_id item = op_tenant_id operation" using sim_okD(3) [OF assms(1) item(1)] assms(2) by auto
    moreover have "si_wave_item_id item = i" using keyed_id [OF keyed item(1)] by simp
    ultimately show "i \<in> si_wave_item_id ` set (filter (holds_lease t) ?owned)"
      using items_for_operation_mem [OF keyed] by force
  qed (auto simp: leases_def items_for_operation_mem [OF keyed])
  moreover have "distinct (map si_wave_item_id (filter (holds_lease t) ?owned))"
    using items_for_operation_distinct [OF keyed] by (simp add: distinct_map_filter)
  ultimately show ?thesis by (metis distinct_card length_map set_map)
qed

lemma table_step_get:
  assumes "table_step table table' R" and "dict_get table' k = Some item'"
  shows "\<exists>item. dict_get table k = Some item \<and> R k item item'"
proof -
  have "dict_get table k \<noteq> None"
    using assms dict_get_key [OF assms(2)] by (simp add: table_step_def map_of_eq_None_iff)
  then obtain item where "dict_get table k = Some item" by blast
  with assms show ?thesis unfolding table_step_def by fastforce
qed

lemma op_step_cases:
  assumes "op_step chosen now oid repo repo'"
  obtains operation operation' where
    "dict_get (simulation_operations repo) oid = Some operation" "same_admission operation operation'"
    "op_status operation' = derive_wave_simulation_operation_status operation'
              (simulation_items_for_operation (simulation_items repo') oid (op_tenant_id operation'))"
    "\<And>o1. dict_get (simulation_operations repo') o1
        = (if o1 = oid then Some operation' else dict_get (simulation_operations repo) o1)"
    "dict_keys (simulation_items repo') = dict_keys (simulation_items repo)"
    "\<And>o1 i. o1 \<noteq> oid \<Longrightarrow> dict_get (simulation_items repo') (o1, i) = dict_get (simulation_items repo) (o1, i)"
    "\<And>i item'. dict_get (simulation_items repo') (oid, i) = Some item' \<Longrightarrow>
        \<exists>item. dict_get (simulation_items repo) (oid, i) = Some item \<and> item_step operation chosen now item item'"
    "\<And>i item. dict_get (simulation_items repo) (oid, i) = Some item \<Longrightarrow>
        \<exists>item'. dict_get (simulation_items repo') (oid, i) = Some item' \<and> item_step operation chosen now item item'"
    "simulation_operation_idempotency repo' = simulation_operation_idempotency repo"
proof -
  from assms obtain operation operation' table where
    op: "dict_get (simulation_operations repo) oid = Some operation" "same_admission operation operation'"
    and status: "op_status operation' = derive_wave_simulation_operation_status operation'
              (simulation_items_for_operation table oid (op_tenant_id operation'))"
    and step: "table_step (simulation_items repo) table
              (\<lambda>k item item'. if fst k = oid then item_step operation chosen now item item' else item' = item)"
    and repo': "repo' = repo\<lparr> simulation_operations := dict_set oid operation' (simulation_operations repo),
                         simulation_items := table \<rparr>"
    unfolding op_step_def by blast
  have other: "dict_get table (o1, i) = dict_get (simulation_items repo) (o1, i)" if "o1 \<noteq> oid" for o1 i
  proof (cases "dict_get table (o1, i)")
    case None
    then show ?thesis using step that unfolding table_step_def by (metis map_of_eq_None_iff set_map)
  next
    case (Some item')
    from table_step_get [OF step this] that Some show ?thesis by auto
  qed
  show thesis
  proof (rule that [OF op])
    show "\<exists>item. dict_get (simulation_items repo) (oid, i) = Some item \<and> item_step operation chosen now item item'"
      if "dict_get (simulation_items repo') (oid, i) = Some item'" for i item'
      using table_step_get [OF step, of "(oid, i)"] that repo' by auto
    show "\<exists>item'. dict_get (simulation_items repo') (oid, i) = Some item' \<and> item_step operation chosen now item item'"
      if "dict_get (simulation_items repo) (oid, i) = Some item" for i item
      using step that repo' unfolding table_step_def by fastforce
  qed (use status step other in \<open>auto simp: repo' dict_get_set table_step_def\<close>)
qed

lemma op_step_leases:
  assumes "op_step chosen now oid repo repo'" and "keyed (simulation_items repo)" and "now \<le> t"
  shows "leases repo' oid t \<subseteq> leases repo oid now \<union> si_wave_item_id ` chosen"
proof
  fix i assume "i \<in> leases repo' oid t"
  then obtain item' where item': "dict_get (simulation_items repo') (oid, i) = Some item'" "holds_lease t item'"
    by (auto simp: leases_def)
  from assms(1) obtain operation item where item: "dict_get (simulation_items repo) (oid, i) = Some item"
    "item_step operation chosen now item item'"
    by (rule op_step_cases) (use item'(1) in blast)
  from item_step_lease [OF item(2) item'(2)] show "i \<in> leases repo oid now \<union> si_wave_item_id ` chosen"
    using item(1) keyed_id [OF assms(2) item(1)] holds_lease_antimono [OF _ assms(3)] by (auto simp: leases_def)
qed

lemma op_step_leases_other:
  assumes "op_step chosen now oid repo repo'" and "o1 \<noteq> oid"
  shows "leases repo' o1 t = leases repo o1 t"
  using assms(1) by (rule op_step_cases) (use assms(2) in \<open>simp add: leases_def\<close>)

lemma op_step_keyed:
  assumes "op_step chosen now oid repo repo'" and "keyed (simulation_items repo)"
  shows "keyed (simulation_items repo')"
  using assms(1)
proof (rule op_step_cases)
  fix operation
  assume keys: "dict_keys (simulation_items repo') = dict_keys (simulation_items repo)"
    and other: "\<And>o1 i. o1 \<noteq> oid \<Longrightarrow> dict_get (simulation_items repo') (o1, i) = dict_get (simulation_items repo) (o1, i)"
    and own: "\<And>i item'. dict_get (simulation_items repo') (oid, i) = Some item' \<Longrightarrow>
        \<exists>item. dict_get (simulation_items repo) (oid, i) = Some item \<and> item_step operation chosen now item item'"
  have "si_wave_item_id item' = i" if "dict_get (simulation_items repo') (o1, i) = Some item'" for o1 i item'
  proof (cases "o1 = oid")
    case True
    with own that obtain item where "dict_get (simulation_items repo) (oid, i) = Some item"
      "item_step operation chosen now item item'" by blast
    with keyed_id [OF assms(2)] item_step_keeps(1) show ?thesis by fastforce
  next
    case False
    with other that keyed_id [OF assms(2), of "(o1, i)"] show ?thesis by simp
  qed
  with keys assms(2) show ?thesis unfolding keyed_def by auto
qed

lemma op_step_ok:
  assumes ok: "sim_ok now repo" and step: "op_step chosen t oid repo repo'" and "now \<le> t"
    and bound: "\<And>operation. dict_get (simulation_operations repo) oid = Some operation \<Longrightarrow>
        finite chosen \<and> card (leases repo oid t) + card chosen \<le> op_max_concurrency operation"
  shows "sim_ok t repo'"
  using step
proof (rule op_step_cases)
  fix operation operation'
  assume op: "dict_get (simulation_operations repo) oid = Some operation" and adm: "same_admission operation operation'"
    and status: "op_status operation' = derive_wave_simulation_operation_status operation'
              (simulation_items_for_operation (simulation_items repo') oid (op_tenant_id operation'))"
    and ops: "\<And>o1. dict_get (simulation_operations repo') o1
        = (if o1 = oid then Some operation' else dict_get (simulation_operations repo) o1)"
    and other: "\<And>o1 i. o1 \<noteq> oid \<Longrightarrow> dict_get (simulation_items repo') (o1, i) = dict_get (simulation_items repo) (o1, i)"
    and own: "\<And>i item'. dict_get (simulation_items repo') (oid, i) = Some item' \<Longrightarrow>
        \<exists>item. dict_get (simulation_items repo) (oid, i) = Some item \<and> item_step operation chosen t item item'"
    and idem: "simulation_operation_idempotency repo' = simulation_operation_idempotency repo"
  note keyed = sim_okD(1) [OF ok] and keyed' = op_step_keyed [OF step sim_okD(1) [OF ok]]
  have item: "\<exists>op1. dict_get (simulation_operations repo') o1 = Some op1 \<and> si_tenant_id item' = op_tenant_id op1
      \<and> si_attempt_count item' \<le> op_max_attempts op1" if "dict_get (simulation_items repo') (o1, i) = Some item'" for o1 i item'
  proof (cases "o1 = oid")
    case True
    with own that obtain item where item: "dict_get (simulation_items repo) (oid, i) = Some item"
      "item_step operation chosen t item item'" by blast
    with sim_okD(3) [OF ok item(1)] op item_step_keeps [OF item(2)] same_admission_fields [OF adm]
    show ?thesis by (auto simp: ops True)
  next
    case False
    with sim_okD(3) [OF ok, of o1 i] that show ?thesis by (simp add: other ops)
  qed
  have mine: "operation_ok t repo' oid operation'"
  proof -
    have "card (leases repo' oid s) \<le> op_max_concurrency operation'" if "t \<le> s" for s
    proof -
      have "card (leases repo' oid s) \<le> card (leases repo oid t \<union> si_wave_item_id ` chosen)"
        using op_step_leases [OF step keyed that] bound [OF op] by (intro card_mono) (simp_all add: finite_leases)
      also have "\<dots> \<le> card (leases repo oid t) + card chosen"
        using card_Un_le [of "leases repo oid t" "si_wave_item_id ` chosen"] card_image_le [of chosen si_wave_item_id]
          bound [OF op] by linarith
      finally show ?thesis using bound [OF op] same_admission_fields(4) [OF adm] by simp
    qed
    moreover have "op_operation_id operation' = oid"
      using sim_okD(2) [OF ok op] same_admission_fields(1) [OF adm] by (simp add: operation_ok_def)
    ultimately show ?thesis using status by (simp add: operation_ok_def)
  qed
  have "operation_ok t repo' o1 op1" if "o1 \<noteq> oid" "dict_get (simulation_operations repo) o1 = Some op1" for o1 op1
  proof -
    have "set (simulation_items_for_operation (simulation_items repo') o1 (op_tenant_id op1))
        = set (simulation_items_for_operation (simulation_items repo) o1 (op_tenant_id op1))"
      by (intro set_eqI) (simp add: items_for_operation_mem [OF keyed] items_for_operation_mem [OF keyed'] other [OF that(1)])
    from derive_status_cong [OF this] sim_okD(2) [OF ok that(2)] op_step_leases_other [OF step that(1)] \<open>now \<le> t\<close>
    show ?thesis by (simp add: operation_ok_def)
  qed
  with mine have "operation_ok t repo' o1 op1" if "dict_get (simulation_operations repo') o1 = Some op1" for o1 op1
    using that by (auto simp: ops split: if_splits)
  moreover have "\<exists>op1. dict_get (simulation_operations repo') o1 = Some op1
      \<and> k = (op_tenant_id op1, op_idempotency_key_hash op1)"
    if "dict_get (simulation_operation_idempotency repo') k = Some o1" for k o1
    using sim_okD(4) [OF ok, of k o1] that same_admission_fields [OF adm] op by (auto simp: ops idem)
  ultimately show ?thesis using keyed' item unfolding sim_ok_def by blast
qed

section \<open>Admission\<close>

text \<open>An operation as the service builds it: no item has been tried yet.\<close>

definition fresh_admission :: "DpmWaveSimulationOperation \<Rightarrow> DpmWaveSimulationItemRecord list \<Rightarrow> bool" where
  "fresh_admission operation recs \<longleftrightarrow>
     op_status operation = OP_PENDING \<and> op_cancel_reason_code operation = None \<and> recs \<noteq> []
     \<and> (\<forall>r \<in> set recs. si_status r = SIM_PENDING \<and> si_attempt_count r = 0)"

lemma admit_cases:
  assumes "admit_simulation_operation operation recs w repo = Inr (res, repo')"
  obtains (replayed) existing oid where "res = (existing, True)" "repo' = repo"
      "dict_get (simulation_operation_idempotency repo) (op_tenant_id operation, op_idempotency_key_hash operation) = Some oid"
      "dict_get (simulation_operations repo) oid = Some existing"
      "op_request_hash existing = op_request_hash operation"
      "op_risk_authority_context_hash existing = op_risk_authority_context_hash operation"
  | (admitted) wave where "res = (operation, False)" "repo' = store_admission operation recs w repo"
      "dict_get (simulation_operation_idempotency repo) (op_tenant_id operation, op_idempotency_key_hash operation) = None"
      "dict_get (repo_waves repo) (op_wave_id operation) = Some wave"
      "wave_tenant_id wave = Some (op_tenant_id operation)" "version wave = op_admitted_wave_version operation"
      "validate_simulation_admission_items operation recs wave = Inr ()"
      "wave_id w = wave_id wave" "wave_tenant_id w = Some (op_tenant_id operation)" "wave_state w = SIMULATING"
      "version w = version wave + 1"
proof (cases "dict_get (simulation_operation_idempotency repo) (op_tenant_id operation, op_idempotency_key_hash operation)")
  case None
  with assms show thesis
    by (auto simp: admit_simulation_operation_def split: option.splits if_splits sum.splits intro!: admitted)
next
  case (Some oid)
  with assms show thesis
    by (auto simp: admit_simulation_operation_def split: option.splits if_splits intro!: replayed)
qed

lemma validate_admission:
  assumes "validate_simulation_admission_items operation recs wave = Inr ()"
  shows "distinct (map si_wave_item_id recs)"
    and "r \<in> set recs \<Longrightarrow> si_tenant_id r = op_tenant_id operation \<and> si_operation_id r = op_operation_id operation"
  using assms by (auto simp: validate_simulation_admission_items_def Let_def split: if_splits)

lemma admitted_get:
  assumes "distinct (map si_wave_item_id recs)"
  shows "dict_get (simulation_items (store_admission operation recs w repo)) (o1, i) =
    (case if o1 = op_operation_id operation then List.find (\<lambda>r. si_wave_item_id r = i) recs else None of
       None \<Rightarrow> dict_get (simulation_items repo) (o1, i) | Some r \<Rightarrow> Some r)"
proof -
  let ?kvs = "entries (op_operation_id operation) (\<lambda>r. r) recs"
  have dist: "distinct (map fst ?kvs)"
    using assms by (simp add: entries_def distinct_map inj_on_def comp_def)
  have find: "map_of ?kvs (o1, i) = (if o1 = op_operation_id operation then List.find (\<lambda>r. si_wave_item_id r = i) recs else None)"
    unfolding entries_def by (induction recs) auto
  from get_put_all [OF dist, of "simulation_items repo" "(o1, i)"] show ?thesis
    unfolding find by (simp add: store_admission_def entries_def)
qed

lemma admit_ok:
  assumes ok: "sim_ok now repo" and "now \<le> t" and fresh: "fresh_admission operation recs"
    and new: "op_operation_id operation \<notin> set (dict_keys (simulation_operations repo))"
    and dist: "distinct (map si_wave_item_id recs)"
    and own: "\<And>r. r \<in> set recs \<Longrightarrow> si_tenant_id r = op_tenant_id operation"
  shows "sim_ok t (store_admission operation recs w repo)"
proof -
  let ?repo = "store_admission operation recs w repo" and ?oid = "op_operation_id operation"
  have none: "dict_get (simulation_items repo) (?oid, i) = None" for i
    using sim_okD(3) [OF ok, of ?oid i] dict_get_key [of "simulation_operations repo" ?oid] new by (metis option.exhaust)
  have get: "dict_get (simulation_items ?repo) (o1, i) =
    (if o1 = ?oid then List.find (\<lambda>r. si_wave_item_id r = i) recs else dict_get (simulation_items repo) (o1, i))" for o1 i
    by (simp add: admitted_get [OF dist] none split: option.splits)
  have ops: "dict_get (simulation_operations ?repo) o1 = (if o1 = ?oid then Some operation else dict_get (simulation_operations repo) o1)"
    for o1 by (simp add: store_admission_def dict_get_set)
  have keyed: "keyed (simulation_items ?repo)"
  proof -
    have "dict_ok (simulation_items ?repo)"
      using sim_okD(1) [OF ok] by (simp add: store_admission_def keyed_def dict.distinct_keys_fold_put)
    moreover have "si_wave_item_id item = i" if "dict_get (simulation_items ?repo) (o1, i) = Some item" for o1 i item
      using that keyed_id [OF sim_okD(1) [OF ok], of "(o1, i)"] by (auto simp: get split: if_splits dest!: find_SomeD)
    ultimately show ?thesis unfolding keyed_def by auto
  qed
  have mem: "set (simulation_items_for_operation (simulation_items ?repo) ?oid (op_tenant_id operation)) = set recs"
  proof (intro set_eqI iffI)
    fix r assume "r \<in> set recs"
    then show "r \<in> set (simulation_items_for_operation (simulation_items ?repo) ?oid (op_tenant_id operation))"
      using find_by_id [OF dist] own by (simp add: items_for_operation_mem [OF keyed] get)
  qed (auto simp: items_for_operation_mem [OF keyed] get dest!: find_SomeD)
  have idle: "leases ?repo ?oid s = {}" for s
    using fresh by (auto simp: leases_def get holds_lease_def fresh_admission_def dest!: find_SomeD)
  have "derive_wave_simulation_operation_status operation recs = OP_PENDING"
    using fresh by (auto simp: derive_status_eq fresh_admission_def item_outstanding_def)
  then have "operation_ok t ?repo ?oid operation"
    using fresh derive_status_cong [OF mem] by (simp add: operation_ok_def idle fresh_admission_def)
  moreover have "operation_ok t ?repo o1 op1" if "o1 \<noteq> ?oid" "dict_get (simulation_operations repo) o1 = Some op1" for o1 op1
  proof -
    have recs: "set (simulation_items_for_operation (simulation_items ?repo) o1 (op_tenant_id op1))
        = set (simulation_items_for_operation (simulation_items repo) o1 (op_tenant_id op1))"
      using that(1)
      by (intro set_eqI) (simp add: items_for_operation_mem [OF keyed] items_for_operation_mem [OF sim_okD(1) [OF ok]] get)
    have "leases ?repo o1 s = leases repo o1 s" for s using that(1) by (simp add: leases_def get)
    with derive_status_cong [OF recs] sim_okD(2) [OF ok that(2)] \<open>now \<le> t\<close> show ?thesis
      by (simp add: operation_ok_def)
  qed
  ultimately have "operation_ok t ?repo o1 op1" if "dict_get (simulation_operations ?repo) o1 = Some op1" for o1 op1
    using that by (auto simp: ops split: if_splits)
  moreover have "\<exists>op1. dict_get (simulation_operations ?repo) o1 = Some op1 \<and> si_tenant_id item = op_tenant_id op1
      \<and> si_attempt_count item \<le> op_max_attempts op1" if "dict_get (simulation_items ?repo) (o1, i) = Some item" for o1 i item
    using that sim_okD(3) [OF ok, of o1 i item] own fresh
    by (auto simp: get ops fresh_admission_def split: if_splits dest!: find_SomeD)
  moreover have "\<exists>op1. dict_get (simulation_operations ?repo) o1 = Some op1
      \<and> k = (op_tenant_id op1, op_idempotency_key_hash op1)"
    if "dict_get (simulation_operation_idempotency ?repo) k = Some o1" for k o1
    using that sim_okD(4) [OF ok, of k o1] dict_get_key [of "simulation_operations repo"] new
    by (auto simp: ops store_admission_def dict_get_set split: if_splits)
  ultimately show ?thesis using keyed unfolding sim_ok_def by blast
qed

section \<open>Runs\<close>

text \<open>
  What can happen to the store, by any worker and at any time: the clock never goes back. The
  identifier of a new operation is not in use; it is derived from the tenant, the wave and the
  idempotency key.
\<close>

inductive sim_step :: "int \<Rightarrow> InMemoryDpmWaveRepository \<Rightarrow> int \<Rightarrow> InMemoryDpmWaveRepository \<Rightarrow> bool" where
  admit: "now \<le> t \<Longrightarrow> fresh_admission operation recs \<Longrightarrow>
    (dict_get (simulation_operation_idempotency repo) (op_tenant_id operation, op_idempotency_key_hash operation) = None
       \<Longrightarrow> op_operation_id operation \<notin> set (dict_keys (simulation_operations repo))) \<Longrightarrow>
    admit_simulation_operation operation recs w repo = Inr (res, repo') \<Longrightarrow> sim_step now repo t repo'"
| claim: "now \<le> t \<Longrightarrow> claim_simulation_items tenant oid worker limit t lease tokens repo = Inr (claims, repo')
    \<Longrightarrow> sim_step now repo t repo'"
| publish_result: "now \<le> t \<Longrightarrow> publish_simulation_item_result c result_item t repo = Inr (b, repo')
    \<Longrightarrow> sim_step now repo t repo'"
| publish_failure: "now \<le> t \<Longrightarrow> publish_simulation_item_failure c code message retryable t repo = Inr (b, repo')
    \<Longrightarrow> sim_step now repo t repo'"
| retry: "now \<le> t \<Longrightarrow> retry_simulation_items tenant oid requested t repo = Inr (n, repo') \<Longrightarrow> sim_step now repo t repo'"
| cancel: "now \<le> t \<Longrightarrow> cancel_simulation_operation tenant oid reason t repo = Inr (r, repo') \<Longrightarrow> sim_step now repo t repo'"
| save: "now \<le> t \<Longrightarrow> save_wave sha256 wave key rhash tenant repo = Inr repo' \<Longrightarrow> sim_step now repo t repo'"
| update: "now \<le> t \<Longrightarrow> update_wave repo wave v tenant = Inr repo' \<Longrightarrow> sim_step now repo t repo'"

inductive sim_steps :: "int \<Rightarrow> InMemoryDpmWaveRepository \<Rightarrow> int \<Rightarrow> InMemoryDpmWaveRepository \<Rightarrow> bool" for now repo where
  idle: "sim_steps now repo now repo"
| step: "sim_steps now repo t repo' \<Longrightarrow> sim_step t repo' u repo'' \<Longrightarrow> sim_steps now repo u repo''"

lemma leases_mono: "now \<le> t \<Longrightarrow> leases repo oid t \<subseteq> leases repo oid now"
  unfolding leases_def using holds_lease_antimono by blast

lemma sim_ok_later: "sim_ok now repo \<Longrightarrow> now \<le> t \<Longrightarrow> sim_ok t repo"
  unfolding sim_ok_def operation_ok_def by fastforce

lemma sim_ok_tables:
  assumes "sim_ok now repo" "now \<le> t" "simulation_items repo' = simulation_items repo"
    "simulation_operations repo' = simulation_operations repo"
    "simulation_operation_idempotency repo' = simulation_operation_idempotency repo"
  shows "sim_ok t repo'"
  using sim_ok_later [OF assms(1,2)] assms(3-5) by (simp add: sim_ok_def operation_ok_def leases_def)

lemma quiet_step_ok:
  assumes ok: "sim_ok now repo" and le: "now \<le> t" and step: "repo' = repo \<or> op_step {} t oid repo repo'"
  shows "sim_ok t repo'"
  using step
proof
  assume "op_step {} t oid repo repo'"
  then show ?thesis
  proof (rule op_step_ok [OF ok _ le])
    fix operation assume op: "dict_get (simulation_operations repo) oid = Some operation"
    show "finite {} \<and> card (leases repo oid t) + card {} \<le> op_max_concurrency operation"
      using sim_okD(2) [OF ok op] le by (simp add: operation_ok_def)
  qed
qed (simp add: sim_ok_later [OF ok le])

lemma claim_ok:
  assumes ok: "sim_ok now repo" and le: "now \<le> t"
    and claim: "claim_simulation_items tenant oid worker limit t lease tokens repo = Inr (claims, repo')"
  shows "sim_ok t repo'"
  using claim sim_okD(1) [OF ok]
proof (cases rule: claim_cases)
  case none
  then show ?thesis by (simp add: sim_ok_later [OF ok le])
next
  case (claimed operation chosen)
  show ?thesis
  proof (rule op_step_ok [OF ok claimed(5) le])
    fix operation1 assume "dict_get (simulation_operations repo) oid = Some operation1"
    with claimed(1) have eq: "operation1 = operation" by simp
    have "card (set chosen) \<le> length chosen" by (rule card_length)
    moreover have "card (leases repo oid t) \<le> op_max_concurrency operation"
      using sim_okD(2) [OF ok claimed(1)] le by (simp add: operation_ok_def)
    ultimately show "finite (set chosen) \<and> card (leases repo oid t) + card (set chosen) \<le> op_max_concurrency operation1"
      using claimed(4) leases_count [OF ok claimed(1), of t] claimed(2) eq by simp
  qed
qed

lemma sim_step_ok:
  assumes "sim_step now repo t repo'" and "sim_ok now repo"
  shows "sim_ok t repo'"
  using assms
proof (induction rule: sim_step.induct)
  case (admit now t operation recs repo w res repo')
  from admit.hyps(4) show ?case
  proof (cases rule: admit_cases)
    case replayed
    then show ?thesis using admit by (simp add: sim_ok_later)
  next
    case (admitted wave)
    note v = validate_admission [OF admitted(7)]
    show ?thesis unfolding admitted(2)
      using admit_ok [OF admit.prems admit.hyps(1,2) admit.hyps(3) [OF admitted(3)] v(1)] v(2) by blast
  qed
next
  case (publish_result now t c result_item repo b repo')
  with publish_step [OF publish_result.hyps(2) [unfolded publish_simulation_item_result_def] sim_okD(1)]
  show ?case by (blast intro: quiet_step_ok)
next
  case (publish_failure now t c code message retryable repo b repo')
  with publish_step [OF publish_failure.hyps(2) [unfolded publish_simulation_item_failure_def] sim_okD(1)]
  show ?case by (blast intro: quiet_step_ok)
next
  case (save now t sha256 wave key rhash tenant repo repo')
  then show ?case by (auto simp: save_wave_def Let_def split: if_splits intro: sim_ok_tables)
next
  case (update now t repo wave v tenant repo')
  then show ?case by (auto simp: update_wave_def split: if_splits option.splits intro: sim_ok_tables)
next
  case claim
  then show ?case by (blast intro: claim_ok)
next
  case (retry now t tenant oid requested repo n repo')
  from quiet_step_ok [OF retry.prems retry.hyps(1) retry_step [OF retry.hyps(2) sim_okD(1) [OF retry.prems]]]
  show ?case .
next
  case (cancel now t tenant oid reason repo r repo')
  from quiet_step_ok [OF cancel.prems cancel.hyps(1) cancel_step [OF cancel.hyps(2) sim_okD(1) [OF cancel.prems]]]
  show ?case .
qed

text \<open>Every step moves every item along its own transitions, and touches nothing else of the simulation tables.\<close>

lemma op_step_item:
  assumes "op_step chosen now o1 repo repo'" and "dict_get (simulation_items repo) (oid, i) = Some item"
    and "dict_get (simulation_operations repo) oid = Some operation"
  shows "\<exists>item'. dict_get (simulation_items repo') (oid, i) = Some item' \<and> item_step operation chosen now item item'"
  using assms(1)
proof (rule op_step_cases)
  fix operation1
  assume "dict_get (simulation_operations repo) o1 = Some operation1"
    and "\<And>o2 i. o2 \<noteq> o1 \<Longrightarrow> dict_get (simulation_items repo') (o2, i) = dict_get (simulation_items repo) (o2, i)"
    and "\<And>i item. dict_get (simulation_items repo) (o1, i) = Some item \<Longrightarrow>
        \<exists>item'. dict_get (simulation_items repo') (o1, i) = Some item' \<and> item_step operation1 chosen now item item'"
  with assms(2,3) show ?thesis by (cases "oid = o1") (auto simp: item_step_def [of _ _ _ item item])
qed

lemma item_step_refl: "item_step operation chosen now item item"
  by (simp add: item_step_def)

lemma sim_step_op_step:
  assumes "sim_step now repo t repo'" and "sim_ok now repo"
  obtains (tables) "simulation_items repo' = simulation_items repo" "simulation_operations repo' = simulation_operations repo"
  | (moved) chosen oid where "op_step chosen t oid repo repo'"
  | (admission) operation recs w where "repo' = store_admission operation recs w repo"
      "op_operation_id operation \<notin> set (dict_keys (simulation_operations repo))" "distinct (map si_wave_item_id recs)"
  using assms
proof (induction rule: sim_step.induct)
  case (admit now t operation recs repo w res repo')
  from admit.hyps(4) show ?case
  proof (cases rule: admit_cases)
    case replayed
    then show ?thesis using admit.prems(1) by simp
  next
    case (admitted wave)
    from admit.prems(3) [OF admitted(2) admit.hyps(3) [OF admitted(3)] validate_admission(1) [OF admitted(7)]]
    show ?thesis .
  qed
next
  case (claim now t tenant oid worker limit lease tokens repo claims repo')
  from claim.hyps(2) sim_okD(1) [OF claim.prems(4)] show ?case
    by (cases rule: claim_cases) (use claim.prems(1,2) in auto)
next
  case (publish_result now t c result_item repo b repo')
  with publish_step [OF publish_result.hyps(2) [unfolded publish_simulation_item_result_def] sim_okD(1)]
  show ?case by blast
next
  case (publish_failure now t c code message retryable repo b repo')
  with publish_step [OF publish_failure.hyps(2) [unfolded publish_simulation_item_failure_def] sim_okD(1)]
  show ?case by blast
next
  case (retry now t tenant oid requested repo n repo')
  from retry_step [OF retry.hyps(2) sim_okD(1) [OF retry.prems(4)]] retry.prems show ?case by blast
next
  case (cancel now t tenant oid reason repo r repo')
  from cancel_step [OF cancel.hyps(2) sim_okD(1) [OF cancel.prems(4)]] cancel.prems show ?case by blast
next
  case (save now t sha256 wave key rhash tenant repo repo')
  then show ?case by (auto simp: save_wave_def Let_def split: if_splits)
next
  case (update now t repo wave v tenant repo')
  then show ?case by (auto simp: update_wave_def split: if_splits option.splits)
qed

lemma sim_step_item:
  assumes "sim_step now repo t repo'" and ok: "sim_ok now repo"
    and item: "dict_get (simulation_items repo) (oid, i) = Some item"
    and op: "dict_get (simulation_operations repo) oid = Some operation"
  shows "\<exists>item' chosen. dict_get (simulation_items repo') (oid, i) = Some item' \<and> item_step operation chosen t item item'"
  using assms(1) ok
proof (cases rule: sim_step_op_step)
  case tables
  then show ?thesis using item item_step_refl by auto
next
  case (moved chosen o1)
  from op_step_item [OF this item op] show ?thesis by blast
next
  case (admission operation1 recs w)
  have "oid \<noteq> op_operation_id operation1" using dict_get_key [OF op] admission(2) by blast
  then have "dict_get (simulation_items repo') (oid, i) = Some item"
    using item unfolding admission(1) by (simp add: admitted_get [OF admission(3)])
  then show ?thesis using item_step_refl by blast
qed

lemma sim_step_operation:
  assumes "sim_step now repo t repo'" and ok: "sim_ok now repo"
    and op: "dict_get (simulation_operations repo) oid = Some operation"
  shows "\<exists>operation'. dict_get (simulation_operations repo') oid = Some operation' \<and> same_admission operation operation'"
  using assms(1) ok
proof (cases rule: sim_step_op_step)
  case tables
  then show ?thesis using op by simp
next
  case (moved chosen o1)
  then show ?thesis by (rule op_step_cases) (use op in auto)
next
  case (admission operation1 recs w)
  have "oid \<noteq> op_operation_id operation1" using dict_get_key [OF op] admission(2) by blast
  then show ?thesis using op admission(1) by (simp add: store_admission_def dict_get_set)
qed

lemma sim_steps_ok: "sim_steps now repo t repo' \<Longrightarrow> sim_ok now repo \<Longrightarrow> sim_ok t repo'"
  by (induction rule: sim_steps.induct) (auto intro: sim_step_ok)

text \<open>Along a whole run: the generation of an item grows, a success or a cancellation stays.\<close>

lemma sim_steps_item:
  assumes "sim_steps now repo t repo'" and ok: "sim_ok now repo"
    and item: "dict_get (simulation_items repo) (oid, i) = Some item"
  shows "\<exists>item'. dict_get (simulation_items repo') (oid, i) = Some item'
    \<and> si_claim_generation item \<le> si_claim_generation item'
    \<and> (si_status item \<in> {SIM_SUCCEEDED, SIM_CANCELLED} \<longrightarrow> item' = item)"
  using assms(1)
proof (induction rule: sim_steps.induct)
  case (step t repo' u repo'')
  then obtain item' where item': "dict_get (simulation_items repo') (oid, i) = Some item'"
    "si_claim_generation item \<le> si_claim_generation item'"
    "si_status item \<in> {SIM_SUCCEEDED, SIM_CANCELLED} \<longrightarrow> item' = item" by blast
  note ok' = sim_steps_ok [OF step.hyps(1) ok]
  from sim_okD(3) [OF ok' item'(1)] obtain operation where
    op: "dict_get (simulation_operations repo') oid = Some operation" by blast
  from sim_step_item [OF step.hyps(2) ok' item'(1) op] obtain item'' chosen where
    "dict_get (simulation_items repo'') (oid, i) = Some item''" "item_step operation chosen u item' item''" by blast
  with item' item_step_keeps(3,5) show ?case by (metis le_trans)
qed (use item in simp)

lemma sim_ok_empty: "sim_ok now empty_repository"
  by (simp add: sim_ok_def empty_repository_def keyed_def)

lemmas reachable_ok = sim_steps_ok [OF _ sim_ok_empty]

text \<open>Who holds the item right after a claim, and what a publication needs.\<close>

lemma claim_issued:
  assumes "claim_simulation_items tenant oid worker limit now lease tokens repo = Inr (claims, repo')"
    and "sim_ok t repo" and "c \<in> set claims"
  shows "cl_operation_id c = oid" and "\<exists>item. dict_get (simulation_items repo') (cl_operation_id c, cl_wave_item_id c) = Some item
    \<and> si_claim_generation item = cl_claim_generation c
    \<and> (\<exists>old. dict_get (simulation_items repo) (cl_operation_id c, cl_wave_item_id c) = Some old
         \<and> cl_claim_generation c = si_claim_generation old + 1 \<and> claimable now old)"
proof -
  obtain operation :: DpmWaveSimulationOperation where claimed:
    "\<exists>token item. claimable now item
       \<and> c = claim_of (op_max_attempts operation) oid tenant worker token lease item
       \<and> dict_get (simulation_items repo) (oid, si_wave_item_id item) = Some item
       \<and> dict_get (simulation_items repo') (oid, si_wave_item_id item)
           = Some (claimed_item (op_max_attempts operation) worker token now lease item)"
    using assms(1) sim_okD(1) [OF assms(2)]
  proof (cases rule: claim_cases)
    case none
    then show thesis using assms(3) by simp
  next
    case (claimed operation chosen)
    show thesis by (rule that) (rule claimed(6) [OF assms(3)])
  qed
  then show "cl_operation_id c = oid" by (auto simp: claim_of_def)
  from claimed show "\<exists>item. dict_get (simulation_items repo') (cl_operation_id c, cl_wave_item_id c) = Some item
    \<and> si_claim_generation item = cl_claim_generation c
    \<and> (\<exists>old. dict_get (simulation_items repo) (cl_operation_id c, cl_wave_item_id c) = Some old
         \<and> cl_claim_generation c = si_claim_generation old + 1 \<and> claimable now old)"
    by (auto simp: claim_of_def claimed_item_def)
qed

lemma publish_stale:
  assumes "dict_get (simulation_items repo) (cl_operation_id c, cl_wave_item_id c) = Some item"
    and "cl_claim_generation c \<noteq> si_claim_generation item"
  shows "publish_simulation_item_terminal c tm status result_item code message retryable repo = Inr (False, repo)"
  using assms by (simp add: publish_simulation_item_terminal_def claim_current_def)


section \<open>Claims, publication and cancellation\<close>

lemma cancel_selected_settles:
  assumes "si_status item = SIM_RUNNING \<Longrightarrow> case si_lease_expires_at item of None \<Rightarrow> False | Some l \<Rightarrow> l < t"
  shows "cancel_selected operation t item \<longleftrightarrow> item_outstanding operation item"
  using assms by (auto simp: cancel_selected_def item_outstanding_def)

lemma cancelled_item_settled: "\<not> item_outstanding operation (cancelled_item t item)"
  by (simp add: item_outstanding_def cancelled_item_def wave_simulation_item_is_retryable_def)

text \<open>What a cancellation that finds something outstanding does.\<close>

lemma cancel_open:
  assumes "keyed (simulation_items repo)" and "get_simulation_operation repo tenant oid = Some operation"
    and "op_status operation \<notin> {OP_SUCCEEDED, OP_FAILED, OP_CANCELLED}"
    and "\<exists>item \<in> set (simulation_items_for_operation (simulation_items repo) oid tenant). item_outstanding operation item"
  obtains operation' repo' where
    "cancel_simulation_operation tenant oid reason t repo = Inr (Some operation', repo')"
    "get_simulation_operation repo' tenant oid = Some operation'"
    "op_status operation' = (if \<exists>item \<in> set (simulation_items_for_operation (simulation_items repo') oid tenant).
        si_status item = SIM_RUNNING then OP_CANCEL_REQUESTED else OP_CANCELLED)"
    "item_outstanding operation' = item_outstanding operation"
    "table_step (simulation_items repo) (simulation_items repo') (\<lambda>k item item'.
       if fst k = oid \<and> si_tenant_id item = tenant \<and> cancel_selected operation t item
       then item' = cancelled_item t item else item' = item)"
proof -
  let ?op = "operation\<lparr> op_cancel_reason_code :=
               (if op_cancel_reason_code operation \<in> {None, Some ''''} then Some reason
                else op_cancel_reason_code operation), op_updated_at := t \<rparr>"
  let ?owned = "simulation_items_for_operation (simulation_items repo) oid tenant"
  let ?table = "store_items oid (cancelled_item t) (filter (cancel_selected ?op t) ?owned) (simulation_items repo)"
  let ?repo = "repo\<lparr> simulation_operations := dict_set oid ?op (simulation_operations repo), simulation_items := ?table \<rparr>"
  have op: "dict_get (simulation_operations ?repo) oid = Some ?op" "op_tenant_id ?op = tenant"
    using assms(2) by (simp_all add: get_simulation_operation_iff dict_get_set)
  define updated where "updated = ?op\<lparr> op_status := derive_wave_simulation_operation_status ?op
                (simulation_items_for_operation ?table oid tenant), op_updated_at := t \<rparr>"
  define repo' where "repo' = ?repo\<lparr> simulation_operations := dict_set oid updated (simulation_operations ?repo) \<rparr>"
  have refreshed: "refresh_simulation_operation_status oid t ?repo = Inr (updated, repo')"
    using op by (simp add: refresh_iff updated_def repo'_def)
  have eq: "item_outstanding updated = item_outstanding operation" "cancel_selected ?op t = cancel_selected operation t"
    by (simp_all add: fun_eq_iff item_outstanding_def cancel_selected_def wave_simulation_item_is_retryable_def updated_def)
  show thesis
  proof (rule that [of updated repo'])
    have "cancel_simulation_operation tenant oid reason t repo
        = (case refresh_simulation_operation_status oid t ?repo of
             Inl e \<Rightarrow> Inl e | Inr (updated, repo') \<Rightarrow> Inr (Some updated, repo'))"
      unfolding cancel_simulation_operation_def assms(2) Let_def option.case using assms(3,4)
      by (simp only: not_True_eq_False if_False)
    then show "cancel_simulation_operation tenant oid reason t repo = Inr (Some updated, repo')"
      unfolding refreshed by simp
    show "get_simulation_operation repo' tenant oid = Some updated"
      using op(2) by (simp add: get_simulation_operation_iff repo'_def dict_get_set updated_def)
    have "op_cancel_reason_code ?op \<noteq> None" by simp
    from derive_status_cancel [OF this] show "op_status updated =
        (if \<exists>item \<in> set (simulation_items_for_operation (simulation_items repo') oid tenant).
           si_status item = SIM_RUNNING then OP_CANCEL_REQUESTED else OP_CANCELLED)"
      by (simp only: updated_def repo'_def) simp
    show "item_outstanding updated = item_outstanding operation" by (rule eq(1))
    show "table_step (simulation_items repo) (simulation_items repo') (\<lambda>k item item'.
       if fst k = oid \<and> si_tenant_id item = tenant \<and> cancel_selected operation t item
       then item' = cancelled_item t item else item' = item)"
      using store_items_table_step [OF assms(1) refl, of oid "cancelled_item t" "cancel_selected ?op t" tenant]
      unfolding repo'_def eq(2) by simp
  qed
qed

lemma table_step_keyed:
  assumes "table_step table table' R" and "keyed table"
    and "\<And>k item item'. R k item item' \<Longrightarrow> si_wave_item_id item' = si_wave_item_id item"
  shows "keyed table'"
  unfolding keyed_def
proof (intro conjI allI impI)
  show "dict_ok table'" using assms(1,2) by (simp add: table_step_def keyed_def)
  fix k item' assume "dict_get table' k = Some item'"
  from table_step_get [OF assms(1) this] show "si_wave_item_id item' = snd k"
    using assms(2,3) keyed_id by metis
qed


section \<open>A run for the examples\<close>

text \<open>A run for the examples: a wave is saved, its simulation admitted with two items, one item claimed twice.\<close>

definition sample_wave_item :: "string \<Rightarrow> DpmRebalanceWaveItem" where
  "sample_wave_item i =
     \<lparr> wave_item_id = i, wi_portfolio_id = ''PB_1'', wi_mandate_id = None, wi_model_portfolio_id = None,
       wi_state = ITEM_SOURCE_READY, wi_reason_codes = [], wi_source_refs = [], wi_alternative_set_id = None,
       wi_selected_alternative_id = None, wi_proof_pack_id = None, wi_diagnostics = [] \<rparr>"

definition sample_checked_wave :: DpmRebalanceWave where
  "sample_checked_wave = sample_draft\<lparr> wave_state := SOURCE_CHECKED, items := map sample_wave_item [''i1'', ''i2''] \<rparr>"

definition sample_operation :: DpmWaveSimulationOperation where
  "sample_operation =
     \<lparr> op_operation_id = ''o1'', op_tenant_id = ''t1'', op_wave_id = ''dwv_1'', op_request_hash = ''h'',
       op_idempotency_key_hash = ''k'', op_correlation_id = ''c'', op_actor_id = ''pm'',
       op_risk_authority_context = None, op_risk_authority_context_hash = None, op_source_identity_hash = ''s'',
       op_admitted_wave_version = 1, op_methods = [], op_max_concurrency = 1, op_max_attempts = 2,
       op_status = OP_PENDING, op_cancel_reason_code = None, op_created_at = 0, op_updated_at = 0 \<rparr>"

definition sample_sim_item :: "nat \<Rightarrow> string \<Rightarrow> DpmWaveSimulationItemRecord" where
  "sample_sim_item n i =
     \<lparr> si_operation_id = ''o1'', si_tenant_id = ''t1'', si_wave_id = ''dwv_1'', si_wave_item_id = i, si_ordinal = n,
       si_portfolio_id = ''PB_1'', si_input_payload = [], si_input_hash = ''h'', si_source_identity_hash = ''s'',
       si_status = SIM_PENDING, si_attempt_count = 0, si_claim_generation = 0, si_worker_id = None,
       si_claim_token = None, si_claimed_at = None, si_lease_expires_at = None, si_result_item = None,
       si_error_code = None, si_error_message = None, si_retryable = False, si_completed_at = None, si_updated_at = 0 \<rparr>"

definition sample_recs :: "DpmWaveSimulationItemRecord list" where
  "sample_recs = [sample_sim_item 0 ''i1'', sample_sim_item 1 ''i2'']"

definition sample_store0 :: InMemoryDpmWaveRepository where
  "sample_store0 = projr (save_wave (\<lambda>s. s) sample_checked_wave None None ''t1'' empty_repository)"

definition sample_store1 :: InMemoryDpmWaveRepository where
  "sample_store1 = snd (projr (admit_simulation_operation sample_operation sample_recs
     (sample_checked_wave\<lparr> wave_state := SIMULATING, version := 2 \<rparr>) sample_store0))"

definition sample_claim :: "int \<Rightarrow> InMemoryDpmWaveRepository \<Rightarrow> (DpmWaveSimulationItemClaim list \<times> InMemoryDpmWaveRepository) wave_result" where
  "sample_claim now = claim_simulation_items ''t1'' ''o1'' ''w'' 5 now (now + 2) (\<lambda>_. ''token'')"

definition sample_store2 :: InMemoryDpmWaveRepository where
  "sample_store2 = snd (projr (sample_claim 1 sample_store1))"

definition sample_store3 :: InMemoryDpmWaveRepository where
  "sample_store3 = snd (projr (sample_claim 3 sample_store2))"

lemma projr_pair: "\<not> isl r \<Longrightarrow> r = Inr (fst (projr r), snd (projr r))"
  by (cases r) simp_all

lemma sample_save: "save_wave (\<lambda>s. s) sample_checked_wave None None ''t1'' empty_repository = Inr sample_store0"
  unfolding sample_store0_def by (rule sum.collapse(2) [symmetric]) code_simp

lemma sample_admit: "admit_simulation_operation sample_operation sample_recs
     (sample_checked_wave\<lparr> wave_state := SIMULATING, version := 2 \<rparr>) sample_store0
     = Inr (fst (projr (admit_simulation_operation sample_operation sample_recs
         (sample_checked_wave\<lparr> wave_state := SIMULATING, version := 2 \<rparr>) sample_store0)), sample_store1)"
  unfolding sample_store1_def by (rule projr_pair) code_simp

lemma sample_claim1: "sample_claim 1 sample_store1 = Inr (fst (projr (sample_claim 1 sample_store1)), sample_store2)"
  unfolding sample_store2_def by (rule projr_pair) code_simp

lemma sample_claim2: "sample_claim 3 sample_store2 = Inr (fst (projr (sample_claim 3 sample_store2)), sample_store3)"
  unfolding sample_store3_def by (rule projr_pair) code_simp

lemma sample_run:
  "sim_steps 0 empty_repository 0 sample_store1" "sim_steps 0 empty_repository 1 sample_store2"
  "sim_steps 0 empty_repository 3 sample_store3"
proof -
  have fresh: "fresh_admission sample_operation sample_recs"
    by (simp add: fresh_admission_def sample_operation_def sample_recs_def sample_sim_item_def)
  have new: "op_operation_id sample_operation \<notin> set (dict_keys (simulation_operations sample_store0))" by code_simp
  show "sim_steps 0 empty_repository 0 sample_store1"
    by (rule sim_steps.step [OF sim_steps.step [OF sim_steps.idle sim_step.save [OF order_refl sample_save]]
          sim_step.admit [OF order_refl fresh new sample_admit]])
  then show "sim_steps 0 empty_repository 1 sample_store2"
    by (rule sim_steps.step) (rule sim_step.claim [OF _ sample_claim1 [unfolded sample_claim_def]], simp)
  then show "sim_steps 0 empty_repository 3 sample_store3"
    by (rule sim_steps.step) (rule sim_step.claim [OF _ sample_claim2 [unfolded sample_claim_def]], simp)
qed

definition sample_store4 :: InMemoryDpmWaveRepository where
  "sample_store4 = snd (projr (publish_simulation_item_result (hd (fst (projr (sample_claim 3 sample_store2))))
     (sample_wave_item ''i1'') 4 sample_store3))"

lemma sample_publish: "sim_steps 0 empty_repository 4 sample_store4"
proof (rule sim_steps.step [OF sample_run(3) sim_step.publish_result])
  let ?r = "publish_simulation_item_result (hd (fst (projr (sample_claim 3 sample_store2)))) (sample_wave_item ''i1'') 4 sample_store3"
  show "?r = Inr (fst (projr ?r), sample_store4)" unfolding sample_store4_def by (rule projr_pair) code_simp
qed simp

definition sample_store5 :: InMemoryDpmWaveRepository where
  "sample_store5 = snd (projr (cancel_simulation_operation ''t1'' ''o1'' ''STOP'' 9 sample_store4))"

lemma sample_cancel: "sim_steps 4 sample_store4 9 sample_store5"
proof (rule sim_steps.step [OF sim_steps.idle sim_step.cancel])
  let ?r = "cancel_simulation_operation ''t1'' ''o1'' ''STOP'' 9 sample_store4"
  show "?r = Inr (fst (projr ?r), sample_store5)" unfolding sample_store5_def by (rule projr_pair) code_simp
qed simp


section \<open>Properties\<close>

text \<open>
  C22. Whatever workers, retries and cancellations do, in any order: the number of items that hold a
  lease never exceeds the operation's concurrency limit, no item is tried more often than allowed,
  and the stored status of an operation is the one its items imply.
\<close>

theorem simulation_invariant:
  assumes "sim_steps start empty_repository now repo" and "get_simulation_operation repo tenant oid = Some operation"
  shows "length (filter (holds_lease now) (simulation_items_for_operation (simulation_items repo) oid tenant))
      \<le> op_max_concurrency operation
    \<and> (\<forall>item \<in> set (simulation_items_for_operation (simulation_items repo) oid tenant).
          si_attempt_count item \<le> op_max_attempts operation)
    \<and> op_status operation = derive_wave_simulation_operation_status operation
          (simulation_items_for_operation (simulation_items repo) oid tenant)"
proof -
  note ok = reachable_ok [OF assms(1)]
  from assms(2) have op: "dict_get (simulation_operations repo) oid = Some operation" "op_tenant_id operation = tenant"
    by (simp_all add: get_simulation_operation_iff)
  have "si_attempt_count item \<le> op_max_attempts operation"
    if "item \<in> set (simulation_items_for_operation (simulation_items repo) oid tenant)" for item
    using that sim_okD(3) [OF ok, of oid "si_wave_item_id item"] op(1)
    by (auto simp: items_for_operation_mem [OF sim_okD(1) [OF ok]])
  with sim_okD(2) [OF ok op(1)] leases_count [OF ok op(1), of now] op(2) show ?thesis
    by (simp add: operation_ok_def)
qed

theorem simulation_invariant_witness:
  "case get_simulation_operation sample_store3 ''t1'' ''o1'' of
     None \<Rightarrow> False
   | Some operation \<Rightarrow>
       length (filter (holds_lease 3) (simulation_items_for_operation (simulation_items sample_store3) ''o1'' ''t1''))
         \<le> op_max_concurrency operation"
proof -
  have "get_simulation_operation sample_store3 ''t1'' ''o1'' \<noteq> None" by code_simp
  then show ?thesis using simulation_invariant [OF sample_run(3), of "''t1''" "''o1''"] by auto
qed

text \<open>
  C23. Fencing. Once an item has been claimed again, the earlier claim is void for good: whatever
  happens afterwards, publishing with it is refused and changes nothing, even when its own lease has
  not run out.
\<close>

theorem stale_claim_rejected:
  assumes "sim_steps start empty_repository t0 repo"
    and "claim_simulation_items tenant oid worker limit t1 lease tokens repo = Inr (claims, repo1)" and "t0 \<le> t1"
    and "c \<in> set claims" and "sim_steps t1 repo1 t2 repo2"
    and "claim_simulation_items tenant' oid worker' limit' t3 lease' tokens' repo2 = Inr (claims', repo3)" and "t2 \<le> t3"
    and "c' \<in> set claims'" and "cl_wave_item_id c' = cl_wave_item_id c" and "sim_steps t3 repo3 t4 repo4"
  shows "publish_simulation_item_result c result_item tm repo4 = Inr (False, repo4)
    \<and> publish_simulation_item_failure c code message retryable tm repo4 = Inr (False, repo4)"
proof -
  note ok = reachable_ok [OF assms(1)]
  note ok1 = claim_ok [OF ok assms(3,2)]
  note ok2 = sim_steps_ok [OF assms(5) ok1]
  note ok3 = claim_ok [OF ok2 assms(7,6)]
  have key: "cl_operation_id c' = cl_operation_id c" 
    using claim_issued(1) [OF assms(2) ok assms(4)] claim_issued(1) [OF assms(6) ok2 assms(8)] by simp
  from claim_issued(2) [OF assms(2) ok assms(4)] obtain item1 where
    item1: "dict_get (simulation_items repo1) (cl_operation_id c, cl_wave_item_id c) = Some item1"
    "si_claim_generation item1 = cl_claim_generation c" by blast
  from sim_steps_item [OF assms(5) ok1 item1(1)] claim_issued(2) [OF assms(6) ok2 assms(8)] obtain item3 where
    item3: "dict_get (simulation_items repo3) (cl_operation_id c, cl_wave_item_id c) = Some item3"
    "cl_claim_generation c < si_claim_generation item3"
    using item1(2) key assms(9) by fastforce
  from sim_steps_item [OF assms(10) ok3 item3(1)] item3(2) obtain item4 where
    "dict_get (simulation_items repo4) (cl_operation_id c, cl_wave_item_id c) = Some item4"
    "cl_claim_generation c \<noteq> si_claim_generation item4" by fastforce
  then show ?thesis
    by (simp add: publish_stale publish_simulation_item_result_def publish_simulation_item_failure_def)
qed

theorem stale_claim_rejected_witness:
  "publish_simulation_item_result (hd (fst (projr (sample_claim 1 sample_store1)))) (sample_wave_item ''i1'') 3 sample_store3
     = Inr (False, sample_store3)"
proof -
  let ?c = "hd (fst (projr (sample_claim 1 sample_store1)))" and ?c' = "hd (fst (projr (sample_claim 3 sample_store2)))"
  have "fst (projr (sample_claim 1 sample_store1)) \<noteq> []" "fst (projr (sample_claim 3 sample_store2)) \<noteq> []"
    "cl_wave_item_id ?c' = cl_wave_item_id ?c" by code_simp+
  then show ?thesis
    using stale_claim_rejected [OF sample_run(1) sample_claim1 [unfolded sample_claim_def] _ _ sim_steps.idle
      sample_claim2 [unfolded sample_claim_def] _ _ _ sim_steps.idle, folded sample_claim_def, of ?c ?c'] by simp
qed

text \<open>
  C40. A published result is final: no later claim, publication, retry or cancellation changes an item
  that has succeeded.
\<close>

theorem simulation_success_final:
  assumes "sim_steps start empty_repository now repo" and "sim_steps now repo later repo'"
    and "dict_get (simulation_items repo) (oid, i) = Some item" and "si_status item = SIM_SUCCEEDED"
  shows "dict_get (simulation_items repo') (oid, i) = Some item"
  using sim_steps_item [OF assms(2) reachable_ok [OF assms(1)] assms(3)] assms(4) by auto

theorem simulation_success_final_witness:
  "\<exists>item. si_status item = SIM_SUCCEEDED \<and> dict_get (simulation_items sample_store5) (''o1'', ''i1'') = Some item"
proof -
  have "map_option si_status (dict_get (simulation_items sample_store4) (''o1'', ''i1'')) = Some SIM_SUCCEEDED" by code_simp
  then show ?thesis using simulation_success_final [OF sample_publish sample_cancel] by auto
qed

text \<open>
  Admission happens once per tenant and idempotency key: asking again with the same request and
  the same risk context returns the stored operation and changes nothing, asking with another request
  or context is refused.
\<close>

theorem admission_idempotent:
  assumes "admit_simulation_operation operation recs w repo = Inr ((stored, replayed), repo')"
    and "op_tenant_id operation' = op_tenant_id operation"
    and "op_idempotency_key_hash operation' = op_idempotency_key_hash operation"
  shows "admit_simulation_operation operation' recs' w' repo' =
    (if op_request_hash operation' = op_request_hash operation
        \<and> op_risk_authority_context_hash operation' = op_risk_authority_context_hash operation
     then Inr ((stored, True), repo')
     else Inl (DpmWaveSimulationOperationConflictError ''DPM_WAVE_SIMULATION_IDEMPOTENCY_CONFLICT''))"
  using assms(1)
proof (cases rule: admit_cases)
  case (replayed existing oid)
  then show ?thesis using assms(2,3) by (auto simp: admit_simulation_operation_def)
next
  case (admitted wave)
  then show ?thesis using assms(2,3)
    by (auto simp: admit_simulation_operation_def store_admission_def dict_get_set)
qed

theorem admission_idempotent_witness:
  "admit_simulation_operation (sample_operation\<lparr> op_request_hash := ''other'' \<rparr>) [] sample_draft sample_store1
     = Inl (DpmWaveSimulationOperationConflictError ''DPM_WAVE_SIMULATION_IDEMPOTENCY_CONFLICT'')"
proof -
  obtain stored replayed where "admit_simulation_operation sample_operation sample_recs
     (sample_checked_wave\<lparr> wave_state := SIMULATING, version := 2 \<rparr>) sample_store0 = Inr ((stored, replayed), sample_store1)"
    using sample_admit by (metis surj_pair)
  from admission_idempotent [OF this, of "sample_operation\<lparr> op_request_hash := ''other'' \<rparr>" "[]" sample_draft]
  show ?thesis by (simp add: sample_operation_def)
qed

text \<open>
  C24. Cancellation settles an operation. When no worker holds a lease that is still good, a
  cancellation leaves no item pending, running or waiting for a retry: the operation is cancelled, or
  nothing was outstanding and nothing changes.
\<close>

theorem cancel_settles:
  assumes "sim_steps start empty_repository now repo"
    and "get_simulation_operation repo tenant oid = Some operation"
    and "op_status operation \<notin> {OP_SUCCEEDED, OP_FAILED, OP_CANCELLED}"
    and "\<forall>item \<in> set (simulation_items_for_operation (simulation_items repo) oid tenant).
      si_status item = SIM_RUNNING \<longrightarrow> (case si_lease_expires_at item of None \<Rightarrow> False | Some l \<Rightarrow> l < t)"
  shows "\<exists>operation' repo'. cancel_simulation_operation tenant oid reason t repo = Inr (Some operation', repo')
    \<and> get_simulation_operation repo' tenant oid = Some operation'
    \<and> (\<forall>item \<in> set (simulation_items_for_operation (simulation_items repo') oid tenant).
         \<not> item_outstanding operation' item)
    \<and> (if \<exists>item \<in> set (simulation_items_for_operation (simulation_items repo) oid tenant).
            item_outstanding operation item
       then op_status operation' = OP_CANCELLED else operation' = operation \<and> repo' = repo)"
proof (cases "\<exists>item \<in> set (simulation_items_for_operation (simulation_items repo) oid tenant). item_outstanding operation item")
  case False
  then show ?thesis using assms(2,3) by (auto simp: cancel_simulation_operation_def)
next
  case True
  note keyed = sim_okD(1) [OF reachable_ok [OF assms(1)]]
  from cancel_open [OF keyed assms(2,3) True, of reason t] obtain operation' repo' where res:
    "cancel_simulation_operation tenant oid reason t repo = Inr (Some operation', repo')"
    "get_simulation_operation repo' tenant oid = Some operation'"
    "op_status operation' = (if \<exists>item \<in> set (simulation_items_for_operation (simulation_items repo') oid tenant).
        si_status item = SIM_RUNNING then OP_CANCEL_REQUESTED else OP_CANCELLED)"
    "item_outstanding operation' = item_outstanding operation"
    "table_step (simulation_items repo) (simulation_items repo') (\<lambda>k item item'.
       if fst k = oid \<and> si_tenant_id item = tenant \<and> cancel_selected operation t item
       then item' = cancelled_item t item else item' = item)" by blast
  have keyed': "keyed (simulation_items repo')"
    by (rule table_step_keyed [OF res(5) keyed]) (auto simp: cancelled_item_def split: if_splits)
  have settled: "\<not> item_outstanding operation' item'"
    if "item' \<in> set (simulation_items_for_operation (simulation_items repo') oid tenant)" for item'
  proof -
    from that have "dict_get (simulation_items repo') (oid, si_wave_item_id item') = Some item'" "si_tenant_id item' = tenant"
      by (simp_all add: items_for_operation_mem [OF keyed'])
    note item' = this
    from table_step_get [OF res(5) item'(1), simplified] obtain item where item:
      "dict_get (simulation_items repo) (oid, si_wave_item_id item') = Some item"
      and step: "if si_tenant_id item = tenant \<and> cancel_selected operation t item then item' = cancelled_item t item else item' = item"
      by blast
    from step item'(2) have tenant: "si_tenant_id item = tenant"
      by (cases "si_tenant_id item = tenant \<and> cancel_selected operation t item") (simp_all add: cancelled_item_def)
    have "item \<in> set (simulation_items_for_operation (simulation_items repo) oid tenant)"
      using item tenant keyed_id [OF keyed item] by (simp add: items_for_operation_mem [OF keyed])
    with assms(4) have "cancel_selected operation t item \<longleftrightarrow> item_outstanding operation item"
      by (intro cancel_selected_settles) blast
    with step tenant show ?thesis using cancelled_item_settled unfolding res(4) by metis
  qed
  then have "op_status operation' = OP_CANCELLED" unfolding res(3) by (auto simp: item_outstanding_def)
  with settled True res(1,2) show ?thesis by auto
qed

theorem cancel_settles_witness:
  "map_option op_status (get_simulation_operation
     (snd (projr (cancel_simulation_operation ''t1'' ''o1'' ''STOP'' 6 sample_store3))) ''t1'' ''o1'') = Some OP_CANCELLED"
proof -
  let ?recs = "simulation_items_for_operation (simulation_items sample_store3) ''o1'' ''t1''"
  obtain operation where op: "get_simulation_operation sample_store3 ''t1'' ''o1'' = Some operation"
    "op_status operation = OP_RUNNING"
  proof -
    have "map_option op_status (get_simulation_operation sample_store3 ''t1'' ''o1'') = Some OP_RUNNING" by code_simp
    then show thesis using that by auto
  qed
  have "list_all (\<lambda>item. si_status item = SIM_RUNNING \<longrightarrow>
      (case si_lease_expires_at item of None \<Rightarrow> False | Some l \<Rightarrow> l < 6)) ?recs" by code_simp
  moreover have "list_ex (\<lambda>item. si_status item = SIM_RUNNING) ?recs" by code_simp
  then have "\<exists>item \<in> set ?recs. item_outstanding operation item" by (auto simp: list_ex_iff item_outstanding_def)
  ultimately show ?thesis using cancel_settles [OF sample_run(3) op(1), of 6 "''STOP''"] op(2)
    by (auto simp: list_all_iff)
qed

end
