(* ===== verification/Canonical_Json.thy ===== *)
theory Canonical_Json
  imports Prelude
begin

text \<open>
  Canonical JSON and the payload hash (\<open>src/src/core/common/canonical.py\<close>): the text
  \<open>json.dumps\<close> produces with sorted keys and without blanks. Every request hash, content hash and
  source identity of the services is a digest of such a text. Strings hold code points below 256;
  floating-point numbers do not occur in the payloads and are not part of \<open>json\<close>.
\<close>


section \<open>Definitions\<close>

definition int_str :: "int \<Rightarrow> string" where
  "int_str i = (if i < 0 then CHR ''-'' # nat_str (nat (- i)) else nat_str (nat i))"

definition hex_char :: "nat \<Rightarrow> char" where
  "hex_char n = ''0123456789abcdef'' ! n"

definition escape_table :: "(char \<times> char) list" where
  "escape_table = [(CHR 0x5C, CHR 0x5C), (CHR 0x22, CHR 0x22), (CHR 0x08, CHR ''b''), (CHR 0x0C, CHR ''f''),
     (CHR 0x0A, CHR ''n''), (CHR 0x0D, CHR ''r''), (CHR 0x09, CHR ''t'')]"

definition escape_char :: "char \<Rightarrow> string" where
  "escape_char c =
     (case map_of escape_table c of
        Some x \<Rightarrow> [CHR 0x5C, x]
      | None \<Rightarrow>
          let n = of_char c :: nat
          in if 32 \<le> n \<and> n \<le> 126 then [c]
             else [CHR 0x5C, CHR ''u'', CHR ''0'', CHR ''0'', hex_char (n div 16), hex_char (n mod 16)])"

definition json_string :: "string \<Rightarrow> string" where
  "json_string s = CHR 0x22 # concat (map escape_char s) @ [CHR 0x22]"

fun join_comma :: "string list \<Rightarrow> string" where
  "join_comma [] = []"
| "join_comma [x] = x"
| "join_comma (x # y # zs) = x @ CHR '','' # join_comma (y # zs)"

definition json_member :: "string \<times> string \<Rightarrow> string" where
  "json_member kv = json_string (fst kv) @ CHR '':'' # snd kv"

fun canonical_json :: "json \<Rightarrow> string" where
  "canonical_json JNull = ''null''"
| "canonical_json (JBool b) = (if b then ''true'' else ''false'')"
| "canonical_json (JInt i) = int_str i"
| "canonical_json (JStr s) = json_string s"
| "canonical_json (JList xs) = CHR ''['' # join_comma (map canonical_json xs) @ '']''"
| "canonical_json (JObj kvs) =
     CHR ''{'' # join_comma (map json_member (sort_key fst (map (\<lambda>(k, v). (k, canonical_json v)) kvs))) @ ''}''"

definition hash_canonical_payload :: "(string \<Rightarrow> string) \<Rightarrow> json \<Rightarrow> string" where
  "hash_canonical_payload sha256 payload = ''sha256:'' @ sha256 (canonical_json payload)"

fun strip_keys :: "string set \<Rightarrow> json \<Rightarrow> json" where
  "strip_keys exclude (JObj kvs) =
     JObj (map (\<lambda>(k, v). (k, strip_keys exclude v)) (filter (\<lambda>kv. fst kv \<notin> exclude) kvs))"
| "strip_keys exclude (JList xs) = JList (map (strip_keys exclude) xs)"
| "strip_keys exclude v = v"


section \<open>Lemmas\<close>

subsection \<open>Keys in order\<close>

text \<open>A value with the keys of every object sorted, and its text in the order given.\<close>

fun json_normal :: "json \<Rightarrow> json" where
  "json_normal (JList xs) = JList (map json_normal xs)"
| "json_normal (JObj kvs) = JObj (sort_key fst (map (\<lambda>(k, v). (k, json_normal v)) kvs))"
| "json_normal v = v"

fun json_print :: "json \<Rightarrow> string" where
  "json_print JNull = ''null''"
| "json_print (JBool b) = (if b then ''true'' else ''false'')"
| "json_print (JInt i) = int_str i"
| "json_print (JStr s) = json_string s"
| "json_print (JList xs) = CHR ''['' # join_comma (map json_print xs) @ '']''"
| "json_print (JObj kvs) = CHR ''{'' # join_comma (map (\<lambda>(k, v). json_member (k, json_print v)) kvs) @ ''}''"

lemma insort_key_map:
  "insort_key fst (k, f v) (map (\<lambda>(k, v). (k, f v)) xs) = map (\<lambda>(k, v). (k, f v)) (insort_key fst (k, v) xs)"
  by (induction xs) auto

lemma sort_key_map: "sort_key fst (map (\<lambda>(k, v). (k, f v)) xs) = map (\<lambda>(k, v). (k, f v)) (sort_key fst xs)"
  by (induction xs) (auto simp: insort_key_map)

lemma canonical_json_normal: "canonical_json v = json_print (json_normal v)"
proof (induction v)
  case (JList xs)
  then show ?case by (simp cong: map_cong)
next
  case (JObj kvs)
  have members: "canonical_json v = json_print (json_normal v)" if "(k, v) \<in> set (sort_key fst kvs)" for k v
    using JObj.IH [of "(k, v)" v] that by (simp add: snds.simps)
  have "map json_member (map (\<lambda>(k, v). (k, canonical_json v)) (sort_key fst kvs))
      = map (\<lambda>(k, v). json_member (k, json_print v)) (map (\<lambda>(k, v). (k, json_normal v)) (sort_key fst kvs))"
    using members by auto
  then show ?case by (simp only: canonical_json.simps json_normal.simps json_print.simps sort_key_map)
qed simp_all


subsection \<open>Reading back\<close>

lemma digit_char_codes: "n < 10 \<Longrightarrow> digit_char n \<in> set ''0123456789''"
proof -
  have "\<forall>n \<in> set [0..<10]. digit_char n \<in> set ''0123456789''" by code_simp
  then show "n < 10 \<Longrightarrow> digit_char n \<in> set ''0123456789''" by (metis atLeastLessThan_iff atLeastLessThan_upt le0)
qed

lemma nat_str_digits: "set (nat_str n) \<subseteq> set ''0123456789''"
proof (induction n rule: nat_str.induct)
  case (1 n)
  then show ?case
    using digit_char_codes [of n] digit_char_codes [of "n mod 10"] by (subst nat_str.simps) auto
qed

lemma nat_str_read:
  assumes "nat_str m @ c # r = nat_str n @ d # s" and "c \<notin> set ''0123456789''" and "d \<notin> set ''0123456789''"
  shows "m = n \<and> c = d \<and> r = s"
proof -
  let ?digit = "\<lambda>x. x \<in> set ''0123456789''"
  have read: "takeWhile ?digit (nat_str k @ e # t) = nat_str k" if "\<not> ?digit e" for k e t
  proof -
    have "\<forall>x \<in> set (nat_str k). ?digit x" using nat_str_digits [of k] by blast
    then show ?thesis using that by (simp add: takeWhile_append2)
  qed
  have "nat_str m = nat_str n" using read [of c m r] read [of d n s] assms by metis
  with assms(1) show ?thesis by (simp add: nat_str_inj)
qed

lemma int_str_read:
  assumes eq: "int_str i @ c # r = int_str j @ d # s" and ends: "c \<notin> set ''0123456789''" "d \<notin> set ''0123456789''"
  shows "i = j \<and> c = d \<and> r = s"
proof -
  have minus: "nat_str n @ t \<noteq> CHR ''-'' # u" for n t u
    using nat_str_digits [of n] by (cases "nat_str n") auto
  show ?thesis
  proof (cases "i < 0")
    case True
    then have "j < 0" using eq minus [of "nat j"] by (metis append_Cons int_str_def)
    with True show ?thesis using eq nat_str_read [OF _ ends, of "nat (- i)" r "nat (- j)" s] by (simp add: int_str_def eq_nat_nat_iff)
  next
    case False
    then have "\<not> j < 0" using eq minus [of "nat i"] by (metis append_Cons int_str_def)
    with False show ?thesis using eq nat_str_read [OF _ ends, of "nat i" r "nat j" s] by (simp add: int_str_def eq_nat_nat_iff)
  qed
qed

lemma hex_char_inj: "m < 16 \<Longrightarrow> n < 16 \<Longrightarrow> hex_char m = hex_char n \<longleftrightarrow> m = n"
proof -
  have "distinct ''0123456789abcdef''" by simp
  moreover assume "m < 16" and "n < 16"
  ultimately show ?thesis unfolding hex_char_def by (subst nth_eq_iff_index_eq) auto
qed

text \<open>The codes of two characters are equal or differ before one of them ends.\<close>

lemma escape_table_facts:
  assumes "map_of escape_table c = Some x"
  shows "x \<noteq> CHR ''u''" and "map_of escape_table d = Some x \<Longrightarrow> c = d"
  using assms by (auto simp: escape_table_def split: if_splits)

lemma escape_table_None: "map_of escape_table c = None \<Longrightarrow> c \<noteq> CHR 0x22 \<and> c \<noteq> CHR 0x5C"
  by (auto simp: escape_table_def split: if_splits)

lemma escape_char_cases:
  obtains (plain) "escape_char c = [c]" "c \<noteq> CHR 0x22" "c \<noteq> CHR 0x5C"
  | (short) x where "escape_char c = [CHR 0x5C, x]" "map_of escape_table c = Some x" "x \<noteq> CHR ''u''"
  | (code) "escape_char c =
      [CHR 0x5C, CHR ''u'', CHR ''0'', CHR ''0'', hex_char (of_char c div 16), hex_char (of_char c mod 16)]"
proof (cases "map_of escape_table c")
  case None
  with escape_table_None [OF None] that(1,3) show thesis
    by (cases "32 \<le> (of_char c :: nat) \<and> (of_char c :: nat) \<le> 126") (auto simp: escape_char_def Let_def)
next
  case (Some x)
  with escape_table_facts(1) [OF Some] that(2) show thesis by (simp add: escape_char_def)
qed

lemma char_nibbles: "(of_char c :: nat) div 16 < 16"
  using nat_of_char_less_256 [of c] by (simp add: less_mult_imp_div_less)

lemma escape_char_read:
  assumes eq: "escape_char c @ r = escape_char d @ s"
  shows "c = d \<and> r = s"
proof -
  have codes: "c = d" if "(of_char c :: nat) div 16 = of_char d div 16" "(of_char c :: nat) mod 16 = of_char d mod 16"
    using that by (metis div_mult_mod_eq of_char_eq_iff)
  show ?thesis
  proof (cases c rule: escape_char_cases)
    case plain
    with eq show ?thesis by (cases d rule: escape_char_cases) auto
  next
    case (short x)
    with eq show ?thesis by (cases d rule: escape_char_cases) (auto dest: escape_table_facts(2))
  next
    case code
    with eq show ?thesis by (cases d rule: escape_char_cases) (auto simp: hex_char_inj char_nibbles intro: codes)
  qed
qed

lemma escape_char_start: "\<exists>x xs. escape_char c = x # xs \<and> x \<noteq> CHR 0x22"
  by (cases c rule: escape_char_cases) auto

lemma json_string_read:
  assumes "json_string a @ r = json_string b @ s"
  shows "a = b \<and> r = s"
proof -
  have "concat (map escape_char a) @ CHR 0x22 # r = concat (map escape_char b) @ CHR 0x22 # s \<Longrightarrow> a = b \<and> r = s"
  proof (induction a arbitrary: b)
    case Nil
    then show ?case using escape_char_start [of "hd b"] by (cases b) auto
  next
    case (Cons c a)
    then obtain d b' where b: "b = d # b'" using escape_char_start [of c] by (cases b) auto
    with Cons.prems escape_char_read [of c _ d] Cons.IH [of b'] show ?case by fastforce
  qed
  with assms show ?thesis by (simp add: json_string_def)
qed

text \<open>A comma-separated list can be read back when each of its elements can.\<close>

lemma join_comma_Cons: "join_comma (x # xs) = x @ (if xs = [] then [] else CHR '','' # join_comma xs)"
  by (cases xs) auto

lemma join_comma_read:
  assumes elements: "\<And>x y c d r s. x \<in> set xs \<Longrightarrow> c \<in> {CHR '','', stop} \<Longrightarrow> d \<in> {CHR '','', stop} \<Longrightarrow>
      p x @ c # r = p y @ d # s \<Longrightarrow> x = y \<and> c = d \<and> r = s"
    and start: "\<And>x t u. p x @ t \<noteq> stop # u"
    and stop: "stop \<noteq> CHR '',''"
    and eq: "join_comma (map p xs) @ stop # r = join_comma (map p ys) @ stop # s"
  shows "xs = ys \<and> r = s"
  using elements eq
proof (induction xs arbitrary: ys)
  case Nil
  have "ys = []"
  proof (cases ys)
    case (Cons y zs)
    with Nil(2) have "p y @ (if zs = [] then [] else CHR '','' # join_comma (map p zs)) @ stop # s = stop # r"
      by (simp add: join_comma_Cons)
    with start show ?thesis by blast
  qed simp
  with Nil(2) show ?case by simp
next
  case (Cons x xs)
  let ?tail = "\<lambda>zs u. if zs = [] then stop # u else CHR '','' # join_comma (map p zs) @ stop # u"
  have join: "join_comma (map p (z # zs)) @ stop # u = p z @ ?tail zs u" for z zs u
    by (simp add: join_comma_Cons)
  obtain y zs where ys: "ys = y # zs"
    using Cons.prems(2) start [of x] unfolding join by (cases ys) auto
  have eq: "p x @ ?tail xs r = p y @ ?tail zs s" using Cons.prems(2) unfolding ys join .
  have "x = y \<and> ?tail xs r = ?tail zs s"
    using Cons.prems(1) [of x "hd (?tail xs r)" "hd (?tail zs s)" "tl (?tail xs r)" y "tl (?tail zs s)"] eq
    by (simp split: if_splits)
  then have xy: "x = y" and tails: "?tail xs r = ?tail zs s" by simp_all
  have "xs = zs \<and> r = s"
  proof (cases "xs = [] \<or> zs = []")
    case True
    with tails stop show ?thesis by (simp split: if_splits)
  next
    case False
    then have rest: "join_comma (map p xs) @ stop # r = join_comma (map p zs) @ stop # s" using tails by simp
    have "x = y \<and> c = d \<and> r = s" if "x \<in> set xs" "c \<in> {CHR '','', stop}" "d \<in> {CHR '','', stop}"
      "p x @ c # r = p y @ d # s" for x y c d r s
      using Cons.prems(1) [of x c d r y s] that by simp
    from Cons.IH [OF this rest] show ?thesis .
  qed
  with xy show ?case by (simp add: ys)
qed

text \<open>The first character tells the kind of a value.\<close>

definition lead :: "char \<Rightarrow> char" where
  "lead c = (if c \<in> set ''-0123456789'' then CHR ''0'' else c)"

fun json_kind :: "json \<Rightarrow> char" where
  "json_kind JNull = CHR ''n''"
| "json_kind (JBool b) = (if b then CHR ''t'' else CHR ''f'')"
| "json_kind (JInt i) = CHR ''0''"
| "json_kind (JStr s) = CHR 0x22"
| "json_kind (JList xs) = CHR ''[''"
| "json_kind (JObj kvs) = CHR ''{''"

lemma json_print_lead: "\<exists>a as. json_print x = a # as \<and> lead a = json_kind x"
proof (cases x)
  case (JInt i)
  have "\<exists>a as. nat_str n = a # as \<and> lead a = CHR ''0''" for n
    using nat_str_digits [of n] by (cases "nat_str n") (auto simp: lead_def)
  then show ?thesis by (auto simp: JInt int_str_def lead_def)
qed (auto simp: json_string_def lead_def)

lemma json_print_start: "json_kind x \<noteq> c \<Longrightarrow> lead c = c \<Longrightarrow> json_print x @ t \<noteq> c # u"
  using json_print_lead [of x] by auto

lemma json_kind_eq: "json_print x @ t = json_print y @ u \<Longrightarrow> json_kind x = json_kind y"
  using json_print_lead [of x] json_print_lead [of y] by auto

definition closes :: "char \<Rightarrow> bool" where
  "closes c \<longleftrightarrow> c \<in> set '',]}''"

lemma closes_simps [simp]: "closes (CHR '','')" "closes (CHR '']'')" "closes (CHR ''}'')"
  "closes c \<Longrightarrow> c \<notin> set ''0123456789''"
  by (auto simp: closes_def)

lemma json_kind_not_close [simp]: "json_kind x \<noteq> CHR '']''" "json_kind x \<noteq> CHR ''}''"
  by (cases x; simp)+

lemma json_print_read:
  assumes "json_print x @ c # r = json_print y @ d # s" and "closes c" and "closes d"
  shows "x = y \<and> c = d \<and> r = s"
  using assms json_kind_eq [OF assms(1)]
proof (induction x arbitrary: y c d r s)
  case JNull
  then show ?case by (cases y) (auto split: if_splits)
next
  case (JBool b)
  then show ?case by (cases y) (auto split: if_splits)
next
  case (JInt i)
  then obtain j where y: "y = JInt j" by (cases y) (auto split: if_splits)
  with JInt int_str_read [of i c r j d s] closes_simps(4) show ?case by simp
next
  case (JStr a)
  then obtain b where y: "y = JStr b" by (cases y) (auto split: if_splits)
  with JStr json_string_read [of a "c # r" b "d # s"] show ?case by simp
next
  case (JList xs)
  then obtain ys where y: "y = JList ys" by (cases y) (auto split: if_splits)
  have "xs = ys \<and> c # r = d # s"
  proof (rule join_comma_read [where p = json_print and stop = "CHR '']''"])
    show "\<And>x t u. json_print x @ t \<noteq> CHR '']'' # u" by (rule json_print_start) (simp_all add: lead_def)
    show "join_comma (map json_print xs) @ CHR '']'' # c # r = join_comma (map json_print ys) @ CHR '']'' # d # s"
      using JList.prems(1) y by simp
    show "x = z \<and> e = f \<and> t = u" if "x \<in> set xs" "e \<in> {CHR '','', CHR '']''}" "f \<in> {CHR '','', CHR '']''}"
      "json_print x @ e # t = json_print z @ f # u" for x z e f t u
      using JList.IH [OF that(1,4)] that json_kind_eq [OF that(4)] by auto
  qed simp
  with y show ?case by simp
next
  case (JObj kvs)
  then obtain kws where y: "y = JObj kws" by (cases y) (auto split: if_splits)
  let ?p = "\<lambda>(k, v). json_member (k, json_print v)"
  have "kvs = kws \<and> c # r = d # s"
  proof (rule join_comma_read [where p = ?p and stop = "CHR ''}''"])
    show "\<And>x t u. ?p x @ t \<noteq> CHR ''}'' # u" by (auto simp: json_member_def json_string_def)
    show "join_comma (map ?p kvs) @ CHR ''}'' # c # r = join_comma (map ?p kws) @ CHR ''}'' # d # s"
      using JObj.prems(1) y by simp
    show "x = z \<and> e = f \<and> t = u" if mem: "x \<in> set kvs" and "e \<in> {CHR '','', CHR ''}''}" "f \<in> {CHR '','', CHR ''}''}"
      and eq: "?p x @ e # t = ?p z @ f # u" for x z e f t u
    proof -
      obtain k v l w where x: "x = (k, v)" and z: "z = (l, w)" by fastforce
      have key: "k = l" and val: "json_print v @ e # t = json_print w @ f # u"
        using eq json_string_read [of k "CHR '':'' # json_print v @ e # t" l "CHR '':'' # json_print w @ f # u"]
        by (auto simp: x z json_member_def)
      have "v = w \<and> e = f \<and> t = u"
        using JObj.IH [of x v e t w f u] mem val that(2,3) json_kind_eq [OF val] by (auto simp: x snds.simps)
      with key x z show ?thesis by simp
    qed
  qed simp
  with y show ?case by simp
qed

lemma json_print_inj: "json_print x = json_print y \<Longrightarrow> x = y"
  using json_print_read [of x "CHR '',''" "[]" y "CHR '',''" "[]"] by simp


section \<open>Properties\<close>

text \<open>
  Canonical texts separate payloads. Two payloads have the same canonical text exactly when they
  are the same value up to the order of keys in objects, so a hash that does not collide on them
  tells them apart.
\<close>

theorem canonical_json_injective:
  "(canonical_json a = canonical_json b \<longleftrightarrow> json_normal a = json_normal b)
   \<and> (inj_on sha256 {canonical_json a, canonical_json b} \<longrightarrow>
        (hash_canonical_payload sha256 a = hash_canonical_payload sha256 b \<longleftrightarrow> json_normal a = json_normal b))"
proof -
  have "canonical_json a = canonical_json b \<longleftrightarrow> json_normal a = json_normal b"
    unfolding canonical_json_normal by (metis json_print_inj)
  moreover have "hash_canonical_payload sha256 a = hash_canonical_payload sha256 b
      \<longleftrightarrow> canonical_json a = canonical_json b" if "inj_on sha256 {canonical_json a, canonical_json b}"
    using inj_on_eq_iff [OF that, of "canonical_json a" "canonical_json b"]
    unfolding hash_canonical_payload_def by simp
  ultimately show ?thesis by blast
qed

theorem canonical_json_injective_witness:
  "hash_canonical_payload rev (JObj [(''b'', JInt 1), (''a'', JStr ''x'')])
     = hash_canonical_payload rev (JObj [(''a'', JStr ''x''), (''b'', JInt 1)])
   \<and> hash_canonical_payload rev (JObj [(''a'', JInt 1)]) \<noteq> hash_canonical_payload rev (JObj [(''a'', JStr ''1'')])"
proof -
  have inj: "inj_on rev A" for A :: "string set" by simp
  show ?thesis
    using canonical_json_injective [of "JObj [(''b'', JInt 1), (''a'', JStr ''x'')]"
        "JObj [(''a'', JStr ''x''), (''b'', JInt 1)]" rev]
      canonical_json_injective [of "JObj [(''a'', JInt 1)]" "JObj [(''a'', JStr ''1'')]" rev] inj
    by simp
qed

end
