(* ===== verification/Wave_Lifecycle.thy ===== *)
theory Wave_Lifecycle
  imports Wave_Repository Canonical_Json
begin

text \<open>
  The lifecycle commands of a stored wave (\<open>src/src/api/services/wave_lifecycle_commands.py\<close> and
  the modules it calls): approve, stage, hand off, cancel. A command loads the wave of its tenant,
  answers a repeated command with the stored wave, checks the state, advances the items, appends one
  event and writes the result back under the version it has read.

  The repository a command works on is given by its two operations \<open>get\<close> and \<open>update\<close>; fresh
  identifiers and the clock are the stamps; the hash is an argument. Messages of exceptions are left
  out, their codes are kept.
\<close>


section \<open>Definitions\<close>

definition wave_bind :: "'a wave_result \<Rightarrow> ('a \<Rightarrow> 'b wave_result) \<Rightarrow> 'b wave_result" where
  "wave_bind m f = (case m of Inl e \<Rightarrow> Inl e | Inr x \<Rightarrow> f x)"

text \<open>The keyword arguments the commands share, and what the runtime supplies for one record.\<close>

record WaveCommand =
  cmd_actor_id :: string
  cmd_reason_code :: string
  cmd_comment :: "string option"
  cmd_correlation_id :: string

record WaveStamp =
  stamp_hex :: string
  stamp_now :: int

fun item_state_str :: "WaveItemState \<Rightarrow> string" where
  "item_state_str ITEM_CANDIDATE = ''CANDIDATE''"
| "item_state_str ITEM_SOURCE_READY = ''SOURCE_READY''"
| "item_state_str ITEM_SOURCE_DEGRADED = ''SOURCE_DEGRADED''"
| "item_state_str ITEM_REVIEW_REQUIRED = ''REVIEW_REQUIRED''"
| "item_state_str ITEM_SOURCE_BLOCKED = ''SOURCE_BLOCKED''"
| "item_state_str ITEM_SIMULATED = ''SIMULATED''"
| "item_state_str ITEM_SIMULATION_BLOCKED = ''SIMULATION_BLOCKED''"
| "item_state_str ITEM_SELECTED = ''SELECTED''"
| "item_state_str ITEM_PROOF_PACK_READY = ''PROOF_PACK_READY''"
| "item_state_str ITEM_APPROVED = ''APPROVED''"
| "item_state_str ITEM_STAGED = ''STAGED''"
| "item_state_str ITEM_HANDOFF_READY = ''HANDOFF_READY''"
| "item_state_str ITEM_EXCLUDED = ''EXCLUDED''"


subsection \<open>Items\<close>

text \<open>\<open>if comment: d[key] = comment\<close>, where the empty string is false.\<close>

definition set_comment :: "string \<Rightarrow> string option \<Rightarrow> (string, json) dict \<Rightarrow> (string, json) dict" where
  "set_comment key comment d =
     (case comment of None \<Rightarrow> d | Some c \<Rightarrow> if c = '''' then d else dict_set key (JStr c) d)"

definition proof_pack_blocked :: "DpmRebalanceWaveItem \<Rightarrow> bool" where
  "proof_pack_blocked item \<longleftrightarrow> dict_get (wi_diagnostics item) ''proof_pack_state'' = Some (JStr ''BLOCKED'')"

definition approve_item :: "WaveCommand \<Rightarrow> DpmRebalanceWaveItem \<Rightarrow> DpmRebalanceWaveItem" where
  "approve_item cmd item =
     (if wi_state item \<notin> {ITEM_SELECTED, ITEM_PROOF_PACK_READY} \<or> proof_pack_blocked item then item
      else item\<lparr> wi_state := ITEM_APPROVED,
                 wi_reason_codes := wi_reason_codes item @ [''WAVE_ITEM_APPROVED''],
                 wi_diagnostics := set_comment ''approval_comment'' (cmd_comment cmd)
                   (dict_set ''approval_reason_code'' (JStr (cmd_reason_code cmd))
                     (dict_set ''approval_actor_id'' (JStr (cmd_actor_id cmd)) (wi_diagnostics item))) \<rparr>)"

definition stage_item :: "WaveCommand \<Rightarrow> DpmRebalanceWaveItem \<Rightarrow> DpmRebalanceWaveItem" where
  "stage_item cmd item =
     (if wi_state item \<noteq> ITEM_APPROVED \<or> proof_pack_blocked item then item
      else item\<lparr> wi_state := ITEM_STAGED,
                 wi_reason_codes := wi_reason_codes item @ [''WAVE_ITEM_STAGED''],
                 wi_diagnostics := set_comment ''stage_comment'' (cmd_comment cmd)
                   (dict_set ''external_execution_claimed'' (JBool False)
                     (dict_set ''stage_reason_code'' (JStr (cmd_reason_code cmd))
                       (dict_set ''stage_actor_id'' (JStr (cmd_actor_id cmd)) (wi_diagnostics item)))) \<rparr>)"

definition handoff_item :: "WaveCommand \<Rightarrow> DpmRebalanceWaveItem \<Rightarrow> DpmRebalanceWaveItem" where
  "handoff_item cmd item =
     (if wi_state item \<noteq> ITEM_STAGED \<or> proof_pack_blocked item then item
      else item\<lparr> wi_state := ITEM_HANDOFF_READY,
                 wi_reason_codes := wi_reason_codes item @ [''WAVE_ITEM_HANDOFF_READY''],
                 wi_diagnostics := set_comment ''handoff_comment'' (cmd_comment cmd)
                   (dict_set ''external_execution_claimed'' (JBool False)
                     (dict_set ''handoff_reason_code'' (JStr (cmd_reason_code cmd))
                       (dict_set ''handoff_actor_id'' (JStr (cmd_actor_id cmd)) (wi_diagnostics item)))) \<rparr>)"

definition cancel_item :: "WaveCommand \<Rightarrow> DpmRebalanceWaveItem \<Rightarrow> DpmRebalanceWaveItem" where
  "cancel_item cmd item =
     (if wi_state item = ITEM_HANDOFF_READY then item
      else item\<lparr> wi_state := ITEM_EXCLUDED,
                 wi_reason_codes := wi_reason_codes item @ [''WAVE_ITEM_CANCELLED''],
                 wi_diagnostics := set_comment ''cancel_comment'' (cmd_comment cmd)
                   (dict_set ''external_execution_claimed'' (JBool False)
                     (dict_set ''cancel_reason_code'' (JStr (cmd_reason_code cmd))
                       (dict_set ''cancel_actor_id'' (JStr (cmd_actor_id cmd)) (wi_diagnostics item)))) \<rparr>)"

text \<open>\<open>collections.Counter\<close> of the item states: first occurrences in order.\<close>

definition count_states :: "DpmRebalanceWaveItem list \<Rightarrow> (WaveItemState, nat) dict" where
  "count_states its = fold (\<lambda>i d. dict_set (wi_state i) (dict_get_or d (wi_state i) 0 + 1) d) its []"

text \<open>
  The metrics without the summary of source analytics, whose computation raises on malformed analytics
  in the diagnostics of an item (\<open>Wave_Source_Analytics\<close>).
\<close>

definition aggregate_wave_items :: "DpmRebalanceWaveItem list \<Rightarrow> DpmWaveAggregateMetrics" where
  "aggregate_wave_items its =
     (let counts = count_states its; n = (\<lambda>s. dict_get_or counts s 0)
      in \<lparr> item_count = length its, state_counts = counts,
           ready_item_count = n ITEM_SOURCE_READY + n ITEM_SIMULATED + n ITEM_SELECTED + n ITEM_PROOF_PACK_READY
             + n ITEM_APPROVED + n ITEM_STAGED + n ITEM_HANDOFF_READY,
           blocked_item_count = n ITEM_SOURCE_BLOCKED + n ITEM_SIMULATION_BLOCKED,
           review_required_item_count = n ITEM_REVIEW_REQUIRED,
           source_degraded_item_count = n ITEM_SOURCE_DEGRADED \<rparr>)"

definition simulation_result_state :: "DpmRebalanceWaveItem list \<Rightarrow> WaveState" where
  "simulation_result_state its =
     (let simulated = length (filter (\<lambda>i. wi_state i = ITEM_SIMULATED) its)
      in if simulated \<noteq> 0 \<and> simulated < length its then PARTIALLY_SIMULATED
         else if simulated \<noteq> 0 then SIMULATED else SIMULATION_FAILED)"

definition wave_with_items_and_aggregate :: "DpmRebalanceWave \<Rightarrow> DpmRebalanceWaveItem list \<Rightarrow> DpmRebalanceWave" where
  "wave_with_items_and_aggregate wave its = wave\<lparr> items := its, aggregate_metrics := aggregate_wave_items its \<rparr>"


subsection \<open>Events and evidence\<close>

definition build_wave_event ::
  "WaveStamp \<Rightarrow> string \<Rightarrow> WaveState \<Rightarrow> WaveState \<Rightarrow> string \<Rightarrow> string \<Rightarrow> string \<Rightarrow> (string, json) dict \<Rightarrow> string
     \<Rightarrow> DpmRebalanceWaveEvent" where
  "build_wave_event stamp wid from_state to_state actor correlation reason metadata event_type =
     \<lparr> ev_event_id = ''dwe_'' @ take 12 (stamp_hex stamp), ev_wave_id = wid, ev_from_state = Some from_state,
       ev_to_state = to_state, ev_event_type = event_type, ev_actor_id = actor, ev_reason_code = reason,
       ev_correlation_id = correlation, ev_created_at = stamp_now stamp, ev_metadata = metadata \<rparr>"

definition request_hash :: "(string \<Rightarrow> string) \<Rightarrow> (string, json) dict \<Rightarrow> string" where
  "request_hash sha256 payload = ''sha256:'' @ sha256 (canonical_json (JObj payload))"

definition idempotency_key_hash :: "(string \<Rightarrow> string) \<Rightarrow> string \<Rightarrow> string" where
  "idempotency_key_hash sha256 key = sha256 key"

definition with_optional_comment :: "(string, json) dict \<Rightarrow> string option \<Rightarrow> (string, json) dict" where
  "with_optional_comment metadata comment = set_comment ''comment'' comment metadata"

definition approval_event_metadata :: "nat \<Rightarrow> nat \<Rightarrow> string \<Rightarrow> string option \<Rightarrow> (string, json) dict" where
  "approval_event_metadata approved total_items reason comment =
     with_optional_comment
       [(''approved_item_count'', JInt (int approved)), (''exception_item_count'', JInt (int total_items - int approved)),
        (''approval_reason_code'', JStr reason)] comment"

definition stage_event_metadata :: "nat \<Rightarrow> string \<Rightarrow> string option \<Rightarrow> (string, json) dict" where
  "stage_event_metadata staged reason comment =
     with_optional_comment [(''staged_item_count'', JInt (int staged)), (''stage_reason_code'', JStr reason)] comment"

definition handoff_event_metadata ::
  "DpmWaveHandoffRef \<Rightarrow> nat \<Rightarrow> string \<Rightarrow> string option \<Rightarrow> (string, json) dict" where
  "handoff_event_metadata ref n reason comment =
     with_optional_comment
       [(''handoff_ref_id'', JStr (handoff_ref_id ref)), (''handoff_item_count'', JInt (int n)),
        (''external_execution_claimed'', JBool False), (''handoff_reason_code'', JStr reason)] comment"

definition cancel_event_metadata :: "nat \<Rightarrow> string \<Rightarrow> string option \<Rightarrow> (string, json) dict" where
  "cancel_event_metadata n reason comment =
     with_optional_comment
       [(''cancel_reason_code'', JStr reason), (''cancelled_item_count'', JInt (int n)),
        (''external_execution_claimed'', JBool False)] comment"

definition handoff_content_hash :: "(string \<Rightarrow> string) \<Rightarrow> (string, json) dict \<Rightarrow> string" where
  "handoff_content_hash sha256 payload = ''sha256:'' @ sha256 (canonical_json (JObj payload))"

definition build_handoff_ref ::
  "(string \<Rightarrow> string) \<Rightarrow> WaveStamp \<Rightarrow> string \<Rightarrow> string list \<Rightarrow> WaveCommand \<Rightarrow> DpmWaveHandoffRef" where
  "build_handoff_ref sha256 stamp wid item_ids cmd =
     (let ref_id = ''dwh_'' @ take 12 (stamp_hex stamp);
          metadata = set_comment ''comment'' (cmd_comment cmd)
            [(''handoff_contract'', JStr ''RFC-0041_INTERNAL_OPERATIONS_HANDOFF_V1''),
             (''handoff_boundary'', JStr ''NO_EXTERNAL_EXECUTION''), (''item_count'', JInt (int (length item_ids)))]
      in \<lparr> handoff_ref_id = ref_id, hr_wave_id = wid, hr_item_ids = item_ids, hr_actor_id = cmd_actor_id cmd,
           hr_reason_code = cmd_reason_code cmd, hr_correlation_id = cmd_correlation_id cmd,
           external_execution_claimed = False,
           hr_content_hash = handoff_content_hash sha256
             [(''handoff_ref_id'', JStr ref_id), (''wave_id'', JStr wid), (''item_ids'', JList (map JStr item_ids)),
              (''actor_id'', JStr (cmd_actor_id cmd)), (''reason_code'', JStr (cmd_reason_code cmd)),
              (''correlation_id'', JStr (cmd_correlation_id cmd)), (''external_execution_claimed'', JBool False),
              (''metadata'', JObj metadata)],
           hr_created_at = stamp_now stamp, hr_metadata = metadata \<rparr>)"

subsection \<open>Transitions\<close>

definition count_unblocked :: "WaveItemState \<Rightarrow> DpmRebalanceWaveItem list \<Rightarrow> nat" where
  "count_unblocked s its = length (filter (\<lambda>i. wi_state i = s \<and> \<not> proof_pack_blocked i) its)"

definition build_approved_wave ::
  "WaveStamp \<Rightarrow> WaveCommand \<Rightarrow> DpmRebalanceWave \<Rightarrow> DpmRebalanceWave wave_result" where
  "build_approved_wave stamp cmd wave =
     (let approved_items = map (approve_item cmd) (items wave);
          approved_count = count_unblocked ITEM_APPROVED approved_items
      in if approved_count = 0 then Inl (DpmWaveValidationError ''DPM_WAVE_APPROVAL_NO_ELIGIBLE_ITEMS'')
         else
           let to_state = (if approved_count = length approved_items then WAVE_APPROVED else APPROVED_WITH_EXCEPTIONS)
           in apply_wave_transition (wave_with_items_and_aggregate wave approved_items) to_state
                (build_wave_event stamp (wave_id wave) (wave_state wave) to_state (cmd_actor_id cmd)
                   (cmd_correlation_id cmd) ''WAVE_APPROVED''
                   (approval_event_metadata approved_count (length approved_items) (cmd_reason_code cmd) (cmd_comment cmd))
                   ''STATE_TRANSITION''))"

definition build_staged_wave ::
  "WaveStamp \<Rightarrow> WaveCommand \<Rightarrow> DpmRebalanceWave \<Rightarrow> DpmRebalanceWave wave_result" where
  "build_staged_wave stamp cmd wave =
     (let staged_items = map (stage_item cmd) (items wave);
          staged_count = count_unblocked ITEM_STAGED staged_items
      in if staged_count = 0 then Inl (DpmWaveValidationError ''DPM_WAVE_STAGE_NO_ELIGIBLE_ITEMS'')
         else apply_wave_transition (wave_with_items_and_aggregate wave staged_items) STAGED
                (build_wave_event stamp (wave_id wave) (wave_state wave) STAGED (cmd_actor_id cmd)
                   (cmd_correlation_id cmd) ''WAVE_STAGED''
                   (stage_event_metadata staged_count (cmd_reason_code cmd) (cmd_comment cmd)) ''STATE_TRANSITION''))"

definition build_handoff_ready_wave ::
  "(string \<Rightarrow> string) \<Rightarrow> WaveStamp \<Rightarrow> WaveStamp \<Rightarrow> WaveCommand \<Rightarrow> DpmRebalanceWave \<Rightarrow> DpmRebalanceWave wave_result" where
  "build_handoff_ready_wave sha256 ref_stamp stamp cmd wave =
     (let handoff_items = map (handoff_item cmd) (items wave);
          item_ids = map wave_item_id
            (filter (\<lambda>i. wi_state i = ITEM_HANDOFF_READY \<and> \<not> proof_pack_blocked i) handoff_items)
      in if item_ids = [] then Inl (DpmWaveValidationError ''DPM_WAVE_HANDOFF_NO_ELIGIBLE_ITEMS'')
         else
           let ref = build_handoff_ref sha256 ref_stamp (wave_id wave) item_ids cmd;
               candidate = (wave_with_items_and_aggregate wave handoff_items)\<lparr> handoff_refs := handoff_refs wave @ [ref] \<rparr>
           in apply_wave_transition candidate HANDOFF_READY
                (build_wave_event stamp (wave_id wave) STAGED HANDOFF_READY (cmd_actor_id cmd)
                   (cmd_correlation_id cmd) ''WAVE_HANDOFF_READY''
                   (handoff_event_metadata ref (length item_ids) (cmd_reason_code cmd) (cmd_comment cmd))
                   ''STATE_TRANSITION''))"

text \<open>An invalid transition is reported as a validation error; no other exception can occur here.\<close>

definition build_cancelled_wave ::
  "WaveStamp \<Rightarrow> WaveCommand \<Rightarrow> DpmRebalanceWave \<Rightarrow> DpmRebalanceWave wave_result" where
  "build_cancelled_wave stamp cmd wave =
     (let cancelled_items = map (cancel_item cmd) (items wave)
      in (case apply_wave_transition (wave_with_items_and_aggregate wave cancelled_items) CANCELLED
                 (build_wave_event stamp (wave_id wave) (wave_state wave) CANCELLED (cmd_actor_id cmd)
                    (cmd_correlation_id cmd) ''WAVE_CANCELLED''
                    (cancel_event_metadata (length cancelled_items) (cmd_reason_code cmd) (cmd_comment cmd))
                    ''STATE_TRANSITION'') of
            Inl (DpmWaveInvalidTransitionError _) \<Rightarrow> Inl (DpmWaveValidationError ''DPM_WAVE_CANCEL_INVALID_STATE'')
          | other \<Rightarrow> other))"


subsection \<open>Commands\<close>

definition get_wave_or_raise ::
  "('r \<Rightarrow> string \<Rightarrow> string \<Rightarrow> DpmRebalanceWave option) \<Rightarrow> string \<Rightarrow> 'r \<Rightarrow> string \<Rightarrow> DpmRebalanceWave wave_result" where
  "get_wave_or_raise get wid repo tenant =
     (case get repo wid tenant of None \<Rightarrow> Inl (DpmWaveLookupError ''DPM_WAVE_NOT_FOUND'') | Some wave \<Rightarrow> Inr wave)"

definition update_wave_or_raise ::
  "('r \<Rightarrow> DpmRebalanceWave \<Rightarrow> nat \<Rightarrow> string \<Rightarrow> 'r wave_result) \<Rightarrow> 'r \<Rightarrow> DpmRebalanceWave \<Rightarrow> nat \<Rightarrow> string
     \<Rightarrow> 'r wave_result" where
  "update_wave_or_raise update repo wave expected_version tenant =
     (case update repo wave expected_version tenant of
        Inl DpmWaveVersionConflictError \<Rightarrow> Inl (DpmWaveValidationError ''DPM_WAVE_VERSION_CONFLICT'')
      | other \<Rightarrow> other)"

definition wave_state_is_idempotent :: "DpmRebalanceWave \<Rightarrow> WaveState list \<Rightarrow> bool" where
  "wave_state_is_idempotent wave replay_states \<longleftrightarrow> wave_state wave \<in> set replay_states"

definition require_wave_state :: "DpmRebalanceWave \<Rightarrow> WaveState list \<Rightarrow> string \<Rightarrow> unit wave_result" where
  "require_wave_state wave allowed_states error_code =
     (if wave_state wave \<in> set allowed_states then Inr () else Inl (DpmWaveValidationError error_code))"

record PreparedWaveTransition =
  pt_wave :: DpmRebalanceWave
  pt_replayed :: bool

definition prepare_wave_transition ::
  "('r \<Rightarrow> string \<Rightarrow> string \<Rightarrow> DpmRebalanceWave option) \<Rightarrow> string \<Rightarrow> 'r \<Rightarrow> string \<Rightarrow> WaveState list
     \<Rightarrow> WaveState list option \<Rightarrow> string \<Rightarrow> PreparedWaveTransition wave_result" where
  "prepare_wave_transition get wid repo tenant replay_states allowed_states error_code =
     wave_bind (get_wave_or_raise get wid repo tenant)
       (\<lambda>wave.
          if wave_state_is_idempotent wave replay_states then Inr \<lparr> pt_wave = wave, pt_replayed = True \<rparr>
          else wave_bind (case allowed_states of None \<Rightarrow> Inr () | Some ss \<Rightarrow> require_wave_state wave ss error_code)
                 (\<lambda>_. Inr \<lparr> pt_wave = wave, pt_replayed = False \<rparr>))"

definition persist_transitioned_wave ::
  "('r \<Rightarrow> DpmRebalanceWave \<Rightarrow> nat \<Rightarrow> string \<Rightarrow> 'r wave_result) \<Rightarrow> 'r \<Rightarrow> DpmRebalanceWave \<Rightarrow> DpmRebalanceWave \<Rightarrow> string
     \<Rightarrow> 'r wave_result" where
  "persist_transitioned_wave update repo source_wave transitioned_wave tenant =
     update_wave_or_raise update repo transitioned_wave (version source_wave) tenant"

text \<open>A command returns the repository, the wave and whether the call was a replay.\<close>

definition approve_persisted_wave ::
  "('r \<Rightarrow> string \<Rightarrow> string \<Rightarrow> DpmRebalanceWave option) \<Rightarrow> ('r \<Rightarrow> DpmRebalanceWave \<Rightarrow> nat \<Rightarrow> string \<Rightarrow> 'r wave_result)
     \<Rightarrow> WaveStamp \<Rightarrow> string \<Rightarrow> WaveCommand \<Rightarrow> string \<Rightarrow> 'r \<Rightarrow> ('r \<times> DpmRebalanceWave \<times> bool) wave_result" where
  "approve_persisted_wave get update stamp wid cmd tenant repo =
     wave_bind (prepare_wave_transition get wid repo tenant [WAVE_APPROVED, APPROVED_WITH_EXCEPTIONS]
                  (Some [SIMULATED, PARTIALLY_SIMULATED, REVIEW_REQUIRED]) ''DPM_WAVE_APPROVAL_INVALID_STATE'')
       (\<lambda>prepared.
          if pt_replayed prepared then Inr (repo, pt_wave prepared, True)
          else wave_bind (build_approved_wave stamp cmd (pt_wave prepared))
                 (\<lambda>approved. wave_bind (persist_transitioned_wave update repo (pt_wave prepared) approved tenant)
                    (\<lambda>repo'. Inr (repo', approved, False))))"

definition stage_persisted_wave ::
  "('r \<Rightarrow> string \<Rightarrow> string \<Rightarrow> DpmRebalanceWave option) \<Rightarrow> ('r \<Rightarrow> DpmRebalanceWave \<Rightarrow> nat \<Rightarrow> string \<Rightarrow> 'r wave_result)
     \<Rightarrow> WaveStamp \<Rightarrow> string \<Rightarrow> WaveCommand \<Rightarrow> string \<Rightarrow> 'r \<Rightarrow> ('r \<times> DpmRebalanceWave \<times> bool) wave_result" where
  "stage_persisted_wave get update stamp wid cmd tenant repo =
     wave_bind (prepare_wave_transition get wid repo tenant [STAGED, HANDOFF_READY]
                  (Some [WAVE_APPROVED, APPROVED_WITH_EXCEPTIONS]) ''DPM_WAVE_STAGE_INVALID_STATE'')
       (\<lambda>prepared.
          if pt_replayed prepared then Inr (repo, pt_wave prepared, True)
          else wave_bind (build_staged_wave stamp cmd (pt_wave prepared))
                 (\<lambda>staged. wave_bind (persist_transitioned_wave update repo (pt_wave prepared) staged tenant)
                    (\<lambda>repo'. Inr (repo', staged, False))))"

definition handoff_persisted_wave ::
  "('r \<Rightarrow> string \<Rightarrow> string \<Rightarrow> DpmRebalanceWave option) \<Rightarrow> ('r \<Rightarrow> DpmRebalanceWave \<Rightarrow> nat \<Rightarrow> string \<Rightarrow> 'r wave_result)
     \<Rightarrow> (string \<Rightarrow> string) \<Rightarrow> WaveStamp \<Rightarrow> WaveStamp \<Rightarrow> string \<Rightarrow> WaveCommand \<Rightarrow> string \<Rightarrow> 'r
     \<Rightarrow> ('r \<times> DpmRebalanceWave \<times> bool) wave_result" where
  "handoff_persisted_wave get update sha256 ref_stamp stamp wid cmd tenant repo =
     wave_bind (prepare_wave_transition get wid repo tenant [HANDOFF_READY] (Some [STAGED])
                  ''DPM_WAVE_HANDOFF_INVALID_STATE'')
       (\<lambda>prepared.
          if pt_replayed prepared then Inr (repo, pt_wave prepared, True)
          else wave_bind (build_handoff_ready_wave sha256 ref_stamp stamp cmd (pt_wave prepared))
                 (\<lambda>ready. wave_bind (persist_transitioned_wave update repo (pt_wave prepared) ready tenant)
                    (\<lambda>repo'. Inr (repo', ready, False))))"

definition cancel_persisted_wave ::
  "('r \<Rightarrow> string \<Rightarrow> string \<Rightarrow> DpmRebalanceWave option) \<Rightarrow> ('r \<Rightarrow> DpmRebalanceWave \<Rightarrow> nat \<Rightarrow> string \<Rightarrow> 'r wave_result)
     \<Rightarrow> WaveStamp \<Rightarrow> string \<Rightarrow> WaveCommand \<Rightarrow> string \<Rightarrow> 'r \<Rightarrow> ('r \<times> DpmRebalanceWave \<times> bool) wave_result" where
  "cancel_persisted_wave get update stamp wid cmd tenant repo =
     wave_bind (prepare_wave_transition get wid repo tenant [CANCELLED] None ''DPM_WAVE_CANCEL_INVALID_STATE'')
       (\<lambda>prepared.
          if pt_replayed prepared then Inr (repo, pt_wave prepared, True)
          else wave_bind (build_cancelled_wave stamp cmd (pt_wave prepared))
                 (\<lambda>cancelled. wave_bind (persist_transitioned_wave update repo (pt_wave prepared) cancelled tenant)
                    (\<lambda>repo'. Inr (repo', cancelled, False))))"

section \<open>Lemmas\<close>

subsection \<open>The shape of a command\<close>

definition persisted_transition ::
  "('r \<Rightarrow> string \<Rightarrow> string \<Rightarrow> DpmRebalanceWave option) \<Rightarrow> ('r \<Rightarrow> DpmRebalanceWave \<Rightarrow> nat \<Rightarrow> string \<Rightarrow> 'r wave_result)
     \<Rightarrow> string \<Rightarrow> string \<Rightarrow> WaveState list \<Rightarrow> WaveState list option \<Rightarrow> string
     \<Rightarrow> (DpmRebalanceWave \<Rightarrow> DpmRebalanceWave wave_result) \<Rightarrow> 'r \<Rightarrow> ('r \<times> DpmRebalanceWave \<times> bool) wave_result" where
  "persisted_transition get update wid tenant replay allowed code build repo =
     wave_bind (prepare_wave_transition get wid repo tenant replay allowed code)
       (\<lambda>prepared.
          if pt_replayed prepared then Inr (repo, pt_wave prepared, True)
          else wave_bind (build (pt_wave prepared))
                 (\<lambda>w. wave_bind (persist_transitioned_wave update repo (pt_wave prepared) w tenant)
                    (\<lambda>repo'. Inr (repo', w, False))))"

lemma command_shape:
  "approve_persisted_wave get update stamp wid cmd tenant repo =
     persisted_transition get update wid tenant [WAVE_APPROVED, APPROVED_WITH_EXCEPTIONS]
       (Some [SIMULATED, PARTIALLY_SIMULATED, REVIEW_REQUIRED]) ''DPM_WAVE_APPROVAL_INVALID_STATE''
       (build_approved_wave stamp cmd) repo"
  "stage_persisted_wave get update stamp wid cmd tenant repo =
     persisted_transition get update wid tenant [STAGED, HANDOFF_READY]
       (Some [WAVE_APPROVED, APPROVED_WITH_EXCEPTIONS]) ''DPM_WAVE_STAGE_INVALID_STATE''
       (build_staged_wave stamp cmd) repo"
  "handoff_persisted_wave get update sha256 ref_stamp stamp wid cmd tenant repo =
     persisted_transition get update wid tenant [HANDOFF_READY] (Some [STAGED]) ''DPM_WAVE_HANDOFF_INVALID_STATE''
       (build_handoff_ready_wave sha256 ref_stamp stamp cmd) repo"
  "cancel_persisted_wave get update stamp wid cmd tenant repo =
     persisted_transition get update wid tenant [CANCELLED] None ''DPM_WAVE_CANCEL_INVALID_STATE''
       (build_cancelled_wave stamp cmd) repo"
  by (simp_all add: persisted_transition_def approve_persisted_wave_def stage_persisted_wave_def
      handoff_persisted_wave_def cancel_persisted_wave_def)

text \<open>What a state check admits.\<close>

definition admitted :: "WaveState list option \<Rightarrow> DpmRebalanceWave \<Rightarrow> bool" where
  "admitted allowed w \<longleftrightarrow> (case allowed of None \<Rightarrow> True | Some ss \<Rightarrow> wave_state w \<in> set ss)"

lemma persisted_transition_unfold:
  "persisted_transition get update wid tenant replay allowed code build repo =
     (case get repo wid tenant of
        None \<Rightarrow> Inl (DpmWaveLookupError ''DPM_WAVE_NOT_FOUND'')
      | Some w \<Rightarrow>
          if wave_state w \<in> set replay then Inr (repo, w, True)
          else if \<not> admitted allowed w then Inl (DpmWaveValidationError code)
          else (case build w of
                  Inl e \<Rightarrow> Inl e
                | Inr w' \<Rightarrow> (case update_wave_or_raise update repo w' (version w) tenant of
                               Inl e \<Rightarrow> Inl e | Inr repo' \<Rightarrow> Inr (repo', w', False))))"
  by (simp add: persisted_transition_def prepare_wave_transition_def get_wave_or_raise_def wave_bind_def
      wave_state_is_idempotent_def require_wave_state_def persist_transitioned_wave_def admitted_def
      split: option.splits sum.splits)

text \<open>
  A repository that keeps its contract never refuses the write of a command that runs alone, and
  refuses it when the stored version has moved on.
\<close>

context wave_repository
begin

lemma own_write_succeeds:
  assumes "ok r" and "get r wid t = Some w" and "wave_id w' = wave_id w"
  shows "\<exists>r'. update_wave_or_raise update r w' (version w) t = Inr r' \<and> update r w' (version w) t = Inr r'"
proof -
  have "wave_id w = wid" using get_owned [OF assms(1,2)] by simp
  then obtain r' where "update r w' (version w) t = Inr r'"
    using update_iff [of r w' "version w" t] assms(2,3) by auto
  then show ?thesis by (simp add: update_wave_or_raise_def)
qed

lemma persisted_transition_cases:
  assumes r: "ok r" and keeps: "\<And>w w'. build w = Inr w' \<Longrightarrow> wave_id w' = wave_id w"
  shows "persisted_transition get update wid t replay allowed code build r =
     (case get r wid t of
        None \<Rightarrow> Inl (DpmWaveLookupError ''DPM_WAVE_NOT_FOUND'')
      | Some w \<Rightarrow>
          if wave_state w \<in> set replay then Inr (r, w, True)
          else if \<not> admitted allowed w then Inl (DpmWaveValidationError code)
          else (case build w of
                  Inl e \<Rightarrow> Inl e
                | Inr w' \<Rightarrow> Inr (projr (update r w' (version w) t), w', False)))"
proof (cases "get r wid t")
  case (Some w)
  show ?thesis
  proof (cases "build w")
    case (Inr w')
    with own_write_succeeds [OF r Some keeps [OF Inr]] Some show ?thesis
      by (auto simp: persisted_transition_unfold)
  qed (simp add: persisted_transition_unfold Some)
qed (simp add: persisted_transition_unfold)

lemma persisted_transition_success:
  assumes r: "ok r" and keeps: "\<And>w w'. build w = Inr w' \<Longrightarrow> wave_id w' = wave_id w"
    and run: "persisted_transition get update wid t replay allowed code build r = Inr (r', w', replayed)"
  obtains (replay) "get r wid t = Some w'" "r' = r" "replayed" "wave_state w' \<in> set replay"
  | (change) w where "get r wid t = Some w" "\<not> replayed" "wave_state w \<notin> set replay" "admitted allowed w"
      "build w = Inr w'" "ok r'"
      "\<And>i t'. get r' i t' = (if i = wid \<and> t' = t then Some (w'\<lparr> wave_tenant_id := Some t \<rparr>) else get r i t')"
proof -
  obtain w where w: "get r wid t = Some w"
    using run by (auto simp: persisted_transition_unfold split: option.splits)
  have wid: "wave_id w = wid" using get_owned [OF r w] by simp
  show thesis
  proof (cases "wave_state w \<in> set replay")
    case True
    with run w show thesis by (intro replay) (simp_all add: persisted_transition_unfold)
  next
    case False
    with run w have build: "build w = Inr w'" and allowed: "admitted allowed w" "\<not> replayed"
      and up: "update_wave_or_raise update r w' (version w) t = Inr r'"
      by (auto simp: persisted_transition_unfold split: sum.splits if_splits)
    have up': "update r w' (version w) t = Inr r'"
      using own_write_succeeds [OF r w keeps [OF build]] up by auto
    have "get r' i t' = (if i = wid \<and> t' = t then Some (w'\<lparr> wave_tenant_id := Some t \<rparr>) else get r i t')" for i t'
      using update_get [OF r up'] keeps [OF build] wid by simp
    with change [OF w allowed(2) False allowed(1) build update_ok [OF r up']] show thesis .
  qed
qed

text \<open>A command that has read an older version cannot overwrite.\<close>

lemma stale_write_refused:
  assumes "get r (wave_id w') t = Some current" and "version current \<noteq> version w"
  shows "persist_transitioned_wave update r w w' t = Inl (DpmWaveValidationError ''DPM_WAVE_VERSION_CONFLICT'')"
proof -
  have "update r w' (version w) t = Inl DpmWaveVersionConflictError"
    using update_iff [of r w' "version w" t] update_error [of r w' "version w" t] assms
    by (cases "update r w' (version w) t") auto
  then show ?thesis by (simp add: persist_transitioned_wave_def update_wave_or_raise_def)
qed

end

subsection \<open>What a transition changes\<close>

lemma set_comment_get: "k \<noteq> key \<Longrightarrow> dict_get (set_comment key comment d) k = dict_get d k"
  by (simp add: set_comment_def dict_simps split: option.splits)

lemma item_steps_frame [model_frame]:
  "proof_pack_blocked (approve_item cmd i) = proof_pack_blocked i" "wave_item_id (approve_item cmd i) = wave_item_id i"
  "proof_pack_blocked (stage_item cmd i) = proof_pack_blocked i" "wave_item_id (stage_item cmd i) = wave_item_id i"
  "proof_pack_blocked (handoff_item cmd i) = proof_pack_blocked i" "wave_item_id (handoff_item cmd i) = wave_item_id i"
  "proof_pack_blocked (cancel_item cmd i) = proof_pack_blocked i" "wave_item_id (cancel_item cmd i) = wave_item_id i"
  by (simp_all add: proof_pack_blocked_def approve_item_def stage_item_def handoff_item_def cancel_item_def
      set_comment_get dict_simps)

lemma item_steps_state:
  "wi_state (approve_item cmd i) =
     (if wi_state i \<in> {ITEM_SELECTED, ITEM_PROOF_PACK_READY} \<and> \<not> proof_pack_blocked i then ITEM_APPROVED else wi_state i)"
  "wi_state (stage_item cmd i) = (if wi_state i = ITEM_APPROVED \<and> \<not> proof_pack_blocked i then ITEM_STAGED else wi_state i)"
  "wi_state (handoff_item cmd i) =
     (if wi_state i = ITEM_STAGED \<and> \<not> proof_pack_blocked i then ITEM_HANDOFF_READY else wi_state i)"
  "wi_state (cancel_item cmd i) = (if wi_state i = ITEM_HANDOFF_READY then ITEM_HANDOFF_READY else ITEM_EXCLUDED)"
  by (simp_all add: approve_item_def stage_item_def handoff_item_def cancel_item_def)

text \<open>
  One recorded change: one event for this wave from its old to its new state, one version, the
  items under the same identifiers with recomputed metrics, and nothing else but handoff references.
\<close>

definition recorded_change :: "DpmRebalanceWave \<Rightarrow> DpmRebalanceWave \<Rightarrow> bool" where
  "recorded_change w w' \<longleftrightarrow>
     (\<exists>e. w' = w\<lparr> wave_state := wave_state w', version := version w + 1, items := items w',
                  aggregate_metrics := aggregate_wave_items (items w'), events := events w @ [e],
                  handoff_refs := handoff_refs w' \<rparr>
        \<and> ev_wave_id e = wave_id w \<and> ev_from_state e = Some (wave_state w) \<and> ev_to_state e = wave_state w')
     \<and> map wave_item_id (items w') = map wave_item_id (items w)"

lemma recorded_change_frame:
  assumes "recorded_change w w'"
  shows "wave_id w' = wave_id w" and "wave_tenant_id w' = wave_tenant_id w" and "version w' = version w + 1"
    and "aggregate_metrics w' = aggregate_wave_items (items w')"
    and "wave_correlation_id w' = wave_correlation_id w" and "wave_as_of_date w' = wave_as_of_date w"
proof -
  obtain e where "w' = w\<lparr> wave_state := wave_state w', version := version w + 1, items := items w',
      aggregate_metrics := aggregate_wave_items (items w'), events := events w @ [e], handoff_refs := handoff_refs w' \<rparr>"
    using assms unfolding recorded_change_def by blast
  note w' = this
  show "wave_id w' = wave_id w" by (subst w') simp
  show "wave_tenant_id w' = wave_tenant_id w" by (subst w') simp
  show "version w' = version w + 1" by (subst w') simp
  show "aggregate_metrics w' = aggregate_wave_items (items w')" by (subst w') simp
  show "wave_correlation_id w' = wave_correlation_id w" by (subst w') simp
  show "wave_as_of_date w' = wave_as_of_date w" by (subst w') simp
qed

lemma apply_recorded:
  assumes "apply_wave_transition c st e = Inr w'" and "wave_state c = wave_state w"
    and "c = w\<lparr> items := items c, aggregate_metrics := aggregate_wave_items (items c), handoff_refs := handoff_refs c \<rparr>"
    and "map wave_item_id (items c) = map wave_item_id (items w)"
  shows "recorded_change w w' \<and> wave_state w' = st \<and> items w' = items c \<and> handoff_refs w' = handoff_refs c
    \<and> wave_edge (wave_state w) st"
proof -
  have w': "w' = c\<lparr> wave_state := st, version := version c + 1, events := events c @ [e] \<rparr>"
    and e: "ev_wave_id e = wave_id c" "ev_from_state e = Some (wave_state c)" "ev_to_state e = st"
    and edge: "wave_edge (wave_state c) st"
    using assms(1) by (simp_all add: apply_wave_transition_iff)
  have c: "wave_id c = wave_id w" "version c = version w" "events c = events w"
    by (subst assms(3), simp)+
  have "w' = w\<lparr> wave_state := wave_state w', version := version w + 1, items := items w',
      aggregate_metrics := aggregate_wave_items (items w'), events := events w @ [e], handoff_refs := handoff_refs w' \<rparr>"
    unfolding w' by (subst assms(3)) (simp add: c)
  with e c edge assms(2,4) show ?thesis unfolding recorded_change_def by (auto simp: w')
qed

text \<open>A recorded change along an allowed transition belongs to the history of the wave.\<close>

lemma recorded_reachable:
  assumes "recorded_change w w'" and "wave_edge (wave_state w) (wave_state w')" and "wave_reachable w0 w"
  shows "wave_reachable w0 w'"
proof -
  obtain e where w': "w' = w\<lparr> wave_state := wave_state w', version := version w + 1, items := items w',
      aggregate_metrics := aggregate_wave_items (items w'), events := events w @ [e], handoff_refs := handoff_refs w' \<rparr>"
    and e: "ev_wave_id e = wave_id w" "ev_from_state e = Some (wave_state w)" "ev_to_state e = wave_state w'"
    using assms(1) unfolding recorded_change_def by blast
  let ?c = "w\<lparr> items := items w', aggregate_metrics := aggregate_wave_items (items w'), handoff_refs := handoff_refs w',
    wave_tenant_id := wave_tenant_id w \<rparr>"
  have "edited_wave w ?c" unfolding edited_wave_def by blast
  with assms(3) have "wave_reachable w0 ?c" by (rule wave_reachable.edited)
  moreover have "apply_wave_transition ?c (wave_state w') e = Inr w'"
    unfolding apply_wave_transition_iff using assms(2) e by (intro conjI) (simp_all, subst w', simp)
  ultimately show ?thesis by (rule wave_reachable.transition)
qed

lemma wave_with_items_frame:
  "wave_with_items_and_aggregate w its = w\<lparr> items := items (wave_with_items_and_aggregate w its),
     aggregate_metrics := aggregate_wave_items (items (wave_with_items_and_aggregate w its)),
     handoff_refs := handoff_refs (wave_with_items_and_aggregate w its) \<rparr>"
  by (simp add: wave_with_items_and_aggregate_def)

lemma build_approved_success:
  assumes "build_approved_wave stamp cmd w = Inr w'"
  shows "recorded_change w w' \<and> items w' = map (approve_item cmd) (items w) \<and> handoff_refs w' = handoff_refs w
    \<and> wave_state w' \<in> {WAVE_APPROVED, APPROVED_WITH_EXCEPTIONS} \<and> wave_edge (wave_state w) (wave_state w')"
proof -
  let ?c = "wave_with_items_and_aggregate w (map (approve_item cmd) (items w))"
  obtain st e where st: "st \<in> {WAVE_APPROVED, APPROVED_WITH_EXCEPTIONS}" "apply_wave_transition ?c st e = Inr w'"
    using assms by (auto simp: build_approved_wave_def Let_def split: if_splits)
  have "map wave_item_id (items ?c) = map wave_item_id (items w)"
    by (simp add: wave_with_items_and_aggregate_def model_frame)
  from apply_recorded [OF st(2) _ wave_with_items_frame this] st(1) show ?thesis
    by (auto simp: wave_with_items_and_aggregate_def)
qed

lemma build_staged_success:
  assumes "build_staged_wave stamp cmd w = Inr w'"
  shows "recorded_change w w' \<and> items w' = map (stage_item cmd) (items w) \<and> handoff_refs w' = handoff_refs w
    \<and> wave_state w' = STAGED \<and> wave_edge (wave_state w) (wave_state w')"
proof -
  let ?c = "wave_with_items_and_aggregate w (map (stage_item cmd) (items w))"
  obtain e where st: "apply_wave_transition ?c STAGED e = Inr w'"
    using assms by (auto simp: build_staged_wave_def Let_def split: if_splits)
  have "map wave_item_id (items ?c) = map wave_item_id (items w)"
    by (simp add: wave_with_items_and_aggregate_def model_frame)
  from apply_recorded [OF st _ wave_with_items_frame this] show ?thesis
    by (auto simp: wave_with_items_and_aggregate_def)
qed

lemma build_cancelled_success:
  assumes "build_cancelled_wave stamp cmd w = Inr w'"
  shows "recorded_change w w' \<and> items w' = map (cancel_item cmd) (items w) \<and> handoff_refs w' = handoff_refs w
    \<and> wave_state w' = CANCELLED \<and> wave_edge (wave_state w) (wave_state w')"
proof -
  let ?c = "wave_with_items_and_aggregate w (map (cancel_item cmd) (items w))"
  obtain e where st: "apply_wave_transition ?c CANCELLED e = Inr w'"
    using assms by (auto simp: build_cancelled_wave_def Let_def split: sum.splits wave_error.splits)
  have "map wave_item_id (items ?c) = map wave_item_id (items w)"
    by (simp add: wave_with_items_and_aggregate_def model_frame)
  from apply_recorded [OF st _ wave_with_items_frame this] show ?thesis
    by (auto simp: wave_with_items_and_aggregate_def)
qed

lemma build_handoff_success:
  assumes "build_handoff_ready_wave sha256 ref_stamp stamp cmd w = Inr w'"
  shows "recorded_change w w' \<and> items w' = map (handoff_item cmd) (items w)
    \<and> handoff_refs w' = handoff_refs w @ [build_handoff_ref sha256 ref_stamp (wave_id w)
         (map wave_item_id (filter (\<lambda>i. wi_state i = ITEM_HANDOFF_READY \<and> \<not> proof_pack_blocked i) (items w'))) cmd]
    \<and> wave_state w' = HANDOFF_READY \<and> wave_state w = STAGED
    \<and> (\<exists>i \<in> set (items w'). wi_state i = ITEM_HANDOFF_READY \<and> \<not> proof_pack_blocked i)"
proof -
  let ?its = "map (handoff_item cmd) (items w)"
  let ?ids = "map wave_item_id (filter (\<lambda>i. wi_state i = ITEM_HANDOFF_READY \<and> \<not> proof_pack_blocked i) ?its)"
  let ?c = "(wave_with_items_and_aggregate w ?its)\<lparr> handoff_refs :=
      handoff_refs w @ [build_handoff_ref sha256 ref_stamp (wave_id w) ?ids cmd] \<rparr>"
  have ids: "?ids \<noteq> []" and st: "apply_wave_transition ?c HANDOFF_READY (build_wave_event stamp (wave_id w) STAGED HANDOFF_READY
      (cmd_actor_id cmd) (cmd_correlation_id cmd) ''WAVE_HANDOFF_READY''
      (handoff_event_metadata (build_handoff_ref sha256 ref_stamp (wave_id w) ?ids cmd) (length ?ids)
         (cmd_reason_code cmd) (cmd_comment cmd)) ''STATE_TRANSITION'') = Inr w'"
    using assms unfolding build_handoff_ready_wave_def Let_def by (simp_all split: if_splits)
  have staged: "wave_state w = STAGED"
    using st by (simp add: apply_wave_transition_iff build_wave_event_def wave_with_items_and_aggregate_def)
  have names: "map wave_item_id (items ?c) = map wave_item_id (items w)"
    by (simp add: wave_with_items_and_aggregate_def model_frame)
  have frame: "?c = w\<lparr> items := items ?c, aggregate_metrics := aggregate_wave_items (items ?c),
      handoff_refs := handoff_refs ?c \<rparr>" and state: "wave_state ?c = wave_state w"
    and its: "items ?c = ?its"
    by (simp_all add: wave_with_items_and_aggregate_def)
  have "\<exists>i \<in> set ?its. wi_state i = ITEM_HANDOFF_READY \<and> \<not> proof_pack_blocked i"
    using ids by (fastforce simp: filter_empty_conv)
  with apply_recorded [OF st state frame names] staged its show ?thesis by simp
qed

lemmas build_success = build_approved_success build_staged_success build_cancelled_success build_handoff_success

lemma build_keeps_id:
  "build_approved_wave stamp cmd w = Inr w' \<Longrightarrow> wave_id w' = wave_id w"
  "build_staged_wave stamp cmd w = Inr w' \<Longrightarrow> wave_id w' = wave_id w"
  "build_handoff_ready_wave sha256 ref_stamp stamp cmd w = Inr w' \<Longrightarrow> wave_id w' = wave_id w"
  "build_cancelled_wave stamp cmd w = Inr w' \<Longrightarrow> wave_id w' = wave_id w"
  using build_success recorded_change_frame(1) by blast+

subsection \<open>The abstract lifecycle\<close>

text \<open>
  The specification forgets identifiers, evidence, events, versions and metrics: a wave is its state
  and, for each item, its state and whether its proof pack is blocked. \<open>None\<close> is a refusal.
\<close>

datatype lifecycle_command = Approve | Stage | Handoff | Cancel

type_synonym abstract_item = "WaveItemState \<times> bool"
type_synonym abstract_wave = "WaveState \<times> abstract_item list"

definition abs_item :: "DpmRebalanceWaveItem \<Rightarrow> abstract_item" where
  "abs_item i = (wi_state i, proof_pack_blocked i)"

definition abs_wave :: "DpmRebalanceWave \<Rightarrow> abstract_wave" where
  "abs_wave w = (wave_state w, map abs_item (items w))"

definition advance :: "WaveItemState set \<Rightarrow> WaveItemState \<Rightarrow> abstract_item \<Rightarrow> abstract_item" where
  "advance from_states to_state i = (if fst i \<in> from_states \<and> \<not> snd i then (to_state, False) else i)"

definition ready_items :: "WaveItemState \<Rightarrow> abstract_item list \<Rightarrow> nat" where
  "ready_items s its = length (filter (\<lambda>i. i = (s, False)) its)"

fun spec_command :: "lifecycle_command \<Rightarrow> abstract_wave \<Rightarrow> abstract_wave option" where
  "spec_command Approve (st, its) =
     (if st \<in> {WAVE_APPROVED, APPROVED_WITH_EXCEPTIONS} then Some (st, its)
      else if st \<notin> {SIMULATED, PARTIALLY_SIMULATED, REVIEW_REQUIRED} then None
      else
        let its' = map (advance {ITEM_SELECTED, ITEM_PROOF_PACK_READY} ITEM_APPROVED) its;
            n = ready_items ITEM_APPROVED its';
            st' = (if n = length its' then WAVE_APPROVED else APPROVED_WITH_EXCEPTIONS)
        in if n = 0 \<or> \<not> wave_edge st st' then None else Some (st', its'))"
| "spec_command Stage (st, its) =
     (if st \<in> {STAGED, HANDOFF_READY} then Some (st, its)
      else if st \<notin> {WAVE_APPROVED, APPROVED_WITH_EXCEPTIONS} then None
      else
        let its' = map (advance {ITEM_APPROVED} ITEM_STAGED) its
        in if ready_items ITEM_STAGED its' = 0 then None else Some (STAGED, its'))"
| "spec_command Handoff (st, its) =
     (if st = HANDOFF_READY then Some (st, its)
      else if st \<noteq> STAGED then None
      else
        let its' = map (advance {ITEM_STAGED} ITEM_HANDOFF_READY) its
        in if ready_items ITEM_HANDOFF_READY its' = 0 then None else Some (HANDOFF_READY, its'))"
| "spec_command Cancel (st, its) =
     (if st = CANCELLED then Some (st, its)
      else if \<not> wave_edge st CANCELLED then None
      else Some (CANCELLED, map (\<lambda>i. if fst i = ITEM_HANDOFF_READY then i else (ITEM_EXCLUDED, snd i)) its))"

text \<open>The store: which wave a tenant sees under an identifier.\<close>

type_synonym abstract_store = "string \<times> string \<Rightarrow> abstract_wave option"

definition abs_store :: "('r \<Rightarrow> string \<Rightarrow> string \<Rightarrow> DpmRebalanceWave option) \<Rightarrow> 'r \<Rightarrow> abstract_store" where
  "abs_store get r = (\<lambda>(wid, t). map_option abs_wave (get r wid t))"

definition spec_store :: "lifecycle_command \<Rightarrow> string \<Rightarrow> string \<Rightarrow> abstract_store \<Rightarrow> abstract_store option" where
  "spec_store c wid t S =
     (case S (wid, t) of None \<Rightarrow> None | Some a \<Rightarrow> map_option (\<lambda>a'. S((wid, t) \<mapsto> a')) (spec_command c a))"

definition outcome :: "'a wave_result \<Rightarrow> 'a option" where
  "outcome m = (case m of Inl _ \<Rightarrow> None | Inr x \<Rightarrow> Some x)"

definition run_command ::
  "('r \<Rightarrow> string \<Rightarrow> string \<Rightarrow> DpmRebalanceWave option) \<Rightarrow> ('r \<Rightarrow> DpmRebalanceWave \<Rightarrow> nat \<Rightarrow> string \<Rightarrow> 'r wave_result)
     \<Rightarrow> (string \<Rightarrow> string) \<Rightarrow> WaveStamp \<Rightarrow> WaveStamp \<Rightarrow> lifecycle_command \<Rightarrow> string \<Rightarrow> WaveCommand \<Rightarrow> string \<Rightarrow> 'r
     \<Rightarrow> ('r \<times> DpmRebalanceWave \<times> bool) wave_result" where
  "run_command get update sha256 ref_stamp stamp c wid cmd tenant repo =
     (case c of
        Approve \<Rightarrow> approve_persisted_wave get update stamp wid cmd tenant repo
      | Stage \<Rightarrow> stage_persisted_wave get update stamp wid cmd tenant repo
      | Handoff \<Rightarrow> handoff_persisted_wave get update sha256 ref_stamp stamp wid cmd tenant repo
      | Cancel \<Rightarrow> cancel_persisted_wave get update stamp wid cmd tenant repo)"

lemma abs_item_steps:
  "abs_item (approve_item cmd i) = advance {ITEM_SELECTED, ITEM_PROOF_PACK_READY} ITEM_APPROVED (abs_item i)"
  "abs_item (stage_item cmd i) = advance {ITEM_APPROVED} ITEM_STAGED (abs_item i)"
  "abs_item (handoff_item cmd i) = advance {ITEM_STAGED} ITEM_HANDOFF_READY (abs_item i)"
  "abs_item (cancel_item cmd i) =
     (if fst (abs_item i) = ITEM_HANDOFF_READY then abs_item i else (ITEM_EXCLUDED, snd (abs_item i)))"
  by (auto simp: abs_item_def advance_def item_steps_state model_frame)

lemma count_unblocked_abs: "count_unblocked s its = ready_items s (map abs_item its)"
  by (simp add: count_unblocked_def ready_items_def abs_item_def filter_map o_def)

lemma ready_items_map: "ready_items s (map abs_item (map f its)) = ready_items s (map (abs_item \<circ> f) its)"
  by (simp add: o_def)

lemma apply_outcome:
  "map_option abs_wave (outcome (apply_wave_transition (wave_with_items_and_aggregate w its) st
      (build_wave_event stamp (wave_id w) (wave_state w) st actor corr reason metadata ty)))
   = (if wave_edge (wave_state w) st then Some (st, map abs_item its) else None)"
  by (simp add: apply_wave_transition_def validate_wave_transition_def wave_with_items_and_aggregate_def
      build_wave_event_def outcome_def abs_wave_def)

lemma outcome_if: "map_option f (outcome (if b then Inl e else m)) = (if b then None else map_option f (outcome m))"
  by (simp add: outcome_def)

text \<open>What each builder does to the abstraction, given what the command has checked before.\<close>

lemma build_approved_refines:
  assumes "wave_state w \<in> {SIMULATED, PARTIALLY_SIMULATED, REVIEW_REQUIRED}"
  shows "map_option abs_wave (outcome (build_approved_wave stamp cmd w)) = spec_command Approve (abs_wave w)"
proof -
  have its: "map (advance {ITEM_SELECTED, ITEM_PROOF_PACK_READY} ITEM_APPROVED) (map abs_item (items w))
      = map abs_item (map (approve_item cmd) (items w))"
    by (simp add: abs_item_steps)
  have st: "wave_state w \<notin> {WAVE_APPROVED, APPROVED_WITH_EXCEPTIONS}" using assms by auto
  show ?thesis
    unfolding abs_wave_def [of w] spec_command.simps its build_approved_wave_def Let_def outcome_if apply_outcome
      count_unblocked_abs
    using assms st by (simp del: ALLOWED_WAVE_TRANSITIONS.simps)
qed

lemma build_staged_refines:
  assumes "wave_state w \<in> {WAVE_APPROVED, APPROVED_WITH_EXCEPTIONS}"
  shows "map_option abs_wave (outcome (build_staged_wave stamp cmd w)) = spec_command Stage (abs_wave w)"
proof -
  have its: "map (advance {ITEM_APPROVED} ITEM_STAGED) (map abs_item (items w)) = map abs_item (map (stage_item cmd) (items w))"
    by (simp add: abs_item_steps)
  have edge: "wave_edge (wave_state w) STAGED" and st: "wave_state w \<notin> {STAGED, HANDOFF_READY}" using assms by auto
  show ?thesis
    unfolding abs_wave_def [of w] spec_command.simps its build_staged_wave_def Let_def outcome_if apply_outcome
      count_unblocked_abs
    using assms st edge by (simp del: ALLOWED_WAVE_TRANSITIONS.simps)
qed

lemma build_cancelled_refines:
  assumes "wave_state w \<noteq> CANCELLED"
  shows "map_option abs_wave (outcome (build_cancelled_wave stamp cmd w)) = spec_command Cancel (abs_wave w)"
proof -
  have its: "map (\<lambda>i. if fst i = ITEM_HANDOFF_READY then i else (ITEM_EXCLUDED, snd i)) (map abs_item (items w))
      = map abs_item (map (cancel_item cmd) (items w))"
    by (simp add: abs_item_steps)
  have err: "outcome (case m of Inl (DpmWaveInvalidTransitionError _) \<Rightarrow> Inl e | other \<Rightarrow> other) = outcome m"
    for m :: "DpmRebalanceWave wave_result" and e
    by (auto simp: outcome_def split: sum.splits wave_error.splits)
  show ?thesis
    unfolding abs_wave_def [of w] spec_command.simps its build_cancelled_wave_def Let_def err apply_outcome
    using assms by (simp del: ALLOWED_WAVE_TRANSITIONS.simps)
qed

lemma build_handoff_refines:
  assumes "wave_state w = STAGED"
  shows "map_option abs_wave (outcome (build_handoff_ready_wave sha256 ref_stamp stamp cmd w)) = spec_command Handoff (abs_wave w)"
proof -
  have its: "map (advance {ITEM_STAGED} ITEM_HANDOFF_READY) (map abs_item (items w))
      = map abs_item (map (handoff_item cmd) (items w))"
    by (simp add: abs_item_steps)
  have none: "map wave_item_id (filter (\<lambda>i. wi_state i = ITEM_HANDOFF_READY \<and> \<not> proof_pack_blocked i) xs) = []
      \<longleftrightarrow> ready_items ITEM_HANDOFF_READY (map abs_item xs) = 0" for xs
    unfolding count_unblocked_abs [symmetric] count_unblocked_def by simp
  show ?thesis
    unfolding abs_wave_def [of w] spec_command.simps its build_handoff_ready_wave_def Let_def none
    using assms
    by (simp add: apply_wave_transition_def validate_wave_transition_def wave_with_items_and_aggregate_def
        build_wave_event_def outcome_def abs_wave_def)
qed

context wave_repository
begin

lemma transition_refines:
  assumes r: "ok r" and keeps: "\<And>w w'. build w = Inr w' \<Longrightarrow> wave_id w' = wave_id w"
    and replay: "\<And>w. wave_state w \<in> set replay \<Longrightarrow> spec (abs_wave w) = Some (abs_wave w)"
    and refuse: "\<And>w. wave_state w \<notin> set replay \<Longrightarrow> \<not> admitted allowed w \<Longrightarrow> spec (abs_wave w) = None"
    and step: "\<And>w. wave_state w \<notin> set replay \<Longrightarrow> admitted allowed w \<Longrightarrow>
      map_option abs_wave (outcome (build w)) = spec (abs_wave w)"
  shows "map_option (\<lambda>(r', _, _). abs_store get r') (outcome (persisted_transition get update wid t replay allowed code build r))
    = (case abs_store get r (wid, t) of
         None \<Rightarrow> None | Some a \<Rightarrow> map_option (\<lambda>a'. (abs_store get r)((wid, t) \<mapsto> a')) (spec a))"
proof (cases "persisted_transition get update wid t replay allowed code build r")
  case (Inl e)
  show ?thesis
  proof (cases "get r wid t")
    case (Some w)
    with Inl persisted_transition_cases [OF r keeps, of build wid t replay allowed code]
    have no: "wave_state w \<notin> set replay" and err: "admitted allowed w \<Longrightarrow> \<exists>e. build w = Inl e"
      by (auto split: if_splits sum.splits)
    have "spec (abs_wave w) = None"
      using step [OF no] refuse [OF no] err by (cases "admitted allowed w") (auto simp: outcome_def)
    with Inl Some show ?thesis by (simp add: outcome_def abs_store_def)
  qed (simp add: Inl outcome_def abs_store_def)
next
  case (Inr x)
  obtain r' w' replayed where x: "x = (r', w', replayed)" by (cases x) auto
  show ?thesis
  proof (rule persisted_transition_success [where build = build, OF r _ Inr [unfolded x]])
    assume "get r wid t = Some w'" and "r' = r" and "wave_state w' \<in> set replay"
    then show ?thesis using assms(3) [of w'] by (simp add: Inr x outcome_def abs_store_def fun_upd_idem)
  next
    fix w
    assume change: "get r wid t = Some w" "wave_state w \<notin> set replay" "admitted allowed w" "build w = Inr w'"
      "\<And>i t'. get r' i t' = (if i = wid \<and> t' = t then Some (w'\<lparr> wave_tenant_id := Some t \<rparr>) else get r i t')"
    then have "spec (abs_wave w) = Some (abs_wave w')" using step [of w] by (simp add: outcome_def)
    moreover have "abs_store get r' = (abs_store get r)((wid, t) \<mapsto> abs_wave w')"
      using change(5) by (auto simp: abs_store_def abs_wave_def fun_eq_iff)
    ultimately show ?thesis using change(1) by (simp add: Inr x outcome_def abs_store_def)
  qed (rule keeps)
qed

lemma run_command_refines:
  assumes "ok r"
  shows "map_option (\<lambda>(r', _, _). abs_store get r') (outcome (run_command get update sha256 ref_stamp stamp c wid cmd t r))
    = spec_store c wid t (abs_store get r)"
proof (cases c)
  case Approve
  show ?thesis
    unfolding run_command_def Approve lifecycle_command.case command_shape spec_store_def
    by (rule transition_refines [OF assms build_keeps_id(1)])
      (auto simp: build_approved_refines admitted_def, auto simp: abs_wave_def)
next
  case Stage
  show ?thesis
    unfolding run_command_def Stage lifecycle_command.case command_shape spec_store_def
    by (rule transition_refines [OF assms build_keeps_id(2)])
      (auto simp: build_staged_refines admitted_def, auto simp: abs_wave_def)
next
  case Handoff
  show ?thesis
    unfolding run_command_def Handoff lifecycle_command.case command_shape spec_store_def
    by (rule transition_refines [OF assms build_keeps_id(3)])
      (auto simp: build_handoff_refines admitted_def, auto simp: abs_wave_def)
next
  case Cancel
  show ?thesis
    unfolding run_command_def Cancel lifecycle_command.case command_shape spec_store_def
    by (rule transition_refines [OF assms build_keeps_id(4)])
      (auto simp: build_cancelled_refines admitted_def, auto simp: abs_wave_def)
qed

end

text \<open>Sequences of requests: one that is refused leaves the store as it is.\<close>

record LifecycleRequest =
  rq_command :: lifecycle_command
  rq_wave_id :: string
  rq_args :: WaveCommand
  rq_tenant :: string
  rq_ref_stamp :: WaveStamp
  rq_stamp :: WaveStamp

definition serve ::
  "('r \<Rightarrow> string \<Rightarrow> string \<Rightarrow> DpmRebalanceWave option) \<Rightarrow> ('r \<Rightarrow> DpmRebalanceWave \<Rightarrow> nat \<Rightarrow> string \<Rightarrow> 'r wave_result)
     \<Rightarrow> (string \<Rightarrow> string) \<Rightarrow> LifecycleRequest \<Rightarrow> 'r \<Rightarrow> 'r" where
  "serve get update sha256 q r =
     (case run_command get update sha256 (rq_ref_stamp q) (rq_stamp q) (rq_command q) (rq_wave_id q) (rq_args q)
             (rq_tenant q) r of
        Inl _ \<Rightarrow> r | Inr (r', _, _) \<Rightarrow> r')"

definition spec_serve :: "LifecycleRequest \<Rightarrow> abstract_store \<Rightarrow> abstract_store" where
  "spec_serve q S = (case spec_store (rq_command q) (rq_wave_id q) (rq_tenant q) S of None \<Rightarrow> S | Some S' \<Rightarrow> S')"

text \<open>
  What every stored wave satisfies: no item is ahead of its wave, an item with a blocked proof pack is
  not approved, the metrics are those of the items, handoff evidence belongs to the wave and claims no
  external execution, and a wave that is ready for handoff lists its handed-off items.
\<close>

fun item_stage :: "WaveItemState \<Rightarrow> nat" where
  "item_stage ITEM_APPROVED = 1"
| "item_stage ITEM_STAGED = 2"
| "item_stage ITEM_HANDOFF_READY = 3"
| "item_stage _ = 0"

fun wave_stage :: "WaveState \<Rightarrow> nat" where
  "wave_stage WAVE_APPROVED = 1"
| "wave_stage APPROVED_WITH_EXCEPTIONS = 1"
| "wave_stage STAGED = 2"
| "wave_stage HANDOFF_BLOCKED = 2"
| "wave_stage HANDOFF_READY = 3"
| "wave_stage HANDOFF_ACKNOWLEDGED = 3"
| "wave_stage _ = 0"

definition item_allowed :: "WaveState \<Rightarrow> DpmRebalanceWaveItem \<Rightarrow> bool" where
  "item_allowed st i \<longleftrightarrow> item_stage (wi_state i) \<le> wave_stage st \<and> (proof_pack_blocked i \<longrightarrow> item_stage (wi_state i) = 0)"

definition handed_off :: "DpmRebalanceWave \<Rightarrow> string list" where
  "handed_off w = map wave_item_id (filter (\<lambda>i. wi_state i = ITEM_HANDOFF_READY) (items w))"

definition lifecycle_ok :: "DpmRebalanceWave \<Rightarrow> bool" where
  "lifecycle_ok w \<longleftrightarrow>
     (\<forall>i \<in> set (items w). item_allowed (wave_state w) i)
     \<and> aggregate_metrics w = aggregate_wave_items (items w)
     \<and> (\<forall>ref \<in> set (handoff_refs w). \<not> external_execution_claimed ref \<and> hr_wave_id ref = wave_id w)
     \<and> (wave_state w = HANDOFF_READY \<longrightarrow>
          handoff_refs w \<noteq> [] \<and> handed_off w \<noteq> [] \<and> hr_item_ids (last (handoff_refs w)) = handed_off w)"

lemma lifecycle_ok_tenant [simp]: "lifecycle_ok (w\<lparr> wave_tenant_id := t \<rparr>) = lifecycle_ok w"
  by (simp add: lifecycle_ok_def handed_off_def)

lemma item_steps_allowed:
  "item_allowed st i \<Longrightarrow> wave_stage st \<le> 1 \<Longrightarrow> wave_stage st' = 1 \<Longrightarrow> item_allowed st' (approve_item cmd i)"
  "item_allowed st i \<Longrightarrow> wave_stage st \<le> 2 \<Longrightarrow> wave_stage st' = 2 \<Longrightarrow> item_allowed st' (stage_item cmd i)"
  "item_allowed st i \<Longrightarrow> wave_stage st' = 3 \<Longrightarrow> item_allowed st' (handoff_item cmd i)"
  "item_allowed st i \<Longrightarrow> wave_stage st \<le> 2 \<Longrightarrow> item_allowed st' (cancel_item cmd i)"
proof -
  have stage: "item_stage s \<le> 3" for s by (cases s) simp_all
  show "item_allowed st i \<Longrightarrow> wave_stage st \<le> 1 \<Longrightarrow> wave_stage st' = 1 \<Longrightarrow> item_allowed st' (approve_item cmd i)"
    "item_allowed st i \<Longrightarrow> wave_stage st \<le> 2 \<Longrightarrow> wave_stage st' = 2 \<Longrightarrow> item_allowed st' (stage_item cmd i)"
    "item_allowed st i \<Longrightarrow> wave_stage st' = 3 \<Longrightarrow> item_allowed st' (handoff_item cmd i)"
    "item_allowed st i \<Longrightarrow> wave_stage st \<le> 2 \<Longrightarrow> item_allowed st' (cancel_item cmd i)"
    using stage [of "wi_state i"] by (auto simp: item_allowed_def item_steps_state model_frame)
qed

lemma recorded_lifecycle_ok:
  assumes "recorded_change w w'" and "lifecycle_ok w"
    and "\<And>i. i \<in> set (items w') \<Longrightarrow> item_allowed (wave_state w') i"
    and "handoff_refs w' = handoff_refs w" and "wave_state w' \<noteq> HANDOFF_READY"
  shows "lifecycle_ok w'"
  using assms recorded_change_frame [OF assms(1)] by (simp add: lifecycle_ok_def)

lemma edge_stages:
  "\<forall>t \<in> set (ALLOWED_WAVE_TRANSITIONS s). (t \<in> {WAVE_APPROVED, APPROVED_WITH_EXCEPTIONS} \<longrightarrow> wave_stage s \<le> 1)
     \<and> (t = STAGED \<longrightarrow> wave_stage s \<le> 2) \<and> (t = CANCELLED \<longrightarrow> wave_stage s \<le> 2)"
  by (cases s) simp_all

lemma build_lifecycle_ok:
  assumes "lifecycle_ok w"
  shows "build_approved_wave stamp cmd w = Inr w' \<Longrightarrow> lifecycle_ok w'"
    and "build_staged_wave stamp cmd w = Inr w' \<Longrightarrow> lifecycle_ok w'"
    and "build_cancelled_wave stamp cmd w = Inr w' \<Longrightarrow> lifecycle_ok w'"
    and "build_handoff_ready_wave sha256 ref_stamp stamp cmd w = Inr w' \<Longrightarrow> lifecycle_ok w'"
proof -
  have allowed: "item_allowed (wave_state w) i" if "i \<in> set (items w)" for i
    using assms that by (simp add: lifecycle_ok_def)
  note edge = edge_stages [of "wave_state w"]
  show "lifecycle_ok w'" if run: "build_approved_wave stamp cmd w = Inr w'"
  proof (rule recorded_lifecycle_ok [OF _ assms])
    note built = build_approved_success [OF run]
    then have "wave_stage (wave_state w) \<le> 1" using edge by blast
    with built item_steps_allowed(1) [OF allowed] show "item_allowed (wave_state w') i" if "i \<in> set (items w')" for i
      using that by fastforce
  qed (use build_approved_success [OF run] in auto)
  show "lifecycle_ok w'" if run: "build_staged_wave stamp cmd w = Inr w'"
  proof (rule recorded_lifecycle_ok [OF _ assms])
    note built = build_staged_success [OF run]
    then have "wave_stage (wave_state w) \<le> 2" using edge by blast
    with built item_steps_allowed(2) [OF allowed] show "item_allowed (wave_state w') i" if "i \<in> set (items w')" for i
      using that by fastforce
  qed (use build_staged_success [OF run] in auto)
  show "lifecycle_ok w'" if run: "build_cancelled_wave stamp cmd w = Inr w'"
  proof (rule recorded_lifecycle_ok [OF _ assms])
    note built = build_cancelled_success [OF run]
    then have "wave_stage (wave_state w) \<le> 2" using edge by blast
    with built item_steps_allowed(4) [OF allowed] show "item_allowed (wave_state w') i" if "i \<in> set (items w')" for i
      using that by fastforce
  qed (use build_cancelled_success [OF run] in auto)
  show "lifecycle_ok w'" if run: "build_handoff_ready_wave sha256 ref_stamp stamp cmd w = Inr w'"
  proof -
    note hand = build_handoff_success [OF run]
    then have its: "item_allowed HANDOFF_READY i" if "i \<in> set (items w')" for i
      using that item_steps_allowed(3) [OF allowed] by auto
    have "filter (\<lambda>i. wi_state i = ITEM_HANDOFF_READY \<and> \<not> proof_pack_blocked i) (items w')
        = filter (\<lambda>i. wi_state i = ITEM_HANDOFF_READY) (items w')"
      using its by (intro filter_cong) (force simp: item_allowed_def)+
    with hand have refs: "handoff_refs w' = handoff_refs w @ [build_handoff_ref sha256 ref_stamp (wave_id w) (handed_off w') cmd]"
      and some: "handed_off w' \<noteq> []"
      by (auto simp: handed_off_def filter_empty_conv)
    from assms hand its recorded_change_frame [of w w'] refs some show ?thesis
      by (auto simp: lifecycle_ok_def build_handoff_ref_def Let_def)
  qed
qed

section \<open>Properties\<close>

definition sample_cmd :: WaveCommand where
  "sample_cmd = \<lparr> cmd_actor_id = ''pm_001'', cmd_reason_code = ''OK'', cmd_comment = None, cmd_correlation_id = ''c2'' \<rparr>"

definition sample_stamp :: WaveStamp where
  "sample_stamp = \<lparr> stamp_hex = ''0123456789abcdef'', stamp_now = 7 \<rparr>"

definition sample_item :: "string \<Rightarrow> WaveItemState \<Rightarrow> (string, json) dict \<Rightarrow> DpmRebalanceWaveItem" where
  "sample_item i s d =
     \<lparr> wave_item_id = i, wi_portfolio_id = ''PF'' @ i, wi_mandate_id = None, wi_model_portfolio_id = None, wi_state = s,
       wi_reason_codes = [], wi_source_refs = [], wi_alternative_set_id = Some ''cas_1'',
       wi_selected_alternative_id = Some ''alt_1'', wi_proof_pack_id = None, wi_diagnostics = d \<rparr>"

definition sample_wave :: "WaveState \<Rightarrow> DpmRebalanceWaveItem list \<Rightarrow> DpmRebalanceWave" where
  "sample_wave st its = (wave_with_items_and_aggregate sample_draft its)\<lparr> wave_state := st \<rparr>"

definition sample_repository :: "DpmRebalanceWave \<Rightarrow> InMemoryDpmWaveRepository" where
  "sample_repository w = empty_repository\<lparr> repo_waves := [(wave_id w, w)] \<rparr>"

lemma sample_repository_ok: "repository_ok (sample_repository w)"
  by (simp add: repository_ok_def sample_repository_def empty_repository_def)

definition sample_request :: "lifecycle_command \<Rightarrow> string \<Rightarrow> LifecycleRequest" where
  "sample_request c t = \<lparr> rq_command = c, rq_wave_id = ''dwv_1'', rq_args = sample_cmd, rq_tenant = t,
     rq_ref_stamp = sample_stamp, rq_stamp = sample_stamp \<rparr>"

lemma serve_refines:
  assumes "repository_ok r"
  shows "abs_store get_wave (serve get_wave update_wave sha256 q r) = spec_serve q (abs_store get_wave r)"
  using memory.run_command_refines [OF assms, of sha256 "rq_ref_stamp q" "rq_stamp q" "rq_command q" "rq_wave_id q"
      "rq_args q" "rq_tenant q"]
  by (auto simp: serve_def spec_serve_def outcome_def split: sum.splits option.splits prod.splits)

text \<open>What the commands need of the function that builds the new wave.\<close>

definition sound_build :: "(DpmRebalanceWave \<Rightarrow> DpmRebalanceWave wave_result) \<Rightarrow> bool" where
  "sound_build build \<longleftrightarrow>
     (\<forall>w w'. build w = Inr w' \<longrightarrow> recorded_change w w' \<and> wave_edge (wave_state w) (wave_state w')
        \<and> (lifecycle_ok w \<longrightarrow> lifecycle_ok w'))"

lemma sound_builds:
  "sound_build (build_approved_wave stamp cmd)" "sound_build (build_staged_wave stamp cmd)"
  "sound_build (build_cancelled_wave stamp cmd)" "sound_build (build_handoff_ready_wave sha256 ref_stamp stamp cmd)"
  unfolding sound_build_def
  by (auto dest: build_success build_lifecycle_ok(1-3) intro: build_lifecycle_ok(4))

lemma run_command_shape:
  obtains replay allowed code build where
    "run_command get update sha256 ref_stamp stamp c wid cmd t r = persisted_transition get update wid t replay allowed code build r"
    "sound_build build"
  by (cases c) (auto simp: run_command_def command_shape intro: sound_builds that)

context wave_repository
begin

text \<open>A command that succeeds keeps the repository well formed and touches one wave of one tenant.\<close>

lemma run_command_success:
  assumes r: "ok r" and run: "run_command get update sha256 ref_stamp stamp c wid cmd t r = Inr (r', w', replayed)"
  obtains (replay) "get r wid t = Some w'" "r' = r" "replayed"
  | (change) w where "get r wid t = Some w" "\<not> replayed" "recorded_change w w'" "wave_edge (wave_state w) (wave_state w')"
      "lifecycle_ok w \<Longrightarrow> lifecycle_ok w'" "ok r'"
      "\<And>i t'. get r' i t' = (if i = wid \<and> t' = t then Some (w'\<lparr> wave_tenant_id := Some t \<rparr>) else get r i t')"
proof -
  obtain replay' allowed code build where
    shape: "persisted_transition get update wid t replay' allowed code build r = Inr (r', w', replayed)"
    and built: "sound_build build"
    using run by (metis run_command_shape)
  show thesis
  proof (rule persisted_transition_success [where build = build, OF r _ shape])
    show "wave_id w2 = wave_id w1" if "build w1 = Inr w2" for w1 w2
      using built that recorded_change_frame(1) unfolding sound_build_def by blast
  qed (use built [unfolded sound_build_def] replay change in blast)+
qed

end

text \<open>After a command its wave is in a state in which the same command is a replay.\<close>

definition replay_states :: "lifecycle_command \<Rightarrow> WaveState list" where
  "replay_states c =
     (case c of Approve \<Rightarrow> [WAVE_APPROVED, APPROVED_WITH_EXCEPTIONS] | Stage \<Rightarrow> [STAGED, HANDOFF_READY]
      | Handoff \<Rightarrow> [HANDOFF_READY] | Cancel \<Rightarrow> [CANCELLED])"

lemma run_command_replay:
  assumes "get r wid t = Some w" and "wave_state w \<in> set (replay_states c)"
  shows "run_command get update sha256 ref_stamp stamp c wid cmd t r = Inr (r, w, True)"
  using assms by (cases c) (simp_all add: run_command_def command_shape persisted_transition_unfold replay_states_def)

lemma run_command_final_state:
  assumes "run_command get update sha256 ref_stamp stamp c wid cmd t r = Inr (r', w', replayed)"
  shows "wave_state w' \<in> set (replay_states c)"
  using assms build_success
  by (cases c)
    (fastforce simp: run_command_def command_shape persisted_transition_unfold replay_states_def
      split: option.splits if_splits sum.splits)+

lemma run_command_not_found:
  "run_command get update sha256 ref_stamp stamp c wid cmd t r = Inl (DpmWaveLookupError ''DPM_WAVE_NOT_FOUND'')"
  if "get r wid t = None"
  using that by (cases c) (simp_all add: run_command_def command_shape persisted_transition_unfold)

text \<open>
  C34. The commands implement the abstract lifecycle. Whatever requests arrive, in whatever order and
  from whatever tenants, the stored waves go through exactly the changes of the specification, a
  machine of a dozen lines that knows only states and blocked proof packs; a request is refused
  exactly when the specification refuses it, and a refused request changes nothing.
\<close>

theorem lifecycle_refines_spec:
  assumes "repository_ok r"
  shows "abs_store get_wave (fold (serve get_wave update_wave sha256) qs r) = fold spec_serve qs (abs_store get_wave r)
    \<and> ((\<exists>e. run_command get_wave update_wave sha256 ref_stamp stamp c wid cmd t r = Inl e)
        \<longleftrightarrow> spec_store c wid t (abs_store get_wave r) = None)"
proof
  show "abs_store get_wave (fold (serve get_wave update_wave sha256) qs r) = fold spec_serve qs (abs_store get_wave r)"
    using assms
  proof (induction qs arbitrary: r)
    case (Cons q qs)
    have "repository_ok (serve get_wave update_wave sha256 q r)"
      using memory.run_command_success [OF Cons.prems] Cons.prems
      by (auto simp: serve_def split: sum.splits) metis
    then show ?case using Cons.IH serve_refines [OF Cons.prems] by simp
  qed simp
  show "(\<exists>e. run_command get_wave update_wave sha256 ref_stamp stamp c wid cmd t r = Inl e)
        \<longleftrightarrow> spec_store c wid t (abs_store get_wave r) = None"
    using memory.run_command_refines [OF assms, of sha256 ref_stamp stamp c wid cmd t, symmetric]
    by (cases "run_command get_wave update_wave sha256 ref_stamp stamp c wid cmd t r") (auto simp: outcome_def)
qed

definition two_items :: "DpmRebalanceWaveItem list" where
  "two_items = [sample_item ''dwi_1'' ITEM_PROOF_PACK_READY [],
     sample_item ''dwi_2'' ITEM_SELECTED [(''proof_pack_state'', JStr ''BLOCKED'')]]"

theorem lifecycle_refines_spec_witness:
  "abs_store get_wave
     (fold (serve get_wave update_wave rev) [sample_request Approve ''t1'', sample_request Stage ''t2'', sample_request Stage ''t1'']
        (sample_repository (sample_wave PARTIALLY_SIMULATED two_items))) (''dwv_1'', ''t1'')
   = Some (STAGED, [(ITEM_STAGED, False), (ITEM_SELECTED, True)])"
proof -
  let ?S = "abs_store get_wave (sample_repository (sample_wave PARTIALLY_SIMULATED two_items))"
  have S: "?S = (\<lambda>_. None)((''dwv_1'', ''t1'') \<mapsto> (PARTIALLY_SIMULATED, [(ITEM_PROOF_PACK_READY, False), (ITEM_SELECTED, True)]))"
    by (auto simp: fun_eq_iff abs_store_def get_wave_def sample_repository_def sample_wave_def sample_draft_def
        wave_with_items_and_aggregate_def two_items_def sample_item_def abs_wave_def abs_item_def proof_pack_blocked_def)
  show ?thesis
    unfolding lifecycle_refines_spec [OF sample_repository_ok, THEN conjunct1] S
    by (simp add: spec_serve_def spec_store_def sample_request_def advance_def ready_items_def)
qed

text \<open>
  C35. What a command may touch. A tenant's command on a wave the tenant does not own is refused as if
  the wave did not exist. A command that succeeds changes at most that wave of that tenant: a replay
  returns it as stored, any other success records exactly one change, along an allowed transition,
  and stores it. Repeating the command is a replay. A second command that had read the wave before
  cannot overwrite it.
\<close>

theorem command_isolated:
  assumes "repository_ok r"
  shows "(get_wave r wid t = None \<longrightarrow>
      run_command get_wave update_wave sha256 rs st c wid cmd t r = Inl (DpmWaveLookupError ''DPM_WAVE_NOT_FOUND''))
    \<and> (\<forall>r' w' replayed. run_command get_wave update_wave sha256 rs st c wid cmd t r = Inr (r', w', replayed) \<longrightarrow>
        repository_ok r'
        \<and> (\<forall>i t'. (i, t') \<noteq> (wid, t) \<longrightarrow> get_wave r' i t' = get_wave r i t')
        \<and> (\<exists>w. get_wave r wid t = Some w \<and> get_wave r' wid t = Some w'
             \<and> (if replayed then r' = r \<and> w' = w
                else recorded_change w w' \<and> wave_edge (wave_state w) (wave_state w')
                  \<and> persist_transitioned_wave update_wave r' w (w2\<lparr> wave_id := wid \<rparr>) t
                      = Inl (DpmWaveValidationError ''DPM_WAVE_VERSION_CONFLICT'')))
        \<and> run_command get_wave update_wave sha256 rs2 st2 c wid cmd2 t r' = Inr (r', w', True))"
proof -
  have "repository_ok r' \<and> (\<forall>i t'. (i, t') \<noteq> (wid, t) \<longrightarrow> get_wave r' i t' = get_wave r i t')
        \<and> (\<exists>w. get_wave r wid t = Some w \<and> get_wave r' wid t = Some w'
             \<and> (if replayed then r' = r \<and> w' = w
                else recorded_change w w' \<and> wave_edge (wave_state w) (wave_state w')
                  \<and> persist_transitioned_wave update_wave r' w (w2\<lparr> wave_id := wid \<rparr>) t
                      = Inl (DpmWaveValidationError ''DPM_WAVE_VERSION_CONFLICT'')))"
    if run: "run_command get_wave update_wave sha256 rs st c wid cmd t r = Inr (r', w', replayed)" for r' w' replayed
  proof (rule memory.run_command_success [OF assms run])
    fix w
    assume w: "get_wave r wid t = Some w" and "\<not> replayed" and rec: "recorded_change w w'"
      and edge: "wave_edge (wave_state w) (wave_state w')" and "repository_ok r'"
      and get': "\<And>i t'. get_wave r' i t' = (if i = wid \<and> t' = t then Some (w'\<lparr>wave_tenant_id := Some t\<rparr>) else get_wave r i t')"
    have "wave_tenant_id w = Some t" using memory.get_owned [OF assms w] by simp
    then have "w'\<lparr>wave_tenant_id := Some t\<rparr> = w'" using recorded_change_frame(2) [OF rec] by simp
    then have stored: "get_wave r' wid t = Some w'" using get' [of wid t] by simp
    have "persist_transitioned_wave update_wave r' w (w2\<lparr> wave_id := wid \<rparr>) t
        = Inl (DpmWaveValidationError ''DPM_WAVE_VERSION_CONFLICT'')"
      by (rule memory.stale_write_refused) (use stored recorded_change_frame(3) [OF rec] in auto)
    with \<open>\<not> replayed\<close> \<open>repository_ok r'\<close> w rec edge stored get' show ?thesis by auto
  qed (use assms in auto)
  moreover from this have "run_command get_wave update_wave sha256 rs2 st2 c wid cmd2 t r' = Inr (r', w', True)"
    if "run_command get_wave update_wave sha256 rs st c wid cmd t r = Inr (r', w', replayed)" for r' w' replayed
    using that run_command_final_state [OF that] by (intro run_command_replay) blast+
  ultimately show ?thesis using run_command_not_found [of get_wave r wid t] by blast
qed

theorem command_isolated_witness:
  "run_command get_wave update_wave rev sample_stamp sample_stamp Approve ''dwv_1'' sample_cmd ''t2''
     (sample_repository (sample_wave PARTIALLY_SIMULATED two_items)) = Inl (DpmWaveLookupError ''DPM_WAVE_NOT_FOUND'')"
  using command_isolated [OF sample_repository_ok, of "sample_wave PARTIALLY_SIMULATED two_items" "''dwv_1''" "''t2''"]
  by (simp add: get_wave_def sample_repository_def sample_wave_def sample_draft_def wave_with_items_and_aggregate_def)

text \<open>
  A simulated wave of which only some items can be approved is not approved with exceptions: the
  command raises an invalid transition, which no layer of the service turns into a refusal.
\<close>

theorem partial_approval_raises:
  "approve_persisted_wave get_wave update_wave sample_stamp ''dwv_1'' sample_cmd ''t1''
     (sample_repository (sample_wave SIMULATED
        [sample_item ''dwi_1'' ITEM_PROOF_PACK_READY [], sample_item ''dwi_2'' ITEM_SIMULATED []]))
   = Inl (DpmWaveInvalidTransitionError ''DPM_WAVE_INVALID_TRANSITION'')"
  by code_simp

end
