(* ===== verification/Dates.thy ===== *)
theory Dates
  imports Prelude
begin

text \<open>
  Python's \<open>datetime.date\<close>: year, month and day, compared lexicographically
  (\<open>Product_Lexorder\<close>), with \<open>isoformat\<close> and the day number that date subtraction uses.
\<close>


section \<open>Definitions\<close>

type_synonym date = "nat \<times> nat \<times> nat"

definition is_leap :: "nat \<Rightarrow> bool" where
  "is_leap y \<longleftrightarrow> y mod 4 = 0 \<and> (y mod 100 \<noteq> 0 \<or> y mod 400 = 0)"

definition days_in_month :: "nat \<Rightarrow> nat \<Rightarrow> nat" where
  "days_in_month y m =
     (if m = 2 then if is_leap y then 29 else 28 else if m \<in> set [4, 6, 9, 11] then 30 else 31)"

definition valid_date :: "date \<Rightarrow> bool" where
  "valid_date dt = (case dt of (y, m, d) \<Rightarrow>
     1 \<le> y \<and> y \<le> 9999 \<and> 1 \<le> m \<and> m \<le> 12 \<and> 1 \<le> d \<and> d \<le> days_in_month y m)"

definition toordinal :: "date \<Rightarrow> int" where
  "toordinal dt = (case dt of (y, m, d) \<Rightarrow>
     (let p = int y - 1
      in p * 365 + p div 4 - p div 100 + p div 400
         + int (sum_list (map (days_in_month y) [1..<m])) + int d))"

fun zero_pad :: "nat \<Rightarrow> nat \<Rightarrow> string" where
  "zero_pad 0 n = []"
| "zero_pad (Suc k) n = zero_pad k (n div 10) @ [digit_char (n mod 10)]"

definition isoformat :: "date \<Rightarrow> string" where
  "isoformat dt = (case dt of (y, m, d) \<Rightarrow> zero_pad 4 y @ ''-'' @ zero_pad 2 m @ ''-'' @ zero_pad 2 d)"


section \<open>Lemmas\<close>

lemma zero_pad_length [simp]: "length (zero_pad k n) = k"
  by (induction k n rule: zero_pad.induct) auto

lemma digit_char_less: "m < 10 \<Longrightarrow> n < 10 \<Longrightarrow> digit_char m < digit_char n \<longleftrightarrow> m < n"
  by (simp add: digit_char_def less_char_def of_char_of take_bit_eq_mod)

text \<open>Strings of equal length are compared by their first difference.\<close>

lemma append_less_same_length:
  fixes xs :: string
  assumes "length xs = length ys"
  shows "xs @ us < ys @ vs \<longleftrightarrow> xs < ys \<or> xs = ys \<and> us < vs"
  using assms by (induction xs ys rule: list_induct2) (auto simp: less_list_code)

lemma less_digits:
  fixes m n :: nat
  shows "m < n \<longleftrightarrow> m div 10 < n div 10 \<or> m div 10 = n div 10 \<and> m mod 10 < n mod 10"
proof -
  have m: "m = 10 * (m div 10) + m mod 10" and n: "n = 10 * (n div 10) + n mod 10" by simp_all
  have "m mod 10 < 10" "n mod 10 < 10" by simp_all
  with m n show ?thesis by (cases "m div 10" "n div 10" rule: linorder_cases) linarith+
qed

lemma zero_pad_less:
  "m < 10 ^ k \<Longrightarrow> n < 10 ^ k \<Longrightarrow> zero_pad k m < zero_pad k n \<longleftrightarrow> m < n"
  "m < 10 ^ k \<Longrightarrow> n < 10 ^ k \<Longrightarrow> zero_pad k m = zero_pad k n \<longleftrightarrow> m = n"
proof (induction k arbitrary: m n)
  case (Suc k)
  have div: "m div 10 < 10 ^ k" "n div 10 < 10 ^ k" if "m < 10 ^ Suc k" "n < 10 ^ Suc k" for m n :: nat
    using that by (simp_all add: div_less_iff_less_mult mult.commute)
  { case 1
    from Suc.IH [OF div(1,2) [OF 1]] show ?case
      by (simp add: less_digits [of m n] append_less_same_length digit_char_less less_list_code) }
  { case 2
    have "m = n \<longleftrightarrow> m div 10 = n div 10 \<and> m mod 10 = n mod 10" by (metis div_mult_mod_eq)
    with Suc.IH(2) [OF div(1,2) [OF 2]] show ?case by (simp add: digit_char_inj) }
qed simp_all

text \<open>ISO dates compare as strings the way the dates do.\<close>

lemma isoformat_less:
  assumes "valid_date a" and "valid_date b"
  shows "isoformat a < isoformat b \<longleftrightarrow> a < b" and "isoformat a = isoformat b \<longleftrightarrow> a = b"
proof -
  obtain y m d where a: "a = (y, m, d)" by (cases a) auto
  obtain y' m' d' where b: "b = (y', m', d')" by (cases b) auto
  have days: "days_in_month p q \<le> 31" for p q by (simp add: days_in_month_def)
  have bounds: "y < 10 ^ 4" "y' < 10 ^ 4" "m < 10 ^ 2" "m' < 10 ^ 2" "d < 10 ^ 2" "d' < 10 ^ 2"
    using assms days [of y m] days [of y' m'] by (auto simp: a b valid_date_def)
  note pads = zero_pad_less [OF bounds(1,2)] zero_pad_less [OF bounds(3,4)] zero_pad_less [OF bounds(5,6)]
  show "isoformat a < isoformat b \<longleftrightarrow> a < b"
    unfolding a b isoformat_def prod.case by (auto simp: append_less_same_length pads less_list_code)
  show "isoformat a = isoformat b \<longleftrightarrow> a = b"
    unfolding a b isoformat_def prod.case using pads by auto
qed

end
