(* ===== verification/Mandate_Models.thy ===== *)
theory Mandate_Models
  imports Decimal Dates Derived_Identity
begin

text \<open>
  The mandate data model (\<open>src/src/core/mandate_models.py\<close>): the digital twin of a mandate with its
  contractual limits, the input and the snapshot of the health calculation and the monitoring
  exceptions. Enumerations and literals are datatypes, classes are records, validators are functions
  that return the value or the validation error.

  Left out: the command-center summaries and the monitoring-run record, which only the read models use.
\<close>


section \<open>Enumerations\<close>

datatype MandateHealthState = HEALTH_READY | HEALTH_PENDING_REVIEW | HEALTH_BLOCKED

datatype MandateHealthDimension =
    SOURCE_READINESS | ALLOCATION_DRIFT | RISK_DRIFT | CASH_LIQUIDITY | TAX_TURNOVER
  | ELIGIBILITY_RESTRICTIONS | PERFORMANCE_ATTENTION | WORKFLOW_READINESS | REVIEW_CADENCE | MODEL_FRESHNESS

datatype MandateRecommendedAction =
    ACTION_NONE | SIMULATE_REBALANCE | REVIEW_MANDATE | FIX_SOURCE_DATA | REVIEW_RESTRICTION | REVIEW_WORKFLOW

datatype MonitoringSeverity = SEVERITY_INFO | SEVERITY_WARNING | SEVERITY_CRITICAL

datatype SourceReadinessState = SOURCE_OK | SOURCE_DEGRADED | SOURCE_INCOMPLETE | SOURCE_UNAVAILABLE

datatype SourceHealthState = CONTEXT_READY | CONTEXT_ATTENTION | CONTEXT_UNAVAILABLE

datatype SourceHealthSystem = LOTUS_RISK | LOTUS_PERFORMANCE

datatype BudgetControl = TAX_BUDGET | TURNOVER_BUDGET

datatype BudgetBasis =
    NO_DECLARED_LIMIT | USAGE_MISSING | INCOMPARABLE | DECLARED_PERIOD_MATCHED | CALLER_ASSERTED_SAME_PERIOD

text \<open>\<open>Decimal | str | int\<close>, the values a score or an exception reports.\<close>

datatype Measure = MDec dec | MStr string | MInt int

fun health_state_str :: "MandateHealthState \<Rightarrow> string" where
  "health_state_str HEALTH_READY = ''READY''"
| "health_state_str HEALTH_PENDING_REVIEW = ''PENDING_REVIEW''"
| "health_state_str HEALTH_BLOCKED = ''BLOCKED''"

fun dimension_str :: "MandateHealthDimension \<Rightarrow> string" where
  "dimension_str SOURCE_READINESS = ''SOURCE_READINESS''"
| "dimension_str ALLOCATION_DRIFT = ''ALLOCATION_DRIFT''"
| "dimension_str RISK_DRIFT = ''RISK_DRIFT''"
| "dimension_str CASH_LIQUIDITY = ''CASH_LIQUIDITY''"
| "dimension_str TAX_TURNOVER = ''TAX_TURNOVER''"
| "dimension_str ELIGIBILITY_RESTRICTIONS = ''ELIGIBILITY_RESTRICTIONS''"
| "dimension_str PERFORMANCE_ATTENTION = ''PERFORMANCE_ATTENTION''"
| "dimension_str WORKFLOW_READINESS = ''WORKFLOW_READINESS''"
| "dimension_str REVIEW_CADENCE = ''REVIEW_CADENCE''"
| "dimension_str MODEL_FRESHNESS = ''MODEL_FRESHNESS''"

fun action_str :: "MandateRecommendedAction \<Rightarrow> string" where
  "action_str ACTION_NONE = ''NONE''"
| "action_str SIMULATE_REBALANCE = ''SIMULATE_REBALANCE''"
| "action_str REVIEW_MANDATE = ''REVIEW_MANDATE''"
| "action_str FIX_SOURCE_DATA = ''FIX_SOURCE_DATA''"
| "action_str REVIEW_RESTRICTION = ''REVIEW_RESTRICTION''"
| "action_str REVIEW_WORKFLOW = ''REVIEW_WORKFLOW''"

fun source_readiness_str :: "SourceReadinessState \<Rightarrow> string" where
  "source_readiness_str SOURCE_OK = ''READY''"
| "source_readiness_str SOURCE_DEGRADED = ''DEGRADED''"
| "source_readiness_str SOURCE_INCOMPLETE = ''INCOMPLETE''"
| "source_readiness_str SOURCE_UNAVAILABLE = ''UNAVAILABLE''"

fun source_health_state_str :: "SourceHealthState \<Rightarrow> string" where
  "source_health_state_str CONTEXT_READY = ''ready''"
| "source_health_state_str CONTEXT_ATTENTION = ''attention''"
| "source_health_state_str CONTEXT_UNAVAILABLE = ''unavailable''"

fun source_health_system_str :: "SourceHealthSystem \<Rightarrow> string" where
  "source_health_system_str LOTUS_RISK = ''lotus-risk''"
| "source_health_system_str LOTUS_PERFORMANCE = ''lotus-performance''"

fun DIMENSION_WEIGHTS :: "MandateHealthDimension \<Rightarrow> nat" where
  "DIMENSION_WEIGHTS SOURCE_READINESS = 15"
| "DIMENSION_WEIGHTS ALLOCATION_DRIFT = 18"
| "DIMENSION_WEIGHTS RISK_DRIFT = 12"
| "DIMENSION_WEIGHTS CASH_LIQUIDITY = 10"
| "DIMENSION_WEIGHTS TAX_TURNOVER = 10"
| "DIMENSION_WEIGHTS ELIGIBILITY_RESTRICTIONS = 10"
| "DIMENSION_WEIGHTS PERFORMANCE_ATTENTION = 8"
| "DIMENSION_WEIGHTS WORKFLOW_READINESS = 7"
| "DIMENSION_WEIGHTS REVIEW_CADENCE = 5"
| "DIMENSION_WEIGHTS MODEL_FRESHNESS = 5"


section \<open>The digital twin\<close>

record DpmMandateConstraintSet =
  mc_cash_band_min_weight :: "dec option"
  mc_cash_band_max_weight :: "dec option"
  mc_cash_reserve_weight :: "dec option"
  mc_single_position_max_weight :: "dec option"
  mc_issuer_max_weight :: "dec option"
  mc_sector_max_weight :: "dec option"
  mc_region_max_weight :: "dec option"
  mc_currency_max_weight :: "dec option"
  mc_turnover_budget :: "dec option"
  mc_turnover_budget_applicable :: "bool option"
  mc_turnover_budget_period_start :: "date option"
  mc_tax_budget_base :: "dec option"
  mc_tax_budget_period_start :: "date option"
  mc_max_tracking_error :: "dec option"
  mc_max_active_share :: "dec option"
  mc_minimum_trade_notional :: "dec option"
  mc_allowed_product_types :: "string list"
  mc_restricted_instruments :: "string list"
  mc_restricted_issuers :: "string list"
  mc_restricted_sectors :: "string list"
  mc_sustainability_exclusions :: "string list"

definition bounded_ratio :: "dec \<Rightarrow> string \<Rightarrow> dec result" where
  "bounded_ratio v field_name =
     (if v < 0 \<or> 1 < v then Inl (ValueError (field_name @ '' must be between 0 and 1 inclusive'')) else Inr v)"

definition validate_optional_ratio :: "dec option \<Rightarrow> string \<Rightarrow> dec option result" where
  "validate_optional_ratio v field_name =
     (case v of None \<Rightarrow> Inr None | Some x \<Rightarrow> bind_result (bounded_ratio x field_name) (\<lambda>y. Inr (Some y)))"

definition validate_cash_band :: "DpmMandateConstraintSet \<Rightarrow> DpmMandateConstraintSet result" where
  "validate_cash_band c =
     (if mc_turnover_budget_applicable c = Some False \<and> mc_turnover_budget c \<noteq> None
      then Inl (ValueError ''a stated turnover_budget cannot be marked not applicable'')
      else (case (mc_cash_band_min_weight c, mc_cash_band_max_weight c) of
              (Some lo, Some hi) \<Rightarrow>
                if hi < lo then Inl (ValueError ''cash_band_min_weight must not exceed cash_band_max_weight'')
                else Inr c
            | _ \<Rightarrow> Inr c))"

record DpmMandatePreferences =
  mp_sustainability_strategy :: "string option"
  mp_income_priority :: "string option"
  mp_bespoke_notes :: "string list"

record DpmMandateReviewPolicy =
  rp_review_frequency :: string
  rp_last_review_date :: "date option"
  rp_next_review_due_date :: "date option"

record DpmSourceProductLineage =
  sl_product_name :: string
  sl_product_version :: string
  sl_source_system :: string
  sl_source_record_id :: "string option"
  sl_data_quality_status :: "string option"
  sl_latest_evidence_timestamp :: "int option"
  sl_lineage :: "(string, string) dict"

record DpmMandateDigitalTwin =
  mt_mandate_id :: string
  mt_portfolio_id :: string
  mt_mandate_version :: string
  mt_as_of_date :: date
  mt_source_system :: string
  mt_base_currency :: string
  mt_reference_currency :: string
  mt_risk_profile :: string
  mt_investment_objective :: string
  mt_time_horizon :: string
  mt_model_portfolio_id :: string
  mt_model_portfolio_version :: "string option"
  mt_benchmark_id :: "string option"
  mt_constraints :: DpmMandateConstraintSet
  mt_preferences :: DpmMandatePreferences
  mt_review_policy :: DpmMandateReviewPolicy
  mt_source_lineage :: "DpmSourceProductLineage list"
  mt_field_gap_codes :: "string list"

definition MANDATE_LIMIT_PROVENANCE_AMBIGUOUS :: string where
  "MANDATE_LIMIT_PROVENANCE_AMBIGUOUS = ''MANDATE_LIMIT_PROVENANCE_AMBIGUOUS''"

definition effective_mandate_twin :: "DpmMandateDigitalTwin \<Rightarrow> DpmMandateDigitalTwin" where
  "effective_mandate_twin twin =
     (if MANDATE_LIMIT_PROVENANCE_AMBIGUOUS \<notin> set (mt_field_gap_codes twin) then twin
      else twin\<lparr> mt_constraints := (mt_constraints twin)\<lparr> mc_cash_band_min_weight := None,
                                     mc_cash_band_max_weight := None, mc_turnover_budget := None \<rparr> \<rparr>)"


section \<open>Health input and result\<close>

record DpmMandateHealthReason =
  mr_dimension :: MandateHealthDimension
  mr_reason_code :: string
  mr_severity :: MonitoringSeverity
  mr_message :: string
  mr_recommended_action :: MandateRecommendedAction

record DpmMandateBudgetAssessment =
  ba_control :: BudgetControl
  ba_state :: MandateHealthState
  ba_reason_code :: string
  ba_measured_value :: "dec option"
  ba_threshold_value :: "dec option"
  ba_remaining_value :: "dec option"
  ba_currency :: "string option"
  ba_period_start :: "date option"
  ba_as_of_date :: date
  ba_basis :: BudgetBasis
  ba_limit_source_ref :: "string option"
  ba_usage_source_ref :: "string option"

record DpmMandateDimensionScore =
  ds_dimension :: MandateHealthDimension
  ds_weight :: nat
  ds_score :: int
  ds_state :: MandateHealthState
  ds_reason_code :: string
  ds_measured_value :: "Measure option"
  ds_threshold_value :: "Measure option"
  ds_evidence_refs :: "string list"
  ds_budget_assessments :: "DpmMandateBudgetAssessment list"

definition validate_sha256_fingerprint :: "string \<Rightarrow> string \<Rightarrow> string result" where
  "validate_sha256_fingerprint v field_name =
     (if take 7 v \<noteq> ''sha256:'' \<or> strip (drop 7 v) = ''''
      then Inl (ValueError (field_name @ '' must be a non-empty sha256 fingerprint'')) else Inr v)"

record DpmMandateSourceHealthContext =
  hc_source_system :: SourceHealthSystem
  hc_source_product_name :: string
  hc_source_product_version :: string
  hc_as_of_date :: "date option"
  hc_health_state :: SourceHealthState
  hc_threshold_breached :: "bool option"
  hc_request_fingerprint :: string
  hc_source_metric :: "(string, json) dict"
  hc_methodology_posture :: "(string, json) dict"
  hc_benchmark_context :: "(string, json) dict"
  hc_reason_codes :: "string list"

fun expected_product :: "SourceHealthSystem \<Rightarrow> string" where
  "expected_product LOTUS_RISK = ''MandateRiskHealthContext''"
| "expected_product LOTUS_PERFORMANCE = ''MandatePerformanceHealthContext''"

definition validate_source_product_identity ::
  "DpmMandateSourceHealthContext \<Rightarrow> DpmMandateSourceHealthContext result" where
  "validate_source_product_identity c =
     (if hc_source_product_name c \<noteq> expected_product (hc_source_system c)
      then Inl (ValueError (source_health_system_str (hc_source_system c) @ '' context must use ''
                              @ expected_product (hc_source_system c)))
      else if hc_source_product_version c \<noteq> ''v1''
      then Inl (ValueError ''source_product_version must be v1'')
      else bind_result (validate_sha256_fingerprint (hc_request_fingerprint c) ''request_fingerprint'')
             (\<lambda>_. Inr c))"

record DpmMandateHealthInput =
  hi_twin :: DpmMandateDigitalTwin
  hi_current_weights :: "(string, dec) dict"
  hi_target_weights :: "(string, dec) dict"
  hi_cash_weight :: dec
  hi_source_readiness_state :: SourceReadinessState
  hi_missing_source_families :: "string list"
  hi_degraded_source_families :: "string list"
  hi_stale_source_families :: "string list"
  hi_restricted_held_instruments :: "string list"
  hi_restricted_target_instruments :: "string list"
  hi_sustainability_review_required :: bool
  hi_projected_net_cashflow :: "dec option"
  hi_projected_cashflow_currency :: "string option"
  hi_tax_lot_missing_security_ids :: "string list"
  hi_turnover_budget_used :: "dec option"
  hi_turnover_budget_used_period_start :: "date option"
  hi_turnover_budget_used_as_of_date :: "date option"
  hi_turnover_budget_usage_source_ref :: "string option"
  hi_tax_budget_used_base :: "dec option"
  hi_tax_budget_used_currency :: "string option"
  hi_tax_budget_used_period_start :: "date option"
  hi_tax_budget_used_as_of_date :: "date option"
  hi_tax_budget_usage_source_ref :: "string option"
  hi_tracking_error :: "dec option"
  hi_performance_under_review :: bool
  hi_risk_health_context :: "DpmMandateSourceHealthContext option"
  hi_performance_health_context :: "DpmMandateSourceHealthContext option"
  hi_workflow_blocked :: bool
  hi_approval_required :: bool
  hi_model_effective_to :: "date option"

definition validate_source_health_context_slots :: "DpmMandateHealthInput \<Rightarrow> DpmMandateHealthInput result" where
  "validate_source_health_context_slots hi =
     (if \<exists>c \<in> set_option (hi_risk_health_context hi). hc_source_system c \<noteq> LOTUS_RISK
      then Inl (ValueError ''risk_health_context must use lotus-risk MandateRiskHealthContext'')
      else if \<exists>c \<in> set_option (hi_performance_health_context hi). hc_source_system c \<noteq> LOTUS_PERFORMANCE
      then Inl (ValueError ''performance_health_context must use lotus-performance MandatePerformanceHealthContext'')
      else Inr hi)"

record DpmMandateHealthSourceProductRequirement =
  sp_source_system :: string
  sp_source_product_name :: string
  sp_source_product_version :: string
  sp_required_for_ready :: bool

record DpmMandateHealthSourceContextMetadata =
  cm_source_ref :: string
  cm_source_system :: SourceHealthSystem
  cm_source_product_name :: string
  cm_source_product_version :: string
  cm_request_fingerprint :: string
  cm_as_of_date :: "date option"

record DpmMandateHealthSourceAnalyticsPosture =
  ap_product_family :: string
  ap_risk_tracking_error_supplied :: bool
  ap_performance_attention_signal_supplied :: bool
  ap_risk_health_context_supplied :: bool
  ap_performance_health_context_supplied :: bool
  ap_risk_context_preservation :: string
  ap_performance_context_preservation :: string
  ap_source_context_preservation :: string
  ap_required_source_products :: "DpmMandateHealthSourceProductRequirement list"
  ap_source_context_refs :: "string list"
  ap_source_context_metadata :: "DpmMandateHealthSourceContextMetadata list"
  ap_blocked_capabilities :: "string list"
  ap_reason_codes :: "string list"

definition default_source_analytics_posture :: DpmMandateHealthSourceAnalyticsPosture where
  "default_source_analytics_posture =
     \<lparr> ap_product_family = ''MANDATE_HEALTH_RISK_PERFORMANCE_CONTEXT'',
       ap_risk_tracking_error_supplied = False, ap_performance_attention_signal_supplied = False,
       ap_risk_health_context_supplied = False, ap_performance_health_context_supplied = False,
       ap_risk_context_preservation = ''SUPPORTED_WHEN_SUPPLIED'',
       ap_performance_context_preservation = ''SUPPORTED_WHEN_SUPPLIED'',
       ap_source_context_preservation = ''SOURCE_PRODUCT_CONTEXT_PRESERVED_WHEN_SUPPLIED'',
       ap_required_source_products =
         [\<lparr> sp_source_system = ''lotus-risk'', sp_source_product_name = ''MandateRiskHealthContext'',
            sp_source_product_version = ''v1'', sp_required_for_ready = False \<rparr>,
          \<lparr> sp_source_system = ''lotus-performance'', sp_source_product_name = ''MandatePerformanceHealthContext'',
            sp_source_product_version = ''v1'', sp_required_for_ready = False \<rparr>],
       ap_source_context_refs = [], ap_source_context_metadata = [],
       ap_blocked_capabilities =
         [''LOCAL_TRACKING_ERROR_CALCULATION'', ''LOCAL_VOLATILITY_CALCULATION'', ''LOCAL_DRAWDOWN_CALCULATION'',
          ''LOCAL_PERFORMANCE_ATTRIBUTION_CALCULATION'', ''LOCAL_BENCHMARK_RELATIVE_PERFORMANCE_CALCULATION''],
       ap_reason_codes =
         [''MANDATE_HEALTH_SOURCE_ANALYTICS_PRESERVED_WHEN_SUPPLIED'',
          ''RISK_PERFORMANCE_METHODOLOGY_REMAINS_SOURCE_OWNED''] \<rparr>"

record DpmMandateHealthSnapshot =
  hs_health_snapshot_id :: string
  hs_mandate_id :: string
  hs_portfolio_id :: string
  hs_as_of_date :: date
  hs_calculated_at :: int
  hs_health_score :: int
  hs_health_state :: MandateHealthState
  hs_dimension_scores :: "DpmMandateDimensionScore list"
  hs_top_reasons :: "DpmMandateHealthReason list"
  hs_recommended_action :: MandateRecommendedAction
  hs_source_readiness_state :: string
  hs_evidence_refs :: "string list"
  hs_source_analytics_posture :: DpmMandateHealthSourceAnalyticsPosture

datatype ExceptionState = EXCEPTION_ACTIVE | EXCEPTION_RESOLVED

record DpmMonitoringException =
  me_exception_id :: string
  me_monitoring_run_id :: "string option"
  me_mandate_id :: string
  me_portfolio_id :: string
  me_detected_at :: int
  me_as_of_date :: date
  me_dimension :: MandateHealthDimension
  me_severity :: MonitoringSeverity
  me_reason_code :: string
  me_state :: ExceptionState
  me_recommended_action :: MandateRecommendedAction
  me_measured_value :: "Measure option"
  me_threshold_value :: "Measure option"
  me_budget_assessment :: "DpmMandateBudgetAssessment option"
  me_source_lineage :: "DpmSourceProductLineage list"
  me_resolved_at :: "int option"
  me_resolution_reason :: "string option"


section \<open>Lemmas\<close>

lemma dimension_str_inj: "dimension_str a = dimension_str b \<longleftrightarrow> a = b"
  by (cases a; cases b) simp_all

lemma weights_total:
  "sum_list (map DIMENSION_WEIGHTS [SOURCE_READINESS, ALLOCATION_DRIFT, RISK_DRIFT, CASH_LIQUIDITY, TAX_TURNOVER,
     ELIGIBILITY_RESTRICTIONS, PERFORMANCE_ATTENTION, WORKFLOW_READINESS, REVIEW_CADENCE, MODEL_FRESHNESS]) = 100"
  by simp

text \<open>The fail-closed projection only removes limits, and applying it again changes nothing.\<close>

lemma effective_mandate_twin_idem: "effective_mandate_twin (effective_mandate_twin twin) = effective_mandate_twin twin"
  by (simp add: effective_mandate_twin_def)

lemma effective_mandate_twin_frame [model_frame]:
  "mt_mandate_id (effective_mandate_twin twin) = mt_mandate_id twin"
  "mt_portfolio_id (effective_mandate_twin twin) = mt_portfolio_id twin"
  "mt_as_of_date (effective_mandate_twin twin) = mt_as_of_date twin"
  "mt_field_gap_codes (effective_mandate_twin twin) = mt_field_gap_codes twin"
  "mt_source_lineage (effective_mandate_twin twin) = mt_source_lineage twin"
  "mt_review_policy (effective_mandate_twin twin) = mt_review_policy twin"
  by (simp_all add: effective_mandate_twin_def)

end
