(* ===== verification/Mandate_Health.thy ===== *)
theory Mandate_Health
  imports Mandate_Models
begin

text \<open>
  The health calculation of a mandate (\<open>src/src/core/mandate_health_scoring.py\<close>) and the monitoring
  exceptions derived from a snapshot (\<open>src/src/core/mandates.py\<close>). Ten dimensions are scored from 0
  to 100 and weighted; the state, the five top reasons and the recommended action follow from the
  scores. The clock and the hash are arguments.
\<close>


section \<open>Definitions\<close>

text \<open>
  \<open>int(x.quantize(Decimal("1"), ROUND_HALF_UP))\<close>. The quantization raises only for values of more than
  28 digits; the values below lie between 0 and 100.
\<close>

definition round_half_up :: "dec \<Rightarrow> int" where
  "round_half_up x = (if 0 \<le> dval x then \<lfloor>dval x + 1 / 2\<rfloor> else - \<lfloor>- dval x + 1 / 2\<rfloor>)"

definition score_from_penalty :: "dec \<Rightarrow> int" where
  "score_from_penalty penalty = round_half_up (Dec 100 - min (max penalty 0) (Dec 100))"

definition ready_score :: "MandateHealthDimension \<Rightarrow> DpmMandateBudgetAssessment list \<Rightarrow> DpmMandateDimensionScore" where
  "ready_score dimension assessments =
     \<lparr> ds_dimension = dimension, ds_weight = DIMENSION_WEIGHTS dimension, ds_score = 100,
       ds_state = HEALTH_READY, ds_reason_code = dimension_str dimension @ ''_READY'',
       ds_measured_value = None, ds_threshold_value = None, ds_evidence_refs = [],
       ds_budget_assessments = assessments \<rparr>"

definition attention_score ::
  "MandateHealthDimension \<Rightarrow> int \<Rightarrow> MandateHealthState \<Rightarrow> string \<Rightarrow> Measure option \<Rightarrow> Measure option \<Rightarrow> string list
     \<Rightarrow> DpmMandateBudgetAssessment list \<Rightarrow> DpmMandateDimensionScore" where
  "attention_score dimension score state reason_code measured threshold refs assessments =
     \<lparr> ds_dimension = dimension, ds_weight = DIMENSION_WEIGHTS dimension, ds_score = max 0 (min score 100),
       ds_state = state, ds_reason_code = reason_code, ds_measured_value = measured,
       ds_threshold_value = threshold, ds_evidence_refs = refs, ds_budget_assessments = assessments \<rparr>"

definition source_health_context_ref :: "DpmMandateSourceHealthContext \<Rightarrow> string" where
  "source_health_context_ref c =
     source_health_system_str (hc_source_system c) @ '':'' @ hc_source_product_name c @ '':''
       @ hc_source_product_version c @ '':'' @ hc_request_fingerprint c"

definition source_health_context_metadata ::
  "DpmMandateSourceHealthContext \<Rightarrow> string \<Rightarrow> DpmMandateHealthSourceContextMetadata" where
  "source_health_context_metadata c ref =
     \<lparr> cm_source_ref = ref, cm_source_system = hc_source_system c, cm_source_product_name = hc_source_product_name c,
       cm_source_product_version = hc_source_product_version c, cm_request_fingerprint = hc_request_fingerprint c,
       cm_as_of_date = hc_as_of_date c \<rparr>"

definition score_source_readiness :: "DpmMandateHealthInput \<Rightarrow> DpmMandateDimensionScore" where
  "score_source_readiness hi =
     (let measured = Some (MStr (source_readiness_str (hi_source_readiness_state hi)))
      in if hi_source_readiness_state hi \<in> {SOURCE_INCOMPLETE, SOURCE_UNAVAILABLE}
            \<or> hi_missing_source_families hi \<noteq> []
         then attention_score SOURCE_READINESS 0 HEALTH_BLOCKED ''DPM_SOURCE_INCOMPLETE'' measured
                (Some (MStr ''READY'')) [] []
         else if hi_source_readiness_state hi = SOURCE_DEGRADED \<or> hi_stale_source_families hi \<noteq> []
         then attention_score SOURCE_READINESS 70 HEALTH_PENDING_REVIEW ''DPM_SOURCE_STALE'' measured
                (Some (MStr ''READY'')) [] []
         else ready_score SOURCE_READINESS [])"

definition drift_band :: dec where
  "drift_band = Dec (25 / 1000)"

definition max_drift :: "DpmMandateHealthInput \<Rightarrow> dec" where
  "max_drift hi =
     (case map (\<lambda>(i, w). \<bar>dict_get_or (hi_current_weights hi) i 0 - w\<bar>) (hi_target_weights hi) of
        [] \<Rightarrow> 0 | d # ds \<Rightarrow> fold max ds d)"

definition score_allocation_drift :: "DpmMandateHealthInput \<Rightarrow> DpmMandateDimensionScore" where
  "score_allocation_drift hi =
     (if hi_current_weights hi = [] \<or> hi_target_weights hi = []
      then attention_score ALLOCATION_DRIFT 85 HEALTH_PENDING_REVIEW ''ALLOCATION_DRIFT_NOT_ASSESSED'' None None [] []
      else if max_drift hi \<le> drift_band then ready_score ALLOCATION_DRIFT []
      else attention_score ALLOCATION_DRIFT (score_from_penalty ((max_drift hi - drift_band) * Dec 1000))
             HEALTH_PENDING_REVIEW ''ALLOCATION_DRIFT'' (Some (MDec (max_drift hi))) (Some (MDec drift_band)) [] [])"

definition score_source_health_context ::
  "DpmMandateSourceHealthContext option \<Rightarrow> MandateHealthDimension \<Rightarrow> string \<Rightarrow> string \<Rightarrow> DpmMandateDimensionScore option" where
  "score_source_health_context context dimension attention_code unavailable_code =
     (case context of
        None \<Rightarrow> None
      | Some c \<Rightarrow>
          if hc_health_state c = CONTEXT_READY \<and> hc_threshold_breached c \<noteq> Some True
          then Some (ready_score dimension [])
          else if hc_health_state c = CONTEXT_UNAVAILABLE
          then Some (attention_score dimension 60 HEALTH_PENDING_REVIEW unavailable_code
                  (Some (MStr (hc_source_product_name c @ '':unavailable''))) (Some (MStr ''ready''))
                  [source_health_context_ref c] [])
          else Some (attention_score dimension 65 HEALTH_PENDING_REVIEW attention_code
                  (Some (MStr (hc_source_product_name c @ '':'' @ source_health_state_str (hc_health_state c))))
                  (Some (MStr ''ready'')) [source_health_context_ref c] []))"

definition score_risk_drift :: "DpmMandateHealthInput \<Rightarrow> DpmMandateDimensionScore" where
  "score_risk_drift hi =
     (case score_source_health_context (hi_risk_health_context hi) RISK_DRIFT ''SOURCE_RISK_HEALTH_ATTENTION''
             ''SOURCE_RISK_HEALTH_UNAVAILABLE'' of
        Some score \<Rightarrow> score
      | None \<Rightarrow>
          (case mc_max_tracking_error (mt_constraints (hi_twin hi)) of
             None \<Rightarrow> ready_score RISK_DRIFT []
           | Some limit \<Rightarrow>
               (case hi_tracking_error hi of
                  None \<Rightarrow> attention_score RISK_DRIFT 60 HEALTH_PENDING_REVIEW ''TRACKING_ERROR_EVIDENCE_MISSING''
                            None (Some (MDec limit)) [] []
                | Some te \<Rightarrow>
                    if te \<le> limit then ready_score RISK_DRIFT []
                    else attention_score RISK_DRIFT 65 HEALTH_PENDING_REVIEW ''TRACKING_ERROR_ABOVE_LIMIT''
                           (Some (MDec te)) (Some (MDec limit)) [] [])))"

definition score_cash_liquidity :: "DpmMandateHealthInput \<Rightarrow> DpmMandateDimensionScore" where
  "score_cash_liquidity hi =
     (let c = mt_constraints (hi_twin hi); cash = hi_cash_weight hi
      in if \<exists>lo \<in> set_option (mc_cash_band_min_weight c). cash < lo
         then attention_score CASH_LIQUIDITY 60 HEALTH_PENDING_REVIEW ''CASH_BELOW_BAND'' (Some (MDec cash))
                (map_option MDec (mc_cash_band_min_weight c)) [] []
         else if \<exists>up \<in> set_option (mc_cash_band_max_weight c). up < cash
         then attention_score CASH_LIQUIDITY 75 HEALTH_PENDING_REVIEW ''CASH_ABOVE_BAND'' (Some (MDec cash))
                (map_option MDec (mc_cash_band_max_weight c)) [] []
         else if \<exists>flow \<in> set_option (hi_projected_net_cashflow hi). flow < 0
         then attention_score CASH_LIQUIDITY 70 HEALTH_PENDING_REVIEW ''PROJECTED_CASHFLOW_PRESSURE''
                (map_option MDec (hi_projected_net_cashflow hi)) (Some (MInt 0)) [] []
         else if mc_cash_band_min_weight c = None \<or> mc_cash_band_max_weight c = None
         then attention_score CASH_LIQUIDITY 70 HEALTH_PENDING_REVIEW ''CASH_BAND_NOT_SOURCED'' (Some (MDec cash))
                None [] []
         else ready_score CASH_LIQUIDITY [])"

definition or_default :: "string option \<Rightarrow> string \<Rightarrow> string" where
  "or_default s d = (if s \<in> {None, Some ''''} then d else the s)"

definition remaining_budget :: "dec option \<Rightarrow> dec option \<Rightarrow> dec option" where
  "remaining_budget limit used = (case (limit, used) of (Some l, Some u) \<Rightarrow> Some (l - u) | _ \<Rightarrow> None)"

definition limit_source_ref :: "DpmMandateDigitalTwin \<Rightarrow> string" where
  "limit_source_ref twin = mt_source_system twin @ '':mandate:'' @ mt_mandate_id twin @ '':'' @ mt_mandate_version twin"

definition period_mismatch :: "date option \<Rightarrow> date option \<Rightarrow> date option \<Rightarrow> date \<Rightarrow> bool" where
  "period_mismatch period usage_period usage_as_of as_of \<longleftrightarrow>
     (usage_as_of \<noteq> None \<and> usage_as_of \<noteq> Some as_of)
     \<or> ((period \<noteq> None \<or> usage_period \<noteq> None) \<and> period \<noteq> usage_period)
     \<or> (\<exists>p \<in> set_option period. as_of < p)"

definition period_basis :: "date option \<Rightarrow> BudgetBasis" where
  "period_basis period = (if period \<noteq> None then DECLARED_PERIOD_MATCHED else CALLER_ASSERTED_SAME_PERIOD)"

definition tax_budget_assessment :: "DpmMandateHealthInput \<Rightarrow> DpmMandateBudgetAssessment" where
  "tax_budget_assessment hi =
     (let twin = hi_twin hi; limit = mc_tax_budget_base (mt_constraints twin); used = hi_tax_budget_used_base hi;
          period = mc_tax_budget_period_start (mt_constraints twin);
          evidence = \<lparr> ba_control = TAX_BUDGET, ba_state = HEALTH_READY, ba_reason_code = ''TAX_BUDGET_NOT_APPLICABLE'',
            ba_measured_value = used, ba_threshold_value = limit, ba_remaining_value = remaining_budget limit used,
            ba_currency = Some (mt_base_currency twin), ba_period_start = period, ba_as_of_date = mt_as_of_date twin,
            ba_basis = NO_DECLARED_LIMIT, ba_limit_source_ref = Some (limit_source_ref twin),
            ba_usage_source_ref = (if used \<noteq> None
              then Some (or_default (hi_tax_budget_usage_source_ref hi) ''caller:explicit-health-input'') else None) \<rparr>
      in (case (limit, used) of
            (None, _) \<Rightarrow> evidence
          | (Some l, None) \<Rightarrow>
              evidence\<lparr> ba_state := HEALTH_PENDING_REVIEW, ba_reason_code := ''TAX_BUDGET_USAGE_MISSING'',
                        ba_basis := USAGE_MISSING \<rparr>
          | (Some l, Some u) \<Rightarrow>
              if (hi_tax_budget_used_currency hi \<noteq> None
                    \<and> hi_tax_budget_used_currency hi \<noteq> Some (mt_base_currency twin))
                 \<or> period_mismatch period (hi_tax_budget_used_period_start hi) (hi_tax_budget_used_as_of_date hi)
                      (mt_as_of_date twin)
              then evidence\<lparr> ba_state := HEALTH_PENDING_REVIEW, ba_reason_code := ''TAX_BUDGET_BASIS_MISMATCH'',
                             ba_basis := INCOMPARABLE \<rparr>
              else
                let (state, reason) =
                      (if l < u then (HEALTH_BLOCKED, ''TAX_BUDGET_EXCEEDED'')
                       else if u = l then (HEALTH_PENDING_REVIEW, ''TAX_BUDGET_EXHAUSTED'')
                       else (HEALTH_READY, ''TAX_BUDGET_READY''))
                in evidence\<lparr> ba_state := state, ba_reason_code := reason, ba_basis := period_basis period \<rparr>))"

definition turnover_budget_assessment :: "DpmMandateHealthInput \<Rightarrow> DpmMandateBudgetAssessment" where
  "turnover_budget_assessment hi =
     (let twin = hi_twin hi; c = mt_constraints twin; limit = mc_turnover_budget c; used = hi_turnover_budget_used hi;
          period = mc_turnover_budget_period_start c;
          evidence = \<lparr> ba_control = TURNOVER_BUDGET, ba_state = HEALTH_PENDING_REVIEW,
            ba_reason_code = ''TURNOVER_BUDGET_NOT_SOURCED'',
            ba_measured_value = used, ba_threshold_value = limit, ba_remaining_value = remaining_budget limit used,
            ba_currency = None, ba_period_start = period, ba_as_of_date = mt_as_of_date twin,
            ba_basis = NO_DECLARED_LIMIT, ba_limit_source_ref = Some (limit_source_ref twin),
            ba_usage_source_ref = (if used \<noteq> None
              then Some (or_default (hi_turnover_budget_usage_source_ref hi) ''caller:explicit-health-input'') else None) \<rparr>
      in (case (limit, used) of
            (None, _) \<Rightarrow>
              if mc_turnover_budget_applicable c = Some False
                 \<and> ''MANDATE_TURNOVER_BUDGET_NOT_YET_SOURCED'' \<notin> set (mt_field_gap_codes twin)
              then evidence\<lparr> ba_state := HEALTH_READY, ba_reason_code := ''TURNOVER_BUDGET_NOT_APPLICABLE'' \<rparr>
              else evidence
          | (Some l, None) \<Rightarrow>
              evidence\<lparr> ba_reason_code := ''TURNOVER_BUDGET_USAGE_MISSING'', ba_basis := USAGE_MISSING \<rparr>
          | (Some l, Some u) \<Rightarrow>
              if period_mismatch period (hi_turnover_budget_used_period_start hi)
                   (hi_turnover_budget_used_as_of_date hi) (mt_as_of_date twin)
              then evidence\<lparr> ba_reason_code := ''TURNOVER_BUDGET_BASIS_MISMATCH'', ba_basis := INCOMPARABLE \<rparr>
              else
                let (state, reason) =
                      (if l < u then (HEALTH_BLOCKED, ''TURNOVER_BUDGET_EXCEEDED'')
                       else if u = l then (HEALTH_PENDING_REVIEW, ''TURNOVER_BUDGET_EXHAUSTED'')
                       else if l * Dec (8 / 10) \<le> u then (HEALTH_PENDING_REVIEW, ''TURNOVER_BUDGET_NEAR_LIMIT'')
                       else (HEALTH_READY, ''TURNOVER_BUDGET_READY''))
                in evidence\<lparr> ba_state := state, ba_reason_code := reason, ba_basis := period_basis period \<rparr>))"

definition budget_gap_codes :: "string set" where
  "budget_gap_codes = {''TAX_BUDGET_USAGE_MISSING'', ''TAX_BUDGET_BASIS_MISMATCH'', ''TURNOVER_BUDGET_USAGE_MISSING'',
     ''TURNOVER_BUDGET_BASIS_MISMATCH''}"

definition score_tax_turnover :: "DpmMandateHealthInput \<Rightarrow> DpmMandateDimensionScore" where
  "score_tax_turnover hi =
     (let assessments = [tax_budget_assessment hi, turnover_budget_assessment hi]
      in if hi_tax_lot_missing_security_ids hi \<noteq> []
         then attention_score TAX_TURNOVER 40 HEALTH_BLOCKED ''TAX_LOTS_INCOMPLETE''
                (Some (MInt (int (length (hi_tax_lot_missing_security_ids hi))))) (Some (MInt 0)) [] assessments
         else
           (case List.find (\<lambda>a. ba_state a \<noteq> HEALTH_READY)
                   (rev (sort_key (\<lambda>a. ba_state a = HEALTH_BLOCKED) (rev assessments))) of
              None \<Rightarrow> ready_score TAX_TURNOVER assessments
            | Some a \<Rightarrow>
                attention_score TAX_TURNOVER
                  (if ba_reason_code a \<in> budget_gap_codes then 60 else if ba_state a = HEALTH_BLOCKED then 40 else 70)
                  (ba_state a) (ba_reason_code a) (map_option MDec (ba_measured_value a))
                  (map_option MDec (ba_threshold_value a)) [] assessments))"

definition restricted_exposures :: "DpmMandateHealthInput \<Rightarrow> string list" where
  "restricted_exposures hi =
     remdups (hi_restricted_held_instruments hi @ hi_restricted_target_instruments hi
       @ filter (\<lambda>i. i \<in> set (mc_restricted_instruments (mt_constraints (hi_twin hi))))
           (dict_keys (hi_current_weights hi)))"

definition score_eligibility_restrictions :: "DpmMandateHealthInput \<Rightarrow> DpmMandateDimensionScore" where
  "score_eligibility_restrictions hi =
     (if restricted_exposures hi \<noteq> []
      then attention_score ELIGIBILITY_RESTRICTIONS 0 HEALTH_BLOCKED ''RESTRICTED_INSTRUMENT_HELD''
             (Some (MInt (int (length (restricted_exposures hi))))) (Some (MInt 0)) [] []
      else ready_score ELIGIBILITY_RESTRICTIONS [])"

definition score_performance_attention :: "DpmMandateHealthInput \<Rightarrow> DpmMandateDimensionScore" where
  "score_performance_attention hi =
     (case score_source_health_context (hi_performance_health_context hi) PERFORMANCE_ATTENTION
             ''SOURCE_PERFORMANCE_HEALTH_ATTENTION'' ''SOURCE_PERFORMANCE_HEALTH_UNAVAILABLE'' of
        Some score \<Rightarrow> score
      | None \<Rightarrow>
          if hi_performance_under_review hi
          then attention_score PERFORMANCE_ATTENTION 70 HEALTH_PENDING_REVIEW ''PERFORMANCE_UNDER_REVIEW'' None None [] []
          else ready_score PERFORMANCE_ATTENTION [])"

definition score_workflow_readiness :: "DpmMandateHealthInput \<Rightarrow> DpmMandateDimensionScore" where
  "score_workflow_readiness hi =
     (if hi_workflow_blocked hi
      then attention_score WORKFLOW_READINESS 0 HEALTH_BLOCKED ''REBALANCE_RUN_BLOCKED'' None None [] []
      else if hi_sustainability_review_required hi
      then attention_score WORKFLOW_READINESS 70 HEALTH_PENDING_REVIEW ''SUSTAINABILITY_REVIEW_REQUIRED'' None None [] []
      else if hi_approval_required hi
      then attention_score WORKFLOW_READINESS 70 HEALTH_PENDING_REVIEW ''APPROVAL_REQUIRED'' None None [] []
      else ready_score WORKFLOW_READINESS [])"

definition score_review_cadence :: "DpmMandateHealthInput \<Rightarrow> DpmMandateDimensionScore" where
  "score_review_cadence hi =
     (let as_of = mt_as_of_date (hi_twin hi)
      in (case rp_next_review_due_date (mt_review_policy (hi_twin hi)) of
            None \<Rightarrow> ready_score REVIEW_CADENCE []
          | Some due \<Rightarrow>
              if due < as_of
              then attention_score REVIEW_CADENCE 65 HEALTH_PENDING_REVIEW ''MANDATE_REVIEW_OVERDUE''
                     (Some (MInt (toordinal as_of - toordinal due))) (Some (MInt 0)) [] []
              else ready_score REVIEW_CADENCE []))"

definition score_model_freshness :: "DpmMandateHealthInput \<Rightarrow> DpmMandateDimensionScore" where
  "score_model_freshness hi =
     (let as_of = mt_as_of_date (hi_twin hi)
      in (case hi_model_effective_to hi of
            None \<Rightarrow> ready_score MODEL_FRESHNESS []
          | Some until \<Rightarrow>
              if until < as_of
              then attention_score MODEL_FRESHNESS 55 HEALTH_PENDING_REVIEW ''MODEL_VERSION_STALE''
                     (Some (MStr (isoformat until))) (Some (MStr (isoformat as_of))) [] []
              else ready_score MODEL_FRESHNESS []))"

definition mandate_health_dimension_scores :: "DpmMandateHealthInput \<Rightarrow> DpmMandateDimensionScore list" where
  "mandate_health_dimension_scores hi =
     [score_source_readiness hi, score_allocation_drift hi, score_risk_drift hi, score_cash_liquidity hi,
      score_tax_turnover hi, score_eligibility_restrictions hi, score_performance_attention hi,
      score_workflow_readiness hi, score_review_cadence hi, score_model_freshness hi]"

definition weighted_mandate_health_score :: "DpmMandateDimensionScore list \<Rightarrow> int" where
  "weighted_mandate_health_score scores =
     round_half_up (dsum (map (\<lambda>s. Dec (of_int (ds_score s)) * Dec (of_nat (ds_weight s))) scores) / Dec 100)"

definition mandate_health_state :: "DpmMandateDimensionScore list \<Rightarrow> MandateHealthState" where
  "mandate_health_state scores =
     (if \<exists>s \<in> set scores. ds_state s = HEALTH_BLOCKED then HEALTH_BLOCKED
      else if \<exists>s \<in> set scores. ds_state s = HEALTH_PENDING_REVIEW then HEALTH_PENDING_REVIEW
      else HEALTH_READY)"

definition SOURCE_GAP_REASON_CODES :: "string set" where
  "SOURCE_GAP_REASON_CODES = {''CASH_BAND_NOT_SOURCED'', ''TRACKING_ERROR_EVIDENCE_MISSING'',
     ''TURNOVER_BUDGET_NOT_SOURCED'', ''TAX_BUDGET_USAGE_MISSING'', ''TAX_BUDGET_BASIS_MISMATCH'',
     ''TURNOVER_BUDGET_USAGE_MISSING'', ''TURNOVER_BUDGET_BASIS_MISMATCH''}"

definition recommended_action_for_dimension ::
  "MandateHealthDimension \<Rightarrow> MandateHealthState \<Rightarrow> string \<Rightarrow> MandateRecommendedAction" where
  "recommended_action_for_dimension dimension state reason_code =
     (if reason_code \<in> SOURCE_GAP_REASON_CODES then FIX_SOURCE_DATA
      else if dimension = SOURCE_READINESS then FIX_SOURCE_DATA
      else if dimension = ELIGIBILITY_RESTRICTIONS then REVIEW_RESTRICTION
      else if dimension \<in> {WORKFLOW_READINESS, REVIEW_CADENCE} then REVIEW_WORKFLOW
      else if state = HEALTH_PENDING_REVIEW then SIMULATE_REBALANCE
      else REVIEW_MANDATE)"

definition severity_of_state :: "MandateHealthState \<Rightarrow> MonitoringSeverity" where
  "severity_of_state state = (if state = HEALTH_BLOCKED then SEVERITY_CRITICAL else SEVERITY_WARNING)"

definition reason_from_score :: "DpmMandateDimensionScore \<Rightarrow> DpmMandateHealthReason" where
  "reason_from_score s =
     \<lparr> mr_dimension = ds_dimension s, mr_reason_code = ds_reason_code s, mr_severity = severity_of_state (ds_state s),
       mr_message = dimension_str (ds_dimension s) @ '' requires attention: '' @ ds_reason_code s,
       mr_recommended_action = recommended_action_for_dimension (ds_dimension s) (ds_state s) (ds_reason_code s) \<rparr>"

fun severity_rank :: "MonitoringSeverity \<Rightarrow> nat" where
  "severity_rank SEVERITY_INFO = 0"
| "severity_rank SEVERITY_WARNING = 1"
| "severity_rank SEVERITY_CRITICAL = 2"

definition is_source_gap :: "DpmMandateHealthReason \<Rightarrow> bool" where
  "is_source_gap r \<longleftrightarrow> mr_reason_code r \<in> SOURCE_GAP_REASON_CODES"

definition reason_rank :: "DpmMandateHealthReason \<Rightarrow> nat \<times> nat" where
  "reason_rank r = (severity_rank (mr_severity r), if is_source_gap r then 0 else 1)"

text \<open>\<open>sort(..., reverse=True)\<close> keeps the order of equal keys.\<close>

definition ranked_reasons :: "DpmMandateDimensionScore list \<Rightarrow> DpmMandateHealthReason list" where
  "ranked_reasons scores =
     rev (sort_key reason_rank (rev (map reason_from_score (filter (\<lambda>s. ds_score s < 100) scores))))"

definition top_mandate_health_reasons :: "DpmMandateDimensionScore list \<Rightarrow> DpmMandateHealthReason list" where
  "top_mandate_health_reasons scores =
     (let reasons = ranked_reasons scores; top = take 5 reasons; gaps = filter is_source_gap reasons
      in if gaps \<noteq> [] \<and> \<not> (\<exists>r \<in> set top. is_source_gap r) then butlast top @ [hd gaps] else top)"

definition has_unsourced_contractual_limit :: "DpmMandateConstraintSet \<Rightarrow> bool" where
  "has_unsourced_contractual_limit c \<longleftrightarrow>
     mc_cash_band_min_weight c = None \<or> mc_cash_band_max_weight c = None
     \<or> (mc_turnover_budget c = None \<and> mc_turnover_budget_applicable c \<noteq> Some False)"

definition overall_recommended_action ::
  "MandateHealthState \<Rightarrow> DpmMandateHealthReason list \<Rightarrow> bool \<Rightarrow> MandateRecommendedAction" where
  "overall_recommended_action state reasons unsourced =
     (if state = HEALTH_READY then ACTION_NONE
      else if state \<noteq> HEALTH_BLOCKED \<and> (unsourced \<or> (\<exists>r \<in> set reasons. is_source_gap r)) then FIX_SOURCE_DATA
      else (case reasons of r # _ \<Rightarrow> mr_recommended_action r | [] \<Rightarrow> REVIEW_MANDATE))"

definition mandate_health_snapshot_id :: "(string \<Rightarrow> string) \<Rightarrow> DpmMandateHealthInput \<Rightarrow> string \<Rightarrow> string" where
  "mandate_health_snapshot_id sha256 hi tenant =
     derived_identity sha256 ''mh'' [tenant, mt_portfolio_id (hi_twin hi), isoformat (mt_as_of_date (hi_twin hi))]"

definition mandate_health_evidence_refs :: "DpmMandateHealthInput \<Rightarrow> string list" where
  "mandate_health_evidence_refs hi =
     List.map_filter (\<lambda>l. if sl_source_record_id l = Some '''' then None else sl_source_record_id l)
       (mt_source_lineage (hi_twin hi))"

definition preserved_context ::
  "DpmMandateSourceHealthContext option \<Rightarrow> string \<Rightarrow> DpmMandateHealthSourceAnalyticsPosture
     \<Rightarrow> DpmMandateHealthSourceAnalyticsPosture" where
  "preserved_context context code p =
     (case context of
        None \<Rightarrow> p
      | Some c \<Rightarrow>
          p\<lparr> ap_source_context_refs := ap_source_context_refs p @ [source_health_context_ref c],
             ap_source_context_metadata :=
               ap_source_context_metadata p @ [source_health_context_metadata c (source_health_context_ref c)],
             ap_reason_codes := ap_reason_codes p @ [code] \<rparr>)"

definition source_analytics_posture :: "DpmMandateHealthInput \<Rightarrow> DpmMandateHealthSourceAnalyticsPosture" where
  "source_analytics_posture hi =
     (preserved_context (hi_performance_health_context hi)
        ''MANDATE_PERFORMANCE_HEALTH_CONTEXT_SOURCE_PRODUCT_PRESERVED''
        (preserved_context (hi_risk_health_context hi) ''MANDATE_RISK_HEALTH_CONTEXT_SOURCE_PRODUCT_PRESERVED''
           default_source_analytics_posture))
     \<lparr> ap_risk_tracking_error_supplied := hi_tracking_error hi \<noteq> None \<or> hi_risk_health_context hi \<noteq> None,
       ap_performance_attention_signal_supplied :=
         hi_performance_under_review hi \<or> hi_performance_health_context hi \<noteq> None,
       ap_risk_health_context_supplied := hi_risk_health_context hi \<noteq> None,
       ap_performance_health_context_supplied := hi_performance_health_context hi \<noteq> None \<rparr>"

text \<open>The snapshot class refuses a score outside 0 to 100.\<close>

definition calculate_mandate_health ::
  "(string \<Rightarrow> string) \<Rightarrow> int \<Rightarrow> DpmMandateHealthInput \<Rightarrow> string \<Rightarrow> DpmMandateHealthSnapshot result" where
  "calculate_mandate_health sha256 now input tenant =
     (let hi = input\<lparr> hi_twin := effective_mandate_twin (hi_twin input) \<rparr>;
          scores = mandate_health_dimension_scores hi;
          state = mandate_health_state scores;
          reasons = top_mandate_health_reasons scores;
          score = weighted_mandate_health_score scores
      in if score < 0 \<or> 100 < score then Inl (ValidationError ''health_score'')
         else Inr \<lparr> hs_health_snapshot_id = mandate_health_snapshot_id sha256 hi tenant,
           hs_mandate_id = mt_mandate_id (hi_twin hi), hs_portfolio_id = mt_portfolio_id (hi_twin hi),
           hs_as_of_date = mt_as_of_date (hi_twin hi), hs_calculated_at = now, hs_health_score = score,
           hs_health_state = state, hs_dimension_scores = scores, hs_top_reasons = reasons,
           hs_recommended_action = overall_recommended_action state reasons
             (has_unsourced_contractual_limit (mt_constraints (hi_twin hi))),
           hs_source_readiness_state = source_readiness_str (hi_source_readiness_state hi),
           hs_evidence_refs = mandate_health_evidence_refs hi,
           hs_source_analytics_posture = source_analytics_posture hi \<rparr>)"

definition exception_identity ::
  "string \<Rightarrow> DpmMandateHealthSnapshot \<Rightarrow> MandateHealthDimension \<Rightarrow> string list \<Rightarrow> string list" where
  "exception_identity tenant snapshot dimension extra =
     [tenant, isoformat (hs_as_of_date snapshot), hs_portfolio_id snapshot, dimension_str dimension] @ extra"

definition reason_exception ::
  "(string \<Rightarrow> string) \<Rightarrow> DpmMandateHealthSnapshot \<Rightarrow> DpmSourceProductLineage list \<Rightarrow> string \<Rightarrow> DpmMandateHealthReason
     \<Rightarrow> DpmMonitoringException result" where
  "reason_exception sha256 snapshot lineage tenant reason =
     (case dict_get (dict_of (map (\<lambda>s. (ds_dimension s, s)) (hs_dimension_scores snapshot))) (mr_dimension reason) of
        None \<Rightarrow> Inl KeyError
      | Some score \<Rightarrow>
          let matching = List.find (\<lambda>a. ba_reason_code a = mr_reason_code reason) (ds_budget_assessments score);
              extra = (if mr_dimension reason = TAX_TURNOVER
                       then (case matching of
                               None \<Rightarrow> [''TAX_LOTS'']
                             | Some a \<Rightarrow> if ba_control a = TAX_BUDGET then [''TAX_BUDGET''] else [])
                       else [])
          in Inr \<lparr> me_exception_id = derived_identity sha256 ''me'' (exception_identity tenant snapshot (mr_dimension reason) extra),
                   me_monitoring_run_id = None, me_mandate_id = hs_mandate_id snapshot,
                   me_portfolio_id = hs_portfolio_id snapshot, me_detected_at = hs_calculated_at snapshot,
                   me_as_of_date = hs_as_of_date snapshot, me_dimension = mr_dimension reason,
                   me_severity = mr_severity reason, me_reason_code = mr_reason_code reason,
                   me_state = EXCEPTION_ACTIVE, me_recommended_action = mr_recommended_action reason,
                   me_measured_value = ds_measured_value score, me_threshold_value = ds_threshold_value score,
                   me_budget_assessment = matching, me_source_lineage = lineage, me_resolved_at = None,
                   me_resolution_reason = None \<rparr>)"

definition assessment_exception ::
  "(string \<Rightarrow> string) \<Rightarrow> DpmMandateHealthSnapshot \<Rightarrow> DpmSourceProductLineage list \<Rightarrow> string \<Rightarrow> MandateHealthDimension
     \<Rightarrow> DpmMandateBudgetAssessment \<Rightarrow> DpmMonitoringException" where
  "assessment_exception sha256 snapshot lineage tenant dimension a =
     \<lparr> me_exception_id = derived_identity sha256 ''me'' (exception_identity tenant snapshot dimension
         (if ba_control a = TAX_BUDGET then [''TAX_BUDGET''] else [])),
       me_monitoring_run_id = None, me_mandate_id = hs_mandate_id snapshot,
       me_portfolio_id = hs_portfolio_id snapshot, me_detected_at = hs_calculated_at snapshot,
       me_as_of_date = hs_as_of_date snapshot, me_dimension = dimension,
       me_severity = severity_of_state (ba_state a), me_reason_code = ba_reason_code a,
       me_state = EXCEPTION_ACTIVE,
       me_recommended_action = recommended_action_for_dimension dimension (ba_state a) (ba_reason_code a),
       me_measured_value = map_option MDec (ba_measured_value a),
       me_threshold_value = map_option MDec (ba_threshold_value a),
       me_budget_assessment = Some a, me_source_lineage = lineage, me_resolved_at = None,
       me_resolution_reason = None \<rparr>"

definition monitoring_exceptions_from_health ::
  "(string \<Rightarrow> string) \<Rightarrow> DpmMandateHealthSnapshot \<Rightarrow> DpmSourceProductLineage list \<Rightarrow> string
     \<Rightarrow> DpmMonitoringException list result" where
  "monitoring_exceptions_from_health sha256 snapshot lineage tenant =
     (let published = map (\<lambda>r. (mr_dimension r, mr_reason_code r)) (hs_top_reasons snapshot)
      in bind_result
           (fold_result (\<lambda>r es. bind_result (reason_exception sha256 snapshot lineage tenant r) (\<lambda>e. Inr (es @ [e])))
              (hs_top_reasons snapshot) [])
           (\<lambda>es. Inr (es @ concat (map (\<lambda>s. map (assessment_exception sha256 snapshot lineage tenant (ds_dimension s))
                  (filter (\<lambda>a. ba_state a \<noteq> HEALTH_READY \<and> (ds_dimension s, ba_reason_code a) \<notin> set published)
                     (ds_budget_assessments s))) (hs_dimension_scores snapshot)))))"

end
