(* ===== verification/Mandate_Monitoring.thy ===== *)
theory Mandate_Monitoring
  imports Mandate_Health
begin

text \<open>
  What the health calculation and the monitoring exceptions guarantee: the shape of the ten scores and
  the exact weighted mean, when a mandate is blocked or ready, which reasons survive the cut to five,
  and that the exceptions of a snapshot have different identifiers.
\<close>


section \<open>Scores\<close>

definition score_ok :: "MandateHealthDimension \<Rightarrow> DpmMandateDimensionScore \<Rightarrow> bool" where
  "score_ok d s \<longleftrightarrow>
     ds_dimension s = d \<and> ds_weight s = DIMENSION_WEIGHTS d \<and> 0 \<le> ds_score s \<and> ds_score s \<le> 100
     \<and> (ds_state s = HEALTH_READY \<longrightarrow> ds_score s = 100) \<and> (ds_state s = HEALTH_BLOCKED \<longrightarrow> ds_score s < 100)"

lemma score_ok_ready [simp]: "score_ok d (ready_score d as)"
  by (simp add: score_ok_def ready_score_def)

lemma score_ok_attention [simp]:
  "score_ok d (attention_score d n st code m th refs as) \<longleftrightarrow>
     (st = HEALTH_READY \<longrightarrow> 100 \<le> n) \<and> (st = HEALTH_BLOCKED \<longrightarrow> n < 100)"
  by (auto simp: score_ok_def attention_score_def)

lemma ready_score_fields [simp]:
  "ds_dimension (ready_score d as) = d" "ds_state (ready_score d as) = HEALTH_READY"
  "ds_budget_assessments (ready_score d as) = as" "ds_score (ready_score d as) = 100"
  by (simp_all add: ready_score_def)

lemma attention_score_fields [simp]:
  "ds_dimension (attention_score d n st code m th refs as) = d"
  "ds_state (attention_score d n st code m th refs as) = st"
  "ds_reason_code (attention_score d n st code m th refs as) = code"
  "ds_budget_assessments (attention_score d n st code m th refs as) = as"
  "ds_score (attention_score d n st code m th refs as) = max 0 (min n 100)"
  by (simp_all add: attention_score_def)

lemma score_source_health_context_ok:
  "score_source_health_context c d a u = Some s \<Longrightarrow> score_ok d s \<and> ds_state s \<noteq> HEALTH_BLOCKED
     \<and> ds_budget_assessments s = []"
  by (auto simp: score_source_health_context_def split: option.splits if_splits)

definition all_dimensions :: "MandateHealthDimension list" where
  "all_dimensions = [SOURCE_READINESS, ALLOCATION_DRIFT, RISK_DRIFT, CASH_LIQUIDITY, TAX_TURNOVER,
     ELIGIBILITY_RESTRICTIONS, PERFORMANCE_ATTENTION, WORKFLOW_READINESS, REVIEW_CADENCE, MODEL_FRESHNESS]"

lemma score_oks:
  "score_ok SOURCE_READINESS (score_source_readiness hi)"
  "score_ok ALLOCATION_DRIFT (score_allocation_drift hi)"
  "score_ok RISK_DRIFT (score_risk_drift hi)"
  "score_ok CASH_LIQUIDITY (score_cash_liquidity hi)"
  "score_ok TAX_TURNOVER (score_tax_turnover hi)"
  "score_ok ELIGIBILITY_RESTRICTIONS (score_eligibility_restrictions hi)"
  "score_ok PERFORMANCE_ATTENTION (score_performance_attention hi)"
  "score_ok WORKFLOW_READINESS (score_workflow_readiness hi)"
  "score_ok REVIEW_CADENCE (score_review_cadence hi)"
  "score_ok MODEL_FRESHNESS (score_model_freshness hi)"
proof -
  show "score_ok SOURCE_READINESS (score_source_readiness hi)" by (simp add: score_source_readiness_def Let_def)
  show "score_ok ALLOCATION_DRIFT (score_allocation_drift hi)" by (simp add: score_allocation_drift_def)
  show "score_ok RISK_DRIFT (score_risk_drift hi)"
    by (auto simp: score_risk_drift_def split: option.split dest: score_source_health_context_ok)
  show "score_ok CASH_LIQUIDITY (score_cash_liquidity hi)" by (simp add: score_cash_liquidity_def Let_def)
  show "score_ok TAX_TURNOVER (score_tax_turnover hi)"
    by (auto simp: score_tax_turnover_def Let_def split: option.split dest!: find_SomeD)
  show "score_ok ELIGIBILITY_RESTRICTIONS (score_eligibility_restrictions hi)"
    by (simp add: score_eligibility_restrictions_def)
  show "score_ok PERFORMANCE_ATTENTION (score_performance_attention hi)"
    by (auto simp: score_performance_attention_def split: option.split dest: score_source_health_context_ok)
  show "score_ok WORKFLOW_READINESS (score_workflow_readiness hi)" by (simp add: score_workflow_readiness_def)
  show "score_ok REVIEW_CADENCE (score_review_cadence hi)" by (simp add: score_review_cadence_def Let_def split: option.split)
  show "score_ok MODEL_FRESHNESS (score_model_freshness hi)" by (simp add: score_model_freshness_def Let_def split: option.split)
qed

lemma dimension_scores_ok: "list_all2 score_ok all_dimensions (mandate_health_dimension_scores hi)"
  by (simp add: all_dimensions_def mandate_health_dimension_scores_def score_oks)

lemma dimension_scores_dims: "map ds_dimension (mandate_health_dimension_scores hi) = all_dimensions"
proof -
  have "list_all2 (\<lambda>d s. ds_dimension s = d) all_dimensions (mandate_health_dimension_scores hi)"
    by (rule list_all2_mono [OF dimension_scores_ok]) (simp add: score_ok_def)
  then show ?thesis by (auto simp: list_all2_conv_all_nth intro: nth_equalityI)
qed

lemma dimension_scores_mem:
  assumes "s \<in> set (mandate_health_dimension_scores hi)"
  shows "score_ok (ds_dimension s) s"
proof -
  from assms obtain d where "score_ok d s" using dimension_scores_ok [of hi]
    by (metis in_set_conv_nth list_all2_conv_all_nth)
  then show ?thesis by (simp add: score_ok_def)
qed

text \<open>The weighted sum is exact, so that the score is the weighted mean rounded half up.\<close>

definition weighted_sum :: "DpmMandateDimensionScore list \<Rightarrow> int" where
  "weighted_sum scores = sum_list (map (\<lambda>s. ds_score s * int (ds_weight s)) scores)"

lemma dval_of_int: "0 \<le> n \<Longrightarrow> n \<le> 10000 \<Longrightarrow> round28 (of_int n) = of_int n"
  using canonI [of "Dec (of_int n)" n 0] by (simp add: canon_def)

lemma dval_hundredth: "0 \<le> n \<Longrightarrow> n \<le> 10000 \<Longrightarrow> round28 (of_int n / 100) = of_int n / 100"
  using canonI [of "Dec (of_int n / 100)" n "-2"] by (simp add: canon_def power_int_def power2_eq_square)

lemma dsum_products:
  assumes "\<forall>s \<in> set scores. 0 \<le> ds_score s \<and> ds_score s \<le> 100" and "sum_list (map ds_weight scores) \<le> 100"
  shows "dval (dsum (map (\<lambda>s. Dec (of_int (ds_score s)) * Dec (of_nat (ds_weight s))) scores)) = of_int (weighted_sum scores)
    \<and> 0 \<le> weighted_sum scores \<and> weighted_sum scores \<le> 100 * int (sum_list (map ds_weight scores))"
  using assms
proof (induction scores rule: rev_induct)
  case (snoc s scores)
  let ?p = "ds_score s * int (ds_weight s)"
  have s: "0 \<le> ds_score s" "ds_score s \<le> 100" using snoc.prems(1) by auto
  then have p: "0 \<le> ?p" "?p \<le> 100 * int (ds_weight s)" by (simp_all add: mult_right_mono)
  from snoc have IH: "dval (dsum (map (\<lambda>s. Dec (of_int (ds_score s)) * Dec (of_nat (ds_weight s))) scores)) = of_int (weighted_sum scores)"
    "0 \<le> weighted_sum scores" "weighted_sum scores \<le> 100 * int (sum_list (map ds_weight scores))" by auto
  have total: "int (sum_list (map ds_weight scores)) + int (ds_weight s) \<le> 100" using snoc.prems(2) by simp
  have "round28 (of_int ?p) = (of_int ?p :: rat)" using p total by (intro dval_of_int; linarith)
  moreover have "round28 (of_int (weighted_sum scores + ?p)) = (of_int (weighted_sum scores + ?p) :: rat)"
    using p IH(2,3) total by (intro dval_of_int; linarith)
  ultimately have "dval (dsum (map (\<lambda>s. Dec (of_int (ds_score s)) * Dec (of_nat (ds_weight s))) (scores @ [s])))
      = of_int (weighted_sum scores + ?p)"
    using IH(1) by simp
  then show ?case using p IH(2,3) by (simp add: weighted_sum_def algebra_simps)
qed (simp add: weighted_sum_def)

lemma round_half_up_eq: "dval x = q \<Longrightarrow> 0 \<le> q \<Longrightarrow> round_half_up x = \<lfloor>q + 1 / 2\<rfloor>"
  by (simp add: round_half_up_def)

lemma weighted_score_eq:
  assumes "\<forall>s \<in> set scores. 0 \<le> ds_score s \<and> ds_score s \<le> 100" and "sum_list (map ds_weight scores) = 100"
  shows "weighted_mandate_health_score scores = (weighted_sum scores + 50) div 100"
    and "0 \<le> weighted_sum scores" and "weighted_sum scores \<le> 10000"
proof -
  let ?n = "weighted_sum scores"
  from dsum_products [OF assms(1)] assms(2) have
    sum: "dval (dsum (map (\<lambda>s. Dec (of_int (ds_score s)) * Dec (of_nat (ds_weight s))) scores)) = of_int ?n"
    "0 \<le> ?n" "?n \<le> 10000" by auto
  have "dval (dsum (map (\<lambda>s. Dec (of_int (ds_score s)) * Dec (of_nat (ds_weight s))) scores) / Dec 100) = of_int ?n / 100"
    by (simp only: dval_simps sum(1) dec.sel dval_hundredth [OF sum(2,3)])
  from round_half_up_eq [OF this] have "weighted_mandate_health_score scores = \<lfloor>of_int ?n / 100 + 1 / 2 :: rat\<rfloor>"
    using sum(2) by (simp add: weighted_mandate_health_score_def)
  also have "(of_int ?n / 100 + 1 / 2 :: rat) = of_int (?n + 50) / of_int 100" by simp
  also have "\<lfloor>of_int (?n + 50) / of_int 100 :: rat\<rfloor> = (?n + 50) div 100" by (rule floor_divide_of_int_eq)
  finally show "weighted_mandate_health_score scores = (?n + 50) div 100" .
  show "0 \<le> ?n" "?n \<le> 10000" using sum(2,3) .
qed

lemma dimension_score_range:
  "\<forall>s \<in> set (mandate_health_dimension_scores hi). 0 \<le> ds_score s \<and> ds_score s \<le> 100"
  using dimension_scores_mem [of _ hi] by (auto simp: score_ok_def)

lemma dimension_weights_total: "sum_list (map ds_weight (mandate_health_dimension_scores hi)) = 100"
proof -
  have "list_all2 (\<lambda>d s. ds_weight s = DIMENSION_WEIGHTS d) all_dimensions (mandate_health_dimension_scores hi)"
    by (rule list_all2_mono [OF dimension_scores_ok]) (simp add: score_ok_def)
  then have "map ds_weight (mandate_health_dimension_scores hi) = map DIMENSION_WEIGHTS all_dimensions"
    by (auto simp: list_all2_conv_all_nth intro: nth_equalityI)
  then show ?thesis using weights_total by (simp only: all_dimensions_def)
qed

lemmas health_score_eq = weighted_score_eq [OF dimension_score_range dimension_weights_total]

abbreviation effective_input :: "DpmMandateHealthInput \<Rightarrow> DpmMandateHealthInput" where
  "effective_input input \<equiv> input\<lparr> hi_twin := effective_mandate_twin (hi_twin input) \<rparr>"

lemma calculate_total:
  "\<exists>snap. calculate_mandate_health sha256 now input tenant = Inr snap
    \<and> hs_dimension_scores snap = mandate_health_dimension_scores (effective_input input)
    \<and> hs_health_score snap = weighted_mandate_health_score (hs_dimension_scores snap)
    \<and> hs_health_state snap = mandate_health_state (hs_dimension_scores snap)
    \<and> hs_top_reasons snap = top_mandate_health_reasons (hs_dimension_scores snap)
    \<and> hs_recommended_action snap = overall_recommended_action (hs_health_state snap) (hs_top_reasons snap)
        (has_unsourced_contractual_limit (mt_constraints (effective_mandate_twin (hi_twin input))))"
proof -
  have "0 \<le> weighted_mandate_health_score (mandate_health_dimension_scores (effective_input input))"
    "weighted_mandate_health_score (mandate_health_dimension_scores (effective_input input)) \<le> 100"
    using health_score_eq [of "effective_input input"] by auto
  then show ?thesis by (simp add: calculate_mandate_health_def Let_def)
qed

section \<open>The state\<close>

lemma assessment_blocked:
  "ba_state (tax_budget_assessment hi) = HEALTH_BLOCKED \<longleftrightarrow>
     (\<exists>l u. mc_tax_budget_base (mt_constraints (hi_twin hi)) = Some l \<and> hi_tax_budget_used_base hi = Some u \<and> l < u)
     \<and> \<not> (hi_tax_budget_used_currency hi \<noteq> None \<and> hi_tax_budget_used_currency hi \<noteq> Some (mt_base_currency (hi_twin hi)))
     \<and> \<not> period_mismatch (mc_tax_budget_period_start (mt_constraints (hi_twin hi))) (hi_tax_budget_used_period_start hi)
          (hi_tax_budget_used_as_of_date hi) (mt_as_of_date (hi_twin hi))"
  "ba_state (turnover_budget_assessment hi) = HEALTH_BLOCKED \<longleftrightarrow>
     (\<exists>l u. mc_turnover_budget (mt_constraints (hi_twin hi)) = Some l \<and> hi_turnover_budget_used hi = Some u \<and> l < u)
     \<and> \<not> period_mismatch (mc_turnover_budget_period_start (mt_constraints (hi_twin hi)))
          (hi_turnover_budget_used_period_start hi) (hi_turnover_budget_used_as_of_date hi) (mt_as_of_date (hi_twin hi))"
  by (auto simp: tax_budget_assessment_def turnover_budget_assessment_def Let_def split: option.splits if_splits)

lemma find_blocked_first:
  "List.find (\<lambda>a. ba_state a \<noteq> HEALTH_READY) (rev (sort_key (\<lambda>a. ba_state a = HEALTH_BLOCKED) (rev [a, b])))
     = (if ba_state a \<noteq> HEALTH_READY \<and> (ba_state a = HEALTH_BLOCKED \<or> ba_state b \<noteq> HEALTH_BLOCKED) then Some a
        else if ba_state b \<noteq> HEALTH_READY then Some b else None)"
  by (cases "ba_state a"; cases "ba_state b") simp_all

lemma score_blocked:
  "ds_state (score_source_readiness hi) = HEALTH_BLOCKED \<longleftrightarrow>
     hi_source_readiness_state hi \<in> {SOURCE_INCOMPLETE, SOURCE_UNAVAILABLE} \<or> hi_missing_source_families hi \<noteq> []"
  "ds_state (score_allocation_drift hi) \<noteq> HEALTH_BLOCKED" "ds_state (score_risk_drift hi) \<noteq> HEALTH_BLOCKED"
  "ds_state (score_cash_liquidity hi) \<noteq> HEALTH_BLOCKED"
  "ds_state (score_tax_turnover hi) = HEALTH_BLOCKED \<longleftrightarrow> hi_tax_lot_missing_security_ids hi \<noteq> []
     \<or> ba_state (tax_budget_assessment hi) = HEALTH_BLOCKED \<or> ba_state (turnover_budget_assessment hi) = HEALTH_BLOCKED"
  "ds_state (score_eligibility_restrictions hi) = HEALTH_BLOCKED \<longleftrightarrow> restricted_exposures hi \<noteq> []"
  "ds_state (score_performance_attention hi) \<noteq> HEALTH_BLOCKED"
  "ds_state (score_workflow_readiness hi) = HEALTH_BLOCKED \<longleftrightarrow> hi_workflow_blocked hi"
  "ds_state (score_review_cadence hi) \<noteq> HEALTH_BLOCKED" "ds_state (score_model_freshness hi) \<noteq> HEALTH_BLOCKED"
proof -
  show "ds_state (score_risk_drift hi) \<noteq> HEALTH_BLOCKED" "ds_state (score_performance_attention hi) \<noteq> HEALTH_BLOCKED"
    by (auto simp: score_risk_drift_def score_performance_attention_def split: option.split
        dest: score_source_health_context_ok)
  show "ds_state (score_tax_turnover hi) = HEALTH_BLOCKED \<longleftrightarrow> hi_tax_lot_missing_security_ids hi \<noteq> []
     \<or> ba_state (tax_budget_assessment hi) = HEALTH_BLOCKED \<or> ba_state (turnover_budget_assessment hi) = HEALTH_BLOCKED"
    unfolding score_tax_turnover_def Let_def find_blocked_first by auto
qed (auto simp: score_source_readiness_def score_allocation_drift_def score_cash_liquidity_def
      score_eligibility_restrictions_def score_workflow_readiness_def score_review_cadence_def score_model_freshness_def
      Let_def split: option.split)

lemma state_blocked:
  "mandate_health_state (mandate_health_dimension_scores hi) = HEALTH_BLOCKED \<longleftrightarrow>
     hi_source_readiness_state hi \<in> {SOURCE_INCOMPLETE, SOURCE_UNAVAILABLE} \<or> hi_missing_source_families hi \<noteq> []
     \<or> hi_tax_lot_missing_security_ids hi \<noteq> []
     \<or> ba_state (tax_budget_assessment hi) = HEALTH_BLOCKED \<or> ba_state (turnover_budget_assessment hi) = HEALTH_BLOCKED
     \<or> restricted_exposures hi \<noteq> [] \<or> hi_workflow_blocked hi"
  by (simp add: mandate_health_state_def mandate_health_dimension_scores_def score_blocked)

lemma state_ready:
  "mandate_health_state scores = HEALTH_READY \<longleftrightarrow> (\<forall>s \<in> set scores. ds_state s = HEALTH_READY)"
proof -
  have "ds_state s = HEALTH_READY \<longleftrightarrow> ds_state s \<noteq> HEALTH_BLOCKED \<and> ds_state s \<noteq> HEALTH_PENDING_REVIEW" for s
    by (cases "ds_state s") auto
  then show ?thesis by (auto simp: mandate_health_state_def)
qed

section \<open>Reasons\<close>

text \<open>In a list in descending order, an upward closed property holds for a prefix.\<close>

lemma descending_prefix:
  fixes k :: "'a \<Rightarrow> 'k::linorder"
  assumes "sorted_wrt (\<lambda>x y. k y \<le> k x) xs" and "\<And>x y. P x \<Longrightarrow> k x \<le> k y \<Longrightarrow> P y"
  shows "filter P xs = takeWhile P xs"
  using assms
proof (induction xs)
  case (Cons x xs)
  show ?case
  proof (cases "P x")
    case True
    with Cons show ?thesis by simp
  next
    case False
    with Cons.prems have "\<forall>y \<in> set xs. \<not> P y" by auto
    with False show ?thesis by simp
  qed
qed simp

lemma descending_take:
  fixes k :: "'a \<Rightarrow> 'k::linorder"
  assumes "sorted_wrt (\<lambda>x y. k y \<le> k x) xs" and "\<And>x y. P x \<Longrightarrow> k x \<le> k y \<Longrightarrow> P y"
    and "length (filter P xs) \<le> n" and "x \<in> set xs" and "P x"
  shows "x \<in> set (take n xs)"
proof -
  have eq: "filter P xs = takeWhile P xs" by (rule descending_prefix [OF assms(1,2)])
  have mem: "x \<in> set (takeWhile P xs)" using assms(4,5) unfolding eq [symmetric] by simp
  have "set (takeWhile P xs) = set (take (length (takeWhile P xs)) xs)"
    by (rule arg_cong [OF takeWhile_eq_take])
  also have "\<dots> \<subseteq> set (take n xs)" using assms(3) unfolding eq by (rule set_take_subset_set_take)
  finally show ?thesis using mem by (rule subsetD)
qed

lemma ranked_reasons_order: "sorted_wrt (\<lambda>x y. reason_rank y \<le> reason_rank x) (ranked_reasons scores)"
proof -
  have "sorted (map reason_rank (sort_key reason_rank (rev (map reason_from_score (filter (\<lambda>s. ds_score s < 100) scores)))))"
    by (rule sorted_sort_key)
  then show ?thesis by (simp add: ranked_reasons_def sorted_wrt_rev sorted_map)
qed

lemma ranked_reasons_mset:
  "mset (ranked_reasons scores) = mset (map reason_from_score (filter (\<lambda>s. ds_score s < 100) scores))"
  by (simp add: ranked_reasons_def)

lemma ranked_reasons_set:
  "set (ranked_reasons scores) = reason_from_score ` {s \<in> set scores. ds_score s < 100}"
  using arg_cong [OF ranked_reasons_mset [of scores], of set_mset] by auto

abbreviation critical :: "DpmMandateHealthReason \<Rightarrow> bool" where
  "critical r \<equiv> mr_severity r = SEVERITY_CRITICAL"

lemma critical_upward: "critical x \<Longrightarrow> reason_rank x \<le> reason_rank y \<Longrightarrow> critical y"
  by (cases "mr_severity y") (auto simp: reason_rank_def)

lemma critical_reason: "critical (reason_from_score s) \<longleftrightarrow> ds_state s = HEALTH_BLOCKED"
  by (simp add: reason_from_score_def severity_of_state_def)

lemma blocked_at_most_four:
  "length (filter (\<lambda>s. ds_state s = HEALTH_BLOCKED) (mandate_health_dimension_scores hi)) \<le> 4"
  by (simp add: mandate_health_dimension_scores_def score_blocked(2-4,7,9,10))

lemma length_filter_filter: "length (filter P (filter Q xs)) \<le> length (filter P xs)"
  by (induction xs) auto

lemma critical_at_most_four: "length (filter critical (ranked_reasons (mandate_health_dimension_scores hi))) \<le> 4"
proof -
  let ?scores = "mandate_health_dimension_scores hi"
  have "length (filter critical (ranked_reasons ?scores)) = size (filter_mset critical (mset (ranked_reasons ?scores)))"
    by (metis mset_filter size_mset)
  also have "\<dots> = length (filter (\<lambda>s. ds_state s = HEALTH_BLOCKED) (filter (\<lambda>s. ds_score s < 100) ?scores))"
    unfolding ranked_reasons_mset mset_filter [symmetric] size_mset by (simp add: filter_map comp_def critical_reason)
  also have "\<dots> \<le> length (filter (\<lambda>s. ds_state s = HEALTH_BLOCKED) ?scores)"
    by (rule length_filter_filter)
  finally show ?thesis using blocked_at_most_four [of hi] by linarith
qed

lemma top_reasons_cases:
  obtains (plain) "top_mandate_health_reasons scores = take 5 (ranked_reasons scores)"
      "(\<exists>r \<in> set (ranked_reasons scores). is_source_gap r) \<longrightarrow> (\<exists>r \<in> set (take 5 (ranked_reasons scores)). is_source_gap r)"
    | (displaced) gap where "top_mandate_health_reasons scores = take 4 (ranked_reasons scores) @ [gap]"
      "gap \<in> set (ranked_reasons scores)" "is_source_gap gap" "gap \<notin> set (take 4 (ranked_reasons scores))"
        "5 < length (ranked_reasons scores)"
proof -
  let ?rs = "ranked_reasons scores"
  let ?gaps = "filter is_source_gap ?rs"
  show thesis
  proof (cases "?gaps \<noteq> [] \<and> \<not> (\<exists>r \<in> set (take 5 ?rs). is_source_gap r)")
    case True
    then have "hd ?gaps \<in> set ?gaps" by (intro hd_in_set) simp
    then have gap: "hd ?gaps \<in> set ?rs" "is_source_gap (hd ?gaps)" unfolding set_filter by blast+
    have "\<not> length ?rs \<le> 5" using True gap by auto
    moreover have "top_mandate_health_reasons scores = butlast (take 5 ?rs) @ [hd ?gaps]"
      using True by (simp add: top_mandate_health_reasons_def Let_def)
    moreover have "hd ?gaps \<notin> set (take 4 ?rs)"
      using True gap(2) set_take_subset_set_take [of 4 5 ?rs] by auto
    ultimately show thesis using gap displaced [of "hd ?gaps"] by (simp add: butlast_take)
  next
    case False
    show thesis
    proof (rule plain)
      show "top_mandate_health_reasons scores = take 5 ?rs"
        unfolding top_mandate_health_reasons_def Let_def using False by (simp only: if_False)
      show "(\<exists>r \<in> set ?rs. is_source_gap r) \<longrightarrow> (\<exists>r \<in> set (take 5 ?rs). is_source_gap r)"
        using False by (auto simp: filter_empty_conv)
    qed
  qed
qed

lemma top_reasons_sub: "set (top_mandate_health_reasons scores) \<subseteq> set (ranked_reasons scores)"
  by (cases scores rule: top_reasons_cases) (auto dest: in_set_takeD)

lemma top_reasons_length: "length (top_mandate_health_reasons scores) \<le> 5"
  by (cases scores rule: top_reasons_cases) auto

lemma top_reasons_gap:
  "r \<in> set (ranked_reasons scores) \<Longrightarrow> is_source_gap r \<Longrightarrow> \<exists>r \<in> set (top_mandate_health_reasons scores). is_source_gap r"
  by (cases scores rule: top_reasons_cases) auto

lemma top_reasons_take4: "set (take 4 (ranked_reasons scores)) \<subseteq> set (top_mandate_health_reasons scores)"
  using set_take_subset_set_take [of 4 5 "ranked_reasons scores"] by (cases scores rule: top_reasons_cases) auto

lemma top_reasons_hd:
  "ranked_reasons scores \<noteq> [] \<Longrightarrow>
     top_mandate_health_reasons scores \<noteq> [] \<and> hd (top_mandate_health_reasons scores) = hd (ranked_reasons scores)"
  by (cases scores rule: top_reasons_cases) (auto simp: hd_append take_eq_Nil)

lemma blocked_reason_in_top:
  assumes "s \<in> set (mandate_health_dimension_scores hi)" and "ds_state s = HEALTH_BLOCKED"
  shows "reason_from_score s \<in> set (top_mandate_health_reasons (mandate_health_dimension_scores hi))"
proof -
  have "ds_score s < 100" using dimension_scores_mem [OF assms(1)] assms(2) by (simp add: score_ok_def)
  then have "reason_from_score s \<in> set (ranked_reasons (mandate_health_dimension_scores hi))"
    using assms(1) by (auto simp: ranked_reasons_set)
  moreover have "critical (reason_from_score s)" using assms(2) by (simp only: critical_reason)
  ultimately have "reason_from_score s \<in> set (take 4 (ranked_reasons (mandate_health_dimension_scores hi)))"
    by (intro descending_take [where P = critical and k = reason_rank] ranked_reasons_order critical_at_most_four)
      (rule critical_upward)
  then show ?thesis using top_reasons_take4 by (rule rev_subsetD)
qed

lemma blocked_headline:
  assumes "mandate_health_state (mandate_health_dimension_scores hi) = HEALTH_BLOCKED"
  shows "top_mandate_health_reasons (mandate_health_dimension_scores hi) \<noteq> []
    \<and> critical (hd (top_mandate_health_reasons (mandate_health_dimension_scores hi)))"
proof -
  let ?scores = "mandate_health_dimension_scores hi"
  from assms obtain s where s: "s \<in> set ?scores" "ds_state s = HEALTH_BLOCKED"
    by (auto simp: mandate_health_state_def split: if_splits)
  have mem: "reason_from_score s \<in> set (ranked_reasons ?scores)"
    using blocked_reason_in_top [OF s] top_reasons_sub by blast
  have "filter critical (ranked_reasons ?scores) = takeWhile critical (ranked_reasons ?scores)"
    by (rule descending_prefix [where k = reason_rank, OF ranked_reasons_order]) (rule critical_upward)
  moreover have "reason_from_score s \<in> set (filter critical (ranked_reasons ?scores))"
    using mem s(2) by (simp add: critical_reason)
  ultimately have "reason_from_score s \<in> set (takeWhile critical (ranked_reasons ?scores))" by (simp only:)
  then have "critical (hd (ranked_reasons ?scores))"
    by (cases "ranked_reasons ?scores") (auto split: if_splits)
  with top_reasons_hd [of ?scores] mem show ?thesis by fastforce
qed

section \<open>Unsourced limits\<close>

lemma unsourced_not_ready:
  assumes "has_unsourced_contractual_limit (mt_constraints (hi_twin hi))"
  shows "mandate_health_state (mandate_health_dimension_scores hi) \<noteq> HEALTH_READY"
proof -
  have "ds_state (score_cash_liquidity hi) \<noteq> HEALTH_READY \<or> ds_state (score_tax_turnover hi) \<noteq> HEALTH_READY"
  proof (cases "mc_cash_band_min_weight (mt_constraints (hi_twin hi)) = None
      \<or> mc_cash_band_max_weight (mt_constraints (hi_twin hi)) = None")
    case True
    then show ?thesis by (simp add: score_cash_liquidity_def Let_def)
  next
    case False
    with assms have "ba_state (turnover_budget_assessment hi) = HEALTH_PENDING_REVIEW"
      by (auto simp: has_unsourced_contractual_limit_def turnover_budget_assessment_def Let_def)
    then show ?thesis unfolding score_tax_turnover_def Let_def find_blocked_first by auto
  qed
  then show ?thesis unfolding state_ready mandate_health_dimension_scores_def by auto
qed

lemma ambiguous_unsourced:
  "MANDATE_LIMIT_PROVENANCE_AMBIGUOUS \<in> set (mt_field_gap_codes twin) \<Longrightarrow>
     has_unsourced_contractual_limit (mt_constraints (effective_mandate_twin twin))"
  by (simp add: effective_mandate_twin_def has_unsourced_contractual_limit_def)

lemma effective_keeps_unsourced:
  "has_unsourced_contractual_limit (mt_constraints twin) \<Longrightarrow>
     has_unsourced_contractual_limit (mt_constraints (effective_mandate_twin twin))"
  by (auto simp: effective_mandate_twin_def has_unsourced_contractual_limit_def)

lemma weighted_sum_full:
  "\<forall>s \<in> set scores. ds_score s = 100 \<Longrightarrow> weighted_sum scores = 100 * int (sum_list (map ds_weight scores))"
  by (induction scores) (simp_all add: weighted_sum_def algebra_simps)

section \<open>Monitoring exceptions\<close>

lemma fold_result_collect:
  "(\<And>x. x \<in> set xs \<Longrightarrow> f x = Inr (g x)) \<Longrightarrow>
     fold_result (\<lambda>x acc. bind_result (f x) (\<lambda>y. Inr (acc @ [y]))) xs acc = Inr (acc @ map g xs)"
  by (induction xs arbitrary: acc) auto

lemma assessment_codes:
  "ba_control (tax_budget_assessment hi) = TAX_BUDGET" "ba_control (turnover_budget_assessment hi) = TURNOVER_BUDGET"
  "hd (drop 1 (ba_reason_code (tax_budget_assessment hi))) = CHR ''A''"
  "hd (drop 1 (ba_reason_code (turnover_budget_assessment hi))) = CHR ''U''"
  by (auto simp: tax_budget_assessment_def turnover_budget_assessment_def Let_def split: option.split)

lemma assessment_codes_differ:
  "ba_reason_code (tax_budget_assessment hi) \<noteq> ba_reason_code (turnover_budget_assessment hi)"
proof
  assume "ba_reason_code (tax_budget_assessment hi) = ba_reason_code (turnover_budget_assessment hi)"
  from assessment_codes(3) [of hi, unfolded this assessment_codes(4)] show False by simp
qed

lemma score_assessments:
  "s \<in> set (mandate_health_dimension_scores hi) \<Longrightarrow>
     ds_budget_assessments s = (if ds_dimension s = TAX_TURNOVER
       then [tax_budget_assessment hi, turnover_budget_assessment hi] else [])"
proof -
  have "ds_budget_assessments (score_tax_turnover hi) = [tax_budget_assessment hi, turnover_budget_assessment hi]"
    by (simp add: score_tax_turnover_def Let_def split: option.split)
  moreover have "ds_budget_assessments (score_risk_drift hi) = []" "ds_budget_assessments (score_performance_attention hi) = []"
    by (auto simp: score_risk_drift_def score_performance_attention_def split: option.split dest: score_source_health_context_ok)
  moreover have "ds_budget_assessments (score_source_readiness hi) = []" "ds_budget_assessments (score_allocation_drift hi) = []"
    "ds_budget_assessments (score_cash_liquidity hi) = []" "ds_budget_assessments (score_eligibility_restrictions hi) = []"
    "ds_budget_assessments (score_workflow_readiness hi) = []" "ds_budget_assessments (score_review_cadence hi) = []"
    "ds_budget_assessments (score_model_freshness hi) = []"
    by (simp_all add: score_source_readiness_def score_allocation_drift_def score_cash_liquidity_def
        score_eligibility_restrictions_def score_workflow_readiness_def score_review_cadence_def score_model_freshness_def
        Let_def split: option.split)
  moreover have "map ds_dimension (mandate_health_dimension_scores hi) = all_dimensions" by (rule dimension_scores_dims)
  ultimately show "s \<in> set (mandate_health_dimension_scores hi) \<Longrightarrow> ?thesis"
    by (auto simp: mandate_health_dimension_scores_def all_dimensions_def)
qed

lemma top_reasons_dims: "distinct (map mr_dimension (top_mandate_health_reasons (mandate_health_dimension_scores hi)))"
proof -
  let ?scores = "mandate_health_dimension_scores hi"
  have eq: "mr_dimension \<circ> reason_from_score = ds_dimension" by (auto simp: reason_from_score_def)
  have "distinct (map ds_dimension ?scores)" unfolding dimension_scores_dims by (simp add: all_dimensions_def)
  then have "distinct (map ds_dimension (filter (\<lambda>s. ds_score s < 100) ?scores))" by (rule distinct_map_filter)
  then have "distinct (map mr_dimension (map reason_from_score (filter (\<lambda>s. ds_score s < 100) ?scores)))"
    by (simp only: map_map eq)
  moreover have "mset (map mr_dimension (ranked_reasons ?scores))
      = mset (map mr_dimension (map reason_from_score (filter (\<lambda>s. ds_score s < 100) ?scores)))"
    unfolding mset_map ranked_reasons_mset ..
  ultimately have ranked: "distinct (map mr_dimension (ranked_reasons ?scores))" using mset_eq_imp_distinct_iff by blast
  show ?thesis
  proof (cases ?scores rule: top_reasons_cases)
    case plain
    then show ?thesis using ranked by (simp add: distinct_take flip: take_map)
  next
    case (displaced gap)
    have "inj_on mr_dimension (set (ranked_reasons ?scores))" using ranked by (simp add: distinct_map)
    then have "mr_dimension gap \<notin> mr_dimension ` set (take 4 (ranked_reasons ?scores))"
      using displaced(2,4) by (auto dest: inj_onD in_set_takeD)
    moreover have "distinct (map mr_dimension (take 4 (ranked_reasons ?scores)))"
      using ranked by (simp add: distinct_take flip: take_map)
    ultimately show ?thesis by (simp add: displaced(1))
  qed
qed


text \<open>What distinguishes the exceptions of one snapshot: the dimension and a suffix for the tax controls.\<close>

definition reason_suffix :: "DpmMandateHealthInput \<Rightarrow> DpmMandateHealthReason \<Rightarrow> string list" where
  "reason_suffix hi r =
     (if mr_dimension r \<noteq> TAX_TURNOVER then []
      else if mr_reason_code r = ba_reason_code (tax_budget_assessment hi) then [''TAX_BUDGET'']
      else if mr_reason_code r = ba_reason_code (turnover_budget_assessment hi) then [] else [''TAX_LOTS''])"

definition assessment_suffix :: "DpmMandateBudgetAssessment \<Rightarrow> string list" where
  "assessment_suffix a = (if ba_control a = TAX_BUDGET then [''TAX_BUDGET''] else [])"

definition unpublished :: "DpmMandateHealthReason list \<Rightarrow> DpmMandateHealthInput \<Rightarrow> DpmMandateBudgetAssessment list" where
  "unpublished tops hi =
     filter (\<lambda>a. ba_state a \<noteq> HEALTH_READY
         \<and> (TAX_TURNOVER, ba_reason_code a) \<notin> set (map (\<lambda>r. (mr_dimension r, mr_reason_code r)) tops))
       [tax_budget_assessment hi, turnover_budget_assessment hi]"

definition exception_keys :: "DpmMandateHealthReason list \<Rightarrow> DpmMandateHealthInput \<Rightarrow> (MandateHealthDimension \<times> string list) list" where
  "exception_keys tops hi =
     map (\<lambda>r. (mr_dimension r, reason_suffix hi r)) tops @ map (\<lambda>a. (TAX_TURNOVER, assessment_suffix a)) (unpublished tops hi)"

lemma unpublished_mem:
  "a \<in> set (unpublished tops hi) \<longleftrightarrow> (a = tax_budget_assessment hi \<or> a = turnover_budget_assessment hi)
     \<and> ba_state a \<noteq> HEALTH_READY \<and> (\<forall>r \<in> set tops. mr_dimension r = TAX_TURNOVER \<longrightarrow> mr_reason_code r \<noteq> ba_reason_code a)"
  unfolding unpublished_def set_filter by force

lemma exception_keys_distinct:
  assumes "distinct (map mr_dimension tops)"
  shows "distinct (exception_keys tops hi)"
proof -
  have "distinct (map fst (map (\<lambda>r. (mr_dimension r, reason_suffix hi r)) tops))" using assms by (simp add: comp_def)
  then have "distinct (map (\<lambda>r. (mr_dimension r, reason_suffix hi r)) tops)" by (rule distinct_map [THEN iffD1, THEN conjunct1])
  moreover have "distinct (map (\<lambda>a. (TAX_TURNOVER, assessment_suffix a)) (unpublished tops hi))"
    by (simp add: unpublished_def assessment_suffix_def assessment_codes)
  moreover have "False" if r: "r \<in> set tops" and a: "a \<in> set (unpublished tops hi)"
    and eq: "(mr_dimension r, reason_suffix hi r) = (TAX_TURNOVER, assessment_suffix a)" for r a
  proof -
    from a have "a = tax_budget_assessment hi \<or> a = turnover_budget_assessment hi" by (simp add: unpublished_mem)
    moreover from a r eq have "mr_reason_code r \<noteq> ba_reason_code a" by (simp add: unpublished_mem)
    ultimately show False
      using eq by (auto simp: reason_suffix_def assessment_suffix_def assessment_codes split: if_splits)
  qed
  ultimately show ?thesis unfolding exception_keys_def by auto
qed

lemma score_lookup:
  assumes "r \<in> set (top_mandate_health_reasons (mandate_health_dimension_scores hi))"
  shows "\<exists>s \<in> set (mandate_health_dimension_scores hi). reason_from_score s = r
    \<and> dict_get (dict_of (map (\<lambda>s. (ds_dimension s, s)) (mandate_health_dimension_scores hi))) (mr_dimension r) = Some s"
proof -
  let ?scores = "mandate_health_dimension_scores hi"
  from assms top_reasons_sub obtain s where s: "s \<in> set ?scores" "reason_from_score s = r"
    by (force simp: ranked_reasons_set)
  have dist: "distinct (map fst (rev (map (\<lambda>s. (ds_dimension s, s)) ?scores)))"
    using dimension_scores_dims [of hi] by (simp add: comp_def all_dimensions_def flip: rev_map)
  have "(mr_dimension r, s) \<in> set (rev (map (\<lambda>s. (ds_dimension s, s)) ?scores))"
    using s by (auto simp: reason_from_score_def)
  with dist have "map_of (rev (map (\<lambda>s. (ds_dimension s, s)) ?scores)) (mr_dimension r) = Some s" by (rule map_of_is_SomeI)
  with s show ?thesis by (auto simp: dict_get_of)
qed

lemma reason_exception_total:
  assumes "hs_dimension_scores snap = mandate_health_dimension_scores hi"
    and "r \<in> set (top_mandate_health_reasons (mandate_health_dimension_scores hi))"
  shows "\<exists>e. reason_exception sha256 snap lineage tenant r = Inr e
    \<and> me_exception_id e = derived_identity sha256 ''me'' (exception_identity tenant snap (mr_dimension r) (reason_suffix hi r))
    \<and> me_dimension e = mr_dimension r \<and> me_reason_code e = mr_reason_code r
    \<and> (mr_dimension r = TAX_TURNOVER \<longrightarrow> me_budget_assessment e =
         List.find (\<lambda>a. ba_reason_code a = mr_reason_code r) [tax_budget_assessment hi, turnover_budget_assessment hi])"
proof -
  from score_lookup [OF assms(2)] obtain s where s: "s \<in> set (mandate_health_dimension_scores hi)" "reason_from_score s = r"
    "dict_get (dict_of (map (\<lambda>s. (ds_dimension s, s)) (mandate_health_dimension_scores hi))) (mr_dimension r) = Some s" by blast
  have dim: "ds_dimension s = mr_dimension r" using s(2) by (auto simp: reason_from_score_def)
  show ?thesis
    unfolding reason_exception_def assms(1) s(3) option.case score_assessments [OF s(1)] dim Let_def
    by (auto simp: reason_suffix_def assessment_codes assessment_codes_differ)
qed
section \<open>Samples\<close>

definition sample_constraints :: DpmMandateConstraintSet where
  "sample_constraints =
     \<lparr> mc_cash_band_min_weight = Some (Dec (1 / 100)), mc_cash_band_max_weight = Some (Dec (1 / 10)),
       mc_cash_reserve_weight = None, mc_single_position_max_weight = None, mc_issuer_max_weight = None,
       mc_sector_max_weight = None, mc_region_max_weight = None, mc_currency_max_weight = None,
       mc_turnover_budget = None, mc_turnover_budget_applicable = Some False, mc_turnover_budget_period_start = None,
       mc_tax_budget_base = None, mc_tax_budget_period_start = None, mc_max_tracking_error = None,
       mc_max_active_share = None, mc_minimum_trade_notional = None, mc_allowed_product_types = [],
       mc_restricted_instruments = [''BANNED_1''], mc_restricted_issuers = [], mc_restricted_sectors = [],
       mc_sustainability_exclusions = [] \<rparr>"

definition sample_twin :: DpmMandateDigitalTwin where
  "sample_twin =
     \<lparr> mt_mandate_id = ''M1'', mt_portfolio_id = ''P1'', mt_mandate_version = ''1'', mt_as_of_date = (2026, 5, 3),
       mt_source_system = ''lotus-core'', mt_base_currency = ''SGD'', mt_reference_currency = ''SGD'',
       mt_risk_profile = ''BALANCED'', mt_investment_objective = ''GROWTH'', mt_time_horizon = ''LONG'',
       mt_model_portfolio_id = ''MODEL_1'', mt_model_portfolio_version = None, mt_benchmark_id = None,
       mt_constraints = sample_constraints,
       mt_preferences = \<lparr> mp_sustainability_strategy = None, mp_income_priority = None, mp_bespoke_notes = [] \<rparr>,
       mt_review_policy = \<lparr> rp_review_frequency = ''QUARTERLY'', rp_last_review_date = None, rp_next_review_due_date = None \<rparr>,
       mt_source_lineage = [], mt_field_gap_codes = [] \<rparr>"

text \<open>A portfolio with one instrument at the given weight, whose target is 95 percent.\<close>

definition sample_health_input :: "rat \<Rightarrow> DpmMandateHealthInput" where
  "sample_health_input w =
     \<lparr> hi_twin = sample_twin, hi_current_weights = [(''EQ_1'', Dec w)], hi_target_weights = [(''EQ_1'', Dec (95 / 100))],
       hi_cash_weight = Dec (5 / 100), hi_source_readiness_state = SOURCE_OK, hi_missing_source_families = [],
       hi_degraded_source_families = [], hi_stale_source_families = [], hi_restricted_held_instruments = [],
       hi_restricted_target_instruments = [], hi_sustainability_review_required = False,
       hi_projected_net_cashflow = None, hi_projected_cashflow_currency = None, hi_tax_lot_missing_security_ids = [],
       hi_turnover_budget_used = None, hi_turnover_budget_used_period_start = None,
       hi_turnover_budget_used_as_of_date = None, hi_turnover_budget_usage_source_ref = None,
       hi_tax_budget_used_base = None, hi_tax_budget_used_currency = None, hi_tax_budget_used_period_start = None,
       hi_tax_budget_used_as_of_date = None, hi_tax_budget_usage_source_ref = None, hi_tracking_error = None,
       hi_performance_under_review = False, hi_risk_health_context = None, hi_performance_health_context = None,
       hi_workflow_blocked = False, hi_approval_required = False, hi_model_effective_to = None \<rparr>"

definition sample_snapshot :: "DpmMandateHealthInput \<Rightarrow> DpmMandateHealthSnapshot" where
  "sample_snapshot hi = projr (calculate_mandate_health rev 0 hi ''t1'')"

lemma sample_calculated: "calculate_mandate_health rev 0 hi ''t1'' = Inr (sample_snapshot hi)"
  using calculate_total [of rev 0 hi "''t1''"] by (auto simp: sample_snapshot_def)


section \<open>Properties\<close>

text \<open>
  C25. The health calculation always returns a snapshot. Its score is the weighted mean of the ten
  dimension scores, rounded half up, and lies between 0 and 100; a mandate whose dimensions are all
  ready scores 100, has no reasons and needs no action.
\<close>

theorem mandate_health_score:
  "\<exists>snap. calculate_mandate_health sha256 now input tenant = Inr snap
    \<and> hs_health_score snap = (weighted_sum (hs_dimension_scores snap) + 50) div 100
    \<and> 0 \<le> hs_health_score snap \<and> hs_health_score snap \<le> 100
    \<and> map ds_dimension (hs_dimension_scores snap) = all_dimensions
    \<and> sum_list (map ds_weight (hs_dimension_scores snap)) = 100
    \<and> (hs_health_state snap = HEALTH_READY \<longrightarrow>
         hs_health_score snap = 100 \<and> hs_top_reasons snap = [] \<and> hs_recommended_action snap = ACTION_NONE)"
proof -
  let ?scores = "mandate_health_dimension_scores (effective_input input)"
  from calculate_total [of sha256 now input tenant] obtain snap where
    snap: "calculate_mandate_health sha256 now input tenant = Inr snap" "hs_dimension_scores snap = ?scores"
    "hs_health_score snap = weighted_mandate_health_score ?scores" "hs_health_state snap = mandate_health_state ?scores"
    "hs_top_reasons snap = top_mandate_health_reasons ?scores"
    "hs_recommended_action snap = overall_recommended_action (hs_health_state snap) (hs_top_reasons snap)
        (has_unsourced_contractual_limit (mt_constraints (effective_mandate_twin (hi_twin input))))" by auto
  have "hs_health_score snap = 100 \<and> hs_top_reasons snap = [] \<and> hs_recommended_action snap = ACTION_NONE"
    if ready: "hs_health_state snap = HEALTH_READY"
  proof -
    have all: "\<forall>s \<in> set ?scores. ds_score s = 100"
      using ready dimension_scores_mem [of _ "effective_input input"] unfolding snap(4) state_ready
      by (auto simp: score_ok_def)
    then have "weighted_sum ?scores = 100 * int (sum_list (map ds_weight ?scores))"
      by (rule weighted_sum_full)
    then have "hs_health_score snap = 100" by (simp add: snap(3) health_score_eq(1) dimension_weights_total)
    moreover have "filter (\<lambda>s. ds_score s < 100) ?scores = []" using all by (simp add: filter_empty_conv)
    then have "ranked_reasons ?scores = []" by (simp add: ranked_reasons_def)
    then have "hs_top_reasons snap = []" using top_reasons_sub [of ?scores] snap(5) by simp
    ultimately show ?thesis using ready snap(6) by (simp add: overall_recommended_action_def)
  qed
  with snap health_score_eq [of "effective_input input"] show ?thesis
    by (intro exI [of _ snap]) (auto simp: dimension_scores_dims dimension_weights_total)
qed

theorem mandate_health_score_witness:
  "hs_health_state (sample_snapshot (sample_health_input (95 / 100))) = HEALTH_READY
    \<and> hs_health_score (sample_snapshot (sample_health_input (95 / 100))) = 100"
proof -
  let ?s = "sample_snapshot (sample_health_input (95 / 100))"
  have "hs_health_state ?s = HEALTH_READY" by code_simp
  with mandate_health_score [of rev 0 "sample_health_input (95 / 100)" "''t1''"] show ?thesis
    by (auto simp: sample_calculated)
qed

text \<open>
  C26. When a mandate is blocked. The state is blocked exactly when sources are incomplete or missing,
  tax lots are missing, a tax or turnover budget is exceeded on a comparable basis, a restricted
  instrument is held or targeted, or the workflow is blocked. Limits of unknown origin do not count.
\<close>

theorem mandate_blocked_exactly:
  assumes "calculate_mandate_health sha256 now input tenant = Inr snap"
    and "twin = effective_mandate_twin (hi_twin input)"
  shows "hs_health_state snap = HEALTH_BLOCKED \<longleftrightarrow>
     hi_source_readiness_state input \<in> {SOURCE_INCOMPLETE, SOURCE_UNAVAILABLE}
     \<or> hi_missing_source_families input \<noteq> [] \<or> hi_tax_lot_missing_security_ids input \<noteq> []
     \<or> (\<exists>l u. mc_tax_budget_base (mt_constraints twin) = Some l \<and> hi_tax_budget_used_base input = Some u \<and> l < u)
         \<and> hi_tax_budget_used_currency input \<in> {None, Some (mt_base_currency twin)}
         \<and> \<not> period_mismatch (mc_tax_budget_period_start (mt_constraints twin)) (hi_tax_budget_used_period_start input)
              (hi_tax_budget_used_as_of_date input) (mt_as_of_date twin)
     \<or> (\<exists>l u. mc_turnover_budget (mt_constraints twin) = Some l \<and> hi_turnover_budget_used input = Some u \<and> l < u)
         \<and> \<not> period_mismatch (mc_turnover_budget_period_start (mt_constraints twin))
              (hi_turnover_budget_used_period_start input) (hi_turnover_budget_used_as_of_date input) (mt_as_of_date twin)
     \<or> set (hi_restricted_held_instruments input) \<union> set (hi_restricted_target_instruments input)
         \<union> set (dict_keys (hi_current_weights input)) \<inter> set (mc_restricted_instruments (mt_constraints twin)) \<noteq> {}
     \<or> hi_workflow_blocked input"
proof -
  have "hs_health_state snap = mandate_health_state (mandate_health_dimension_scores (effective_input input))"
    using calculate_total [of sha256 now input tenant] assms(1) by auto
  moreover have "restricted_exposures (effective_input input) = [] \<longleftrightarrow>
      set (hi_restricted_held_instruments input) \<union> set (hi_restricted_target_instruments input)
         \<union> set (dict_keys (hi_current_weights input)) \<inter> set (mc_restricted_instruments (mt_constraints twin)) = {}"
    by (auto simp: restricted_exposures_def assms(2) filter_empty_conv)
  ultimately show ?thesis by (simp add: state_blocked assessment_blocked assms(2))
qed

theorem mandate_blocked_exactly_witness:
  "hs_health_state (sample_snapshot ((sample_health_input (95 / 100))\<lparr> hi_current_weights := [(''BANNED_1'', Dec 1)] \<rparr>))
     = HEALTH_BLOCKED"
  using mandate_blocked_exactly [OF sample_calculated refl,
      of "(sample_health_input (95 / 100))\<lparr> hi_current_weights := [(''BANNED_1'', Dec 1)] \<rparr>"]
  by (simp add: sample_health_input_def sample_twin_def sample_constraints_def effective_mandate_twin_def)

text \<open>
  What a snapshot reports. At most five reasons are kept, every blocked dimension is among them, and
  so is a missing source limit if there is any; a blocked mandate leads with a critical reason and
  recommends its action.
\<close>

theorem mandate_reasons_kept:
  assumes "calculate_mandate_health sha256 now input tenant = Inr snap"
  shows "length (hs_top_reasons snap) \<le> 5
    \<and> set (hs_top_reasons snap) \<subseteq> reason_from_score ` set (hs_dimension_scores snap)
    \<and> (\<forall>s \<in> set (hs_dimension_scores snap). ds_state s = HEALTH_BLOCKED \<longrightarrow> reason_from_score s \<in> set (hs_top_reasons snap))
    \<and> ((\<exists>s \<in> set (hs_dimension_scores snap). ds_score s < 100 \<and> ds_reason_code s \<in> SOURCE_GAP_REASON_CODES) \<longrightarrow>
         (\<exists>r \<in> set (hs_top_reasons snap). mr_reason_code r \<in> SOURCE_GAP_REASON_CODES))
    \<and> (hs_health_state snap = HEALTH_BLOCKED \<longrightarrow>
         (\<exists>r rest. hs_top_reasons snap = r # rest \<and> mr_severity r = SEVERITY_CRITICAL
            \<and> hs_recommended_action snap = mr_recommended_action r))"
proof -
  let ?scores = "mandate_health_dimension_scores (effective_input input)"
  have snap: "hs_dimension_scores snap = ?scores" "hs_top_reasons snap = top_mandate_health_reasons ?scores"
    "hs_health_state snap = mandate_health_state ?scores"
    "hs_recommended_action snap = overall_recommended_action (hs_health_state snap) (hs_top_reasons snap)
        (has_unsourced_contractual_limit (mt_constraints (effective_mandate_twin (hi_twin input))))"
    using calculate_total [of sha256 now input tenant] assms by auto
  have gap: "\<exists>r \<in> set (hs_top_reasons snap). mr_reason_code r \<in> SOURCE_GAP_REASON_CODES"
    if "s \<in> set ?scores" "ds_score s < 100" "ds_reason_code s \<in> SOURCE_GAP_REASON_CODES" for s
    using top_reasons_gap [of "reason_from_score s" ?scores] that
    unfolding snap(2) by (auto simp: is_source_gap_def ranked_reasons_set reason_from_score_def)
  have headline: "\<exists>r rest. hs_top_reasons snap = r # rest \<and> mr_severity r = SEVERITY_CRITICAL
      \<and> hs_recommended_action snap = mr_recommended_action r" if "hs_health_state snap = HEALTH_BLOCKED"
    using blocked_headline [of "effective_input input"] that snap(4)
    by (cases "hs_top_reasons snap") (auto simp: snap(2,3) overall_recommended_action_def)
  have "set (hs_top_reasons snap) \<subseteq> reason_from_score ` set ?scores"
    using top_reasons_sub [of ?scores] unfolding snap(2) ranked_reasons_set by blast
  with gap headline top_reasons_length [of ?scores] blocked_reason_in_top [of _ "effective_input input"]
  show ?thesis unfolding snap(1,2) by blast
qed

theorem mandate_reasons_kept_witness:
  "hs_health_state (sample_snapshot ((sample_health_input (1 / 2))\<lparr> hi_workflow_blocked := True \<rparr>)) = HEALTH_BLOCKED
   \<and> length (hs_top_reasons (sample_snapshot ((sample_health_input (1 / 2))\<lparr> hi_workflow_blocked := True \<rparr>))) \<le> 5
   \<and> (\<exists>r rest. hs_top_reasons (sample_snapshot ((sample_health_input (1 / 2))\<lparr> hi_workflow_blocked := True \<rparr>)) = r # rest
        \<and> mr_severity r = SEVERITY_CRITICAL)"
proof -
  let ?s = "sample_snapshot ((sample_health_input (1 / 2))\<lparr> hi_workflow_blocked := True \<rparr>)"
  have "hs_health_state ?s = HEALTH_BLOCKED" by code_simp
  with mandate_reasons_kept [OF sample_calculated, of "(sample_health_input (1 / 2))\<lparr> hi_workflow_blocked := True \<rparr>"]
  show ?thesis by auto
qed

text \<open>
  C27. Failing closed. When a contractual limit is missing, or the origin of the stored limits is
  ambiguous, the mandate is never ready, and unless something blocks it the action is to fix the source.
\<close>

theorem mandate_fails_closed:
  assumes "calculate_mandate_health sha256 now input tenant = Inr snap"
    and "has_unsourced_contractual_limit (mt_constraints (hi_twin input))
      \<or> MANDATE_LIMIT_PROVENANCE_AMBIGUOUS \<in> set (mt_field_gap_codes (hi_twin input))"
  shows "hs_health_state snap \<noteq> HEALTH_READY
    \<and> (hs_health_state snap = HEALTH_BLOCKED \<or> hs_recommended_action snap = FIX_SOURCE_DATA)"
proof -
  have unsourced: "has_unsourced_contractual_limit (mt_constraints (effective_mandate_twin (hi_twin input)))"
    using assms(2) effective_keeps_unsourced ambiguous_unsourced by blast
  then have "mandate_health_state (mandate_health_dimension_scores (effective_input input)) \<noteq> HEALTH_READY"
    by (intro unsourced_not_ready) simp
  with unsourced show ?thesis
    using calculate_total [of sha256 now input tenant] assms(1) by (auto simp: overall_recommended_action_def)
qed

theorem mandate_fails_closed_witness:
  "hs_health_state (sample_snapshot ((sample_health_input (95 / 100))
     \<lparr> hi_twin := sample_twin\<lparr> mt_field_gap_codes := [MANDATE_LIMIT_PROVENANCE_AMBIGUOUS] \<rparr> \<rparr>)) \<noteq> HEALTH_READY"
  using mandate_fails_closed [OF sample_calculated, of "(sample_health_input (95 / 100))
     \<lparr> hi_twin := sample_twin\<lparr> mt_field_gap_codes := [MANDATE_LIMIT_PROVENANCE_AMBIGUOUS] \<rparr> \<rparr>"] by simp

lemma assessment_exceptions_eq:
  assumes "\<And>d. F d [] = []"
  shows "concat (map (\<lambda>s. F (ds_dimension s) (ds_budget_assessments s)) (mandate_health_dimension_scores hi))
    = F TAX_TURNOVER [tax_budget_assessment hi, turnover_budget_assessment hi]"
proof -
  have "map (\<lambda>s. F (ds_dimension s) (ds_budget_assessments s)) (mandate_health_dimension_scores hi)
      = map (\<lambda>d. F d (if d = TAX_TURNOVER then [tax_budget_assessment hi, turnover_budget_assessment hi] else []))
          (map ds_dimension (mandate_health_dimension_scores hi))"
    by (simp add: score_assessments)
  then show ?thesis by (simp add: dimension_scores_dims all_dimensions_def assms)
qed

lemma monitoring_exceptions_eq:
  assumes "hs_dimension_scores snap = mandate_health_dimension_scores hi"
    and "hs_top_reasons snap = top_mandate_health_reasons (mandate_health_dimension_scores hi)"
  obtains es where "monitoring_exceptions_from_health sha256 snap lineage tenant = Inr es"
    "map me_exception_id es = map (\<lambda>(d, x). derived_identity sha256 ''me'' (exception_identity tenant snap d x))
       (exception_keys (hs_top_reasons snap) hi)"
    "\<And>r. r \<in> set (hs_top_reasons snap) \<Longrightarrow> \<exists>e \<in> set es. me_dimension e = mr_dimension r \<and> me_reason_code e = mr_reason_code r
       \<and> (mr_dimension r = TAX_TURNOVER \<longrightarrow> me_budget_assessment e =
            List.find (\<lambda>a. ba_reason_code a = mr_reason_code r) [tax_budget_assessment hi, turnover_budget_assessment hi])"
    "\<And>a. a \<in> set (unpublished (hs_top_reasons snap) hi) \<Longrightarrow> \<exists>e \<in> set es. me_budget_assessment e = Some a"
proof -
  let ?tops = "hs_top_reasons snap" and ?ae = "assessment_exception sha256 snap lineage tenant"
  define E where "E = (\<lambda>r. projr (reason_exception sha256 snap lineage tenant r))"
  have E: "reason_exception sha256 snap lineage tenant r = Inr (E r)"
    "me_exception_id (E r) = derived_identity sha256 ''me'' (exception_identity tenant snap (mr_dimension r) (reason_suffix hi r))"
    "me_dimension (E r) = mr_dimension r" "me_reason_code (E r) = mr_reason_code r"
    "mr_dimension r = TAX_TURNOVER \<Longrightarrow> me_budget_assessment (E r) =
       List.find (\<lambda>a. ba_reason_code a = mr_reason_code r) [tax_budget_assessment hi, turnover_budget_assessment hi]"
    if "r \<in> set ?tops" for r
    using reason_exception_total [OF assms(1), of r sha256 lineage tenant] that unfolding assms(2) E_def by auto
  let ?es = "map E ?tops @ map (?ae TAX_TURNOVER) (unpublished ?tops hi)"
  have "monitoring_exceptions_from_health sha256 snap lineage tenant = Inr ?es"
  proof -
    let ?F = "\<lambda>d as. map (?ae d) (filter (\<lambda>a. ba_state a \<noteq> HEALTH_READY
        \<and> (d, ba_reason_code a) \<notin> set (map (\<lambda>r. (mr_dimension r, mr_reason_code r)) ?tops)) as)"
    have "concat (map (\<lambda>s. ?F (ds_dimension s) (ds_budget_assessments s)) (mandate_health_dimension_scores hi))
        = map (?ae TAX_TURNOVER) (unpublished ?tops hi)"
      unfolding unpublished_def by (rule assessment_exceptions_eq) simp
    moreover have "fold_result (\<lambda>r es. bind_result (reason_exception sha256 snap lineage tenant r) (\<lambda>e. Inr (es @ [e]))) ?tops []
        = Inr (map E ?tops)"
      using fold_result_collect [of ?tops "reason_exception sha256 snap lineage tenant" E "[]"] E(1) by simp
    ultimately show ?thesis
      unfolding monitoring_exceptions_from_health_def Let_def assms(1) by (simp only: bind_result_simps)
  qed
  then show thesis
  proof (rule that)
    show "map me_exception_id ?es = map (\<lambda>(d, x). derived_identity sha256 ''me'' (exception_identity tenant snap d x))
       (exception_keys ?tops hi)"
      using E(2) by (simp add: exception_keys_def assessment_exception_def assessment_suffix_def)
    show "\<exists>e \<in> set ?es. me_dimension e = mr_dimension r \<and> me_reason_code e = mr_reason_code r
       \<and> (mr_dimension r = TAX_TURNOVER \<longrightarrow> me_budget_assessment e =
            List.find (\<lambda>a. ba_reason_code a = mr_reason_code r) [tax_budget_assessment hi, turnover_budget_assessment hi])"
      if "r \<in> set ?tops" for r
      by (rule bexI [of _ "E r"]) (use that E in auto)
    show "\<exists>e \<in> set ?es. me_budget_assessment e = Some a" if "a \<in> set (unpublished ?tops hi)" for a
      by (rule bexI [of _ "?ae TAX_TURNOVER a"]) (use that in \<open>auto simp: assessment_exception_def\<close>)
  qed
qed

lemma exception_keys_range: "set (exception_keys tops hi) \<subseteq> set all_dimensions \<times> {[], [''TAX_BUDGET''], [''TAX_LOTS'']}"
proof -
  have "d \<in> set all_dimensions" for d by (cases d) (simp_all add: all_dimensions_def)
  moreover have "reason_suffix hi r \<in> {[], [''TAX_BUDGET''], [''TAX_LOTS'']}" for r by (simp add: reason_suffix_def)
  moreover have "assessment_suffix a \<in> {[], [''TAX_BUDGET''], [''TAX_LOTS'']}" for a by (simp add: assessment_suffix_def)
  ultimately show ?thesis unfolding exception_keys_def by fastforce
qed

lemma exception_ids_inj:
  assumes "inj_on (\<lambda>s. take 32 (sha256 s)) ((\<lambda>(d, x). identity_preimage (exception_identity tenant snap d x)) ` S)"
  shows "inj_on (\<lambda>(d, x). derived_identity sha256 prefix (exception_identity tenant snap d x)) S"
proof (rule inj_onI, clarify)
  fix d x d' x'
  assume S: "(d, x) \<in> S" "(d', x') \<in> S"
    and eq: "derived_identity sha256 prefix (exception_identity tenant snap d x)
      = derived_identity sha256 prefix (exception_identity tenant snap d' x')"
  have "exception_identity tenant snap d x = exception_identity tenant snap d' x'"
    using eq by (subst (asm) derived_identity_eq_iff [OF assms]) (use S in force)+
  then show "d = d' \<and> x = x'" by (simp add: exception_identity_def dimension_str_inj)
qed

lemma budget_exception:
  assumes "a = tax_budget_assessment hi \<or> a = turnover_budget_assessment hi" and "ba_state a \<noteq> HEALTH_READY"
    and "\<And>r. r \<in> set tops \<Longrightarrow> \<exists>e \<in> set es. me_dimension e = mr_dimension r \<and> me_reason_code e = mr_reason_code r
       \<and> (mr_dimension r = TAX_TURNOVER \<longrightarrow> me_budget_assessment e =
            List.find (\<lambda>a. ba_reason_code a = mr_reason_code r) [tax_budget_assessment hi, turnover_budget_assessment hi])"
    and "\<And>a. a \<in> set (unpublished tops hi) \<Longrightarrow> \<exists>e \<in> set es. me_budget_assessment e = Some a"
  shows "\<exists>e \<in> set es. me_budget_assessment e = Some a"
proof (cases "\<exists>r \<in> set tops. mr_dimension r = TAX_TURNOVER \<and> mr_reason_code r = ba_reason_code a")
  case True
  then obtain r where r: "r \<in> set tops" "mr_dimension r = TAX_TURNOVER" "mr_reason_code r = ba_reason_code a" by blast
  have "List.find (\<lambda>b. ba_reason_code b = ba_reason_code a) [tax_budget_assessment hi, turnover_budget_assessment hi] = Some a"
    using assms(1) assessment_codes_differ [of hi] by auto
  with assms(3) [OF r(1)] r(2,3) show ?thesis by auto
next
  case False
  then show ?thesis using assms(1,2) by (intro assms(4)) (auto simp: unpublished_mem)
qed

text \<open>
  C28. Monitoring. Every snapshot gives its exceptions without an error: one per reported reason and one
  per budget that is not ready, with pairwise different identifiers unless the truncated hash collides
  on one of the thirty identities a snapshot can have.
\<close>

theorem monitoring_exceptions_distinct:
  assumes "calculate_mandate_health sha256 now input tenant = Inr snap"
    and "inj_on (\<lambda>s. take 32 (sha256 s)) ((\<lambda>(d, x). identity_preimage (exception_identity tenant' snap d x))
      ` (set all_dimensions \<times> {[], [''TAX_BUDGET''], [''TAX_LOTS'']}))"
  shows "\<exists>es. monitoring_exceptions_from_health sha256 snap lineage tenant' = Inr es
    \<and> distinct (map me_exception_id es)
    \<and> (\<forall>r \<in> set (hs_top_reasons snap). \<exists>e \<in> set es. me_dimension e = mr_dimension r \<and> me_reason_code e = mr_reason_code r)
    \<and> (\<forall>s \<in> set (hs_dimension_scores snap). \<forall>a \<in> set (ds_budget_assessments s).
         ba_state a \<noteq> HEALTH_READY \<longrightarrow> (\<exists>e \<in> set es. me_budget_assessment e = Some a))"
proof -
  let ?hi = "effective_input input"
  have snap: "hs_dimension_scores snap = mandate_health_dimension_scores ?hi"
    "hs_top_reasons snap = top_mandate_health_reasons (mandate_health_dimension_scores ?hi)"
    using calculate_total [of sha256 now input tenant] assms(1) by auto
  let ?keys = "exception_keys (hs_top_reasons snap) ?hi"
  from monitoring_exceptions_eq [OF snap] obtain es where
    es: "monitoring_exceptions_from_health sha256 snap lineage tenant' = Inr es"
    "map me_exception_id es = map (\<lambda>(d, x). derived_identity sha256 ''me'' (exception_identity tenant' snap d x)) ?keys"
    and reasons: "\<And>r. r \<in> set (hs_top_reasons snap) \<Longrightarrow> \<exists>e \<in> set es. me_dimension e = mr_dimension r
       \<and> me_reason_code e = mr_reason_code r \<and> (mr_dimension r = TAX_TURNOVER \<longrightarrow> me_budget_assessment e =
            List.find (\<lambda>a. ba_reason_code a = mr_reason_code r) [tax_budget_assessment ?hi, turnover_budget_assessment ?hi])"
    and rest: "\<And>a. a \<in> set (unpublished (hs_top_reasons snap) ?hi) \<Longrightarrow> \<exists>e \<in> set es. me_budget_assessment e = Some a"
    by blast
  have "distinct ?keys" unfolding snap(2) by (rule exception_keys_distinct [OF top_reasons_dims])
  moreover have "inj_on (\<lambda>(d, x). derived_identity sha256 ''me'' (exception_identity tenant' snap d x)) (set ?keys)"
    by (rule inj_on_subset [OF exception_ids_inj [OF assms(2)] exception_keys_range])
  ultimately have "distinct (map me_exception_id es)" unfolding es(2) by (simp add: distinct_map)
  moreover have "\<exists>e \<in> set es. me_budget_assessment e = Some a"
    if "s \<in> set (hs_dimension_scores snap)" "a \<in> set (ds_budget_assessments s)" "ba_state a \<noteq> HEALTH_READY" for s a
    using budget_exception [OF _ that(3) reasons rest] that score_assessments [of s ?hi] unfolding snap(1)
    by (auto split: if_splits)
  ultimately show ?thesis using es(1) reasons by blast
qed

theorem monitoring_exceptions_distinct_witness:
  "\<exists>es. monitoring_exceptions_from_health rev (sample_snapshot (sample_health_input (1 / 2))) [] ''t1'' = Inr es
     \<and> distinct (map me_exception_id es)
     \<and> (\<exists>e \<in> set es. me_reason_code e = ''ALLOCATION_DRIFT'')"
proof -
  let ?s = "sample_snapshot (sample_health_input (1 / 2))"
  let ?pairs = "List.product all_dimensions [[], [''TAX_BUDGET''], [''TAX_LOTS'']]"
  have "distinct (map (\<lambda>(d, x). take 32 (rev (identity_preimage (exception_identity ''t1'' ?s d x)))) ?pairs)" by code_simp
  then have "inj_on (\<lambda>(d, x). take 32 (rev (identity_preimage (exception_identity ''t1'' ?s d x)))) (set ?pairs)"
    by (simp add: distinct_map)
  then have inj: "inj_on (\<lambda>s. take 32 (rev s)) ((\<lambda>(d, x). identity_preimage (exception_identity ''t1'' ?s d x))
      ` (set all_dimensions \<times> {[], [''TAX_BUDGET''], [''TAX_LOTS'']}))"
    by (auto simp: inj_on_def)
  have "map mr_reason_code (hs_top_reasons ?s) = [''ALLOCATION_DRIFT'']" by code_simp
  with monitoring_exceptions_distinct [OF sample_calculated inj, of "[]"] show ?thesis by (auto simp: map_eq_Cons_conv)
qed

text \<open>
  A drift review that nobody sees. An allocation that drifts by just over the band of 2.5 percent is
  sent to review, but its penalty rounds to a score of 100: the snapshot reports a full score, no
  reason and no exception, and its action is to review the mandate.
\<close>

theorem drift_review_unexplained:
  "let snap = sample_snapshot (sample_health_input (9754 / 10000))
   in map (\<lambda>s. (ds_state s, ds_score s)) (filter (\<lambda>s. ds_dimension s = ALLOCATION_DRIFT) (hs_dimension_scores snap))
        = [(HEALTH_PENDING_REVIEW, 100)]
      \<and> hs_health_state snap = HEALTH_PENDING_REVIEW \<and> hs_health_score snap = 100 \<and> hs_top_reasons snap = []
      \<and> hs_recommended_action snap = REVIEW_MANDATE
      \<and> monitoring_exceptions_from_health rev snap [] ''t1'' = Inr []"
  by code_simp

end
