(* ===== verification/Mandate_Repository.thy ===== *)
theory Mandate_Repository
  imports Mandate_Monitoring
begin

text \<open>
  The mandate store (\<open>src/src/core/mandate_repository.py\<close>,
  \<open>src/src/infrastructure/mandates/in_memory.py\<close>): snapshots of digital twins and of their health,
  monitoring runs and exceptions, each under its tenant. The operations hold one lock and are single
  steps. Timestamps are microseconds on the scale of \<open>toordinal\<close>; the producer of a snapshot is not
  stored and left out.
\<close>


section \<open>Definitions\<close>

datatype MonitoringRunStatus = RUN_SUCCEEDED | RUN_FAILED

record DpmMonitoringRun =
  mo_monitoring_run_id :: string
  mo_tenant_id :: string
  mo_as_of_date :: date
  mo_requested_at :: int
  mo_completed_at :: "int option"
  mo_status :: MonitoringRunStatus
  mo_mandate_ids :: "string list"
  mo_filters :: "(string, string) dict"
  mo_total_mandates :: nat
  mo_health_distribution :: "(string, nat) dict"
  mo_exception_count :: nat
  mo_source_readiness_summary :: "(string, nat) dict"
  mo_failure_reason :: "string option"

record InMemoryDpmMandateRepository =
  mandates_by_key :: "(string \<times> string \<times> string \<times> date, DpmMandateDigitalTwin) dict"
  health_snapshots :: "(string \<times> string, DpmMandateHealthSnapshot) dict"
  monitoring_runs :: "(string, DpmMonitoringRun) dict"
  monitoring_exceptions :: "(string \<times> string, DpmMonitoringException) dict"

definition empty_mandate_repository :: InMemoryDpmMandateRepository where
  "empty_mandate_repository =
     \<lparr> mandates_by_key = [], health_snapshots = [], monitoring_runs = [], monitoring_exceptions = [] \<rparr>"

text \<open>\<open>re.compile("^[0-9]+$").fullmatch\<close>\<close>

definition mandate_version_numeric :: "string \<Rightarrow> bool" where
  "mandate_version_numeric v \<longleftrightarrow> v \<noteq> [] \<and> (\<forall>c \<in> set v. CHR ''0'' \<le> c \<and> c \<le> CHR ''9'')"

definition mandate_version_sort_key :: "string \<Rightarrow> nat \<times> nat \<times> string \<times> string" where
  "mandate_version_sort_key v =
     (if mandate_version_numeric v
      then let stripped = dropWhile (\<lambda>c. c = CHR ''0'') v; digits = (if stripped = [] then ''0'' else stripped)
           in (1, length digits, digits, v)
      else (0, 0, '''', v))"

text \<open>\<open>max(rows, key=...)\<close> of a non-empty list: the first row with the greatest key.\<close>

fun max_row :: "('a \<Rightarrow> 'k :: linorder) \<Rightarrow> 'a \<Rightarrow> 'a list \<Rightarrow> 'a" where
  "max_row key best [] = best"
| "max_row key best (r # rs) = max_row key (if key best < key r then r else best) rs"

definition latest_row :: "('a \<Rightarrow> 'k :: linorder) \<Rightarrow> 'a list \<Rightarrow> 'a option" where
  "latest_row key rows = (case rows of [] \<Rightarrow> None | r # rs \<Rightarrow> Some (max_row key r rs))"

definition twin_key :: "DpmMandateDigitalTwin \<Rightarrow> date \<times> (nat \<times> nat \<times> string \<times> string) \<times> string" where
  "twin_key row = (mt_as_of_date row, mandate_version_sort_key (mt_mandate_version row), mt_mandate_id row)"

definition latest_twin :: "DpmMandateDigitalTwin list \<Rightarrow> DpmMandateDigitalTwin option" where
  "latest_twin rows = latest_row twin_key rows"

definition save_mandate_snapshot ::
  "DpmMandateDigitalTwin \<Rightarrow> string \<Rightarrow> InMemoryDpmMandateRepository \<Rightarrow> InMemoryDpmMandateRepository" where
  "save_mandate_snapshot twin tenant repo =
     repo\<lparr> mandates_by_key :=
       dict_set (tenant, mt_mandate_id twin, mt_mandate_version twin, mt_as_of_date twin) twin (mandates_by_key repo) \<rparr>"

definition tenant_twins ::
  "string \<Rightarrow> (DpmMandateDigitalTwin \<Rightarrow> bool) \<Rightarrow> InMemoryDpmMandateRepository \<Rightarrow> DpmMandateDigitalTwin list" where
  "tenant_twins tenant P repo = map snd (filter (\<lambda>(key, twin). fst key = tenant \<and> P twin) (mandates_by_key repo))"

definition get_latest_mandate_by_portfolio ::
  "InMemoryDpmMandateRepository \<Rightarrow> string \<Rightarrow> string \<Rightarrow> DpmMandateDigitalTwin option" where
  "get_latest_mandate_by_portfolio repo portfolio tenant =
     map_option effective_mandate_twin (latest_twin (tenant_twins tenant (\<lambda>t. mt_portfolio_id t = portfolio) repo))"

definition get_mandate_by_portfolio_as_of ::
  "InMemoryDpmMandateRepository \<Rightarrow> string \<Rightarrow> date \<Rightarrow> string \<Rightarrow> DpmMandateDigitalTwin option" where
  "get_mandate_by_portfolio_as_of repo portfolio as_of tenant =
     map_option effective_mandate_twin
       (latest_twin (tenant_twins tenant (\<lambda>t. mt_portfolio_id t = portfolio \<and> mt_as_of_date t \<le> as_of) repo))"

definition get_latest_mandate ::
  "InMemoryDpmMandateRepository \<Rightarrow> string \<Rightarrow> string \<Rightarrow> DpmMandateDigitalTwin option" where
  "get_latest_mandate repo mandate tenant =
     map_option effective_mandate_twin (latest_twin (tenant_twins tenant (\<lambda>t. mt_mandate_id t = mandate) repo))"

definition version_row_key :: "DpmMandateDigitalTwin \<Rightarrow> date \<times> (nat \<times> nat \<times> string \<times> string)" where
  "version_row_key row = (mt_as_of_date row, mandate_version_sort_key (mt_mandate_version row))"

text \<open>\<open>sorted(..., reverse=True)\<close> keeps the order of equal keys.\<close>

definition sort_descending :: "('a \<Rightarrow> 'k :: linorder) \<Rightarrow> 'a list \<Rightarrow> 'a list" where
  "sort_descending key rows = rev (sort_key key (rev rows))"

definition list_mandate_versions ::
  "InMemoryDpmMandateRepository \<Rightarrow> string \<Rightarrow> string \<Rightarrow> DpmMandateDigitalTwin list" where
  "list_mandate_versions repo mandate tenant =
     map effective_mandate_twin (sort_descending version_row_key (tenant_twins tenant (\<lambda>t. mt_mandate_id t = mandate) repo))"

definition save_health_snapshot ::
  "DpmMandateHealthSnapshot \<Rightarrow> string \<Rightarrow> InMemoryDpmMandateRepository \<Rightarrow> InMemoryDpmMandateRepository" where
  "save_health_snapshot snapshot tenant repo =
     repo\<lparr> health_snapshots := dict_set (tenant, hs_health_snapshot_id snapshot) snapshot (health_snapshots repo) \<rparr>"

definition tenant_snapshots ::
  "string \<Rightarrow> (DpmMandateHealthSnapshot \<Rightarrow> bool) \<Rightarrow> InMemoryDpmMandateRepository \<Rightarrow> DpmMandateHealthSnapshot list" where
  "tenant_snapshots tenant P repo = map snd (filter (\<lambda>(key, s). fst key = tenant \<and> P s) (health_snapshots repo))"

definition get_latest_health_snapshot ::
  "InMemoryDpmMandateRepository \<Rightarrow> string \<Rightarrow> string \<Rightarrow> DpmMandateHealthSnapshot option" where
  "get_latest_health_snapshot repo mandate tenant =
     latest_row (\<lambda>s. (hs_calculated_at s, hs_health_snapshot_id s))
       (tenant_snapshots tenant (\<lambda>s. hs_mandate_id s = mandate) repo)"

definition get_health_snapshot_as_of ::
  "InMemoryDpmMandateRepository \<Rightarrow> string \<Rightarrow> date \<Rightarrow> string \<Rightarrow> DpmMandateHealthSnapshot option" where
  "get_health_snapshot_as_of repo mandate as_of tenant =
     latest_row (\<lambda>s. (hs_as_of_date s, hs_calculated_at s, hs_health_snapshot_id s))
       (tenant_snapshots tenant (\<lambda>s. hs_mandate_id s = mandate \<and> hs_as_of_date s \<le> as_of) repo)"

definition save_monitoring_exception ::
  "DpmMonitoringException \<Rightarrow> string \<Rightarrow> InMemoryDpmMandateRepository \<Rightarrow> InMemoryDpmMandateRepository" where
  "save_monitoring_exception e tenant repo =
     repo\<lparr> monitoring_exceptions := dict_set (tenant, me_exception_id e) e (monitoring_exceptions repo) \<rparr>"

definition save_monitoring_run :: "DpmMonitoringRun \<Rightarrow> InMemoryDpmMandateRepository \<Rightarrow> InMemoryDpmMandateRepository" where
  "save_monitoring_run run repo =
     repo\<lparr> monitoring_runs := dict_set (mo_monitoring_run_id run) run (monitoring_runs repo) \<rparr>"

definition run_of_tenant :: "string \<Rightarrow> DpmMonitoringRun \<Rightarrow> bool" where
  "run_of_tenant tenant run \<longleftrightarrow>
     mo_tenant_id run = tenant \<and> dict_get (mo_filters run) ''tenant_id'' = Some (mo_tenant_id run)"

definition get_monitoring_run ::
  "InMemoryDpmMandateRepository \<Rightarrow> string \<Rightarrow> string \<Rightarrow> DpmMonitoringRun option" where
  "get_monitoring_run repo run_id tenant =
     (case dict_get (monitoring_runs repo) run_id of
        None \<Rightarrow> None | Some run \<Rightarrow> if run_of_tenant tenant run then Some run else None)"

text \<open>
  One page of rows after a cursor: an unknown cursor gives an empty last page; \<open>page[-1]\<close> raises
  when the limit is zero and rows remain.
\<close>

definition index_of :: "('a \<Rightarrow> string) \<Rightarrow> string \<Rightarrow> 'a list \<Rightarrow> nat option" where
  "index_of row_id cursor rows = List.find (\<lambda>i. row_id (rows ! i) = cursor) [0..<length rows]"

definition row_page :: "('a \<Rightarrow> string) \<Rightarrow> nat \<Rightarrow> string option \<Rightarrow> 'a list \<Rightarrow> ('a list \<times> string option) result" where
  "row_page row_id limit cursor rows =
     (case (case cursor of None \<Rightarrow> Some rows | Some c \<Rightarrow> map_option (\<lambda>i. drop (i + 1) rows) (index_of row_id c rows)) of
        None \<Rightarrow> Inr ([], None)
      | Some rest \<Rightarrow>
          let page = take limit rest
          in if limit < length rest
             then if page = [] then Inl IndexError else Inr (page, Some (row_id (last page)))
             else Inr (page, None))"

definition list_monitoring_runs ::
  "InMemoryDpmMandateRepository \<Rightarrow> MonitoringRunStatus option \<Rightarrow> nat \<Rightarrow> string option \<Rightarrow> string
     \<Rightarrow> (DpmMonitoringRun list \<times> string option) result" where
  "list_monitoring_runs repo status limit cursor tenant =
     row_page mo_monitoring_run_id limit cursor
       (sort_descending (\<lambda>r. (mo_requested_at r, mo_monitoring_run_id r))
          (filter (\<lambda>r. status = None \<or> status = Some (mo_status r))
             (filter (run_of_tenant tenant) (dict_values (monitoring_runs repo)))))"

definition matches_optional_filter :: "'a \<Rightarrow> 'a option \<Rightarrow> bool" where
  "matches_optional_filter v expected \<longleftrightarrow> expected = None \<or> expected = Some v"

definition monitoring_exception_matches ::
  "string option \<Rightarrow> string option \<Rightarrow> string option \<Rightarrow> ExceptionState option \<Rightarrow> DpmMonitoringException \<Rightarrow> bool" where
  "monitoring_exception_matches run_id mandate portfolio state row \<longleftrightarrow>
     (run_id = None \<or> me_monitoring_run_id row = run_id)
     \<and> matches_optional_filter (me_mandate_id row) mandate
     \<and> matches_optional_filter (me_portfolio_id row) portfolio
     \<and> matches_optional_filter (me_state row) state"

definition filtered_monitoring_exceptions ::
  "DpmMonitoringException list \<Rightarrow> string option \<Rightarrow> string option \<Rightarrow> string option \<Rightarrow> ExceptionState option
     \<Rightarrow> DpmMonitoringException list" where
  "filtered_monitoring_exceptions rows run_id mandate portfolio state =
     sort_descending (\<lambda>r. (me_detected_at r, me_exception_id r))
       (filter (monitoring_exception_matches run_id mandate portfolio state) rows)"

definition monitoring_exception_cursor_index :: "DpmMonitoringException list \<Rightarrow> string \<Rightarrow> nat option" where
  "monitoring_exception_cursor_index rows cursor = index_of me_exception_id cursor rows"

definition monitoring_exception_page ::
  "DpmMonitoringException list \<Rightarrow> nat \<Rightarrow> string option \<Rightarrow> (DpmMonitoringException list \<times> string option) result" where
  "monitoring_exception_page rows limit cursor = row_page me_exception_id limit cursor rows"

definition list_monitoring_exceptions ::
  "InMemoryDpmMandateRepository \<Rightarrow> string option \<Rightarrow> string option \<Rightarrow> string option \<Rightarrow> ExceptionState option \<Rightarrow> nat
     \<Rightarrow> string option \<Rightarrow> string \<Rightarrow> (DpmMonitoringException list \<times> string option) result" where
  "list_monitoring_exceptions repo run_id mandate portfolio state limit cursor tenant =
     monitoring_exception_page
       (filtered_monitoring_exceptions
          (map snd (filter (\<lambda>(key, e). fst key = tenant) (monitoring_exceptions repo))) run_id mandate portfolio state)
       limit cursor"

definition resolve_monitoring_exception ::
  "InMemoryDpmMandateRepository \<Rightarrow> string \<Rightarrow> int \<Rightarrow> string \<Rightarrow> string
     \<Rightarrow> InMemoryDpmMandateRepository \<times> DpmMonitoringException option" where
  "resolve_monitoring_exception repo eid resolved_at reason tenant =
     (case dict_get (monitoring_exceptions repo) (tenant, eid) of
        None \<Rightarrow> (repo, None)
      | Some e \<Rightarrow>
          let resolved = e\<lparr> me_state := EXCEPTION_RESOLVED, me_resolved_at := Some resolved_at,
                            me_resolution_reason := Some reason \<rparr>
          in (repo\<lparr> monitoring_exceptions := dict_set (tenant, eid) resolved (monitoring_exceptions repo) \<rparr>,
              Some resolved))"

text \<open>Midnight UTC of a date, on the time scale of the timestamps.\<close>

definition midnight :: "date \<Rightarrow> int" where
  "midnight d = toordinal d * 86400000000"

definition stale_mandate_keys ::
  "(string \<times> string \<times> string \<times> date, DpmMandateDigitalTwin) dict \<Rightarrow> int \<Rightarrow> (string \<times> string \<times> string \<times> date) list" where
  "stale_mandate_keys mandates cutoff = map fst (filter (\<lambda>(_, twin). midnight (mt_as_of_date twin) < cutoff) mandates)"

definition stale_health_snapshot_keys ::
  "(string \<times> string, DpmMandateHealthSnapshot) dict \<Rightarrow> int \<Rightarrow> (string \<times> string) list" where
  "stale_health_snapshot_keys snapshots cutoff = map fst (filter (\<lambda>(_, s). hs_calculated_at s < cutoff) snapshots)"

definition stale_monitoring_run_keys :: "(string, DpmMonitoringRun) dict \<Rightarrow> int \<Rightarrow> string list" where
  "stale_monitoring_run_keys runs cutoff = map fst (filter (\<lambda>(_, r). mo_requested_at r < cutoff) runs)"

definition stale_resolved_exception_keys ::
  "(string \<times> string, DpmMonitoringException) dict \<Rightarrow> int \<Rightarrow> (string \<times> string) list" where
  "stale_resolved_exception_keys exceptions cutoff =
     map fst (filter (\<lambda>(_, e). me_detected_at e < cutoff \<and> (me_state e = EXCEPTION_RESOLVED \<or> me_resolved_at e \<noteq> None))
       exceptions)"

definition purge_mandate_records_before ::
  "InMemoryDpmMandateRepository \<Rightarrow> int \<Rightarrow> InMemoryDpmMandateRepository \<times> nat" where
  "purge_mandate_records_before repo cutoff =
     (let mandate_keys = stale_mandate_keys (mandates_by_key repo) cutoff;
          health_keys = stale_health_snapshot_keys (health_snapshots repo) cutoff;
          run_keys = stale_monitoring_run_keys (monitoring_runs repo) cutoff;
          exception_keys = stale_resolved_exception_keys (monitoring_exceptions repo) cutoff
      in (\<lparr> mandates_by_key = fold AList.delete mandate_keys (mandates_by_key repo),
            health_snapshots = fold AList.delete health_keys (health_snapshots repo),
            monitoring_runs = fold AList.delete run_keys (monitoring_runs repo),
            monitoring_exceptions = fold AList.delete exception_keys (monitoring_exceptions repo) \<rparr>,
          length mandate_keys + length health_keys + length run_keys + length exception_keys))"

section \<open>Lemmas\<close>

subsection \<open>Versions\<close>

definition is_digit :: "char \<Rightarrow> bool" where
  "is_digit c \<longleftrightarrow> CHR ''0'' \<le> c \<and> c \<le> CHR ''9''"

definition digit_value :: "char \<Rightarrow> nat" where
  "digit_value c = of_char c - 48"

lemma is_digit_code: "is_digit c \<longleftrightarrow> 48 \<le> (of_char c :: nat) \<and> (of_char c :: nat) \<le> 57"
  by (simp add: is_digit_def less_eq_char_def)

lemma digit_value_bound: "is_digit c \<Longrightarrow> digit_value c \<le> 9"
  unfolding is_digit_code digit_value_def by linarith

lemma digit_value_order:
  assumes "is_digit c" and "is_digit d"
  shows "c < d \<longleftrightarrow> digit_value c < digit_value d" and "c = d \<longleftrightarrow> digit_value c = digit_value d"
proof -
  show "c < d \<longleftrightarrow> digit_value c < digit_value d"
    using assms by (auto simp: is_digit_code digit_value_def less_char_def)
  show "c = d \<longleftrightarrow> digit_value c = digit_value d"
    using assms by (auto simp: is_digit_code digit_value_def) (metis of_char_eq_iff le_add_diff_inverse)
qed

text \<open>The number a string of decimal digits denotes, most significant digit first.\<close>

fun digits_value :: "string \<Rightarrow> nat" where
  "digits_value [] = 0"
| "digits_value (c # s) = digit_value c * 10 ^ length s + digits_value s"

lemma digits_value_bound: "list_all is_digit s \<Longrightarrow> digits_value s < 10 ^ length s"
proof (induction s)
  case (Cons c s)
  then have "digit_value c * 10 ^ length s \<le> 9 * 10 ^ length s"
    using digit_value_bound by (intro mult_le_mono1) simp
  moreover have "digits_value s < 10 ^ length s" using Cons by simp
  ultimately have "digits_value (c # s) < 9 * 10 ^ length s + 10 ^ length s"
    unfolding digits_value.simps by linarith
  then show ?case by simp
qed simp

lemma leading_digit_less:
  fixes a b x y n :: nat
  assumes "x < n" and "y < n"
  shows "a * n + x < b * n + y \<longleftrightarrow> a < b \<or> a = b \<and> x < y" and "a * n + x = b * n + y \<longleftrightarrow> a = b \<and> x = y"
proof -
  have less: "a * n + x < b * n + y" if "a < b" "x < n" for a b x y
  proof -
    have "(a + 1) * n \<le> b * n" using that by (intro mult_le_mono1) simp
    with that show ?thesis by simp
  qed
  show "a * n + x < b * n + y \<longleftrightarrow> a < b \<or> a = b \<and> x < y" and "a * n + x = b * n + y \<longleftrightarrow> a = b \<and> x = y"
    using less [of a b x y] less [of b a y x] assms by (cases a b rule: linorder_cases; auto)+
qed

lemma digits_value_order:
  assumes "length xs = length ys" and "list_all is_digit xs" and "list_all is_digit ys"
  shows "(xs < ys \<longleftrightarrow> digits_value xs < digits_value ys) \<and> (xs = ys \<longleftrightarrow> digits_value xs = digits_value ys)"
  using assms
proof (induction xs ys rule: list_induct2)
  case (Cons x xs y ys)
  then have bounds: "digits_value xs < 10 ^ length ys" "digits_value ys < 10 ^ length ys"
    using digits_value_bound [of xs] digits_value_bound [of ys] by simp_all
  from Cons show ?case
    using leading_digit_less [OF bounds] digit_value_order [of x y] by (auto simp: less_list_code)
qed simp

definition significant :: "string \<Rightarrow> string" where
  "significant v = (let s = dropWhile (\<lambda>c. c = CHR ''0'') v in if s = [] then ''0'' else s)"

lemma digit_value_zero: "digit_value (CHR ''0'') = 0"
  by (simp add: digit_value_def)

lemma digits_value_significant: "digits_value (significant v) = digits_value v"
proof -
  have "digits_value (dropWhile (\<lambda>c. c = CHR ''0'') v) = digits_value v"
    by (induction v) (simp_all add: digit_value_zero)
  then show ?thesis by (cases "dropWhile (\<lambda>c. c = CHR ''0'') v") (simp_all add: significant_def digit_value_zero)
qed

lemma significant_digits: "list_all is_digit v \<Longrightarrow> list_all is_digit (significant v)"
  by (auto simp: significant_def Let_def list_all_iff is_digit_code dest: set_dropWhileD)

lemma significant_large:
  assumes "list_all is_digit v" and "1 < length (significant v)"
  shows "10 ^ (length (significant v) - 1) \<le> digits_value (significant v)"
proof -
  obtain c s where cs: "dropWhile (\<lambda>c. c = CHR ''0'') v = c # s"
    using assms(2) by (cases "dropWhile (\<lambda>c. c = CHR ''0'') v") (auto simp: significant_def)
  then have sig: "significant v = c # s" and "c \<noteq> CHR ''0''"
    using hd_dropWhile [of "\<lambda>c. c = CHR ''0''" v] by (simp_all add: significant_def)
  moreover have "is_digit c" using significant_digits [OF assms(1)] sig by simp
  ultimately have "1 \<le> digit_value c"
    using digit_value_order(2) [of c "CHR ''0''"] digit_value_zero by (auto simp: is_digit_code Suc_le_eq)
  then have "1 * 10 ^ length s \<le> digit_value c * 10 ^ length s" by (intro mult_le_mono1)
  then have "10 ^ length s \<le> digits_value (c # s)" unfolding digits_value.simps by linarith
  then show ?thesis by (simp add: sig)
qed

text \<open>Length first and then the digits is the order of the numbers.\<close>

lemma significant_order:
  assumes "list_all is_digit a" and "list_all is_digit b"
  shows "(length (significant a), significant a) < (length (significant b), significant b)
      \<longleftrightarrow> digits_value a < digits_value b"
    and "significant a = significant b \<longleftrightarrow> digits_value a = digits_value b"
proof -
  let ?a = "significant a" and ?b = "significant b"
  note digits = significant_digits [OF assms(1)] significant_digits [OF assms(2)]
  have shorter: "digits_value x < digits_value y"
    if "length (significant x) < length (significant y)" "list_all is_digit x" "list_all is_digit y" for x y
  proof -
    have "0 < length (significant x)" by (simp add: significant_def Let_def)
    then have "1 < length (significant y)" using that(1) by linarith
    then have "10 ^ (length (significant y) - 1) \<le> digits_value (significant y)" by (rule significant_large [OF that(3)])
    moreover have "(10 :: nat) ^ length (significant x) \<le> 10 ^ (length (significant y) - 1)"
      using that(1) by (intro power_increasing) simp_all
    moreover have "digits_value (significant x) < 10 ^ length (significant x)"
      by (rule digits_value_bound [OF significant_digits [OF that(2)]])
    ultimately have "digits_value (significant x) < digits_value (significant y)" by linarith
    then show ?thesis by (simp add: digits_value_significant)
  qed
  consider "length ?a < length ?b" | "length ?b < length ?a" | "length ?a = length ?b" by linarith
  then have "((length ?a, ?a) < (length ?b, ?b) \<longleftrightarrow> digits_value a < digits_value b)
      \<and> (?a = ?b \<longleftrightarrow> digits_value a = digits_value b)"
  proof cases
    case 1
    with shorter [OF 1 assms] show ?thesis by auto
  next
    case 2
    with shorter [OF 2 assms(2,1)] show ?thesis by auto
  next
    case 3
    with digits_value_order [OF 3 digits] show ?thesis by (simp add: digits_value_significant)
  qed
  then show "(length ?a, ?a) < (length ?b, ?b) \<longleftrightarrow> digits_value a < digits_value b"
    and "?a = ?b \<longleftrightarrow> digits_value a = digits_value b" by blast+
qed

lemma mandate_version_numeric_digits: "mandate_version_numeric v \<longleftrightarrow> v \<noteq> [] \<and> list_all is_digit v"
  by (auto simp: mandate_version_numeric_def is_digit_def list_all_iff)

lemma mandate_version_sort_key_significant:
  "mandate_version_sort_key v =
     (if mandate_version_numeric v then (1, length (significant v), significant v, v) else (0, 0, '''', v))"
  by (simp add: mandate_version_sort_key_def significant_def Let_def)

lemma version_key_inj: "mandate_version_sort_key a = mandate_version_sort_key b \<longleftrightarrow> a = b"
  by (auto simp: mandate_version_sort_key_significant split: if_splits)

subsection \<open>The latest row\<close>

lemma max_row_props: "max_row key best rs \<in> set (best # rs) \<and> (\<forall>r \<in> set (best # rs). key r \<le> key (max_row key best rs))"
  by (induction rs arbitrary: best) (force split: if_splits)+

lemma latest_row_None [simp]: "latest_row key rows = None \<longleftrightarrow> rows = []"
  by (simp add: latest_row_def split: list.splits)

lemma latest_row_Some:
  assumes "latest_row key rows = Some r"
  shows "r \<in> set rows" and "s \<in> set rows \<Longrightarrow> key s \<le> key r"
  using assms max_row_props [of key "hd rows" "tl rows"] by (auto simp: latest_row_def split: list.splits)

lemma latest_row_unique:
  assumes "r \<in> set rows" and "\<And>s. s \<in> set rows \<Longrightarrow> key s \<le> key r" and "inj_on key (set rows)"
  shows "latest_row key rows = Some r"
proof (cases "latest_row key rows")
  case (Some m)
  then have "key m = key r" using latest_row_Some [OF Some] assms(1,2) by (meson antisym)
  then show ?thesis using Some latest_row_Some(1) [OF Some] assms(1,3) by (auto dest: inj_onD)
qed (use assms(1) in auto)

text \<open>Every snapshot is stored under its own identity.\<close>

definition mandate_store_ok :: "InMemoryDpmMandateRepository \<Rightarrow> bool" where
  "mandate_store_ok repo \<longleftrightarrow>
     dict_ok (mandates_by_key repo)
     \<and> (\<forall>(key, twin) \<in> set (mandates_by_key repo).
          snd key = (mt_mandate_id twin, mt_mandate_version twin, mt_as_of_date twin))"

lemma save_mandate_store_ok:
  "mandate_store_ok repo \<Longrightarrow> mandate_store_ok (save_mandate_snapshot twin t repo)"
  by (auto simp: mandate_store_ok_def save_mandate_snapshot_def dest!: dict_set_mem)

lemma stored_key:
  assumes "mandate_store_ok repo" and "(key, twin) \<in> set (mandates_by_key repo)"
  shows "snd key = (mt_mandate_id twin, mt_mandate_version twin, mt_as_of_date twin)"
  using assms unfolding mandate_store_ok_def by blast

lemma tenant_twins_mem:
  "twin \<in> set (tenant_twins t P repo) \<longleftrightarrow> (\<exists>k. ((t, k), twin) \<in> set (mandates_by_key repo) \<and> P twin)"
  by (force simp: tenant_twins_def)

lemma tenant_twins_inj:
  assumes "mandate_store_ok repo"
  shows "inj_on twin_key (set (tenant_twins t P repo))"
proof (rule inj_onI)
  fix x y assume "x \<in> set (tenant_twins t P repo)" and "y \<in> set (tenant_twins t P repo)" and key: "twin_key x = twin_key y"
  then obtain k l where mem: "((t, k), x) \<in> set (mandates_by_key repo)" "((t, l), y) \<in> set (mandates_by_key repo)"
    by (auto simp: tenant_twins_mem)
  have "k = (mt_mandate_id x, mt_mandate_version x, mt_as_of_date x)"
    and "l = (mt_mandate_id y, mt_mandate_version y, mt_as_of_date y)"
    using mem [THEN stored_key [OF assms]] by simp_all
  then have "k = l" using key by (simp add: twin_key_def version_key_inj)
  moreover have "dict_ok (mandates_by_key repo)" using assms by (simp add: mandate_store_ok_def)
  ultimately show "x = y" using mem by (simp add: eq_key_imp_eq_value)
qed

text \<open>A dictionary write, as a set of entries.\<close>

lemma dict_set_entries:
  assumes "dict_ok d"
  shows "set (dict_set k v d) = insert (k, v) {kv \<in> set d. fst kv \<noteq> k}"
proof -
  have "map_of (dict_set k v d) = (map_of d)(k \<mapsto> v)" by (simp add: update_conv')
  then have "(l, w) \<in> set (dict_set k v d) \<longleftrightarrow> (l, w) \<in> insert (k, v) {kv \<in> set d. fst kv \<noteq> k}" for l w
    using map_of_eq_Some_iff [of "dict_set k v d" l w] map_of_eq_Some_iff [of d l w] assms
    by (auto simp: fun_upd_def split: if_splits)
  then show ?thesis by auto
qed

lemma tenant_twins_save:
  assumes "mandate_store_ok repo"
  shows "set (tenant_twins t' P (save_mandate_snapshot twin t repo)) =
    (if t' = t \<and> P twin then {twin} else {})
    \<union> {x \<in> set (tenant_twins t' P repo). \<not> (t' = t \<and> mt_mandate_id x = mt_mandate_id twin
          \<and> mt_mandate_version x = mt_mandate_version twin \<and> mt_as_of_date x = mt_as_of_date twin)}"
proof -
  let ?key = "(mt_mandate_id twin, mt_mandate_version twin, mt_as_of_date twin)"
  have ok: "dict_ok (mandates_by_key repo)" using assms by (simp add: mandate_store_ok_def)
  have saved: "x \<in> set (tenant_twins t' P (save_mandate_snapshot twin t repo)) \<longleftrightarrow>
      (x = twin \<and> t' = t \<and> P twin) \<or> (\<exists>k. ((t', k), x) \<in> set (mandates_by_key repo) \<and> P x \<and> (t', k) \<noteq> (t, ?key))" for x
  proof -
    have "((t', k), x) \<in> set (mandates_by_key (save_mandate_snapshot twin t repo)) \<longleftrightarrow>
        t' = t \<and> k = ?key \<and> x = twin \<or> ((t', k), x) \<in> set (mandates_by_key repo) \<and> (t', k) \<noteq> (t, ?key)" for k
      unfolding save_mandate_snapshot_def by (simp add: dict_set_entries [OF ok])
    then show ?thesis unfolding tenant_twins_mem by blast
  qed
  have "(\<exists>k. ((t', k), x) \<in> set (mandates_by_key repo) \<and> P x \<and> (t', k) \<noteq> (t, ?key))
      \<longleftrightarrow> x \<in> set (tenant_twins t' P repo)
        \<and> \<not> (t' = t \<and> (mt_mandate_id x, mt_mandate_version x, mt_as_of_date x) = ?key)" for x
    unfolding tenant_twins_mem using stored_key [OF assms, where twin = x] by (metis prod.inject snd_conv)
  then show ?thesis using saved by auto
qed


subsection \<open>Pages\<close>

text \<open>A client that reads page after page until there is no next cursor.\<close>

partial_function (option) collect_pages ::
  "(string option \<Rightarrow> ('a list \<times> string option) result) \<Rightarrow> string option \<Rightarrow> 'a list option" where
  "collect_pages fetch cursor =
     (case fetch cursor of
        Inl _ \<Rightarrow> None
      | Inr (page, next_cursor) \<Rightarrow>
          (case next_cursor of
             None \<Rightarrow> Some page
           | Some c \<Rightarrow> Option.bind (collect_pages fetch (Some c)) (\<lambda>rest. Some (page @ rest))))"

lemma index_of_nth:
  assumes "distinct (map row_id rows)" and "i < length rows"
  shows "index_of row_id (row_id (rows ! i)) rows = Some i"
proof -
  have "List.find (\<lambda>j. row_id (rows ! j) = row_id (rows ! i)) [0..<length rows] = Some i"
    unfolding find_Some_iff using assms
    by (auto intro!: exI [of _ i] simp: distinct_conv_nth)
  then show ?thesis by (simp add: index_of_def)
qed

lemma collect_rest:
  assumes "distinct (map row_id rows)" and "0 < limit"
    and "fetch = (\<lambda>c. row_page row_id limit c rows)"
    and "(case cursor of None \<Rightarrow> Some rows | Some c \<Rightarrow> map_option (\<lambda>i. drop (i + 1) rows) (index_of row_id c rows)) = Some rest"
    and "rest = drop k rows"
  shows "collect_pages fetch cursor = Some rest"
  using assms
proof (induction "length rest" arbitrary: cursor rest k rule: less_induct)
  case less
  show ?case
  proof (cases "limit < length rest")
    case False
    then have "fetch cursor = Inr (rest, None)"
      using less.prems(4) unfolding less.prems(3) row_page_def by (simp add: Let_def)
    then show ?thesis by (subst collect_pages.simps) simp
  next
    case True
    let ?page = "take limit rest"
    have page: "?page \<noteq> []" using True less.prems(2) by (metis length_greater_0_conv less_trans take_eq_Nil2 not_less0)
    have last: "last ?page = rows ! (k + limit - 1)" and idx: "k + limit - 1 < length rows"
      using True less.prems(2,5) page by (auto simp: last_conv_nth min_def)
    let ?c = "row_id (last ?page)"
    have fetch: "fetch cursor = Inr (?page, Some ?c)"
      using less.prems(4) True page unfolding less.prems(3) row_page_def by (simp add: Let_def)
    have "index_of row_id ?c rows = Some (k + limit - 1)"
      unfolding last by (rule index_of_nth [OF less.prems(1) idx])
    then have rest: "map_option (\<lambda>i. drop (i + 1) rows) (index_of row_id ?c rows) = Some (drop limit rest)"
      using less.prems(2,5) by (simp add: add.commute)
    have "collect_pages fetch (Some ?c) = Some (drop limit rest)"
      using less.hyps [of "drop limit rest" "Some ?c" "limit + k"] less.prems True rest by (simp add: add.commute)
    with fetch show ?thesis by (subst collect_pages.simps) simp
  qed
qed

lemma collect_all:
  assumes "distinct (map row_id rows)" and "0 < limit"
  shows "collect_pages (\<lambda>c. row_page row_id limit c rows) None = Some rows"
  using collect_rest [OF assms refl, of None rows 0] by simp

subsection \<open>Descending order and purging\<close>

lemma sort_descending_set [simp]: "set (sort_descending key rows) = set rows"
  by (simp add: sort_descending_def)

lemma sort_descending_ids:
  "distinct (map f (sort_descending key rows)) \<longleftrightarrow> distinct (map f rows)"
proof -
  have "mset (map f (sort_descending key rows)) = mset (map f rows)"
    by (simp add: sort_descending_def)
  then show ?thesis by (metis mset_eq_imp_distinct_iff)
qed

lemma sort_descending_sorted: "sorted_wrt (\<lambda>a b. key b \<le> key a) (sort_descending key rows)"
proof -
  have "sorted (map key (sort_key key (rev rows)))" by simp
  then show ?thesis by (simp add: sort_descending_def sorted_wrt_rev sorted_map)
qed

lemma fold_delete: "fold AList.delete ks d = filter (\<lambda>kv. fst kv \<notin> set ks) d"
  by (induction ks arbitrary: d) (auto simp: AList.delete_eq intro: filter_cong)

lemma purge_table:
  assumes "dict_ok d"
  shows "fold AList.delete (map fst (filter stale d)) d = filter (\<lambda>kv. \<not> stale kv) d"
proof -
  have "fst kv \<in> set (map fst (filter stale d)) \<longleftrightarrow> stale kv" if "kv \<in> set d" for kv
    using assms that by (auto simp: eq_key_imp_eq_value) (metis eq_key_imp_eq_value surjective_pairing)
  then show ?thesis by (simp add: fold_delete cong: filter_cong)
qed

lemma latest_row_cong:
  assumes "set rows = set rows'" and "inj_on key (set rows)"
  shows "latest_row key rows = latest_row key rows'"
proof (cases "latest_row key rows'")
  case None
  with assms(1) show ?thesis by simp
next
  case (Some r)
  with latest_row_Some [OF Some] assms show ?thesis by (auto intro: latest_row_unique)
qed

text \<open>Every exception is stored under its own identifier.\<close>

definition exception_store_ok :: "InMemoryDpmMandateRepository \<Rightarrow> bool" where
  "exception_store_ok repo \<longleftrightarrow>
     dict_ok (monitoring_exceptions repo) \<and> (\<forall>(key, e) \<in> set (monitoring_exceptions repo). snd key = me_exception_id e)"

lemma tenant_exceptions_distinct:
  assumes "exception_store_ok repo"
  shows "distinct (map me_exception_id (map snd (filter (\<lambda>(key, e). fst key = t) (monitoring_exceptions repo))))"
proof -
  let ?rows = "filter (\<lambda>(key, e). fst key = t) (monitoring_exceptions repo)"
  have "distinct (map fst ?rows)" using assms by (simp add: exception_store_ok_def distinct_map_filter)
  moreover have "map fst ?rows = map (\<lambda>row. (t, me_exception_id (snd row))) ?rows"
    using assms by (fastforce simp: exception_store_ok_def)
  ultimately have "distinct (map (\<lambda>row. (t, me_exception_id (snd row))) ?rows)" by simp
  then show ?thesis by (simp add: distinct_map o_def inj_on_def)
qed


section \<open>Properties\<close>

text \<open>
  Versions are ordered as numbers. Comparing the length of the significant digits and then the
  digits, without ever converting them, orders numeric versions by their value and equal values by
  their text; any other version comes before every numeric one; no two versions are equal.
\<close>

theorem version_order_numeric:
  "(mandate_version_numeric a \<and> mandate_version_numeric b \<longrightarrow>
      (mandate_version_sort_key a < mandate_version_sort_key b \<longleftrightarrow>
         digits_value a < digits_value b \<or> digits_value a = digits_value b \<and> a < b))
   \<and> (\<not> mandate_version_numeric a \<and> mandate_version_numeric b \<longrightarrow> mandate_version_sort_key a < mandate_version_sort_key b)
   \<and> (mandate_version_sort_key a = mandate_version_sort_key b \<longleftrightarrow> a = b)"
proof -
  have "mandate_version_sort_key a < mandate_version_sort_key b \<longleftrightarrow>
      digits_value a < digits_value b \<or> digits_value a = digits_value b \<and> a < b"
    if "mandate_version_numeric a" "mandate_version_numeric b"
    using significant_order [of a b] that
    by (auto simp: mandate_version_sort_key_significant mandate_version_numeric_digits)
  then show ?thesis by (auto simp: version_key_inj mandate_version_sort_key_significant)
qed

theorem version_order_numeric_witness:
  "mandate_version_sort_key ''9'' < mandate_version_sort_key ''10''
   \<and> mandate_version_sort_key ''v2'' < mandate_version_sort_key ''007''"
proof -
  have "mandate_version_numeric ''9''" "mandate_version_numeric ''10''" "mandate_version_numeric ''007''"
    "\<not> mandate_version_numeric ''v2''" and "digits_value ''9'' < digits_value ''10''"
    by code_simp+
  with version_order_numeric [of "''9''" "''10''"] version_order_numeric [of "''v2''" "''007''"] show ?thesis by blast
qed

text \<open>
  Reading back a saved mandate. Saving a snapshot keeps the store well formed and changes no
  other tenant's reads. If no stored snapshot of the mandate is newer, the saved one is read back,
  with its limits projected; if one is newer, that one is still read.
\<close>

theorem latest_mandate_after_save:
  assumes "mandate_store_ok repo"
  shows "mandate_store_ok (save_mandate_snapshot twin t repo)
    \<and> (t' \<noteq> t \<longrightarrow> get_latest_mandate (save_mandate_snapshot twin t repo) m t' = get_latest_mandate repo m t')
    \<and> ((\<forall>x \<in> set (tenant_twins t (\<lambda>x. mt_mandate_id x = mt_mandate_id twin) repo). twin_key x \<le> twin_key twin) \<longrightarrow>
         get_latest_mandate (save_mandate_snapshot twin t repo) (mt_mandate_id twin) t = Some (effective_mandate_twin twin))
    \<and> (\<forall>x \<in> set (tenant_twins t (\<lambda>x. mt_mandate_id x = mt_mandate_id twin) repo). twin_key twin < twin_key x \<longrightarrow>
         get_latest_mandate (save_mandate_snapshot twin t repo) (mt_mandate_id twin) t
           = get_latest_mandate repo (mt_mandate_id twin) t)"
proof (intro conjI impI ballI)
  let ?saved = "save_mandate_snapshot twin t repo"
  note ok = save_mandate_store_ok [OF assms, of twin t]
  show "mandate_store_ok ?saved" by (rule ok)
  let ?own = "\<lambda>x. mt_mandate_id x = mt_mandate_id twin"
  note rows = tenant_twins_save [OF assms]
  show "get_latest_mandate ?saved m t' = get_latest_mandate repo m t'" if "t' \<noteq> t"
    unfolding get_latest_mandate_def latest_twin_def
    using that by (intro arg_cong [of _ _ "map_option effective_mandate_twin"] latest_row_cong)
      (simp_all add: rows tenant_twins_inj [OF assms])
  show "get_latest_mandate ?saved (mt_mandate_id twin) t = Some (effective_mandate_twin twin)"
    if newest: "\<forall>x \<in> set (tenant_twins t ?own repo). twin_key x \<le> twin_key twin"
  proof -
    have "latest_row twin_key (tenant_twins t ?own ?saved) = Some twin"
    proof (rule latest_row_unique [OF _ _ tenant_twins_inj [OF ok]])
      show "twin \<in> set (tenant_twins t ?own ?saved)" by (simp add: rows)
      show "twin_key y \<le> twin_key twin" if "y \<in> set (tenant_twins t ?own ?saved)" for y
        using that newest unfolding rows by auto
    qed
    then show ?thesis by (simp add: get_latest_mandate_def latest_twin_def)
  qed
  show "get_latest_mandate ?saved (mt_mandate_id twin) t = get_latest_mandate repo (mt_mandate_id twin) t"
    if x: "x \<in> set (tenant_twins t ?own repo)" "twin_key twin < twin_key x" for x
  proof (cases "latest_row twin_key (tenant_twins t ?own repo)")
    case (Some top_row)
    have above: "twin_key twin < twin_key top_row" using latest_row_Some(2) [OF Some x(1)] x(2) by simp
    then have "top_row \<in> set (tenant_twins t ?own ?saved)"
      using latest_row_Some(1) [OF Some] unfolding rows by (auto simp: twin_key_def)
    moreover have "twin_key y \<le> twin_key top_row" if "y \<in> set (tenant_twins t ?own ?saved)" for y
      using that latest_row_Some(2) [OF Some] above unfolding rows by auto
    ultimately have "latest_row twin_key (tenant_twins t ?own ?saved) = Some top_row"
      using tenant_twins_inj [OF ok] by (intro latest_row_unique)
    with Some show ?thesis by (simp add: get_latest_mandate_def latest_twin_def)
  qed (use x in auto)
qed

definition sample_store :: InMemoryDpmMandateRepository where
  "sample_store =
     save_mandate_snapshot sample_twin ''t1''
       (save_mandate_snapshot (sample_twin\<lparr> mt_mandate_version := ''9'' \<rparr>) ''t1'' empty_mandate_repository)"

lemma empty_store_ok: "mandate_store_ok empty_mandate_repository"
  by (simp add: mandate_store_ok_def empty_mandate_repository_def)

theorem latest_mandate_after_save_witness:
  "get_latest_mandate (save_mandate_snapshot (sample_twin\<lparr> mt_mandate_version := ''10'' \<rparr>) ''t1'' sample_store) ''M1'' ''t1''
     = Some (sample_twin\<lparr> mt_mandate_version := ''10'' \<rparr>)"
proof -
  let ?new = "sample_twin\<lparr> mt_mandate_version := ''10'' \<rparr>"
  have ok: "mandate_store_ok sample_store" unfolding sample_store_def by (intro save_mandate_store_ok empty_store_ok)
  have "\<forall>x \<in> set (tenant_twins ''t1'' (\<lambda>x. mt_mandate_id x = mt_mandate_id ?new) sample_store). twin_key x \<le> twin_key ?new"
    by code_simp
  moreover have "effective_mandate_twin ?new = ?new" "mt_mandate_id ?new = ''M1''"
    by (simp_all add: effective_mandate_twin_def sample_twin_def)
  ultimately show ?thesis using latest_mandate_after_save [OF ok, of ?new "''t1''"] by simp
qed

text \<open>
  C38. Monitoring exceptions can be listed completely. A client that asks for page after page, with any
  positive limit, reaches the end and has then read every exception of the tenant that matches the
  filters exactly once, newest first.
\<close>

theorem exception_pages_complete:
  assumes "exception_store_ok repo" and "0 < limit"
  shows "\<exists>rows. collect_pages (\<lambda>c. list_monitoring_exceptions repo run_id mandate portfolio state limit c t) None = Some rows
    \<and> set rows = {e. (\<exists>i. ((t, i), e) \<in> set (monitoring_exceptions repo))
                     \<and> monitoring_exception_matches run_id mandate portfolio state e}
    \<and> distinct (map me_exception_id rows)
    \<and> sorted_wrt (\<lambda>a b. (me_detected_at b, me_exception_id b) \<le> (me_detected_at a, me_exception_id a)) rows"
proof -
  let ?own = "map snd (filter (\<lambda>(key, e). fst key = t) (monitoring_exceptions repo))"
  let ?rows = "filtered_monitoring_exceptions ?own run_id mandate portfolio state"
  have distinct: "distinct (map me_exception_id ?rows)"
    using tenant_exceptions_distinct [OF assms(1), of t]
    by (simp add: filtered_monitoring_exceptions_def sort_descending_ids distinct_map_filter)
  have "collect_pages (\<lambda>c. list_monitoring_exceptions repo run_id mandate portfolio state limit c t) None = Some ?rows"
    unfolding list_monitoring_exceptions_def monitoring_exception_page_def by (rule collect_all [OF distinct assms(2)])
  moreover have "set ?rows = {e. (\<exists>i. ((t, i), e) \<in> set (monitoring_exceptions repo))
      \<and> monitoring_exception_matches run_id mandate portfolio state e}"
    by (auto simp: filtered_monitoring_exceptions_def image_iff)
  moreover have "sorted_wrt (\<lambda>a b. (me_detected_at b, me_exception_id b) \<le> (me_detected_at a, me_exception_id a)) ?rows"
    unfolding filtered_monitoring_exceptions_def by (rule sort_descending_sorted)
  ultimately show ?thesis using distinct by blast
qed

definition sample_exception :: "string \<Rightarrow> int \<Rightarrow> DpmMonitoringException" where
  "sample_exception i at_time =
     \<lparr> me_exception_id = i, me_monitoring_run_id = None, me_mandate_id = ''M1'', me_portfolio_id = ''P1'',
       me_detected_at = at_time, me_as_of_date = (2026, 5, 3), me_dimension = WORKFLOW_READINESS,
       me_severity = SEVERITY_CRITICAL, me_reason_code = ''REBALANCE_RUN_BLOCKED'', me_state = EXCEPTION_ACTIVE,
       me_recommended_action = REVIEW_WORKFLOW, me_measured_value = None, me_threshold_value = None,
       me_budget_assessment = None, me_source_lineage = [], me_resolved_at = None, me_resolution_reason = None \<rparr>"

definition sample_exception_store :: InMemoryDpmMandateRepository where
  "sample_exception_store = fold (\<lambda>e. save_monitoring_exception e ''t1'') [sample_exception ''me_1'' 5, sample_exception ''me_2'' 7]
       empty_mandate_repository"

theorem exception_pages_complete_witness:
  "\<exists>rows. collect_pages (\<lambda>c. list_monitoring_exceptions sample_exception_store None None None (Some EXCEPTION_ACTIVE) 1 c ''t1'')
      None = Some rows \<and> distinct (map me_exception_id rows) \<and> length rows = 2"
proof -
  have ok: "exception_store_ok sample_exception_store" by code_simp
  have "(\<lambda>es. length es = 2 \<and> (\<forall>(k, e) \<in> set es. fst k = ''t1'' \<and> me_state e = EXCEPTION_ACTIVE))
      (monitoring_exceptions sample_exception_store)" by code_simp
  then have two: "length (monitoring_exceptions sample_exception_store) = 2"
    and own: "\<And>k e. (k, e) \<in> set (monitoring_exceptions sample_exception_store) \<Longrightarrow> fst k = ''t1'' \<and> me_state e = EXCEPTION_ACTIVE"
    by auto
  obtain rows where rows: "collect_pages (\<lambda>c. list_monitoring_exceptions sample_exception_store None None None
        (Some EXCEPTION_ACTIVE) 1 c ''t1'') None = Some rows"
    "set rows = {e. (\<exists>i. ((''t1'', i), e) \<in> set (monitoring_exceptions sample_exception_store))
       \<and> monitoring_exception_matches None None None (Some EXCEPTION_ACTIVE) e}"
    "distinct (map me_exception_id rows)"
    using exception_pages_complete [OF ok, of 1 None None None "Some EXCEPTION_ACTIVE" "''t1''"] by auto
  have "set rows = set (map snd (monitoring_exceptions sample_exception_store))"
    unfolding rows(2) using own by (force simp: monitoring_exception_matches_def matches_optional_filter_def)
  moreover have "distinct (map snd (monitoring_exceptions sample_exception_store))" by code_simp
  ultimately have "length rows = 2"
    using two rows(3) by (metis distinct_card distinct_map length_map)
  with rows show ?thesis by blast
qed

end
