(* ===== verification/Wave_Source_Check.thy ===== *)
theory Wave_Source_Check
  imports Wave_Lifecycle Mandate_Repository
begin

text \<open>
  The source check of a wave (\<open>src/src/core/waves/source_readiness.py\<close>,
  \<open>src/src/api/services/wave_source_readiness.py\<close>, \<open>wave_source_check.py\<close>,
  \<open>wave_preparation_commands.py: source_check_persisted_wave\<close>): every item is classified by the
  digital twin of its mandate and the latest health of that mandate. The mandate repository is given
  by the three lookups the check uses; the locale \<open>mandate_lookup\<close> states what they promise.
\<close>


section \<open>Definitions\<close>

subsection \<open>Classification\<close>

definition source_ref_of :: "string \<Rightarrow> string \<Rightarrow> string \<Rightarrow> string \<Rightarrow> string option \<Rightarrow> DpmWaveSourceRef" where
  "source_ref_of system source_type source_id source_version state =
     \<lparr> sr_source_system = system, sr_source_type = source_type, sr_source_id = source_id,
       sr_source_version = Some source_version, sr_supportability_state = state, sr_content_hash = None,
       sr_source_batch_fingerprint = None, sr_selection_basis = None \<rparr>"

definition mandate_twin_ref :: "DpmMandateDigitalTwin \<Rightarrow> DpmWaveSourceRef" where
  "mandate_twin_ref twin =
     source_ref_of ''lotus-manage'' ''MANDATE_DIGITAL_TWIN'' (mt_mandate_id twin) (mt_mandate_version twin)
       (Some (if mt_field_gap_codes twin = [] then ''READY'' else ''DEGRADED''))"

definition mandate_health_ref :: "DpmMandateHealthSnapshot \<Rightarrow> DpmWaveSourceRef" where
  "mandate_health_ref health =
     source_ref_of ''lotus-manage'' ''DPM_MANDATE_HEALTH_SNAPSHOT'' (hs_health_snapshot_id health)
       (isoformat (hs_as_of_date health)) (Some (health_state_str (hs_health_state health)))"

definition source_readiness_ref :: "DpmMandateHealthSnapshot \<Rightarrow> DpmWaveSourceRef" where
  "source_readiness_ref health =
     source_ref_of ''lotus-manage'' ''DPM_SOURCE_READINESS'' (hs_health_snapshot_id health)
       (isoformat (hs_as_of_date health)) (Some (hs_source_readiness_state health))"

definition core_lineage_refs :: "DpmMandateDigitalTwin \<Rightarrow> DpmWaveSourceRef list" where
  "core_lineage_refs twin =
     List.map_filter
       (\<lambda>l. case sl_source_record_id l of
              None \<Rightarrow> None
            | Some rid \<Rightarrow>
                if rid = '''' then None
                else Some (source_ref_of (sl_source_system l) (sl_product_name l) rid (sl_product_version l)
                             (sl_data_quality_status l)))
       (mt_source_lineage twin)"

definition source_ref_key :: "DpmWaveSourceRef \<Rightarrow> string \<times> string \<times> string \<times> string option" where
  "source_ref_key ref = (sr_source_system ref, sr_source_type ref, sr_source_id ref, sr_source_version ref)"

definition dedupe_source_refs :: "DpmWaveSourceRef list \<Rightarrow> DpmWaveSourceRef list" where
  "dedupe_source_refs refs = dict_values (dict_of (map (\<lambda>ref. (source_ref_key ref, ref)) refs))"

type_synonym SourceReadinessClassification = "WaveItemState \<times> string list \<times> (string, json) dict"

definition stale_health_classification :: "DpmMandateHealthSnapshot \<Rightarrow> string \<Rightarrow> SourceReadinessClassification" where
  "stale_health_classification health wave_as_of =
     (ITEM_SOURCE_DEGRADED, [''MANDATE_HEALTH_STALE''],
      [(''source_owner'', JStr ''lotus-manage''), (''required_action'', JStr ''REFRESH_MANDATE_HEALTH''),
       (''health_as_of_date'', JStr (isoformat (hs_as_of_date health))), (''wave_as_of_date'', JStr wave_as_of)])"

definition blocked_health_classification :: "DpmMandateHealthSnapshot \<Rightarrow> string \<Rightarrow> SourceReadinessClassification" where
  "blocked_health_classification health state =
     (ITEM_SOURCE_BLOCKED, [''MANDATE_HEALTH_BLOCKED'', ''SOURCE_READINESS_'' @ hs_source_readiness_state health],
      [(''source_owner'', JStr ''lotus-manage''), (''source_owner_upstream'', JStr ''lotus-core''),
       (''required_action'', JStr ''FIX_SOURCE_DATA''), (''health_state'', JStr state),
       (''source_readiness_state'', JStr (hs_source_readiness_state health))])"

definition degraded_health_classification :: "DpmMandateHealthSnapshot \<Rightarrow> string \<Rightarrow> SourceReadinessClassification" where
  "degraded_health_classification health state =
     (ITEM_SOURCE_DEGRADED, [''SOURCE_READINESS_DEGRADED''],
      [(''source_owner'', JStr ''lotus-manage''), (''source_owner_upstream'', JStr ''lotus-core''),
       (''required_action'', JStr ''REVIEW_SOURCE_DEGRADATION''), (''health_state'', JStr state),
       (''source_readiness_state'', JStr (hs_source_readiness_state health))])"

definition review_required_health_classification ::
  "DpmMandateHealthSnapshot \<Rightarrow> string \<Rightarrow> SourceReadinessClassification" where
  "review_required_health_classification health state =
     (ITEM_REVIEW_REQUIRED, [''MANDATE_HEALTH_PENDING_REVIEW''],
      [(''source_owner'', JStr ''lotus-manage''), (''required_action'', JStr (action_str (hs_recommended_action health))),
       (''health_state'', JStr state), (''source_readiness_state'', JStr (hs_source_readiness_state health))])"

definition ready_health_classification :: "DpmMandateHealthSnapshot \<Rightarrow> string \<Rightarrow> SourceReadinessClassification" where
  "ready_health_classification health state =
     (ITEM_SOURCE_READY, [''SOURCE_READINESS_READY''],
      [(''source_owner'', JStr ''lotus-manage''), (''health_state'', JStr state),
       (''source_readiness_state'', JStr (hs_source_readiness_state health))])"

definition health_is_stale :: "DpmMandateHealthSnapshot \<Rightarrow> string \<Rightarrow> bool" where
  "health_is_stale health wave_as_of \<longleftrightarrow> isoformat (hs_as_of_date health) < wave_as_of"

definition health_blocks_source_readiness :: "DpmMandateHealthSnapshot \<Rightarrow> string \<Rightarrow> bool" where
  "health_blocks_source_readiness health state \<longleftrightarrow>
     state = ''BLOCKED'' \<or> hs_source_readiness_state health \<in> {''INCOMPLETE'', ''UNAVAILABLE''}"

definition health_degrades_source_readiness :: "DpmMandateHealthSnapshot \<Rightarrow> bool" where
  "health_degrades_source_readiness health \<longleftrightarrow> hs_source_readiness_state health = ''DEGRADED''"

definition state_from_health :: "DpmMandateHealthSnapshot \<Rightarrow> string \<Rightarrow> SourceReadinessClassification" where
  "state_from_health health wave_as_of =
     (let state = health_state_str (hs_health_state health)
      in if health_is_stale health wave_as_of then stale_health_classification health wave_as_of
         else if health_blocks_source_readiness health state then blocked_health_classification health state
         else if health_degrades_source_readiness health then degraded_health_classification health state
         else if state = ''PENDING_REVIEW'' then review_required_health_classification health state
         else ready_health_classification health state)"

text \<open>\<open>{**d, **e}\<close>\<close>

definition dict_merge :: "('k, 'v) dict \<Rightarrow> ('k, 'v) dict \<Rightarrow> ('k, 'v) dict" where
  "dict_merge d e = fold (\<lambda>(k, v) acc. dict_set k v acc) e d"

definition classify_wave_item_source_readiness ::
  "DpmRebalanceWaveItem \<Rightarrow> string \<Rightarrow> DpmMandateDigitalTwin option \<Rightarrow> DpmMandateHealthSnapshot option
     \<Rightarrow> DpmRebalanceWaveItem" where
  "classify_wave_item_source_readiness item wave_as_of mandate_twin mandate_health =
     (case mandate_twin of
        None \<Rightarrow>
          item\<lparr> wi_state := ITEM_SOURCE_BLOCKED, wi_reason_codes := [''MANDATE_DIGITAL_TWIN_MISSING''],
                wi_source_refs := dedupe_source_refs (wi_source_refs item),
                wi_diagnostics := dict_merge (wi_diagnostics item)
                  [(''source_owner'', JStr ''lotus-manage''), (''source_owner_upstream'', JStr ''lotus-core''),
                   (''required_action'', JStr ''REFRESH_MANDATE_DIGITAL_TWIN''),
                   (''missing_source_family'', JStr ''MANDATE_DIGITAL_TWIN'')] \<rparr>
      | Some twin \<Rightarrow>
          let refs = wi_source_refs item @ [mandate_twin_ref twin] @ core_lineage_refs twin
          in (case mandate_health of
                None \<Rightarrow>
                  item\<lparr> wi_mandate_id := Some (mt_mandate_id twin),
                        wi_model_portfolio_id := Some (mt_model_portfolio_id twin),
                        wi_state := ITEM_SOURCE_DEGRADED, wi_reason_codes := [''MANDATE_HEALTH_MISSING''],
                        wi_source_refs := dedupe_source_refs refs,
                        wi_diagnostics := dict_merge (wi_diagnostics item)
                          [(''source_owner'', JStr ''lotus-manage''),
                           (''required_action'', JStr ''RUN_MANDATE_HEALTH_REFRESH''),
                           (''missing_source_family'', JStr ''MANDATE_HEALTH'')] \<rparr>
              | Some health \<Rightarrow>
                  let (state, reason_codes, diagnostics) = state_from_health health wave_as_of
                  in item\<lparr> wi_mandate_id := Some (mt_mandate_id twin),
                           wi_model_portfolio_id := Some (mt_model_portfolio_id twin),
                           wi_state := state, wi_reason_codes := reason_codes,
                           wi_source_refs := dedupe_source_refs (refs @ [mandate_health_ref health, source_readiness_ref health]),
                           wi_diagnostics := dict_merge (wi_diagnostics item) diagnostics \<rparr>))"


subsection \<open>The check\<close>

text \<open>The lookups of the mandate repository, each by identifier and tenant.\<close>

record MandateLookups =
  latest_mandate :: "string \<Rightarrow> string \<Rightarrow> DpmMandateDigitalTwin option"
  mandate_by_portfolio :: "string \<Rightarrow> string \<Rightarrow> DpmMandateDigitalTwin option"
  latest_health :: "string \<Rightarrow> string \<Rightarrow> DpmMandateHealthSnapshot option"

definition resolve_mandate_twin ::
  "MandateLookups \<Rightarrow> DpmRebalanceWaveItem \<Rightarrow> string \<Rightarrow> DpmMandateDigitalTwin option" where
  "resolve_mandate_twin mandates item tenant =
     (let fallback = mandate_by_portfolio mandates (wi_portfolio_id item) tenant
      in (case wi_mandate_id item of
            None \<Rightarrow> fallback
          | Some mid \<Rightarrow>
              if mid = '''' then fallback
              else (case latest_mandate mandates mid tenant of
                      None \<Rightarrow> fallback
                    | Some twin \<Rightarrow> if mt_portfolio_id twin = wi_portfolio_id item then Some twin else fallback)))"

definition classify_item_source_readiness ::
  "MandateLookups \<Rightarrow> string \<Rightarrow> string \<Rightarrow> DpmRebalanceWaveItem \<Rightarrow> DpmRebalanceWaveItem" where
  "classify_item_source_readiness mandates wave_as_of tenant item =
     (let twin = resolve_mandate_twin mandates item tenant;
          health = (case twin of None \<Rightarrow> None | Some t \<Rightarrow> latest_health mandates (mt_mandate_id t) tenant)
      in classify_wave_item_source_readiness item wave_as_of twin health)"

definition state_counts_json :: "(WaveItemState, nat) dict \<Rightarrow> json" where
  "state_counts_json counts = JObj (map (\<lambda>(s, n). (item_state_str s, JInt (int n))) counts)"

definition build_source_checked_wave ::
  "MandateLookups \<Rightarrow> WaveStamp \<Rightarrow> string \<Rightarrow> string \<Rightarrow> string \<Rightarrow> DpmRebalanceWave \<Rightarrow> DpmRebalanceWave wave_result" where
  "build_source_checked_wave mandates stamp actor correlation tenant wave =
     (let classified_items = map (classify_item_source_readiness mandates (wave_as_of_date wave) tenant) (items wave);
          candidate = wave\<lparr> items := classified_items, aggregate_metrics := aggregate_wave_items classified_items \<rparr>;
          metrics = aggregate_metrics candidate
      in apply_wave_transition candidate SOURCE_CHECKED
           (build_wave_event stamp (wave_id wave) CREATED SOURCE_CHECKED actor correlation ''WAVE_SOURCE_CHECKED''
              [(''state_counts'', state_counts_json (state_counts metrics)),
               (''ready_item_count'', JInt (int (ready_item_count metrics))),
               (''blocked_item_count'', JInt (int (blocked_item_count metrics))),
               (''review_required_item_count'', JInt (int (review_required_item_count metrics))),
               (''source_degraded_item_count'', JInt (int (source_degraded_item_count metrics)))]
              ''STATE_TRANSITION''))"

definition source_check_persisted_wave ::
  "('r \<Rightarrow> string \<Rightarrow> string \<Rightarrow> DpmRebalanceWave option) \<Rightarrow> ('r \<Rightarrow> DpmRebalanceWave \<Rightarrow> nat \<Rightarrow> string \<Rightarrow> 'r wave_result)
     \<Rightarrow> MandateLookups \<Rightarrow> WaveStamp \<Rightarrow> string \<Rightarrow> string \<Rightarrow> string \<Rightarrow> string \<Rightarrow> 'r
     \<Rightarrow> ('r \<times> DpmRebalanceWave \<times> bool) wave_result" where
  "source_check_persisted_wave get update mandates stamp wid actor correlation tenant repo =
     wave_bind (prepare_wave_transition get wid repo tenant [SOURCE_CHECKED] (Some [CREATED])
                  ''DPM_WAVE_SOURCE_CHECK_INVALID_STATE'')
       (\<lambda>prepared.
          if pt_replayed prepared then Inr (repo, pt_wave prepared, True)
          else wave_bind (build_source_checked_wave mandates stamp actor correlation tenant (pt_wave prepared))
                 (\<lambda>checked. wave_bind (persist_transitioned_wave update repo (pt_wave prepared) checked tenant)
                    (\<lambda>repo'. Inr (repo', checked, False))))"


section \<open>The mandate repository as an interface\<close>

locale mandate_lookup =
  fixes mandates :: MandateLookups
  assumes latest_mandate_id: "latest_mandate mandates mid t = Some twin \<Longrightarrow> mt_mandate_id twin = mid"
    and mandate_portfolio: "mandate_by_portfolio mandates pid t = Some twin \<Longrightarrow> mt_portfolio_id twin = pid"
    and latest_health_id: "latest_health mandates mid t = Some health \<Longrightarrow> hs_mandate_id health = mid"
begin

text \<open>An item is only ever judged by a mandate of its own portfolio and the health of that mandate.\<close>

lemma resolved_twin_portfolio:
  assumes "resolve_mandate_twin mandates item t = Some twin"
  shows "mt_portfolio_id twin = wi_portfolio_id item"
  using assms mandate_portfolio
  by (auto simp: resolve_mandate_twin_def Let_def split: option.splits if_splits)

lemma judged_by_own_mandate:
  assumes "resolve_mandate_twin mandates item t = Some twin" and "latest_health mandates (mt_mandate_id twin) t = Some health"
  shows "mt_portfolio_id twin = wi_portfolio_id item \<and> hs_mandate_id health = mt_mandate_id twin"
  using resolved_twin_portfolio [OF assms(1)] latest_health_id [OF assms(2)] by simp

end

definition memory_lookups :: "InMemoryDpmMandateRepository \<Rightarrow> MandateLookups" where
  "memory_lookups repo =
     \<lparr> latest_mandate = get_latest_mandate repo, mandate_by_portfolio = get_latest_mandate_by_portfolio repo,
       latest_health = get_latest_health_snapshot repo \<rparr>"

interpretation memory_mandates: mandate_lookup "memory_lookups repo" for repo
proof unfold_locales
  show "mt_mandate_id twin = mid" if found: "latest_mandate (memory_lookups repo) mid t = Some twin" for mid t twin
  proof -
    from found obtain stored where row: "latest_row twin_key (tenant_twins t (\<lambda>x. mt_mandate_id x = mid) repo) = Some stored"
      and twin: "twin = effective_mandate_twin stored"
      by (auto simp: memory_lookups_def get_latest_mandate_def latest_twin_def)
    from latest_row_Some(1) [OF row] show ?thesis by (auto simp: tenant_twins_mem twin model_frame)
  qed
  show "mt_portfolio_id twin = pid" if found: "mandate_by_portfolio (memory_lookups repo) pid t = Some twin" for pid t twin
  proof -
    from found obtain stored where row: "latest_row twin_key (tenant_twins t (\<lambda>x. mt_portfolio_id x = pid) repo) = Some stored"
      and twin: "twin = effective_mandate_twin stored"
      by (auto simp: memory_lookups_def get_latest_mandate_by_portfolio_def latest_twin_def)
    from latest_row_Some(1) [OF row] show ?thesis by (auto simp: tenant_twins_mem twin model_frame)
  qed
  show "hs_mandate_id health = mid" if found: "latest_health (memory_lookups repo) mid t = Some health" for mid t health
  proof -
    from found have "latest_row (\<lambda>s. (hs_calculated_at s, hs_health_snapshot_id s))
        (tenant_snapshots t (\<lambda>s. hs_mandate_id s = mid) repo) = Some health"
      by (simp add: memory_lookups_def get_latest_health_snapshot_def)
    from latest_row_Some(1) [OF this] show ?thesis by (auto simp: tenant_snapshots_def)
  qed
qed

section \<open>Lemmas\<close>

lemma classify_frame [model_frame]:
  "wave_item_id (classify_wave_item_source_readiness item as_of twin health) = wave_item_id item"
  "wi_portfolio_id (classify_wave_item_source_readiness item as_of twin health) = wi_portfolio_id item"
  by (simp_all add: classify_wave_item_source_readiness_def Let_def split: option.splits prod.splits)

lemma state_from_health_ready:
  "fst (state_from_health health as_of) = ITEM_SOURCE_READY \<longleftrightarrow>
     \<not> isoformat (hs_as_of_date health) < as_of \<and> hs_health_state health = HEALTH_READY
     \<and> hs_source_readiness_state health \<notin> {''INCOMPLETE'', ''UNAVAILABLE'', ''DEGRADED''}"
  by (cases "hs_health_state health")
    (auto simp: state_from_health_def health_is_stale_def health_blocks_source_readiness_def
      health_degrades_source_readiness_def stale_health_classification_def blocked_health_classification_def
      degraded_health_classification_def review_required_health_classification_def ready_health_classification_def Let_def)

lemma classified_state:
  "wi_state (classify_wave_item_source_readiness item as_of twin health) =
     (case twin of None \<Rightarrow> ITEM_SOURCE_BLOCKED
      | Some _ \<Rightarrow> (case health of None \<Rightarrow> ITEM_SOURCE_DEGRADED | Some h \<Rightarrow> fst (state_from_health h as_of)))"
  by (simp add: classify_wave_item_source_readiness_def Let_def split: option.splits prod.splits)

lemma classified_stage: "item_stage (wi_state (classify_wave_item_source_readiness item as_of twin health)) = 0"
proof -
  have "item_stage (fst (state_from_health h as_of)) = 0" for h
    by (simp add: state_from_health_def stale_health_classification_def blocked_health_classification_def
        degraded_health_classification_def review_required_health_classification_def ready_health_classification_def Let_def)
  then show ?thesis by (simp add: classified_state split: option.splits)
qed

text \<open>Later references replace earlier ones with the same identity.\<close>

lemma dict_get_eq: "dict_ok d \<Longrightarrow> dict_get d k = Some v \<longleftrightarrow> (k, v) \<in> set d"
  by simp

lemma dedupe_source_refs_keys:
  "distinct (map source_ref_key (dedupe_source_refs refs))"
  "source_ref_key ` set (dedupe_source_refs refs) = source_ref_key ` set refs"
  "set (dedupe_source_refs refs) \<subseteq> set refs"
proof -
  let ?d = "dict_of (map (\<lambda>ref. (source_ref_key ref, ref)) refs)"
  have entry: "k = source_ref_key v \<and> v \<in> set refs" if "(k, v) \<in> set ?d" for k v
    using dict_of_mem [of "map (\<lambda>ref. (source_ref_key ref, ref)) refs" k v] that by auto
  have keys: "map source_ref_key (map snd ?d) = map fst ?d"
    unfolding map_map comp_def
  proof (rule map_cong [OF refl])
    fix p assume "p \<in> set ?d"
    then have "fst p = source_ref_key (snd p) \<and> snd p \<in> set refs" by (intro entry) (simp only: prod.collapse)
    then show "source_ref_key (snd p) = fst p" by (rule conjunct1 [THEN sym])
  qed
  show "distinct (map source_ref_key (dedupe_source_refs refs))"
    unfolding dedupe_source_refs_def keys by (rule dict_ok_of)
  have "source_ref_key ` set (map snd ?d) = set (map fst ?d)" by (simp only: set_map [symmetric] keys)
  also have "\<dots> = source_ref_key ` set refs" using dict_keys_of [of "map (\<lambda>ref. (source_ref_key ref, ref)) refs"] by (simp add: image_image)
  finally show "source_ref_key ` set (dedupe_source_refs refs) = source_ref_key ` set refs"
    by (simp add: dedupe_source_refs_def)
  show "set (dedupe_source_refs refs) \<subseteq> set refs" using entry by (auto simp: dedupe_source_refs_def)
qed

lemma build_source_checked_success:
  assumes "build_source_checked_wave mandates stamp actor correlation tenant w = Inr w'"
  shows "recorded_change w w' \<and> wave_edge (wave_state w) (wave_state w') \<and> wave_state w' = SOURCE_CHECKED
    \<and> wave_state w = CREATED \<and> handoff_refs w' = handoff_refs w
    \<and> items w' = map (classify_item_source_readiness mandates (wave_as_of_date w) tenant) (items w)"
proof -
  let ?its = "map (classify_item_source_readiness mandates (wave_as_of_date w) tenant) (items w)"
  let ?c = "w\<lparr> items := ?its, aggregate_metrics := aggregate_wave_items ?its \<rparr>"
  obtain e where st: "apply_wave_transition ?c SOURCE_CHECKED e = Inr w'" and "ev_from_state e = Some CREATED"
    using assms by (auto simp: build_source_checked_wave_def Let_def build_wave_event_def)
  then have created: "wave_state w = CREATED" by (simp add: apply_wave_transition_iff)
  have names: "map wave_item_id (items ?c) = map wave_item_id (items w)"
    by (simp add: classify_item_source_readiness_def Let_def model_frame)
  have frame: "?c = w\<lparr> items := items ?c, aggregate_metrics := aggregate_wave_items (items ?c), handoff_refs := handoff_refs ?c \<rparr>"
    by simp
  from apply_recorded [OF st _ frame names] created show ?thesis by simp
qed

lemma source_check_shape:
  "source_check_persisted_wave get update mandates stamp wid actor correlation tenant repo =
     persisted_transition get update wid tenant [SOURCE_CHECKED] (Some [CREATED]) ''DPM_WAVE_SOURCE_CHECK_INVALID_STATE''
       (build_source_checked_wave mandates stamp actor correlation tenant) repo"
  by (simp add: source_check_persisted_wave_def persisted_transition_def)

lemma sound_source_check: "sound_build (build_source_checked_wave mandates stamp actor correlation tenant)"
  unfolding sound_build_def
proof (intro allI impI conjI)
  fix w w' assume run: "build_source_checked_wave mandates stamp actor correlation tenant w = Inr w'"
  note built = build_source_checked_success [OF run]
  then show "recorded_change w w'" "wave_edge (wave_state w) (wave_state w')" by blast+
  assume "lifecycle_ok w"
  then show "lifecycle_ok w'"
    by (rule recorded_lifecycle_ok [rotated])
      (use built in \<open>auto simp: item_allowed_def classify_item_source_readiness_def Let_def classified_stage\<close>)
qed

text \<open>What a calculated health that is ready says of its input.\<close>

lemma ready_snapshot:
  assumes "calculate_mandate_health sha256 now hi t = Inr snap" and "hs_health_state snap = HEALTH_READY"
  shows "hs_health_score snap = 100 \<and> hi_source_readiness_state hi = SOURCE_OK \<and> hi_missing_source_families hi = []
    \<and> hi_stale_source_families hi = [] \<and> \<not> hi_workflow_blocked hi
    \<and> restricted_exposures (effective_input hi) = []
    \<and> \<not> has_unsourced_contractual_limit (mt_constraints (effective_mandate_twin (hi_twin hi)))"
proof -
  let ?hi = "effective_input hi"
  let ?scores = "mandate_health_dimension_scores ?hi"
  have snap: "hs_dimension_scores snap = ?scores" "hs_health_score snap = weighted_mandate_health_score ?scores"
    and ready: "mandate_health_state ?scores = HEALTH_READY"
    using calculate_total [of sha256 now hi t] assms by auto
  then have all: "\<forall>s \<in> set ?scores. ds_state s = HEALTH_READY" by (simp add: state_ready)
  then have "\<forall>s \<in> set ?scores. ds_score s = 100" using dimension_scores_mem [of _ ?hi] by (auto simp: score_ok_def)
  then have "hs_health_score snap = 100"
    using weighted_sum_full [of ?scores] dimension_weights_total [of ?hi] health_score_eq(1) [of ?hi] snap(2) by simp
  moreover have "ds_state (score_source_readiness ?hi) = HEALTH_READY"
    using all by (simp add: mandate_health_dimension_scores_def)
  then have "hi_source_readiness_state hi = SOURCE_OK \<and> hi_missing_source_families hi = [] \<and> hi_stale_source_families hi = []"
    by (cases "hi_source_readiness_state hi") (auto simp: score_source_readiness_def Let_def split: if_splits)
  moreover have "\<not> hi_workflow_blocked hi" and "restricted_exposures ?hi = []"
    using state_blocked [of ?hi] ready by auto
  moreover have "\<not> has_unsourced_contractual_limit (mt_constraints (effective_mandate_twin (hi_twin hi)))"
    using unsourced_not_ready [of ?hi] ready by auto
  ultimately show ?thesis by blast
qed

section \<open>Properties\<close>

text \<open>
  C36. What source readiness means. An item is ready for simulation exactly when a mandate is found for it,
  that mandate is of the item's own portfolio, a health of that mandate is found, the health is not older
  than the wave, its state is ready and its sources are neither incomplete, unavailable nor degraded; an
  item without a mandate or without a health is never ready. The code compares the text of the two dates,
  and the date of a wave is a plain string: where it is the ISO text of a date, the comparison is that of
  the dates. Where the health was calculated by the service, the mandate of a ready item scores 100, all
  its sources are present and current, every contractual limit is known and nothing restricted is held.
\<close>

theorem source_ready_exactly:
  fixes repo t item wave_as_of
  defines "mandates \<equiv> memory_lookups repo"
  defines "ready \<equiv> wi_state (classify_item_source_readiness mandates wave_as_of t item) = ITEM_SOURCE_READY"
  shows "(ready \<longleftrightarrow>
      (\<exists>twin health. resolve_mandate_twin mandates item t = Some twin
         \<and> latest_health mandates (mt_mandate_id twin) t = Some health
         \<and> mt_portfolio_id twin = wi_portfolio_id item \<and> hs_mandate_id health = mt_mandate_id twin
         \<and> \<not> isoformat (hs_as_of_date health) < wave_as_of \<and> hs_health_state health = HEALTH_READY
         \<and> hs_source_readiness_state health \<notin> {''INCOMPLETE'', ''UNAVAILABLE'', ''DEGRADED''}))
    \<and> (\<forall>as_of (health :: DpmMandateHealthSnapshot). wave_as_of = isoformat as_of \<longrightarrow> valid_date as_of \<longrightarrow> valid_date (hs_as_of_date health) \<longrightarrow>
         (isoformat (hs_as_of_date health) < wave_as_of \<longleftrightarrow> hs_as_of_date health < as_of))
    \<and> (\<forall>twin health sha256 now hi. ready \<longrightarrow> resolve_mandate_twin mandates item t = Some twin \<longrightarrow>
         latest_health mandates (mt_mandate_id twin) t = Some health \<longrightarrow>
         calculate_mandate_health sha256 now hi t = Inr health \<longrightarrow>
           hs_health_score health = 100
           \<and> hi_source_readiness_state hi = SOURCE_OK \<and> hi_missing_source_families hi = [] \<and> hi_stale_source_families hi = []
           \<and> \<not> has_unsourced_contractual_limit (mt_constraints (effective_mandate_twin (hi_twin hi)))
           \<and> restricted_exposures (effective_input hi) = [])"
proof -
  have own: "mt_portfolio_id twin = wi_portfolio_id item \<and> hs_mandate_id health = mt_mandate_id twin"
    if "resolve_mandate_twin mandates item t = Some twin" "latest_health mandates (mt_mandate_id twin) t = Some health"
    for twin health
    using memory_mandates.judged_by_own_mandate [of repo item t twin health] that by (simp add: mandates_def)
  have state: "ready \<longleftrightarrow>
      (\<exists>twin health. resolve_mandate_twin mandates item t = Some twin
         \<and> latest_health mandates (mt_mandate_id twin) t = Some health
         \<and> \<not> isoformat (hs_as_of_date health) < wave_as_of \<and> hs_health_state health = HEALTH_READY
         \<and> hs_source_readiness_state health \<notin> {''INCOMPLETE'', ''UNAVAILABLE'', ''DEGRADED''})"
    by (cases "resolve_mandate_twin mandates item t")
      (auto simp: ready_def classify_item_source_readiness_def classified_state state_from_health_ready not_less
        split: option.splits)
  have calculated: "hs_health_score health = 100
       \<and> hi_source_readiness_state hi = SOURCE_OK \<and> hi_missing_source_families hi = [] \<and> hi_stale_source_families hi = []
       \<and> \<not> has_unsourced_contractual_limit (mt_constraints (effective_mandate_twin (hi_twin hi)))
       \<and> restricted_exposures (effective_input hi) = []"
    if "ready" "resolve_mandate_twin mandates item t = Some twin"
      "latest_health mandates (mt_mandate_id twin) t = Some health"
      "calculate_mandate_health sha256 now hi t = Inr health" for twin health sha256 now hi
    using that state ready_snapshot [of sha256 now hi t health] by auto
  have dates: "isoformat (hs_as_of_date health) < isoformat as_of \<longleftrightarrow> hs_as_of_date health < as_of"
    if "valid_date as_of" "valid_date (hs_as_of_date health)" for as_of and health :: DpmMandateHealthSnapshot
    using isoformat_less(1) [OF that(2,1)] .
  show ?thesis
  proof (intro conjI allI impI)
    show "ready \<longleftrightarrow>
      (\<exists>twin health. resolve_mandate_twin mandates item t = Some twin
         \<and> latest_health mandates (mt_mandate_id twin) t = Some health
         \<and> mt_portfolio_id twin = wi_portfolio_id item \<and> hs_mandate_id health = mt_mandate_id twin
         \<and> \<not> isoformat (hs_as_of_date health) < wave_as_of \<and> hs_health_state health = HEALTH_READY
         \<and> hs_source_readiness_state health \<notin> {''INCOMPLETE'', ''UNAVAILABLE'', ''DEGRADED''})"
      unfolding state using own by blast
  qed (simp_all add: dates calculated)
qed

definition ready_store :: InMemoryDpmMandateRepository where
  "ready_store = save_health_snapshot (sample_snapshot (sample_health_input (95 / 100))) ''t1''
     (save_mandate_snapshot sample_twin ''t1'' empty_mandate_repository)"

definition mandate_item :: DpmRebalanceWaveItem where
  "mandate_item = (sample_item ''dwi_1'' ITEM_CANDIDATE [])\<lparr> wi_portfolio_id := ''P1'' \<rparr>"

lemma ready_store_lookups:
  "resolve_mandate_twin (memory_lookups ready_store) mandate_item ''t1'' = Some sample_twin"
  "latest_health (memory_lookups ready_store) (mt_mandate_id sample_twin) ''t1'' = Some (sample_snapshot (sample_health_input (95 / 100)))"
proof -
  have twin: "effective_mandate_twin sample_twin = sample_twin" by (simp add: effective_mandate_twin_def sample_twin_def)
  then show "resolve_mandate_twin (memory_lookups ready_store) mandate_item ''t1'' = Some sample_twin"
    by (simp add: resolve_mandate_twin_def mandate_item_def sample_item_def memory_lookups_def
        get_latest_mandate_by_portfolio_def latest_twin_def tenant_twins_def ready_store_def save_health_snapshot_def
        save_mandate_snapshot_def empty_mandate_repository_def latest_row_def sample_twin_def)
  have "hs_mandate_id (sample_snapshot (sample_health_input (95 / 100))) = ''M1''" by code_simp
  then show "latest_health (memory_lookups ready_store) (mt_mandate_id sample_twin) ''t1'' = Some (sample_snapshot (sample_health_input (95 / 100)))"
    by (simp add: memory_lookups_def get_latest_health_snapshot_def tenant_snapshots_def ready_store_def
        save_health_snapshot_def save_mandate_snapshot_def empty_mandate_repository_def latest_row_def sample_twin_def)
qed

theorem source_ready_exactly_witness:
  "wi_state (classify_item_source_readiness (memory_lookups ready_store) (isoformat (2026, 5, 3)) ''t1'' mandate_item)
     = ITEM_SOURCE_READY
   \<and> hs_health_score (sample_snapshot (sample_health_input (95 / 100))) = 100"
proof -
  let ?s = "sample_snapshot (sample_health_input (95 / 100))"
  have facts: "hs_as_of_date ?s = (2026, 5, 3)" "hs_health_state ?s = HEALTH_READY" "hs_source_readiness_state ?s = ''READY''"
    "hs_mandate_id ?s = ''M1''"
    by code_simp+
  have own: "mt_portfolio_id sample_twin = wi_portfolio_id mandate_item" "mt_mandate_id sample_twin = ''M1''"
    by (simp_all add: sample_twin_def mandate_item_def)
  have not_stale: "\<not> isoformat (hs_as_of_date ?s) < isoformat (2026, 5, 3)" unfolding facts by simp
  note ready = source_ready_exactly [of ready_store "isoformat (2026, 5, 3)" "''t1''" mandate_item]
  have "wi_state (classify_item_source_readiness (memory_lookups ready_store) (isoformat (2026, 5, 3)) ''t1'' mandate_item)
     = ITEM_SOURCE_READY"
    using ready own ready_store_lookups facts not_stale by auto
  with ready ready_store_lookups sample_calculated [of "sample_health_input (95 / 100)"] show ?thesis by blast
qed

text \<open>
  C37. What a source check does to a wave. The check of a created wave always succeeds, moves it to
  \<open>SOURCE_CHECKED\<close> with one recorded event and classifies every item by the mandates of the tenant;
  repeating it is a replay, and in every other state it is refused without a change. The references
  of each item have distinct identities, none is lost and none is invented.
\<close>

theorem source_check_outcome:
  assumes "repository_ok r" and "get_wave r wid t = Some w"
  shows "(case source_check_persisted_wave get_wave update_wave mandates stamp wid actor correlation t r of
      Inl e \<Rightarrow> wave_state w \<notin> {CREATED, SOURCE_CHECKED} \<and> e = DpmWaveValidationError ''DPM_WAVE_SOURCE_CHECK_INVALID_STATE''
    | Inr (r', w', replayed) \<Rightarrow>
        if replayed then wave_state w = SOURCE_CHECKED \<and> r' = r \<and> w' = w
        else wave_state w = CREATED \<and> wave_state w' = SOURCE_CHECKED \<and> recorded_change w w' \<and> get_wave r' wid t = Some w'
          \<and> items w' = map (classify_item_source_readiness mandates (wave_as_of_date w) t) (items w)
          \<and> (\<forall>i \<in> set (items w'). distinct (map source_ref_key (wi_source_refs i)))
          \<and> (\<forall>i \<in> set (items w). source_ref_key ` set (wi_source_refs i)
               \<subseteq> source_ref_key ` set (wi_source_refs (classify_item_source_readiness mandates (wave_as_of_date w) t i))))"
proof -
  let ?build = "build_source_checked_wave mandates stamp actor correlation t"
  have total: "\<exists>w'. ?build w = Inr w'" if "wave_state w = CREATED"
    using that by (simp add: build_source_checked_wave_def Let_def apply_wave_transition_def
        validate_wave_transition_def build_wave_event_def)
  have keeps: "wave_id w2 = wave_id w1" if "?build w1 = Inr w2" for w1 w2
    using build_source_checked_success [OF that] recorded_change_frame(1) by blast
  have refs: "distinct (map source_ref_key (wi_source_refs (classify_item_source_readiness mandates a t i)))"
    "source_ref_key ` set (wi_source_refs i) \<subseteq> source_ref_key ` set (wi_source_refs (classify_item_source_readiness mandates a t i))" for a i
    using dedupe_source_refs_keys
    by (auto simp: classify_item_source_readiness_def classify_wave_item_source_readiness_def Let_def
        split: option.splits prod.splits)
  show ?thesis
  proof (cases "source_check_persisted_wave get_wave update_wave mandates stamp wid actor correlation t r")
    case (Inl e)
    with memory.persisted_transition_cases [OF assms(1) keeps, of ?build wid t] total assms(2) show ?thesis
      by (auto simp: source_check_shape admitted_def split: if_splits sum.splits)
  next
    case (Inr x)
    obtain r' w' replayed where x: "x = (r', w', replayed)" by (cases x) auto
    show ?thesis
    proof (rule memory.persisted_transition_success [where build = ?build, OF assms(1) _ Inr [unfolded x source_check_shape]])
      fix w1 assume change: "get_wave r wid t = Some w1" "\<not> replayed" "?build w1 = Inr w'"
        "\<And>i t'. get_wave r' i t' = (if i = wid \<and> t' = t then Some (w'\<lparr> wave_tenant_id := Some t \<rparr>) else get_wave r i t')"
      note built = build_source_checked_success [OF change(3)]
      have "wave_tenant_id w' = Some t"
        using memory.get_owned [OF assms(1) change(1)] recorded_change_frame(2) [of w1 w'] built by simp
      then have "get_wave r' wid t = Some w'" using change(4) [of wid t] by simp
      with built change assms(2) refs show ?thesis by (auto simp: Inr x)
    qed (use keeps assms(2) Inr x in auto)
  qed
qed

theorem source_check_outcome_witness:
  "\<exists>r' w'. source_check_persisted_wave get_wave update_wave (memory_lookups ready_store) sample_stamp ''dwv_1'' ''ops'' ''c1'' ''t1''
       (sample_repository (sample_wave CREATED [mandate_item])) = Inr (r', w', False)
     \<and> wave_state w' = SOURCE_CHECKED \<and> get_wave r' ''dwv_1'' ''t1'' = Some w'
     \<and> map wi_state (items w')
       = [wi_state (classify_item_source_readiness (memory_lookups ready_store) (wave_as_of_date sample_draft) ''t1'' mandate_item)]"
proof -
  let ?w = "sample_wave CREATED [mandate_item]"
  have w: "get_wave (sample_repository ?w) ''dwv_1'' ''t1'' = Some ?w" "wave_state ?w = CREATED" "items ?w = [mandate_item]"
    "wave_as_of_date ?w = wave_as_of_date sample_draft"
    by (simp_all add: get_wave_def sample_repository_def sample_wave_def sample_draft_def wave_with_items_and_aggregate_def)
  show ?thesis
    using source_check_outcome [OF sample_repository_ok w(1), of "memory_lookups ready_store" sample_stamp "''ops''" "''c1''"] w(2-4)
    by (auto split: sum.splits if_splits)
qed

end
