(* ===== verification/Wave_Creation.thy ===== *)
theory Wave_Creation
  imports Wave_Source_Check
begin

text \<open>
  Creating a wave (\<open>src/src/api/services/wave_create_command.py\<close>, \<open>wave_creation.py\<close>,
  \<open>wave_preview.py\<close>, \<open>wave_item_builder.py\<close>, \<open>wave_portfolio_sources.py\<close>,
  \<open>wave_trigger_validation.py\<close>): the affected portfolios become items, a draft is previewed and
  promoted, and the wave is stored under an idempotency key of its tenant. A portfolio is a
  dictionary of decoded values; \<open>str_of\<close> is Python's \<open>str\<close> on such a value. The wave store is
  given by its operations, random identifiers and clocks by \<open>CreateRuntime\<close>.
\<close>


section \<open>Definitions\<close>

record CreateWaveRequest =
  cw_trigger_type :: string
  cw_trigger_id :: string
  cw_rationale :: string
  cw_as_of_date :: string
  cw_actor_id :: string
  cw_correlation_id :: string
  cw_portfolios :: "(string, json) dict list"

record CreateRuntime =
  rt_item_hex :: "nat \<Rightarrow> string"
  rt_preview_hex :: string
  rt_wave_hex :: string
  rt_now :: int
  rt_preview_stamp :: WaveStamp
  rt_created_stamp :: WaveStamp

fun wave_map :: "('a \<Rightarrow> 'b wave_result) \<Rightarrow> 'a list \<Rightarrow> 'b list wave_result" where
  "wave_map f [] = Inr []"
| "wave_map f (x # xs) = wave_bind (f x) (\<lambda>y. wave_bind (wave_map f xs) (\<lambda>ys. Inr (y # ys)))"


subsection \<open>Portfolios\<close>

text \<open>\<open>DpmWaveSourceRef.model_validate\<close>: required and optional fields of a decoded object.\<close>

definition required_text :: "(string, json) dict \<Rightarrow> string \<Rightarrow> string wave_result" where
  "required_text d key = (case dict_get d key of Some (JStr s) \<Rightarrow> Inr s | _ \<Rightarrow> Inl PydanticValidationError)"

definition optional_text :: "(string, json) dict \<Rightarrow> string \<Rightarrow> string option wave_result" where
  "optional_text d key =
     (case dict_get d key of
        None \<Rightarrow> Inr None | Some JNull \<Rightarrow> Inr None | Some (JStr s) \<Rightarrow> Inr (Some s) | _ \<Rightarrow> Inl PydanticValidationError)"

definition optional_object :: "(string, json) dict \<Rightarrow> string \<Rightarrow> (string, json) dict option wave_result" where
  "optional_object d key =
     (case dict_get d key of
        None \<Rightarrow> Inr None | Some JNull \<Rightarrow> Inr None | Some (JObj kvs) \<Rightarrow> Inr (Some kvs) | _ \<Rightarrow> Inl PydanticValidationError)"

definition validate_source_ref :: "(string, json) dict \<Rightarrow> DpmWaveSourceRef wave_result" where
  "validate_source_ref d =
     wave_bind (required_text d ''source_system'') (\<lambda>system.
     wave_bind (required_text d ''source_type'') (\<lambda>source_type.
     wave_bind (required_text d ''source_id'') (\<lambda>source_id.
     wave_bind (optional_text d ''source_version'') (\<lambda>source_version.
     wave_bind (optional_text d ''supportability_state'') (\<lambda>state.
     wave_bind (optional_text d ''content_hash'') (\<lambda>content_hash.
     wave_bind (optional_text d ''source_batch_fingerprint'') (\<lambda>fingerprint.
     wave_bind (optional_object d ''selection_basis'') (\<lambda>basis.
       Inr \<lparr> sr_source_system = system, sr_source_type = source_type, sr_source_id = source_id,
             sr_source_version = source_version, sr_supportability_state = state, sr_content_hash = content_hash,
             sr_source_batch_fingerprint = fingerprint, sr_selection_basis = basis \<rparr>))))))))"

definition source_refs_from_portfolio :: "(string, json) dict \<Rightarrow> DpmWaveSourceRef list wave_result" where
  "source_refs_from_portfolio portfolio =
     (case dict_get portfolio ''source_refs'' of
        Some (JList refs) \<Rightarrow>
          wave_map validate_source_ref (List.map_filter (\<lambda>ref. case ref of JObj d \<Rightarrow> Some d | _ \<Rightarrow> None) refs)
      | _ \<Rightarrow> Inr [])"

definition trigger_source_refs_of :: "(string, json) dict list \<Rightarrow> DpmWaveSourceRef list wave_result" where
  "trigger_source_refs_of portfolios = wave_bind (wave_map source_refs_from_portfolio portfolios) (\<lambda>rs. Inr (concat rs))"

definition diagnostics_from_portfolio :: "(string, json) dict \<Rightarrow> (string, json) dict" where
  "diagnostics_from_portfolio portfolio =
     (case dict_get portfolio ''diagnostics'' of Some (JObj d) \<Rightarrow> dict_of d | _ \<Rightarrow> [])"

definition optional_str :: "(json \<Rightarrow> string) \<Rightarrow> json option \<Rightarrow> string option" where
  "optional_str str_of v =
     (case v of
        None \<Rightarrow> None
      | Some JNull \<Rightarrow> None
      | Some x \<Rightarrow> let text = strip (str_of x) in if text = '''' then None else Some text)"

text \<open>\<open>f"{index:03d}"\<close>\<close>

definition format_03d :: "nat \<Rightarrow> string" where
  "format_03d n = (let s = nat_str n in replicate (3 - length s) CHR ''0'' @ s)"

definition build_wave_item ::
  "(json \<Rightarrow> string) \<Rightarrow> CreateRuntime \<Rightarrow> MandateLookups \<Rightarrow> string \<Rightarrow> nat \<Rightarrow> (string, json) dict
     \<Rightarrow> DpmRebalanceWaveItem wave_result" where
  "build_wave_item str_of rt mandates tenant index portfolio =
     (case dict_get portfolio ''portfolio_id'' of
        None \<Rightarrow> Inl WaveKeyError
      | Some pid \<Rightarrow>
          let portfolio_id = strip (str_of pid);
              supplied = optional_str str_of (dict_get portfolio ''mandate_id'')
          in wave_bind (source_refs_from_portfolio portfolio) (\<lambda>refs.
               let latest = mandate_by_portfolio mandates portfolio_id tenant;
                   mandate_id = (case latest of None \<Rightarrow> supplied | Some twin \<Rightarrow> Some (mt_mandate_id twin));
                   source_refs = refs @ (case latest of None \<Rightarrow> []
                     | Some twin \<Rightarrow> [source_ref_of ''lotus-manage'' ''MANDATE_DIGITAL_TWIN'' (mt_mandate_id twin)
                                      (mt_mandate_version twin) (Some ''READY'')]);
                   (state, reason_codes, diagnostics) =
                     (if source_refs \<noteq> []
                      then (ITEM_CANDIDATE, [''AFFECTED_PORTFOLIO_SOURCE_READY''],
                            dict_merge [(''source_posture'', JStr ''candidate_evidence_available'')]
                              (diagnostics_from_portfolio portfolio))
                      else (ITEM_SOURCE_BLOCKED, [''MISSING_AFFECTED_PORTFOLIO_SOURCE''],
                            [(''source_owner'', JStr ''caller_or_lotus-core''),
                             (''required_action'', JStr ''SUPPLY_SOURCE_REF'')]))
               in Inr \<lparr> wave_item_id = ''dwi_'' @ format_03d index @ ''_'' @ take 8 (rt_item_hex rt index),
                        wi_portfolio_id = portfolio_id, wi_mandate_id = mandate_id, wi_model_portfolio_id = None,
                        wi_state = state, wi_reason_codes = reason_codes, wi_source_refs = source_refs,
                        wi_alternative_set_id = None, wi_selected_alternative_id = None, wi_proof_pack_id = None,
                        wi_diagnostics = diagnostics \<rparr>))"


subsection \<open>Preview and promotion\<close>

definition SUPPORTED_CREATE_TRIGGER_TYPES :: "string list" where
  "SUPPORTED_CREATE_TRIGGER_TYPES =
     [''EXPLICIT_PORTFOLIO_LIST'', ''PM_BOOK_REVIEW'', ''CIO_MODEL_CHANGE'', ''TACTICAL_HOUSE_VIEW'', ''RISK_EVENT'',
      ''BULK_REVIEW_CAMPAIGN'']"

text \<open>The table of source owners is empty, so both branches for unsupported triggers give one code.\<close>

definition trigger_validation_failure :: "string \<Rightarrow> (string, json) dict list \<Rightarrow> string option" where
  "trigger_validation_failure trigger portfolios =
     (if trigger \<notin> set SUPPORTED_CREATE_TRIGGER_TYPES then Some ''NOT_SUPPORTED_TRIGGER''
      else if portfolios = [] then Some ''AFFECTED_PORTFOLIO_SET_EMPTY'' else None)"

definition validate_trigger_or_raise :: "string \<Rightarrow> (string, json) dict list \<Rightarrow> unit wave_result" where
  "validate_trigger_or_raise trigger portfolios =
     (case trigger_validation_failure trigger portfolios of
        None \<Rightarrow> Inr () | Some code \<Rightarrow> Inl (DpmWaveValidationError code))"

definition build_preview_wave ::
  "(json \<Rightarrow> string) \<Rightarrow> CreateRuntime \<Rightarrow> MandateLookups \<Rightarrow> string \<Rightarrow> CreateWaveRequest \<Rightarrow> DpmRebalanceWave wave_result" where
  "build_preview_wave str_of rt mandates tenant req =
     wave_bind (validate_trigger_or_raise (cw_trigger_type req) (cw_portfolios req)) (\<lambda>_.
     wave_bind (wave_map (\<lambda>(index, portfolio). build_wave_item str_of rt mandates tenant index portfolio)
                  (List.enumerate 1 (cw_portfolios req))) (\<lambda>its.
     wave_bind (trigger_source_refs_of (cw_portfolios req)) (\<lambda>refs.
       let wave = \<lparr> wave_id = ''dwv_preview_'' @ take 12 (rt_preview_hex rt), wave_version = ''1.0.0'', wave_state = DRAFT,
                    wave_trigger = \<lparr> trigger_type = cw_trigger_type req, trigger_id = cw_trigger_id req,
                      trigger_rationale = cw_rationale req, trigger_source_refs = refs \<rparr>,
                    wave_as_of_date = cw_as_of_date req, wave_created_at = rt_now rt, wave_created_by = cw_actor_id req,
                    wave_correlation_id = cw_correlation_id req, wave_tenant_id = Some tenant, version = 1, items = its,
                    aggregate_metrics = aggregate_wave_items its, events = [], handoff_refs = [],
                    retention_policy = ''DPM_WAVE_STANDARD'' \<rparr>
       in apply_wave_transition wave PREVIEWED
            (build_wave_event (rt_preview_stamp rt) (wave_id wave) DRAFT PREVIEWED (cw_actor_id req)
               (cw_correlation_id req) ''WAVE_PREVIEWED'' [(''item_count'', JInt (int (length its)))] ''STATE_TRANSITION''))))"

definition create_wave_request_hash :: "(string \<Rightarrow> string) \<Rightarrow> string \<Rightarrow> CreateWaveRequest \<Rightarrow> string" where
  "create_wave_request_hash sha256 tenant req =
     request_hash sha256
       [(''tenant_id'', JStr tenant), (''trigger_type'', JStr (cw_trigger_type req)), (''trigger_id'', JStr (cw_trigger_id req)),
        (''rationale'', JStr (cw_rationale req)), (''as_of_date'', JStr (cw_as_of_date req)),
        (''actor_id'', JStr (cw_actor_id req)), (''portfolios'', JList (map JObj (cw_portfolios req)))]"

definition create_created_wave_id :: "CreateRuntime \<Rightarrow> string" where
  "create_created_wave_id rt = ''dwv_'' @ take 12 (rt_wave_hex rt)"

definition create_wave_correlation_id :: "(string \<Rightarrow> string) \<Rightarrow> string \<Rightarrow> string \<Rightarrow> string" where
  "create_wave_correlation_id sha256 tenant key = derived_identity sha256 ''corr_wave_create'' [tenant, key]"

definition promote_preview_to_created_wave ::
  "(string \<Rightarrow> string) \<Rightarrow> WaveStamp \<Rightarrow> DpmRebalanceWave \<Rightarrow> string \<Rightarrow> string \<Rightarrow> string \<Rightarrow> string \<Rightarrow> DpmRebalanceWave wave_result" where
  "promote_preview_to_created_wave sha256 stamp preview wid actor correlation key =
     (let wave = preview\<lparr> wave_id := wid, events := map (\<lambda>e. e\<lparr> ev_wave_id := wid \<rparr>) (events preview) \<rparr>
      in apply_wave_transition wave CREATED
           (build_wave_event stamp (wave_id wave) PREVIEWED CREATED actor correlation ''WAVE_CREATED''
              [(''idempotency_key_hash'', JStr (idempotency_key_hash sha256 key))] ''STATE_TRANSITION''))"


subsection \<open>The command\<close>

text \<open>A conflict of the store is reported under one code; its message is the code of the store.\<close>

definition save_wave_or_raise ::
  "(DpmRebalanceWave \<Rightarrow> string option \<Rightarrow> string option \<Rightarrow> string \<Rightarrow> 'r \<Rightarrow> 'r wave_result) \<Rightarrow> DpmRebalanceWave \<Rightarrow> string option
     \<Rightarrow> string option \<Rightarrow> string \<Rightarrow> 'r \<Rightarrow> (wave_error \<times> string) + 'r" where
  "save_wave_or_raise save wave key rhash tenant repo =
     (case save wave key rhash tenant repo of
        Inr repo' \<Rightarrow> Inr repo'
      | Inl DpmWaveAlreadyExistsError \<Rightarrow> Inl (DpmWaveValidationError ''WAVE_CREATE_CONFLICT'', ''DPM_WAVE_ALREADY_EXISTS'')
      | Inl DpmWaveCorrelationConflictError \<Rightarrow>
          Inl (DpmWaveValidationError ''WAVE_CREATE_CONFLICT'', ''DPM_WAVE_CORRELATION_CONFLICT'')
      | Inl DpmWaveIdempotencyConflictError \<Rightarrow>
          Inl (DpmWaveValidationError ''WAVE_CREATE_CONFLICT'', ''DPM_WAVE_IDEMPOTENCY_CONFLICT'')
      | Inl e \<Rightarrow> Inl (e, ''''))"

text \<open>
  Other requests may write between the lookup of the key and the save: \<open>race\<close> is what they do to the
  store in between.
\<close>

definition create_persisted_wave ::
  "('r \<Rightarrow> string \<Rightarrow> string \<Rightarrow> (DpmRebalanceWave \<times> string option) option)
     \<Rightarrow> (DpmRebalanceWave \<Rightarrow> string option \<Rightarrow> string option \<Rightarrow> string \<Rightarrow> 'r \<Rightarrow> 'r wave_result)
     \<Rightarrow> (string \<Rightarrow> string) \<Rightarrow> (json \<Rightarrow> string) \<Rightarrow> CreateRuntime \<Rightarrow> ('r \<Rightarrow> 'r) \<Rightarrow> MandateLookups \<Rightarrow> CreateWaveRequest
     \<Rightarrow> string \<Rightarrow> string \<Rightarrow> 'r \<Rightarrow> ('r \<times> DpmRebalanceWave \<times> bool) wave_result" where
  "create_persisted_wave idempotency_record save sha256 str_of rt race mandates req key tenant repo =
     (let rhash = create_wave_request_hash sha256 tenant req
      in (case idempotency_record repo key tenant of
            Some (wave, stored_hash) \<Rightarrow>
              if stored_hash \<noteq> Some rhash then Inl (DpmWaveValidationError ''WAVE_CREATE_CONFLICT'')
              else Inr (repo, wave, True)
          | None \<Rightarrow>
              wave_bind (build_preview_wave str_of rt mandates tenant req) (\<lambda>preview.
              wave_bind (promote_preview_to_created_wave sha256 (rt_created_stamp rt) preview (create_created_wave_id rt)
                           (cw_actor_id req) (cw_correlation_id req) key) (\<lambda>wave.
                let now = race repo
                in (case save_wave_or_raise save wave (Some key) (Some rhash) tenant now of
                      Inr repo' \<Rightarrow> Inr (repo', wave, False)
                    | Inl (e, message) \<Rightarrow>
                        if message \<notin> {''DPM_WAVE_CORRELATION_CONFLICT'', ''DPM_WAVE_IDEMPOTENCY_CONFLICT''} then Inl e
                        else (case idempotency_record now key tenant of
                                None \<Rightarrow> Inl e
                              | Some (winner, stored_hash) \<Rightarrow>
                                  if stored_hash \<noteq> Some rhash then Inl e else Inr (now, winner, True)))))))"

section \<open>The store of created waves\<close>

text \<open>
  What creation relies on: an index from the keys of a tenant to a wave and a request hash, which no
  write ever changes again, and a save that adds one wave under an identifier nobody has.
\<close>

locale wave_creation_store = wave_repository ok get update
  for ok :: "'r \<Rightarrow> bool" and get and update +
  fixes index :: "'r \<Rightarrow> string \<Rightarrow> string \<Rightarrow> (string \<times> string option) option"
    and save :: "DpmRebalanceWave \<Rightarrow> string option \<Rightarrow> string option \<Rightarrow> string \<Rightarrow> 'r \<Rightarrow> 'r wave_result"
    and "write" :: "'r \<Rightarrow> 'r \<Rightarrow> bool"
  assumes save_keeps_ok: "ok r \<Longrightarrow> save w key h t r = Inr r' \<Longrightarrow> ok r'"
    and save_fresh: "save w key h t r = Inr r' \<Longrightarrow> get r (wave_id w) t' = None"
    and save_get: "save w key h t r = Inr r' \<Longrightarrow>
      get r' i t' = (if i = wave_id w \<and> t' = t then Some (w\<lparr> wave_tenant_id := Some t \<rparr>) else get r i t')"
    and save_index: "save w (Some k) h t r = Inr r' \<Longrightarrow> index r' k t = Some (wave_id w, h)"
    and save_keeps_index: "save w key h t r = Inr r' \<Longrightarrow> index r k t' = Some e \<Longrightarrow> index r' k t' = Some e"
    and update_keeps_index: "update r w v t = Inr r' \<Longrightarrow> index r' k t' = index r k t'"
    and write_keeps_ok: "write r r' \<Longrightarrow> ok r \<Longrightarrow> ok r'"
    and write_keeps_index: "write r r' \<Longrightarrow> index r' k t = index r k t"
    and write_keeps_waves: "write r r' \<Longrightarrow> ok r \<Longrightarrow> get r i t = Some w \<Longrightarrow> \<exists>w'. get r' i t = Some w'"
begin

text \<open>
  Later states of the store: whatever saves, updates and the other operations of the repository, which
  write no key and remove no wave, lead to.
\<close>

inductive later :: "'r \<Rightarrow> 'r \<Rightarrow> bool" for r where
  now: "later r r"
| saved: "later r r1 \<Longrightarrow> save w key h t r1 = Inr r2 \<Longrightarrow> later r r2"
| updated: "later r r1 \<Longrightarrow> update r1 w v t = Inr r2 \<Longrightarrow> later r r2"
| written: "later r r1 \<Longrightarrow> write r1 r2 \<Longrightarrow> later r r2"

lemma later_ok: "later r r' \<Longrightarrow> ok r \<Longrightarrow> ok r'"
  by (induction rule: later.induct) (auto intro: save_keeps_ok update_ok write_keeps_ok)

lemma later_trans: "later r1 r2 \<Longrightarrow> later r r1 \<Longrightarrow> later r r2"
  by (induction rule: later.induct) (auto intro: later.intros)

lemma later_index: "later r r' \<Longrightarrow> index r k t = Some e \<Longrightarrow> index r' k t = Some e"
  by (induction rule: later.induct) (auto simp: update_keeps_index write_keeps_index intro: save_keeps_index)

lemma later_get:
  assumes "later r r'" and "ok r" and "get r i t = Some w"
  shows "\<exists>w'. get r' i t = Some w'"
  using assms
proof (induction rule: later.induct)
  case (saved r1 w' key h t' r2)
  then show ?case using save_get [OF saved.hyps(2), of i t] by (auto split: if_splits)
next
  case (updated r1 w' v t' r2)
  then show ?case using update_get [OF later_ok [OF updated.hyps(1)] updated.hyps(2), of i t] by (auto split: if_splits)
next
  case (written r1 r2)
  then show ?case using write_keeps_waves [OF written.hyps(2) later_ok [OF written.hyps(1)]] by blast
qed simp

definition stored_record :: "'r \<Rightarrow> string \<Rightarrow> string \<Rightarrow> (DpmRebalanceWave \<times> string option) option" where
  "stored_record r k t = (case index r k t of None \<Rightarrow> None | Some (i, h) \<Rightarrow> map_option (\<lambda>w. (w, h)) (get r i t))"

lemma stored_record_iff:
  "stored_record r k t = Some (w, h) \<longleftrightarrow> (\<exists>i. index r k t = Some (i, h) \<and> get r i t = Some w)"
  by (auto simp: stored_record_def split: option.splits)

lemma saved_record:
  assumes "ok r" and "save w (Some k) h t r = Inr r'" and "later r' r''"
  obtains w' where "stored_record r'' k t = Some (w', h)" and "get r'' (wave_id w) t = Some w'"
proof -
  have index: "index r'' k t = Some (wave_id w, h)"
    by (rule later_index [OF assms(3) save_index [OF assms(2)]])
  have "get r' (wave_id w) t = Some (w\<lparr> wave_tenant_id := Some t \<rparr>)" using save_get [OF assms(2)] by simp
  from later_get [OF assms(3) save_keeps_ok [OF assms(1,2)] this]
  obtain w' where "get r'' (wave_id w) t = Some w'" by blast
  with index show ?thesis by (intro that) (auto simp: stored_record_iff)
qed

lemma save_or_raise_iff: "save_wave_or_raise save w key h t r = Inr r' \<longleftrightarrow> save w key h t r = Inr r'"
  by (auto simp: save_wave_or_raise_def split: sum.splits wave_error.splits)

lemma create_cases:
  assumes "create_persisted_wave stored_record save sha256 str_of rt race mandates req k t r = Inr (r', w, replayed)"
  obtains (created) preview where "\<not> replayed" "stored_record r k t = None"
      "build_preview_wave str_of rt mandates t req = Inr preview"
      "promote_preview_to_created_wave sha256 (rt_created_stamp rt) preview (create_created_wave_id rt) (cw_actor_id req)
         (cw_correlation_id req) k = Inr w"
      "save w (Some k) (Some (create_wave_request_hash sha256 t req)) t (race r) = Inr r'"
    | (replay) "replayed" "r' = r \<or> r' = race r" "stored_record r' k t = Some (w, Some (create_wave_request_hash sha256 t req))"
  using assms
  by (auto simp: create_persisted_wave_def Let_def wave_bind_def save_or_raise_iff
      split: option.splits if_splits sum.splits prod.splits)

end

text \<open>The in-memory store keeps this contract.\<close>

definition memory_index ::
  "(string \<Rightarrow> string) \<Rightarrow> InMemoryDpmWaveRepository \<Rightarrow> string \<Rightarrow> string \<Rightarrow> (string \<times> string option) option" where
  "memory_index sha256 repo key tenant = dict_get (idempotency_index repo) (wave_idempotency_mapping_key sha256 tenant key)"

text \<open>
  The other operations of the repository: they keep it well formed, write no idempotency key of a wave
  and remove no wave. The operations on simulations are such writes.
\<close>

definition memory_write :: "InMemoryDpmWaveRepository \<Rightarrow> InMemoryDpmWaveRepository \<Rightarrow> bool" where
  "memory_write r r' \<longleftrightarrow>
     idempotency_index r' = idempotency_index r
     \<and> (repository_ok r \<longrightarrow> repository_ok r' \<and> (\<forall>i t. get_wave r i t \<noteq> None \<longrightarrow> get_wave r' i t \<noteq> None))"

lemma save_wave_iff:
  "save_wave sha256 w key h t r = Inr r' \<longleftrightarrow>
     \<not> idempotency_conflict (idempotency_index r) (map_option (wave_idempotency_mapping_key sha256 t) key) (wave_id w) h
     \<and> dict_get (repo_waves r) (wave_id w) = None \<and> dict_get (correlation_index r) (t, wave_correlation_id w) = None
     \<and> r' = r\<lparr> idempotency_index :=
                   index_idempotency_key (map_option (wave_idempotency_mapping_key sha256 t) key) (wave_id w) h (idempotency_index r),
                 repo_waves := dict_set (wave_id w) (w\<lparr>wave_tenant_id := Some t\<rparr>) (repo_waves r),
                 correlation_index := dict_set (t, wave_correlation_id w) (wave_id w) (correlation_index r) \<rparr>"
  by (auto simp: save_wave_def Let_def map_of_eq_None_iff)

interpretation created: wave_creation_store repository_ok get_wave update_wave "memory_index sha256" "save_wave sha256" memory_write
  for sha256
proof unfold_locales
  fix w key h t r r' assume "repository_ok r" "save_wave sha256 w key h t r = Inr r'"
  then show "repository_ok r'" by (rule save_wave_ok [rotated])
next
  fix w key h t r r' t' assume "save_wave sha256 w key h t r = Inr r'"
  then show "get_wave r (wave_id w) t' = None" by (simp add: save_wave_iff get_wave_def)
next
  fix w key h t r r' i t' assume "save_wave sha256 w key h t r = Inr r'"
  then show "get_wave r' i t' = (if i = wave_id w \<and> t' = t then Some (w\<lparr> wave_tenant_id := Some t \<rparr>) else get_wave r i t')"
    by (auto simp: save_wave_iff get_wave_def dict_get_set split: option.splits)
next
  fix w k h t r r' assume "save_wave sha256 w (Some k) h t r = Inr r'"
  then show "memory_index sha256 r' k t = Some (wave_id w, h)"
    by (auto simp: save_wave_iff memory_index_def index_idempotency_key_def dict_get_set)
next
  fix w key h t r r' k t' e assume "save_wave sha256 w key h t r = Inr r'" "memory_index sha256 r k t' = Some e"
  then show "memory_index sha256 r' k t' = Some e"
    by (auto simp: save_wave_iff memory_index_def index_idempotency_key_def idempotency_conflict_def dict_get_set
        split: option.splits)
next
  fix r w v t r' k t' assume "update_wave r w v t = Inr r'"
  then show "memory_index sha256 r' k t' = memory_index sha256 r k t'"
    by (auto simp: update_wave_def memory_index_def split: option.splits if_splits)
next
  fix r r' assume "memory_write r r'" "repository_ok r"
  then show "repository_ok r'" by (simp add: memory_write_def)
next
  fix r r' k t assume "memory_write r r'"
  then show "memory_index sha256 r' k t = memory_index sha256 r k t" by (simp add: memory_write_def memory_index_def)
next
  fix r r' i t w assume "memory_write r r'" "repository_ok r" "get_wave r i t = Some w"
  then show "\<exists>w'. get_wave r' i t = Some w'" by (auto simp: memory_write_def)
qed

lemma memory_record: "created.stored_record sha256 = get_wave_idempotency_record sha256"
  by (auto simp: fun_eq_iff created.stored_record_def get_wave_idempotency_record_def memory_index_def get_wave_def
      split: option.splits)


section \<open>Lemmas\<close>

lemma wave_bind_eq_Inr [simp]: "wave_bind m f = Inr y \<longleftrightarrow> (\<exists>x. m = Inr x \<and> f x = Inr y)"
  by (simp add: wave_bind_def split: sum.splits)

lemma wave_map_success: "wave_map f xs = Inr ys \<longleftrightarrow> list_all2 (\<lambda>x y. f x = Inr y) xs ys"
  by (induction xs arbitrary: ys) (auto simp: list_all2_Cons1)

lemma wave_map_total: "(\<And>x. x \<in> set xs \<Longrightarrow> \<exists>y. f x = Inr y) \<Longrightarrow> \<exists>ys. wave_map f xs = Inr ys"
  by (induction xs) auto

definition candidate_item :: "DpmRebalanceWaveItem \<Rightarrow> bool" where
  "candidate_item i \<longleftrightarrow> wi_state i = (if wi_source_refs i = [] then ITEM_SOURCE_BLOCKED else ITEM_CANDIDATE)"

text \<open>
  What the item of a portfolio must be: the portfolio of the request, under the mandate stored for it or
  else the one supplied, with the references of the request and that of the mandate, a candidate if it
  has any, and no work done on it.
\<close>

definition item_from ::
  "(json \<Rightarrow> string) \<Rightarrow> MandateLookups \<Rightarrow> string \<Rightarrow> (string, json) dict \<Rightarrow> DpmRebalanceWaveItem \<Rightarrow> bool" where
  "item_from str_of mandates t p i \<longleftrightarrow>
     (\<exists>pid refs. dict_get p ''portfolio_id'' = Some pid \<and> wi_portfolio_id i = strip (str_of pid)
        \<and> source_refs_from_portfolio p = Inr refs
        \<and> (case mandate_by_portfolio mandates (wi_portfolio_id i) t of
             None \<Rightarrow> wi_mandate_id i = optional_str str_of (dict_get p ''mandate_id'') \<and> wi_source_refs i = refs
           | Some twin \<Rightarrow> wi_mandate_id i = Some (mt_mandate_id twin)
               \<and> wi_source_refs i = refs @ [source_ref_of ''lotus-manage'' ''MANDATE_DIGITAL_TWIN'' (mt_mandate_id twin)
                                             (mt_mandate_version twin) (Some ''READY'')]))
     \<and> candidate_item i \<and> wi_alternative_set_id i = None \<and> wi_selected_alternative_id i = None \<and> wi_proof_pack_id i = None"

lemma built_item:
  assumes "build_wave_item str_of rt mandates t n p = Inr i"
  shows "item_from str_of mandates t p i"
proof -
  obtain v refs where v: "dict_get p ''portfolio_id'' = Some v" and refs: "source_refs_from_portfolio p = Inr refs"
    using assms by (auto simp: build_wave_item_def Let_def split: option.splits)
  show ?thesis
  proof (cases "mandate_by_portfolio mandates (strip (str_of v)) t")
    case None
    with assms v refs show ?thesis
      by (cases "refs = []") (auto simp: build_wave_item_def wave_bind_def candidate_item_def item_from_def)
  next
    case (Some twin)
    with assms v refs show ?thesis by (auto simp: build_wave_item_def wave_bind_def candidate_item_def item_from_def)
  qed
qed

text \<open>What a request must have for its wave to be built.\<close>

definition portfolio_valid :: "(string, json) dict \<Rightarrow> bool" where
  "portfolio_valid p \<longleftrightarrow> dict_get p ''portfolio_id'' \<noteq> None \<and> (\<exists>refs. source_refs_from_portfolio p = Inr refs)"

definition request_valid :: "CreateWaveRequest \<Rightarrow> bool" where
  "request_valid req \<longleftrightarrow>
     cw_trigger_type req \<in> set SUPPORTED_CREATE_TRIGGER_TYPES \<and> cw_portfolios req \<noteq> []
     \<and> (\<forall>p \<in> set (cw_portfolios req). portfolio_valid p)"

lemma item_buildable: "(\<exists>i. build_wave_item str_of rt mandates t n p = Inr i) \<longleftrightarrow> portfolio_valid p"
  by (auto simp: build_wave_item_def portfolio_valid_def Let_def wave_bind_def split: option.splits sum.splits)

text \<open>
  What a created wave must be: the trigger, rationale, date, author and correlation of the request, one
  item per portfolio in its order, and a history of two events by the author.
\<close>

definition created_from ::
  "(json \<Rightarrow> string) \<Rightarrow> MandateLookups \<Rightarrow> CreateWaveRequest \<Rightarrow> string \<Rightarrow> DpmRebalanceWave \<Rightarrow> bool" where
  "created_from str_of mandates req t w \<longleftrightarrow>
     wave_state w = CREATED \<and> version w = 3 \<and> map ev_to_state (events w) = [PREVIEWED, CREATED]
     \<and> event_chain DRAFT (events w) CREATED
     \<and> (\<forall>e \<in> set (events w). ev_wave_id e = wave_id w \<and> ev_actor_id e = cw_actor_id req
          \<and> ev_correlation_id e = cw_correlation_id req)
     \<and> wave_tenant_id w = Some t \<and> wave_correlation_id w = cw_correlation_id req \<and> wave_as_of_date w = cw_as_of_date req
     \<and> wave_created_by w = cw_actor_id req
     \<and> trigger_type (wave_trigger w) = cw_trigger_type req \<and> trigger_id (wave_trigger w) = cw_trigger_id req
     \<and> trigger_rationale (wave_trigger w) = cw_rationale req
     \<and> trigger_source_refs_of (cw_portfolios req) = Inr (trigger_source_refs (wave_trigger w))
     \<and> list_all2 (item_from str_of mandates t) (cw_portfolios req) (items w) \<and> handoff_refs w = []
     \<and> lifecycle_ok w"

text \<open>Preview and promotion are the first steps of the history of a wave.\<close>

lemma previewed_reachable:
  assumes "wave_state w = PREVIEWED" and "version w = 2"
    and "\<exists>e. events w = [e] \<and> ev_wave_id e = wave_id w \<and> ev_from_state e = Some DRAFT \<and> ev_to_state e = PREVIEWED"
  shows "wave_reachable (w\<lparr> wave_state := DRAFT, version := 1, events := [] \<rparr>) w"
proof -
  let ?w0 = "w\<lparr> wave_state := DRAFT, version := 1, events := [] \<rparr>"
  obtain e where e: "events w = [e]" "ev_wave_id e = wave_id w" "ev_from_state e = Some DRAFT" "ev_to_state e = PREVIEWED"
    using assms(3) by blast
  have "wave_reachable ?w0 ?w0" by (rule wave_reachable.start) simp_all
  moreover have "apply_wave_transition ?w0 PREVIEWED e = Inr w"
    using assms(1,2) e by (simp add: apply_wave_transition_iff)
  ultimately show ?thesis by (rule wave_reachable.transition)
qed

lemma promoted_reachable:
  assumes "wave_reachable w0 preview"
    and "promote_preview_to_created_wave sha256 stamp preview wid actor correlation key = Inr w"
  shows "wave_reachable w0 w"
  using wave_reachable.transition [OF wave_reachable.promoted [OF assms(1), of wid]] assms(2)
  unfolding promote_preview_to_created_wave_def Let_def by blast

lemma built_wave:
  assumes "build_preview_wave str_of rt mandates t req = Inr preview"
    and "promote_preview_to_created_wave sha256 stamp preview wid (cw_actor_id req) (cw_correlation_id req) key = Inr w"
  shows "created_from str_of mandates req t w \<and> wave_id w = wid \<and> request_valid req \<and> (\<exists>w0. wave_reachable w0 w)"
proof -
  obtain its refs where sources: "trigger_source_refs_of (cw_portfolios req) = Inr refs"
    and trigger: "trigger_validation_failure (cw_trigger_type req) (cw_portfolios req) = None"
    and its: "list_all2 (\<lambda>(n, p) i. build_wave_item str_of rt mandates t n p = Inr i) (List.enumerate 1 (cw_portfolios req)) its"
    and preview: "preview = \<lparr> wave_id = ''dwv_preview_'' @ take 12 (rt_preview_hex rt), wave_version = ''1.0.0'', wave_state = PREVIEWED,
                    wave_trigger = \<lparr> trigger_type = cw_trigger_type req, trigger_id = cw_trigger_id req,
                      trigger_rationale = cw_rationale req, trigger_source_refs = refs \<rparr>,
                    wave_as_of_date = cw_as_of_date req, wave_created_at = rt_now rt, wave_created_by = cw_actor_id req,
                    wave_correlation_id = cw_correlation_id req, wave_tenant_id = Some t, version = 2, items = its,
                    aggregate_metrics = aggregate_wave_items its,
                    events = [build_wave_event (rt_preview_stamp rt) (''dwv_preview_'' @ take 12 (rt_preview_hex rt)) DRAFT PREVIEWED
                       (cw_actor_id req) (cw_correlation_id req) ''WAVE_PREVIEWED'' [(''item_count'', JInt (int (length its)))]
                       ''STATE_TRANSITION''], handoff_refs = [], retention_policy = ''DPM_WAVE_STANDARD'' \<rparr>"
    using assms(1)
    by (auto simp: build_preview_wave_def validate_trigger_or_raise_def wave_map_success apply_wave_transition_iff Let_def
        case_prod_unfold split: option.splits)
  have "portfolio_valid p" if "p \<in> set (cw_portfolios req)" for p
  proof -
    from that obtain n where "(n, p) \<in> set (List.enumerate 1 (cw_portfolios req))"
      by (metis in_set_enumerate_eq in_set_conv_nth fst_conv snd_conv le_add1 add.commute add_diff_cancel_left' nat_add_left_cancel_less)
    with its obtain i where "build_wave_item str_of rt mandates t n p = Inr i"
      by (auto simp: list_all2_conv_all_nth in_set_conv_nth)
    then show ?thesis using item_buildable by blast
  qed
  with trigger have valid: "request_valid req"
    by (auto simp: request_valid_def trigger_validation_failure_def split: if_splits)
  have from_request: "list_all2 (item_from str_of mandates t) (cw_portfolios req) its"
    using its built_item by (fastforce simp: list_all2_conv_all_nth nth_enumerate_eq)
  then have cand: "candidate_item i" if "i \<in> set its" for i
    using that by (auto simp: list_all2_conv_all_nth in_set_conv_nth item_from_def)
  then have allowed: "item_allowed CREATED i" if "i \<in> set its" for i
    using that by (auto simp: item_allowed_def candidate_item_def split: if_splits)
  have "created_from str_of mandates req t w \<and> wave_id w = wid"
    using assms(2) from_request sources allowed
    by (auto simp: promote_preview_to_created_wave_def Let_def apply_wave_transition_iff preview created_from_def
        build_wave_event_def lifecycle_ok_def handed_off_def)
  moreover have "wave_reachable (preview\<lparr> wave_state := DRAFT, version := 1, events := [] \<rparr>) w"
    by (rule promoted_reachable [OF previewed_reachable assms(2)]) (simp_all add: preview build_wave_event_def)
  ultimately show ?thesis using valid by blast
qed

lemma build_total:
  assumes "request_valid req"
  shows "\<exists>preview w. build_preview_wave str_of rt mandates t req = Inr preview
    \<and> promote_preview_to_created_wave sha256 stamp preview wid actor correlation key = Inr w"
proof -
  have trigger: "validate_trigger_or_raise (cw_trigger_type req) (cw_portfolios req) = Inr ()"
    using assms by (simp add: request_valid_def validate_trigger_or_raise_def trigger_validation_failure_def)
  have valid: "portfolio_valid p" if "p \<in> set (cw_portfolios req)" for p using assms that by (simp add: request_valid_def)
  have "\<exists>i. (case np of (n, p) \<Rightarrow> build_wave_item str_of rt mandates t n p) = Inr i"
    if "np \<in> set (List.enumerate 1 (cw_portfolios req))" for np
  proof (cases np)
    case (Pair n p)
    with that have "p \<in> set (cw_portfolios req)" using in_set_enumerate_eq [of np 1 "cw_portfolios req"] by fastforce
    then show ?thesis using valid item_buildable Pair by auto
  qed
  from wave_map_total [of "List.enumerate 1 (cw_portfolios req)" "\<lambda>(n, p). build_wave_item str_of rt mandates t n p", OF this]
  obtain its where
    its: "wave_map (\<lambda>(n, p). build_wave_item str_of rt mandates t n p) (List.enumerate 1 (cw_portfolios req)) = Inr its" by blast
  have "\<exists>refs. trigger_source_refs_of (cw_portfolios req) = Inr refs"
    using wave_map_total [of "cw_portfolios req" source_refs_from_portfolio] valid
    by (auto simp: trigger_source_refs_of_def portfolio_valid_def)
  then obtain refs where refs: "trigger_source_refs_of (cw_portfolios req) = Inr refs" by blast
  have "\<exists>preview. build_preview_wave str_of rt mandates t req = Inr preview \<and> wave_state preview = PREVIEWED"
    using trigger its refs by (simp add: build_preview_wave_def wave_bind_def Let_def apply_wave_transition_def
        validate_wave_transition_def build_wave_event_def)
  then obtain preview where "build_preview_wave str_of rt mandates t req = Inr preview" "wave_state preview = PREVIEWED" by blast
  then show ?thesis
    by (simp add: promote_preview_to_created_wave_def Let_def apply_wave_transition_def validate_wave_transition_def
        build_wave_event_def)
qed

text \<open>A key that is taken answers every later request for it, by the wave or by a refusal.\<close>

context wave_creation_store
begin

lemma record_later:
  assumes "ok r" and "stored_record r k t = Some (w, h)" and "later r r2"
  obtains w2 where "stored_record r2 k t = Some (w2, h)" and "get r2 (wave_id w) t = Some w2"
proof -
  obtain i where i: "index r k t = Some (i, h)" "get r i t = Some w" using assms(2) by (auto simp: stored_record_iff)
  then have "wave_id w = i" using get_owned [OF assms(1)] by blast
  moreover obtain w2 where "get r2 i t = Some w2" using later_get [OF assms(3,1) i(2)] by blast
  ultimately show ?thesis
    using that [of w2] later_index [OF assms(3) i(1)] by (auto simp: stored_record_iff)
qed

lemma create_taken:
  assumes "stored_record r k t = Some (w, Some h)"
  shows "create_persisted_wave stored_record save sha256 str_of rt race mandates req k t r =
    (if create_wave_request_hash sha256 t req = h then Inr (r, w, True)
     else Inl (DpmWaveValidationError ''WAVE_CREATE_CONFLICT''))"
  using assms by (simp add: create_persisted_wave_def)

lemma create_once:
  assumes "ok r" and race: "later r (race r)"
    and run: "create_persisted_wave stored_record save sha256 str_of rt race mandates req k t r = Inr (r', w, replayed)"
  shows "ok r' \<and> stored_record r' k t = Some (w, Some (create_wave_request_hash sha256 t req)) \<and> get r' (wave_id w) t = Some w
    \<and> (if replayed then r' = r \<or> r' = race r
       else created_from str_of mandates req t w \<and> wave_id w = create_created_wave_id rt
         \<and> (\<forall>i t'. (i, t') \<noteq> (wave_id w, t) \<longrightarrow> get r' i t' = get (race r) i t'))"
  using run
proof (cases rule: create_cases)
  case (created preview)
  note built = built_wave [OF created(3,4)]
  then have own: "w\<lparr> wave_tenant_id := Some t \<rparr> = w" by (simp add: created_from_def)
  have "get r' (wave_id w) t = Some w" using save_get [OF created(5), of "wave_id w" t] own by simp
  moreover have "stored_record r' k t = Some (w, Some (create_wave_request_hash sha256 t req))"
    using save_index [OF created(5)] calculation by (simp add: stored_record_iff)
  moreover have "get r' i t' = get (race r) i t'" if "(i, t') \<noteq> (wave_id w, t)" for i t'
    using save_get [OF created(5), of i t'] that by auto
  ultimately show ?thesis using created(1) built save_keeps_ok [OF later_ok [OF race assms(1)] created(5)] by auto
next
  case replay
  have ok: "ok r'" using replay(2) assms(1) later_ok [OF race] by auto
  then have "get r' (wave_id w) t = Some w" using replay(3) get_owned [OF ok] by (auto simp: stored_record_iff)
  with ok replay show ?thesis by auto
qed

end

section \<open>Properties\<close>

text \<open>
  C29. A wave is created once. Whatever other requests write between the lookup of the key and the
  save, a successful creation returns a wave that is stored for its tenant: a new one in state
  \<open>CREATED\<close>, or the wave that already has the key. A new wave has the trigger, rationale, date, author
  and correlation of the request, one item per portfolio of the request in its order (that portfolio,
  its stored or else its supplied mandate, its references, a candidate if it has any), and its history
  by the author; no other wave of any tenant changes. From then on, whatever waves are saved or updated
  and whatever is done to simulations, every request of the tenant with that key is answered by the
  current state of this wave, or refused when the hash of its content differs. A valid request with a
  new key, identifier and correlation is never refused when it runs alone.
\<close>

theorem wave_created_once:
  assumes "repository_ok r" and "created.later sha256 r (race r)"
  shows "case create_persisted_wave (get_wave_idempotency_record sha256) (save_wave sha256) sha256 str_of rt race mandates req key t r of
      Inl e \<Rightarrow> \<not> (request_valid req \<and> race r = r \<and> memory_index sha256 r key t = None
                   \<and> dict_get (repo_waves r) (create_created_wave_id rt) = None
                   \<and> dict_get (correlation_index r) (t, cw_correlation_id req) = None)
    | Inr (r', w, replayed) \<Rightarrow>
        repository_ok r' \<and> get_wave r' (wave_id w) t = Some w
        \<and> (if replayed then r' = r \<or> r' = race r
           else created_from str_of mandates req t w \<and> wave_id w = create_created_wave_id rt
             \<and> (\<forall>i t'. (i, t') \<noteq> (wave_id w, t) \<longrightarrow> get_wave r' i t' = get_wave (race r) i t'))
        \<and> (\<forall>r2 rt2 race2 mandates2 req2. created.later sha256 r' r2 \<longrightarrow>
             create_persisted_wave (get_wave_idempotency_record sha256) (save_wave sha256) sha256 str_of rt2 race2 mandates2 req2 key t r2
             = (if create_wave_request_hash sha256 t req2 = create_wave_request_hash sha256 t req
                then Inr (r2, the (get_wave r2 (wave_id w) t), True)
                else Inl (DpmWaveValidationError ''WAVE_CREATE_CONFLICT'')))"
proof (cases "create_persisted_wave (get_wave_idempotency_record sha256) (save_wave sha256) sha256 str_of rt race mandates req key t r")
  case (Inl e)
  have "\<not> (request_valid req \<and> race r = r \<and> memory_index sha256 r key t = None
     \<and> dict_get (repo_waves r) (create_created_wave_id rt) = None \<and> dict_get (correlation_index r) (t, cw_correlation_id req) = None)"
  proof
    assume free: "request_valid req \<and> race r = r \<and> memory_index sha256 r key t = None
     \<and> dict_get (repo_waves r) (create_created_wave_id rt) = None \<and> dict_get (correlation_index r) (t, cw_correlation_id req) = None"
    obtain preview w where built: "build_preview_wave str_of rt mandates t req = Inr preview"
      "promote_preview_to_created_wave sha256 (rt_created_stamp rt) preview (create_created_wave_id rt) (cw_actor_id req)
         (cw_correlation_id req) key = Inr w"
      using build_total [of req] free by blast
    have "\<exists>r'. save_wave sha256 w (Some key) (Some (create_wave_request_hash sha256 t req)) t r = Inr r'"
      using free built_wave [OF built]
      by (simp add: save_wave_iff created_from_def idempotency_conflict_def memory_index_def)
    moreover have "get_wave_idempotency_record sha256 r key t = None"
      using free by (simp add: get_wave_idempotency_record_def memory_index_def)
    ultimately show False
      using Inl built free by (auto simp: create_persisted_wave_def Let_def wave_bind_def save_wave_or_raise_def)
  qed
  then show ?thesis by (simp add: Inl)
next
  case (Inr x)
  obtain r' w replayed where x: "x = (r', w, replayed)" by (cases x) auto
  note once = created.create_once [OF assms Inr [unfolded x memory_record [symmetric]]]
  have "create_persisted_wave (get_wave_idempotency_record sha256) (save_wave sha256) sha256 str_of rt2 race2 mandates2 req2 key t r2
      = (if create_wave_request_hash sha256 t req2 = create_wave_request_hash sha256 t req
         then Inr (r2, the (get_wave r2 (wave_id w) t), True) else Inl (DpmWaveValidationError ''WAVE_CREATE_CONFLICT''))"
    if "created.later sha256 r' r2" for r2 rt2 race2 mandates2 req2
    using created.record_later [OF once [THEN conjunct1] once [THEN conjunct2, THEN conjunct1] that]
      created.create_taken unfolding memory_record by (metis option.sel)
  with once show ?thesis by (simp add: Inr x)
qed

text \<open>Two requests with one key: the second one finds the wave of the first.\<close>

definition sample_create :: CreateWaveRequest where
  "sample_create =
     \<lparr> cw_trigger_type = ''PM_BOOK_REVIEW'', cw_trigger_id = ''r1'', cw_rationale = ''review'', cw_as_of_date = ''2026-05-03'',
       cw_actor_id = ''pm_001'', cw_correlation_id = ''c1'', cw_portfolios = [[(''portfolio_id'', JStr ''P1'')]] \<rparr>"

definition sample_runtime :: "string \<Rightarrow> CreateRuntime" where
  "sample_runtime hex =
     \<lparr> rt_item_hex = (\<lambda>n. hex), rt_preview_hex = hex, rt_wave_hex = hex, rt_now = 0, rt_preview_stamp = sample_stamp,
       rt_created_stamp = sample_stamp \<rparr>"

definition no_mandates :: MandateLookups where
  "no_mandates = \<lparr> latest_mandate = \<lambda>_ _. None, mandate_by_portfolio = \<lambda>_ _. None, latest_health = \<lambda>_ _. None \<rparr>"

definition text_of :: "json \<Rightarrow> string" where
  "text_of v = (case v of JStr s \<Rightarrow> s | _ \<Rightarrow> '''')"

definition sample_creation :: "string \<Rightarrow> InMemoryDpmWaveRepository \<Rightarrow> (InMemoryDpmWaveRepository \<times> DpmRebalanceWave \<times> bool) wave_result" where
  "sample_creation hex =
     create_persisted_wave (get_wave_idempotency_record rev) (save_wave rev) rev text_of (sample_runtime hex) (\<lambda>r. r) no_mandates
       sample_create ''k1'' ''t1''"

lemma sample_created:
  obtains r w where "sample_creation ''a'' empty_repository = Inr (r, w, False)" "wave_id w = ''dwv_a''"
    "map wi_state (items w) = [ITEM_SOURCE_BLOCKED]"
proof -
  have "case sample_creation ''a'' empty_repository of
      Inl _ \<Rightarrow> False
    | Inr (r, w, replayed) \<Rightarrow> \<not> replayed \<and> wave_id w = ''dwv_a'' \<and> map wi_state (items w) = [ITEM_SOURCE_BLOCKED]"
    by code_simp
  then show thesis
    by (cases "sample_creation ''a'' empty_repository") (auto intro: that)
qed

theorem wave_created_once_witness:
  "\<exists>r w. sample_creation ''a'' empty_repository = Inr (r, w, False) \<and> created_from text_of no_mandates sample_create ''t1'' w
     \<and> get_wave r ''dwv_a'' ''t1'' = Some w \<and> sample_creation ''b'' r = Inr (r, w, True)"
proof -
  obtain r w where run: "sample_creation ''a'' empty_repository = Inr (r, w, False)" "wave_id w = ''dwv_a''"
    by (rule sample_created)
  have ok: "repository_ok empty_repository" by (simp add: repository_ok_def empty_repository_def)
  show ?thesis
    using wave_created_once [where ?sha256.0 = rev and race = "\<lambda>r. r" and str_of = text_of and rt = "sample_runtime ''a''"
        and mandates = no_mandates and req = sample_create and key = "''k1''" and t = "''t1''", OF ok created.later.now]
      run created.later.now [of rev r]
    by (auto simp: sample_creation_def)
qed

end
