(* ===== verification/Wave_Source_Analytics.thy ===== *)
theory Wave_Source_Analytics
  imports Wave_Creation
begin

text \<open>
  Source analytics of a wave (\<open>src/src/core/waves/source_analytics.py\<close>): the risk and performance
  evidence of the alternatives of an item is merged into the diagnostics of the item, and the evidence
  of the items is summarised for the wave. Diagnostics are decoded values of any shape, so every step
  that iterates over a value or validates a reference may raise; \<open>str_of\<close> is Python's \<open>str\<close> on such a
  value.
\<close>


section \<open>Definitions\<close>

record ConstructionAlternative =
  alternative_id :: string
  alternative_diagnostics :: "(string, json) dict"

record ConstructionAlternativeSet =
  as_alternative_set_id :: string
  as_portfolio_id :: string
  as_status :: string
  as_alternatives :: "ConstructionAlternative list"

record DpmWaveSourceAnalyticsSummary =
  sa_source_family :: string
  sa_supportability_state :: string
  sa_item_count :: nat
  sa_ready_item_count :: nat
  sa_degraded_item_count :: nat
  sa_blocked_item_count :: nat
  sa_pending_review_item_count :: nat
  sa_source_systems :: "string list"
  sa_source_refs :: "DpmWaveSourceRef list"
  sa_reason_codes :: "string list"
  sa_source_measures :: "(string, string list) dict"


subsection \<open>Decoded values\<close>

text \<open>\<open>str.upper\<close> on ASCII text, truth of a value, \<open>for x in value\<close>, and \<open>sorted(set(...))\<close>.\<close>

definition ascii_upper :: "string \<Rightarrow> string" where
  "ascii_upper = map (\<lambda>c. let n = of_char c :: nat in if 97 \<le> n \<and> n \<le> 122 then char_of (n - 32) else c)"

fun json_truthy :: "json \<Rightarrow> bool" where
  "json_truthy JNull \<longleftrightarrow> False"
| "json_truthy (JBool b) \<longleftrightarrow> b"
| "json_truthy (JInt n) \<longleftrightarrow> n \<noteq> 0"
| "json_truthy (JStr s) \<longleftrightarrow> s \<noteq> ''''"
| "json_truthy (JList xs) \<longleftrightarrow> xs \<noteq> []"
| "json_truthy (JObj kvs) \<longleftrightarrow> kvs \<noteq> []"

fun json_iter :: "json \<Rightarrow> json list wave_result" where
  "json_iter (JList xs) = Inr xs"
| "json_iter (JStr s) = Inr (map (\<lambda>c. JStr [c]) s)"
| "json_iter (JObj kvs) = Inr (map (\<lambda>(k, _). JStr k) kvs)"
| "json_iter _ = Inl (WaveServiceException ''TypeError'')"

definition sorted_set :: "string list \<Rightarrow> string list" where
  "sorted_set xs = sort (remdups xs)"

definition json_mapping :: "json option \<Rightarrow> (string, json) dict" where
  "json_mapping v = (case v of Some (JObj d) \<Rightarrow> d | _ \<Rightarrow> [])"

definition json_string_list :: "(json \<Rightarrow> string) \<Rightarrow> json option \<Rightarrow> string list" where
  "json_string_list str_of v = (case v of Some (JList xs) \<Rightarrow> map str_of xs | _ \<Rightarrow> [])"

text \<open>\<open>summary.get(key, default)\<close> iterated, \<open>d.get(a) or d.get(b) or fallback\<close>.\<close>

definition iter_key :: "(string, json) dict \<Rightarrow> string \<Rightarrow> json list wave_result" where
  "iter_key d key = (case dict_get d key of None \<Rightarrow> Inr [] | Some v \<Rightarrow> json_iter v)"

fun first_truthy :: "json option list \<Rightarrow> json \<Rightarrow> json" where
  "first_truthy [] fallback = fallback"
| "first_truthy (Some v # vs) fallback = (if json_truthy v then v else first_truthy vs fallback)"
| "first_truthy (None # vs) fallback = first_truthy vs fallback"


subsection \<open>References\<close>

definition optional_json :: "string option \<Rightarrow> json" where
  "optional_json v = (case v of None \<Rightarrow> JNull | Some s \<Rightarrow> JStr s)"

text \<open>\<open>model_dump(mode="json")\<close> and \<open>model_validate\<close>.\<close>

definition source_ref_dump :: "DpmWaveSourceRef \<Rightarrow> json" where
  "source_ref_dump ref =
     JObj [(''source_system'', JStr (sr_source_system ref)), (''source_type'', JStr (sr_source_type ref)),
           (''source_id'', JStr (sr_source_id ref)), (''source_version'', optional_json (sr_source_version ref)),
           (''supportability_state'', optional_json (sr_supportability_state ref)),
           (''content_hash'', optional_json (sr_content_hash ref)),
           (''source_batch_fingerprint'', optional_json (sr_source_batch_fingerprint ref)),
           (''selection_basis'', case sr_selection_basis ref of None \<Rightarrow> JNull | Some d \<Rightarrow> JObj d)]"

definition validate_ref_value :: "json \<Rightarrow> DpmWaveSourceRef wave_result" where
  "validate_ref_value v = (case v of JObj d \<Rightarrow> validate_source_ref d | _ \<Rightarrow> Inl PydanticValidationError)"

definition dedupe_source_ref_dicts :: "json list \<Rightarrow> json list wave_result" where
  "dedupe_source_ref_dicts refs =
     wave_bind (wave_map validate_ref_value refs) (\<lambda>validated.
       Inr (dict_values (dict_of (map (\<lambda>ref.
         ((sr_source_system ref, sr_source_type ref, sr_source_id ref, sr_source_version ref), source_ref_dump ref)) validated))))"


subsection \<open>Summaries\<close>

definition source_order :: "string \<Rightarrow> nat" where
  "source_order state =
     dict_get_or [(''BLOCKED'', 0), (''DEGRADED'', 1), (''PENDING_REVIEW'', 2), (''READY'', 3)] state 1"

definition worst_source_state :: "string list \<Rightarrow> string" where
  "worst_source_state states =
     (let normalized = map ascii_upper (filter (\<lambda>state. state \<noteq> '''') states)
      in if normalized = [] then ''DEGRADED'' else arg_min_list source_order normalized)"

definition summary_state :: "(json \<Rightarrow> string) \<Rightarrow> (string, json) dict \<Rightarrow> string" where
  "summary_state str_of summary = str_of (dict_get_or summary ''supportability_state'' (JStr ''DEGRADED''))"

definition count_text :: "string \<Rightarrow> (string, nat) dict \<Rightarrow> (string, nat) dict" where
  "count_text x counts = dict_set x (dict_get_or counts x 0 + 1) counts"

definition count_texts :: "string list \<Rightarrow> (string, nat) dict" where
  "count_texts xs = fold count_text xs []"

definition source_state_counts :: "(json \<Rightarrow> string) \<Rightarrow> (string, json) dict list \<Rightarrow> (string, nat) dict" where
  "source_state_counts str_of summaries = count_texts (map (\<lambda>s. ascii_upper (summary_state str_of s)) summaries)"

definition source_ref_dicts_from_summaries :: "(string, json) dict list \<Rightarrow> json list wave_result" where
  "source_ref_dicts_from_summaries summaries =
     wave_bind (wave_map (\<lambda>s. iter_key s ''source_refs'') summaries) (\<lambda>rs. Inr (concat rs))"

definition texts_from_summaries :: "(json \<Rightarrow> string) \<Rightarrow> string \<Rightarrow> (string, json) dict list \<Rightarrow> string list wave_result" where
  "texts_from_summaries str_of key summaries =
     wave_bind (wave_map (\<lambda>s. iter_key s key) summaries) (\<lambda>vs. Inr (sorted_set (map str_of (concat vs))))"

definition source_systems_from_summaries :: "(json \<Rightarrow> string) \<Rightarrow> (string, json) dict list \<Rightarrow> string list wave_result" where
  "source_systems_from_summaries str_of = texts_from_summaries str_of ''source_systems''"

definition reason_codes_from_summaries :: "(json \<Rightarrow> string) \<Rightarrow> (string, json) dict list \<Rightarrow> string list wave_result" where
  "reason_codes_from_summaries str_of = texts_from_summaries str_of ''reason_codes''"

fun add_measures ::
  "(json \<Rightarrow> string) \<Rightarrow> (string \<times> json) list \<Rightarrow> (string, string list) dict \<Rightarrow> (string, string list) dict wave_result" where
  "add_measures str_of [] found = Inr found"
| "add_measures str_of ((name, values) # rest) found =
     wave_bind (json_iter values) (\<lambda>vs.
       add_measures str_of rest (dict_set name (dict_get_or found name [] @ map str_of vs) found))"

definition source_measure_values_from_summaries ::
  "(json \<Rightarrow> string) \<Rightarrow> (string, json) dict list \<Rightarrow> (string, string list) dict wave_result" where
  "source_measure_values_from_summaries str_of summaries =
     add_measures str_of (concat (map (\<lambda>s. json_mapping (dict_get s ''source_measures'')) summaries)) []"

definition sorted_measures :: "(string, string list) dict \<Rightarrow> (string, string list) dict" where
  "sorted_measures found = map (\<lambda>(measure, values). (measure, sorted_set values)) (sort_key fst found)"


subsection \<open>The evidence of an item\<close>

definition alternative_source_context :: "(string, json) dict \<Rightarrow> string \<Rightarrow> (string, json) dict" where
  "alternative_source_context diagnostics family =
     json_mapping (dict_get (json_mapping (dict_get diagnostics ''authority_context'')) (family @ ''_context''))"

definition alternative_source_supportability_state ::
  "(json \<Rightarrow> string) \<Rightarrow> (string, json) dict \<Rightarrow> (string, json) dict \<Rightarrow> string \<Rightarrow> string" where
  "alternative_source_supportability_state str_of context enrichment family =
     ascii_upper (str_of (first_truthy [dict_get context ''supportability_status'', dict_get enrichment (family @ ''_status'')]
                            (JStr ''DEGRADED'')))"

definition alternative_source_system :: "(json \<Rightarrow> string) \<Rightarrow> (string, json) dict \<Rightarrow> string \<Rightarrow> string" where
  "alternative_source_system str_of context family =
     str_of (first_truthy [dict_get context ''source_system''] (JStr (''lotus-'' @ family)))"

definition alternative_source_reason_codes ::
  "(json \<Rightarrow> string) \<Rightarrow> (string, json) dict \<Rightarrow> (string, json) dict \<Rightarrow> string list" where
  "alternative_source_reason_codes str_of context enrichment =
     (let codes = json_string_list str_of (dict_get context ''reason_codes'')
      in if codes \<noteq> [] then codes else json_string_list str_of (dict_get enrichment ''reason_codes''))"

definition source_context_value_or_fallback :: "(json \<Rightarrow> string) \<Rightarrow> (string, json) dict \<Rightarrow> string \<Rightarrow> string \<Rightarrow> string" where
  "source_context_value_or_fallback str_of context key fallback = str_of (first_truthy [dict_get context key] (JStr fallback))"

definition optional_source_context_value :: "(json \<Rightarrow> string) \<Rightarrow> (string, json) dict \<Rightarrow> string \<Rightarrow> string option" where
  "optional_source_context_value str_of context key =
     (case dict_get context key of None \<Rightarrow> None | Some v \<Rightarrow> if json_truthy v then Some (str_of v) else None)"

definition analytics_source_type :: "(json \<Rightarrow> string) \<Rightarrow> (string, json) dict \<Rightarrow> string \<Rightarrow> string" where
  "analytics_source_type str_of context family =
     source_context_value_or_fallback str_of context ''source_product_name''
       (if family = ''risk'' then ''RISK_AUTHORITY_CONTEXT'' else ''PERFORMANCE_AUTHORITY_CONTEXT'')"

definition analytics_source_ref ::
  "(json \<Rightarrow> string) \<Rightarrow> (string, json) dict \<Rightarrow> string \<Rightarrow> string \<Rightarrow> string \<Rightarrow> DpmWaveSourceRef" where
  "analytics_source_ref str_of context system family fallback_id =
     \<lparr> sr_source_system = system, sr_source_type = analytics_source_type str_of context family,
       sr_source_id = source_context_value_or_fallback str_of context ''source_id'' fallback_id,
       sr_source_version = optional_source_context_value str_of context ''source_product_version'',
       sr_supportability_state = Some (source_context_value_or_fallback str_of context ''supportability_status'' ''DEGRADED''),
       sr_content_hash = optional_source_context_value str_of context ''content_hash'',
       sr_source_batch_fingerprint = None, sr_selection_basis = None \<rparr>"

definition source_measure_names :: "string \<Rightarrow> string list" where
  "source_measure_names family =
     (if family = ''risk''
      then [''tracking_error'', ''maximum_drawdown'', ''average_drawdown'', ''stress_loss_pct'', ''stress_contribution_count'',
            ''attribution_contributor_count'', ''concentration_breaches'', ''concentration_hhi_delta'',
            ''top_position_weight_proposed'', ''issuer_coverage_status'']
      else [''benchmark_id'', ''active_return'', ''benchmark_relative_return'', ''contribution_total_return'',
            ''attribution_allocation'', ''attribution_selection'', ''attribution_interaction'', ''currency_attribution_total'',
            ''underperformance_flag''])"

definition source_measures_of :: "(json \<Rightarrow> string) \<Rightarrow> (string, json) dict \<Rightarrow> string \<Rightarrow> (string, json) dict" where
  "source_measures_of str_of context family =
     List.map_filter (\<lambda>measure.
         (case dict_get context measure of
            None \<Rightarrow> None | Some JNull \<Rightarrow> None | Some v \<Rightarrow> Some (measure, JList [JStr (str_of v)])))
       (source_measure_names family)"

definition source_analytics_from_alternative ::
  "(json \<Rightarrow> string) \<Rightarrow> string \<Rightarrow> (string, json) dict \<Rightarrow> string \<Rightarrow> (string, json) dict option" where
  "source_analytics_from_alternative str_of set_id diagnostics family =
     (let context = alternative_source_context diagnostics family
      in if context = [] then None
         else
           let enrichment = json_mapping (dict_get diagnostics ''enrichment_summary'');
               system = alternative_source_system str_of context family
           in Some [(''supportability_state'', JStr (alternative_source_supportability_state str_of context enrichment family)),
                    (''source_systems'', JList [JStr system]),
                    (''source_refs'', JList [source_ref_dump (analytics_source_ref str_of context system family set_id)]),
                    (''reason_codes'', JList (map JStr (alternative_source_reason_codes str_of context enrichment))),
                    (''source_measures'', JObj (source_measures_of str_of context family))])"

definition merge_item_source_analytics ::
  "(json \<Rightarrow> string) \<Rightarrow> (string, json) dict list \<Rightarrow> (string, json) dict wave_result" where
  "merge_item_source_analytics str_of candidates =
     wave_bind (source_ref_dicts_from_summaries candidates) (\<lambda>refs.
     wave_bind (source_measure_values_from_summaries str_of candidates) (\<lambda>found.
     wave_bind (source_systems_from_summaries str_of candidates) (\<lambda>systems.
     wave_bind (dedupe_source_ref_dicts refs) (\<lambda>unique_refs.
     wave_bind (reason_codes_from_summaries str_of candidates) (\<lambda>codes.
       Inr [(''supportability_state'', JStr (worst_source_state (map (summary_state str_of) candidates))),
            (''source_systems'', JList (map JStr systems)),
            (''source_refs'', JList unique_refs),
            (''reason_codes'', JList (map JStr codes)),
            (''source_measures'', JObj (map (\<lambda>(m, vs). (m, JList (map JStr vs))) (sorted_measures found)))])))))"

definition source_families :: "string list" where
  "source_families = [''risk'', ''performance'']"

definition family_candidates :: "(json \<Rightarrow> string) \<Rightarrow> ConstructionAlternativeSet \<Rightarrow> string \<Rightarrow> (string, json) dict list" where
  "family_candidates str_of alternative_set family =
     List.map_filter (\<lambda>alternative.
         source_analytics_from_alternative str_of (as_alternative_set_id alternative_set) (alternative_diagnostics alternative) family)
       (as_alternatives alternative_set)"

definition build_source_analytics_from_alternative_set ::
  "(json \<Rightarrow> string) \<Rightarrow> ConstructionAlternativeSet \<Rightarrow> (string, json) dict wave_result" where
  "build_source_analytics_from_alternative_set str_of alternative_set =
     wave_map (\<lambda>family. wave_bind (merge_item_source_analytics str_of (family_candidates str_of alternative_set family))
                          (\<lambda>merged. Inr (family, JObj merged)))
       (filter (\<lambda>family. family_candidates str_of alternative_set family \<noteq> []) source_families)"


subsection \<open>The summaries of a wave\<close>

definition item_source_analytics :: "string \<Rightarrow> DpmRebalanceWaveItem \<Rightarrow> (string, json) dict" where
  "item_source_analytics family item =
     json_mapping (dict_get (json_mapping (dict_get (wi_diagnostics item) ''source_analytics'')) family)"

definition family_item_source_analytics :: "string \<Rightarrow> DpmRebalanceWaveItem list \<Rightarrow> (string, json) dict list" where
  "family_item_source_analytics family its = filter (\<lambda>s. s \<noteq> []) (map (item_source_analytics family) its)"

definition aggregate_family_source_analytics ::
  "(json \<Rightarrow> string) \<Rightarrow> string \<Rightarrow> (string, json) dict list \<Rightarrow> DpmWaveSourceAnalyticsSummary wave_result" where
  "aggregate_family_source_analytics str_of family summaries =
     (let counts = source_state_counts str_of summaries
      in wave_bind (source_ref_dicts_from_summaries summaries) (\<lambda>refs.
         wave_bind (source_measure_values_from_summaries str_of summaries) (\<lambda>found.
         wave_bind (source_systems_from_summaries str_of summaries) (\<lambda>systems.
         wave_bind (dedupe_source_ref_dicts refs) (\<lambda>unique_refs.
         wave_bind (wave_map validate_ref_value unique_refs) (\<lambda>validated.
         wave_bind (reason_codes_from_summaries str_of summaries) (\<lambda>codes.
           Inr \<lparr> sa_source_family = ascii_upper family, sa_supportability_state = worst_source_state (dict_keys counts),
                 sa_item_count = length summaries, sa_ready_item_count = dict_get_or counts ''READY'' 0,
                 sa_degraded_item_count = dict_get_or counts ''DEGRADED'' 0,
                 sa_blocked_item_count = dict_get_or counts ''BLOCKED'' 0,
                 sa_pending_review_item_count = dict_get_or counts ''PENDING_REVIEW'' 0,
                 sa_source_systems = systems, sa_source_refs = validated, sa_reason_codes = codes,
                 sa_source_measures = sorted_measures found \<rparr>)))))))"

definition aggregate_wave_source_analytics ::
  "(json \<Rightarrow> string) \<Rightarrow> DpmRebalanceWaveItem list \<Rightarrow> DpmWaveSourceAnalyticsSummary list wave_result" where
  "aggregate_wave_source_analytics str_of its =
     wave_map (\<lambda>family. aggregate_family_source_analytics str_of family (family_item_source_analytics family its))
       (filter (\<lambda>family. family_item_source_analytics family its \<noteq> []) source_families)"


section \<open>Lemmas\<close>

text \<open>What is written as evidence can be read again.\<close>

lemma validate_dump [simp]: "validate_ref_value (source_ref_dump ref) = Inr ref"
  by (cases ref)
    (auto simp: validate_ref_value_def source_ref_dump_def validate_source_ref_def required_text_def optional_text_def
      optional_object_def optional_json_def wave_bind_def split: option.splits)

lemma wave_map_mem: "wave_map f xs = Inr ys \<Longrightarrow> y \<in> set ys \<Longrightarrow> \<exists>x \<in> set xs. f x = Inr y"
  by (induction xs arbitrary: ys) auto

definition list_value :: "(string, json) dict \<Rightarrow> string \<Rightarrow> bool" where
  "list_value d key \<longleftrightarrow> (\<forall>v. dict_get d key = Some v \<longrightarrow> (\<exists>xs. v = JList xs))"

definition evidence_ok :: "(string, json) dict \<Rightarrow> bool" where
  "evidence_ok d \<longleftrightarrow>
     list_value d ''source_systems'' \<and> list_value d ''reason_codes''
     \<and> (\<exists>refs. dict_get d ''source_refs'' = Some (JList (map source_ref_dump refs)))
     \<and> (\<forall>m v. (m, v) \<in> set (json_mapping (dict_get d ''source_measures'')) \<longrightarrow> (\<exists>xs. v = JList xs))
     \<and> (\<exists>s. dict_get d ''supportability_state'' = Some (JStr s))"

lemma iter_list_value: "list_value d key \<Longrightarrow> \<exists>xs. iter_key d key = Inr xs"
  by (auto simp: list_value_def iter_key_def split: option.splits)

lemma evidence_texts:
  assumes "\<And>d. d \<in> set ds \<Longrightarrow> list_value d key"
  shows "\<exists>xs. texts_from_summaries str_of key ds = Inr xs"
  using wave_map_total [of ds "\<lambda>s. iter_key s key"] iter_list_value assms
  by (fastforce simp: texts_from_summaries_def)

lemma evidence_refs:
  assumes "\<And>d. d \<in> set ds \<Longrightarrow> evidence_ok d"
  shows "\<exists>refs. source_ref_dicts_from_summaries ds = Inr (map source_ref_dump refs)"
  using assms
proof (induction ds)
  case Nil
  show ?case by (rule exI [of _ "[]"]) (simp add: source_ref_dicts_from_summaries_def)
next
  case (Cons d ds)
  then obtain refs where refs: "source_ref_dicts_from_summaries ds = Inr (map source_ref_dump refs)" by auto
  obtain more where "dict_get d ''source_refs'' = Some (JList (map source_ref_dump more))"
    using Cons.prems [of d] by (auto simp: evidence_ok_def)
  with refs have "source_ref_dicts_from_summaries (d # ds) = Inr (map source_ref_dump (more @ refs))"
    by (auto simp: source_ref_dicts_from_summaries_def iter_key_def)
  then show ?case by blast
qed

lemma add_measures_total:
  assumes "\<And>m v. (m, v) \<in> set kvs \<Longrightarrow> \<exists>xs. v = JList xs"
  shows "\<exists>ms. add_measures str_of kvs found = Inr ms"
  using assms
proof (induction kvs arbitrary: found)
  case (Cons kv kvs)
  obtain m v where kv: "kv = (m, v)" by (cases kv)
  then obtain xs where "v = JList xs" using Cons.prems by auto
  moreover have "\<exists>ms. add_measures str_of kvs d = Inr ms" for d
    by (rule Cons.IH) (use Cons.prems in auto)
  ultimately show ?case using kv by (simp add: wave_bind_def)
qed simp

lemma evidence_measures:
  assumes "\<And>d. d \<in> set ds \<Longrightarrow> evidence_ok d"
  shows "\<exists>ms. source_measure_values_from_summaries str_of ds = Inr ms"
  unfolding source_measure_values_from_summaries_def
  by (rule add_measures_total) (use assms in \<open>auto simp: evidence_ok_def\<close>)

text \<open>Deduplicated references are dumps of some of the references, one per identity.\<close>

lemma dedupe_dumps:
  "\<exists>unique. dedupe_source_ref_dicts (map source_ref_dump refs) = Inr (map source_ref_dump unique) \<and> set unique \<subseteq> set refs"
proof -
  let ?key = "\<lambda>ref. (sr_source_system ref, sr_source_type ref, sr_source_id ref, sr_source_version ref)"
  let ?d = "dict_of (map (\<lambda>ref. (?key ref, source_ref_dump ref)) refs)"
  have validated: "wave_map validate_ref_value (map source_ref_dump refs) = Inr refs"
    by (simp add: wave_map_success list_all2_conv_all_nth)
  have "\<exists>ref \<in> set refs. v = source_ref_dump ref" if "v \<in> set (dict_values ?d)" for v
  proof -
    from that obtain k where "(k, v) \<in> set ?d" by auto
    then have "dict_get ?d k = Some v" by simp
    from dict_of_mem [OF this] show ?thesis by auto
  qed
  then have "\<forall>v \<in> set (dict_values ?d). \<exists>ref. ref \<in> set refs \<and> v = source_ref_dump ref" by blast
  from bchoice [OF this] obtain f where f: "\<forall>v \<in> set (dict_values ?d). f v \<in> set refs \<and> v = source_ref_dump (f v)" by blast
  have "dict_values ?d = map source_ref_dump (map f (dict_values ?d))"
    using f by (auto intro!: map_idI [symmetric] simp: o_def)
  moreover have "set (map f (dict_values ?d)) \<subseteq> set refs" using f by auto
  ultimately obtain unique where unique: "dict_values ?d = map source_ref_dump unique" "set unique \<subseteq> set refs" by blast
  show ?thesis
    by (rule exI [of _ unique]) (simp add: dedupe_source_ref_dicts_def wave_bind_def validated unique)
qed

lemmas evidence_success = evidence_refs evidence_measures

lemma evidence_lists:
  assumes "\<And>d. d \<in> set ds \<Longrightarrow> evidence_ok d"
  shows "\<exists>xs. source_systems_from_summaries str_of ds = Inr xs" "\<exists>xs. reason_codes_from_summaries str_of ds = Inr xs"
  unfolding source_systems_from_summaries_def reason_codes_from_summaries_def
  by (rule evidence_texts, use assms in \<open>simp add: evidence_ok_def\<close>)+

text \<open>The state of the evidence.\<close>

lemma ascii_upper_idem [simp]: "ascii_upper (ascii_upper s) = ascii_upper s"
  by (auto simp: ascii_upper_def Let_def)

lemma ascii_upper_empty [simp]: "ascii_upper s = [] \<longleftrightarrow> s = []" "[] = ascii_upper s \<longleftrightarrow> s = []"
  by (simp_all add: ascii_upper_def)

lemma source_order_cases:
  "source_order s = 3 \<longleftrightarrow> s = ''READY''" "source_order s = 0 \<longleftrightarrow> s = ''BLOCKED''" "source_order s \<le> 3"
  by (auto simp: source_order_def dict_get_or_def split: option.splits if_splits)

lemma worst_nonempty: "worst_source_state states \<noteq> ''''"
proof (cases "filter (\<lambda>state. state \<noteq> '''') states = []")
  case False
  then have "arg_min_list source_order (map ascii_upper (filter (\<lambda>state. state \<noteq> '''') states))
      \<in> set (map ascii_upper (filter (\<lambda>state. state \<noteq> '''') states))"
    by (intro arg_min_list_in) simp
  with False show ?thesis by (auto simp: worst_source_state_def Let_def)
qed (simp add: worst_source_state_def)

lemma worst_state_exactly:
  assumes "xs \<noteq> []" and "\<And>x. x \<in> set xs \<Longrightarrow> x \<noteq> '''' \<and> ascii_upper x = x"
  shows "worst_source_state xs = ''READY'' \<longleftrightarrow> set xs = {''READY''}"
    and "worst_source_state xs = ''BLOCKED'' \<longleftrightarrow> ''BLOCKED'' \<in> set xs"
proof -
  have "filter (\<lambda>state. state \<noteq> '''') xs = xs" and "map ascii_upper xs = xs"
    using assms(2) by (auto simp: filter_id_conv intro: map_idI)
  with assms(1) have worst: "worst_source_state xs = arg_min_list source_order xs"
    by (simp add: worst_source_state_def)
  have least: "source_order (arg_min_list source_order xs) = Min (source_order ` set xs)"
    using assms(1) by (rule f_arg_min_list_f)
  have "arg_min_list source_order xs = ''READY'' \<longleftrightarrow> 3 \<le> Min (source_order ` set xs)"
    using source_order_cases(1,3) [of "arg_min_list source_order xs"] least by linarith
  also have "\<dots> \<longleftrightarrow> (\<forall>x \<in> set xs. x = ''READY'')"
    using assms(1) source_order_cases(1,3) by (simp add: Min_ge_iff) (metis le_antisym order_refl)
  finally show "worst_source_state xs = ''READY'' \<longleftrightarrow> set xs = {''READY''}" using assms(1) worst by (cases xs) auto
  have "arg_min_list source_order xs = ''BLOCKED'' \<longleftrightarrow> Min (source_order ` set xs) \<le> 0"
    using source_order_cases(2) [of "arg_min_list source_order xs"] least by linarith
  also have "\<dots> \<longleftrightarrow> (\<exists>x \<in> set xs. source_order x = 0)"
    using Min_le_iff [of "source_order ` set xs" 0] assms(1) by (auto simp: image_iff)
  also have "\<dots> \<longleftrightarrow> ''BLOCKED'' \<in> set xs" unfolding source_order_cases(2) by blast
  finally show "worst_source_state xs = ''BLOCKED'' \<longleftrightarrow> ''BLOCKED'' \<in> set xs" using worst by simp
qed

text \<open>Counting texts.\<close>

lemma count_text_get: "dict_get_or (count_text x d) k 0 = dict_get_or d k 0 + (if x = k then 1 else 0)"
  by (auto simp: count_text_def dict_get_or_def dict_get_set)

lemma count_text_keys: "fst ` set (count_text x d) = insert x (fst ` set d)"
  using arg_cong [OF update_keys [of x "dict_get_or d x 0 + 1" d], of set]
  by (auto simp: count_text_def split: if_splits)

lemma count_texts_fold: "dict_get_or (fold count_text xs d) k 0 = dict_get_or d k 0 + count_list xs k"
  by (induction xs arbitrary: d) (auto simp: count_text_get)

lemma count_texts_keys_fold: "fst ` set (fold count_text xs d) = fst ` set d \<union> set xs"
  by (induction xs arbitrary: d) (auto simp: count_text_keys)

lemma count_texts_get: "dict_get_or (count_texts xs) k 0 = count_list xs k"
  using count_texts_fold [of xs "[]" k] by (simp add: count_texts_def dict_get_or_def)

lemma count_texts_keys: "set (dict_keys (count_texts xs)) = set xs"
  using count_texts_keys_fold [of xs "[]"] by (simp add: count_texts_def)

lemma count_list_four:
  assumes "distinct [a, b, c, d]"
  shows "count_list xs a + count_list xs b + count_list xs c + count_list xs d \<le> length xs"
  using assms by (induction xs) auto

text \<open>What the services write as evidence of an item is well formed.\<close>

definition state_given :: "(string, json) dict \<Rightarrow> bool" where
  "state_given d \<longleftrightarrow> (\<exists>s. dict_get d ''supportability_state'' = Some (JStr s) \<and> s \<noteq> '''')"

lemma measures_lists:
  "(m, v) \<in> set (source_measures_of str_of context family) \<Longrightarrow> \<exists>xs. v = JList xs"
  by (auto simp: source_measures_of_def map_filter_def split: option.splits json.splits if_splits)

lemma alternative_evidence:
  assumes "source_analytics_from_alternative str_of set_id diagnostics family = Some d"
  shows "evidence_ok d"
proof -
  obtain state systems ref codes ctx where d:
    "d = [(''supportability_state'', JStr state), (''source_systems'', JList systems),
          (''source_refs'', JList [source_ref_dump ref]), (''reason_codes'', JList codes),
          (''source_measures'', JObj (source_measures_of str_of ctx family))]"
    using assms by (auto simp: source_analytics_from_alternative_def Let_def split: if_splits)
  have "\<exists>refs. [source_ref_dump ref] = map source_ref_dump refs" by (rule exI [of _ "[ref]"]) simp
  then show ?thesis using measures_lists by (auto simp: d evidence_ok_def list_value_def json_mapping_def)
qed

lemma merged_evidence:
  assumes "\<And>d. d \<in> set ds \<Longrightarrow> evidence_ok d"
  shows "\<exists>m. merge_item_source_analytics str_of ds = Inr m \<and> evidence_ok m \<and> state_given m"
proof -
  obtain refs where refs: "source_ref_dicts_from_summaries ds = Inr (map source_ref_dump refs)"
    using evidence_refs [OF assms] by blast
  obtain found where found: "source_measure_values_from_summaries str_of ds = Inr found"
    using evidence_measures [OF assms] by blast
  obtain systems codes where texts: "source_systems_from_summaries str_of ds = Inr systems"
    "reason_codes_from_summaries str_of ds = Inr codes"
    using evidence_lists [OF assms] by blast
  obtain unique where unique: "dedupe_source_ref_dicts (map source_ref_dump refs) = Inr (map source_ref_dump unique)"
    using dedupe_dumps by blast
  have "\<exists>xs. v = JList xs" if "(m, v) \<in> set (map (\<lambda>(m, vs). (m, JList (map JStr vs))) (sorted_measures found))" for m v
    using that by auto
  then show ?thesis
    by (auto simp: merge_item_source_analytics_def wave_bind_def refs found texts unique evidence_ok_def list_value_def
        json_mapping_def state_given_def worst_nonempty)
qed

lemma built_evidence:
  "\<exists>a. build_source_analytics_from_alternative_set str_of alternatives = Inr a
     \<and> (\<forall>(family, v) \<in> set a. \<exists>m. v = JObj m \<and> evidence_ok m \<and> state_given m)"
proof -
  let ?f = "\<lambda>family. wave_bind (merge_item_source_analytics str_of (family_candidates str_of alternatives family))
                          (\<lambda>merged. Inr (family, JObj merged))"
  have "evidence_ok d" if "d \<in> set (family_candidates str_of alternatives family)" for d family
    using that by (auto simp: family_candidates_def map_filter_def intro: alternative_evidence)
  from merged_evidence [OF this]
  have step: "\<exists>m. ?f family = Inr (family, JObj m) \<and> evidence_ok m \<and> state_given m" for family by fastforce
  then have "\<exists>a. build_source_analytics_from_alternative_set str_of alternatives = Inr a"
    unfolding build_source_analytics_from_alternative_set_def by (intro wave_map_total) blast
  then obtain a where a: "build_source_analytics_from_alternative_set str_of alternatives = Inr a" by blast
  have "\<exists>m. v = JObj m \<and> evidence_ok m \<and> state_given m" if "(family, v) \<in> set a" for family v
  proof -
    from wave_map_mem [OF a [unfolded build_source_analytics_from_alternative_set_def] that]
    obtain g where "?f g = Inr (family, v)" by blast
    with step [of g] show ?thesis by auto
  qed
  with a show ?thesis by blast
qed

text \<open>The evidence of an item is absent or was built from an alternative set.\<close>

definition analytics_built :: "(json \<Rightarrow> string) \<Rightarrow> DpmRebalanceWaveItem \<Rightarrow> bool" where
  "analytics_built str_of item \<longleftrightarrow>
     (case dict_get (wi_diagnostics item) ''source_analytics'' of
        None \<Rightarrow> True
      | Some v \<Rightarrow> \<exists>alternatives a. build_source_analytics_from_alternative_set str_of alternatives = Inr a \<and> v = JObj a)"

lemma built_item_evidence:
  assumes "analytics_built str_of item" and "item_source_analytics family item \<noteq> []"
  shows "evidence_ok (item_source_analytics family item) \<and> state_given (item_source_analytics family item)"
proof -
  obtain alternatives a where v: "dict_get (wi_diagnostics item) ''source_analytics'' = Some (JObj a)"
    and a: "build_source_analytics_from_alternative_set str_of alternatives = Inr a"
    using assms by (auto simp: analytics_built_def item_source_analytics_def json_mapping_def split: option.splits)
  obtain w where w: "dict_get a family = Some w" and eq: "item_source_analytics family item = json_mapping (Some w)"
    using assms(2) v by (auto simp: item_source_analytics_def json_mapping_def split: option.splits)
  have "\<exists>m. w = JObj m \<and> evidence_ok m \<and> state_given m"
    using built_evidence [of str_of alternatives] a map_of_SomeD [OF w] by auto
  then show ?thesis using eq by (auto simp: json_mapping_def)
qed

text \<open>A summary of well-formed evidence.\<close>

definition faithful_summary :: "nat \<Rightarrow> string \<Rightarrow> DpmWaveSourceAnalyticsSummary \<Rightarrow> bool" where
  "faithful_summary n family s \<longleftrightarrow>
     sa_source_family s = ascii_upper family \<and> sa_item_count s = n
     \<and> sa_ready_item_count s + sa_degraded_item_count s + sa_blocked_item_count s + sa_pending_review_item_count s
         \<le> sa_item_count s
     \<and> (sa_supportability_state s = ''READY'' \<longleftrightarrow> sa_ready_item_count s = sa_item_count s)
     \<and> (sa_supportability_state s = ''BLOCKED'' \<longleftrightarrow> 0 < sa_blocked_item_count s)"

lemma aggregate_evidence:
  assumes str_text: "\<And>s. str_of (JStr s) = s" and "ds \<noteq> []" and "\<And>d. d \<in> set ds \<Longrightarrow> evidence_ok d \<and> state_given d"
  shows "\<exists>s. aggregate_family_source_analytics str_of family ds = Inr s \<and> faithful_summary (length ds) family s"
proof -
  have ok: "\<And>d. d \<in> set ds \<Longrightarrow> evidence_ok d" using assms(3) by blast
  obtain refs where refs: "source_ref_dicts_from_summaries ds = Inr (map source_ref_dump refs)"
    using evidence_refs [OF ok] by blast
  obtain found where found: "source_measure_values_from_summaries str_of ds = Inr found"
    using evidence_measures [OF ok] by blast
  obtain systems codes where texts: "source_systems_from_summaries str_of ds = Inr systems"
    "reason_codes_from_summaries str_of ds = Inr codes"
    using evidence_lists [OF ok] by blast
  obtain unique where unique: "dedupe_source_ref_dicts (map source_ref_dump refs) = Inr (map source_ref_dump unique)"
    using dedupe_dumps by blast
  have validated: "wave_map validate_ref_value (map source_ref_dump unique) = Inr unique"
    by (simp add: wave_map_success list_all2_conv_all_nth)
  define states where "states = map (\<lambda>d. ascii_upper (summary_state str_of d)) ds"
  have keys: "set (dict_keys (count_texts states)) = set states" by (rule count_texts_keys)
  have "summary_state str_of d \<noteq> ''''" if "d \<in> set ds" for d
    using assms(3) [OF that] str_text by (auto simp: summary_state_def dict_get_or_def state_given_def)
  then have "x \<noteq> '''' \<and> ascii_upper x = x" if "x \<in> set states" for x
    using that by (auto simp: states_def)
  moreover have nonempty: "states \<noteq> []" using assms(2) by (simp add: states_def)
  moreover have "dict_keys (count_texts states) \<noteq> []" using keys nonempty by (metis set_empty)
  ultimately have worst: "worst_source_state (dict_keys (count_texts states)) = ''READY'' \<longleftrightarrow> set states = {''READY''}"
    "worst_source_state (dict_keys (count_texts states)) = ''BLOCKED'' \<longleftrightarrow> ''BLOCKED'' \<in> set states"
    using worst_state_exactly [of "dict_keys (count_texts states)"] unfolding keys by blast+
  have all: "set states = {''READY''} \<longleftrightarrow> count_list states ''READY'' = length states"
    unfolding count_list_all using nonempty by (cases states) auto
  have some: "''BLOCKED'' \<in> set states \<longleftrightarrow> 0 < count_list states ''BLOCKED''"
    using count_list_0_iff [of states "''BLOCKED''"] by auto
  show ?thesis
    using worst all some count_list_four [of "''READY''" "''DEGRADED''" "''BLOCKED''" "''PENDING_REVIEW''" states]
    by (simp add: aggregate_family_source_analytics_def Let_def wave_bind_def refs found texts unique validated
        faithful_summary_def source_state_counts_def count_texts_get flip: states_def) (simp add: states_def)
qed


section \<open>Properties\<close>


text \<open>Two items, one with evidence of a ready and a blocked alternative.\<close>

definition sample_alternatives :: ConstructionAlternativeSet where
  "sample_alternatives =
     (let risk = \<lambda>state. [(''authority_context'', JObj [(''risk_context'', JObj [(''supportability_status'', JStr state)])])]
      in \<lparr> as_alternative_set_id = ''s1'', as_portfolio_id = ''P1'', as_status = ''READY'',
           as_alternatives = [\<lparr> alternative_id = ''a1'', alternative_diagnostics = risk ''ready'' \<rparr>,
                              \<lparr> alternative_id = ''a2'', alternative_diagnostics = risk ''blocked'' \<rparr>] \<rparr>)"

definition analysed_item :: DpmRebalanceWaveItem where
  "analysed_item =
     (sample_item ''i1'' ITEM_SIMULATED
        [(''source_analytics'', JObj (case build_source_analytics_from_alternative_set text_of sample_alternatives of
             Inl _ \<Rightarrow> [] | Inr a \<Rightarrow> a))])"

lemma analysed_item_built: "analytics_built text_of analysed_item" "analytics_built text_of (sample_item ''i2'' ITEM_SIMULATED [])"
  using built_evidence [of text_of sample_alternatives]
  by (auto simp: analytics_built_def analysed_item_def sample_item_def)


end
