(* ===== verification/Wave_Simulation_Item.thy ===== *)
theory Wave_Simulation_Item
  imports Wave_Source_Analytics
begin

text \<open>
  Simulating the items of a wave (\<open>src/src/api/services/wave_simulation_item.py\<close>,
  \<open>wave_simulation.py\<close>, \<open>wave_construction_diagnostics.py\<close> and \<open>simulate_persisted_wave\<close> of
  \<open>wave_preparation_commands.py\<close>). The construction service is a function from its arguments to an
  alternative set or an exception, of which the exceptions that only block the item are told apart
  by their class; nothing else is assumed of it. \<open>str_of_value\<close> is Python's \<open>str\<close>. Of a rebalance request only the portfolio is read
  here; the rest is the body.
\<close>


section \<open>Definitions\<close>

datatype service_exception = Blocking_Error string | Unexpected_Error string

text \<open>Construction methods (\<open>src/src/core/construction/vocabulary.py\<close>) and their values.\<close>

datatype ConstructionMethod =
    DO_NOTHING_BASELINE | HEURISTIC_EXPLAINABLE | MIN_TURNOVER | COST_AWARE | TAX_AWARE | LIQUIDITY_AWARE
  | SOLVER_CONSTRAINED | RISK_AWARE | ESG_AWARE | CURRENCY_OVERLAY | REGIME_STRESS_AWARE

definition CONSTRUCTION_METHODS :: "(string, ConstructionMethod) dict" where
  "CONSTRUCTION_METHODS =
     [(''DO_NOTHING_BASELINE'', DO_NOTHING_BASELINE), (''HEURISTIC_EXPLAINABLE'', HEURISTIC_EXPLAINABLE),
      (''MIN_TURNOVER'', MIN_TURNOVER), (''COST_AWARE'', COST_AWARE), (''TAX_AWARE'', TAX_AWARE),
      (''LIQUIDITY_AWARE'', LIQUIDITY_AWARE), (''SOLVER_CONSTRAINED'', SOLVER_CONSTRAINED), (''RISK_AWARE'', RISK_AWARE),
      (''ESG_AWARE'', ESG_AWARE), (''CURRENCY_OVERLAY'', CURRENCY_OVERLAY), (''REGIME_STRESS_AWARE'', REGIME_STRESS_AWARE)]"

fun method_value :: "ConstructionMethod \<Rightarrow> string" where
  "method_value DO_NOTHING_BASELINE = ''DO_NOTHING_BASELINE''"
| "method_value HEURISTIC_EXPLAINABLE = ''HEURISTIC_EXPLAINABLE''"
| "method_value MIN_TURNOVER = ''MIN_TURNOVER''"
| "method_value COST_AWARE = ''COST_AWARE''"
| "method_value TAX_AWARE = ''TAX_AWARE''"
| "method_value LIQUIDITY_AWARE = ''LIQUIDITY_AWARE''"
| "method_value SOLVER_CONSTRAINED = ''SOLVER_CONSTRAINED''"
| "method_value RISK_AWARE = ''RISK_AWARE''"
| "method_value ESG_AWARE = ''ESG_AWARE''"
| "method_value CURRENCY_OVERLAY = ''CURRENCY_OVERLAY''"
| "method_value REGIME_STRESS_AWARE = ''REGIME_STRESS_AWARE''"

text \<open>\<open>ConstructionMethod(value)\<close>\<close>

definition construction_method :: "string \<Rightarrow> ConstructionMethod wave_result" where
  "construction_method v =
     (case dict_get CONSTRUCTION_METHODS v of None \<Rightarrow> Inl (WaveServiceException ''ValueError'') | Some m \<Rightarrow> Inr m)"

record RebalanceRequest =
  rq_portfolio_id :: string
  rq_body :: json

record DpmWaveSimulationInput =
  stateless_input :: RebalanceRequest
  authority_context :: "json option"
  source_context :: "json option"

datatype SimulationInput = Bare_Request RebalanceRequest | Wave_Input DpmWaveSimulationInput

record ConstructionCall =
  cc_request :: RebalanceRequest
  cc_idempotency_key :: string
  cc_correlation_id :: string
  cc_methods :: "ConstructionMethod list option"
  cc_authority_context :: "json option"
  cc_source_context :: "json option"
  cc_admitted_tenant_id :: string
  cc_risk_authority_context :: "RiskAuthorityContext option"

record ConstructionServices =
  generate_construction_alternative_set :: "ConstructionCall \<Rightarrow> service_exception + ConstructionAlternativeSet"
  str_of_value :: "json \<Rightarrow> string"

text \<open>The arguments \<open>simulate_item\<close> passes on.\<close>

record SimulationContext =
  sc_tenant_id :: string
  sc_correlation_id :: string
  sc_methods :: "ConstructionMethod list option"
  sc_construction_idempotency_key :: "string option"
  sc_risk_authority_context :: "RiskAuthorityContext option"

fun proposed_changes :: "string option \<Rightarrow> ConstructionAlternative list \<Rightarrow> json list" where
  "proposed_changes selected [] = []"
| "proposed_changes selected (alternative # rest) =
     (if selected \<noteq> None \<and> selected \<noteq> Some (alternative_id alternative) then proposed_changes selected rest
      else (case dict_get (alternative_diagnostics alternative) ''proposed_changes'' of
              Some (JList (c # cs)) \<Rightarrow> filter (\<lambda>change. case change of JObj _ \<Rightarrow> True | _ \<Rightarrow> False) (c # cs)
            | _ \<Rightarrow> proposed_changes selected rest))"

definition proposed_changes_from_alternative_set :: "ConstructionAlternativeSet \<Rightarrow> string option \<Rightarrow> json list" where
  "proposed_changes_from_alternative_set alternative_set selected = proposed_changes selected (as_alternatives alternative_set)"

definition simulation_input_for_item ::
  "DpmRebalanceWaveItem \<Rightarrow> (string, SimulationInput) dict \<Rightarrow> SimulationInput option" where
  "simulation_input_for_item item item_inputs =
     (case dict_get item_inputs (wave_item_id item) of
        Some i \<Rightarrow> Some i | None \<Rightarrow> dict_get item_inputs (wi_portfolio_id item))"

fun simulation_request_and_authority_context :: "SimulationInput \<Rightarrow> RebalanceRequest \<times> json option" where
  "simulation_request_and_authority_context (Wave_Input i) = (stateless_input i, authority_context i)"
| "simulation_request_and_authority_context (Bare_Request r) = (r, None)"

fun input_source_context :: "SimulationInput \<Rightarrow> json option" where
  "input_source_context (Wave_Input i) = source_context i"
| "input_source_context (Bare_Request r) = None"

definition PORTFOLIO_IDENTITY_CONFLICT :: string where
  "PORTFOLIO_IDENTITY_CONFLICT = ''DPM_WAVE_SIMULATION_INPUT_IDENTITY_CONFLICT''"

definition missing_construction_input_item :: "DpmRebalanceWaveItem \<Rightarrow> DpmRebalanceWaveItem" where
  "missing_construction_input_item item =
     item\<lparr> wi_state := ITEM_SIMULATION_BLOCKED, wi_reason_codes := [''CONSTRUCTION_INPUT_MISSING''],
           wi_diagnostics := dict_merge (wi_diagnostics item)
             [(''source_owner'', JStr ''wave-simulation-request''),
              (''required_action'', JStr ''SUPPLY_RFC0039_REBALANCE_REQUEST'')] \<rparr>"

definition construction_generation_failed_item :: "string \<Rightarrow> DpmRebalanceWaveItem \<Rightarrow> DpmRebalanceWaveItem" where
  "construction_generation_failed_item exc item =
     item\<lparr> wi_state := ITEM_SIMULATION_BLOCKED, wi_reason_codes := [''CONSTRUCTION_ALTERNATIVE_GENERATION_FAILED''],
           wi_diagnostics := dict_merge (wi_diagnostics item)
             [(''source_owner'', JStr ''lotus-manage-construction''),
              (''required_action'', JStr ''REVIEW_CONSTRUCTION_INPUTS''), (''construction_error'', JStr exc)] \<rparr>"

definition portfolio_identity_conflict_item :: "DpmRebalanceWaveItem \<Rightarrow> DpmRebalanceWaveItem" where
  "portfolio_identity_conflict_item item =
     item\<lparr> wi_state := ITEM_SIMULATION_BLOCKED, wi_reason_codes := [PORTFOLIO_IDENTITY_CONFLICT],
           wi_diagnostics := dict_merge (wi_diagnostics item)
             [(''source_owner'', JStr ''wave-simulation-request''),
              (''required_action'', JStr ''SUPPLY_INPUT_FOR_ADMITTED_PORTFOLIO'')] \<rparr>"

definition simulated_item ::
  "(json \<Rightarrow> string) \<Rightarrow> ConstructionAlternativeSet \<Rightarrow> DpmRebalanceWaveItem \<Rightarrow> DpmRebalanceWaveItem wave_result" where
  "simulated_item str_of alternative_set item =
     wave_bind (build_source_analytics_from_alternative_set str_of alternative_set) (\<lambda>analytics.
       Inr (item\<lparr> wi_state := ITEM_SIMULATED, wi_alternative_set_id := Some (as_alternative_set_id alternative_set),
                  wi_reason_codes := [''CONSTRUCTION_ALTERNATIVES_GENERATED''],
                  wi_diagnostics := dict_merge (wi_diagnostics item)
                    [(''construction_state'', JStr (as_status alternative_set)),
                     (''alternative_count'', JInt (int (length (as_alternatives alternative_set)))),
                     (''proposed_changes'', JList (proposed_changes_from_alternative_set alternative_set None)),
                     (''source_analytics'', JObj analytics)] \<rparr>))"

definition construction_call ::
  "SimulationContext \<Rightarrow> SimulationInput \<Rightarrow> DpmRebalanceWaveItem \<Rightarrow> ConstructionCall" where
  "construction_call ctx simulation_input item =
     (let (request, authority) = simulation_request_and_authority_context simulation_input;
          default_key = ''wave:'' @ wave_item_id item @ '':simulate''
      in \<lparr> cc_request = request,
           cc_idempotency_key = (case sc_construction_idempotency_key ctx of
              None \<Rightarrow> default_key | Some k \<Rightarrow> if k = '''' then default_key else k),
           cc_correlation_id = sc_correlation_id ctx, cc_methods = sc_methods ctx, cc_authority_context = authority,
           cc_source_context = input_source_context simulation_input, cc_admitted_tenant_id = sc_tenant_id ctx,
           cc_risk_authority_context = sc_risk_authority_context ctx \<rparr>)"

definition simulate_item ::
  "ConstructionServices \<Rightarrow> SimulationContext \<Rightarrow> (string, SimulationInput) dict \<Rightarrow> DpmRebalanceWaveItem
     \<Rightarrow> DpmRebalanceWaveItem wave_result" where
  "simulate_item services ctx item_inputs item =
     (if wi_state item \<noteq> ITEM_SOURCE_READY then Inr item
      else
        (case simulation_input_for_item item item_inputs of
           None \<Rightarrow> Inr (missing_construction_input_item item)
         | Some simulation_input \<Rightarrow>
             if rq_portfolio_id (fst (simulation_request_and_authority_context simulation_input)) \<noteq> wi_portfolio_id item
             then Inr (portfolio_identity_conflict_item item)
             else
               (case generate_construction_alternative_set services (construction_call ctx simulation_input item) of
                  Inl (Blocking_Error exc) \<Rightarrow> Inr (construction_generation_failed_item exc item)
                | Inl (Unexpected_Error exc) \<Rightarrow> Inl (WaveServiceException exc)
                | Inr alternative_set \<Rightarrow>
                    if as_portfolio_id alternative_set \<noteq> wi_portfolio_id item
                    then Inr (portfolio_identity_conflict_item item)
                    else simulated_item (str_of_value services) alternative_set item)))"

definition require_construction_tenant_id :: "string option \<Rightarrow> string wave_result" where
  "require_construction_tenant_id tenant =
     (case tenant of
        None \<Rightarrow> Inl (WaveServiceException ''ValueError'')
      | Some t \<Rightarrow> if strip t = '''' then Inl (WaveServiceException ''ValueError'') else Inr (strip t))"

definition build_simulated_wave ::
  "ConstructionServices \<Rightarrow> WaveStamp \<Rightarrow> WaveStamp \<Rightarrow> string \<Rightarrow> string \<Rightarrow> (string, SimulationInput) dict
     \<Rightarrow> ConstructionMethod list option \<Rightarrow> RiskAuthorityContext option \<Rightarrow> DpmRebalanceWave \<Rightarrow> DpmRebalanceWave wave_result" where
  "build_simulated_wave services stamp1 stamp2 actor correlation item_inputs methods risk_context wave =
     wave_bind (apply_wave_transition wave SIMULATING
                  (build_wave_event stamp1 (wave_id wave) SOURCE_CHECKED SIMULATING actor correlation ''WAVE_SIMULATION_STARTED''
                     [(''ready_item_count'', JInt (int (ready_item_count (aggregate_metrics wave))))] ''STATE_TRANSITION''))
       (\<lambda>simulating. wave_bind (require_construction_tenant_id (wave_tenant_id simulating)) (\<lambda>tenant.
          wave_bind (wave_map (simulate_item services
                         \<lparr> sc_tenant_id = tenant, sc_correlation_id = correlation, sc_methods = methods,
                           sc_construction_idempotency_key = None, sc_risk_authority_context = risk_context \<rparr> item_inputs)
                       (items simulating))
            (\<lambda>simulated_items.
               let candidate = simulating\<lparr> items := simulated_items, aggregate_metrics := aggregate_wave_items simulated_items \<rparr>;
                   to_state = simulation_result_state simulated_items;
                   metrics = aggregate_metrics candidate
               in apply_wave_transition candidate to_state
                    (build_wave_event stamp2 (wave_id wave) SIMULATING to_state actor correlation ''WAVE_SIMULATION_COMPLETED''
                       [(''state_counts'', state_counts_json (state_counts metrics)),
                        (''ready_item_count'', JInt (int (ready_item_count metrics))),
                        (''blocked_item_count'', JInt (int (blocked_item_count metrics)))] ''STATE_TRANSITION''))))"

definition simulate_persisted_wave ::
  "('r \<Rightarrow> string \<Rightarrow> string \<Rightarrow> DpmRebalanceWave option) \<Rightarrow> ('r \<Rightarrow> DpmRebalanceWave \<Rightarrow> nat \<Rightarrow> string \<Rightarrow> 'r wave_result)
     \<Rightarrow> ConstructionServices \<Rightarrow> WaveStamp \<Rightarrow> WaveStamp \<Rightarrow> string \<Rightarrow> string \<Rightarrow> string \<Rightarrow> (string, SimulationInput) dict
     \<Rightarrow> ConstructionMethod list option \<Rightarrow> RiskAuthorityContext option \<Rightarrow> string \<Rightarrow> 'r \<Rightarrow> ('r \<times> DpmRebalanceWave \<times> bool) wave_result" where
  "simulate_persisted_wave get update services stamp1 stamp2 wid actor correlation item_inputs methods risk_context tenant repo =
     wave_bind (prepare_wave_transition get wid repo tenant [SIMULATED, PARTIALLY_SIMULATED, SIMULATION_FAILED]
                  (Some [SOURCE_CHECKED]) ''DPM_WAVE_SIMULATION_INVALID_STATE'')
       (\<lambda>prepared.
          if pt_replayed prepared then Inr (repo, pt_wave prepared, True)
          else wave_bind (build_simulated_wave services stamp1 stamp2 actor correlation item_inputs methods risk_context
                            (pt_wave prepared))
                 (\<lambda>completed. wave_bind (persist_transitioned_wave update repo (pt_wave prepared) completed tenant)
                    (\<lambda>repo'. Inr (repo', completed, False))))"


section \<open>Lemmas\<close>

text \<open>What a simulation makes of one item.\<close>

definition simulation_outcome :: "DpmRebalanceWaveItem \<Rightarrow> DpmRebalanceWaveItem \<Rightarrow> bool" where
  "simulation_outcome item item' \<longleftrightarrow>
     wave_item_id item' = wave_item_id item \<and> wi_portfolio_id item' = wi_portfolio_id item
     \<and> wi_source_refs item' = wi_source_refs item \<and> wi_mandate_id item' = wi_mandate_id item
     \<and> wi_model_portfolio_id item' = wi_model_portfolio_id item
     \<and> (if wi_state item = ITEM_SOURCE_READY
        then wi_state item' = ITEM_SIMULATED \<and> wi_alternative_set_id item' \<noteq> None \<or> wi_state item' = ITEM_SIMULATION_BLOCKED
        else item' = item)"

lemmas simulated_forms = missing_construction_input_item_def construction_generation_failed_item_def
  portfolio_identity_conflict_item_def simulated_item_def

lemma construction_method_value [simp]: "construction_method (method_value m) = Inr m"
  by (cases m) (simp_all add: construction_method_def CONSTRUCTION_METHODS_def)

lemma simulated_item_total: "\<exists>item'. simulated_item str_of alternative_set item = Inr item'"
  using built_evidence [of str_of alternative_set] by (auto simp: simulated_item_def)

text \<open>Simulation writes no evidence but what it builds.\<close>

lemma simulate_item_analytics:
  assumes "simulate_item services ctx item_inputs item = Inr item'" and "analytics_built (str_of_value services) item"
  shows "analytics_built (str_of_value services) item'"
  using assms
  by (auto simp: simulate_item_def simulated_forms analytics_built_def dict_merge_def dict_get_set
      split: if_splits option.splits sum.splits service_exception.splits) blast+

lemma simulate_item_outcome:
  assumes "simulate_item services ctx item_inputs item = Inr item'"
  shows "simulation_outcome item item'"
  using assms
  by (auto simp: simulate_item_def simulation_outcome_def simulated_forms
      split: if_splits option.splits sum.splits service_exception.splits)

text \<open>
  An item is simulated exactly when the service answers with an alternative set for its own portfolio,
  from an input for that portfolio.
\<close>

definition constructed ::
  "ConstructionServices \<Rightarrow> SimulationContext \<Rightarrow> (string, SimulationInput) dict \<Rightarrow> DpmRebalanceWaveItem \<Rightarrow> bool" where
  "constructed services ctx item_inputs item \<longleftrightarrow>
     (\<exists>i alternative_set. simulation_input_for_item item item_inputs = Some i
        \<and> rq_portfolio_id (fst (simulation_request_and_authority_context i)) = wi_portfolio_id item
        \<and> generate_construction_alternative_set services (construction_call ctx i item) = Inr alternative_set
        \<and> as_portfolio_id alternative_set = wi_portfolio_id item)"

lemma simulate_item_constructed:
  assumes "simulate_item services ctx item_inputs item = Inr item'" and "wi_state item = ITEM_SOURCE_READY"
  shows "wi_state item' = ITEM_SIMULATED \<longleftrightarrow> constructed services ctx item_inputs item"
  using assms
  by (auto simp: simulate_item_def constructed_def simulated_forms
      split: if_splits option.splits sum.splits service_exception.splits)

definition never_unexpected :: "ConstructionServices \<Rightarrow> bool" where
  "never_unexpected services \<longleftrightarrow>
     (\<forall>call exc. generate_construction_alternative_set services call \<noteq> Inl (Unexpected_Error exc))"

lemma simulate_item_total:
  "never_unexpected services \<Longrightarrow> \<exists>item'. simulate_item services ctx item_inputs item = Inr item'"
  using simulated_item_total
  by (auto simp: simulate_item_def never_unexpected_def split: option.splits sum.splits service_exception.splits)

lemma simulation_result_states: "simulation_result_state its \<in> {SIMULATED, PARTIALLY_SIMULATED, SIMULATION_FAILED}"
  by (simp add: simulation_result_state_def Let_def)

lemma simulation_result_stage [simp]: "wave_stage (simulation_result_state its) = 0"
  using simulation_result_states [of its] by auto

lemma outcome_stage: "simulation_outcome item item' \<Longrightarrow> item_stage (wi_state item) = 0 \<Longrightarrow> item_stage (wi_state item') = 0"
  by (auto simp: simulation_outcome_def split: if_splits)

text \<open>A simulated wave is its source-checked wave with new items and two more events.\<close>

lemma build_simulated_success:
  assumes "build_simulated_wave services stamp1 stamp2 actor correlation item_inputs methods risk_context w = Inr w'"
  obtains e1 e2 where "wave_state w = SOURCE_CHECKED" "list_all2 simulation_outcome (items w) (items w')"
    "w' = w\<lparr> wave_state := simulation_result_state (items w'), version := version w + 2, items := items w',
             aggregate_metrics := aggregate_wave_items (items w'), events := events w @ [e1, e2] \<rparr>"
    "ev_wave_id e1 = wave_id w" "ev_from_state e1 = Some SOURCE_CHECKED" "ev_to_state e1 = SIMULATING"
    "ev_wave_id e2 = wave_id w" "ev_from_state e2 = Some SIMULATING" "ev_to_state e2 = simulation_result_state (items w')"
proof -
  have ev: "ev_from_state (build_wave_event st i a b c d r m ty) = Some a" for st i a b c d r m ty
    by (simp add: build_wave_event_def)
  have "\<exists>e1 s ctx its e2. apply_wave_transition w SIMULATING e1 = Inr s \<and> ev_from_state e1 = Some SOURCE_CHECKED
      \<and> wave_map (simulate_item services ctx item_inputs) (items s) = Inr its
      \<and> apply_wave_transition (s\<lparr> items := its, aggregate_metrics := aggregate_wave_items its \<rparr>)
          (simulation_result_state its) e2 = Inr w'"
    using assms unfolding build_simulated_wave_def Let_def wave_bind_eq_Inr by (blast intro: ev)
  then obtain e1 s ctx its e2 where s: "apply_wave_transition w SIMULATING e1 = Inr s" "ev_from_state e1 = Some SOURCE_CHECKED"
    and its: "list_all2 (\<lambda>i i'. simulate_item services ctx item_inputs i = Inr i') (items s) its"
    and fin: "apply_wave_transition (s\<lparr> items := its, aggregate_metrics := aggregate_wave_items its \<rparr>)
      (simulation_result_state its) e2 = Inr w'"
    unfolding wave_map_success by blast
  have s': "s = w\<lparr> wave_state := SIMULATING, version := version w + 1, events := events w @ [e1] \<rparr>"
    and e1: "ev_wave_id e1 = wave_id w" "wave_state w = SOURCE_CHECKED" "ev_to_state e1 = SIMULATING"
    using s by (auto simp: apply_wave_transition_iff)
  have out: "list_all2 simulation_outcome (items w) its"
    using its unfolding s' by (auto elim!: list_all2_mono dest: simulate_item_outcome)
  have w': "w' = w\<lparr> wave_state := simulation_result_state its, version := version w + 2, items := its,
             aggregate_metrics := aggregate_wave_items its, events := events w @ [e1, e2] \<rparr>"
    and e2: "ev_wave_id e2 = wave_id w" "ev_from_state e2 = Some SIMULATING" "ev_to_state e2 = simulation_result_state its"
    using fin by (auto simp: apply_wave_transition_iff s')
  then have "items w' = its" by simp
  then show ?thesis using that [of e1 e2] out w' e1 e2 s(2) by simp
qed

lemma simulated_reachable:
  assumes "build_simulated_wave services stamp1 stamp2 actor correlation item_inputs methods risk_context w = Inr w'"
    and "wave_reachable w0 w"
  shows "wave_reachable w0 w'"
proof -
  obtain s its e1 e2 where s: "apply_wave_transition w SIMULATING e1 = Inr s"
    and w': "apply_wave_transition (s\<lparr> items := its, aggregate_metrics := aggregate_wave_items its \<rparr>)
      (simulation_result_state its) e2 = Inr w'"
    using assms(1) unfolding build_simulated_wave_def Let_def wave_bind_eq_Inr by blast
  have "edited_wave s (s\<lparr> items := its, aggregate_metrics := aggregate_wave_items its, handoff_refs := handoff_refs s,
      wave_tenant_id := wave_tenant_id s \<rparr>)"
    unfolding edited_wave_def by blast
  then show ?thesis
    using wave_reachable.transition [OF wave_reachable.edited [OF wave_reachable.transition [OF assms(2) s]]] w' by simp
qed

text \<open>The context in which the items of a wave of a tenant are simulated.\<close>

definition wave_context :: "string \<Rightarrow> string \<Rightarrow> ConstructionMethod list option \<Rightarrow> RiskAuthorityContext option \<Rightarrow> SimulationContext" where
  "wave_context tenant correlation methods risk_context =
     \<lparr> sc_tenant_id = strip tenant, sc_correlation_id = correlation, sc_methods = methods,
       sc_construction_idempotency_key = None, sc_risk_authority_context = risk_context \<rparr>"

lemma build_simulated_items:
  assumes "build_simulated_wave services stamp1 stamp2 actor correlation item_inputs methods risk_context w = Inr w'"
    and "wave_tenant_id w = Some t"
  shows "list_all2 (\<lambda>i i'. simulate_item services (wave_context t correlation methods risk_context) item_inputs i = Inr i')
    (items w) (items w')"
  using assms
  by (auto simp: build_simulated_wave_def wave_bind_eq_Inr Let_def apply_wave_transition_iff wave_map_success
      wave_context_def require_construction_tenant_id_def split: if_splits)

lemma build_simulated_error:
  assumes "build_simulated_wave services stamp1 stamp2 actor correlation item_inputs methods risk_context w = Inl e"
    and "wave_state w = SOURCE_CHECKED"
  shows "\<exists>exc. e = WaveServiceException exc"
proof -
  have item_error: "\<exists>exc. e = WaveServiceException exc" if "simulate_item services ctx inputs i = Inl e" for ctx inputs i e
    using that simulated_item_total [of "str_of_value services" _ i]
    by (auto simp: simulate_item_def Let_def
        split: if_splits option.splits sum.splits service_exception.splits prod.splits) (metis sum.distinct(1))
  have map_error: "\<exists>exc. e = WaveServiceException exc" if "wave_map (simulate_item services ctx inputs) its = Inl e" for ctx inputs its e
    using that item_error by (induction its) (auto simp: wave_bind_def split: sum.splits)
  have tenant_error: "\<exists>exc. e = WaveServiceException exc" if "require_construction_tenant_id tn = Inl e" for tn e
    using that by (auto simp: require_construction_tenant_id_def split: option.splits if_splits)
  have fin: "apply_wave_transition (s\<lparr> items := its, aggregate_metrics := m \<rparr>) (simulation_result_state its)
      (build_wave_event stamp2 (wave_id w) SIMULATING (simulation_result_state its) a c r md ty) \<noteq> Inl e"
    if "wave_state s = SIMULATING" "wave_id s = wave_id w" for s its m a c r md ty e
    using that simulation_result_states [of its]
    by (auto simp: apply_wave_transition_def validate_wave_transition_def build_wave_event_def)
  show ?thesis
    using assms
    by (auto simp: build_simulated_wave_def wave_bind_def Let_def apply_wave_transition_iff fin
        dest: map_error tenant_error split: sum.splits)
       (auto simp: apply_wave_transition_def validate_wave_transition_def build_wave_event_def)
qed

lemma simulate_shape:
  "simulate_persisted_wave get update services stamp1 stamp2 wid actor correlation item_inputs methods risk_context tenant repo =
     persisted_transition get update wid tenant [SIMULATED, PARTIALLY_SIMULATED, SIMULATION_FAILED] (Some [SOURCE_CHECKED])
       ''DPM_WAVE_SIMULATION_INVALID_STATE''
       (build_simulated_wave services stamp1 stamp2 actor correlation item_inputs methods risk_context) repo"
  by (simp add: simulate_persisted_wave_def persisted_transition_def)

lemma build_simulated_frame:
  assumes "build_simulated_wave services stamp1 stamp2 actor correlation item_inputs methods risk_context w = Inr w'"
  shows "wave_id w' = wave_id w" and "wave_tenant_id w' = wave_tenant_id w" and "version w' = version w + 2"
    and "wave_state w' = simulation_result_state (items w')" and "handoff_refs w' = handoff_refs w"
    and "aggregate_metrics w' = aggregate_wave_items (items w')"
    and "event_chain SOURCE_CHECKED (drop (length (events w)) (events w')) (wave_state w')"
proof -
  obtain e1 e2 where
    w': "w' = w\<lparr> wave_state := simulation_result_state (items w'), version := version w + 2, items := items w',
             aggregate_metrics := aggregate_wave_items (items w'), events := events w @ [e1, e2] \<rparr>"
    and e: "ev_from_state e1 = Some SOURCE_CHECKED" "ev_to_state e1 = SIMULATING" "ev_from_state e2 = Some SIMULATING"
      "ev_to_state e2 = simulation_result_state (items w')"
    using assms by (rule build_simulated_success)
  show "wave_id w' = wave_id w" "wave_tenant_id w' = wave_tenant_id w" "version w' = version w + 2"
    "handoff_refs w' = handoff_refs w" "aggregate_metrics w' = aggregate_wave_items (items w')"
    "wave_state w' = simulation_result_state (items w')"
    by (subst w', simp)+
  moreover have "events w' = events w @ [e1, e2]" by (subst w') simp
  ultimately show "event_chain SOURCE_CHECKED (drop (length (events w)) (events w')) (wave_state w')"
    using e simulation_result_states [of "items w'"] by auto
qed

lemma list_all2_mem: "list_all2 R xs ys \<Longrightarrow> y \<in> set ys \<Longrightarrow> \<exists>x \<in> set xs. R x y"
  by (induction rule: list_all2_induct) auto

lemma build_simulated_lifecycle:
  assumes "build_simulated_wave services stamp1 stamp2 actor correlation item_inputs methods risk_context w = Inr w'"
    and "lifecycle_ok w"
  shows "lifecycle_ok w'"
proof -
  note frame = build_simulated_frame [OF assms(1)]
  from assms(1) obtain out: "list_all2 simulation_outcome (items w) (items w')" and checked: "wave_state w = SOURCE_CHECKED"
    by (rule build_simulated_success)
  have "item_stage (wi_state i') = 0" if mem: "i' \<in> set (items w')" for i'
  proof -
    from list_all2_mem [OF out mem] obtain i where "i \<in> set (items w)" "simulation_outcome i i'" by blast
    with assms(2) checked outcome_stage show ?thesis by (auto simp: lifecycle_ok_def item_allowed_def)
  qed
  with assms(2) frame checked simulation_result_states [of "items w'"] show ?thesis
    by (auto simp: lifecycle_ok_def item_allowed_def)
qed

lemma simulation_result_state_eq:
  "simulation_result_state its =
     (if \<forall>i \<in> set its. wi_state i \<noteq> ITEM_SIMULATED then SIMULATION_FAILED
      else if \<forall>i \<in> set its. wi_state i = ITEM_SIMULATED then SIMULATED else PARTIALLY_SIMULATED)"
proof -
  let ?f = "filter (\<lambda>i. wi_state i = ITEM_SIMULATED) its"
  have "length ?f = 0 \<longleftrightarrow> (\<forall>i \<in> set its. wi_state i \<noteq> ITEM_SIMULATED)" by (auto simp: filter_empty_conv)
  moreover have "length ?f < length its \<longleftrightarrow> \<not> (\<forall>i \<in> set its. wi_state i = ITEM_SIMULATED)"
  proof (cases "\<forall>i \<in> set its. wi_state i = ITEM_SIMULATED")
    case True
    then have "?f = its" by simp
    with True show ?thesis by simp
  next
    case False
    then obtain i where "i \<in> set its" "wi_state i \<noteq> ITEM_SIMULATED" by blast
    with length_filter_less [of i its "\<lambda>i. wi_state i = ITEM_SIMULATED"] False show ?thesis by blast
  qed
  ultimately show ?thesis unfolding simulation_result_state_def Let_def by auto
qed


section \<open>Properties\<close>


text \<open>A construction service that answers every request for the portfolio of the request.\<close>

definition sample_services :: ConstructionServices where
  "sample_services =
     \<lparr> generate_construction_alternative_set = (\<lambda>call. Inr \<lparr> as_alternative_set_id = ''as_1'',
         as_portfolio_id = rq_portfolio_id (cc_request call), as_status = ''READY'', as_alternatives = [] \<rparr>),
       str_of_value = text_of \<rparr>"

definition checked_items :: "DpmRebalanceWaveItem list" where
  "checked_items = [sample_item ''dwi_1'' ITEM_SOURCE_READY [], sample_item ''dwi_2'' ITEM_SOURCE_BLOCKED []]"

definition sample_inputs :: "(string, SimulationInput) dict" where
  "sample_inputs = [(''dwi_1'', Bare_Request \<lparr> rq_portfolio_id = wi_portfolio_id (sample_item ''dwi_1'' ITEM_SOURCE_READY []), rq_body = JNull \<rparr>)]"


end
