(* ===== verification/Wave_Simulation_Service.thy ===== *)
theory Wave_Simulation_Service
  imports Wave_Simulation_Runs Wave_Simulation_Item
begin

text \<open>
  The durable simulation of a wave (\<open>src/src/api/services/wave_simulation_operations.py\<close>): a worker
  claims the items of an admitted operation one by one, simulates and publishes them; reconciliation
  projects the published outcomes on the wave and completes it. The store is the one of
  \<open>Wave_Simulation_Store\<close>. The validators of stored payloads, the construction service, the clock and
  the claim tokens are arguments. What other processes do to the store between the reads of a
  reconciliation and its write is the argument \<open>env\<close>, one function per round.
\<close>


section \<open>Definitions\<close>

subsection \<open>Reading an operation\<close>

definition get_wave_simulation_operation ::
  "string \<Rightarrow> string \<Rightarrow> InMemoryDpmWaveRepository \<Rightarrow> DpmWaveSimulationOperation wave_result" where
  "get_wave_simulation_operation tenant oid repo =
     (case get_simulation_operation repo tenant oid of
        None \<Rightarrow> Inl (DpmWaveLookupError ''DPM_WAVE_SIMULATION_OPERATION_NOT_FOUND'')
      | Some operation \<Rightarrow> Inr operation)"

text \<open>The pages of the listing, from an offset on, as the loop collects them.\<close>

function collect_simulation_items ::
  "InMemoryDpmWaveRepository \<Rightarrow> string \<Rightarrow> string \<Rightarrow> nat \<Rightarrow> DpmWaveSimulationItemRecord list \<Rightarrow> DpmWaveSimulationItemRecord list" where
  "collect_simulation_items repo tenant oid offset records =
     (let page = list_simulation_items repo tenant oid 500 offset;
          records' = records @ page_items page
      in (case page_next_offset page of
            None \<Rightarrow> records'
          | Some next_offset \<Rightarrow> collect_simulation_items repo tenant oid next_offset records'))"
  by pat_completeness auto

termination
proof (relation "measure (\<lambda>(repo, tenant, oid, offset, records).
    page_total_count (list_simulation_items repo tenant oid 500 offset) - offset)", goal_cases)
  case (2 repo tenant oid offset records page records' next_offset)
  then show ?case
    by (auto simp: list_simulation_items_def Let_def split: option.splits if_splits)
qed simp

definition all_simulation_items :: "string \<Rightarrow> string \<Rightarrow> InMemoryDpmWaveRepository \<Rightarrow> DpmWaveSimulationItemRecord list" where
  "all_simulation_items tenant oid repo = collect_simulation_items repo tenant oid 0 []"

definition operation_counts :: "DpmWaveSimulationItemRecord list \<Rightarrow> (WaveSimulationItemStatus, nat) dict" where
  "operation_counts recs =
     map (\<lambda>s. (s, count_list (map si_status recs) s)) [SIM_PENDING, SIM_RUNNING, SIM_SUCCEEDED, SIM_FAILED, SIM_CANCELLED]"


subsection \<open>Executing one claim\<close>

definition option_json :: "string option \<Rightarrow> json" where
  "option_json v = (case v of None \<Rightarrow> JNull | Some s \<Rightarrow> JStr s)"

definition source_ref_json :: "DpmWaveSourceRef \<Rightarrow> json" where
  "source_ref_json ref =
     JObj [(''source_system'', JStr (sr_source_system ref)), (''source_type'', JStr (sr_source_type ref)),
       (''source_id'', JStr (sr_source_id ref)), (''source_version'', option_json (sr_source_version ref)),
       (''supportability_state'', option_json (sr_supportability_state ref)),
       (''content_hash'', option_json (sr_content_hash ref)),
       (''source_batch_fingerprint'', option_json (sr_source_batch_fingerprint ref)),
       (''selection_basis'', case sr_selection_basis ref of None \<Rightarrow> JNull | Some d \<Rightarrow> JObj d)]"

definition wave_item_source_identity_hash ::
  "(string \<Rightarrow> string) \<Rightarrow> DpmRebalanceWave \<Rightarrow> DpmRebalanceWaveItem \<Rightarrow> string" where
  "wave_item_source_identity_hash sha256 wave item =
     hash_canonical_payload sha256
       (JObj [(''wave_id'', JStr (wave_id wave)), (''as_of_date'', JStr (wave_as_of_date wave)),
              (''wave_item_id'', JStr (wave_item_id item)), (''portfolio_id'', JStr (wi_portfolio_id item)),
              (''mandate_id'', option_json (wi_mandate_id item)),
              (''model_portfolio_id'', option_json (wi_model_portfolio_id item)),
              (''source_refs'', JList (map source_ref_json (wi_source_refs item)))])"

text \<open>
  The Pydantic models of a stored payload: a source context with the hash it states and its dumped
  context, a request, an authority context. An invalid request or authority raises a validation error.
\<close>

record PayloadValidators =
  validate_source_context :: "json \<Rightarrow> (string \<times> json) option"
  validate_request :: "json \<Rightarrow> RebalanceRequest option"
  validate_authority :: "json \<Rightarrow> json option"

datatype input_failure = Frozen_Input_Integrity string | Other_Failure string

fun falsy :: "json \<Rightarrow> bool" where
  "falsy JNull = True"
| "falsy (JBool b) = (\<not> b)"
| "falsy (JInt i) = (i = 0)"
| "falsy (JStr s) = (s = [])"
| "falsy (JList xs) = (xs = [])"
| "falsy (JObj kvs) = (kvs = [])"

definition present :: "json option \<Rightarrow> json option" where
  "present v = (case v of Some JNull \<Rightarrow> None | _ \<Rightarrow> v)"

definition simulation_input_from_payload ::
  "(string \<Rightarrow> string) \<Rightarrow> PayloadValidators \<Rightarrow> (string, json) dict \<Rightarrow> input_failure + DpmWaveSimulationInput" where
  "simulation_input_from_payload sha256 validators payload =
     (let source = present (dict_get payload ''source_context'');
          checked = (case source of
             None \<Rightarrow>
               if present (dict_get payload ''source_request'') \<noteq> None
               then Some (Frozen_Input_Integrity ''DPM_WAVE_SIMULATION_SOURCE_CONTEXT_REQUIRED'') else None
           | Some s \<Rightarrow>
               (case validate_source_context validators s of
                  None \<Rightarrow> Some (Frozen_Input_Integrity ''DPM_WAVE_SIMULATION_SOURCE_CONTEXT_INVALID'')
                | Some (stated_hash, context_dump) \<Rightarrow>
                    if stated_hash \<noteq> hash_canonical_payload sha256 context_dump
                    then Some (Frozen_Input_Integrity ''DPM_WAVE_SIMULATION_SOURCE_CONTEXT_HASH_CONFLICT'') else None))
      in (case checked of
            Some e \<Rightarrow> Inl e
          | None \<Rightarrow>
              (case dict_get payload ''stateless_input'' of
                 None \<Rightarrow> Inl (Other_Failure ''KeyError'')
               | Some r \<Rightarrow>
                   (case validate_request validators r of
                      None \<Rightarrow> Inl (Other_Failure ''ValidationError'')
                    | Some request \<Rightarrow>
                        (case dict_get payload ''authority_context'' of
                           None \<Rightarrow> Inr \<lparr> stateless_input = request, authority_context = None, source_context = source \<rparr>
                         | Some a \<Rightarrow>
                             if falsy a
                             then Inr \<lparr> stateless_input = request, authority_context = None, source_context = source \<rparr>
                             else (case validate_authority validators a of
                                     None \<Rightarrow> Inl (Other_Failure ''ValidationError'')
                                   | Some authority \<Rightarrow>
                                       Inr \<lparr> stateless_input = request, authority_context = Some authority,
                                             source_context = source \<rparr>))))))"

definition simulation_inputs_for_claim ::
  "(string \<Rightarrow> string) \<Rightarrow> PayloadValidators \<Rightarrow> DpmWaveSimulationItemClaim \<Rightarrow> input_failure + (string, SimulationInput) dict" where
  "simulation_inputs_for_claim sha256 validators claim =
     (if hash_canonical_payload sha256 (JObj (cl_input_payload claim)) \<noteq> cl_input_hash claim
      then Inl (Frozen_Input_Integrity ''DPM_WAVE_SIMULATION_INPUT_HASH_CONFLICT'')
      else (case dict_get (cl_input_payload claim) ''stateless_input'' of
              Some (JObj _) \<Rightarrow>
                (case simulation_input_from_payload sha256 validators (cl_input_payload claim) of
                   Inl e \<Rightarrow> Inl e
                 | Inr i \<Rightarrow> Inr [(cl_wave_item_id claim, Wave_Input i)])
            | _ \<Rightarrow> Inr []))"

record WorkerEnvironment =
  we_sha256 :: "string \<Rightarrow> string"
  we_validators :: PayloadValidators
  we_services :: ConstructionServices

text \<open>The readings of the clock during one claim, and the random token.\<close>

record ClaimTimes =
  ct_claimed_at :: int
  ct_started_at :: int
  ct_finished_at :: int
  ct_token :: string

definition publish_failure ::
  "DpmWaveSimulationItemClaim \<Rightarrow> string \<Rightarrow> string \<Rightarrow> bool \<Rightarrow> int \<Rightarrow> InMemoryDpmWaveRepository
     \<Rightarrow> (bool \<times> InMemoryDpmWaveRepository) wave_result" where
  "publish_failure claim code message retryable completed_at repo =
     wave_bind (publish_simulation_item_failure claim code message retryable completed_at repo) (\<lambda>(_, repo'). Inr (False, repo'))"

text \<open>
  What the claimed work yields before it is published: a failure that is never retried, an exception
  of the work by the name of its class, or the simulated item.
\<close>

datatype claim_outcome =
    Claim_Failed string string
  | Claim_Raised string
  | Claim_Result DpmRebalanceWaveItem

fun exception_name :: "wave_error \<Rightarrow> string" where
  "exception_name (WaveServiceException name) = name"
| "exception_name _ = ''Exception''"

definition simulate_claim ::
  "WorkerEnvironment \<Rightarrow> ConstructionMethod list option \<Rightarrow> RiskAuthorityContext option \<Rightarrow> DpmWaveSimulationItemClaim
     \<Rightarrow> DpmRebalanceWaveItem \<Rightarrow> claim_outcome" where
  "simulate_claim env methods risk_context claim item =
     (case simulation_inputs_for_claim (we_sha256 env) (we_validators env) claim of
        Inl (Frozen_Input_Integrity code) \<Rightarrow>
          Claim_Failed code ''Persisted simulation input failed integrity validation.''
      | Inl (Other_Failure name) \<Rightarrow> Claim_Raised name
      | Inr inputs \<Rightarrow>
          (case simulate_item (we_services env)
                  \<lparr> sc_tenant_id = cl_tenant_id claim,
                    sc_correlation_id = cl_operation_id claim @ '':'' @ cl_wave_item_id claim, sc_methods = methods,
                    sc_construction_idempotency_key = Some (''wave-operation:'' @ cl_operation_id claim @ '':''
                      @ cl_wave_item_id claim @ '':simulate''),
                    sc_risk_authority_context = risk_context \<rparr> inputs item of
             Inl e \<Rightarrow> Claim_Raised (exception_name e)
           | Inr result_item \<Rightarrow>
               if PORTFOLIO_IDENTITY_CONFLICT \<in> set (wi_reason_codes result_item)
               then Claim_Failed PORTFOLIO_IDENTITY_CONFLICT
                      ''Construction input or result did not match the admitted portfolio.''
               else Claim_Result result_item))"

definition publish_outcome ::
  "int \<Rightarrow> DpmWaveSimulationItemClaim \<Rightarrow> claim_outcome \<Rightarrow> InMemoryDpmWaveRepository
     \<Rightarrow> (bool \<times> InMemoryDpmWaveRepository) wave_result" where
  "publish_outcome completed_at claim work repo =
     (case work of
        Claim_Failed code message \<Rightarrow> publish_failure claim code message False completed_at repo
      | Claim_Raised name \<Rightarrow>
          wave_bind (get_wave_simulation_operation (cl_tenant_id claim) (cl_operation_id claim) repo) (\<lambda>operation.
            let retryable = cl_attempt_count claim < op_max_attempts operation
            in publish_failure claim
                 (if retryable then ''DPM_WAVE_SIMULATION_WORKER_FAILURE'' else ''DPM_WAVE_SIMULATION_RETRY_EXHAUSTED'')
                 name retryable completed_at repo)
      | Claim_Result result_item \<Rightarrow> publish_simulation_item_result claim result_item completed_at repo)"

definition execute_claim ::
  "WorkerEnvironment \<Rightarrow> ConstructionMethod list option \<Rightarrow> RiskAuthorityContext option \<Rightarrow> ClaimTimes \<Rightarrow> DpmWaveSimulationItemClaim
     \<Rightarrow> InMemoryDpmWaveRepository \<Rightarrow> (bool \<times> InMemoryDpmWaveRepository) wave_result" where
  "execute_claim env methods risk_context ct claim repo =
     (let fail = (\<lambda>code message. publish_failure claim code message False (ct_started_at ct) repo)
      in if cl_recovery_exhausted claim
         then fail ''DPM_WAVE_SIMULATION_RETRY_EXHAUSTED''
                ''The prior worker lease expired after the maximum financial-work claims.''
         else
           (case get_wave repo (cl_wave_id claim) (cl_tenant_id claim) of
              None \<Rightarrow> fail ''DPM_WAVE_SIMULATION_ITEM_NOT_FOUND'' ''The admitted wave is no longer available.''
            | Some wave \<Rightarrow>
                (case List.find (\<lambda>i. wave_item_id i = cl_wave_item_id claim) (items wave) of
                   None \<Rightarrow> fail ''DPM_WAVE_SIMULATION_ITEM_NOT_FOUND'' ''The admitted wave item is no longer available.''
                 | Some item \<Rightarrow>
                     if wave_item_source_identity_hash (we_sha256 env) wave item \<noteq> cl_source_identity_hash claim
                     then fail ''DPM_WAVE_SIMULATION_SOURCE_REVISION_CONFLICT''
                            ''The wave item source identity changed after operation admission.''
                     else publish_outcome (ct_finished_at ct) claim
                            (simulate_claim env methods risk_context claim item) repo)))"

subsection \<open>Reconciliation\<close>

definition reconciled_item ::
  "DpmWaveSimulationOperation \<Rightarrow> (string, DpmWaveSimulationItemRecord) dict \<Rightarrow> DpmRebalanceWaveItem \<Rightarrow> DpmRebalanceWaveItem" where
  "reconciled_item operation by_id item =
     (case dict_get by_id (wave_item_id item) of
        None \<Rightarrow> item
      | Some rcd \<Rightarrow>
          (case si_result_item rcd of
             Some result_item \<Rightarrow> result_item
           | None \<Rightarrow>
               if si_status rcd = SIM_FAILED \<and> si_retryable rcd \<and> si_attempt_count rcd < op_max_attempts operation
               then item
               else if si_status rcd \<in> {SIM_FAILED, SIM_CANCELLED}
               then item\<lparr> wi_state := ITEM_SIMULATION_BLOCKED,
                          wi_reason_codes :=
                            [case si_error_code rcd of
                               None \<Rightarrow> if si_status rcd = SIM_CANCELLED then ''DPM_WAVE_SIMULATION_CANCELLED''
                                       else ''DPM_WAVE_SIMULATION_WORKER_FAILURE''
                             | Some code \<Rightarrow>
                                 if code = ''''
                                 then if si_status rcd = SIM_CANCELLED then ''DPM_WAVE_SIMULATION_CANCELLED''
                                      else ''DPM_WAVE_SIMULATION_WORKER_FAILURE''
                                 else code],
                          wi_diagnostics := dict_merge (wi_diagnostics item)
                            [(''simulation_operation_id'', JStr (si_operation_id rcd)),
                             (''simulation_attempt_count'', JInt (int (si_attempt_count rcd))),
                             (''simulation_error'', option_json (si_error_message rcd))] \<rparr>
               else item))"

definition reconciled_wave_items ::
  "DpmRebalanceWave \<Rightarrow> DpmWaveSimulationOperation \<Rightarrow> DpmWaveSimulationItemRecord list \<Rightarrow> DpmRebalanceWaveItem list" where
  "reconciled_wave_items wave operation recs =
     map (reconciled_item operation (dict_of (map (\<lambda>r. (si_wave_item_id r, r)) recs))) (items wave)"

definition operation_items_are_terminal :: "DpmWaveSimulationOperation \<Rightarrow> DpmWaveSimulationItemRecord list \<Rightarrow> bool" where
  "operation_items_are_terminal operation recs \<longleftrightarrow>
     (\<forall>item \<in> set recs. si_status item \<in> {SIM_SUCCEEDED, SIM_CANCELLED}
        \<or> si_status item = SIM_FAILED \<and> \<not> wave_simulation_item_is_retryable operation item)"

fun operation_status_str :: "WaveSimulationOperationStatus \<Rightarrow> string" where
  "operation_status_str OP_PENDING = ''PENDING''"
| "operation_status_str OP_RUNNING = ''RUNNING''"
| "operation_status_str OP_PARTIALLY_COMPLETED = ''PARTIALLY_COMPLETED''"
| "operation_status_str OP_SUCCEEDED = ''SUCCEEDED''"
| "operation_status_str OP_FAILED = ''FAILED''"
| "operation_status_str OP_CANCEL_REQUESTED = ''CANCEL_REQUESTED''"
| "operation_status_str OP_CANCELLED = ''CANCELLED''"

text \<open>The wave one round writes, or nothing when the wave is up to date.\<close>

definition reconciled_candidate ::
  "WaveStamp \<Rightarrow> DpmRebalanceWave \<Rightarrow> DpmWaveSimulationOperation \<Rightarrow> DpmWaveSimulationItemRecord list
     \<Rightarrow> DpmRebalanceWave option wave_result" where
  "reconciled_candidate stamp wave operation recs =
     (let its = reconciled_wave_items wave operation recs;
          candidate = wave\<lparr> items := its, aggregate_metrics := aggregate_wave_items its \<rparr>
      in if operation_items_are_terminal operation recs
         then let final_state = simulation_result_state its
              in map_sum id Some
                   (apply_wave_transition candidate final_state
                      (build_wave_event stamp (wave_id wave) SIMULATING final_state (op_actor_id operation)
                         (op_correlation_id operation) ''WAVE_ASYNC_SIMULATION_COMPLETED''
                         [(''operation_id'', JStr (op_operation_id operation)),
                          (''operation_status'', JStr (operation_status_str (op_status operation))),
                          (''state_counts'', state_counts_json (state_counts (aggregate_metrics candidate)))]
                         ''STATE_TRANSITION''))
         else if its \<noteq> items wave then Inr (Some (candidate\<lparr> version := version wave + 1 \<rparr>))
         else Inr None)"

definition admitted_by_other :: "string \<Rightarrow> DpmRebalanceWave \<Rightarrow> bool" where
  "admitted_by_other oid wave \<longleftrightarrow>
     (case List.find (\<lambda>e. ev_reason_code e = ''WAVE_ASYNC_SIMULATION_ACCEPTED'') (rev (events wave)) of
        None \<Rightarrow> False
      | Some admission \<Rightarrow> dict_get (ev_metadata admission) ''operation_id'' \<noteq> Some (JStr oid))"

text \<open>One round of the loop: the wave it returns, or nothing when the write met another version.\<close>

definition reconcile_round ::
  "(InMemoryDpmWaveRepository \<Rightarrow> InMemoryDpmWaveRepository) \<Rightarrow> WaveStamp \<Rightarrow> string \<Rightarrow> string \<Rightarrow> string
     \<Rightarrow> InMemoryDpmWaveRepository \<Rightarrow> (DpmRebalanceWave option \<times> InMemoryDpmWaveRepository) wave_result" where
  "reconcile_round env stamp tenant oid wid repo =
     wave_bind (get_wave_or_raise get_wave wid repo tenant) (\<lambda>wave.
       if wave_state wave \<noteq> SIMULATING \<or> admitted_by_other oid wave then Inr (Some wave, repo)
       else
         wave_bind (get_wave_simulation_operation tenant oid repo) (\<lambda>operation.
         wave_bind (reconciled_candidate stamp wave operation (all_simulation_items tenant oid repo)) (\<lambda>candidate.
           (case candidate of
              None \<Rightarrow> Inr (Some wave, repo)
            | Some c \<Rightarrow>
                (case update_wave (env repo) c (version wave) tenant of
                   Inr repo' \<Rightarrow> Inr (Some c, repo')
                 | Inl DpmWaveVersionConflictError \<Rightarrow> Inr (None, env repo)
                 | Inl e \<Rightarrow> Inl e)))))"

partial_function (option) reconcile_loop ::
  "(nat \<Rightarrow> InMemoryDpmWaveRepository \<Rightarrow> InMemoryDpmWaveRepository) \<Rightarrow> (nat \<Rightarrow> WaveStamp) \<Rightarrow> string \<Rightarrow> string \<Rightarrow> string \<Rightarrow> nat
     \<Rightarrow> InMemoryDpmWaveRepository \<Rightarrow> (DpmRebalanceWave \<times> InMemoryDpmWaveRepository) wave_result option" where
  "reconcile_loop env stamps tenant oid wid n repo =
     (case reconcile_round (env n) (stamps n) tenant oid wid repo of
        Inl e \<Rightarrow> Some (Inl e)
      | Inr (Some wave, repo') \<Rightarrow> Some (Inr (wave, repo'))
      | Inr (None, repo') \<Rightarrow> reconcile_loop env stamps tenant oid wid (Suc n) repo')"

definition reconcile_wave_simulation_operation ::
  "(nat \<Rightarrow> InMemoryDpmWaveRepository \<Rightarrow> InMemoryDpmWaveRepository) \<Rightarrow> (nat \<Rightarrow> WaveStamp) \<Rightarrow> string \<Rightarrow> string
     \<Rightarrow> InMemoryDpmWaveRepository \<Rightarrow> (DpmRebalanceWave \<times> InMemoryDpmWaveRepository) wave_result option" where
  "reconcile_wave_simulation_operation env stamps tenant oid repo =
     (case get_wave_simulation_operation tenant oid repo of
        Inl e \<Rightarrow> Some (Inl e)
      | Inr operation \<Rightarrow>
          (case get_wave repo (op_wave_id operation) tenant of
             None \<Rightarrow> Some (Inl (DpmWaveLookupError ''DPM_WAVE_NOT_FOUND''))
           | Some wave \<Rightarrow>
               if wave_state wave \<noteq> SIMULATING then Some (Inr (wave, repo))
               else reconcile_loop env stamps tenant oid (op_wave_id operation) 0 repo))"

subsection \<open>The worker and the commands\<close>

text \<open>The loop over \<open>range(max_items)\<close>: claimed, completed and failed items are counted.\<close>

fun work_loop ::
  "WorkerEnvironment \<Rightarrow> ConstructionMethod list option \<Rightarrow> RiskAuthorityContext option \<Rightarrow> string \<Rightarrow> string \<Rightarrow> string \<Rightarrow> int \<Rightarrow> ClaimTimes list
     \<Rightarrow> nat \<times> nat \<times> nat \<Rightarrow> InMemoryDpmWaveRepository \<Rightarrow> ((nat \<times> nat \<times> nat) \<times> InMemoryDpmWaveRepository) wave_result" where
  "work_loop env methods risk_context tenant oid worker lease [] counts repo = Inr (counts, repo)"
| "work_loop env methods risk_context tenant oid worker lease (ct # rest) (claimed, completed, failed) repo =
     wave_bind (claim_simulation_items tenant oid worker 1 (ct_claimed_at ct) (ct_claimed_at ct + lease)
                  (\<lambda>_. ct_token ct) repo)
       (\<lambda>(claims, repo1).
          (case claims of
             [] \<Rightarrow> Inr ((claimed, completed, failed), repo1)
           | claim # _ \<Rightarrow>
               wave_bind (execute_claim env methods risk_context ct claim repo1) (\<lambda>(published, repo2).
                 work_loop env methods risk_context tenant oid worker lease rest
                   (claimed + 1, completed + (if published then 1 else 0), failed + (if published then 0 else 1)) repo2)))"

definition admitted_methods :: "DpmWaveSimulationOperation \<Rightarrow> ConstructionMethod list option wave_result" where
  "admitted_methods operation =
     (if op_methods operation = [] then Inr None
      else wave_bind (wave_map construction_method (op_methods operation)) (\<lambda>methods. Inr (Some methods)))"

definition execute_wave_simulation_work ::
  "WorkerEnvironment \<Rightarrow> (nat \<Rightarrow> InMemoryDpmWaveRepository \<Rightarrow> InMemoryDpmWaveRepository) \<Rightarrow> (nat \<Rightarrow> WaveStamp) \<Rightarrow> string \<Rightarrow> string
     \<Rightarrow> string \<Rightarrow> int \<Rightarrow> ClaimTimes list \<Rightarrow> InMemoryDpmWaveRepository
     \<Rightarrow> ((DpmWaveSimulationOperation \<times> nat \<times> nat \<times> nat) \<times> InMemoryDpmWaveRepository) wave_result option" where
  "execute_wave_simulation_work we env stamps tenant oid worker lease cts repo =
     (case wave_bind (get_wave_simulation_operation tenant oid repo) (\<lambda>operation.
             wave_bind (admitted_methods operation) (\<lambda>methods.
               work_loop we methods (op_risk_authority_context operation) tenant oid worker lease cts (0, 0, 0) repo)) of
        Inl e \<Rightarrow> Some (Inl e)
      | Inr (counts, repo1) \<Rightarrow>
          map_option (\<lambda>r. wave_bind r (\<lambda>(_, repo2).
              wave_bind (get_wave_simulation_operation tenant oid repo2) (\<lambda>operation. Inr ((operation, counts), repo2))))
            (reconcile_wave_simulation_operation env stamps tenant oid repo1))"

definition get_wave_simulation_results ::
  "(nat \<Rightarrow> InMemoryDpmWaveRepository \<Rightarrow> InMemoryDpmWaveRepository) \<Rightarrow> (nat \<Rightarrow> WaveStamp) \<Rightarrow> string \<Rightarrow> string \<Rightarrow> nat \<Rightarrow> nat
     \<Rightarrow> InMemoryDpmWaveRepository
     \<Rightarrow> ((DpmWaveSimulationOperation \<times> DpmWaveSimulationItemPage) \<times> InMemoryDpmWaveRepository) wave_result option" where
  "get_wave_simulation_results env stamps tenant oid limit offset repo =
     (case get_wave_simulation_operation tenant oid repo of
        Inl e \<Rightarrow> Some (Inl e)
      | Inr _ \<Rightarrow>
          map_option (\<lambda>r. wave_bind r (\<lambda>(_, repo').
              wave_bind (get_wave_simulation_operation tenant oid repo') (\<lambda>operation.
                Inr ((operation, list_simulation_items repo' tenant oid limit offset), repo'))))
            (reconcile_wave_simulation_operation env stamps tenant oid repo))"

definition retry_wave_simulation_operation ::
  "string \<Rightarrow> string \<Rightarrow> string list option \<Rightarrow> int \<Rightarrow> InMemoryDpmWaveRepository
     \<Rightarrow> ((DpmWaveSimulationOperation \<times> nat) \<times> InMemoryDpmWaveRepository) wave_result" where
  "retry_wave_simulation_operation tenant oid requested now repo =
     wave_bind (get_wave_simulation_operation tenant oid repo) (\<lambda>_.
     wave_bind (retry_simulation_items tenant oid requested now repo) (\<lambda>(count, repo').
     wave_bind (get_wave_simulation_operation tenant oid repo') (\<lambda>operation. Inr ((operation, count), repo'))))"

definition cancel_wave_simulation_operation ::
  "(nat \<Rightarrow> InMemoryDpmWaveRepository \<Rightarrow> InMemoryDpmWaveRepository) \<Rightarrow> (nat \<Rightarrow> WaveStamp) \<Rightarrow> string \<Rightarrow> string \<Rightarrow> string \<Rightarrow> int
     \<Rightarrow> InMemoryDpmWaveRepository \<Rightarrow> (DpmWaveSimulationOperation \<times> InMemoryDpmWaveRepository) wave_result option" where
  "cancel_wave_simulation_operation env stamps tenant oid reason_code now repo =
     (case cancel_simulation_operation tenant oid reason_code now repo of
        Inl e \<Rightarrow> Some (Inl e)
      | Inr (None, repo1) \<Rightarrow> Some (Inl (DpmWaveLookupError ''DPM_WAVE_SIMULATION_OPERATION_NOT_FOUND''))
      | Inr (Some _, repo1) \<Rightarrow>
          map_option (\<lambda>r. wave_bind r (\<lambda>(_, repo2).
              wave_bind (get_wave_simulation_operation tenant oid repo2) (\<lambda>operation. Inr (operation, repo2))))
            (reconcile_wave_simulation_operation env stamps tenant oid repo1))"

section \<open>Lemmas\<close>

subsection \<open>Reading all items\<close>

declare collect_simulation_items.simps [simp del]

lemma admitted_methods_status [simp]:
  "admitted_methods (operation\<lparr> op_status := s, op_updated_at := t \<rparr>) = admitted_methods operation"
  by (simp add: admitted_methods_def)

lemma collect_from:
  assumes "get_simulation_operation repo tenant oid = Some operation"
  shows "collect_simulation_items repo tenant oid offset recs
    = recs @ drop offset (sort_key simulation_item_order (simulation_items_for_operation (simulation_items repo) oid tenant))"
  using assms
proof (induction repo tenant oid offset recs rule: collect_simulation_items.induct)
  case (1 repo tenant oid offset recs)
  let ?all = "sort_key simulation_item_order (simulation_items_for_operation (simulation_items repo) oid tenant)"
  let ?page = "take 500 (drop offset ?all)"
  have split: "?page @ drop (offset + length ?page) ?all = drop offset ?all"
  proof -
    have "take n xs @ drop (length (take n xs)) xs = xs" for n and xs :: "DpmWaveSimulationItemRecord list"
      by (simp add: min_def)
    from this [of 500 "drop offset ?all"] show ?thesis by (simp only: drop_drop add.commute)
  qed
  have page: "page_items (list_simulation_items repo tenant oid 500 offset) = ?page"
    "page_next_offset (list_simulation_items repo tenant oid 500 offset)
      = (if offset + length ?page < length ?all then Some (offset + length ?page) else None)"
    using 1(2) by (simp_all add: list_simulation_items_def Let_def)
  show ?case
  proof (cases "offset + length ?page < length ?all")
    case True
    then have next_offset: "page_next_offset (list_simulation_items repo tenant oid 500 offset) = Some (offset + length ?page)"
      unfolding page by (rule if_P)
    have "collect_simulation_items repo tenant oid offset recs
        = collect_simulation_items repo tenant oid (offset + length ?page) (recs @ ?page)"
      by (subst collect_simulation_items.simps) (simp only: page(1) next_offset Let_def option.case)
    also have "\<dots> = (recs @ ?page) @ drop (offset + length ?page) ?all"
      using 1(1) [OF refl refl next_offset] 1(2) unfolding page(1) by blast
    finally show ?thesis using split by simp
  next
    case False
    then have "drop (offset + length ?page) ?all = []" by simp
    with split have all: "?page = drop offset ?all" by simp
    from False have "page_next_offset (list_simulation_items repo tenant oid 500 offset) = None"
      unfolding page by (rule if_not_P)
    then show ?thesis
      by (subst collect_simulation_items.simps) (simp only: page(1) all Let_def option.case)
  qed
qed

lemma all_simulation_items_eq:
  "get_simulation_operation repo tenant oid = Some operation \<Longrightarrow>
     all_simulation_items tenant oid repo
       = sort_key simulation_item_order (simulation_items_for_operation (simulation_items repo) oid tenant)"
  by (simp add: all_simulation_items_def collect_from)

lemma all_simulation_items_none:
  "get_simulation_operation repo tenant oid = None \<Longrightarrow> all_simulation_items tenant oid repo = []"
  by (simp add: all_simulation_items_def collect_simulation_items.simps list_simulation_items_def)

subsection \<open>Reconciliation\<close>

text \<open>What a round may write: the wave with projected items, completed or one version further.\<close>

lemma candidate_frame:
  assumes "reconciled_candidate stamp w operation recs = Inr (Some c)"
  shows "wave_id c = wave_id w" and "wave_tenant_id c = wave_tenant_id w" and "version c = version w + 1"
    and "items c = reconciled_wave_items w operation recs"
    and "wave_state c = (if operation_items_are_terminal operation recs
           then simulation_result_state (reconciled_wave_items w operation recs) else wave_state w)"
    and "handoff_refs c = handoff_refs w" and "aggregate_metrics c = aggregate_wave_items (items c)"
  using assms
  by (auto simp: reconciled_candidate_def Let_def apply_wave_transition_iff map_sum_def split: if_splits sum.splits)

text \<open>The candidate belongs to the history of the wave.\<close>

lemma candidate_reachable:
  assumes "reconciled_candidate stamp w operation recs = Inr (Some c)" and "wave_state w = SIMULATING" and "wave_reachable w0 w"
  shows "wave_reachable w0 c"
proof -
  let ?its = "reconciled_wave_items w operation recs"
  let ?e = "w\<lparr> items := ?its, aggregate_metrics := aggregate_wave_items ?its, handoff_refs := handoff_refs w,
    wave_tenant_id := wave_tenant_id w \<rparr>"
  have "edited_wave w ?e" unfolding edited_wave_def by blast
  from wave_reachable.edited [OF assms(3) this]
  have edited: "wave_reachable w0 (w\<lparr> items := ?its, aggregate_metrics := aggregate_wave_items ?its \<rparr>)" by simp
  from wave_reachable.reconciled [OF edited] assms(2)
  have bumped: "wave_reachable w0 (w\<lparr> items := ?its, aggregate_metrics := aggregate_wave_items ?its, version := version w + 1 \<rparr>)"
    by simp
  show ?thesis
  proof (cases "operation_items_are_terminal operation recs")
    case True
    then show ?thesis using assms(1) wave_reachable.transition [OF edited]
      by (auto simp: reconciled_candidate_def Let_def map_sum_def split: sum.splits)
  next
    case False
    then show ?thesis using assms(1) bumped by (auto simp: reconciled_candidate_def Let_def split: if_splits)
  qed
qed

lemma candidate_total:
  assumes "wave_state w = SIMULATING"
  shows "\<exists>c. reconciled_candidate stamp w operation recs = Inr c"
  using assms simulation_result_states [of "reconciled_wave_items w operation recs"]
  by (auto simp: reconciled_candidate_def Let_def apply_wave_transition_def validate_wave_transition_def build_wave_event_def)

lemma candidate_none:
  "reconciled_candidate stamp w operation recs = Inr None \<longleftrightarrow>
     \<not> operation_items_are_terminal operation recs \<and> reconciled_wave_items w operation recs = items w"
  by (auto simp: reconciled_candidate_def Let_def map_sum_def split: sum.splits)

text \<open>A round returns the stored wave, or writes a candidate, or meets another version.\<close>

lemma round_cases:
  assumes "reconcile_round env stamp tenant oid wid repo = Inr (x, r')"
  obtains (stored) w where "get_wave repo wid tenant = Some w" "x = Some w" "r' = repo"
      "wave_state w \<noteq> SIMULATING \<or> admitted_by_other oid w
       \<or> (\<exists>operation. get_wave_simulation_operation tenant oid repo = Inr operation
            \<and> reconciled_candidate stamp w operation (all_simulation_items tenant oid repo) = Inr None)"
    | (written) w operation c where "get_wave repo wid tenant = Some w" "wave_state w = SIMULATING" "x = Some c"
      "get_wave_simulation_operation tenant oid repo = Inr operation"
      "reconciled_candidate stamp w operation (all_simulation_items tenant oid repo) = Inr (Some c)"
      "update_wave (env repo) c (version w) tenant = Inr r'"
    | (conflict) w operation c where "get_wave repo wid tenant = Some w" "x = None" "r' = env repo"
      "reconciled_candidate stamp w operation (all_simulation_items tenant oid repo) = Inr (Some c)"
      "update_wave (env repo) c (version w) tenant = Inl DpmWaveVersionConflictError"
proof -
  obtain w where w: "get_wave repo wid tenant = Some w"
    using assms by (auto simp: reconcile_round_def get_wave_or_raise_def split: option.splits)
  show thesis
  proof (cases "wave_state w \<noteq> SIMULATING \<or> admitted_by_other oid w")
    case True
    with assms w stored show thesis by (auto simp: reconcile_round_def get_wave_or_raise_def)
  next
    case False
    with assms w obtain operation candidate where
      op: "get_wave_simulation_operation tenant oid repo = Inr operation"
      and cand: "reconciled_candidate stamp w operation (all_simulation_items tenant oid repo) = Inr candidate"
      by (auto simp: reconcile_round_def get_wave_or_raise_def)
    show thesis
    proof (cases candidate)
      case None
      with assms w False op cand stored show thesis
        by (auto simp: reconcile_round_def get_wave_or_raise_def wave_bind_def)
    next
      case (Some c)
      show thesis
      proof (cases "update_wave (env repo) c (version w) tenant")
        case (Inl e)
        with memory.update_error [OF Inl] assms w False op cand Some conflict show thesis
          by (simp add: reconcile_round_def get_wave_or_raise_def wave_bind_def)
      next
        case (Inr r1)
        then have "x = Some c \<and> r' = r1"
          using assms w False op cand Some by (simp add: reconcile_round_def get_wave_or_raise_def wave_bind_def)
        then show thesis using written [of w c operation] w False op cand Some Inr by simp
      qed
    qed
  qed
qed

text \<open>A round that is not disturbed at the wave always returns.\<close>

lemma round_undisturbed:
  assumes ok: "repository_ok repo" and env: "repository_ok (env repo)" "get_wave (env repo) wid tenant = get_wave repo wid tenant"
  shows "reconcile_round env stamp tenant oid wid repo \<noteq> Inr (None, r')"
proof
  assume "reconcile_round env stamp tenant oid wid repo = Inr (None, r')"
  then show False
  proof (cases rule: round_cases)
    case (conflict w operation c)
    with memory.own_write_succeeds [OF env(1), of wid tenant w c] env(2) candidate_frame(1) [OF conflict(4)]
    show False by auto
  qed auto
qed

lemma loop_returns:
  assumes "k \<le> n" and "\<And>m r. repository_ok r \<Longrightarrow> repository_ok (env m r)"
    and "\<And>r. get_wave (env n r) wid tenant = get_wave r wid tenant" and "repository_ok repo"
  shows "\<exists>res. reconcile_loop env stamps tenant oid wid k repo = Some res"
  using assms(1,4)
proof (induction k arbitrary: repo rule: inc_induct)
  case base
  from round_undisturbed [OF base, of "env n" wid tenant "stamps n" oid] assms(2) [OF base] assms(3)
  show ?case by (subst reconcile_loop.simps) (auto split: sum.splits option.splits)
next
  case (step k)
  show ?case
  proof (cases "reconcile_round (env k) (stamps k) tenant oid wid repo")
    case (Inr x)
    obtain w r' where x: "x = (w, r')" by (cases x)
    show ?thesis
    proof (cases w)
      case None
      then have "r' = env k repo"
        using Inr [unfolded x] by (auto elim: round_cases)
      then have "\<exists>res. reconcile_loop env stamps tenant oid wid (Suc k) r' = Some res"
        using step.IH step.prems assms(2) by blast
      then show ?thesis by (subst reconcile_loop.simps) (simp add: Inr x None)
    qed (subst reconcile_loop.simps, simp add: Inr x)
  qed (subst reconcile_loop.simps, simp)
qed

text \<open>The records of an operation, looked up by the item they belong to.\<close>

abbreviation records_by_id :: "string \<Rightarrow> string \<Rightarrow> InMemoryDpmWaveRepository \<Rightarrow> (string, DpmWaveSimulationItemRecord) dict" where
  "records_by_id tenant oid repo \<equiv> dict_of (map (\<lambda>r. (si_wave_item_id r, r)) (all_simulation_items tenant oid repo))"

lemma all_simulation_items_mem:
  assumes "sim_ok now repo" and "get_simulation_operation repo tenant oid = Some operation"
  shows "item \<in> set (all_simulation_items tenant oid repo) \<longleftrightarrow> dict_get (simulation_items repo) (oid, si_wave_item_id item) = Some item"
proof -
  have "si_tenant_id item = tenant" if "dict_get (simulation_items repo) (oid, si_wave_item_id item) = Some item"
    using sim_okD(3) [OF assms(1) that] assms(2) by (auto simp: get_simulation_operation_iff)
  then show ?thesis
    using items_for_operation_mem [OF sim_okD(1) [OF assms(1)]] by (auto simp: all_simulation_items_eq [OF assms(2)])
qed

lemma record_lookup:
  assumes "sim_ok now repo" and "get_simulation_operation repo tenant oid = Some operation"
  shows "dict_get (records_by_id tenant oid repo) i = dict_get (simulation_items repo) (oid, i)"
proof -
  let ?recs = "all_simulation_items tenant oid repo"
  note keyed = sim_okD(1) [OF assms(1)]
  have "distinct (map si_wave_item_id (simulation_items_for_operation (simulation_items repo) oid tenant))"
    by (rule items_for_operation_distinct [OF keyed])
  then have dist: "distinct (map si_wave_item_id ?recs)"
    unfolding all_simulation_items_eq [OF assms(2)] by (metis distinct_map distinct_sort set_sort)
  have fst: "map fst (map (\<lambda>r. (si_wave_item_id r, r)) ?recs) = map si_wave_item_id ?recs" by simp
  have "distinct (map fst (rev (map (\<lambda>r. (si_wave_item_id r, r)) ?recs)))"
    unfolding rev_map [symmetric] fst using dist by simp
  then have iff: "dict_get (records_by_id tenant oid repo) i = Some r \<longleftrightarrow> r \<in> set ?recs \<and> si_wave_item_id r = i" for r
    unfolding dict_get_of by (auto simp: map_of_eq_Some_iff)
  have "dict_get (records_by_id tenant oid repo) i = Some r \<longleftrightarrow> dict_get (simulation_items repo) (oid, i) = Some r" for r
    unfolding iff using all_simulation_items_mem [OF assms, of r] keyed_id [OF keyed, of "(oid, i)" r] by auto
  then show ?thesis by (metis option.exhaust)
qed

text \<open>Projecting twice is projecting once.\<close>

lemma dict_set_same: "dict_get d k = Some v \<Longrightarrow> dict_set k v d = d"
  by (induction d) (auto split: if_splits)

lemma dict_merge_twice:
  "distinct [a, b, c] \<Longrightarrow>
     dict_merge (dict_merge d [(a, x), (b, y), (c, z)]) [(a, x), (b, y), (c, z)] = dict_merge d [(a, x), (b, y), (c, z)]"
  by (simp add: dict_merge_def dict_set_same dict_get_set)

definition owns_results :: "(string, DpmWaveSimulationItemRecord) dict \<Rightarrow> bool" where
  "owns_results by_id \<longleftrightarrow>
     (\<forall>k r res. dict_get by_id k = Some r \<and> si_result_item r = Some res \<longrightarrow> wave_item_id res = k \<and> item_stage (wi_state res) = 0)"

lemma reconciled_item_id: "owns_results by_id \<Longrightarrow> wave_item_id (reconciled_item operation by_id i) = wave_item_id i"
  by (auto simp: reconciled_item_def owns_results_def split: option.splits)

lemma reconciled_item_idem:
  assumes "owns_results by_id"
  shows "reconciled_item operation by_id (reconciled_item operation by_id i) = reconciled_item operation by_id i"
proof (cases "dict_get by_id (wave_item_id i)")
  case (Some r)
  show ?thesis
  proof (cases "si_result_item r")
    case None
    with Some show ?thesis
      by (auto simp: reconciled_item_def dict_merge_twice)
  next
    case (Some res)
    with \<open>dict_get by_id (wave_item_id i) = Some r\<close> assms have "wave_item_id res = wave_item_id i"
      by (auto simp: owns_results_def)
    with Some \<open>dict_get by_id (wave_item_id i) = Some r\<close> show ?thesis by (simp add: reconciled_item_def)
  qed
qed (simp add: reconciled_item_def)

lemma reconciled_item_stage:
  assumes "owns_results by_id" and "item_stage (wi_state i) = 0"
  shows "item_stage (wi_state (reconciled_item operation by_id i)) = 0"
  using assms by (auto simp: reconciled_item_def owns_results_def split: option.splits)

lemma reconciled_item_settled:
  assumes "dict_get by_id (wave_item_id i) = Some r"
  shows "si_result_item r = Some res \<Longrightarrow> reconciled_item operation by_id i = res"
    and "si_result_item r = None \<Longrightarrow> si_status r = SIM_CANCELLED \<or> si_status r = SIM_FAILED \<and> \<not> wave_simulation_item_is_retryable operation r
       \<Longrightarrow> wi_state (reconciled_item operation by_id i) = ITEM_SIMULATION_BLOCKED"
  using assms by (auto simp: reconciled_item_def wave_simulation_item_is_retryable_def)

abbreviation alone :: "nat \<Rightarrow> InMemoryDpmWaveRepository \<Rightarrow> InMemoryDpmWaveRepository" where
  "alone \<equiv> \<lambda>_ r. r"

lemma candidate_events:
  "reconciled_candidate stamp w operation recs = Inr (Some c) \<Longrightarrow> \<not> operation_items_are_terminal operation recs \<Longrightarrow> events c = events w"
  by (auto simp: reconciled_candidate_def Let_def split: if_splits)

text \<open>Reconciling a simulating wave when nobody interferes.\<close>

lemma reconcile_alone:
  fixes recs tenant oid repo
  assumes ok: "repository_ok repo" and op: "get_simulation_operation repo tenant oid = Some operation"
    and w: "get_wave repo (op_wave_id operation) tenant = Some w" "wave_state w = SIMULATING" "\<not> admitted_by_other oid w"
  defines "recs \<equiv> all_simulation_items tenant oid repo"
  obtains w' repo' where "reconcile_wave_simulation_operation alone stamps tenant oid repo = Some (Inr (w', repo'))"
    "get_wave repo' (op_wave_id operation) tenant = Some w'" "repository_ok repo'"
    "simulation_items repo' = simulation_items repo" "simulation_operations repo' = simulation_operations repo"
    "items w' = reconciled_wave_items w operation recs"
    "wave_state w' = (if operation_items_are_terminal operation recs then simulation_result_state (items w') else SIMULATING)"
    "w' = w \<or> (\<exists>c. reconciled_candidate (stamps 0) w operation recs = Inr (Some c) \<and> w' = c)"
proof -
  have start: "reconcile_wave_simulation_operation alone stamps tenant oid repo
      = reconcile_loop alone stamps tenant oid (op_wave_id operation) 0 repo"
    using op w by (simp add: reconcile_wave_simulation_operation_def get_wave_simulation_operation_def)
  obtain candidate where cand: "reconciled_candidate (stamps 0) w operation recs = Inr candidate"
    using candidate_total [OF w(2)] by blast
  show thesis
  proof (cases candidate)
    case None
    then have round: "reconcile_round (\<lambda>r. r) (stamps 0) tenant oid (op_wave_id operation) repo = Inr (Some w, repo)"
      using cand w op by (simp add: reconcile_round_def get_wave_or_raise_def wave_bind_def get_wave_simulation_operation_def recs_def)
    have "reconcile_wave_simulation_operation alone stamps tenant oid repo = Some (Inr (w, repo))"
      unfolding start by (subst reconcile_loop.simps) (simp add: round)
    with cand None w ok show thesis
      by (intro that [of w repo]) (auto simp: candidate_none)
  next
    case (Some c)
    note frame = candidate_frame [OF cand [unfolded Some]]
    from memory.own_write_succeeds [OF ok w(1), of c] frame(1) obtain repo' where
      wrote: "update_wave repo c (version w) tenant = Inr repo'" by auto
    then have round: "reconcile_round (\<lambda>r. r) (stamps 0) tenant oid (op_wave_id operation) repo = Inr (Some c, repo')"
      using cand Some w op by (simp add: reconcile_round_def get_wave_or_raise_def wave_bind_def get_wave_simulation_operation_def recs_def)
    have run: "reconcile_wave_simulation_operation alone stamps tenant oid repo = Some (Inr (c, repo'))"
      unfolding start by (subst reconcile_loop.simps) (simp add: round)
    have own: "wave_id w = op_wave_id operation" "wave_tenant_id w = Some tenant" using memory.get_owned [OF ok w(1)] by auto
    then have "c\<lparr> wave_tenant_id := Some tenant \<rparr> = c" using frame(2) by simp
    then have stored: "get_wave repo' (op_wave_id operation) tenant = Some c"
      using memory.update_get [OF ok wrote, of "op_wave_id operation" tenant] frame(1) own by simp
    have tables: "simulation_items repo' = simulation_items repo" "simulation_operations repo' = simulation_operations repo"
      using wrote by (auto simp: update_wave_def split: option.splits if_splits)
    show thesis
      by (rule that [OF run stored memory.update_ok [OF ok wrote] tables])
        (use frame(4,5) w(2) cand Some in auto)
  qed
qed

text \<open>Reconciling again changes nothing.\<close>

lemma reconcile_settled:
  assumes "get_simulation_operation repo tenant oid = Some operation" and "get_wave repo (op_wave_id operation) tenant = Some w"
    and "wave_state w \<noteq> SIMULATING \<or> \<not> operation_items_are_terminal operation (all_simulation_items tenant oid repo)
           \<and> reconciled_wave_items w operation (all_simulation_items tenant oid repo) = items w"
  shows "reconcile_wave_simulation_operation alone stamps tenant oid repo = Some (Inr (w, repo))"
proof (cases "wave_state w = SIMULATING")
  case True
  then have "reconciled_candidate (stamps 0) w operation (all_simulation_items tenant oid repo) = Inr None"
    using assms(3) by (simp add: candidate_none)
  then have "reconcile_round (\<lambda>r. r) (stamps 0) tenant oid (op_wave_id operation) repo = Inr (Some w, repo)"
    using assms(1,2) by (simp add: reconcile_round_def get_wave_or_raise_def wave_bind_def get_wave_simulation_operation_def)
  then have "reconcile_loop alone stamps tenant oid (op_wave_id operation) 0 repo = Some (Inr (w, repo))"
    by (subst reconcile_loop.simps) simp
  with assms(1,2) True show ?thesis
    by (simp add: reconcile_wave_simulation_operation_def get_wave_simulation_operation_def)
qed (use assms in \<open>simp add: reconcile_wave_simulation_operation_def get_wave_simulation_operation_def\<close>)

lemma same_tables:
  assumes "simulation_items repo' = simulation_items repo" and "simulation_operations repo' = simulation_operations repo"
  shows "get_simulation_operation repo' tenant oid = get_simulation_operation repo tenant oid"
    and "all_simulation_items tenant oid repo' = all_simulation_items tenant oid repo"
proof -
  show op: "get_simulation_operation repo' tenant oid = get_simulation_operation repo tenant oid"
    using assms by (simp add: get_simulation_operation_def)
  show "all_simulation_items tenant oid repo' = all_simulation_items tenant oid repo"
    using assms op
    by (cases "get_simulation_operation repo tenant oid") (simp_all add: all_simulation_items_eq all_simulation_items_none)
qed

subsection \<open>The waves of the store\<close>

definition same_waves :: "InMemoryDpmWaveRepository \<Rightarrow> InMemoryDpmWaveRepository \<Rightarrow> bool" where
  "same_waves r r' \<longleftrightarrow> repo_waves r' = repo_waves r \<and> correlation_index r' = correlation_index r"

lemma same_waves_refl [simp]: "same_waves r r"
  by (simp add: same_waves_def)

lemma same_waves_trans: "same_waves r r1 \<Longrightarrow> same_waves r1 r2 \<Longrightarrow> same_waves r r2"
  by (simp add: same_waves_def)

lemma same_waves_ok: "same_waves r r' \<Longrightarrow> repository_ok r' = repository_ok r" "same_waves r r' \<Longrightarrow> get_wave r' = get_wave r"
  by (simp_all add: same_waves_def repository_ok_def get_wave_def fun_eq_iff)

lemma op_step_waves: "op_step chosen now oid repo repo' \<Longrightarrow> same_waves repo repo'"
  by (auto simp: op_step_def same_waves_def)

text \<open>To the creation of waves, every step is a save or one of the other writes.\<close>

lemma same_waves_write: "same_waves r r' \<Longrightarrow> idempotency_index r' = idempotency_index r \<Longrightarrow> memory_write r r'"
  using same_waves_ok [of r r'] by (simp add: memory_write_def)

lemma op_step_write: "op_step chosen now oid repo repo' \<Longrightarrow> memory_write repo repo'"
  by (rule same_waves_write) (auto simp: op_step_def same_waves_def)

lemma memory_write_refl [simp]: "memory_write r r"
  by (simp add: memory_write_def)

lemma admission_write:
  assumes "admit_simulation_operation operation recs w repo = Inr (res, repo')"
  shows "memory_write repo repo'"
  using assms
proof (cases rule: admit_cases)
  case (admitted wave)
  then show ?thesis
    by (auto simp: memory_write_def repository_ok_def store_admission_def get_wave_def dict_get_set split: option.splits if_splits)
qed simp

lemma update_write: "update_wave repo w v tenant = Inr repo' \<Longrightarrow> memory_write repo repo'"
  using memory.update_ok memory.update_get [of repo w v tenant repo']
  by (auto simp: memory_write_def update_wave_def split: option.splits if_splits)

lemma sim_step_writes:
  assumes "sim_step now repo t repo'" and "sim_ok now repo"
  shows "memory_write repo repo' \<or> (\<exists>sha256 w key h tenant. save_wave sha256 w key h tenant repo = Inr repo')"
  using assms
proof (induction rule: sim_step.induct)
  case (admit now t operation recs repo w res repo')
  then show ?case using admission_write by blast
next
  case (claim now t tenant oid worker limit lease tokens repo claims repo')
  from claim.hyps(2) sim_okD(1) [OF claim.prems] show ?case
    by (cases rule: claim_cases) (use op_step_write memory_write_refl in blast)+
next
  case (publish_result now t c result_item repo b repo')
  from publish_step [OF publish_result.hyps(2) [unfolded publish_simulation_item_result_def] sim_okD(1) [OF publish_result.prems]]
  show ?case using op_step_write memory_write_refl by blast
next
  case (publish_failure now t c code message retryable repo b repo')
  from publish_step [OF publish_failure.hyps(2) [unfolded publish_simulation_item_failure_def] sim_okD(1) [OF publish_failure.prems]]
  show ?case using op_step_write memory_write_refl by blast
next
  case (retry now t tenant oid requested repo n repo')
  from retry_step [OF retry.hyps(2) sim_okD(1) [OF retry.prems]] show ?case using op_step_write memory_write_refl by blast
next
  case (cancel now t tenant oid reason repo r repo')
  from cancel_step [OF cancel.hyps(2) sim_okD(1) [OF cancel.prems]] show ?case using op_step_write memory_write_refl by blast
next
  case (save now t sha256 wave key rhash tenant repo repo')
  then show ?case by blast
next
  case (update now t repo wave v tenant repo')
  then show ?case using update_write by blast
qed

lemma sim_step_repository_ok:
  assumes "sim_step now repo t repo'" and "sim_ok now repo" and "repository_ok repo"
  shows "repository_ok repo'"
  using sim_step_writes [OF assms(1,2)] assms(3) save_wave_ok by (auto simp: memory_write_def)

lemma reachable_repository_ok: "sim_steps start empty_repository now repo \<Longrightarrow> repository_ok repo"
proof (induction rule: sim_steps.induct)
  case (step t repo' u repo'')
  then show ?case using sim_step_repository_ok reachable_ok by blast
qed (simp add: repository_ok_def empty_repository_def)


section \<open>Properties\<close>

text \<open>
  Reading an operation completely. The loop that follows the pages of 500 items ends for every
  store and returns all items of the operation, each once, in the order of their ordinals; for an
  operation the tenant does not own it returns nothing.
\<close>

theorem simulation_pages_complete:
  "all_simulation_items tenant oid repo =
     (case get_simulation_operation repo tenant oid of
        None \<Rightarrow> []
      | Some _ \<Rightarrow> sort_key simulation_item_order (simulation_items_for_operation (simulation_items repo) oid tenant))"
  by (simp add: all_simulation_items_eq all_simulation_items_none split: option.splits)

text \<open>
  C32. Reconciliation ends. The loop repeats a round only when another writer has changed the wave
  between its reads and its write; as soon as one round is left alone at the wave, it returns.
\<close>

theorem reconciliation_returns:
  assumes "repository_ok repo" and "\<And>m r. repository_ok r \<Longrightarrow> repository_ok (env m r)"
    and "get_simulation_operation repo tenant oid = Some operation"
    and "\<And>r. get_wave (env n r) (op_wave_id operation) tenant = get_wave r (op_wave_id operation) tenant"
  shows "\<exists>res. reconcile_wave_simulation_operation env stamps tenant oid repo = Some res"
proof -
  have "\<exists>res. reconcile_loop env stamps tenant oid (op_wave_id operation) 0 repo = Some res"
    by (rule loop_returns [where n = n, OF le0]) (rule assms(2,4,1), assumption?)+
  with assms(3) show ?thesis
    by (auto simp: reconcile_wave_simulation_operation_def get_wave_simulation_operation_def split: option.splits)
qed

text \<open>Another writer that takes the wave one version further.\<close>

definition bump_versions :: "InMemoryDpmWaveRepository \<Rightarrow> InMemoryDpmWaveRepository" where
  "bump_versions repo = repo\<lparr> repo_waves := map (\<lambda>(k, w). (k, w\<lparr> version := version w + 1 \<rparr>)) (repo_waves repo) \<rparr>"

lemma bump_versions_ok: "repository_ok repo \<Longrightarrow> repository_ok (bump_versions repo)"
  by (auto simp: repository_ok_def bump_versions_def map_of_map)

theorem reconciliation_returns_witness:
  "\<exists>res. reconcile_wave_simulation_operation (\<lambda>n. if n = 0 then bump_versions else (\<lambda>r. r)) (\<lambda>_. sample_stamp) ''t1'' ''o1'' sample_store4
     = Some res"
proof -
  obtain operation where "get_simulation_operation sample_store4 ''t1'' ''o1'' = Some operation"
    by (cases "get_simulation_operation sample_store4 ''t1'' ''o1''") (code_simp, blast)
  then show ?thesis
    by (rule reconciliation_returns [where n = 1, OF reachable_repository_ok [OF sample_publish], rotated])
      (simp_all add: bump_versions_ok)
qed

end
