(* ===== verification/Wave_Simulation_Worker.thy ===== *)
theory Wave_Simulation_Worker
  imports Wave_Simulation_Service
begin

text \<open>
  The worker of a durable simulation: executing a claim always publishes an outcome, one turn of the
  loop settles one pending item, and a worker with enough turns that keeps within its leases drains
  the operation and completes the wave.
\<close>


section \<open>Lemmas\<close>

text \<open>
  An operation at rest: open, with nobody at work on it, all its items of one wave, and every stored
  result the simulation of its own item.
\<close>

definition own_result :: "string \<Rightarrow> DpmRebalanceWaveItem option \<Rightarrow> bool" where
  "own_result i r \<longleftrightarrow> (\<forall>res. r = Some res \<longrightarrow> wave_item_id res = i \<and> item_stage (wi_state res) = 0)"

definition at_rest :: "string \<Rightarrow> string \<Rightarrow> string \<Rightarrow> InMemoryDpmWaveRepository \<Rightarrow> bool" where
  "at_rest tenant oid wid repo \<longleftrightarrow>
     (\<exists>operation. get_simulation_operation repo tenant oid = Some operation \<and> op_wave_id operation = wid
        \<and> op_cancel_reason_code operation = None \<and> 0 < op_max_concurrency operation
        \<and> (\<exists>methods. admitted_methods operation = Inr methods))
     \<and> (\<forall>i item. dict_get (simulation_items repo) (oid, i) = Some item \<longrightarrow>
          si_status item \<noteq> SIM_RUNNING \<and> si_wave_id item = wid \<and> own_result i (si_result_item item))"

definition unstaged :: "string \<Rightarrow> string \<Rightarrow> InMemoryDpmWaveRepository \<Rightarrow> bool" where
  "unstaged wid tenant repo \<longleftrightarrow> (\<forall>w. get_wave repo wid tenant = Some w \<longrightarrow> (\<forall>i \<in> set (items w). item_stage (wi_state i) = 0))"

definition pending_ids :: "string \<Rightarrow> InMemoryDpmWaveRepository \<Rightarrow> string set" where
  "pending_ids oid repo = {i. \<exists>item. dict_get (simulation_items repo) (oid, i) = Some item \<and> si_status item = SIM_PENDING}"

lemma finite_pending: "finite (pending_ids oid repo)"
proof (rule finite_subset)
  show "pending_ids oid repo \<subseteq> snd ` set (dict_keys (simulation_items repo))"
    using dict_get_key [of "simulation_items repo"] by (force simp: pending_ids_def)
qed simp

text \<open>What one store operation of the worker changes: one item and the derived status.\<close>

definition wrote_item ::
  "string \<Rightarrow> string \<Rightarrow> DpmWaveSimulationItemRecord \<Rightarrow> InMemoryDpmWaveRepository \<Rightarrow> InMemoryDpmWaveRepository \<Rightarrow> bool" where
  "wrote_item oid i item repo repo' \<longleftrightarrow>
     (\<exists>operation s tm. dict_get (simulation_operations repo) oid = Some operation
        \<and> repo' = repo\<lparr> simulation_items := dict_set (oid, i) item (simulation_items repo),
            simulation_operations := dict_set oid (operation\<lparr> op_status := s, op_updated_at := tm \<rparr>) (simulation_operations repo) \<rparr>)"

lemma wrote_item_frame:
  assumes "wrote_item oid i item repo repo'"
  shows "dict_get (simulation_items repo') k = (if k = (oid, i) then Some item else dict_get (simulation_items repo) k)"
    and "same_waves repo repo'"
    and "get_simulation_operation repo tenant oid = Some operation \<Longrightarrow>
      \<exists>s tm. get_simulation_operation repo' tenant oid = Some (operation\<lparr> op_status := s, op_updated_at := tm \<rparr>)"
proof -
  obtain operation1 s tm where op1: "dict_get (simulation_operations repo) oid = Some operation1"
    and repo': "repo' = repo\<lparr> simulation_items := dict_set (oid, i) item (simulation_items repo),
      simulation_operations := dict_set oid (operation1\<lparr> op_status := s, op_updated_at := tm \<rparr>) (simulation_operations repo) \<rparr>"
    using assms unfolding wrote_item_def by blast
  show "dict_get (simulation_items repo') k = (if k = (oid, i) then Some item else dict_get (simulation_items repo) k)"
    "same_waves repo repo'"
    by (simp_all add: repo' dict_get_set same_waves_def)
  assume "get_simulation_operation repo tenant oid = Some operation"
  with op1 have "operation1 = operation" "op_tenant_id operation = tenant" by (simp_all add: get_simulation_operation_iff)
  then have "get_simulation_operation repo' tenant oid = Some (operation\<lparr> op_status := s, op_updated_at := tm \<rparr>)"
    by (simp add: get_simulation_operation_iff repo' dict_get_set)
  then show "\<exists>s tm. get_simulation_operation repo' tenant oid = Some (operation\<lparr> op_status := s, op_updated_at := tm \<rparr>)" by blast
qed

lemma open_status:
  assumes "sim_ok now repo" and "get_simulation_operation repo tenant oid = Some operation"
    and "op_cancel_reason_code operation = None" and "i \<in> pending_ids oid repo"
  shows "op_status operation \<notin> {OP_CANCEL_REQUESTED, OP_CANCELLED, OP_SUCCEEDED, OP_FAILED}"
proof -
  let ?recs = "simulation_items_for_operation (simulation_items repo) oid (op_tenant_id operation)"
  have op: "dict_get (simulation_operations repo) oid = Some operation" using assms(2) by (simp add: get_simulation_operation_iff)
  then have status: "op_status operation = derive_wave_simulation_operation_status operation ?recs"
    using sim_okD(2) [OF assms(1)] by (simp add: operation_ok_def)
  obtain item where item: "dict_get (simulation_items repo) (oid, i) = Some item" "si_status item = SIM_PENDING"
    using assms(4) by (auto simp: pending_ids_def)
  have "item \<in> set ?recs"
    using item keyed_id [OF sim_okD(1) [OF assms(1)] item(1)] sim_okD(3) [OF assms(1) item(1)] op
    by (auto simp: items_for_operation_mem [OF sim_okD(1) [OF assms(1)]])
  with item(2) have "\<exists>x \<in> set ?recs. item_outstanding operation x" by (auto simp: item_outstanding_def)
  then show ?thesis unfolding status derive_status_eq [OF assms(3)] by simp
qed

lemma claim_one:
  assumes ok: "sim_ok now repo" and rest: "at_rest tenant oid wid repo" and "pending_ids oid repo \<noteq> {}"
  obtains i item operation repo1 where "get_simulation_operation repo tenant oid = Some operation" "i \<in> pending_ids oid repo"
    "dict_get (simulation_items repo) (oid, i) = Some item"
    "claim_simulation_items tenant oid worker 1 t lease tokens repo
       = Inr ([claim_of (op_max_attempts operation) oid tenant worker (tokens 0) lease item], repo1)"
    "wrote_item oid i (claimed_item (op_max_attempts operation) worker (tokens 0) t lease item) repo repo1"
proof -
  note keyed = sim_okD(1) [OF ok]
  obtain operation where op: "get_simulation_operation repo tenant oid = Some operation"
    "op_cancel_reason_code operation = None" "0 < op_max_concurrency operation"
    using rest by (auto simp: at_rest_def)
  have idle: "si_status item \<noteq> SIM_RUNNING" if "dict_get (simulation_items repo) (oid, i) = Some item" for i item
    using rest that unfolding at_rest_def by blast
  obtain i0 where i0: "i0 \<in> pending_ids oid repo" using assms(3) by blast
  note status = open_status [OF ok op(1,2) i0]
  let ?owned = "simulation_items_for_operation (simulation_items repo) oid tenant"
  have owned: "item \<in> set ?owned \<longleftrightarrow> dict_get (simulation_items repo) (oid, si_wave_item_id item) = Some item" for item
    using all_simulation_items_mem [OF ok op(1), of item] by (simp add: all_simulation_items_eq [OF op(1)])
  have none: "filter (holds_lease t) ?owned = []" using owned idle by (auto simp: filter_empty_conv holds_lease_def)
  obtain item0 where item0: "dict_get (simulation_items repo) (oid, i0) = Some item0" "si_status item0 = SIM_PENDING"
    using i0 by (auto simp: pending_ids_def)
  then have "item0 \<in> set (filter (claimable t) ?owned)"
    using owned keyed_id [OF keyed item0(1)] by (simp add: claimable_def)
  then have "sort_key simulation_item_order (filter (claimable t) ?owned) \<noteq> []" by (metis empty_iff set_empty set_sort)
  then obtain item rest_items where first: "sort_key simulation_item_order (filter (claimable t) ?owned) = item # rest_items"
    by (cases "sort_key simulation_item_order (filter (claimable t) ?owned)") auto
  then have "item \<in> set (filter (claimable t) ?owned)" by (metis list.set_intros(1) set_sort)
  then have item: "dict_get (simulation_items repo) (oid, si_wave_item_id item) = Some item" "si_status item = SIM_PENDING"
    using owned idle by (auto simp: claimable_def)
  have limit: "nat (min 1 (int (op_max_concurrency operation))) = 1" using op(3) by simp
  let ?c = "claimed_item (op_max_attempts operation) worker (tokens 0) t lease item"
  let ?r = "repo\<lparr> simulation_items := dict_set (oid, si_wave_item_id item) ?c (simulation_items repo) \<rparr>"
  obtain updated repo1 where refresh: "refresh_simulation_operation_status oid t ?r = Inr (updated, repo1)"
    using op(1) by (auto simp: refresh_simulation_operation_status_def get_simulation_operation_iff Let_def)
  have "claim_simulation_items tenant oid worker 1 t lease tokens repo
       = Inr ([claim_of (op_max_attempts operation) oid tenant worker (tokens 0) lease item], repo1)"
    using status op(1) limit refresh by (simp add: claim_simulation_items_def Let_def none first)
  moreover have "wrote_item oid (si_wave_item_id item) ?c repo repo1"
    using refresh op(1) by (auto simp: refresh_iff wrote_item_def get_simulation_operation_iff)
  moreover have "si_wave_item_id item \<in> pending_ids oid repo" using item by (auto simp: pending_ids_def)
  ultimately show thesis using that op(1) item(1) by blast
qed

lemma claim_idle:
  assumes ok: "sim_ok now repo" and rest: "at_rest tenant oid wid repo" and none: "pending_ids oid repo = {}"
  obtains repo1 where "claim_simulation_items tenant oid worker 1 t lease tokens repo = Inr ([], repo1)"
    "simulation_items repo1 = simulation_items repo" "same_waves repo repo1" "at_rest tenant oid wid repo1"
proof -
  obtain operation where op: "get_simulation_operation repo tenant oid = Some operation"
    using rest by (auto simp: at_rest_def)
  let ?owned = "simulation_items_for_operation (simulation_items repo) oid tenant"
  have "\<not> claimable t item" if "item \<in> set ?owned" for item
  proof -
    have "dict_get (simulation_items repo) (oid, si_wave_item_id item) = Some item"
      using all_simulation_items_mem [OF ok op, of item] that by (simp add: all_simulation_items_eq [OF op])
    with rest none show ?thesis by (auto simp: at_rest_def pending_ids_def claimable_def)
  qed
  then have empty: "filter (claimable t) ?owned = []" by (simp add: filter_empty_conv)
  obtain updated repo1 where refresh: "refresh_simulation_operation_status oid t repo = Inr (updated, repo1)"
    using op by (auto simp: refresh_simulation_operation_status_def get_simulation_operation_iff Let_def)
  then have repo1: "simulation_items repo1 = simulation_items repo" "same_waves repo repo1" "at_rest tenant oid wid repo1"
    using rest op by (auto simp: refresh_iff at_rest_def get_simulation_operation_iff dict_get_set same_waves_def)
  show thesis
  proof (cases "op_status operation \<in> {OP_CANCEL_REQUESTED, OP_CANCELLED, OP_SUCCEEDED, OP_FAILED}")
    case True
    then show thesis using that [of repo] op rest by (simp add: claim_simulation_items_def)
  next
    case False
    then show thesis using that [OF _ repo1] op refresh by (simp add: claim_simulation_items_def Let_def empty)
  qed
qed

text \<open>A publication within the lease settles the claimed item.\<close>

lemma publish_one:
  assumes item: "dict_get (simulation_items repo) (cl_operation_id claim, cl_wave_item_id claim) = Some item"
    and "claim_current claim t item"
    and op: "dict_get (simulation_operations repo) (cl_operation_id claim) = Some operation"
  obtains repo' where "publish_simulation_item_terminal claim t status result_item code message retryable repo = Inr (True, repo')"
    "wrote_item (cl_operation_id claim) (cl_wave_item_id claim)
       (published_item status result_item code message (retryable \<and> op_cancel_reason_code operation = None) t item) repo repo'"
proof -
  let ?r = "repo\<lparr> simulation_items := dict_set (cl_operation_id claim, cl_wave_item_id claim)
     (published_item status result_item code message (retryable \<and> op_cancel_reason_code operation = None) t item) (simulation_items repo) \<rparr>"
  obtain updated repo' where refresh: "refresh_simulation_operation_status (cl_operation_id claim) t ?r = Inr (updated, repo')"
    using op by (auto simp: refresh_simulation_operation_status_def Let_def)
  show thesis
  proof (rule that [of repo'])
    show "publish_simulation_item_terminal claim t status result_item code message retryable repo = Inr (True, repo')"
      using assms refresh by (simp add: publish_simulation_item_terminal_def Let_def)
  qed (use refresh op in \<open>auto simp: refresh_iff wrote_item_def\<close>)
qed

definition settled_item :: "DpmWaveSimulationItemRecord \<Rightarrow> DpmWaveSimulationItemRecord \<Rightarrow> bool \<Rightarrow> bool" where
  "settled_item item item' published \<longleftrightarrow>
     si_status item' = (if published then SIM_SUCCEEDED else SIM_FAILED) \<and> si_wave_id item' = si_wave_id item
     \<and> own_result (si_wave_item_id item) (si_result_item item')"

lemma publish_failure_settles:
  assumes "dict_get (simulation_items repo) (cl_operation_id claim, cl_wave_item_id claim) = Some item"
    and "claim_current claim t item" and "dict_get (simulation_operations repo) (cl_operation_id claim) = Some operation"
    and "sim_ok now repo" and "now \<le> t"
  shows "\<exists>item' repo'. publish_failure claim code message retryable t repo = Inr (False, repo')
    \<and> wrote_item (cl_operation_id claim) (cl_wave_item_id claim) item' repo repo' \<and> settled_item item item' False \<and> sim_ok t repo'"
proof -
  obtain repo' where run: "publish_simulation_item_failure claim code message retryable t repo = Inr (True, repo')"
    "wrote_item (cl_operation_id claim) (cl_wave_item_id claim)
       (published_item SIM_FAILED None (Some code) (Some message) (retryable \<and> op_cancel_reason_code operation = None) t item) repo repo'"
    unfolding publish_simulation_item_failure_def by (rule publish_one [OF assms(1-3)])
  have "sim_ok t repo'" by (rule sim_step_ok [OF sim_step.publish_failure [OF assms(5) run(1)] assms(4)])
  moreover have "publish_failure claim code message retryable t repo = Inr (False, repo')"
    by (simp add: publish_failure_def wave_bind_def run(1))
  ultimately show ?thesis using run(2) by (intro exI conjI) (auto simp: settled_item_def published_item_def own_result_def)
qed

lemma publish_result_settles:
  assumes "dict_get (simulation_items repo) (cl_operation_id claim, cl_wave_item_id claim) = Some item"
    and "claim_current claim t item" and "dict_get (simulation_operations repo) (cl_operation_id claim) = Some operation"
    and "sim_ok now repo" and "now \<le> t" and "own_result (si_wave_item_id item) (Some result_item)"
  shows "\<exists>item' repo'. publish_simulation_item_result claim result_item t repo = Inr (True, repo')
    \<and> wrote_item (cl_operation_id claim) (cl_wave_item_id claim) item' repo repo' \<and> settled_item item item' True \<and> sim_ok t repo'"
proof -
  obtain repo' where run: "publish_simulation_item_result claim result_item t repo = Inr (True, repo')"
    "wrote_item (cl_operation_id claim) (cl_wave_item_id claim)
       (published_item SIM_SUCCEEDED (Some result_item) None None (False \<and> op_cancel_reason_code operation = None) t item) repo repo'"
    unfolding publish_simulation_item_result_def by (rule publish_one [OF assms(1-3)])
  have "sim_ok t repo'" by (rule sim_step_ok [OF sim_step.publish_result [OF assms(5) run(1)] assms(4)])
  then show ?thesis using run assms(6) by (intro exI conjI) (auto simp: settled_item_def published_item_def)
qed

lemma claim_result_outcome:
  "simulate_claim env methods risk_context claim item = Claim_Result res \<Longrightarrow> simulation_outcome item res"
  by (auto simp: simulate_claim_def split: sum.splits input_failure.splits if_splits dest: simulate_item_outcome)

text \<open>Executing a claim that is current during the work always settles its item.\<close>

lemma execute_claim_settles:
  assumes item: "dict_get (simulation_items repo) (cl_operation_id claim, cl_wave_item_id claim) = Some item"
    and started: "claim_current claim (ct_started_at ct) item" and finished: "claim_current claim (ct_finished_at ct) item"
    and op: "get_simulation_operation repo (cl_tenant_id claim) (cl_operation_id claim) = Some operation"
    and ok: "sim_ok now repo" and le: "now \<le> ct_started_at ct" "ct_started_at ct \<le> ct_finished_at ct"
    and stages: "unstaged (cl_wave_id claim) (cl_tenant_id claim) repo"
    and id: "si_wave_item_id item = cl_wave_item_id claim"
  shows "\<exists>published item' repo'. execute_claim env methods risk_context ct claim repo = Inr (published, repo')
    \<and> wrote_item (cl_operation_id claim) (cl_wave_item_id claim) item' repo repo' \<and> settled_item item item' published
    \<and> sim_ok (ct_finished_at ct) repo'"
proof -
  have op': "dict_get (simulation_operations repo) (cl_operation_id claim) = Some operation"
    using op by (simp add: get_simulation_operation_iff)
  have le': "now \<le> ct_finished_at ct" using le by simp
  let ?goal = "\<lambda>run. \<exists>published item' repo'. run = Inr (published, repo')
    \<and> wrote_item (cl_operation_id claim) (cl_wave_item_id claim) item' repo repo' \<and> settled_item item item' published
    \<and> sim_ok (ct_finished_at ct) repo'"
  have early: "?goal (publish_failure claim code message retryable (ct_started_at ct) repo)" for code message retryable
    using publish_failure_settles [OF item started op' ok le(1)] sim_ok_later [OF _ le(2)] by metis
  have late: "?goal (publish_failure claim code message retryable (ct_finished_at ct) repo)" for code message retryable
    using publish_failure_settles [OF item finished op' ok le'] by metis
  have result: "?goal (publish_simulation_item_result claim result_item (ct_finished_at ct) repo)"
    if "own_result (cl_wave_item_id claim) (Some result_item)" for result_item
    using publish_result_settles [OF item finished op' ok le'] that unfolding id by metis
  have work: "?goal (publish_outcome (ct_finished_at ct) claim work repo)"
    if "\<And>res. work = Claim_Result res \<Longrightarrow> own_result (cl_wave_item_id claim) (Some res)" for work
    using late result op that by (cases work) (simp_all add: publish_outcome_def get_wave_simulation_operation_def wave_bind_def Let_def)
  have simulated: "own_result (cl_wave_item_id claim) (Some res)"
    if "get_wave repo (cl_wave_id claim) (cl_tenant_id claim) = Some w"
      "List.find (\<lambda>i. wave_item_id i = cl_wave_item_id claim) (items w) = Some i"
      "simulate_claim env methods risk_context claim i = Claim_Result res" for w i res
  proof -
    have i: "i \<in> set (items w)" "wave_item_id i = cl_wave_item_id claim" using find_SomeD [OF that(2)] by auto
    have "simulation_outcome i res" by (rule claim_result_outcome [OF that(3)])
    moreover have "item_stage (wi_state i) = 0" using stages that(1) i(1) by (simp add: unstaged_def)
    ultimately have "item_stage (wi_state res) = 0" by (rule outcome_stage)
    with i \<open>simulation_outcome i res\<close> show ?thesis by (simp add: own_result_def simulation_outcome_def)
  qed
  show ?thesis
    unfolding execute_claim_def Let_def using early work simulated by (simp split: option.splits)
qed

text \<open>One turn of the worker's loop settles one pending item and nothing else.\<close>

lemma work_turn:
  assumes ok: "sim_ok now repo" and rest: "at_rest tenant oid wid repo" and some: "pending_ids oid repo \<noteq> {}"
    and in_time: "now \<le> ct_claimed_at ct" "ct_claimed_at ct \<le> ct_started_at ct" "ct_started_at ct \<le> ct_finished_at ct"
      "ct_finished_at ct \<le> ct_claimed_at ct + lease"
    and stages: "unstaged wid tenant repo"
  obtains i claim repo1 published repo2 where
    "claim_simulation_items tenant oid worker 1 (ct_claimed_at ct) (ct_claimed_at ct + lease) (\<lambda>_. ct_token ct) repo = Inr ([claim], repo1)"
    "execute_claim env methods risk_context ct claim repo1 = Inr (published, repo2)"
    "i \<in> pending_ids oid repo" "pending_ids oid repo2 = pending_ids oid repo - {i}"
    "at_rest tenant oid wid repo2" "same_waves repo repo2" "sim_ok (ct_finished_at ct) repo2"
proof -
  obtain i item operation repo1 where op: "get_simulation_operation repo tenant oid = Some operation" and i: "i \<in> pending_ids oid repo"
    and item: "dict_get (simulation_items repo) (oid, i) = Some item"
    and run: "claim_simulation_items tenant oid worker 1 (ct_claimed_at ct) (ct_claimed_at ct + lease) (\<lambda>_. ct_token ct) repo
       = Inr ([claim_of (op_max_attempts operation) oid tenant worker (ct_token ct) (ct_claimed_at ct + lease) item], repo1)"
    and wrote1: "wrote_item oid i (claimed_item (op_max_attempts operation) worker (ct_token ct) (ct_claimed_at ct)
       (ct_claimed_at ct + lease) item) repo repo1"
    by (rule claim_one [OF ok rest some])
  let ?claim = "claim_of (op_max_attempts operation) oid tenant worker (ct_token ct) (ct_claimed_at ct + lease) item"
  let ?c = "claimed_item (op_max_attempts operation) worker (ct_token ct) (ct_claimed_at ct) (ct_claimed_at ct + lease) item"
  have id: "si_wave_item_id item = i" using keyed_id [OF sim_okD(1) [OF ok] item] by simp
  have key: "cl_operation_id ?claim = oid" "cl_wave_item_id ?claim = i" "cl_tenant_id ?claim = tenant"
    by (simp_all add: claim_of_def id)
  have "si_tenant_id item = tenant" using sim_okD(3) [OF ok item] op by (auto simp: get_simulation_operation_iff)
  then have current: "claim_current ?claim t ?c" if "t \<le> ct_claimed_at ct + lease" for t
    using that by (simp add: claim_current_def claim_of_def claimed_item_def)
  have item1: "dict_get (simulation_items repo1) (cl_operation_id ?claim, cl_wave_item_id ?claim) = Some ?c"
    unfolding key using wrote_item_frame(1) [OF wrote1] by simp
  obtain s1 t1 where op1: "get_simulation_operation repo1 (cl_tenant_id ?claim) (cl_operation_id ?claim)
      = Some (operation\<lparr> op_status := s1, op_updated_at := t1 \<rparr>)"
    unfolding key using wrote_item_frame(3) [OF wrote1 op] by blast
  have ok1: "sim_ok (ct_claimed_at ct) repo1" by (rule sim_step_ok [OF sim_step.claim [OF in_time(1) run] ok])
  have "si_wave_id item = wid" using rest item unfolding at_rest_def by blast
  then have wave: "cl_wave_id ?claim = wid" by (simp add: claim_of_def)
  have same_id: "si_wave_item_id ?c = cl_wave_item_id ?claim" by (simp add: claim_of_def claimed_item_def)
  have stages1: "unstaged (cl_wave_id ?claim) (cl_tenant_id ?claim) repo1"
    using stages unfolding unstaged_def wave key same_waves_ok(2) [OF wrote_item_frame(2) [OF wrote1]] .
  have "ct_started_at ct \<le> ct_claimed_at ct + lease" using in_time by simp
  from execute_claim_settles [OF item1 current [OF this] current [OF in_time(4)] op1 ok1 in_time(2,3) stages1 same_id]
  obtain published item2 repo2 where exec: "execute_claim env methods risk_context ct ?claim repo1 = Inr (published, repo2)"
    and wrote2: "wrote_item oid i item2 repo1 repo2" and settled: "settled_item ?c item2 published" and ok2: "sim_ok (ct_finished_at ct) repo2"
    unfolding key by blast
  have get2: "dict_get (simulation_items repo2) (oid, j) = (if j = i then Some item2 else dict_get (simulation_items repo) (oid, j))" for j
    using wrote_item_frame(1) [OF wrote1] wrote_item_frame(1) [OF wrote2] by simp
  have status: "si_status item2 \<notin> {SIM_PENDING, SIM_RUNNING}" "si_wave_id item2 = wid" "own_result i (si_result_item item2)"
    using settled wave by (simp_all add: settled_item_def claimed_item_def claim_of_def id)
  obtain s2 t2 where op2: "get_simulation_operation repo2 tenant oid = Some (operation\<lparr> op_status := s2, op_updated_at := t2 \<rparr>)"
    using wrote_item_frame(3) [OF wrote2 op1 [unfolded key]] by auto
  show thesis
  proof (rule that [OF run exec i])
    show "pending_ids oid repo2 = pending_ids oid repo - {i}" using status by (auto simp: pending_ids_def get2)
    show "at_rest tenant oid wid repo2" using rest op op2 status by (auto simp: at_rest_def get2)
    show "same_waves repo repo2"
      by (rule same_waves_trans [OF wrote_item_frame(2) [OF wrote1] wrote_item_frame(2) [OF wrote2]])
  qed (rule ok2)
qed

text \<open>The clock of a worker that finishes each claim within its lease.\<close>

fun timely :: "int \<Rightarrow> int \<Rightarrow> ClaimTimes list \<Rightarrow> bool" where
  "timely now lease [] \<longleftrightarrow> True"
| "timely now lease (ct # rest) \<longleftrightarrow>
     now \<le> ct_claimed_at ct \<and> ct_claimed_at ct \<le> ct_started_at ct \<and> ct_started_at ct \<le> ct_finished_at ct
     \<and> ct_finished_at ct \<le> ct_claimed_at ct + lease \<and> timely (ct_finished_at ct) lease rest"

lemma work_drains:
  assumes "sim_ok now repo" and "at_rest tenant oid wid repo" and "timely now lease cts" and "card (pending_ids oid repo) \<le> length cts"
    and "unstaged wid tenant repo"
  shows "\<exists>p' f' repo' t'. work_loop env methods risk_context tenant oid worker lease cts (c, p, f) repo
      = Inr ((c + card (pending_ids oid repo), p + p', f + f'), repo')
    \<and> p' + f' = card (pending_ids oid repo) \<and> pending_ids oid repo' = {} \<and> at_rest tenant oid wid repo'
    \<and> same_waves repo repo' \<and> sim_ok t' repo'"
  using assms
proof (induction cts arbitrary: now repo c p f)
  case Nil
  then have "pending_ids oid repo = {}" using finite_pending by simp
  with Nil show ?case by auto
next
  case (Cons ct rest)
  show ?case
  proof (cases "pending_ids oid repo = {}")
    case True
    obtain repo1 where run: "claim_simulation_items tenant oid worker 1 (ct_claimed_at ct) (ct_claimed_at ct + lease) (\<lambda>_. ct_token ct) repo
        = Inr ([], repo1)" "simulation_items repo1 = simulation_items repo" "same_waves repo repo1"
      "at_rest tenant oid wid repo1"
      by (rule claim_idle [OF Cons.prems(1,2) True])
    have "sim_ok (ct_claimed_at ct) repo1"
      using sim_step_ok [OF sim_step.claim [OF _ run(1)] Cons.prems(1)] Cons.prems(3) by simp
    moreover have "pending_ids oid repo1 = {}" using True run(2) by (simp add: pending_ids_def)
    ultimately show ?thesis
      using run True by (intro exI [of _ 0] exI [of _ repo1] exI [of _ "ct_claimed_at ct"]) (simp add: wave_bind_def)
  next
    case False
    obtain i claim repo1 published repo2 where turn:
      "claim_simulation_items tenant oid worker 1 (ct_claimed_at ct) (ct_claimed_at ct + lease) (\<lambda>_. ct_token ct) repo = Inr ([claim], repo1)"
      "execute_claim env methods risk_context ct claim repo1 = Inr (published, repo2)"
      "i \<in> pending_ids oid repo" "pending_ids oid repo2 = pending_ids oid repo - {i}"
      "at_rest tenant oid wid repo2" "same_waves repo repo2" "sim_ok (ct_finished_at ct) repo2"
      by (rule work_turn [OF Cons.prems(1,2) False]) (use Cons.prems(3,5) in auto)
    have stages: "unstaged wid tenant repo2" using Cons.prems(5) unfolding unstaged_def same_waves_ok(2) [OF turn(6)] .
    have card: "card (pending_ids oid repo) = Suc (card (pending_ids oid repo2))"
      unfolding turn(4) by (rule card.remove [OF finite_pending turn(3)])
    let ?p = "p + (if published then 1 else 0)" and ?f = "f + (if published then 0 else 1)"
    have "timely (ct_finished_at ct) lease rest" "card (pending_ids oid repo2) \<le> length rest"
      using Cons.prems(3,4) card by simp_all
    from Cons.IH [where c = "c + 1" and p = ?p and f = ?f, OF turn(7,5) this stages] obtain p' f' repo' t' where
      rest_run: "work_loop env methods risk_context tenant oid worker lease rest (c + 1, ?p, ?f) repo2
        = Inr ((c + 1 + card (pending_ids oid repo2), ?p + p', ?f + f'), repo')"
      and fin: "p' + f' = card (pending_ids oid repo2)" "pending_ids oid repo' = {}" "at_rest tenant oid wid repo'"
        "same_waves repo2 repo'" "sim_ok t' repo'" by blast
    show ?thesis
      using turn(1,2) rest_run fin card same_waves_trans [OF turn(6) fin(4)]
      by (intro exI [of _ "(if published then 1 else 0) + p'"] exI [of _ "(if published then 0 else 1) + f'"] exI [of _ repo'] exI [of _ t'])
         (simp add: wave_bind_def)
  qed
qed

text \<open>With nothing pending and nobody at work, the only items still open are failed ones that may be retried.\<close>

lemma recs_terminal:
  assumes "sim_ok now repo" and "at_rest tenant oid wid repo" and "pending_ids oid repo = {}"
    and "get_simulation_operation repo tenant oid = Some operation"
  shows "operation_items_are_terminal operation (all_simulation_items tenant oid repo) \<longleftrightarrow>
    \<not> (\<exists>item \<in> set (all_simulation_items tenant oid repo). wave_simulation_item_is_retryable operation item)"
proof -
  have "si_status item \<noteq> SIM_PENDING" "si_status item \<noteq> SIM_RUNNING" if "item \<in> set (all_simulation_items tenant oid repo)" for item
  proof -
    have "dict_get (simulation_items repo) (oid, si_wave_item_id item) = Some item"
      using that all_simulation_items_mem [OF assms(1,4)] by simp
    with assms(2,3) show "si_status item \<noteq> SIM_PENDING" "si_status item \<noteq> SIM_RUNNING"
      by (auto simp: at_rest_def pending_ids_def)
  qed
  then have "si_status item \<in> {SIM_SUCCEEDED, SIM_CANCELLED, SIM_FAILED}" if "item \<in> set (all_simulation_items tenant oid repo)" for item
    using that by (cases "si_status item") auto
  then show ?thesis by (fastforce simp: operation_items_are_terminal_def wave_simulation_item_is_retryable_def)
qed


text \<open>The whole run of a worker.\<close>

lemma worker_run:
  assumes "sim_steps start empty_repository now repo" and "at_rest tenant oid wid repo" and "timely now lease cts"
    and "card (pending_ids oid repo) \<le> length cts" and "unstaged wid tenant repo"
    and "get_wave repo wid tenant = Some w" and "wave_state w = SIMULATING" and "\<not> admitted_by_other oid w"
  shows "\<exists>operation completed failed repo' w'.
    execute_wave_simulation_work we alone stamps tenant oid worker lease cts repo
      = Some (Inr ((operation, card (pending_ids oid repo), completed, failed), repo'))
    \<and> completed + failed = card (pending_ids oid repo) \<and> pending_ids oid repo' = {} \<and> at_rest tenant oid wid repo'
    \<and> get_wave repo' wid tenant = Some w' \<and> unstaged wid tenant repo'
    \<and> map wave_item_id (items w') = map wave_item_id (items w)
    \<and> (wave_state w' = SIMULATING \<longleftrightarrow>
         (\<exists>item \<in> set (all_simulation_items tenant oid repo'). wave_simulation_item_is_retryable operation item))
    \<and> (wave_state w' \<noteq> SIMULATING \<longrightarrow> wave_state w' = simulation_result_state (items w'))"
proof -
  note ok = reachable_ok [OF assms(1)] and repo_ok = reachable_repository_ok [OF assms(1)]
  obtain operation0 methods where op0: "get_simulation_operation repo tenant oid = Some operation0"
    and methods: "admitted_methods operation0 = Inr methods"
    using assms(2) by (auto simp: at_rest_def)
  from work_drains [where c = 0 and p = 0 and f = 0 and env = we and worker = worker
      and methods = methods
      and risk_context = "op_risk_authority_context operation0", OF ok assms(2-5)]
  obtain completed failed repo1 t1 where
    run: "work_loop we methods (op_risk_authority_context operation0)
      tenant oid worker lease cts (0, 0, 0) repo = Inr ((card (pending_ids oid repo), completed, failed), repo1)"
    and done1: "completed + failed = card (pending_ids oid repo)" "pending_ids oid repo1 = {}" "at_rest tenant oid wid repo1"
      "same_waves repo repo1" "sim_ok t1 repo1"
    by (auto simp only: add_0)
  obtain operation where op: "get_simulation_operation repo1 tenant oid = Some operation" "op_wave_id operation = wid"
    using done1(3) by (auto simp: at_rest_def)
  have w: "get_wave repo1 (op_wave_id operation) tenant = Some w" unfolding op(2) same_waves_ok(2) [OF done1(4)] by (rule assms(6))
  have repo_ok1: "repository_ok repo1" using same_waves_ok(1) [OF done1(4)] repo_ok by simp
  let ?recs = "all_simulation_items tenant oid repo1" and ?by_id = "records_by_id tenant oid repo1"
  obtain w' repo' where rec: "reconcile_wave_simulation_operation alone stamps tenant oid repo1 = Some (Inr (w', repo'))"
    "get_wave repo' (op_wave_id operation) tenant = Some w'" "simulation_items repo' = simulation_items repo1"
    "simulation_operations repo' = simulation_operations repo1" "items w' = reconciled_wave_items w operation ?recs"
    "wave_state w' = (if operation_items_are_terminal operation ?recs then simulation_result_state (items w') else SIMULATING)"
    by (rule reconcile_alone [OF repo_ok1 op(1) w assms(7,8)])
  note tables = same_tables [OF rec(3,4), of tenant oid]
  have exec: "execute_wave_simulation_work we alone stamps tenant oid worker lease cts repo
      = Some (Inr ((operation, card (pending_ids oid repo), completed, failed), repo'))"
    using op0 methods run rec(1) op(1) tables(1)
    by (simp add: execute_wave_simulation_work_def get_wave_simulation_operation_def wave_bind_def)
  have rest: "pending_ids oid repo' = {}" "at_rest tenant oid wid repo'"
    using done1(2,3) rec(3) tables(1) by (simp_all add: pending_ids_def at_rest_def)
  have own: "owns_results ?by_id"
    using done1(3) unfolding owns_results_def record_lookup [OF done1(5) op(1)] at_rest_def own_result_def by blast
  have its: "items w' = map (reconciled_item operation ?by_id) (items w)" using rec(5) by (simp add: reconciled_wave_items_def)
  have ids: "map wave_item_id (items w') = map wave_item_id (items w)" by (simp add: its reconciled_item_id [OF own])
  have stages: "unstaged wid tenant repo'"
    using rec(2) op(2) assms(5,6) reconciled_item_stage [OF own] by (auto simp: unstaged_def its)
  have "simulation_result_state (items w') \<noteq> SIMULATING" using simulation_result_states [of "items w'"] by auto
  then have "wave_state w' = SIMULATING \<longleftrightarrow> \<not> operation_items_are_terminal operation ?recs"
    "wave_state w' \<noteq> SIMULATING \<longrightarrow> wave_state w' = simulation_result_state (items w')"
    unfolding rec(6) by auto
  with recs_terminal [OF done1(5,3,2) op(1)] exec done1(1) rest rec(2) op(2) stages ids tables show ?thesis
    by (intro exI [of _ operation] exI [of _ completed] exI [of _ failed] exI [of _ repo'] exI [of _ w']) simp
qed


section \<open>Properties\<close>

text \<open>
  A worker finishes the job. Take any reachable store with an open operation on which nobody else
  works, and a worker that keeps within its leases and has at least as many turns as there are pending
  items, whatever the construction service answers or raises. Its run returns, has claimed exactly the
  pending items and settled each of them, and keeps the items of the wave in their places; the wave
  stays in simulation exactly when some failed item may still be retried, and otherwise its state says
  whether all, some or none of its items are simulated.
\<close>

theorem worker_drains_operation:
  assumes "sim_steps start empty_repository now repo" and "at_rest tenant oid wid repo" and "timely now lease cts"
    and "card (pending_ids oid repo) \<le> length cts" and "unstaged wid tenant repo"
    and "get_wave repo wid tenant = Some w" and "wave_state w = SIMULATING" and "\<not> admitted_by_other oid w"
  shows "\<exists>operation completed failed repo' w'.
    execute_wave_simulation_work we alone stamps tenant oid worker lease cts repo
      = Some (Inr ((operation, card (pending_ids oid repo), completed, failed), repo'))
    \<and> completed + failed = card (pending_ids oid repo) \<and> pending_ids oid repo' = {} \<and> at_rest tenant oid wid repo'
    \<and> get_wave repo' wid tenant = Some w' \<and> unstaged wid tenant repo'
    \<and> map wave_item_id (items w') = map wave_item_id (items w)
    \<and> (wave_state w' = SIMULATING \<longleftrightarrow>
         (\<exists>item \<in> set (all_simulation_items tenant oid repo'). wave_simulation_item_is_retryable operation item))
    \<and> (wave_state w' \<noteq> SIMULATING \<longrightarrow> wave_state w' = simulation_result_state (items w'))"
  by (rule worker_run [OF assms])

text \<open>A worker whose frozen inputs pass their hash and fail their validation, so that both items fail for good.\<close>

definition sample_environment :: WorkerEnvironment where
  "sample_environment =
     \<lparr> we_sha256 = (\<lambda>_. ''h''),
       we_validators = \<lparr> validate_source_context = (\<lambda>_. None), validate_request = (\<lambda>_. None), validate_authority = (\<lambda>_. None) \<rparr>,
       we_services = sample_services \<rparr>"

definition sample_times :: "ClaimTimes list" where
  "sample_times = [\<lparr> ct_claimed_at = 1, ct_started_at = 2, ct_finished_at = 3, ct_token = ''a'' \<rparr>,
     \<lparr> ct_claimed_at = 3, ct_started_at = 4, ct_finished_at = 5, ct_token = ''b'' \<rparr>]"

lemma sample_pending: "pending_ids ''o1'' sample_store1 = {''i1'', ''i2''}"
proof -
  have items1: "simulation_items sample_store1 = [((''o1'', ''i1''), sample_sim_item 0 ''i1''), ((''o1'', ''i2''), sample_sim_item 1 ''i2'')]"
    by code_simp
  show ?thesis by (auto simp: pending_ids_def items1 sample_sim_item_def split: if_splits)
qed

lemma sample_at_rest: "at_rest ''t1'' ''o1'' ''dwv_1'' sample_store1"
proof -
  have items1: "simulation_items sample_store1 = [((''o1'', ''i1''), sample_sim_item 0 ''i1''), ((''o1'', ''i2''), sample_sim_item 1 ''i2'')]"
    by code_simp
  have "case get_simulation_operation sample_store1 ''t1'' ''o1'' of None \<Rightarrow> False
      | Some operation \<Rightarrow> op_wave_id operation = ''dwv_1'' \<and> op_cancel_reason_code operation = None \<and> 0 < op_max_concurrency operation
          \<and> admitted_methods operation = Inr None"
    by code_simp
  then show ?thesis
    by (auto simp: at_rest_def items1 sample_sim_item_def own_result_def split: option.splits if_splits)
qed

theorem worker_drains_operation_witness:
  "case execute_wave_simulation_work sample_environment alone (\<lambda>_. sample_stamp) ''t1'' ''o1'' ''w'' 2 sample_times sample_store1 of
     Some (Inr ((operation, claimed, completed, failed), repo')) \<Rightarrow>
       claimed = 2 \<and> completed + failed = 2 \<and> pending_ids ''o1'' repo' = {}
   | _ \<Rightarrow> False"
proof -
  obtain w where w: "get_wave sample_store1 ''dwv_1'' ''t1'' = Some w" "wave_state w = SIMULATING" "\<not> admitted_by_other ''o1'' w"
    "\<forall>i \<in> set (items w). item_stage (wi_state i) = 0"
  proof (cases "get_wave sample_store1 ''dwv_1'' ''t1''")
    case None
    moreover have "get_wave sample_store1 ''dwv_1'' ''t1'' \<noteq> None" by code_simp
    ultimately show thesis by simp
  next
    case (Some w)
    moreover have "case get_wave sample_store1 ''dwv_1'' ''t1'' of None \<Rightarrow> False
      | Some w \<Rightarrow> wave_state w = SIMULATING \<and> \<not> admitted_by_other ''o1'' w \<and> (\<forall>i \<in> set (items w). item_stage (wi_state i) = 0)"
      by code_simp
    ultimately show thesis using that by simp
  qed
  have "unstaged ''dwv_1'' ''t1'' sample_store1" using w by (simp add: unstaged_def)
  moreover have "card (pending_ids ''o1'' sample_store1) = 2" by (simp add: sample_pending)
  ultimately show ?thesis
    using worker_drains_operation [OF sample_run(1) sample_at_rest _ _ _ w(1-3), of 2 sample_times sample_environment "\<lambda>_. sample_stamp" "''w''"]
    by (auto simp: sample_times_def)
qed

end
