(* ===== verification/Wave_Simulation_Admission.thy ===== *)
theory Wave_Simulation_Admission
  imports Wave_Simulation_Worker
begin

text \<open>
  Admitting a durable simulation (\<open>admit_wave_simulation_operation\<close> of
  \<open>src/src/api/services/wave_simulation_operations.py\<close> and
  \<open>src/src/api/services/wave_inputs/resolution.py\<close>): the supplied inputs are assigned to the items of
  the wave, inputs that name a source are resolved once and frozen, one work record per item is hashed,
  and the operation is stored together with the simulating wave, or replayed. The validation of
  engine options and the resolution of a portfolio from the core service are the parameter
  \<open>FreezeServices\<close>; what others write between the reads and the admission is the argument \<open>race\<close>.
\<close>


section \<open>Definitions\<close>

record SimulationAdmission =
  ad_wave_id :: string
  ad_tenant_id :: string
  ad_actor_id :: string
  ad_correlation_id :: string
  ad_idempotency_key :: string
  ad_item_payloads :: "(string, json) dict list"
  ad_methods :: "ConstructionMethod list option"
  ad_max_concurrency :: nat
  ad_max_attempts :: nat
  ad_risk_authority_context :: "RiskAuthorityContext option"

text \<open>Equality of decoded values in Python: keys in any order, and a truth value equals its number.\<close>

fun bool_as_int :: "json \<Rightarrow> json" where
  "bool_as_int (JBool b) = JInt (if b then 1 else 0)"
| "bool_as_int (JList xs) = JList (map bool_as_int xs)"
| "bool_as_int (JObj kvs) = JObj (map (\<lambda>(k, v). (k, bool_as_int v)) kvs)"
| "bool_as_int v = v"

definition json_equal :: "json \<Rightarrow> json \<Rightarrow> bool" where
  "json_equal a b \<longleftrightarrow> json_normal (bool_as_int a) = json_normal (bool_as_int b)"


subsection \<open>Assigning the inputs\<close>

definition selected_item :: "(json \<Rightarrow> string) \<Rightarrow> DpmRebalanceWave \<Rightarrow> (string, json) dict \<Rightarrow> DpmRebalanceWaveItem option" where
  "selected_item str_of wave supplied =
     (case present (dict_get supplied ''wave_item_id'') of
        Some i \<Rightarrow> dict_get (dict_of (map (\<lambda>item. (wave_item_id item, item)) (items wave))) (str_of i)
      | None \<Rightarrow>
          (case present (dict_get supplied ''portfolio_id'') of
             Some p \<Rightarrow>
               (case filter (\<lambda>item. wi_portfolio_id item = str_of p) (items wave) of
                  [item] \<Rightarrow> Some item
                | _ \<Rightarrow> None)
           | None \<Rightarrow> None))"

definition nested_portfolio_id :: "(string, json) dict \<Rightarrow> json option" where
  "nested_portfolio_id supplied =
     (case dict_get supplied ''stateless_input'' of
        Some (JObj d) \<Rightarrow> (case dict_get d ''portfolio_snapshot'' of Some (JObj snapshot) \<Rightarrow> dict_get snapshot ''portfolio_id'' | _ \<Rightarrow> None)
      | _ \<Rightarrow> None)"

definition is_stateful :: "(string, json) dict \<Rightarrow> bool" where
  "is_stateful payload \<longleftrightarrow> dict_get payload ''input_mode'' = Some (JStr ''stateful'')"

definition retained_payload :: "(string, json) dict \<Rightarrow> (string, json) dict" where
  "retained_payload supplied =
     (let payload = filter (\<lambda>(k, v). k \<in> {''stateless_input'', ''authority_context''} \<and> v \<noteq> JNull) supplied
      in if is_stateful supplied
         then [(''input_mode'', JStr ''stateful''),
               (''options_override'', case dict_get supplied ''options_override'' of None \<Rightarrow> JObj [] | Some v \<Rightarrow> v)]
              @ (case dict_get payload ''authority_context'' of None \<Rightarrow> [] | Some a \<Rightarrow> [(''authority_context'', a)])
         else payload)"

definition resolve_item_payload ::
  "(json \<Rightarrow> string) \<Rightarrow> DpmRebalanceWave \<Rightarrow> (string, json) dict \<Rightarrow> (string \<times> (string, json) dict) wave_result" where
  "resolve_item_payload str_of wave supplied =
     (case selected_item str_of wave supplied of
        None \<Rightarrow> Inl (DpmWaveValidationError ''DPM_WAVE_SIMULATION_INPUT_ITEM_NOT_FOUND'')
      | Some item \<Rightarrow>
          if (case present (dict_get supplied ''portfolio_id'') of None \<Rightarrow> False | Some p \<Rightarrow> str_of p \<noteq> wi_portfolio_id item)
          then Inl (DpmWaveValidationError ''DPM_WAVE_SIMULATION_INPUT_IDENTITY_CONFLICT'')
          else if \<not> is_stateful supplied \<and> nested_portfolio_id supplied \<noteq> Some (JStr (wi_portfolio_id item))
          then Inl (DpmWaveValidationError ''DPM_WAVE_SIMULATION_INPUT_IDENTITY_CONFLICT'')
          else if is_stateful supplied \<and> present (dict_get supplied ''stateless_input'') \<noteq> None
          then Inl (DpmWaveValidationError ''DPM_WAVE_SIMULATION_MIXED_INPUT_MODES'')
          else Inr (wave_item_id item, retained_payload supplied))"

fun resolve_item_payloads ::
  "(json \<Rightarrow> string) \<Rightarrow> DpmRebalanceWave \<Rightarrow> (string, json) dict list \<Rightarrow> (string, (string, json) dict) dict
     \<Rightarrow> (string, (string, json) dict) dict wave_result" where
  "resolve_item_payloads str_of wave [] resolved = Inr resolved"
| "resolve_item_payloads str_of wave (supplied # rest) resolved =
     wave_bind (resolve_item_payload str_of wave supplied) (\<lambda>(i, payload).
       (case dict_get resolved i of
          Some existing \<Rightarrow>
            if \<not> json_equal (JObj existing) (JObj payload)
            then Inl (DpmWaveValidationError ''DPM_WAVE_SIMULATION_INPUT_CONFLICT'')
            else resolve_item_payloads str_of wave rest (dict_set i payload resolved)
        | None \<Rightarrow> resolve_item_payloads str_of wave rest (dict_set i payload resolved)))"


subsection \<open>Freezing the inputs\<close>

text \<open>The selectors of a source, and what the resolved source states about itself.\<close>

record DpmStatefulInput =
  sf_portfolio_id :: string
  sf_as_of :: string
  sf_tenant_id :: string
  sf_mandate_id :: string
  sf_model_portfolio_id :: string
  sf_include_tax_lots :: bool

record DpmResolvedSourceContext =
  rs_portfolio_id :: string
  rs_tenant_id :: "string option"
  rs_mandate_id :: "string option"
  rs_model_portfolio_id :: "string option"
  rs_mandate_binding_version :: "nat option"
  rs_dump :: json

text \<open>
  \<open>validate_options\<close> is \<open>EngineOptions.model_validate\<close> and returns whether taxes are considered;
  \<open>resolve_envelope\<close> reads the date, builds the request envelope and resolves it with the options,
  correlation and tenant: the name of an exception, or the dumped request and its source.
\<close>

record FreezeServices =
  validate_options :: "json \<Rightarrow> bool option"
  resolve_envelope :: "DpmStatefulInput \<Rightarrow> json \<Rightarrow> string \<Rightarrow> string \<Rightarrow> string + json \<times> DpmResolvedSourceContext option"

definition ENGINE_OPTION_FIELDS :: "string list" where
  "ENGINE_OPTION_FIELDS =
     [''valuation_mode'', ''target_method'', ''compare_target_methods'', ''compare_target_methods_tolerance'',
      ''cash_band_min_weight'', ''cash_band_max_weight'', ''single_position_max_weight'', ''min_trade_notional'',
      ''allow_restricted'', ''suppress_dust_trades'', ''dust_trade_threshold'', ''fx_buffer_pct'',
      ''block_on_missing_prices'', ''block_on_missing_fx'', ''min_cash_buffer_pct'', ''cash_reserve_target_weight'',
      ''cash_reserve_target_tolerance'', ''max_turnover_pct'', ''enable_tax_awareness'', ''max_realized_capital_gains'',
      ''enable_settlement_awareness'', ''enable_workflow_gates'', ''workflow_requires_mandate_approval'',
      ''mandate_approval_already_obtained'', ''link_buy_to_same_currency_sell_dependency'', ''settlement_horizon_days'',
      ''fx_settlement_days'', ''max_overdraft_by_ccy'', ''group_constraints'']"

text \<open>
  \<open>set(override)\<close> raises on a value that is no collection or has members that cannot be hashed; a text
  or a list of other members fails the validation.
\<close>

fun unhashable :: "json \<Rightarrow> bool" where
  "unhashable (JList xs) = True"
| "unhashable (JObj kvs) = True"
| "unhashable v = False"

definition options_invalid :: wave_error where
  "options_invalid = WaveServiceException ''DpmRebalanceEnvelopeValidationError''"

fun checked_options :: "FreezeServices \<Rightarrow> json \<Rightarrow> bool wave_result" where
  "checked_options services (JObj kvs) =
     (if \<not> set (map fst kvs) \<subseteq> set ENGINE_OPTION_FIELDS then Inl options_invalid
      else (case validate_options services (JObj kvs) of None \<Rightarrow> Inl options_invalid | Some tax \<Rightarrow> Inr tax))"
| "checked_options services (JList xs) =
     (if list_ex unhashable xs then Inl (WaveServiceException ''TypeError'') else Inl options_invalid)"
| "checked_options services (JStr s) = Inl options_invalid"
| "checked_options services v = Inl (WaveServiceException ''TypeError'')"

definition require_matching_source :: "DpmRebalanceWaveItem \<Rightarrow> DpmResolvedSourceContext \<Rightarrow> string \<Rightarrow> unit wave_result" where
  "require_matching_source item source tenant =
     (let twin_versions = map sr_source_version (filter (\<lambda>ref. sr_source_type ref = ''MANDATE_DIGITAL_TWIN''
            \<and> Some (sr_source_id ref) = wi_mandate_id item) (wi_source_refs item))
      in if rs_portfolio_id source \<noteq> wi_portfolio_id item \<or> rs_tenant_id source \<noteq> Some tenant
            \<or> rs_mandate_id source \<noteq> wi_mandate_id item \<or> rs_model_portfolio_id source \<noteq> wi_model_portfolio_id item
            \<or> rs_mandate_binding_version source = None
            \<or> set twin_versions \<noteq> {map_option nat_str (rs_mandate_binding_version source)}
         then Inl (DpmWaveValidationError ''DPM_WAVE_SIMULATION_SOURCE_REVISION_CONFLICT'')
         else Inr ())"

fun input_failure_name :: "input_failure \<Rightarrow> string" where
  "input_failure_name (Frozen_Input_Integrity code) = ''DpmWaveFrozenInputIntegrityError''"
| "input_failure_name (Other_Failure name) = name"

definition freeze_retained ::
  "(string \<Rightarrow> string) \<Rightarrow> PayloadValidators \<Rightarrow> (string, (string, json) dict) dict \<Rightarrow> string \<Rightarrow> (string, json) dict
     \<Rightarrow> (string, json) dict wave_result" where
  "freeze_retained sha256 validators retained_inputs i payload =
     (let retained = (case dict_get retained_inputs i of None \<Rightarrow> [] | Some r \<Rightarrow> r)
      in if (case dict_get retained ''source_request'' of None \<Rightarrow> True | Some r \<Rightarrow> \<not> json_equal r (JObj payload))
         then Inl (DpmWaveValidationError ''DPM_WAVE_SIMULATION_IDEMPOTENCY_CONFLICT'')
         else (case simulation_input_from_payload sha256 validators retained of
                 Inl e \<Rightarrow> Inl (WaveServiceException (input_failure_name e))
               | Inr _ \<Rightarrow> Inr retained))"

definition blank :: "string option \<Rightarrow> bool" where
  "blank s \<longleftrightarrow> s = None \<or> s = Some ''''"

definition freeze_resolved ::
  "FreezeServices \<Rightarrow> DpmRebalanceWave \<Rightarrow> string \<Rightarrow> string \<Rightarrow> DpmRebalanceWaveItem \<Rightarrow> (string, json) dict
     \<Rightarrow> (string, json) dict wave_result" where
  "freeze_resolved services wave tenant correlation item payload =
     (if wi_state item \<noteq> ITEM_SOURCE_READY \<or> blank (wi_mandate_id item) \<or> blank (wi_model_portfolio_id item)
      then Inl (DpmWaveValidationError ''DPM_WAVE_SIMULATION_SOURCE_SCOPE_REQUIRED'')
      else
        let override = (case dict_get payload ''options_override'' of None \<Rightarrow> JObj [] | Some v \<Rightarrow> v)
        in wave_bind (checked_options services override) (\<lambda>tax.
             (case resolve_envelope services
                     \<lparr> sf_portfolio_id = wi_portfolio_id item, sf_as_of = wave_as_of_date wave, sf_tenant_id = tenant,
                       sf_mandate_id = the (wi_mandate_id item), sf_model_portfolio_id = the (wi_model_portfolio_id item),
                       sf_include_tax_lots = tax \<rparr> override correlation tenant of
                Inl exc \<Rightarrow> Inl (WaveServiceException exc)
              | Inr (request, None) \<Rightarrow> Inl (DpmWaveValidationError ''DPM_WAVE_SIMULATION_SOURCE_CONTEXT_REQUIRED'')
              | Inr (request, Some source) \<Rightarrow>
                  wave_bind (require_matching_source item source tenant) (\<lambda>_.
                    Inr ([(''stateless_input'', request), (''source_context'', rs_dump source), (''source_request'', JObj payload)]
                         @ (case dict_get payload ''authority_context'' of None \<Rightarrow> [] | Some a \<Rightarrow> [(''authority_context'', a)]))))))"

definition freeze_input ::
  "FreezeServices \<Rightarrow> (string \<Rightarrow> string) \<Rightarrow> PayloadValidators \<Rightarrow> DpmRebalanceWave \<Rightarrow> string \<Rightarrow> string
     \<Rightarrow> (string, (string, json) dict) dict option \<Rightarrow> string \<times> (string, json) dict \<Rightarrow> (string \<times> (string, json) dict) wave_result" where
  "freeze_input services sha256 validators wave tenant correlation retained_inputs = (\<lambda>(i, payload).
     wave_bind
       (if \<not> is_stateful payload then Inr payload
        else (case retained_inputs of
                Some retained \<Rightarrow> freeze_retained sha256 validators retained i payload
              | None \<Rightarrow>
                  (case dict_get (dict_of (map (\<lambda>item. (wave_item_id item, item)) (items wave))) i of
                     None \<Rightarrow> Inl WaveKeyError
                   | Some item \<Rightarrow> freeze_resolved services wave tenant correlation item payload)))
       (\<lambda>frozen. Inr (i, frozen)))"

definition freeze_wave_inputs ::
  "FreezeServices \<Rightarrow> (string \<Rightarrow> string) \<Rightarrow> PayloadValidators \<Rightarrow> DpmRebalanceWave \<Rightarrow> string \<Rightarrow> string
     \<Rightarrow> (string, (string, json) dict) dict option \<Rightarrow> (string, (string, json) dict) dict
     \<Rightarrow> (string, (string, json) dict) dict wave_result" where
  "freeze_wave_inputs services sha256 validators wave tenant correlation retained_inputs item_inputs =
     wave_map (freeze_input services sha256 validators wave tenant correlation retained_inputs) item_inputs"


subsection \<open>Admission\<close>

definition build_item_record ::
  "(string \<Rightarrow> string) \<Rightarrow> string \<Rightarrow> string \<Rightarrow> DpmRebalanceWave \<Rightarrow> int \<Rightarrow> (string, (string, json) dict) dict
     \<Rightarrow> nat \<times> DpmRebalanceWaveItem \<Rightarrow> DpmWaveSimulationItemRecord" where
  "build_item_record sha256 oid tenant wave now inputs = (\<lambda>(ordinal, item).
     (let payload = (case dict_get inputs (wave_item_id item) of None \<Rightarrow> [] | Some p \<Rightarrow> p)
      in \<lparr> si_operation_id = oid, si_tenant_id = tenant, si_wave_id = wave_id wave, si_wave_item_id = wave_item_id item,
           si_ordinal = ordinal, si_portfolio_id = wi_portfolio_id item, si_input_payload = payload,
           si_input_hash = hash_canonical_payload sha256 (JObj payload),
           si_source_identity_hash = wave_item_source_identity_hash sha256 wave item, si_status = SIM_PENDING,
           si_attempt_count = 0, si_claim_generation = 0, si_worker_id = None, si_claim_token = None,
           si_claimed_at = None, si_lease_expires_at = None, si_result_item = None, si_error_code = None,
           si_error_message = None, si_retryable = False, si_completed_at = None, si_updated_at = now \<rparr>))"

definition trigger_json :: "DpmWaveTrigger \<Rightarrow> json" where
  "trigger_json trigger =
     JObj [(''trigger_type'', JStr (trigger_type trigger)), (''trigger_id'', JStr (trigger_id trigger)),
       (''rationale'', JStr (trigger_rationale trigger)),
       (''source_refs'', JList (map source_ref_json (trigger_source_refs trigger)))]"

definition source_identity_hash :: "(string \<Rightarrow> string) \<Rightarrow> DpmRebalanceWave \<Rightarrow> DpmWaveSimulationItemRecord list \<Rightarrow> string" where
  "source_identity_hash sha256 wave recs =
     hash_canonical_payload sha256
       (JObj [(''wave_id'', JStr (wave_id wave)), (''wave_version'', JInt (int (version wave))),
              (''as_of_date'', JStr (wave_as_of_date wave)), (''trigger'', trigger_json (wave_trigger wave)),
              (''items'', JList (map (\<lambda>r. JObj [(''wave_item_id'', JStr (si_wave_item_id r)),
                 (''source_identity_hash'', JStr (si_source_identity_hash r))]) recs))])"

definition admission_request_hash ::
  "(string \<Rightarrow> string) \<Rightarrow> SimulationAdmission \<Rightarrow> string list \<Rightarrow> DpmWaveSimulationItemRecord list \<Rightarrow> string" where
  "admission_request_hash sha256 req method_values recs =
     hash_canonical_payload sha256
       (JObj [(''wave_id'', JStr (ad_wave_id req)), (''actor_id'', JStr (ad_actor_id req)),
              (''methods'', JList (map JStr method_values)),
              (''max_concurrency'', JInt (int (ad_max_concurrency req))), (''max_attempts'', JInt (int (ad_max_attempts req))),
              (''items'', JList (map (\<lambda>r. JObj [(''wave_item_id'', JStr (si_wave_item_id r)),
                 (''input_hash'', JStr (si_input_hash r)), (''source_identity_hash'', JStr (si_source_identity_hash r))]) recs))])"

definition grant_json :: "RiskAuthorityGrant \<Rightarrow> json" where
  "grant_json g = JObj [(''operation'', JStr (grant_operation g)), (''capability'', JStr (grant_capability g))]"

definition fingerprint :: "(string \<Rightarrow> string) \<Rightarrow> RiskAuthorityContext \<Rightarrow> string" where
  "fingerprint sha256 context =
     hash_canonical_payload sha256
       (JObj [(''authority_basis'', JStr (rac_authority_basis context)), (''actor_id'', JStr (rac_actor_id context)),
              (''tenant_id'', JStr (rac_tenant_id context)), (''role'', JStr (rac_role context)),
              (''correlation_id'', JStr (rac_correlation_id context)),
              (''service_identity'', JStr (rac_service_identity context)),
              (''policy_fingerprint'', JStr (rac_policy_fingerprint context)),
              (''grants'', JList (map grant_json (rac_grants context)))])"

definition wave_simulation_idempotency_key :: "(string \<Rightarrow> string) \<Rightarrow> string \<Rightarrow> string \<Rightarrow> string" where
  "wave_simulation_idempotency_key sha256 tenant key = derived_identity sha256 ''wsi'' [tenant, key]"

definition admission_operation_id :: "(string \<Rightarrow> string) \<Rightarrow> SimulationAdmission \<Rightarrow> string" where
  "admission_operation_id sha256 req =
     derived_identity sha256 ''wso'' [ad_tenant_id req, ad_wave_id req, ad_idempotency_key req]"

definition admission_context_conflict :: "SimulationAdmission \<Rightarrow> bool" where
  "admission_context_conflict req \<longleftrightarrow>
     (case ad_risk_authority_context req of
        None \<Rightarrow> False
      | Some context \<Rightarrow> rac_tenant_id context \<noteq> ad_tenant_id req \<or> rac_actor_id context \<noteq> ad_actor_id req
                        \<or> rac_correlation_id context \<noteq> ad_correlation_id req)"

definition method_values :: "SimulationAdmission \<Rightarrow> string list" where
  "method_values req = (case ad_methods req of None \<Rightarrow> [] | Some ms \<Rightarrow> map method_value ms)"

text \<open>The inputs, the records and the request hash an admission computes from the stored wave.\<close>

definition admission_records ::
  "(json \<Rightarrow> string) \<Rightarrow> (string \<Rightarrow> string) \<Rightarrow> PayloadValidators \<Rightarrow> FreezeServices \<Rightarrow> int \<Rightarrow> SimulationAdmission
     \<Rightarrow> DpmRebalanceWave \<Rightarrow> DpmWaveSimulationOperation option \<Rightarrow> InMemoryDpmWaveRepository
     \<Rightarrow> (string, (string, json) dict) dict \<Rightarrow> DpmWaveSimulationItemRecord list wave_result" where
  "admission_records str_of sha256 validators services now req wave existing repo resolved =
     (let retained = (case existing of
            None \<Rightarrow> None
          | Some e \<Rightarrow>
              if list_ex (is_stateful \<circ> snd) resolved
              then Some (dict_of (map (\<lambda>r. (si_wave_item_id r, si_input_payload r))
                     (all_simulation_items (ad_tenant_id req) (op_operation_id e) repo)))
              else None)
      in wave_bind (freeze_wave_inputs services sha256 validators wave (ad_tenant_id req) (ad_correlation_id req) retained resolved)
           (\<lambda>inputs. Inr (map (build_item_record sha256 (admission_operation_id sha256 req) (ad_tenant_id req) wave now inputs)
                            (enumerate 0 (items wave)))))"

definition admission_operation ::
  "(string \<Rightarrow> string) \<Rightarrow> int \<Rightarrow> SimulationAdmission \<Rightarrow> DpmRebalanceWave \<Rightarrow> DpmWaveSimulationItemRecord list
     \<Rightarrow> DpmWaveSimulationOperation wave_result" where
  "admission_operation sha256 now req wave recs =
     (let operation =
            \<lparr> op_operation_id = admission_operation_id sha256 req, op_tenant_id = ad_tenant_id req, op_wave_id = ad_wave_id req,
              op_request_hash = admission_request_hash sha256 req (method_values req) recs,
              op_idempotency_key_hash = wave_simulation_idempotency_key sha256 (ad_tenant_id req) (ad_idempotency_key req),
              op_correlation_id = ad_correlation_id req, op_actor_id = ad_actor_id req,
              op_risk_authority_context = ad_risk_authority_context req,
              op_risk_authority_context_hash = map_option (fingerprint sha256) (ad_risk_authority_context req),
              op_source_identity_hash = source_identity_hash sha256 wave recs, op_admitted_wave_version = version wave,
              op_methods = method_values req, op_max_concurrency = ad_max_concurrency req, op_max_attempts = ad_max_attempts req,
              op_status = OP_PENDING, op_cancel_reason_code = None, op_created_at = now, op_updated_at = now \<rparr>
      in if 1 \<le> version wave \<and> 1 \<le> ad_max_concurrency req \<and> ad_max_concurrency req \<le> 64
            \<and> 1 \<le> ad_max_attempts req \<and> ad_max_attempts req \<le> 10
         then (case validate_risk_authority_custody (fingerprint sha256) operation of
                 Inl _ \<Rightarrow> Inl PydanticValidationError | Inr valid \<Rightarrow> Inr valid)
         else Inl PydanticValidationError)"

definition admission_event ::
  "(string \<Rightarrow> string) \<Rightarrow> WaveStamp \<Rightarrow> SimulationAdmission \<Rightarrow> DpmRebalanceWave \<Rightarrow> DpmWaveSimulationItemRecord list
     \<Rightarrow> DpmRebalanceWaveEvent" where
  "admission_event sha256 stamp req wave recs =
     build_wave_event stamp (wave_id wave) SOURCE_CHECKED SIMULATING (ad_actor_id req) (ad_correlation_id req)
       ''WAVE_ASYNC_SIMULATION_ACCEPTED''
       [(''operation_id'', JStr (admission_operation_id sha256 req)), (''item_count'', JInt (int (length recs))),
        (''max_concurrency'', JInt (int (ad_max_concurrency req))), (''max_attempts'', JInt (int (ad_max_attempts req))),
        (''source_identity_hash'', JStr (source_identity_hash sha256 wave recs))] ''STATE_TRANSITION''"

definition admit_wave_simulation_operation ::
  "(json \<Rightarrow> string) \<Rightarrow> (string \<Rightarrow> string) \<Rightarrow> PayloadValidators \<Rightarrow> FreezeServices \<Rightarrow> int \<Rightarrow> WaveStamp
     \<Rightarrow> (InMemoryDpmWaveRepository \<Rightarrow> InMemoryDpmWaveRepository) \<Rightarrow> SimulationAdmission \<Rightarrow> InMemoryDpmWaveRepository
     \<Rightarrow> ((DpmWaveSimulationOperation \<times> bool) \<times> InMemoryDpmWaveRepository) wave_result" where
  "admit_wave_simulation_operation str_of sha256 validators services now stamp race req repo =
     (if admission_context_conflict req
      then Inl (DpmWaveValidationError ''DPM_WAVE_SIMULATION_AUTHORITY_CONTEXT_CONFLICT'')
      else
        wave_bind (get_wave_or_raise get_wave (ad_wave_id req) repo (ad_tenant_id req)) (\<lambda>wave.
        wave_bind (resolve_item_payloads str_of wave (ad_item_payloads req) []) (\<lambda>resolved.
        wave_bind (get_simulation_operation_by_idempotency repo (ad_tenant_id req)
                     (wave_simulation_idempotency_key sha256 (ad_tenant_id req) (ad_idempotency_key req))) (\<lambda>existing.
          if existing = None \<and> wave_state wave \<noteq> SOURCE_CHECKED
          then Inl (DpmWaveValidationError ''DPM_WAVE_SIMULATION_INVALID_STATE'')
          else
            wave_bind (admission_records str_of sha256 validators services now req wave existing repo resolved) (\<lambda>recs.
              (case existing of
                 Some e \<Rightarrow>
                   if op_request_hash e \<noteq> admission_request_hash sha256 req (method_values req) recs
                      \<or> op_risk_authority_context_hash e \<noteq> map_option (fingerprint sha256) (ad_risk_authority_context req)
                   then Inl (DpmWaveValidationError ''DPM_WAVE_SIMULATION_IDEMPOTENCY_CONFLICT'')
                   else Inr ((e, True), repo)
               | None \<Rightarrow>
                   wave_bind (admission_operation sha256 now req wave recs) (\<lambda>operation.
                   wave_bind (apply_wave_transition wave SIMULATING (admission_event sha256 stamp req wave recs)) (\<lambda>simulating_wave.
                     (case admit_simulation_operation operation recs simulating_wave (race repo) of
                        Inl (DpmWaveSimulationOperationConflictError code) \<Rightarrow> Inl (DpmWaveValidationError code)
                      | Inl e \<Rightarrow> Inl e
                      | Inr r \<Rightarrow> Inr r)))))))))"

section \<open>Lemmas\<close>

subsection \<open>What an admission writes\<close>

lemma admit_success:
  assumes "admit_wave_simulation_operation str_of sha256 validators services now stamp race req repo = Inr ((operation, replayed), repo')"
  obtains (replay) "replayed" "repo' \<in> {repo, race repo}"
      "get_simulation_operation_by_idempotency repo' (ad_tenant_id req)
         (wave_simulation_idempotency_key sha256 (ad_tenant_id req) (ad_idempotency_key req)) = Inr (Some operation)"
  | (admitted) w resolved recs w' where "\<not> replayed"
      "get_wave repo (ad_wave_id req) (ad_tenant_id req) = Some w" "wave_state w = SOURCE_CHECKED"
      "resolve_item_payloads str_of w (ad_item_payloads req) [] = Inr resolved"
      "admission_records str_of sha256 validators services now req w None repo resolved = Inr recs"
      "admission_operation sha256 now req w recs = Inr operation"
      "apply_wave_transition w SIMULATING (admission_event sha256 stamp req w recs) = Inr w'"
      "admit_simulation_operation operation recs w' (race repo) = Inr ((operation, False), repo')"
proof -
  let ?key = "wave_simulation_idempotency_key sha256 (ad_tenant_id req) (ad_idempotency_key req)"
  note run = assms [unfolded admit_wave_simulation_operation_def get_wave_or_raise_def]
  have "\<not> admission_context_conflict req" using run by (cases "admission_context_conflict req") simp_all
  note run = run [unfolded if_not_P [OF this]]
  obtain w where w: "get_wave repo (ad_wave_id req) (ad_tenant_id req) = Some w"
    using run by (cases "get_wave repo (ad_wave_id req) (ad_tenant_id req)") simp_all
  obtain resolved where resolved: "resolve_item_payloads str_of w (ad_item_payloads req) [] = Inr resolved"
    using run by (auto simp: w)
  obtain existing where existing: "get_simulation_operation_by_idempotency repo (ad_tenant_id req) ?key = Inr existing"
    using run by (auto simp: w resolved)
  have state: "wave_state w = SOURCE_CHECKED" if "existing = None"
    using run that by (simp add: w resolved existing split: if_splits)
  obtain recs where recs: "admission_records str_of sha256 validators services now req w existing repo resolved = Inr recs"
    using run by (auto simp: w resolved existing split: if_splits)
  show thesis
  proof (cases existing)
    case (Some e)
    with run have "operation = e" "replayed" "repo' = repo" by (simp_all add: w resolved existing recs split: if_splits)
    with existing Some show ?thesis by (intro replay) simp_all
  next
    case None
    note facts = w resolved existing [unfolded None] recs [unfolded None] state [OF None]
    obtain operation1 where op: "admission_operation sha256 now req w recs = Inr operation1"
      using run by (auto simp: facts)
    obtain w' where w': "apply_wave_transition w SIMULATING (admission_event sha256 stamp req w recs) = Inr w'"
      using run op by (auto simp: facts)
    have store: "admit_simulation_operation operation1 recs w' (race repo) = Inr ((operation, replayed), repo')"
      using run op w' by (simp add: facts split: sum.splits wave_error.splits)
    have key: "op_tenant_id operation1 = ad_tenant_id req" "op_idempotency_key_hash operation1 = ?key"
      using op by (auto simp: admission_operation_def validate_risk_authority_custody_def Let_def split: if_splits option.splits sum.splits)
    from store show ?thesis
    proof (cases rule: admit_cases)
      case (replayed e oid)
      then show ?thesis using key by (intro replay) (auto simp: get_simulation_operation_by_idempotency_def)
    next
      case (admitted wave)
      then show ?thesis using that(2) [OF _ w state [OF None] resolved recs [unfolded None] _ w'] op store by simp
    qed
  qed
qed

lemma operation_fields:
  assumes "admission_operation sha256 now req w recs = Inr operation"
  shows "op_operation_id operation = admission_operation_id sha256 req" and "op_tenant_id operation = ad_tenant_id req"
    and "op_wave_id operation = ad_wave_id req" and "op_status operation = OP_PENDING" and "op_cancel_reason_code operation = None"
    and "0 < op_max_concurrency operation" and "op_admitted_wave_version operation = version w"
    and "op_request_hash operation = admission_request_hash sha256 req (method_values req) recs"
    and "op_idempotency_key_hash operation = wave_simulation_idempotency_key sha256 (ad_tenant_id req) (ad_idempotency_key req)"
    and "op_risk_authority_context_hash operation = map_option (fingerprint sha256) (ad_risk_authority_context req)"
    and "op_methods operation = method_values req"
  using assms
  by (auto simp: admission_operation_def validate_risk_authority_custody_def Let_def split: if_splits option.splits sum.splits)

text \<open>The record of an item: its own identity, the hash of its input and of its sources, nothing done yet.\<close>

definition pending_record :: "(string \<Rightarrow> string) \<Rightarrow> DpmRebalanceWave \<Rightarrow> DpmRebalanceWaveItem \<Rightarrow> DpmWaveSimulationItemRecord \<Rightarrow> bool" where
  "pending_record sha256 w item r \<longleftrightarrow>
     si_wave_item_id r = wave_item_id item \<and> si_portfolio_id r = wi_portfolio_id item \<and> si_wave_id r = wave_id w
     \<and> si_input_hash r = hash_canonical_payload sha256 (JObj (si_input_payload r))
     \<and> si_source_identity_hash r = wave_item_source_identity_hash sha256 w item
     \<and> si_status r = SIM_PENDING \<and> si_attempt_count r = 0 \<and> si_result_item r = None"

text \<open>The methods of an admission are construction methods, so a worker reads them.\<close>

lemma method_values_admitted:
  assumes "op_methods operation = method_values req"
  shows "\<exists>methods. admitted_methods operation = Inr methods"
proof -
  have "wave_map construction_method (map method_value ms) = Inr ms" for ms
    by (simp add: wave_map_success list_all2_conv_all_nth)
  then show ?thesis using assms by (auto simp: admitted_methods_def method_values_def split: option.splits)
qed

subsection \<open>What an admission freezes\<close>

text \<open>
  What the input of an item must be, given what the caller supplied for it: the supplied request, or
  what the source answered for this portfolio, date, mandate and model portfolio together with the
  selectors that were supplied. Decoded objects have each key once.
\<close>

definition frozen_for ::
  "FreezeServices \<Rightarrow> DpmRebalanceWave \<Rightarrow> string \<Rightarrow> string \<Rightarrow> DpmRebalanceWaveItem \<Rightarrow> (string, json) dict \<Rightarrow> (string, json) dict
     \<Rightarrow> bool" where
  "frozen_for services w t c item supplied f \<longleftrightarrow>
     (if is_stateful supplied
      then \<exists>tax request source.
        resolve_envelope services
          \<lparr> sf_portfolio_id = wi_portfolio_id item, sf_as_of = wave_as_of_date w, sf_tenant_id = t,
            sf_mandate_id = the (wi_mandate_id item), sf_model_portfolio_id = the (wi_model_portfolio_id item),
            sf_include_tax_lots = tax \<rparr> (dict_get_or supplied ''options_override'' (JObj [])) c t = Inr (request, Some source)
        \<and> dict_get f ''stateless_input'' = Some request \<and> dict_get f ''source_context'' = Some (rs_dump source)
        \<and> dict_get f ''source_request'' = Some (JObj (retained_payload supplied))
      else (dict_ok supplied \<longrightarrow> dict_get f ''stateless_input'' = dict_get supplied ''stateless_input''
              \<and> dict_get f ''authority_context'' = present (dict_get supplied ''authority_context''))
        \<and> nested_portfolio_id supplied = Some (JStr (wi_portfolio_id item)))"

definition supplied_for :: "(json \<Rightarrow> string) \<Rightarrow> SimulationAdmission \<Rightarrow> DpmRebalanceWave \<Rightarrow> DpmRebalanceWaveItem \<Rightarrow> (string, json) dict list" where
  "supplied_for str_of req w item =
     filter (\<lambda>supplied. map_option wave_item_id (selected_item str_of w supplied) = Some (wave_item_id item)) (ad_item_payloads req)"

definition admitted_payload ::
  "(json \<Rightarrow> string) \<Rightarrow> FreezeServices \<Rightarrow> SimulationAdmission \<Rightarrow> DpmRebalanceWave \<Rightarrow> DpmRebalanceWaveItem \<Rightarrow> (string, json) dict \<Rightarrow> bool" where
  "admitted_payload str_of services req w item f \<longleftrightarrow>
     (if supplied_for str_of req w item = [] then f = []
      else \<exists>supplied \<in> set (supplied_for str_of req w item).
        frozen_for services w (ad_tenant_id req) (ad_correlation_id req) item supplied f)"

definition admitted_record ::
  "(json \<Rightarrow> string) \<Rightarrow> (string \<Rightarrow> string) \<Rightarrow> FreezeServices \<Rightarrow> SimulationAdmission \<Rightarrow> DpmRebalanceWave \<Rightarrow> DpmRebalanceWaveItem
     \<Rightarrow> DpmWaveSimulationItemRecord \<Rightarrow> bool" where
  "admitted_record str_of sha256 services req w item r \<longleftrightarrow>
     pending_record sha256 w item r \<and> admitted_payload str_of services req w item (si_input_payload r)"

lemma retained_stateful [simp]: "is_stateful (retained_payload supplied) = is_stateful supplied"
proof (cases "is_stateful supplied")
  case False
  have "dict_get (filter (\<lambda>(k, v). k \<in> {''stateless_input'', ''authority_context''} \<and> v \<noteq> JNull) d) ''input_mode'' = None" for d
    by (induction d) auto
  with False show ?thesis by (simp add: retained_payload_def is_stateful_def)
qed (simp add: retained_payload_def is_stateful_def)

lemma dict_get_filter:
  "dict_ok d \<Longrightarrow> dict_get (filter (\<lambda>(k, v). P k v) d) k = (case dict_get d k of None \<Rightarrow> None | Some v \<Rightarrow> if P k v then Some v else None)"
  by (induction d) (auto simp: map_of_eq_None_iff split: option.splits)

lemma retained_stateless:
  assumes "\<not> is_stateful supplied" and "dict_ok supplied"
  shows "dict_get (retained_payload supplied) ''stateless_input'' = present (dict_get supplied ''stateless_input'')"
    and "dict_get (retained_payload supplied) ''authority_context'' = present (dict_get supplied ''authority_context'')"
  using assms by (auto simp: retained_payload_def dict_get_filter present_def split: option.splits json.splits)

lemma retained_override:
  "is_stateful supplied \<Longrightarrow> dict_get_or (retained_payload supplied) ''options_override'' (JObj []) = dict_get_or supplied ''options_override'' (JObj [])"
  by (simp add: retained_payload_def dict_get_or_def)

lemma resolved_from:
  assumes "resolve_item_payloads str_of w payloads resolved0 = Inr resolved" and "dict_get resolved i = Some p"
  shows "dict_get resolved0 i = Some p \<or> (\<exists>supplied \<in> set payloads. resolve_item_payload str_of w supplied = Inr (i, p))"
  using assms
proof (induction payloads arbitrary: resolved0)
  case (Cons supplied rest)
  from Cons.prems(1) obtain j q where one: "resolve_item_payload str_of w supplied = Inr (j, q)"
    and rest: "resolve_item_payloads str_of w rest (dict_set j q resolved0) = Inr resolved"
    by (auto split: option.splits if_splits)
  from Cons.IH [OF rest Cons.prems(2)] one show ?case by (auto simp: dict_get_set split: if_splits)
qed simp

lemma resolved_keeps:
  assumes "resolve_item_payloads str_of w payloads resolved0 = Inr resolved" and "dict_get resolved0 i \<noteq> None"
  shows "dict_get resolved i \<noteq> None"
  using assms
proof (induction payloads arbitrary: resolved0)
  case (Cons supplied rest)
  from Cons.prems(1) obtain j q where rest: "resolve_item_payloads str_of w rest (dict_set j q resolved0) = Inr resolved"
    by (auto split: option.splits if_splits)
  from Cons.IH [OF rest] Cons.prems(2) show ?case by (auto simp: dict_get_set)
qed simp

lemma resolved_all:
  assumes "resolve_item_payloads str_of w payloads resolved0 = Inr resolved" and "supplied \<in> set payloads"
  shows "\<exists>j q. resolve_item_payload str_of w supplied = Inr (j, q) \<and> dict_get resolved j \<noteq> None"
  using assms
proof (induction payloads arbitrary: resolved0)
  case (Cons first rest)
  from Cons.prems(1) obtain j q where one: "resolve_item_payload str_of w first = Inr (j, q)"
    and rest: "resolve_item_payloads str_of w rest (dict_set j q resolved0) = Inr resolved"
    by (auto split: option.splits if_splits)
  have "dict_get resolved j \<noteq> None" by (rule resolved_keeps [OF rest]) (simp add: dict_get_set)
  with Cons.IH [OF rest] Cons.prems(2) one show ?case by auto
qed simp

lemma records_form:
  assumes "admission_records str_of sha256 validators services now req w None repo resolved = Inr recs"
  obtains inputs where
    "freeze_wave_inputs services sha256 validators w (ad_tenant_id req) (ad_correlation_id req) None resolved = Inr inputs"
    "recs = map (build_item_record sha256 (admission_operation_id sha256 req) (ad_tenant_id req) w now inputs) (enumerate 0 (items w))"
  using assms by (auto simp: admission_records_def)

lemma built_records:
  fixes recs n sha256 oid tenant w now inputs its
  defines "recs \<equiv> map (build_item_record sha256 oid tenant w now inputs) (enumerate n its)"
  shows "list_all2 (pending_record sha256 w) its recs" and "map si_ordinal recs = [n..<n + length its]"
    and "map si_wave_item_id recs = map wave_item_id its" and "length recs = length its"
    and "r \<in> set recs \<Longrightarrow> pending_record sha256 w (its ! (si_ordinal r - n)) r"
proof -
  show pairs: "list_all2 (pending_record sha256 w) its recs"
    unfolding recs_def
    by (simp add: list_all2_conv_all_nth nth_enumerate_eq build_item_record_def pending_record_def Let_def)
  show "length recs = length its" by (simp add: recs_def)
  show ordinals: "map si_ordinal recs = [n..<n + length its]"
    unfolding recs_def by (rule nth_equalityI) (simp_all add: nth_enumerate_eq build_item_record_def Let_def)
  show "map si_wave_item_id recs = map wave_item_id its"
    using pairs by (auto simp: list_eq_iff_nth_eq list_all2_conv_all_nth pending_record_def)
  assume "r \<in> set recs"
  then obtain k where k: "k < length recs" "r = recs ! k" by (auto simp: in_set_conv_nth)
  then have "si_ordinal r = n + k" using arg_cong [OF ordinals, of "\<lambda>xs. xs ! k"] by (simp add: recs_def)
  with k pairs show "pending_record sha256 w (its ! (si_ordinal r - n)) r" by (simp add: list_all2_conv_all_nth)
qed

subsection \<open>The store after an admission\<close>

lemma admitted_store:
  assumes ok: "sim_ok t0 repo" and "t0 \<le> now"
    and new: "admission_operation_id sha256 req \<notin> set (dict_keys (simulation_operations repo))"
    and recs: "recs = map (build_item_record sha256 (admission_operation_id sha256 req) (ad_tenant_id req) w now inputs) (enumerate 0 (items w))"
    and op: "admission_operation sha256 now req w recs = Inr operation"
    and run: "admit_simulation_operation operation recs w' repo = Inr ((operation, False), repo')"
    and items: "items w \<noteq> []"
  defines "oid \<equiv> admission_operation_id sha256 req"
  shows "sim_step t0 repo now repo'" and "get_simulation_operation repo' (ad_tenant_id req) oid = Some operation"
    and "all_simulation_items (ad_tenant_id req) oid repo' = recs"
    and "dict_get (simulation_items repo') (oid, i) = List.find (\<lambda>r. si_wave_item_id r = i) recs"
    and "dict_get (simulation_operation_idempotency repo')
      (ad_tenant_id req, wave_simulation_idempotency_key sha256 (ad_tenant_id req) (ad_idempotency_key req)) = Some oid"
    and "dict_get (repo_waves repo') (wave_id w') = Some w'" and "distinct (map wave_item_id (items w))"
    and "wave_tenant_id w' = Some (ad_tenant_id req)"
proof -
  note fields = operation_fields [OF op] and built = built_records [where ?sha256.0 = sha256 and oid = "admission_operation_id sha256 req" and tenant = "ad_tenant_id req" and w = w and now = now and inputs = inputs and n = 0
      and its = "items w", folded recs]
  obtain wave where repo': "repo' = store_admission operation recs w' repo"
    and valid: "validate_simulation_admission_items operation recs wave = Inr ()"
    and tenant: "wave_tenant_id w' = Some (op_tenant_id operation)"
    using run by (cases rule: admit_cases) auto
  note valid = validate_admission [OF valid]
  have fresh: "fresh_admission operation recs"
    using fields(4,5) items built(4,5) by (auto simp: fresh_admission_def pending_record_def)
  have new': "op_operation_id operation \<notin> set (dict_keys (simulation_operations repo))" using new fields(1) by simp
  show step: "sim_step t0 repo now repo'" by (rule sim_step.admit [OF assms(2) fresh new' run])
  note ok' = sim_step_ok [OF step ok]
  show get: "get_simulation_operation repo' (ad_tenant_id req) oid = Some operation"
    using fields(1,2) by (simp add: get_simulation_operation_iff repo' store_admission_def dict_get_set oid_def)
  have none: "dict_get (simulation_items repo) (oid, i) = None" for i
    using sim_okD(3) [OF ok, of oid i] dict_get_key [of "simulation_operations repo" oid] new unfolding oid_def by (metis option.exhaust)
  show found: "dict_get (simulation_items repo') (oid, i) = List.find (\<lambda>r. si_wave_item_id r = i) recs" for i
    unfolding repo' admitted_get [OF valid(1)] none using fields(1) by (simp add: oid_def split: option.splits)
  show "distinct (map wave_item_id (items w))" using valid(1) built(3) by simp
  show "dict_get (simulation_operation_idempotency repo')
      (ad_tenant_id req, wave_simulation_idempotency_key sha256 (ad_tenant_id req) (ad_idempotency_key req)) = Some oid"
    using fields by (simp add: repo' store_admission_def dict_get_set oid_def)
  show "dict_get (repo_waves repo') (wave_id w') = Some w'" by (simp add: repo' store_admission_def dict_get_set)
  show "wave_tenant_id w' = Some (ad_tenant_id req)" using tenant fields(2) by simp
  have "set (all_simulation_items (ad_tenant_id req) oid repo') = set recs"
    using find_by_id [OF valid(1)]
    by (auto simp: all_simulation_items_mem [OF ok' get] found dest!: find_SomeD)
  then have same: "set (simulation_items_for_operation (simulation_items repo') oid (ad_tenant_id req)) = set recs"
    by (simp add: all_simulation_items_eq [OF get])
  have "distinct (simulation_items_for_operation (simulation_items repo') oid (ad_tenant_id req))" "distinct recs"
    using items_for_operation_distinct [OF sim_okD(1) [OF ok']] valid(1) by (auto simp: distinct_map)
  with same have mset: "mset (simulation_items_for_operation (simulation_items repo') oid (ad_tenant_id req)) = mset recs"
    by (simp add: set_eq_iff_mset_eq_distinct)
  have ordinals: "map si_ordinal recs = [0..<length (items w)]" using built(2) by simp
  have inj: "inj_on simulation_item_order (set recs)"
    using arg_cong [OF ordinals, of distinct] by (auto simp: distinct_map inj_on_def simulation_item_order_def)
  have "sorted (map simulation_item_order recs)"
  proof (unfold sorted_wrt_iff_nth_less, intro allI impI)
    fix i j assume ij: "i < j" "j < length (map simulation_item_order recs)"
    then have "si_ordinal (recs ! i) < si_ordinal (recs ! j)"
      using arg_cong [OF ordinals, of "\<lambda>xs. xs ! i"] arg_cong [OF ordinals, of "\<lambda>xs. xs ! j"] built(4) by simp
    with ij show "map simulation_item_order recs ! i \<le> map simulation_item_order recs ! j"
      by (simp add: simulation_item_order_def less_eq_prod_def)
  qed
  with mset inj have "sort_key simulation_item_order (simulation_items_for_operation (simulation_items repo') oid (ad_tenant_id req)) = recs"
    by (intro sort_key_inj_key_eq) (simp_all add: same)
  then show "all_simulation_items (ad_tenant_id req) oid repo' = recs" by (simp add: all_simulation_items_eq [OF get])
qed

text \<open>The wave in simulation on behalf of an operation: one more recorded version with the same items.\<close>

definition simulating_for :: "string \<Rightarrow> DpmRebalanceWave \<Rightarrow> DpmRebalanceWave \<Rightarrow> bool" where
  "simulating_for oid w w' \<longleftrightarrow>
     wave_state w' = SIMULATING \<and> version w' = version w + 1 \<and> items w' = items w
     \<and> (\<exists>e. events w' = events w @ [e] \<and> ev_reason_code e = ''WAVE_ASYNC_SIMULATION_ACCEPTED''
          \<and> ev_from_state e = Some SOURCE_CHECKED \<and> ev_to_state e = SIMULATING
          \<and> dict_get (ev_metadata e) ''operation_id'' = Some (JStr oid))"

lemma admitted_at_rest:
  assumes "sim_ok t0 (race repo)" and "t0 \<le> now"
    and "admission_operation_id sha256 req \<notin> set (dict_keys (simulation_operations (race repo)))"
    and "admit_wave_simulation_operation str_of sha256 validators services now stamp race req repo = Inr ((operation, False), repo')"
    and "get_wave repo (ad_wave_id req) (ad_tenant_id req) = Some w" and "items w \<noteq> []" and "wave_id w = ad_wave_id req"
  defines "oid \<equiv> admission_operation_id sha256 req"
  obtains w' resolved inputs where "wave_state w = SOURCE_CHECKED" "sim_step t0 (race repo) now repo'"
    "resolve_item_payloads str_of w (ad_item_payloads req) [] = Inr resolved"
    "freeze_wave_inputs services sha256 validators w (ad_tenant_id req) (ad_correlation_id req) None resolved = Inr inputs"
    "all_simulation_items (ad_tenant_id req) oid repo'
       = map (build_item_record sha256 oid (ad_tenant_id req) w now inputs) (enumerate 0 (items w))"
    "get_wave repo' (ad_wave_id req) (ad_tenant_id req) = Some w'" "simulating_for oid w w'"
    "\<not> admitted_by_other oid w'" "at_rest (ad_tenant_id req) oid (ad_wave_id req) repo'"
    "pending_ids oid repo' = wave_item_id ` set (items w)" "distinct (map wave_item_id (items w))"
  using assms(4)
proof (cases rule: admit_success)
  case (admitted w1 resolved recs w')
  then have w1: "w1 = w" using assms(5) by simp
  from admitted(5) obtain inputs where
    inputs: "freeze_wave_inputs services sha256 validators w (ad_tenant_id req) (ad_correlation_id req) None resolved = Inr inputs"
    and recs: "recs = map (build_item_record sha256 oid (ad_tenant_id req) w now inputs) (enumerate 0 (items w))"
    unfolding w1 oid_def by (rule records_form)
  note store = admitted_store [OF assms(1-3) recs [unfolded oid_def] admitted(6) [unfolded w1] admitted(8) assms(6), folded oid_def]
    and built = built_records [where ?sha256.0 = sha256 and oid = "oid" and tenant = "ad_tenant_id req" and w = w and now = now and inputs = inputs and n = 0
      and its = "items w", folded recs] and fields = operation_fields [OF admitted(6)]
  have w': "w' = w\<lparr> wave_state := SIMULATING, version := version w + 1, events := events w @ [admission_event sha256 stamp req w recs] \<rparr>"
    using admitted(7) unfolding w1 by (simp add: apply_wave_transition_iff)
  show thesis
  proof (rule that)
    show "all_simulation_items (ad_tenant_id req) oid repo'
        = map (build_item_record sha256 oid (ad_tenant_id req) w now inputs) (enumerate 0 (items w))"
      unfolding store(3) by (rule recs)
    show "freeze_wave_inputs services sha256 validators w (ad_tenant_id req) (ad_correlation_id req) None resolved = Inr inputs"
      by (rule inputs)
    show "simulating_for oid w w'"
      by (simp add: simulating_for_def w' admission_event_def build_wave_event_def oid_def)
    show "get_wave repo' (ad_wave_id req) (ad_tenant_id req) = Some w'"
      using store(6,8) assms(7) by (simp add: get_wave_def w')
    show "\<not> admitted_by_other oid w'"
      by (simp add: admitted_by_other_def w' admission_event_def build_wave_event_def oid_def)
    have own: "pending_record sha256 w (items w ! si_ordinal r) r" if "List.find (\<lambda>r. si_wave_item_id r = i) recs = Some r" for i r
      using find_SomeD [OF that] built(5) [of r] by simp
    show "at_rest (ad_tenant_id req) oid (ad_wave_id req) repo'"
      using store(2) fields(3,5,6) own assms(7) method_values_admitted [OF fields(11)]
      by (auto simp: at_rest_def store(4) pending_record_def own_result_def)
    have "pending_ids oid repo' = si_wave_item_id ` set recs"
    proof (intro set_eqI iffI)
      fix i assume "i \<in> pending_ids oid repo'"
      then show "i \<in> si_wave_item_id ` set recs" by (auto simp: pending_ids_def store(4) dest!: find_SomeD)
    next
      fix i assume "i \<in> si_wave_item_id ` set recs"
      then obtain r where "List.find (\<lambda>r. si_wave_item_id r = i) recs = Some r"
        by (cases "List.find (\<lambda>r. si_wave_item_id r = i) recs") (auto simp: find_None_iff)
      with own [OF this] show "i \<in> pending_ids oid repo'" by (auto simp: pending_ids_def store(4) pending_record_def)
    qed
    then show "pending_ids oid repo' = wave_item_id ` set (items w)"
      using arg_cong [OF built(3), of set] by simp
  qed (use admitted(3,4) store w1 w' in simp_all)
qed simp

subsection \<open>Asking again\<close>

text \<open>The sources of a wave: what an admission hashes of it. A simulation keeps them.\<close>

definition item_sources :: "DpmRebalanceWaveItem \<Rightarrow> string \<times> string \<times> string option \<times> string option \<times> DpmWaveSourceRef list" where
  "item_sources i = (wave_item_id i, wi_portfolio_id i, wi_mandate_id i, wi_model_portfolio_id i, wi_source_refs i)"

definition same_sources :: "DpmRebalanceWave \<Rightarrow> DpmRebalanceWave \<Rightarrow> bool" where
  "same_sources w w2 \<longleftrightarrow> wave_id w2 = wave_id w \<and> wave_as_of_date w2 = wave_as_of_date w
     \<and> list_all2 (\<lambda>i i2. item_sources i2 = item_sources i) (items w) (items w2)"

lemma simulation_keeps_sources: "simulation_outcome i i' \<Longrightarrow> item_sources i' = item_sources i"
  by (simp add: simulation_outcome_def item_sources_def)

lemma map_of_pairs:
  "map_option g (map_of (rev (map (\<lambda>i. (f i, i)) zs)) k) = map_of (rev (map (\<lambda>i. (f i, g i)) zs)) k"
  using map_of_map [of g "rev (map (\<lambda>i. (f i, i)) zs)"] by (simp add: fun_eq_iff rev_map [symmetric] comp_def)

lemma map_of_all2:
  assumes "list_all2 (\<lambda>i i2. f i2 = f i \<and> g i2 = g i) xs ys"
  shows "map_option g (map_of (rev (map (\<lambda>i. (f i, i)) ys)) k) = map_option g (map_of (rev (map (\<lambda>i. (f i, i)) xs)) k)"
proof -
  have "map (\<lambda>i. (f i, g i)) ys = map (\<lambda>i. (f i, g i)) xs" using assms by (induction rule: list_all2_induct) auto
  then show ?thesis by (simp only: map_of_pairs)
qed

lemma filter_all2:
  assumes "list_all2 (\<lambda>i i2. f i2 = f i \<and> g i2 = g i) xs ys"
  shows "map g (filter (\<lambda>i. f i = k) ys) = map g (filter (\<lambda>i. f i = k) xs)"
  using assms by (induction rule: list_all2_induct) auto

lemma selected_same:
  assumes "same_sources w w2"
  shows "map_option item_sources (selected_item str_of w2 supplied) = map_option item_sources (selected_item str_of w supplied)"
proof -
  have ids: "list_all2 (\<lambda>i i2. wave_item_id i2 = wave_item_id i \<and> item_sources i2 = item_sources i) (items w) (items w2)"
    and portfolios: "list_all2 (\<lambda>i i2. wi_portfolio_id i2 = wi_portfolio_id i \<and> item_sources i2 = item_sources i) (items w) (items w2)"
    using assms by (auto simp: same_sources_def item_sources_def elim: list_all2_mono)
  have one: "map_option item_sources (case xs of [x] \<Rightarrow> Some x | _ \<Rightarrow> None) = (case map item_sources xs of [x] \<Rightarrow> Some x | _ \<Rightarrow> None)"
    for xs by (simp split: list.splits)
  show ?thesis
    by (simp add: selected_item_def dict_get_of map_of_all2 [OF ids] one filter_all2 [OF portfolios] split: option.splits)
qed

lemma resolve_same:
  assumes "same_sources w w2"
  shows "resolve_item_payloads str_of w2 payloads resolved = resolve_item_payloads str_of w payloads resolved"
proof -
  have "resolve_item_payload str_of w2 supplied = resolve_item_payload str_of w supplied" for supplied
    using selected_same [OF assms, of str_of supplied]
    by (cases "selected_item str_of w2 supplied"; cases "selected_item str_of w supplied")
       (auto simp: resolve_item_payload_def item_sources_def cong: option.case_cong)
  then show ?thesis by (induction payloads arbitrary: resolved) (auto simp: wave_bind_def split: sum.splits option.splits)
qed

lemma selected_mem:
  assumes "selected_item str_of w supplied = Some item"
  shows "item \<in> set (items w)"
proof (cases "present (dict_get supplied ''wave_item_id'')")
  case (Some i)
  with assms have "dict_get (dict_of (map (\<lambda>item. (wave_item_id item, item)) (items w))) (str_of i) = Some item"
    by (simp add: selected_item_def)
  from dict_of_mem [OF this] show ?thesis by auto
next
  case None
  with assms obtain p where "filter (\<lambda>item. wi_portfolio_id item = p) (items w) = [item]"
    by (auto simp: selected_item_def split: option.splits list.splits)
  then have "item \<in> set (filter (\<lambda>item. wi_portfolio_id item = p) (items w))" by simp
  then show ?thesis by simp
qed

lemma resolved_items:
  assumes "resolve_item_payloads str_of w payloads resolved = Inr result" and "dict_ok resolved"
    and "fst ` set resolved \<subseteq> wave_item_id ` set (items w)"
  shows "dict_ok result \<and> fst ` set result \<subseteq> wave_item_id ` set (items w)"
  using assms
proof (induction payloads arbitrary: resolved)
  case (Cons supplied rest)
  from Cons.prems(1) obtain i payload where one: "resolve_item_payload str_of w supplied = Inr (i, payload)"
    and rest: "resolve_item_payloads str_of w rest (dict_set i payload resolved) = Inr result"
    by (auto split: option.splits if_splits)
  have "i \<in> wave_item_id ` set (items w)"
    using one selected_mem [of str_of w supplied] by (auto simp: resolve_item_payload_def split: option.splits if_splits)
  with Cons.prems(3) have "fst ` set (dict_set i payload resolved) \<subseteq> wave_item_id ` set (items w)"
    by (auto dest!: dict_set_mem)
  with Cons.IH [OF rest] Cons.prems(2) show ?case by simp
qed simp


text \<open>What later steps of the store keep of an admission.\<close>

lemma same_admission_trans: "same_admission a b \<Longrightarrow> same_admission b c \<Longrightarrow> same_admission a c"
  by (cases a; cases b; cases c) (simp add: same_admission_def)

lemma sim_steps_operation:
  assumes "sim_steps now repo t repo'" and "sim_ok now repo" and "dict_get (simulation_operations repo) oid = Some operation"
  shows "\<exists>operation'. dict_get (simulation_operations repo') oid = Some operation' \<and> same_admission operation operation'"
  using assms(1)
proof (induction rule: sim_steps.induct)
  case (step t repo' u repo'')
  from step.IH obtain operation' where "dict_get (simulation_operations repo') oid = Some operation'" "same_admission operation operation'"
    by blast
  with sim_step_operation [OF step.hyps(2) sim_steps_ok [OF step.hyps(1) assms(2)] this(1)] show ?case
    by (blast intro: same_admission_trans)
qed (use assms(3) in auto)

lemma item_step_payload: "item_step operation chosen now item item' \<Longrightarrow> si_input_payload item' = si_input_payload item"
  by (auto simp: item_step_def item_changes)

lemma sim_steps_payload:
  assumes "sim_steps now repo t repo'" and "sim_ok now repo" and "dict_get (simulation_items repo) (oid, i) = Some item"
  shows "\<exists>item'. dict_get (simulation_items repo') (oid, i) = Some item' \<and> si_input_payload item' = si_input_payload item"
  using assms(1)
proof (induction rule: sim_steps.induct)
  case (step t repo' u repo'')
  note ok' = sim_steps_ok [OF step.hyps(1) assms(2)]
  from step.IH obtain item' where item': "dict_get (simulation_items repo') (oid, i) = Some item'"
    "si_input_payload item' = si_input_payload item" by blast
  from sim_okD(3) [OF ok' item'(1)] obtain operation where "dict_get (simulation_operations repo') oid = Some operation" by blast
  from sim_step_item [OF step.hyps(2) ok' item'(1) this] item'(2) show ?case using item_step_payload by metis
qed (use assms(3) in auto)

lemma op_step_index: "op_step chosen now oid repo repo' \<Longrightarrow> simulation_operation_idempotency repo' = simulation_operation_idempotency repo"
  by (auto simp: op_step_def)

lemma sim_step_index:
  assumes "sim_step now repo t repo'" and "sim_ok now repo" and "dict_get (simulation_operation_idempotency repo) k = Some oid"
  shows "dict_get (simulation_operation_idempotency repo') k = Some oid"
  using assms
proof (induction rule: sim_step.induct)
  case (admit now t operation recs repo w res repo')
  from admit.hyps(4) admit.prems(2) show ?case
    by (cases rule: admit_cases) (auto simp: store_admission_def dict_get_set)
next
  case (claim now t tenant oid1 worker limit lease tokens repo claims repo')
  from claim.hyps(2) sim_okD(1) [OF claim.prems(1)] claim.prems(2) show ?case
    by (cases rule: claim_cases) (auto simp: op_step_index)
next
  case (publish_result now t c result_item repo b repo')
  from publish_step [OF publish_result.hyps(2) [unfolded publish_simulation_item_result_def] sim_okD(1) [OF publish_result.prems(1)]]
  show ?case using publish_result.prems(2) by (auto simp: op_step_index)
next
  case (publish_failure now t c code message retryable repo b repo')
  from publish_step [OF publish_failure.hyps(2) [unfolded publish_simulation_item_failure_def] sim_okD(1) [OF publish_failure.prems(1)]]
  show ?case using publish_failure.prems(2) by (auto simp: op_step_index)
next
  case (retry now t tenant oid1 requested repo n repo')
  from retry_step [OF retry.hyps(2) sim_okD(1) [OF retry.prems(1)]] retry.prems(2) show ?case by (auto simp: op_step_index)
next
  case (cancel now t tenant oid1 reason repo r repo')
  from cancel_step [OF cancel.hyps(2) sim_okD(1) [OF cancel.prems(1)]] cancel.prems(2) show ?case by (auto simp: op_step_index)
next
  case (save now t sha256 wave key rhash tenant repo repo')
  then show ?case by (auto simp: save_wave_def Let_def split: if_splits)
next
  case (update now t repo wave v tenant repo')
  then show ?case by (auto simp: update_wave_def split: if_splits option.splits)
qed

lemma sim_steps_index:
  assumes "sim_steps now repo t repo'" and "sim_ok now repo" and "dict_get (simulation_operation_idempotency repo) k = Some oid"
  shows "dict_get (simulation_operation_idempotency repo') k = Some oid"
  using assms(1)
proof (induction rule: sim_steps.induct)
  case (step t repo' u repo'')
  then show ?case using sim_step_index sim_steps_ok [OF step.hyps(1) assms(2)] by blast
qed (rule assms(3))

text \<open>Freezing again what was retained gives the same inputs, without asking the source.\<close>

lemma freeze_resolved_request:
  assumes "freeze_resolved services w t c item p = Inr f"
  shows "dict_get f ''source_request'' = Some (JObj p)"
proof -
  let ?override = "case dict_get p ''options_override'' of None \<Rightarrow> JObj [] | Some v \<Rightarrow> v"
  let ?answer = "\<lambda>tax. resolve_envelope services
    \<lparr> sf_portfolio_id = wi_portfolio_id item, sf_as_of = wave_as_of_date w, sf_tenant_id = t,
      sf_mandate_id = the (wi_mandate_id item), sf_model_portfolio_id = the (wi_model_portfolio_id item),
      sf_include_tax_lots = tax \<rparr> ?override c t"
  note run = assms [unfolded freeze_resolved_def Let_def]
  obtain tax where tax: "checked_options services ?override = Inr tax" using run by (auto split: if_split_asm)
  obtain request source where "?answer tax = Inr (request, Some source)"
    using run tax by (cases "?answer tax") (auto split: if_split_asm option.split_asm)
  then show ?thesis using run tax by (auto split: if_split_asm option.split_asm)
qed

lemma freeze_resolved_source:
  assumes "freeze_resolved services w t c item p = Inr f"
  shows "\<exists>tax request source. resolve_envelope services
      \<lparr> sf_portfolio_id = wi_portfolio_id item, sf_as_of = wave_as_of_date w, sf_tenant_id = t,
        sf_mandate_id = the (wi_mandate_id item), sf_model_portfolio_id = the (wi_model_portfolio_id item),
        sf_include_tax_lots = tax \<rparr> (dict_get_or p ''options_override'' (JObj [])) c t = Inr (request, Some source)
    \<and> dict_get f ''stateless_input'' = Some request \<and> dict_get f ''source_context'' = Some (rs_dump source)"
proof -
  note run = assms [unfolded freeze_resolved_def Let_def, folded dict_get_or_def]
  obtain tax where tax: "checked_options services (dict_get_or p ''options_override'' (JObj [])) = Inr tax"
    using run by (auto split: if_split_asm)
  let ?answer = "resolve_envelope services
    \<lparr> sf_portfolio_id = wi_portfolio_id item, sf_as_of = wave_as_of_date w, sf_tenant_id = t,
      sf_mandate_id = the (wi_mandate_id item), sf_model_portfolio_id = the (wi_model_portfolio_id item),
      sf_include_tax_lots = tax \<rparr> (dict_get_or p ''options_override'' (JObj [])) c t"
  obtain request source where "?answer = Inr (request, Some source)"
    using run tax by (cases ?answer) (auto split: if_split_asm option.split_asm)
  then show ?thesis using run tax by (intro exI [of _ tax]) (auto split: if_split_asm option.split_asm)
qed

lemma freeze_keys:
  assumes "freeze_wave_inputs services sha256 validators w t c r resolved = Inr inputs"
  shows "map fst inputs = map fst resolved"
proof -
  have "list_all2 (\<lambda>x y. freeze_input services sha256 validators w t c r x = Inr y) resolved inputs"
    using assms by (simp add: freeze_wave_inputs_def wave_map_success)
  then show ?thesis by (induction rule: list_all2_induct) (auto simp: freeze_input_def)
qed

lemma freeze_get:
  assumes "freeze_wave_inputs services sha256 validators w t c r resolved = Inr inputs" and "dict_get resolved i = Some p"
  shows "\<exists>f. dict_get inputs i = Some f \<and> freeze_input services sha256 validators w t c r (i, p) = Inr (i, f)"
proof -
  have "list_all2 (\<lambda>x y. freeze_input services sha256 validators w t c r x = Inr y) resolved inputs"
    using assms(1) by (simp add: freeze_wave_inputs_def wave_map_success)
  then show ?thesis using assms(2)
  proof (induction rule: list_all2_induct)
    case (Cons x xs y ys)
    obtain j q where x: "x = (j, q)" by (cases x)
    with Cons.hyps(1) obtain f where "y = (j, f)" by (auto simp: freeze_input_def)
    with x Cons show ?case by (auto split: if_splits)
  qed simp
qed

lemma resolve_item_payload_facts:
  assumes "resolve_item_payload str_of w supplied = Inr (i, p)"
  obtains item where "selected_item str_of w supplied = Some item" "wave_item_id item = i" "p = retained_payload supplied"
    "\<not> is_stateful supplied \<longrightarrow> nested_portfolio_id supplied = Some (JStr (wi_portfolio_id item))"
  using assms by (auto simp: resolve_item_payload_def split: option.splits if_splits)

lemma item_by_id:
  assumes "distinct (map wave_item_id (items w))" and "item \<in> set (items w)"
  shows "dict_get (dict_of (map (\<lambda>item. (wave_item_id item, item)) (items w))) (wave_item_id item) = Some item"
proof -
  have "distinct (map fst (rev (map (\<lambda>item. (wave_item_id item, item)) (items w))))"
    using assms(1) by (simp add: rev_map [symmetric] comp_def)
  with assms(2) show ?thesis by (simp add: dict_get_of)
qed

lemma admitted_payloads:
  assumes resolved: "resolve_item_payloads str_of w (ad_item_payloads req) [] = Inr resolved"
    and inputs: "freeze_wave_inputs services sha256 validators w (ad_tenant_id req) (ad_correlation_id req) None resolved = Inr inputs"
    and distinct: "distinct (map wave_item_id (items w))" and item: "item \<in> set (items w)"
  shows "admitted_payload str_of services req w item (case dict_get inputs (wave_item_id item) of None \<Rightarrow> [] | Some f \<Rightarrow> f)"
proof (cases "dict_get resolved (wave_item_id item)")
  case None
  then have "dict_get inputs (wave_item_id item) = None" using freeze_keys [OF inputs] by (metis map_of_eq_None_iff set_map)
  moreover have "supplied_for str_of req w item = []"
  proof (rule ccontr)
    assume "supplied_for str_of req w item \<noteq> []"
    then obtain supplied where supplied: "supplied \<in> set (ad_item_payloads req)"
      "map_option wave_item_id (selected_item str_of w supplied) = Some (wave_item_id item)"
      by (auto simp: supplied_for_def filter_empty_conv)
    from resolved_all [OF resolved this(1)] obtain j q where
      j: "resolve_item_payload str_of w supplied = Inr (j, q)" "dict_get resolved j \<noteq> None" by blast
    with supplied(2) None show False by (auto elim!: resolve_item_payload_facts)
  qed
  ultimately show ?thesis by (simp add: admitted_payload_def)
next
  case (Some p)
  then obtain supplied where supplied: "supplied \<in> set (ad_item_payloads req)"
    "resolve_item_payload str_of w supplied = Inr (wave_item_id item, p)"
    using resolved_from [OF resolved] by fastforce
  from supplied(2) obtain item' where facts: "selected_item str_of w supplied = Some item'" "wave_item_id item' = wave_item_id item"
    "p = retained_payload supplied" "\<not> is_stateful supplied \<longrightarrow> nested_portfolio_id supplied = Some (JStr (wi_portfolio_id item'))"
    by (rule resolve_item_payload_facts)
  have same: "item' = item"
    using item_by_id [OF distinct item] item_by_id [OF distinct selected_mem [OF facts(1)]] facts(2) by simp
  obtain f where f: "dict_get inputs (wave_item_id item) = Some f"
    and freeze: "freeze_input services sha256 validators w (ad_tenant_id req) (ad_correlation_id req) None (wave_item_id item, p)
      = Inr (wave_item_id item, f)"
    using freeze_get [OF inputs Some] by blast
  have "frozen_for services w (ad_tenant_id req) (ad_correlation_id req) item supplied f"
  proof (cases "is_stateful supplied")
    case True
    then have "freeze_resolved services w (ad_tenant_id req) (ad_correlation_id req) item p = Inr f"
      using freeze facts(3) item_by_id [OF distinct item] by (simp add: freeze_input_def)
    from freeze_resolved_source [OF this] freeze_resolved_request [OF this] True show ?thesis
      by (simp add: frozen_for_def facts(3) retained_override)
  next
    case False
    then have "f = retained_payload supplied" using freeze facts(3) by (simp add: freeze_input_def)
    moreover have "present (dict_get supplied ''stateless_input'') = dict_get supplied ''stateless_input''"
      using facts(4) False by (auto simp: nested_portfolio_id_def present_def split: option.splits json.splits)
    ultimately show ?thesis
      using False retained_stateless [OF False] facts(4) same by (simp add: frozen_for_def)
  qed
  moreover have "supplied \<in> set (supplied_for str_of req w item)" using supplied(1) facts(1,2) by (simp add: supplied_for_def)
  ultimately show ?thesis using f by (auto simp: admitted_payload_def)
qed

lemma admitted_records:
  assumes "resolve_item_payloads str_of w (ad_item_payloads req) [] = Inr resolved"
    and "freeze_wave_inputs services sha256 validators w (ad_tenant_id req) (ad_correlation_id req) None resolved = Inr inputs"
    and "distinct (map wave_item_id (items w))"
  shows "list_all2 (admitted_record str_of sha256 services req w) (items w)
    (map (build_item_record sha256 oid (ad_tenant_id req) w now inputs) (enumerate 0 (items w)))"
proof -
  have "si_input_payload (build_item_record sha256 oid (ad_tenant_id req) w now inputs (n, item))
      = (case dict_get inputs (wave_item_id item) of None \<Rightarrow> [] | Some f \<Rightarrow> f)" for n item
    by (simp add: build_item_record_def Let_def)
  with built_records(1) [of sha256 w "items w" oid "ad_tenant_id req" now inputs 0] admitted_payloads [OF assms]
  show ?thesis
    by (simp add: list_all2_conv_all_nth nth_enumerate_eq admitted_record_def)
qed

lemma freeze_again:
  assumes first: "freeze_wave_inputs services sha256 validators w t c None resolved = Inr inputs" and distinct: "dict_ok resolved"
    and retained: "list_ex (is_stateful \<circ> snd) resolved \<Longrightarrow>
      \<exists>d. r = Some d \<and> (\<forall>i f. dict_get inputs i = Some f \<longrightarrow> dict_get d i = Some f)"
    and intact: "\<And>i f. dict_get inputs i = Some f \<Longrightarrow> dict_get f ''source_request'' \<noteq> None \<Longrightarrow>
      \<exists>x. simulation_input_from_payload sha256 validators f = Inr x"
  shows "freeze_wave_inputs services2 sha256 validators w2 t2 c2 r resolved = Inr inputs"
proof -
  have pairs: "list_all2 (\<lambda>x y. freeze_input services sha256 validators w t c None x = Inr y) resolved inputs"
    using first by (simp add: freeze_wave_inputs_def wave_map_success)
  have get: "dict_get inputs i = Some f" if "(i, f) \<in> set inputs" for i f using that distinct freeze_keys [OF first] by (metis map_of_eq_Some_iff)
  have "freeze_input services2 sha256 validators w2 t2 c2 r x = Inr y"
    if xy: "x \<in> set resolved" "y \<in> set inputs" "freeze_input services sha256 validators w t c None x = Inr y" for x y
  proof -
    obtain i p f where x: "x = (i, p)" and y: "y = (i, f)" using xy(3) by (cases x) (auto simp: freeze_input_def)
    show ?thesis
    proof (cases "is_stateful p")
      case True
      with xy(1) x have "list_ex (is_stateful \<circ> snd) resolved" by (force simp: list_ex_iff)
      then obtain d where d: "r = Some d" "dict_get d i = Some f" using retained get xy(2) y by blast
      have "dict_get f ''source_request'' = Some (JObj p)"
        using xy(3) True by (auto simp: x y freeze_input_def split: option.split_asm dest: freeze_resolved_request)
      moreover from this obtain input where "simulation_input_from_payload sha256 validators f = Inr input"
        using intact get xy(2) y by blast
      ultimately show ?thesis using d True by (simp add: x y freeze_input_def freeze_retained_def json_equal_def Let_def)
    next
      case False
      with xy(3) show ?thesis by (simp add: x y freeze_input_def)
    qed
  qed
  with pairs have "list_all2 (\<lambda>x y. freeze_input services2 sha256 validators w2 t2 c2 r x = Inr y) resolved inputs"
    by (auto simp: list_all2_conv_all_nth)
  then show ?thesis by (simp add: freeze_wave_inputs_def wave_map_success)
qed


lemma record_of_input:
  assumes "dict_get inputs i = Some f" and "i \<in> wave_item_id ` set (items w)"
  shows "\<exists>r \<in> set (map (build_item_record sha256 oid tenant w now inputs) (enumerate 0 (items w))). si_wave_item_id r = i \<and> si_input_payload r = f"
proof -
  obtain k where k: "k < length (items w)" "wave_item_id (items w ! k) = i" using assms(2) by (auto simp: in_set_conv_nth)
  let ?recs = "map (build_item_record sha256 oid tenant w now inputs) (enumerate 0 (items w))"
  have "?recs ! k \<in> set ?recs" using k(1) by (intro nth_mem) simp
  moreover have "si_wave_item_id (?recs ! k) = i" "si_input_payload (?recs ! k) = f"
    using k assms(1) by (simp_all add: nth_enumerate_eq build_item_record_def Let_def)
  ultimately show ?thesis by blast
qed

lemma same_request_hash:
  assumes "same_sources w w2"
  shows "admission_request_hash sha256 req ms (map (build_item_record sha256 oid tenant w2 now2 inputs) (enumerate 0 (items w2)))
    = admission_request_hash sha256 req ms (map (build_item_record sha256 oid tenant w now inputs) (enumerate 0 (items w)))"
proof -
  let ?row = "\<lambda>r. JObj [(''wave_item_id'', JStr (si_wave_item_id r)), (''input_hash'', JStr (si_input_hash r)),
      (''source_identity_hash'', JStr (si_source_identity_hash r))]"
  have len: "length (items w2) = length (items w)" using assms unfolding same_sources_def by (metis list_all2_lengthD)
  have item: "item_sources (items w2 ! k) = item_sources (items w ! k)" if "k < length (items w)" for k
    using assms that by (simp add: same_sources_def list_all2_conv_all_nth)
  have "map ?row (map (build_item_record sha256 oid tenant w2 now2 inputs) (enumerate 0 (items w2)))
      = map ?row (map (build_item_record sha256 oid tenant w now inputs) (enumerate 0 (items w)))"
    by (rule nth_equalityI)
       (use item assms in \<open>auto simp: len nth_enumerate_eq build_item_record_def Let_def item_sources_def same_sources_def
          wave_item_source_identity_hash_def\<close>)
  then show ?thesis by (simp only: admission_request_hash_def)
qed

text \<open>Once the key has an operation, an admission under the key returns it or is refused.\<close>

lemma admit_existing:
  assumes "get_simulation_operation_by_idempotency repo (ad_tenant_id req)
      (wave_simulation_idempotency_key sha256 (ad_tenant_id req) (ad_idempotency_key req)) = Inr (Some e)"
    and "admit_wave_simulation_operation str_of sha256 validators services now stamp race req repo = Inr (res, repo')"
  shows "res = (e, True) \<and> repo' = repo"
  using assms by (auto simp: admit_wave_simulation_operation_def split: if_split_asm)

lemma admit_again:
  assumes existing: "get_simulation_operation_by_idempotency repo (ad_tenant_id req)
      (wave_simulation_idempotency_key sha256 (ad_tenant_id req) (ad_idempotency_key req)) = Inr (Some e)"
    and "\<not> admission_context_conflict req" and "get_wave repo (ad_wave_id req) (ad_tenant_id req) = Some w2" and "same_sources w w2"
    and "resolve_item_payloads str_of w (ad_item_payloads req) [] = Inr resolved"
    and frozen: "freeze_wave_inputs services sha256 validators w t c None resolved = Inr inputs"
    and hash: "op_request_hash e = admission_request_hash sha256 req (method_values req)
      (map (build_item_record sha256 (admission_operation_id sha256 req) (ad_tenant_id req) w now inputs) (enumerate 0 (items w)))"
    and "op_risk_authority_context_hash e = map_option (fingerprint sha256) (ad_risk_authority_context req)"
    and lookup: "\<And>i f. dict_get inputs i = Some f \<Longrightarrow>
      \<exists>r. dict_get (records_by_id (ad_tenant_id req) (op_operation_id e) repo) i = Some r \<and> si_input_payload r = f"
    and intact: "\<And>i f. dict_get inputs i = Some f \<Longrightarrow> dict_get f ''source_request'' \<noteq> None \<Longrightarrow>
      \<exists>x. simulation_input_from_payload sha256 validators f = Inr x"
  shows "admit_wave_simulation_operation str_of sha256 validators services2 now2 stamp race req repo = Inr ((e, True), repo)"
proof -
  let ?d = "dict_of (map (\<lambda>r. (si_wave_item_id r, si_input_payload r)) (all_simulation_items (ad_tenant_id req) (op_operation_id e) repo))"
  have d: "dict_get ?d i = Some f" if "dict_get inputs i = Some f" for i f
  proof -
    have "dict_get ?d i = map_option si_input_payload (dict_get (records_by_id (ad_tenant_id req) (op_operation_id e) repo) i)"
      by (simp only: dict_get_of map_of_pairs)
    with lookup [OF that] show ?thesis by auto
  qed
  have "dict_ok resolved" using resolved_items [OF assms(5)] by simp
  then have "freeze_wave_inputs services2 sha256 validators w2 (ad_tenant_id req) (ad_correlation_id req)
      (if list_ex (is_stateful \<circ> snd) resolved then Some ?d else None) resolved = Inr inputs"
    by (rule freeze_again [OF frozen _ _ intact]) (intro exI [of _ ?d] conjI allI impI, simp, blast intro: d)
  then have "admission_records str_of sha256 validators services2 now2 req w2 (Some e) repo resolved
      = Inr (map (build_item_record sha256 (admission_operation_id sha256 req) (ad_tenant_id req) w2 now2 inputs) (enumerate 0 (items w2)))"
    by (simp add: admission_records_def)
  then show ?thesis
    using assms(2,3,5,8) existing hash resolve_same [OF assms(4)]
    by (simp add: admit_wave_simulation_operation_def get_wave_or_raise_def wave_bind_def same_request_hash [where now = now, OF assms(4)])
qed


section \<open>Properties\<close>

text \<open>
  C30. An admitted simulation is carried out. Admitting a simulation of a wave with items, all of them
  before approval, while others may use the store between the reads and the admission, stores one
  pending record per item, in the order of the wave, with the hash of its sources and its frozen input
  and the hash of that: the request the caller supplied for the item, or what the source answered for
  it, and nothing when nothing was supplied. The stored wave is then in simulation for this operation,
  with the same items, one version further. A worker that then has the operation to itself (nobody
  cancels, retries or claims, and reconciliation meets no other writer), keeps within its leases and has
  a turn per item settles every one, whatever the construction service does, and leaves the wave
  complete unless a failed item may still be retried.
\<close>

theorem admitted_wave_simulated:
  assumes "sim_steps start empty_repository t0 (race repo)" and "t0 \<le> now" and "repository_ok repo"
    and "admission_operation_id sha256 req \<notin> set (dict_keys (simulation_operations (race repo)))"
    and "admit_wave_simulation_operation str_of sha256 validators services now stamp race req repo = Inr ((operation, False), repo1)"
    and "get_wave repo (ad_wave_id req) (ad_tenant_id req) = Some w" and "items w \<noteq> []"
    and "\<forall>i \<in> set (items w). item_stage (wi_state i) = 0" and "timely now lease cts" and "length (items w) \<le> length cts"
  shows "wave_state w = SOURCE_CHECKED
    \<and> list_all2 (admitted_record str_of sha256 services req w) (items w)
        (all_simulation_items (ad_tenant_id req) (admission_operation_id sha256 req) repo1)
    \<and> (\<exists>w1. get_wave repo1 (ad_wave_id req) (ad_tenant_id req) = Some w1
         \<and> simulating_for (admission_operation_id sha256 req) w w1)
    \<and> (\<exists>operation' completed failed repo2 w2.
         execute_wave_simulation_work we alone stamps (ad_tenant_id req) (admission_operation_id sha256 req) worker lease cts repo1
           = Some (Inr ((operation', length (items w), completed, failed), repo2))
         \<and> completed + failed = length (items w) \<and> get_wave repo2 (ad_wave_id req) (ad_tenant_id req) = Some w2
         \<and> map wave_item_id (items w2) = map wave_item_id (items w)
         \<and> (wave_state w2 = SIMULATING \<longleftrightarrow>
              (\<exists>item \<in> set (all_simulation_items (ad_tenant_id req) (admission_operation_id sha256 req) repo2).
                 wave_simulation_item_is_retryable operation' item))
         \<and> (wave_state w2 \<noteq> SIMULATING \<longrightarrow> wave_state w2 = simulation_result_state (items w2)))"
proof -
  have own: "wave_id w = ad_wave_id req" using memory.get_owned [OF assms(3,6)] by simp
  obtain w' resolved inputs where adm: "wave_state w = SOURCE_CHECKED" "sim_step t0 (race repo) now repo1"
    "resolve_item_payloads str_of w (ad_item_payloads req) [] = Inr resolved"
    "freeze_wave_inputs services sha256 validators w (ad_tenant_id req) (ad_correlation_id req) None resolved = Inr inputs"
    "all_simulation_items (ad_tenant_id req) (admission_operation_id sha256 req) repo1
       = map (build_item_record sha256 (admission_operation_id sha256 req) (ad_tenant_id req) w now inputs) (enumerate 0 (items w))"
    "get_wave repo1 (ad_wave_id req) (ad_tenant_id req) = Some w'" "simulating_for (admission_operation_id sha256 req) w w'"
    "\<not> admitted_by_other (admission_operation_id sha256 req) w'"
    "at_rest (ad_tenant_id req) (admission_operation_id sha256 req) (ad_wave_id req) repo1"
    "pending_ids (admission_operation_id sha256 req) repo1 = wave_item_id ` set (items w)" "distinct (map wave_item_id (items w))"
    by (rule admitted_at_rest [OF reachable_ok [OF assms(1)] assms(2,4,5,6,7) own])
  have recs: "list_all2 (admitted_record str_of sha256 services req w) (items w)
      (all_simulation_items (ad_tenant_id req) (admission_operation_id sha256 req) repo1)"
    unfolding adm(5) by (rule admitted_records [OF adm(3,4,11)])
  have state: "wave_state w' = SIMULATING" "items w' = items w" using adm(7) by (simp_all add: simulating_for_def)
  have card: "card (pending_ids (admission_operation_id sha256 req) repo1) = length (items w)"
    unfolding adm(10) using distinct_card [OF adm(11)] by simp
  have "unstaged (ad_wave_id req) (ad_tenant_id req) repo1" using adm(6) state(2) assms(8) by (simp add: unstaged_def)
  from worker_run [OF sim_steps.step [OF assms(1) adm(2)] adm(9) assms(9) _ this adm(6) state(1) adm(8), of we stamps worker]
  show ?thesis unfolding card using adm(1,6,7) recs state(2) assms(10) by auto
qed

definition sample_admission :: SimulationAdmission where
  "sample_admission =
     \<lparr> ad_wave_id = ''dwv_1'', ad_tenant_id = ''t1'', ad_actor_id = ''ops'', ad_correlation_id = ''c9'', ad_idempotency_key = ''k9'',
       ad_item_payloads = [[(''wave_item_id'', JStr ''i1''),
         (''stateless_input'', JObj [(''portfolio_snapshot'', JObj [(''portfolio_id'', JStr (wi_portfolio_id (sample_wave_item ''i1'')))])])]],
       ad_methods = None, ad_max_concurrency = 2, ad_max_attempts = 3, ad_risk_authority_context = None \<rparr>"

definition sample_freeze :: FreezeServices where
  "sample_freeze = \<lparr> validate_options = (\<lambda>_. None), resolve_envelope = (\<lambda>_ _ _ _. Inl ''unavailable'') \<rparr>"

definition admit_sample :: "InMemoryDpmWaveRepository \<Rightarrow> ((DpmWaveSimulationOperation \<times> bool) \<times> InMemoryDpmWaveRepository) wave_result" where
  "admit_sample = admit_wave_simulation_operation (\<lambda>v. case v of JStr s \<Rightarrow> s | _ \<Rightarrow> '''') (\<lambda>_. ''h'') (we_validators sample_environment)
     sample_freeze 0 sample_stamp (\<lambda>r. r) sample_admission"

definition admitted_sample :: InMemoryDpmWaveRepository where
  "admitted_sample = snd (projr (admit_sample sample_store0))"

lemma sample_admitted:
  "sim_steps 0 empty_repository 0 sample_store0"
  "admission_operation_id (\<lambda>_. ''h'') sample_admission \<notin> set (dict_keys (simulation_operations sample_store0))"
  "admit_sample sample_store0 = Inr ((fst (fst (projr (admit_sample sample_store0))), False), admitted_sample)"
  "get_wave sample_store0 (ad_wave_id sample_admission) (ad_tenant_id sample_admission) = Some (sample_checked_wave\<lparr> wave_tenant_id := Some ''t1'' \<rparr>)"
proof -
  show "sim_steps 0 empty_repository 0 sample_store0"
    by (rule sim_steps.step [OF sim_steps.idle sim_step.save [OF order_refl sample_save]])
  show "admission_operation_id (\<lambda>_. ''h'') sample_admission \<notin> set (dict_keys (simulation_operations sample_store0))" by code_simp
  have "case admit_sample sample_store0 of Inl _ \<Rightarrow> False | Inr ((operation, replayed), _) \<Rightarrow> \<not> replayed" by code_simp
  then show "admit_sample sample_store0 = Inr ((fst (fst (projr (admit_sample sample_store0))), False), admitted_sample)"
    unfolding admitted_sample_def by (auto split: sum.splits)
  show "get_wave sample_store0 (ad_wave_id sample_admission) (ad_tenant_id sample_admission)
      = Some (sample_checked_wave\<lparr> wave_tenant_id := Some ''t1'' \<rparr>)" by code_simp
qed

theorem admitted_wave_simulated_witness:
  "case execute_wave_simulation_work sample_environment alone (\<lambda>_. sample_stamp) ''t1'' (admission_operation_id (\<lambda>_. ''h'') sample_admission)
      ''w'' 2 sample_times admitted_sample of
     Some (Inr ((operation, claimed, completed, failed), repo2)) \<Rightarrow> claimed = 2 \<and> completed + failed = 2
   | _ \<Rightarrow> False"
proof -
  have wave: "length (items (sample_checked_wave\<lparr> wave_tenant_id := Some ''t1'' \<rparr>)) = 2" "ad_tenant_id sample_admission = ''t1''"
    "\<forall>i \<in> set (items (sample_checked_wave\<lparr> wave_tenant_id := Some ''t1'' \<rparr>)). item_stage (wi_state i) = 0" by code_simp+
  have "timely 0 2 sample_times" "length sample_times = 2" by (simp_all add: sample_times_def)
  with admitted_wave_simulated [where race = "\<lambda>r. r" and we = sample_environment and stamps = "\<lambda>_. sample_stamp" and worker = "''w''",
      OF sample_admitted(1) order_refl reachable_repository_ok [OF sample_admitted(1)] sample_admitted(2)
        sample_admitted(3) [unfolded admit_sample_def] sample_admitted(4) _ wave(3)] wave
  show ?thesis by (force simp: length_greater_0_conv [symmetric] simp del: length_greater_0_conv)
qed

text \<open>
  C31. A simulation is admitted once per key. After an admission, whatever happens to the store, the
  operation stays as admitted, no admission under the same key of the tenant creates another one, and
  the same request, made again at any time and without asking the source services, returns the stored
  operation, provided the items of the wave still name the same sources and the retained inputs are
  intact.
\<close>

theorem simulation_admitted_once:
  assumes "sim_steps start empty_repository t0 (race repo)" and "t0 \<le> now"
    and "admission_operation_id sha256 req \<notin> set (dict_keys (simulation_operations (race repo)))"
    and "admit_wave_simulation_operation str_of sha256 validators services now stamp race req repo = Inr ((operation, False), repo1)"
    and "get_wave repo (ad_wave_id req) (ad_tenant_id req) = Some w" and "items w \<noteq> []"
    and "sim_steps now repo1 t2 repo2"
  shows "\<exists>operation2. get_simulation_operation repo2 (ad_tenant_id req) (admission_operation_id sha256 req) = Some operation2
    \<and> same_admission operation operation2
    \<and> (\<forall>req2 validators2 services2 now2 stamp2 race2 res repo3.
         ad_tenant_id req2 = ad_tenant_id req \<and> ad_idempotency_key req2 = ad_idempotency_key req
         \<and> admit_wave_simulation_operation str_of sha256 validators2 services2 now2 stamp2 race2 req2 repo2 = Inr (res, repo3)
         \<longrightarrow> res = (operation2, True) \<and> repo3 = repo2)
    \<and> (\<forall>w2 services2 now2 stamp2 race2.
         get_wave repo2 (ad_wave_id req) (ad_tenant_id req) = Some w2 \<and> same_sources w w2
         \<and> (\<forall>i item. dict_get (simulation_items repo2) (admission_operation_id sha256 req, i) = Some item \<longrightarrow>
              dict_get (si_input_payload item) ''source_request'' \<noteq> None \<longrightarrow>
              (\<exists>input. simulation_input_from_payload sha256 validators (si_input_payload item) = Inr input))
         \<longrightarrow> admit_wave_simulation_operation str_of sha256 validators services2 now2 stamp2 race2 req repo2
               = Inr ((operation2, True), repo2))"
  using assms(4)
proof (cases rule: admit_success)
  case (admitted w1 resolved recs w')
  then have w1: "w1 = w" using assms(5) by simp
  let ?oid = "admission_operation_id sha256 req"
  from admitted(5) obtain inputs where
    inputs: "freeze_wave_inputs services sha256 validators w (ad_tenant_id req) (ad_correlation_id req) None resolved = Inr inputs"
    and recs: "recs = map (build_item_record sha256 ?oid (ad_tenant_id req) w now inputs) (enumerate 0 (items w))"
    unfolding w1 by (rule records_form)
  note ok0 = reachable_ok [OF assms(1)] and op = admitted(6) [unfolded w1] and resolved = admitted(4) [unfolded w1]
  note store = admitted_store [OF ok0 assms(2,3) recs op admitted(8) assms(6)] and fields = operation_fields [OF op]
  note ok1 = sim_step_ok [OF store(1) ok0]
  note ok2 = sim_steps_ok [OF assms(7) ok1]
  have "dict_get (simulation_operations repo1) ?oid = Some operation" using store(2) by (simp add: get_simulation_operation_iff)
  from sim_steps_operation [OF assms(7) ok1 this] obtain operation2 where
    op2: "dict_get (simulation_operations repo2) ?oid = Some operation2" and same: "same_admission operation operation2" by blast
  note kept = same_admission_fields [OF same]
  have context2: "op_risk_authority_context_hash operation2 = op_risk_authority_context_hash operation"
    by (subst same [unfolded same_admission_def]) simp
  have get2: "get_simulation_operation repo2 (ad_tenant_id req) ?oid = Some operation2"
    using op2 kept(2) fields(2) by (simp add: get_simulation_operation_iff)
  have existing: "get_simulation_operation_by_idempotency repo2 (ad_tenant_id req)
      (wave_simulation_idempotency_key sha256 (ad_tenant_id req) (ad_idempotency_key req)) = Inr (Some operation2)"
    using sim_steps_index [OF assms(7) ok1 store(5)] op2 by (simp add: get_simulation_operation_by_idempotency_def)
  have stored: "\<exists>item. dict_get (simulation_items repo2) (?oid, i) = Some item \<and> si_input_payload item = f"
    if "dict_get inputs i = Some f" for i f
  proof -
    have "i \<in> wave_item_id ` set (items w)" using dict_get_key [OF that] freeze_keys [OF inputs] resolved_items [OF resolved] by auto
    from record_of_input [OF that this] recs obtain r where r: "r \<in> set recs" "si_wave_item_id r = i" "si_input_payload r = f" by blast
    have "distinct (map si_wave_item_id recs)" using store(7) unfolding recs built_records(3) .
    from find_by_id [OF this r(1)] have "dict_get (simulation_items repo1) (?oid, i) = Some r" unfolding store(4) r(2) .
    from sim_steps_payload [OF assms(7) ok1 this] r(3) show ?thesis by blast
  qed
  have again: "admit_wave_simulation_operation str_of sha256 validators services2 now2 stamp2 race2 req repo2 = Inr ((operation2, True), repo2)"
    if wave2: "get_wave repo2 (ad_wave_id req) (ad_tenant_id req) = Some w2" "same_sources w w2"
      and intact: "\<And>i item. dict_get (simulation_items repo2) (?oid, i) = Some item \<Longrightarrow> dict_get (si_input_payload item) ''source_request'' \<noteq> None
         \<Longrightarrow> \<exists>input. simulation_input_from_payload sha256 validators (si_input_payload item) = Inr input"
    for w2 services2 now2 stamp2 race2
  proof (rule admit_again [OF existing _ wave2 resolved inputs])
    show "\<not> admission_context_conflict req" using assms(4) by (auto simp: admit_wave_simulation_operation_def)
    show "op_request_hash operation2 = admission_request_hash sha256 req (method_values req)
      (map (build_item_record sha256 ?oid (ad_tenant_id req) w now inputs) (enumerate 0 (items w)))"
      using kept(5) fields(8) recs by simp
    show "op_risk_authority_context_hash operation2 = map_option (fingerprint sha256) (ad_risk_authority_context req)"
      using context2 fields(10) by simp
    fix i f assume f: "dict_get inputs i = Some f"
    from stored [OF f] obtain item where item: "dict_get (simulation_items repo2) (?oid, i) = Some item" "si_input_payload item = f" by blast
    then show "\<exists>r. dict_get (records_by_id (ad_tenant_id req) (op_operation_id operation2) repo2) i = Some r \<and> si_input_payload r = f"
      using record_lookup [OF ok2 get2] kept(1) fields(1) by simp
    show "\<exists>x. simulation_input_from_payload sha256 validators f = Inr x" if "dict_get f ''source_request'' \<noteq> None"
      using that intact item by blast
  qed
  have once: "res = (operation2, True) \<and> repo3 = repo2"
    if "ad_tenant_id req2 = ad_tenant_id req \<and> ad_idempotency_key req2 = ad_idempotency_key req
      \<and> admit_wave_simulation_operation str_of sha256 validators2 services2 now2 stamp2 race2 req2 repo2 = Inr (res, repo3)"
    for req2 validators2 services2 now2 stamp2 race2 res repo3
    using that existing by (intro admit_existing [of _ req2 sha256]) auto
  show ?thesis
    by (intro exI [of _ operation2] conjI allI impI get2 same once again) (elim conjE, assumption | blast)+
qed simp

theorem simulation_admitted_once_witness:
  "\<exists>operation2. get_simulation_operation admitted_sample ''t1'' (admission_operation_id (\<lambda>_. ''h'') sample_admission) = Some operation2
     \<and> admit_sample admitted_sample = Inr ((operation2, True), admitted_sample)"
proof -
  let ?w = "sample_checked_wave\<lparr> wave_tenant_id := Some ''t1'' \<rparr>"
  have tenant: "ad_tenant_id sample_admission = ''t1''" "items ?w \<noteq> []" by code_simp+
  have "case get_wave admitted_sample (ad_wave_id sample_admission) (ad_tenant_id sample_admission) of
      None \<Rightarrow> False | Some w2 \<Rightarrow> same_sources ?w w2" by code_simp
  then obtain w2 where w2: "get_wave admitted_sample (ad_wave_id sample_admission) (ad_tenant_id sample_admission) = Some w2"
    "same_sources ?w w2" by (auto split: option.splits)
  have "list_all (\<lambda>(k, item). dict_get (si_input_payload item) ''source_request'' = None) (simulation_items admitted_sample)" by code_simp
  then have intact: "dict_get (si_input_payload item) ''source_request'' = None"
    if "dict_get (simulation_items admitted_sample) k = Some item" for k item
    using map_of_SomeD [OF that] by (auto simp: list_all_iff)
  from simulation_admitted_once [where race = "\<lambda>r. r", OF sample_admitted(1) order_refl sample_admitted(2)
      sample_admitted(3) [unfolded admit_sample_def] sample_admitted(4) tenant(2) sim_steps.idle] w2 intact tenant(1)
  show ?thesis unfolding admit_sample_def by (metis option.discI)
qed

end
