(* ===== verification/Run_Store.thy ===== *)
theory Run_Store
  imports Mandate_Repository Canonical_Json
begin

text \<open>
  The in-memory repository of rebalance runs (\<open>src/src/infrastructure/rebalance_runs/in_memory.py\<close>
  and \<open>in_memory_helpers.py\<close>, records of \<open>src/src/core/rebalance_runs/models.py\<close>): runs and their
  correlation index, idempotency mappings and their history, submission claims, asynchronous
  operations with execution leases, workflow decisions and lineage edges, and the two retention
  purges. Every operation holds the lock of the repository and is one step. Timestamps are
  microseconds; limits of the list operations are natural numbers, as the API admits none below one.
\<close>


section \<open>Definitions\<close>

subsection \<open>Records\<close>

type_synonym json_dict = "(string, json) dict"

datatype DpmAsyncOperationStatus = ASYNC_PENDING | ASYNC_RUNNING | ASYNC_SUCCEEDED | ASYNC_FAILED

datatype DpmWorkflowActionType = WF_APPROVE | WF_REJECT | WF_REQUEST_CHANGES

datatype DpmSimulationSubmissionStatus = CLAIM_IN_PROGRESS | CLAIM_COMPLETED

datatype DpmLineageEdgeType =
    CORRELATION_TO_RUN | IDEMPOTENCY_TO_RUN | OPERATION_TO_CORRELATION | OPERATION_TO_RUN

definition async_status_text :: "DpmAsyncOperationStatus \<Rightarrow> string" where
  "async_status_text s =
     (case s of ASYNC_PENDING \<Rightarrow> ''PENDING'' | ASYNC_RUNNING \<Rightarrow> ''RUNNING''
      | ASYNC_SUCCEEDED \<Rightarrow> ''SUCCEEDED'' | ASYNC_FAILED \<Rightarrow> ''FAILED'')"

definition workflow_action_text :: "DpmWorkflowActionType \<Rightarrow> string" where
  "workflow_action_text a =
     (case a of WF_APPROVE \<Rightarrow> ''APPROVE'' | WF_REJECT \<Rightarrow> ''REJECT'' | WF_REQUEST_CHANGES \<Rightarrow> ''REQUEST_CHANGES'')"

record DpmRunRecord =
  rr_tenant_id :: "string option"
  rr_rebalance_run_id :: string
  rr_correlation_id :: string
  rr_request_hash :: string
  rr_idempotency_key :: "string option"
  rr_portfolio_id :: string
  rr_created_at :: int
  rr_result_json :: json_dict

record DpmRunIdempotencyRecord =
  ri_tenant_id :: "string option"
  ri_idempotency_key :: string
  ri_request_hash :: string
  ri_rebalance_run_id :: string
  ri_created_at :: int

record DpmRunIdempotencyHistoryRecord =
  rh_tenant_id :: "string option"
  rh_idempotency_key :: string
  rh_rebalance_run_id :: string
  rh_correlation_id :: string
  rh_request_hash :: string
  rh_created_at :: int

record DpmSimulationSubmissionClaimRecord =
  cr_tenant_id :: string
  cr_idempotency_key :: string
  cr_request_hash :: string
  cr_status :: DpmSimulationSubmissionStatus
  cr_claim_token :: string
  cr_claimed_at :: int
  cr_claim_expires_at :: int
  cr_rebalance_run_id :: "string option"
  cr_completed_at :: "int option"

record DpmAsyncOperationRecord =
  ao_tenant_id :: "string option"
  ao_operation_id :: string
  ao_operation_type :: string
  ao_status :: DpmAsyncOperationStatus
  ao_correlation_id :: string
  ao_created_at :: int
  ao_started_at :: "int option"
  ao_finished_at :: "int option"
  ao_result_json :: "json_dict option"
  ao_error_json :: "(string, string) dict option"
  ao_request_json :: "json_dict option"
  ao_execution_token :: "string option"
  ao_execution_attempt :: nat
  ao_execution_claimed_at :: "int option"
  ao_execution_lease_expires_at :: "int option"

record DpmRunWorkflowDecisionRecord =
  wd_decision_id :: string
  wd_run_id :: string
  wd_action :: DpmWorkflowActionType
  wd_reason_code :: string
  wd_comment :: "string option"
  wd_actor_id :: string
  wd_decided_at :: int
  wd_correlation_id :: string

record DpmLineageEdgeRecord =
  ed_tenant_id :: "string option"
  ed_source_entity_id :: string
  ed_edge_type :: DpmLineageEdgeType
  ed_target_entity_id :: string
  ed_created_at :: int
  ed_metadata_json :: json_dict

record DpmSupportabilitySummaryData =
  su_run_count :: nat
  su_operation_count :: nat
  su_operation_status_counts :: "(string, nat) dict"
  su_run_status_counts :: "(string, nat) dict"
  su_workflow_decision_count :: nat
  su_workflow_action_counts :: "(string, nat) dict"
  su_workflow_reason_code_counts :: "(string, nat) dict"
  su_lineage_edge_count :: nat
  su_oldest_run_created_at :: "int option"
  su_newest_run_created_at :: "int option"
  su_oldest_operation_created_at :: "int option"
  su_newest_operation_created_at :: "int option"

record InMemoryDpmRunRepository =
  st_runs :: "(string, DpmRunRecord) dict"
  st_run_id_by_correlation :: "(string, string) dict"
  st_idempotency :: "(string option \<times> string, DpmRunIdempotencyRecord) dict"
  st_idempotency_history :: "(string option \<times> string, DpmRunIdempotencyHistoryRecord list) dict"
  st_submission_claims :: "(string \<times> string, DpmSimulationSubmissionClaimRecord) dict"
  st_run_artifacts :: "(string, json_dict) dict"
  st_operations :: "(string, DpmAsyncOperationRecord) dict"
  st_operation_by_correlation :: "(string option \<times> string, string) dict"
  st_workflow_decisions :: "(string, DpmRunWorkflowDecisionRecord list) dict"
  st_lineage_edges_by_entity :: "(string, DpmLineageEdgeRecord list) dict"

definition empty_run_repository :: InMemoryDpmRunRepository where
  "empty_run_repository =
     \<lparr> st_runs = [], st_run_id_by_correlation = [], st_idempotency = [], st_idempotency_history = [],
       st_submission_claims = [], st_run_artifacts = [], st_operations = [], st_operation_by_correlation = [],
       st_workflow_decisions = [], st_lineage_edges_by_entity = [] \<rparr>"

text \<open>The exceptions of the run repository and of the service above it.\<close>

datatype run_error =
    DpmRunRepositoryConflictError string
  | DpmRunNotFoundError string
  | DpmAsyncOperationConflictError string
  | DpmWorkflowDisabledError string
  | DpmWorkflowTransitionError string
  | RunValueError string

type_synonym 'a run_result = "run_error + 'a"


subsection \<open>Submission claims\<close>

definition claim_reclaimable :: "string \<Rightarrow> int \<Rightarrow> DpmSimulationSubmissionClaimRecord \<Rightarrow> bool" where
  "claim_reclaimable request_hash claimed_at c \<longleftrightarrow>
     cr_status c = CLAIM_IN_PROGRESS \<and> cr_request_hash c = request_hash \<and> cr_claim_expires_at c \<le> claimed_at"

definition claim_simulation_submission ::
  "string \<Rightarrow> string \<Rightarrow> string \<Rightarrow> string \<Rightarrow> int \<Rightarrow> int \<Rightarrow> InMemoryDpmRunRepository
     \<Rightarrow> DpmSimulationSubmissionClaimRecord \<times> InMemoryDpmRunRepository" where
  "claim_simulation_submission tenant key request_hash token claimed_at expires_at repo =
     (let fresh = \<lparr> cr_tenant_id = tenant, cr_idempotency_key = key, cr_request_hash = request_hash,
                    cr_status = CLAIM_IN_PROGRESS, cr_claim_token = token, cr_claimed_at = claimed_at,
                    cr_claim_expires_at = expires_at, cr_rebalance_run_id = None, cr_completed_at = None \<rparr>;
          store = repo\<lparr> st_submission_claims := dict_set (tenant, key) fresh (st_submission_claims repo) \<rparr>
      in case dict_get (st_submission_claims repo) (tenant, key) of
           None \<Rightarrow> (fresh, store)
         | Some existing \<Rightarrow>
             if claim_reclaimable request_hash claimed_at existing then (fresh, store) else (existing, repo))"

definition get_simulation_submission_claim ::
  "InMemoryDpmRunRepository \<Rightarrow> string \<Rightarrow> string \<Rightarrow> DpmSimulationSubmissionClaimRecord option" where
  "get_simulation_submission_claim repo tenant key = dict_get (st_submission_claims repo) (tenant, key)"

definition abandon_simulation_submission_claim ::
  "string \<Rightarrow> string \<Rightarrow> string \<Rightarrow> int \<Rightarrow> InMemoryDpmRunRepository \<Rightarrow> InMemoryDpmRunRepository" where
  "abandon_simulation_submission_claim tenant key token abandoned_at repo =
     (case dict_get (st_submission_claims repo) (tenant, key) of
        None \<Rightarrow> repo
      | Some c \<Rightarrow>
          if cr_status c = CLAIM_IN_PROGRESS \<and> cr_claim_token c = token
          then repo\<lparr> st_submission_claims :=
                       dict_set (tenant, key) (c\<lparr> cr_claim_expires_at := abandoned_at \<rparr>) (st_submission_claims repo) \<rparr>
          else repo)"

text \<open>\<open>d.setdefault(k, []).append(v)\<close>.\<close>

definition append_to :: "'k \<Rightarrow> 'v \<Rightarrow> ('k, 'v list) dict \<Rightarrow> ('k, 'v list) dict" where
  "append_to k v d = dict_set k (dict_get_or d k [] @ [v]) d"

definition index_lineage_edge ::
  "DpmLineageEdgeRecord \<Rightarrow> (string, DpmLineageEdgeRecord list) dict \<Rightarrow> (string, DpmLineageEdgeRecord list) dict" where
  "index_lineage_edge edge table =
     (let table' = append_to (ed_source_entity_id edge) edge table
      in if ed_target_entity_id edge \<noteq> ed_source_entity_id edge
         then append_to (ed_target_entity_id edge) edge table' else table')"

definition append_lineage_edge :: "DpmLineageEdgeRecord \<Rightarrow> InMemoryDpmRunRepository \<Rightarrow> InMemoryDpmRunRepository" where
  "append_lineage_edge edge repo =
     repo\<lparr> st_lineage_edges_by_entity := index_lineage_edge edge (st_lineage_edges_by_entity repo) \<rparr>"

definition list_lineage_edges :: "InMemoryDpmRunRepository \<Rightarrow> string \<Rightarrow> DpmLineageEdgeRecord list" where
  "list_lineage_edges repo entity = dict_get_or (st_lineage_edges_by_entity repo) entity []"

definition save_run :: "DpmRunRecord \<Rightarrow> InMemoryDpmRunRepository \<Rightarrow> InMemoryDpmRunRepository" where
  "save_run run repo =
     repo\<lparr> st_runs := dict_set (rr_rebalance_run_id run) run (st_runs repo),
           st_run_id_by_correlation :=
             dict_set (rr_correlation_id run) (rr_rebalance_run_id run) (st_run_id_by_correlation repo) \<rparr>"

definition save_run_artifact :: "string \<Rightarrow> json_dict \<Rightarrow> InMemoryDpmRunRepository \<Rightarrow> InMemoryDpmRunRepository" where
  "save_run_artifact run_id artifact repo =
     repo\<lparr> st_run_artifacts := dict_set run_id artifact (st_run_artifacts repo) \<rparr>"

definition get_run_artifact :: "InMemoryDpmRunRepository \<Rightarrow> string \<Rightarrow> json_dict option" where
  "get_run_artifact repo run_id = dict_get (st_run_artifacts repo) run_id"

definition save_idempotency_mapping ::
  "DpmRunIdempotencyRecord \<Rightarrow> InMemoryDpmRunRepository \<Rightarrow> InMemoryDpmRunRepository" where
  "save_idempotency_mapping m repo =
     repo\<lparr> st_idempotency := dict_set (ri_tenant_id m, ri_idempotency_key m) m (st_idempotency repo) \<rparr>"

definition append_idempotency_history ::
  "DpmRunIdempotencyHistoryRecord \<Rightarrow> InMemoryDpmRunRepository \<Rightarrow> InMemoryDpmRunRepository" where
  "append_idempotency_history h repo =
     repo\<lparr> st_idempotency_history :=
             append_to (rh_tenant_id h, rh_idempotency_key h) h (st_idempotency_history repo) \<rparr>"

definition owns_claim :: "string \<Rightarrow> string \<Rightarrow> DpmSimulationSubmissionClaimRecord \<Rightarrow> bool" where
  "owns_claim request_hash token c \<longleftrightarrow>
     cr_status c = CLAIM_IN_PROGRESS \<and> cr_claim_token c = token \<and> cr_request_hash c = request_hash"

definition complete_simulation_submission ::
  "string \<Rightarrow> string \<Rightarrow> string \<Rightarrow> string \<Rightarrow> DpmRunRecord \<Rightarrow> json_dict option \<Rightarrow> DpmRunIdempotencyHistoryRecord
     \<Rightarrow> DpmLineageEdgeRecord list \<Rightarrow> int \<Rightarrow> InMemoryDpmRunRepository \<Rightarrow> InMemoryDpmRunRepository run_result" where
  "complete_simulation_submission tenant key request_hash token run artifact history edges completed_at repo =
     (case dict_get (st_submission_claims repo) (tenant, key) of
        None \<Rightarrow> Inl (DpmRunRepositoryConflictError ''DPM_SIMULATION_SUBMISSION_CLAIM_LOST'')
      | Some c \<Rightarrow>
          if \<not> owns_claim request_hash token c
          then Inl (DpmRunRepositoryConflictError ''DPM_SIMULATION_SUBMISSION_CLAIM_LOST'')
          else
            let repo = save_run run repo;
                repo = (case artifact of
                          None \<Rightarrow> repo | Some a \<Rightarrow> save_run_artifact (rr_rebalance_run_id run) a repo);
                repo = repo\<lparr> st_idempotency := dict_set (Some tenant, key)
                         \<lparr> ri_tenant_id = Some tenant, ri_idempotency_key = key, ri_request_hash = request_hash,
                           ri_rebalance_run_id = rr_rebalance_run_id run, ri_created_at = completed_at \<rparr>
                         (st_idempotency repo),
                       st_idempotency_history := append_to (Some tenant, key) history (st_idempotency_history repo) \<rparr>;
                repo = fold append_lineage_edge edges repo
            in Inr (repo\<lparr> st_submission_claims := dict_set (tenant, key)
                 (c\<lparr> cr_status := CLAIM_COMPLETED, cr_rebalance_run_id := Some (rr_rebalance_run_id run),
                     cr_completed_at := Some completed_at, cr_claim_expires_at := completed_at \<rparr>)
                 (st_submission_claims repo) \<rparr>))"


subsection \<open>Runs\<close>

definition save_run_with_lineage ::
  "DpmRunRecord \<Rightarrow> DpmLineageEdgeRecord list \<Rightarrow> InMemoryDpmRunRepository \<Rightarrow> InMemoryDpmRunRepository run_result" where
  "save_run_with_lineage run edges repo =
     (if \<exists>edge \<in> set edges. ed_tenant_id edge \<noteq> rr_tenant_id run
                          \<or> ed_target_entity_id edge \<noteq> rr_rebalance_run_id run
      then Inl (RunValueError ''DPM_RUN_LINEAGE_SCOPE_MISMATCH'')
      else if rr_rebalance_run_id run \<in> set (dict_keys (st_runs repo))
              \<or> rr_correlation_id run \<in> set (dict_keys (st_run_id_by_correlation repo))
      then Inl (DpmRunRepositoryConflictError ''DPM_RUN_ALREADY_EXISTS'')
      else Inr (fold append_lineage_edge edges (save_run run repo)))"

definition get_run :: "InMemoryDpmRunRepository \<Rightarrow> string \<Rightarrow> DpmRunRecord option" where
  "get_run repo run_id = dict_get (st_runs repo) run_id"

definition get_run_for_tenant :: "InMemoryDpmRunRepository \<Rightarrow> string \<Rightarrow> string \<Rightarrow> DpmRunRecord option" where
  "get_run_for_tenant repo tenant run_id =
     (case get_run repo run_id of
        None \<Rightarrow> None | Some run \<Rightarrow> if rr_tenant_id run = Some tenant then Some run else None)"

definition get_run_by_correlation :: "InMemoryDpmRunRepository \<Rightarrow> string \<Rightarrow> DpmRunRecord option" where
  "get_run_by_correlation repo correlation =
     (case dict_get (st_run_id_by_correlation repo) correlation of
        None \<Rightarrow> None | Some run_id \<Rightarrow> dict_get (st_runs repo) run_id)"

definition run_key :: "DpmRunRecord \<Rightarrow> int \<times> string" where
  "run_key run = (rr_created_at run, rr_rebalance_run_id run)"

definition get_run_by_correlation_for_tenant ::
  "InMemoryDpmRunRepository \<Rightarrow> string \<Rightarrow> string \<Rightarrow> DpmRunRecord option" where
  "get_run_by_correlation_for_tenant repo tenant correlation =
     latest_row run_key
       (filter (\<lambda>run. rr_tenant_id run = Some tenant \<and> rr_correlation_id run = correlation) (dict_values (st_runs repo)))"

definition get_run_by_request_hash :: "InMemoryDpmRunRepository \<Rightarrow> string \<Rightarrow> DpmRunRecord option" where
  "get_run_by_request_hash repo request_hash =
     latest_row run_key (filter (\<lambda>run. rr_request_hash run = request_hash) (dict_values (st_runs repo)))"

definition get_run_by_request_hash_for_tenant ::
  "InMemoryDpmRunRepository \<Rightarrow> string \<Rightarrow> string \<Rightarrow> DpmRunRecord option" where
  "get_run_by_request_hash_for_tenant repo tenant request_hash =
     latest_row run_key
       (filter (\<lambda>run. rr_tenant_id run = Some tenant \<and> rr_request_hash run = request_hash) (dict_values (st_runs repo)))"

text \<open>
  \<open>str(value)\<close> of a JSON value: strings as they are, everything else as Python prints it, with
  \<open>repr\<close> for what a list or dictionary holds.
\<close>

definition py_repr_char :: "char \<Rightarrow> char \<Rightarrow> string" where
  "py_repr_char quote c =
     (let n = of_char c :: nat
      in if c = quote \<or> c = CHR 0x5C then [CHR 0x5C, c]
         else if c = CHR 0x0A then [CHR 0x5C, CHR ''n'']
         else if c = CHR 0x0D then [CHR 0x5C, CHR ''r'']
         else if c = CHR 0x09 then [CHR 0x5C, CHR ''t'']
         else if n < 32 \<or> 127 \<le> n \<and> n \<le> 160 \<or> n = 173
         then [CHR 0x5C, CHR ''x'', hex_char (n div 16), hex_char (n mod 16)]
         else [c])"

definition py_repr_str :: "string \<Rightarrow> string" where
  "py_repr_str s =
     (let quote = (if CHR 0x27 \<in> set s \<and> CHR 0x22 \<notin> set s then CHR 0x22 else CHR 0x27)
      in quote # concat (map (py_repr_char quote) s) @ [quote])"

fun join_list :: "string list \<Rightarrow> string" where
  "join_list [] = []"
| "join_list [x] = x"
| "join_list (x # y # zs) = x @ '', '' @ join_list (y # zs)"

fun py_repr :: "json \<Rightarrow> string" where
  "py_repr JNull = ''None''"
| "py_repr (JBool b) = (if b then ''True'' else ''False'')"
| "py_repr (JInt i) = int_str i"
| "py_repr (JStr s) = py_repr_str s"
| "py_repr (JList xs) = CHR ''['' # join_list (map py_repr xs) @ '']''"
| "py_repr (JObj kvs) =
     CHR ''{'' # join_list (map (\<lambda>(k, v). py_repr_str k @ '': '' @ v) (map (\<lambda>(k, v). (k, py_repr v)) kvs)) @ ''}''"

definition py_str :: "json \<Rightarrow> string" where
  "py_str v = (case v of JStr s \<Rightarrow> s | _ \<Rightarrow> py_repr v)"

definition result_status :: "json_dict \<Rightarrow> string" where
  "result_status result_json = (case dict_get result_json ''status'' of None \<Rightarrow> '''' | Some v \<Rightarrow> py_str v)"

record RunListFilters =
  rf_created_from :: "int option"
  rf_created_to :: "int option"
  rf_status :: "string option"
  rf_request_hash :: "string option"
  rf_portfolio_id :: "string option"

record OperationListFilters =
  of_created_from :: "int option"
  of_created_to :: "int option"
  of_operation_type :: "string option"
  of_status :: "string option"
  of_correlation_id :: "string option"

record WorkflowDecisionFilters =
  df_rebalance_run_id :: "string option"
  df_action :: "string option"
  df_actor_id :: "string option"
  df_reason_code :: "string option"
  df_decided_from :: "int option"
  df_decided_to :: "int option"

definition on_or_after :: "int \<Rightarrow> int option \<Rightarrow> bool" where
  "on_or_after v bound \<longleftrightarrow> (case bound of None \<Rightarrow> True | Some b \<Rightarrow> b \<le> v)"

definition on_or_before :: "int \<Rightarrow> int option \<Rightarrow> bool" where
  "on_or_before v bound \<longleftrightarrow> (case bound of None \<Rightarrow> True | Some b \<Rightarrow> v \<le> b)"

definition optional_value_matches :: "'a \<Rightarrow> 'a option \<Rightarrow> bool" where
  "optional_value_matches v expected \<longleftrightarrow> expected = None \<or> expected = Some v"

definition run_matches_filters :: "DpmRunRecord \<Rightarrow> RunListFilters \<Rightarrow> bool" where
  "run_matches_filters run f \<longleftrightarrow>
     on_or_after (rr_created_at run) (rf_created_from f) \<and> on_or_before (rr_created_at run) (rf_created_to f)
     \<and> optional_value_matches (result_status (rr_result_json run)) (rf_status f)
     \<and> optional_value_matches (rr_request_hash run) (rf_request_hash f)
     \<and> optional_value_matches (rr_portfolio_id run) (rf_portfolio_id f)"

definition operation_matches_filters :: "DpmAsyncOperationRecord \<Rightarrow> OperationListFilters \<Rightarrow> bool" where
  "operation_matches_filters oper f \<longleftrightarrow>
     on_or_after (ao_created_at oper) (of_created_from f) \<and> on_or_before (ao_created_at oper) (of_created_to f)
     \<and> optional_value_matches (ao_operation_type oper) (of_operation_type f)
     \<and> optional_value_matches (async_status_text (ao_status oper)) (of_status f)
     \<and> optional_value_matches (ao_correlation_id oper) (of_correlation_id f)"

definition workflow_decision_matches_filters :: "DpmRunWorkflowDecisionRecord \<Rightarrow> WorkflowDecisionFilters \<Rightarrow> bool" where
  "workflow_decision_matches_filters d f \<longleftrightarrow>
     optional_value_matches (wd_run_id d) (df_rebalance_run_id f)
     \<and> optional_value_matches (workflow_action_text (wd_action d)) (df_action f)
     \<and> optional_value_matches (wd_actor_id d) (df_actor_id f)
     \<and> optional_value_matches (wd_reason_code d) (df_reason_code f)
     \<and> on_or_after (wd_decided_at d) (df_decided_from f) \<and> on_or_before (wd_decided_at d) (df_decided_to f)"

definition cursor_page ::
  "('a \<Rightarrow> string) \<Rightarrow> nat \<Rightarrow> string option \<Rightarrow> 'a list \<Rightarrow> ('a list \<times> string option) result" where
  "cursor_page ident limit cursor rows = row_page ident limit cursor rows"

definition sorted_filtered_runs :: "DpmRunRecord list \<Rightarrow> RunListFilters \<Rightarrow> DpmRunRecord list" where
  "sorted_filtered_runs rows f = sort_descending run_key (filter (\<lambda>r. run_matches_filters r f) rows)"

definition list_runs ::
  "InMemoryDpmRunRepository \<Rightarrow> RunListFilters \<Rightarrow> nat \<Rightarrow> string option \<Rightarrow> (DpmRunRecord list \<times> string option) result" where
  "list_runs repo f limit cursor =
     cursor_page rr_rebalance_run_id limit cursor (sorted_filtered_runs (dict_values (st_runs repo)) f)"

definition list_runs_for_tenant ::
  "InMemoryDpmRunRepository \<Rightarrow> string \<Rightarrow> RunListFilters \<Rightarrow> nat \<Rightarrow> string option
     \<Rightarrow> (DpmRunRecord list \<times> string option) result" where
  "list_runs_for_tenant repo tenant f limit cursor =
     cursor_page rr_rebalance_run_id limit cursor
       (sorted_filtered_runs (filter (\<lambda>r. rr_tenant_id r = Some tenant) (dict_values (st_runs repo))) f)"


subsection \<open>Idempotency\<close>

definition get_idempotency_mapping :: "InMemoryDpmRunRepository \<Rightarrow> string \<Rightarrow> DpmRunIdempotencyRecord option" where
  "get_idempotency_mapping repo key = map_option snd (List.find (\<lambda>(k, _). snd k = key) (st_idempotency repo))"

definition get_idempotency_mapping_for_tenant ::
  "InMemoryDpmRunRepository \<Rightarrow> string \<Rightarrow> string \<Rightarrow> DpmRunIdempotencyRecord option" where
  "get_idempotency_mapping_for_tenant repo tenant key = dict_get (st_idempotency repo) (Some tenant, key)"

definition list_idempotency_history :: "InMemoryDpmRunRepository \<Rightarrow> string \<Rightarrow> DpmRunIdempotencyHistoryRecord list" where
  "list_idempotency_history repo key =
     (case List.find (\<lambda>(k, _). snd k = key) (st_idempotency_history repo) of None \<Rightarrow> [] | Some kv \<Rightarrow> snd kv)"

definition list_idempotency_history_for_tenant ::
  "InMemoryDpmRunRepository \<Rightarrow> string \<Rightarrow> string \<Rightarrow> DpmRunIdempotencyHistoryRecord list" where
  "list_idempotency_history_for_tenant repo tenant key =
     dict_get_or (st_idempotency_history repo) (Some tenant, key) []"


subsection \<open>Asynchronous operations\<close>

definition save_operation ::
  "DpmAsyncOperationRecord \<Rightarrow> InMemoryDpmRunRepository \<Rightarrow> InMemoryDpmRunRepository run_result" where
  "save_operation oper repo =
     (let correlation_key = (ao_tenant_id oper, ao_correlation_id oper);
          existing = dict_get (st_operation_by_correlation repo) correlation_key
      in if existing \<noteq> None \<and> existing \<noteq> Some (ao_operation_id oper)
         then Inl (DpmRunRepositoryConflictError ''DPM_ASYNC_OPERATION_CORRELATION_CONFLICT'')
         else Inr (repo\<lparr> st_operations := dict_set (ao_operation_id oper) oper (st_operations repo),
                         st_operation_by_correlation :=
                           dict_set correlation_key (ao_operation_id oper) (st_operation_by_correlation repo) \<rparr>))"

definition create_operation ::
  "DpmAsyncOperationRecord \<Rightarrow> InMemoryDpmRunRepository \<Rightarrow> InMemoryDpmRunRepository run_result" where
  "create_operation oper repo = save_operation oper repo"

definition update_operation ::
  "DpmAsyncOperationRecord \<Rightarrow> InMemoryDpmRunRepository \<Rightarrow> InMemoryDpmRunRepository run_result" where
  "update_operation oper repo = save_operation oper repo"

definition lease_expired :: "int \<Rightarrow> DpmAsyncOperationRecord \<Rightarrow> bool" where
  "lease_expired now oper \<longleftrightarrow>
     ao_status oper = ASYNC_RUNNING
     \<and> (case ao_execution_lease_expires_at oper of None \<Rightarrow> False | Some l \<Rightarrow> l \<le> now)"

definition claimed_operation :: "string \<Rightarrow> int \<Rightarrow> int \<Rightarrow> DpmAsyncOperationRecord \<Rightarrow> DpmAsyncOperationRecord" where
  "claimed_operation token claimed_at lease_expires_at oper =
     oper\<lparr> ao_status := ASYNC_RUNNING, ao_started_at := Some claimed_at, ao_finished_at := None,
           ao_result_json := None, ao_error_json := None, ao_execution_token := Some token,
           ao_execution_attempt := ao_execution_attempt oper + 1, ao_execution_claimed_at := Some claimed_at,
           ao_execution_lease_expires_at := Some lease_expires_at \<rparr>"

definition set_operation ::
  "string \<Rightarrow> DpmAsyncOperationRecord \<Rightarrow> InMemoryDpmRunRepository \<Rightarrow> InMemoryDpmRunRepository" where
  "set_operation oid oper repo = repo\<lparr> st_operations := dict_set oid oper (st_operations repo) \<rparr>"

definition claim_operation_execution ::
  "string \<Rightarrow> string \<Rightarrow> string \<Rightarrow> int \<Rightarrow> int \<Rightarrow> InMemoryDpmRunRepository
     \<Rightarrow> DpmAsyncOperationRecord option \<times> InMemoryDpmRunRepository" where
  "claim_operation_execution tenant oid token claimed_at lease_expires_at repo =
     (case dict_get (st_operations repo) oid of
        None \<Rightarrow> (None, repo)
      | Some oper \<Rightarrow>
          if ao_tenant_id oper \<noteq> Some tenant then (None, repo)
          else if ao_request_json oper = None \<or> \<not> (ao_status oper = ASYNC_PENDING \<or> lease_expired claimed_at oper)
          then (None, repo)
          else let oper' = claimed_operation token claimed_at lease_expires_at oper
               in (Some oper', set_operation oid oper' repo))"

definition holds_execution :: "string \<Rightarrow> string \<Rightarrow> DpmAsyncOperationRecord \<Rightarrow> bool" where
  "holds_execution tenant token oper \<longleftrightarrow>
     ao_tenant_id oper = Some tenant \<and> ao_status oper = ASYNC_RUNNING \<and> ao_execution_token oper = Some token"

definition publish_operation_success ::
  "string \<Rightarrow> string \<Rightarrow> string \<Rightarrow> json_dict \<Rightarrow> int \<Rightarrow> InMemoryDpmRunRepository \<Rightarrow> bool \<times> InMemoryDpmRunRepository" where
  "publish_operation_success tenant oid token result_json finished_at repo =
     (case dict_get (st_operations repo) oid of
        None \<Rightarrow> (False, repo)
      | Some oper \<Rightarrow>
          if \<not> holds_execution tenant token oper then (False, repo)
          else (True, set_operation oid
                  (oper\<lparr> ao_status := ASYNC_SUCCEEDED, ao_result_json := Some result_json, ao_error_json := None,
                         ao_finished_at := Some finished_at, ao_execution_lease_expires_at := None \<rparr>) repo))"

definition publish_operation_failure ::
  "string \<Rightarrow> string \<Rightarrow> string \<Rightarrow> (string, string) dict \<Rightarrow> int \<Rightarrow> InMemoryDpmRunRepository
     \<Rightarrow> bool \<times> InMemoryDpmRunRepository" where
  "publish_operation_failure tenant oid token error_json finished_at repo =
     (case dict_get (st_operations repo) oid of
        None \<Rightarrow> (False, repo)
      | Some oper \<Rightarrow>
          if \<not> holds_execution tenant token oper then (False, repo)
          else (True, set_operation oid
                  (oper\<lparr> ao_status := ASYNC_FAILED, ao_result_json := None, ao_error_json := Some error_json,
                         ao_finished_at := Some finished_at, ao_execution_lease_expires_at := None \<rparr>) repo))"

definition get_operation :: "InMemoryDpmRunRepository \<Rightarrow> string \<Rightarrow> DpmAsyncOperationRecord option" where
  "get_operation repo oid = dict_get (st_operations repo) oid"

definition get_operation_for_tenant ::
  "InMemoryDpmRunRepository \<Rightarrow> string \<Rightarrow> string \<Rightarrow> DpmAsyncOperationRecord option" where
  "get_operation_for_tenant repo tenant oid =
     (case get_operation repo oid of
        None \<Rightarrow> None | Some oper \<Rightarrow> if ao_tenant_id oper = Some tenant then Some oper else None)"

definition get_operation_by_correlation :: "InMemoryDpmRunRepository \<Rightarrow> string \<Rightarrow> DpmAsyncOperationRecord option" where
  "get_operation_by_correlation repo correlation =
     (case List.find (\<lambda>(k, _). snd k = correlation) (st_operation_by_correlation repo) of
        None \<Rightarrow> None | Some kv \<Rightarrow> dict_get (st_operations repo) (snd kv))"

definition get_operation_by_correlation_for_tenant ::
  "InMemoryDpmRunRepository \<Rightarrow> string \<Rightarrow> string \<Rightarrow> DpmAsyncOperationRecord option" where
  "get_operation_by_correlation_for_tenant repo tenant correlation =
     (case dict_get (st_operation_by_correlation repo) (Some tenant, correlation) of
        None \<Rightarrow> None | Some oid \<Rightarrow> dict_get (st_operations repo) oid)"

definition operation_key :: "DpmAsyncOperationRecord \<Rightarrow> int \<times> string" where
  "operation_key oper = (ao_created_at oper, ao_operation_id oper)"

definition sorted_filtered_operations ::
  "DpmAsyncOperationRecord list \<Rightarrow> OperationListFilters \<Rightarrow> DpmAsyncOperationRecord list" where
  "sorted_filtered_operations rows f = sort_descending operation_key (filter (\<lambda>r. operation_matches_filters r f) rows)"

definition list_operations ::
  "InMemoryDpmRunRepository \<Rightarrow> OperationListFilters \<Rightarrow> nat \<Rightarrow> string option
     \<Rightarrow> (DpmAsyncOperationRecord list \<times> string option) result" where
  "list_operations repo f limit cursor =
     cursor_page ao_operation_id limit cursor (sorted_filtered_operations (dict_values (st_operations repo)) f)"

definition list_operations_for_tenant ::
  "InMemoryDpmRunRepository \<Rightarrow> string \<Rightarrow> OperationListFilters \<Rightarrow> nat \<Rightarrow> string option
     \<Rightarrow> (DpmAsyncOperationRecord list \<times> string option) result" where
  "list_operations_for_tenant repo tenant f limit cursor =
     cursor_page ao_operation_id limit cursor
       (sorted_filtered_operations (filter (\<lambda>oper. ao_tenant_id oper = Some tenant) (dict_values (st_operations repo))) f)"

definition operation_anchor :: "DpmAsyncOperationRecord \<Rightarrow> int" where
  "operation_anchor oper = (case ao_finished_at oper of None \<Rightarrow> ao_created_at oper | Some t \<Rightarrow> t)"

definition operation_expired :: "int \<Rightarrow> DpmAsyncOperationRecord \<Rightarrow> bool" where
  "operation_expired cutoff oper \<longleftrightarrow> ao_status oper \<noteq> ASYNC_RUNNING \<and> operation_anchor oper < cutoff"

definition purge_operation ::
  "int \<Rightarrow> string \<times> DpmAsyncOperationRecord \<Rightarrow> nat \<times> InMemoryDpmRunRepository \<Rightarrow> nat \<times> InMemoryDpmRunRepository" where
  "purge_operation cutoff = (\<lambda>(oid, oper) (removed, repo).
     if \<not> operation_expired cutoff oper then (removed, repo)
     else
       let correlation_key = (ao_tenant_id oper, ao_correlation_id oper)
       in (removed + 1,
           repo\<lparr> st_operations := AList.delete oid (st_operations repo),
                 st_operation_by_correlation :=
                   (if dict_get (st_operation_by_correlation repo) correlation_key = Some oid
                    then AList.delete correlation_key (st_operation_by_correlation repo)
                    else st_operation_by_correlation repo) \<rparr>))"

definition purge_expired_operations ::
  "int \<Rightarrow> int \<Rightarrow> InMemoryDpmRunRepository \<Rightarrow> nat \<times> InMemoryDpmRunRepository" where
  "purge_expired_operations ttl_seconds now repo =
     fold (purge_operation (now - ttl_seconds * 1000000)) (st_operations repo) (0, repo)"


subsection \<open>Workflow decisions\<close>

definition append_workflow_decision ::
  "DpmRunWorkflowDecisionRecord \<Rightarrow> InMemoryDpmRunRepository \<Rightarrow> InMemoryDpmRunRepository" where
  "append_workflow_decision d repo =
     repo\<lparr> st_workflow_decisions := append_to (wd_run_id d) d (st_workflow_decisions repo) \<rparr>"

definition list_workflow_decisions :: "InMemoryDpmRunRepository \<Rightarrow> string \<Rightarrow> DpmRunWorkflowDecisionRecord list" where
  "list_workflow_decisions repo run_id = dict_get_or (st_workflow_decisions repo) run_id []"

definition workflow_decision_page ::
  "DpmRunWorkflowDecisionRecord list \<Rightarrow> nat \<Rightarrow> string option \<Rightarrow> (DpmRunWorkflowDecisionRecord list \<times> string option) result" where
  "workflow_decision_page rows limit cursor = row_page wd_decision_id limit cursor rows"

definition list_workflow_decisions_filtered ::
  "InMemoryDpmRunRepository \<Rightarrow> WorkflowDecisionFilters \<Rightarrow> nat \<Rightarrow> string option
     \<Rightarrow> (DpmRunWorkflowDecisionRecord list \<times> string option) result" where
  "list_workflow_decisions_filtered repo f limit cursor =
     workflow_decision_page
       (sort_descending (\<lambda>d. (wd_decided_at d, wd_decision_id d))
          (filter (\<lambda>d. workflow_decision_matches_filters d f) (concat (dict_values (st_workflow_decisions repo)))))
       limit cursor"


subsection \<open>Retention of runs\<close>

record ExpiredRunIdentities =
  ex_run_ids :: "string set"
  ex_correlation_ids :: "string set"
  ex_idempotency_keys :: "string set"

definition lineage_entity_ids :: "ExpiredRunIdentities \<Rightarrow> string set" where
  "lineage_entity_ids e = ex_run_ids e \<union> ex_correlation_ids e \<union> ex_idempotency_keys e"

definition expired_runs :: "(string, DpmRunRecord) dict \<Rightarrow> int \<Rightarrow> DpmRunRecord list" where
  "expired_runs runs cutoff = filter (\<lambda>run. rr_created_at run < cutoff) (dict_values runs)"

definition run_idempotency_keys :: "DpmRunRecord list \<Rightarrow> string list" where
  "run_idempotency_keys rows =
     concat (map (\<lambda>run. case rr_idempotency_key run of None \<Rightarrow> [] | Some k \<Rightarrow> if k = '''' then [] else [k]) rows)"

definition expired_run_identities :: "DpmRunRecord list \<Rightarrow> ExpiredRunIdentities" where
  "expired_run_identities rows =
     \<lparr> ex_run_ids = set (map rr_rebalance_run_id rows), ex_correlation_ids = set (map rr_correlation_id rows),
       ex_idempotency_keys = set (run_idempotency_keys rows) \<rparr>"

definition purge_run_record :: "DpmRunRecord \<Rightarrow> InMemoryDpmRunRepository \<Rightarrow> InMemoryDpmRunRepository" where
  "purge_run_record run repo =
     repo\<lparr> st_runs := AList.delete (rr_rebalance_run_id run) (st_runs repo),
           st_run_artifacts := AList.delete (rr_rebalance_run_id run) (st_run_artifacts repo),
           st_run_id_by_correlation :=
             (if dict_get (st_run_id_by_correlation repo) (rr_correlation_id run) = Some (rr_rebalance_run_id run)
              then AList.delete (rr_correlation_id run) (st_run_id_by_correlation repo)
              else st_run_id_by_correlation repo) \<rparr>"

definition purge_expired_run_records :: "DpmRunRecord list \<Rightarrow> InMemoryDpmRunRepository \<Rightarrow> InMemoryDpmRunRepository" where
  "purge_expired_run_records rows repo = fold purge_run_record rows repo"

definition purge_expired_idempotency_mappings ::
  "ExpiredRunIdentities \<Rightarrow> (string option \<times> string, DpmRunIdempotencyRecord) dict
     \<Rightarrow> ExpiredRunIdentities \<times> (string option \<times> string, DpmRunIdempotencyRecord) dict" where
  "purge_expired_idempotency_mappings e table =
     fold (\<lambda>(key, mapping) (e', table').
             if ri_rebalance_run_id mapping \<in> ex_run_ids e
             then (e'\<lparr> ex_idempotency_keys := insert (ri_idempotency_key mapping) (ex_idempotency_keys e') \<rparr>,
                   AList.delete key table')
             else (e', table'))
       table (e, table)"

text \<open>Keep the rows of every list that satisfy \<open>keep\<close> and drop the keys left without rows.\<close>

definition retain_rows :: "('v \<Rightarrow> bool) \<Rightarrow> ('k, 'v list) dict \<Rightarrow> ('k, 'v list) dict" where
  "retain_rows keep table =
     fold (\<lambda>(key, rows) table'.
             let filtered = filter keep rows
             in if filtered \<noteq> [] then dict_set key filtered table' else AList.delete key table')
       table table"

definition purge_expired_idempotency_history ::
  "ExpiredRunIdentities \<Rightarrow> (string option \<times> string, DpmRunIdempotencyHistoryRecord list) dict
     \<Rightarrow> (string option \<times> string, DpmRunIdempotencyHistoryRecord list) dict" where
  "purge_expired_idempotency_history e table = retain_rows (\<lambda>row. rh_rebalance_run_id row \<notin> ex_run_ids e) table"

definition purge_expired_lineage_edges ::
  "string set \<Rightarrow> (string, DpmLineageEdgeRecord list) dict \<Rightarrow> (string, DpmLineageEdgeRecord list) dict" where
  "purge_expired_lineage_edges entities table =
     retain_rows (\<lambda>edge. ed_source_entity_id edge \<notin> entities \<and> ed_target_entity_id edge \<notin> entities) table"

definition purge_expired_runs ::
  "int \<Rightarrow> int \<Rightarrow> InMemoryDpmRunRepository \<Rightarrow> nat \<times> InMemoryDpmRunRepository" where
  "purge_expired_runs retention_days now repo =
     (if retention_days < 1 then (0, repo)
      else
        let rows = expired_runs (st_runs repo) (now - retention_days * 86400000000)
        in if rows = [] then (0, repo)
           else
             let e = expired_run_identities rows;
                 repo = purge_expired_run_records rows repo;
                 (e, mappings) = purge_expired_idempotency_mappings e (st_idempotency repo)
             in (length rows,
                 repo\<lparr> st_idempotency := mappings,
                       st_idempotency_history := purge_expired_idempotency_history e (st_idempotency_history repo),
                       st_workflow_decisions :=
                         filter (\<lambda>kv. fst kv \<notin> ex_run_ids e) (st_workflow_decisions repo),
                       st_lineage_edges_by_entity :=
                         purge_expired_lineage_edges (lineage_entity_ids e) (st_lineage_edges_by_entity repo) \<rparr>))"

subsection \<open>Supportability summary\<close>

definition status_counts :: "string list \<Rightarrow> (string, nat) dict" where
  "status_counts texts =
     fold (\<lambda>v counts. if v \<noteq> '''' then dict_set v (dict_get_or counts v 0 + 1) counts else counts) texts []"

definition workflow_decision_counts ::
  "(string, DpmRunWorkflowDecisionRecord list) dict \<Rightarrow> nat \<times> (string, nat) dict \<times> (string, nat) dict" where
  "workflow_decision_counts table =
     (let decisions = concat (dict_values table)
      in (length decisions, status_counts (map (\<lambda>d. workflow_action_text (wd_action d)) decisions),
          status_counts (map wd_reason_code decisions)))"

text \<open>
  Timestamps are compared as instants where the source compares their ISO texts; the metadata is
  compared by its canonical text.
\<close>

definition lineage_edge_identity :: "DpmLineageEdgeRecord \<Rightarrow> string \<times> DpmLineageEdgeType \<times> string \<times> int \<times> string" where
  "lineage_edge_identity edge =
     (ed_source_entity_id edge, ed_edge_type edge, ed_target_entity_id edge, ed_created_at edge,
      canonical_json (JObj (ed_metadata_json edge)))"

definition unique_lineage_edge_count :: "(string, DpmLineageEdgeRecord list) dict \<Rightarrow> nat" where
  "unique_lineage_edge_count table = card (set (map lineage_edge_identity (concat (dict_values table))))"

definition datetime_bounds :: "int list \<Rightarrow> int option \<times> int option" where
  "datetime_bounds ts = (if ts = [] then (None, None) else (Some (Min (set ts)), Some (Max (set ts))))"

definition scoped_runs :: "DpmRunRecord list \<Rightarrow> string option \<Rightarrow> DpmRunRecord list" where
  "scoped_runs rows portfolio =
     (case portfolio of None \<Rightarrow> rows | Some p \<Rightarrow> filter (\<lambda>r. rr_portfolio_id r = p) rows)"

text \<open>\<open>portfolio_snapshot["portfolio_id"]\<close> of a JSON value, when both are there and of the right type.\<close>

definition snapshot_portfolio_id :: "json option \<Rightarrow> string option" where
  "snapshot_portfolio_id v =
     (case v of
        Some (JObj snapshot) \<Rightarrow> (case dict_get snapshot ''portfolio_id'' of Some (JStr p) \<Rightarrow> Some p | _ \<Rightarrow> None)
      | _ \<Rightarrow> None)"

definition operation_request_portfolio_id :: "json_dict option \<Rightarrow> string option" where
  "operation_request_portfolio_id request_json =
     (case request_json of
        None \<Rightarrow> None
      | Some request \<Rightarrow>
          (case (case dict_get request ''batch_request'' of
                   Some (JObj batch) \<Rightarrow> snapshot_portfolio_id (dict_get batch ''portfolio_snapshot'')
                 | _ \<Rightarrow> None) of
             Some p \<Rightarrow> Some p
           | None \<Rightarrow> snapshot_portfolio_id (dict_get request ''portfolio_snapshot'')))"

definition operation_matches_portfolio_scope :: "DpmAsyncOperationRecord \<Rightarrow> string \<Rightarrow> string set \<Rightarrow> bool" where
  "operation_matches_portfolio_scope oper portfolio correlations \<longleftrightarrow>
     (let request_portfolio = operation_request_portfolio_id (ao_request_json oper)
      in request_portfolio = Some portfolio
         \<or> ao_correlation_id oper \<in> correlations \<and> request_portfolio = None)"

definition scoped_operations ::
  "DpmAsyncOperationRecord list \<Rightarrow> string option \<Rightarrow> string set \<Rightarrow> DpmAsyncOperationRecord list" where
  "scoped_operations rows portfolio correlations =
     (case portfolio of
        None \<Rightarrow> rows | Some p \<Rightarrow> filter (\<lambda>r. operation_matches_portfolio_scope r p correlations) rows)"

text \<open>\<open>_scoped_workflow_decisions\<close> and \<open>_scoped_lineage_edges\<close>: the entries under the given keys.\<close>

definition scoped_table :: "(string, 'v) dict \<Rightarrow> string option \<Rightarrow> string set \<Rightarrow> (string, 'v) dict" where
  "scoped_table table portfolio ids =
     (case portfolio of None \<Rightarrow> table | Some _ \<Rightarrow> filter (\<lambda>kv. fst kv \<in> ids) table)"

definition get_supportability_summary :: "InMemoryDpmRunRepository \<Rightarrow> string option \<Rightarrow> DpmSupportabilitySummaryData" where
  "get_supportability_summary repo portfolio =
     (let runs = scoped_runs (dict_values (st_runs repo)) portfolio;
          run_ids = set (map rr_rebalance_run_id runs);
          correlations = set (map rr_correlation_id runs);
          keys = set (run_idempotency_keys runs);
          operations = scoped_operations (dict_values (st_operations repo)) portfolio correlations;
          operation_ids = set (map ao_operation_id operations);
          operation_correlations = set (filter (\<lambda>c. c \<noteq> '''') (map ao_correlation_id operations));
          decisions = scoped_table (st_workflow_decisions repo) portfolio run_ids;
          edges = scoped_table (st_lineage_edges_by_entity repo) portfolio
                    (run_ids \<union> correlations \<union> keys \<union> operation_ids \<union> operation_correlations);
          (decision_count, action_counts, reason_counts) = workflow_decision_counts decisions;
          (oldest_run, newest_run) = datetime_bounds (map rr_created_at runs);
          (oldest_operation, newest_operation) = datetime_bounds (map ao_created_at operations)
      in \<lparr> su_run_count = length runs, su_operation_count = length operations,
           su_operation_status_counts = status_counts (map (\<lambda>oper. async_status_text (ao_status oper)) operations),
           su_run_status_counts = status_counts (map (\<lambda>r. result_status (rr_result_json r)) runs),
           su_workflow_decision_count = decision_count, su_workflow_action_counts = action_counts,
           su_workflow_reason_code_counts = reason_counts,
           su_lineage_edge_count = unique_lineage_edge_count edges,
           su_oldest_run_created_at = oldest_run, su_newest_run_created_at = newest_run,
           su_oldest_operation_created_at = oldest_operation, su_newest_operation_created_at = newest_operation \<rparr>)"

section \<open>Lemmas\<close>

subsection \<open>Tables of lists\<close>

lemma dict_get_append_to [dict_simps]:
  "dict_get (append_to k v d) k' = (if k' = k then Some (dict_get_or d k [] @ [v]) else dict_get d k')"
  by (simp add: append_to_def dict_simps)

lemma dict_get_or_append_to [dict_simps]:
  "dict_get_or (append_to k v d) k' [] = (if k' = k then dict_get_or d k [] @ [v] else dict_get_or d k' [])"
  by (simp add: dict_get_or_def dict_simps)

lemma dict_ok_append_to [simp]: "dict_ok d \<Longrightarrow> dict_ok (append_to k v d)"
  by (simp add: append_to_def)

lemma dict_get_delete [dict_simps]: "dict_get (AList.delete k d) k' = (if k' = k then None else dict_get d k')"
  by (simp add: delete_conv')

lemma dict_ok_delete [simp]: "dict_ok d \<Longrightarrow> dict_ok (AList.delete k d)"
  by (rule distinct_delete)

lemma retain_rows_fold:
  assumes "distinct (map fst kvs)"
  shows "dict_get (fold (\<lambda>(key, rows) table'.
             let filtered = filter keep rows
             in if filtered \<noteq> [] then dict_set key filtered table' else AList.delete key table') kvs table) k
         = (case map_of kvs k of
              None \<Rightarrow> dict_get table k
            | Some rows \<Rightarrow> if filter keep rows = [] then None else Some (filter keep rows))"
  using assms
proof (induction kvs arbitrary: table)
  case (Cons kv kvs)
  then have "map_of kvs (fst kv) = None" by (simp add: map_of_eq_None_iff)
  with Cons show ?case by (cases kv) (auto simp: Let_def dict_simps split: option.splits)
qed simp

lemma retain_rows_get:
  assumes "dict_ok d"
  shows "dict_get (retain_rows keep d) k
         = (case dict_get d k of
              None \<Rightarrow> None | Some rows \<Rightarrow> if filter keep rows = [] then None else Some (filter keep rows))"
  unfolding retain_rows_def retain_rows_fold [OF assms] by (simp split: option.splits)

lemma retain_rows_get_or:
  "dict_ok d \<Longrightarrow> dict_get_or (retain_rows keep d) k [] = filter keep (dict_get_or d k [])"
  by (auto simp: dict_get_or_def retain_rows_get split: option.splits)

lemma dict_ok_retain_rows [simp]:
  assumes "dict_ok d"
  shows "dict_ok (retain_rows keep d)"
proof -
  have "dict_ok (fold (\<lambda>(key, rows) table'.
          let filtered = filter keep rows
          in if filtered \<noteq> [] then dict_set key filtered table' else AList.delete key table') kvs table)"
    if "dict_ok table" for kvs table
    using that by (induction kvs arbitrary: table) (auto simp: Let_def)
  then show ?thesis unfolding retain_rows_def using assms by blast
qed

lemma dict_get_filter_keys: "dict_get (filter (\<lambda>kv. fst kv \<notin> S) d) k = (if k \<in> S then None else dict_get d k)"
  by (induction d) auto

lemma dict_ok_filter [simp]: "dict_ok d \<Longrightarrow> dict_ok (filter P d)"
  by (induction d) auto


subsection \<open>Lineage\<close>

lemma lineage_after_index:
  "dict_get_or (index_lineage_edge edge table) e [] =
     (if e \<in> {ed_source_entity_id edge, ed_target_entity_id edge} then dict_get_or table e [] @ [edge]
      else dict_get_or table e [])"
  by (auto simp: index_lineage_edge_def Let_def dict_simps)

lemma list_lineage_after_append:
  "list_lineage_edges (append_lineage_edge edge repo) e =
     (if e \<in> {ed_source_entity_id edge, ed_target_entity_id edge} then list_lineage_edges repo e @ [edge]
      else list_lineage_edges repo e)"
  by (simp add: list_lineage_edges_def append_lineage_edge_def lineage_after_index)

lemma fold_append_lineage:
  "list_lineage_edges (fold append_lineage_edge edges repo) e =
     list_lineage_edges repo e @ filter (\<lambda>edge. e \<in> {ed_source_entity_id edge, ed_target_entity_id edge}) edges"
  by (induction edges arbitrary: repo) (auto simp: list_lineage_after_append)

lemma fold_append_lineage_frame [model_frame]:
  "st_runs (fold append_lineage_edge edges repo) = st_runs repo"
  "st_run_id_by_correlation (fold append_lineage_edge edges repo) = st_run_id_by_correlation repo"
  "st_idempotency (fold append_lineage_edge edges repo) = st_idempotency repo"
  "st_idempotency_history (fold append_lineage_edge edges repo) = st_idempotency_history repo"
  "st_submission_claims (fold append_lineage_edge edges repo) = st_submission_claims repo"
  "st_run_artifacts (fold append_lineage_edge edges repo) = st_run_artifacts repo"
  "st_operations (fold append_lineage_edge edges repo) = st_operations repo"
  "st_operation_by_correlation (fold append_lineage_edge edges repo) = st_operation_by_correlation repo"
  "st_workflow_decisions (fold append_lineage_edge edges repo) = st_workflow_decisions repo"
  by (induction edges arbitrary: repo) (simp_all add: append_lineage_edge_def)

lemma fold_append_lineage_ok:
  "dict_ok (st_lineage_edges_by_entity repo)
     \<Longrightarrow> dict_ok (st_lineage_edges_by_entity (fold append_lineage_edge edges repo))"
  by (induction edges arbitrary: repo) (simp_all add: append_lineage_edge_def index_lineage_edge_def Let_def)


subsection \<open>Purging\<close>

lemma purge_mappings_fold:
  fixes e0 :: ExpiredRunIdentities
  defines "step \<equiv> (\<lambda>(key, mapping) (e' :: ExpiredRunIdentities, table').
             if ri_rebalance_run_id mapping \<in> ex_run_ids e0
             then (e'\<lparr> ex_idempotency_keys := insert (ri_idempotency_key mapping) (ex_idempotency_keys e') \<rparr>,
                   AList.delete key table')
             else (e', table'))"
  assumes "distinct (map fst kvs)" and "fold step kvs (e, table) = (e2, table2)"
  shows "ex_run_ids e2 = ex_run_ids e \<and> (dict_ok table \<longrightarrow> dict_ok table2)
    \<and> (\<forall>k. dict_get table2 k = (case map_of kvs k of
              Some m \<Rightarrow> if ri_rebalance_run_id m \<in> ex_run_ids e0 then None else dict_get table k
            | None \<Rightarrow> dict_get table k))"
  using assms(2,3)
proof (induction kvs arbitrary: e table)
  case (Cons kv kvs)
  obtain k m where kv: "kv = (k, m)" by fastforce
  have none: "map_of kvs k = None" using Cons.prems(1) by (simp add: kv map_of_eq_None_iff)
  obtain e1 table1 where one: "step (k, m) (e, table) = (e1, table1)" by fastforce
  then have "fold step kvs (e1, table1) = (e2, table2)" using Cons.prems(2) by (simp add: kv)
  note IH = Cons.IH [OF _ this]
  have "ex_run_ids e1 = ex_run_ids e" and "dict_ok table \<longrightarrow> dict_ok table1"
    and "dict_get table1 k' = (if k' = k \<and> ri_rebalance_run_id m \<in> ex_run_ids e0 then None else dict_get table k')" for k'
    using one by (auto simp: step_def dict_simps split: if_splits)
  with IH Cons.prems(1) none show ?case by (simp add: kv split: option.splits)
qed simp

lemma purge_mappings:
  assumes "dict_ok table" and "purge_expired_idempotency_mappings e table = (e', table')"
  shows "ex_run_ids e' = ex_run_ids e" and "dict_ok table'"
    and "dict_get table' k = (case dict_get table k of
           None \<Rightarrow> None | Some m \<Rightarrow> if ri_rebalance_run_id m \<in> ex_run_ids e then None else Some m)"
  using purge_mappings_fold [OF assms(1) assms(2) [unfolded purge_expired_idempotency_mappings_def]] assms(1)
  by (auto simp del: split_paired_All split: option.splits)

lemma purge_run_records:
  "dict_get (st_runs (purge_expired_run_records rows repo)) r
     = (if r \<in> rr_rebalance_run_id ` set rows then None else dict_get (st_runs repo) r)"
  "dict_get (st_run_artifacts (purge_expired_run_records rows repo)) r
     = (if r \<in> rr_rebalance_run_id ` set rows then None else dict_get (st_run_artifacts repo) r)"
  "dict_get (st_run_id_by_correlation (purge_expired_run_records rows repo)) c
     = (case dict_get (st_run_id_by_correlation repo) c of
          None \<Rightarrow> None
        | Some r \<Rightarrow> if (c, r) \<in> (\<lambda>run. (rr_correlation_id run, rr_rebalance_run_id run)) ` set rows
                   then None else Some r)"
  unfolding purge_expired_run_records_def
  by (induction rows arbitrary: repo) (auto simp: purge_run_record_def dict_simps split: option.splits)

lemma purge_run_records_frame [model_frame]:
  "st_idempotency (purge_expired_run_records rows repo) = st_idempotency repo"
  "st_idempotency_history (purge_expired_run_records rows repo) = st_idempotency_history repo"
  "st_submission_claims (purge_expired_run_records rows repo) = st_submission_claims repo"
  "st_operations (purge_expired_run_records rows repo) = st_operations repo"
  "st_operation_by_correlation (purge_expired_run_records rows repo) = st_operation_by_correlation repo"
  "st_workflow_decisions (purge_expired_run_records rows repo) = st_workflow_decisions repo"
  "st_lineage_edges_by_entity (purge_expired_run_records rows repo) = st_lineage_edges_by_entity repo"
  "dict_ok (st_runs repo) \<Longrightarrow> dict_ok (st_runs (purge_expired_run_records rows repo))"
  unfolding purge_expired_run_records_def by (induction rows arbitrary: repo) (simp_all add: purge_run_record_def)

lemma purge_operation_step:
  "dict_get (st_operations (snd (purge_operation cutoff (oid, oper) st))) k =
     (if k = oid \<and> operation_expired cutoff oper then None else dict_get (st_operations (snd st)) k)"
  "dict_get (st_operation_by_correlation (snd (purge_operation cutoff (oid, oper) st))) key =
     (if operation_expired cutoff oper \<and> key = (ao_tenant_id oper, ao_correlation_id oper)
         \<and> dict_get (st_operation_by_correlation (snd st)) key = Some oid
      then None else dict_get (st_operation_by_correlation (snd st)) key)"
  "dict_ok (st_operations (snd st)) \<Longrightarrow> dict_ok (st_operations (snd (purge_operation cutoff (oid, oper) st)))"
  by (auto simp: purge_operation_def Let_def dict_simps split: prod.splits)

lemma purge_operations_get:
  "distinct (map fst kvs) \<Longrightarrow>
     dict_get (st_operations (snd (fold (purge_operation cutoff) kvs st))) oid =
       (case map_of kvs oid of
          Some oper \<Rightarrow> if operation_expired cutoff oper then None else dict_get (st_operations (snd st)) oid
        | None \<Rightarrow> dict_get (st_operations (snd st)) oid)"
proof (induction kvs arbitrary: st)
  case (Cons kv kvs)
  then have "map_of kvs (fst kv) = None" by (simp add: map_of_eq_None_iff)
  with Cons show ?case by (cases kv) (auto simp: purge_operation_step split: option.splits)
qed simp

lemma purge_operations_index:
  "dict_get (st_operation_by_correlation (snd (fold (purge_operation cutoff) kvs st))) key =
     (case dict_get (st_operation_by_correlation (snd st)) key of
        None \<Rightarrow> None
      | Some oid \<Rightarrow> if \<exists>oper. (oid, oper) \<in> set kvs \<and> operation_expired cutoff oper
                          \<and> key = (ao_tenant_id oper, ao_correlation_id oper) then None else Some oid)"
proof (induction kvs arbitrary: st)
  case (Cons kv kvs)
  obtain o0 oper where kv: "kv = (o0, oper)" by fastforce
  show ?case
    unfolding fold_Cons comp_apply kv Cons.IH purge_operation_step by (auto split: option.splits)
qed (simp split: option.splits)

lemma purge_operations_ok:
  "dict_ok (st_operations (snd st)) \<Longrightarrow> dict_ok (st_operations (snd (fold (purge_operation cutoff) kvs st)))"
proof (induction kvs arbitrary: st)
  case (Cons kv kvs)
  then show ?case by (cases kv) (simp add: purge_operation_step)
qed simp

lemma purge_operations_frame [model_frame]:
  "st_runs (snd (purge_expired_operations ttl now repo)) = st_runs repo"
  "st_run_id_by_correlation (snd (purge_expired_operations ttl now repo)) = st_run_id_by_correlation repo"
  "st_idempotency (snd (purge_expired_operations ttl now repo)) = st_idempotency repo"
  "st_idempotency_history (snd (purge_expired_operations ttl now repo)) = st_idempotency_history repo"
  "st_submission_claims (snd (purge_expired_operations ttl now repo)) = st_submission_claims repo"
  "st_run_artifacts (snd (purge_expired_operations ttl now repo)) = st_run_artifacts repo"
  "st_workflow_decisions (snd (purge_expired_operations ttl now repo)) = st_workflow_decisions repo"
  "st_lineage_edges_by_entity (snd (purge_expired_operations ttl now repo)) = st_lineage_edges_by_entity repo"
proof -
  have "st_runs (snd (fold (purge_operation c) kvs st)) = st_runs (snd st)
    \<and> st_run_id_by_correlation (snd (fold (purge_operation c) kvs st)) = st_run_id_by_correlation (snd st)
    \<and> st_idempotency (snd (fold (purge_operation c) kvs st)) = st_idempotency (snd st)
    \<and> st_idempotency_history (snd (fold (purge_operation c) kvs st)) = st_idempotency_history (snd st)
    \<and> st_submission_claims (snd (fold (purge_operation c) kvs st)) = st_submission_claims (snd st)
    \<and> st_run_artifacts (snd (fold (purge_operation c) kvs st)) = st_run_artifacts (snd st)
    \<and> st_workflow_decisions (snd (fold (purge_operation c) kvs st)) = st_workflow_decisions (snd st)
    \<and> st_lineage_edges_by_entity (snd (fold (purge_operation c) kvs st)) = st_lineage_edges_by_entity (snd st)"
    for c kvs and st :: "nat \<times> InMemoryDpmRunRepository"
    by (induction kvs arbitrary: st) (simp_all add: purge_operation_def Let_def split: prod.splits)
  then show "st_runs (snd (purge_expired_operations ttl now repo)) = st_runs repo"
    "st_run_id_by_correlation (snd (purge_expired_operations ttl now repo)) = st_run_id_by_correlation repo"
    "st_idempotency (snd (purge_expired_operations ttl now repo)) = st_idempotency repo"
    "st_idempotency_history (snd (purge_expired_operations ttl now repo)) = st_idempotency_history repo"
    "st_submission_claims (snd (purge_expired_operations ttl now repo)) = st_submission_claims repo"
    "st_run_artifacts (snd (purge_expired_operations ttl now repo)) = st_run_artifacts repo"
    "st_workflow_decisions (snd (purge_expired_operations ttl now repo)) = st_workflow_decisions repo"
    "st_lineage_edges_by_entity (snd (purge_expired_operations ttl now repo)) = st_lineage_edges_by_entity repo"
    by (simp_all add: purge_expired_operations_def)
qed

end
