(* ===== verification/Run_Service.thy ===== *)
theory Run_Service
  imports Engine Run_Store
begin

text \<open>
  The run support service (\<open>src/src/core/rebalance_runs/service.py\<close>, \<open>workflow.py\<close>,
  \<open>workflow_projection.py\<close>, \<open>async_operations.py\<close>) over the in-memory store: recording of runs,
  completion of submissions, asynchronous operations, review workflow and retention. Each reading of
  the clock and each random identifier is an argument. \<open>dump\<close> and \<open>load\<close> stand for
  \<open>model_dump(mode="json")\<close> and \<open>model_validate\<close> of a result, \<open>artifact_of\<close> for the serialised
  artifact of a run; timestamps of responses stay instants. An operation that raises still returns the
  store, since the retention purge it starts with is not undone.
\<close>


section \<open>Definitions\<close>

subsection \<open>Configuration\<close>

record DpmRunSupportService =
  sv_async_operation_ttl_seconds :: int
  sv_async_execution_lease_seconds :: int
  sv_supportability_retention_days :: int
  sv_workflow_enabled :: bool
  sv_workflow_requires_review_for_statuses :: "string set"
  sv_artifact_store_mode :: string

definition make_run_support_service ::
  "int \<Rightarrow> int \<Rightarrow> int \<Rightarrow> bool \<Rightarrow> string list option \<Rightarrow> string \<Rightarrow> DpmRunSupportService" where
  "make_run_support_service ttl lease retention enabled statuses mode =
     \<lparr> sv_async_operation_ttl_seconds = max 1 ttl, sv_async_execution_lease_seconds = max 1 lease,
       sv_supportability_retention_days = max 0 retention, sv_workflow_enabled = enabled,
       sv_workflow_requires_review_for_statuses =
         set (filter (\<lambda>v. v \<noteq> '''')
           (map strip (if statuses \<in> {None, Some []} then [''PENDING_REVIEW''] else the statuses))),
       sv_artifact_store_mode =
         (if map upper_char (strip mode) = ''PERSISTED'' then ''PERSISTED'' else ''DERIVED'') \<rparr>"

type_synonym 'a run_outcome = "'a run_result \<times> InMemoryDpmRunRepository"

definition cleanup_expired_operations ::
  "DpmRunSupportService \<Rightarrow> int \<Rightarrow> InMemoryDpmRunRepository \<Rightarrow> InMemoryDpmRunRepository" where
  "cleanup_expired_operations svc now repo =
     snd (purge_expired_operations (sv_async_operation_ttl_seconds svc) now repo)"

definition cleanup_expired_supportability ::
  "DpmRunSupportService \<Rightarrow> int \<Rightarrow> InMemoryDpmRunRepository \<Rightarrow> InMemoryDpmRunRepository" where
  "cleanup_expired_supportability svc now repo =
     (if sv_supportability_retention_days svc < 1 then repo
      else snd (purge_expired_runs (sv_supportability_retention_days svc) now repo))"


subsection \<open>Recording of runs\<close>

record DpmAsyncExecutionClaim =
  ac_tenant_id :: string
  ac_operation_id :: string
  ac_correlation_id :: string
  ac_request_json :: json_dict
  ac_execution_token :: string
  ac_execution_attempt :: nat
  ac_lease_expires_at :: int

definition record_lineage_edge ::
  "string option \<Rightarrow> string \<Rightarrow> DpmLineageEdgeType \<Rightarrow> string \<Rightarrow> json_dict \<Rightarrow> int \<Rightarrow> InMemoryDpmRunRepository
     \<Rightarrow> InMemoryDpmRunRepository" where
  "record_lineage_edge tenant source edge_type target metadata created_at repo =
     append_lineage_edge
       \<lparr> ed_tenant_id = tenant, ed_source_entity_id = source, ed_edge_type = edge_type,
         ed_target_entity_id = target, ed_created_at = created_at, ed_metadata_json = metadata \<rparr> repo"

definition persist_run_artifact_if_needed ::
  "DpmRunSupportService \<Rightarrow> (DpmRunRecord \<Rightarrow> json_dict) \<Rightarrow> DpmRunRecord \<Rightarrow> InMemoryDpmRunRepository
     \<Rightarrow> InMemoryDpmRunRepository" where
  "persist_run_artifact_if_needed svc artifact_of run repo =
     (if sv_artifact_store_mode svc \<noteq> ''PERSISTED'' then repo
      else save_run_artifact (rr_rebalance_run_id run) (artifact_of run) repo)"

definition resolve_run_artifact ::
  "DpmRunSupportService \<Rightarrow> (DpmRunRecord \<Rightarrow> json_dict) \<Rightarrow> DpmRunRecord \<Rightarrow> InMemoryDpmRunRepository
     \<Rightarrow> json_dict \<times> InMemoryDpmRunRepository" where
  "resolve_run_artifact svc artifact_of run repo =
     (if sv_artifact_store_mode svc \<noteq> ''PERSISTED'' then (artifact_of run, repo)
      else
        (case get_run_artifact repo (rr_rebalance_run_id run) of
           Some persisted \<Rightarrow> (persisted, repo)
         | None \<Rightarrow> (artifact_of run, save_run_artifact (rr_rebalance_run_id run) (artifact_of run) repo)))"

definition run_record_of ::
  "(RebalanceResult \<Rightarrow> json_dict) \<Rightarrow> string option \<Rightarrow> RebalanceResult \<Rightarrow> string \<Rightarrow> string option \<Rightarrow> string \<Rightarrow> int
     \<Rightarrow> DpmRunRecord" where
  "run_record_of dump tenant r rhash key portfolio now =
     \<lparr> rr_tenant_id = tenant, rr_rebalance_run_id = rebalance_run_id r, rr_correlation_id = correlation_id r,
       rr_request_hash = rhash, rr_idempotency_key = key, rr_portfolio_id = portfolio,
       rr_created_at = now, rr_result_json = dump r \<rparr>"

definition operation_membership_edges ::
  "DpmAsyncExecutionClaim \<Rightarrow> string \<Rightarrow> string option \<Rightarrow> DpmRunRecord \<Rightarrow> int \<Rightarrow> DpmLineageEdgeRecord list" where
  "operation_membership_edges claim scenario tenant run now =
     [\<lparr> ed_tenant_id = tenant, ed_source_entity_id = rr_correlation_id run, ed_edge_type = CORRELATION_TO_RUN,
        ed_target_entity_id = rr_rebalance_run_id run, ed_created_at = now,
        ed_metadata_json = [(''request_hash'', JStr (rr_request_hash run))] \<rparr>,
      \<lparr> ed_tenant_id = tenant, ed_source_entity_id = ac_operation_id claim, ed_edge_type = OPERATION_TO_RUN,
        ed_target_entity_id = rr_rebalance_run_id run, ed_created_at = now,
        ed_metadata_json = [(''scenario_key'', JStr scenario),
                            (''execution_attempt'', JInt (int (ac_execution_attempt claim)))] \<rparr>]"

definition record_idempotency ::
  "DpmRunRecord \<Rightarrow> string \<Rightarrow> int \<Rightarrow> InMemoryDpmRunRepository \<Rightarrow> InMemoryDpmRunRepository" where
  "record_idempotency run key now repo =
     (let repo = save_idempotency_mapping
                   \<lparr> ri_tenant_id = rr_tenant_id run, ri_idempotency_key = key,
                     ri_request_hash = rr_request_hash run, ri_rebalance_run_id = rr_rebalance_run_id run,
                     ri_created_at = now \<rparr> repo;
          repo = append_idempotency_history
                   \<lparr> rh_tenant_id = rr_tenant_id run, rh_idempotency_key = key,
                     rh_rebalance_run_id = rr_rebalance_run_id run, rh_correlation_id = rr_correlation_id run,
                     rh_request_hash = rr_request_hash run, rh_created_at = now \<rparr> repo
      in record_lineage_edge (rr_tenant_id run) key IDEMPOTENCY_TO_RUN (rr_rebalance_run_id run)
           [(''request_hash'', JStr (rr_request_hash run))] now repo)"

definition record_run ::
  "DpmRunSupportService \<Rightarrow> (DpmRunRecord \<Rightarrow> json_dict) \<Rightarrow> (RebalanceResult \<Rightarrow> json_dict) \<Rightarrow> int \<Rightarrow> int
     \<Rightarrow> RebalanceResult \<Rightarrow> string \<Rightarrow> string \<Rightarrow> string option \<Rightarrow> string option \<Rightarrow> DpmAsyncExecutionClaim option
     \<Rightarrow> string option \<Rightarrow> InMemoryDpmRunRepository \<Rightarrow> unit run_outcome" where
  "record_run svc artifact_of dump cleaned_at now r rhash portfolio key tenant claim scenario repo =
     (if key \<noteq> None \<and> tenant = None
      then (Inl (RunValueError ''DPM_RUN_TENANT_REQUIRED_FOR_IDEMPOTENCY''), repo)
      else if (case claim of
                 Some c \<Rightarrow> scenario \<in> {None, Some ''''} \<or> (tenant \<noteq> None \<and> tenant \<noteq> Some (ac_tenant_id c))
               | None \<Rightarrow> scenario \<noteq> None)
      then (Inl (RunValueError ''DPM_RUN_INVALID_OPERATION_MEMBERSHIP''), repo)
      else
        let tenant = (case claim of Some c \<Rightarrow> Some (ac_tenant_id c) | None \<Rightarrow> tenant);
            repo = cleanup_expired_supportability svc cleaned_at repo;
            run = run_record_of dump tenant r rhash key portfolio now
        in (case (case claim of
                    Some c \<Rightarrow> save_run_with_lineage run (operation_membership_edges c (the scenario) tenant run now) repo
                  | None \<Rightarrow> Inr (save_run run repo)) of
              Inl e \<Rightarrow> (Inl e, repo)
            | Inr repo \<Rightarrow>
                let repo = persist_run_artifact_if_needed svc artifact_of run repo;
                    repo = (if claim = None
                            then record_lineage_edge tenant (rr_correlation_id run) CORRELATION_TO_RUN
                                   (rr_rebalance_run_id run) [(''request_hash'', JStr (rr_request_hash run))] now repo
                            else repo);
                    repo = (case key of None \<Rightarrow> repo | Some k \<Rightarrow> record_idempotency run k now repo)
                in (Inr (), repo)))"

definition complete_submission ::
  "DpmRunSupportService \<Rightarrow> (DpmRunRecord \<Rightarrow> json_dict) \<Rightarrow> (RebalanceResult \<Rightarrow> json_dict) \<Rightarrow> int \<Rightarrow> string \<Rightarrow> string
     \<Rightarrow> string \<Rightarrow> string \<Rightarrow> RebalanceResult \<Rightarrow> string \<Rightarrow> InMemoryDpmRunRepository
     \<Rightarrow> InMemoryDpmRunRepository run_result" where
  "complete_submission svc artifact_of dump now tenant key rhash token r portfolio repo =
     (let run = run_record_of dump (Some tenant) r rhash (Some key) portfolio now;
          artifact = (if sv_artifact_store_mode svc = ''PERSISTED'' then Some (artifact_of run) else None);
          history = \<lparr> rh_tenant_id = Some tenant, rh_idempotency_key = key,
                      rh_rebalance_run_id = rr_rebalance_run_id run, rh_correlation_id = rr_correlation_id run,
                      rh_request_hash = rhash, rh_created_at = now \<rparr>;
          lineage =
            [\<lparr> ed_tenant_id = Some tenant, ed_source_entity_id = rr_correlation_id run,
               ed_edge_type = CORRELATION_TO_RUN, ed_target_entity_id = rr_rebalance_run_id run,
               ed_created_at = now, ed_metadata_json = [(''request_hash'', JStr rhash)] \<rparr>,
             \<lparr> ed_tenant_id = Some tenant, ed_source_entity_id = key,
               ed_edge_type = IDEMPOTENCY_TO_RUN, ed_target_entity_id = rr_rebalance_run_id run,
               ed_created_at = now, ed_metadata_json = [(''request_hash'', JStr rhash)] \<rparr>]
      in complete_simulation_submission tenant key rhash token run artifact history lineage now repo)"


subsection \<open>Lookups\<close>

record DpmRunLookupResponse =
  lr_rebalance_run_id :: string
  lr_correlation_id :: string
  lr_request_hash :: string
  lr_idempotency_key :: "string option"
  lr_portfolio_id :: string
  lr_created_at :: int
  lr_result :: RebalanceResult

definition to_lookup_response ::
  "(json_dict \<Rightarrow> RebalanceResult run_result) \<Rightarrow> DpmRunRecord \<Rightarrow> DpmRunLookupResponse run_result" where
  "to_lookup_response load run =
     (case load (rr_result_json run) of
        Inl e \<Rightarrow> Inl e
      | Inr r \<Rightarrow> Inr \<lparr> lr_rebalance_run_id = rr_rebalance_run_id run, lr_correlation_id = rr_correlation_id run,
                        lr_request_hash = rr_request_hash run, lr_idempotency_key = rr_idempotency_key run,
                        lr_portfolio_id = rr_portfolio_id run, lr_created_at = rr_created_at run,
                        lr_result = r \<rparr>)"

definition required_run :: "DpmRunRecord option \<Rightarrow> DpmRunRecord run_result" where
  "required_run found = (case found of None \<Rightarrow> Inl (DpmRunNotFoundError ''DPM_RUN_NOT_FOUND'') | Some run \<Rightarrow> Inr run)"

definition required_mapping :: "DpmRunIdempotencyRecord option \<Rightarrow> DpmRunIdempotencyRecord run_result" where
  "required_mapping found =
     (case found of None \<Rightarrow> Inl (DpmRunNotFoundError ''DPM_IDEMPOTENCY_KEY_NOT_FOUND'') | Some m \<Rightarrow> Inr m)"

definition bind_run :: "'a run_result \<Rightarrow> ('a \<Rightarrow> 'b run_result) \<Rightarrow> 'b run_result" where
  "bind_run m f = (case m of Inl e \<Rightarrow> Inl e | Inr v \<Rightarrow> f v)"

definition service_get_run_for_tenant ::
  "DpmRunSupportService \<Rightarrow> (json_dict \<Rightarrow> RebalanceResult run_result) \<Rightarrow> int \<Rightarrow> string \<Rightarrow> string
     \<Rightarrow> InMemoryDpmRunRepository \<Rightarrow> DpmRunLookupResponse run_outcome" where
  "service_get_run_for_tenant svc load now tenant run_id repo =
     (let repo = cleanup_expired_supportability svc now repo
      in (bind_run (required_run (get_run_for_tenant repo tenant run_id)) (to_lookup_response load), repo))"

definition service_get_run_by_correlation_for_tenant ::
  "DpmRunSupportService \<Rightarrow> (json_dict \<Rightarrow> RebalanceResult run_result) \<Rightarrow> int \<Rightarrow> string \<Rightarrow> string
     \<Rightarrow> InMemoryDpmRunRepository \<Rightarrow> DpmRunLookupResponse run_outcome" where
  "service_get_run_by_correlation_for_tenant svc load now tenant correlation repo =
     (let repo = cleanup_expired_supportability svc now repo
      in (bind_run (required_run (get_run_by_correlation_for_tenant repo tenant correlation)) (to_lookup_response load),
          repo))"

definition service_get_run_by_request_hash_for_tenant ::
  "DpmRunSupportService \<Rightarrow> (json_dict \<Rightarrow> RebalanceResult run_result) \<Rightarrow> int \<Rightarrow> string \<Rightarrow> string
     \<Rightarrow> InMemoryDpmRunRepository \<Rightarrow> DpmRunLookupResponse run_outcome" where
  "service_get_run_by_request_hash_for_tenant svc load now tenant rhash repo =
     (let repo = cleanup_expired_supportability svc now repo
      in (bind_run (required_run (get_run_by_request_hash_for_tenant repo tenant rhash)) (to_lookup_response load),
          repo))"

definition get_idempotency_lookup_for_tenant ::
  "DpmRunSupportService \<Rightarrow> int \<Rightarrow> string \<Rightarrow> string \<Rightarrow> InMemoryDpmRunRepository \<Rightarrow> DpmRunIdempotencyRecord run_outcome" where
  "get_idempotency_lookup_for_tenant svc now tenant key repo =
     (let repo = cleanup_expired_supportability svc now repo
      in (required_mapping (get_idempotency_mapping_for_tenant repo tenant key), repo))"

definition get_run_artifact_for_tenant ::
  "DpmRunSupportService \<Rightarrow> (DpmRunRecord \<Rightarrow> json_dict) \<Rightarrow> int \<Rightarrow> string \<Rightarrow> string \<Rightarrow> InMemoryDpmRunRepository
     \<Rightarrow> json_dict run_outcome" where
  "get_run_artifact_for_tenant svc artifact_of now tenant run_id repo =
     (let repo = cleanup_expired_supportability svc now repo
      in case required_run (get_run_for_tenant repo tenant run_id) of
           Inl e \<Rightarrow> (Inl e, repo)
         | Inr run \<Rightarrow> (case resolve_run_artifact svc artifact_of run repo of (a, repo) \<Rightarrow> (Inr a, repo)))"


subsection \<open>Asynchronous operations\<close>

definition require_async_tenant_id :: "string \<Rightarrow> string run_result" where
  "require_async_tenant_id tenant =
     (if strip tenant = '''' then Inl (RunValueError ''DPM_ASYNC_OPERATION_TENANT_REQUIRED'') else Inr (strip tenant))"

definition build_analyze_operation ::
  "string \<Rightarrow> string \<Rightarrow> string \<Rightarrow> json_dict \<Rightarrow> int \<Rightarrow> DpmAsyncOperationRecord" where
  "build_analyze_operation tenant oid correlation request_json created_at =
     \<lparr> ao_tenant_id = Some tenant, ao_operation_id = oid, ao_operation_type = ''ANALYZE_SCENARIOS'',
       ao_status = ASYNC_PENDING, ao_correlation_id = correlation, ao_created_at = created_at,
       ao_started_at = None, ao_finished_at = None, ao_result_json = None, ao_error_json = None,
       ao_request_json = Some request_json, ao_execution_token = None, ao_execution_attempt = 0,
       ao_execution_claimed_at = None, ao_execution_lease_expires_at = None \<rparr>"

definition is_operation_executable :: "int \<Rightarrow> DpmAsyncOperationRecord \<Rightarrow> bool" where
  "is_operation_executable now oper \<longleftrightarrow>
     ao_request_json oper \<noteq> None \<and> (ao_status oper = ASYNC_PENDING \<or> lease_expired now oper)"

record DpmAsyncAcceptedResponse =
  aa_operation_id :: string
  aa_operation_type :: string
  aa_status :: DpmAsyncOperationStatus
  aa_correlation_id :: string
  aa_created_at :: int
  aa_status_url :: string
  aa_execute_url :: string

definition to_async_accepted :: "DpmAsyncOperationRecord \<Rightarrow> DpmAsyncAcceptedResponse" where
  "to_async_accepted oper =
     \<lparr> aa_operation_id = ao_operation_id oper, aa_operation_type = ao_operation_type oper,
       aa_status = ao_status oper, aa_correlation_id = ao_correlation_id oper, aa_created_at = ao_created_at oper,
       aa_status_url = ''/api/v1/rebalance/operations/'' @ ao_operation_id oper,
       aa_execute_url = ''/api/v1/rebalance/operations/'' @ ao_operation_id oper @ ''/execute'' \<rparr>"

definition submit_analyze_async ::
  "DpmRunSupportService \<Rightarrow> int \<Rightarrow> int \<Rightarrow> string \<Rightarrow> string \<Rightarrow> string \<Rightarrow> string option \<Rightarrow> json_dict
     \<Rightarrow> InMemoryDpmRunRepository \<Rightarrow> DpmAsyncAcceptedResponse run_outcome" where
  "submit_analyze_async svc cleaned_at now correlation_hex operation_hex tenant correlation request_json repo =
     (case require_async_tenant_id tenant of
        Inl e \<Rightarrow> (Inl e, repo)
      | Inr tenant \<Rightarrow>
          let repo = cleanup_expired_operations svc cleaned_at repo;
              resolved = (if correlation \<in> {None, Some ''''} then ''corr_'' @ correlation_hex else the correlation)
          in if get_operation_by_correlation_for_tenant repo tenant resolved \<noteq> None
             then (Inl (DpmAsyncOperationConflictError ''DPM_ASYNC_OPERATION_CORRELATION_CONFLICT''), repo)
             else
               let oper = build_analyze_operation tenant (''dop_'' @ operation_hex) resolved request_json now
               in (case create_operation oper repo of
                     Inl (DpmRunRepositoryConflictError m) \<Rightarrow> (Inl (DpmAsyncOperationConflictError m), repo)
                   | Inl e \<Rightarrow> (Inl e, repo)
                   | Inr repo \<Rightarrow>
                       (Inr (to_async_accepted oper),
                        record_lineage_edge (Some tenant) (ao_operation_id oper) OPERATION_TO_CORRELATION
                          (ao_correlation_id oper) [(''operation_type'', JStr (ao_operation_type oper))]
                          (ao_created_at oper) repo)))"

definition prepare_analyze_operation_execution ::
  "DpmRunSupportService \<Rightarrow> int \<Rightarrow> int \<Rightarrow> string \<Rightarrow> string \<Rightarrow> string \<Rightarrow> InMemoryDpmRunRepository
     \<Rightarrow> DpmAsyncExecutionClaim run_outcome" where
  "prepare_analyze_operation_execution svc cleaned_at claimed_at token_hex tenant oid repo =
     (case require_async_tenant_id tenant of
        Inl e \<Rightarrow> (Inl e, repo)
      | Inr tenant \<Rightarrow>
          let repo = cleanup_expired_operations svc cleaned_at repo;
              token = ''dop_claim_'' @ token_hex
          in (case claim_operation_execution tenant oid token claimed_at
                     (claimed_at + sv_async_execution_lease_seconds svc * 1000000) repo of
                (None, repo) \<Rightarrow>
                  (case get_operation_for_tenant repo tenant oid of
                     None \<Rightarrow> (Inl (DpmRunNotFoundError ''DPM_ASYNC_OPERATION_NOT_FOUND''), repo)
                   | Some _ \<Rightarrow> (Inl (DpmRunNotFoundError ''DPM_ASYNC_OPERATION_NOT_EXECUTABLE''), repo))
              | (Some oper, repo) \<Rightarrow>
                  (case (ao_request_json oper, ao_execution_lease_expires_at oper) of
                     (Some request_json, Some lease) \<Rightarrow>
                       (Inr \<lparr> ac_tenant_id = tenant, ac_operation_id = ao_operation_id oper,
                              ac_correlation_id = ao_correlation_id oper, ac_request_json = request_json,
                              ac_execution_token = token, ac_execution_attempt = ao_execution_attempt oper,
                              ac_lease_expires_at = lease \<rparr>, repo)
                   | _ \<Rightarrow> (Inl (DpmAsyncOperationConflictError ''DPM_ASYNC_OPERATION_CLAIM_INCONSISTENT''), repo))))"

definition complete_operation_success ::
  "int \<Rightarrow> DpmAsyncExecutionClaim \<Rightarrow> json_dict \<Rightarrow> InMemoryDpmRunRepository \<Rightarrow> unit run_outcome" where
  "complete_operation_success finished_at claim result_json repo =
     (case publish_operation_success (ac_tenant_id claim) (ac_operation_id claim) (ac_execution_token claim)
             result_json finished_at repo of
        (True, repo) \<Rightarrow> (Inr (), repo)
      | (False, repo) \<Rightarrow>
          (case get_operation repo (ac_operation_id claim) of
             Some oper \<Rightarrow>
               if ao_tenant_id oper = Some (ac_tenant_id claim)
                  \<and> ao_execution_token oper = Some (ac_execution_token claim)
                  \<and> ao_status oper = ASYNC_SUCCEEDED \<and> ao_result_json oper = Some result_json
               then (Inr (), repo)
               else (Inl (DpmAsyncOperationConflictError ''DPM_ASYNC_OPERATION_STALE_EXECUTION_OWNER''), repo)
           | None \<Rightarrow> (Inl (DpmAsyncOperationConflictError ''DPM_ASYNC_OPERATION_STALE_EXECUTION_OWNER''), repo)))"

definition complete_operation_failure ::
  "int \<Rightarrow> DpmAsyncExecutionClaim \<Rightarrow> string \<Rightarrow> string \<Rightarrow> InMemoryDpmRunRepository \<Rightarrow> unit run_outcome" where
  "complete_operation_failure finished_at claim code message repo =
     (let error_json = [(''code'', code), (''message'', message)]
      in case publish_operation_failure (ac_tenant_id claim) (ac_operation_id claim) (ac_execution_token claim)
                error_json finished_at repo of
           (True, repo) \<Rightarrow> (Inr (), repo)
         | (False, repo) \<Rightarrow>
             (case get_operation repo (ac_operation_id claim) of
                Some oper \<Rightarrow>
                  if ao_tenant_id oper = Some (ac_tenant_id claim)
                     \<and> ao_execution_token oper = Some (ac_execution_token claim)
                     \<and> ao_status oper = ASYNC_FAILED \<and> ao_error_json oper = Some error_json
                  then (Inr (), repo)
                  else (Inl (DpmAsyncOperationConflictError ''DPM_ASYNC_OPERATION_STALE_EXECUTION_OWNER''), repo)
              | None \<Rightarrow> (Inl (DpmAsyncOperationConflictError ''DPM_ASYNC_OPERATION_STALE_EXECUTION_OWNER''), repo)))"


subsection \<open>Review workflow\<close>

datatype DpmWorkflowStatus = WF_NOT_REQUIRED | WF_PENDING_REVIEW | WF_APPROVED | WF_REJECTED

definition VALID_WORKFLOW_TRANSITIONS :: "((DpmWorkflowStatus \<times> DpmWorkflowActionType), DpmWorkflowStatus) dict" where
  "VALID_WORKFLOW_TRANSITIONS =
     [((WF_PENDING_REVIEW, WF_APPROVE), WF_APPROVED), ((WF_PENDING_REVIEW, WF_REJECT), WF_REJECTED),
      ((WF_PENDING_REVIEW, WF_REQUEST_CHANGES), WF_PENDING_REVIEW),
      ((WF_APPROVED, WF_REQUEST_CHANGES), WF_PENDING_REVIEW), ((WF_APPROVED, WF_REJECT), WF_REJECTED),
      ((WF_REJECTED, WF_REQUEST_CHANGES), WF_PENDING_REVIEW)]"

definition workflow_required_for_run_status :: "bool \<Rightarrow> string \<Rightarrow> string set \<Rightarrow> bool" where
  "workflow_required_for_run_status enabled status statuses \<longleftrightarrow> enabled \<and> status \<in> statuses"

definition status_for_action :: "DpmWorkflowActionType \<Rightarrow> DpmWorkflowStatus" where
  "status_for_action action =
     (if action = WF_APPROVE then WF_APPROVED else if action = WF_REJECT then WF_REJECTED else WF_PENDING_REVIEW)"

definition resolve_workflow_status ::
  "bool \<Rightarrow> string \<Rightarrow> DpmRunWorkflowDecisionRecord option \<Rightarrow> string set \<Rightarrow> DpmWorkflowStatus" where
  "resolve_workflow_status enabled status latest statuses =
     (if \<not> workflow_required_for_run_status enabled status statuses then WF_NOT_REQUIRED
      else case latest of None \<Rightarrow> WF_PENDING_REVIEW | Some d \<Rightarrow> status_for_action (wd_action d))"

definition resolve_workflow_transition :: "DpmWorkflowStatus \<Rightarrow> DpmWorkflowActionType \<Rightarrow> DpmWorkflowStatus option" where
  "resolve_workflow_transition current action = dict_get VALID_WORKFLOW_TRANSITIONS (current, action)"

definition latest_workflow_decision :: "DpmRunWorkflowDecisionRecord list \<Rightarrow> DpmRunWorkflowDecisionRecord option" where
  "latest_workflow_decision decisions = latest_row wd_decided_at decisions"

definition build_workflow_history_response :: "DpmRunWorkflowDecisionRecord list \<Rightarrow> DpmRunWorkflowDecisionRecord list" where
  "build_workflow_history_response decisions = sort_key wd_decided_at decisions"

record DpmRunWorkflowResponse =
  wr_run_id :: string
  wr_run_status :: string
  wr_workflow_status :: DpmWorkflowStatus
  wr_requires_review :: bool
  wr_latest_decision :: "DpmRunWorkflowDecisionRecord option"

definition to_workflow_response ::
  "DpmRunSupportService \<Rightarrow> InMemoryDpmRunRepository \<Rightarrow> DpmRunRecord \<Rightarrow> DpmRunWorkflowResponse" where
  "to_workflow_response svc repo run =
     (let latest = latest_workflow_decision (list_workflow_decisions repo (rr_rebalance_run_id run));
          status = result_status (rr_result_json run);
          statuses = sv_workflow_requires_review_for_statuses svc
      in \<lparr> wr_run_id = rr_rebalance_run_id run, wr_run_status = status,
           wr_workflow_status = resolve_workflow_status (sv_workflow_enabled svc) status latest statuses,
           wr_requires_review = workflow_required_for_run_status (sv_workflow_enabled svc) status statuses,
           wr_latest_decision = latest \<rparr>)"

text \<open>The pattern \<open>^[A-Z][A-Z0-9_]*$\<close> of a reason code; a decision with another code is not built.\<close>

definition reason_code_ok :: "string \<Rightarrow> bool" where
  "reason_code_ok s \<longleftrightarrow>
     (case s of
        [] \<Rightarrow> False
      | c # cs \<Rightarrow> c \<in> set ''ABCDEFGHIJKLMNOPQRSTUVWXYZ''
                  \<and> (\<forall>d \<in> set cs. d \<in> set ''ABCDEFGHIJKLMNOPQRSTUVWXYZ0123456789_''))"

definition build_workflow_decision_record ::
  "string \<Rightarrow> string \<Rightarrow> DpmWorkflowActionType \<Rightarrow> string \<Rightarrow> string option \<Rightarrow> string \<Rightarrow> string \<Rightarrow> int
     \<Rightarrow> DpmRunWorkflowDecisionRecord run_result" where
  "build_workflow_decision_record hex run_id action reason_code comment actor correlation decided_at =
     (if \<not> reason_code_ok reason_code then Inl (RunValueError ''reason_code'')
      else Inr \<lparr> wd_decision_id = ''dwd_'' @ hex, wd_run_id = run_id, wd_action = action,
                 wd_reason_code = reason_code, wd_comment = comment, wd_actor_id = actor,
                 wd_decided_at = decided_at, wd_correlation_id = correlation \<rparr>)"

definition apply_workflow_action ::
  "DpmRunSupportService \<Rightarrow> int \<Rightarrow> int \<Rightarrow> string \<Rightarrow> string \<Rightarrow> DpmWorkflowActionType \<Rightarrow> string \<Rightarrow> string option \<Rightarrow> string
     \<Rightarrow> string \<Rightarrow> InMemoryDpmRunRepository \<Rightarrow> DpmRunWorkflowResponse run_outcome" where
  "apply_workflow_action svc cleaned_at decided_at hex run_id action reason_code comment actor correlation repo =
     (let repo = cleanup_expired_supportability svc cleaned_at repo
      in if \<not> sv_workflow_enabled svc then (Inl (DpmWorkflowDisabledError ''DPM_WORKFLOW_DISABLED''), repo)
         else
           (case get_run repo run_id of
              None \<Rightarrow> (Inl (DpmRunNotFoundError ''DPM_RUN_NOT_FOUND''), repo)
            | Some run \<Rightarrow>
                let status = result_status (rr_result_json run);
                    statuses = sv_workflow_requires_review_for_statuses svc
                in if \<not> workflow_required_for_run_status (sv_workflow_enabled svc) status statuses
                   then (Inl (DpmWorkflowTransitionError ''DPM_WORKFLOW_NOT_REQUIRED_FOR_RUN_STATUS''), repo)
                   else
                     let latest = latest_workflow_decision (list_workflow_decisions repo run_id);
                         current = resolve_workflow_status (sv_workflow_enabled svc) status latest statuses
                     in (case resolve_workflow_transition current action of
                           None \<Rightarrow> (Inl (DpmWorkflowTransitionError ''DPM_WORKFLOW_INVALID_TRANSITION''), repo)
                         | Some next_status \<Rightarrow>
                             (case build_workflow_decision_record hex run_id action reason_code comment actor
                                     correlation decided_at of
                                Inl e \<Rightarrow> (Inl e, repo)
                              | Inr d \<Rightarrow>
                                  (Inr \<lparr> wr_run_id = run_id, wr_run_status = status,
                                         wr_workflow_status = next_status, wr_requires_review = True,
                                         wr_latest_decision = Some d \<rparr>,
                                   append_workflow_decision d repo)))))"

definition get_workflow_for_tenant ::
  "DpmRunSupportService \<Rightarrow> string \<Rightarrow> string \<Rightarrow> InMemoryDpmRunRepository \<Rightarrow> DpmRunWorkflowResponse run_result" where
  "get_workflow_for_tenant svc tenant run_id repo =
     bind_run (required_run (get_run_for_tenant repo tenant run_id)) (\<lambda>run. Inr (to_workflow_response svc repo run))"

definition get_workflow_history_for_tenant ::
  "string \<Rightarrow> string \<Rightarrow> InMemoryDpmRunRepository \<Rightarrow> DpmRunWorkflowDecisionRecord list run_result" where
  "get_workflow_history_for_tenant tenant run_id repo =
     bind_run (required_run (get_run_for_tenant repo tenant run_id))
       (\<lambda>_. Inr (build_workflow_history_response (list_workflow_decisions repo run_id)))"

definition apply_workflow_action_for_tenant ::
  "DpmRunSupportService \<Rightarrow> int \<Rightarrow> int \<Rightarrow> string \<Rightarrow> string \<Rightarrow> string \<Rightarrow> DpmWorkflowActionType \<Rightarrow> string \<Rightarrow> string option
     \<Rightarrow> string \<Rightarrow> string \<Rightarrow> InMemoryDpmRunRepository \<Rightarrow> DpmRunWorkflowResponse run_outcome" where
  "apply_workflow_action_for_tenant svc cleaned_at decided_at hex tenant run_id action reason_code comment actor
       correlation repo =
     (case required_run (get_run_for_tenant repo tenant run_id) of
        Inl e \<Rightarrow> (Inl e, repo)
      | Inr _ \<Rightarrow> apply_workflow_action svc cleaned_at decided_at hex run_id action reason_code comment actor
                    correlation repo)"

definition apply_workflow_action_by_idempotency_for_tenant ::
  "DpmRunSupportService \<Rightarrow> int \<Rightarrow> int \<Rightarrow> string \<Rightarrow> string \<Rightarrow> string \<Rightarrow> DpmWorkflowActionType \<Rightarrow> string \<Rightarrow> string option
     \<Rightarrow> string \<Rightarrow> string \<Rightarrow> InMemoryDpmRunRepository \<Rightarrow> DpmRunWorkflowResponse run_outcome" where
  "apply_workflow_action_by_idempotency_for_tenant svc cleaned_at decided_at hex tenant key action reason_code comment
       actor correlation repo =
     (case required_mapping (get_idempotency_mapping_for_tenant repo tenant key) of
        Inl e \<Rightarrow> (Inl e, repo)
      | Inr m \<Rightarrow> apply_workflow_action_for_tenant svc cleaned_at decided_at hex tenant (ri_rebalance_run_id m) action
                    reason_code comment actor correlation repo)"

end
