(* ===== verification/Run_Invariants.thy ===== *)
theory Run_Invariants
  imports Run_Service
begin

text \<open>
  Invariants of the run store: what one table says of another (references to runs, the correlation
  indexes, the lineage index), what a status says of the fields of an operation, and that a
  submission key has one run. Each is shown for the store operations first; the steps of the service
  compose them.
\<close>


section \<open>Definitions\<close>

definition stored_as :: "InMemoryDpmRunRepository \<Rightarrow> string option \<Rightarrow> string \<Rightarrow> string \<Rightarrow> string \<Rightarrow> bool" where
  "stored_as repo tenant key rhash run_id \<longleftrightarrow>
     (\<exists>run. dict_get (st_runs repo) run_id = Some run \<and> rr_tenant_id run = tenant
            \<and> rr_idempotency_key run = Some key \<and> rr_request_hash run = rhash)"

definition run_tables_ok :: "InMemoryDpmRunRepository \<Rightarrow> bool" where
  "run_tables_ok repo \<longleftrightarrow>
     dict_ok (st_runs repo) \<and> dict_ok (st_idempotency repo) \<and> dict_ok (st_idempotency_history repo)
     \<and> dict_ok (st_lineage_edges_by_entity repo)
     \<and> (\<forall>r run. dict_get (st_runs repo) r = Some run \<longrightarrow> rr_rebalance_run_id run = r)"

definition run_index_ok :: "InMemoryDpmRunRepository \<Rightarrow> bool" where
  "run_index_ok repo \<longleftrightarrow>
     (\<forall>c r. dict_get (st_run_id_by_correlation repo) c = Some r
              \<longrightarrow> (\<exists>run. dict_get (st_runs repo) r = Some run \<and> rr_correlation_id run = c))"

definition idempotency_ok :: "InMemoryDpmRunRepository \<Rightarrow> bool" where
  "idempotency_ok repo \<longleftrightarrow>
     (\<forall>t k m. dict_get (st_idempotency repo) (t, k) = Some m
        \<longrightarrow> ri_tenant_id m = t \<and> ri_idempotency_key m = k
            \<and> stored_as repo t k (ri_request_hash m) (ri_rebalance_run_id m))
     \<and> (\<forall>t k. \<forall>h \<in> set (dict_get_or (st_idempotency_history repo) (t, k) []).
          rh_tenant_id h = t \<and> rh_idempotency_key h = k
          \<and> stored_as repo t k (rh_request_hash h) (rh_rebalance_run_id h))"

definition attachments_ok :: "InMemoryDpmRunRepository \<Rightarrow> bool" where
  "attachments_ok repo \<longleftrightarrow>
     (\<forall>r. dict_get (st_run_artifacts repo) r \<noteq> None \<longrightarrow> dict_get (st_runs repo) r \<noteq> None)
     \<and> (\<forall>r. \<forall>d \<in> set (list_workflow_decisions repo r). wd_run_id d = r \<and> dict_get (st_runs repo) r \<noteq> None)"

definition edge_run :: "InMemoryDpmRunRepository \<Rightarrow> DpmLineageEdgeRecord \<Rightarrow> bool" where
  "edge_run repo edge \<longleftrightarrow>
     (\<exists>run. dict_get (st_runs repo) (ed_target_entity_id edge) = Some run \<and> rr_tenant_id run = ed_tenant_id edge)"

definition lineage_ok :: "InMemoryDpmRunRepository \<Rightarrow> bool" where
  "lineage_ok repo \<longleftrightarrow>
     (\<forall>e. \<forall>edge \<in> set (list_lineage_edges repo e).
        e \<in> {ed_source_entity_id edge, ed_target_entity_id edge}
        \<and> edge \<in> set (list_lineage_edges repo (ed_source_entity_id edge))
        \<and> edge \<in> set (list_lineage_edges repo (ed_target_entity_id edge))
        \<and> (ed_edge_type edge \<noteq> OPERATION_TO_CORRELATION \<longrightarrow> edge_run repo edge))"

definition operation_ok :: "DpmAsyncOperationRecord \<Rightarrow> bool" where
  "operation_ok oper \<longleftrightarrow>
     (case ao_status oper of
        ASYNC_PENDING \<Rightarrow> ao_execution_token oper = None \<and> ao_execution_attempt oper = 0
          \<and> ao_result_json oper = None \<and> ao_error_json oper = None \<and> ao_finished_at oper = None
      | ASYNC_RUNNING \<Rightarrow> ao_execution_token oper \<noteq> None \<and> 0 < ao_execution_attempt oper
          \<and> ao_execution_lease_expires_at oper \<noteq> None
          \<and> ao_result_json oper = None \<and> ao_error_json oper = None \<and> ao_finished_at oper = None
      | ASYNC_SUCCEEDED \<Rightarrow> ao_execution_token oper \<noteq> None \<and> 0 < ao_execution_attempt oper
          \<and> ao_execution_lease_expires_at oper = None
          \<and> ao_result_json oper \<noteq> None \<and> ao_error_json oper = None \<and> ao_finished_at oper \<noteq> None
      | ASYNC_FAILED \<Rightarrow> ao_execution_token oper \<noteq> None \<and> 0 < ao_execution_attempt oper
          \<and> ao_execution_lease_expires_at oper = None
          \<and> ao_result_json oper = None \<and> ao_error_json oper \<noteq> None \<and> ao_finished_at oper \<noteq> None)"

definition operations_ok :: "InMemoryDpmRunRepository \<Rightarrow> bool" where
  "operations_ok repo \<longleftrightarrow>
     dict_ok (st_operations repo)
     \<and> (\<forall>oid oper. dict_get (st_operations repo) oid = Some oper
          \<longrightarrow> ao_operation_id oper = oid \<and> ao_request_json oper \<noteq> None \<and> operation_ok oper
              \<and> dict_get (st_operation_by_correlation repo) (ao_tenant_id oper, ao_correlation_id oper) = Some oid)
     \<and> (\<forall>t c oid. dict_get (st_operation_by_correlation repo) (t, c) = Some oid
          \<longrightarrow> (\<exists>oper. dict_get (st_operations repo) oid = Some oper
                     \<and> ao_tenant_id oper = t \<and> ao_correlation_id oper = c))"

definition run_store_ok :: "InMemoryDpmRunRepository \<Rightarrow> bool" where
  "run_store_ok repo \<longleftrightarrow>
     run_tables_ok repo \<and> run_index_ok repo \<and> idempotency_ok repo \<and> attachments_ok repo \<and> lineage_ok repo
     \<and> operations_ok repo"

text \<open>
  A submission key has at most one history row; it then belongs to the completed claim of the key, and
  so does the mapping.
\<close>

definition claims_ok :: "InMemoryDpmRunRepository \<Rightarrow> bool" where
  "claims_ok repo \<longleftrightarrow>
     (\<forall>t k c. dict_get (st_submission_claims repo) (t, k) = Some c
        \<longrightarrow> cr_tenant_id c = t \<and> cr_idempotency_key c = k
            \<and> (cr_status c = CLAIM_COMPLETED \<longleftrightarrow> cr_rebalance_run_id c \<noteq> None))
     \<and> (\<forall>t k. dict_get_or (st_idempotency_history repo) (Some t, k) [] \<noteq> []
        \<longrightarrow> (\<exists>c h. dict_get (st_submission_claims repo) (t, k) = Some c \<and> cr_status c = CLAIM_COMPLETED
                 \<and> dict_get_or (st_idempotency_history repo) (Some t, k) [] = [h]
                 \<and> cr_rebalance_run_id c = Some (rh_rebalance_run_id h) \<and> cr_request_hash c = rh_request_hash h))
     \<and> (\<forall>t k m. dict_get (st_idempotency repo) (Some t, k) = Some m
        \<longrightarrow> (\<exists>c. dict_get (st_submission_claims repo) (t, k) = Some c \<and> cr_status c = CLAIM_COMPLETED
                 \<and> cr_rebalance_run_id c = Some (ri_rebalance_run_id m)))"

text \<open>
  The steps of the service, from any number of requests and workers. The identifier of a new run and
  of a new operation is a fresh random one; the callers of \<open>record_run\<close> pass no idempotency key.
\<close>

inductive run_step ::
  "DpmRunSupportService \<Rightarrow> (DpmRunRecord \<Rightarrow> json_dict) \<Rightarrow> (RebalanceResult \<Rightarrow> json_dict)
     \<Rightarrow> InMemoryDpmRunRepository \<Rightarrow> InMemoryDpmRunRepository \<Rightarrow> bool"
  for svc artifact_of dump where
  step_claim: "run_step svc artifact_of dump repo (snd (claim_simulation_submission t k h token claimed expires repo))"
| step_abandon: "run_step svc artifact_of dump repo (abandon_simulation_submission_claim t k token stamp repo)"
| step_complete: "complete_submission svc artifact_of dump now t k h token r portfolio repo = Inr repo'
    \<Longrightarrow> dict_get (st_runs repo) (rebalance_run_id r) = None \<Longrightarrow> run_step svc artifact_of dump repo repo'"
| step_record: "dict_get (st_runs repo) (rebalance_run_id r) = None
    \<Longrightarrow> run_step svc artifact_of dump repo
          (snd (record_run svc artifact_of dump cleaned now r h portfolio None tenant claim scenario repo))"
| step_artifact: "run_step svc artifact_of dump repo (snd (get_run_artifact_for_tenant svc artifact_of now t r repo))"
| step_submit: "dict_get (st_operations repo) (''dop_'' @ hex) = None
    \<Longrightarrow> run_step svc artifact_of dump repo
          (snd (submit_analyze_async svc cleaned now corr_hex hex t correlation request_json repo))"
| step_prepare: "run_step svc artifact_of dump repo
    (snd (prepare_analyze_operation_execution svc cleaned claimed hex t oid repo))"
| step_success: "run_step svc artifact_of dump repo (snd (complete_operation_success finished c result_json repo))"
| step_failure: "run_step svc artifact_of dump repo (snd (complete_operation_failure finished c code message repo))"
| step_workflow: "run_step svc artifact_of dump repo
    (snd (apply_workflow_action svc cleaned decided hex r action reason comment actor correlation repo))"
| step_cleanup_operations: "run_step svc artifact_of dump repo (cleanup_expired_operations svc now repo)"
| step_cleanup_runs: "run_step svc artifact_of dump repo (cleanup_expired_supportability svc now repo)"

abbreviation run_steps ::
  "DpmRunSupportService \<Rightarrow> (DpmRunRecord \<Rightarrow> json_dict) \<Rightarrow> (RebalanceResult \<Rightarrow> json_dict)
     \<Rightarrow> InMemoryDpmRunRepository \<Rightarrow> InMemoryDpmRunRepository \<Rightarrow> bool" where
  "run_steps svc artifact_of dump \<equiv> (run_step svc artifact_of dump)\<^sup>*\<^sup>*"


section \<open>Lemmas\<close>

text \<open>Lookups stay lookups: they are not turned into membership of the association list.\<close>

declare map_of_eq_Some_iff [simp del] Some_eq_map_of_iff [simp del]

lemmas run_store_ok_defs = run_store_ok_def run_tables_ok_def run_index_ok_def idempotency_ok_def
  attachments_ok_def lineage_ok_def edge_run_def operations_ok_def stored_as_def

subsection \<open>Store operations\<close>

lemma empty_ok: "run_store_ok empty_run_repository" "claims_ok empty_run_repository"
  by (simp_all add: run_store_ok_defs claims_ok_def empty_run_repository_def list_lineage_edges_def
      list_workflow_decisions_def dict_get_or_def)

text \<open>A run with a new identifier leaves every stored run as it is.\<close>

lemma save_run_ok:
  assumes "run_store_ok repo" and "dict_get (st_runs repo) (rr_rebalance_run_id run) = None"
  shows "run_store_ok (save_run run repo)"
proof -
  have same: "dict_get (st_runs (save_run run repo)) r = Some x"
    if "dict_get (st_runs repo) r = Some x" for r x
    using that assms(2) by (auto simp: save_run_def dict_simps)
  have stored: "stored_as (save_run run repo) t k h r" if "stored_as repo t k h r" for t k h r
    using that same unfolding stored_as_def by blast
  have tables: "run_tables_ok (save_run run repo)"
    using assms unfolding run_store_ok_def run_tables_ok_def by (auto simp: save_run_def dict_simps)
  have index: "run_index_ok (save_run run repo)"
    unfolding run_index_ok_def
  proof (intro allI impI)
    fix c r assume c: "dict_get (st_run_id_by_correlation (save_run run repo)) c = Some r"
    show "\<exists>x. dict_get (st_runs (save_run run repo)) r = Some x \<and> rr_correlation_id x = c"
    proof (cases "c = rr_correlation_id run")
      case True
      with c show ?thesis by (simp add: save_run_def dict_simps)
    next
      case False
      with c have "dict_get (st_run_id_by_correlation repo) c = Some r" by (simp add: save_run_def dict_simps)
      with assms(1) same show ?thesis unfolding run_store_ok_def run_index_ok_def by blast
    qed
  qed
  have idem: "idempotency_ok (save_run run repo)"
    using assms(1) stored unfolding run_store_ok_def idempotency_ok_def by (simp add: save_run_def)
  have "attachments_ok (save_run run repo)"
    using assms(1) unfolding run_store_ok_def attachments_ok_def
    by (auto simp: save_run_def dict_simps list_workflow_decisions_def)
  moreover have "edge_run (save_run run repo) edge" if "edge_run repo edge" for edge
    using that same unfolding edge_run_def by blast
  then have "lineage_ok (save_run run repo)"
    using assms(1) unfolding run_store_ok_def lineage_ok_def by (simp add: save_run_def list_lineage_edges_def)
  moreover have "operations_ok (save_run run repo)"
    using assms(1) unfolding run_store_ok_def operations_ok_def by (simp add: save_run_def)
  ultimately show ?thesis using tables index idem by (simp add: run_store_ok_def)
qed

lemma save_run_get: "dict_get (st_runs (save_run run repo)) (rr_rebalance_run_id run) = Some run"
  by (simp add: save_run_def dict_simps)

lemma run_store_ok_cong:
  assumes "run_store_ok repo" and "st_runs repo' = st_runs repo"
  shows "st_idempotency repo' = st_idempotency repo \<Longrightarrow> st_idempotency_history repo' = st_idempotency_history repo
      \<Longrightarrow> st_lineage_edges_by_entity repo' = st_lineage_edges_by_entity repo \<Longrightarrow> run_tables_ok repo'"
    and "st_run_id_by_correlation repo' = st_run_id_by_correlation repo \<Longrightarrow> run_index_ok repo'"
    and "st_idempotency repo' = st_idempotency repo \<Longrightarrow> st_idempotency_history repo' = st_idempotency_history repo
      \<Longrightarrow> idempotency_ok repo'"
    and "st_run_artifacts repo' = st_run_artifacts repo \<Longrightarrow> st_workflow_decisions repo' = st_workflow_decisions repo
      \<Longrightarrow> attachments_ok repo'"
    and "st_lineage_edges_by_entity repo' = st_lineage_edges_by_entity repo \<Longrightarrow> lineage_ok repo'"
    and "st_operations repo' = st_operations repo
      \<Longrightarrow> st_operation_by_correlation repo' = st_operation_by_correlation repo \<Longrightarrow> operations_ok repo'"
  using assms(1)
  by (simp_all add: run_store_ok_def run_tables_ok_def [of repo'] run_tables_ok_def [of repo]
      run_index_ok_def [of repo'] run_index_ok_def [of repo] idempotency_ok_def stored_as_def attachments_ok_def
      list_workflow_decisions_def lineage_ok_def edge_run_def list_lineage_edges_def operations_ok_def assms(2))

lemma save_run_artifact_ok:
  assumes "run_store_ok repo" and "dict_get (st_runs repo) r \<noteq> None"
  shows "run_store_ok (save_run_artifact r a repo)"
proof -
  have "attachments_ok (save_run_artifact r a repo)"
    using assms unfolding run_store_ok_def attachments_ok_def list_workflow_decisions_def
    by (simp add: save_run_artifact_def dict_simps)
  then show ?thesis unfolding run_store_ok_def
    using run_store_ok_cong [OF assms(1), of "save_run_artifact r a repo"] by (simp add: save_run_artifact_def)
qed

lemma append_lineage_edge_ok:
  assumes "run_store_ok repo"
    and "ed_edge_type edge \<noteq> OPERATION_TO_CORRELATION \<longrightarrow> edge_run repo edge"
  shows "run_store_ok (append_lineage_edge edge repo)"
proof -
  have frame: "st_runs (append_lineage_edge edge repo) = st_runs repo"
    "list_workflow_decisions (append_lineage_edge edge repo) = list_workflow_decisions repo"
    by (auto simp: append_lineage_edge_def list_workflow_decisions_def)
  have "edge_run (append_lineage_edge edge repo) = edge_run repo" by (simp add: edge_run_def frame fun_eq_iff)
  then have "lineage_ok (append_lineage_edge edge repo)"
    using assms unfolding run_store_ok_def lineage_ok_def list_lineage_after_append by auto
  moreover have "dict_ok (index_lineage_edge edge (st_lineage_edges_by_entity repo))"
    using assms(1) by (simp add: run_store_ok_def run_tables_ok_def index_lineage_edge_def Let_def)
  then have "run_tables_ok (append_lineage_edge edge repo)"
    using assms(1) by (simp add: run_store_ok_def run_tables_ok_def append_lineage_edge_def)
  ultimately show ?thesis unfolding run_store_ok_def
    using run_store_ok_cong [OF assms(1), of "append_lineage_edge edge repo"] by (simp add: append_lineage_edge_def)
qed

lemma save_idempotency_mapping_ok:
  assumes "run_store_ok repo" and "stored_as repo (ri_tenant_id m) (ri_idempotency_key m) (ri_request_hash m) (ri_rebalance_run_id m)"
  shows "run_store_ok (save_idempotency_mapping m repo)"
proof -
  let ?repo = "save_idempotency_mapping m repo"
  have "idempotency_ok ?repo"
    using assms unfolding run_store_ok_def idempotency_ok_def stored_as_def
    by (simp add: save_idempotency_mapping_def dict_simps)
  moreover have "run_tables_ok ?repo"
    using assms(1) by (simp add: run_store_ok_def run_tables_ok_def save_idempotency_mapping_def)
  ultimately show ?thesis unfolding run_store_ok_def
    using run_store_ok_cong [OF assms(1), of ?repo] by (simp add: save_idempotency_mapping_def)
qed

lemma append_idempotency_history_ok:
  assumes "run_store_ok repo" and "stored_as repo (rh_tenant_id h) (rh_idempotency_key h) (rh_request_hash h) (rh_rebalance_run_id h)"
  shows "run_store_ok (append_idempotency_history h repo)"
proof -
  let ?repo = "append_idempotency_history h repo"
  have "idempotency_ok ?repo"
    using assms unfolding run_store_ok_def idempotency_ok_def stored_as_def
    by (simp add: append_idempotency_history_def dict_simps)
  moreover have "run_tables_ok ?repo"
    using assms(1) by (simp add: run_store_ok_def run_tables_ok_def append_idempotency_history_def)
  ultimately show ?thesis unfolding run_store_ok_def
    using run_store_ok_cong [OF assms(1), of ?repo] by (simp add: append_idempotency_history_def)
qed

lemma append_workflow_decision_ok:
  assumes "run_store_ok repo" and "dict_get (st_runs repo) (wd_run_id d) \<noteq> None"
  shows "run_store_ok (append_workflow_decision d repo)"
proof -
  let ?repo = "append_workflow_decision d repo"
  have "attachments_ok ?repo"
    using assms unfolding run_store_ok_def attachments_ok_def list_workflow_decisions_def
    by (simp add: append_workflow_decision_def dict_simps)
  then show ?thesis unfolding run_store_ok_def
    using run_store_ok_cong [OF assms(1), of ?repo] by (simp add: append_workflow_decision_def)
qed

text \<open>The claims are no part of these invariants.\<close>

lemma claims_update_ok: "run_store_ok repo \<Longrightarrow> run_store_ok (repo\<lparr> st_submission_claims := claims \<rparr>)"
  using run_store_ok_cong [of repo "repo\<lparr> st_submission_claims := claims \<rparr>"] by (simp add: run_store_ok_def)

lemma operations_okI:
  assumes "dict_ok (st_operations repo)"
    and "\<And>oid oper. dict_get (st_operations repo) oid = Some oper \<Longrightarrow>
           ao_operation_id oper = oid \<and> ao_request_json oper \<noteq> None \<and> operation_ok oper
           \<and> dict_get (st_operation_by_correlation repo) (ao_tenant_id oper, ao_correlation_id oper) = Some oid"
    and "\<And>t c oid. dict_get (st_operation_by_correlation repo) (t, c) = Some oid \<Longrightarrow>
           \<exists>oper. dict_get (st_operations repo) oid = Some oper \<and> ao_tenant_id oper = t \<and> ao_correlation_id oper = c"
  shows "operations_ok repo"
  using assms unfolding operations_ok_def by blast

lemma operations_okD:
  assumes "operations_ok repo" and "dict_get (st_operations repo) oid = Some oper"
  shows "ao_operation_id oper = oid" and "ao_request_json oper \<noteq> None" and "operation_ok oper"
    and "dict_get (st_operation_by_correlation repo) (ao_tenant_id oper, ao_correlation_id oper) = Some oid"
  using assms unfolding operations_ok_def by blast+

lemma operations_ok_indexD:
  assumes "operations_ok repo" and "dict_get (st_operation_by_correlation repo) (t, c) = Some oid"
  obtains oper where "dict_get (st_operations repo) oid = Some oper" "ao_tenant_id oper = t" "ao_correlation_id oper = c"
  using assms unfolding operations_ok_def by blast

text \<open>An update of an operation that keeps its identity.\<close>

lemma set_operation_ok:
  assumes "run_store_ok repo" and old: "dict_get (st_operations repo) oid = Some oper"
    and "operation_ok oper'"
    and same: "ao_operation_id oper' = ao_operation_id oper" "ao_tenant_id oper' = ao_tenant_id oper"
      "ao_correlation_id oper' = ao_correlation_id oper" "ao_request_json oper' = ao_request_json oper"
  shows "run_store_ok (set_operation oid oper' repo)"
proof -
  let ?repo = "set_operation oid oper' repo"
  have ok: "operations_ok repo" using assms(1) by (simp add: run_store_ok_def)
  have get: "dict_get (st_operations ?repo) o1 = (if o1 = oid then Some oper' else dict_get (st_operations repo) o1)"
    and idx: "st_operation_by_correlation ?repo = st_operation_by_correlation repo" for o1
    by (simp_all add: set_operation_def dict_simps)
  have "operations_ok ?repo"
  proof (rule operations_okI)
    show "dict_ok (st_operations ?repo)" using ok by (simp add: operations_ok_def set_operation_def)
  next
    fix o1 x assume "dict_get (st_operations ?repo) o1 = Some x"
    then show "ao_operation_id x = o1 \<and> ao_request_json x \<noteq> None \<and> operation_ok x
        \<and> dict_get (st_operation_by_correlation ?repo) (ao_tenant_id x, ao_correlation_id x) = Some o1"
      using operations_okD [OF ok] operations_okD [OF ok old] assms(3) same unfolding get idx by (auto split: if_splits)
  next
    fix t c o1 assume "dict_get (st_operation_by_correlation ?repo) (t, c) = Some o1"
    then obtain x where "dict_get (st_operations repo) o1 = Some x" "ao_tenant_id x = t" "ao_correlation_id x = c"
      unfolding idx by (rule operations_ok_indexD [OF ok])
    then show "\<exists>x. dict_get (st_operations ?repo) o1 = Some x \<and> ao_tenant_id x = t \<and> ao_correlation_id x = c"
      using old same unfolding get by auto
  qed
  then show ?thesis unfolding run_store_ok_def
    using run_store_ok_cong [OF assms(1), of ?repo] by (simp add: set_operation_def)
qed

lemma save_operation_ok:
  assumes "run_store_ok repo" and fresh: "dict_get (st_operations repo) (ao_operation_id oper) = None"
    and "operation_ok oper" and "ao_request_json oper \<noteq> None" and saved: "save_operation oper repo = Inr repo'"
  shows "run_store_ok repo'"
proof -
  let ?key = "(ao_tenant_id oper, ao_correlation_id oper)"
  have ok: "operations_ok repo" using assms(1) by (simp add: run_store_ok_def)
  have "dict_get (st_operation_by_correlation repo) ?key \<noteq> Some (ao_operation_id oper)"
    using operations_ok_indexD [OF ok] fresh by (metis option.distinct(1))
  then have free: "dict_get (st_operation_by_correlation repo) ?key = None"
    using saved by (auto simp: save_operation_def Let_def split: if_splits)
  have repo': "repo' = repo\<lparr> st_operations := dict_set (ao_operation_id oper) oper (st_operations repo),
      st_operation_by_correlation := dict_set ?key (ao_operation_id oper) (st_operation_by_correlation repo) \<rparr>"
    using saved by (simp add: save_operation_def Let_def split: if_splits)
  have get: "dict_get (st_operations repo') o1 =
      (if o1 = ao_operation_id oper then Some oper else dict_get (st_operations repo) o1)"
    and idx: "dict_get (st_operation_by_correlation repo') k =
      (if k = ?key then Some (ao_operation_id oper) else dict_get (st_operation_by_correlation repo) k)" for o1 k
    by (simp_all add: repo' dict_simps)
  have "operations_ok repo'"
  proof (rule operations_okI)
    show "dict_ok (st_operations repo')" using ok by (simp add: operations_ok_def repo')
  next
    fix o1 x assume "dict_get (st_operations repo') o1 = Some x"
    then show "ao_operation_id x = o1 \<and> ao_request_json x \<noteq> None \<and> operation_ok x
        \<and> dict_get (st_operation_by_correlation repo') (ao_tenant_id x, ao_correlation_id x) = Some o1"
      using operations_okD [OF ok, of o1 x] free assms(3,4) unfolding get idx by (auto split: if_splits)
  next
    fix t c o1 assume "dict_get (st_operation_by_correlation repo') (t, c) = Some o1"
    then show "\<exists>x. dict_get (st_operations repo') o1 = Some x \<and> ao_tenant_id x = t \<and> ao_correlation_id x = c"
      using fresh unfolding get idx by (auto split: if_splits elim: operations_ok_indexD [OF ok])
  qed
  then show ?thesis unfolding run_store_ok_def
    using run_store_ok_cong [OF assms(1), of repo'] by (simp add: repo')
qed

subsection \<open>Retention\<close>

lemma purge_expired_operations_ok:
  assumes "run_store_ok repo"
  shows "run_store_ok (snd (purge_expired_operations ttl now repo))"
proof -
  let ?repo = "snd (purge_expired_operations ttl now repo)" and ?cutoff = "now - ttl * 1000000"
  have ok: "operations_ok repo" using assms by (simp add: run_store_ok_def)
  then have dict: "dict_ok (st_operations repo)" by (simp add: operations_ok_def)
  have get: "dict_get (st_operations ?repo) oid = Some x
      \<longleftrightarrow> dict_get (st_operations repo) oid = Some x \<and> \<not> operation_expired ?cutoff x" for oid x
    unfolding purge_expired_operations_def purge_operations_get [OF dict] by (auto split: option.splits)
  have idx: "dict_get (st_operation_by_correlation ?repo) (t, c) = Some oid
      \<longleftrightarrow> dict_get (st_operation_by_correlation repo) (t, c) = Some oid
          \<and> (\<nexists>x. dict_get (st_operations repo) oid = Some x \<and> operation_expired ?cutoff x
                 \<and> ao_tenant_id x = t \<and> ao_correlation_id x = c)" for t c oid
    unfolding purge_expired_operations_def purge_operations_index using map_of_eq_Some_iff [OF dict]
    by (auto split: option.splits)
  have "operations_ok ?repo"
  proof (rule operations_okI)
    show "dict_ok (st_operations ?repo)"
      unfolding purge_expired_operations_def by (rule purge_operations_ok) (simp add: dict)
  next
    fix o1 x assume "dict_get (st_operations ?repo) o1 = Some x"
    then show "ao_operation_id x = o1 \<and> ao_request_json x \<noteq> None \<and> operation_ok x
        \<and> dict_get (st_operation_by_correlation ?repo) (ao_tenant_id x, ao_correlation_id x) = Some o1"
      using operations_okD [OF ok] unfolding get idx by auto
  next
    fix t c o1 assume "dict_get (st_operation_by_correlation ?repo) (t, c) = Some o1"
    then show "\<exists>x. dict_get (st_operations ?repo) o1 = Some x \<and> ao_tenant_id x = t \<and> ao_correlation_id x = c"
      using operations_ok_indexD [OF ok, of t c o1] unfolding get idx by metis
  qed
  then show ?thesis unfolding run_store_ok_def
    using run_store_ok_cong [OF assms, of ?repo] by (simp add: model_frame)
qed

text \<open>The tables after a purge of runs, as lookups.\<close>

definition run_expired :: "int \<Rightarrow> InMemoryDpmRunRepository \<Rightarrow> string \<Rightarrow> bool" where
  "run_expired cutoff repo r \<longleftrightarrow> (\<exists>run. dict_get (st_runs repo) r = Some run \<and> rr_created_at run < cutoff)"

lemma expired_runs_ids:
  assumes "run_tables_ok repo"
  shows "run \<in> set (expired_runs (st_runs repo) cutoff)
      \<longleftrightarrow> dict_get (st_runs repo) (rr_rebalance_run_id run) = Some run \<and> rr_created_at run < cutoff"
    and "rr_rebalance_run_id ` set (expired_runs (st_runs repo) cutoff) = Collect (run_expired cutoff repo)"
proof -
  have dict: "dict_ok (st_runs repo)"
    and key: "\<And>r run. dict_get (st_runs repo) r = Some run \<Longrightarrow> rr_rebalance_run_id run = r"
    using assms unfolding run_tables_ok_def by blast+
  show mem: "run \<in> set (expired_runs (st_runs repo) cutoff)
      \<longleftrightarrow> dict_get (st_runs repo) (rr_rebalance_run_id run) = Some run \<and> rr_created_at run < cutoff" for run
  proof -
    have "run \<in> set (dict_values (st_runs repo)) \<longleftrightarrow> (\<exists>r. dict_get (st_runs repo) r = Some run)"
      using map_of_eq_Some_iff [OF dict] by force
    then show ?thesis using key by (auto simp: expired_runs_def)
  qed
  show "rr_rebalance_run_id ` set (expired_runs (st_runs repo) cutoff) = Collect (run_expired cutoff repo)"
    using key unfolding set_eq_iff mem_Collect_eq run_expired_def image_iff Bex_def mem by metis
qed

text \<open>
  A purge removes the expired runs and every reference to one. \<open>entities\<close> are the identifiers whose
  lineage edges go; they include the expired runs.
\<close>

lemma purge_expired_runs_shape:
  fixes days now :: int
  assumes ok: "run_tables_ok repo" and "1 \<le> days"
  defines "gone \<equiv> run_expired (now - days * 86400000000) repo"
  obtains entities mappings where
    "\<And>r. gone r \<Longrightarrow> r \<in> entities" and "dict_ok mappings"
    and "\<And>k. dict_get mappings k = (case dict_get (st_idempotency repo) k of
           None \<Rightarrow> None | Some m \<Rightarrow> if gone (ri_rebalance_run_id m) then None else Some m)"
    and "snd (purge_expired_runs days now repo) =
      (purge_expired_run_records (expired_runs (st_runs repo) (now - days * 86400000000)) repo)\<lparr>
         st_idempotency := mappings,
         st_idempotency_history := retain_rows (\<lambda>h. \<not> gone (rh_rebalance_run_id h)) (st_idempotency_history repo),
         st_workflow_decisions := filter (\<lambda>kv. \<not> gone (fst kv)) (st_workflow_decisions repo),
         st_lineage_edges_by_entity := purge_expired_lineage_edges entities (st_lineage_edges_by_entity repo) \<rparr>
     \<or> snd (purge_expired_runs days now repo) = repo \<and> (\<forall>r. \<not> gone r)"
proof -
  let ?rows = "expired_runs (st_runs repo) (now - days * 86400000000)"
  define e where "e = expired_run_identities ?rows"
  have dict: "dict_ok (st_idempotency repo)" using ok by (simp add: run_tables_ok_def)
  obtain e2 mappings where maps: "purge_expired_idempotency_mappings e (st_idempotency repo) = (e2, mappings)"
    by fastforce
  note purged = purge_mappings [OF dict maps]
  have ids1: "ex_run_ids e = Collect gone"
    using expired_runs_ids(2) [OF ok] by (simp add: e_def expired_run_identities_def gone_def)
  then have ids: "ex_run_ids e2 = Collect gone" using purged(1) by simp
  show thesis
  proof (rule that [of "lineage_entity_ids e2" mappings])
    show "gone r \<Longrightarrow> r \<in> lineage_entity_ids e2" for r using ids by (simp add: lineage_entity_ids_def)
    show "dict_ok mappings" by (rule purged(2))
    show "dict_get mappings k = (case dict_get (st_idempotency repo) k of
        None \<Rightarrow> None | Some m \<Rightarrow> if gone (ri_rebalance_run_id m) then None else Some m)" for k
      using purged(3) [of k] ids1 by (simp split: option.splits)
    have none: "\<forall>r. \<not> gone r" if "?rows = []"
      using expired_runs_ids(2) [OF ok, of "now - days * 86400000000"] that by (auto simp: gone_def)
    show "snd (purge_expired_runs days now repo) =
      (purge_expired_run_records ?rows repo)\<lparr>
         st_idempotency := mappings,
         st_idempotency_history := retain_rows (\<lambda>h. \<not> gone (rh_rebalance_run_id h)) (st_idempotency_history repo),
         st_workflow_decisions := filter (\<lambda>kv. \<not> gone (fst kv)) (st_workflow_decisions repo),
         st_lineage_edges_by_entity := purge_expired_lineage_edges (lineage_entity_ids e2) (st_lineage_edges_by_entity repo) \<rparr>
     \<or> snd (purge_expired_runs days now repo) = repo \<and> (\<forall>r. \<not> gone r)"
      using assms(2) maps none ids
      by (simp add: purge_expired_runs_def Let_def e_def model_frame purge_expired_idempotency_history_def
          split: prod.splits)
  qed
qed

text \<open>The tables after a purge, as lookups.\<close>

definition runs_purged ::
  "(string \<Rightarrow> bool) \<Rightarrow> string set \<Rightarrow> InMemoryDpmRunRepository \<Rightarrow> InMemoryDpmRunRepository \<Rightarrow> bool" where
  "runs_purged gone entities repo repo' \<longleftrightarrow>
     (\<forall>r. gone r \<longrightarrow> r \<in> entities) \<and> run_tables_ok repo'
     \<and> (\<forall>r. dict_get (st_runs repo') r = (if gone r then None else dict_get (st_runs repo) r))
     \<and> (\<forall>c r. dict_get (st_run_id_by_correlation repo') c = Some r
          \<longrightarrow> dict_get (st_run_id_by_correlation repo) c = Some r
              \<and> (\<forall>run. dict_get (st_runs repo) r = Some run \<and> rr_correlation_id run = c \<longrightarrow> \<not> gone r))
     \<and> (\<forall>k. dict_get (st_idempotency repo') k = (case dict_get (st_idempotency repo) k of
            None \<Rightarrow> None | Some m \<Rightarrow> if gone (ri_rebalance_run_id m) then None else Some m))
     \<and> (\<forall>k. dict_get_or (st_idempotency_history repo') k []
            = filter (\<lambda>h. \<not> gone (rh_rebalance_run_id h)) (dict_get_or (st_idempotency_history repo) k []))
     \<and> (\<forall>r. dict_get (st_run_artifacts repo') r = (if gone r then None else dict_get (st_run_artifacts repo) r))
     \<and> (\<forall>r. list_workflow_decisions repo' r = (if gone r then [] else list_workflow_decisions repo r))
     \<and> (\<forall>e. list_lineage_edges repo' e
            = filter (\<lambda>edge. ed_source_entity_id edge \<notin> entities \<and> ed_target_entity_id edge \<notin> entities)
                (list_lineage_edges repo e))
     \<and> st_operations repo' = st_operations repo
     \<and> st_operation_by_correlation repo' = st_operation_by_correlation repo
     \<and> st_submission_claims repo' = st_submission_claims repo"

lemma runs_purged_unchanged: "run_tables_ok repo \<Longrightarrow> (\<And>r. \<not> gone r) \<Longrightarrow> runs_purged gone {} repo repo"
  by (simp add: runs_purged_def split: option.splits)

lemma purge_expired_runs_tables:
  fixes days now :: int
  assumes ok: "run_tables_ok repo" and "1 \<le> days"
  shows "\<exists>entities. runs_purged (run_expired (now - days * 86400000000) repo) entities repo
           (snd (purge_expired_runs days now repo))"
proof -
  let ?rows = "expired_runs (st_runs repo) (now - days * 86400000000)"
  define gone where "gone = run_expired (now - days * 86400000000) repo"
  have dict: "dict_ok (st_runs repo)" "dict_ok (st_idempotency_history repo)" "dict_ok (st_lineage_edges_by_entity repo)"
    and key: "\<And>r run. dict_get (st_runs repo) r = Some run \<Longrightarrow> rr_rebalance_run_id run = r"
    using ok unfolding run_tables_ok_def by blast+
  note rows = expired_runs_ids [OF ok, where cutoff = "now - days * 86400000000", folded gone_def]
  obtain entities mappings where ent: "\<And>r. gone r \<Longrightarrow> r \<in> entities" and maps: "dict_ok mappings"
      "\<And>k. dict_get mappings k = (case dict_get (st_idempotency repo) k of
         None \<Rightarrow> None | Some m \<Rightarrow> if gone (ri_rebalance_run_id m) then None else Some m)"
    and shape: "snd (purge_expired_runs days now repo) = (purge_expired_run_records ?rows repo)\<lparr> st_idempotency := mappings,
         st_idempotency_history := retain_rows (\<lambda>h. \<not> gone (rh_rebalance_run_id h)) (st_idempotency_history repo),
         st_workflow_decisions := filter (\<lambda>kv. \<not> gone (fst kv)) (st_workflow_decisions repo),
         st_lineage_edges_by_entity := purge_expired_lineage_edges entities (st_lineage_edges_by_entity repo) \<rparr>
      \<or> snd (purge_expired_runs days now repo) = repo \<and> (\<forall>r. \<not> gone r)"
    using purge_expired_runs_shape [OF ok assms(2)] unfolding gone_def by blast
  have drop: "dict_get_or (filter (\<lambda>kv. \<not> gone (fst kv)) d) k [] = (if gone k then [] else dict_get_or d k [])"
    for d :: "(string, DpmRunWorkflowDecisionRecord list) dict" and k
    by (induction d) (auto simp: dict_get_or_def)
  let ?repo = "(purge_expired_run_records ?rows repo)\<lparr> st_idempotency := mappings,
         st_idempotency_history := retain_rows (\<lambda>h. \<not> gone (rh_rebalance_run_id h)) (st_idempotency_history repo),
         st_workflow_decisions := filter (\<lambda>kv. \<not> gone (fst kv)) (st_workflow_decisions repo),
         st_lineage_edges_by_entity := purge_expired_lineage_edges entities (st_lineage_edges_by_entity repo) \<rparr>"
  have index: "dict_get (st_run_id_by_correlation repo) c = Some r
      \<and> (\<forall>run. dict_get (st_runs repo) r = Some run \<and> rr_correlation_id run = c \<longrightarrow> \<not> gone r)"
    if "dict_get (st_run_id_by_correlation ?repo) c = Some r" for c r
    using that key rows(1) unfolding gone_def run_expired_def
    by (auto simp: purge_run_records image_iff split: option.splits if_splits)
  have tables: "run_tables_ok ?repo"
    using dict key maps(1)
    by (auto simp: run_tables_ok_def purge_run_records rows(2) model_frame purge_expired_lineage_edges_def split: if_splits)
  have "runs_purged gone entities repo ?repo"
    unfolding runs_purged_def
  proof (intro conjI)
    show "\<forall>r. gone r \<longrightarrow> r \<in> entities" using ent by blast
    show "run_tables_ok ?repo" by (rule tables)
    show "\<forall>c r. dict_get (st_run_id_by_correlation ?repo) c = Some r
        \<longrightarrow> dict_get (st_run_id_by_correlation repo) c = Some r
            \<and> (\<forall>run. dict_get (st_runs repo) r = Some run \<and> rr_correlation_id run = c \<longrightarrow> \<not> gone r)"
      using index by blast
  qed (simp_all add: maps purge_run_records rows(2) model_frame retain_rows_get_or dict drop
      list_workflow_decisions_def list_lineage_edges_def purge_expired_lineage_edges_def)
  with shape runs_purged_unchanged [OF ok, of gone] show ?thesis unfolding gone_def [symmetric] by metis
qed

lemma runs_purged_ok:
  assumes ok: "run_store_ok repo" and purged: "runs_purged gone entities repo repo'"
  shows "run_store_ok repo'"
proof -
  have runs: "dict_get (st_runs repo') r = (if gone r then None else dict_get (st_runs repo) r)" for r
    using purged by (simp add: runs_purged_def)
  then have stored: "stored_as repo' t k h r \<longleftrightarrow> stored_as repo t k h r \<and> \<not> gone r" for t k h r
    by (simp add: stored_as_def)
  have "run_index_ok repo'"
    using ok purged unfolding run_store_ok_def run_index_ok_def runs_purged_def by metis
  moreover have "idempotency_ok repo'"
    using ok purged unfolding run_store_ok_def idempotency_ok_def runs_purged_def stored
    by (auto split: option.splits if_splits)
  moreover have "attachments_ok repo'"
    using ok purged unfolding run_store_ok_def attachments_ok_def runs_purged_def by auto
  moreover have "lineage_ok repo'"
    using ok purged unfolding run_store_ok_def lineage_ok_def edge_run_def runs_purged_def by auto
  moreover have "operations_ok repo'"
    using ok purged unfolding run_store_ok_def operations_ok_def runs_purged_def by auto
  ultimately show ?thesis using purged by (simp add: run_store_ok_def runs_purged_def)
qed

lemma purge_expired_runs_ok:
  assumes "run_store_ok repo" and "1 \<le> days"
  shows "run_store_ok (snd (purge_expired_runs days now repo))"
  using runs_purged_ok [OF assms(1)] purge_expired_runs_tables [of repo days now] assms
  by (auto simp: run_store_ok_def [of repo])

lemma cleanup_ok:
  assumes "run_store_ok repo"
  shows "run_store_ok (cleanup_expired_operations svc now repo)"
    and "run_store_ok (cleanup_expired_supportability svc now repo)"
  using assms by (auto simp: cleanup_expired_operations_def cleanup_expired_supportability_def
      intro: purge_expired_operations_ok purge_expired_runs_ok)


subsection \<open>Operations of the service\<close>

lemma cleanup_supportability_claims:
  assumes "run_store_ok repo" and "claims_ok repo"
  shows "claims_ok (cleanup_expired_supportability svc now repo)"
proof (cases "sv_supportability_retention_days svc < 1")
  case False
  let ?days = "sv_supportability_retention_days svc"
  obtain gone entities where "runs_purged gone entities repo (snd (purge_expired_runs ?days now repo))"
    using purge_expired_runs_tables [of repo ?days now] False assms(1) by (auto simp: run_store_ok_def)
  then have maps: "\<And>k. dict_get (st_idempotency (snd (purge_expired_runs ?days now repo))) k
      = (case dict_get (st_idempotency repo) k of
          None \<Rightarrow> None | Some m \<Rightarrow> if gone (ri_rebalance_run_id m) then None else Some m)"
    and hist: "\<And>k. dict_get_or (st_idempotency_history (snd (purge_expired_runs ?days now repo))) k []
      = filter (\<lambda>h. \<not> gone (rh_rebalance_run_id h)) (dict_get_or (st_idempotency_history repo) k [])"
    and claims: "st_submission_claims (snd (purge_expired_runs ?days now repo)) = st_submission_claims repo"
    unfolding runs_purged_def by blast+
  have one: "\<exists>c h. dict_get (st_submission_claims repo) (t, k) = Some c \<and> cr_status c = CLAIM_COMPLETED
      \<and> filter P (dict_get_or (st_idempotency_history repo) (Some t, k) []) = [h]
      \<and> cr_rebalance_run_id c = Some (rh_rebalance_run_id h) \<and> cr_request_hash c = rh_request_hash h"
    if "filter P (dict_get_or (st_idempotency_history repo) (Some t, k) []) \<noteq> []" for P t k
  proof -
    have "dict_get_or (st_idempotency_history repo) (Some t, k) [] \<noteq> []" using that by auto
    then obtain c h where "dict_get (st_submission_claims repo) (t, k) = Some c" "cr_status c = CLAIM_COMPLETED"
      "dict_get_or (st_idempotency_history repo) (Some t, k) [] = [h]"
      "cr_rebalance_run_id c = Some (rh_rebalance_run_id h)" "cr_request_hash c = rh_request_hash h"
      using assms(2) unfolding claims_ok_def by blast
    with that show ?thesis by (auto split: if_splits)
  qed
  have "claims_ok (snd (purge_expired_runs ?days now repo))"
    unfolding claims_ok_def maps hist claims
    using assms(2) one by (auto simp: claims_ok_def split: option.splits if_splits)
  with False show ?thesis by (simp add: cleanup_expired_supportability_def)
qed (use assms in \<open>simp add: cleanup_expired_supportability_def\<close>)

lemma claims_ok_cong:
  assumes "claims_ok repo" and "st_submission_claims repo' = st_submission_claims repo"
    and "st_idempotency repo' = st_idempotency repo" and "st_idempotency_history repo' = st_idempotency_history repo"
  shows "claims_ok repo'"
  using assms by (simp add: claims_ok_def)

lemma claims_okD:
  assumes "claims_ok repo" and "dict_get (st_submission_claims repo) (t, k) = Some c"
  shows "cr_tenant_id c = t" and "cr_idempotency_key c = k"
    and "cr_status c = CLAIM_COMPLETED \<longleftrightarrow> cr_rebalance_run_id c \<noteq> None"
  using assms unfolding claims_ok_def by blast+

text \<open>A key whose claim is open, or that has none, has neither history nor mapping.\<close>

lemma unused_key:
  assumes "claims_ok repo" and "\<forall>c. dict_get (st_submission_claims repo) (t, k) = Some c \<longrightarrow> cr_status c = CLAIM_IN_PROGRESS"
  shows "dict_get_or (st_idempotency_history repo) (Some t, k) [] = []"
    and "dict_get (st_idempotency repo) (Some t, k) = None"
proof -
  have "\<not> (\<exists>c. dict_get (st_submission_claims repo) (t, k) = Some c \<and> cr_status c = CLAIM_COMPLETED)"
    using assms(2) by auto
  then show "dict_get_or (st_idempotency_history repo) (Some t, k) [] = []"
    "dict_get (st_idempotency repo) (Some t, k) = None"
    using assms(1) unfolding claims_ok_def by (blast, metis option.exhaust)
qed

lemma open_claim_ok:
  assumes "run_store_ok repo \<and> claims_ok repo"
    and "\<forall>c. dict_get (st_submission_claims repo) (t, k) = Some c \<longrightarrow> cr_status c = CLAIM_IN_PROGRESS"
    and "cr_tenant_id c = t" "cr_idempotency_key c = k" "cr_status c = CLAIM_IN_PROGRESS" "cr_rebalance_run_id c = None"
  defines "repo' \<equiv> repo\<lparr> st_submission_claims := dict_set (t, k) c (st_submission_claims repo) \<rparr>"
  shows "run_store_ok repo' \<and> claims_ok repo'"
proof -
  have "claims_ok repo'"
    using assms(1,3-6) unused_key [OF _ assms(2)] unfolding claims_ok_def repo'_def by (auto simp: dict_simps)
  with assms(1) show ?thesis by (simp add: repo'_def claims_update_ok)
qed

lemma submission_claim_ok:
  assumes "run_store_ok repo \<and> claims_ok repo"
  shows "run_store_ok (snd (claim_simulation_submission t k h token claimed expires repo))
    \<and> claims_ok (snd (claim_simulation_submission t k h token claimed expires repo))"
proof (cases "snd (claim_simulation_submission t k h token claimed expires repo) = repo")
  case False
  have "\<forall>c. dict_get (st_submission_claims repo) (t, k) = Some c \<longrightarrow> cr_status c = CLAIM_IN_PROGRESS"
    using False by (auto simp: claim_simulation_submission_def claim_reclaimable_def Let_def split: if_splits)
  note open_claim = open_claim_ok [OF assms this]
  have "snd (claim_simulation_submission t k h token claimed expires repo) =
      repo\<lparr> st_submission_claims := dict_set (t, k)
        \<lparr> cr_tenant_id = t, cr_idempotency_key = k, cr_request_hash = h, cr_status = CLAIM_IN_PROGRESS,
          cr_claim_token = token, cr_claimed_at = claimed, cr_claim_expires_at = expires,
          cr_rebalance_run_id = None, cr_completed_at = None \<rparr> (st_submission_claims repo) \<rparr>"
    using False by (auto simp: claim_simulation_submission_def Let_def split: option.splits if_splits)
  then show ?thesis using open_claim by simp
qed (use assms in simp)

lemma abandon_ok:
  assumes "run_store_ok repo \<and> claims_ok repo"
  shows "run_store_ok (abandon_simulation_submission_claim t k token stamp repo)
    \<and> claims_ok (abandon_simulation_submission_claim t k token stamp repo)"
proof (cases "dict_get (st_submission_claims repo) (t, k)")
  case (Some c)
  show ?thesis
  proof (cases "cr_status c = CLAIM_IN_PROGRESS \<and> cr_claim_token c = token")
    case True
    have "cr_tenant_id c = t" "cr_idempotency_key c = k" "cr_rebalance_run_id c = None"
      using claims_okD [OF _ Some] assms True by auto
    with True open_claim_ok [OF assms, of t k "c\<lparr> cr_claim_expires_at := stamp \<rparr>"] Some show ?thesis
      by (simp add: abandon_simulation_submission_claim_def)
  qed (use assms Some in \<open>auto simp: abandon_simulation_submission_claim_def\<close>)
qed (use assms in \<open>simp add: abandon_simulation_submission_claim_def\<close>)

text \<open>What a successful completion stores, table by table.\<close>

lemma complete_submission_stores:
  assumes "complete_submission svc artifact_of dump now t k h token r portfolio repo = Inr repo'"
  defines "run \<equiv> run_record_of dump (Some t) r h (Some k) portfolio now"
  obtains c where "dict_get (st_submission_claims repo) (t, k) = Some c" and "owns_claim h token c"
    and "st_runs repo' = dict_set (rebalance_run_id r) run (st_runs repo)"
    and "st_idempotency repo' = dict_set (Some t, k) \<lparr> ri_tenant_id = Some t, ri_idempotency_key = k,
           ri_request_hash = h, ri_rebalance_run_id = rebalance_run_id r, ri_created_at = now \<rparr> (st_idempotency repo)"
    and "st_idempotency_history repo' = append_to (Some t, k) \<lparr> rh_tenant_id = Some t, rh_idempotency_key = k,
           rh_rebalance_run_id = rebalance_run_id r, rh_correlation_id = correlation_id r, rh_request_hash = h,
           rh_created_at = now \<rparr> (st_idempotency_history repo)"
    and "st_submission_claims repo' = dict_set (t, k) (c\<lparr> cr_status := CLAIM_COMPLETED,
           cr_rebalance_run_id := Some (rebalance_run_id r), cr_completed_at := Some now, cr_claim_expires_at := now \<rparr>)
           (st_submission_claims repo)"
proof -
  from assms(1) obtain c where c: "dict_get (st_submission_claims repo) (t, k) = Some c" "owns_claim h token c"
    by (auto simp: complete_submission_def complete_simulation_submission_def Let_def split: option.splits if_splits)
  show thesis
    using assms(1) c
    by (intro that [OF c])
      (auto simp: complete_submission_def complete_simulation_submission_def Let_def run_record_of_def run_def
        save_run_def save_run_artifact_def append_lineage_edge_def split: option.splits if_splits)
qed

lemma fold_lineage_ok:
  assumes "run_store_ok repo"
    and "\<forall>edge \<in> set edges. edge_run repo edge"
  shows "run_store_ok (fold append_lineage_edge edges repo)"
  using assms
proof (induction edges arbitrary: repo)
  case (Cons edge edges)
  then have "run_store_ok (append_lineage_edge edge repo)" by (intro append_lineage_edge_ok) auto
  with Cons show ?case by (simp add: append_lineage_edge_def edge_run_def)
qed simp

lemma complete_submission_chain:
  assumes "complete_submission svc artifact_of dump now t k h token r portfolio repo = Inr repo'"
  defines "run \<equiv> run_record_of dump (Some t) r h (Some k) portfolio now"
  obtains edges where "\<forall>edge \<in> set edges. ed_target_entity_id edge = rebalance_run_id r \<and> ed_tenant_id edge = Some t"
    and "repo' = (fold append_lineage_edge edges
           (append_idempotency_history
              \<lparr> rh_tenant_id = Some t, rh_idempotency_key = k, rh_rebalance_run_id = rebalance_run_id r,
                rh_correlation_id = correlation_id r, rh_request_hash = h, rh_created_at = now \<rparr>
              (save_idempotency_mapping
                 \<lparr> ri_tenant_id = Some t, ri_idempotency_key = k, ri_request_hash = h,
                   ri_rebalance_run_id = rebalance_run_id r, ri_created_at = now \<rparr>
                 (persist_run_artifact_if_needed svc artifact_of run (save_run run repo)))))
           \<lparr> st_submission_claims := st_submission_claims repo' \<rparr>"
proof -
  let ?edges = "[\<lparr> ed_tenant_id = Some t, ed_source_entity_id = correlation_id r, ed_edge_type = CORRELATION_TO_RUN,
      ed_target_entity_id = rebalance_run_id r, ed_created_at = now, ed_metadata_json = [(''request_hash'', JStr h)] \<rparr>,
    \<lparr> ed_tenant_id = Some t, ed_source_entity_id = k, ed_edge_type = IDEMPOTENCY_TO_RUN,
      ed_target_entity_id = rebalance_run_id r, ed_created_at = now, ed_metadata_json = [(''request_hash'', JStr h)] \<rparr>]"
  show thesis
    using assms(1)
    by (intro that [of ?edges])
      (auto simp: complete_submission_def complete_simulation_submission_def Let_def run_def run_record_of_def
        persist_run_artifact_if_needed_def append_idempotency_history_def save_idempotency_mapping_def
        split: option.splits if_splits)
qed

lemma complete_claims_ok:
  assumes ok: "claims_ok repo"
    and completed: "complete_submission svc artifact_of dump now t k h token r portfolio repo = Inr repo'"
  shows "claims_ok repo'"
proof -
  obtain c where c: "dict_get (st_submission_claims repo) (t, k) = Some c" "owns_claim h token c"
    and hist: "st_idempotency_history repo' = append_to (Some t, k) \<lparr> rh_tenant_id = Some t, rh_idempotency_key = k,
           rh_rebalance_run_id = rebalance_run_id r, rh_correlation_id = correlation_id r, rh_request_hash = h,
           rh_created_at = now \<rparr> (st_idempotency_history repo)"
    and maps: "st_idempotency repo' = dict_set (Some t, k) \<lparr> ri_tenant_id = Some t, ri_idempotency_key = k,
           ri_request_hash = h, ri_rebalance_run_id = rebalance_run_id r, ri_created_at = now \<rparr> (st_idempotency repo)"
    and claims: "st_submission_claims repo' = dict_set (t, k) (c\<lparr> cr_status := CLAIM_COMPLETED,
           cr_rebalance_run_id := Some (rebalance_run_id r), cr_completed_at := Some now, cr_claim_expires_at := now \<rparr>)
           (st_submission_claims repo)"
    by (rule complete_submission_stores [OF completed])
  have "\<forall>c. dict_get (st_submission_claims repo) (t, k) = Some c \<longrightarrow> cr_status c = CLAIM_IN_PROGRESS"
    using c by (simp add: owns_claim_def)
  note unused = unused_key [OF ok this]
  have "cr_tenant_id c = t" "cr_idempotency_key c = k" "cr_request_hash c = h"
    using claims_okD [OF ok c(1)] c(2) by (auto simp: owns_claim_def)
  then show "claims_ok repo'"
    using ok unused unfolding claims_ok_def maps hist claims by (auto simp: dict_simps)
qed

lemma persist_run_artifact_ok:
  assumes "run_store_ok repo" and "dict_get (st_runs repo) (rr_rebalance_run_id run) \<noteq> None"
  shows "run_store_ok (persist_run_artifact_if_needed svc artifact_of run repo)"
  using assms by (simp add: persist_run_artifact_if_needed_def save_run_artifact_ok)

lemma complete_store_ok:
  assumes ok: "run_store_ok repo"
    and completed: "complete_submission svc artifact_of dump now t k h token r portfolio repo = Inr repo'"
    and fresh: "dict_get (st_runs repo) (rebalance_run_id r) = None"
  shows "run_store_ok repo'"
proof -
  define run where "run = run_record_of dump (Some t) r h (Some k) portfolio now"
  define repo1 where "repo1 = persist_run_artifact_if_needed svc artifact_of run (save_run run repo)"
  have id: "rr_rebalance_run_id run = rebalance_run_id r" by (simp add: run_def run_record_of_def)
  have saved: "dict_get (st_runs (save_run run repo)) (rebalance_run_id r) = Some run"
    using save_run_get [of run repo] by (simp add: id)
  have ok1: "run_store_ok repo1"
    unfolding repo1_def using save_run_ok [OF ok, of run] saved fresh by (intro persist_run_artifact_ok) (auto simp: id)
  have run1: "dict_get (st_runs repo1) (rebalance_run_id r) = Some run"
    using saved by (simp add: repo1_def persist_run_artifact_if_needed_def save_run_artifact_def)
  let ?m = "\<lparr> ri_tenant_id = Some t, ri_idempotency_key = k, ri_request_hash = h,
    ri_rebalance_run_id = rebalance_run_id r, ri_created_at = now \<rparr>"
  let ?h = "\<lparr> rh_tenant_id = Some t, rh_idempotency_key = k, rh_rebalance_run_id = rebalance_run_id r,
    rh_correlation_id = correlation_id r, rh_request_hash = h, rh_created_at = now \<rparr>"
  have stored: "stored_as repo1 (Some t) k h (rebalance_run_id r)"
    using run1 by (simp add: stored_as_def run_def run_record_of_def)
  then have "run_store_ok (append_idempotency_history ?h (save_idempotency_mapping ?m repo1))"
    using ok1 by (intro append_idempotency_history_ok save_idempotency_mapping_ok)
      (simp_all add: stored_as_def save_idempotency_mapping_def)
  then have lineage: "run_store_ok (fold append_lineage_edge edges
      (append_idempotency_history ?h (save_idempotency_mapping ?m repo1)))"
    if "\<forall>edge \<in> set edges. ed_target_entity_id edge = rebalance_run_id r \<and> ed_tenant_id edge = Some t" for edges
    using that run1
    by (intro fold_lineage_ok)
      (auto simp: edge_run_def append_idempotency_history_def save_idempotency_mapping_def run_def run_record_of_def)
  from completed obtain edges where
    edges: "\<forall>edge \<in> set edges. ed_target_entity_id edge = rebalance_run_id r \<and> ed_tenant_id edge = Some t"
    and "repo' = (fold append_lineage_edge edges (append_idempotency_history ?h (save_idempotency_mapping ?m repo1)))
           \<lparr> st_submission_claims := st_submission_claims repo' \<rparr>"
    unfolding repo1_def run_def by (rule complete_submission_chain)
  then show ?thesis using claims_update_ok [OF lineage [OF edges]] by metis
qed

text \<open>The steps that leave claims, mappings and history alone.\<close>

lemma frame_claims [model_frame]:
  "st_submission_claims (cleanup_expired_operations svc now repo) = st_submission_claims repo"
  "st_idempotency (cleanup_expired_operations svc now repo) = st_idempotency repo"
  "st_idempotency_history (cleanup_expired_operations svc now repo) = st_idempotency_history repo"
  "st_runs (cleanup_expired_operations svc now repo) = st_runs repo"
  by (simp_all add: cleanup_expired_operations_def model_frame)

lemma cleanup_supportability_runs:
  "run_store_ok repo \<Longrightarrow> dict_get (st_runs repo) r = None
     \<Longrightarrow> dict_get (st_runs (cleanup_expired_supportability svc now repo)) r = None"
  using purge_expired_runs_tables [of repo "sv_supportability_retention_days svc" now]
  by (auto simp: cleanup_expired_supportability_def runs_purged_def run_store_ok_def)

lemma cleanup_operations_fresh:
  assumes "run_store_ok repo" and "dict_get (st_operations repo) oid = None"
  shows "dict_get (st_operations (cleanup_expired_operations svc now repo)) oid = None"
proof -
  have "dict_ok (st_operations repo)" using assms(1) by (simp add: run_store_ok_def operations_ok_def)
  from purge_operations_get [OF this] assms(2) show ?thesis
    by (simp add: cleanup_expired_operations_def purge_expired_operations_def)
qed

text \<open>A recorded run and its edges, before or after its artifact.\<close>

lemma record_run_cases:
  assumes "repo' = snd (record_run svc artifact_of dump cleaned now r h portfolio None tenant claim scenario repo)"
  obtains "repo' = repo" | "repo' = cleanup_expired_supportability svc cleaned repo"
    | run es where "rr_rebalance_run_id run = rebalance_run_id r"
        "\<forall>edge \<in> set es. ed_target_entity_id edge = rebalance_run_id r \<and> ed_tenant_id edge = rr_tenant_id run"
        "repo' = persist_run_artifact_if_needed svc artifact_of run
           (fold append_lineage_edge es (save_run run (cleanup_expired_supportability svc cleaned repo)))"
proof (cases claim)
  case None
  define run where "run = run_record_of dump tenant r h None portfolio now"
  let ?edge = "\<lparr> ed_tenant_id = tenant, ed_source_entity_id = rr_correlation_id run, ed_edge_type = CORRELATION_TO_RUN,
    ed_target_entity_id = rr_rebalance_run_id run, ed_created_at = now,
    ed_metadata_json = [(''request_hash'', JStr (rr_request_hash run))] \<rparr>"
  have id: "rr_rebalance_run_id run = rebalance_run_id r" and tenant: "rr_tenant_id run = tenant"
    by (simp_all add: run_def run_record_of_def)
  have "append_lineage_edge ?edge (persist_run_artifact_if_needed svc artifact_of run x)
      = persist_run_artifact_if_needed svc artifact_of run (fold append_lineage_edge [?edge] x)" for x
    by (simp add: persist_run_artifact_if_needed_def append_lineage_edge_def save_run_artifact_def)
  then show thesis using that(1,2) that(3) [OF id, of "[?edge]"] assms None
    by (simp add: record_run_def Let_def record_lineage_edge_def id tenant flip: run_def split: if_splits)
next
  case (Some c)
  define run where "run = run_record_of dump (Some (ac_tenant_id c)) r h None portfolio now"
  have id: "rr_rebalance_run_id run = rebalance_run_id r" and tenant: "rr_tenant_id run = Some (ac_tenant_id c)"
    by (simp_all add: run_def run_record_of_def)
  let ?es = "operation_membership_edges c (the scenario) (Some (ac_tenant_id c)) run now"
  have "\<forall>edge \<in> set ?es. ed_target_entity_id edge = rebalance_run_id r \<and> ed_tenant_id edge = rr_tenant_id run"
    by (simp add: operation_membership_edges_def id tenant)
  note saved = that(3) [OF id this]
  show thesis using that(1,2) saved assms Some
    by (simp add: record_run_def Let_def save_run_with_lineage_def flip: run_def split: if_splits)
qed

lemma record_run_ok:
  assumes ok: "run_store_ok repo \<and> claims_ok repo" and fresh: "dict_get (st_runs repo) (rebalance_run_id r) = None"
    and "repo' = snd (record_run svc artifact_of dump cleaned now r h portfolio None tenant claim scenario repo)"
  shows "run_store_ok repo' \<and> claims_ok repo'"
proof -
  define repo1 where "repo1 = cleanup_expired_supportability svc cleaned repo"
  have ok1: "run_store_ok repo1 \<and> claims_ok repo1"
    using ok cleanup_ok cleanup_supportability_claims by (simp add: repo1_def)
  have fresh1: "dict_get (st_runs repo1) (rebalance_run_id r) = None"
    using cleanup_supportability_runs ok fresh by (simp add: repo1_def)
  from assms(3) show ?thesis
  proof (cases rule: record_run_cases)
    case (3 run es)
    note repo' = 3(3) [folded repo1_def]
    have "run_store_ok (save_run run repo1)" using save_run_ok [of repo1 run] ok1 fresh1 3(1) by simp
    then have "run_store_ok (fold append_lineage_edge es (save_run run repo1))"
      using 3(1,2) save_run_get [of run repo1] by (intro fold_lineage_ok) (auto simp: edge_run_def)
    then have "run_store_ok repo'"
      unfolding repo' using save_run_get [of run repo1] by (intro persist_run_artifact_ok) (simp_all add: model_frame)
    moreover have "claims_ok repo'"
      using ok1 by (auto simp: repo' persist_run_artifact_if_needed_def save_run_artifact_def save_run_def model_frame
          elim!: claims_ok_cong)
    ultimately show ?thesis ..
  qed (use ok ok1 in \<open>auto simp: repo1_def\<close>)
qed

lemma artifact_read_ok:
  assumes ok: "run_store_ok repo \<and> claims_ok repo"
  shows "run_store_ok (snd (get_run_artifact_for_tenant svc artifact_of now t r repo))
    \<and> claims_ok (snd (get_run_artifact_for_tenant svc artifact_of now t r repo))"
proof -
  define repo1 where "repo1 = cleanup_expired_supportability svc now repo"
  have ok1: "run_store_ok repo1 \<and> claims_ok repo1"
    using ok cleanup_ok cleanup_supportability_claims by (simp add: repo1_def)
  show ?thesis
  proof (cases "get_run_for_tenant repo1 t r")
    case (Some run)
    then have "dict_get (st_runs repo1) r = Some run"
      by (simp add: get_run_for_tenant_def get_run_def split: option.splits if_splits)
    moreover from this have "rr_rebalance_run_id run = r"
      using ok1 unfolding run_store_ok_def run_tables_ok_def by blast
    ultimately have "run_store_ok (save_run_artifact (rr_rebalance_run_id run) a repo1)" for a
      using ok1 by (simp add: save_run_artifact_ok)
    moreover have "claims_ok (save_run_artifact (rr_rebalance_run_id run) a repo1)" for a
      using ok1 by (auto simp: save_run_artifact_def elim!: claims_ok_cong)
    ultimately show ?thesis
      using ok1 Some
      by (simp add: get_run_artifact_for_tenant_def required_run_def resolve_run_artifact_def Let_def repo1_def
          split: option.splits)
  qed (use ok1 in \<open>simp add: get_run_artifact_for_tenant_def required_run_def Let_def flip: repo1_def\<close>)
qed

lemma submit_snd:
  assumes "require_async_tenant_id t = Inr tenant"
    and "repo1 = cleanup_expired_operations svc cleaned repo"
    and "resolved = (if correlation \<in> {None, Some ''''} then ''corr_'' @ corr_hex else the correlation)"
    and "oper = build_analyze_operation tenant (''dop_'' @ hex) resolved request_json now"
  shows "snd (submit_analyze_async svc cleaned now corr_hex hex t correlation request_json repo) =
     (if get_operation_by_correlation_for_tenant repo1 tenant resolved \<noteq> None then repo1
      else case save_operation oper repo1 of
             Inl _ \<Rightarrow> repo1
           | Inr repo2 \<Rightarrow> record_lineage_edge (Some tenant) (ao_operation_id oper) OPERATION_TO_CORRELATION
               (ao_correlation_id oper) [(''operation_type'', JStr (ao_operation_type oper))] (ao_created_at oper) repo2)"
  unfolding submit_analyze_async_def assms(1) Let_def create_operation_def sum.case assms(2-4)
  by (simp split: sum.splits run_error.splits)

lemma submit_ok:
  assumes ok: "run_store_ok repo \<and> claims_ok repo" and fresh: "dict_get (st_operations repo) (''dop_'' @ hex) = None"
  shows "run_store_ok (snd (submit_analyze_async svc cleaned now corr_hex hex t correlation request_json repo))
    \<and> claims_ok (snd (submit_analyze_async svc cleaned now corr_hex hex t correlation request_json repo))"
proof (cases "require_async_tenant_id t")
  case (Inr tenant)
  define repo1 where "repo1 = cleanup_expired_operations svc cleaned repo"
  define resolved where "resolved = (if correlation \<in> {None, Some ''''} then ''corr_'' @ corr_hex else the correlation)"
  define oper where "oper = build_analyze_operation tenant (''dop_'' @ hex) resolved request_json now"
  note submit = submit_snd [OF Inr repo1_def resolved_def oper_def]
  have ok1: "run_store_ok repo1" "claims_ok repo1"
    using ok cleanup_ok(1) by (auto simp: repo1_def model_frame elim!: claims_ok_cong)
  have fields: "ao_operation_id oper = ''dop_'' @ hex" "operation_ok oper" "ao_request_json oper \<noteq> None"
    by (simp_all add: oper_def build_analyze_operation_def operation_ok_def)
  have fresh1: "dict_get (st_operations repo1) (ao_operation_id oper) = None"
    using cleanup_operations_fresh ok fresh by (simp add: repo1_def fields(1))
  have "run_store_ok (record_lineage_edge a b OPERATION_TO_CORRELATION c m e repo2)
      \<and> claims_ok (record_lineage_edge a b OPERATION_TO_CORRELATION c m e repo2)"
    if saved: "save_operation oper repo1 = Inr repo2" for repo2 a b c m e
  proof
    show "run_store_ok (record_lineage_edge a b OPERATION_TO_CORRELATION c m e repo2)"
      unfolding record_lineage_edge_def using save_operation_ok [OF ok1(1) fresh1 fields(2,3) saved]
      by (intro append_lineage_edge_ok) simp_all
    show "claims_ok (record_lineage_edge a b OPERATION_TO_CORRELATION c m e repo2)"
      using ok1(2) saved
      by (auto simp: save_operation_def Let_def record_lineage_edge_def append_lineage_edge_def
          split: if_splits elim!: claims_ok_cong)
  qed
  then show ?thesis using ok1 unfolding submit by (simp split: sum.splits)
qed (use ok in \<open>simp add: submit_analyze_async_def\<close>)

text \<open>An update of one operation leaves the claims as they are.\<close>

lemma set_operation_claims: "claims_ok repo \<Longrightarrow> claims_ok (set_operation oid oper repo)"
  by (erule claims_ok_cong) (simp_all add: set_operation_def)

lemma claim_operation_ok:
  assumes "run_store_ok repo \<and> claims_ok repo"
  shows "run_store_ok (snd (claim_operation_execution t oid token claimed lease repo))
    \<and> claims_ok (snd (claim_operation_execution t oid token claimed lease repo))"
proof (cases "dict_get (st_operations repo) oid")
  case (Some oper)
  have "operation_ok (claimed_operation token claimed lease oper)"
    by (simp add: operation_ok_def claimed_operation_def)
  then have "run_store_ok (set_operation oid (claimed_operation token claimed lease oper) repo)"
    using assms Some by (intro set_operation_ok [of repo oid oper]) (simp_all add: claimed_operation_def)
  then show ?thesis using assms Some set_operation_claims
    by (simp add: claim_operation_execution_def Let_def)
qed (use assms in \<open>simp add: claim_operation_execution_def\<close>)

lemma publish_success_ok:
  assumes "run_store_ok repo \<and> claims_ok repo"
  shows "run_store_ok (snd (publish_operation_success t oid token result_json finished repo))
    \<and> claims_ok (snd (publish_operation_success t oid token result_json finished repo))"
proof (cases "dict_get (st_operations repo) oid")
  case (Some oper)
  let ?oper = "oper\<lparr> ao_status := ASYNC_SUCCEEDED, ao_result_json := Some result_json, ao_error_json := None,
    ao_finished_at := Some finished, ao_execution_lease_expires_at := None \<rparr>"
  have "run_store_ok (set_operation oid ?oper repo)" if "holds_execution t token oper"
    using assms Some that operations_okD(3) [OF _ Some]
    by (intro set_operation_ok [of repo oid oper]) (simp_all add: operation_ok_def holds_execution_def run_store_ok_def)
  then show ?thesis using assms Some set_operation_claims by (simp add: publish_operation_success_def)
qed (use assms in \<open>simp add: publish_operation_success_def\<close>)

lemma publish_failure_ok:
  assumes "run_store_ok repo \<and> claims_ok repo"
  shows "run_store_ok (snd (publish_operation_failure t oid token error_json finished repo))
    \<and> claims_ok (snd (publish_operation_failure t oid token error_json finished repo))"
proof (cases "dict_get (st_operations repo) oid")
  case (Some oper)
  let ?oper = "oper\<lparr> ao_status := ASYNC_FAILED, ao_result_json := None, ao_error_json := Some error_json,
    ao_finished_at := Some finished, ao_execution_lease_expires_at := None \<rparr>"
  have "run_store_ok (set_operation oid ?oper repo)" if "holds_execution t token oper"
    using assms Some that operations_okD(3) [OF _ Some]
    by (intro set_operation_ok [of repo oid oper]) (simp_all add: operation_ok_def holds_execution_def run_store_ok_def)
  then show ?thesis using assms Some set_operation_claims by (simp add: publish_operation_failure_def)
qed (use assms in \<open>simp add: publish_operation_failure_def\<close>)

text \<open>The service operations on asynchronous work store what the store operation stores.\<close>

lemma prepare_snd:
  "snd (prepare_analyze_operation_execution svc cleaned claimed hex t oid repo) =
     (case require_async_tenant_id t of
        Inl _ \<Rightarrow> repo
      | Inr tenant \<Rightarrow> snd (claim_operation_execution tenant oid (''dop_claim_'' @ hex) claimed
          (claimed + sv_async_execution_lease_seconds svc * 1000000) (cleanup_expired_operations svc cleaned repo)))"
  by (simp add: prepare_analyze_operation_execution_def Let_def split: sum.splits prod.splits option.splits)

lemma complete_operation_snd:
  "snd (complete_operation_success finished c result_json repo) =
     snd (publish_operation_success (ac_tenant_id c) (ac_operation_id c) (ac_execution_token c) result_json finished repo)"
  "snd (complete_operation_failure finished c code message repo) =
     snd (publish_operation_failure (ac_tenant_id c) (ac_operation_id c) (ac_execution_token c)
       [(''code'', code), (''message'', message)] finished repo)"
  by (simp_all add: complete_operation_success_def complete_operation_failure_def Let_def
      split: prod.splits bool.splits option.splits)

lemma workflow_ok:
  assumes ok: "run_store_ok repo \<and> claims_ok repo"
  shows "run_store_ok (snd (apply_workflow_action svc cleaned decided hex r action reason comment actor correlation repo))
    \<and> claims_ok (snd (apply_workflow_action svc cleaned decided hex r action reason comment actor correlation repo))"
proof -
  define repo1 where "repo1 = cleanup_expired_supportability svc cleaned repo"
  have ok1: "run_store_ok repo1 \<and> claims_ok repo1"
    using ok cleanup_ok cleanup_supportability_claims by (simp add: repo1_def)
  have "run_store_ok (append_workflow_decision d repo1) \<and> claims_ok (append_workflow_decision d repo1)"
    if "get_run repo1 (wd_run_id d) \<noteq> None" for d
    using that ok1 by (auto simp: get_run_def append_workflow_decision_def
        intro: append_workflow_decision_ok [unfolded append_workflow_decision_def] elim!: claims_ok_cong)
  then show ?thesis using ok1
    by (auto simp: apply_workflow_action_def Let_def build_workflow_decision_record_def simp flip: repo1_def
        split: option.splits)
qed

end
