(* ===== verification/Run_Properties.thy ===== *)
theory Run_Properties
  imports Run_Invariants
begin

text \<open>
  Properties of the run service over its store: references between tables, one run per submission
  key, the execution of asynchronous operations as an abstract machine, the review workflow as an
  abstract machine, and complete pages.
\<close>


section \<open>Definitions\<close>

text \<open>What an asynchronous operation is to its clients: waiting, executing, or ended with a result.\<close>

datatype execution_view =
    Absent
  | Waiting
  | Executing string nat
  | Succeeded string nat json_dict
  | Failed string nat "(string, string) dict"

definition operation_view :: "DpmAsyncOperationRecord option \<Rightarrow> execution_view" where
  "operation_view found =
     (case found of
        None \<Rightarrow> Absent
      | Some oper \<Rightarrow>
          (case ao_status oper of
             ASYNC_PENDING \<Rightarrow> Waiting
           | ASYNC_RUNNING \<Rightarrow> Executing (the (ao_execution_token oper)) (ao_execution_attempt oper)
           | ASYNC_SUCCEEDED \<Rightarrow>
               Succeeded (the (ao_execution_token oper)) (ao_execution_attempt oper) (the (ao_result_json oper))
           | ASYNC_FAILED \<Rightarrow>
               Failed (the (ao_execution_token oper)) (ao_execution_attempt oper) (the (ao_error_json oper))))"

text \<open>
  The abstract machine: a submitted operation waits; a claim starts the next attempt; only the token
  of the current attempt ends it; an ended operation changes no more; retention removes what is not
  executing.
\<close>

inductive execution_step :: "execution_view \<Rightarrow> execution_view \<Rightarrow> bool" where
  stays: "execution_step v v"
| submitted: "execution_step Absent Waiting"
| first_attempt: "execution_step Waiting (Executing token 1)"
| next_attempt: "execution_step (Executing token n) (Executing token' (n + 1))"
| succeeds: "execution_step (Executing token n) (Succeeded token n r)"
| fails: "execution_step (Executing token n) (Failed token n e)"
| waiting_removed: "execution_step Waiting Absent"
| succeeded_removed: "execution_step (Succeeded token n r) Absent"
| failed_removed: "execution_step (Failed token n e) Absent"

inductive_cases executing_stepE: "execution_step (Executing token n) v"

text \<open>
  The review workflow as a machine, stated on its own: every action is allowed while a review is pending,
  an approved run can be rejected or reopened, a rejected one only reopened. An action that is not
  allowed leaves the status.
\<close>

fun workflow_allowed :: "DpmWorkflowStatus \<Rightarrow> DpmWorkflowActionType \<Rightarrow> bool" where
  "workflow_allowed WF_PENDING_REVIEW _ = True"
| "workflow_allowed WF_APPROVED action = (action \<noteq> WF_APPROVE)"
| "workflow_allowed WF_REJECTED action = (action = WF_REQUEST_CHANGES)"
| "workflow_allowed WF_NOT_REQUIRED _ = False"

definition workflow_machine :: "DpmWorkflowStatus \<Rightarrow> DpmWorkflowActionType \<Rightarrow> DpmWorkflowStatus" where
  "workflow_machine status action =
     (if workflow_allowed status action
      then case action of WF_APPROVE \<Rightarrow> WF_APPROVED | WF_REJECT \<Rightarrow> WF_REJECTED | WF_REQUEST_CHANGES \<Rightarrow> WF_PENDING_REVIEW
      else status)"

record workflow_request =
  wq_cleaned_at :: int
  wq_decided_at :: int
  wq_hex :: string
  wq_action :: DpmWorkflowActionType
  wq_reason_code :: string
  wq_comment :: "string option"
  wq_actor_id :: string
  wq_correlation_id :: string

definition serve_workflow_request ::
  "DpmRunSupportService \<Rightarrow> string \<Rightarrow> workflow_request \<Rightarrow> InMemoryDpmRunRepository \<Rightarrow> InMemoryDpmRunRepository" where
  "serve_workflow_request svc run_id q repo =
     snd (apply_workflow_action svc (wq_cleaned_at q) (wq_decided_at q) (wq_hex q) run_id (wq_action q)
            (wq_reason_code q) (wq_comment q) (wq_actor_id q) (wq_correlation_id q) repo)"

text \<open>A request with a malformed reason code fails validation and decides nothing.\<close>

definition request_status :: "workflow_request \<Rightarrow> DpmWorkflowStatus \<Rightarrow> DpmWorkflowStatus" where
  "request_status q status =
     (if reason_code_ok (wq_reason_code q) then workflow_machine status (wq_action q) else status)"


subsection \<open>Examples\<close>

definition sample_state :: SimulatedState where
  "sample_state =
     \<lparr> ss_total_value = \<lparr> amount = Dec 0, currency = ''USD'' \<rparr>, ss_cash_balances = [], ss_positions = [],
       ss_allocation_by_asset_class = [], ss_allocation_by_instrument = [], ss_allocation = [],
       ss_allocation_by_attribute = [] \<rparr>"

definition sample_result :: "string \<Rightarrow> RebalanceResult" where
  "sample_result run_id =
     \<lparr> rebalance_run_id = run_id, correlation_id = ''corr'', run_status = PENDING_REVIEW,
       result_before = sample_state,
       result_universe = \<lparr> universe_id = ''u'', eligible_for_buy = [], eligible_for_sell = [],
         excluded_instruments = [], universe_coverage = \<lparr> price_coverage_pct = Dec 1, fx_coverage_pct = Dec 1 \<rparr> \<rparr>,
       result_target = \<lparr> target_id = ''t'', target_rows = [] \<rparr>, result_intents = [],
       after_simulated = sample_state, reconciliation = None, tax_impact = None, rule_results = [],
       explanation = \<lparr> expl_summary = ''PENDING_REVIEW'', expl_target_method_comparison = None \<rparr>,
       diagnostics = make_diagnostics_data, gate_decision = None,
       lineage = \<lparr> portfolio_snapshot_id = ''pf'', market_data_snapshot_id = ''md'', request_hash = ''h'' \<rparr> \<rparr>"

definition sample_dump :: "RebalanceResult \<Rightarrow> json_dict" where
  "sample_dump r = [(''rebalance_run_id'', JStr (rebalance_run_id r)), (''status'', JStr (run_status_str (run_status r)))]"

definition sample_service :: DpmRunSupportService where
  "sample_service = make_run_support_service 86400 300 0 True None ''derived''"

definition sample_claimed :: InMemoryDpmRunRepository where
  "sample_claimed = snd (claim_simulation_submission ''t'' ''k'' ''h'' ''token'' 0 60000000 empty_run_repository)"

definition sample_completed :: InMemoryDpmRunRepository where
  "sample_completed =
     projr (complete_submission sample_service (\<lambda>_. []) sample_dump 5 ''t'' ''k'' ''h'' ''token'' (sample_result ''rr_1'')
       ''pf'' sample_claimed)"

definition sample_submitted :: InMemoryDpmRunRepository where
  "sample_submitted =
     snd (submit_analyze_async sample_service 6 6 ''c1'' ''o1'' ''t'' None [(''scenarios'', JObj [])] sample_completed)"

section \<open>Lemmas\<close>

lemma run_step_ok:
  assumes "run_step svc artifact_of dump repo repo'" and "run_store_ok repo \<and> claims_ok repo"
  shows "run_store_ok repo' \<and> claims_ok repo'"
  using assms
proof (cases rule: run_step.cases)
  case (step_complete now t k h token r portfolio)
  then show ?thesis
    using complete_store_ok [OF _ step_complete] complete_claims_ok [OF _ step_complete(1)] assms(2) by simp
next
  case (step_record r cleaned now h portfolio tenant claim scenario)
  then show ?thesis using record_run_ok [OF assms(2) step_record(2,1)] by simp
next
  case (step_submit hex cleaned now corr_hex t correlation request_json)
  then show ?thesis using submit_ok [OF assms(2) step_submit(2)] by simp
next
  case (step_prepare cleaned claimed hex t oid)
  have "run_store_ok (cleanup_expired_operations svc cleaned repo) \<and> claims_ok (cleanup_expired_operations svc cleaned repo)"
    using assms(2) cleanup_ok(1) by (auto simp: model_frame elim!: claims_ok_cong)
  then show ?thesis unfolding step_prepare prepare_snd using claim_operation_ok assms(2) by (simp split: sum.splits)
next
  case (step_cleanup_operations now)
  then show ?thesis using assms(2) cleanup_ok(1) by (auto simp: model_frame elim!: claims_ok_cong)
next
  case (step_cleanup_runs now)
  then show ?thesis using assms(2) cleanup_ok(2) cleanup_supportability_claims by simp
qed (simp_all only: complete_operation_snd submission_claim_ok [OF assms(2)] abandon_ok [OF assms(2)] artifact_read_ok [OF assms(2)]
    publish_success_ok [OF assms(2)] publish_failure_ok [OF assms(2)] workflow_ok [OF assms(2)] simp_thms)

lemma run_steps_ok:
  assumes "run_steps svc artifact_of dump repo repo'" and "run_store_ok repo \<and> claims_ok repo"
  shows "run_store_ok repo' \<and> claims_ok repo'"
  using assms by (induction rule: rtranclp_induct) (auto dest: run_step_ok)

lemma correlation_index_agrees:
  assumes "operations_ok repo"
  shows "get_operation_by_correlation_for_tenant repo t c = Some oper
    \<longleftrightarrow> get_operation repo (ao_operation_id oper) = Some oper \<and> ao_tenant_id oper = Some t \<and> ao_correlation_id oper = c"
proof
  assume "get_operation_by_correlation_for_tenant repo t c = Some oper"
  then obtain oid where oid: "dict_get (st_operation_by_correlation repo) (Some t, c) = Some oid"
    and oper: "dict_get (st_operations repo) oid = Some oper"
    by (auto simp: get_operation_by_correlation_for_tenant_def split: option.splits)
  from operations_ok_indexD [OF assms oid] oper have "ao_tenant_id oper = Some t" "ao_correlation_id oper = c" by auto
  with oper operations_okD(1) [OF assms oper]
  show "get_operation repo (ao_operation_id oper) = Some oper \<and> ao_tenant_id oper = Some t \<and> ao_correlation_id oper = c"
    by (simp add: get_operation_def)
next
  assume "get_operation repo (ao_operation_id oper) = Some oper \<and> ao_tenant_id oper = Some t \<and> ao_correlation_id oper = c"
  with operations_okD(4) [OF assms, of "ao_operation_id oper" oper]
  show "get_operation_by_correlation_for_tenant repo t c = Some oper"
    by (simp add: get_operation_def get_operation_by_correlation_for_tenant_def)
qed

lemma reachable_ok:
  "run_steps svc artifact_of dump empty_run_repository repo \<Longrightarrow> run_store_ok repo \<and> claims_ok repo"
  using run_steps_ok empty_ok by blast


subsection \<open>Claims\<close>

lemma claims_frame:
  "st_submission_claims (cleanup_expired_supportability svc now repo) = st_submission_claims repo"
  "st_submission_claims (snd (record_run svc artifact_of dump cleaned now r h portfolio None tenant claim scenario repo))
     = st_submission_claims repo"
  "st_submission_claims (snd (get_run_artifact_for_tenant svc artifact_of now t run_id repo)) = st_submission_claims repo"
  "st_submission_claims (snd (submit_analyze_async svc cleaned now corr_hex hex t correlation request_json repo))
     = st_submission_claims repo"
  "st_submission_claims (snd (apply_workflow_action svc cleaned decided hex run_id action reason comment actor corr repo))
     = st_submission_claims repo"
proof -
  show runs: "st_submission_claims (cleanup_expired_supportability svc now repo) = st_submission_claims repo" for now
    by (simp add: cleanup_expired_supportability_def purge_expired_runs_def Let_def model_frame split: prod.splits)
  show "st_submission_claims (snd (record_run svc artifact_of dump cleaned now r h portfolio None tenant claim scenario repo))
     = st_submission_claims repo"
    by (rule record_run_cases [OF refl, of svc artifact_of dump cleaned now r h portfolio tenant claim scenario repo])
      (simp_all add: persist_run_artifact_if_needed_def save_run_artifact_def save_run_def model_frame runs)
  show "st_submission_claims (snd (get_run_artifact_for_tenant svc artifact_of now t run_id repo)) = st_submission_claims repo"
    by (simp add: get_run_artifact_for_tenant_def resolve_run_artifact_def save_run_artifact_def Let_def runs
        split: sum.splits option.splits)
  show "st_submission_claims (snd (submit_analyze_async svc cleaned now corr_hex hex t correlation request_json repo))
     = st_submission_claims repo"
  proof (cases "require_async_tenant_id t")
    case (Inr tenant)
    show ?thesis unfolding submit_snd [OF Inr refl refl refl]
      by (auto simp: model_frame save_operation_def Let_def record_lineage_edge_def append_lineage_edge_def
          split: sum.splits if_splits)
  qed (simp add: submit_analyze_async_def)
  show "st_submission_claims (snd (apply_workflow_action svc cleaned decided hex run_id action reason comment actor corr repo))
     = st_submission_claims repo"
    by (simp add: apply_workflow_action_def Let_def append_workflow_decision_def runs split: option.splits sum.splits)
qed

lemma operation_steps_claims:
  "st_submission_claims (snd (claim_operation_execution t oid token claimed lease repo)) = st_submission_claims repo"
  "st_submission_claims (snd (publish_operation_success t oid token r finished repo)) = st_submission_claims repo"
  "st_submission_claims (snd (publish_operation_failure t oid token e finished repo)) = st_submission_claims repo"
  by (simp_all add: claim_operation_execution_def publish_operation_success_def publish_operation_failure_def Let_def
      set_operation_def split: option.splits)

lemma completed_claim_step:
  assumes "run_step svc artifact_of dump repo repo'"
    and c: "dict_get (st_submission_claims repo) (t, k) = Some c" and completed: "cr_status c = CLAIM_COMPLETED"
  shows "dict_get (st_submission_claims repo') (t, k) = Some c"
  using assms(1)
proof (cases rule: run_step.cases)
  case (step_complete now t' k' h token r portfolio)
  obtain c' where c': "dict_get (st_submission_claims repo) (t', k') = Some c'" "owns_claim h token c'"
    and claims: "st_submission_claims repo' = dict_set (t', k') (c'\<lparr> cr_status := CLAIM_COMPLETED,
           cr_rebalance_run_id := Some (rebalance_run_id r), cr_completed_at := Some now, cr_claim_expires_at := now \<rparr>)
           (st_submission_claims repo)"
    by (rule complete_submission_stores [OF step_complete(1)])
  then have "(t', k') \<noteq> (t, k)" using c completed by (auto simp: owns_claim_def)
  with c claims show ?thesis by (auto simp: dict_simps)
qed (use c completed in \<open>auto simp: claims_frame operation_steps_claims complete_operation_snd prepare_snd model_frame
    claim_simulation_submission_def claim_reclaimable_def abandon_simulation_submission_claim_def dict_simps Let_def
    split: option.splits sum.splits if_splits\<close>)

lemma completed_claim_final:
  assumes "run_steps svc artifact_of dump repo repo'"
    and "dict_get (st_submission_claims repo) (t, k) = Some c" and "cr_status c = CLAIM_COMPLETED"
  shows "dict_get (st_submission_claims repo') (t, k) = Some c"
  using assms by (induction rule: rtranclp_induct) (auto intro: completed_claim_step)


subsection \<open>Execution of operations\<close>

lemmas execution_intros = execution_step.intros

text \<open>Recording of runs and the workflow do not touch operations.\<close>

lemma operations_frame:
  "st_operations (cleanup_expired_supportability svc now repo) = st_operations repo"
  "st_operations (snd (record_run svc artifact_of dump cleaned now r h portfolio None tenant claim scenario repo))
     = st_operations repo"
  "st_operations (snd (get_run_artifact_for_tenant svc artifact_of now t run_id repo)) = st_operations repo"
  "st_operations (snd (apply_workflow_action svc cleaned decided hex run_id action reason comment actor corr repo))
     = st_operations repo"
  "st_operations (snd (claim_simulation_submission t k h token claimed expires repo)) = st_operations repo"
  "st_operations (abandon_simulation_submission_claim t k token stamp repo) = st_operations repo"
proof -
  show runs: "st_operations (cleanup_expired_supportability svc now repo) = st_operations repo" for now
    by (simp add: cleanup_expired_supportability_def purge_expired_runs_def Let_def model_frame split: prod.splits)
  show "st_operations (snd (record_run svc artifact_of dump cleaned now r h portfolio None tenant claim scenario repo))
     = st_operations repo"
    by (rule record_run_cases [OF refl, of svc artifact_of dump cleaned now r h portfolio tenant claim scenario repo])
      (simp_all add: persist_run_artifact_if_needed_def save_run_artifact_def save_run_def model_frame runs)
  show "st_operations (snd (get_run_artifact_for_tenant svc artifact_of now t run_id repo)) = st_operations repo"
    by (simp add: get_run_artifact_for_tenant_def resolve_run_artifact_def save_run_artifact_def Let_def runs
        split: sum.splits option.splits)
  show "st_operations (snd (apply_workflow_action svc cleaned decided hex run_id action reason comment actor corr repo))
     = st_operations repo"
    by (simp add: apply_workflow_action_def Let_def append_workflow_decision_def runs split: option.splits sum.splits)
qed (simp_all add: claim_simulation_submission_def abandon_simulation_submission_claim_def Let_def split: option.splits)

lemma complete_operations_frame:
  assumes "complete_submission svc artifact_of dump now t k h token r portfolio repo = Inr repo'"
  shows "st_operations repo' = st_operations repo"
proof -
  obtain edges where "repo' = (fold append_lineage_edge edges
           (append_idempotency_history
              \<lparr> rh_tenant_id = Some t, rh_idempotency_key = k, rh_rebalance_run_id = rebalance_run_id r,
                rh_correlation_id = correlation_id r, rh_request_hash = h, rh_created_at = now \<rparr>
              (save_idempotency_mapping
                 \<lparr> ri_tenant_id = Some t, ri_idempotency_key = k, ri_request_hash = h,
                   ri_rebalance_run_id = rebalance_run_id r, ri_created_at = now \<rparr>
                 (persist_run_artifact_if_needed svc artifact_of (run_record_of dump (Some t) r h (Some k) portfolio now)
                    (save_run (run_record_of dump (Some t) r h (Some k) portfolio now) repo)))))
           \<lparr> st_submission_claims := st_submission_claims repo' \<rparr>"
    using complete_submission_chain [OF assms] by blast
  then have "st_operations repo' = st_operations ((fold append_lineage_edge edges
           (append_idempotency_history
              \<lparr> rh_tenant_id = Some t, rh_idempotency_key = k, rh_rebalance_run_id = rebalance_run_id r,
                rh_correlation_id = correlation_id r, rh_request_hash = h, rh_created_at = now \<rparr>
              (save_idempotency_mapping
                 \<lparr> ri_tenant_id = Some t, ri_idempotency_key = k, ri_request_hash = h,
                   ri_rebalance_run_id = rebalance_run_id r, ri_created_at = now \<rparr>
                 (persist_run_artifact_if_needed svc artifact_of (run_record_of dump (Some t) r h (Some k) portfolio now)
                    (save_run (run_record_of dump (Some t) r h (Some k) portfolio now) repo)))))
           \<lparr> st_submission_claims := st_submission_claims repo' \<rparr>)" by (rule arg_cong)
  then show ?thesis
    by (simp add: model_frame append_idempotency_history_def save_idempotency_mapping_def
        persist_run_artifact_if_needed_def save_run_artifact_def save_run_def)
qed

lemma cleanup_operations_get:
  assumes "run_store_ok repo"
  shows "dict_get (st_operations (cleanup_expired_operations svc now repo)) oid =
    (case dict_get (st_operations repo) oid of
       None \<Rightarrow> None
     | Some oper \<Rightarrow> if operation_expired (now - sv_async_operation_ttl_seconds svc * 1000000) oper then None else Some oper)"
proof -
  have "dict_ok (st_operations repo)" using assms by (simp add: run_store_ok_def operations_ok_def)
  from purge_operations_get [OF this] show ?thesis
    by (simp add: cleanup_expired_operations_def purge_expired_operations_def split: option.splits)
qed

text \<open>A publication that changes an operation carries the token of the attempt that executes.\<close>

lemma publish_success_needs_token:
  assumes "operation_view (get_operation (snd (publish_operation_success t o' token r finished repo)) oid)
      \<noteq> operation_view (get_operation repo oid)"
  shows "\<exists>n. o' = oid \<and> operation_view (get_operation repo oid) = Executing token n
    \<and> operation_view (get_operation (snd (publish_operation_success t o' token r finished repo)) oid) = Succeeded token n r"
  using assms
  by (auto simp: publish_operation_success_def holds_execution_def get_operation_def operation_view_def
      set_operation_def dict_simps split: option.splits if_splits)

lemma publish_failure_needs_token:
  assumes "operation_view (get_operation (snd (publish_operation_failure t o' token e finished repo)) oid)
      \<noteq> operation_view (get_operation repo oid)"
  shows "\<exists>n. o' = oid \<and> operation_view (get_operation repo oid) = Executing token n
    \<and> operation_view (get_operation (snd (publish_operation_failure t o' token e finished repo)) oid) = Failed token n e"
  using assms
  by (auto simp: publish_operation_failure_def holds_execution_def get_operation_def operation_view_def
      set_operation_def dict_simps split: option.splits if_splits)

text \<open>Retention never removes an operation that executes.\<close>

lemma cleanup_execution_step:
  assumes "run_store_ok repo"
  shows "execution_step (operation_view (dict_get (st_operations repo) oid))
    (operation_view (dict_get (st_operations (cleanup_expired_operations svc now repo)) oid))"
  unfolding cleanup_operations_get [OF assms]
  by (auto simp: operation_view_def operation_expired_def intro: execution_intros
      split: option.splits DpmAsyncOperationStatus.splits)

lemma claim_execution_step:
  assumes "run_store_ok repo"
  shows "execution_step (operation_view (dict_get (st_operations repo) oid))
    (operation_view (dict_get (st_operations (snd (claim_operation_execution t oid' token claimed lease repo))) oid))"
proof (cases "dict_get (st_operations repo) oid'")
  case (Some oper)
  have "operation_ok oper" using operations_okD(3) [OF _ Some] assms by (simp add: run_store_ok_def)
  then have "ao_status oper = ASYNC_PENDING \<Longrightarrow> ao_execution_attempt oper = 0" by (simp add: operation_ok_def)
  then show ?thesis using Some
    by (auto simp: claim_operation_execution_def Let_def set_operation_def dict_simps operation_view_def
        claimed_operation_def lease_expired_def intro: execution_intros first_attempt [simplified]
        next_attempt [simplified] split: DpmAsyncOperationStatus.splits)
qed (simp add: claim_operation_execution_def stays)

lemma publish_execution_step:
  "execution_step (operation_view (dict_get (st_operations repo) oid))
    (operation_view (dict_get (st_operations (snd (publish_operation_success t oid' token r finished repo))) oid))"
  "execution_step (operation_view (dict_get (st_operations repo) oid))
    (operation_view (dict_get (st_operations (snd (publish_operation_failure t oid' token e finished repo))) oid))"
  by (auto simp: publish_operation_success_def publish_operation_failure_def set_operation_def dict_simps
      operation_view_def holds_execution_def intro: execution_intros split: option.splits)


lemma cleanup_same_or_gone:
  assumes "run_store_ok repo"
  shows "dict_get (st_operations (cleanup_expired_operations svc now repo)) oid \<in> {None, dict_get (st_operations repo) oid}"
  unfolding cleanup_operations_get [OF assms] by (auto split: option.splits)

lemma prepare_execution_step:
  assumes "run_store_ok repo"
  shows "execution_step (operation_view (dict_get (st_operations repo) oid))
    (operation_view (dict_get (st_operations (snd (prepare_analyze_operation_execution svc cleaned claimed hex t oid' repo))) oid))"
proof (cases "require_async_tenant_id t")
  case (Inr tenant)
  let ?repo = "cleanup_expired_operations svc cleaned repo"
  have "run_store_ok ?repo" using assms by (rule cleanup_ok)
  note claim = claim_execution_step [OF this, of oid tenant oid']
  show ?thesis
  proof (cases "dict_get (st_operations ?repo) oid = dict_get (st_operations repo) oid")
    case True
    with claim show ?thesis by (simp add: prepare_snd Inr)
  next
    case False
    then have gone: "dict_get (st_operations ?repo) oid = None" using cleanup_same_or_gone [OF assms] by auto
    then have "dict_get (st_operations (snd (claim_operation_execution tenant oid' token claimed lease ?repo))) oid = None"
      for token lease
      by (auto simp: claim_operation_execution_def set_operation_def dict_simps Let_def split: option.splits)
    with gone cleanup_execution_step [OF assms, of oid svc cleaned] show ?thesis by (simp add: prepare_snd Inr)
  qed
qed (simp add: prepare_snd stays)

lemma submit_execution_step:
  assumes "run_store_ok repo" and fresh: "dict_get (st_operations repo) (''dop_'' @ hex) = None"
  shows "execution_step (operation_view (dict_get (st_operations repo) oid))
    (operation_view (dict_get (st_operations
       (snd (submit_analyze_async svc cleaned now corr_hex hex t correlation request_json repo))) oid))"
proof (cases "require_async_tenant_id t")
  case (Inr tenant)
  define repo1 where "repo1 = cleanup_expired_operations svc cleaned repo"
  define resolved where "resolved = (if correlation \<in> {None, Some ''''} then ''corr_'' @ corr_hex else the correlation)"
  define oper where "oper = build_analyze_operation tenant (''dop_'' @ hex) resolved request_json now"
  note submit = submit_snd [OF Inr repo1_def resolved_def oper_def]
  have cleanup: "execution_step (operation_view (dict_get (st_operations repo) oid)) (operation_view (dict_get (st_operations repo1) oid))"
    using cleanup_execution_step [OF assms(1)] by (simp add: repo1_def)
  have saved: "dict_get (st_operations repo2) oid = (if oid = ''dop_'' @ hex then Some oper else dict_get (st_operations repo1) oid)"
    if "save_operation oper repo1 = Inr repo2" for repo2
    using that by (auto simp: save_operation_def Let_def dict_simps oper_def build_analyze_operation_def split: if_splits)
  have new: "operation_view (Some oper) = Waiting" "operation_view None = Absent"
    by (simp_all add: operation_view_def oper_def build_analyze_operation_def)
  show ?thesis
    unfolding submit using cleanup saved new fresh submitted
    by (auto simp: record_lineage_edge_def append_lineage_edge_def split: sum.splits)
qed (simp add: submit_analyze_async_def stays)


text \<open>A claim names the operation it was asked for, which it then holds.\<close>

lemma prepare_claims:
  assumes ok: "run_store_ok repo"
    and "prepare_analyze_operation_execution svc cleaned claimed hex t oid repo = (Inr c, repo1)"
  obtains oper where "ac_operation_id c = oid" and "dict_get (st_operations repo1) oid = Some oper"
    and "holds_execution (ac_tenant_id c) (ac_execution_token c) oper"
proof -
  let ?repo = "cleanup_expired_operations svc cleaned repo"
  have "operations_ok ?repo" using cleanup_ok(1) [OF ok] by (simp add: run_store_ok_def)
  note id = operations_okD(1) [OF this]
  show thesis
    using assms(2) that id
    by (auto simp: prepare_analyze_operation_execution_def claim_operation_execution_def claimed_operation_def
        set_operation_def holds_execution_def dict_simps Let_def split: sum.splits option.splits if_splits)
qed


subsection \<open>Review workflow\<close>

lemma latest_row_append:
  assumes "\<forall>x \<in> set rows. key x < key r"
  shows "latest_row key (rows @ [r]) = Some r"
proof (cases "latest_row key (rows @ [r])")
  case (Some m)
  have "key r \<le> key m" using latest_row_Some(2) [OF Some] by simp
  then show ?thesis using latest_row_Some(1) [OF Some] assms Some by (auto simp: not_less [symmetric])
qed simp

text \<open>The status a run under review has after its decisions.\<close>

definition review_status :: "DpmRunWorkflowDecisionRecord list \<Rightarrow> DpmWorkflowStatus" where
  "review_status decisions =
     (case latest_workflow_decision decisions of None \<Rightarrow> WF_PENDING_REVIEW | Some d \<Rightarrow> status_for_action (wd_action d))"

text \<open>A transition always leads to the status its action stands for.\<close>

lemma workflow_machine_transition:
  "resolve_workflow_transition status action =
     (if workflow_allowed status action then Some (workflow_machine status action) else None)"
  by (cases status; cases action)
    (simp_all add: resolve_workflow_transition_def VALID_WORKFLOW_TRANSITIONS_def workflow_machine_def)

text \<open>An action on a run under review, with retention off.\<close>

lemma apply_workflow_review:
  fixes cleaned decided hex action reason comment actor correlation
  assumes "sv_supportability_retention_days svc < 1" and "get_run repo r = Some run"
    and "workflow_required_for_run_status (sv_workflow_enabled svc) (result_status (rr_result_json run))
           (sv_workflow_requires_review_for_statuses svc)"
  defines "status \<equiv> review_status (list_workflow_decisions repo r)"
  defines "served \<equiv> apply_workflow_action svc cleaned decided hex r action reason comment actor correlation repo"
  shows "\<not> workflow_allowed status action \<Longrightarrow>
           served = (Inl (DpmWorkflowTransitionError ''DPM_WORKFLOW_INVALID_TRANSITION''), repo)"
    and "\<not> reason_code_ok reason \<Longrightarrow> (\<exists>e. fst served = Inl e) \<and> snd served = repo"
    and "workflow_allowed status action \<Longrightarrow> reason_code_ok reason \<Longrightarrow>
           map_sum id wr_workflow_status (fst served) = Inr (workflow_machine status action)
           \<and> snd served = append_workflow_decision \<lparr> wd_decision_id = ''dwd_'' @ hex, wd_run_id = r, wd_action = action,
               wd_reason_code = reason, wd_comment = comment, wd_actor_id = actor, wd_decided_at = decided,
               wd_correlation_id = correlation \<rparr> repo"
proof -
  have "sv_workflow_enabled svc" using assms(3) by (simp add: workflow_required_for_run_status_def)
  note served = served_def [unfolded apply_workflow_action_def cleanup_expired_supportability_def Let_def]
  show "\<not> workflow_allowed status action \<Longrightarrow>
           served = (Inl (DpmWorkflowTransitionError ''DPM_WORKFLOW_INVALID_TRANSITION''), repo)"
    and "\<not> reason_code_ok reason \<Longrightarrow> (\<exists>e. fst served = Inl e) \<and> snd served = repo"
    and "workflow_allowed status action \<Longrightarrow> reason_code_ok reason \<Longrightarrow>
           map_sum id wr_workflow_status (fst served) = Inr (workflow_machine status action)
           \<and> snd served = append_workflow_decision \<lparr> wd_decision_id = ''dwd_'' @ hex, wd_run_id = r, wd_action = action,
               wd_reason_code = reason, wd_comment = comment, wd_actor_id = actor, wd_decided_at = decided,
               wd_correlation_id = correlation \<rparr> repo"
    using assms(1-3) \<open>sv_workflow_enabled svc\<close>
    by (simp_all add: served status_def review_status_def resolve_workflow_status_def workflow_machine_transition
        build_workflow_decision_record_def)
qed

lemma serve_workflow_step:
  assumes "sv_supportability_retention_days svc < 1" and "get_run repo r = Some run"
    and "workflow_required_for_run_status (sv_workflow_enabled svc) (result_status (rr_result_json run))
           (sv_workflow_requires_review_for_statuses svc)"
    and "\<forall>d \<in> set (list_workflow_decisions repo r). wd_decided_at d < wq_decided_at q"
  defines "repo' \<equiv> serve_workflow_request svc r q repo"
  shows "st_runs repo' = st_runs repo"
    and "review_status (list_workflow_decisions repo' r)
           = request_status q (review_status (list_workflow_decisions repo r))"
    and "set (list_workflow_decisions repo' r) \<subseteq> set (list_workflow_decisions repo r) \<union> {d. wd_decided_at d = wq_decided_at q}"
proof -
  let ?ds = "list_workflow_decisions repo r"
  define d where "d = \<lparr> wd_decision_id = ''dwd_'' @ wq_hex q, wd_run_id = r, wd_action = wq_action q,
    wd_reason_code = wq_reason_code q, wd_comment = wq_comment q, wd_actor_id = wq_actor_id q,
    wd_decided_at = wq_decided_at q, wd_correlation_id = wq_correlation_id q \<rparr>"
  have repo': "repo' = (if workflow_allowed (review_status ?ds) (wq_action q) \<and> reason_code_ok (wq_reason_code q)
                        then append_workflow_decision d repo else repo)"
    using apply_workflow_review [OF assms(1-3), where action = "wq_action q" and reason = "wq_reason_code q"]
    by (cases "workflow_allowed (review_status ?ds) (wq_action q)"; cases "reason_code_ok (wq_reason_code q)")
      (simp_all add: repo'_def serve_workflow_request_def d_def)
  have list: "list_workflow_decisions (append_workflow_decision d repo) r = ?ds @ [d]"
    by (simp add: list_workflow_decisions_def append_workflow_decision_def dict_simps d_def)
  have "latest_workflow_decision (?ds @ [d]) = Some d"
    unfolding latest_workflow_decision_def using assms(4) by (intro latest_row_append) (simp add: d_def)
  then have new: "review_status (?ds @ [d]) = status_for_action (wq_action q)" by (simp add: review_status_def d_def)
  show "st_runs repo' = st_runs repo" by (simp add: repo' append_workflow_decision_def)
  show "review_status (list_workflow_decisions repo' r) = request_status q (review_status ?ds)"
    by (auto simp: repo' request_status_def workflow_machine_def status_for_action_def list new
        split: DpmWorkflowActionType.splits)
  have "wd_decided_at d = wq_decided_at q" by (simp add: d_def)
  then show "set (list_workflow_decisions repo' r) \<subseteq> set ?ds \<union> {d. wd_decided_at d = wq_decided_at q}"
    by (auto simp: repo' list split: if_splits)
qed

lemma serve_workflow_all:
  assumes "sv_supportability_retention_days svc < 1" and "get_run repo r = Some run"
    and "workflow_required_for_run_status (sv_workflow_enabled svc) (result_status (rr_result_json run))
           (sv_workflow_requires_review_for_statuses svc)"
    and "sorted_wrt (<) (map wq_decided_at qs)"
    and "\<forall>q \<in> set qs. \<forall>d \<in> set (list_workflow_decisions repo r). wd_decided_at d < wq_decided_at q"
  shows "st_runs (fold (serve_workflow_request svc r) qs repo) = st_runs repo
    \<and> review_status (list_workflow_decisions (fold (serve_workflow_request svc r) qs repo) r)
        = fold request_status qs (review_status (list_workflow_decisions repo r))"
  using assms(2-)
proof (induction qs arbitrary: repo)
  case (Cons q qs)
  let ?repo = "serve_workflow_request svc r q repo"
  note step = serve_workflow_step [OF assms(1) Cons.prems(1,2), of q]
  have runs: "st_runs ?repo = st_runs repo"
    and status: "review_status (list_workflow_decisions ?repo r)
      = request_status q (review_status (list_workflow_decisions repo r))"
    and decided: "set (list_workflow_decisions ?repo r)
      \<subseteq> set (list_workflow_decisions repo r) \<union> {d. wd_decided_at d = wq_decided_at q}"
    using step Cons.prems(4) by simp_all
  have "\<forall>q' \<in> set qs. \<forall>d \<in> set (list_workflow_decisions ?repo r). wd_decided_at d < wq_decided_at q'"
    using decided Cons.prems(3,4) by fastforce
  moreover have "get_run ?repo r = Some run" using Cons.prems(1) runs by (simp add: get_run_def)
  ultimately show ?case
    using Cons.IH [of ?repo] Cons.prems runs status by simp
qed simp


section \<open>Theorems\<close>

text \<open>
  C18. In every store the service reaches, through any sequence of submissions, recorded runs,
  asynchronous operations, workflow actions and retention purges, what the tables say of runs is true: a
  mapping and a history row name a stored run of the same tenant, key and request hash, the correlation
  index names a run of that correlation, artifacts and workflow decisions belong to stored runs, a
  lineage edge is listed under both of its ends, and an edge to a run names a stored run of its own
  tenant; an operation and its correlation index agree. Two references are left out because they do
  dangle: retention of operations keeps the lineage edges that start at them, and a completed claim
  keeps the identifier of a run that has expired.
\<close>

theorem run_store_consistent:
  assumes "run_steps svc artifact_of dump empty_run_repository repo"
  shows "(\<forall>t k m. get_idempotency_mapping_for_tenant repo t k = Some m
           \<longrightarrow> (\<exists>run. get_run_for_tenant repo t (ri_rebalance_run_id m) = Some run
                    \<and> rr_idempotency_key run = Some k \<and> rr_request_hash run = ri_request_hash m))
    \<and> (\<forall>t k. \<forall>h \<in> set (list_idempotency_history_for_tenant repo t k).
           \<exists>run. get_run_for_tenant repo t (rh_rebalance_run_id h) = Some run
                \<and> rr_idempotency_key run = Some k \<and> rr_request_hash run = rh_request_hash h)
    \<and> (\<forall>c r. dict_get (st_run_id_by_correlation repo) c = Some r
           \<longrightarrow> (\<exists>run. get_run_by_correlation repo c = Some run \<and> rr_rebalance_run_id run = r \<and> rr_correlation_id run = c))
    \<and> (\<forall>r. get_run_artifact repo r \<noteq> None \<longrightarrow> get_run repo r \<noteq> None)
    \<and> (\<forall>r. \<forall>d \<in> set (list_workflow_decisions repo r). wd_run_id d = r \<and> get_run repo r \<noteq> None)
    \<and> (\<forall>e. \<forall>edge \<in> set (list_lineage_edges repo e).
           edge \<in> set (list_lineage_edges repo (ed_source_entity_id edge))
           \<and> edge \<in> set (list_lineage_edges repo (ed_target_entity_id edge))
           \<and> (ed_edge_type edge \<noteq> OPERATION_TO_CORRELATION \<longrightarrow>
                (\<exists>run. get_run repo (ed_target_entity_id edge) = Some run \<and> rr_tenant_id run = ed_tenant_id edge)))
    \<and> (\<forall>t c oper. get_operation_by_correlation_for_tenant repo t c = Some oper
           \<longleftrightarrow> get_operation repo (ao_operation_id oper) = Some oper
               \<and> ao_tenant_id oper = Some t \<and> ao_correlation_id oper = c)"
  (is "?mappings \<and> ?history \<and> ?index \<and> ?artifacts \<and> ?decisions \<and> ?lineage \<and> ?operations")
proof -
  have ok: "run_tables_ok repo" "run_index_ok repo" "idempotency_ok repo" "attachments_ok repo" "lineage_ok repo"
      "operations_ok repo"
    using reachable_ok [OF assms] by (simp_all add: run_store_ok_def)
  have stored: "\<exists>run. get_run_for_tenant repo t r = Some run \<and> rr_idempotency_key run = Some k \<and> rr_request_hash run = h"
    if "stored_as repo (Some t) k h r" for t k h r
    using that by (auto simp: stored_as_def get_run_for_tenant_def get_run_def)
  have ?mappings
    using ok(3) stored unfolding idempotency_ok_def get_idempotency_mapping_for_tenant_def by blast
  moreover have ?history
    using ok(3) stored unfolding idempotency_ok_def list_idempotency_history_for_tenant_def by blast
  moreover have ?index
    using ok(1,2) unfolding run_tables_ok_def run_index_ok_def get_run_by_correlation_def by fastforce
  moreover have ?artifacts and ?decisions
    using ok(4) unfolding attachments_ok_def get_run_artifact_def get_run_def by blast+
  moreover have ?lineage
    using ok(5) unfolding lineage_ok_def edge_run_def get_run_def by blast
  moreover have ?operations
    using correlation_index_agrees [OF ok(6)] by blast
  ultimately show ?thesis by blast
qed

text \<open>
  C16. Exactly once: when the submission of a key has been completed in a store the service reaches,
  then after any further steps, of any requests and workers, the claim of the key is that same record,
  every attempt to complete the key again is refused with the lost-claim conflict, whatever its token
  or request hash, and the history of the key holds at most one row, of the run of the claim.
\<close>

theorem submission_exactly_once:
  assumes "run_steps svc artifact_of dump empty_run_repository repo"
    and "get_simulation_submission_claim repo t k = Some c" and "cr_status c = CLAIM_COMPLETED"
    and "run_steps svc artifact_of dump repo repo'"
  shows "get_simulation_submission_claim repo' t k = Some c
    \<and> (\<forall>now h token r portfolio.
         complete_submission svc artifact_of dump now t k h token r portfolio repo'
           = Inl (DpmRunRepositoryConflictError ''DPM_SIMULATION_SUBMISSION_CLAIM_LOST''))
    \<and> length (list_idempotency_history_for_tenant repo' t k) \<le> 1
    \<and> (\<forall>h \<in> set (list_idempotency_history_for_tenant repo' t k).
         cr_rebalance_run_id c = Some (rh_rebalance_run_id h) \<and> cr_request_hash c = rh_request_hash h)"
proof -
  have kept: "dict_get (st_submission_claims repo') (t, k) = Some c"
    using completed_claim_final [OF assms(4)] assms(2,3) by (simp add: get_simulation_submission_claim_def)
  have ok: "claims_ok repo'"
    using reachable_ok [OF rtranclp_trans [OF assms(1,4)]] by simp
  have rows: "dict_get_or (st_idempotency_history repo') (Some t, k) [] = []
      \<or> (\<exists>h. dict_get_or (st_idempotency_history repo') (Some t, k) [] = [h]
            \<and> cr_rebalance_run_id c = Some (rh_rebalance_run_id h) \<and> cr_request_hash c = rh_request_hash h)"
    using ok kept unfolding claims_ok_def by (metis option.inject)
  show ?thesis
    using kept rows assms(3)
    by (auto simp: get_simulation_submission_claim_def list_idempotency_history_for_tenant_def
        complete_submission_def complete_simulation_submission_def owns_claim_def Let_def)
qed

text \<open>
  C19. Every step of the service implements a step of the abstract machine on every operation: attempts
  are numbered one by one, an operation ends as the attempt that executes, an ended operation keeps its
  result until retention removes it, and retention never removes one that executes. A completion changes
  an operation only if it carries the token of the attempt that executes; it then ends it with its own
  result or error.
\<close>

theorem async_execution_refines:
  assumes "run_steps svc artifact_of dump empty_run_repository repo" and "run_step svc artifact_of dump repo repo'"
  shows "execution_step (operation_view (get_operation repo oid)) (operation_view (get_operation repo' oid))
    \<and> (\<forall>finished c result_json.
         let ended = snd (complete_operation_success finished c result_json repo)
         in operation_view (get_operation ended oid) \<noteq> operation_view (get_operation repo oid) \<longrightarrow>
              (\<exists>n. ac_operation_id c = oid \<and> operation_view (get_operation repo oid) = Executing (ac_execution_token c) n
                 \<and> operation_view (get_operation ended oid) = Succeeded (ac_execution_token c) n result_json))
    \<and> (\<forall>finished c code message.
         let ended = snd (complete_operation_failure finished c code message repo)
         in operation_view (get_operation ended oid) \<noteq> operation_view (get_operation repo oid) \<longrightarrow>
              (\<exists>n. ac_operation_id c = oid \<and> operation_view (get_operation repo oid) = Executing (ac_execution_token c) n
                 \<and> operation_view (get_operation ended oid)
                     = Failed (ac_execution_token c) n [(''code'', code), (''message'', message)]))"
proof -
  have ok: "run_store_ok repo" using reachable_ok [OF assms(1)] by simp
  have "execution_step (operation_view (get_operation repo oid)) (operation_view (get_operation repo' oid))"
    using assms(2) unfolding get_operation_def
  proof (cases rule: run_step.cases)
    case (step_complete now t k h token r portfolio)
    then show "execution_step (operation_view (dict_get (st_operations repo) oid))
        (operation_view (dict_get (st_operations repo') oid))"
      by (simp add: complete_operations_frame [OF step_complete(1)] stays)
  qed (simp_all only: operations_frame complete_operation_snd stays publish_execution_step
      prepare_execution_step [OF ok] submit_execution_step [OF ok] cleanup_execution_step [OF ok])
  then show ?thesis
    unfolding complete_operation_snd Let_def
    by (blast dest: publish_success_needs_token publish_failure_needs_token)
qed

text \<open>
  C20. Fencing: when a worker has been given an execution claim, it alone can end the operation. Its
  result is stored and repeating the same completion is accepted; a completion with any other token, or
  of another outcome after the end, is refused as stale and leaves the store as it is.
\<close>

theorem execution_fenced:
  assumes "run_steps svc artifact_of dump empty_run_repository repo"
    and "prepare_analyze_operation_execution svc cleaned claimed hex t oid repo = (Inr c, repo1)"
  defines "stale_error \<equiv> Inl (DpmAsyncOperationConflictError ''DPM_ASYNC_OPERATION_STALE_EXECUTION_OWNER'')"
  shows "\<exists>repo2. complete_operation_success finished c result_json repo1 = (Inr (), repo2)
    \<and> map_option ao_result_json (get_operation repo2 oid) = Some (Some result_json)
    \<and> complete_operation_success later c result_json repo2 = (Inr (), repo2)
    \<and> (other \<noteq> result_json \<longrightarrow> complete_operation_success later c other repo2 = (stale_error, repo2))
    \<and> complete_operation_failure later c code message repo2 = (stale_error, repo2)
    \<and> (ac_operation_id stale = oid \<and> ac_execution_token stale \<noteq> ac_execution_token c
         \<longrightarrow> complete_operation_success later stale other repo1 = (stale_error, repo1)
           \<and> complete_operation_failure later stale code message repo1 = (stale_error, repo1)
           \<and> complete_operation_success later stale other repo2 = (stale_error, repo2)
           \<and> complete_operation_failure later stale code message repo2 = (stale_error, repo2))"
proof -
  have "run_store_ok repo" using reachable_ok [OF assms(1)] by simp
  from prepare_claims [OF this assms(2)] obtain oper where id: "ac_operation_id c = oid"
    and oper: "dict_get (st_operations repo1) oid = Some oper"
    and held: "holds_execution (ac_tenant_id c) (ac_execution_token c) oper" .
  define oper2 where "oper2 = oper\<lparr> ao_status := ASYNC_SUCCEEDED, ao_result_json := Some result_json,
    ao_error_json := None, ao_finished_at := Some finished, ao_execution_lease_expires_at := None \<rparr>"
  define repo2 where "repo2 = set_operation oid oper2 repo1"
  have get2: "dict_get (st_operations repo2) oid = Some oper2" by (simp add: repo2_def set_operation_def dict_simps)
  have ended: "ao_status oper2 = ASYNC_SUCCEEDED" "ao_result_json oper2 = Some result_json"
      "ao_tenant_id oper2 = Some (ac_tenant_id c)" "ao_execution_token oper2 = Some (ac_execution_token c)"
    using held by (simp_all add: oper2_def holds_execution_def)
  have first: "complete_operation_success finished c result_json repo1 = (Inr (), repo2)"
    using oper held
    by (simp add: complete_operation_success_def publish_operation_success_def id repo2_def oper2_def)
  note defs = complete_operation_success_def complete_operation_failure_def publish_operation_success_def
    publish_operation_failure_def holds_execution_def get_operation_def Let_def stale_error_def
  have stale: "ao_execution_token oper \<noteq> Some (ac_execution_token stale)"
    "ao_execution_token oper2 \<noteq> Some (ac_execution_token stale)"
    if "ac_execution_token stale \<noteq> ac_execution_token c"
    using held ended(4) that by (simp_all add: holds_execution_def)
  show ?thesis
    by (intro exI [of _ repo2] conjI impI) (use first get2 oper ended stale id in \<open>simp_all add: defs\<close>)
qed

text \<open>
  C21. The review workflow follows its transition table: on a store the service reaches, with retention
  off, a run under review that gets a sequence of requests, decided at increasing times after the
  decisions it has, then reports the status the abstract machine gives. At any point an action the machine
  does not allow is refused and changes nothing, so is one with a malformed reason code, and any other
  action is answered with the status the machine gives.
\<close>

theorem workflow_follows_machine:
  assumes "run_steps svc artifact_of dump empty_run_repository repo"
    and "sv_supportability_retention_days svc < 1"
    and "get_workflow_for_tenant svc t r repo = Inr w" and "wr_requires_review w"
    and "sorted_wrt (<) (map wq_decided_at qs)"
    and "\<forall>q \<in> set qs. \<forall>d \<in> set (list_workflow_decisions repo r). wd_decided_at d < wq_decided_at q"
  shows "\<exists>w'. get_workflow_for_tenant svc t r (fold (serve_workflow_request svc r) qs repo) = Inr w'
    \<and> wr_requires_review w'
    \<and> wr_workflow_status w' = fold request_status qs (wr_workflow_status w)
    \<and> (\<forall>cleaned decided hex action reason comment actor correlation.
         let repo' = fold (serve_workflow_request svc r) qs repo;
             served = apply_workflow_action svc cleaned decided hex r action reason comment actor correlation repo'
         in (\<not> workflow_allowed (wr_workflow_status w') action \<longrightarrow>
               served = (Inl (DpmWorkflowTransitionError ''DPM_WORKFLOW_INVALID_TRANSITION''), repo'))
            \<and> (\<not> reason_code_ok reason \<longrightarrow> (\<exists>e. fst served = Inl e) \<and> snd served = repo')
            \<and> (workflow_allowed (wr_workflow_status w') action \<longrightarrow> reason_code_ok reason \<longrightarrow>
                 map_sum id wr_workflow_status (fst served) = Inr (workflow_machine (wr_workflow_status w') action)))"
proof -
  let ?repo = "fold (serve_workflow_request svc r) qs repo"
  obtain run where run: "get_run repo r = Some run" "rr_tenant_id run = Some t"
    and w: "w = to_workflow_response svc repo run"
    using assms(3) by (auto simp: get_workflow_for_tenant_def get_run_for_tenant_def required_run_def bind_run_def
        split: option.splits if_splits)
  have id: "rr_rebalance_run_id run = r"
    using reachable_ok [OF assms(1)] run(1) unfolding run_store_ok_def run_tables_ok_def get_run_def by blast
  have review: "workflow_required_for_run_status (sv_workflow_enabled svc) (result_status (rr_result_json run))
      (sv_workflow_requires_review_for_statuses svc)"
    using assms(4) by (simp add: w to_workflow_response_def Let_def)
  have status: "wr_workflow_status (to_workflow_response svc x run) = review_status (list_workflow_decisions x r)"
    and requires: "wr_requires_review (to_workflow_response svc x run)" for x
    using review by (simp_all add: to_workflow_response_def resolve_workflow_status_def review_status_def id Let_def)
  note served = serve_workflow_all [OF assms(2) run(1) review assms(5,6)]
  then have "get_workflow_for_tenant svc t r ?repo = Inr (to_workflow_response svc ?repo run)"
    using run by (simp add: get_workflow_for_tenant_def get_run_for_tenant_def get_run_def required_run_def bind_run_def)
  moreover have "get_run ?repo r = Some run" using run(1) served by (simp add: get_run_def)
  note act = apply_workflow_review [OF assms(2) this review, folded status]
  ultimately show ?thesis
    using served requires act
    by (intro exI [of _ "to_workflow_response svc ?repo run"]) (simp add: status w Let_def)
qed

lemma sample_service_eq:
  "sample_service = \<lparr> sv_async_operation_ttl_seconds = 86400, sv_async_execution_lease_seconds = 300,
     sv_supportability_retention_days = 0, sv_workflow_enabled = True,
     sv_workflow_requires_review_for_statuses = {''PENDING_REVIEW''}, sv_artifact_store_mode = ''DERIVED'' \<rparr>"
  by (simp add: sample_service_def make_run_support_service_def strip_def is_space_def upper_char_def Let_def)

lemma sample_complete_Inr:
  "complete_submission sample_service (\<lambda>_. []) sample_dump 5 ''t'' ''k'' ''h'' ''token'' (sample_result ''rr_1'') ''pf''
     sample_claimed = Inr sample_completed"
  by (simp add: sample_completed_def sample_claimed_def claim_simulation_submission_def complete_submission_def
      complete_simulation_submission_def owns_claim_def empty_run_repository_def Let_def)

lemma sample_completed_reachable: "run_steps sample_service (\<lambda>_. []) sample_dump empty_run_repository sample_completed"
proof -
  have "run_step sample_service (\<lambda>_. []) sample_dump empty_run_repository sample_claimed"
    unfolding sample_claimed_def by (rule step_claim)
  moreover have "run_step sample_service (\<lambda>_. []) sample_dump sample_claimed sample_completed"
    by (rule step_complete [OF sample_complete_Inr])
      (simp add: sample_claimed_def claim_simulation_submission_def empty_run_repository_def Let_def)
  ultimately show ?thesis by auto
qed

lemmas sample_defs = sample_completed_def sample_claimed_def claim_simulation_submission_def complete_submission_def
  complete_simulation_submission_def owns_claim_def empty_run_repository_def Let_def save_run_def append_lineage_edge_def
  index_lineage_edge_def append_to_def dict_get_or_def run_record_of_def sample_result_def sample_dump_def
  sample_service_eq

theorem run_store_consistent_witness:
  "\<exists>run. get_run_for_tenant sample_completed ''t'' ''rr_1'' = Some run \<and> rr_idempotency_key run = Some ''k''"
proof -
  have "get_idempotency_mapping_for_tenant sample_completed ''t'' ''k'' = Some
      \<lparr> ri_tenant_id = Some ''t'', ri_idempotency_key = ''k'', ri_request_hash = ''h'', ri_rebalance_run_id = ''rr_1'',
        ri_created_at = 5 \<rparr>"
    by (simp add: get_idempotency_mapping_for_tenant_def sample_defs)
  with run_store_consistent [OF sample_completed_reachable] show ?thesis by fastforce
qed

theorem submission_exactly_once_witness:
  "complete_submission sample_service (\<lambda>_. []) sample_dump 9 ''t'' ''k'' ''h'' ''other'' (sample_result ''rr_2'') ''pf''
       sample_completed = Inl (DpmRunRepositoryConflictError ''DPM_SIMULATION_SUBMISSION_CLAIM_LOST'')
   \<and> length (list_idempotency_history_for_tenant sample_completed ''t'' ''k'') \<le> 1"
proof -
  have "get_simulation_submission_claim sample_completed ''t'' ''k'' = Some
      \<lparr> cr_tenant_id = ''t'', cr_idempotency_key = ''k'', cr_request_hash = ''h'', cr_status = CLAIM_COMPLETED,
        cr_claim_token = ''token'', cr_claimed_at = 0, cr_claim_expires_at = 5, cr_rebalance_run_id = Some ''rr_1'',
        cr_completed_at = Some 5 \<rparr>"
    by (simp add: get_simulation_submission_claim_def sample_defs)
  from submission_exactly_once [OF sample_completed_reachable this _ rtranclp.rtrancl_refl]
  show ?thesis by simp
qed

lemma sample_submitted_reachable: "run_steps sample_service (\<lambda>_. []) sample_dump empty_run_repository sample_submitted"
proof -
  have "dict_get (st_operations sample_completed) (''dop_'' @ ''o1'') = None" by (simp add: sample_defs)
  then have "run_step sample_service (\<lambda>_. []) sample_dump sample_completed sample_submitted"
    unfolding sample_submitted_def by (rule step_submit)
  with sample_completed_reachable show ?thesis by (rule rtranclp.rtrancl_into_rtrancl)
qed

lemmas sample_async_defs = sample_submitted_def submit_analyze_async_def require_async_tenant_id_def strip_def is_space_def
  cleanup_expired_operations_def purge_expired_operations_def get_operation_by_correlation_for_tenant_def
  build_analyze_operation_def create_operation_def save_operation_def record_lineage_edge_def get_operation_def

lemma sample_operation:
  "get_operation sample_submitted ''dop_o1'' = Some
     (build_analyze_operation ''t'' ''dop_o1'' ''corr_c1'' [(''scenarios'', JObj [])] 6)"
  by (simp add: sample_async_defs sample_defs)

theorem async_execution_refines_witness:
  "execution_step (operation_view (get_operation sample_submitted ''dop_o1''))
     (operation_view (get_operation
        (snd (prepare_analyze_operation_execution sample_service 7 7 ''x1'' ''t'' ''dop_o1'' sample_submitted)) ''dop_o1''))
   \<and> operation_view (get_operation sample_submitted ''dop_o1'') = Waiting"
proof
  note sample = async_execution_refines [OF sample_submitted_reachable step_prepare]
  show "execution_step (operation_view (get_operation sample_submitted ''dop_o1''))
     (operation_view (get_operation
        (snd (prepare_analyze_operation_execution sample_service 7 7 ''x1'' ''t'' ''dop_o1'' sample_submitted)) ''dop_o1''))"
    using sample by blast
  show "operation_view (get_operation sample_submitted ''dop_o1'') = Waiting"
    by (simp add: sample_operation operation_view_def build_analyze_operation_def)
qed

theorem execution_fenced_witness:
  "\<exists>c repo1 repo2.
     prepare_analyze_operation_execution sample_service 7 7 ''x1'' ''t'' ''dop_o1'' sample_submitted = (Inr c, repo1)
     \<and> complete_operation_success 8 c [(''ok'', JInt 1)] repo1 = (Inr (), repo2)
     \<and> complete_operation_success 9 c [(''ok'', JInt 2)] repo2
         = (Inl (DpmAsyncOperationConflictError ''DPM_ASYNC_OPERATION_STALE_EXECUTION_OWNER''), repo2)"
proof -
  have "\<exists>c repo1. prepare_analyze_operation_execution sample_service 7 7 ''x1'' ''t'' ''dop_o1'' sample_submitted = (Inr c, repo1)"
    by (simp add: sample_async_defs sample_defs prepare_analyze_operation_execution_def claim_operation_execution_def
        claimed_operation_def purge_operation_def operation_expired_def operation_anchor_def)
  then obtain c repo1 where "prepare_analyze_operation_execution sample_service 7 7 ''x1'' ''t'' ''dop_o1'' sample_submitted
      = (Inr c, repo1)" by blast
  from this execution_fenced [OF sample_submitted_reachable this, of 8 "[(''ok'', JInt 1)]" 9 "[(''ok'', JInt 2)]"]
  show ?thesis by fastforce
qed

text \<open>An approval and then a rejection, one second apart.\<close>

definition sample_requests :: "workflow_request list" where
  "sample_requests =
     [\<lparr> wq_cleaned_at = 10, wq_decided_at = 10, wq_hex = ''d1'', wq_action = WF_APPROVE, wq_reason_code = ''OK'',
        wq_comment = None, wq_actor_id = ''a'', wq_correlation_id = ''c'' \<rparr>,
      \<lparr> wq_cleaned_at = 1000010, wq_decided_at = 1000010, wq_hex = ''d2'', wq_action = WF_REJECT, wq_reason_code = ''BAD_1'',
        wq_comment = None, wq_actor_id = ''a'', wq_correlation_id = ''c'' \<rparr>]"

theorem workflow_follows_machine_witness:
  "\<exists>w. get_workflow_for_tenant sample_service ''t'' ''rr_1''
          (fold (serve_workflow_request sample_service ''rr_1'') sample_requests sample_completed) = Inr w
       \<and> wr_workflow_status w = WF_REJECTED"
proof -
  have "\<exists>w0. get_workflow_for_tenant sample_service ''t'' ''rr_1'' sample_completed = Inr w0
      \<and> wr_requires_review w0 \<and> wr_workflow_status w0 = WF_PENDING_REVIEW"
    by (simp add: get_workflow_for_tenant_def get_run_for_tenant_def get_run_def required_run_def bind_run_def
        to_workflow_response_def workflow_required_for_run_status_def resolve_workflow_status_def result_status_def
        py_str_def latest_workflow_decision_def latest_row_def list_workflow_decisions_def sample_defs)
  then obtain w0 where w0: "get_workflow_for_tenant sample_service ''t'' ''rr_1'' sample_completed = Inr w0"
    "wr_requires_review w0" "wr_workflow_status w0 = WF_PENDING_REVIEW" by blast
  have "\<exists>w. get_workflow_for_tenant sample_service ''t'' ''rr_1''
          (fold (serve_workflow_request sample_service ''rr_1'') sample_requests sample_completed) = Inr w
       \<and> wr_requires_review w
       \<and> wr_workflow_status w = fold request_status sample_requests (wr_workflow_status w0)"
  proof -
    have "sv_supportability_retention_days sample_service < 1" "sorted_wrt (<) (map wq_decided_at sample_requests)"
      "\<forall>q \<in> set sample_requests. \<forall>d \<in> set (list_workflow_decisions sample_completed ''rr_1''). wd_decided_at d < wq_decided_at q"
      by (simp_all add: sample_requests_def sample_service_eq list_workflow_decisions_def sample_defs)
    from workflow_follows_machine [OF sample_completed_reachable this(1) w0(1,2) this(2,3)] show ?thesis by blast
  qed
  then show ?thesis
    by (auto simp: w0(3) sample_requests_def request_status_def reason_code_ok_def workflow_machine_def)
qed

text \<open>
  Two decisions of the same instant: the service answers the rejection with the status REJECTED, and
  the run stays APPROVED, since the first of two equal timestamps counts as the latest.
\<close>

theorem same_instant_decision_lost:
  defines "approved \<equiv> snd (apply_workflow_action sample_service 10 10 ''d1'' ''rr_1'' WF_APPROVE ''OK'' None ''a'' ''c'' sample_completed)"
  defines "rejected \<equiv> apply_workflow_action sample_service 10 10 ''d2'' ''rr_1'' WF_REJECT ''BAD'' None ''a'' ''c'' approved"
  shows "map_sum id wr_workflow_status (fst rejected) = Inr WF_REJECTED
    \<and> map_sum id wr_workflow_status (get_workflow_for_tenant sample_service ''t'' ''rr_1'' (snd rejected)) = Inr WF_APPROVED"
  unfolding rejected_def approved_def
  by (simp add: apply_workflow_action_def cleanup_expired_supportability_def get_run_def get_workflow_for_tenant_def
      get_run_for_tenant_def required_run_def bind_run_def to_workflow_response_def workflow_required_for_run_status_def
      resolve_workflow_status_def result_status_def py_str_def latest_workflow_decision_def latest_row_def
      list_workflow_decisions_def append_workflow_decision_def build_workflow_decision_record_def reason_code_ok_def
      resolve_workflow_transition_def VALID_WORKFLOW_TRANSITIONS_def status_for_action_def sample_defs)

text \<open>
  Retention is not scoped to the tenant: when the run of one tenant expires, the lineage of the live
  run of another tenant that used the same idempotency key goes with it.
\<close>

definition two_tenants :: InMemoryDpmRunRepository where
  "two_tenants =
     (let second = snd (claim_simulation_submission ''t2'' ''k'' ''h'' ''token2'' 0 60000000 sample_completed)
      in projr (complete_submission sample_service (\<lambda>_. []) sample_dump 86400000000 ''t2'' ''k'' ''h'' ''token2''
                  ((sample_result ''rr_2'')\<lparr> correlation_id := ''corr2'' \<rparr>) ''pf'' second))"

theorem purge_drops_lineage_of_other_tenant:
  defines "purged \<equiv> snd (purge_expired_runs 1 (86400000000 + 6) two_tenants)"
  shows "get_run_for_tenant two_tenants ''t2'' ''rr_2'' \<noteq> None \<and> get_run_for_tenant purged ''t2'' ''rr_2'' \<noteq> None
    \<and> get_idempotency_mapping_for_tenant purged ''t2'' ''k'' \<noteq> None
    \<and> map ed_edge_type (list_lineage_edges two_tenants ''rr_2'') = [CORRELATION_TO_RUN, IDEMPOTENCY_TO_RUN]
    \<and> map ed_edge_type (list_lineage_edges purged ''rr_2'') = [CORRELATION_TO_RUN]"
  unfolding purged_def
  by (simp add: two_tenants_def purge_expired_runs_def expired_runs_def expired_run_identities_def
      purge_expired_run_records_def purge_run_record_def purge_expired_idempotency_mappings_def
      purge_expired_idempotency_history_def purge_expired_lineage_edges_def retain_rows_def lineage_entity_ids_def
      run_idempotency_keys_def list_lineage_edges_def get_run_for_tenant_def get_run_def
      get_idempotency_mapping_for_tenant_def sample_defs)

end
