(* ===== verification/Run_Submission.thy ===== *)
theory Run_Submission
  imports Run_Properties
begin

text \<open>
  Synchronous simulation requests under an idempotency key
  (\<open>src/src/api/services/rebalance_sync_execution.py\<close>): claim the key, replay the completed run of the
  key or wait for another worker, otherwise simulate and complete. What other requests do in between is
  an argument: \<open>polls\<close> are the stores and clocks a waiting request sees before its deadline, \<open>others\<close> is
  the change of the store while the simulation runs. The simulation, the source lineage and the client
  restriction policy applied to its result are one argument, \<open>computed\<close>: the result, or the exception.
\<close>


section \<open>Definitions\<close>

datatype submission_error =
    DpmRebalanceIdempotencyConflictError string
  | DpmRebalanceIdempotencyStoreInconsistentError string
  | DpmRebalanceSubmissionInProgressError string
  | DpmRebalanceIdempotencyStoreWriteFailedError string
  | SimulationRaised string

text \<open>The exceptions of the simulation: \<open>RuntimeError\<close> and \<open>ValueError\<close> are reported as a failed write.\<close>

datatype computation_error = RuntimeOrValueError string | OtherException string

definition load_completed_result ::
  "DpmRunSupportService \<Rightarrow> (json_dict \<Rightarrow> RebalanceResult run_result) \<Rightarrow> int \<Rightarrow> string \<Rightarrow> string option
     \<Rightarrow> InMemoryDpmRunRepository \<Rightarrow> (submission_error + RebalanceResult) \<times> InMemoryDpmRunRepository" where
  "load_completed_result svc load now tenant run_id repo =
     (case run_id of
        None \<Rightarrow> (Inl (DpmRebalanceIdempotencyStoreInconsistentError ''DPM_IDEMPOTENCY_STORE_INCONSISTENT''), repo)
      | Some r \<Rightarrow>
          (case service_get_run_for_tenant svc load now tenant r repo of
             (Inl _, repo) \<Rightarrow>
               (Inl (DpmRebalanceIdempotencyStoreInconsistentError ''DPM_IDEMPOTENCY_STORE_INCONSISTENT''), repo)
           | (Inr response, repo) \<Rightarrow> (Inr (lr_result response), repo)))"

fun wait_for_completed_submission ::
  "DpmRunSupportService \<Rightarrow> (json_dict \<Rightarrow> RebalanceResult run_result) \<Rightarrow> string \<Rightarrow> string \<Rightarrow> string
     \<Rightarrow> (InMemoryDpmRunRepository \<times> int) list \<Rightarrow> InMemoryDpmRunRepository
     \<Rightarrow> (submission_error + RebalanceResult option) \<times> InMemoryDpmRunRepository" where
  "wait_for_completed_submission svc load tenant key rhash [] repo = (Inr None, repo)"
| "wait_for_completed_submission svc load tenant key rhash ((seen, now) # polls) repo =
     (case get_simulation_submission_claim seen tenant key of
        None \<Rightarrow> (Inr None, seen)
      | Some claim \<Rightarrow>
          if cr_request_hash claim \<noteq> rhash
          then (Inl (DpmRebalanceIdempotencyConflictError ''IDEMPOTENCY_KEY_CONFLICT: request hash mismatch''), seen)
          else if cr_status claim = CLAIM_COMPLETED
          then (case load_completed_result svc load now tenant (cr_rebalance_run_id claim) seen of
                  (Inl e, seen) \<Rightarrow> (Inl e, seen) | (Inr r, seen) \<Rightarrow> (Inr (Some r), seen))
          else if cr_claim_expires_at claim \<le> now then (Inr None, seen)
          else wait_for_completed_submission svc load tenant key rhash polls seen)"

text \<open>A wait without an answer ends the request as in progress.\<close>

definition require_replay ::
  "(submission_error + RebalanceResult option) \<times> InMemoryDpmRunRepository
     \<Rightarrow> (submission_error + RebalanceResult) \<times> InMemoryDpmRunRepository" where
  "require_replay waited =
     (case waited of
        (Inl e, repo) \<Rightarrow> (Inl e, repo)
      | (Inr (Some r), repo) \<Rightarrow> (Inr r, repo)
      | (Inr None, repo) \<Rightarrow> (Inl (DpmRebalanceSubmissionInProgressError ''DPM_REBALANCE_REQUEST_IN_PROGRESS''), repo))"

definition claim_submission ::
  "string \<Rightarrow> string \<Rightarrow> string \<Rightarrow> string \<Rightarrow> int \<Rightarrow> InMemoryDpmRunRepository
     \<Rightarrow> DpmSimulationSubmissionClaimRecord \<times> InMemoryDpmRunRepository" where
  "claim_submission tenant key rhash token now repo =
     claim_simulation_submission tenant key rhash token now (now + 60 * 1000000) repo"

text \<open>\<open>Inr None\<close>: the request owns the claim and goes on to simulate.\<close>

definition resolved_claim_result ::
  "DpmRunSupportService \<Rightarrow> (json_dict \<Rightarrow> RebalanceResult run_result) \<Rightarrow> int \<Rightarrow> string \<Rightarrow> string \<Rightarrow> string \<Rightarrow> string
     \<Rightarrow> DpmSimulationSubmissionClaimRecord \<Rightarrow> (InMemoryDpmRunRepository \<times> int) list \<Rightarrow> InMemoryDpmRunRepository
     \<Rightarrow> (submission_error + RebalanceResult option) \<times> InMemoryDpmRunRepository" where
  "resolved_claim_result svc load now tenant key rhash token claim polls repo =
     (if cr_request_hash claim \<noteq> rhash
      then (Inl (DpmRebalanceIdempotencyConflictError ''IDEMPOTENCY_KEY_CONFLICT: request hash mismatch''), repo)
      else if cr_status claim = CLAIM_COMPLETED
      then (case load_completed_result svc load now tenant (cr_rebalance_run_id claim) repo of
              (Inl e, repo) \<Rightarrow> (Inl e, repo) | (Inr r, repo) \<Rightarrow> (Inr (Some r), repo))
      else if cr_claim_token claim = token then (Inr None, repo)
      else (case require_replay (wait_for_completed_submission svc load tenant key rhash polls repo) of
              (Inl e, repo) \<Rightarrow> (Inl e, repo) | (Inr r, repo) \<Rightarrow> (Inr (Some r), repo)))"

definition finish_submission ::
  "DpmRunSupportService \<Rightarrow> (DpmRunRecord \<Rightarrow> json_dict) \<Rightarrow> (RebalanceResult \<Rightarrow> json_dict)
     \<Rightarrow> (json_dict \<Rightarrow> RebalanceResult run_result) \<Rightarrow> int \<Rightarrow> string \<Rightarrow> string \<Rightarrow> string \<Rightarrow> string \<Rightarrow> string
     \<Rightarrow> computation_error + RebalanceResult \<Rightarrow> (InMemoryDpmRunRepository \<times> int) list \<Rightarrow> InMemoryDpmRunRepository
     \<Rightarrow> (submission_error + RebalanceResult) \<times> InMemoryDpmRunRepository" where
  "finish_submission svc artifact_of dump load now tenant key rhash token portfolio computed polls repo =
     (case computed of
        Inl (RuntimeOrValueError _) \<Rightarrow>
          (Inl (DpmRebalanceIdempotencyStoreWriteFailedError ''DPM_IDEMPOTENCY_STORE_WRITE_FAILED''),
           abandon_simulation_submission_claim tenant key token now repo)
      | Inl (OtherException m) \<Rightarrow>
          (Inl (SimulationRaised m), abandon_simulation_submission_claim tenant key token now repo)
      | Inr r \<Rightarrow>
          (case complete_submission svc artifact_of dump now tenant key rhash token r portfolio repo of
             Inr repo \<Rightarrow> (Inr r, repo)
           | Inl _ \<Rightarrow> require_replay (wait_for_completed_submission svc load tenant key rhash polls repo)))"

definition execute_simulation_request ::
  "DpmRunSupportService \<Rightarrow> (DpmRunRecord \<Rightarrow> json_dict) \<Rightarrow> (RebalanceResult \<Rightarrow> json_dict)
     \<Rightarrow> (json_dict \<Rightarrow> RebalanceResult run_result) \<Rightarrow> int \<Rightarrow> int \<Rightarrow> string \<Rightarrow> string \<Rightarrow> string \<Rightarrow> string \<Rightarrow> string
     \<Rightarrow> computation_error + RebalanceResult \<Rightarrow> (InMemoryDpmRunRepository \<times> int) list
     \<Rightarrow> (InMemoryDpmRunRepository \<Rightarrow> InMemoryDpmRunRepository) \<Rightarrow> (InMemoryDpmRunRepository \<times> int) list
     \<Rightarrow> InMemoryDpmRunRepository \<Rightarrow> (submission_error + RebalanceResult) \<times> InMemoryDpmRunRepository" where
  "execute_simulation_request svc artifact_of dump load claimed_at completed_at tenant key rhash token portfolio computed
       polls others later_polls repo =
     (case claim_submission tenant key rhash token claimed_at repo of
        (claim, repo) \<Rightarrow>
          (case resolved_claim_result svc load claimed_at tenant key rhash token claim polls repo of
             (Inl e, repo) \<Rightarrow> (Inl e, repo)
           | (Inr (Some r), repo) \<Rightarrow> (Inr r, repo)
           | (Inr None, repo) \<Rightarrow>
               finish_submission svc artifact_of dump load completed_at tenant key rhash token portfolio computed
                 later_polls (others repo)))"


section \<open>Lemmas\<close>

text \<open>With retention off, a stored run stays.\<close>

lemma run_kept_step:
  assumes "run_step svc artifact_of dump repo repo'" and "sv_supportability_retention_days svc < 1"
    and "dict_get (st_runs repo) r = Some run"
  shows "dict_get (st_runs repo') r = Some run"
  using assms(1)
proof (cases rule: run_step.cases)
  case (step_complete now t k h token r' portfolio)
  have "st_runs repo' = dict_set (rebalance_run_id r') (run_record_of dump (Some t) r' h (Some k) portfolio now) (st_runs repo)"
    by (rule complete_submission_stores [OF step_complete(1)])
  with assms(3) step_complete(2) show ?thesis by (auto simp: dict_simps)
next
  case (step_record r' cleaned now h portfolio tenant claim scenario)
  show ?thesis
    by (rule record_run_cases [OF step_record(1)])
      (use assms(2,3) step_record(2) in \<open>auto simp: cleanup_expired_supportability_def persist_run_artifact_if_needed_def
        save_run_artifact_def save_run_def model_frame dict_simps\<close>)
next
  case (step_submit hex cleaned now corr_hex t correlation request_json)
  show ?thesis
  proof (cases "require_async_tenant_id t")
    case (Inr tenant)
    show ?thesis unfolding step_submit(1) submit_snd [OF Inr refl refl refl]
      using assms(3) by (auto simp: model_frame save_operation_def Let_def record_lineage_edge_def append_lineage_edge_def
          split: sum.splits if_splits)
  qed (use assms(3) step_submit in \<open>simp add: submit_analyze_async_def\<close>)
qed (use assms(2,3) in \<open>auto simp: complete_operation_snd prepare_snd model_frame cleanup_expired_supportability_def
    claim_simulation_submission_def abandon_simulation_submission_claim_def get_run_artifact_for_tenant_def
    resolve_run_artifact_def save_run_artifact_def apply_workflow_action_def append_workflow_decision_def
    claim_operation_execution_def publish_operation_success_def publish_operation_failure_def set_operation_def Let_def
    split: option.splits sum.splits if_splits\<close>)

lemma run_kept:
  assumes "run_steps svc artifact_of dump repo repo'" and "sv_supportability_retention_days svc < 1"
    and "dict_get (st_runs repo) r = Some run"
  shows "dict_get (st_runs repo') r = Some run"
  using assms by (induction rule: rtranclp_induct) (auto intro: run_kept_step)

text \<open>A store from which a request of the key is answered with \<open>r\<close>.\<close>

definition answered ::
  "(json_dict \<Rightarrow> RebalanceResult run_result) \<Rightarrow> string \<Rightarrow> string \<Rightarrow> string \<Rightarrow> RebalanceResult \<Rightarrow> InMemoryDpmRunRepository \<Rightarrow> bool" where
  "answered load t k h r repo \<longleftrightarrow>
     (\<exists>c run_id run. dict_get (st_submission_claims repo) (t, k) = Some c \<and> cr_status c = CLAIM_COMPLETED
        \<and> cr_request_hash c = h \<and> cr_rebalance_run_id c = Some run_id
        \<and> dict_get (st_runs repo) run_id = Some run \<and> rr_tenant_id run = Some t \<and> load (rr_result_json run) = Inr r)"

lemma completed_answers:
  assumes "sv_supportability_retention_days svc < 1"
    and "get_simulation_submission_claim repo t k = Some c" "cr_status c = CLAIM_COMPLETED" "cr_request_hash c = h"
    and "load_completed_result svc load now t (cr_rebalance_run_id c) repo = (Inr r, repo')"
  shows "answered load t k h r repo'"
  using assms
  by (auto simp: answered_def get_simulation_submission_claim_def load_completed_result_def service_get_run_for_tenant_def
      cleanup_expired_supportability_def get_run_for_tenant_def get_run_def required_run_def bind_run_def
      to_lookup_response_def Let_def split: option.splits sum.splits if_splits)

lemma wait_answers:
  assumes "wait_for_completed_submission svc load t k h polls repo = (Inr (Some r), repo')"
    and "sv_supportability_retention_days svc < 1"
  shows "answered load t k h r repo'"
  using assms
proof (induction svc load t k h polls repo rule: wait_for_completed_submission.induct)
  case (2 svc load t k h seen now polls repo)
  then obtain c where c: "get_simulation_submission_claim seen t k = Some c" "cr_request_hash c = h"
    by (auto split: option.splits if_splits)
  show ?case
  proof (cases "cr_status c = CLAIM_COMPLETED")
    case True
    with 2(2) c have "load_completed_result svc load now t (cr_rebalance_run_id c) seen = (Inr r, repo')"
      by (auto split: prod.splits sum.splits)
    with completed_answers [OF 2(3) c(1) True c(2)] show ?thesis .
  next
    case False
    with 2 c show ?thesis by (auto split: if_splits)
  qed
qed simp

lemma replay_answers:
  assumes "sv_supportability_retention_days svc < 1"
    and "require_replay (wait_for_completed_submission svc load t k h polls repo) = (Inr r, repo')"
  shows "answered load t k h r repo'"
  using assms wait_answers [of svc load t k h polls repo r repo']
  by (auto simp: require_replay_def split: prod.splits sum.splits option.splits)

lemma finish_answers:
  assumes "sv_supportability_retention_days svc < 1" and "\<And>x. computed = Inr x \<Longrightarrow> load (dump x) = Inr x"
    and "finish_submission svc artifact_of dump load now t k h token portfolio computed polls repo = (Inr r, repo')"
  shows "answered load t k h r repo'"
proof -
  from assms(3) obtain x where x: "computed = Inr x"
    by (auto simp: finish_submission_def split: sum.splits computation_error.splits)
  show ?thesis
  proof (cases "complete_submission svc artifact_of dump now t k h token x portfolio repo")
    case (Inl e)
    with assms(3) x show ?thesis by (intro replay_answers [OF assms(1)]) (simp add: finish_submission_def)
  next
    case (Inr repo1)
    with assms(3) x have same: "repo1 = repo'" "x = r" by (simp_all add: finish_submission_def)
    obtain c where "owns_claim h token c"
      and "st_runs repo' = dict_set (rebalance_run_id r) (run_record_of dump (Some t) r h (Some k) portfolio now) (st_runs repo)"
      and "st_submission_claims repo' = dict_set (t, k) (c\<lparr> cr_status := CLAIM_COMPLETED,
           cr_rebalance_run_id := Some (rebalance_run_id r), cr_completed_at := Some now, cr_claim_expires_at := now \<rparr>)
           (st_submission_claims repo)"
      using complete_submission_stores [OF Inr] unfolding same by blast
    then show ?thesis using assms(2) [OF x] same
      by (simp add: answered_def dict_simps owns_claim_def run_record_of_def)
  qed
qed

lemma execute_answers:
  assumes "sv_supportability_retention_days svc < 1" and "\<And>x. computed = Inr x \<Longrightarrow> load (dump x) = Inr x"
    and "execute_simulation_request svc artifact_of dump load claimed completed t k h token portfolio computed
           polls others later_polls repo = (Inr r, repo')"
  shows "answered load t k h r repo'"
proof -
  obtain claim repo1 where claim: "claim_submission t k h token claimed repo = (claim, repo1)" by fastforce
  have stored: "dict_get (st_submission_claims repo1) (t, k) = Some claim"
    using claim by (auto simp: claim_submission_def claim_simulation_submission_def Let_def dict_simps
        split: option.splits if_splits)
  have hash: "cr_request_hash claim = h"
    using assms(3) claim by (auto simp: execute_simulation_request_def resolved_claim_result_def split: if_splits)
  consider "cr_status claim = CLAIM_COMPLETED"
      "load_completed_result svc load claimed t (cr_rebalance_run_id claim) repo1 = (Inr r, repo')"
    | "require_replay (wait_for_completed_submission svc load t k h polls repo1) = (Inr r, repo')"
    | "finish_submission svc artifact_of dump load completed t k h token portfolio computed later_polls (others repo1)
         = (Inr r, repo')"
    using assms(3) claim hash
    by (auto simp: execute_simulation_request_def resolved_claim_result_def split: if_splits prod.splits sum.splits)
  then show ?thesis
  proof cases
    case 1
    with completed_answers [OF assms(1) _ 1(1) hash] stored show ?thesis by (simp add: get_simulation_submission_claim_def)
  qed (use replay_answers [OF assms(1)] finish_answers [OF assms(1,2)] in blast)+
qed

lemma answered_kept:
  assumes "run_steps svc artifact_of dump repo repo'" and "sv_supportability_retention_days svc < 1"
    and "answered load t k h r repo"
  shows "answered load t k h r repo'"
  using assms(3) completed_claim_final [OF assms(1)] run_kept [OF assms(1,2)] unfolding answered_def by blast


section \<open>Theorems\<close>

text \<open>
  C17. A request under an idempotency key is served once and then replayed. With retention off, once any
  request of the key has been answered with a result, then after any further steps of the service every
  request with the same key and request hash is answered with that same result, whatever its token, its
  own computation or the other requests are, and leaves the store as it is; a request with the same key
  and another hash is refused as a conflict. The round trip of the serialised result is assumed of the
  model library.
\<close>

theorem submission_replayed:
  assumes "sv_supportability_retention_days svc < 1"
    and roundtrip: "\<And>x. computed = Inr x \<Longrightarrow> load (dump x) = Inr x"
    and "execute_simulation_request svc artifact_of dump load claimed completed t k h token portfolio computed
           polls others later_polls repo = (Inr r, repo1)"
    and "run_steps svc artifact_of dump repo1 repo2"
  shows "execute_simulation_request svc artifact_of dump load claimed' completed' t k h token' portfolio' computed'
           polls' others' later_polls' repo2 = (Inr r, repo2)
    \<and> (h' \<noteq> h \<longrightarrow> execute_simulation_request svc artifact_of dump load claimed' completed' t k h' token' portfolio'
           computed' polls' others' later_polls' repo2
         = (Inl (DpmRebalanceIdempotencyConflictError ''IDEMPOTENCY_KEY_CONFLICT: request hash mismatch''), repo2))"
proof -
  have "answered load t k h r repo2"
    using answered_kept [OF assms(4,1) execute_answers [OF assms(1,2,3)]] .
  then obtain c run_id run where c: "dict_get (st_submission_claims repo2) (t, k) = Some c" "cr_status c = CLAIM_COMPLETED"
      "cr_request_hash c = h" "cr_rebalance_run_id c = Some run_id"
    and run: "dict_get (st_runs repo2) run_id = Some run" "rr_tenant_id run = Some t" "load (rr_result_json run) = Inr r"
    unfolding answered_def by blast
  have "claim_submission t k x token' claimed' repo2 = (c, repo2)" for x
    using c by (simp add: claim_submission_def claim_simulation_submission_def claim_reclaimable_def Let_def)
  moreover have "load_completed_result svc load claimed' t (cr_rebalance_run_id c) repo2 = (Inr r, repo2)"
    using c(4) run assms(1)
    by (simp add: load_completed_result_def service_get_run_for_tenant_def cleanup_expired_supportability_def
        get_run_for_tenant_def get_run_def required_run_def bind_run_def to_lookup_response_def Let_def)
  ultimately show ?thesis
    using c by (simp add: execute_simulation_request_def resolved_claim_result_def)
qed

definition sample_load :: "json_dict \<Rightarrow> RebalanceResult run_result" where
  "sample_load d =
     (case dict_get d ''rebalance_run_id'' of
        Some (JStr run_id) \<Rightarrow> Inr (sample_result run_id) | _ \<Rightarrow> Inl (RunValueError ''rebalance_run_id''))"

lemma sample_first_request:
  "execute_simulation_request sample_service (\<lambda>_. []) sample_dump sample_load 0 5 ''t'' ''k'' ''h'' ''token'' ''pf''
     (Inr (sample_result ''rr_1'')) [] id [] empty_run_repository = (Inr (sample_result ''rr_1''), sample_completed)"
proof -
  have "claim_submission ''t'' ''k'' ''h'' ''token'' 0 empty_run_repository = (the (dict_get (st_submission_claims sample_claimed) (''t'', ''k'')), sample_claimed)"
    by (simp add: claim_submission_def sample_claimed_def claim_simulation_submission_def empty_run_repository_def Let_def)
  moreover have "cr_request_hash (the (dict_get (st_submission_claims sample_claimed) (''t'', ''k''))) = ''h''"
    "cr_status (the (dict_get (st_submission_claims sample_claimed) (''t'', ''k''))) = CLAIM_IN_PROGRESS"
    "cr_claim_token (the (dict_get (st_submission_claims sample_claimed) (''t'', ''k''))) = ''token''"
    by (simp_all add: sample_claimed_def claim_simulation_submission_def empty_run_repository_def Let_def)
  ultimately show ?thesis
    by (simp add: execute_simulation_request_def resolved_claim_result_def finish_submission_def sample_complete_Inr)
qed

theorem submission_replayed_witness:
  "execute_simulation_request sample_service (\<lambda>_. []) sample_dump sample_load 7 8 ''t'' ''k'' ''h'' ''second'' ''pf''
     (Inl (OtherException ''boom'')) [] id [] sample_completed = (Inr (sample_result ''rr_1''), sample_completed)"
proof -
  have load: "sample_load (sample_dump x) = Inr x"
    if "Inr (sample_result ''rr_1'') = (Inr x :: computation_error + RebalanceResult)" for x
    using that by (auto simp: sample_load_def sample_dump_def) (simp add: sample_result_def)
  have "sv_supportability_retention_days sample_service < 1" by (simp add: sample_service_eq)
  from submission_replayed [OF this load sample_first_request rtranclp.rtrancl_refl] show ?thesis by blast
qed

text \<open>
  Retention removes runs and keeps the claims: once the run of a completed key has expired, the key
  answers neither with the run nor with a new one, but with an inconsistent store.
\<close>

theorem retention_breaks_replay:
  "fst (execute_simulation_request (sample_service\<lparr> sv_supportability_retention_days := 1 \<rparr>) (\<lambda>_. []) sample_dump sample_load
      (86400000000 + 6) (86400000000 + 7) ''t'' ''k'' ''h'' ''second'' ''pf'' (Inr (sample_result ''rr_2'')) [] id []
      sample_completed)
   = Inl (DpmRebalanceIdempotencyStoreInconsistentError ''DPM_IDEMPOTENCY_STORE_INCONSISTENT'')"
  by (simp add: execute_simulation_request_def claim_submission_def claim_reclaimable_def resolved_claim_result_def
      load_completed_result_def service_get_run_for_tenant_def cleanup_expired_supportability_def purge_expired_runs_def
      expired_runs_def expired_run_identities_def purge_expired_run_records_def purge_run_record_def
      get_run_for_tenant_def get_run_def required_run_def bind_run_def sample_defs split: prod.splits)

end
