(* ===== verification/Spec2Isabelle.thy ===== *)
theory Spec2Isabelle
  imports Engine Policy_Packs Wave_Simulation_Admission Run_Submission
begin

text \<open>
  A model of \<open>lotus-manage\<close>, the discretionary portfolio management service: its rebalance
  engine, the policy packs that configure it, the service that runs it under an idempotency key and keeps
  its runs, and the rebalance waves that carry its results to approval and handoff.

  \<^bold>\<open>How the program works.\<close> A run (\<open>core/rebalance/engine.py: run_simulation\<close>) takes a
  portfolio snapshot, market data, a model portfolio, a product shelf and engine options. It values
  the portfolio, decides which instruments may be held and bought, computes target weights by a
  heuristic or by a convex solver, turns weights into security trades under tax, lot and minimum
  size limits, drops trades beyond the turnover budget, adds the foreign-exchange trades that fund
  deficits, simulates all of them in settlement order, checks the rules on the simulated state and
  routes the outcome to a workflow gate. Two early exits report a blocked run: missing data that the
  options say must block, and targets that cannot be generated. A policy pack overrides engine
  options before a run. A request claims its idempotency key in the run store, simulates and completes the
  claim, or replays the run of the key; asynchronous operations are executed by workers under a lease; a
  stored run goes through a review workflow and is removed by retention. A wave is an event-sourced aggregate of many portfolios' rebalances; its
  state machine, repository and services are separate from the engine.

  \<^bold>\<open>Numbers.\<close> All quantities are \<open>decimal.Decimal\<close> values. Theory \<open>Decimal\<close>
  models the default context: 28 significant digits, half-even rounding after each operation. Sums and
  products therefore round, and the theorems say so: they use the same rounded operations as the
  code, not exact arithmetic. The exponent range of the context is not modelled.

  \<^bold>\<open>Theories and sources\<close> (paths below \<open>src/src\<close>).
  \<^item> \<open>Prelude\<close>: exceptions as values (\<open>py_error\<close>, \<open>result\<close>), dictionaries as
    association lists in insertion order, string helpers, list lemmas.
  \<^item> \<open>Decimal\<close>: the locale \<open>decimal_context\<close> states what the proofs use of rounding; the
    interpretation \<open>ctx28\<close> discharges it for 28 digits.
  \<^item> \<open>Models\<close>: \<open>core/models.py\<close>, \<open>core/common/diagnostics.py\<close>: records, enumerations,
    validators. \<open>Samples\<close>: the concrete inputs of the examples.
  \<^item> \<open>Valuation\<close>: \<open>core/valuation.py\<close>: rates, position and cash values, allocations,
    \<open>build_simulated_state\<close>.
  \<^item> \<open>Compliance\<close>: \<open>core/compliance.py\<close> and \<open>derive_status_from_rules\<close>.
  \<^item> \<open>Workflow_Gates\<close>: \<open>core/common/workflow_gates.py\<close>.
  \<^item> \<open>Universe\<close>: \<open>core/rebalance/universe.py\<close>.
  \<^item> \<open>Target_Generation\<close>: \<open>core/target_generation.py\<close>, the solver path; the packages
    \<open>cvxpy\<close> and \<open>numpy\<close> are the parameter \<open>SolverModules\<close>, about which nothing is assumed.
  \<^item> \<open>Targets\<close>: \<open>core/rebalance/targets.py\<close>, the heuristic path and the comparison of the two.
  \<^item> \<open>Tax_Budget\<close>, \<open>Intents\<close>, \<open>Turnover\<close>: \<open>core/rebalance/tax_budget.py\<close>,
    \<open>intents.py\<close>, \<open>turnover.py\<close>.
  \<^item> \<open>Simulation_Shared\<close>: \<open>core/common/simulation_shared.py\<close>, \<open>intent_dependencies.py\<close>.
  \<^item> \<open>Execution\<close>: \<open>core/rebalance/execution.py\<close>: funding, dependencies, settlement ladder,
    simulation, reconciliation.
  \<^item> \<open>Engine\<close>: \<open>core/rebalance/engine.py\<close>, the composition of all stages.
  \<^item> \<open>Policy_Packs\<close>: \<open>core/rebalance/policy_packs.py\<close>, \<open>tenant_policy_packs.py\<close>.
  \<^item> \<open>Wave_State_Machine\<close>: \<open>core/waves/models.py\<close>, \<open>state_machine.py\<close>, and the relation of the
    waves the services produce from a draft; \<open>Wave_Lifecycle\<close>, \<open>Wave_Creation\<close>,
    \<open>Wave_Simulation_Item\<close> and \<open>Wave_Simulation_Service\<close> show that what they build belongs to it.
  \<^item> \<open>Wave_Repository\<close>: \<open>core/waves/repository.py\<close> as a locale, interpreted on
    \<open>infrastructure/waves/in_memory.py\<close>. \<open>Derived_Identity\<close>:
    \<open>core/common/derived_identity.py\<close>; the hash is a parameter.
  \<^item> \<open>Wave_Simulation_Models\<close>, \<open>Wave_Simulation_Store\<close>, \<open>Wave_Simulation_Runs\<close>:
    \<open>core/waves/simulation_operations.py\<close> and the simulation tables of the in-memory store: leased
    claims, fenced publication, retry, cancellation, and the runs of these operations.
  \<^item> \<open>Mandate_Models\<close>, \<open>Mandate_Health\<close>, \<open>Mandate_Monitoring\<close>:
    \<open>core/mandate_models.py\<close>, \<open>core/mandate_health_scoring.py\<close> and the monitoring exceptions of
    \<open>core/mandates.py\<close>. \<open>Dates\<close> models the calendar dates they compare and print.
  \<^item> \<open>Mandate_Repository\<close>: \<open>infrastructure/mandates/in_memory.py\<close>: versions, health snapshots,
    monitoring runs and exceptions with their cursors, retention.
  \<^item> \<open>Canonical_Json\<close>: \<open>core/common/canonical.py\<close>, the text under the digests.
  \<^item> \<open>Wave_Lifecycle\<close>: the commands \<open>approve\<close>, \<open>stage\<close>, \<open>handoff\<close>, \<open>cancel\<close> of
    \<open>api/services/wave_lifecycle_commands.py\<close> with the modules they call, over any repository that
    keeps the contract of \<open>Wave_Repository\<close>.
  \<^item> \<open>Wave_Source_Check\<close>: \<open>core/waves/source_readiness.py\<close> and the source check command: a wave
    judged by the mandates and healths of \<open>Mandate_Repository\<close>, whose lookups are a locale.
  \<^item> \<open>Wave_Creation\<close>: \<open>api/services/wave_create_command.py\<close> with the preview, promotion and
    idempotent save it composes; what a concurrent request writes in between is an argument.
  \<^item> \<open>Wave_Source_Analytics\<close>: \<open>core/waves/source_analytics.py\<close>: the evidence of the alternatives
    of an item and its summary for a wave, with the exceptions of malformed values.
  \<^item> \<open>Wave_Simulation_Item\<close>: \<open>api/services/wave_simulation_item.py\<close>, \<open>wave_simulation.py\<close>:
    one item and a whole wave simulated through the construction service, which is a parameter.
  \<^item> \<open>Wave_Simulation_Service\<close>, \<open>Wave_Simulation_Worker\<close>, \<open>Wave_Simulation_Admission\<close>:
    \<open>api/services/wave_simulation_operations.py\<close> and \<open>wave_inputs/resolution.py\<close>: admission with
    frozen inputs, paging, execution of claims, the worker loop and the reconciliation of the wave with
    the results of its operation.
  \<^item> \<open>Run_Store\<close>: \<open>infrastructure/rebalance_runs/in_memory.py\<close> and \<open>in_memory_helpers.py\<close>: the
    tables of runs, claims, operations, decisions and lineage with their indexes, listings and retention.
  \<^item> \<open>Run_Service\<close>: \<open>core/rebalance_runs/service.py\<close> with \<open>workflow.py\<close>,
    \<open>workflow_projection.py\<close>, \<open>async_operations.py\<close>; \<open>Run_Invariants\<close> has the steps of the
    service as a relation and its invariants, \<open>Run_Properties\<close> the abstract machines of operations and
    of the review workflow.
  \<^item> \<open>Run_Submission\<close>: \<open>api/services/rebalance_sync_execution.py\<close>: a request from the claim of its
    key to the stored or replayed result.

  \<^bold>\<open>State and effects.\<close> The code mutates one diagnostics object and working copies of the
  portfolio; the model passes them explicitly and returns them updated. An exception is a value
  \<open>Inl e\<close>, so every raise is a branch. Random identifiers and clocks are arguments. Dictionaries
  keep insertion order, because the code's loops over them, and so its orders, depend on it.

  \<^bold>\<open>What the lemmas show.\<close> Each component theory ends with the properties of that component:
  valuation and missing data; the exact set of blocking rules; gate routing; what the shelf permits;
  bounds of target weights and of group limits; the tax budget and the lot order; well-formed
  trades; the turnover budget; the exact settlement ladder; funding of deficits; precedence and
  effect of policy packs; the history of waves, their approval and closing; the repository's
  contract; leases, fencing and settling of simulation operations; the score, state and reasons of
  mandate health; order, reading back and paging of the mandate store; that the canonical text
  determines the payload. The lifecycle commands refine an abstract machine of waves and items over
  any store that keeps the contract, change one wave of one tenant and refuse a second writer. The
  source check admits exactly the portfolios whose mandate is ready. A wave is created once per key of
  a tenant, and a simulation is admitted once per key; a simulation in the request and one by a worker
  both settle every item, and a worker that keeps its leases and has an admitted operation to itself
  drains it whatever the construction service does. In every store the run service reaches, mappings,
  history, indexes, artifacts, decisions and the lineage of runs name stored runs of the same tenant;
  lineage of operations and completed claims may outlive what they name, and are not part of that. A key
  is completed once and, while retention is off, replayed; an operation is ended only with the token of
  the attempt that executes; the workflow of a run follows its machine. This theory holds the
  properties that span the engine: what a run that is not blocked guarantees, how status and gate
  agree, coverage of sells, order of execution, which stages can raise.

  \<^bold>\<open>Termination and fuel.\<close> Every loop of the modelled code iterates over a finite collection
  and is a structural recursion or a fold; there is no fuel. The solver's attempts are a finite list.
  A client that follows the cursors of a listing need not stop, so that loop is a
  \<open>partial_function\<close> (\<open>collect_pages\<close>) and is proved to return. Reading all pages of an
  operation (\<open>collect_simulation_items\<close>) ends by a measure on the offset. The optimistic retry of
  reconciliation (\<open>reconcile_loop\<close>) need not end while other writers interfere; it is a
  \<open>partial_function\<close> over an arbitrary interference and returns after the first quiet round. A
  request that waits for another polls until a deadline of the clock; the polls before the deadline are
  a list.

  \<^bold>\<open>Not modelled.\<close> The HTTP layer and its request envelopes; PostgreSQL, SQLite and HTTP
  clients (input and output only); JSON decoding of catalogs; Python's logging and metrics; the
  printing of weights with four digits; scripts and tests. Of the domain services, the
  compilation of mandates from sourced data, outcomes, campaigns, proof packs, portfolio memory,
  construction alternatives and the support bundles of runs are not modelled; they consume results
  of the engine and do not change them. The metrics of a modelled wave leave out the summary of its source
  analytics: \<open>aggregate_wave_items\<close> is total, while the code raises when the diagnostics of an item
  hold malformed analytics. \<open>Wave_Source_Analytics\<close> models that summary and shows that it does not raise
  on what the services write. The artifact of a run and the conversion of results to and from
  JSON (the model library) are parameters of the run service. Floating-point numbers are not part of the JSON values.
\<close>


section \<open>The engine end to end\<close>

definition sample_run :: "ModelPortfolio \<Rightarrow> RebalanceResult result" where
  "sample_run model =
     run_simulation no_solver ''rr_1'' sample_portfolio sample_market model sample_shelf EngineOptions_default
       ''h'' ''c''"

text \<open>The sample run sells A, then buys B with the proceeds.\<close>

lemma sample_run_ready:
  obtains r where "sample_run sample_model = Inr r" "run_status r = READY"
    "map intent_id (result_intents r) = [''oi_1'', ''oi_2'']"
    "map intent_dependencies (result_intents r) = [[], [''oi_1'']]"
    "\<exists>s. result_intents r ! 0 = SecurityTrade s \<and> sti_side s = SELL \<and> sti_quantity s = Some (Dec 50)
          \<and> sti_instrument_id s = ''A''"
    "gate_decision r \<noteq> None"
proof -
  have "case sample_run sample_model of
      Inl _ \<Rightarrow> False
    | Inr r \<Rightarrow> run_status r = READY \<and> map intent_id (result_intents r) = [''oi_1'', ''oi_2'']
        \<and> map intent_dependencies (result_intents r) = [[], [''oi_1'']]
        \<and> (case result_intents r of
              SecurityTrade s # _ \<Rightarrow> sti_side s = SELL \<and> sti_quantity s = Some (Dec 50)
                                      \<and> sti_instrument_id s = ''A''
            | _ \<Rightarrow> False)
        \<and> (case gate_decision r of None \<Rightarrow> False | Some _ \<Rightarrow> True)"
    by code_simp
  then show thesis
    by (cases "sample_run sample_model")
      (auto intro!: that split: list.splits OrderIntent.splits option.splits)
qed

text \<open>
  C1. A run that is not blocked is safe to execute. Executing the reported intents on the input
  portfolio leaves no negative holding and no negative cash account; valuing the outcome gives
  exactly the reported state; that state satisfies every hard rule and its value reconciles with
  the value before within the stated tolerance.
\<close>

theorem not_blocked_run_is_safe:
  assumes "run_simulation cp run_id portfolio md model shelf options rhash corr = Inr r"
    and "run_status r \<noteq> BLOCKED"
  shows "(\<forall>p \<in> set (pf_positions (apply_execution_intents portfolio (result_intents r))). 0 \<le> pos_quantity p)
    \<and> (\<forall>c \<in> set (pf_cash_balances (apply_execution_intents portfolio (result_intents r))). 0 \<le> cash_amount c)
    \<and> (\<exists>dq dq'. build_simulated_state (apply_execution_intents portfolio (result_intents r)) md shelf dq
               (Some (after_simulation_options options)) = (after_simulated r, dq'))
    \<and> hard_rules_hold (after_simulated r) options (diagnostics r)
    \<and> (\<exists>rec. reconciliation r = Some rec \<and> recon_status rec = RECON_OK)"
proof -
  note rep = not_blocked_report(1) [OF assms, unfolded report_ok_def]
  then obtain dq dq' where b: "build_simulated_state (apply_execution_intents portfolio (result_intents r)) md
      shelf dq (Some (after_simulation_options options)) = (after_simulated r, dq')" by blast
  have hard: "hard_rules_hold (after_simulated r) options (diagnostics r)" using rep by blast
  have "0 \<le> pos_quantity p" if "p \<in> set (pf_positions (apply_execution_intents portfolio (result_intents r)))" for p
  proof -
    from that have "pos_quantity p \<in> set (map ps_quantity (ss_positions (after_simulated r)))"
      unfolding build_simulated_state_spec(2) [OF b] by simp
    with hard show ?thesis by (auto simp: hard_rules_hold_def)
  qed
  with rep b hard build_simulated_state_spec(3) [OF b] show ?thesis by (auto simp: hard_rules_hold_def)
qed

theorem not_blocked_run_is_safe_witness:
  "\<exists>r. sample_run sample_model = Inr r
     \<and> (\<forall>p \<in> set (pf_positions (apply_execution_intents sample_portfolio (result_intents r))). 0 \<le> pos_quantity p)"
proof -
  obtain r where r: "sample_run sample_model = Inr r" "run_status r = READY" by (rule sample_run_ready)
  with not_blocked_run_is_safe [OF r(1) [unfolded sample_run_def]] show ?thesis by auto
qed

text \<open>
  C2. The status and the gate agree about blocking. With gates enabled the result carries a gate
  decision, and the gate is blocked exactly when the run is. A \<open>READY\<close> run has no failed hard or
  soft rule, and its gate is \<open>EXECUTION_READY\<close> unless a mandate approval is still missing.
\<close>

theorem gate_agrees_with_status:
  assumes "run_simulation cp run_id portfolio md model shelf options rhash corr = Inr r"
    and "enable_workflow_gates options"
  shows "\<exists>g. gate_decision r = Some g \<and> (gate g = GATE_BLOCKED \<longleftrightarrow> run_status r = BLOCKED)
    \<and> (run_status r = READY \<longrightarrow>
         (\<forall>rule \<in> set (rule_results r). \<not> hard_fail rule \<and> \<not> soft_fail rule)
         \<and> gate g = (if workflow_requires_mandate_approval options \<and> \<not> mandate_approval_already_obtained options
                     then MANDATE_APPROVAL_REQUIRED else EXECUTION_READY))"
proof -
  from result_gate [OF assms(1)] assms(2) obtain g where "Some g = gate_decision r"
    and eval: "evaluate_gate_decision (run_status r) (rule_results r) None (Some (diagnostics r)) options False = Inr g"
    by (auto simp: engine_gate_def bind_result_eq_Inr)
  then have g: "gate_decision r = Some g" by simp
  have clean: "\<not> (\<exists>rule \<in> set (rule_results r). hard_fail rule)" if "run_status r \<noteq> BLOCKED"
    using not_blocked_report(1) [OF assms(1) that] evaluate_hard_fail_iff
    unfolding report_ok_def by metis
  have ready: "\<forall>rule \<in> set (rule_results r). \<not> hard_fail rule \<and> \<not> soft_fail rule" if "run_status r = READY"
    using not_blocked_report(2) [OF assms(1) _ that] that derive_status_cases(2) by auto
  have "gate g = (if workflow_requires_mandate_approval options \<and> \<not> mandate_approval_already_obtained options
                     then MANDATE_APPROVAL_REQUIRED else EXECUTION_READY)" if st: "run_status r = READY"
    using eval ready [OF st] st
    by (auto simp: evaluate_gate_decision_def Let_def select_gate_route_eq rule_reasons_fold
        suitability_reasons_def filter_empty_conv split: if_splits)
  with g evaluate_gate_decision_engine(1) [OF eval] clean ready show ?thesis by auto
qed

theorem gate_agrees_with_status_witness:
  "\<exists>r g. sample_run sample_model = Inr r \<and> gate_decision r = Some g \<and> gate g = EXECUTION_READY"
proof -
  obtain r where r: "sample_run sample_model = Inr r" "run_status r = READY" by (rule sample_run_ready)
  have "enable_workflow_gates EngineOptions_default" by (simp add: EngineOptions_default_def)
  from gate_agrees_with_status [OF r(1) [unfolded sample_run_def] this] r show ?thesis
    by (auto simp: EngineOptions_default_def)
qed

text \<open>
  C6. A blocked run says why: it either proposes no intent at all and leaves the portfolio as it was,
  or one of its rule results is a failed hard rule.
\<close>

theorem blocked_run_explained:
  assumes "run_simulation cp run_id portfolio md model shelf options rhash corr = Inr r"
    and "run_status r = BLOCKED"
  shows "(result_intents r = [] \<and> after_simulated r = result_before r)
    \<or> (\<exists>rule \<in> set (rule_results r). hard_fail rule)"
  using assms(1)
proof (cases rule: run_simulation_cases)
  case blocked
  from make_blocked_result_result [OF this] show ?thesis by simp
next
  case (executed before u t intents tax kept diag4 ex comparison)
  note res = finish_run_result [OF executed(2)]
  have st: "ex_status ex = BLOCKED" using assms(2) res(1) by (simp add: resolve_final_gate_status_iff)
  from executed(1) have "generate_fx_and_simulate portfolio md shelf (map SecurityTrade kept) options
            (amount (ss_total_value before)) diag4 = Inr ex" unfolding executed_run_def by blast
  then show ?thesis
  proof (cases rule: execution_cases)
    case missing_fx
    with res(4) show ?thesis by simp
  next
    case breach
    with res(3) show ?thesis by simp
  next
    case (simulated diag')
    obtain state dq where b: "build_simulated_state (apply_execution_intents portfolio
        (execution_plan portfolio md options (map SecurityTrade kept) diag4)) md shelf
      (data_quality diag') (Some (after_simulation_options options)) = (state, dq)" by fastforce
    from simulate_intents_spec(5) [OF b, of "amount (ss_total_value before)", folded simulated(1)] st res(3)
    show ?thesis by simp
  qed
qed

text \<open>Without market prices the run is blocked by the data-quality policy.\<close>

definition unpriced_run :: "RebalanceResult result" where
  "unpriced_run =
     run_simulation no_solver ''rr_1'' sample_portfolio (sample_market\<lparr>md_prices := []\<rparr>) sample_model sample_shelf
       EngineOptions_default ''h'' ''c''"

theorem blocked_run_explained_witness:
  "\<exists>r. unpriced_run = Inr r \<and> run_status r = BLOCKED
     \<and> ((result_intents r = [] \<and> after_simulated r = result_before r) \<or> (\<exists>rule \<in> set (rule_results r). hard_fail rule))"
proof -
  have "case unpriced_run of Inl _ \<Rightarrow> False | Inr r \<Rightarrow> run_status r = BLOCKED" by code_simp
  then obtain r where r: "unpriced_run = Inr r" "run_status r = BLOCKED" by (auto split: sum.splits)
  with blocked_run_explained [OF r(1) [unfolded unpriced_run_def]] show ?thesis by blast
qed

text \<open>
  C5. Whatever the input and the options are, the only exceptions a run can end with are those of target
  generation, of the comparison of methods and of intent generation: valuation, execution, settlement,
  gate and the construction of the result always succeed. In particular the result is never built from a bare portfolio, which
  would fail validation: a missing rate is caught by the data-quality check before.
\<close>

theorem run_raises_only_from_stages:
  assumes "run_simulation cp run_id portfolio md model shelf options rhash corr = Inl e"
  shows "stages_raise cp portfolio md model shelf options e"
  using assms by (rule run_simulation_raises)

theorem run_raises_only_from_stages_witness:
  "\<exists>e. stages_raise no_solver sample_portfolio
          (sample_market\<lparr>md_prices := [quote ''A'' (Dec 10) ''USD'', quote ''B'' 0 ''USD'']\<rparr>)
          sample_model sample_shelf EngineOptions_default e"
proof -
  let ?md = "sample_market\<lparr>md_prices := [quote ''A'' (Dec 10) ''USD'', quote ''B'' 0 ''USD'']\<rparr>"
  let ?run = "run_simulation no_solver ''rr_1'' sample_portfolio ?md sample_model sample_shelf
                EngineOptions_default ''h'' ''c''"
  have "case ?run of Inl _ \<Rightarrow> True | Inr r \<Rightarrow> False" by code_simp
  then obtain e where e: "?run = Inl e" by (cases ?run) auto
  from run_raises_only_from_stages [OF e] show ?thesis by blast
qed

text \<open>
  C3. Every trade of a result has a positive quantity, and every sell is covered: its quantity is at most
  what the portfolio holds of that instrument, whatever the targets, the options and the turnover limit
  were. With tax awareness this is for portfolios whose quantities and lots are multiples of one power of
  ten with at most 28 digits at that scale, so that adding lots is exact.
\<close>

theorem sells_within_holdings:
  assumes "run_simulation cp run_id portfolio md model shelf options rhash corr = Inr r"
    and "SecurityTrade s \<in> set (result_intents r)"
  shows "\<exists>q. sti_quantity s = Some q \<and> 0 < q
    \<and> (sti_side s = SELL \<longrightarrow> (enable_tax_awareness options \<longrightarrow> portfolio_on_grid k portfolio) \<longrightarrow>
         (\<exists>p \<in> set (pf_positions portfolio). pos_instrument_id p = sti_instrument_id s \<and> q \<le> pos_quantity p))"
proof -
  obtain q where q: "sti_quantity s = Some q" "0 < q"
    using result_trades(1) [OF assms] by (auto simp: trade_priced_def)
  moreover have "\<exists>p \<in> set (pf_positions portfolio). pos_instrument_id p = sti_instrument_id s \<and> q \<le> pos_quantity p"
    if "sti_side s = SELL" "enable_tax_awareness options \<longrightarrow> portfolio_on_grid k portfolio"
  proof -
    have "lots_exact options portfolio" using that(2) by (auto simp: lots_exact_def)
    from result_trades(2) [OF assms this] that(1) q(1) show ?thesis by (auto simp: sell_covered_def)
  qed
  ultimately show ?thesis by blast
qed

theorem sells_within_holdings_witness:
  "\<exists>r s q. sample_run sample_model = Inr r \<and> SecurityTrade s \<in> set (result_intents r) \<and> sti_side s = SELL
     \<and> sti_quantity s = Some q \<and> (\<exists>p \<in> set (pf_positions sample_portfolio). q \<le> pos_quantity p)"
proof -
  obtain r s where r: "sample_run sample_model = Inr r" "map intent_id (result_intents r) = [''oi_1'', ''oi_2'']"
    and s: "result_intents r ! 0 = SecurityTrade s" "sti_side s = SELL"
    using sample_run_ready by metis
  have "length (result_intents r) = 2" using arg_cong [OF r(2), of length] by simp
  then have mem: "SecurityTrade s \<in> set (result_intents r)" using s(1) nth_mem [of 0 "result_intents r"] by simp
  have "enable_tax_awareness EngineOptions_default \<longrightarrow> portfolio_on_grid 0 sample_portfolio"
    by (simp add: EngineOptions_default_def)
  with sells_within_holdings [OF r(1) [unfolded sample_run_def] mem, of 0] r(1) mem s(2) show ?thesis by blast
qed

text \<open>
  C4. The execution order of every result is consistent: every dependency of an intent is the identifier of an
  intent that comes before it in the result.
\<close>

theorem dependencies_execute_first:
  assumes "run_simulation cp run_id portfolio md model shelf options rhash corr = Inr r"
    and "n < length (result_intents r)" and "d \<in> set (intent_dependencies (result_intents r ! n))"
  shows "\<exists>m < n. intent_id (result_intents r ! m) = d"
  using assms by (rule result_dependencies)

theorem dependencies_execute_first_witness:
  "\<exists>r. sample_run sample_model = Inr r \<and> ''oi_1'' \<in> set (intent_dependencies (result_intents r ! 1))
     \<and> (\<exists>m < 1. intent_id (result_intents r ! m) = ''oi_1'')"
proof -
  obtain r where r: "sample_run sample_model = Inr r"
    "map intent_dependencies (result_intents r) = [[], [''oi_1'']]"
    using sample_run_ready by metis
  have len: "length (result_intents r) = 2" using arg_cong [OF r(2), of length] by simp
  then have dep: "''oi_1'' \<in> set (intent_dependencies (result_intents r ! 1))"
    using arg_cong [OF r(2), of "\<lambda>xs. xs ! 1"] by simp
  from dependencies_execute_first [OF r(1) [unfolded sample_run_def] _ dep] len r(1) dep
  show ?thesis by auto
qed

text \<open>
  A model that asks for more than the portfolio is scaled and its run needs a review, but the
  gate is computed from the rules alone: the result has status \<open>PENDING_REVIEW\<close> and at the
  same time a gate that says \<open>EXECUTION_READY\<close> and a summary that says \<open>READY\<close>.
\<close>

theorem pending_review_gate_executes:
  "case sample_run \<lparr> mp_targets = [\<lparr> mt_instrument_id = ''A'', mt_weight = Dec (3 / 4) \<rparr>,
                                  \<lparr> mt_instrument_id = ''B'', mt_weight = Dec (1 / 2) \<rparr>] \<rparr> of
     Inl _ \<Rightarrow> False
   | Inr r \<Rightarrow> run_status r = PENDING_REVIEW \<and> expl_summary (explanation r) = ''READY''
       \<and> (case gate_decision r of None \<Rightarrow> False | Some g \<Rightarrow> gate g = EXECUTION_READY)"
  by code_simp

text \<open>
  A stale market value delivered with a position changes the orders although the valuation mode
  is the default \<open>CALCULATED\<close>: the portfolio already holds its target weight of A at current
  prices, and the run still buys A.
\<close>

theorem stale_market_value_trades:
  "case run_simulation no_solver ''rr_1''
       (sample_portfolio\<lparr>pf_positions := [(holding ''A'' (Dec 100))\<lparr>pos_market_value := Some (usd (Dec 500))\<rparr>]\<rparr>)
       sample_market \<lparr> mp_targets = [\<lparr> mt_instrument_id = ''A'', mt_weight = Dec (1 / 2) \<rparr>] \<rparr>
       sample_shelf EngineOptions_default ''h'' ''c'' of
     Inl _ \<Rightarrow> False
   | Inr r \<Rightarrow> (case result_intents r of
         [SecurityTrade s] \<Rightarrow> sti_side s = BUY \<and> sti_instrument_id s = ''A'' \<and> sti_quantity s = Some (Dec 100)
       | _ \<Rightarrow> False)"
  by code_simp

end
